(* ===== verification/Prelude.thy ===== *)
theory Prelude
  imports Complex_Main "HOL-Library.Signed_Division" "HOL-Library.Word"
begin

text \<open>
  Shared ground of the development: the errors the SDK throws as values of a sum type, sequencing
  of throwing code, JavaScript numbers and bigints as far as the code uses them, and the arithmetic
  lemmas every component needs.

  \<^item> A throwing TypeScript function is a function into \<^theory_text>\<open>'a result\<close>: \<open>Inl\<close> is the thrown error
    object, \<open>Inr\<close> the returned value. Messages built only for display are left out; an error class
    with a \<open>code\<close> field keeps the code.
  \<^item> A \<open>bigint\<close> is an \<^typ>\<open>int\<close>. Its \<open>/\<close> truncates towards zero (\<open>sdiv\<close>) and throws a RangeError on a
    zero divisor (\<open>big_div\<close>); \<open><< k\<close> is \<open>* 2 ^ k\<close> and \<open>>> k\<close> is \<open>div 2 ^ k\<close> (an arithmetic shift).
  \<^item> A \<open>number\<close> is a \<open>jsnum\<close>: NaN, the infinities, or a rational (every finite double is one).
\<close>

section \<open>Errors and results\<close>

datatype js_error =
    DbcMathError string
  | DbcConfigValidationError string
  | LaunchConfigError string
  | LaunchInputError string
  | TradeUnavailableError string
  | AmbiguousLaunchError "8 word list list"
  | RangeError string
  | GenericError string

type_synonym 'a result = "js_error + 'a"

definition bindE :: "'a result \<Rightarrow> ('a \<Rightarrow> 'b result) \<Rightarrow> 'b result" where
  "bindE m f = (case m of Inl e \<Rightarrow> Inl e | Inr x \<Rightarrow> f x)"

text \<open>A check that throws when its condition fails.\<close>

definition check :: "bool \<Rightarrow> js_error \<Rightarrow> unit result" where
  "check c e = (if c then Inr () else Inl e)"

definition returns :: "'a result \<Rightarrow> bool" where
  "returns m \<longleftrightarrow> (\<exists>x. m = Inr x)"

named_theorems result_simps \<open>sequencing of results: introduction and inversion\<close>

lemma bindE_simps [simp]:
  "bindE (Inl e) f = Inl e"
  "bindE (Inr x) f = f x"
  by (simp_all add: bindE_def)

lemma bindE_eq_Inr [result_simps]: "bindE m f = Inr y \<longleftrightarrow> (\<exists>x. m = Inr x \<and> f x = Inr y)"
  by (cases m) simp_all

lemma Inr_eq_bindE [result_simps]: "Inr y = bindE m f \<longleftrightarrow> (\<exists>x. m = Inr x \<and> Inr y = f x)"
  by (cases m) simp_all

lemma bindE_eq_Inl [result_simps]:
  "bindE m f = Inl e \<longleftrightarrow> m = Inl e \<or> (\<exists>x. m = Inr x \<and> f x = Inl e)"
  by (cases m) simp_all

lemma bindE_InrE:
  assumes "bindE m f = Inr y"
  obtains x where "m = Inr x" "f x = Inr y"
  using assms by (auto simp: result_simps)

lemma bindE_InrE2:
  assumes "bindE m (\<lambda>(x, y). f x y) = Inr r"
  obtains x y where "m = Inr (x, y)" "f x y = Inr r"
  using assms by (auto simp: result_simps)

lemma bindE_InrE3:
  assumes "bindE m (\<lambda>(x, y, z). f x y z) = Inr r"
  obtains x y z where "m = Inr (x, y, z)" "f x y z = Inr r"
  using assms by (auto simp: result_simps)

lemma bindE_cong [fundef_cong]:
  "m = m' \<Longrightarrow> (\<And>x. m' = Inr x \<Longrightarrow> f x = g x) \<Longrightarrow> bindE m f = bindE m' g"
  by (cases m') simp_all

lemma bindE_assoc: "bindE (bindE m f) g = bindE m (\<lambda>x. bindE (f x) g)"
  by (cases m) simp_all

lemma check_simps [simp]:
  "check True e = Inr ()"
  "check False e = Inl e"
  by (simp_all add: check_def)

lemma check_eq_Inr [simp]: "check c e = Inr u \<longleftrightarrow> c"
  by (simp add: check_def)

lemma check_eq_Inl [simp]: "check c e = Inl e' \<longleftrightarrow> \<not> c \<and> e' = e"
  by (auto simp: check_def)

lemma bindE_check_eq_Inr [simp]: "bindE (check c e) f = Inr y \<longleftrightarrow> c \<and> f () = Inr y"
  by (simp add: check_def)

lemma if_Inl_eq_Inr [result_simps]:
  "(if c then Inl e else m) = Inr y \<longleftrightarrow> \<not> c \<and> m = Inr y"
  "(if c then m else Inl e) = Inr y \<longleftrightarrow> c \<and> m = Inr y"
  by simp_all

lemma returns_simps [simp]:
  "returns (Inr x)"
  "\<not> returns (Inl e)"
  by (simp_all add: returns_def)

section \<open>Lists of results\<close>

fun mapE :: "('a \<Rightarrow> 'b result) \<Rightarrow> 'a list \<Rightarrow> 'b list result" where
  "mapE f [] = Inr []"
| "mapE f (x # xs) = bindE (f x) (\<lambda>y. bindE (mapE f xs) (\<lambda>ys. Inr (y # ys)))"

lemma mapE_eq_Inr: "mapE f xs = Inr ys \<longleftrightarrow> list_all2 (\<lambda>x y. f x = Inr y) xs ys"
proof (induction xs arbitrary: ys)
  case (Cons x xs)
  then show ?case by (cases ys) (auto simp: result_simps)
qed auto

lemma mapE_total: "\<forall>x \<in> set xs. returns (f x) \<Longrightarrow> returns (mapE f xs)"
proof (induction xs)
  case (Cons x xs)
  then obtain y ys where "f x = Inr y" "mapE f xs = Inr ys" by (auto simp: returns_def)
  then show ?case by simp
qed simp

section \<open>JavaScript numbers\<close>

datatype jsnum = NaN | Infinity | NegInfinity | Fin rat

abbreviation JsInt :: "int \<Rightarrow> jsnum" where
  "JsInt i \<equiv> Fin (of_int i)"

text \<open>\<open>Number.isInteger(n)\<close> together with the integer it is.\<close>

definition as_integer :: "jsnum \<Rightarrow> int option" where
  "as_integer n = (case n of
      Fin q \<Rightarrow> if of_int \<lfloor>q\<rfloor> = q then Some \<lfloor>q\<rfloor> else None
    | _ \<Rightarrow> None)"

definition isFinite :: "jsnum \<Rightarrow> bool" where
  "isFinite n = (case n of Fin q \<Rightarrow> True | _ \<Rightarrow> False)"

lemma as_integer_JsInt [simp]: "as_integer (JsInt i) = Some i"
  by (simp add: as_integer_def)

lemma as_integer_eq_Some [simp]: "as_integer n = Some i \<longleftrightarrow> n = JsInt i"
  by (auto simp: as_integer_def split: jsnum.splits if_splits)

lemma as_integer_numeral [simp]: "as_integer (Fin (numeral k)) = Some (numeral k)"
  by (simp add: as_integer_def)

lemma as_integer_0_1 [simp]:
  "as_integer (Fin 0) = Some 0"
  "as_integer (Fin 1) = Some 1"
  by (simp_all add: as_integer_def)

text \<open>A \<open>number\<close> argument that the code requires to be an integer in \<open>[lo, hi]\<close>.\<close>

definition integer_in :: "int \<Rightarrow> int \<Rightarrow> jsnum \<Rightarrow> js_error \<Rightarrow> int result" where
  "integer_in lo hi n e = (case as_integer n of
      None \<Rightarrow> Inl e
    | Some i \<Rightarrow> if i < lo \<or> i > hi then Inl e else Inr i)"

lemma integer_in_eq_Inr [simp]:
  "integer_in lo hi n e = Inr i \<longleftrightarrow> n = JsInt i \<and> lo \<le> i \<and> i \<le> hi"
  by (auto simp: integer_in_def split: option.splits)

lemma integer_in_JsInt [simp]:
  "integer_in lo hi (JsInt i) e = (if i < lo \<or> i > hi then Inl e else Inr i)"
  by (simp add: integer_in_def)

lemma integer_in_numeral [simp]:
  "integer_in lo hi (Fin (numeral k)) e =
     (if numeral k < lo \<or> numeral k > hi then Inl e else Inr (numeral k))"
  by (simp add: integer_in_def)

section \<open>Bigint arithmetic\<close>

definition big_div :: "int \<Rightarrow> int \<Rightarrow> int result" where
  "big_div a b = (if b = 0 then Inl (RangeError ''Division by zero'') else Inr (a sdiv b))"

lemma sdiv_eq_div [simp]: "0 \<le> a \<Longrightarrow> 0 \<le> b \<Longrightarrow> a sdiv b = a div b" for a b :: int
  by (simp add: signed_divide_int_def sgn_if)

lemma smod_eq_mod [simp]: "0 \<le> a \<Longrightarrow> 0 \<le> b \<Longrightarrow> a smod b = a mod b" for a b :: int
  by (simp add: signed_modulo_int_def sgn_if)

lemma big_div_pos [simp]: "0 \<le> a \<Longrightarrow> 0 < b \<Longrightarrow> big_div a b = Inr (a div b)"
  by (simp add: big_div_def)

text \<open>Ceiling and floor division by their bounds.\<close>

lemma ceil_div_bounds:
  fixes n d :: int
  assumes "0 < d"
  shows "n \<le> ((n + d - 1) div d) * d" and "((n + d - 1) div d - 1) * d < n"
proof -
  let ?q = "(n + d - 1) div d" and ?r = "(n + d - 1) mod d"
  have eq: "n + d - 1 = ?q * d + ?r" by simp
  have r: "0 \<le> ?r" "?r < d" using assms by simp_all
  from eq r show "n \<le> ?q * d" by linarith
  from eq r have "?q * d - d < n" by linarith
  then show "(?q - 1) * d < n" by (simp add: left_diff_distrib)
qed

lemma floor_div_bounds:
  fixes n d :: int
  assumes "0 < d"
  shows "(n div d) * d \<le> n" and "n < (n div d + 1) * d"
proof -
  have eq: "n = (n div d) * d + n mod d" by simp
  have r: "0 \<le> n mod d" "n mod d < d" using assms by simp_all
  from eq r show "(n div d) * d \<le> n" by linarith
  from eq r have "n < (n div d) * d + d" by linarith
  then show "n < (n div d + 1) * d" by (simp add: distrib_right)
qed

text \<open>Quotients characterised by their bounds: the workhorse for every rounding argument.\<close>

lemma floor_div_unique:
  fixes n d q :: int
  assumes "0 < d" "q * d \<le> n" "n < (q + 1) * d"
  shows "n div d = q"
  using assms by (intro int_div_pos_eq [where r = "n - d * q"]) (simp_all add: algebra_simps)

lemma ceil_div_unique:
  fixes n d q :: int
  assumes "0 < d" "n \<le> q * d" "(q - 1) * d < n"
  shows "(n + d - 1) div d = q"
  using assms by (intro floor_div_unique) (simp_all add: algebra_simps)

lemma ceil_div_le_iff: "0 < d \<Longrightarrow> (n + d - 1) div d \<le> q \<longleftrightarrow> n \<le> q * d" for n d q :: int
proof
  assume d: "0 < d" and le: "(n + d - 1) div d \<le> q"
  have "n \<le> ((n + d - 1) div d) * d" by (rule ceil_div_bounds [OF d])
  also have "\<dots> \<le> q * d" using le d by simp
  finally show "n \<le> q * d" .
next
  assume d: "0 < d" and le: "n \<le> q * d"
  show "(n + d - 1) div d \<le> q"
  proof (rule ccontr)
    assume "\<not> ?thesis"
    then have "q * d \<le> ((n + d - 1) div d - 1) * d" using d by simp
    with ceil_div_bounds(2) [OF d, of n] le show False by simp
  qed
qed

lemma le_floor_div_iff: "0 < d \<Longrightarrow> q \<le> n div d \<longleftrightarrow> q * d \<le> n" for n d q :: int
proof
  assume d: "0 < d" and le: "q \<le> n div d"
  have "q * d \<le> (n div d) * d" using le d by simp
  also have "\<dots> \<le> n" by (rule floor_div_bounds [OF d])
  finally show "q * d \<le> n" .
next
  assume d: "0 < d" and le: "q * d \<le> n"
  show "q \<le> n div d"
  proof (rule ccontr)
    assume "\<not> ?thesis"
    then have "(n div d + 1) * d \<le> q * d" using d by simp
    with floor_div_bounds(2) [OF d, of n] le show False by simp
  qed
qed

end
