(* ===== verification/Constants.thy ===== *)
theory Constants
  imports Prelude
begin

text \<open>
  \<^verbatim>\<open>packages/sdk/src/dbc/constants.ts\<close>: the constants of the Meteora DBC program the SDK ports. The
  bounds (\<open>U64_MAX\<close>, \<open>U128_MAX\<close>, the sqrt price range) are unfolded only on request, through
  the collection \<open>bounds_defs\<close>; the small constants and the enum codes unfold by themselves.
\<close>

named_theorems bounds_defs \<open>the numeric values of the width and price bounds\<close>

definition U8_MAX :: int where [bounds_defs]: "U8_MAX = 255"
definition U16_MAX :: int where [bounds_defs]: "U16_MAX = 65535"
definition U24_MAX :: int where [bounds_defs]: "U24_MAX = 16777215"
definition U32_MAX :: int where [bounds_defs]: "U32_MAX = 4294967295"
definition U64_MAX :: int where [bounds_defs]: "U64_MAX = 2 ^ 64 - 1"
definition U128_MAX :: int where [bounds_defs]: "U128_MAX = 2 ^ 128 - 1"

definition RESOLUTION :: nat where [simp]: "RESOLUTION = 64"
definition ONE_Q64 :: int where [bounds_defs]: "ONE_Q64 = 2 ^ 64"

definition MIN_SQRT_PRICE :: int where [bounds_defs]: "MIN_SQRT_PRICE = 4295048016"
definition MAX_SQRT_PRICE :: int where [bounds_defs]: "MAX_SQRT_PRICE = 79226673521066979257578248091"

definition BASIS_POINT_MAX :: int where [simp]: "BASIS_POINT_MAX = 10000"
definition MAX_CURVE_POINT :: nat where [simp]: "MAX_CURVE_POINT = 16"

definition FEE_DENOMINATOR :: int where [simp]: "FEE_DENOMINATOR = 1000000000"
definition MAX_FEE_NUMERATOR :: int where [simp]: "MAX_FEE_NUMERATOR = 990000000"
definition MIN_FEE_NUMERATOR :: int where [simp]: "MIN_FEE_NUMERATOR = 2500000"

definition MAX_MIGRATION_FEE_PERCENTAGE :: int where [simp]: "MAX_MIGRATION_FEE_PERCENTAGE = 99"
definition MIN_MIGRATED_POOL_FEE_BPS :: int where [simp]: "MIN_MIGRATED_POOL_FEE_BPS = 10"
definition MAX_MIGRATED_POOL_FEE_BPS :: int where [simp]: "MAX_MIGRATED_POOL_FEE_BPS = 1000"

definition MIN_POOL_CREATION_FEE :: int where [simp]: "MIN_POOL_CREATION_FEE = 1000000"
definition MAX_POOL_CREATION_FEE :: int where [simp]: "MAX_POOL_CREATION_FEE = 100000000000"

definition MIN_LOCKED_LIQUIDITY_BPS :: int where [simp]: "MIN_LOCKED_LIQUIDITY_BPS = 1000"
definition SWAP_BUFFER_PERCENTAGE :: int where [simp]: "SWAP_BUFFER_PERCENTAGE = 25"
definition PROTOCOL_LIQUIDITY_MIGRATION_FEE_BPS :: int where
  [simp]: "PROTOCOL_LIQUIDITY_MIGRATION_FEE_BPS = 20"

definition BIN_STEP_BPS_DEFAULT :: int where [simp]: "BIN_STEP_BPS_DEFAULT = 1"
definition BIN_STEP_BPS_U128_DEFAULT :: int where [simp]: "BIN_STEP_BPS_U128_DEFAULT = 1844674407370955"

definition DAMM_V2_MAX_BASIS_POINT :: int where [simp]: "DAMM_V2_MAX_BASIS_POINT = 10000"
definition DAMM_V2_COMPOUNDING_DEAD_LIQUIDITY :: int where
  [simp]: "DAMM_V2_COMPOUNDING_DEAD_LIQUIDITY = 100 * 2 ^ 64"

section \<open>Enum codes\<close>

definition FeeSchedulerLinear :: int where [simp]: "FeeSchedulerLinear = 0"
definition FeeSchedulerExponential :: int where [simp]: "FeeSchedulerExponential = 1"
definition RateLimiter :: int where [simp]: "RateLimiter = 2"

definition CollectFeeMode_QuoteToken :: int where [simp]: "CollectFeeMode_QuoteToken = 0"
definition CollectFeeMode_OutputToken :: int where [simp]: "CollectFeeMode_OutputToken = 1"

definition Migrated_QuoteToken :: int where [simp]: "Migrated_QuoteToken = 0"
definition Migrated_OutputToken :: int where [simp]: "Migrated_OutputToken = 1"
definition Migrated_Compounding :: int where [simp]: "Migrated_Compounding = 2"

definition MigrationOption_MeteoraDamm :: int where [simp]: "MigrationOption_MeteoraDamm = 0"
definition MigrationOption_DammV2 :: int where [simp]: "MigrationOption_DammV2 = 1"

definition MigrationFeeOption_Customizable :: int where [simp]: "MigrationFeeOption_Customizable = 6"

definition TokenType_SplToken :: int where [simp]: "TokenType_SplToken = 0"
definition TokenType_Token2022 :: int where [simp]: "TokenType_Token2022 = 1"

definition TokenAuthority_Immutable :: int where [simp]: "TokenAuthority_Immutable = 1"
definition TokenAuthority_CreatorUpdateAndMint :: int where
  [simp]: "TokenAuthority_CreatorUpdateAndMint = 3"
definition TokenAuthority_PartnerUpdateAndMint :: int where
  [simp]: "TokenAuthority_PartnerUpdateAndMint = 4"

definition ActivationType_Slot :: int where [simp]: "ActivationType_Slot = 0"
definition ActivationType_Timestamp :: int where [simp]: "ActivationType_Timestamp = 1"

definition Damm_FeeTimeSchedulerLinear :: int where [simp]: "Damm_FeeTimeSchedulerLinear = 0"
definition Damm_FeeTimeSchedulerExponential :: int where
  [simp]: "Damm_FeeTimeSchedulerExponential = 1"
definition Damm_RateLimiter :: int where [simp]: "Damm_RateLimiter = 2"
definition Damm_FeeMarketCapSchedulerLinear :: int where
  [simp]: "Damm_FeeMarketCapSchedulerLinear = 3"
definition Damm_FeeMarketCapSchedulerExponential :: int where
  [simp]: "Damm_FeeMarketCapSchedulerExponential = 4"

section \<open>Facts about the bounds\<close>

lemma bounds_nonneg [simp]: "0 \<le> U64_MAX" "0 \<le> U128_MAX" "0 < ONE_Q64" "0 < MIN_SQRT_PRICE"
  "0 < MAX_SQRT_PRICE" "0 < U64_MAX" "0 < U128_MAX"
  by (simp_all add: bounds_defs)

lemma MIN_less_MAX_SQRT_PRICE [simp]: "MIN_SQRT_PRICE < MAX_SQRT_PRICE"
  by (simp add: bounds_defs)

lemma U64_less_U128 [simp]: "U64_MAX < U128_MAX"
  by (simp add: bounds_defs)

lemma MAX_SQRT_PRICE_less_U128 [simp]: "MAX_SQRT_PRICE < U128_MAX"
  by (simp add: bounds_defs)

end
