(* ===== verification/CurveMath.thy ===== *)
theory CurveMath
  imports Constants
begin

text \<open>
  \<^verbatim>\<open>packages/sdk/src/dbc/curveMath.ts\<close>: the bigint port of the DBC curve math. Prices are Q64.64 sqrt
  prices, liquidity is scaled by \<open>2 ^ 64\<close>. Every function is modelled with its error branches.
  The lemmas: exactness of the rounding of \<open>mulDiv\<close> and of the integer square root (including that its
  Newton loop stops), additivity of the two amount formulas over adjacent price ranges, the migration
  threshold price (it is reached by exactly the threshold, up to rounding, and the walk fails only when
  the curve is too short), the migration fee split, and bounds of the fixed-point power.
\<close>

section \<open>Data and range checks\<close>

record curve_point =
  cp_sqrtPrice :: int
  cp_liquidity :: int

definition assertU64 :: "int \<Rightarrow> int result" where
  "assertU64 value = (if value < 0 \<or> value > U64_MAX then Inl (DbcMathError ''MathOverflow'') else Inr value)"

definition assertU128 :: "int \<Rightarrow> int result" where
  "assertU128 value = (if value < 0 \<or> value > U128_MAX then Inl (DbcMathError ''MathOverflow'') else Inr value)"

lemma assertU64_eq_Inr [simp]: "assertU64 v = Inr w \<longleftrightarrow> w = v \<and> 0 \<le> v \<and> v \<le> U64_MAX"
  by (auto simp: assertU64_def)

lemma assertU128_eq_Inr [simp]: "assertU128 v = Inr w \<longleftrightarrow> w = v \<and> 0 \<le> v \<and> v \<le> U128_MAX"
  by (auto simp: assertU128_def)

lemma assertU64_in [simp]: "0 \<le> v \<Longrightarrow> v \<le> U64_MAX \<Longrightarrow> assertU64 v = Inr v"
  by (simp add: assertU64_def)

lemma assertU128_in [simp]: "0 \<le> v \<Longrightarrow> v \<le> U128_MAX \<Longrightarrow> assertU128 v = Inr v"
  by (simp add: assertU128_def)

section \<open>Rounded division and the integer square root\<close>

definition mulDiv :: "int \<Rightarrow> int \<Rightarrow> int \<Rightarrow> bool \<Rightarrow> int result" where
  "mulDiv x y denominator roundUp =
     (if denominator = 0 then Inl (DbcMathError ''MathOverflow'')
      else let prod = x * y; q = prod sdiv denominator
           in Inr (if roundUp \<and> q * denominator \<noteq> prod then q + 1 else q))"

definition divCeil :: "int \<Rightarrow> int \<Rightarrow> int result" where
  "divCeil a b = (if b = 0 then Inl (DbcMathError ''MathOverflow'') else Inr ((a + b - 1) sdiv b))"

text \<open>\<open>n.toString(2).length\<close> for a positive \<open>n\<close>.\<close>

fun binary_digits :: "nat \<Rightarrow> nat" where
  "binary_digits n = (if n < 2 then 1 else Suc (binary_digits (n div 2)))"

declare binary_digits.simps [simp del]

text \<open>
  The Newton loop of \<open>isqrt\<close>. Its variables are never negative where it is called, so it runs on
  naturals; \<open>n / x\<close> throws when \<open>x\<close> is zero.
\<close>

function isqrt_loop :: "nat \<Rightarrow> nat \<Rightarrow> int result" where
  "isqrt_loop n x =
     (if x = 0 then Inl (RangeError ''Division by zero'')
      else let y = (x + n div x) div 2
           in if y \<ge> x then Inr (int x) else isqrt_loop n y)"
  by pat_completeness auto
termination
  by (relation "measure snd") auto

declare isqrt_loop.simps [simp del]

definition isqrt :: "int \<Rightarrow> int result" where
  "isqrt n =
     (if n < 0 then Inl (RangeError ''isqrt of a negative number'')
      else if n < 2 then Inr n
      else isqrt_loop (nat n) (2 ^ ((binary_digits (nat n) + 1) div 2)))"

section \<open>Amounts between two prices\<close>

definition getDeltaAmountBase :: "int \<Rightarrow> int \<Rightarrow> int \<Rightarrow> bool \<Rightarrow> int result" where
  "getDeltaAmountBase lower upper liquidity roundUp =
     (if upper < lower then Inl (DbcMathError ''MathOverflow'')
      else let denominator = lower * upper
           in if denominator \<le> 0 then Inl (DbcMathError ''MathOverflow'')
              else mulDiv liquidity (upper - lower) denominator roundUp)"

definition getDeltaAmountQuote :: "int \<Rightarrow> int \<Rightarrow> int \<Rightarrow> bool \<Rightarrow> int result" where
  "getDeltaAmountQuote lower upper liquidity roundUp =
     (if upper < lower then Inl (DbcMathError ''MathOverflow'')
      else let prod = liquidity * (upper - lower)
           in if roundUp then divCeil prod (2 ^ (RESOLUTION * 2))
              else Inr (prod div 2 ^ (RESOLUTION * 2)))"

definition getNextSqrtPriceFromQuoteAmountIn :: "int \<Rightarrow> int \<Rightarrow> int \<Rightarrow> int result" where
  "getNextSqrtPriceFromQuoteAmountIn sqrtPrice liquidity amountIn =
     (if liquidity \<le> 0 then Inl (DbcMathError ''MathOverflow'')
      else let next = sqrtPrice + (amountIn * 2 ^ (RESOLUTION * 2)) sdiv liquidity
           in if next > U128_MAX then Inl (DbcMathError ''TypeCastFailed'') else Inr next)"

section \<open>Walking the curve\<close>

text \<open>
  The loop of \<open>getMigrationThresholdPrice\<close> over the points after the first: the amount left and the
  price reached.
\<close>

fun thresholdLoop :: "curve_point list \<Rightarrow> int \<Rightarrow> int \<Rightarrow> (int \<times> int) result" where
  "thresholdLoop [] amountLeft nextSqrtPrice = Inr (amountLeft, nextSqrtPrice)"
| "thresholdLoop (point # rest) amountLeft nextSqrtPrice =
     bindE (getDeltaAmountQuote nextSqrtPrice (cp_sqrtPrice point) (cp_liquidity point) True)
       (\<lambda>maxAmount.
         if maxAmount > amountLeft
         then bindE (getNextSqrtPriceFromQuoteAmountIn nextSqrtPrice (cp_liquidity point) amountLeft)
                (\<lambda>next. Inr (0, next))
         else bindE (assertU64 maxAmount)
                (\<lambda>_. thresholdLoop rest (amountLeft - maxAmount) (cp_sqrtPrice point)))"

definition getMigrationThresholdPrice :: "int \<Rightarrow> int \<Rightarrow> curve_point list \<Rightarrow> int result" where
  "getMigrationThresholdPrice migrationThreshold sqrtStartPrice curve =
     (case curve of
        [] \<Rightarrow> Inl (DbcMathError ''InvalidCurve'')
      | first # rest \<Rightarrow>
          bindE (getDeltaAmountQuote sqrtStartPrice (cp_sqrtPrice first) (cp_liquidity first) True)
            (\<lambda>totalAmount.
              if totalAmount > migrationThreshold
              then getNextSqrtPriceFromQuoteAmountIn sqrtStartPrice (cp_liquidity first) migrationThreshold
              else bindE (thresholdLoop rest (migrationThreshold - totalAmount) (cp_sqrtPrice first))
                     (\<lambda>(amountLeft, nextSqrtPrice).
                       if amountLeft \<noteq> 0 then Inl (DbcMathError ''NotEnoughLiquidity'')
                       else Inr nextSqrtPrice)))"

text \<open>The loop of \<open>getBaseTokenForSwap\<close>; \<open>lower\<close> is the start price, then the previous point's price.\<close>

fun baseForSwapLoop :: "int \<Rightarrow> int \<Rightarrow> curve_point list \<Rightarrow> int \<Rightarrow> int result" where
  "baseForSwapLoop lower sqrtMigrationPrice [] acc = Inr acc"
| "baseForSwapLoop lower sqrtMigrationPrice (point # rest) acc =
     (if cp_sqrtPrice point > sqrtMigrationPrice
      then bindE (getDeltaAmountBase lower sqrtMigrationPrice (cp_liquidity point) True)
             (\<lambda>d. Inr (acc + d))
      else bindE (getDeltaAmountBase lower (cp_sqrtPrice point) (cp_liquidity point) True)
             (\<lambda>d. baseForSwapLoop (cp_sqrtPrice point) sqrtMigrationPrice rest (acc + d)))"

definition getBaseTokenForSwap :: "int \<Rightarrow> int \<Rightarrow> curve_point list \<Rightarrow> int result" where
  "getBaseTokenForSwap sqrtStartPrice sqrtMigrationPrice curve =
     baseForSwapLoop sqrtStartPrice sqrtMigrationPrice curve 0"

section \<open>Migration amounts\<close>

record migration_quote =
  mq_quoteAmount :: int
  mq_fee :: int

definition getMigrationQuoteAmount :: "int \<Rightarrow> int \<Rightarrow> migration_quote result" where
  "getMigrationQuoteAmount migrationQuoteThreshold migrationFeePercentage =
     bindE (mulDiv migrationQuoteThreshold (100 - migrationFeePercentage) 100 True) (\<lambda>v.
     bindE (assertU64 v) (\<lambda>quoteAmount.
       Inr \<lparr>mq_quoteAmount = quoteAmount, mq_fee = migrationQuoteThreshold - quoteAmount\<rparr>))"

record migration_fee_distribution =
  mf_partner :: int
  mf_creator :: int

definition getMigrationFeeDistribution :: "int \<Rightarrow> int \<Rightarrow> int \<Rightarrow> migration_fee_distribution result" where
  "getMigrationFeeDistribution migrationQuoteThreshold migrationFeePercentage creatorMigrationFeePercentage =
     bindE (getMigrationQuoteAmount migrationQuoteThreshold migrationFeePercentage) (\<lambda>q.
     bindE (mulDiv (mq_fee q) creatorMigrationFeePercentage 100 False) (\<lambda>creatorMigrationFee.
       Inr \<lparr>mf_partner = mq_fee q - creatorMigrationFee, mf_creator = creatorMigrationFee\<rparr>))"

definition getInitialLiquidityFromDeltaQuote :: "int \<Rightarrow> int \<Rightarrow> int \<Rightarrow> int result" where
  "getInitialLiquidityFromDeltaQuote quoteAmount sqrtMinPrice sqrtPrice =
     (if sqrtPrice < sqrtMinPrice then Inl (DbcMathError ''MathOverflow'')
      else let delta = sqrtPrice - sqrtMinPrice
           in if delta = 0 then Inl (DbcMathError ''MathOverflow'')
              else let liquidity = (quoteAmount * 2 ^ 128) sdiv delta
                   in if liquidity > U128_MAX then Inl (DbcMathError ''TypeCastFailed'')
                      else Inr liquidity)"

definition getConcentratedMigrationBaseAmount :: "int \<Rightarrow> int \<Rightarrow> int result" where
  "getConcentratedMigrationBaseAmount quoteAmount sqrtMigrationPrice =
     bindE (getInitialLiquidityFromDeltaQuote quoteAmount MIN_SQRT_PRICE sqrtMigrationPrice) (\<lambda>liquidity.
     bindE (getDeltaAmountBase sqrtMigrationPrice MAX_SQRT_PRICE liquidity True) assertU64)"

definition getConstantProductBaseFromQuote :: "int \<Rightarrow> int \<Rightarrow> int result" where
  "getConstantProductBaseFromQuote quoteAmount sqrtMigrationPrice =
     (let price = sqrtMigrationPrice * sqrtMigrationPrice
      in bindE (divCeil (quoteAmount * 2 ^ 128) price) assertU64)"

record compounding_info =
  ci_sqrtPrice :: int
  ci_liquidity :: int

definition calculateCompoundingInitialSqrtPriceAndLiquidity ::
  "int \<Rightarrow> int \<Rightarrow> compounding_info option result" where
  "calculateCompoundingInitialSqrtPriceAndLiquidity tokenAAmount tokenBAmount =
     (if tokenAAmount = 0 then Inr None
      else bindE (bindE (divCeil (tokenBAmount * 2 ^ 128) tokenAAmount) isqrt) (\<lambda>sqrtPrice1.
        if sqrtPrice1 > U128_MAX \<or> sqrtPrice1 < MIN_SQRT_PRICE \<or> sqrtPrice1 > MAX_SQRT_PRICE
        then Inr None
        else bindE (isqrt ((tokenBAmount * 2 ^ 128) sdiv tokenAAmount)) (\<lambda>sqrtPrice2.
          let liquidity = sqrtPrice2 * tokenAAmount
          in if liquidity > U128_MAX then Inr None
             else Inr (Some \<lparr>ci_sqrtPrice = sqrtPrice1, ci_liquidity = liquidity\<rparr>))))"

record protocol_migration_fees =
  pf_baseFee :: int
  pf_quoteFee :: int

definition getConcentratedProtocolMigrationFees ::
  "int \<Rightarrow> int \<Rightarrow> int \<Rightarrow> protocol_migration_fees result" where
  "getConcentratedProtocolMigrationFees depositQuoteAmount sqrtMigrationPrice migrationFeeBps =
     bindE (mulDiv depositQuoteAmount migrationFeeBps BASIS_POINT_MAX False) (\<lambda>quoteFee.
     bindE (getInitialLiquidityFromDeltaQuote quoteFee MIN_SQRT_PRICE sqrtMigrationPrice) (\<lambda>feeLiquidity.
     bindE (getDeltaAmountBase sqrtMigrationPrice MAX_SQRT_PRICE feeLiquidity False) (\<lambda>b.
     bindE (assertU64 b) (\<lambda>baseFee.
       Inr \<lparr>pf_baseFee = baseFee, pf_quoteFee = quoteFee\<rparr>))))"

definition getSwapAmountWithBuffer :: "int \<Rightarrow> int \<Rightarrow> curve_point list \<Rightarrow> int result" where
  "getSwapAmountWithBuffer swapBaseAmount sqrtStartPrice curve =
     (let buffered = swapBaseAmount + (swapBaseAmount * SWAP_BUFFER_PERCENTAGE) sdiv 100
      in bindE (getBaseTokenForSwap sqrtStartPrice MAX_SQRT_PRICE curve) (\<lambda>maxOnCurve.
           assertU64 (if buffered < maxOnCurve then buffered else maxOnCurve)))"

section \<open>Fixed-point power and the fee of a period\<close>

text \<open>The inner \<open>mul\<close> of \<open>powQ64\<close>.\<close>

definition mulQ64 :: "int \<Rightarrow> int \<Rightarrow> int option" where
  "mulQ64 a b = (let p = a * b in if p > U128_MAX then None else Some (p div 2 ^ 64))"

text \<open>The loop of \<open>powQ64\<close> over the bits listed; \<open>e & (1 << bit)\<close> is the parity of \<open>e div 2 ^ bit\<close>.\<close>

fun powLoop :: "nat list \<Rightarrow> int \<Rightarrow> int \<Rightarrow> int \<Rightarrow> int option" where
  "powLoop [] e squaredBase result = Some result"
| "powLoop (b # bits) e squaredBase result =
     (case (if b > 0 then mulQ64 squaredBase squaredBase else Some squaredBase) of
        None \<Rightarrow> None
      | Some squaredBase' \<Rightarrow>
          (if odd (e div 2 ^ b)
           then (case mulQ64 result squaredBase' of
                   None \<Rightarrow> None
                 | Some result' \<Rightarrow> powLoop bits e squaredBase' result')
           else powLoop bits e squaredBase' result))"

definition powQ64 :: "int \<Rightarrow> jsnum \<Rightarrow> int option" where
  "powQ64 base expo =
     (case as_integer expo of
        None \<Rightarrow> None
      | Some ex \<Rightarrow>
         if ex = -2147483648 then None
         else if ex = 0 then Some ONE_Q64
         else if \<bar>ex\<bar> \<ge> 524288 then None
         else let invert0 = ex < 0;
                  squaredBase = (if base \<ge> ONE_Q64 then U128_MAX sdiv base else base);
                  invert = (if base \<ge> ONE_Q64 then \<not> invert0 else invert0)
              in case powLoop [0..<19] \<bar>ex\<bar> squaredBase ONE_Q64 of
                   None \<Rightarrow> None
                 | Some result \<Rightarrow>
                     if result = 0 then None
                     else Some (if invert then U128_MAX sdiv result else result))"

definition getFeeInPeriod :: "int \<Rightarrow> int \<Rightarrow> jsnum \<Rightarrow> int result" where
  "getFeeInPeriod cliffFeeNumerator reductionFactor passedPeriod =
     (let bps = (reductionFactor * 2 ^ 64) sdiv BASIS_POINT_MAX
      in if bps > ONE_Q64 then Inl (DbcMathError ''MathOverflow'')
         else let base = ONE_Q64 - bps
              in case powQ64 base passedPeriod of
                   None \<Rightarrow> Inl (DbcMathError ''MathOverflow'')
                 | Some result \<Rightarrow>
                     let product = result * cliffFeeNumerator
                     in if product > U128_MAX then Inl (DbcMathError ''MathOverflow'')
                        else assertU64 (product div 2 ^ 64))"

section \<open>Rounded division: the contract shared by every fee and amount\<close>

text \<open>
  What a caller of \<open>x * y / d\<close> relies on: rounding is exact in the direction asked for. The locale is
  interpreted for \<open>mulDiv\<close> here and for the u64-checked variants of both swap ports.
\<close>

locale rounded_division =
  fixes md :: "int \<Rightarrow> int \<Rightarrow> int \<Rightarrow> bool \<Rightarrow> int result"
  assumes down: "0 \<le> x \<Longrightarrow> 0 \<le> y \<Longrightarrow> 0 < d \<Longrightarrow> md x y d False = Inr q \<Longrightarrow> q = x * y div d"
    and up: "0 \<le> x \<Longrightarrow> 0 \<le> y \<Longrightarrow> 0 < d \<Longrightarrow> md x y d True = Inr q \<Longrightarrow> q = (x * y + d - 1) div d"
begin

lemma floor_bounds:
  assumes "0 \<le> x" "0 \<le> y" "0 < d" "md x y d False = Inr q"
  shows "q * d \<le> x * y" "x * y < (q + 1) * d"
  using down [OF assms] floor_div_bounds [OF assms(3), of "x * y"] by simp_all

lemma ceiling_bounds:
  assumes "0 \<le> x" "0 \<le> y" "0 < d" "md x y d True = Inr q"
  shows "x * y \<le> q * d" "(q - 1) * d < x * y"
  using up [OF assms] ceil_div_bounds [OF assms(3), of "x * y"] by simp_all

lemma nonneg:
  assumes "0 \<le> x" "0 \<le> y" "0 < d" "md x y d u = Inr q"
  shows "0 \<le> q"
proof -
  have xy: "0 \<le> x * y" using assms by simp
  show ?thesis
  proof (cases u)
    case True
    with up [OF assms(1-3)] assms(4) have "q = (x * y + d - 1) div d" by simp
    with xy assms(3) show ?thesis by (simp add: le_floor_div_iff)
  next
    case False
    with down [OF assms(1-3)] assms(4) have "q = x * y div d" by simp
    with xy assms(3) show ?thesis by (simp add: le_floor_div_iff)
  qed
qed

text \<open>A share \<open>y / d\<close> of at most one never exceeds the amount, whichever way it is rounded.\<close>

lemma share_le:
  assumes "0 \<le> x" "0 \<le> y" "0 < d" "y \<le> d" "md x y d u = Inr q"
  shows "q \<le> x"
proof -
  have xy: "x * y \<le> x * d" using assms by (simp add: mult_left_mono)
  show ?thesis
  proof (cases u)
    case True
    with up [OF assms(1-3)] assms(5) have "q = (x * y + d - 1) div d" by simp
    with xy assms(3) show ?thesis by (simp add: ceil_div_le_iff)
  next
    case False
    with down [OF assms(1-3)] assms(5) have "q = x * y div d" by simp
    with floor_div_bounds(1) [OF assms(3), of "x * y"] have "q * d \<le> x * y" by simp
    with xy have "q * d \<le> x * d" by linarith
    with assms(3) show ?thesis by simp
  qed
qed

end

lemma mulDiv_down: "0 \<le> x \<Longrightarrow> 0 \<le> y \<Longrightarrow> 0 < d \<Longrightarrow> mulDiv x y d False = Inr (x * y div d)"
  by (simp add: mulDiv_def)

lemma mulDiv_up:
  assumes "0 \<le> x" "0 \<le> y" "0 < d"
  shows "mulDiv x y d True = Inr ((x * y + d - 1) div d)"
proof (cases "d dvd x * y")
  case True
  then obtain k where k: "x * y = d * k" by (rule dvdE)
  have "(x * y + d - 1) div d = k"
    by (rule ceil_div_unique) (use assms k in \<open>simp_all add: algebra_simps\<close>)
  moreover have "x * y sdiv d = k"
  proof -
    have "x * y sdiv d = x * y div d" using assms by simp
    with assms(3) k show ?thesis by simp
  qed
  ultimately show ?thesis using assms(3) k by (simp add: mulDiv_def Let_def mult.commute)
next
  case False
  then have ne: "(x * y div d) * d \<noteq> x * y" by (metis dvd_triv_right)
  have "(x * y + d - 1) div d = x * y div d + 1"
  proof (rule ceil_div_unique)
    show "x * y \<le> (x * y div d + 1) * d" using floor_div_bounds(2) [OF assms(3), of "x * y"] by simp
    show "(x * y div d + 1 - 1) * d < x * y"
      using floor_div_bounds(1) [OF assms(3), of "x * y"] ne by simp
  qed (use assms in simp)
  with assms ne show ?thesis by (simp add: mulDiv_def)
qed

lemma divCeil_eq: "0 \<le> a \<Longrightarrow> 0 < b \<Longrightarrow> divCeil a b = Inr ((a + b - 1) div b)"
  by (simp add: divCeil_def)

interpretation mulDiv: rounded_division mulDiv
  by unfold_locales (simp_all add: mulDiv_down mulDiv_up)

section \<open>The integer square root\<close>

text \<open>One Newton step from any positive guess lands at or above the root.\<close>

lemma newton_step_above:
  fixes n x :: nat
  assumes "0 < x"
  shows "n < ((x + n div x) div 2 + 1) ^ 2"
proof -
  let ?y = "(x + n div x) div 2" and ?b = "n div x + 1"
  have "n < x * ?b" using assms by (simp add: dividend_less_times_div)
  then have "4 * (n + 1) \<le> 4 * (x * ?b)" by simp
  also have "int (4 * (x * ?b)) \<le> int ((x + ?b) ^ 2)"
  proof -
    have "0 \<le> (int x - int ?b) ^ 2" by simp
    then show ?thesis by (simp add: power2_eq_square algebra_simps)
  qed
  then have "4 * (x * ?b) \<le> (x + ?b) ^ 2" by linarith
  also have "\<dots> \<le> (2 * (?y + 1)) ^ 2" by (rule power_mono) simp_all
  also have "\<dots> = 4 * (?y + 1) ^ 2" by (simp add: power2_eq_square)
  finally show ?thesis by simp
qed

lemma isqrt_loop_correct:
  assumes "0 < n" "0 < x" "n < (x + 1) ^ 2"
  shows "\<exists>r. isqrt_loop n x = Inr (int r) \<and> r ^ 2 \<le> n \<and> n < (r + 1) ^ 2"
  using assms
proof (induction n x rule: isqrt_loop.induct)
  case (1 n x)
  let ?y = "(x + n div x) div 2"
  show ?case
  proof (cases "x \<le> ?y")
    case True
    then have "x \<le> n div x" by linarith
    then have "x ^ 2 \<le> n"
      using "1.prems" by (simp add: power2_eq_square less_eq_div_iff_mult_less_eq)
    with True "1.prems" show ?thesis by (auto simp: isqrt_loop.simps [of n x] Let_def)
  next
    case False
    have "0 < x + n div x" using "1.prems" by simp
    have "?y \<noteq> 0"
    proof
      assume "?y = 0"
      then have "x = 1" "n div x = 0" using "1.prems" by linarith+
      with "1.prems" show False by simp
    qed
    then have "0 < ?y" by simp
    moreover have "n < (?y + 1) ^ 2" using "1.prems" by (intro newton_step_above) simp
    ultimately have "\<exists>r. isqrt_loop n ?y = Inr (int r) \<and> r ^ 2 \<le> n \<and> n < (r + 1) ^ 2"
      using False "1.prems" by (intro "1.IH") simp_all
    with False "1.prems" show ?thesis by (simp add: isqrt_loop.simps [of n x] Let_def)
  qed
qed

lemma less_two_power_binary_digits: "n < 2 ^ binary_digits n"
proof (induction n rule: binary_digits.induct)
  case (1 n)
  then show ?case by (auto simp: binary_digits.simps [of n])
qed

lemma isqrt_start_above: "n < (2 ^ ((binary_digits n + 1) div 2) + 1) ^ 2"
proof -
  let ?k = "(binary_digits n + 1) div 2"
  have "n < 2 ^ binary_digits n" by (rule less_two_power_binary_digits)
  also have "\<dots> \<le> 2 ^ (?k * 2)" by (rule power_increasing) simp_all
  also have "\<dots> = (2 ^ ?k) ^ 2" by (simp add: power_mult)
  also have "\<dots> \<le> (2 ^ ?k + 1) ^ 2" by (rule power_mono) simp_all
  finally show ?thesis .
qed

lemma isqrt_ex:
  assumes "0 \<le> n"
  shows "\<exists>r. isqrt n = Inr r \<and> 0 \<le> r \<and> r * r \<le> n \<and> n < (r + 1) * (r + 1)"
proof (cases "n < 2")
  case True
  with assms consider "n = 0" | "n = 1" by linarith
  then show ?thesis by cases (auto simp: isqrt_def)
next
  case False
  then obtain r where r: "isqrt_loop (nat n) (2 ^ ((binary_digits (nat n) + 1) div 2)) = Inr (int r)"
      "r ^ 2 \<le> nat n" "nat n < (r + 1) ^ 2"
    using isqrt_loop_correct [of "nat n" "2 ^ ((binary_digits (nat n) + 1) div 2)"]
      isqrt_start_above [of "nat n"] by auto
  have "int (r ^ 2) \<le> n" "n < int ((r + 1) ^ 2)" using r(2,3) False by linarith+
  with r(1) False show ?thesis by (auto simp: isqrt_def power2_eq_square algebra_simps)
qed

lemma isqrt_eq_Inr:
  assumes "0 \<le> n" "isqrt n = Inr r"
  shows "0 \<le> r" "r * r \<le> n" "n < (r + 1) * (r + 1)"
  using isqrt_ex [OF assms(1)] assms(2) by auto

text \<open>For evaluation, the same loop on integers.\<close>

function isqrt_int_loop :: "int \<Rightarrow> int \<Rightarrow> int result" where
  "isqrt_int_loop n x =
     (if x \<le> 0 then Inl (RangeError ''Division by zero'')
      else let y = (x + n div x) div 2
           in if y \<ge> x then Inr x else isqrt_int_loop n y)"
  by pat_completeness auto
termination
  by (relation "measure (\<lambda>(n, x). nat x)") auto

declare isqrt_int_loop.simps [simp del]

function int_digits :: "int \<Rightarrow> nat" where
  "int_digits n = (if n < 2 then 1 else Suc (int_digits (n div 2)))"
  by pat_completeness auto
termination
  by (relation "measure nat") auto

declare int_digits.simps [simp del]

lemma binary_digits_int: "0 \<le> n \<Longrightarrow> binary_digits (nat n) = int_digits n"
proof (induction n rule: int_digits.induct)
  case (1 n)
  then show ?case
    by (subst binary_digits.simps, subst int_digits.simps) (simp add: nat_div_distrib nat_less_iff)
qed

lemma isqrt_loop_int: "isqrt_loop n x = isqrt_int_loop (int n) (int x)"
proof (induction n x rule: isqrt_loop.induct)
  case (1 n x)
  have y: "int ((x + n div x) div 2) = (int x + int n div int x) div 2" by (simp add: zdiv_int)
  have ge: "x \<le> (x + n div x) div 2 \<longleftrightarrow> int x \<le> (int x + int n div int x) div 2"
    unfolding y [symmetric] by simp
  show ?case
    using 1 by (subst isqrt_loop.simps, subst isqrt_int_loop.simps) (simp add: Let_def ge y)
qed

lemma isqrt_code [code]:
  "isqrt n =
     (if n < 0 then Inl (RangeError ''isqrt of a negative number'')
      else if n < 2 then Inr n
      else isqrt_int_loop n (2 ^ ((int_digits n + 1) div 2)))"
  by (simp add: isqrt_def isqrt_loop_int binary_digits_int)

section \<open>Amounts over a price range\<close>

text \<open>The values of the two amount formulas where they return, as plain quotients.\<close>

definition quote_up :: "int \<Rightarrow> int \<Rightarrow> int \<Rightarrow> int" where
  "quote_up L lo hi = (L * (hi - lo) + 2 ^ 128 - 1) div 2 ^ 128"

definition quote_down :: "int \<Rightarrow> int \<Rightarrow> int \<Rightarrow> int" where
  "quote_down L lo hi = L * (hi - lo) div 2 ^ 128"

definition base_up :: "int \<Rightarrow> int \<Rightarrow> int \<Rightarrow> int" where
  "base_up L lo hi = (L * (hi - lo) + lo * hi - 1) div (lo * hi)"

definition base_down :: "int \<Rightarrow> int \<Rightarrow> int \<Rightarrow> int" where
  "base_down L lo hi = L * (hi - lo) div (lo * hi)"

lemma getDeltaAmountQuote_eq:
  "0 \<le> L \<Longrightarrow> lo \<le> hi \<Longrightarrow>
     getDeltaAmountQuote lo hi L u = Inr (if u then quote_up L lo hi else quote_down L lo hi)"
  by (simp add: getDeltaAmountQuote_def quote_up_def quote_down_def divCeil_eq)

lemma getDeltaAmountBase_eq:
  "0 \<le> L \<Longrightarrow> 0 < lo \<Longrightarrow> lo \<le> hi \<Longrightarrow>
     getDeltaAmountBase lo hi L u = Inr (if u then base_up L lo hi else base_down L lo hi)"
  by (auto simp: getDeltaAmountBase_def base_up_def base_down_def mulDiv_up mulDiv_down Let_def mult_le_0_iff)

lemma getDeltaAmountQuote_order: "getDeltaAmountQuote lo hi L u = Inr v \<Longrightarrow> lo \<le> hi"
  by (simp add: getDeltaAmountQuote_def split: if_splits)

lemma getDeltaAmountBase_order: "getDeltaAmountBase lo hi L u = Inr v \<Longrightarrow> lo \<le> hi \<and> 0 < lo * hi"
  by (simp add: getDeltaAmountBase_def Let_def split: if_splits)

lemma quote_up_nonneg [simp]: "0 \<le> L \<Longrightarrow> lo \<le> hi \<Longrightarrow> 0 \<le> quote_up L lo hi"
  by (simp add: quote_up_def pos_imp_zdiv_nonneg_iff)

lemma quote_down_nonneg [simp]: "0 \<le> L \<Longrightarrow> lo \<le> hi \<Longrightarrow> 0 \<le> quote_down L lo hi"
  by (simp add: quote_down_def pos_imp_zdiv_nonneg_iff)

lemma base_up_nonneg [simp]: "0 \<le> L \<Longrightarrow> 0 < lo \<Longrightarrow> lo \<le> hi \<Longrightarrow> 0 \<le> base_up L lo hi"
  by (simp add: base_up_def le_floor_div_iff add_nonneg_pos)

lemma base_down_nonneg [simp]: "0 \<le> L \<Longrightarrow> 0 < lo \<Longrightarrow> lo \<le> hi \<Longrightarrow> 0 \<le> base_down L lo hi"
  by (simp add: base_down_def le_floor_div_iff)

lemma quote_up_same [simp]: "quote_up L p p = 0"
  by (simp add: quote_up_def)

lemma quote_up_le_iff: "quote_up L lo hi \<le> q \<longleftrightarrow> L * (hi - lo) \<le> q * 2 ^ 128"
  unfolding quote_up_def by (rule ceil_div_le_iff) simp

lemma quote_down_ge_iff: "q \<le> quote_down L lo hi \<longleftrightarrow> q * 2 ^ 128 \<le> L * (hi - lo)"
  unfolding quote_down_def by (rule le_floor_div_iff) simp

lemma base_up_le_iff: "0 < lo \<Longrightarrow> lo \<le> hi \<Longrightarrow> base_up L lo hi \<le> q \<longleftrightarrow> L * (hi - lo) \<le> q * (lo * hi)"
  unfolding base_up_def by (rule ceil_div_le_iff) simp

lemma base_down_ge_iff: "0 < lo \<Longrightarrow> lo \<le> hi \<Longrightarrow> q \<le> base_down L lo hi \<longleftrightarrow> q * (lo * hi) \<le> L * (hi - lo)"
  unfolding base_down_def by (rule le_floor_div_iff) simp

lemma quote_up_bound: "L * (hi - lo) \<le> quote_up L lo hi * 2 ^ 128"
  by (rule quote_up_le_iff [THEN iffD1, OF order_refl])

lemma quote_down_bound: "quote_down L lo hi * 2 ^ 128 \<le> L * (hi - lo)"
  by (rule quote_down_ge_iff [THEN iffD1, OF order_refl])

lemma base_up_bound: "0 < lo \<Longrightarrow> lo \<le> hi \<Longrightarrow> L * (hi - lo) \<le> base_up L lo hi * (lo * hi)"
  by (rule base_up_le_iff [THEN iffD1, OF _ _ order_refl])

lemma base_down_bound: "0 < lo \<Longrightarrow> lo \<le> hi \<Longrightarrow> base_down L lo hi * (lo * hi) \<le> L * (hi - lo)"
  by (rule base_down_ge_iff [THEN iffD1, OF _ _ order_refl])

lemma quote_up_mono:
  assumes "0 \<le> L" "hi \<le> hi'"
  shows "quote_up L lo hi \<le> quote_up L lo hi'"
proof -
  have "L * (hi - lo) \<le> L * (hi' - lo)" using assms by (simp add: mult_left_mono)
  also have "\<dots> \<le> quote_up L lo hi' * 2 ^ 128" by (rule quote_up_bound)
  finally show ?thesis by (simp only: quote_up_le_iff)
qed

lemma quote_up_pos: "0 < L \<Longrightarrow> lo < hi \<Longrightarrow> 0 < quote_up L lo hi"
  using quote_up_le_iff [of L lo hi 0] by (simp add: not_le mult_le_0_iff)

text \<open>Rounding up over two adjacent ranges never costs less than over the whole range.\<close>

lemma quote_up_split: "quote_up L a c \<le> quote_up L a b + quote_up L b c"
  using quote_up_bound [of L b a] quote_up_bound [of L c b]
  by (simp add: quote_up_le_iff algebra_simps)

lemma quote_down_split: "quote_down L a b + quote_down L b c \<le> quote_down L a c"
  using quote_down_bound [of L a b] quote_down_bound [of L b c]
  by (simp add: quote_down_ge_iff algebra_simps)

lemma quote_down_le_up: "quote_down L a b \<le> quote_up L a b"
proof -
  have "quote_down L a b * 2 ^ 128 \<le> quote_up L a b * 2 ^ 128"
    by (rule order_trans [OF quote_down_bound quote_up_bound])
  then show ?thesis by simp
qed

section \<open>The next price\<close>

lemma getNextSqrtPriceFromQuoteAmountIn_eq:
  assumes "0 < L" "0 \<le> a"
  shows "getNextSqrtPriceFromQuoteAmountIn s L a =
    (if s + a * 2 ^ 128 div L > U128_MAX then Inl (DbcMathError ''TypeCastFailed'')
     else Inr (s + a * 2 ^ 128 div L))"
  using assms by (simp add: getNextSqrtPriceFromQuoteAmountIn_def Let_def)

text \<open>
  Moving the price up by an amount of quote and pricing that move again, rounded up, gives the amount
  back exactly, because the liquidity fits in 128 bits: less than one raw unit is lost.
\<close>

lemma next_price_absorbs:
  assumes "0 < L" "L \<le> U128_MAX" "0 \<le> a"
  shows "quote_up L s (s + a * 2 ^ 128 div L) = a"
  unfolding quote_up_def
proof (rule ceil_div_unique)
  let ?x = "a * 2 ^ 128 div L"
  have lo: "?x * L \<le> a * 2 ^ 128" by (rule floor_div_bounds) (use assms in simp)
  have hi: "a * 2 ^ 128 < (?x + 1) * L" by (rule floor_div_bounds) (use assms in simp)
  show "L * (s + ?x - s) \<le> a * 2 ^ 128" using lo by (simp add: mult.commute)
  have "a * 2 ^ 128 < ?x * L + L" using hi by (simp add: algebra_simps)
  with assms(2) have "a * 2 ^ 128 < ?x * L + 2 ^ 128" unfolding bounds_defs by linarith
  then show "(a - 1) * 2 ^ 128 < L * (s + ?x - s)" by (simp add: algebra_simps)
qed simp

lemma next_price_ge: "0 < L \<Longrightarrow> 0 \<le> a \<Longrightarrow> s \<le> s + a * 2 ^ 128 div L" for a s L :: int
  by (simp add: pos_imp_zdiv_nonneg_iff)

section \<open>Well-formed curves and the migration threshold price\<close>

text \<open>
  What \<open>create_config\<close> demands of a curve (checked by \<open>validateDbcConfigParams\<close>): strictly increasing
  prices above the start price, positive u128 liquidity, prices within the program's range.
\<close>

fun wf_curve :: "int \<Rightarrow> curve_point list \<Rightarrow> bool" where
  "wf_curve lo [] \<longleftrightarrow> True"
| "wf_curve lo (p # ps) \<longleftrightarrow>
     lo < cp_sqrtPrice p \<and> cp_sqrtPrice p \<le> MAX_SQRT_PRICE \<and>
     0 < cp_liquidity p \<and> cp_liquidity p \<le> U128_MAX \<and> wf_curve (cp_sqrtPrice p) ps"

text \<open>Quote paid from price \<open>lo\<close> up to price \<open>p\<close>, each segment rounded up as a swap rounds it.\<close>

fun curveQuoteTo :: "int \<Rightarrow> curve_point list \<Rightarrow> int \<Rightarrow> int" where
  "curveQuoteTo lo [] p = 0"
| "curveQuoteTo lo (pt # pts) p =
     (if p \<le> lo then 0
      else if p \<le> cp_sqrtPrice pt then quote_up (cp_liquidity pt) lo p
      else quote_up (cp_liquidity pt) lo (cp_sqrtPrice pt) + curveQuoteTo (cp_sqrtPrice pt) pts p)"

text \<open>Quote the whole curve absorbs, and the condition that every segment amount fits a u64.\<close>

fun curveCapacity :: "int \<Rightarrow> curve_point list \<Rightarrow> int" where
  "curveCapacity lo [] = 0"
| "curveCapacity lo (pt # pts) =
     quote_up (cp_liquidity pt) lo (cp_sqrtPrice pt) + curveCapacity (cp_sqrtPrice pt) pts"

fun segments_fit_u64 :: "int \<Rightarrow> curve_point list \<Rightarrow> bool" where
  "segments_fit_u64 lo [] \<longleftrightarrow> True"
| "segments_fit_u64 lo (pt # pts) \<longleftrightarrow>
     quote_up (cp_liquidity pt) lo (cp_sqrtPrice pt) \<le> U64_MAX \<and> segments_fit_u64 (cp_sqrtPrice pt) pts"

fun lastPrice :: "int \<Rightarrow> curve_point list \<Rightarrow> int" where
  "lastPrice lo [] = lo"
| "lastPrice lo (pt # pts) = lastPrice (cp_sqrtPrice pt) pts"

lemma wf_curve_lastPrice: "wf_curve lo ps \<Longrightarrow> lo \<le> lastPrice lo ps"
  by (induction lo ps rule: lastPrice.induct) force+

lemma wf_curve_lastPrice_max: "wf_curve lo ps \<Longrightarrow> ps \<noteq> [] \<Longrightarrow> lastPrice lo ps \<le> MAX_SQRT_PRICE"
proof (induction lo ps rule: lastPrice.induct)
  case (2 lo pt pts)
  then show ?case by (cases pts) auto
qed simp

lemma curveCapacity_nonneg: "wf_curve lo ps \<Longrightarrow> 0 \<le> curveCapacity lo ps"
  by (induction lo ps rule: curveCapacity.induct) simp_all

lemma curveQuoteTo_at_start: "p \<le> lo \<Longrightarrow> curveQuoteTo lo ps p = 0"
  by (cases ps) simp_all

text \<open>Inside one segment: the next price absorbs the amount and stays below the segment's end.\<close>

lemma next_price_in_segment:
  assumes "0 < L" "L \<le> U128_MAX" "0 \<le> a" "a < quote_up L s e" "e \<le> MAX_SQRT_PRICE"
  shows "\<exists>p. getNextSqrtPriceFromQuoteAmountIn s L a = Inr p \<and> s \<le> p \<and> p < e \<and> quote_up L s p = a"
proof -
  let ?p = "s + a * 2 ^ 128 div L"
  have q: "quote_up L s ?p = a" by (rule next_price_absorbs) (use assms in simp_all)
  have "?p < e"
  proof (rule ccontr)
    assume "\<not> ?p < e"
    then have "quote_up L s e \<le> quote_up L s ?p" using assms by (intro quote_up_mono) simp_all
    with q assms show False by simp
  qed
  moreover from this assms(5) have "\<not> ?p > U128_MAX"
    using MAX_SQRT_PRICE_less_U128 by linarith
  moreover have "s \<le> ?p" using assms by (intro next_price_ge)
  ultimately show ?thesis
    using q assms by (auto simp: getNextSqrtPriceFromQuoteAmountIn_eq)
qed

lemma thresholdLoop_spec:
  assumes "wf_curve s ps" "0 \<le> a"
  shows "segments_fit_u64 s ps \<Longrightarrow> \<exists>r. thresholdLoop ps a s = Inr r"
    and "thresholdLoop ps a s = Inr (left, p) \<Longrightarrow>
           s \<le> p \<and> p \<le> lastPrice s ps \<and> left = max 0 (a - curveCapacity s ps) \<and>
           curveQuoteTo s ps p = a - left"
  using assms
proof (induction ps a s arbitrary: p rule: thresholdLoop.induct)
  case (1 a s)
  { case 1 then show ?case by simp }
  { case 2 then show ?case by simp }
next
  case (2 pt ps a s)
  let ?L = "cp_liquidity pt" and ?P = "cp_sqrtPrice pt"
  let ?m = "quote_up ?L s ?P"
  have ev: "thresholdLoop (pt # ps) a s =
    (if ?m > a then bindE (getNextSqrtPriceFromQuoteAmountIn s ?L a) (\<lambda>n. Inr (0, n))
     else bindE (assertU64 ?m) (\<lambda>_. thresholdLoop ps (a - ?m) ?P))"
    if "wf_curve s (pt # ps)"
    using that by (simp add: getDeltaAmountQuote_eq)
  have fit: "\<exists>n. getNextSqrtPriceFromQuoteAmountIn s ?L a = Inr n \<and> s \<le> n \<and> n < ?P \<and> quote_up ?L s n = a"
    if "wf_curve s (pt # ps)" "0 \<le> a" "a < ?m"
    using that by (intro next_price_in_segment) auto
  have delta: "getDeltaAmountQuote s ?P ?L True = Inr ?m" if "wf_curve s (pt # ps)"
    using that by (simp add: getDeltaAmountQuote_eq)
  { case 1
    show ?case
    proof (cases "?m > a")
      case True
      with fit 1 ev show ?thesis by fastforce
    next
      case False
      with 1 have "\<exists>r. thresholdLoop ps (a - ?m) ?P = Inr r"
        by (intro "2.IH"(1) [OF delta]) simp_all
      with False 1 ev show ?thesis by (simp add: assertU64_def not_less)
    qed }
  { case 2
    then have wf: "wf_curve s (pt # ps)" and a: "0 \<le> a" by blast+
    show ?case
    proof (cases "?m > a")
      case True
      from fit [OF wf a True] obtain n where n: "getNextSqrtPriceFromQuoteAmountIn s ?L a = Inr n"
        "s \<le> n" "n < ?P" "quote_up ?L s n = a" by blast
      with 2 True ev [OF wf] have p: "p = n" "left = 0" by simp_all
      have "?P \<le> lastPrice ?P ps" using wf by (intro wf_curve_lastPrice) simp
      moreover have "0 \<le> curveCapacity ?P ps" using wf by (intro curveCapacity_nonneg) simp
      moreover have "curveQuoteTo s (pt # ps) n = a"
        using n quote_up_same [of ?L s] by (cases "n = s") auto
      ultimately show ?thesis using n p True by simp
    next
      case False
      with 2(1) have "bindE (assertU64 ?m) (\<lambda>_. thresholdLoop ps (a - ?m) ?P) = Inr (left, p)"
        by (simp only: ev [OF wf] if_False)
      then have fit: "0 \<le> ?m \<and> ?m \<le> U64_MAX" and rest: "thresholdLoop ps (a - ?m) ?P = Inr (left, p)"
        by (simp_all add: result_simps)
      from wf False have "wf_curve ?P ps" "0 \<le> a - ?m" by simp_all
      with "2.IH"(2) [OF delta [OF wf] False _ rest] fit
      have IH: "?P \<le> p" "p \<le> lastPrice ?P ps" "left = max 0 (a - ?m - curveCapacity ?P ps)"
        "curveQuoteTo ?P ps p = a - ?m - left" by auto
      from wf have "s < ?P" by simp
      moreover have "curveQuoteTo s (pt # ps) p = a - left"
        using IH \<open>s < ?P\<close> curveQuoteTo_at_start [of p ?P ps] by (cases "p = ?P") auto
      ultimately show ?thesis using IH by simp
    qed }
qed

lemma threshold_price_first:
  assumes "wf_curve s0 (pt # ps)" "0 \<le> T"
  shows "getMigrationThresholdPrice T s0 (pt # ps) =
    (if quote_up (cp_liquidity pt) s0 (cp_sqrtPrice pt) > T
     then getNextSqrtPriceFromQuoteAmountIn s0 (cp_liquidity pt) T
     else bindE (thresholdLoop ps (T - quote_up (cp_liquidity pt) s0 (cp_sqrtPrice pt)) (cp_sqrtPrice pt))
            (\<lambda>(left, p). if left \<noteq> 0 then Inl (DbcMathError ''NotEnoughLiquidity'') else Inr p))"
  using assms by (simp add: getMigrationThresholdPrice_def getDeltaAmountQuote_eq)

lemma threshold_price_sound:
  assumes wf: "wf_curve s0 curve" and T: "0 \<le> T"
    and ret: "getMigrationThresholdPrice T s0 curve = Inr p"
  shows "s0 \<le> p" "p \<le> lastPrice s0 curve" "curveQuoteTo s0 curve p = T"
proof -
  from ret obtain pt ps where c: "curve = pt # ps"
    by (cases curve) (simp_all add: getMigrationThresholdPrice_def)
  let ?L = "cp_liquidity pt" and ?P = "cp_sqrtPrice pt"
  let ?m = "quote_up ?L s0 ?P"
  note eq = threshold_price_first [OF wf [unfolded c] T]
  from wf have wf': "s0 < ?P" "wf_curve ?P ps" by (simp_all add: c)
  have "s0 \<le> p \<and> p \<le> lastPrice s0 curve \<and> curveQuoteTo s0 curve p = T"
  proof (cases "?m > T")
    case True
    with wf T obtain n where n: "getNextSqrtPriceFromQuoteAmountIn s0 ?L T = Inr n" "s0 \<le> n" "n < ?P"
      "quote_up ?L s0 n = T"
      using next_price_in_segment [of ?L T s0 ?P] by (auto simp: c)
    with ret True eq have "p = n" by (simp add: c)
    moreover have "curveQuoteTo s0 curve n = T"
      using n quote_up_same [of ?L s0] by (cases "n = s0") (auto simp: c)
    moreover have "?P \<le> lastPrice ?P ps" by (rule wf_curve_lastPrice) (rule wf')
    ultimately show ?thesis using n by (simp add: c)
  next
    case False
    with ret have "bindE (thresholdLoop ps (T - ?m) ?P)
        (\<lambda>(left, p). if left \<noteq> 0 then Inl (DbcMathError ''NotEnoughLiquidity'') else Inr p) = Inr p"
      by (simp only: c eq if_False)
    then have "thresholdLoop ps (T - ?m) ?P = Inr (0, p)" by (auto simp: result_simps)
    from thresholdLoop_spec(2) [OF wf'(2) _ this] False
    have "?P \<le> p" "p \<le> lastPrice ?P ps" "curveQuoteTo ?P ps p = T - ?m" by simp_all
    then show ?thesis
      using wf' curveQuoteTo_at_start [of p ?P ps] by (cases "p = ?P") (auto simp: c)
  qed
  then show "s0 \<le> p" "p \<le> lastPrice s0 curve" "curveQuoteTo s0 curve p = T" by simp_all
qed

lemma threshold_price_returns_iff:
  assumes wf: "wf_curve s0 curve" "curve \<noteq> []" and T: "0 \<le> T" and fit: "segments_fit_u64 s0 curve"
  shows "T \<le> curveCapacity s0 curve \<Longrightarrow> returns (getMigrationThresholdPrice T s0 curve)"
    and "curveCapacity s0 curve < T \<Longrightarrow>
           getMigrationThresholdPrice T s0 curve = Inl (DbcMathError ''NotEnoughLiquidity'')"
proof -
  from wf obtain pt ps where c: "curve = pt # ps" by (cases curve) simp_all
  let ?L = "cp_liquidity pt" and ?P = "cp_sqrtPrice pt"
  let ?m = "quote_up ?L s0 ?P"
  note eq = threshold_price_first [OF wf(1) [unfolded c] T]
  from wf have wf': "wf_curve ?P ps" by (simp add: c)
  have "(T \<le> curveCapacity s0 curve \<longrightarrow> returns (getMigrationThresholdPrice T s0 curve)) \<and>
    (curveCapacity s0 curve < T \<longrightarrow>
      getMigrationThresholdPrice T s0 curve = Inl (DbcMathError ''NotEnoughLiquidity''))"
  proof (cases "?m > T")
    case True
    with wf T obtain n where "getNextSqrtPriceFromQuoteAmountIn s0 ?L T = Inr n"
      using next_price_in_segment [of ?L T s0 ?P] by (auto simp: c)
    moreover have "0 \<le> curveCapacity ?P ps" by (rule curveCapacity_nonneg) (rule wf')
    ultimately show ?thesis using True by (simp add: c eq)
  next
    case False
    then have a: "0 \<le> T - ?m" by simp
    from thresholdLoop_spec(1) [OF wf' a] fit obtain left p
      where l: "thresholdLoop ps (T - ?m) ?P = Inr (left, p)" by (auto simp: c)
    from thresholdLoop_spec(2) [OF wf' a this] have "left = max 0 (T - ?m - curveCapacity ?P ps)" by simp
    then show ?thesis using False by (simp add: c eq l)
  qed
  then show "T \<le> curveCapacity s0 curve \<Longrightarrow> returns (getMigrationThresholdPrice T s0 curve)"
    "curveCapacity s0 curve < T \<Longrightarrow>
      getMigrationThresholdPrice T s0 curve = Inl (DbcMathError ''NotEnoughLiquidity'')" by blast+
qed

section \<open>Base sold on the curve\<close>

fun curveBaseTo :: "int \<Rightarrow> curve_point list \<Rightarrow> int \<Rightarrow> int" where
  "curveBaseTo lo [] p = 0"
| "curveBaseTo lo (pt # pts) p =
     (if cp_sqrtPrice pt > p then base_up (cp_liquidity pt) lo p
      else base_up (cp_liquidity pt) lo (cp_sqrtPrice pt) + curveBaseTo (cp_sqrtPrice pt) pts p)"

lemma baseForSwapLoop_eq:
  "wf_curve lo ps \<Longrightarrow> 0 < lo \<Longrightarrow> lo \<le> p \<Longrightarrow> baseForSwapLoop lo p ps acc = Inr (acc + curveBaseTo lo ps p)"
  by (induction lo p ps acc rule: baseForSwapLoop.induct) (auto simp: getDeltaAmountBase_eq)

lemma getBaseTokenForSwap_eq:
  "wf_curve s0 curve \<Longrightarrow> 0 < s0 \<Longrightarrow> s0 \<le> p \<Longrightarrow> getBaseTokenForSwap s0 p curve = Inr (curveBaseTo s0 curve p)"
  by (simp add: getBaseTokenForSwap_def baseForSwapLoop_eq)

lemma base_up_mono:
  assumes "0 \<le> L" "0 < lo" "lo \<le> p" "p \<le> p'"
  shows "base_up L lo p \<le> base_up L lo p'"
proof -
  let ?q = "base_up L lo p'"
  have "L * (p - lo) * p' \<le> L * (p' - lo) * p"
  proof -
    have "p * p' - lo * p' \<le> p * p' - lo * p" using assms by (simp add: mult_left_mono)
    then have "L * (p * p' - lo * p') \<le> L * (p * p' - lo * p)" using assms by (simp add: mult_left_mono)
    then show ?thesis by (simp add: algebra_simps)
  qed
  also have "\<dots> \<le> ?q * (lo * p') * p"
    using assms by (intro mult_right_mono base_up_bound) simp_all
  finally have "L * (p - lo) * p' \<le> ?q * (lo * p) * p'" by (simp add: algebra_simps)
  then have "L * (p - lo) \<le> ?q * (lo * p)" using assms by simp
  then show ?thesis using assms by (simp add: base_up_le_iff)
qed

lemma curveBaseTo_nonneg: "wf_curve lo ps \<Longrightarrow> 0 < lo \<Longrightarrow> lo \<le> p \<Longrightarrow> 0 \<le> curveBaseTo lo ps p"
  by (induction lo ps p rule: curveBaseTo.induct) auto

lemma curveBaseTo_mono:
  "wf_curve lo ps \<Longrightarrow> 0 < lo \<Longrightarrow> lo \<le> p \<Longrightarrow> p \<le> p' \<Longrightarrow> curveBaseTo lo ps p \<le> curveBaseTo lo ps p'"
proof (induction lo ps p rule: curveBaseTo.induct)
  case (2 lo pt pts p)
  let ?L = "cp_liquidity pt" and ?P = "cp_sqrtPrice pt"
  consider "p' < ?P" | "p < ?P" "?P \<le> p'" | "?P \<le> p" using "2.prems" by linarith
  then show ?case
  proof cases
    case 1
    with "2.prems" show ?thesis by (simp add: base_up_mono)
  next
    case 2
    have "base_up ?L lo p \<le> base_up ?L lo ?P" using 2 "2.prems" by (intro base_up_mono) simp_all
    moreover have "0 \<le> curveBaseTo ?P pts p'" using 2 "2.prems" by (intro curveBaseTo_nonneg) simp_all
    ultimately show ?thesis using 2 by simp
  next
    case 3
    with "2.prems" "2.IH" show ?thesis by simp
  qed
qed simp

lemma swap_buffer_covers:
  assumes wf: "wf_curve s0 curve" and s0: "0 < s0" "s0 \<le> p" "p \<le> MAX_SQRT_PRICE"
    and sold: "getBaseTokenForSwap s0 p curve = Inr b"
    and buf: "getSwapAmountWithBuffer b s0 curve = Inr r"
  shows "b \<le> r" "r \<le> b + b div 4" "0 \<le> b"
proof -
  from sold wf s0 have b: "b = curveBaseTo s0 curve p" by (simp add: getBaseTokenForSwap_eq)
  with wf s0 have b0: "0 \<le> b" by (simp add: curveBaseTo_nonneg)
  have "b * 25 sdiv 100 = b div 4" using b0 by simp
  then have r: "r = min (b + b div 4) (curveBaseTo s0 curve MAX_SQRT_PRICE)"
    using buf wf s0 b0
    by (auto simp: getSwapAmountWithBuffer_def getBaseTokenForSwap_eq result_simps min_def Let_def split: if_splits)
  moreover have "b \<le> curveBaseTo s0 curve MAX_SQRT_PRICE"
    unfolding b using wf s0 by (intro curveBaseTo_mono) simp_all
  ultimately show "b \<le> r" "r \<le> b + b div 4" "0 \<le> b" using b0 by simp_all
qed

section \<open>The migration fee split\<close>

lemma getMigrationQuoteAmount_spec:
  assumes "0 \<le> T" "T \<le> U64_MAX" "0 \<le> pct" "pct \<le> 100"
  shows "\<exists>q. getMigrationQuoteAmount T pct = Inr q \<and> mq_quoteAmount q + mq_fee q = T \<and>
    mq_fee q = T * pct div 100 \<and> 0 \<le> mq_quoteAmount q"
proof -
  define v where "v = (T * (100 - pct) + 100 - 1) div 100"
  have v: "mulDiv T (100 - pct) 100 True = Inr v" using assms by (simp add: mulDiv_up v_def)
  have "v \<le> T" by (rule mulDiv.share_le [OF _ _ _ _ v]) (use assms in simp_all)
  moreover have "0 \<le> v" by (rule mulDiv.nonneg [OF _ _ _ v]) (use assms in simp_all)
  moreover have "T - v = T * pct div 100"
  proof (rule floor_div_unique [symmetric])
    have b: "T * (100 - pct) \<le> v * 100" "(v - 1) * 100 < T * (100 - pct)"
      using mulDiv.ceiling_bounds [OF _ _ _ v] assms by simp_all
    have e: "T * (100 - pct) = T * 100 - T * pct" by (simp add: right_diff_distrib)
    show "(T - v) * 100 \<le> T * pct" using b(1) unfolding e by (simp add: algebra_simps)
    show "T * pct < (T - v + 1) * 100" using b(2) unfolding e by (simp add: algebra_simps)
  qed simp
  moreover from calculation assms(2) have "v \<le> U64_MAX" by linarith
  ultimately show ?thesis using v by (simp add: getMigrationQuoteAmount_def)
qed

lemma migration_fee_distribution_conserves:
  assumes "0 \<le> T" "T \<le> U64_MAX" "0 \<le> pct" "pct \<le> 100" "0 \<le> cpct" "cpct \<le> 100"
  shows "\<exists>d. getMigrationFeeDistribution T pct cpct = Inr d \<and> mf_partner d + mf_creator d = T * pct div 100 \<and>
    0 \<le> mf_partner d \<and> 0 \<le> mf_creator d \<and> mf_creator d = (T * pct div 100) * cpct div 100"
proof -
  from getMigrationQuoteAmount_spec [OF assms(1-4)] obtain q where
    q: "getMigrationQuoteAmount T pct = Inr q" "mq_fee q = T * pct div 100" by blast
  have f: "0 \<le> T * pct div 100" using assms(1,3) by (simp add: pos_imp_zdiv_nonneg_iff)
  let ?c = "(T * pct div 100) * cpct div 100"
  have c: "mulDiv (mq_fee q) cpct 100 False = Inr ?c" using assms f q by (simp add: mulDiv_down)
  have "?c \<le> T * pct div 100" using mulDiv.share_le [OF _ _ _ _ c] assms f q by simp
  moreover have "0 \<le> ?c" using assms(5) f by (simp add: pos_imp_zdiv_nonneg_iff)
  ultimately show ?thesis using q c by (simp add: getMigrationFeeDistribution_def)
qed

section \<open>The fixed-point power\<close>

text \<open>
  Every truncation of \<open>powLoop\<close> rounds down, so the result is at most the exact power. The invariant
  of the loop at bit \<open>k\<close>: the square holds at most \<open>\<beta> ^ 2 ^ (k - 1)\<close> (the square of bit \<open>k\<close> is taken
  at the start of the round) and the result at most \<open>\<beta> ^ (e mod 2 ^ k)\<close>, both scaled by \<open>2 ^ 64\<close>.
\<close>

definition q64 :: "int \<Rightarrow> real" where
  "q64 x = of_int x / 2 ^ 64"

lemma q64_nonneg [simp]: "0 \<le> x \<Longrightarrow> 0 \<le> q64 x"
  by (simp add: q64_def)

lemma q64_ONE [simp]: "q64 ONE_Q64 = 1"
  by (simp add: q64_def bounds_defs)

lemma mulQ64_bound:
  assumes "mulQ64 a b = Some c" "0 \<le> a" "0 \<le> b"
  shows "0 \<le> c" "q64 c \<le> q64 a * q64 b"
proof -
  from assms(1) have c: "c = a * b div 2 ^ 64" by (simp add: mulQ64_def Let_def split: if_splits)
  have "0 \<le> a * b" using assms by simp
  then show "0 \<le> c" by (simp add: c pos_imp_zdiv_nonneg_iff)
  have "c * 2 ^ 64 \<le> a * b" unfolding c by (rule floor_div_bounds) simp
  then have "real_of_int (c * 2 ^ 64) \<le> real_of_int (a * b)" by (rule of_int_le_iff [THEN iffD2])
  then show "q64 c \<le> q64 a * q64 b" by (simp add: q64_def field_simps)
qed

definition square_bound :: "real \<Rightarrow> nat \<Rightarrow> real" where
  "square_bound \<beta> k = (if k = 0 then \<beta> else \<beta> ^ 2 ^ (k - 1))"

lemma odd_div_power_mod: "odd (e div 2 ^ k) \<Longrightarrow> nat (e mod 2 ^ Suc k) = nat (e mod 2 ^ k) + 2 ^ k" for e :: int
proof -
  assume "odd (e div 2 ^ k)"
  then have m: "(e div 2 ^ k) mod 2 = 1" by presburger
  have "e mod 2 ^ Suc k = 2 ^ k * ((e div 2 ^ k) mod 2) + e mod 2 ^ k"
    using zmod_zmult2_eq [of 2 e "2 ^ k"] by (simp add: mult.commute)
  with m show ?thesis by (simp add: nat_add_distrib nat_power_eq)
qed

lemma even_div_power_mod: "even (e div 2 ^ k) \<Longrightarrow> e mod 2 ^ Suc k = e mod 2 ^ k" for e :: int
proof -
  assume "even (e div 2 ^ k)"
  then have m: "(e div 2 ^ k) mod 2 = 0" by presburger
  have "e mod 2 ^ Suc k = 2 ^ k * ((e div 2 ^ k) mod 2) + e mod 2 ^ k"
    using zmod_zmult2_eq [of 2 e "2 ^ k"] by (simp add: mult.commute)
  with m show ?thesis by simp
qed

lemma powLoop_upper:
  assumes "powLoop [k..<n] e sb r = Some res" "k \<le> n" "0 \<le> sb" "0 \<le> r" "0 \<le> \<beta>"
    "q64 sb \<le> square_bound \<beta> k" "q64 r \<le> \<beta> ^ nat (e mod 2 ^ k)"
  shows "0 \<le> res \<and> q64 res \<le> \<beta> ^ nat (e mod 2 ^ n)"
  using assms
proof (induction "n - k" arbitrary: k sb r)
  case 0
  then show ?case by simp
next
  case (Suc d)
  then have k: "k < n" and list: "[k..<n] = k # [Suc k..<n]" by (simp_all add: upt_conv_Cons)
  from Suc.prems(1) obtain sb' where sb': "(if k > 0 then mulQ64 sb sb else Some sb) = Some sb'"
    and rest: "(if odd (e div 2 ^ k)
       then (case mulQ64 r sb' of None \<Rightarrow> None | Some r' \<Rightarrow> powLoop [Suc k..<n] e sb' r')
       else powLoop [Suc k..<n] e sb' r) = Some res"
    by (simp add: list split: option.splits)
  have sq: "0 \<le> sb' \<and> q64 sb' \<le> \<beta> ^ 2 ^ k"
  proof (cases "k = 0")
    case True
    with sb' Suc.prems show ?thesis by (simp add: square_bound_def)
  next
    case False
    with sb' have m: "mulQ64 sb sb = Some sb'" by simp
    have "q64 sb' \<le> q64 sb * q64 sb" using mulQ64_bound [OF m] Suc.prems by simp
    also have "\<dots> \<le> square_bound \<beta> k * square_bound \<beta> k"
      using Suc.prems by (intro mult_mono) (simp_all add: square_bound_def)
    also have "\<dots> = \<beta> ^ 2 ^ k"
      using False by (cases k) (simp_all add: square_bound_def flip: power_add mult_2)
    finally show ?thesis using mulQ64_bound [OF m] Suc.prems by simp
  qed
  then have sq': "q64 sb' \<le> square_bound \<beta> (Suc k)" by (simp add: square_bound_def)
  show ?case
  proof (cases "odd (e div 2 ^ k)")
    case True
    with rest obtain r' where r': "mulQ64 r sb' = Some r'" and p: "powLoop [Suc k..<n] e sb' r' = Some res"
      by (auto split: option.splits)
    have "q64 r' \<le> q64 r * q64 sb'" using mulQ64_bound [OF r'] Suc.prems sq by simp
    also have "\<dots> \<le> \<beta> ^ nat (e mod 2 ^ k) * \<beta> ^ 2 ^ k"
      using Suc.prems sq by (intro mult_mono) simp_all
    also have "\<dots> = \<beta> ^ nat (e mod 2 ^ Suc k)"
      by (simp only: odd_div_power_mod [OF True] power_add)
    finally have "q64 r' \<le> \<beta> ^ nat (e mod 2 ^ Suc k)" .
    then show ?thesis
      using Suc.hyps(2) k sq sq' Suc.prems mulQ64_bound [OF r']
      by (intro Suc.hyps(1) [OF _ p]) (simp_all del: power_Suc)
  next
    case False
    then have "q64 r \<le> \<beta> ^ nat (e mod 2 ^ Suc k)"
      using Suc.prems even_div_power_mod [of e k] by simp
    then show ?thesis
      using False rest Suc.hyps(2) k sq sq' Suc.prems
      by (intro Suc.hyps(1) [of "Suc k" sb' r]) (simp_all del: power_Suc)
  qed
qed

lemma powQ64_upper:
  assumes "powQ64 base (JsInt n) = Some r" "0 \<le> base" "base < ONE_Q64" "0 \<le> n"
  shows "0 \<le> r" "q64 r \<le> q64 base ^ nat n"
proof -
  have "0 \<le> r \<and> q64 r \<le> q64 base ^ nat n"
  proof (cases "n = 0")
    case True
    with assms have "r = ONE_Q64" by (simp add: powQ64_def)
    with True show ?thesis by (simp add: order_less_imp_le)
  next
    case False
    with assms have n: "n < 524288" and p: "powLoop [0..<19] n base ONE_Q64 = Some r"
      by (auto simp: powQ64_def split: if_splits option.splits)
    have "0 \<le> r \<and> q64 r \<le> q64 base ^ nat (n mod 2 ^ 19)"
      by (rule powLoop_upper [OF p]) (use assms in \<open>simp_all add: square_bound_def\<close>)
    moreover have "n mod 2 ^ 19 = n" using n assms by (intro mod_pos_pos_trivial) simp_all
    ultimately show ?thesis by simp
  qed
  then show "0 \<le> r" "q64 r \<le> q64 base ^ nat n" by simp_all
qed

text \<open>
  The fee of a period never exceeds the exact exponential schedule, hence never the cliff fee. The
  factor of one period, \<open>1 - reduction / 10000\<close>, is itself rounded up to a multiple of \<open>2 ^ - 64\<close>.
\<close>

definition period_factor :: "int \<Rightarrow> real" where
  "period_factor reduction = q64 (ONE_Q64 - reduction * 2 ^ 64 div 10000)"

lemma getFeeInPeriod_upper:
  assumes ret: "getFeeInPeriod cliff reduction (JsInt n) = Inr fee"
    and "0 \<le> cliff" "1 \<le> reduction" "0 \<le> n"
  shows "0 \<le> fee" "fee \<le> U64_MAX" "of_int fee \<le> of_int cliff * period_factor reduction ^ nat n"
    "fee \<le> cliff"
proof -
  let ?b = "reduction * 2 ^ 64 div 10000"
  have b: "reduction * 2 ^ 64 sdiv 10000 = ?b" using assms by simp
  have b1: "1 \<le> ?b" using assms by (simp add: le_floor_div_iff)
  from ret obtain r where le: "?b \<le> ONE_Q64" and r: "powQ64 (ONE_Q64 - ?b) (JsInt n) = Some r"
    and fee: "fee = r * cliff div 2 ^ 64" "0 \<le> fee" "fee \<le> U64_MAX"
    using b by (auto simp: getFeeInPeriod_def Let_def split: if_splits option.splits)
  note up = powQ64_upper [OF r _ _ assms(4)]
  have base: "0 \<le> ONE_Q64 - ?b" "ONE_Q64 - ?b < ONE_Q64" using le b1 by linarith+
  have r0: "0 \<le> r" and rq: "q64 r \<le> period_factor reduction ^ nat n"
    using up base by (simp_all add: period_factor_def)
  have "fee * 2 ^ 64 \<le> r * cliff" unfolding fee(1) by (rule floor_div_bounds) simp
  then have "real_of_int (fee * 2 ^ 64) \<le> real_of_int (r * cliff)" by (rule of_int_le_iff [THEN iffD2])
  then have "of_int fee \<le> of_int cliff * q64 r" by (simp add: q64_def field_simps)
  also have "\<dots> \<le> of_int cliff * period_factor reduction ^ nat n"
    using rq assms by (intro mult_left_mono) simp_all
  finally show exact: "of_int fee \<le> of_int cliff * period_factor reduction ^ nat n" .
  have "0 \<le> period_factor reduction" using base by (simp add: period_factor_def)
  moreover have "period_factor reduction \<le> 1"
    using base by (simp add: period_factor_def q64_def bounds_defs)
  ultimately have "period_factor reduction ^ nat n \<le> 1" by (rule power_le_one)
  then have "of_int cliff * period_factor reduction ^ nat n \<le> real_of_int cliff"
    using assms by (intro mult_left_le) simp_all
  with exact show "fee \<le> cliff" by linarith
qed (use assms in \<open>auto simp: getFeeInPeriod_def Let_def split: if_splits option.splits\<close>)

section \<open>Properties\<close>

definition example_curve :: "curve_point list" where
  "example_curve = [\<lparr>cp_sqrtPrice = 2 ^ 65, cp_liquidity = 1000000 * 2 ^ 64\<rparr>,
                    \<lparr>cp_sqrtPrice = 2 ^ 66, cp_liquidity = 2000000 * 2 ^ 64\<rparr>]"

lemma wf_example_curve: "wf_curve (2 ^ 64) example_curve"
  by (simp add: example_curve_def bounds_defs)

text \<open>
  \<open>isqrt\<close> is exact and its Newton loop always stops: for every non-negative bigint it returns the
  largest integer whose square is at most the argument; a negative argument throws.
\<close>

theorem isqrt_exact:
  "(if n < 0 then isqrt n = Inl (RangeError ''isqrt of a negative number'')
    else \<exists>r. isqrt n = Inr r \<and> 0 \<le> r \<and> r * r \<le> n \<and> n < (r + 1) * (r + 1))"
proof (cases "n < 0")
  case True
  then show ?thesis by (simp add: isqrt_def)
next
  case False
  from isqrt_ex [of n] False obtain r where "isqrt n = Inr r" by auto
  with isqrt_eq_Inr [of n r] False show ?thesis by (auto simp: power2_eq_square)
qed

text \<open>
  The migration threshold price is the price at which buyers have paid exactly the threshold: on a
  well-formed curve, paying from the start price to the returned price, each segment rounded up as a
  swap rounds it, costs the threshold to the last unit, and the price lies on the curve.
\<close>

theorem migration_price_costs_threshold:
  assumes "wf_curve s0 curve" "0 \<le> T" "getMigrationThresholdPrice T s0 curve = Inr p"
  shows "s0 \<le> p \<and> p \<le> lastPrice s0 curve \<and> curveQuoteTo s0 curve p = T"
  using threshold_price_sound [OF assms] by simp

lemma migration_price_costs_threshold_witness:
  "getMigrationThresholdPrice 1500000 (2 ^ 64) example_curve = Inr 41505174165846491136 \<and>
   curveQuoteTo (2 ^ 64) example_curve 41505174165846491136 = 1500000"
proof -
  have r: "getMigrationThresholdPrice 1500000 (2 ^ 64) example_curve = Inr 41505174165846491136" by code_simp
  from migration_price_costs_threshold [OF wf_example_curve _ r] r show ?thesis by simp
qed

text \<open>
  The walk of \<open>getMigrationThresholdPrice\<close> returns a price exactly when the curve can absorb the
  threshold; otherwise it throws \<open>NotEnoughLiquidity\<close>, and an empty curve throws \<open>InvalidCurve\<close>.
\<close>

theorem migration_price_returns_iff:
  assumes "wf_curve s0 curve" "0 \<le> T" "segments_fit_u64 s0 curve"
  shows "(if curve = [] then getMigrationThresholdPrice T s0 curve = Inl (DbcMathError ''InvalidCurve'')
    else if T \<le> curveCapacity s0 curve then returns (getMigrationThresholdPrice T s0 curve)
    else getMigrationThresholdPrice T s0 curve = Inl (DbcMathError ''NotEnoughLiquidity''))"
proof (cases "curve = []")
  case True
  then show ?thesis by (simp add: getMigrationThresholdPrice_def)
next
  case False
  from threshold_price_returns_iff [OF assms(1) False assms(2,3)] False show ?thesis by simp
qed

lemma migration_price_returns_iff_witness:
  "returns (getMigrationThresholdPrice 1500000 (2 ^ 64) example_curve) \<and>
   getMigrationThresholdPrice 5000001 (2 ^ 64) example_curve = Inl (DbcMathError ''NotEnoughLiquidity'')"
proof -
  have fit: "segments_fit_u64 (2 ^ 64) example_curve"
    by (simp add: example_curve_def quote_up_def bounds_defs)
  have cap: "curveCapacity (2 ^ 64) example_curve = 5000000" by (simp add: example_curve_def quote_up_def)
  have ne: "example_curve \<noteq> []" by (simp add: example_curve_def)
  from migration_price_returns_iff [OF wf_example_curve _ fit, of 1500000]
    migration_price_returns_iff [OF wf_example_curve _ fit, of 5000001] cap ne
  show ?thesis by simp
qed

text \<open>
  The swap buffer never falls short: what \<open>getSwapAmountWithBuffer\<close> reserves covers the base the
  curve sells up to the migration price, and reserves at most a quarter more.
\<close>

theorem swap_buffer_is_enough:
  assumes "wf_curve s0 curve" "0 < s0" "s0 \<le> p" "p \<le> MAX_SQRT_PRICE"
    and "getBaseTokenForSwap s0 p curve = Inr b" "getSwapAmountWithBuffer b s0 curve = Inr r"
  shows "0 \<le> b \<and> b \<le> r \<and> r \<le> b + b div 4"
  using swap_buffer_covers [OF assms] by simp

text \<open>
  The migration fee is split without loss: partner and creator together get exactly
  \<open>floor(threshold * percentage / 100)\<close>, the creator the floor of its share of that, neither is negative,
  and the deposited quote is the rest of the threshold.
\<close>

theorem migration_fee_split_conserves:
  assumes "0 \<le> T" "T \<le> U64_MAX" "0 \<le> pct" "pct \<le> 100" "0 \<le> cpct" "cpct \<le> 100"
  shows "\<exists>d q. getMigrationFeeDistribution T pct cpct = Inr d \<and> getMigrationQuoteAmount T pct = Inr q \<and>
    mf_partner d + mf_creator d = T * pct div 100 \<and> 0 \<le> mf_partner d \<and> 0 \<le> mf_creator d \<and>
    mf_creator d = (T * pct div 100) * cpct div 100 \<and> mq_quoteAmount q + mf_partner d + mf_creator d = T"
proof -
  from migration_fee_distribution_conserves [OF assms] obtain d where d:
    "getMigrationFeeDistribution T pct cpct = Inr d" "mf_partner d + mf_creator d = T * pct div 100"
    "0 \<le> mf_partner d" "0 \<le> mf_creator d" "mf_creator d = (T * pct div 100) * cpct div 100" by blast
  from getMigrationQuoteAmount_spec [OF assms(1-4)] obtain q where
    "getMigrationQuoteAmount T pct = Inr q" "mq_quoteAmount q + mq_fee q = T" "mq_fee q = T * pct div 100" by blast
  with d show ?thesis by (intro exI [of _ d] exI [of _ q]) simp
qed

text \<open>
  The exponential fee never exceeds its schedule: the fixed-point power of \<open>getFeeInPeriod\<close> truncates
  downwards at every step, so the fee of period \<open>n\<close> is at most the exact \<open>cliff * factor ^ n\<close>, hence at
  most the cliff fee, and it fits a u64.
\<close>

theorem fee_in_period_below_schedule:
  assumes "getFeeInPeriod cliff reduction (JsInt n) = Inr fee" "0 \<le> cliff" "1 \<le> reduction" "0 \<le> n"
  shows "0 \<le> fee \<and> fee \<le> U64_MAX \<and> fee \<le> cliff \<and> of_int fee \<le> of_int cliff * period_factor reduction ^ nat n"
  using getFeeInPeriod_upper [OF assms] by simp

lemma fee_in_period_below_schedule_witness:
  "getFeeInPeriod 500000000 100 (JsInt 10) = Inr 452191037 \<and> (452191037 :: int) \<le> 500000000"
proof -
  have r: "getFeeInPeriod 500000000 100 (JsInt 10) = Inr 452191037" by code_simp
  from fee_in_period_below_schedule [OF r] r show ?thesis by simp
qed

end
