(* ===== verification/FloorMath.thy ===== *)
theory FloorMath
  imports Prelude
begin

text \<open>
  \<^verbatim>\<open>packages/sdk/src/math.ts\<close>: floor and redemption formulas, exact conversion between USD, UI and raw
  amounts, and the fee splits of launch v3. The display functions that compute in floating point
  (\<open>maxLossFraction\<close>, \<open>rawToUi\<close>, \<open>rawPriceToUsd\<close>, \<open>priceImpactPct\<close>, ...) are not modelled here.

  Two interfaces carry the proofs. \<open>floor_vault\<close> is what a redemption formula promises (it never pays
  more than the pro-rata share); from it follow, for any sequence of redemptions, that the floor per
  token never falls and that the total paid is at most the pro-rata share of the starting vault.
  \<open>fee_split\<close> is what a split of a harvest promises (it pays out exactly what was received).
\<close>

section \<open>Floor and redemption\<close>

definition MAX_BPS :: int where [simp]: "MAX_BPS = 10000"

definition assertNonNegative :: "int \<Rightarrow> unit result" where
  "assertNonNegative value = check (\<not> value < 0) (RangeError ''must be non-negative'')"

record floor_ratio =
  fl_num :: int
  fl_den :: int

definition floorPerTokenRaw :: "int \<Rightarrow> int \<Rightarrow> floor_ratio result" where
  "floorPerTokenRaw vaultRaw supplyRaw =
     bindE (assertNonNegative vaultRaw) (\<lambda>_.
     bindE (assertNonNegative supplyRaw) (\<lambda>_.
       if supplyRaw = 0 then Inr \<lparr>fl_num = 0, fl_den = 1\<rparr>
       else Inr \<lparr>fl_num = vaultRaw, fl_den = supplyRaw\<rparr>))"

record redeem_quote =
  rq_gross :: int
  rq_fee :: int
  rq_net :: int

definition redeemQuote :: "int \<Rightarrow> int \<Rightarrow> int \<Rightarrow> jsnum \<Rightarrow> redeem_quote result" where
  "redeemQuote vaultRaw supplyRaw amountRaw exitFeeBps =
     bindE (assertNonNegative vaultRaw) (\<lambda>_.
     bindE (assertNonNegative amountRaw) (\<lambda>_.
     bindE (check (\<not> supplyRaw \<le> 0) (RangeError ''supplyRaw must be positive'')) (\<lambda>_.
     bindE (check (\<not> amountRaw > supplyRaw) (RangeError ''amountRaw exceeds supplyRaw'')) (\<lambda>_.
     bindE (integer_in 0 10000 exitFeeBps (RangeError ''exitFeeBps must be an integer in [0, 10000]''))
       (\<lambda>bps.
         let gross = (vaultRaw * amountRaw) sdiv supplyRaw;
             feeProduct = gross * bps;
             fee = (feeProduct + MAX_BPS - 1) sdiv MAX_BPS
         in Inr \<lparr>rq_gross = gross, rq_fee = fee, rq_net = gross - fee\<rparr>)))))"

section \<open>Exact decimals\<close>

text \<open>
  A \<open>number | string\<close> argument: a number with the text \<open>String(n)\<close> gives for it, or a text with the
  value \<open>Number(s)\<close> gives for it. These two conversions of the JavaScript library are inputs here.
\<close>

datatype num_or_text = JsNumber jsnum string | JsText string jsnum

fun num_value :: "num_or_text \<Rightarrow> jsnum" where
  "num_value (JsNumber v s) = v"
| "num_value (JsText s v) = v"

record rational =
  rat_n :: int
  rat_d :: int

definition is_digit :: "char \<Rightarrow> bool" where
  "is_digit c \<longleftrightarrow> 48 \<le> (of_char c :: nat) \<and> (of_char c :: nat) \<le> 57"

definition digits_value :: "string \<Rightarrow> int" where
  "digits_value s = foldl (\<lambda>acc c. acc * 10 + (int (of_char c) - 48)) 0 s"

text \<open>White space that \<open>String.prototype.trim\<close> removes, among the characters below U+0100.\<close>

definition is_space :: "char \<Rightarrow> bool" where
  "is_space c \<longleftrightarrow> (let n = (of_char c :: nat) in (9 \<le> n \<and> n \<le> 13) \<or> n = 32 \<or> n = 160)"

definition js_trim :: "string \<Rightarrow> string" where
  "js_trim s = rev (dropWhile is_space (rev (dropWhile is_space s)))"

text \<open>
  The match of \<open>DECIMAL_RE\<close>: a sign, integer digits, an optional point with fraction digits, an
  optional exponent. The alternatives of the expression exclude each other by their first character,
  so the leftmost greedy match is this scan. The groups: negative?, digits, fraction (None when there
  is no point), exponent text.
\<close>

definition scan_sign :: "string \<Rightarrow> bool \<times> string" where
  "scan_sign s = (case s of
      [] \<Rightarrow> (False, [])
    | c # cs \<Rightarrow> if c = CHR ''-'' then (True, cs) else if c = CHR ''+'' then (False, cs) else (False, s))"

definition scan_fraction :: "string \<Rightarrow> string option \<times> string" where
  "scan_fraction s = (case s of
      [] \<Rightarrow> (None, [])
    | c # cs \<Rightarrow> if c = CHR ''.'' then (Some (takeWhile is_digit cs), dropWhile is_digit cs) else (None, s))"

definition scan_exponent :: "string \<Rightarrow> int option option" where
  "scan_exponent s = (case s of
      [] \<Rightarrow> Some None
    | c # cs \<Rightarrow>
        if c = CHR ''e'' \<or> c = CHR ''E''
        then (let (neg, ds) = scan_sign cs
              in if ds \<noteq> [] \<and> list_all is_digit ds
                 then Some (Some (if neg then - digits_value ds else digits_value ds)) else None)
        else None)"

record decimal_match =
  dm_negative :: bool
  dm_int :: string
  dm_frac :: "string option"
  dm_exp :: "int option"

definition DECIMAL_RE :: "string \<Rightarrow> decimal_match option" where
  "DECIMAL_RE text =
     (let (neg, s1) = scan_sign text;
          ds = takeWhile is_digit s1;
          (frac, s2) = scan_fraction (dropWhile is_digit s1)
      in case scan_exponent s2 of
           None \<Rightarrow> None
         | Some e \<Rightarrow> Some \<lparr>dm_negative = neg, dm_int = ds, dm_frac = frac, dm_exp = e\<rparr>)"

definition numberToString :: "jsnum \<Rightarrow> string \<Rightarrow> string result" where
  "numberToString value text = (if isFinite value then Inr text else Inl (RangeError ''not a finite number''))"

definition toRational :: "num_or_text \<Rightarrow> rational result" where
  "toRational value =
     bindE (case value of JsNumber v s \<Rightarrow> numberToString v s | JsText s v \<Rightarrow> Inr (js_trim s)) (\<lambda>text.
       case DECIMAL_RE text of
         None \<Rightarrow> Inl (RangeError ''not a finite decimal'')
       | Some m \<Rightarrow>
           if dm_int m = [] \<and> (dm_frac m = None \<or> dm_frac m = Some [])
           then Inl (RangeError ''not a finite decimal'')
           else
             let sign = (if dm_negative m then -1 else 1);
                 fracPart = (case dm_frac m of None \<Rightarrow> [] | Some f \<Rightarrow> f);
                 expo = (case dm_exp m of None \<Rightarrow> 0 | Some e \<Rightarrow> e)
             in if \<bar>expo\<bar> > 400 then Inl (RangeError ''exponent out of range'')
                else
                  let n = digits_value (dm_int m @ fracPart) * sign;
                      d = 10 ^ length fracPart
                  in Inr (if expo > 0 then \<lparr>rat_n = n * 10 ^ nat expo, rat_d = d\<rparr>
                          else if expo < 0 then \<lparr>rat_n = n, rat_d = d * 10 ^ nat (- expo)\<rparr>
                          else \<lparr>rat_n = n, rat_d = d\<rparr>))"

definition assertDecimals :: "jsnum \<Rightarrow> int result" where
  "assertDecimals decimals = integer_in 0 30 decimals (RangeError ''decimals must be an integer in [0, 30]'')"

definition assertMultiplier :: "num_or_text \<Rightarrow> unit result" where
  "assertMultiplier multiplier = check (case num_value multiplier of Fin q \<Rightarrow> \<not> q \<le> 0 | _ \<Rightarrow> False)
     (RangeError ''multiplier must be a positive finite number'')"

definition floorDiv :: "int \<Rightarrow> int \<Rightarrow> int result" where
  "floorDiv n d = bindE (big_div n d) (\<lambda>q. Inr (if n < 0 \<and> q * d \<noteq> n then q - 1 else q))"

definition ceilDiv :: "int \<Rightarrow> int \<Rightarrow> int result" where
  "ceilDiv n d = bindE (big_div n d) (\<lambda>q. Inr (if n > 0 \<and> q * d \<noteq> n then q + 1 else q))"

definition uiToRaw :: "num_or_text \<Rightarrow> jsnum \<Rightarrow> num_or_text \<Rightarrow> int result" where
  "uiToRaw ui decimals multiplier =
     bindE (assertDecimals decimals) (\<lambda>dec.
     bindE (assertMultiplier multiplier) (\<lambda>_.
     bindE (toRational ui) (\<lambda>u.
     bindE (check (\<not> rat_n u < 0) (RangeError ''ui amount must be non-negative'')) (\<lambda>_.
     bindE (toRational multiplier) (\<lambda>m.
       floorDiv (rat_n u * 10 ^ nat dec * rat_d m) (rat_d u * rat_n m))))))"

datatype rounding = RoundUp | RoundDown

definition usdToQuoteRaw ::
  "num_or_text \<Rightarrow> num_or_text \<Rightarrow> jsnum \<Rightarrow> num_or_text \<Rightarrow> rounding \<Rightarrow> int result" where
  "usdToQuoteRaw usd quotePriceUsd decimals multiplier rnd =
     bindE (assertDecimals decimals) (\<lambda>dec.
     bindE (assertMultiplier multiplier) (\<lambda>_.
     bindE (toRational usd) (\<lambda>v.
     bindE (toRational quotePriceUsd) (\<lambda>p.
     bindE (toRational multiplier) (\<lambda>m.
     bindE (check (\<not> rat_n v < 0) (RangeError ''usd must be non-negative'')) (\<lambda>_.
     bindE (check (\<not> rat_n p \<le> 0) (RangeError ''quotePriceUsd must be positive'')) (\<lambda>_.
       let num = rat_n v * rat_d p * rat_d m * 10 ^ nat dec;
           den = rat_d v * rat_n p * rat_n m
       in if rnd = RoundUp then ceilDiv num den else floorDiv num den)))))))"

text \<open>\<open>a >= b\<close> on numbers: false as soon as a NaN is involved.\<close>

fun js_ge :: "jsnum \<Rightarrow> jsnum \<Rightarrow> bool" where
  "js_ge NaN b = False"
| "js_ge a NaN = False"
| "js_ge Infinity b = True"
| "js_ge a NegInfinity = True"
| "js_ge (Fin a) (Fin b) = (b \<le> a)"
| "js_ge a b = False"

record scaled_ui_config =
  su_multiplier :: num_or_text
  su_newMultiplier :: num_or_text
  su_effectiveTimestamp :: num_or_text

definition effectiveScaledUiMultiplier :: "scaled_ui_config \<Rightarrow> jsnum \<Rightarrow> jsnum result" where
  "effectiveScaledUiMultiplier config nowUnixSeconds =
     (let effectiveAt = num_value (su_effectiveTimestamp config);
          value = (if js_ge nowUnixSeconds effectiveAt then su_newMultiplier config else su_multiplier config);
          m = num_value value
      in if (case m of Fin q \<Rightarrow> q \<le> 0 | _ \<Rightarrow> True)
         then Inl (RangeError ''invalid ScaledUiAmount multiplier'') else Inr m)"

section \<open>Fee model\<close>

definition PLATFORM_GRADUATION_FEE_BPS :: int where [simp]: "PLATFORM_GRADUATION_FEE_BPS = 500"
definition CREATOR_GRADUATION_BONUS_BPS :: int where [simp]: "CREATOR_GRADUATION_BONUS_BPS = 500"
definition LP_FEE_CREATOR_BPS :: int where [simp]: "LP_FEE_CREATOR_BPS = 5000"
definition LP_FEE_PLATFORM_BPS :: int where [simp]: "LP_FEE_PLATFORM_BPS = 2000"

definition U64_MAX_BIG :: int where "U64_MAX_BIG = 2 ^ 64 - 1"

record FeeSplit =
  fs_platform :: int
  fs_creator :: int
  fs_vault :: int

definition assertU64_range :: "int \<Rightarrow> unit result" where
  "assertU64_range value = check (\<not> (value < 0 \<or> value > U64_MAX_BIG)) (RangeError ''must be a u64'')"

definition bpsFloor :: "int \<Rightarrow> int \<Rightarrow> int" where
  "bpsFloor amount bps = (amount * bps) sdiv MAX_BPS"

definition minBig :: "int \<Rightarrow> int \<Rightarrow> int" where
  "minBig a b = (if a < b then a else b)"

definition graduationSplit :: "int \<Rightarrow> int \<Rightarrow> FeeSplit result" where
  "graduationSplit thresholdRaw receivedRaw =
     bindE (assertU64_range thresholdRaw) (\<lambda>_.
     bindE (assertU64_range receivedRaw) (\<lambda>_.
       let platform = minBig (bpsFloor thresholdRaw PLATFORM_GRADUATION_FEE_BPS) receivedRaw;
           creator = minBig (bpsFloor thresholdRaw CREATOR_GRADUATION_BONUS_BPS) (receivedRaw - platform)
       in Inr \<lparr>fs_platform = platform, fs_creator = creator, fs_vault = receivedRaw - platform - creator\<rparr>))"

definition lpFeeSplit :: "int \<Rightarrow> FeeSplit result" where
  "lpFeeSplit receivedRaw =
     bindE (assertU64_range receivedRaw) (\<lambda>_.
       let creator = bpsFloor receivedRaw LP_FEE_CREATOR_BPS;
           platform = bpsFloor receivedRaw LP_FEE_PLATFORM_BPS
       in Inr \<lparr>fs_platform = platform, fs_creator = creator, fs_vault = receivedRaw - creator - platform\<rparr>)"

section \<open>Redemption: the floor never falls\<close>

text \<open>
  A sequence of redemptions as the program applies them: each burns its amount and pays its net out of
  the vault (the fee stays). The result: vault, supply and total paid at the end.
\<close>

fun redeem_run ::
  "(int \<Rightarrow> int \<Rightarrow> int \<Rightarrow> jsnum \<Rightarrow> redeem_quote result) \<Rightarrow> int \<Rightarrow> int \<Rightarrow> (int \<times> jsnum) list \<Rightarrow> (int \<times> int \<times> int) result" where
  "redeem_run quote vault supply [] = Inr (vault, supply, 0)"
| "redeem_run quote vault supply ((amount, feeBps) # rs) =
     bindE (quote vault supply amount feeBps) (\<lambda>q.
     bindE (redeem_run quote (vault - rq_net q) (supply - amount) rs) (\<lambda>(vault', supply', paid).
       Inr (vault', supply', rq_net q + paid)))"

locale floor_vault =
  fixes quote :: "int \<Rightarrow> int \<Rightarrow> int \<Rightarrow> jsnum \<Rightarrow> redeem_quote result"
  assumes domain: "quote V S a f = Inr q \<Longrightarrow> 0 \<le> V \<and> 0 < S \<and> 0 \<le> a \<and> a \<le> S"
    and pro_rata: "quote V S a f = Inr q \<Longrightarrow> rq_gross q * S \<le> V * a"
    and fee_part: "quote V S a f = Inr q \<Longrightarrow> 0 \<le> rq_fee q \<and> rq_fee q \<le> rq_gross q \<and> rq_net q = rq_gross q - rq_fee q"
begin

lemma net_le:
  assumes "quote V S a f = Inr q"
  shows "rq_net q * S \<le> V * a"
proof -
  have "rq_net q * S \<le> rq_gross q * S"
    using fee_part [OF assms] domain [OF assms] by (intro mult_right_mono) simp_all
  with pro_rata [OF assms] show ?thesis by linarith
qed

lemma vault_left:
  assumes "quote V S a f = Inr q"
  shows "0 \<le> V - rq_net q" "0 \<le> S - a"
proof -
  note d = domain [OF assms]
  have "V * a \<le> V * S" using d by (intro mult_left_mono) simp_all
  with net_le [OF assms] have "rq_net q * S \<le> V * S" by linarith
  with d show "0 \<le> V - rq_net q" by simp
  from d show "0 \<le> S - a" by simp
qed

text \<open>One redemption: \<open>V / S \<le> (V - net) / (S - a)\<close>, cross-multiplied.\<close>

lemma floor_step:
  assumes "quote V S a f = Inr q"
  shows "V * (S - a) \<le> (V - rq_net q) * S"
  using net_le [OF assms] by (simp add: algebra_simps)

text \<open>The supply may reach zero in the middle of a run; then nothing can follow.\<close>

lemma run_floor:
  assumes "redeem_run quote V S rs = Inr (V', S', paid)" "0 \<le> V" "0 \<le> S"
  shows "V * S' \<le> V' * S \<and> 0 \<le> V' \<and> 0 \<le> S' \<and> S' \<le> S \<and> paid = V - V'"
  using assms
proof (induction rs arbitrary: V S paid)
  case (Cons r rs)
  obtain a f where r: "r = (a, f)" by (cases r)
  from Cons.prems(1) obtain q paid' where q: "quote V S a f = Inr q"
    and rest: "redeem_run quote (V - rq_net q) (S - a) rs = Inr (V', S', paid')"
    and paid: "paid = rq_net q + paid'"
    by (auto simp: r result_simps)
  let ?V = "V - rq_net q" and ?S = "S - a"
  note left = vault_left [OF q]
  from Cons.IH [OF rest left]
  have IH: "?V * S' \<le> V' * ?S" "0 \<le> V'" "0 \<le> S'" "S' \<le> ?S" "paid' = ?V - V'" by blast+
  have "V * S' \<le> V' * S"
  proof (cases "?S = 0")
    case True
    with IH have "S' = 0" by simp
    with IH Cons.prems show ?thesis by simp
  next
    case False
    with left have pos: "0 < ?S" by simp
    have "(V * ?S) * S' \<le> (?V * S) * S'"
      using floor_step [OF q] IH by (intro mult_right_mono) simp_all
    also have "\<dots> = (?V * S') * S" by simp
    also have "\<dots> \<le> (V' * ?S) * S" using IH Cons.prems by (intro mult_right_mono) simp_all
    finally have "(V * S') * ?S \<le> (V' * S) * ?S" by (simp add: mult.commute mult.left_commute)
    with pos show ?thesis by simp
  qed
  moreover have "S' \<le> S" using IH domain [OF q] by simp
  ultimately show ?case using IH paid by simp
qed simp

text \<open>Hence the total paid stays below the pro-rata share of the state the run started from.\<close>

lemma run_paid:
  assumes "redeem_run quote V S rs = Inr (V', S', paid)" "0 \<le> V" "0 < S"
  shows "paid \<le> V * (S - S') div S"
proof -
  from run_floor [OF assms(1)] assms have le: "V * S' \<le> V' * S" and paid: "paid = V - V'" by simp_all
  have "paid * S \<le> V * (S - S')" using le unfolding paid by (simp add: algebra_simps)
  with assms show ?thesis by (simp add: le_floor_div_iff)
qed

end

lemma redeemQuote_eq_Inr:
  "redeemQuote V S a f = Inr q \<longleftrightarrow>
     0 \<le> V \<and> 0 \<le> a \<and> 0 < S \<and> a \<le> S \<and>
     (\<exists>bps. f = JsInt bps \<and> 0 \<le> bps \<and> bps \<le> 10000 \<and>
        q = \<lparr>rq_gross = V * a div S, rq_fee = (V * a div S * bps + 9999) div 10000,
             rq_net = V * a div S - (V * a div S * bps + 9999) div 10000\<rparr>)"
  (is "?L \<longleftrightarrow> ?R")
proof
  assume ?L
  then show ?R
    by (auto simp: redeemQuote_def assertNonNegative_def Let_def result_simps pos_imp_zdiv_nonneg_iff)
next
  assume ?R
  then show ?L
    by (auto simp: redeemQuote_def assertNonNegative_def Let_def pos_imp_zdiv_nonneg_iff)
qed

lemma exit_fee_bounds:
  fixes g bps :: int
  assumes "0 \<le> g" "0 \<le> bps" "bps \<le> 10000"
  shows "0 \<le> (g * bps + 9999) div 10000" "(g * bps + 9999) div 10000 \<le> g"
proof -
  from assms have "0 \<le> g * bps" by simp
  then show "0 \<le> (g * bps + 9999) div 10000" by (simp add: pos_imp_zdiv_nonneg_iff)
  have "g * bps \<le> g * 10000" using assms by (intro mult_left_mono)
  then show "(g * bps + 9999) div 10000 \<le> g"
    using ceil_div_le_iff [of 10000 "g * bps" g] by simp
qed

interpretation redeem: floor_vault redeemQuote
proof unfold_locales
  fix V S a :: int and f q
  assume q: "redeemQuote V S a f = Inr q"
  then obtain bps where d: "0 \<le> V" "0 \<le> a" "0 < S" "a \<le> S" "0 \<le> bps" "bps \<le> 10000"
    and eq: "rq_gross q = V * a div S" "rq_fee q = (V * a div S * bps + 9999) div 10000"
      "rq_net q = rq_gross q - rq_fee q"
    by (auto simp: redeemQuote_eq_Inr)
  from d have g: "0 \<le> V * a div S" by (simp add: pos_imp_zdiv_nonneg_iff)
  show "0 \<le> V \<and> 0 < S \<and> 0 \<le> a \<and> a \<le> S" using d by simp
  show "rq_gross q * S \<le> V * a" unfolding eq using d(3) by (rule floor_div_bounds)
  show "0 \<le> rq_fee q \<and> rq_fee q \<le> rq_gross q \<and> rq_net q = rq_gross q - rq_fee q"
    using exit_fee_bounds [OF g d(5,6)] eq by simp
qed

section \<open>Fee splits conserve what was received\<close>

locale fee_split =
  fixes split :: "int \<Rightarrow> FeeSplit result"
  assumes conserves: "split received = Inr s \<Longrightarrow> fs_platform s + fs_creator s + fs_vault s = received"
    and parts: "split received = Inr s \<Longrightarrow> 0 \<le> fs_platform s \<and> 0 \<le> fs_creator s \<and> 0 \<le> fs_vault s"
    and fits: "split received = Inr s \<Longrightarrow> received \<le> U64_MAX_BIG"
begin

lemma part_le:
  assumes "split received = Inr s"
  shows "fs_platform s \<le> received" "fs_creator s \<le> received" "fs_vault s \<le> received"
  using conserves [OF assms] parts [OF assms] by linarith+

lemma parts_fit_u64:
  assumes "split received = Inr s" "x \<in> {fs_platform s, fs_creator s, fs_vault s}"
  shows "0 \<le> x \<and> x \<le> U64_MAX_BIG"
  using part_le [OF assms(1)] parts [OF assms(1)] fits [OF assms(1)] assms(2) by auto

text \<open>Splitting a list of harvests: the three accounts together gain exactly what was harvested.\<close>

lemma total_conserved:
  assumes "list_all2 (\<lambda>r s. split r = Inr s) rs ss"
  shows "sum_list (map fs_platform ss) + sum_list (map fs_creator ss) + sum_list (map fs_vault ss) = sum_list rs"
  using assms
proof (induction rule: list_all2_induct)
  case (Cons r rs s ss)
  with conserves [of r s] show ?case by simp
qed simp

end

lemma bpsFloor_bounds:
  assumes "0 \<le> x" "0 \<le> b"
  shows "0 \<le> bpsFloor x b" "bpsFloor x b * 10000 \<le> x * b" "bpsFloor x b = x * b div 10000"
proof -
  show eq: "bpsFloor x b = x * b div 10000" using assms by (simp add: bpsFloor_def)
  show "0 \<le> bpsFloor x b" using assms by (simp add: eq pos_imp_zdiv_nonneg_iff)
  show "bpsFloor x b * 10000 \<le> x * b" unfolding eq by (rule floor_div_bounds) simp
qed

lemma minBig_eq [simp]: "minBig a b = min a b"
  by (simp add: minBig_def min_def)

interpretation lp_split: fee_split lpFeeSplit
proof unfold_locales
  fix r s
  assume "lpFeeSplit r = Inr s"
  then have r: "0 \<le> r" "r \<le> U64_MAX_BIG"
    and s: "fs_platform s = bpsFloor r 2000" "fs_creator s = bpsFloor r 5000"
      "fs_vault s = r - bpsFloor r 5000 - bpsFloor r 2000"
    by (auto simp: lpFeeSplit_def assertU64_range_def Let_def)
  note b = bpsFloor_bounds [OF r(1), of 2000] bpsFloor_bounds [OF r(1), of 5000]
  show "fs_platform s + fs_creator s + fs_vault s = r" by (simp add: s)
  show "0 \<le> fs_platform s \<and> 0 \<le> fs_creator s \<and> 0 \<le> fs_vault s" using b r by (simp add: s)
  show "r \<le> U64_MAX_BIG" by (rule r)
qed

interpretation graduation_split: fee_split "graduationSplit t"
proof unfold_locales
  fix r s
  assume "graduationSplit t r = Inr s"
  then have t: "0 \<le> t" and r: "0 \<le> r" "r \<le> U64_MAX_BIG"
    and s: "fs_platform s = min (bpsFloor t 500) r"
      "fs_creator s = min (bpsFloor t 500) (r - fs_platform s)"
      "fs_vault s = r - fs_platform s - fs_creator s"
    by (auto simp: graduationSplit_def assertU64_range_def Let_def)
  have "0 \<le> bpsFloor t 500" by (rule bpsFloor_bounds) (use t in simp_all)
  with r s show "0 \<le> fs_platform s \<and> 0 \<le> fs_creator s \<and> 0 \<le> fs_vault s" by (simp add: min_def)
  show "fs_platform s + fs_creator s + fs_vault s = r" by (simp add: s)
  show "r \<le> U64_MAX_BIG" by (rule r)
qed

section \<open>Exact conversions\<close>

definition rat_value :: "rational \<Rightarrow> rat" where
  "rat_value r = of_int (rat_n r) / of_int (rat_d r)"

lemma toRational_pos:
  assumes "toRational v = Inr r"
  shows "0 < rat_d r"
proof -
  from assms obtain txt0 m where "DECIMAL_RE txt0 = Some m" and
    "(let sign = (if dm_negative m then -1 else 1);
          fracPart = (case dm_frac m of None \<Rightarrow> [] | Some f \<Rightarrow> f);
          expo = (case dm_exp m of None \<Rightarrow> 0 | Some e \<Rightarrow> e)
      in if \<bar>expo\<bar> > 400 then Inl (RangeError ''exponent out of range'')
         else
           let n = digits_value (dm_int m @ fracPart) * sign;
               d = 10 ^ length fracPart
           in Inr (if expo > 0 then \<lparr>rat_n = n * 10 ^ nat expo, rat_d = d\<rparr>
                   else if expo < 0 then \<lparr>rat_n = n, rat_d = d * 10 ^ nat (- expo)\<rparr>
                   else \<lparr>rat_n = n, rat_d = d\<rparr>)) = Inr r"
    unfolding toRational_def by (elim bindE_InrE) (simp split: option.split_asm if_split_asm)
  then show ?thesis by (auto simp: Let_def split: if_split_asm)
qed

text \<open>\<open>floorDiv\<close> and \<open>ceilDiv\<close> correct the truncation of \<open>/\<close> for either sign of the numerator.\<close>

lemma sdiv_neg: "n < 0 \<Longrightarrow> 0 < d \<Longrightarrow> n sdiv d = - (- n div d)" for n d :: int
  by (simp add: signed_divide_int_def sgn_if)

lemma floorDiv_eq:
  assumes "0 < d"
  shows "floorDiv n d = Inr (n div d)"
proof (cases "n < 0")
  case True
  let ?q = "- n div d"
  have b: "?q * d \<le> - n" "- n < (?q + 1) * d" by (rule floor_div_bounds [OF assms])+
  show ?thesis
  proof (cases "?q * d = - n")
    case eq: True
    then have "n div d = - ?q" using assms by (intro floor_div_unique) (simp_all add: algebra_simps)
    then show ?thesis using True assms eq by (simp add: floorDiv_def big_div_def sdiv_neg)
  next
    case ne: False
    then have "- ?q * d \<noteq> n" by simp
    moreover have "n div d = - ?q - 1"
      using b ne assms by (intro floor_div_unique) (simp_all add: algebra_simps)
    ultimately show ?thesis using True assms by (simp add: floorDiv_def big_div_def sdiv_neg)
  qed
next
  case False
  then show ?thesis using assms by (simp add: floorDiv_def)
qed

lemma ceilDiv_eq:
  assumes "0 < d"
  shows "ceilDiv n d = Inr (- (- n div d))"
proof (cases "n > 0")
  case True
  let ?q = "n div d"
  have b: "?q * d \<le> n" "n < (?q + 1) * d" by (rule floor_div_bounds [OF assms])+
  show ?thesis
  proof (cases "?q * d = n")
    case eq: True
    then have "- n div d = - ?q" using assms by (intro floor_div_unique) (simp_all add: algebra_simps)
    then show ?thesis using True assms eq by (simp add: ceilDiv_def)
  next
    case ne: False
    then have "- n div d = - ?q - 1"
      using b assms by (intro floor_div_unique) (simp_all add: algebra_simps)
    then show ?thesis using True assms ne by (simp add: ceilDiv_def)
  qed
next
  case False
  then show ?thesis using assms by (cases "n = 0") (simp_all add: ceilDiv_def big_div_def sdiv_neg)
qed

lemma floor_rat_div: "0 < d \<Longrightarrow> \<lfloor>of_int n / of_int d :: rat\<rfloor> = n div d"
  by (simp add: floor_divide_of_int_eq)

lemma ceiling_rat_div: "0 < d \<Longrightarrow> \<lceil>of_int n / of_int d :: rat\<rceil> = - (- n div d)"
  using floor_rat_div [of d "- n"] by (simp add: ceiling_def)

lemma rat_n_pos_iff: "0 < rat_d r \<Longrightarrow> 0 < rat_value r \<longleftrightarrow> 0 < rat_n r"
  by (simp add: rat_value_def zero_less_divide_iff)

lemma uiToRaw_exact:
  assumes ret: "uiToRaw ui (JsInt dec) multiplier = Inr raw"
    and u: "toRational ui = Inr u" and m: "toRational multiplier = Inr m" and pos: "0 < rat_value m"
  shows "raw = \<lfloor>rat_value u * 10 ^ nat dec / rat_value m\<rfloor>" "0 \<le> raw"
proof -
  note du = toRational_pos [OF u] and dm = toRational_pos [OF m]
  have nm: "0 < rat_n m" using pos rat_n_pos_iff [OF dm] by simp
  let ?n = "rat_n u * 10 ^ nat dec * rat_d m" and ?d = "rat_d u * rat_n m"
  have d: "0 < ?d" using du nm by simp
  from ret have nn: "0 \<le> rat_n u" and raw: "raw = ?n div ?d"
    using d by (auto simp: uiToRaw_def u m result_simps floorDiv_eq assertDecimals_def)
  have "rat_value u * 10 ^ nat dec / rat_value m = (of_int ?n / of_int ?d :: rat)"
    using du dm nm by (simp add: rat_value_def)
  with d show "raw = \<lfloor>rat_value u * 10 ^ nat dec / rat_value m\<rfloor>"
    unfolding raw by (metis floor_rat_div)
  show "0 \<le> raw" unfolding raw using nn d dm by (simp add: pos_imp_zdiv_nonneg_iff)
qed

lemma usdToQuoteRaw_exact:
  assumes ret: "usdToQuoteRaw usd price (JsInt dec) multiplier rnd = Inr raw"
    and v: "toRational usd = Inr v" and p: "toRational price = Inr p"
    and m: "toRational multiplier = Inr m" and pos: "0 < rat_value m"
  defines "exact \<equiv> rat_value v / rat_value p * 10 ^ nat dec / rat_value m"
  shows "raw = (if rnd = RoundUp then \<lceil>exact\<rceil> else \<lfloor>exact\<rfloor>)" "0 < rat_value p"
proof -
  note dv = toRational_pos [OF v] and dp = toRational_pos [OF p] and dm = toRational_pos [OF m]
  have nm: "0 < rat_n m" using pos rat_n_pos_iff [OF dm] by simp
  let ?n = "rat_n v * rat_d p * rat_d m * 10 ^ nat dec" and ?d = "rat_d v * rat_n p * rat_n m"
  from ret have np: "0 < rat_n p"
    and r: "(if rnd = RoundUp then ceilDiv ?n ?d else floorDiv ?n ?d) = Inr raw"
    by (auto simp: usdToQuoteRaw_def v p m result_simps Let_def assertDecimals_def split: if_splits)
  then have d: "0 < ?d" using dv nm by simp
  have "exact = of_int ?n / of_int ?d"
    using dv dp dm nm np by (simp add: exact_def rat_value_def)
  then have "\<lceil>exact\<rceil> = - (- ?n div ?d)" "\<lfloor>exact\<rfloor> = ?n div ?d"
    by (simp_all only: ceiling_rat_div [OF d] floor_rat_div [OF d])
  with r d show "raw = (if rnd = RoundUp then \<lceil>exact\<rceil> else \<lfloor>exact\<rfloor>)"
    by (auto simp: ceilDiv_eq floorDiv_eq)
  show "0 < rat_value p" using np rat_n_pos_iff [OF dp] by simp
qed

text \<open>The decimal reader on the texts it is meant for: sign, digits, point, digits, exponent.\<close>

definition decimal_text :: "bool \<Rightarrow> string \<Rightarrow> string \<Rightarrow> string" where
  "decimal_text negative ds fs = (if negative then ''-'' else []) @ ds @ (if fs = [] then [] else ''.'' @ fs)"

lemma is_digit_not_special:
  "is_digit c \<Longrightarrow> c \<noteq> CHR ''.'' \<and> c \<noteq> CHR ''-'' \<and> c \<noteq> CHR ''+'' \<and> \<not> is_space c"
  by (auto simp: is_digit_def is_space_def Let_def)

lemma DECIMAL_RE_text:
  assumes ds: "list_all is_digit ds" "list_all is_digit fs" "ds \<noteq> []"
  shows "DECIMAL_RE (decimal_text neg ds fs) =
    Some \<lparr>dm_negative = neg, dm_int = ds, dm_frac = (if fs = [] then None else Some fs), dm_exp = None\<rparr>"
proof -
  let ?tail = "if fs = [] then [] else ''.'' @ fs"
  from ds obtain c cs where c: "ds = c # cs" "is_digit c" by (cases ds) auto
  note nc = is_digit_not_special [OF c(2)]
  have sign: "scan_sign (decimal_text neg ds fs) = (neg, ds @ ?tail)"
    using nc by (simp add: decimal_text_def scan_sign_def c)
  have dot: "\<not> is_digit CHR ''.''" by (simp add: is_digit_def)
  have take_ds: "takeWhile is_digit (ds @ ?tail) = ds" "dropWhile is_digit (ds @ ?tail) = ?tail"
    using ds(1) dot by (auto simp: list_all_iff takeWhile_append dropWhile_append)
  have take_fs: "takeWhile is_digit fs = fs" "dropWhile is_digit fs = []"
    using ds(2) by (simp_all add: list_all_iff takeWhile_eq_all_conv)
  have "scan_fraction ?tail = (if fs = [] then None else Some fs, [])"
    using take_fs by (simp add: scan_fraction_def)
  then show ?thesis using sign take_ds by (simp add: DECIMAL_RE_def scan_exponent_def)
qed

lemma js_trim_clean: "list_all (\<lambda>c. \<not> is_space c) s \<Longrightarrow> js_trim s = s"
proof -
  assume a: "list_all (\<lambda>c. \<not> is_space c) s"
  have drop: "dropWhile is_space t = t" if "list_all (\<lambda>c. \<not> is_space c) t" for t
    using that by (cases t) simp_all
  from drop [OF a] have "js_trim s = rev (dropWhile is_space (rev s))" by (simp add: js_trim_def)
  also have "dropWhile is_space (rev s) = rev s"
    using a by (intro drop) (simp add: list_all_iff)
  finally show ?thesis by simp
qed

lemma decimal_text_clean:
  "list_all is_digit ds \<Longrightarrow> list_all is_digit fs \<Longrightarrow> list_all (\<lambda>c. \<not> is_space c) (decimal_text neg ds fs)"
  using is_digit_not_special by (auto simp: decimal_text_def list_all_iff is_space_def Let_def)

lemma toRational_text:
  assumes "list_all is_digit ds" "list_all is_digit fs" "ds \<noteq> []"
  shows "toRational (JsText (decimal_text neg ds fs) v) =
    Inr \<lparr>rat_n = digits_value (ds @ fs) * (if neg then -1 else 1), rat_d = 10 ^ length fs\<rparr>"
  using assms
  by (simp add: toRational_def js_trim_clean decimal_text_clean DECIMAL_RE_text)

section \<open>Properties\<close>

text \<open>
  C4: the floor per token never falls. However a sequence of redemptions is split and whatever fees it
  pays, the vault left per token left is at least the vault per token it started from (cross-multiplied,
  so it also holds when the supply runs out), and vault and supply stay non-negative.
\<close>

theorem redemptions_never_lower_floor:
  assumes "redeem_run redeemQuote V S rs = Inr (V', S', paid)" "0 \<le> V" "0 \<le> S"
  shows "V * S' \<le> V' * S \<and> 0 \<le> V' \<and> 0 \<le> S' \<and> S' \<le> S \<and> paid = V - V'"
  by (rule redeem.run_floor [OF assms])

lemma redemptions_never_lower_floor_witness:
  "redeem_run redeemQuote 1000 300 [(100, JsInt 500), (50, JsInt 0), (100, JsInt 10000)] = Inr (513, 50, 487) \<and>
   1000 * (50 :: int) \<le> 513 * 300"
proof -
  have r: "redeem_run redeemQuote 1000 300 [(100, JsInt 500), (50, JsInt 0), (100, JsInt 10000)] = Inr (513, 50, 487)"
    by code_simp
  from redemptions_never_lower_floor [OF r] r show ?thesis by simp
qed



text \<open>
  \<open>redeemQuote\<close> on every branch: it returns exactly for a non-negative vault, an amount within a
  positive supply and an integer fee in range; then the gross is the floored share, the fee is rounded up
  and the net is what is left of the gross.
\<close>

theorem redeemQuote_characterised:
  "redeemQuote V S a f = Inr q \<longleftrightarrow>
     0 \<le> V \<and> 0 \<le> a \<and> 0 < S \<and> a \<le> S \<and>
     (\<exists>bps. f = JsInt bps \<and> 0 \<le> bps \<and> bps \<le> 10000 \<and>
        q = \<lparr>rq_gross = V * a div S, rq_fee = (V * a div S * bps + 9999) div 10000,
             rq_net = V * a div S - (V * a div S * bps + 9999) div 10000\<rparr>)"
  by (rule redeemQuote_eq_Inr)

text \<open>
  Every fee split pays out exactly what was received, in non-negative u64 parts: the LP fee split
  and, for any migration threshold, the graduation split; over a list of harvests the three accounts
  together gain the sum of the harvests.
\<close>

theorem fee_splits_conserve:
  assumes "split = lpFeeSplit \<or> split = graduationSplit t"
    and "list_all2 (\<lambda>r s. split r = Inr s) rs ss"
  shows "sum_list (map fs_platform ss) + sum_list (map fs_creator ss) + sum_list (map fs_vault ss) = sum_list rs \<and>
    (\<forall>s \<in> set ss. \<forall>x \<in> {fs_platform s, fs_creator s, fs_vault s}. 0 \<le> x \<and> x \<le> U64_MAX_BIG)"
proof -
  have parts: "\<exists>r. split r = Inr s" if "s \<in> set ss" for s
    using that assms(2) by (auto simp: list_all2_conv_all_nth in_set_conv_nth)
  from assms(1) show ?thesis
  proof
    assume "split = lpFeeSplit"
    then show ?thesis
      using assms(2) parts lp_split.total_conserved lp_split.parts_fit_u64 by blast
  next
    assume "split = graduationSplit t"
    then show ?thesis
      using assms(2) parts graduation_split.total_conserved graduation_split.parts_fit_u64 by blast
  qed
qed

lemma fee_splits_conserve_witness:
  "graduationSplit 1000 300 = Inr \<lparr>fs_platform = 50, fs_creator = 50, fs_vault = 200\<rparr> \<and> 50 + 50 + 200 = (300 :: int)"
proof -
  have g: "graduationSplit 1000 300 = Inr \<lparr>fs_platform = 50, fs_creator = 50, fs_vault = 200\<rparr>"
    by (simp add: graduationSplit_def assertU64_range_def U64_MAX_BIG_def bpsFloor_def)
  have "list_all2 (\<lambda>r s. graduationSplit 1000 r = Inr s) [300] [\<lparr>fs_platform = 50, fs_creator = 50, fs_vault = 200\<rparr>]"
    by (simp add: g)
  from fee_splits_conserve [OF _ this, of 1000] g show ?thesis by simp
qed

text \<open>
  \<open>uiToRaw\<close> is exact: for decimal inputs the raw amount is the floor of \<open>ui * 10 ^ decimals /
  multiplier\<close> as a rational, whatever the sign of the exponents and the number of digits.
\<close>

theorem uiToRaw_is_floor:
  assumes "uiToRaw ui (JsInt dec) multiplier = Inr raw"
    and "toRational ui = Inr u" "toRational multiplier = Inr m" "0 < rat_value m"
  shows "raw = \<lfloor>rat_value u * 10 ^ nat dec / rat_value m\<rfloor> \<and> 0 \<le> raw"
  using uiToRaw_exact [OF assms] by simp

text \<open>
  \<open>usdToQuoteRaw\<close> rounds the exact quote amount the way it was asked to: up, it is worth at least
  the USD amount and one unit less would not be; down, it is worth at most the USD amount.
\<close>

theorem usdToQuoteRaw_rounds:
  assumes "usdToQuoteRaw usd price (JsInt dec) multiplier rnd = Inr raw"
    and "toRational usd = Inr v" "toRational price = Inr p" "toRational multiplier = Inr m" "0 < rat_value m"
  shows "0 < rat_value p \<and>
    (let worth = (\<lambda>r. of_int r * rat_value m / 10 ^ nat dec * rat_value p)
     in if rnd = RoundUp then rat_value v \<le> worth raw \<and> worth (raw - 1) < rat_value v
        else worth raw \<le> rat_value v \<and> rat_value v < worth (raw + 1))"
proof -
  note e = usdToQuoteRaw_exact [OF assms]
  define x where "x = rat_value v / rat_value p * 10 ^ nat dec / rat_value m"
  have pos: "0 < rat_value p" "0 < rat_value m" using e(2) assms(5) by simp_all
  have v: "rat_value v = x * rat_value m / 10 ^ nat dec * rat_value p"
    using pos by (simp add: x_def)
  have k: "0 < rat_value m / 10 ^ nat dec * rat_value p" using pos by simp
  have worth: "r * rat_value m / 10 ^ nat dec * rat_value p = r * (rat_value m / 10 ^ nat dec * rat_value p)" for r
    by simp
  have mono: "a * (rat_value m / 10 ^ nat dec * rat_value p) \<le> b * (rat_value m / 10 ^ nat dec * rat_value p) \<longleftrightarrow> a \<le> b" for a b
    by (rule mult_le_cancel_right_pos [OF k])
  have smono: "a * (rat_value m / 10 ^ nat dec * rat_value p) < b * (rat_value m / 10 ^ nat dec * rat_value p) \<longleftrightarrow> a < b" for a b
    by (rule mult_less_cancel_right_pos [OF k])
  have raw: "raw = (if rnd = RoundUp then \<lceil>x\<rceil> else \<lfloor>x\<rfloor>)" using e(1) by (simp add: x_def)
  show ?thesis
  proof (cases "rnd = RoundUp")
    case True
    then have r: "raw = \<lceil>x\<rceil>" using raw by simp
    have "x \<le> of_int raw" "of_int (raw - 1) < x" unfolding r by linarith+
    then show ?thesis using True e(2) unfolding v Let_def worth mono smono by simp
  next
    case False
    then have r: "raw = \<lfloor>x\<rfloor>" using raw by simp
    have "of_int raw \<le> x" "x < of_int (raw + 1)" unfolding r by linarith+
    then show ?thesis using False e(2) unfolding v Let_def worth mono smono by simp
  qed
qed

text \<open>
  The decimal reader reads decimal notation: a sign, digits and an optional fraction denote the
  digits as one integer over the power of ten of the fraction's length, exactly, with no rounding.
\<close>

theorem toRational_reads_decimals:
  assumes "list_all is_digit ds" "list_all is_digit fs" "ds \<noteq> []"
  shows "toRational (JsText (decimal_text neg ds fs) v) =
    Inr \<lparr>rat_n = digits_value (ds @ fs) * (if neg then -1 else 1), rat_d = 10 ^ length fs\<rparr>"
  by (rule toRational_text [OF assms])

end
