(* ===== verification/Bytes.thy ===== *)
theory Bytes
  imports Prelude
begin

unbundle bit_operations_syntax

text \<open>
  \<^verbatim>\<open>packages/sdk/src/bytes.ts\<close>: little-endian readers and writers over byte arrays (lists of
  \<^typ>\<open>8 word\<close>), with the range check that makes a read outside the array throw. The base64 helpers (\<open>atob\<close>/\<open>btoa\<close>) are not modelled.

  The lemmas: a read returns exactly when the range is inside the array, its value is in range, writing
  and reading a u64 round trip both ways, and \<open>readUintLE\<close> agrees with the fixed-width readers.
\<close>

type_synonym bytes = "8 word list"
type_synonym pubkey = "8 word list"

section \<open>Readers\<close>

definition need :: "bytes \<Rightarrow> int \<Rightarrow> int \<Rightarrow> unit result" where
  "need data offset len = check (\<not> (offset < 0 \<or> offset + len > int (length data))) (RangeError ''read out of range'')"

text \<open>\<open>data.subarray(offset, offset + len)\<close> for an offset inside the array.\<close>

definition subarray :: "bytes \<Rightarrow> int \<Rightarrow> int \<Rightarrow> bytes" where
  "subarray data from to = take (nat to - nat from) (drop (nat from) data)"

text \<open>What \<open>DataView.getUint16/32/getBigUint64(_, true)\<close> return for the bytes they cover.\<close>

fun le_uint :: "bytes \<Rightarrow> int" where
  "le_uint [] = 0"
| "le_uint (b # bs) = uint b + 256 * le_uint bs"

definition readU8 :: "bytes \<Rightarrow> int \<Rightarrow> int result" where
  "readU8 data offset = bindE (need data offset 1) (\<lambda>_. Inr (uint (data ! nat offset)))"

definition readBool :: "bytes \<Rightarrow> int \<Rightarrow> bool result" where
  "readBool data offset = bindE (readU8 data offset) (\<lambda>v. Inr (v \<noteq> 0))"

definition readU16 :: "bytes \<Rightarrow> int \<Rightarrow> int result" where
  "readU16 data offset = bindE (need data offset 2) (\<lambda>_. Inr (le_uint (subarray data offset (offset + 2))))"

definition readU32 :: "bytes \<Rightarrow> int \<Rightarrow> int result" where
  "readU32 data offset = bindE (need data offset 4) (\<lambda>_. Inr (le_uint (subarray data offset (offset + 4))))"

definition readU64 :: "bytes \<Rightarrow> int \<Rightarrow> int result" where
  "readU64 data offset = bindE (need data offset 8) (\<lambda>_. Inr (le_uint (subarray data offset (offset + 8))))"

text \<open>\<open>getBigInt64\<close> reads the same eight bytes as a two's complement number.\<close>

definition signed64 :: "int \<Rightarrow> int" where
  "signed64 v = (if v \<ge> 2 ^ 63 then v - 2 ^ 64 else v)"

definition readI64 :: "bytes \<Rightarrow> int \<Rightarrow> int result" where
  "readI64 data offset = bindE (need data offset 8) (\<lambda>_.
     Inr (signed64 (le_uint (subarray data offset (offset + 8)))))"

definition readU128 :: "bytes \<Rightarrow> int \<Rightarrow> int result" where
  "readU128 data offset = bindE (need data offset 16) (\<lambda>_.
     Inr (le_uint (subarray data offset (offset + 8)) OR
          push_bit 64 (le_uint (subarray data (offset + 8) (offset + 16)))))"

text \<open>The loop of \<open>readUintLE\<close> from the last byte to the first.\<close>

definition readUintLE :: "bytes \<Rightarrow> int" where
  "readUintLE bytes = foldl (\<lambda>v b. push_bit 8 v OR uint b) 0 (rev bytes)"

text \<open>The number an IEEE 754 double denotes, from its 64 bits: sign, 11 exponent bits, 52 fraction bits.\<close>

definition f64_value :: "int \<Rightarrow> jsnum" where
  "f64_value v =
     (let negative = v \<ge> 2 ^ 63;
          expo = (v div 2 ^ 52) mod 2 ^ 11;
          frac = v mod 2 ^ 52
      in if expo = 2047 then (if frac = 0 then (if negative then NegInfinity else Infinity) else NaN)
         else let magnitude = (if expo = 0 then of_int frac / 2 ^ 1074
                               else of_int (2 ^ 52 + frac) * 2 ^ nat expo / 2 ^ 1075)
              in Fin (if negative then - magnitude else magnitude))"

definition readF64 :: "bytes \<Rightarrow> int \<Rightarrow> jsnum result" where
  "readF64 data offset = bindE (need data offset 8) (\<lambda>_.
     Inr (f64_value (le_uint (subarray data offset (offset + 8)))))"

definition readPubkey :: "bytes \<Rightarrow> int \<Rightarrow> pubkey result" where
  "readPubkey data offset = bindE (need data offset 32) (\<lambda>_. Inr (subarray data offset (offset + 32)))"

section \<open>Writers and comparisons\<close>

text \<open>\<open>setBigUint64\<close> writes the value modulo \<open>2 ^ 64\<close>.\<close>

fun le_bytes :: "nat \<Rightarrow> int \<Rightarrow> bytes" where
  "le_bytes 0 v = []"
| "le_bytes (Suc n) v = word_of_int v # le_bytes n (v div 256)"

definition writeU64 :: "int \<Rightarrow> bytes" where
  "writeU64 value = le_bytes 8 value"

text \<open>The index loop that \<open>bytesEqual\<close> and \<open>startsWith\<close> share: every index below \<open>n\<close> holds the same byte.\<close>

fun same_from :: "bytes \<Rightarrow> bytes \<Rightarrow> nat \<Rightarrow> nat \<Rightarrow> bool" where
  "same_from a b i 0 = True"
| "same_from a b i (Suc n) = (if a ! i \<noteq> b ! i then False else same_from a b (Suc i) n)"

definition bytesEqual :: "bytes \<Rightarrow> bytes \<Rightarrow> bool" where
  "bytesEqual a b = (if length a \<noteq> length b then False else same_from a b 0 (length a))"

definition startsWith :: "bytes \<Rightarrow> bytes \<Rightarrow> bool" where
  "startsWith data pre = (if length data < length pre then False else same_from data pre 0 (length pre))"

definition hex_digit :: "nat \<Rightarrow> char" where
  "hex_digit n = ''0123456789abcdef'' ! n"

definition bytesToHex :: "bytes \<Rightarrow> string" where
  "bytesToHex bytes = concat (map (\<lambda>b. [hex_digit (unat b div 16), hex_digit (unat b mod 16)]) bytes)"

definition minBigint :: "int \<Rightarrow> int \<Rightarrow> int" where [simp]: "minBigint a b = (if a < b then a else b)"
definition maxBigint :: "int \<Rightarrow> int \<Rightarrow> int" where [simp]: "maxBigint a b = (if a > b then a else b)"

section \<open>Lemmas\<close>

lemma need_eq_Inr [simp]: "need d i n = Inr u \<longleftrightarrow> 0 \<le> i \<and> i + n \<le> int (length d)"
  by (auto simp: need_def)

lemma uint8_bounds [simp]: "uint (b :: 8 word) < 256"
  using uint_lt2p [of b] by simp

lemma le_uint_nonneg [simp]: "0 \<le> le_uint bs"
  by (induction bs) simp_all

lemma le_uint_bound: "le_uint bs < 256 ^ length bs"
proof (induction bs)
  case (Cons b bs)
  then have "le_uint bs + 1 \<le> 256 ^ length bs" by simp
  then have "256 * (le_uint bs + 1) \<le> 256 * 256 ^ length bs" by (rule mult_left_mono) simp
  then have "uint b + 256 * le_uint bs < 256 * 256 ^ length bs"
    using uint8_bounds [of b] unfolding distrib_left by linarith
  then show ?case by simp
qed simp

lemma le_uint_append: "le_uint (xs @ ys) = le_uint xs + 256 ^ length xs * le_uint ys"
  by (induction xs) (simp_all add: algebra_simps)

lemma length_subarray:
  "0 \<le> i \<Longrightarrow> 0 \<le> n \<Longrightarrow> i + n \<le> int (length d) \<Longrightarrow> length (subarray d i (i + n)) = nat n"
  by (simp add: subarray_def nat_add_distrib le_diff_conv2 nat_le_iff)

lemma subarray_all [simp]: "subarray d 0 (int (length d)) = d"
  by (simp add: subarray_def)

lemma readU64_eq_Inr:
  "readU64 d i = Inr v \<longleftrightarrow> 0 \<le> i \<and> i + 8 \<le> int (length d) \<and> v = le_uint (subarray d i (i + 8))"
  by (auto simp: readU64_def result_simps)

lemma readU64_bounds:
  assumes "readU64 d i = Inr v"
  shows "0 \<le> v" "v < 2 ^ 64"
proof -
  from assms have i: "0 \<le> i" "i + 8 \<le> int (length d)" and v: "v = le_uint (subarray d i (i + 8))"
    by (simp_all add: readU64_eq_Inr)
  have "length (subarray d i (i + 8)) = 8" using length_subarray [OF i(1) _ i(2)] by simp
  with le_uint_bound [of "subarray d i (i + 8)"] show "v < 2 ^ 64" by (simp add: v)
  show "0 \<le> v" by (simp add: v)
qed

lemma length_le_bytes [simp]: "length (le_bytes n v) = n"
  by (induction n arbitrary: v) simp_all

lemma uint_word8_of_int: "uint (word_of_int v :: 8 word) = v mod 256"
  by (simp add: uint_word_of_int)

lemma le_uint_le_bytes: "le_uint (le_bytes n v) = v mod 256 ^ n"
proof (induction n arbitrary: v)
  case (Suc n)
  have "v mod (256 * 256 ^ n) = 256 * ((v div 256) mod 256 ^ n) + v mod 256"
    by (rule zmod_zmult2_eq) simp
  then show ?case by (simp add: Suc uint_word8_of_int)
qed simp

lemma le_bytes_le_uint: "le_bytes (length bs) (le_uint bs) = bs"
proof (induction bs)
  case (Cons b bs)
  have "(uint b + 256 * le_uint bs) div 256 = le_uint bs"
    by (rule floor_div_unique) simp_all
  moreover have "word_of_int (uint b + 256 * le_uint bs) = b"
  proof -
    have "uint (word_of_int (uint b + 256 * le_uint bs) :: 8 word) = (uint b + 256 * le_uint bs) mod 256"
      by (rule uint_word8_of_int)
    also have "\<dots> = uint b" by (simp add: mod_pos_pos_trivial)
    finally show ?thesis by (simp add: word_uint_eq_iff)
  qed
  ultimately show ?case by (simp add: Cons)
qed simp

lemma write_read_u64: "readU64 (writeU64 v) 0 = Inr (v mod 2 ^ 64)"
  by (simp add: readU64_eq_Inr writeU64_def subarray_def le_uint_le_bytes)

lemma read_write_u64:
  assumes "readU64 d i = Inr v"
  shows "writeU64 v = subarray d i (i + 8)"
proof -
  from assms have i: "0 \<le> i" "i + 8 \<le> int (length d)" and v: "v = le_uint (subarray d i (i + 8))"
    by (simp_all add: readU64_eq_Inr)
  have "length (subarray d i (i + 8)) = 8" using length_subarray [OF i(1) _ i(2)] by simp
  with le_bytes_le_uint [of "subarray d i (i + 8)"] show ?thesis by (simp add: writeU64_def v)
qed

text \<open>Shifting by eight and or-ing a byte is adding it: no bits overlap.\<close>

lemma push_bit_or_add:
  fixes v b :: int
  assumes "0 \<le> b" "b < 2 ^ n"
  shows "push_bit n v OR b = v * 2 ^ n + b"
proof -
  have "push_bit n v AND b = 0"
  proof (rule bit_eqI)
    fix k
    have "take_bit n b = b" using assms by (simp add: take_bit_int_eq_self)
    then have "bit b k \<Longrightarrow> k < n" by (metis bit_take_bit_iff)
    then show "bit (push_bit n v AND b) k = bit 0 k"
      by (auto simp: bit_and_iff bit_push_bit_iff)
  qed
  then have "push_bit n v + b = push_bit n v OR b" by (rule disjunctive_add_eq_or)
  then show ?thesis by (simp add: push_bit_eq_mult)
qed

lemma readUintLE_eq: "readUintLE bs = le_uint bs"
proof (induction bs)
  case (Cons b bs)
  have "push_bit 8 (le_uint bs) OR uint b = le_uint bs * 2 ^ 8 + uint b"
    by (rule push_bit_or_add) simp_all
  with Cons show ?case by (simp add: readUintLE_def)
qed (simp add: readUintLE_def)

lemma readU128_eq_Inr:
  "readU128 d i = Inr v \<longleftrightarrow> 0 \<le> i \<and> i + 16 \<le> int (length d) \<and> v = le_uint (subarray d i (i + 16))"
proof -
  have "le_uint (subarray d i (i + 8)) OR push_bit 64 (le_uint (subarray d (i + 8) (i + 16))) =
      le_uint (subarray d i (i + 16))" if i: "0 \<le> i" "i + 16 \<le> int (length d)"
  proof -
    let ?a = "subarray d i (i + 8)" and ?b = "subarray d (i + 8) (i + 16)"
    have la: "length ?a = 8" using length_subarray [OF i(1), of 8 d] i(2) by simp
    have ab: "subarray d i (i + 16) = ?a @ ?b"
      using i(1) take_add [of 8 8 "drop (nat i) d"]
      by (simp add: subarray_def nat_add_distrib add.commute)
    have "le_uint ?a < 2 ^ 64" using le_uint_bound [of ?a] la by simp
    then have "push_bit 64 (le_uint ?b) OR le_uint ?a = le_uint ?b * 2 ^ 64 + le_uint ?a"
      by (intro push_bit_or_add) simp_all
    then show ?thesis by (simp add: ab la le_uint_append or.commute)
  qed
  then show ?thesis by (auto simp: readU128_def result_simps)
qed

lemma readI64_bounds: "readI64 d i = Inr v \<Longrightarrow> - (2 ^ 63) \<le> v \<and> v < 2 ^ 63"
proof -
  assume "readI64 d i = Inr v"
  then obtain w where w: "readU64 d i = Inr w" and v: "v = signed64 w"
    by (auto simp: readI64_def readU64_def result_simps)
  from readU64_bounds [OF w] show ?thesis by (simp add: v signed64_def)
qed

lemma same_from_iff: "same_from a b i n \<longleftrightarrow> (\<forall>k < n. a ! (i + k) = b ! (i + k))"
proof (induction a b i n rule: same_from.induct)
  case (2 a b i n)
  then show ?case by (simp add: All_less_Suc2)
qed simp

lemma bytesEqual_iff [simp]: "bytesEqual a b \<longleftrightarrow> a = b"
  by (auto simp: bytesEqual_def same_from_iff list_eq_iff_nth_eq)

lemma startsWith_iff: "startsWith data pre \<longleftrightarrow> take (length pre) data = pre"
proof (cases "length data < length pre")
  case False
  then show ?thesis by (auto simp: startsWith_def same_from_iff list_eq_iff_nth_eq)
qed (auto simp: startsWith_def)

text \<open>Every reader inside the array as a function of the bytes it covers.\<close>

named_theorems read_simps \<open>readers by the bytes they cover\<close>

lemma need_in: "0 \<le> i \<Longrightarrow> i + n \<le> int (length d) \<Longrightarrow> need d i n = Inr ()"
  by (simp add: need_def)

lemma readU8_in [read_simps]:
  assumes "0 \<le> i" "i + 1 \<le> int (length d)"
  shows "readU8 d i = Inr (le_uint (subarray d i (i + 1)))"
proof -
  have "nat i < length d" using assms by linarith
  then have "subarray d i (i + 1) = [d ! nat i]"
    using assms by (simp add: subarray_def nat_add_distrib take_Suc hd_drop_conv_nth)
  with assms show ?thesis by (simp add: readU8_def need_in)
qed

lemma readBool_in [read_simps]:
  "0 \<le> i \<Longrightarrow> i + 1 \<le> int (length d) \<Longrightarrow> readBool d i = Inr (le_uint (subarray d i (i + 1)) \<noteq> 0)"
  by (simp add: readBool_def readU8_in)

lemma readU16_in [read_simps]:
  "0 \<le> i \<Longrightarrow> i + 2 \<le> int (length d) \<Longrightarrow> readU16 d i = Inr (le_uint (subarray d i (i + 2)))"
  by (simp add: readU16_def need_in)

lemma readU32_in [read_simps]:
  "0 \<le> i \<Longrightarrow> i + 4 \<le> int (length d) \<Longrightarrow> readU32 d i = Inr (le_uint (subarray d i (i + 4)))"
  by (simp add: readU32_def need_in)

lemma readU64_in [read_simps]:
  "0 \<le> i \<Longrightarrow> i + 8 \<le> int (length d) \<Longrightarrow> readU64 d i = Inr (le_uint (subarray d i (i + 8)))"
  by (simp add: readU64_eq_Inr)

lemma readI64_in [read_simps]:
  "0 \<le> i \<Longrightarrow> i + 8 \<le> int (length d) \<Longrightarrow>
    readI64 d i = Inr (signed64 (le_uint (subarray d i (i + 8))))"
  by (simp add: readI64_def need_in)

lemma readU128_in [read_simps]:
  "0 \<le> i \<Longrightarrow> i + 16 \<le> int (length d) \<Longrightarrow> readU128 d i = Inr (le_uint (subarray d i (i + 16)))"
  by (simp add: readU128_eq_Inr)

lemma readF64_in [read_simps]:
  "0 \<le> i \<Longrightarrow> i + 8 \<le> int (length d) \<Longrightarrow> readF64 d i = Inr (f64_value (le_uint (subarray d i (i + 8))))"
  by (simp add: readF64_def need_in)

lemma readPubkey_in [read_simps]:
  "0 \<le> i \<Longrightarrow> i + 32 \<le> int (length d) \<Longrightarrow> readPubkey d i = Inr (subarray d i (i + 32))"
  by (simp add: readPubkey_def need_in)

text \<open>A signed value written in two's complement reads back as itself.\<close>

lemma twos_complement_64:
  assumes "- (2 ^ 63) \<le> v" "v < 2 ^ 63"
  shows "signed64 (v mod 2 ^ 64) = v"
proof (cases "0 \<le> v")
  case True
  then have "v mod 2 ^ 64 = v" using assms by simp
  then show ?thesis using assms True by (simp add: signed64_def)
next
  case False
  then have "v mod 2 ^ 64 = v + 2 ^ 64"
    using assms by (intro int_mod_pos_eq [where q = "-1"]) simp_all
  then show ?thesis using assms False by (simp add: signed64_def)
qed

section \<open>Properties\<close>

text \<open>
  U64 values survive the byte codec in both directions: writing any bigint and reading it back gives
  it modulo \<open>2 ^ 64\<close>, and writing back what was read at an offset gives the bytes that stood there.
\<close>

theorem u64_round_trips:
  "readU64 (writeU64 v) 0 = Inr (v mod 2 ^ 64) \<and>
   (case readU64 d i of Inr w \<Rightarrow> writeU64 w = subarray d i (i + 8) \<and> 0 \<le> w \<and> w < 2 ^ 64
      | Inl e \<Rightarrow> i < 0 \<or> int (length d) < i + 8)"
proof (cases "readU64 d i")
  case (Inl e)
  then have "\<not> (0 \<le> i \<and> i + 8 \<le> int (length d))" by (auto simp: readU64_in)
  with Inl write_read_u64 show ?thesis by auto
next
  case (Inr w)
  with read_write_u64 [OF Inr] readU64_bounds [OF Inr] write_read_u64 show ?thesis by simp
qed

end
