(* ===== verification/StockfloorAccounts.thy ===== *)
theory StockfloorAccounts
  imports Bytes
begin

text \<open>
  \<^verbatim>\<open>packages/sdk/src/stockfloor/accounts.ts\<close>: the decoder of the program's \<open>Launch\<close> account by fixed
  offsets, and of the \<open>floor\<close> view. Beside it stands the Borsh layout of the Rust \<open>struct Launch\<close>
  (\<^verbatim>\<open>programs/stockfloor/src/state.rs\<close>), the specification the offsets must meet: decoding what the
  program writes gives back the fields, and every account that passes the discriminator and size check
  decodes.
\<close>

section \<open>The Launch account\<close>

definition LAUNCH_DISCRIMINATOR :: bytes where
  "LAUNCH_DISCRIMINATOR = [144, 51, 51, 163, 206, 85, 213, 38]"

definition LAUNCH_ACCOUNT_SIZE :: int where [simp]: "LAUNCH_ACCOUNT_SIZE = 351"
definition LAUNCH_VERSION :: int where [simp]: "LAUNCH_VERSION = 3"
definition LAUNCH_VERSION_FEE_SPLIT :: int where [simp]: "LAUNCH_VERSION_FEE_SPLIT = 3"

datatype launch_field =
    Off_version | Off_bump | Off_claimerBump | Off_vaultAuthorityBump | Off_exitFeeBps
  | Off_migrationFeeHarvested | Off_surplusHarvested | Off_migrated | Off_config | Off_creator | Off_pool
  | Off_baseMint | Off_quoteMint | Off_quoteTokenProgram | Off_vault | Off_createdAt
  | Off_totalHarvestedQuote | Off_totalBurnedBase | Off_totalRedeemedBase | Off_totalRedeemedQuote
  | Off_totalExitFees | Off_totalPlatformQuote | Off_totalCreatorQuote | Off_reserved

fun LAUNCH_OFFSETS :: "launch_field \<Rightarrow> int" where
  "LAUNCH_OFFSETS Off_version = 8"
| "LAUNCH_OFFSETS Off_bump = 9"
| "LAUNCH_OFFSETS Off_claimerBump = 10"
| "LAUNCH_OFFSETS Off_vaultAuthorityBump = 11"
| "LAUNCH_OFFSETS Off_exitFeeBps = 12"
| "LAUNCH_OFFSETS Off_migrationFeeHarvested = 14"
| "LAUNCH_OFFSETS Off_surplusHarvested = 15"
| "LAUNCH_OFFSETS Off_migrated = 16"
| "LAUNCH_OFFSETS Off_config = 17"
| "LAUNCH_OFFSETS Off_creator = 49"
| "LAUNCH_OFFSETS Off_pool = 81"
| "LAUNCH_OFFSETS Off_baseMint = 113"
| "LAUNCH_OFFSETS Off_quoteMint = 145"
| "LAUNCH_OFFSETS Off_quoteTokenProgram = 177"
| "LAUNCH_OFFSETS Off_vault = 209"
| "LAUNCH_OFFSETS Off_createdAt = 241"
| "LAUNCH_OFFSETS Off_totalHarvestedQuote = 249"
| "LAUNCH_OFFSETS Off_totalBurnedBase = 257"
| "LAUNCH_OFFSETS Off_totalRedeemedBase = 265"
| "LAUNCH_OFFSETS Off_totalRedeemedQuote = 273"
| "LAUNCH_OFFSETS Off_totalExitFees = 281"
| "LAUNCH_OFFSETS Off_totalPlatformQuote = 289"
| "LAUNCH_OFFSETS Off_totalCreatorQuote = 297"
| "LAUNCH_OFFSETS Off_reserved = 305"

record launch_account =
  la_version :: int
  la_bump :: int
  la_claimerBump :: int
  la_vaultAuthorityBump :: int
  la_exitFeeBps :: int
  la_migrationFeeHarvested :: bool
  la_surplusHarvested :: bool
  la_migrated :: bool
  la_config :: pubkey
  la_creator :: pubkey
  la_pool :: pubkey
  la_poolRegistered :: bool
  la_baseMint :: pubkey
  la_quoteMint :: pubkey
  la_quoteTokenProgram :: pubkey
  la_vault :: pubkey
  la_createdAt :: int
  la_totalHarvestedQuote :: int
  la_totalBurnedBase :: int
  la_totalRedeemedBase :: int
  la_totalRedeemedQuote :: int
  la_totalExitFees :: int
  la_totalPlatformQuote :: int
  la_totalCreatorQuote :: int
  la_feeSplitEnabled :: bool

definition PublicKey_default :: pubkey where
  "PublicKey_default = replicate 32 0"

definition isLaunchAccountData :: "bytes \<Rightarrow> bool" where
  "isLaunchAccountData data \<longleftrightarrow>
     int (length data) \<ge> LAUNCH_ACCOUNT_SIZE \<and> bytesEqual (subarray data 0 8) LAUNCH_DISCRIMINATOR"

definition decodeLaunch :: "bytes \<Rightarrow> launch_account result" where
  "decodeLaunch data =
     bindE (check (isLaunchAccountData data) (GenericError ''not a StockFloor Launch account'')) (\<lambda>_.
     let o' = LAUNCH_OFFSETS in
     bindE (readPubkey data (o' Off_pool)) (\<lambda>pool.
     bindE (readU8 data (o' Off_version)) (\<lambda>version.
     bindE (readU8 data (o' Off_bump)) (\<lambda>bump.
     bindE (readU8 data (o' Off_claimerBump)) (\<lambda>claimerBump.
     bindE (readU8 data (o' Off_vaultAuthorityBump)) (\<lambda>vaultAuthorityBump.
     bindE (readU16 data (o' Off_exitFeeBps)) (\<lambda>exitFeeBps.
     bindE (readBool data (o' Off_migrationFeeHarvested)) (\<lambda>migrationFeeHarvested.
     bindE (readBool data (o' Off_surplusHarvested)) (\<lambda>surplusHarvested.
     bindE (readBool data (o' Off_migrated)) (\<lambda>migrated.
     bindE (readPubkey data (o' Off_config)) (\<lambda>config.
     bindE (readPubkey data (o' Off_creator)) (\<lambda>creator.
     bindE (readPubkey data (o' Off_baseMint)) (\<lambda>baseMint.
     bindE (readPubkey data (o' Off_quoteMint)) (\<lambda>quoteMint.
     bindE (readPubkey data (o' Off_quoteTokenProgram)) (\<lambda>quoteTokenProgram.
     bindE (readPubkey data (o' Off_vault)) (\<lambda>vault.
     bindE (readI64 data (o' Off_createdAt)) (\<lambda>createdAt.
     bindE (readU64 data (o' Off_totalHarvestedQuote)) (\<lambda>totalHarvestedQuote.
     bindE (readU64 data (o' Off_totalBurnedBase)) (\<lambda>totalBurnedBase.
     bindE (readU64 data (o' Off_totalRedeemedBase)) (\<lambda>totalRedeemedBase.
     bindE (readU64 data (o' Off_totalRedeemedQuote)) (\<lambda>totalRedeemedQuote.
     bindE (readU64 data (o' Off_totalExitFees)) (\<lambda>totalExitFees.
     bindE (readU64 data (o' Off_totalPlatformQuote)) (\<lambda>totalPlatformQuote.
     bindE (readU64 data (o' Off_totalCreatorQuote)) (\<lambda>totalCreatorQuote.
       Inr \<lparr>la_version = version, la_bump = bump, la_claimerBump = claimerBump,
            la_vaultAuthorityBump = vaultAuthorityBump, la_exitFeeBps = exitFeeBps,
            la_migrationFeeHarvested = migrationFeeHarvested, la_surplusHarvested = surplusHarvested,
            la_migrated = migrated, la_config = config, la_creator = creator, la_pool = pool,
            la_poolRegistered = (pool \<noteq> PublicKey_default), la_baseMint = baseMint,
            la_quoteMint = quoteMint, la_quoteTokenProgram = quoteTokenProgram, la_vault = vault,
            la_createdAt = createdAt, la_totalHarvestedQuote = totalHarvestedQuote,
            la_totalBurnedBase = totalBurnedBase, la_totalRedeemedBase = totalRedeemedBase,
            la_totalRedeemedQuote = totalRedeemedQuote, la_totalExitFees = totalExitFees,
            la_totalPlatformQuote = totalPlatformQuote, la_totalCreatorQuote = totalCreatorQuote,
            la_feeSplitEnabled = (version \<ge> LAUNCH_VERSION_FEE_SPLIT)\<rparr>))))))))))))))))))))))))"

section \<open>The floor view\<close>

record floor_info =
  fi_vaultRaw :: int
  fi_supply :: int
  fi_exitFeeBps :: int
  fi_floorQ64 :: int

definition FLOOR_INFO_SIZE :: int where [simp]: "FLOOR_INFO_SIZE = 34"

definition decodeFloorInfo :: "bytes \<Rightarrow> floor_info result" where
  "decodeFloorInfo data =
     bindE (check (int (length data) = FLOOR_INFO_SIZE) (GenericError ''unexpected FloorInfo length'')) (\<lambda>_.
     bindE (readU64 data 0) (\<lambda>vaultRaw.
     bindE (readU64 data 8) (\<lambda>supply.
     bindE (readU16 data 16) (\<lambda>exitFeeBps.
     bindE (readU128 data 18) (\<lambda>fq.
       Inr \<lparr>fi_vaultRaw = vaultRaw, fi_supply = supply, fi_exitFeeBps = exitFeeBps, fi_floorQ64 = fq\<rparr>)))))"

definition floorQ64 :: "int \<Rightarrow> int \<Rightarrow> int" where
  "floorQ64 vaultRaw supply = (if supply = 0 then 0 else (vaultRaw * 2 ^ 64) sdiv supply)"

section \<open>The layout the program writes\<close>

text \<open>
  Borsh of the Rust \<open>struct Launch\<close> after its discriminator: the fields in declaration order, integers
  little endian, a bool as one byte, a key as its 32 bytes, then 46 reserved bytes.
\<close>

definition bool_byte :: "bool \<Rightarrow> 8 word" where
  "bool_byte b = (if b then 1 else 0)"

definition launch_fields :: "launch_account \<Rightarrow> bytes \<Rightarrow> bytes list" where
  "launch_fields l reserved =
     [LAUNCH_DISCRIMINATOR, le_bytes 1 (la_version l), le_bytes 1 (la_bump l), le_bytes 1 (la_claimerBump l),
      le_bytes 1 (la_vaultAuthorityBump l), le_bytes 2 (la_exitFeeBps l),
      [bool_byte (la_migrationFeeHarvested l)], [bool_byte (la_surplusHarvested l)],
      [bool_byte (la_migrated l)], la_config l, la_creator l, la_pool l, la_baseMint l, la_quoteMint l,
      la_quoteTokenProgram l, la_vault l, le_bytes 8 (la_createdAt l), le_bytes 8 (la_totalHarvestedQuote l),
      le_bytes 8 (la_totalBurnedBase l), le_bytes 8 (la_totalRedeemedBase l),
      le_bytes 8 (la_totalRedeemedQuote l), le_bytes 8 (la_totalExitFees l),
      le_bytes 8 (la_totalPlatformQuote l), le_bytes 8 (la_totalCreatorQuote l), reserved]"

definition borsh_launch :: "launch_account \<Rightarrow> bytes \<Rightarrow> bytes" where
  "borsh_launch l reserved = concat (launch_fields l reserved)"

definition u8_value :: "int \<Rightarrow> bool" where "u8_value v \<longleftrightarrow> 0 \<le> v \<and> v < 256"
definition u64_value :: "int \<Rightarrow> bool" where "u64_value v \<longleftrightarrow> 0 \<le> v \<and> v < 2 ^ 64"

text \<open>A value of the Rust struct, with the two fields the decoder derives.\<close>

definition wf_launch :: "launch_account \<Rightarrow> bool" where
  "wf_launch l \<longleftrightarrow>
     list_all u8_value [la_version l, la_bump l, la_claimerBump l, la_vaultAuthorityBump l] \<and>
     0 \<le> la_exitFeeBps l \<and> la_exitFeeBps l < 65536 \<and>
     list_all (\<lambda>k. length k = 32)
       [la_config l, la_creator l, la_pool l, la_baseMint l, la_quoteMint l, la_quoteTokenProgram l, la_vault l] \<and>
     - (2 ^ 63) \<le> la_createdAt l \<and> la_createdAt l < 2 ^ 63 \<and>
     list_all u64_value
       [la_totalHarvestedQuote l, la_totalBurnedBase l, la_totalRedeemedBase l, la_totalRedeemedQuote l,
        la_totalExitFees l, la_totalPlatformQuote l, la_totalCreatorQuote l] \<and>
     la_poolRegistered l = (la_pool l \<noteq> PublicKey_default) \<and>
     la_feeSplitEnabled l = (la_version l \<ge> 3)"

lemma length_LAUNCH_DISCRIMINATOR [simp]: "length LAUNCH_DISCRIMINATOR = 8"
  by (simp add: LAUNCH_DISCRIMINATOR_def)

lemma wf_launch_keys:
  assumes "wf_launch l"
  shows "length (la_config l) = 32" "length (la_creator l) = 32" "length (la_pool l) = 32"
    "length (la_baseMint l) = 32" "length (la_quoteMint l) = 32" "length (la_quoteTokenProgram l) = 32"
    "length (la_vault l) = 32"
  using assms by (simp_all add: wf_launch_def)

text \<open>Each field of the layout lies between the offsets the decoder uses.\<close>

lemma borsh_launch_fields:
  assumes wf: "wf_launch l" and r: "length reserved = 46"
  defines "D \<equiv> borsh_launch l reserved"
  shows "int (length D) = 351" "subarray D 0 8 = LAUNCH_DISCRIMINATOR"
    "subarray D 8 9 = le_bytes 1 (la_version l)" "subarray D 9 10 = le_bytes 1 (la_bump l)"
    "subarray D 10 11 = le_bytes 1 (la_claimerBump l)" "subarray D 11 12 = le_bytes 1 (la_vaultAuthorityBump l)"
    "subarray D 12 14 = le_bytes 2 (la_exitFeeBps l)" "subarray D 14 15 = [bool_byte (la_migrationFeeHarvested l)]"
    "subarray D 15 16 = [bool_byte (la_surplusHarvested l)]" "subarray D 16 17 = [bool_byte (la_migrated l)]"
    "subarray D 17 49 = la_config l" "subarray D 49 81 = la_creator l" "subarray D 81 113 = la_pool l"
    "subarray D 113 145 = la_baseMint l" "subarray D 145 177 = la_quoteMint l"
    "subarray D 177 209 = la_quoteTokenProgram l" "subarray D 209 241 = la_vault l"
    "subarray D 241 249 = le_bytes 8 (la_createdAt l)" "subarray D 249 257 = le_bytes 8 (la_totalHarvestedQuote l)"
    "subarray D 257 265 = le_bytes 8 (la_totalBurnedBase l)" "subarray D 265 273 = le_bytes 8 (la_totalRedeemedBase l)"
    "subarray D 273 281 = le_bytes 8 (la_totalRedeemedQuote l)" "subarray D 281 289 = le_bytes 8 (la_totalExitFees l)"
    "subarray D 289 297 = le_bytes 8 (la_totalPlatformQuote l)" "subarray D 297 305 = le_bytes 8 (la_totalCreatorQuote l)"
  by (simp_all add: D_def borsh_launch_def launch_fields_def subarray_def r wf_launch_keys [OF wf])

lemma decode_borsh_launch:
  assumes wf: "wf_launch l" and r: "length reserved = 46"
  shows "decodeLaunch (borsh_launch l reserved) = Inr l"
proof -
  note f = borsh_launch_fields [OF wf r]
  have valid: "isLaunchAccountData (borsh_launch l reserved)"
    by (simp add: isLaunchAccountData_def f)
  have small: "la_version l mod 256 = la_version l" "la_bump l mod 256 = la_bump l"
    "la_claimerBump l mod 256 = la_claimerBump l" "la_vaultAuthorityBump l mod 256 = la_vaultAuthorityBump l"
    "la_exitFeeBps l mod 65536 = la_exitFeeBps l"
    using wf by (simp_all add: wf_launch_def u8_value_def)
  have flag: "uint (bool_byte b) \<noteq> 0 \<longleftrightarrow> b" for b
    by (simp add: bool_byte_def)
  have counters: "list_all (\<lambda>v. v mod 18446744073709551616 = v)
      [la_totalHarvestedQuote l, la_totalBurnedBase l, la_totalRedeemedBase l, la_totalRedeemedQuote l,
       la_totalExitFees l, la_totalPlatformQuote l, la_totalCreatorQuote l]"
    using wf by (simp add: wf_launch_def u64_value_def)
  have created: "signed64 (la_createdAt l mod 18446744073709551616) = la_createdAt l"
    using wf twos_complement_64 [of "la_createdAt l"] by (simp add: wf_launch_def)
  have derived: "la_poolRegistered l = (la_pool l \<noteq> PublicKey_default)" "la_feeSplitEnabled l = (3 \<le> la_version l)"
    using wf by (simp_all add: wf_launch_def)
  show ?thesis
    using counters
    by (simp add: decodeLaunch_def valid read_simps f le_uint_le_bytes uint_word8_of_int small flag
        created flip: derived)
qed

lemma decodeLaunch_returns_iff: "returns (decodeLaunch d) \<longleftrightarrow> isLaunchAccountData d"
proof
  assume "isLaunchAccountData d"
  moreover from this have "351 \<le> int (length d)" by (simp add: isLaunchAccountData_def)
  ultimately show "returns (decodeLaunch d)"
    by (simp add: decodeLaunch_def read_simps Let_def)
next
  assume "returns (decodeLaunch d)"
  then show "isLaunchAccountData d"
    by (cases "isLaunchAccountData d") (simp_all add: decodeLaunch_def)
qed

lemma floorQ64_bounds:
  assumes "0 \<le> v" "0 < s"
  shows "floorQ64 v s * s \<le> v * 2 ^ 64" "v * 2 ^ 64 < (floorQ64 v s + 1) * s" "0 \<le> floorQ64 v s"
proof -
  have eq: "floorQ64 v s = v * 2 ^ 64 div s" using assms by (simp add: floorQ64_def)
  show "floorQ64 v s * s \<le> v * 2 ^ 64" "v * 2 ^ 64 < (floorQ64 v s + 1) * s"
    unfolding eq using floor_div_bounds [OF assms(2)] by blast+
  show "0 \<le> floorQ64 v s" using assms unfolding eq by (simp add: pos_imp_zdiv_nonneg_iff)
qed

section \<open>Properties\<close>

definition example_launch :: launch_account where
  "example_launch =
     \<lparr>la_version = 3, la_bump = 254, la_claimerBump = 255, la_vaultAuthorityBump = 253, la_exitFeeBps = 300,
      la_migrationFeeHarvested = True, la_surplusHarvested = False, la_migrated = True,
      la_config = replicate 32 1, la_creator = replicate 32 2, la_pool = replicate 32 3,
      la_poolRegistered = True, la_baseMint = replicate 32 4, la_quoteMint = replicate 32 5,
      la_quoteTokenProgram = replicate 32 6, la_vault = replicate 32 7, la_createdAt = -1,
      la_totalHarvestedQuote = 18446744073709551615, la_totalBurnedBase = 2, la_totalRedeemedBase = 3,
      la_totalRedeemedQuote = 4, la_totalExitFees = 5, la_totalPlatformQuote = 6, la_totalCreatorQuote = 7,
      la_feeSplitEnabled = True\<rparr>"

text \<open>
  C37: the offset table of the decoder agrees with the program's Borsh layout: decoding the bytes the
  program stores for a launch, whatever its reserved bytes hold, gives back every field, negative
  timestamps and full u64 counters included.
\<close>

theorem decodeLaunch_inverts_layout:
  assumes "wf_launch l" "length reserved = 46"
  shows "decodeLaunch (borsh_launch l reserved) = Inr l"
  by (rule decode_borsh_launch [OF assms])

lemma decodeLaunch_inverts_layout_witness:
  "decodeLaunch (borsh_launch example_launch (replicate 46 0)) = Inr example_launch"
  by (rule decodeLaunch_inverts_layout)
    (simp_all add: example_launch_def wf_launch_def u8_value_def u64_value_def PublicKey_default_def)

lemma signed64_range: "0 \<le> v \<Longrightarrow> v < 2 ^ 64 \<Longrightarrow> - (2 ^ 63) \<le> signed64 v \<and> signed64 v < 2 ^ 63"
  by (simp add: signed64_def)

lemma le_uint_field:
  assumes "351 \<le> int (length d)" "0 \<le> a" "a \<le> b" "b \<le> 351"
  shows "le_uint (subarray d a b) < 256 ^ nat (b - a)"
  using le_uint_bound [of "subarray d a b"] length_subarray [of a "b - a" d] assms by simp

lemma decodeLaunch_wf:
  assumes "isLaunchAccountData d"
  shows "\<exists>l. decodeLaunch d = Inr l \<and> wf_launch l"
proof -
  have len: "351 \<le> int (length d)" using assms by (simp add: isLaunchAccountData_def)
  have key: "length (subarray d a (a + 32)) = 32" if "0 \<le> a" "a + 32 \<le> 351" for a
    using that len by (simp add: length_subarray)
  have u64: "le_uint (subarray d a (a + 8)) < 18446744073709551616" if "0 \<le> a" "a + 8 \<le> 351" for a
    using le_uint_field [OF len that(1), of "a + 8"] that by simp
  have u8: "le_uint (subarray d a (a + 1)) < 256" if "0 \<le> a" "a + 1 \<le> 351" for a
    using le_uint_field [OF len that(1), of "a + 1"] that by simp
  have u16: "le_uint (subarray d 12 14) < 65536" using le_uint_field [OF len, of 12 14] by simp
  have i64: "- 9223372036854775808 \<le> signed64 (le_uint (subarray d 241 249)) \<and> signed64 (le_uint (subarray d 241 249)) < 9223372036854775808"
    using signed64_range [of "le_uint (subarray d 241 249)"] u64 [of 241] by simp
  show ?thesis
    using len assms u8 [of 8] u8 [of 9] u8 [of 10] u8 [of 11] u16 i64 key [of 17] key [of 49] key [of 81] key [of 113] key [of 145] key [of 177] key [of 209]
      u64 [of 249] u64 [of 257] u64 [of 265] u64 [of 273] u64 [of 281] u64 [of 289] u64 [of 297]
    by (simp add: decodeLaunch_def read_simps Let_def wf_launch_def u8_value_def u64_value_def)
qed

text \<open>
  C34: The decoder is type safe and total: on any bytes it either returns a launch whose every field has the
  type of the Rust struct (u8, u16, u64 and i64 ranges, 32-byte keys, the derived flags agreeing with the
  pool and the version), or throws the one error of a foreign account; it returns exactly on arrays of at
  least the account size that start with the launch discriminator, whatever else they hold.
\<close>

theorem decoded_launch_is_typed:
  "if 351 \<le> length d \<and> take 8 d = [144, 51, 51, 163, 206, 85, 213, 38]
   then \<exists>l. decodeLaunch d = Inr l \<and> wf_launch l
   else decodeLaunch d = Inl (GenericError ''not a StockFloor Launch account'')"
proof -
  have "subarray d 0 8 = take 8 d" by (simp add: subarray_def)
  then have iff: "isLaunchAccountData d \<longleftrightarrow> 351 \<le> length d \<and> take 8 d = [144, 51, 51, 163, 206, 85, 213, 38]"
    by (auto simp: isLaunchAccountData_def LAUNCH_DISCRIMINATOR_def)
  show ?thesis
  proof (cases "isLaunchAccountData d")
    case True
    with iff decodeLaunch_wf show ?thesis by simp
  next
    case False
    then have "decodeLaunch d = Inl (GenericError ''not a StockFloor Launch account'')"
      by (simp add: decodeLaunch_def)
    with False iff show ?thesis by simp
  qed
qed

end
