(* ===== verification/Token.thy ===== *)
theory Token
  imports StockfloorAccounts
begin

text \<open>
  \<^verbatim>\<open>packages/sdk/src/token.ts\<close>: SPL Token and Token-2022 account and mint decoding. The extension
  walk is a loop over type-length-value entries from byte 166; it always stops, because every entry
  moves the cursor by at least four bytes. The lemmas: the walk finds exactly the first entry of the
  type asked for in a well-formed extension area, token accounts decode exactly from 165 bytes on, and
  a mint is paused only if its extension says so. The RPC wrappers (\<open>getTokenBalance\<close>,
  \<open>getMintInfo\<close>, \<open>getClock\<close>) are in \<^verbatim>\<open>ChainReader\<close>, the instruction helper is in \<^verbatim>\<open>Transactions\<close>.
\<close>

section \<open>Data\<close>

definition Ext_TransferHook :: int where [simp]: "Ext_TransferHook = 14"
definition Ext_ScaledUiAmountConfig :: int where [simp]: "Ext_ScaledUiAmountConfig = 25"
definition Ext_PausableConfig :: int where [simp]: "Ext_PausableConfig = 26"

record token_account =
  ta_mint :: pubkey
  ta_owner :: pubkey
  ta_amount :: int
  ta_delegate :: "pubkey option"
  ta_state :: int
  ta_closeAuthority :: "pubkey option"

record scaled_ui_amount =
  sa_authority :: pubkey
  sa_multiplier :: jsnum
  sa_newMultiplierEffectiveTimestamp :: int
  sa_newMultiplier :: jsnum

record mint_info =
  mi_mintAuthority :: "pubkey option"
  mi_supply :: int
  mi_decimals :: int
  mi_isInitialized :: bool
  mi_freezeAuthority :: "pubkey option"
  mi_scaledUiAmount :: "scaled_ui_amount option"
  mi_paused :: bool
  mi_transferHookProgramId :: "pubkey option"

record clock =
  ck_slot :: int
  ck_unixTimestamp :: int

section \<open>Decoders\<close>

definition coption :: "bytes \<Rightarrow> int \<Rightarrow> int \<Rightarrow> pubkey option result" where
  "coption data offset tagBytes =
     bindE (readU32 data offset) (\<lambda>tag.
       if tag = 1 then bindE (readPubkey data (offset + tagBytes)) (\<lambda>k. Inr (Some k)) else Inr None)"

definition decodeTokenAccount :: "bytes \<Rightarrow> token_account result" where
  "decodeTokenAccount data =
     bindE (check (\<not> int (length data) < 165) (RangeError ''token account data too short'')) (\<lambda>_.
     bindE (readPubkey data 0) (\<lambda>mint.
     bindE (readPubkey data 32) (\<lambda>owner.
     bindE (readU64 data 64) (\<lambda>amount.
     bindE (coption data 72 4) (\<lambda>delegate.
     bindE (readU8 data 108) (\<lambda>state.
     bindE (coption data 129 4) (\<lambda>closeAuthority.
       Inr \<lparr>ta_mint = mint, ta_owner = owner, ta_amount = amount, ta_delegate = delegate,
            ta_state = state, ta_closeAuthority = closeAuthority\<rparr>)))))))"

text \<open>The \<open>while\<close> loop of \<open>findTokenExtension\<close> from a cursor \<open>off\<close>.\<close>

function extensionLoop :: "bytes \<Rightarrow> int \<Rightarrow> int \<Rightarrow> (int \<times> int) option result" where
  "extensionLoop data extensionType off =
     (if off + 4 \<le> int (length data)
      then bindE (readU16 data off) (\<lambda>t.
           bindE (readU16 data (off + 2)) (\<lambda>l.
             if t = extensionType then Inr (Some (off + 4, l))
             else if t = 0 \<and> l = 0 then Inr None
             else extensionLoop data extensionType (off + (4 + l))))
      else Inr None)"
  by pat_completeness auto
termination
  by (relation "measure (\<lambda>(data, ty, off). nat (int (length data) - off))")
     (auto simp: readU16_def result_simps intro: less_le_trans [OF _ le_uint_nonneg])

declare extensionLoop.simps [simp del]

definition findTokenExtension :: "bytes \<Rightarrow> int \<Rightarrow> (int \<times> int) option result" where
  "findTokenExtension data extensionType = extensionLoop data extensionType 166"

definition decodeScaledUiAmount :: "bytes \<Rightarrow> scaled_ui_amount option result" where
  "decodeScaledUiAmount data =
     bindE (findTokenExtension data Ext_ScaledUiAmountConfig) (\<lambda>s.
       case s of
         None \<Rightarrow> Inr None
       | Some (offset, _) \<Rightarrow>
           bindE (readPubkey data offset) (\<lambda>authority.
           bindE (readF64 data (offset + 32)) (\<lambda>multiplier.
           bindE (readI64 data (offset + 40)) (\<lambda>ts.
           bindE (readF64 data (offset + 48)) (\<lambda>newMultiplier.
             Inr (Some \<lparr>sa_authority = authority, sa_multiplier = multiplier,
                        sa_newMultiplierEffectiveTimestamp = ts, sa_newMultiplier = newMultiplier\<rparr>))))))"

definition decodePaused :: "bytes \<Rightarrow> bool result" where
  "decodePaused data =
     bindE (findTokenExtension data Ext_PausableConfig) (\<lambda>p.
       case p of
         None \<Rightarrow> Inr False
       | Some (offset, _) \<Rightarrow> bindE (readU8 data (offset + 32)) (\<lambda>v. Inr (v = 1)))"

definition decodeTransferHook :: "bytes \<Rightarrow> pubkey option result" where
  "decodeTransferHook data =
     bindE (findTokenExtension data Ext_TransferHook) (\<lambda>h.
       case h of
         None \<Rightarrow> Inr None
       | Some (offset, _) \<Rightarrow>
           bindE (readPubkey data (offset + 32)) (\<lambda>program.
             Inr (if program = PublicKey_default then None else Some program)))"

definition decodeMint :: "bytes \<Rightarrow> mint_info result" where
  "decodeMint data =
     bindE (check (\<not> int (length data) < 82) (RangeError ''mint data too short'')) (\<lambda>_.
     bindE (if int (length data) > 166
            then bindE (decodeScaledUiAmount data) (\<lambda>scaledUiAmount.
                 bindE (decodePaused data) (\<lambda>paused.
                 bindE (decodeTransferHook data) (\<lambda>hook. Inr (scaledUiAmount, paused, hook))))
            else Inr (None, False, None)) (\<lambda>(scaledUiAmount, paused, hook).
     bindE (coption data 0 4) (\<lambda>mintAuthority.
     bindE (readU64 data 36) (\<lambda>supply.
     bindE (readU8 data 44) (\<lambda>decimals.
     bindE (readU8 data 45) (\<lambda>initialized.
     bindE (coption data 46 4) (\<lambda>freezeAuthority.
       Inr \<lparr>mi_mintAuthority = mintAuthority, mi_supply = supply, mi_decimals = decimals,
            mi_isInitialized = (initialized = 1), mi_freezeAuthority = freezeAuthority,
            mi_scaledUiAmount = scaledUiAmount, mi_paused = paused,
            mi_transferHookProgramId = hook\<rparr>)))))))"

definition effectiveMintMultiplier :: "mint_info \<Rightarrow> int \<Rightarrow> jsnum" where
  "effectiveMintMultiplier mint nowUnixSeconds =
     (case mi_scaledUiAmount mint of
        None \<Rightarrow> Fin 1
      | Some s \<Rightarrow> if nowUnixSeconds \<ge> sa_newMultiplierEffectiveTimestamp s then sa_newMultiplier s
                  else sa_multiplier s)"

definition decodeClock :: "bytes \<Rightarrow> clock result" where
  "decodeClock data =
     bindE (readU64 data 0) (\<lambda>slot.
     bindE (readI64 data 32) (\<lambda>ts. Inr \<lparr>ck_slot = slot, ck_unixTimestamp = ts\<rparr>))"

section \<open>Token accounts decode exactly from 165 bytes on\<close>

lemma coption_in:
  "0 \<le> i \<Longrightarrow> i + 36 \<le> int (length d) \<Longrightarrow>
    coption d i 4 = Inr (if le_uint (subarray d i (i + 4)) = 1 then Some (subarray d (i + 4) (i + 36)) else None)"
  by (simp add: coption_def read_simps add.commute)

lemma decodeTokenAccount_returns_iff: "returns (decodeTokenAccount d) \<longleftrightarrow> 165 \<le> length d"
proof
  assume "165 \<le> length d"
  then have "165 \<le> int (length d)" by simp
  then show "returns (decodeTokenAccount d)" by (simp add: decodeTokenAccount_def read_simps coption_in)
next
  assume "returns (decodeTokenAccount d)"
  then show "165 \<le> length d" by (cases "165 \<le> length d") (simp_all add: decodeTokenAccount_def)
qed

section \<open>The extension walk\<close>

text \<open>The walk stops and never throws: the cursor stays inside the data.\<close>

lemma extensionLoop_returns: "0 \<le> off \<Longrightarrow> returns (extensionLoop d ty off)"
proof (induction d ty off rule: extensionLoop.induct)
  case (1 d ty off)
  show ?case
  proof (cases "off + 4 \<le> int (length d)")
    case True
    let ?t = "le_uint (subarray d off (off + 2))" and ?l = "le_uint (subarray d (off + 2) (off + 4))"
    have r: "readU16 d off = Inr ?t" "readU16 d (off + 2) = Inr ?l"
      using True "1.prems" by (simp_all add: read_simps add.commute)
    then have "returns (extensionLoop d ty (off + (4 + ?l)))"
      if "?t \<noteq> ty" "\<not> (?t = 0 \<and> ?l = 0)"
      using that "1.prems" by (intro "1.IH" [OF True r]) simp_all
    with True r show ?thesis by (auto simp: extensionLoop.simps [of d ty off])
  qed (simp add: extensionLoop.simps [of d ty off])
qed

text \<open>A well-formed extension area and what looking up a type in it means.\<close>

definition tlv_entry :: "int \<times> bytes \<Rightarrow> bytes" where
  "tlv_entry e = le_bytes 2 (fst e) @ le_bytes 2 (int (length (snd e))) @ snd e"

definition wf_tlv :: "(int \<times> bytes) list \<Rightarrow> bool" where
  "wf_tlv es \<longleftrightarrow> (\<forall>(t, v) \<in> set es. 0 < t \<and> t < 65536 \<and> length v < 65536)"

lemma extensionLoop_finds:
  assumes "wf_tlv es" "0 < ty"
  shows "case map_of es ty of
      None \<Rightarrow> extensionLoop (pre @ concat (map tlv_entry es)) ty (int (length pre)) = Inr None
    | Some v \<Rightarrow> \<exists>i. extensionLoop (pre @ concat (map tlv_entry es)) ty (int (length pre)) =
          Inr (Some (i, int (length v))) \<and>
        0 \<le> i \<and> i + int (length v) \<le> int (length (pre @ concat (map tlv_entry es))) \<and>
        subarray (pre @ concat (map tlv_entry es)) i (i + int (length v)) = v"
  using assms
proof (induction es arbitrary: pre)
  case Nil
  then show ?case by (simp add: extensionLoop.simps)
next
  case (Cons e es)
  obtain t v where e: "e = (t, v)" by (cases e)
  let ?rest = "concat (map tlv_entry es)" and ?off = "int (length pre)"
  let ?d = "pre @ concat (map tlv_entry (e # es))"
  from Cons.prems have t: "0 < t" "t < 65536" "length v < 65536" and wf: "wf_tlv es"
    by (auto simp: wf_tlv_def e)
  have d: "?d = pre @ le_bytes 2 t @ le_bytes 2 (int (length v)) @ v @ ?rest"
    by (simp add: e tlv_entry_def)
  have read_t: "readU16 ?d ?off = Inr t"
    unfolding d using t by (simp add: read_simps subarray_def nat_add_distrib le_uint_le_bytes)
  have read_l: "readU16 ?d (?off + 2) = Inr (int (length v))"
    unfolding d using t by (simp add: read_simps subarray_def nat_add_distrib le_uint_le_bytes)
  have inside: "?off + 4 \<le> int (length ?d)" unfolding d by simp
  show ?case
  proof (cases "t = ty")
    case True
    have "extensionLoop ?d ty ?off = Inr (Some (?off + 4, int (length v)))"
      using inside read_t read_l True by (simp add: extensionLoop.simps [of _ ty ?off])
    moreover have "subarray ?d (?off + 4) (?off + 4 + int (length v)) = v"
      unfolding d by (simp add: subarray_def nat_add_distrib)
    moreover have "?off + 4 + int (length v) \<le> int (length ?d)" unfolding d by simp
    ultimately show ?thesis using True by (auto simp: e)
  next
    case False
    have m: "map_of (e # es) ty = map_of es ty" using False by (simp add: e)
    have dd: "?d = (pre @ tlv_entry e) @ ?rest" by simp
    have "extensionLoop ?d ty ?off = extensionLoop ?d ty (?off + (4 + int (length v)))"
      using inside read_t read_l False t by (simp add: extensionLoop.simps [of _ ty ?off])
    also have "?off + (4 + int (length v)) = int (length (pre @ tlv_entry e))"
      by (simp add: e tlv_entry_def)
    finally have step: "extensionLoop ((pre @ tlv_entry e) @ ?rest) ty ?off =
        extensionLoop ((pre @ tlv_entry e) @ ?rest) ty (int (length (pre @ tlv_entry e)))"
      by simp
    show ?thesis
      using Cons.IH [OF wf Cons.prems(2), of "pre @ tlv_entry e"] by (simp only: m dd step)
  qed
qed

lemma findTokenExtension_finds:
  assumes "length base = 166" "wf_tlv es" "0 < ty"
  shows "case map_of es ty of
      None \<Rightarrow> findTokenExtension (base @ concat (map tlv_entry es)) ty = Inr None
    | Some v \<Rightarrow> \<exists>i. findTokenExtension (base @ concat (map tlv_entry es)) ty = Inr (Some (i, int (length v))) \<and>
        0 \<le> i \<and> i + int (length v) \<le> int (length (base @ concat (map tlv_entry es))) \<and>
        subarray (base @ concat (map tlv_entry es)) i (i + int (length v)) = v"
proof -
  have b: "int (length base) = 166" using assms(1) by simp
  show ?thesis unfolding findTokenExtension_def by (rule extensionLoop_finds [OF assms(2,3), of base, unfolded b])
qed

lemma nth_subarray:
  "0 \<le> i \<Longrightarrow> i + n \<le> int (length d) \<Longrightarrow> k < nat n \<Longrightarrow> subarray d i (i + n) ! k = d ! (nat i + k)"
  by (simp add: subarray_def nat_add_distrib)

text \<open>The pause flag a mint shows is the flag byte of its Pausable extension.\<close>

lemma decodePaused_spec:
  assumes "length base = 166" "wf_tlv es" "\<And>v. map_of es 26 = Some v \<Longrightarrow> 33 \<le> length v"
  shows "decodePaused (base @ concat (map tlv_entry es)) =
    Inr (case map_of es 26 of None \<Rightarrow> False | Some v \<Rightarrow> v ! 32 = 1)"
proof (cases "map_of es 26")
  case None
  with findTokenExtension_finds [OF assms(1,2), of 26] show ?thesis by (simp add: decodePaused_def)
next
  case (Some v)
  let ?d = "base @ concat (map tlv_entry es)"
  from findTokenExtension_finds [OF assms(1,2), of 26] Some obtain i where
    f: "findTokenExtension ?d 26 = Inr (Some (i, int (length v)))" and i: "0 \<le> i" "i + int (length v) \<le> int (length ?d)"
    and v: "subarray ?d i (i + int (length v)) = v"
    by auto
  have len: "33 \<le> length v" using assms(3) Some .
  have "32 < nat (int (length v))" using len by simp
  then have "subarray ?d i (i + int (length v)) ! 32 = ?d ! (nat i + 32)" using i by (rule nth_subarray [rotated 2])
  moreover have "nat (i + 32) = nat i + 32" using i by simp
  ultimately have "?d ! nat (i + 32) = v ! 32" by (simp only: v)
  moreover have need: "need ?d (i + 32) 1 = Inr ()" using i len by (intro need_in) linarith+
  ultimately show ?thesis
    using Some by (simp add: decodePaused_def f readU8_def need [simplified] word_uint_eq_iff del: need_eq_Inr)
qed

section \<open>Properties\<close>

definition example_extensions :: "(int \<times> bytes) list" where
  "example_extensions = [(18, replicate 64 9), (26, replicate 32 8 @ [1]), (25, replicate 56 7)]"

text \<open>
  The walk over Token-2022 extensions is a lookup: in a well-formed extension area it returns offset
  and length of the first entry of the type asked for, pointing at exactly that entry's bytes, and null
  when there is none. On any data at all it stops and does not throw.
\<close>

theorem findTokenExtension_is_lookup:
  assumes "length base = 166" "wf_tlv es" "0 < ty"
  shows "(case map_of es ty of
      None \<Rightarrow> findTokenExtension (base @ concat (map tlv_entry es)) ty = Inr None
    | Some v \<Rightarrow> \<exists>i. findTokenExtension (base @ concat (map tlv_entry es)) ty = Inr (Some (i, int (length v))) \<and>
        subarray (base @ concat (map tlv_entry es)) i (i + int (length v)) = v) \<and>
    returns (findTokenExtension d ty)"
  using findTokenExtension_finds [OF assms] extensionLoop_returns [of 166 d ty]
  by (auto simp: findTokenExtension_def split: option.splits)

lemma findTokenExtension_is_lookup_witness:
  "\<exists>i. findTokenExtension (replicate 166 0 @ concat (map tlv_entry example_extensions)) 26 = Inr (Some (i, 33))"
proof -
  have "wf_tlv example_extensions" by (simp add: wf_tlv_def example_extensions_def)
  from findTokenExtension_is_lookup [OF _ this, of "replicate 166 0" 26 "[]"] show ?thesis
    by (auto simp: example_extensions_def)
qed

text \<open>
  The decoded pause flag is the flag of the mint's Pausable extension: true exactly when the mint has
  the extension and its flag byte, behind the 32-byte authority, is one.
\<close>

theorem paused_flag_is_extension_flag:
  assumes "length base = 166" "wf_tlv es" "\<And>v. map_of es 26 = Some v \<Longrightarrow> 33 \<le> length v"
  shows "decodePaused (base @ concat (map tlv_entry es)) =
    Inr (case map_of es 26 of None \<Rightarrow> False | Some v \<Rightarrow> v ! 32 = 1)"
  by (rule decodePaused_spec [OF assms])

end
