(* ===== verification/Addresses.thy ===== *)
theory Addresses
  imports Bytes
begin

text \<open>
  \<^verbatim>\<open>packages/sdk/src/pda.ts\<close> and \<^verbatim>\<open>addresses.ts\<close>: program ids and derived addresses. Deriving a program
  address (\<open>PublicKey.findProgramAddressSync\<close>) and an associated token address
  (\<open>getAssociatedTokenAddressSync\<close>) is code of the Solana libraries: both are parameters here, the
  seeds and their order are the SDK's. The lemmas: the pool address does not depend on the order of
  the two mints, and for a derivation without collisions on the SDK's seeds the addresses of different
  configs differ.
\<close>

section \<open>Program ids\<close>

definition base58_alphabet :: string where
  "base58_alphabet = ''123456789ABCDEFGHJKLMNPQRSTUVWXYZabcdefghijkmnopqrstuvwxyz''"

fun index_in :: "'a list \<Rightarrow> 'a \<Rightarrow> nat" where
  "index_in [] c = 0"
| "index_in (x # xs) c = (if x = c then 0 else Suc (index_in xs c))"

text \<open>\<open>new PublicKey(text)\<close>: base 58, most significant digit first, as 32 bytes.\<close>

definition PublicKey :: "string \<Rightarrow> pubkey" where
  "PublicKey text = rev (le_bytes 32 (foldl (\<lambda>v c. v * 58 + int (index_in base58_alphabet c)) 0 text))"

definition STOCKFLOOR_PROGRAM_ID :: pubkey where
  "STOCKFLOOR_PROGRAM_ID = PublicKey ''98NLryxegA9KLsED1TkSQdF2MDt6X8C7B1PmepJN6HpA''"
definition DBC_PROGRAM_ID :: pubkey where
  "DBC_PROGRAM_ID = PublicKey ''dbcij3LWUppWqq96dh6gJWwBifmcGfLSB5D4DuSMaqN''"
definition DAMM_V2_PROGRAM_ID :: pubkey where
  "DAMM_V2_PROGRAM_ID = PublicKey ''cpamdpZCGKUy5JxQXB4dcpGPiikHawvSWAd6mEn1sGG''"
definition METAPLEX_PROGRAM_ID :: pubkey where
  "METAPLEX_PROGRAM_ID = PublicKey ''metaqbxxUerdq28cj1RbAWkYQm3ybzjb6a8bt518x1s''"
definition PLATFORM_TREASURY :: pubkey where
  "PLATFORM_TREASURY = PublicKey ''78tRFS255ADZT2oMSXi5xjHt7Y2SVDLdDEBz759eQsqJ''"
definition DAMM_V2_CONFIG_CUSTOMIZABLE :: pubkey where
  "DAMM_V2_CONFIG_CUSTOMIZABLE = PublicKey ''A8gMrEPJkacWkcb3DGwtJwTe16HktSEfvwtuDh2MCtck''"

definition DAMM_V2_MIGRATION_CONFIGS :: "int \<Rightarrow> pubkey option" where
  "DAMM_V2_MIGRATION_CONFIGS opt =
     map_of
       [(0, PublicKey ''7F6dnUcRuyM2TwR8myT1dYypFXpPSxqwKNSFNkxyNESd''),
        (1, PublicKey ''2nHK1kju6XjphBLbNxpM5XRGFj7p9U8vvNzyZiha1z6k''),
        (2, PublicKey ''Hv8Lmzmnju6m7kcokVKvwqz7QPmdX9XfKjJsXz8RXcjp''),
        (3, PublicKey ''2c4cYd4reUYVRAB9kUUkrq55VPyy2FNQ3FDL4o12JXmq''),
        (4, PublicKey ''AkmQWebAwFvWk55wBoCr5D62C6VVDTzi84NJuD9H7cFD''),
        (5, PublicKey ''DbCRBj8McvPYHJG1ukj8RE15h2dCNUdTAESG49XpQ44u''),
        (6, DAMM_V2_CONFIG_CUSTOMIZABLE)] opt"

section \<open>Derived addresses\<close>

text \<open>
  \<open>derive seeds program\<close> is the address part of \<open>findProgramAddressSync\<close>; \<open>ata mint owner program\<close> is
  \<open>getAssociatedTokenAddressSync(mint, owner, true, program)\<close>.
\<close>

type_synonym pda_finder = "bytes list \<Rightarrow> pubkey \<Rightarrow> pubkey"
type_synonym ata_finder = "pubkey \<Rightarrow> pubkey \<Rightarrow> pubkey \<Rightarrow> pubkey"

text \<open>\<open>TextEncoder.encode\<close> of an ASCII seed.\<close>

definition seed :: "string \<Rightarrow> bytes" where
  "seed s = map (\<lambda>c. of_nat (of_char c)) s"

definition launchPda :: "pda_finder \<Rightarrow> pubkey \<Rightarrow> pubkey" where
  "launchPda derive config = derive [seed ''launch'', config] STOCKFLOOR_PROGRAM_ID"

definition authorityPda :: "pda_finder \<Rightarrow> pubkey \<Rightarrow> pubkey" where
  "authorityPda derive config = derive [seed ''authority'', config] STOCKFLOOR_PROGRAM_ID"

definition vaultAuthorityPda :: "pda_finder \<Rightarrow> pubkey \<Rightarrow> pubkey" where
  "vaultAuthorityPda derive config = derive [seed ''vault_authority'', config] STOCKFLOOR_PROGRAM_ID"

definition vaultAddress :: "pda_finder \<Rightarrow> ata_finder \<Rightarrow> pubkey \<Rightarrow> pubkey \<Rightarrow> pubkey \<Rightarrow> pubkey" where
  "vaultAddress derive ata config quoteMint quoteTokenProgram =
     ata quoteMint (vaultAuthorityPda derive config) quoteTokenProgram"

text \<open>The loop of \<open>maxMin\<close> over the 32 byte positions from \<open>i\<close> on, \<open>n\<close> of them left.\<close>

fun maxMinLoop :: "pubkey \<Rightarrow> pubkey \<Rightarrow> nat \<Rightarrow> nat \<Rightarrow> pubkey \<times> pubkey" where
  "maxMinLoop a b i 0 = (a, b)"
| "maxMinLoop a b i (Suc n) =
     (if a ! i \<noteq> b ! i then (if a ! i > b ! i then (a, b) else (b, a)) else maxMinLoop a b (Suc i) n)"

definition maxMin :: "pubkey \<Rightarrow> pubkey \<Rightarrow> pubkey \<times> pubkey" where
  "maxMin a b = maxMinLoop a b 0 32"

definition dbcPoolPda :: "pda_finder \<Rightarrow> pubkey \<Rightarrow> pubkey \<Rightarrow> pubkey \<Rightarrow> pubkey" where
  "dbcPoolPda derive config baseMint quoteMint =
     (let (mx, mn) = maxMin baseMint quoteMint in derive [seed ''pool'', config, mx, mn] DBC_PROGRAM_ID)"

definition dbcTokenVaultPda :: "pda_finder \<Rightarrow> pubkey \<Rightarrow> pubkey \<Rightarrow> pubkey" where
  "dbcTokenVaultPda derive pool mint = derive [seed ''token_vault'', mint, pool] DBC_PROGRAM_ID"

definition metaplexMetadataPda :: "pda_finder \<Rightarrow> pubkey \<Rightarrow> pubkey" where
  "metaplexMetadataPda derive mint = derive [seed ''metadata'', METAPLEX_PROGRAM_ID, mint] METAPLEX_PROGRAM_ID"

definition dammV2PoolPda :: "pda_finder \<Rightarrow> pubkey \<Rightarrow> pubkey \<Rightarrow> pubkey \<Rightarrow> pubkey" where
  "dammV2PoolPda derive dammConfig mintA mintB =
     (let (mx, mn) = maxMin mintA mintB in derive [seed ''pool'', dammConfig, mx, mn] DAMM_V2_PROGRAM_ID)"

definition dammV2PositionPda :: "pda_finder \<Rightarrow> pubkey \<Rightarrow> pubkey" where
  "dammV2PositionPda derive positionNftMint = derive [seed ''position'', positionNftMint] DAMM_V2_PROGRAM_ID"

definition dammV2PositionNftAccountPda :: "pda_finder \<Rightarrow> pubkey \<Rightarrow> pubkey" where
  "dammV2PositionNftAccountPda derive positionNftMint =
     derive [seed ''position_nft_account'', positionNftMint] DAMM_V2_PROGRAM_ID"

definition associatedTokenAddress :: "ata_finder \<Rightarrow> pubkey \<Rightarrow> pubkey \<Rightarrow> pubkey \<Rightarrow> pubkey" where
  "associatedTokenAddress ata owner mint tokenProgram = ata mint owner tokenProgram"

definition claimerQuoteAccount :: "pda_finder \<Rightarrow> ata_finder \<Rightarrow> pubkey \<Rightarrow> pubkey \<Rightarrow> pubkey \<Rightarrow> pubkey" where
  "claimerQuoteAccount derive ata config quoteMint quoteTokenProgram =
     associatedTokenAddress ata (authorityPda derive config) quoteMint quoteTokenProgram"

definition dbcTokenBadgePda :: "pda_finder \<Rightarrow> pubkey \<Rightarrow> pubkey" where
  "dbcTokenBadgePda derive quoteMint = derive [seed ''token_badge'', quoteMint] DBC_PROGRAM_ID"

definition DBC_POOL_AUTHORITY :: "pda_finder \<Rightarrow> pubkey" where
  "DBC_POOL_AUTHORITY derive = derive [seed ''pool_authority''] DBC_PROGRAM_ID"

definition DBC_EVENT_AUTHORITY :: "pda_finder \<Rightarrow> pubkey" where
  "DBC_EVENT_AUTHORITY derive = derive [seed ''__event_authority''] DBC_PROGRAM_ID"

definition DAMM_V2_POOL_AUTHORITY :: "pda_finder \<Rightarrow> pubkey" where
  "DAMM_V2_POOL_AUTHORITY derive = derive [seed ''pool_authority''] DAMM_V2_PROGRAM_ID"

definition DAMM_V2_EVENT_AUTHORITY :: "pda_finder \<Rightarrow> pubkey" where
  "DAMM_V2_EVENT_AUTHORITY derive = derive [seed ''__event_authority''] DAMM_V2_PROGRAM_ID"

definition dbcDammV2MigrationMetadataPda :: "pda_finder \<Rightarrow> pubkey \<Rightarrow> pubkey" where
  "dbcDammV2MigrationMetadataPda derive pool = derive [seed ''damm_v2'', pool] DBC_PROGRAM_ID"

definition dammV2TokenVaultPda :: "pda_finder \<Rightarrow> pubkey \<Rightarrow> pubkey \<Rightarrow> pubkey" where
  "dammV2TokenVaultPda derive pool mint = derive [seed ''token_vault'', mint, pool] DAMM_V2_PROGRAM_ID"

text \<open>
  The Solana libraries as one parameter: the two derivations and the ids of the SPL programs, which
  \<^verbatim>\<open>addresses.ts\<close> re-exports from them.
\<close>

record solana_lib =
  sol_derive :: pda_finder
  sol_ata :: ata_finder
  TOKEN_PROGRAM_ID :: pubkey
  TOKEN_2022_PROGRAM_ID :: pubkey
  ASSOCIATED_TOKEN_PROGRAM_ID :: pubkey
  SystemProgram_programId :: pubkey

definition platformQuoteAccount :: "solana_lib \<Rightarrow> pubkey \<Rightarrow> pubkey \<Rightarrow> pubkey" where
  "platformQuoteAccount lib quoteMint quoteTokenProgram =
     associatedTokenAddress (sol_ata lib) PLATFORM_TREASURY quoteMint quoteTokenProgram"

definition creatorQuoteAccount :: "solana_lib \<Rightarrow> pubkey \<Rightarrow> pubkey \<Rightarrow> pubkey \<Rightarrow> pubkey" where
  "creatorQuoteAccount lib creator quoteMint quoteTokenProgram =
     associatedTokenAddress (sol_ata lib) creator quoteMint quoteTokenProgram"

definition claimerBaseAccount :: "solana_lib \<Rightarrow> pubkey \<Rightarrow> pubkey \<Rightarrow> pubkey" where
  "claimerBaseAccount lib config baseMint =
     associatedTokenAddress (sol_ata lib) (authorityPda (sol_derive lib) config) baseMint (TOKEN_PROGRAM_ID lib)"

section \<open>The order of the mints does not matter\<close>

lemma maxMinLoop_sym:
  "\<exists>k. i \<le> k \<and> k < i + n \<and> a ! k \<noteq> b ! k \<Longrightarrow> maxMinLoop a b i n = maxMinLoop b a i n"
proof (induction a b i n rule: maxMinLoop.induct)
  case (2 a b i n)
  show ?case
  proof (cases "a ! i = b ! i")
    case True
    from "2.prems" obtain k where k: "i \<le> k" "k < i + Suc n" "a ! k \<noteq> b ! k" by blast
    with True have "Suc i \<le> k" by (cases "i = k") auto
    with k True "2.IH" show ?thesis by auto
  qed auto
qed auto

lemma maxMin_sym:
  assumes "length a = 32" "length b = 32"
  shows "maxMin a b = maxMin b a"
proof (cases "a = b")
  case False
  then obtain k where "k < 32" "a ! k \<noteq> b ! k" using assms by (auto simp: list_eq_iff_nth_eq)
  then show ?thesis unfolding maxMin_def by (intro maxMinLoop_sym) auto
qed simp

lemma maxMin_cases: "maxMin a b = (a, b) \<or> maxMin a b = (b, a)"
proof -
  have "maxMinLoop a b i n = (a, b) \<or> maxMinLoop a b i n = (b, a)" for i n
    by (induction a b i n rule: maxMinLoop.induct) auto
  then show ?thesis by (simp add: maxMin_def)
qed

lemma pool_pdas_sym:
  assumes "length a = 32" "length b = 32"
  shows "dbcPoolPda derive config a b = dbcPoolPda derive config b a"
    "dammV2PoolPda derive config a b = dammV2PoolPda derive config b a"
  by (simp_all add: dbcPoolPda_def dammV2PoolPda_def maxMin_sym [OF assms])

text \<open>Pools of different configs or mint pairs differ, for a derivation that does not collide.\<close>

lemma dbcPoolPda_inj:
  assumes "inj (\<lambda>(seeds, program). derive seeds program)"
    "dbcPoolPda derive c a b = dbcPoolPda derive c' a' b'"
  shows "c = c' \<and> {a, b} = {a', b'}"
proof -
  obtain x y where xy: "maxMin a b = (x, y)" by (cases "maxMin a b")
  obtain x' y' where xy': "maxMin a' b' = (x', y')" by (cases "maxMin a' b'")
  from assms have "c = c' \<and> x = x' \<and> y = y'"
    by (auto simp: dbcPoolPda_def xy xy' inj_def)
  moreover have "{x, y} = {a, b}" using maxMin_cases [of a b] xy by auto
  moreover have "{x', y'} = {a', b'}" using maxMin_cases [of a' b'] xy' by auto
  ultimately show ?thesis by blast
qed

section \<open>Properties\<close>

text \<open>
  A pool address depends on the set of its mints, not their order, and determines config and mints:
  with a derivation that never maps two seed lists to one address, two launches share a pool address only
  if they share config and mint pair.
\<close>

theorem pool_address_identifies_launch:
  assumes "inj (\<lambda>(seeds, program). derive seeds program)" "length a = 32" "length b = 32"
  shows "dbcPoolPda derive c a b = dbcPoolPda derive c b a \<and>
    (dbcPoolPda derive c a b = dbcPoolPda derive c' a' b' \<longrightarrow> c = c' \<and> {a, b} = {a', b'})"
  using pool_pdas_sym(1) [OF assms(2,3)] dbcPoolPda_inj [OF assms(1)] by blast

text \<open>An injective derivation to instantiate the parameter: all seeds and the program, length-prefixed.\<close>

definition plain_derive :: pda_finder where
  "plain_derive seeds program =
     concat (map (\<lambda>s. replicate (length s) 1 @ [0] @ s) (program # seeds))"

lemma unary_prefix: "replicate n 1 @ [0] @ x = replicate m 1 @ [0] @ (y :: bytes) \<Longrightarrow> n = m \<and> x = y"
proof (induction n arbitrary: m)
  case 0
  then show ?case by (cases m) simp_all
next
  case (Suc n)
  then show ?case by (cases m) simp_all
qed

lemma framed_inj:
  "concat (map (\<lambda>s. replicate (length s) 1 @ [0] @ s) xs) = concat (map (\<lambda>s. replicate (length s) 1 @ [0] @ (s :: bytes)) ys) \<Longrightarrow> xs = ys"
proof (induction xs arbitrary: ys)
  case Nil
  then show ?case by (cases ys) simp_all
next
  case (Cons x xs)
  then obtain y ys' where ys: "ys = y # ys'" by (cases ys) simp_all
  with Cons.prems have "replicate (length x) 1 @ [0] @ (x @ concat (map (\<lambda>s. replicate (length s) 1 @ [0] @ s) xs)) =
      replicate (length y) 1 @ [0] @ (y @ concat (map (\<lambda>s. replicate (length s) 1 @ [0] @ s) ys'))" by simp
  from unary_prefix [OF this] have "x = y" "concat (map (\<lambda>s. replicate (length s) 1 @ [0] @ s) xs) =
      concat (map (\<lambda>s. replicate (length s) 1 @ [0] @ s) ys')" by (auto simp: append_eq_append_conv)
  with Cons.IH ys show ?case by simp
qed

lemma plain_derive_inj: "inj (\<lambda>(seeds, program). plain_derive seeds program)"
proof (rule injI, clarsimp)
  fix s p s' p'
  assume "plain_derive s p = plain_derive s' p'"
  then have "p # s = p' # s'" unfolding plain_derive_def by (rule framed_inj)
  then show "s = s' \<and> p = p'" by simp
qed

lemma pool_address_identifies_launch_witness:
  "dbcPoolPda plain_derive (replicate 32 1) (replicate 32 2) (replicate 32 3) =
   dbcPoolPda plain_derive (replicate 32 1) (replicate 32 3) (replicate 32 2)"
  using pool_address_identifies_launch [OF plain_derive_inj, of "replicate 32 2" "replicate 32 3"] by simp

end
