(* ===== verification/MeteoraAccounts.thy ===== *)
theory MeteoraAccounts
  imports Addresses CurveMath
begin

text \<open>
  \<^verbatim>\<open>packages/sdk/src/dbc/accounts.ts\<close> and \<^verbatim>\<open>damm/accounts.ts\<close>: the Meteora accounts the SDK reads and
  the two formulas on them, the partner's share of a surplus and the fees a position can claim. The
  Anchor coder that parses the bytes is a parameter; the owner, discriminator and size checks before
  it are the SDK's. Fields whose width the coder fixes are integers.
\<close>

record account_data =
  ac_data :: bytes
  ac_owner :: pubkey
  ac_lamports :: int
  ac_executable :: bool

section \<open>DBC PoolConfig and VirtualPool\<close>

definition DBC_POOL_CONFIG_DISCRIMINATOR :: bytes where
  "DBC_POOL_CONFIG_DISCRIMINATOR = [26, 108, 14, 123, 116, 230, 129, 43]"
definition DBC_VIRTUAL_POOL_DISCRIMINATOR :: bytes where
  "DBC_VIRTUAL_POOL_DISCRIMINATOR = [213, 224, 5, 209, 98, 69, 119, 92]"
definition DBC_POOL_CONFIG_SIZE :: int where [simp]: "DBC_POOL_CONFIG_SIZE = 1048"
definition DBC_VIRTUAL_POOL_SIZE :: int where [simp]: "DBC_VIRTUAL_POOL_SIZE = 424"

definition LockedVesting :: int where [simp]: "LockedVesting = 2"
definition PARTNER_MIGRATION_FEE_MASK :: int where [simp]: "PARTNER_MIGRATION_FEE_MASK = 4"
definition CREATOR_MIGRATION_FEE_MASK :: int where [simp]: "CREATOR_MIGRATION_FEE_MASK = 2"

record dbc_base_fee =
  bf_cliffFeeNumerator :: int
  bf_firstFactor :: int
  bf_secondFactor :: int
  bf_thirdFactor :: int
  bf_baseFeeMode :: int

record dbc_dynamic_fee =
  df_initialized :: int
  df_maxVolatilityAccumulator :: int
  df_variableFeeControl :: int
  df_binStep :: int
  df_filterPeriod :: int
  df_decayPeriod :: int
  df_reductionFactor :: int
  df_binStepU128 :: int

record locked_vesting_config =
  lv_amountPerPeriod :: int
  lv_cliffDurationFromMigrationTime :: int
  lv_frequency :: int
  lv_numberOfPeriod :: int
  lv_cliffUnlockAmount :: int

record dbc_pool_config =
  pc_quoteMint :: pubkey
  pc_feeClaimer :: pubkey
  pc_leftoverReceiver :: pubkey
  pc_baseFee :: dbc_base_fee
  pc_dynamicFee :: dbc_dynamic_fee
  pc_collectFeeMode :: int
  pc_migrationOption :: int
  pc_activationType :: int
  pc_tokenDecimal :: int
  pc_version :: int
  pc_tokenType :: int
  pc_quoteTokenFlag :: int
  pc_partnerPermanentLockedLiquidityPercentage :: int
  pc_partnerLiquidityPercentage :: int
  pc_creatorPermanentLockedLiquidityPercentage :: int
  pc_creatorLiquidityPercentage :: int
  pc_migrationFeeOption :: int
  pc_fixedTokenSupplyFlag :: int
  pc_creatorTradingFeePercentage :: int
  pc_tokenUpdateAuthority :: int
  pc_migrationFeePercentage :: int
  pc_creatorMigrationFeePercentage :: int
  pc_swapBaseAmount :: int
  pc_migrationQuoteThreshold :: int
  pc_migrationBaseThreshold :: int
  pc_migrationSqrtPrice :: int
  pc_preMigrationTokenSupply :: int
  pc_postMigrationTokenSupply :: int
  pc_migratedCollectFeeMode :: int
  pc_migratedDynamicFee :: int
  pc_migratedPoolFeeBps :: int
  pc_enableFirstSwapWithMinFee :: int
  pc_poolCreationFee :: int
  pc_sqrtStartPrice :: int
  pc_curve :: "curve_point list"
  pc_lockedVestingConfig :: locked_vesting_config

record volatility_tracker =
  vt_lastUpdateTimestamp :: int
  vt_sqrtPriceReference :: int
  vt_volatilityAccumulator :: int
  vt_volatilityReference :: int

record dbc_virtual_pool =
  vp_volatilityTracker :: volatility_tracker
  vp_config :: pubkey
  vp_creator :: pubkey
  vp_baseMint :: pubkey
  vp_baseVault :: pubkey
  vp_quoteVault :: pubkey
  vp_baseReserve :: int
  vp_quoteReserve :: int
  vp_protocolBaseFee :: int
  vp_protocolQuoteFee :: int
  vp_partnerBaseFee :: int
  vp_partnerQuoteFee :: int
  vp_sqrtPrice :: int
  vp_activationPoint :: int
  vp_poolType :: int
  vp_isMigrated :: int
  vp_isPartnerWithdrawSurplus :: int
  vp_isProtocolWithdrawSurplus :: int
  vp_migrationProgress :: int
  vp_isWithdrawLeftover :: int
  vp_isCreatorWithdrawSurplus :: int
  vp_migrationFeeWithdrawStatus :: int
  vp_finishCurveTimestamp :: int
  vp_creatorBaseFee :: int
  vp_creatorQuoteFee :: int
  vp_hasSwap :: int
  vp_protocolMigrationBaseFeeAmount :: int
  vp_protocolMigrationQuoteFeeAmount :: int

definition checkAccount :: "account_data \<Rightarrow> bytes \<Rightarrow> int \<Rightarrow> unit result" where
  "checkAccount acc discriminator minSize =
     bindE (check (ac_owner acc = DBC_PROGRAM_ID) (GenericError ''account is not owned by DBC'')) (\<lambda>_.
     check (\<not> (int (length (ac_data acc)) < minSize \<or>
               \<not> bytesEqual (subarray (ac_data acc) 0 8) discriminator))
       (GenericError ''wrong discriminator or size''))"

definition decodeDbcPoolConfig ::
  "(bytes \<Rightarrow> dbc_pool_config result) \<Rightarrow> account_data \<Rightarrow> dbc_pool_config result" where
  "decodeDbcPoolConfig coder acc =
     bindE (checkAccount acc DBC_POOL_CONFIG_DISCRIMINATOR DBC_POOL_CONFIG_SIZE) (\<lambda>_. coder (ac_data acc))"

definition decodeDbcVirtualPool ::
  "(bytes \<Rightarrow> dbc_virtual_pool result) \<Rightarrow> account_data \<Rightarrow> dbc_virtual_pool result" where
  "decodeDbcVirtualPool coder acc =
     bindE (checkAccount acc DBC_VIRTUAL_POOL_DISCRIMINATOR DBC_VIRTUAL_POOL_SIZE) (\<lambda>_. coder (ac_data acc))"

definition isDbcCurveComplete :: "dbc_pool_config \<Rightarrow> dbc_virtual_pool \<Rightarrow> bool" where
  "isDbcCurveComplete config pool \<longleftrightarrow> vp_quoteReserve pool \<ge> pc_migrationQuoteThreshold config"

definition dbcPartnerSurplus :: "dbc_pool_config \<Rightarrow> dbc_virtual_pool \<Rightarrow> int" where
  "dbcPartnerSurplus config pool =
     (if \<not> isDbcCurveComplete config pool then 0
      else let surplus = vp_quoteReserve pool - pc_migrationQuoteThreshold config;
               partnerAndCreator = (surplus * 80) sdiv 100;
               creator = (if pc_creatorTradingFeePercentage config = 0 then 0
                          else (partnerAndCreator * pc_creatorTradingFeePercentage config) sdiv 100)
           in partnerAndCreator - creator)"

section \<open>DAMM v2 Pool and Position\<close>

definition DAMM_V2_POOL_DISCRIMINATOR :: bytes where
  "DAMM_V2_POOL_DISCRIMINATOR = [241, 154, 109, 4, 17, 177, 109, 188]"
definition DAMM_V2_POSITION_DISCRIMINATOR :: bytes where
  "DAMM_V2_POSITION_DISCRIMINATOR = [170, 188, 143, 228, 122, 64, 247, 208]"

definition DammCollect_BothToken :: int where [simp]: "DammCollect_BothToken = 0"
definition DammCollect_OnlyB :: int where [simp]: "DammCollect_OnlyB = 1"
definition DammCollect_Compounding :: int where [simp]: "DammCollect_Compounding = 2"

record damm_pool =
  dp_baseFeeData :: bytes
  dp_protocolFeePercent :: int
  dp_referralFeePercent :: int
  dp_compoundingFeeBps :: int
  dp_dynamicFeeInitialized :: int
  dp_initSqrtPrice :: int
  dp_tokenAMint :: pubkey
  dp_tokenBMint :: pubkey
  dp_tokenAVault :: pubkey
  dp_tokenBVault :: pubkey
  dp_liquidity :: int
  dp_protocolAFee :: int
  dp_protocolBFee :: int
  dp_sqrtMinPrice :: int
  dp_sqrtMaxPrice :: int
  dp_sqrtPrice :: int
  dp_activationPoint :: int
  dp_activationType :: int
  dp_poolStatus :: int
  dp_tokenAFlag :: int
  dp_tokenBFlag :: int
  dp_collectFeeMode :: int
  dp_poolType :: int
  dp_feeVersion :: int
  dp_feeAPerLiquidity :: int
  dp_feeBPerLiquidity :: int
  dp_permanentLockLiquidity :: int
  dp_creator :: pubkey
  dp_tokenAAmount :: int
  dp_tokenBAmount :: int

record damm_position =
  po_pool :: pubkey
  po_nftMint :: pubkey
  po_feeAPerTokenCheckpoint :: int
  po_feeBPerTokenCheckpoint :: int
  po_feeAPending :: int
  po_feeBPending :: int
  po_unlockedLiquidity :: int
  po_vestedLiquidity :: int
  po_permanentLockedLiquidity :: int

text \<open>The coder's output for a pool and a position: the U256 fields are still 32 bytes there.\<close>

record raw_damm_pool =
  rw_pool :: damm_pool
  rw_feeAPerLiquidity :: bytes
  rw_feeBPerLiquidity :: bytes

record raw_damm_position =
  rw_position :: damm_position
  rw_feeAPerTokenCheckpoint :: bytes
  rw_feeBPerTokenCheckpoint :: bytes

definition check_damm :: "account_data \<Rightarrow> bytes \<Rightarrow> unit result" where
  "check_damm acc disc =
     bindE (check (ac_owner acc = DAMM_V2_PROGRAM_ID) (GenericError ''account is not owned by DAMM v2'')) (\<lambda>_.
     check (\<not> (length (ac_data acc) < 8 \<or> \<not> bytesEqual (subarray (ac_data acc) 0 8) disc))
       (GenericError ''wrong discriminator''))"

definition decodeDammV2Pool :: "(bytes \<Rightarrow> raw_damm_pool result) \<Rightarrow> account_data \<Rightarrow> damm_pool result" where
  "decodeDammV2Pool coder acc =
     bindE (check_damm acc DAMM_V2_POOL_DISCRIMINATOR) (\<lambda>_.
     bindE (coder (ac_data acc)) (\<lambda>p.
       Inr ((rw_pool p)\<lparr>dp_feeAPerLiquidity := readUintLE (rw_feeAPerLiquidity p),
                        dp_feeBPerLiquidity := readUintLE (rw_feeBPerLiquidity p)\<rparr>)))"

definition decodeDammV2Position ::
  "(bytes \<Rightarrow> raw_damm_position result) \<Rightarrow> account_data \<Rightarrow> damm_position result" where
  "decodeDammV2Position coder acc =
     bindE (check_damm acc DAMM_V2_POSITION_DISCRIMINATOR) (\<lambda>_.
     bindE (coder (ac_data acc)) (\<lambda>p.
       Inr ((rw_position p)\<lparr>po_feeAPerTokenCheckpoint := readUintLE (rw_feeAPerTokenCheckpoint p),
                            po_feeBPerTokenCheckpoint := readUintLE (rw_feeBPerTokenCheckpoint p)\<rparr>)))"

definition positionLiquidity :: "damm_position \<Rightarrow> int" where
  "positionLiquidity position =
     po_unlockedLiquidity position + po_vestedLiquidity position + po_permanentLockedLiquidity position"

definition pendingPositionFees :: "damm_pool \<Rightarrow> damm_position \<Rightarrow> int \<times> int" where
  "pendingPositionFees pool position =
     (let liquidity = positionLiquidity position
      in (po_feeAPending position +
            drop_bit 128 (liquidity * (dp_feeAPerLiquidity pool - po_feeAPerTokenCheckpoint position)),
          po_feeBPending position +
            drop_bit 128 (liquidity * (dp_feeBPerLiquidity pool - po_feeBPerTokenCheckpoint position))))"

section \<open>Lemmas\<close>

lemma dbcPartnerSurplus_bounds:
  assumes "0 \<le> pc_creatorTradingFeePercentage c" "pc_creatorTradingFeePercentage c \<le> 100"
  shows "0 \<le> dbcPartnerSurplus c p"
    "isDbcCurveComplete c p \<Longrightarrow>
      5 * dbcPartnerSurplus c p \<le> 4 * (vp_quoteReserve p - pc_migrationQuoteThreshold c)"
    "\<not> isDbcCurveComplete c p \<Longrightarrow> dbcPartnerSurplus c p = 0"
proof -
  define s where "s = vp_quoteReserve p - pc_migrationQuoteThreshold c"
  let ?pct = "pc_creatorTradingFeePercentage c"
  define pac where "pac = s * 80 div 100"
  have bounds: "0 \<le> dbcPartnerSurplus c p \<and> dbcPartnerSurplus c p \<le> pac \<and> 0 \<le> pac \<and> 5 * pac \<le> 4 * s"
    if "isDbcCurveComplete c p"
  proof -
    have s: "0 \<le> s" using that by (simp add: isDbcCurveComplete_def s_def)
    have pac: "0 \<le> pac" "5 * pac \<le> 4 * s" using s by (simp_all add: pac_def)
    define cr where "cr = (if ?pct = 0 then 0 else pac * ?pct div 100)"
    have cr: "0 \<le> cr" "cr \<le> pac"
    proof -
      show "0 \<le> cr" using pac assms by (simp add: cr_def pos_imp_zdiv_nonneg_iff)
      have "pac * ?pct \<le> pac * 100" using pac assms by (intro mult_left_mono) simp_all
      then have "pac * ?pct div 100 \<le> pac" by simp
      with pac show "cr \<le> pac" by (simp add: cr_def)
    qed
    have "dbcPartnerSurplus c p = pac - cr"
      using that s pac assms by (simp add: dbcPartnerSurplus_def pac_def cr_def Let_def flip: s_def)
    with cr pac show ?thesis by simp
  qed
  show "\<not> isDbcCurveComplete c p \<Longrightarrow> dbcPartnerSurplus c p = 0" by (simp add: dbcPartnerSurplus_def)
  then show "0 \<le> dbcPartnerSurplus c p" using bounds by (cases "isDbcCurveComplete c p") auto
  show "isDbcCurveComplete c p \<Longrightarrow>
      5 * dbcPartnerSurplus c p \<le> 4 * (vp_quoteReserve p - pc_migrationQuoteThreshold c)"
    using bounds by (auto simp: s_def)
qed

text \<open>Pending fees never shrink while the accumulator grows, and settle to the checkpointed amount.\<close>

lemma drop_bit_128_mono: "(x :: int) \<le> y \<Longrightarrow> drop_bit 128 x \<le> drop_bit 128 y"
  by (simp add: drop_bit_eq_div zdiv_mono1)

lemma pendingPositionFees_mono:
  assumes "0 \<le> positionLiquidity pos"
    "dp_feeAPerLiquidity p \<le> dp_feeAPerLiquidity p'" "dp_feeBPerLiquidity p \<le> dp_feeBPerLiquidity p'"
  shows "fst (pendingPositionFees p pos) \<le> fst (pendingPositionFees p' pos)"
    "snd (pendingPositionFees p pos) \<le> snd (pendingPositionFees p' pos)"
  using assms by (auto simp: pendingPositionFees_def Let_def intro!: drop_bit_128_mono mult_left_mono)

end
