(* ===== verification/DbcSwap.thy ===== *)
theory DbcSwap
  imports MeteoraAccounts
begin

text \<open>
  \<^verbatim>\<open>packages/sdk/src/dbc/swapQuote.ts\<close>: quotes of the DBC \<open>swap2\<close> instruction. The fee functions, the
  four walks along the curve (buy and sell, exact in and exact out) and \<open>quoteDbcSwap\<close> with its three
  modes are modelled with every error branch. A missing array element (\<open>curve[0]!\<close> of an empty curve)
  is the TypeError JavaScript raises on the property access.
\<close>

section \<open>Modes and parameters\<close>

datatype trade_direction = BaseToQuote | QuoteToBase

datatype swap_mode = ExactIn | PartialFill | ExactOut | UnknownMode int

definition PROTOCOL_FEE_PERCENT :: int where [simp]: "PROTOCOL_FEE_PERCENT = 20"
definition HOST_FEE_PERCENT :: int where [simp]: "HOST_FEE_PERCENT = 20"

record swap_params =
  sp_config :: dbc_pool_config
  sp_pool :: dbc_virtual_pool
  sp_direction :: trade_direction
  sp_mode :: swap_mode
  sp_amount :: int
  sp_currentPoint :: int
  sp_hasReferral :: bool
  sp_eligibleForFirstSwapWithMinFee :: bool

record swap_quote =
  sq_includedFeeInputAmount :: int
  sq_excludedFeeInputAmount :: int
  sq_amountLeft :: int
  sq_outputAmount :: int
  sq_nextSqrtPrice :: int
  sq_tradingFee :: int
  sq_protocolFee :: int
  sq_referralFee :: int
  sq_partnerFee :: int
  sq_creatorFee :: int
  sq_feesOnBaseToken :: bool
  sq_feesOnInput :: bool
  sq_tradeFeeNumerator :: int
  sq_quoteReserveAfter :: int
  sq_baseReserveAfter :: int
  sq_completesCurve :: bool

section \<open>Fees\<close>

definition mulDivU64 :: "int \<Rightarrow> int \<Rightarrow> int \<Rightarrow> bool \<Rightarrow> int result" where
  "mulDivU64 x y d roundUp =
     bindE (mulDiv x y d roundUp) (\<lambda>v.
       if v > 2 ^ 64 - 1 then Inl (DbcMathError ''TypeCastFailed'') else Inr v)"

text \<open>The inner function \<open>byPeriod\<close> of \<open>dbcBaseFeeNumerator\<close>.\<close>

definition byPeriod :: "dbc_base_fee \<Rightarrow> int \<Rightarrow> int result" where
  "byPeriod f periodIn =
     (let period = (if periodIn < bf_firstFactor f then periodIn else bf_firstFactor f)
      in if bf_baseFeeMode f = FeeSchedulerLinear
         then (let v = bf_cliffFeeNumerator f - bf_thirdFactor f * period
               in if v < 0 then Inl (DbcMathError ''MathOverflow'') else Inr v)
         else getFeeInPeriod (bf_cliffFeeNumerator f) (bf_thirdFactor f) (JsInt period))"

definition dbcBaseFeeNumerator :: "dbc_pool_config \<Rightarrow> dbc_virtual_pool \<Rightarrow> int \<Rightarrow> bool \<Rightarrow> int result" where
  "dbcBaseFeeNumerator config pool currentPoint minFee =
     (let f = pc_baseFee config
      in if bf_baseFeeMode f = RateLimiter then Inl (DbcMathError ''UnsupportedByPort'')
         else if bf_baseFeeMode f \<noteq> FeeSchedulerLinear \<and> bf_baseFeeMode f \<noteq> FeeSchedulerExponential
         then Inl (DbcMathError ''InvalidBaseFeeMode'')
         else if minFee then byPeriod f (bf_firstFactor f)
         else if bf_secondFactor f = 0 then Inr (bf_cliffFeeNumerator f)
         else if currentPoint < vp_activationPoint pool then Inl (DbcMathError ''MathOverflow'')
         else byPeriod f ((currentPoint - vp_activationPoint pool) sdiv bf_secondFactor f))"

definition dbcTradeFeeNumerator :: "dbc_pool_config \<Rightarrow> dbc_virtual_pool \<Rightarrow> int \<Rightarrow> bool \<Rightarrow> int result" where
  "dbcTradeFeeNumerator config pool currentPoint minFee =
     (if df_initialized (pc_dynamicFee config) \<noteq> 0 then Inl (DbcMathError ''UnsupportedByPort'')
      else bindE (dbcBaseFeeNumerator config pool currentPoint minFee) (\<lambda>base.
             Inr (if base > MAX_FEE_NUMERATOR then MAX_FEE_NUMERATOR else base)))"

record fee_on_amount =
  fa_amount :: int
  fa_tradingFee :: int
  fa_protocolFee :: int
  fa_referralFee :: int

definition dbcFeeOnAmount :: "int \<Rightarrow> int \<Rightarrow> bool \<Rightarrow> fee_on_amount result" where
  "dbcFeeOnAmount numerator amount hasReferral =
     bindE (mulDivU64 amount numerator FEE_DENOMINATOR True) (\<lambda>fee.
     let excluded = amount - fee in
     bindE (check (\<not> excluded < 0) (DbcMathError ''MathOverflow'')) (\<lambda>_.
     bindE (mulDivU64 fee PROTOCOL_FEE_PERCENT 100 False) (\<lambda>protocolFee.
     let tradingFee = fee - protocolFee in
     bindE (if hasReferral then mulDivU64 protocolFee HOST_FEE_PERCENT 100 False else Inr 0) (\<lambda>referralFee.
       Inr \<lparr>fa_amount = excluded, fa_tradingFee = tradingFee,
            fa_protocolFee = protocolFee - referralFee, fa_referralFee = referralFee\<rparr>))))"

record included_fee =
  if_included :: int
  if_fee :: int

definition dbcIncludedFeeAmount :: "int \<Rightarrow> int \<Rightarrow> included_fee result" where
  "dbcIncludedFeeAmount numerator excluded =
     bindE (mulDivU64 excluded FEE_DENOMINATOR (FEE_DENOMINATOR - numerator) True) (\<lambda>included.
       Inr \<lparr>if_included = included, if_fee = included - excluded\<rparr>)"

record fee_parts =
  fp_tradingFee :: int
  fp_protocolFee :: int
  fp_referralFee :: int

definition splitFees :: "int \<Rightarrow> bool \<Rightarrow> fee_parts result" where
  "splitFees fee hasReferral =
     bindE (mulDivU64 fee PROTOCOL_FEE_PERCENT 100 False) (\<lambda>protocolFee.
     let tradingFee = fee - protocolFee in
     bindE (if hasReferral then mulDivU64 protocolFee HOST_FEE_PERCENT 100 False else Inr 0) (\<lambda>referralFee.
       Inr \<lparr>fp_tradingFee = tradingFee, fp_protocolFee = protocolFee - referralFee,
            fp_referralFee = referralFee\<rparr>))"

record partner_creator_fee =
  pcf_partnerFee :: int
  pcf_creatorFee :: int

definition dbcSplitPartnerCreatorFee :: "dbc_pool_config \<Rightarrow> int \<Rightarrow> partner_creator_fee result" where
  "dbcSplitPartnerCreatorFee config tradingFee =
     (if pc_creatorTradingFeePercentage config = 0
      then Inr \<lparr>pcf_partnerFee = tradingFee, pcf_creatorFee = 0\<rparr>
      else bindE (mulDivU64 tradingFee (pc_creatorTradingFeePercentage config) 100 False) (\<lambda>creatorFee.
             Inr \<lparr>pcf_partnerFee = tradingFee - creatorFee, pcf_creatorFee = creatorFee\<rparr>))"

record fee_mode =
  fm_feesOnInput :: bool
  fm_feesOnBaseToken :: bool

definition dbcFeeMode :: "int \<Rightarrow> trade_direction \<Rightarrow> fee_mode result" where
  "dbcFeeMode collectFeeMode direction =
     (if collectFeeMode = CollectFeeMode_QuoteToken
      then Inr \<lparr>fm_feesOnInput = (direction = QuoteToBase), fm_feesOnBaseToken = False\<rparr>
      else if collectFeeMode = CollectFeeMode_OutputToken
      then Inr \<lparr>fm_feesOnInput = False, fm_feesOnBaseToken = (direction = QuoteToBase)\<rparr>
      else Inl (DbcMathError ''InvalidCollectFeeMode''))"

section \<open>Steps on the curve\<close>

definition deltaBaseU64 :: "int \<Rightarrow> int \<Rightarrow> int \<Rightarrow> bool \<Rightarrow> int result" where
  "deltaBaseU64 lower upper liquidity roundUp =
     bindE (getDeltaAmountBase lower upper liquidity roundUp) (\<lambda>v.
       if v > 2 ^ 64 - 1 then Inl (DbcMathError ''MathOverflow'') else Inr v)"

definition deltaQuoteU64 :: "int \<Rightarrow> int \<Rightarrow> int \<Rightarrow> bool \<Rightarrow> int result" where
  "deltaQuoteU64 lower upper liquidity roundUp =
     bindE (getDeltaAmountQuote lower upper liquidity roundUp) (\<lambda>v.
       if v > 2 ^ 64 - 1 then Inl (DbcMathError ''MathOverflow'') else Inr v)"

definition nextSqrtPriceFromBaseAmountInRoundingUp :: "int \<Rightarrow> int \<Rightarrow> int \<Rightarrow> int result" where
  "nextSqrtPriceFromBaseAmountInRoundingUp sqrtPrice liquidity amount =
     (if amount = 0 then Inr sqrtPrice
      else let denominator = liquidity + amount * sqrtPrice
           in bindE (mulDiv liquidity sqrtPrice denominator True) assertU128)"

definition nextSqrtPriceFromQuoteAmountOutRoundingDown :: "int \<Rightarrow> int \<Rightarrow> int \<Rightarrow> int result" where
  "nextSqrtPriceFromQuoteAmountOutRoundingDown sqrtPrice liquidity amount =
     bindE (big_div (amount * 2 ^ 128) liquidity) (\<lambda>q.
       let quotient = q + (if (amount * 2 ^ 128) smod liquidity = 0 then 0 else 1);
           next = sqrtPrice - quotient
       in if next < 0 then Inl (DbcMathError ''MathOverflow'') else assertU128 next)"

definition nextSqrtPriceFromBaseAmountOutRoundingUp :: "int \<Rightarrow> int \<Rightarrow> int \<Rightarrow> int result" where
  "nextSqrtPriceFromBaseAmountOutRoundingUp sqrtPrice liquidity amount =
     (if amount = 0 then Inr sqrtPrice
      else let denominator = liquidity - amount * sqrtPrice
           in if denominator < 0 then Inl (DbcMathError ''MathOverflow'')
              else if denominator = 0 then Inl (DbcMathError ''TypeCastFailed'')
              else bindE (mulDiv liquidity sqrtPrice denominator True) (\<lambda>v.
                     if v > U128_MAX then Inl (DbcMathError ''TypeCastFailed'') else Inr v))"

definition checkedAdd64 :: "int \<Rightarrow> int \<Rightarrow> int result" where
  "checkedAdd64 a b = assertU64 (a + b)"

definition toU64Cast :: "int \<Rightarrow> int result" where
  "toU64Cast v = (if v > 2 ^ 64 - 1 then Inl (DbcMathError ''TypeCastFailed'') else Inr v)"

section \<open>Walks along the curve\<close>

record amount_from_input =
  af_amountLeft :: int
  af_outputAmount :: int
  af_nextSqrtPrice :: int

record amount_from_output =
  ao_amountIn :: int
  ao_nextSqrtPrice :: int

definition zero_point :: "curve_point \<Rightarrow> bool" where
  "zero_point point \<longleftrightarrow> cp_sqrtPrice point = 0 \<or> cp_liquidity point = 0"

text \<open>The loop of \<open>dbcQuoteToBaseFromAmountIn\<close>: \<open>break\<close> leaves it, the rest of the list is the next round.\<close>

fun buyInLoop :: "curve_point list \<Rightarrow> int \<Rightarrow> int \<Rightarrow> int \<Rightarrow> int \<Rightarrow> amount_from_input result" where
  "buyInLoop [] stop acc current left =
     Inr \<lparr>af_amountLeft = left, af_outputAmount = acc, af_nextSqrtPrice = current\<rparr>"
| "buyInLoop (point # rest) stop acc current left =
     (if zero_point point
      then Inr \<lparr>af_amountLeft = left, af_outputAmount = acc, af_nextSqrtPrice = current\<rparr>
      else let reference = (if stop < cp_sqrtPrice point then stop else cp_sqrtPrice point)
           in if reference > current
              then bindE (getDeltaAmountQuote current reference (cp_liquidity point) True) (\<lambda>maxAmountIn.
                     if left < maxAmountIn
                     then bindE (getNextSqrtPriceFromQuoteAmountIn current (cp_liquidity point) left) (\<lambda>next.
                          bindE (deltaBaseU64 current next (cp_liquidity point) False) (\<lambda>d.
                          bindE (checkedAdd64 acc d) (\<lambda>acc'.
                            Inr \<lparr>af_amountLeft = 0, af_outputAmount = acc', af_nextSqrtPrice = next\<rparr>)))
                     else bindE (deltaBaseU64 current reference (cp_liquidity point) False) (\<lambda>d.
                          bindE (checkedAdd64 acc d) (\<lambda>acc'.
                          bindE (toU64Cast maxAmountIn) (\<lambda>m.
                            if reference = stop
                            then Inr \<lparr>af_amountLeft = left - m, af_outputAmount = acc', af_nextSqrtPrice = reference\<rparr>
                            else buyInLoop rest stop acc' reference (left - m)))))
              else buyInLoop rest stop acc current left)"

definition dbcQuoteToBaseFromAmountIn ::
  "dbc_pool_config \<Rightarrow> int \<Rightarrow> int \<Rightarrow> int \<Rightarrow> amount_from_input result" where
  "dbcQuoteToBaseFromAmountIn config sqrtPrice amountIn stopSqrtPrice =
     buyInLoop (pc_curve config) stopSqrtPrice 0 sqrtPrice amountIn"

text \<open>
  The loop of \<open>dbcBaseToQuoteFromAmountIn\<close> from index \<open>n - 1\<close> down to 0: amount left, total, price.
  A zero point is skipped (\<open>continue\<close>); an amount that fits in the segment ends the loop.
\<close>

fun sellInLoop :: "curve_point list \<Rightarrow> nat \<Rightarrow> int \<Rightarrow> int \<Rightarrow> int \<Rightarrow> (int \<times> int \<times> int) result" where
  "sellInLoop curve 0 acc current left = Inr (left, acc, current)"
| "sellInLoop curve (Suc i) acc current left =
     (let point = curve ! i
      in if zero_point point then sellInLoop curve i acc current left
         else if cp_sqrtPrice point < current
         then (let liquidity = cp_liquidity (curve ! Suc i)
               in bindE (getDeltaAmountBase (cp_sqrtPrice point) current liquidity True) (\<lambda>maxAmountIn.
                    if left < maxAmountIn
                    then bindE (nextSqrtPriceFromBaseAmountInRoundingUp current liquidity left) (\<lambda>next.
                         bindE (deltaQuoteU64 next current liquidity False) (\<lambda>d.
                         bindE (checkedAdd64 acc d) (\<lambda>acc'. Inr (0, acc', next))))
                    else bindE (deltaQuoteU64 (cp_sqrtPrice point) current liquidity False) (\<lambda>d.
                         bindE (checkedAdd64 acc d) (\<lambda>acc'.
                         bindE (toU64Cast maxAmountIn) (\<lambda>m.
                           sellInLoop curve i acc' (cp_sqrtPrice point) (left - m))))))
         else sellInLoop curve i acc current left)"

text \<open>What \<open>curve[0]!.liquidity\<close> gives.\<close>

definition first_liquidity :: "curve_point list \<Rightarrow> int result" where
  "first_liquidity curve = (case curve of [] \<Rightarrow> Inl (GenericError ''TypeError'') | p # _ \<Rightarrow> Inr (cp_liquidity p))"

definition dbcBaseToQuoteFromAmountIn :: "dbc_pool_config \<Rightarrow> int \<Rightarrow> int \<Rightarrow> amount_from_input result" where
  "dbcBaseToQuoteFromAmountIn config sqrtPrice amountIn =
     bindE (sellInLoop (pc_curve config) (length (pc_curve config) - 1) 0 sqrtPrice amountIn)
       (\<lambda>(left, acc, current).
         if left \<noteq> 0
         then bindE (first_liquidity (pc_curve config)) (\<lambda>liquidity.
              bindE (nextSqrtPriceFromBaseAmountInRoundingUp current liquidity left) (\<lambda>next0.
              bindE (if next0 < pc_sqrtStartPrice config
                     then bindE (deltaBaseU64 (pc_sqrtStartPrice config) current liquidity True) (\<lambda>used.
                          bindE (check (\<not> used > left) (DbcMathError ''MathOverflow'')) (\<lambda>_.
                            Inr (pc_sqrtStartPrice config, left - used)))
                     else Inr (next0, 0)) (\<lambda>(next, left').
              bindE (deltaQuoteU64 next current liquidity False) (\<lambda>d.
              bindE (checkedAdd64 acc d) (\<lambda>acc'.
                Inr \<lparr>af_amountLeft = left', af_outputAmount = acc', af_nextSqrtPrice = next\<rparr>)))))
         else Inr \<lparr>af_amountLeft = left, af_outputAmount = acc, af_nextSqrtPrice = current\<rparr>)"

text \<open>The loop of \<open>dbcQuoteToBaseFromAmountOut\<close>: amount left, total, price.\<close>

fun buyOutLoop :: "curve_point list \<Rightarrow> int \<Rightarrow> int \<Rightarrow> int \<Rightarrow> (int \<times> int \<times> int) result" where
  "buyOutLoop [] acc current left = Inr (left, acc, current)"
| "buyOutLoop (point # rest) acc current left =
     (if zero_point point then Inr (left, acc, current)
      else if cp_sqrtPrice point > current
      then bindE (getDeltaAmountBase current (cp_sqrtPrice point) (cp_liquidity point) False) (\<lambda>maxAmountOut.
             if left < maxAmountOut
             then bindE (nextSqrtPriceFromBaseAmountOutRoundingUp current (cp_liquidity point) left) (\<lambda>next.
                  bindE (deltaQuoteU64 current next (cp_liquidity point) True) (\<lambda>d.
                  bindE (checkedAdd64 acc d) (\<lambda>acc'. Inr (0, acc', next))))
             else bindE (deltaQuoteU64 current (cp_sqrtPrice point) (cp_liquidity point) True) (\<lambda>d.
                  bindE (checkedAdd64 acc d) (\<lambda>acc'.
                  bindE (toU64Cast maxAmountOut) (\<lambda>m.
                    buyOutLoop rest acc' (cp_sqrtPrice point) (left - m)))))
      else buyOutLoop rest acc current left)"

definition dbcQuoteToBaseFromAmountOut :: "dbc_pool_config \<Rightarrow> int \<Rightarrow> int \<Rightarrow> amount_from_output result" where
  "dbcQuoteToBaseFromAmountOut config sqrtPrice amountOut =
     bindE (buyOutLoop (pc_curve config) 0 sqrtPrice amountOut) (\<lambda>(left, acc, current).
       if left \<noteq> 0 then Inl (DbcMathError ''AmountLeftIsNotZero'')
       else Inr \<lparr>ao_amountIn = acc, ao_nextSqrtPrice = current\<rparr>)"

fun sellOutLoop :: "curve_point list \<Rightarrow> nat \<Rightarrow> int \<Rightarrow> int \<Rightarrow> int \<Rightarrow> (int \<times> int \<times> int) result" where
  "sellOutLoop curve 0 acc current left = Inr (left, acc, current)"
| "sellOutLoop curve (Suc i) acc current left =
     (let point = curve ! i
      in if zero_point point then sellOutLoop curve i acc current left
         else if cp_sqrtPrice point < current
         then (let liquidity = cp_liquidity (curve ! Suc i)
               in bindE (getDeltaAmountQuote (cp_sqrtPrice point) current liquidity False) (\<lambda>maxAmountOut.
                    if left < maxAmountOut
                    then bindE (nextSqrtPriceFromQuoteAmountOutRoundingDown current liquidity left) (\<lambda>next.
                         bindE (deltaBaseU64 next current liquidity True) (\<lambda>d.
                         bindE (checkedAdd64 acc d) (\<lambda>acc'. Inr (0, acc', next))))
                    else bindE (deltaBaseU64 (cp_sqrtPrice point) current liquidity True) (\<lambda>d.
                         bindE (checkedAdd64 acc d) (\<lambda>acc'.
                         bindE (toU64Cast maxAmountOut) (\<lambda>m.
                           sellOutLoop curve i acc' (cp_sqrtPrice point) (left - m))))))
         else sellOutLoop curve i acc current left)"

definition dbcBaseToQuoteFromAmountOut :: "dbc_pool_config \<Rightarrow> int \<Rightarrow> int \<Rightarrow> amount_from_output result" where
  "dbcBaseToQuoteFromAmountOut config sqrtPrice amountOut =
     bindE (sellOutLoop (pc_curve config) (length (pc_curve config) - 1) 0 sqrtPrice amountOut)
       (\<lambda>(left, acc, current).
         if left \<noteq> 0
         then bindE (first_liquidity (pc_curve config)) (\<lambda>liquidity.
              bindE (getDeltaAmountQuote (pc_sqrtStartPrice config) current liquidity False) (\<lambda>maxAmountOut.
              bindE (check (\<not> left > maxAmountOut) (DbcMathError ''InsufficientLiquidity'')) (\<lambda>_.
              bindE (nextSqrtPriceFromQuoteAmountOutRoundingDown current liquidity left) (\<lambda>next.
              bindE (check (\<not> next < pc_sqrtStartPrice config) (DbcMathError ''InsufficientLiquidity'')) (\<lambda>_.
              bindE (deltaBaseU64 next current liquidity True) (\<lambda>d.
              bindE (checkedAdd64 acc d) (\<lambda>acc'.
                Inr \<lparr>ao_amountIn = acc', ao_nextSqrtPrice = next\<rparr>)))))))
         else Inr \<lparr>ao_amountIn = acc, ao_nextSqrtPrice = current\<rparr>)"

section \<open>The quote\<close>

text \<open>The variables \<open>quoteDbcSwap\<close> has set when it comes to the partner split.\<close>

record swap_amounts =
  am_includedFeeInputAmount :: int
  am_excludedFeeInputAmount :: int
  am_amountLeft :: int
  am_outputAmount :: int
  am_nextSqrtPrice :: int
  am_fees :: fee_parts

definition fees_of :: "fee_on_amount \<Rightarrow> fee_parts" where
  "fees_of f = \<lparr>fp_tradingFee = fa_tradingFee f, fp_protocolFee = fa_protocolFee f, fp_referralFee = fa_referralFee f\<rparr>"

definition no_fees :: fee_parts where
  "no_fees = \<lparr>fp_tradingFee = 0, fp_protocolFee = 0, fp_referralFee = 0\<rparr>"

definition swapIn :: "swap_params \<Rightarrow> int \<Rightarrow> amount_from_input result" where
  "swapIn p actualIn =
     (case sp_direction p of
        BaseToQuote \<Rightarrow> dbcBaseToQuoteFromAmountIn (sp_config p) (vp_sqrtPrice (sp_pool p)) actualIn
      | QuoteToBase \<Rightarrow> dbcQuoteToBaseFromAmountIn (sp_config p) (vp_sqrtPrice (sp_pool p)) actualIn
                         (pc_migrationSqrtPrice (sp_config p)))"

text \<open>The branch for ExactIn and PartialFill.\<close>

definition quoteInput :: "swap_params \<Rightarrow> bool \<Rightarrow> int \<Rightarrow> swap_amounts result" where
  "quoteInput p feesOnInput numerator =
     bindE (if feesOnInput
            then bindE (dbcFeeOnAmount numerator (sp_amount p) (sp_hasReferral p)) (\<lambda>f. Inr (fa_amount f, fees_of f))
            else Inr (sp_amount p, no_fees)) (\<lambda>(actualIn0, fees0).
     bindE (swapIn p actualIn0) (\<lambda>res.
     bindE (if sp_mode p = ExactIn
            then (if af_amountLeft res \<noteq> 0 then Inl (DbcMathError ''InsufficientLiquidity'')
                  else Inr (actualIn0, sp_amount p, fees0))
            else if af_amountLeft res \<noteq> 0
            then (let actualIn = actualIn0 - af_amountLeft res
                  in if feesOnInput
                     then bindE (dbcIncludedFeeAmount numerator actualIn) (\<lambda>inc.
                          bindE (splitFees (if_fee inc) (sp_hasReferral p)) (\<lambda>s.
                            Inr (actualIn, if_included inc, s)))
                     else Inr (actualIn, actualIn, fees0))
            else Inr (actualIn0, sp_amount p, fees0)) (\<lambda>(actualIn, included, fees1).
     bindE (if \<not> feesOnInput
            then bindE (dbcFeeOnAmount numerator (af_outputAmount res) (sp_hasReferral p)) (\<lambda>f.
                   Inr (fa_amount f, fees_of f))
            else Inr (af_outputAmount res, fees1)) (\<lambda>(outputAmount, fees).
       Inr \<lparr>am_includedFeeInputAmount = included, am_excludedFeeInputAmount = actualIn,
            am_amountLeft = af_amountLeft res, am_outputAmount = outputAmount,
            am_nextSqrtPrice = af_nextSqrtPrice res, am_fees = fees\<rparr>))))"

text \<open>The branch for ExactOut.\<close>

definition quoteOutput :: "swap_params \<Rightarrow> bool \<Rightarrow> int \<Rightarrow> swap_amounts result" where
  "quoteOutput p feesOnInput numerator =
     bindE (if \<not> feesOnInput
            then bindE (dbcIncludedFeeAmount numerator (sp_amount p)) (\<lambda>inc.
                 bindE (splitFees (if_fee inc) (sp_hasReferral p)) (\<lambda>s. Inr (if_included inc, s)))
            else Inr (sp_amount p, no_fees)) (\<lambda>(includedFeeOut, fees0).
     bindE (case sp_direction p of
              BaseToQuote \<Rightarrow> dbcBaseToQuoteFromAmountOut (sp_config p) (vp_sqrtPrice (sp_pool p)) includedFeeOut
            | QuoteToBase \<Rightarrow> dbcQuoteToBaseFromAmountOut (sp_config p) (vp_sqrtPrice (sp_pool p)) includedFeeOut)
       (\<lambda>res.
     bindE (check (\<not> ao_nextSqrtPrice res > pc_migrationSqrtPrice (sp_config p))
              (DbcMathError ''InsufficientLiquidity'')) (\<lambda>_.
     bindE (if feesOnInput
            then bindE (dbcIncludedFeeAmount numerator (ao_amountIn res)) (\<lambda>inc.
                 bindE (splitFees (if_fee inc) (sp_hasReferral p)) (\<lambda>s. Inr (if_included inc, s)))
            else Inr (ao_amountIn res, fees0)) (\<lambda>(included, fees).
       Inr \<lparr>am_includedFeeInputAmount = included, am_excludedFeeInputAmount = ao_amountIn res,
            am_amountLeft = 0, am_outputAmount = sp_amount p,
            am_nextSqrtPrice = ao_nextSqrtPrice res, am_fees = fees\<rparr>))))"

text \<open>The amounts by mode; an unknown mode throws.\<close>

definition swapAmounts :: "swap_params \<Rightarrow> bool \<Rightarrow> int \<Rightarrow> swap_amounts result" where
  "swapAmounts p feesOnInput numerator =
     (if sp_mode p = ExactIn \<or> sp_mode p = PartialFill then quoteInput p feesOnInput numerator
      else if sp_mode p = ExactOut then quoteOutput p feesOnInput numerator
      else Inl (DbcMathError ''TypeCastFailed''))"

definition quoteDbcSwap :: "swap_params \<Rightarrow> swap_quote result" where
  "quoteDbcSwap p =
     (let config = sp_config p; pool = sp_pool p
      in bindE (check (\<not> sp_amount p \<le> 0) (DbcMathError ''AmountIsZero'')) (\<lambda>_.
         bindE (assertU64 (sp_amount p)) (\<lambda>_.
         bindE (check (\<not> vp_quoteReserve pool \<ge> pc_migrationQuoteThreshold config)
                  (DbcMathError ''PoolIsCompleted'')) (\<lambda>_.
         bindE (dbcFeeMode (pc_collectFeeMode config) (sp_direction p)) (\<lambda>fm.
         bindE (dbcTradeFeeNumerator config pool (sp_currentPoint p) (sp_eligibleForFirstSwapWithMinFee p))
           (\<lambda>numerator.
         bindE (swapAmounts p (fm_feesOnInput fm) numerator) (\<lambda>a.
         let tradingFee = fp_tradingFee (am_fees a); protocolFee = fp_protocolFee (am_fees a);
             referralFee = fp_referralFee (am_fees a)
         in bindE (dbcSplitPartnerCreatorFee config tradingFee) (\<lambda>s.
            let actualOutput = (if fm_feesOnInput fm then am_outputAmount a
                                else am_outputAmount a + tradingFee + protocolFee + referralFee);
                (quoteReserveAfter, baseReserveAfter) =
                  (case sp_direction p of
                     BaseToQuote \<Rightarrow> (vp_quoteReserve pool - actualOutput,
                                     vp_baseReserve pool + am_excludedFeeInputAmount a)
                   | QuoteToBase \<Rightarrow> (vp_quoteReserve pool + am_excludedFeeInputAmount a,
                                     vp_baseReserve pool - actualOutput))
            in bindE (check (\<not> (quoteReserveAfter < 0 \<or> baseReserveAfter < 0))
                        (DbcMathError ''MathOverflow'')) (\<lambda>_.
               Inr \<lparr>sq_includedFeeInputAmount = am_includedFeeInputAmount a,
                    sq_excludedFeeInputAmount = am_excludedFeeInputAmount a,
                    sq_amountLeft = am_amountLeft a,
                    sq_outputAmount = am_outputAmount a,
                    sq_nextSqrtPrice = am_nextSqrtPrice a,
                    sq_tradingFee = tradingFee,
                    sq_protocolFee = protocolFee,
                    sq_referralFee = referralFee,
                    sq_partnerFee = pcf_partnerFee s,
                    sq_creatorFee = pcf_creatorFee s,
                    sq_feesOnBaseToken = fm_feesOnBaseToken fm,
                    sq_feesOnInput = fm_feesOnInput fm,
                    sq_tradeFeeNumerator = numerator,
                    sq_quoteReserveAfter = quoteReserveAfter,
                    sq_baseReserveAfter = baseReserveAfter,
                    sq_completesCurve = (quoteReserveAfter \<ge> pc_migrationQuoteThreshold config)\<rparr>)))))))))"

definition dbcSwapSlippageLimit :: "swap_quote \<Rightarrow> swap_mode \<Rightarrow> jsnum \<Rightarrow> int result" where
  "dbcSwapSlippageLimit quote mode slippageBps =
     bindE (integer_in 0 10000 slippageBps (RangeError ''slippageBps must be an integer in [0, 10000]''))
       (\<lambda>bps.
         if mode = ExactOut
         then Inr ((sq_includedFeeInputAmount quote * (10000 + bps) + 9999) sdiv 10000)
         else Inr ((sq_outputAmount quote * (10000 - bps)) sdiv 10000))"

end
