(* ===== verification/SwapVenue.thy ===== *)
theory SwapVenue
  imports Prelude
begin

text \<open>
  What a trader and the pool may rely on at any venue of a launch, as an interface: two potentials of
  the price, \<open>Q\<close> (quote that moves the price up to here) and \<open>B\<close> (base given out on the way), such that
  a buy pays at least the difference of \<open>Q\<close> and gets at most the difference of \<open>B\<close>, and a sell the other
  way round. From the interface alone follow: buying and selling back never makes a profit, in either
  order and whatever the trades in between do to the price; after any sequence of trades the reserves
  cover the potentials. The bonding curve and the migrated pool both provide the interface.
\<close>

record venue_state =
  vs_price :: int
  vs_quote :: int
  vs_base :: int

text \<open>
  \<open>buys p paid out p'\<close>: at price \<open>p\<close> a buy pays \<open>paid\<close> quote into the curve, takes \<open>out\<close> base from it and
  leaves the price \<open>p'\<close>; \<open>sells\<close> likewise with base paid and quote taken.
\<close>

type_synonym trade_rel = "int \<Rightarrow> int \<Rightarrow> int \<Rightarrow> int \<Rightarrow> bool"

inductive venue_step :: "trade_rel \<Rightarrow> trade_rel \<Rightarrow> venue_state \<Rightarrow> venue_state \<Rightarrow> bool"
  for buys sells where
  buy: "buys (vs_price s) paid taken p' \<Longrightarrow>
    venue_step buys sells s \<lparr>vs_price = p', vs_quote = vs_quote s + paid, vs_base = vs_base s - taken\<rparr>"
| sell: "sells (vs_price s) paid taken p' \<Longrightarrow>
    venue_step buys sells s \<lparr>vs_price = p', vs_quote = vs_quote s - taken, vs_base = vs_base s + paid\<rparr>"

inductive_cases venue_stepE: "venue_step buys sells s s'"

inductive venue_reaches :: "trade_rel \<Rightarrow> trade_rel \<Rightarrow> venue_state \<Rightarrow> venue_state \<Rightarrow> bool"
  for buys sells s where
  start: "venue_reaches buys sells s s"
| step: "venue_reaches buys sells s t \<Longrightarrow> venue_step buys sells t u \<Longrightarrow> venue_reaches buys sells s u"

locale swap_venue =
  fixes low high :: int
    and Q B :: "int \<Rightarrow> rat"
    and buys sells :: trade_rel
  assumes Q_strict: "low \<le> p \<Longrightarrow> p < p' \<Longrightarrow> p' \<le> high \<Longrightarrow> Q p < Q p'"
    and B_strict: "low \<le> p \<Longrightarrow> p < p' \<Longrightarrow> p' \<le> high \<Longrightarrow> B p < B p'"
    and buy_price: "low \<le> p \<Longrightarrow> p \<le> high \<Longrightarrow> buys p paid taken p' \<Longrightarrow> p \<le> p' \<and> p' \<le> high"
    and buy_pays: "low \<le> p \<Longrightarrow> p \<le> high \<Longrightarrow> buys p paid taken p' \<Longrightarrow> Q p' - Q p \<le> of_int paid"
    and buy_gets: "low \<le> p \<Longrightarrow> p \<le> high \<Longrightarrow> buys p paid taken p' \<Longrightarrow> of_int taken \<le> B p' - B p"
    and sell_price: "low \<le> p \<Longrightarrow> p \<le> high \<Longrightarrow> sells p paid taken p' \<Longrightarrow> low \<le> p' \<and> p' \<le> p"
    and sell_pays: "low \<le> p \<Longrightarrow> p \<le> high \<Longrightarrow> sells p paid taken p' \<Longrightarrow> B p - B p' \<le> of_int paid"
    and sell_gets: "low \<le> p \<Longrightarrow> p \<le> high \<Longrightarrow> sells p paid taken p' \<Longrightarrow> of_int taken \<le> Q p - Q p'"
begin

lemma Q_mono: "low \<le> p \<Longrightarrow> p \<le> p' \<Longrightarrow> p' \<le> high \<Longrightarrow> Q p \<le> Q p'"
  using Q_strict [of p p'] by (cases "p = p'") auto

lemma B_mono: "low \<le> p \<Longrightarrow> p \<le> p' \<Longrightarrow> p' \<le> high \<Longrightarrow> B p \<le> B p'"
  using B_strict [of p p'] by (cases "p = p'") auto

lemma B_le_iff: "low \<le> p \<Longrightarrow> p \<le> high \<Longrightarrow> low \<le> p' \<Longrightarrow> p' \<le> high \<Longrightarrow> B p \<le> B p' \<longleftrightarrow> p \<le> p'"
  using B_strict [of p' p] B_mono [of p p'] by (cases "p \<le> p'") auto

lemma Q_le_iff: "low \<le> p \<Longrightarrow> p \<le> high \<Longrightarrow> low \<le> p' \<Longrightarrow> p' \<le> high \<Longrightarrow> Q p \<le> Q p' \<longleftrightarrow> p \<le> p'"
  using Q_strict [of p' p] Q_mono [of p p'] by (cases "p \<le> p'") auto

text \<open>Selling no more base than a buy gave returns no more quote than the buy paid.\<close>

lemma buy_then_sell:
  assumes p: "low \<le> p" "p \<le> high"
    and b: "buys p paid taken p1" and s: "sells p1 back got p2" and le: "back \<le> taken"
  shows "got \<le> paid"
proof -
  note p1 = buy_price [OF p b]
  then have p1': "low \<le> p1" "p1 \<le> high" using p by simp_all
  note p2 = sell_price [OF p1' s]
  have "B p1 - B p2 \<le> of_int back" by (rule sell_pays [OF p1' s])
  also have "\<dots> \<le> of_int taken" using le by simp
  also have "\<dots> \<le> B p1 - B p" by (rule buy_gets [OF p b])
  finally have "p \<le> p2" using B_le_iff [of p p2] p p1' p2 by simp
  then have "Q p \<le> Q p2" using p p1' p2 by (intro Q_mono) simp_all
  moreover have "of_int got \<le> Q p1 - Q p2" by (rule sell_gets [OF p1' s])
  moreover have "Q p1 - Q p \<le> of_int paid" by (rule buy_pays [OF p b])
  ultimately have "of_int got \<le> (of_int paid :: rat)" by linarith
  then show ?thesis by simp
qed

lemma sell_then_buy:
  assumes p: "low \<le> p" "p \<le> high"
    and s: "sells p paid taken p1" and b: "buys p1 back got p2" and le: "back \<le> taken"
  shows "got \<le> paid"
proof -
  note p1 = sell_price [OF p s]
  then have p1': "low \<le> p1" "p1 \<le> high" using p by simp_all
  note p2 = buy_price [OF p1' b]
  have "Q p2 - Q p1 \<le> of_int back" by (rule buy_pays [OF p1' b])
  also have "\<dots> \<le> of_int taken" using le by simp
  also have "\<dots> \<le> Q p - Q p1" by (rule sell_gets [OF p s])
  finally have "p2 \<le> p" using Q_le_iff [of p2 p] p p1' p2 by simp
  then have "B p2 \<le> B p" using p p1' p2 by (intro B_mono) simp_all
  moreover have "of_int got \<le> B p2 - B p1" by (rule buy_gets [OF p1' b])
  moreover have "B p - B p1 \<le> of_int paid" by (rule sell_pays [OF p s])
  ultimately have "of_int got \<le> (of_int paid :: rat)" by linarith
  then show ?thesis by simp
qed

text \<open>The invariant of any sequence of trades: both reserves cover what the price move is worth.\<close>

definition covered :: "venue_state \<Rightarrow> venue_state \<Rightarrow> bool" where
  "covered s t \<longleftrightarrow> low \<le> vs_price t \<and> vs_price t \<le> high \<and>
     Q (vs_price t) - Q (vs_price s) \<le> of_int (vs_quote t - vs_quote s) \<and>
     B (vs_price s) - B (vs_price t) \<le> of_int (vs_base t - vs_base s)"

lemma step_covered:
  assumes cov: "covered s t" and st: "venue_step buys sells t u"
  shows "covered s u"
proof -
  have p: "low \<le> vs_price t" "vs_price t \<le> high" using cov by (simp_all add: covered_def)
  from st consider
      (buy) paid taken p' where "buys (vs_price t) paid taken p'"
        "u = \<lparr>vs_price = p', vs_quote = vs_quote t + paid, vs_base = vs_base t - taken\<rparr>"
    | (sell) paid taken p' where "sells (vs_price t) paid taken p'"
        "u = \<lparr>vs_price = p', vs_quote = vs_quote t - taken, vs_base = vs_base t + paid\<rparr>"
    by (blast elim: venue_stepE)
  then show ?thesis
  proof cases
    case buy
    then show ?thesis
      using cov p buy_price [OF p buy(1)] buy_pays [OF p buy(1)] buy_gets [OF p buy(1)]
      by (simp add: covered_def)
  next
    case sell
    then show ?thesis
      using cov p sell_price [OF p sell(1)] sell_pays [OF p sell(1)] sell_gets [OF p sell(1)]
      by (simp add: covered_def)
  qed
qed

lemma reaches_covered:
  assumes "venue_reaches buys sells s t" "low \<le> vs_price s" "vs_price s \<le> high"
  shows "covered s t"
  using assms
proof (induction rule: venue_reaches.induct)
  case start
  then show ?case by (simp add: covered_def)
next
  case (step t u)
  then show ?case by (auto intro: step_covered)
qed

text \<open>
  A sequence of trades that ends at the starting price or above cannot have taken quote out of the pool.
\<close>

lemma no_free_quote:
  assumes r: "venue_reaches buys sells s t" and p: "low \<le> vs_price s" "vs_price s \<le> high"
    and up: "vs_price s \<le> vs_price t"
  shows "vs_quote s \<le> vs_quote t"
proof -
  from reaches_covered [OF r p] have c: "covered s t" .
  then have "Q (vs_price s) \<le> Q (vs_price t)" using p up by (intro Q_mono) (simp_all add: covered_def)
  with c have "0 \<le> (of_int (vs_quote t - vs_quote s) :: rat)" by (simp add: covered_def)
  then show ?thesis by simp
qed

lemma reserves_cover:
  assumes r: "venue_reaches buys sells s t" and p: "low \<le> vs_price s" "vs_price s \<le> high"
    and s: "Q (vs_price s) - Q low \<le> of_int (vs_quote s)"
  shows "Q (vs_price t) - Q low \<le> of_int (vs_quote t)" "0 \<le> vs_quote t"
proof -
  from reaches_covered [OF r p] have c: "covered s t" .
  with s show cov: "Q (vs_price t) - Q low \<le> of_int (vs_quote t)" by (simp add: covered_def)
  have "Q low \<le> Q (vs_price t)" using c by (intro Q_mono) (simp_all add: covered_def)
  with cov have "(0 :: rat) \<le> of_int (vs_quote t)" by linarith
  then show "0 \<le> vs_quote t" by simp
qed

end

end
