(* ===== verification/CurvePotential.thy ===== *)
theory CurvePotential
  imports DbcSwap SwapVenue
begin

text \<open>
  The exact, unrounded value of a position on a curve: the quote that has been paid in and the base
  that has been given out between the start price and a price. Both are sums over the segments of the
  curve, of the segment's liquidity times the change of a function of the price (\<open>p / 2 ^ 128\<close> for quote,
  \<open>- 1 / p\<close> for base). One segment at a time, every rounding of \<^verbatim>\<open>swapQuote.ts\<close> is against the trader.
\<close>

section \<open>The potential of a curve\<close>

definition price_at :: "int \<Rightarrow> curve_point list \<Rightarrow> nat \<Rightarrow> int" where
  "price_at s0 pts k = (if k = 0 then s0 else cp_sqrtPrice (pts ! (k - 1)))"

definition clamp :: "int \<Rightarrow> int \<Rightarrow> int \<Rightarrow> int" where
  "clamp lo hi p = max lo (min p hi)"

definition segment_of :: "int \<Rightarrow> curve_point list \<Rightarrow> nat \<Rightarrow> int \<Rightarrow> int" where
  "segment_of s0 pts k p = clamp (price_at s0 pts k) (price_at s0 pts (Suc k)) p"

definition potential :: "(int \<Rightarrow> rat) \<Rightarrow> int \<Rightarrow> curve_point list \<Rightarrow> int \<Rightarrow> rat" where
  "potential f s0 pts p =
     (\<Sum>k < length pts. of_int (cp_liquidity (pts ! k)) * (f (segment_of s0 pts k p) - f (price_at s0 pts k)))"

definition quote_fn :: "int \<Rightarrow> rat" where "quote_fn p = of_int p / 2 ^ 128"
definition base_fn :: "int \<Rightarrow> rat" where "base_fn p = - (1 / of_int p)"

abbreviation quotePotential :: "int \<Rightarrow> curve_point list \<Rightarrow> int \<Rightarrow> rat" where
  "quotePotential \<equiv> potential quote_fn"

abbreviation basePotential :: "int \<Rightarrow> curve_point list \<Rightarrow> int \<Rightarrow> rat" where
  "basePotential \<equiv> potential base_fn"

lemma quote_fn_strict: "p < p' \<Longrightarrow> quote_fn p < quote_fn p'"
  by (simp add: quote_fn_def divide_strict_right_mono)

lemma base_fn_strict: "0 < p \<Longrightarrow> p < p' \<Longrightarrow> base_fn p < base_fn p'"
  by (simp add: base_fn_def frac_less2)

section \<open>Prices along the curve\<close>

lemma wf_curve_nth:
  assumes "wf_curve s0 pts" "k < length pts"
  shows "price_at s0 pts k < price_at s0 pts (Suc k)" "0 < cp_liquidity (pts ! k)"
    "cp_liquidity (pts ! k) \<le> U128_MAX" "cp_sqrtPrice (pts ! k) \<le> MAX_SQRT_PRICE"
  using assms
proof (induction pts arbitrary: s0 k)
  case (Cons p ps)
  { case 1 then show ?case
      using Cons.IH(1) [of "cp_sqrtPrice p" "k - 1"] by (cases k) (auto simp: price_at_def nth_Cons' split: if_splits) }
  { case 2 then show ?case using Cons.IH(2) [of "cp_sqrtPrice p" "k - 1"] by (cases k) auto }
  { case 3 then show ?case using Cons.IH(3) [of "cp_sqrtPrice p" "k - 1"] by (cases k) auto }
  { case 4 then show ?case using Cons.IH(4) [of "cp_sqrtPrice p" "k - 1"] by (cases k) auto }
qed simp_all

lemma price_at_mono:
  assumes wf: "wf_curve s0 pts" and "i \<le> j" "j \<le> length pts"
  shows "price_at s0 pts i \<le> price_at s0 pts j"
  using assms(2,3)
proof (induction j)
  case (Suc j)
  then show ?case
    using wf_curve_nth(1) [OF wf, of j] by (cases "i = Suc j") (auto simp: le_Suc_eq)
qed simp

lemma lastPrice_eq: "lastPrice s0 pts = price_at s0 pts (length pts)"
proof (induction s0 pts rule: lastPrice.induct)
  case (2 lo pt pts)
  then show ?case by (cases pts) (auto simp: price_at_def)
qed (simp add: price_at_def)

lemma price_at_ge: "wf_curve s0 pts \<Longrightarrow> k \<le> length pts \<Longrightarrow> s0 \<le> price_at s0 pts k"
  using price_at_mono [of s0 pts 0 k] by (simp add: price_at_def)

section \<open>One segment\<close>

lemma segment_same:
  assumes wf: "wf_curve s0 pts" and k: "k < length pts" and j: "j < length pts" "j \<noteq> k"
    and p: "price_at s0 pts k \<le> p" "p \<le> price_at s0 pts (Suc k)"
  shows "segment_of s0 pts j p = (if j < k then price_at s0 pts (Suc j) else price_at s0 pts j)"
proof (cases "j < k")
  case True
  have "price_at s0 pts (Suc j) \<le> price_at s0 pts k" using True k by (intro price_at_mono [OF wf]) simp_all
  then show ?thesis
    using True p wf_curve_nth(1) [OF wf j(1)] by (simp add: segment_of_def clamp_def)
next
  case False
  then have "price_at s0 pts (Suc k) \<le> price_at s0 pts j" using j by (intro price_at_mono [OF wf]) simp_all
  then show ?thesis
    using False p wf_curve_nth(1) [OF wf j(1)] by (simp add: segment_of_def clamp_def)
qed

lemma potential_in_segment:
  assumes wf: "wf_curve s0 pts" and k: "k < length pts"
    and a: "price_at s0 pts k \<le> a" "a \<le> price_at s0 pts (Suc k)"
    and b: "price_at s0 pts k \<le> b" "b \<le> price_at s0 pts (Suc k)"
  shows "potential f s0 pts b - potential f s0 pts a = of_int (cp_liquidity (pts ! k)) * (f b - f a)"
proof -
  let ?t = "\<lambda>p j. of_int (cp_liquidity (pts ! j)) * (f (segment_of s0 pts j p) - f (price_at s0 pts j))"
  have same: "?t b j - ?t a j = 0" if "j \<in> {..<length pts} - {k}" for j
  proof -
    have "segment_of s0 pts j b = segment_of s0 pts j a"
      using that segment_same [OF wf k, of j a] segment_same [OF wf k, of j b] a b by simp
    then show ?thesis by simp
  qed
  have "potential f s0 pts b - potential f s0 pts a = (\<Sum>j < length pts. ?t b j - ?t a j)"
    by (simp add: potential_def sum_subtractf)
  also have "\<dots> = ?t b k - ?t a k + (\<Sum>j \<in> {..<length pts} - {k}. ?t b j - ?t a j)"
    using k by (intro sum.remove) simp_all
  also have "(\<Sum>j \<in> {..<length pts} - {k}. ?t b j - ?t a j) = 0"
    using same by (rule sum.neutral [rule_format])
  also have "segment_of s0 pts k b = b" using b by (simp add: segment_of_def clamp_def)
  also have "segment_of s0 pts k a = a" using a by (simp add: segment_of_def clamp_def)
  finally show ?thesis by (simp add: algebra_simps)
qed

lemma segment_exists:
  assumes "s0 \<le> p" "p < price_at s0 pts n" "n \<le> length pts"
  shows "\<exists>k < n. price_at s0 pts k \<le> p \<and> p < price_at s0 pts (Suc k)"
  using assms
proof (induction n)
  case (Suc n)
  show ?case
  proof (cases "p < price_at s0 pts n")
    case True
    with Suc show ?thesis by (meson Suc_leD less_SucI)
  next
    case False
    with Suc show ?thesis by (auto intro!: exI [of _ n])
  qed
qed (simp add: price_at_def)

text \<open>A strictly increasing function of the price gives a strictly increasing potential.\<close>

lemma potential_mono:
  assumes wf: "wf_curve s0 pts" and f: "\<And>a b. s0 \<le> a \<Longrightarrow> a \<le> b \<Longrightarrow> f a \<le> f b" and "p \<le> p'"
  shows "potential f s0 pts p \<le> potential f s0 pts p'"
  unfolding potential_def
proof (rule sum_mono)
  fix k
  assume "k \<in> {..<length pts}"
  then have k: "k < length pts" by simp
  have "s0 \<le> price_at s0 pts k" using k by (intro price_at_ge [OF wf]) simp
  then have "f (segment_of s0 pts k p) \<le> f (segment_of s0 pts k p')"
    using assms(3) by (intro f) (simp_all add: segment_of_def clamp_def)
  then show "of_int (cp_liquidity (pts ! k)) * (f (segment_of s0 pts k p) - f (price_at s0 pts k))
      \<le> of_int (cp_liquidity (pts ! k)) * (f (segment_of s0 pts k p') - f (price_at s0 pts k))"
    using wf_curve_nth(2) [OF wf k] by (intro mult_left_mono) simp_all
qed

lemma potential_strict:
  assumes wf: "wf_curve s0 pts" and f: "\<And>a b. s0 \<le> a \<Longrightarrow> a < b \<Longrightarrow> f a < f b"
    and p: "s0 \<le> p" "p < p'" "p' \<le> lastPrice s0 pts"
  shows "potential f s0 pts p < potential f s0 pts p'"
proof -
  from p have "p < price_at s0 pts (length pts)" by (simp add: lastPrice_eq)
  from segment_exists [OF p(1) this] obtain k where k: "k < length pts" "price_at s0 pts k \<le> p"
    "p < price_at s0 pts (Suc k)" by auto
  define m where "m = min p' (price_at s0 pts (Suc k))"
  have m: "p < m" "m \<le> price_at s0 pts (Suc k)" "m \<le> p'" using k p by (simp_all add: m_def)
  have "potential f s0 pts m - potential f s0 pts p = of_int (cp_liquidity (pts ! k)) * (f m - f p)"
    using k m by (intro potential_in_segment [OF wf]) simp_all
  also have "\<dots> > 0"
    using f [of p m] p m wf_curve_nth(2) [OF wf k(1)] by simp
  finally have "potential f s0 pts p < potential f s0 pts m" by simp
  also have "\<dots> \<le> potential f s0 pts p'"
  proof (rule potential_mono [OF wf _ m(3)])
    fix a b :: int
    assume "s0 \<le> a" "a \<le> b"
    then show "f a \<le> f b" using f [of a b] by (cases "a = b") auto
  qed
  finally show ?thesis .
qed

lemma quotePotential_strict:
  "wf_curve s0 pts \<Longrightarrow> s0 \<le> p \<Longrightarrow> p < p' \<Longrightarrow> p' \<le> lastPrice s0 pts \<Longrightarrow>
    quotePotential s0 pts p < quotePotential s0 pts p'"
  by (rule potential_strict) (simp_all add: quote_fn_strict)

lemma basePotential_strict:
  "wf_curve s0 pts \<Longrightarrow> 0 < s0 \<Longrightarrow> s0 \<le> p \<Longrightarrow> p < p' \<Longrightarrow> p' \<le> lastPrice s0 pts \<Longrightarrow>
    basePotential s0 pts p < basePotential s0 pts p'"
  by (rule potential_strict) (simp_all add: base_fn_strict)

lemma quotePotential_start [simp]: "wf_curve s0 pts \<Longrightarrow> quotePotential s0 pts s0 = 0"
  unfolding potential_def
proof (rule sum.neutral, intro ballI)
  fix k
  assume wf: "wf_curve s0 pts" and "k \<in> {..<length pts}"
  then have "s0 \<le> price_at s0 pts k" by (intro price_at_ge) simp_all
  then have "segment_of s0 pts k s0 = price_at s0 pts k" by (simp add: segment_of_def clamp_def)
  then show "of_int (cp_liquidity (pts ! k)) * (quote_fn (segment_of s0 pts k s0) - quote_fn (price_at s0 pts k)) = 0"
    by simp
qed

end
