(* ===== verification/DbcSafety.thy ===== *)
theory DbcSafety
  imports CurvePotential
begin

text \<open>
  The four walks of \<^verbatim>\<open>swapQuote.ts\<close> against the potential of the curve: what goes in is at least the
  exact value of the price move, what comes out at most, in every mode, over any number of segments
  and with the zero padding of the stored curve. This makes the bonding curve a \<open>swap_venue\<close>.
\<close>

section \<open>Rounding of one step\<close>

definition base_diff :: "int \<Rightarrow> int \<Rightarrow> int \<Rightarrow> rat" where
  "base_diff L a b = of_int L * (base_fn b - base_fn a)"

definition quote_diff :: "int \<Rightarrow> int \<Rightarrow> int \<Rightarrow> rat" where
  "quote_diff L a b = of_int L * (quote_fn b - quote_fn a)"

lemma quote_diff_eq: "quote_diff L a b = of_int (L * (b - a)) / 2 ^ 128"
  by (simp add: quote_diff_def quote_fn_def diff_divide_distrib right_diff_distrib)

lemma base_diff_eq: "0 < a \<Longrightarrow> 0 < b \<Longrightarrow> base_diff L a b = of_int (L * (b - a)) / of_int (a * b)"
  by (simp add: base_diff_def base_fn_def field_simps)

lemma quote_diff_le_iff: "quote_diff L a b \<le> of_int v \<longleftrightarrow> L * (b - a) \<le> v * 2 ^ 128"
proof -
  have "quote_diff L a b \<le> of_int v \<longleftrightarrow> (of_int (L * (b - a)) :: rat) \<le> of_int v * 2 ^ 128"
    unfolding quote_diff_eq by (rule pos_divide_le_eq) simp
  also have "of_int v * 2 ^ 128 = (of_int (v * 2 ^ 128) :: rat)" by simp
  finally show ?thesis by (simp only: of_int_le_iff)
qed

lemma le_quote_diff_iff: "of_int v \<le> quote_diff L a b \<longleftrightarrow> v * 2 ^ 128 \<le> L * (b - a)"
proof -
  have "of_int v \<le> quote_diff L a b \<longleftrightarrow> (of_int v * 2 ^ 128 :: rat) \<le> of_int (L * (b - a))"
    unfolding quote_diff_eq by (rule pos_le_divide_eq) simp
  also have "of_int v * 2 ^ 128 = (of_int (v * 2 ^ 128) :: rat)" by simp
  finally show ?thesis by (simp only: of_int_le_iff)
qed

lemma base_diff_le_iff:
  assumes "0 < a" "0 < b"
  shows "base_diff L a b \<le> of_int v \<longleftrightarrow> L * (b - a) \<le> v * (a * b)"
proof -
  have "base_diff L a b \<le> of_int v \<longleftrightarrow> of_int (L * (b - a)) / of_int (a * b) \<le> (of_int v :: rat)"
    by (simp only: base_diff_eq [OF assms])
  also have "\<dots> \<longleftrightarrow> (of_int (L * (b - a)) :: rat) \<le> of_int v * of_int (a * b)"
    by (rule pos_divide_le_eq) (use assms in simp)
  also have "\<dots> \<longleftrightarrow> L * (b - a) \<le> v * (a * b)" by (simp only: of_int_le_iff flip: of_int_mult)
  finally show ?thesis .
qed

lemma le_base_diff_iff:
  assumes "0 < a" "0 < b"
  shows "of_int v \<le> base_diff L a b \<longleftrightarrow> v * (a * b) \<le> L * (b - a)"
proof -
  have "of_int v \<le> base_diff L a b \<longleftrightarrow> (of_int v :: rat) \<le> of_int (L * (b - a)) / of_int (a * b)"
    by (simp only: base_diff_eq [OF assms])
  also have "\<dots> \<longleftrightarrow> (of_int v :: rat) * of_int (a * b) \<le> of_int (L * (b - a))"
    by (rule pos_le_divide_eq) (use assms in simp)
  also have "\<dots> \<longleftrightarrow> v * (a * b) \<le> L * (b - a)" by (simp only: of_int_le_iff flip: of_int_mult)
  finally show ?thesis .
qed

lemmas diff_iffs = quote_diff_le_iff le_quote_diff_iff base_diff_le_iff le_base_diff_iff

lemma rounded_amounts:
  shows "quote_diff L a b \<le> of_int (quote_up L a b)" "of_int (quote_down L a b) \<le> quote_diff L a b"
    "0 < a \<Longrightarrow> a \<le> b \<Longrightarrow> base_diff L a b \<le> of_int (base_up L a b)"
    "0 < a \<Longrightarrow> a \<le> b \<Longrightarrow> of_int (base_down L a b) \<le> base_diff L a b"
  using quote_up_bound quote_down_bound base_up_bound base_down_bound by (simp_all add: diff_iffs)

text \<open>The u64-checked amounts.\<close>

lemma deltaBaseU64_down:
  assumes "deltaBaseU64 a b L False = Inr v" "0 < a" "0 \<le> L"
  shows "a \<le> b" "v = base_down L a b" "0 \<le> v" "of_int v \<le> base_diff L a b"
proof -
  from assms have r: "getDeltaAmountBase a b L False = Inr v" by (auto simp: deltaBaseU64_def result_simps)
  from getDeltaAmountBase_order [OF r] show ab: "a \<le> b" by simp
  with r assms show v: "v = base_down L a b" by (simp add: getDeltaAmountBase_eq)
  with ab assms show "0 \<le> v" "of_int v \<le> base_diff L a b" by (simp_all add: rounded_amounts)
qed

lemma deltaBaseU64_up:
  assumes "deltaBaseU64 a b L True = Inr v" "0 < a" "0 \<le> L"
  shows "a \<le> b" "v = base_up L a b" "0 \<le> v" "base_diff L a b \<le> of_int v"
proof -
  from assms have r: "getDeltaAmountBase a b L True = Inr v" by (auto simp: deltaBaseU64_def result_simps)
  from getDeltaAmountBase_order [OF r] show ab: "a \<le> b" by simp
  with r assms show v: "v = base_up L a b" by (simp add: getDeltaAmountBase_eq)
  with ab assms show "0 \<le> v" "base_diff L a b \<le> of_int v" by (simp_all add: rounded_amounts)
qed

lemma deltaQuoteU64_down:
  assumes "deltaQuoteU64 a b L False = Inr v" "0 \<le> L"
  shows "a \<le> b" "v = quote_down L a b" "0 \<le> v" "of_int v \<le> quote_diff L a b"
proof -
  from assms have r: "getDeltaAmountQuote a b L False = Inr v" by (auto simp: deltaQuoteU64_def result_simps)
  from getDeltaAmountQuote_order [OF r] show ab: "a \<le> b" by simp
  with r assms show v: "v = quote_down L a b" by (simp add: getDeltaAmountQuote_eq)
  with ab assms show "0 \<le> v" "of_int v \<le> quote_diff L a b" by (simp_all add: rounded_amounts)
qed

lemma deltaQuoteU64_up:
  assumes "deltaQuoteU64 a b L True = Inr v" "0 \<le> L"
  shows "a \<le> b" "v = quote_up L a b" "0 \<le> v" "quote_diff L a b \<le> of_int v"
proof -
  from assms have r: "getDeltaAmountQuote a b L True = Inr v" by (auto simp: deltaQuoteU64_def result_simps)
  from getDeltaAmountQuote_order [OF r] show ab: "a \<le> b" by simp
  with r assms show v: "v = quote_up L a b" by (simp add: getDeltaAmountQuote_eq)
  with ab assms show "0 \<le> v" "quote_diff L a b \<le> of_int v" by (simp_all add: rounded_amounts)
qed

text \<open>Selling \<open>amount\<close> base from price \<open>p\<close>: the price falls by no more than the base pays for.\<close>

lemma sell_in_step:
  assumes n: "nextSqrtPriceFromBaseAmountInRoundingUp p L amount = Inr n"
    and "0 < L" "0 < p" "0 \<le> amount"
  shows "0 < n" "n \<le> p" "base_diff L n p \<le> of_int amount"
    "0 < q \<Longrightarrow> q \<le> p \<Longrightarrow> amount < base_up L q p \<Longrightarrow> q \<le> n"
proof -
  let ?d = "L + amount * p"
  have d: "0 < ?d" using assms by (simp add: add_pos_nonneg)
  have bounds: "L * p \<le> n * ?d \<and> (n - 1) * ?d < L * p"
  proof (cases "amount = 0")
    case True
    with n have "n = p" by (simp add: nextSqrtPriceFromBaseAmountInRoundingUp_def)
    with True assms show ?thesis by (simp add: mult.commute)
  next
    case False
    with n have "n = (L * p + ?d - 1) div ?d"
      using assms d by (simp add: nextSqrtPriceFromBaseAmountInRoundingUp_def mulDiv_up)
    with ceil_div_bounds [OF d, of "L * p"] show ?thesis by simp
  qed
  have "0 < n * ?d" using bounds assms by (meson less_le_trans mult_pos_pos)
  with d show n0: "0 < n" by (simp add: zero_less_mult_iff)
  show np: "n \<le> p"
  proof (rule ccontr)
    assume "\<not> n \<le> p"
    then have "p * ?d \<le> (n - 1) * ?d" using d by (intro mult_right_mono) simp_all
    moreover have "L * p \<le> p * ?d" using assms by (simp add: algebra_simps)
    ultimately show False using bounds by simp
  qed
  have "L * (p - n) \<le> amount * (n * p)"
    using bounds by (simp add: algebra_simps)
  then show "base_diff L n p \<le> of_int amount" using n0 assms by (simp add: base_diff_le_iff)
  show "q \<le> n" if q: "0 < q" "q \<le> p" "amount < base_up L q p"
  proof -
    have "\<not> L * (p - q) \<le> amount * (q * p)"
      using q(3) base_up_le_iff [of q p L amount] q by linarith
    then have "q * ?d < L * p" by (simp add: algebra_simps)
    also have "\<dots> \<le> n * ?d" using bounds by simp
    finally show ?thesis using d by simp
  qed
qed

lemma ceil_by_mod:
  fixes a d :: int
  assumes "0 < d"
  shows "a div d + (if a mod d = 0 then 0 else 1) = (a + d - 1) div d"
proof -
  define q r where "q = a div d" and "r = a mod d"
  have a: "a = q * d + r" by (simp add: q_def r_def)
  have r: "0 \<le> r" "r < d" using assms by (simp_all add: r_def)
  have "(a + d - 1) div d = q + (if r = 0 then 0 else 1)"
    by (rule ceil_div_unique) (use assms r in \<open>auto simp: a algebra_simps\<close>)
  then show ?thesis by (simp add: q_def r_def)
qed

text \<open>Taking \<open>amount\<close> quote out from price \<open>p\<close>: the price falls by at least what was taken.\<close>

lemma sell_out_step:
  assumes n: "nextSqrtPriceFromQuoteAmountOutRoundingDown p L amount = Inr n"
    and "0 < L" "0 \<le> amount"
  shows "0 \<le> n" "n \<le> p" "of_int amount \<le> quote_diff L n p"
    "q \<le> p \<Longrightarrow> amount \<le> quote_down L q p \<Longrightarrow> q \<le> n"
proof -
  let ?a = "amount * 2 ^ 128"
  let ?q = "?a div L + (if ?a mod L = 0 then 0 else 1)"
  have a: "0 \<le> ?a" using assms by simp
  have q: "?q = (?a + L - 1) div L" by (rule ceil_by_mod) (rule assms)
  from n assms a have n': "n = p - ?q" "0 \<le> n"
    by (auto simp: nextSqrtPriceFromQuoteAmountOutRoundingDown_def Let_def split: if_splits)
  show "0 \<le> n" by (rule n')
  have b: "?a \<le> ?q * L" "(?q - 1) * L < ?a" unfolding q by (rule ceil_div_bounds [OF assms(2)])+
  have "0 \<le> ?q" using a assms by (simp add: pos_imp_zdiv_nonneg_iff)
  then show "n \<le> p" by (simp add: n')
  show "of_int amount \<le> quote_diff L n p"
    using b(1) by (simp add: le_quote_diff_iff n'(1) mult.commute)
  show "q \<le> n" if "q \<le> p" "amount \<le> quote_down L q p"
  proof -
    have "?a \<le> (p - q) * L" using that by (simp add: quote_down_ge_iff mult.commute)
    then have "?q \<le> p - q" unfolding q using assms by (simp add: ceil_div_le_iff)
    then show ?thesis by (simp add: n')
  qed
qed

text \<open>Taking \<open>amount\<close> base out from price \<open>p\<close>: the price rises by at least what was taken.\<close>

lemma buy_out_step:
  assumes n: "nextSqrtPriceFromBaseAmountOutRoundingUp p L amount = Inr n"
    and "0 < L" "0 < p" "0 \<le> amount"
  shows "p \<le> n" "of_int amount \<le> base_diff L p n"
    "0 < q \<Longrightarrow> p \<le> q \<Longrightarrow> amount \<le> base_down L p q \<Longrightarrow> n \<le> q"
proof -
  let ?d = "L - amount * p"
  have db: "0 < ?d \<and> L * p \<le> n * ?d \<and> (n - 1) * ?d < L * p"
  proof (cases "amount = 0")
    case True
    with n have "n = p" by (simp add: nextSqrtPriceFromBaseAmountOutRoundingUp_def)
    with True assms show ?thesis by (simp add: mult.commute)
  next
    case False
    with n have d: "0 < ?d" by (auto simp: nextSqrtPriceFromBaseAmountOutRoundingUp_def Let_def split: if_splits)
    with False n have "n = (L * p + ?d - 1) div ?d"
      using assms by (auto simp: nextSqrtPriceFromBaseAmountOutRoundingUp_def mulDiv_up Let_def split: if_splits)
    with d ceil_div_bounds [OF d, of "L * p"] show ?thesis by simp
  qed
  show pn: "p \<le> n"
  proof (rule ccontr)
    assume "\<not> p \<le> n"
    then have "n * ?d < p * ?d" using db by simp
    also have "p * ?d \<le> L * p" using assms by (simp add: algebra_simps)
    finally show False using db by simp
  qed
  have "amount * (p * n) \<le> L * (n - p)" using db by (simp add: algebra_simps)
  then show "of_int amount \<le> base_diff L p n" using assms pn by (simp add: le_base_diff_iff)
  show "n \<le> q" if q: "0 < q" "p \<le> q" "amount \<le> base_down L p q"
  proof -
    have "amount * (p * q) \<le> L * (q - p)" using q assms by (simp add: base_down_ge_iff)
    then have "L * p \<le> q * ?d" by (simp add: algebra_simps)
    with db have "(n - 1) * ?d < q * ?d" by linarith
    then show ?thesis using db by simp
  qed
qed

section \<open>Buying along the curve\<close>

text \<open>One round of a walk through segment \<open>k\<close>, as a change of the two potentials.\<close>

lemma segment_diffs:
  assumes "wf_curve s0 pts" "k < length pts" "price_at s0 pts k \<le> a" "a \<le> b" "b \<le> cp_sqrtPrice (pts ! k)"
  shows "quotePotential s0 pts b - quotePotential s0 pts a = quote_diff (cp_liquidity (pts ! k)) a b"
    "basePotential s0 pts b - basePotential s0 pts a = base_diff (cp_liquidity (pts ! k)) a b"
  using assms potential_in_segment [OF assms(1,2), of a b]
  by (simp_all add: quote_diff_def base_diff_def price_at_def)

lemma wf_not_zero:
  assumes "wf_curve s0 pts" "0 \<le> s0" "k < length pts"
  shows "\<not> zero_point (pts ! k)" "0 < cp_sqrtPrice (pts ! k)" "s0 < cp_sqrtPrice (pts ! k)"
proof -
  have "s0 \<le> price_at s0 pts k" using assms by (intro price_at_ge) simp_all
  then show "s0 < cp_sqrtPrice (pts ! k)"
    using wf_curve_nth(1) [OF assms(1,3)] by (simp add: price_at_def)
  with assms wf_curve_nth(2) [OF assms(1,3)]
  show "\<not> zero_point (pts ! k)" "0 < cp_sqrtPrice (pts ! k)" by (simp_all add: zero_point_def)
qed

text \<open>What a walk has done between two of its states.\<close>

definition bought :: "int \<Rightarrow> curve_point list \<Rightarrow> int \<Rightarrow> int \<Rightarrow> int \<Rightarrow> int \<Rightarrow> bool" where
  "bought s0 pts p paid taken p' \<longleftrightarrow> p \<le> p' \<and> 0 \<le> paid \<and> 0 \<le> taken \<and>
     quotePotential s0 pts p' - quotePotential s0 pts p \<le> of_int paid \<and>
     of_int taken \<le> basePotential s0 pts p' - basePotential s0 pts p"

definition sold :: "int \<Rightarrow> curve_point list \<Rightarrow> int \<Rightarrow> int \<Rightarrow> int \<Rightarrow> int \<Rightarrow> bool" where
  "sold s0 pts p paid taken p' \<longleftrightarrow> p' \<le> p \<and> 0 \<le> paid \<and> 0 \<le> taken \<and>
     basePotential s0 pts p - basePotential s0 pts p' \<le> of_int paid \<and>
     of_int taken \<le> quotePotential s0 pts p - quotePotential s0 pts p'"

lemma bought_trans:
  "bought s0 pts p a b p' \<Longrightarrow> bought s0 pts p' a' b' p'' \<Longrightarrow> bought s0 pts p (a + a') (b + b') p''"
  by (auto simp: bought_def)

lemma sold_trans:
  "sold s0 pts p a b p' \<Longrightarrow> sold s0 pts p' a' b' p'' \<Longrightarrow> sold s0 pts p (a + a') (b + b') p''"
  by (auto simp: sold_def)

lemma bought_refl [simp]: "bought s0 pts p 0 0 p"
  by (simp add: bought_def)

lemma sold_refl [simp]: "sold s0 pts p 0 0 p"
  by (simp add: sold_def)

lemma buyInLoop_bought:
  assumes wf: "wf_curve s0 pts" "0 < s0" and zs: "list_all zero_point zs"
    and "buyInLoop (ps @ zs) stop acc cur left = Inr r" "ps = drop k pts" "k \<le> length pts"
    and "s0 \<le> cur" "price_at s0 pts k \<le> cur \<or> stop \<le> cur" "0 \<le> left"
  shows "bought s0 pts cur (left - af_amountLeft r) (af_outputAmount r - acc) (af_nextSqrtPrice r) \<and>
    0 \<le> af_amountLeft r \<and> af_nextSqrtPrice r \<le> max cur stop"
  using assms(4-)
proof (induction ps arbitrary: k acc cur left)
  case Nil
  then show ?case using zs by (cases zs) auto
next
  case (Cons q qs)
  from Cons.prems(2,3) have k: "k < length pts" by (metis drop_all le_neq_implies_less list.distinct(1) order_refl)
  with Cons.prems(2) have q: "q = pts ! k" and qs: "qs = drop (Suc k) pts"
    by (metis Cons_nth_drop_Suc list.inject)+
  let ?L = "cp_liquidity q" and ?P = "cp_sqrtPrice q"
  have L: "0 < ?L" "?L \<le> U128_MAX" "?P \<le> MAX_SQRT_PRICE" using wf_curve_nth [OF wf(1) k] by (simp_all add: q)
  have nz: "\<not> zero_point q" using wf_not_zero [OF wf(1) _ k] wf(2) by (simp add: q)
  define ref where "ref = (if stop < ?P then stop else ?P)"
  have ref: "ref \<le> stop" "ref \<le> ?P" by (simp_all add: ref_def)
  show ?case
  proof (cases "ref > cur")
    case False
    then have "buyInLoop (qs @ zs) stop acc cur left = Inr r"
      using Cons.prems(1) nz by (simp add: ref_def Let_def)
    moreover have "price_at s0 pts (Suc k) \<le> cur \<or> stop \<le> cur"
      using False by (auto simp: ref_def price_at_def q split: if_splits)
    ultimately show ?thesis using Cons.IH [of acc cur left "Suc k"] Cons.prems k qs by simp
  next
    case True
    then have lo: "price_at s0 pts k \<le> cur" using Cons.prems(5) ref by auto
    let ?m = "quote_up ?L cur ref"
    have delta: "getDeltaAmountQuote cur ref ?L True = Inr ?m"
      using True L by (simp add: getDeltaAmountQuote_eq)
    have c0: "0 < cur" using Cons.prems(4) wf(2) by simp
    show ?thesis
    proof (cases "left < ?m")
      case less: True
      with Cons.prems(1) True nz delta obtain n d where
        n: "getNextSqrtPriceFromQuoteAmountIn cur ?L left = Inr n" and d: "deltaBaseU64 cur n ?L False = Inr d"
        and r: "af_amountLeft r = 0" "af_outputAmount r = acc + d" "af_nextSqrtPrice r = n"
        by (auto simp: ref_def [symmetric] Let_def result_simps checkedAdd64_def)
      from next_price_in_segment [OF L(1,2) Cons.prems(6) less] ref L(3) n
      have nb: "cur \<le> n" "n < ref" "quote_up ?L cur n = left" by auto
      note diffs = segment_diffs [OF wf(1) k lo nb(1)]
      have "quotePotential s0 pts n - quotePotential s0 pts cur \<le> of_int left"
        using diffs(1) nb ref rounded_amounts(1) [of ?L cur n] by (simp add: q)
      moreover have "of_int d \<le> basePotential s0 pts n - basePotential s0 pts cur" "0 \<le> d"
        using diffs(2) nb ref deltaBaseU64_down [OF d c0] L by (simp_all add: q)
      ultimately show ?thesis using nb ref r Cons.prems(6) by (simp add: bought_def)
    next
      case ge: False
      with Cons.prems(1) True nz delta obtain d where d: "deltaBaseU64 cur ref ?L False = Inr d"
        and rest: "(if ref = stop
          then Inr \<lparr>af_amountLeft = left - ?m, af_outputAmount = acc + d, af_nextSqrtPrice = ref\<rparr>
          else buyInLoop (qs @ zs) stop (acc + d) ref (left - ?m)) = Inr r"
        by (auto simp: ref_def [symmetric] Let_def result_simps checkedAdd64_def toU64Cast_def split: if_splits)
      have le: "cur \<le> ref" using True by simp
      note diffs = segment_diffs [OF wf(1) k lo le, folded q, OF ref(2)]
      have one: "bought s0 pts cur ?m d ref"
        using diffs deltaBaseU64_down [OF d c0] rounded_amounts(1) [of ?L cur ref] le L
        by (simp add: bought_def)
      show ?thesis
      proof (cases "ref = stop")
        case True
        with rest one ge le show ?thesis by auto
      next
        case ne: False
        then have refP: "ref = ?P" using ref by (auto simp: ref_def)
        from rest ne have "buyInLoop (qs @ zs) stop (acc + d) ref (left - ?m) = Inr r" by simp
        from Cons.IH [OF this qs] k le Cons.prems(4) ge refP
        have IH: "bought s0 pts ref (left - ?m - af_amountLeft r) (af_outputAmount r - (acc + d)) (af_nextSqrtPrice r)"
          "0 \<le> af_amountLeft r" "af_nextSqrtPrice r \<le> max ref stop"
          by (auto simp: price_at_def q)
        from bought_trans [OF one IH(1)] IH(2,3) ref le show ?thesis by (auto simp: algebra_simps)
      qed
    qed
  qed
qed

lemma buyOutLoop_bought:
  assumes wf: "wf_curve s0 pts" "0 < s0" and zs: "list_all zero_point zs"
    and "buyOutLoop (ps @ zs) acc cur left = Inr (left', acc', cur')" "ps = drop k pts" "k \<le> length pts"
    and "s0 \<le> cur" "price_at s0 pts k \<le> cur" "0 \<le> left"
  shows "bought s0 pts cur (acc' - acc) (left - left') cur' \<and> 0 \<le> left' \<and> cur' \<le> max cur (lastPrice s0 pts)"
  using assms(4-)
proof (induction ps arbitrary: k acc cur left)
  case Nil
  then show ?case using zs by (cases zs) auto
next
  case (Cons q qs)
  from Cons.prems(2,3) have k: "k < length pts" by (metis drop_all le_neq_implies_less list.distinct(1) order_refl)
  with Cons.prems(2) have q: "q = pts ! k" and qs: "qs = drop (Suc k) pts"
    by (metis Cons_nth_drop_Suc list.inject)+
  let ?L = "cp_liquidity q" and ?P = "cp_sqrtPrice q"
  have L: "0 < ?L" using wf_curve_nth [OF wf(1) k] by (simp add: q)
  have nz: "\<not> zero_point q" "0 < ?P" using wf_not_zero [OF wf(1) _ k] wf(2) by (simp_all add: q)
  have last: "?P \<le> lastPrice s0 pts"
    using price_at_mono [OF wf(1), of "Suc k" "length pts"] k by (simp add: lastPrice_eq price_at_def q)
  show ?case
  proof (cases "?P > cur")
    case False
    then have "buyOutLoop (qs @ zs) acc cur left = Inr (left', acc', cur')" using Cons.prems(1) nz by simp
    moreover have "price_at s0 pts (Suc k) \<le> cur" using False by (simp add: price_at_def q)
    ultimately show ?thesis using Cons.IH [of acc cur left "Suc k"] Cons.prems k qs by simp
  next
    case True
    let ?m = "base_down ?L cur ?P"
    have c0: "0 < cur" using Cons.prems(4) wf(2) by simp
    have delta: "getDeltaAmountBase cur ?P ?L False = Inr ?m"
      using True L c0 by (simp add: getDeltaAmountBase_eq)
    show ?thesis
    proof (cases "left < ?m")
      case less: True
      with Cons.prems(1) True nz delta obtain n d where
        n: "nextSqrtPriceFromBaseAmountOutRoundingUp cur ?L left = Inr n" and d: "deltaQuoteU64 cur n ?L True = Inr d"
        and r: "left' = 0" "acc' = acc + d" "cur' = n"
        by (auto simp: Let_def result_simps checkedAdd64_def)
      note st = buy_out_step [OF n L c0 Cons.prems(6)]
      have nP: "n \<le> ?P" using st(3) [of ?P] less True nz by simp
      note diffs = segment_diffs [OF wf(1) k Cons.prems(5) st(1), folded q, OF nP]
      have "bought s0 pts cur d left n"
        using diffs st deltaQuoteU64_up [OF d] L Cons.prems(6) by (simp add: bought_def)
      then show ?thesis using r nP last by simp
    next
      case ge: False
      with Cons.prems(1) True nz delta obtain d where d: "deltaQuoteU64 cur ?P ?L True = Inr d"
        and rest: "buyOutLoop (qs @ zs) (acc + d) ?P (left - ?m) = Inr (left', acc', cur')"
        by (auto simp: Let_def result_simps checkedAdd64_def toU64Cast_def split: if_splits)
      have le: "cur \<le> ?P" using True by simp
      note diffs = segment_diffs [OF wf(1) k Cons.prems(5) le, folded q, OF order_refl]
      have one: "bought s0 pts cur d ?m ?P"
        using diffs deltaQuoteU64_up [OF d] rounded_amounts(4) [OF c0 le] le L c0 by (simp add: bought_def)
      from Cons.IH [OF rest qs] k le Cons.prems(4) ge
      have IH: "bought s0 pts ?P (acc' - (acc + d)) (left - ?m - left') cur'" "0 \<le> left'"
        "cur' \<le> max ?P (lastPrice s0 pts)" by (auto simp: price_at_def q)
      from bought_trans [OF one IH(1)] IH(2,3) last show ?thesis by (auto simp: algebra_simps)
    qed
  qed
qed

section \<open>Selling along the curve\<close>

lemma sellInLoop_sold:
  assumes wf: "wf_curve s0 pts" "0 < s0" and zs: "list_all zero_point zs"
    and "sellInLoop (pts @ zs) i acc cur left = Inr (left', acc', cur')" "i < length (pts @ zs)"
    and "s0 \<le> cur" "cur \<le> lastPrice s0 pts" "i < length pts \<longrightarrow> cur \<le> cp_sqrtPrice (pts ! i)" "0 \<le> left"
  shows "sold s0 pts cur (left - left') (acc' - acc) cur' \<and> 0 \<le> left' \<and> s0 \<le> cur' \<and>
    (left' \<noteq> 0 \<and> pts \<noteq> [] \<longrightarrow> cur' \<le> cp_sqrtPrice (pts ! 0))"
  using assms(4-)
proof (induction i arbitrary: acc cur left)
  case 0
  then show ?case by (auto simp: neq_Nil_conv)
next
  case (Suc j)
  show ?case
  proof (cases "j < length pts")
    case False
    then have "zero_point ((pts @ zs) ! j)" using Suc.prems(2) zs by (auto simp: nth_append list_all_length)
    then have "sellInLoop (pts @ zs) j acc cur left = Inr (left', acc', cur')"
      using Suc.prems(1) by (simp add: Let_def)
    then show ?thesis using Suc.IH Suc.prems False by simp
  next
    case j: True
    let ?P = "cp_sqrtPrice (pts ! j)"
    have pt: "(pts @ zs) ! j = pts ! j" using j by (simp add: nth_append)
    have nz: "\<not> zero_point (pts ! j)" "0 < ?P" "s0 < ?P" using wf_not_zero [OF wf(1) _ j] wf(2) by simp_all
    show ?thesis
    proof (cases "?P < cur")
      case False
      then have "sellInLoop (pts @ zs) j acc cur left = Inr (left', acc', cur')"
        using Suc.prems(1) nz pt by (simp add: Let_def)
      then show ?thesis using Suc.IH Suc.prems False by simp
    next
      case True
      have k: "Suc j < length pts"
      proof (rule ccontr)
        assume "\<not> Suc j < length pts"
        with j have "length pts = Suc j" by simp
        then have "lastPrice s0 pts = ?P" by (simp add: lastPrice_eq price_at_def)
        with Suc.prems(4) True show False by simp
      qed
      let ?L = "cp_liquidity (pts ! Suc j)"
      have liq: "cp_liquidity ((pts @ zs) ! Suc j) = ?L" using k by (simp add: nth_append)
      have L: "0 < ?L" using wf_curve_nth [OF wf(1) k] by simp
      have hi: "cur \<le> cp_sqrtPrice (pts ! Suc j)" using Suc.prems(5) k by simp
      have at: "price_at s0 pts (Suc j) = ?P" by (simp add: price_at_def)
      have c0: "0 < cur" using Suc.prems(3) wf(2) by simp
      let ?m = "base_up ?L ?P cur"
      have delta: "getDeltaAmountBase ?P cur ?L True = Inr ?m"
        using True L nz by (simp add: getDeltaAmountBase_eq)
      show ?thesis
      proof (cases "left < ?m")
        case less: True
        with Suc.prems(1) True nz delta pt liq obtain n d where
          n: "nextSqrtPriceFromBaseAmountInRoundingUp cur ?L left = Inr n" and d: "deltaQuoteU64 n cur ?L False = Inr d"
          and r: "left' = 0" "acc' = acc + d" "cur' = n"
          by (auto simp: Let_def result_simps checkedAdd64_def)
        note st = sell_in_step [OF n L c0 Suc.prems(6)]
        have Pn: "?P \<le> n" using st(4) [of ?P] less True nz by simp
        note diffs = segment_diffs [OF wf(1) k, unfolded at, OF Pn st(2) hi]
        have "sold s0 pts cur left d n"
          using diffs st deltaQuoteU64_down [OF d] L Suc.prems(6) by (simp add: sold_def)
        then show ?thesis using r Pn nz by simp
      next
        case ge: False
        with Suc.prems(1) True nz delta pt liq obtain d where d: "deltaQuoteU64 ?P cur ?L False = Inr d"
          and rest: "sellInLoop (pts @ zs) j (acc + d) ?P (left - ?m) = Inr (left', acc', cur')"
          by (auto simp: Let_def result_simps checkedAdd64_def toU64Cast_def split: if_splits)
        have le: "?P \<le> cur" using True by simp
        note diffs = segment_diffs [OF wf(1) k, unfolded at, OF order_refl le hi]
        have one: "sold s0 pts cur ?m d ?P"
          using diffs deltaQuoteU64_down [OF d] rounded_amounts(3) [OF nz(2) le] le L nz by (simp add: sold_def)
        from Suc.IH [OF rest] Suc.prems le nz ge
        have IH: "sold s0 pts ?P (left - ?m - left') (acc' - (acc + d)) cur'" "0 \<le> left'" "s0 \<le> cur'"
          "left' \<noteq> 0 \<and> pts \<noteq> [] \<longrightarrow> cur' \<le> cp_sqrtPrice (pts ! 0)" by auto
        from sold_trans [OF one IH(1)] IH(2-) show ?thesis by (auto simp: algebra_simps)
      qed
    qed
  qed
qed

lemma sellOutLoop_sold:
  assumes wf: "wf_curve s0 pts" "0 < s0" and zs: "list_all zero_point zs"
    and "sellOutLoop (pts @ zs) i acc cur left = Inr (left', acc', cur')" "i < length (pts @ zs)"
    and "s0 \<le> cur" "cur \<le> lastPrice s0 pts" "i < length pts \<longrightarrow> cur \<le> cp_sqrtPrice (pts ! i)" "0 \<le> left"
  shows "sold s0 pts cur (acc' - acc) (left - left') cur' \<and> 0 \<le> left' \<and> s0 \<le> cur' \<and>
    (left' \<noteq> 0 \<and> pts \<noteq> [] \<longrightarrow> cur' \<le> cp_sqrtPrice (pts ! 0))"
  using assms(4-)
proof (induction i arbitrary: acc cur left)
  case 0
  then show ?case by (auto simp: neq_Nil_conv)
next
  case (Suc j)
  show ?case
  proof (cases "j < length pts")
    case False
    then have "zero_point ((pts @ zs) ! j)" using Suc.prems(2) zs by (auto simp: nth_append list_all_length)
    then have "sellOutLoop (pts @ zs) j acc cur left = Inr (left', acc', cur')"
      using Suc.prems(1) by (simp add: Let_def)
    then show ?thesis using Suc.IH Suc.prems False by simp
  next
    case j: True
    let ?P = "cp_sqrtPrice (pts ! j)"
    have pt: "(pts @ zs) ! j = pts ! j" using j by (simp add: nth_append)
    have nz: "\<not> zero_point (pts ! j)" "0 < ?P" "s0 < ?P" using wf_not_zero [OF wf(1) _ j] wf(2) by simp_all
    show ?thesis
    proof (cases "?P < cur")
      case False
      then have "sellOutLoop (pts @ zs) j acc cur left = Inr (left', acc', cur')"
        using Suc.prems(1) nz pt by (simp add: Let_def)
      then show ?thesis using Suc.IH Suc.prems False by simp
    next
      case True
      have k: "Suc j < length pts"
      proof (rule ccontr)
        assume "\<not> Suc j < length pts"
        with j have "length pts = Suc j" by simp
        then have "lastPrice s0 pts = ?P" by (simp add: lastPrice_eq price_at_def)
        with Suc.prems(4) True show False by simp
      qed
      let ?L = "cp_liquidity (pts ! Suc j)"
      have liq: "cp_liquidity ((pts @ zs) ! Suc j) = ?L" using k by (simp add: nth_append)
      have L: "0 < ?L" using wf_curve_nth [OF wf(1) k] by simp
      have hi: "cur \<le> cp_sqrtPrice (pts ! Suc j)" using Suc.prems(5) k by simp
      have at: "price_at s0 pts (Suc j) = ?P" by (simp add: price_at_def)
      let ?m = "quote_down ?L ?P cur"
      have delta: "getDeltaAmountQuote ?P cur ?L False = Inr ?m"
        using True L by (simp add: getDeltaAmountQuote_eq)
      show ?thesis
      proof (cases "left < ?m")
        case less: True
        with Suc.prems(1) True nz delta pt liq obtain n d where
          n: "nextSqrtPriceFromQuoteAmountOutRoundingDown cur ?L left = Inr n" and d: "deltaBaseU64 n cur ?L True = Inr d"
          and r: "left' = 0" "acc' = acc + d" "cur' = n"
          by (auto simp: Let_def result_simps checkedAdd64_def)
        note st = sell_out_step [OF n L Suc.prems(6)]
        have Pn: "?P \<le> n" using st(4) [of ?P] less True by simp
        then have n0: "0 < n" using nz by simp
        note diffs = segment_diffs [OF wf(1) k, unfolded at, OF Pn st(2) hi]
        have "sold s0 pts cur d left n"
          using diffs st deltaBaseU64_up [OF d n0] L Suc.prems(6) by (simp add: sold_def)
        then show ?thesis using r Pn nz by simp
      next
        case ge: False
        with Suc.prems(1) True nz delta pt liq obtain d where d: "deltaBaseU64 ?P cur ?L True = Inr d"
          and rest: "sellOutLoop (pts @ zs) j (acc + d) ?P (left - ?m) = Inr (left', acc', cur')"
          by (auto simp: Let_def result_simps checkedAdd64_def toU64Cast_def split: if_splits)
        have le: "?P \<le> cur" using True by simp
        note diffs = segment_diffs [OF wf(1) k, unfolded at, OF order_refl le hi]
        have one: "sold s0 pts cur d ?m ?P"
          using diffs deltaBaseU64_up [OF d nz(2)] rounded_amounts(2) [of ?L ?P cur] le L by (simp add: sold_def)
        from Suc.IH [OF rest] Suc.prems le nz ge
        have IH: "sold s0 pts ?P (acc' - (acc + d)) (left - ?m - left') cur'" "0 \<le> left'" "s0 \<le> cur'"
          "left' \<noteq> 0 \<and> pts \<noteq> [] \<longrightarrow> cur' \<le> cp_sqrtPrice (pts ! 0)" by auto
        from sold_trans [OF one IH(1)] IH(2-) show ?thesis by (auto simp: algebra_simps)
      qed
    qed
  qed
qed

end
