(* ===== verification/DbcTrades.thy ===== *)
theory DbcTrades
  imports DbcSafety
begin

text \<open>
  The bonding curve as a trading venue. First the fees of \<^verbatim>\<open>swapQuote.ts\<close> (they conserve the amount,
  and \<open>dbcIncludedFeeAmount\<close> is the exact inverse of \<open>dbcFeeOnAmount\<close>), then the four walks as trades of
  the \<open>swap_venue\<close> interface, then \<open>quoteDbcSwap\<close>: every quote it returns is such a trade plus fees, so a
  pool that only changes by quoted swaps refines the abstract venue.
\<close>

section \<open>Fees\<close>

interpretation mulDivU64: rounded_division mulDivU64
  by unfold_locales (auto simp: mulDivU64_def mulDiv_up mulDiv_down split: if_splits)

lemma mulDivU64_eq_Inr: "mulDivU64 x y d u = Inr v \<longleftrightarrow> mulDiv x y d u = Inr v \<and> v \<le> U64_MAX"
  by (auto simp: mulDivU64_def bounds_defs result_simps)

definition fees_total :: "fee_parts \<Rightarrow> int" where
  "fees_total f = fp_tradingFee f + fp_protocolFee f + fp_referralFee f"

definition fees_ok :: "fee_parts \<Rightarrow> bool" where
  "fees_ok f \<longleftrightarrow> 0 \<le> fp_tradingFee f \<and> 0 \<le> fp_protocolFee f \<and> 0 \<le> fp_referralFee f"

lemma fees_ok_total: "fees_ok f \<Longrightarrow> 0 \<le> fees_total f"
  by (simp add: fees_ok_def fees_total_def)

lemma no_fees_simps [simp]: "fees_total no_fees = 0" "fees_ok no_fees"
  by (simp_all add: no_fees_def fees_total_def fees_ok_def)

lemma splitFees_total: "splitFees fee h = Inr s \<Longrightarrow> fees_total s = fee"
  by (auto simp: splitFees_def fees_total_def result_simps Let_def)

lemma splitFees_parts:
  assumes s: "splitFees fee h = Inr s" and "0 \<le> fee"
  shows "fees_ok s" "fp_protocolFee s + fp_referralFee s = fee * 20 div 100"
proof -
  from s obtain pr rf where pr: "mulDivU64 fee 20 100 False = Inr pr"
    and rf: "(if h then mulDivU64 pr 20 100 False else Inr 0) = Inr rf"
    and eq: "fp_tradingFee s = fee - pr" "fp_protocolFee s = pr - rf" "fp_referralFee s = rf"
    by (auto simp: splitFees_def result_simps Let_def cong: if_cong)
  have p: "0 \<le> pr" "pr \<le> fee" "pr = fee * 20 div 100"
    using mulDivU64.nonneg [OF assms(2) _ _ pr] mulDivU64.share_le [OF assms(2) _ _ _ pr]
      mulDivU64.down [OF assms(2) _ _ pr] by simp_all
  have r: "0 \<le> rf" "rf \<le> pr"
    using rf mulDivU64.nonneg [of pr 20 100 False rf] mulDivU64.share_le [of pr 20 100 False rf] p
    by (auto split: if_splits)
  show "fees_ok s" "fp_protocolFee s + fp_referralFee s = fee * 20 div 100"
    using p r by (simp_all add: eq fees_ok_def)
qed

lemma dbcFeeOnAmount_split:
  "dbcFeeOnAmount num amount h = Inr f \<longleftrightarrow>
     (\<exists>fee. mulDivU64 amount num 1000000000 True = Inr fee \<and> fee \<le> amount \<and> fa_amount f = amount - fee \<and>
        splitFees fee h = Inr (fees_of f))"
  by (cases f) (auto simp: dbcFeeOnAmount_def splitFees_def fees_of_def result_simps Let_def)

lemma dbcFeeOnAmount_conserves:
  "dbcFeeOnAmount num amount h = Inr f \<Longrightarrow> fa_amount f + fees_total (fees_of f) = amount \<and> 0 \<le> fa_amount f"
  by (auto simp: dbcFeeOnAmount_split dest: splitFees_total)

lemma dbcFeeOnAmount_parts:
  assumes "dbcFeeOnAmount num amount h = Inr f" "0 \<le> num" "0 \<le> amount"
  shows "fees_ok (fees_of f)" "fa_amount f = amount - (amount * num + 999999999) div 1000000000"
proof -
  from assms(1) obtain fee where fee: "mulDivU64 amount num 1000000000 True = Inr fee"
    and a: "fa_amount f = amount - fee" and s: "splitFees fee h = Inr (fees_of f)"
    by (auto simp: dbcFeeOnAmount_split)
  have "0 \<le> fee" by (rule mulDivU64.nonneg [OF _ _ _ fee]) (use assms in simp_all)
  with s show "fees_ok (fees_of f)" by (rule splitFees_parts)
  have "fee = (amount * num + 1000000000 - 1) div 1000000000"
    by (rule mulDivU64.up [OF _ _ _ fee]) (use assms in simp_all)
  with a show "fa_amount f = amount - (amount * num + 999999999) div 1000000000" by simp
qed

text \<open>
  \<open>included = ceil(excluded * D / (D - num))\<close> is the least amount that leaves \<open>excluded\<close> after a fee of
  \<open>ceil(amount * num / D)\<close>, and it leaves exactly that.
\<close>

lemma included_fee_inverse:
  assumes inc: "dbcIncludedFeeAmount num ex = Inr i" and num: "0 \<le> num" "num < 1000000000" and ex: "0 \<le> ex"
  shows "if_included i - (if_included i * num + 999999999) div 1000000000 = ex"
    "ex \<le> if_included i" "if_fee i = if_included i - ex"
    "0 \<le> a \<Longrightarrow> a < if_included i \<Longrightarrow> a - (a * num + 999999999) div 1000000000 < ex"
proof -
  let ?D = "1000000000 :: int"
  define n where "n = if_included i"
  from inc have r: "mulDivU64 ex ?D (?D - num) True = Inr n" and f: "if_fee i = n - ex"
    by (auto simp: dbcIncludedFeeAmount_def n_def result_simps)
  have b: "ex * ?D \<le> n * (?D - num)" "(n - 1) * (?D - num) < ex * ?D"
    using mulDivU64.ceiling_bounds [OF ex _ _ r] num by simp_all
  have net: "a - (a * num + 999999999) div ?D = a * (?D - num) div ?D" for a :: int
  proof -
    have "(a * num + ?D - 1) div ?D = a - a * (?D - num) div ?D"
    proof (rule ceil_div_unique)
      have x: "(a * (?D - num) div ?D) * ?D \<le> a * (?D - num)"
        "a * (?D - num) < (a * (?D - num) div ?D + 1) * ?D" by (rule floor_div_bounds, simp)+
      define k where "k = a * (?D - num) div ?D"
      have e: "a * (?D - num) = a * ?D - a * num" by (simp add: right_diff_distrib)
      show "a * num \<le> (a - a * (?D - num) div ?D) * ?D" using x(1) unfolding k_def [symmetric] e
        by (simp add: algebra_simps)
      show "(a - a * (?D - num) div ?D - 1) * ?D < a * num" using x(2) unfolding k_def [symmetric] e
        by (simp add: algebra_simps)
    qed simp
    then show ?thesis by simp
  qed
  have "n * (?D - num) div ?D = ex"
  proof (rule floor_div_unique)
    show "ex * ?D \<le> n * (?D - num)" by (rule b)
    have "(n - 1) * (?D - num) = n * (?D - num) - (?D - num)" by (simp add: left_diff_distrib)
    with b(2) num(1) show "n * (?D - num) < (ex + 1) * ?D" by (simp add: distrib_right)
  qed simp
  then show "if_included i - (if_included i * num + 999999999) div ?D = ex" by (simp only: net flip: n_def)
  have "ex * (?D - num) \<le> ex * ?D" using ex num by (intro mult_left_mono) simp_all
  with b(1) have "ex * (?D - num) \<le> n * (?D - num)" by linarith
  with num show "ex \<le> if_included i" by (simp flip: n_def)
  show "if_fee i = if_included i - ex" by (simp add: f n_def)
  show "a - (a * num + 999999999) div ?D < ex" if a: "0 \<le> a" "a < if_included i"
  proof -
    have "a * (?D - num) \<le> (n - 1) * (?D - num)" using a num by (intro mult_right_mono) (simp_all add: n_def)
    with b(2) have "a * (?D - num) < ex * ?D" by linarith
    then have "\<not> ex \<le> a * (?D - num) div ?D" by (simp add: le_floor_div_iff)
    then show ?thesis by (simp only: net)
  qed
qed

lemma partner_creator_split:
  assumes "dbcSplitPartnerCreatorFee c fee = Inr s" "0 \<le> fee"
    "0 \<le> pc_creatorTradingFeePercentage c" "pc_creatorTradingFeePercentage c \<le> 100"
  shows "pcf_partnerFee s + pcf_creatorFee s = fee" "0 \<le> pcf_partnerFee s" "0 \<le> pcf_creatorFee s"
proof -
  let ?p = "pc_creatorTradingFeePercentage c"
  consider "s = \<lparr>pcf_partnerFee = fee, pcf_creatorFee = 0\<rparr>"
    | cf where "mulDivU64 fee ?p 100 False = Inr cf" "s = \<lparr>pcf_partnerFee = fee - cf, pcf_creatorFee = cf\<rparr>"
    using assms(1) by (auto simp: dbcSplitPartnerCreatorFee_def result_simps split: if_splits)
  then have "pcf_partnerFee s + pcf_creatorFee s = fee \<and> 0 \<le> pcf_partnerFee s \<and> 0 \<le> pcf_creatorFee s"
  proof cases
    case 2
    then show ?thesis
      using mulDivU64.nonneg [OF assms(2,3) _ 2(1)] mulDivU64.share_le [OF assms(2,3) _ assms(4) 2(1)] by simp
  qed (use assms in simp)
  then show "pcf_partnerFee s + pcf_creatorFee s = fee" "0 \<le> pcf_partnerFee s" "0 \<le> pcf_creatorFee s" by simp_all
qed

lemma trade_fee_numerator_bounds:
  assumes "dbcTradeFeeNumerator c p t m = Inr n" "0 \<le> bf_cliffFeeNumerator (pc_baseFee c)"
  shows "0 \<le> n" "n \<le> 990000000"
proof -
  from assms(1) obtain b where b: "dbcBaseFeeNumerator c p t m = Inr b" and n: "n = min b 990000000"
    by (auto simp: dbcTradeFeeNumerator_def result_simps min_def split: if_splits)
  have "0 \<le> v" if "byPeriod f x = Inr v" for f x v
    using that by (auto simp: byPeriod_def getFeeInPeriod_def Let_def split: if_splits option.splits)
  then have "0 \<le> b"
    using b assms(2) by (auto simp: dbcBaseFeeNumerator_def Let_def split: if_splits)
  with n show "0 \<le> n" "n \<le> 990000000" by simp_all
qed

section \<open>The configs a launch can have\<close>

definition live_points :: "dbc_pool_config \<Rightarrow> curve_point list" where
  "live_points c = takeWhile (\<lambda>p. \<not> zero_point p) (pc_curve c)"

definition wf_config :: "dbc_pool_config \<Rightarrow> bool" where
  "wf_config c \<longleftrightarrow>
     0 < pc_sqrtStartPrice c \<and> live_points c \<noteq> [] \<and>
     wf_curve (pc_sqrtStartPrice c) (live_points c) \<and>
     list_all zero_point (dropWhile (\<lambda>p. \<not> zero_point p) (pc_curve c)) \<and>
     pc_sqrtStartPrice c \<le> pc_migrationSqrtPrice c \<and>
     pc_migrationSqrtPrice c \<le> lastPrice (pc_sqrtStartPrice c) (live_points c) \<and>
     0 \<le> bf_cliffFeeNumerator (pc_baseFee c)"

abbreviation "cfgQuote c \<equiv> quotePotential (pc_sqrtStartPrice c) (live_points c)"
abbreviation "cfgBase c \<equiv> basePotential (pc_sqrtStartPrice c) (live_points c)"

lemma curve_split: "pc_curve c = live_points c @ dropWhile (\<lambda>p. \<not> zero_point p) (pc_curve c)"
  by (simp add: live_points_def)

section \<open>The walks as trades\<close>

lemma buy_in_bought:
  assumes "wf_config c" "pc_sqrtStartPrice c \<le> p" "0 \<le> a"
    and "dbcQuoteToBaseFromAmountIn c p a stop = Inr r"
  shows "bought (pc_sqrtStartPrice c) (live_points c) p (a - af_amountLeft r) (af_outputAmount r) (af_nextSqrtPrice r)"
    "0 \<le> af_amountLeft r" "af_nextSqrtPrice r \<le> max p stop"
proof -
  let ?zs = "dropWhile (\<lambda>p. \<not> zero_point p) (pc_curve c)"
  have "buyInLoop (live_points c @ ?zs) stop 0 p a = Inr r"
    using assms(4) by (simp add: dbcQuoteToBaseFromAmountIn_def flip: curve_split)
  from buyInLoop_bought [OF _ _ _ this, of "pc_sqrtStartPrice c" "live_points c" 0] assms
  show "bought (pc_sqrtStartPrice c) (live_points c) p (a - af_amountLeft r) (af_outputAmount r) (af_nextSqrtPrice r)"
    "0 \<le> af_amountLeft r" "af_nextSqrtPrice r \<le> max p stop"
    by (auto simp: wf_config_def price_at_def)
qed

lemma buy_out_bought:
  assumes "wf_config c" "pc_sqrtStartPrice c \<le> p" "0 \<le> a"
    and "dbcQuoteToBaseFromAmountOut c p a = Inr r"
  shows "bought (pc_sqrtStartPrice c) (live_points c) p (ao_amountIn r) a (ao_nextSqrtPrice r)"
proof -
  let ?zs = "dropWhile (\<lambda>p. \<not> zero_point p) (pc_curve c)"
  from assms(4) have "buyOutLoop (live_points c @ ?zs) 0 p a = Inr (0, ao_amountIn r, ao_nextSqrtPrice r)"
    by (auto simp: dbcQuoteToBaseFromAmountOut_def result_simps simp flip: curve_split split: if_splits)
  from buyOutLoop_bought [OF _ _ _ this, of "pc_sqrtStartPrice c" "live_points c" 0] assms
  show ?thesis by (auto simp: wf_config_def price_at_def)
qed

lemma first_segment:
  assumes wf: "wf_config c" and p: "pc_sqrtStartPrice c \<le> a" "a \<le> b" "b \<le> cp_sqrtPrice (live_points c ! 0)"
    and L: "first_liquidity (pc_curve c) = Inr L"
  shows "cfgQuote c b - cfgQuote c a = quote_diff L a b" "cfgBase c b - cfgBase c a = base_diff L a b" "0 < L"
proof -
  from wf have ne: "live_points c \<noteq> []" and w: "wf_curve (pc_sqrtStartPrice c) (live_points c)"
    by (simp_all add: wf_config_def)
  from ne have k: "0 < length (live_points c)" by simp
  have "L = cp_liquidity (live_points c ! 0)"
    using L ne by (cases "pc_curve c") (auto simp: first_liquidity_def live_points_def split: if_splits)
  with segment_diffs [OF w k _ p(2,3)] wf_curve_nth(2) [OF w k] p(1)
  show "cfgQuote c b - cfgQuote c a = quote_diff L a b" "cfgBase c b - cfgBase c a = base_diff L a b" "0 < L"
    by (simp_all add: price_at_def)
qed

lemma sell_start:
  assumes "wf_config c" "p \<le> lastPrice (pc_sqrtStartPrice c) (live_points c)"
  shows "length (pc_curve c) - 1 < length (pc_curve c)"
    "length (pc_curve c) - 1 < length (live_points c) \<longrightarrow> p \<le> cp_sqrtPrice (live_points c ! (length (pc_curve c) - 1))"
proof -
  have len: "length (live_points c) \<le> length (pc_curve c)" by (simp add: live_points_def length_takeWhile_le)
  have ne: "live_points c \<noteq> []" using assms by (simp add: wf_config_def)
  then have "0 < length (live_points c)" by simp
  with len show "length (pc_curve c) - 1 < length (pc_curve c)" by linarith
  show "length (pc_curve c) - 1 < length (live_points c) \<longrightarrow> p \<le> cp_sqrtPrice (live_points c ! (length (pc_curve c) - 1))"
  proof
    assume "length (pc_curve c) - 1 < length (live_points c)"
    with len have "length (pc_curve c) = length (live_points c)" by linarith
    with ne assms(2) show "p \<le> cp_sqrtPrice (live_points c ! (length (pc_curve c) - 1))"
      by (simp add: lastPrice_eq price_at_def)
  qed
qed

lemma sell_in_sold:
  assumes wf: "wf_config c" and p: "pc_sqrtStartPrice c \<le> p" "p \<le> lastPrice (pc_sqrtStartPrice c) (live_points c)"
    and a: "0 \<le> a" and r: "dbcBaseToQuoteFromAmountIn c p a = Inr r"
  shows "sold (pc_sqrtStartPrice c) (live_points c) p (a - af_amountLeft r) (af_outputAmount r) (af_nextSqrtPrice r)"
    "0 \<le> af_amountLeft r" "pc_sqrtStartPrice c \<le> af_nextSqrtPrice r"
proof -
  let ?s0 = "pc_sqrtStartPrice c" and ?pts = "live_points c"
  let ?zs = "dropWhile (\<lambda>p. \<not> zero_point p) (pc_curve c)"
  have w: "wf_curve ?s0 ?pts" "0 < ?s0" "list_all zero_point ?zs" "?pts \<noteq> []"
    using wf by (simp_all add: wf_config_def)
  from r obtain left acc cur where loop: "sellInLoop (pc_curve c) (length (pc_curve c) - 1) 0 p a = Inr (left, acc, cur)"
    by (auto simp: dbcBaseToQuoteFromAmountIn_def result_simps)
  have st: "sold ?s0 ?pts p (a - left) acc cur" "0 \<le> left" "?s0 \<le> cur" "left \<noteq> 0 \<longrightarrow> cur \<le> cp_sqrtPrice (?pts ! 0)"
    using sellInLoop_sold [OF w(1-3), of "length (pc_curve c) - 1" 0 p a left acc cur]
      loop sell_start [OF wf p(2)] p a w(4) by (simp_all flip: curve_split)
  have "sold ?s0 ?pts p (a - af_amountLeft r) (af_outputAmount r) (af_nextSqrtPrice r) \<and>
    0 \<le> af_amountLeft r \<and> ?s0 \<le> af_nextSqrtPrice r"
  proof (cases "left = 0")
    case True
    with r loop st show ?thesis by (auto simp: dbcBaseToQuoteFromAmountIn_def)
  next
    case False
    with r loop obtain L n0 n left' d where L: "first_liquidity (pc_curve c) = Inr L"
      and n0: "nextSqrtPriceFromBaseAmountInRoundingUp cur L left = Inr n0"
      and n: "(if n0 < ?s0
         then bindE (deltaBaseU64 ?s0 cur L True) (\<lambda>used.
              bindE (check (\<not> used > left) (DbcMathError ''MathOverflow'')) (\<lambda>_. Inr (?s0, left - used)))
         else Inr (n0, 0)) = Inr (n, left')"
      and d: "deltaQuoteU64 n cur L False = Inr d"
      and eq: "af_amountLeft r = left'" "af_outputAmount r = acc + d" "af_nextSqrtPrice r = n"
      by (auto simp: dbcBaseToQuoteFromAmountIn_def result_simps checkedAdd64_def)
    have cur: "cur \<le> cp_sqrtPrice (?pts ! 0)" "0 < cur" using st False w by simp_all
    note seg = first_segment [OF wf _ _ cur(1) L]
    have L0: "0 < L" using seg(3) [OF st(3) order_refl] .
    note step = sell_in_step [OF n0 L0 cur(2) st(2)]
    have "sold ?s0 ?pts cur (left - left') d n \<and> 0 \<le> left' \<and> ?s0 \<le> n"
    proof (cases "n0 < ?s0")
      case True
      with n obtain used where u: "deltaBaseU64 ?s0 cur L True = Inr used" "used \<le> left" "n = ?s0" "left' = left - used"
        by (auto simp: result_simps)
      have "0 < ?s0" "0 \<le> L" using w L0 by simp_all
      note up = deltaBaseU64_up [OF u(1) this]
      from d u have d': "deltaQuoteU64 ?s0 cur L False = Inr d" by simp
      show ?thesis
        using seg [OF order_refl st(3)] up deltaQuoteU64_down [OF d'] L0 u st by (simp add: sold_def)
    next
      case False
      with n have nn: "n = n0" "left' = 0" by simp_all
      with d have d': "deltaQuoteU64 n0 cur L False = Inr d" by simp
      show ?thesis
        using seg [OF _ step(2)] step deltaQuoteU64_down [OF d'] L0 nn False st by (simp add: sold_def)
    qed
    with sold_trans [OF st(1), of "left - left'" d n] show ?thesis by (auto simp: eq algebra_simps)
  qed
  then show "sold ?s0 ?pts p (a - af_amountLeft r) (af_outputAmount r) (af_nextSqrtPrice r)"
    "0 \<le> af_amountLeft r" "?s0 \<le> af_nextSqrtPrice r" by simp_all
qed

lemma sell_out_sold:
  assumes wf: "wf_config c" and p: "pc_sqrtStartPrice c \<le> p" "p \<le> lastPrice (pc_sqrtStartPrice c) (live_points c)"
    and a: "0 \<le> a" and r: "dbcBaseToQuoteFromAmountOut c p a = Inr r"
  shows "sold (pc_sqrtStartPrice c) (live_points c) p (ao_amountIn r) a (ao_nextSqrtPrice r)"
    "pc_sqrtStartPrice c \<le> ao_nextSqrtPrice r"
proof -
  let ?s0 = "pc_sqrtStartPrice c" and ?pts = "live_points c"
  let ?zs = "dropWhile (\<lambda>p. \<not> zero_point p) (pc_curve c)"
  have w: "wf_curve ?s0 ?pts" "0 < ?s0" "list_all zero_point ?zs" "?pts \<noteq> []"
    using wf by (simp_all add: wf_config_def)
  from r obtain left acc cur where loop: "sellOutLoop (pc_curve c) (length (pc_curve c) - 1) 0 p a = Inr (left, acc, cur)"
    by (auto simp: dbcBaseToQuoteFromAmountOut_def result_simps)
  have st: "sold ?s0 ?pts p acc (a - left) cur" "0 \<le> left" "?s0 \<le> cur" "left \<noteq> 0 \<longrightarrow> cur \<le> cp_sqrtPrice (?pts ! 0)"
    using sellOutLoop_sold [OF w(1-3), of "length (pc_curve c) - 1" 0 p a left acc cur]
      loop sell_start [OF wf p(2)] p a w(4) by (simp_all flip: curve_split)
  have "sold ?s0 ?pts p (ao_amountIn r) a (ao_nextSqrtPrice r) \<and> ?s0 \<le> ao_nextSqrtPrice r"
  proof (cases "left = 0")
    case True
    with r loop st show ?thesis by (auto simp: dbcBaseToQuoteFromAmountOut_def)
  next
    case False
    with r loop obtain L n d where L: "first_liquidity (pc_curve c) = Inr L"
      and n: "nextSqrtPriceFromQuoteAmountOutRoundingDown cur L left = Inr n" "?s0 \<le> n"
      and d: "deltaBaseU64 n cur L True = Inr d"
      and eq: "ao_amountIn r = acc + d" "ao_nextSqrtPrice r = n"
      by (auto simp: dbcBaseToQuoteFromAmountOut_def result_simps checkedAdd64_def not_less)
    have cur: "cur \<le> cp_sqrtPrice (?pts ! 0)" using st False by simp
    note seg = first_segment [OF wf _ _ cur L]
    have L0: "0 < L" using seg(3) [OF st(3) order_refl] .
    note step = sell_out_step [OF n(1) L0 st(2)]
    have n0: "0 < n" "0 \<le> L" using n w L0 by simp_all
    have "sold ?s0 ?pts cur d left n"
      using seg [OF n(2) step(2)] step deltaBaseU64_up [OF d n0] st by (simp add: sold_def)
    with sold_trans [OF st(1) this] n show ?thesis by (simp add: eq)
  qed
  then show "sold ?s0 ?pts p (ao_amountIn r) a (ao_nextSqrtPrice r)" "?s0 \<le> ao_nextSqrtPrice r" by simp_all
qed

text \<open>The trades of a config: an exact-in or an exact-out walk that returns.\<close>

definition dbc_buys :: "dbc_pool_config \<Rightarrow> trade_rel" where
  "dbc_buys c p paid taken p' \<longleftrightarrow>
     (\<exists>a r. 0 \<le> a \<and> dbcQuoteToBaseFromAmountIn c p a (pc_migrationSqrtPrice c) = Inr r \<and>
        paid = a - af_amountLeft r \<and> taken = af_outputAmount r \<and> p' = af_nextSqrtPrice r) \<or>
     (\<exists>r. 0 \<le> taken \<and> dbcQuoteToBaseFromAmountOut c p taken = Inr r \<and>
        ao_nextSqrtPrice r \<le> pc_migrationSqrtPrice c \<and> paid = ao_amountIn r \<and> p' = ao_nextSqrtPrice r)"

definition dbc_sells :: "dbc_pool_config \<Rightarrow> trade_rel" where
  "dbc_sells c p paid taken p' \<longleftrightarrow>
     (\<exists>a r. 0 \<le> a \<and> dbcBaseToQuoteFromAmountIn c p a = Inr r \<and>
        paid = a - af_amountLeft r \<and> taken = af_outputAmount r \<and> p' = af_nextSqrtPrice r) \<or>
     (\<exists>r. 0 \<le> taken \<and> dbcBaseToQuoteFromAmountOut c p taken = Inr r \<and>
        paid = ao_amountIn r \<and> p' = ao_nextSqrtPrice r)"

lemma dbc_buys_bought:
  assumes "wf_config c" "pc_sqrtStartPrice c \<le> p" "p \<le> pc_migrationSqrtPrice c" "dbc_buys c p paid taken p'"
  shows "bought (pc_sqrtStartPrice c) (live_points c) p paid taken p'" "p' \<le> pc_migrationSqrtPrice c"
  using assms(4) buy_in_bought [OF assms(1,2)] buy_out_bought [OF assms(1,2)] assms(3)
  unfolding dbc_buys_def by fastforce+

lemma dbc_sells_sold:
  assumes "wf_config c" "pc_sqrtStartPrice c \<le> p" "p \<le> pc_migrationSqrtPrice c" "dbc_sells c p paid taken p'"
  shows "sold (pc_sqrtStartPrice c) (live_points c) p paid taken p'" "pc_sqrtStartPrice c \<le> p'"
proof -
  have "p \<le> lastPrice (pc_sqrtStartPrice c) (live_points c)" using assms(1,3) by (simp add: wf_config_def)
  with assms(4) sell_in_sold [OF assms(1,2)] sell_out_sold [OF assms(1,2)]
  show "sold (pc_sqrtStartPrice c) (live_points c) p paid taken p'" "pc_sqrtStartPrice c \<le> p'"
    unfolding dbc_sells_def by blast+
qed

section \<open>The curve is a swap venue\<close>

text \<open>The type of well-formed configs, so that the interface holds for each of its values.\<close>

definition example_config :: dbc_pool_config where
  "example_config =
     \<lparr>pc_quoteMint = replicate 32 1, pc_feeClaimer = replicate 32 2, pc_leftoverReceiver = replicate 32 2,
      pc_baseFee = \<lparr>bf_cliffFeeNumerator = 10000000, bf_firstFactor = 0, bf_secondFactor = 0,
                    bf_thirdFactor = 0, bf_baseFeeMode = 0\<rparr>,
      pc_dynamicFee = \<lparr>df_initialized = 0, df_maxVolatilityAccumulator = 0, df_variableFeeControl = 0,
                       df_binStep = 0, df_filterPeriod = 0, df_decayPeriod = 0, df_reductionFactor = 0,
                       df_binStepU128 = 0\<rparr>,
      pc_collectFeeMode = 0, pc_migrationOption = 1, pc_activationType = 1, pc_tokenDecimal = 6,
      pc_version = 1, pc_tokenType = 0, pc_quoteTokenFlag = 1,
      pc_partnerPermanentLockedLiquidityPercentage = 100, pc_partnerLiquidityPercentage = 0,
      pc_creatorPermanentLockedLiquidityPercentage = 0, pc_creatorLiquidityPercentage = 0,
      pc_migrationFeeOption = 6, pc_fixedTokenSupplyFlag = 1, pc_creatorTradingFeePercentage = 0,
      pc_tokenUpdateAuthority = 1, pc_migrationFeePercentage = 40, pc_creatorMigrationFeePercentage = 0,
      pc_swapBaseAmount = 1000000, pc_migrationQuoteThreshold = 1000000,
      pc_migrationBaseThreshold = 1000000, pc_migrationSqrtPrice = 2 ^ 65,
      pc_preMigrationTokenSupply = 4000000, pc_postMigrationTokenSupply = 4000000,
      pc_migratedCollectFeeMode = 0, pc_migratedDynamicFee = 0, pc_migratedPoolFeeBps = 100,
      pc_enableFirstSwapWithMinFee = 0, pc_poolCreationFee = 0, pc_sqrtStartPrice = 2 ^ 64,
      pc_curve = [\<lparr>cp_sqrtPrice = 2 ^ 65, cp_liquidity = 1000000 * 2 ^ 64\<rparr>,
                  \<lparr>cp_sqrtPrice = 2 ^ 66, cp_liquidity = 2000000 * 2 ^ 64\<rparr>,
                  \<lparr>cp_sqrtPrice = 0, cp_liquidity = 0\<rparr>],
      pc_lockedVestingConfig = \<lparr>lv_amountPerPeriod = 0, lv_cliffDurationFromMigrationTime = 0,
                                lv_frequency = 0, lv_numberOfPeriod = 0, lv_cliffUnlockAmount = 0\<rparr>\<rparr>"

lemma wf_example_config: "wf_config example_config"
  by (simp add: wf_config_def live_points_def zero_point_def example_config_def bounds_defs)

typedef launch_curve = "{c. wf_config c}" morphisms curve_config Launch_curve
  using wf_example_config by auto

lemma wf_curve_config: "wf_config (curve_config x)"
  using curve_config [of x] by simp

lemma curve_config_cases: "wf_config c \<Longrightarrow> \<exists>x. c = curve_config x"
  using Launch_curve_inverse [of c] by (metis mem_Collect_eq)

interpretation dbc_venue: swap_venue
    "pc_sqrtStartPrice (curve_config x)" "pc_migrationSqrtPrice (curve_config x)"
    "cfgQuote (curve_config x)" "cfgBase (curve_config x)"
    "dbc_buys (curve_config x)" "dbc_sells (curve_config x)" for x
proof unfold_locales
  let ?c = "curve_config x"
  note wf = wf_curve_config [of x]
  have w: "wf_curve (pc_sqrtStartPrice ?c) (live_points ?c)" "0 < pc_sqrtStartPrice ?c"
    "pc_migrationSqrtPrice ?c \<le> lastPrice (pc_sqrtStartPrice ?c) (live_points ?c)"
    using wf by (simp_all add: wf_config_def)
  fix p p' :: int
  assume p: "pc_sqrtStartPrice ?c \<le> p"
  { assume "p < p'" "p' \<le> pc_migrationSqrtPrice ?c"
    with p w show "cfgQuote ?c p < cfgQuote ?c p'" "cfgBase ?c p < cfgBase ?c p'"
      by (simp_all add: quotePotential_strict basePotential_strict) }
  fix paid taken :: int
  assume hi: "p \<le> pc_migrationSqrtPrice ?c"
  { assume "dbc_buys ?c p paid taken p'"
    note b = dbc_buys_bought [OF wf p hi this]
    from b show "p \<le> p' \<and> p' \<le> pc_migrationSqrtPrice ?c" "cfgQuote ?c p' - cfgQuote ?c p \<le> of_int paid"
      "of_int taken \<le> cfgBase ?c p' - cfgBase ?c p" by (simp_all add: bought_def) }
  { assume "dbc_sells ?c p paid taken p'"
    note b = dbc_sells_sold [OF wf p hi this]
    from b show "pc_sqrtStartPrice ?c \<le> p' \<and> p' \<le> p" "cfgBase ?c p - cfgBase ?c p' \<le> of_int paid"
      "of_int taken \<le> cfgQuote ?c p - cfgQuote ?c p'" by (simp_all add: sold_def) }
qed

end
