(* ===== verification/DbcQuote.thy ===== *)
theory DbcQuote
  imports DbcTrades
begin

text \<open>
  \<open>quoteDbcSwap\<close> as a whole: in each mode and direction a returned quote is a trade of the curve with
  its fees on one side, conserves both tokens and keeps the price in the range of the curve. Pools that
  evolve by quoted swaps refine the abstract venue; reserves always cover the curve, a buy sold back
  never returns more than it cost, slippage limits are exact.
\<close>

section \<open>The amounts of a quote\<close>

definition dbc_trade :: "dbc_pool_config \<Rightarrow> trade_direction \<Rightarrow> trade_rel" where
  "dbc_trade c d = (case d of QuoteToBase \<Rightarrow> dbc_buys c | BaseToQuote \<Rightarrow> dbc_sells c)"

text \<open>What leaves the curve: the user's output, plus the fees when they are taken from it.\<close>

definition curve_output :: "bool \<Rightarrow> swap_amounts \<Rightarrow> int" where
  "curve_output fi a = (if fi then am_outputAmount a else am_outputAmount a + fees_total (am_fees a))"

definition amounts_ok :: "swap_params \<Rightarrow> bool \<Rightarrow> swap_amounts \<Rightarrow> bool" where
  "amounts_ok p fi a \<longleftrightarrow>
     fees_ok (am_fees a) \<and> 0 \<le> am_excludedFeeInputAmount a \<and> 0 \<le> am_outputAmount a \<and>
     am_includedFeeInputAmount a = am_excludedFeeInputAmount a + (if fi then fees_total (am_fees a) else 0) \<and>
     dbc_trade (sp_config p) (sp_direction p) (vp_sqrtPrice (sp_pool p))
       (am_excludedFeeInputAmount a) (curve_output fi a) (am_nextSqrtPrice a)"

definition pool_ok :: "dbc_pool_config \<Rightarrow> dbc_virtual_pool \<Rightarrow> bool" where
  "pool_ok c pool \<longleftrightarrow> wf_config c \<and> pc_sqrtStartPrice c \<le> vp_sqrtPrice pool \<and> vp_sqrtPrice pool \<le> pc_migrationSqrtPrice c"

lemma dbc_trade_nonneg:
  assumes "pool_ok c pool" "dbc_trade c d (vp_sqrtPrice pool) paid taken p'"
  shows "0 \<le> paid" "0 \<le> taken"
proof -
  have w: "wf_config c" "pc_sqrtStartPrice c \<le> vp_sqrtPrice pool" "vp_sqrtPrice pool \<le> pc_migrationSqrtPrice c"
    using assms(1) by (simp_all add: pool_ok_def)
  show "0 \<le> paid" "0 \<le> taken"
    using assms(2) dbc_buys_bought [OF w, of paid taken p'] dbc_sells_sold [OF w, of paid taken p']
    by (cases d; simp add: dbc_trade_def bought_def sold_def)+
qed

lemma swapIn_trade:
  assumes r: "swapIn p a = Inr r" and a: "0 \<le> a"
  shows "dbc_trade (sp_config p) (sp_direction p) (vp_sqrtPrice (sp_pool p))
    (a - af_amountLeft r) (af_outputAmount r) (af_nextSqrtPrice r)"
  using assms by (cases "sp_direction p") (auto simp: swapIn_def dbc_trade_def dbc_buys_def dbc_sells_def)

text \<open>A returned input-bounded computation, taken apart.\<close>

lemma quoteInput_InrE:
  assumes "quoteInput p fi num = Inr a"
  obtains in0 fees0 res actualIn included fees1 out fees where
    "(if fi then bindE (dbcFeeOnAmount num (sp_amount p) (sp_hasReferral p)) (\<lambda>f. Inr (fa_amount f, fees_of f))
      else Inr (sp_amount p, no_fees)) = Inr (in0, fees0)"
    "swapIn p in0 = Inr res"
    "(if sp_mode p = ExactIn
      then (if af_amountLeft res \<noteq> 0 then Inl (DbcMathError ''InsufficientLiquidity'')
            else Inr (in0, sp_amount p, fees0))
      else if af_amountLeft res \<noteq> 0
      then (let actualIn = in0 - af_amountLeft res
            in if fi
               then bindE (dbcIncludedFeeAmount num actualIn) (\<lambda>inc.
                    bindE (splitFees (if_fee inc) (sp_hasReferral p)) (\<lambda>s. Inr (actualIn, if_included inc, s)))
               else Inr (actualIn, actualIn, fees0))
      else Inr (in0, sp_amount p, fees0)) = Inr (actualIn, included, fees1)"
    "(if \<not> fi
      then bindE (dbcFeeOnAmount num (af_outputAmount res) (sp_hasReferral p)) (\<lambda>f. Inr (fa_amount f, fees_of f))
      else Inr (af_outputAmount res, fees1)) = Inr (out, fees)"
    "a = \<lparr>am_includedFeeInputAmount = included, am_excludedFeeInputAmount = actualIn,
          am_amountLeft = af_amountLeft res, am_outputAmount = out,
          am_nextSqrtPrice = af_nextSqrtPrice res, am_fees = fees\<rparr>"
  using assms unfolding quoteInput_def
  by (simp only: bindE_eq_Inr split_paired_Ex prod.case) (elim exE conjE, rule that, (assumption | simp)+)

lemma quoteInput_ok:
  assumes q: "quoteInput p fi num = Inr a" and ok: "pool_ok (sp_config p) (sp_pool p)"
    and num: "0 \<le> num" "num \<le> 990000000" and amt: "0 < sp_amount p"
    and mode: "sp_mode p = ExactIn \<or> sp_mode p = PartialFill"
  shows "amounts_ok p fi a"
proof -
  from q obtain in0 fees0 res actualIn included fees1 out fees where
    b0: "(if fi then bindE (dbcFeeOnAmount num (sp_amount p) (sp_hasReferral p)) (\<lambda>f. Inr (fa_amount f, fees_of f))
          else Inr (sp_amount p, no_fees)) = Inr (in0, fees0)"
    and res: "swapIn p in0 = Inr res"
    and b1: "(if sp_mode p = ExactIn
            then (if af_amountLeft res \<noteq> 0 then Inl (DbcMathError ''InsufficientLiquidity'')
                  else Inr (in0, sp_amount p, fees0))
            else if af_amountLeft res \<noteq> 0
            then (let actualIn = in0 - af_amountLeft res
                  in if fi
                     then bindE (dbcIncludedFeeAmount num actualIn) (\<lambda>inc.
                          bindE (splitFees (if_fee inc) (sp_hasReferral p)) (\<lambda>s.
                            Inr (actualIn, if_included inc, s)))
                     else Inr (actualIn, actualIn, fees0))
            else Inr (in0, sp_amount p, fees0)) = Inr (actualIn, included, fees1)"
    and b2: "(if \<not> fi
            then bindE (dbcFeeOnAmount num (af_outputAmount res) (sp_hasReferral p)) (\<lambda>f. Inr (fa_amount f, fees_of f))
            else Inr (af_outputAmount res, fees1)) = Inr (out, fees)"
    and eq: "a = \<lparr>am_includedFeeInputAmount = included, am_excludedFeeInputAmount = actualIn,
            am_amountLeft = af_amountLeft res, am_outputAmount = out,
            am_nextSqrtPrice = af_nextSqrtPrice res, am_fees = fees\<rparr>"
    by (rule quoteInput_InrE)
  have in0: "0 \<le> in0 \<and> in0 + fees_total fees0 = sp_amount p \<and> fees_ok fees0 \<and> (\<not> fi \<longrightarrow> fees0 = no_fees)"
    using b0 amt num dbcFeeOnAmount_conserves dbcFeeOnAmount_parts(1)
    by (auto simp: result_simps split: if_splits)
  note tr = swapIn_trade [OF res conjunct1 [OF in0]]
  note pos = dbc_trade_nonneg [OF ok tr]
  have mid: "actualIn = in0 - af_amountLeft res \<and> fees_ok fees1 \<and> included = actualIn + fees_total fees1 \<and>
    (\<not> fi \<longrightarrow> fees1 = no_fees)"
  proof (cases "af_amountLeft res = 0")
    case True
    with b1 in0 show ?thesis by (auto split: if_splits)
  next
    case False
    show ?thesis
    proof (cases fi)
      case True
      with b1 False obtain inc where i: "dbcIncludedFeeAmount num (in0 - af_amountLeft res) = Inr inc"
        and s: "splitFees (if_fee inc) (sp_hasReferral p) = Inr fees1"
        and e: "actualIn = in0 - af_amountLeft res" "included = if_included inc"
        by (auto simp: result_simps Let_def split: if_splits)
      have f: "0 \<le> if_fee inc" "if_included inc = actualIn + if_fee inc"
        using included_fee_inverse(2,3) [OF i] num pos(1) e by simp_all
      with splitFees_parts(1) [OF s f(1)] splitFees_total [OF s] e show ?thesis using True by simp
    next
      case nfi: False
      with b1 False in0 show ?thesis by (auto simp: Let_def split: if_splits)
    qed
  qed
  show ?thesis
  proof (cases fi)
    case True
    with b2 mid tr pos show ?thesis by (simp add: amounts_ok_def curve_output_def eq)
  next
    case False
    with b2 obtain f where f: "dbcFeeOnAmount num (af_outputAmount res) (sp_hasReferral p) = Inr f"
      and o1: "out = fa_amount f" "fees = fees_of f" by (auto simp: result_simps)
    from dbcFeeOnAmount_conserves [OF f] dbcFeeOnAmount_parts(1) [OF f num(1) pos(2)]
    show ?thesis using False mid tr pos in0 by (simp add: amounts_ok_def curve_output_def eq o1)
  qed
qed

lemma swapIn_left_nonneg:
  assumes "swapIn p a = Inr r" "pool_ok (sp_config p) (sp_pool p)" "0 \<le> a"
  shows "0 \<le> af_amountLeft r" "af_amountLeft r \<le> a"
proof -
  from assms(2) have ok: "wf_config (sp_config p)" "pc_sqrtStartPrice (sp_config p) \<le> vp_sqrtPrice (sp_pool p)"
    "vp_sqrtPrice (sp_pool p) \<le> pc_migrationSqrtPrice (sp_config p)" by (simp_all add: pool_ok_def)
  from ok have last: "vp_sqrtPrice (sp_pool p) \<le> lastPrice (pc_sqrtStartPrice (sp_config p)) (live_points (sp_config p))"
    by (simp add: wf_config_def)
  show "0 \<le> af_amountLeft r"
    using assms(1,3) ok last buy_in_bought(2) sell_in_sold(2) by (cases "sp_direction p") (auto simp: swapIn_def)
  show "af_amountLeft r \<le> a" using dbc_trade_nonneg(1) [OF assms(2) swapIn_trade [OF assms(1,3)]] by simp
qed

text \<open>An input-bounded quote takes at most the offered amount, an ExactIn quote takes all of it.\<close>

lemma quoteInput_within:
  assumes q: "quoteInput p fi num = Inr a" and ok: "pool_ok (sp_config p) (sp_pool p)"
    and num: "0 \<le> num" "num \<le> 990000000" and amt: "0 < sp_amount p"
  shows "am_includedFeeInputAmount a \<le> sp_amount p"
    "sp_mode p = ExactIn \<Longrightarrow> am_includedFeeInputAmount a = sp_amount p"
proof -
  from q show "sp_mode p = ExactIn \<Longrightarrow> am_includedFeeInputAmount a = sp_amount p"
    by (rule quoteInput_InrE) (auto split: if_splits)
  from q obtain in0 fees0 res actualIn included fees1 where
    b0: "(if fi then bindE (dbcFeeOnAmount num (sp_amount p) (sp_hasReferral p)) (\<lambda>f. Inr (fa_amount f, fees_of f))
          else Inr (sp_amount p, no_fees)) = Inr (in0, fees0)"
    and res: "swapIn p in0 = Inr res"
    and b1: "(if sp_mode p = ExactIn
            then (if af_amountLeft res \<noteq> 0 then Inl (DbcMathError ''InsufficientLiquidity'')
                  else Inr (in0, sp_amount p, fees0))
            else if af_amountLeft res \<noteq> 0
            then (let actualIn = in0 - af_amountLeft res
                  in if fi
                     then bindE (dbcIncludedFeeAmount num actualIn) (\<lambda>inc.
                          bindE (splitFees (if_fee inc) (sp_hasReferral p)) (\<lambda>s.
                            Inr (actualIn, if_included inc, s)))
                     else Inr (actualIn, actualIn, fees0))
            else Inr (in0, sp_amount p, fees0)) = Inr (actualIn, included, fees1)"
    and eq: "am_includedFeeInputAmount a = included"
    by (rule quoteInput_InrE) (rule that, (assumption | simp)+)
  have in0: "0 \<le> in0" "in0 \<le> sp_amount p"
    and net: "fi \<Longrightarrow> in0 = sp_amount p - (sp_amount p * num + 999999999) div 1000000000"
    using b0 amt num dbcFeeOnAmount_conserves fees_ok_total dbcFeeOnAmount_parts
    by (fastforce simp: result_simps split: if_splits)+
  note left = swapIn_left_nonneg [OF res ok in0(1)]
  show "am_includedFeeInputAmount a \<le> sp_amount p"
  proof (cases "fi \<and> sp_mode p \<noteq> ExactIn \<and> af_amountLeft res \<noteq> 0")
    case True
    with b1 obtain inc where i: "dbcIncludedFeeAmount num (in0 - af_amountLeft res) = Inr inc"
      and e: "included = if_included inc"
      by (auto simp: result_simps Let_def split: if_splits)
    show ?thesis
    proof (rule ccontr)
      assume "\<not> ?thesis"
      then have "sp_amount p < if_included inc" using e eq by simp
      with included_fee_inverse(4) [OF i, of "sp_amount p"] num left amt net True show False by simp
    qed
  qed (use b1 eq in0 left in \<open>auto simp: Let_def split: if_splits\<close>)
qed

lemma quoteOutput_ok:
  assumes q: "quoteOutput p fi num = Inr a" and ok: "pool_ok (sp_config p) (sp_pool p)"
    and num: "0 \<le> num" "num \<le> 990000000" and amt: "0 < sp_amount p"
  shows "amounts_ok p fi a"
proof -
  from q obtain gross fees0 res included fees where
    b0: "(if \<not> fi
            then bindE (dbcIncludedFeeAmount num (sp_amount p)) (\<lambda>inc.
                 bindE (splitFees (if_fee inc) (sp_hasReferral p)) (\<lambda>s. Inr (if_included inc, s)))
            else Inr (sp_amount p, no_fees)) = Inr (gross, fees0)"
    and res: "(case sp_direction p of
              BaseToQuote \<Rightarrow> dbcBaseToQuoteFromAmountOut (sp_config p) (vp_sqrtPrice (sp_pool p)) gross
            | QuoteToBase \<Rightarrow> dbcQuoteToBaseFromAmountOut (sp_config p) (vp_sqrtPrice (sp_pool p)) gross) = Inr res"
    and lim: "\<not> ao_nextSqrtPrice res > pc_migrationSqrtPrice (sp_config p)"
    and b1: "(if fi
            then bindE (dbcIncludedFeeAmount num (ao_amountIn res)) (\<lambda>inc.
                 bindE (splitFees (if_fee inc) (sp_hasReferral p)) (\<lambda>s. Inr (if_included inc, s)))
            else Inr (ao_amountIn res, fees0)) = Inr (included, fees)"
    and eq: "a = \<lparr>am_includedFeeInputAmount = included, am_excludedFeeInputAmount = ao_amountIn res,
            am_amountLeft = 0, am_outputAmount = sp_amount p,
            am_nextSqrtPrice = ao_nextSqrtPrice res, am_fees = fees\<rparr>"
    unfolding quoteOutput_def
    by (simp only: bindE_eq_Inr split_paired_Ex prod.case) (elim exE conjE, rule that, (assumption | simp)+)
  have inc: "0 \<le> ex \<Longrightarrow> dbcIncludedFeeAmount num ex = Inr i \<Longrightarrow> splitFees (if_fee i) h = Inr s \<Longrightarrow>
      if_included i = ex + fees_total s \<and> fees_ok s" for ex i h s
    using included_fee_inverse(2,3) [of num ex i] num splitFees_total [of "if_fee i" h s]
      splitFees_parts(1) [of "if_fee i" h s] by simp
  have g: "gross = sp_amount p + (if fi then 0 else fees_total fees0)" "fees_ok fees0"
    using b0 inc [of "sp_amount p"] amt by (auto simp: result_simps split: if_splits)
  have g0: "0 \<le> gross" using g fees_ok_total [OF g(2)] amt by simp
  have tr: "dbc_trade (sp_config p) (sp_direction p) (vp_sqrtPrice (sp_pool p)) (ao_amountIn res) gross (ao_nextSqrtPrice res)"
    using res lim g0 by (cases "sp_direction p") (auto simp: dbc_trade_def dbc_buys_def dbc_sells_def)
  note pos = dbc_trade_nonneg [OF ok tr]
  have "included = ao_amountIn res + (if fi then fees_total fees else 0) \<and> fees_ok fees \<and> (\<not> fi \<longrightarrow> fees = fees0)"
    using b1 inc [OF pos(1)] g by (auto simp: result_simps split: if_splits)
  with g tr pos amt show ?thesis by (cases fi) (simp_all add: amounts_ok_def curve_output_def eq)
qed

lemma swapAmounts_ok:
  assumes "swapAmounts p fi num = Inr a" "pool_ok (sp_config p) (sp_pool p)"
    "0 \<le> num" "num \<le> 990000000" "0 < sp_amount p"
  shows "amounts_ok p fi a"
  using assms quoteInput_ok quoteOutput_ok by (auto simp: swapAmounts_def split: if_splits)

section \<open>The quote\<close>

definition quote_fees :: "swap_quote \<Rightarrow> fee_parts" where
  "quote_fees q = \<lparr>fp_tradingFee = sq_tradingFee q, fp_protocolFee = sq_protocolFee q, fp_referralFee = sq_referralFee q\<rparr>"

text \<open>What the curve gives out for a quote.\<close>

definition quote_output :: "swap_quote \<Rightarrow> int" where
  "quote_output q = (if sq_feesOnInput q then sq_outputAmount q else sq_outputAmount q + fees_total (quote_fees q))"

text \<open>The pool after the swap, as \<open>apply_swap_result\<close> updates price and reserves.\<close>

definition apply_quote :: "dbc_virtual_pool \<Rightarrow> swap_quote \<Rightarrow> dbc_virtual_pool" where
  "apply_quote pool q =
     pool\<lparr>vp_sqrtPrice := sq_nextSqrtPrice q, vp_quoteReserve := sq_quoteReserveAfter q,
          vp_baseReserve := sq_baseReserveAfter q\<rparr>"

text \<open>A returned quote, taken apart: the checks it passed and where its fields come from.\<close>

lemma quoteDbcSwap_InrE:
  assumes "quoteDbcSwap p = Inr q"
  obtains fm num a s where
    "0 < sp_amount p" "sp_amount p \<le> U64_MAX"
    "vp_quoteReserve (sp_pool p) < pc_migrationQuoteThreshold (sp_config p)"
    "dbcFeeMode (pc_collectFeeMode (sp_config p)) (sp_direction p) = Inr fm"
    "dbcTradeFeeNumerator (sp_config p) (sp_pool p) (sp_currentPoint p) (sp_eligibleForFirstSwapWithMinFee p) = Inr num"
    "swapAmounts p (fm_feesOnInput fm) num = Inr a"
    "dbcSplitPartnerCreatorFee (sp_config p) (sq_tradingFee q) = Inr s"
    "quote_fees q = am_fees a" "sq_feesOnInput q = fm_feesOnInput fm" "sq_tradeFeeNumerator q = num"
    "sq_includedFeeInputAmount q = am_includedFeeInputAmount a"
    "sq_excludedFeeInputAmount q = am_excludedFeeInputAmount a"
    "sq_outputAmount q = am_outputAmount a" "sq_nextSqrtPrice q = am_nextSqrtPrice a"
    "sq_partnerFee q = pcf_partnerFee s" "sq_creatorFee q = pcf_creatorFee s"
    "0 \<le> sq_quoteReserveAfter q" "0 \<le> sq_baseReserveAfter q"
    "(sq_quoteReserveAfter q, sq_baseReserveAfter q) =
       (case sp_direction p of
          BaseToQuote \<Rightarrow> (vp_quoteReserve (sp_pool p) - quote_output q,
                          vp_baseReserve (sp_pool p) + sq_excludedFeeInputAmount q)
        | QuoteToBase \<Rightarrow> (vp_quoteReserve (sp_pool p) + sq_excludedFeeInputAmount q,
                          vp_baseReserve (sp_pool p) - quote_output q))"
    "sq_completesCurve q = (sq_quoteReserveAfter q \<ge> pc_migrationQuoteThreshold (sp_config p))"
  using assms
  by (cases "sp_direction p")
    (auto simp: quoteDbcSwap_def Let_def result_simps quote_fees_def quote_output_def fees_total_def not_le not_less
      intro!: that)

text \<open>The one lemma every statement about a quote starts from.\<close>

lemma quote_is_trade:
  assumes q: "quoteDbcSwap p = Inr q" and ok: "pool_ok (sp_config p) (sp_pool p)"
  shows "fees_ok (quote_fees q)" "0 \<le> sq_excludedFeeInputAmount q" "0 \<le> sq_outputAmount q"
    "sq_includedFeeInputAmount q =
       sq_excludedFeeInputAmount q + (if sq_feesOnInput q then fees_total (quote_fees q) else 0)"
    "dbc_trade (sp_config p) (sp_direction p) (vp_sqrtPrice (sp_pool p))
       (sq_excludedFeeInputAmount q) (quote_output q) (sq_nextSqrtPrice q)"
proof -
  from q obtain fm :: fee_mode and num a where pos: "0 < sp_amount p"
    and num: "dbcTradeFeeNumerator (sp_config p) (sp_pool p) (sp_currentPoint p) (sp_eligibleForFirstSwapWithMinFee p) = Inr num"
    and a: "swapAmounts p (fm_feesOnInput fm) num = Inr a"
    and eq: "quote_fees q = am_fees a" "sq_feesOnInput q = fm_feesOnInput fm"
      "sq_includedFeeInputAmount q = am_includedFeeInputAmount a"
      "sq_excludedFeeInputAmount q = am_excludedFeeInputAmount a"
      "sq_outputAmount q = am_outputAmount a" "sq_nextSqrtPrice q = am_nextSqrtPrice a"
    by (rule quoteDbcSwap_InrE) (rule that, assumption+)
  have "0 \<le> bf_cliffFeeNumerator (pc_baseFee (sp_config p))" using ok by (simp add: pool_ok_def wf_config_def)
  note nb = trade_fee_numerator_bounds [OF num this]
  have out: "quote_output q = curve_output (fm_feesOnInput fm) a"
    by (simp add: quote_output_def curve_output_def eq)
  from swapAmounts_ok [OF a ok nb pos]
  show "fees_ok (quote_fees q)" "0 \<le> sq_excludedFeeInputAmount q" "0 \<le> sq_outputAmount q"
    "sq_includedFeeInputAmount q =
       sq_excludedFeeInputAmount q + (if sq_feesOnInput q then fees_total (quote_fees q) else 0)"
    "dbc_trade (sp_config p) (sp_direction p) (vp_sqrtPrice (sp_pool p))
       (sq_excludedFeeInputAmount q) (quote_output q) (sq_nextSqrtPrice q)"
    by (simp_all add: amounts_ok_def eq out)
qed

lemma quote_within_amount:
  assumes q: "quoteDbcSwap p = Inr q" and ok: "pool_ok (sp_config p) (sp_pool p)"
    and mode: "sp_mode p = ExactIn \<or> sp_mode p = PartialFill"
  shows "sq_includedFeeInputAmount q \<le> sp_amount p"
    "sp_mode p = ExactIn \<Longrightarrow> sq_includedFeeInputAmount q = sp_amount p"
proof -
  from q obtain fm :: fee_mode and num a where pos: "0 < sp_amount p"
    and num: "dbcTradeFeeNumerator (sp_config p) (sp_pool p) (sp_currentPoint p) (sp_eligibleForFirstSwapWithMinFee p) = Inr num"
    and a: "swapAmounts p (fm_feesOnInput fm) num = Inr a"
    and eq: "sq_includedFeeInputAmount q = am_includedFeeInputAmount a"
    by (rule quoteDbcSwap_InrE) (rule that, assumption+)
  have "0 \<le> bf_cliffFeeNumerator (pc_baseFee (sp_config p))" using ok by (simp add: pool_ok_def wf_config_def)
  note nb = trade_fee_numerator_bounds [OF num this]
  from a mode have "quoteInput p (fm_feesOnInput fm) num = Inr a" by (simp add: swapAmounts_def)
  note w = quoteInput_within [OF this ok nb pos]
  show "sq_includedFeeInputAmount q \<le> sp_amount p" using w(1) by (simp add: eq)
  show "sp_mode p = ExactIn \<Longrightarrow> sq_includedFeeInputAmount q = sp_amount p" using w(2) by (simp add: eq)
qed

lemma quote_output_ge: "fees_ok (quote_fees q) \<Longrightarrow> sq_outputAmount q \<le> quote_output q"
  using fees_ok_total by (simp add: quote_output_def)

lemma quote_price_range:
  assumes q: "quoteDbcSwap p = Inr q" and ok: "pool_ok (sp_config p) (sp_pool p)"
  shows "pc_sqrtStartPrice (sp_config p) \<le> sq_nextSqrtPrice q"
    "sq_nextSqrtPrice q \<le> pc_migrationSqrtPrice (sp_config p)"
    "sp_direction p = QuoteToBase \<Longrightarrow> vp_sqrtPrice (sp_pool p) \<le> sq_nextSqrtPrice q"
    "sp_direction p = BaseToQuote \<Longrightarrow> sq_nextSqrtPrice q \<le> vp_sqrtPrice (sp_pool p)"
proof -
  have w: "wf_config (sp_config p)" "pc_sqrtStartPrice (sp_config p) \<le> vp_sqrtPrice (sp_pool p)"
    "vp_sqrtPrice (sp_pool p) \<le> pc_migrationSqrtPrice (sp_config p)" using ok by (simp_all add: pool_ok_def)
  note tr = quote_is_trade(5) [OF q ok]
  show "pc_sqrtStartPrice (sp_config p) \<le> sq_nextSqrtPrice q"
    "sq_nextSqrtPrice q \<le> pc_migrationSqrtPrice (sp_config p)"
    "sp_direction p = QuoteToBase \<Longrightarrow> vp_sqrtPrice (sp_pool p) \<le> sq_nextSqrtPrice q"
    "sp_direction p = BaseToQuote \<Longrightarrow> sq_nextSqrtPrice q \<le> vp_sqrtPrice (sp_pool p)"
    using tr w dbc_buys_bought [OF w, of "sq_excludedFeeInputAmount q" "quote_output q" "sq_nextSqrtPrice q"]
      dbc_sells_sold [OF w, of "sq_excludedFeeInputAmount q" "quote_output q" "sq_nextSqrtPrice q"]
    by (cases "sp_direction p"; simp add: dbc_trade_def bought_def sold_def)+
qed

section \<open>Pools that change by quoted swaps\<close>

definition venue_of :: "dbc_virtual_pool \<Rightarrow> venue_state" where
  "venue_of pool = \<lparr>vs_price = vp_sqrtPrice pool, vs_quote = vp_quoteReserve pool, vs_base = vp_baseReserve pool\<rparr>"

inductive pool_swap :: "dbc_pool_config \<Rightarrow> dbc_virtual_pool \<Rightarrow> dbc_virtual_pool \<Rightarrow> bool" for c where
  swap: "sp_config p = c \<Longrightarrow> sp_pool p = pool \<Longrightarrow> quoteDbcSwap p = Inr q \<Longrightarrow> pool_swap c pool (apply_quote pool q)"

inductive pool_reaches :: "dbc_pool_config \<Rightarrow> dbc_virtual_pool \<Rightarrow> dbc_virtual_pool \<Rightarrow> bool" for c pool where
  start: "pool_reaches c pool pool"
| step: "pool_reaches c pool pool' \<Longrightarrow> pool_swap c pool' pool'' \<Longrightarrow> pool_reaches c pool pool''"

inductive_cases pool_swapE: "pool_swap c pool pool'"

text \<open>Each swap is one step of the abstract venue.\<close>

lemma pool_swap_refines:
  assumes "pool_swap c pool pool'" "pool_ok c pool"
  shows "venue_step (dbc_buys c) (dbc_sells c) (venue_of pool) (venue_of pool')" "pool_ok c pool'"
proof -
  from assms(1) obtain p q where p: "sp_config p = c" "sp_pool p = pool" and q: "quoteDbcSwap p = Inr q"
    and pool': "pool' = apply_quote pool q" by (blast elim: pool_swapE)
  have ok: "pool_ok (sp_config p) (sp_pool p)" using assms(2) p by simp
  note tr = quote_is_trade(5) [OF q ok, unfolded p]
  from q have res: "(sq_quoteReserveAfter q, sq_baseReserveAfter q) =
       (case sp_direction p of
          BaseToQuote \<Rightarrow> (vp_quoteReserve pool - quote_output q, vp_baseReserve pool + sq_excludedFeeInputAmount q)
        | QuoteToBase \<Rightarrow> (vp_quoteReserve pool + sq_excludedFeeInputAmount q, vp_baseReserve pool - quote_output q))"
    unfolding p [symmetric] by (rule quoteDbcSwap_InrE)
  show "venue_step (dbc_buys c) (dbc_sells c) (venue_of pool) (venue_of pool')"
  proof (cases "sp_direction p")
    case QuoteToBase
    with tr have "dbc_buys c (vs_price (venue_of pool)) (sq_excludedFeeInputAmount q) (quote_output q) (sq_nextSqrtPrice q)"
      by (simp add: dbc_trade_def venue_of_def)
    from venue_step.buy [of "dbc_buys c" "venue_of pool", OF this, of "dbc_sells c"] show ?thesis
      using res QuoteToBase by (simp add: venue_of_def pool' apply_quote_def)
  next
    case BaseToQuote
    with tr have "dbc_sells c (vs_price (venue_of pool)) (sq_excludedFeeInputAmount q) (quote_output q) (sq_nextSqrtPrice q)"
      by (simp add: dbc_trade_def venue_of_def)
    from venue_step.sell [of "dbc_sells c" "venue_of pool", OF this, of "dbc_buys c"] show ?thesis
      using res BaseToQuote by (simp add: venue_of_def pool' apply_quote_def)
  qed
  show "pool_ok c pool'"
    using assms(2) quote_price_range(1,2) [OF q ok] by (simp add: pool_ok_def pool' apply_quote_def p)
qed

lemma pool_reaches_refines:
  assumes "pool_reaches c pool pool'" "pool_ok c pool"
  shows "venue_reaches (dbc_buys c) (dbc_sells c) (venue_of pool) (venue_of pool')" "pool_ok c pool'"
proof -
  have "venue_reaches (dbc_buys c) (dbc_sells c) (venue_of pool) (venue_of pool') \<and> pool_ok c pool'"
    using assms
  proof (induction rule: pool_reaches.induct)
    case (step pool' pool'')
    then show ?case using pool_swap_refines by (blast intro: venue_reaches.step)
  qed (simp add: venue_reaches.start)
  then show "venue_reaches (dbc_buys c) (dbc_sells c) (venue_of pool) (venue_of pool')" "pool_ok c pool'" by simp_all
qed

lemma pool_reserves_cover:
  assumes "pool_reaches c pool pool'" "pool_ok c pool" "cfgQuote c (vp_sqrtPrice pool) \<le> of_int (vp_quoteReserve pool)"
  shows "cfgQuote c (vp_sqrtPrice pool') \<le> of_int (vp_quoteReserve pool')" "0 \<le> vp_quoteReserve pool'"
proof -
  from assms(2) have wf: "wf_config c" by (simp add: pool_ok_def)
  then obtain x where x: "c = curve_config x" using curve_config_cases by blast
  have start: "cfgQuote c (pc_sqrtStartPrice c) = 0" using wf by (simp add: wf_config_def)
  note cover = dbc_venue.reserves_cover [of x, folded x, OF pool_reaches_refines(1) [OF assms(1,2)]]
  show "cfgQuote c (vp_sqrtPrice pool') \<le> of_int (vp_quoteReserve pool')" "0 \<le> vp_quoteReserve pool'"
    using cover assms(2,3) start by (simp_all add: venue_of_def pool_ok_def)
qed

section \<open>A concrete pool\<close>

definition example_virtual_pool :: dbc_virtual_pool where
  "example_virtual_pool =
     \<lparr>vp_volatilityTracker = \<lparr>vt_lastUpdateTimestamp = 0, vt_sqrtPriceReference = 0,
        vt_volatilityAccumulator = 0, vt_volatilityReference = 0\<rparr>,
      vp_config = replicate 32 5, vp_creator = replicate 32 6, vp_baseMint = replicate 32 7,
      vp_baseVault = replicate 32 8, vp_quoteVault = replicate 32 9,
      vp_baseReserve = 2000000, vp_quoteReserve = 0, vp_protocolBaseFee = 0, vp_protocolQuoteFee = 0,
      vp_partnerBaseFee = 0, vp_partnerQuoteFee = 0, vp_sqrtPrice = 2 ^ 64, vp_activationPoint = 0,
      vp_poolType = 0, vp_isMigrated = 0, vp_isPartnerWithdrawSurplus = 0, vp_isProtocolWithdrawSurplus = 0,
      vp_migrationProgress = 0, vp_isWithdrawLeftover = 0, vp_isCreatorWithdrawSurplus = 0,
      vp_migrationFeeWithdrawStatus = 0, vp_finishCurveTimestamp = 0, vp_creatorBaseFee = 0,
      vp_creatorQuoteFee = 0, vp_hasSwap = 0, vp_protocolMigrationBaseFeeAmount = 0,
      vp_protocolMigrationQuoteFeeAmount = 0\<rparr>"

definition example_swap :: "trade_direction \<Rightarrow> dbc_virtual_pool \<Rightarrow> int \<Rightarrow> swap_params" where
  "example_swap d pool a =
     \<lparr>sp_config = example_config, sp_pool = pool, sp_direction = d, sp_mode = ExactIn, sp_amount = a,
      sp_currentPoint = 10, sp_hasReferral = False, sp_eligibleForFirstSwapWithMinFee = False\<rparr>"

definition example_buy :: swap_params where
  "example_buy = example_swap QuoteToBase example_virtual_pool 10000"

definition example_buy_quote :: swap_quote where
  "example_buy_quote = (case quoteDbcSwap example_buy of Inr q \<Rightarrow> q)"

definition example_sell :: swap_params where
  "example_sell = example_swap BaseToQuote (apply_quote example_virtual_pool example_buy_quote) 9802"

definition example_sell_quote :: swap_quote where
  "example_sell_quote = (case quoteDbcSwap example_sell of Inr q \<Rightarrow> q)"

lemma example_buy_returns: "quoteDbcSwap example_buy = Inr example_buy_quote"
  by code_simp

lemma example_sell_returns: "quoteDbcSwap example_sell = Inr example_sell_quote"
  by code_simp

lemma example_fields [simp]:
  "sp_config example_buy = example_config" "sp_pool example_buy = example_virtual_pool"
  "sp_direction example_buy = QuoteToBase"
  "sp_config example_sell = example_config" "sp_direction example_sell = BaseToQuote"
  "sp_pool example_sell = apply_quote example_virtual_pool example_buy_quote"
  by (simp_all add: example_buy_def example_sell_def example_swap_def)

lemma pool_ok_example: "pool_ok example_config example_virtual_pool"
  by (simp add: pool_ok_def wf_example_config) (simp add: example_config_def example_virtual_pool_def)

lemma example_run: "pool_reaches example_config example_virtual_pool
    (apply_quote (apply_quote example_virtual_pool example_buy_quote) example_sell_quote)"
proof -
  have "pool_swap example_config example_virtual_pool (apply_quote example_virtual_pool example_buy_quote)"
    by (rule pool_swap.swap [OF _ _ example_buy_returns]) simp_all
  moreover have "pool_swap example_config (apply_quote example_virtual_pool example_buy_quote)
      (apply_quote (apply_quote example_virtual_pool example_buy_quote) example_sell_quote)"
    by (rule pool_swap.swap [OF _ _ example_sell_returns]) simp_all
  ultimately show ?thesis
    by (rule pool_reaches.step [OF pool_reaches.step [OF pool_reaches.start]])
qed

section \<open>Properties of DBC quotes\<close>

text \<open>
  C1: a buy quoted on a well-formed curve and sold back at once, in whatever modes, returns at most what
  the buyer paid: however the roundings and fees fall, nobody profits from the curve by turning around.
\<close>

theorem dbc_round_trip_no_profit:
  assumes buy: "quoteDbcSwap p1 = Inr q1" "sp_direction p1 = QuoteToBase"
    and sell: "quoteDbcSwap p2 = Inr q2" "sp_direction p2 = BaseToQuote"
    and ok: "pool_ok (sp_config p1) (sp_pool p1)"
    and same: "sp_config p2 = sp_config p1" "sp_pool p2 = apply_quote (sp_pool p1) q1"
    and amount: "sq_excludedFeeInputAmount q2 \<le> sq_outputAmount q1"
  shows "sq_outputAmount q2 \<le> sq_includedFeeInputAmount q1"
proof -
  let ?c = "sp_config p1"
  obtain x where x: "?c = curve_config x" using ok curve_config_cases by (auto simp: pool_ok_def)
  have ok2: "pool_ok (sp_config p2) (sp_pool p2)"
    using pool_swap_refines(2) [OF pool_swap.swap [OF refl refl buy(1)] ok] by (simp add: same)
  note t1 = quote_is_trade [OF buy(1) ok] and t2 = quote_is_trade [OF sell(1) ok2]
  have b: "dbc_buys ?c (vp_sqrtPrice (sp_pool p1)) (sq_excludedFeeInputAmount q1) (quote_output q1) (sq_nextSqrtPrice q1)"
    using t1(5) buy(2) by (simp add: dbc_trade_def)
  have s: "dbc_sells ?c (sq_nextSqrtPrice q1) (sq_excludedFeeInputAmount q2) (quote_output q2) (sq_nextSqrtPrice q2)"
    using t2(5) sell(2) same by (simp add: dbc_trade_def apply_quote_def)
  have "sq_excludedFeeInputAmount q2 \<le> quote_output q1" using amount quote_output_ge [OF t1(1)] by simp
  then have "quote_output q2 \<le> sq_excludedFeeInputAmount q1"
    using dbc_venue.buy_then_sell [of x, folded x, OF _ _ b s] ok by (simp add: pool_ok_def)
  with quote_output_ge [OF t2(1)] t1(4) fees_ok_total [OF t1(1)] show ?thesis by (simp split: if_splits)
qed

lemma dbc_round_trip_no_profit_witness:
  "sq_outputAmount example_sell_quote \<le> sq_includedFeeInputAmount example_buy_quote"
proof -
  have "sq_excludedFeeInputAmount example_sell_quote \<le> sq_outputAmount example_buy_quote" by code_simp
  then show ?thesis
    by (intro dbc_round_trip_no_profit [OF example_buy_returns _ example_sell_returns])
      (simp_all add: pool_ok_example)
qed

text \<open>
  C2: from a pool whose quote reserve covers its curve, every pool reached by any sequence of quoted
  buys and sells (all modes, any fees) still covers it: the reserve is at least the exact value of the
  curve up to the current price, so it is never negative and every sell can be paid.
\<close>

theorem dbc_reserves_always_cover:
  assumes "pool_reaches c pool pool'" "pool_ok c pool" "cfgQuote c (vp_sqrtPrice pool) \<le> of_int (vp_quoteReserve pool)"
  shows "cfgQuote c (vp_sqrtPrice pool') \<le> of_int (vp_quoteReserve pool') \<and> 0 \<le> vp_quoteReserve pool'"
  using pool_reserves_cover [OF assms] by simp

lemma dbc_reserves_always_cover_witness:
  "0 \<le> vp_quoteReserve (apply_quote (apply_quote example_virtual_pool example_buy_quote) example_sell_quote)"
proof -
  have "cfgQuote example_config (vp_sqrtPrice example_virtual_pool) \<le> of_int (vp_quoteReserve example_virtual_pool)"
    using wf_example_config
    by (simp add: example_virtual_pool_def wf_config_def quotePotential_start
        [of "pc_sqrtStartPrice example_config" "live_points example_config", unfolded example_config_def, simplified]
        example_config_def)
  from dbc_reserves_always_cover [OF example_run pool_ok_example this] show ?thesis by simp
qed

text \<open>
  C3: the detailed quotes refine the abstract venue: any run of quoted swaps on a pool is, seen through
  price and reserves, a run of the abstract buys and sells of its curve, and keeps the price in range.
\<close>

theorem dbc_pool_refines_venue:
  assumes "pool_reaches c pool pool'" "pool_ok c pool"
  shows "venue_reaches (dbc_buys c) (dbc_sells c) (venue_of pool) (venue_of pool') \<and> pool_ok c pool'"
  using pool_reaches_refines [OF assms] by simp

lemma dbc_pool_refines_venue_witness:
  "pool_ok example_config (apply_quote (apply_quote example_virtual_pool example_buy_quote) example_sell_quote)"
  using dbc_pool_refines_venue [OF example_run pool_ok_example] by simp

text \<open>
  C36: a quote conserves both tokens. What the payer transfers is what the reserve gains plus the fees
  taken from the input; what leaves the other reserve is what the user receives plus the fees taken from
  the output; every fee is non-negative, partner and creator share exactly the trading fee, and the
  completion flag is the threshold test on the new reserve.
\<close>

theorem dbc_quote_conserves:
  assumes q: "quoteDbcSwap p = Inr q" and ok: "pool_ok (sp_config p) (sp_pool p)"
    and pct: "0 \<le> pc_creatorTradingFeePercentage (sp_config p)" "pc_creatorTradingFeePercentage (sp_config p) \<le> 100"
  shows "(let fees = sq_tradingFee q + sq_protocolFee q + sq_referralFee q;
        feesIn = (if sq_feesOnInput q then fees else 0); feesOut = fees - feesIn;
        dQuote = sq_quoteReserveAfter q - vp_quoteReserve (sp_pool p);
        dBase = sq_baseReserveAfter q - vp_baseReserve (sp_pool p);
        (gain, loss) = (case sp_direction p of QuoteToBase \<Rightarrow> (dQuote, - dBase) | BaseToQuote \<Rightarrow> (dBase, - dQuote))
      in sq_includedFeeInputAmount q = gain + feesIn \<and> loss = sq_outputAmount q + feesOut \<and>
         0 \<le> sq_tradingFee q \<and> 0 \<le> sq_protocolFee q \<and> 0 \<le> sq_referralFee q \<and>
         sq_partnerFee q + sq_creatorFee q = sq_tradingFee q \<and> 0 \<le> sq_partnerFee q \<and> 0 \<le> sq_creatorFee q \<and>
         sq_completesCurve q = (sq_quoteReserveAfter q \<ge> pc_migrationQuoteThreshold (sp_config p)))"
proof -
  note t = quote_is_trade [OF q ok]
  from q obtain s :: partner_creator_fee where s: "dbcSplitPartnerCreatorFee (sp_config p) (sq_tradingFee q) = Inr s"
    and eq: "sq_partnerFee q = pcf_partnerFee s" "sq_creatorFee q = pcf_creatorFee s"
    and res: "(sq_quoteReserveAfter q, sq_baseReserveAfter q) =
       (case sp_direction p of
          BaseToQuote \<Rightarrow> (vp_quoteReserve (sp_pool p) - quote_output q,
                          vp_baseReserve (sp_pool p) + sq_excludedFeeInputAmount q)
        | QuoteToBase \<Rightarrow> (vp_quoteReserve (sp_pool p) + sq_excludedFeeInputAmount q,
                          vp_baseReserve (sp_pool p) - quote_output q))"
    and cc: "sq_completesCurve q = (sq_quoteReserveAfter q \<ge> pc_migrationQuoteThreshold (sp_config p))"
    by (rule quoteDbcSwap_InrE) (rule that, assumption+)
  have f: "0 \<le> sq_tradingFee q \<and> 0 \<le> sq_protocolFee q \<and> 0 \<le> sq_referralFee q"
    and ft: "fees_total (quote_fees q) = sq_tradingFee q + sq_protocolFee q + sq_referralFee q"
    using t(1) by (simp_all add: fees_ok_def quote_fees_def fees_total_def)
  note sp = partner_creator_split [OF s _ pct]
  show ?thesis
    using t(4) res f cc sp ft
    by (cases "sp_direction p"; cases "sq_feesOnInput q") (simp_all add: Let_def eq quote_output_def)
qed

lemma dbc_quote_conserves_witness:
  "sq_partnerFee example_buy_quote + sq_creatorFee example_buy_quote = sq_tradingFee example_buy_quote \<and>
   sq_includedFeeInputAmount example_buy_quote = 10000 \<and> sq_quoteReserveAfter example_buy_quote = 9900"
proof -
  have "pc_creatorTradingFeePercentage example_config = 0" by (simp add: example_config_def)
  then have "sq_partnerFee example_buy_quote + sq_creatorFee example_buy_quote = sq_tradingFee example_buy_quote"
    using dbc_quote_conserves [OF example_buy_returns] by (simp add: pool_ok_example Let_def)
  moreover have "sq_includedFeeInputAmount example_buy_quote = 10000 \<and> sq_quoteReserveAfter example_buy_quote = 9900"
    by code_simp
  ultimately show ?thesis by simp
qed

text \<open>
  A quote never leaves the price range of the curve and never moves the price the wrong way: buys
  move it up to at most the migration price, sells down to at least the start price.
\<close>

theorem dbc_price_stays_in_range:
  assumes "quoteDbcSwap p = Inr q" "pool_ok (sp_config p) (sp_pool p)"
  shows "pc_sqrtStartPrice (sp_config p) \<le> sq_nextSqrtPrice q \<and>
    sq_nextSqrtPrice q \<le> pc_migrationSqrtPrice (sp_config p) \<and>
    (case sp_direction p of QuoteToBase \<Rightarrow> vp_sqrtPrice (sp_pool p) \<le> sq_nextSqrtPrice q
      | BaseToQuote \<Rightarrow> sq_nextSqrtPrice q \<le> vp_sqrtPrice (sp_pool p))"
  using quote_price_range [OF assms] by (cases "sp_direction p") simp_all

lemma dbc_price_stays_in_range_witness: "(2 :: int) ^ 64 \<le> sq_nextSqrtPrice example_buy_quote"
  using dbc_price_stays_in_range [OF example_buy_returns]
  by (simp add: pool_ok_example) (simp add: example_config_def)

text \<open>
  \<open>dbcIncludedFeeAmount\<close> inverts \<open>dbcFeeOnAmount\<close> exactly: charging the fee on the included amount
  leaves the excluded amount to the last unit, and no smaller amount does.
\<close>

theorem included_fee_exact:
  assumes inc: "dbcIncludedFeeAmount num ex = Inr i" and num: "0 \<le> num" "num < 1000000000" and ex: "0 \<le> ex"
    and a: "0 \<le> a" "a \<le> if_included i" and f: "dbcFeeOnAmount num a h = Inr f"
  shows "(if a = if_included i then fa_amount f = ex \<and> fees_total (fees_of f) = if_fee i else fa_amount f < ex)"
proof -
  note inv = included_fee_inverse [OF inc num ex]
  have net: "fa_amount f = a - (a * num + 999999999) div 1000000000"
    by (rule dbcFeeOnAmount_parts(2) [OF f num(1) a(1)])
  show ?thesis
  proof (cases "a = if_included i")
    case True
    with net inv(1) have "fa_amount f = ex" by simp
    with True dbcFeeOnAmount_conserves [OF f] inv(3) show ?thesis by simp
  next
    case False
    with a(2) have "a < if_included i" by simp
    from inv(4) [OF a(1) this] False net show ?thesis by simp
  qed
qed

section \<open>Slippage limits\<close>

lemma dbcSwapSlippageLimit_out:
  assumes "mode \<noteq> ExactOut" "0 \<le> sq_outputAmount q" "0 \<le> bps" "bps \<le> 10000"
  shows "dbcSwapSlippageLimit q mode (JsInt bps) = Inr (sq_outputAmount q * (10000 - bps) div 10000)"
    "sq_outputAmount q * (10000 - bps) div 10000 \<le> sq_outputAmount q"
proof -
  let ?o = "sq_outputAmount q"
  show "dbcSwapSlippageLimit q mode (JsInt bps) = Inr (?o * (10000 - bps) div 10000)"
    using assms by (simp add: dbcSwapSlippageLimit_def)
  have "?o * (10000 - bps) \<le> ?o * 10000" using assms by (intro mult_left_mono) simp_all
  then have "?o * (10000 - bps) div 10000 \<le> ?o * 10000 div 10000" by (rule zdiv_mono1) simp
  then show "?o * (10000 - bps) div 10000 \<le> ?o" by simp
qed

lemma dbcSwapSlippageLimit_in:
  assumes "0 \<le> sq_includedFeeInputAmount q" "0 \<le> bps" "bps \<le> 10000"
  shows "dbcSwapSlippageLimit q ExactOut (JsInt bps) =
      Inr ((sq_includedFeeInputAmount q * (10000 + bps) + 9999) div 10000)"
    "sq_includedFeeInputAmount q \<le> (sq_includedFeeInputAmount q * (10000 + bps) + 9999) div 10000"
proof -
  let ?i = "sq_includedFeeInputAmount q"
  show "dbcSwapSlippageLimit q ExactOut (JsInt bps) = Inr ((?i * (10000 + bps) + 9999) div 10000)"
    using assms by (simp add: dbcSwapSlippageLimit_def)
  have "?i * 10000 \<le> ?i * (10000 + bps)" using assms by (intro mult_left_mono) simp_all
  then show "?i \<le> (?i * (10000 + bps) + 9999) div 10000" by (simp add: le_floor_div_iff)
qed

text \<open>
  The slippage limit of a quote: exact out asks for at most the quoted input raised by the tolerance
  and never less than the quoted input, the other modes for the quoted output lowered by it and never
  more; with no tolerance the limit is the quote itself.
\<close>

theorem dbc_slippage_limit_bounds:
  assumes r: "dbcSwapSlippageLimit q mode (JsInt bps) = Inr limit"
    and pos: "0 \<le> sq_includedFeeInputAmount q" "0 \<le> sq_outputAmount q"
  shows "0 \<le> bps \<and> bps \<le> 10000 \<and>
    (if mode = ExactOut
     then sq_includedFeeInputAmount q \<le> limit \<and> (limit - 1) * 10000 < sq_includedFeeInputAmount q * (10000 + bps) \<and>
          sq_includedFeeInputAmount q * (10000 + bps) \<le> limit * 10000
     else limit \<le> sq_outputAmount q \<and> limit * 10000 \<le> sq_outputAmount q * (10000 - bps) \<and>
          sq_outputAmount q * (10000 - bps) < (limit + 1) * 10000)"
proof -
  from r have b: "0 \<le> bps" "bps \<le> 10000" by (simp_all add: dbcSwapSlippageLimit_def result_simps split: if_splits)
  show ?thesis
  proof (cases "mode = ExactOut")
    case True
    let ?x = "sq_includedFeeInputAmount q * (10000 + bps)"
    note l = dbcSwapSlippageLimit_in [OF pos(1) b]
    have lim: "limit = (?x + 10000 - 1) div 10000" using r l(1) True by simp
    have "?x \<le> limit * 10000" "(limit - 1) * 10000 < ?x" unfolding lim by (rule ceil_div_bounds, simp)+
    with l(2) r l(1) True b show ?thesis by simp
  next
    case False
    let ?x = "sq_outputAmount q * (10000 - bps)"
    note l = dbcSwapSlippageLimit_out [OF False pos(2) b]
    have lim: "limit = ?x div 10000" using r l(1) by simp
    have "limit * 10000 \<le> ?x" "?x < (limit + 1) * 10000" unfolding lim by (rule floor_div_bounds, simp)+
    with l(2) lim False b show ?thesis by simp
  qed
qed

text \<open>
  The partner surplus is zero before the curve is complete and afterwards between zero and four
  fifths of what the reserve holds above the threshold, for any creator percentage.
\<close>

theorem partner_surplus_within_four_fifths:
  assumes "0 \<le> pc_creatorTradingFeePercentage c" "pc_creatorTradingFeePercentage c \<le> 100"
  shows "0 \<le> dbcPartnerSurplus c p \<and>
    (if isDbcCurveComplete c p
     then 5 * dbcPartnerSurplus c p \<le> 4 * (vp_quoteReserve p - pc_migrationQuoteThreshold c)
     else dbcPartnerSurplus c p = 0)"
  using dbcPartnerSurplus_bounds [OF assms, of p] by simp

end
