(* ===== verification/DammSwap.thy ===== *)
theory DammSwap
  imports DbcTrades StockfloorAccounts
begin

text \<open>
  \<^verbatim>\<open>packages/sdk/src/damm/swapQuote.ts\<close>: the exact-in quote of the migrated DAMM v2 pool (one
  concentrated range), its fee schedule and fees. The pool provides the same \<open>swap_venue\<close> interface as the
  bonding curve, so the round-trip and solvency facts hold for it as well.
\<close>

section \<open>Fees\<close>

datatype damm_direction = AtoB | BtoA

definition DAMM_FEE_DENOMINATOR :: int where [simp]: "DAMM_FEE_DENOMINATOR = 1000000000"
definition MAX_FEE_NUMERATOR_V0 :: int where [simp]: "MAX_FEE_NUMERATOR_V0 = 500000000"
definition MAX_FEE_NUMERATOR_V1 :: int where [simp]: "MAX_FEE_NUMERATOR_V1 = 990000000"

record damm_swap_quote =
  dq_includedFeeInputAmount :: int
  dq_excludedFeeInputAmount :: int
  dq_outputAmount :: int
  dq_nextSqrtPrice :: int
  dq_claimingFee :: int
  dq_compoundingFee :: int
  dq_protocolFee :: int
  dq_referralFee :: int
  dq_tradeFeeNumerator :: int
  dq_feesOnTokenA :: bool
  dq_feesOnInput :: bool

record fee_time_scheduler =
  ft_cliffFeeNumerator :: int
  ft_baseFeeMode :: int
  ft_numberOfPeriod :: int
  ft_periodFrequency :: int
  ft_reductionFactor :: int

definition decodeDammFeeTimeScheduler :: "bytes \<Rightarrow> fee_time_scheduler result" where
  "decodeDammFeeTimeScheduler data =
     bindE (readU64 data 0) (\<lambda>cliff.
     bindE (readU8 data 8) (\<lambda>mode.
     bindE (readU16 data 14) (\<lambda>n.
     bindE (readU64 data 16) (\<lambda>frequency.
     bindE (readU64 data 24) (\<lambda>reduction.
       Inr \<lparr>ft_cliffFeeNumerator = cliff, ft_baseFeeMode = mode, ft_numberOfPeriod = n,
            ft_periodFrequency = frequency, ft_reductionFactor = reduction\<rparr>)))))"

text \<open>The base fee of a scheduler at a point, before the cap.\<close>

definition dammBaseFee :: "fee_time_scheduler \<Rightarrow> damm_pool \<Rightarrow> int \<Rightarrow> int result" where
  "dammBaseFee s pool currentPoint =
     (let n = ft_numberOfPeriod s
      in if ft_periodFrequency s = 0 then Inr (ft_cliffFeeNumerator s)
         else let period0 = (if currentPoint < dp_activationPoint pool then n
                             else (currentPoint - dp_activationPoint pool) sdiv ft_periodFrequency s);
                  period = (if period0 > n then n else period0)
              in if ft_baseFeeMode s = Damm_FeeTimeSchedulerLinear
                 then (let base = ft_cliffFeeNumerator s - ft_reductionFactor s * period
                       in if base < 0 then Inl (DbcMathError ''MathOverflow'') else Inr base)
                 else getFeeInPeriod (ft_cliffFeeNumerator s) (ft_reductionFactor s) (JsInt period))"

definition dammTradeFeeNumerator :: "damm_pool \<Rightarrow> int \<Rightarrow> int result" where
  "dammTradeFeeNumerator pool currentPoint =
     (if dp_dynamicFeeInitialized pool \<noteq> 0 then Inl (DbcMathError ''UnsupportedByPort'')
      else bindE (decodeDammFeeTimeScheduler (dp_baseFeeData pool)) (\<lambda>s.
        if ft_baseFeeMode s \<noteq> Damm_FeeTimeSchedulerLinear \<and> ft_baseFeeMode s \<noteq> Damm_FeeTimeSchedulerExponential
        then Inl (DbcMathError ''UnsupportedByPort'')
        else bindE (dammBaseFee s pool currentPoint) (\<lambda>base.
          case (if dp_feeVersion pool = 0 then Some MAX_FEE_NUMERATOR_V0
                else if dp_feeVersion pool = 1 then Some MAX_FEE_NUMERATOR_V1 else None) of
            None \<Rightarrow> Inl (DbcMathError ''InvalidPoolVersion'')
          | Some mx \<Rightarrow> Inr (if base > mx then mx else base))))"

text \<open>The module's own \<open>mulDivU64\<close> and \<open>u64\<close>.\<close>

definition dammMulDivU64 :: "int \<Rightarrow> int \<Rightarrow> int \<Rightarrow> bool \<Rightarrow> int result" where
  "dammMulDivU64 x y d up =
     bindE (mulDiv x y d up) (\<lambda>v. if v > U64_MAX then Inl (DbcMathError ''TypeCastFailed'') else Inr v)"

definition u64_check :: "int \<Rightarrow> int result" where
  "u64_check v = (if v > U64_MAX then Inl (DbcMathError ''MathOverflow'') else Inr v)"

record damm_fees =
  dfe_amount :: int
  dfe_claimingFee :: int
  dfe_compoundingFee :: int
  dfe_protocolFee :: int
  dfe_referralFee :: int

definition dammFeeOnAmount :: "damm_pool \<Rightarrow> int \<Rightarrow> int \<Rightarrow> bool \<Rightarrow> damm_fees result" where
  "dammFeeOnAmount pool amount numerator hasReferral =
     bindE (dammMulDivU64 amount numerator DAMM_FEE_DENOMINATOR True) (\<lambda>tradingFeeTotal.
     let excluded = amount - tradingFeeTotal in
     bindE (check (\<not> excluded < 0) (DbcMathError ''MathOverflow'')) (\<lambda>_.
     bindE (dammMulDivU64 tradingFeeTotal (dp_protocolFeePercent pool) 100 False) (\<lambda>protocolFee.
     let tradingFee = tradingFeeTotal - protocolFee in
     bindE (if dp_compoundingFeeBps pool > 0
            then dammMulDivU64 tradingFee (dp_compoundingFeeBps pool) 10000 False else Inr 0) (\<lambda>compoundingFee.
     bindE (if hasReferral then dammMulDivU64 protocolFee (dp_referralFeePercent pool) 100 False else Inr 0)
       (\<lambda>referralFee.
         Inr \<lparr>dfe_amount = excluded, dfe_claimingFee = tradingFee - compoundingFee,
              dfe_compoundingFee = compoundingFee, dfe_protocolFee = protocolFee - referralFee,
              dfe_referralFee = referralFee\<rparr>)))))"

record damm_fee_mode =
  dm_feesOnInput :: bool
  dm_feesOnTokenA :: bool

definition dammFeeMode :: "int \<Rightarrow> damm_direction \<Rightarrow> damm_fee_mode result" where
  "dammFeeMode collectFeeMode direction =
     (if collectFeeMode = DammCollect_BothToken
      then Inr \<lparr>dm_feesOnInput = False, dm_feesOnTokenA = (direction = BtoA)\<rparr>
      else if collectFeeMode = DammCollect_OnlyB
      then Inr \<lparr>dm_feesOnInput = (direction = BtoA), dm_feesOnTokenA = False\<rparr>
      else if collectFeeMode = DammCollect_Compounding then Inl (DbcMathError ''UnsupportedByPort'')
      else Inl (DbcMathError ''InvalidCollectFeeMode''))"

section \<open>The quote\<close>

text \<open>Price and output of \<open>actualIn\<close> on the pool's range.\<close>

definition dammStep :: "damm_pool \<Rightarrow> damm_direction \<Rightarrow> int \<Rightarrow> (int \<times> int) result" where
  "dammStep pool direction actualIn =
     (case direction of
        AtoB \<Rightarrow>
          bindE (nextSqrtPriceFromBaseAmountInRoundingUp (dp_sqrtPrice pool) (dp_liquidity pool) actualIn) (\<lambda>next.
          bindE (check (\<not> next < dp_sqrtMinPrice pool) (DbcMathError ''PriceRangeViolation'')) (\<lambda>_.
          bindE (getDeltaAmountQuote next (dp_sqrtPrice pool) (dp_liquidity pool) False) (\<lambda>d.
          bindE (u64_check d) (\<lambda>out. Inr (next, out)))))
      | BtoA \<Rightarrow>
          bindE (if actualIn = 0 then Inr (dp_sqrtPrice pool)
                 else bindE (big_div (actualIn * 2 ^ 128) (dp_liquidity pool)) (\<lambda>q. Inr (dp_sqrtPrice pool + q)))
            (\<lambda>next.
          bindE (check (\<not> next > U128_MAX) (DbcMathError ''TypeCastFailed'')) (\<lambda>_.
          bindE (check (\<not> next > dp_sqrtMaxPrice pool) (DbcMathError ''PriceRangeViolation'')) (\<lambda>_.
          bindE (getDeltaAmountBase (dp_sqrtPrice pool) next (dp_liquidity pool) False) (\<lambda>d.
          bindE (u64_check d) (\<lambda>out. Inr (next, out)))))))"

record damm_swap_params =
  ds_pool :: damm_pool
  ds_direction :: damm_direction
  ds_amountIn :: int
  ds_currentPoint :: int
  ds_hasReferral :: bool

definition no_damm_fees :: "int \<Rightarrow> damm_fees" where
  "no_damm_fees amount = \<lparr>dfe_amount = amount, dfe_claimingFee = 0, dfe_compoundingFee = 0,
     dfe_protocolFee = 0, dfe_referralFee = 0\<rparr>"

definition quoteDammV2ExactIn :: "damm_swap_params \<Rightarrow> damm_swap_quote result" where
  "quoteDammV2ExactIn p =
     (let pool = ds_pool p
      in bindE (check (\<not> (dp_poolStatus pool \<noteq> 0 \<or> ds_currentPoint p < dp_activationPoint pool))
                  (DbcMathError ''PoolDisabled'')) (\<lambda>_.
         bindE (check (\<not> ds_amountIn p \<le> 0) (DbcMathError ''AmountIsZero'')) (\<lambda>_.
         bindE (u64_check (ds_amountIn p)) (\<lambda>_.
         bindE (dammFeeMode (dp_collectFeeMode pool) (ds_direction p)) (\<lambda>fm.
         bindE (dammTradeFeeNumerator pool (ds_currentPoint p)) (\<lambda>numerator.
         bindE (if dm_feesOnInput fm then dammFeeOnAmount pool (ds_amountIn p) numerator (ds_hasReferral p)
                else Inr (no_damm_fees (ds_amountIn p))) (\<lambda>f0.
         bindE (dammStep pool (ds_direction p) (dfe_amount f0)) (\<lambda>(next, out).
         bindE (if \<not> dm_feesOnInput fm then dammFeeOnAmount pool out numerator (ds_hasReferral p)
                else Inr (f0\<lparr>dfe_amount := out\<rparr>)) (\<lambda>f.
           Inr \<lparr>dq_includedFeeInputAmount = ds_amountIn p, dq_excludedFeeInputAmount = dfe_amount f0,
                dq_outputAmount = dfe_amount f, dq_nextSqrtPrice = next,
                dq_claimingFee = dfe_claimingFee f, dq_compoundingFee = dfe_compoundingFee f,
                dq_protocolFee = dfe_protocolFee f, dq_referralFee = dfe_referralFee f,
                dq_tradeFeeNumerator = numerator, dq_feesOnTokenA = dm_feesOnTokenA fm,
                dq_feesOnInput = dm_feesOnInput fm\<rparr>)))))))))"

definition dammMinimumOut :: "damm_swap_quote \<Rightarrow> jsnum \<Rightarrow> int result" where
  "dammMinimumOut quote slippageBps =
     bindE (integer_in 0 10000 slippageBps (RangeError ''slippageBps must be an integer in [0, 10000]''))
       (\<lambda>bps. Inr ((dq_outputAmount quote * (10000 - bps)) sdiv 10000))"

section \<open>Fees conserve the amount\<close>

interpretation dammMulDivU64: rounded_division dammMulDivU64
  by unfold_locales (auto simp: dammMulDivU64_def mulDiv_up mulDiv_down split: if_splits)

definition damm_fees_total :: "damm_fees \<Rightarrow> int" where
  "damm_fees_total f = dfe_claimingFee f + dfe_compoundingFee f + dfe_protocolFee f + dfe_referralFee f"

lemma dammFeeOnAmount_conserves:
  "dammFeeOnAmount pool amount num h = Inr f \<Longrightarrow> dfe_amount f + damm_fees_total f = amount \<and> 0 \<le> dfe_amount f"
  by (auto simp: dammFeeOnAmount_def damm_fees_total_def result_simps Let_def)

definition damm_fees_ok :: "damm_fees \<Rightarrow> bool" where
  "damm_fees_ok f \<longleftrightarrow> 0 \<le> dfe_claimingFee f \<and> 0 \<le> dfe_compoundingFee f \<and> 0 \<le> dfe_protocolFee f \<and> 0 \<le> dfe_referralFee f"

definition wf_damm_fees :: "damm_pool \<Rightarrow> bool" where
  "wf_damm_fees pool \<longleftrightarrow>
     0 \<le> dp_protocolFeePercent pool \<and> dp_protocolFeePercent pool \<le> 100 \<and>
     0 \<le> dp_referralFeePercent pool \<and> dp_referralFeePercent pool \<le> 100 \<and>
     0 \<le> dp_compoundingFeeBps pool \<and> dp_compoundingFeeBps pool \<le> 10000"

lemma optional_share:
  assumes "(if b then dammMulDivU64 x y d False else Inr 0) = Inr v" "0 \<le> x" "0 \<le> y" "0 < d" "y \<le> d"
  shows "0 \<le> v" "v \<le> x"
  using assms dammMulDivU64.nonneg [of x y d False v] dammMulDivU64.share_le [of x y d False v]
  by (auto split: if_splits)

lemma dammFeeOnAmount_parts:
  assumes f: "dammFeeOnAmount pool amount num h = Inr f" and wf: "wf_damm_fees pool" and "0 \<le> num" "0 \<le> amount"
  shows "damm_fees_ok f"
proof -
  from f obtain t pr co rf where
    t: "dammMulDivU64 amount num 1000000000 True = Inr t"
    and pr: "dammMulDivU64 t (dp_protocolFeePercent pool) 100 False = Inr pr"
    and co: "(if dp_compoundingFeeBps pool > 0
            then dammMulDivU64 (t - pr) (dp_compoundingFeeBps pool) 10000 False else Inr 0) = Inr co"
    and rf: "(if h then dammMulDivU64 pr (dp_referralFeePercent pool) 100 False else Inr 0) = Inr rf"
    and eq: "dfe_claimingFee f = t - pr - co" "dfe_compoundingFee f = co" "dfe_protocolFee f = pr - rf" "dfe_referralFee f = rf"
    by (auto simp: dammFeeOnAmount_def result_simps Let_def)
  have w: "0 \<le> dp_protocolFeePercent pool" "dp_protocolFeePercent pool \<le> 100" "0 \<le> dp_referralFeePercent pool"
    "dp_referralFeePercent pool \<le> 100" "0 \<le> dp_compoundingFeeBps pool" "dp_compoundingFeeBps pool \<le> 10000"
    using wf by (simp_all add: wf_damm_fees_def)
  have t0: "0 \<le> t" by (rule dammMulDivU64.nonneg [OF assms(4,3) _ t]) simp
  have p: "0 \<le> pr" "pr \<le> t"
    using dammMulDivU64.nonneg [OF t0 w(1) _ pr] dammMulDivU64.share_le [OF t0 w(1) _ w(2) pr] by simp_all
  have "0 \<le> t - pr" using p by simp
  note c = optional_share [OF co this w(5) _ w(6)] and r = optional_share [OF rf p(1) w(3) _ w(4)]
  show ?thesis using c r p by (simp add: damm_fees_ok_def eq)
qed

section \<open>The pool as a swap venue\<close>

definition wf_damm_pool :: "damm_pool \<Rightarrow> bool" where
  "wf_damm_pool pool \<longleftrightarrow> 0 < dp_liquidity pool \<and> dp_liquidity pool \<le> U128_MAX \<and> 0 < dp_sqrtMinPrice pool \<and>
     dp_sqrtMinPrice pool \<le> dp_sqrtPrice pool \<and> dp_sqrtPrice pool \<le> dp_sqrtMaxPrice pool"

definition dammQuote :: "damm_pool \<Rightarrow> int \<Rightarrow> rat" where
  "dammQuote pool p = of_int (dp_liquidity pool) * quote_fn p"

definition dammBase :: "damm_pool \<Rightarrow> int \<Rightarrow> rat" where
  "dammBase pool p = of_int (dp_liquidity pool) * base_fn p"

definition damm_trade :: "damm_pool \<Rightarrow> damm_direction \<Rightarrow> trade_rel" where
  "damm_trade pool d p paid taken p' \<longleftrightarrow> 0 \<le> paid \<and> dammStep (pool\<lparr>dp_sqrtPrice := p\<rparr>) d paid = Inr (p', taken)"

lemma damm_sell:
  assumes wf: "wf_damm_pool pool" and p: "dp_sqrtMinPrice pool \<le> p"
    and t: "damm_trade pool AtoB p paid taken p'"
  shows "dp_sqrtMinPrice pool \<le> p'" "p' \<le> p" "0 \<le> taken"
    "dammBase pool p - dammBase pool p' \<le> of_int paid" "of_int taken \<le> dammQuote pool p - dammQuote pool p'"
proof -
  let ?L = "dp_liquidity pool"
  have L: "0 < ?L" and p0: "0 < p" using wf p by (simp_all add: wf_damm_pool_def)
  from t have n: "nextSqrtPriceFromBaseAmountInRoundingUp p ?L paid = Inr p'"
    and lo: "dp_sqrtMinPrice pool \<le> p'"
    and d: "getDeltaAmountQuote p' p ?L False = Inr taken" and paid: "0 \<le> paid"
    by (auto simp: damm_trade_def dammStep_def u64_check_def result_simps split: if_splits)
  show "dp_sqrtMinPrice pool \<le> p'" by (rule lo)
  note st = sell_in_step [OF n L p0 paid]
  show "p' \<le> p" by (rule st)
  have taken: "taken = quote_down ?L p' p" using d st L by (simp add: getDeltaAmountQuote_eq)
  then show "0 \<le> taken" using st L by simp
  show "dammBase pool p - dammBase pool p' \<le> of_int paid"
    using st(3) by (simp add: base_diff_def dammBase_def right_diff_distrib)
  show "of_int taken \<le> dammQuote pool p - dammQuote pool p'"
    using rounded_amounts(2) [of ?L p' p] by (simp add: taken quote_diff_def dammQuote_def right_diff_distrib)
qed

lemma damm_buy:
  assumes wf: "wf_damm_pool pool" and p: "dp_sqrtMinPrice pool \<le> p"
    and t: "damm_trade pool BtoA p paid taken p'"
  shows "p \<le> p'" "p' \<le> max p (dp_sqrtMaxPrice pool)" "0 \<le> taken"
    "dammQuote pool p' - dammQuote pool p \<le> of_int paid" "of_int taken \<le> dammBase pool p' - dammBase pool p"
proof -
  let ?L = "dp_liquidity pool"
  have L: "0 < ?L" and p0: "0 < p" using wf p by (simp_all add: wf_damm_pool_def)
  from t L have p': "p' = p + paid * 2 ^ 128 div ?L"
    and hi: "p' \<le> dp_sqrtMaxPrice pool"
    and d: "getDeltaAmountBase p p' ?L False = Inr taken" and paid: "0 \<le> paid"
    by (auto simp: damm_trade_def dammStep_def u64_check_def result_simps split: if_splits)
  show le: "p \<le> p'" unfolding p' using L paid by (rule next_price_ge)
  show "p' \<le> max p (dp_sqrtMaxPrice pool)" using hi by simp
  have taken: "taken = base_down ?L p p'" using d le p0 L by (simp add: getDeltaAmountBase_eq)
  then show "0 \<le> taken" using le p0 L by simp
  have "(paid * 2 ^ 128 div ?L) * ?L \<le> paid * 2 ^ 128" using L by (rule floor_div_bounds)
  then have "quote_diff ?L p p' \<le> of_int paid" by (simp add: quote_diff_le_iff p' mult.commute)
  then show "dammQuote pool p' - dammQuote pool p \<le> of_int paid"
    by (simp add: quote_diff_def dammQuote_def right_diff_distrib)
  show "of_int taken \<le> dammBase pool p' - dammBase pool p"
    using rounded_amounts(4) [OF p0 le, of ?L] by (simp add: taken base_diff_def dammBase_def right_diff_distrib)
qed

text \<open>The type of pools with a proper range, for the interface.\<close>

definition example_pool :: damm_pool where
  "example_pool =
     \<lparr>dp_baseFeeData = le_bytes 8 10000000 @ replicate 24 0, dp_protocolFeePercent = 20,
      dp_referralFeePercent = 20, dp_compoundingFeeBps = 0, dp_dynamicFeeInitialized = 0,
      dp_initSqrtPrice = 2 ^ 64, dp_tokenAMint = replicate 32 3, dp_tokenBMint = replicate 32 4,
      dp_tokenAVault = replicate 32 5, dp_tokenBVault = replicate 32 6, dp_liquidity = 1000000 * 2 ^ 64,
      dp_protocolAFee = 0, dp_protocolBFee = 0,
      dp_sqrtMinPrice = MIN_SQRT_PRICE, dp_sqrtMaxPrice = MAX_SQRT_PRICE, dp_sqrtPrice = 2 ^ 64,
      dp_activationPoint = 0, dp_activationType = 1, dp_poolStatus = 0, dp_tokenAFlag = 0, dp_tokenBFlag = 1,
      dp_collectFeeMode = 1, dp_poolType = 0, dp_feeVersion = 1, dp_feeAPerLiquidity = 0,
      dp_feeBPerLiquidity = 0, dp_permanentLockLiquidity = 0, dp_creator = replicate 32 7,
      dp_tokenAAmount = 0, dp_tokenBAmount = 0\<rparr>"

lemma wf_example_pool: "wf_damm_pool example_pool"
  by (simp add: wf_damm_pool_def example_pool_def bounds_defs)

typedef damm_range = "{pool. wf_damm_pool pool}" morphisms range_pool Damm_range
  using wf_example_pool by auto

lemma wf_range_pool: "wf_damm_pool (range_pool x)"
  using range_pool [of x] by simp

lemma range_pool_cases: "wf_damm_pool pool \<Longrightarrow> \<exists>x. pool = range_pool x"
  using Damm_range_inverse [of pool] by (metis mem_Collect_eq)

interpretation damm_venue: swap_venue
    "dp_sqrtMinPrice (range_pool x)" "dp_sqrtMaxPrice (range_pool x)"
    "dammQuote (range_pool x)" "dammBase (range_pool x)"
    "damm_trade (range_pool x) BtoA" "damm_trade (range_pool x) AtoB" for x
proof unfold_locales
  let ?pool = "range_pool x"
  note wf = wf_range_pool [of x]
  have L: "0 < dp_liquidity ?pool" "0 < dp_sqrtMinPrice ?pool" using wf by (simp_all add: wf_damm_pool_def)
  fix p p' :: int
  assume p: "dp_sqrtMinPrice ?pool \<le> p"
  { assume "p < p'"
    then show "dammQuote ?pool p < dammQuote ?pool p'" "dammBase ?pool p < dammBase ?pool p'"
      using L p quote_fn_strict [of p p'] base_fn_strict [of p p'] by (simp_all add: dammQuote_def dammBase_def) }
  fix paid taken :: int
  assume hi: "p \<le> dp_sqrtMaxPrice ?pool"
  { assume "damm_trade ?pool BtoA p paid taken p'"
    note b = damm_buy [OF wf p this]
    from b hi show "p \<le> p' \<and> p' \<le> dp_sqrtMaxPrice ?pool" "dammQuote ?pool p' - dammQuote ?pool p \<le> of_int paid"
      "of_int taken \<le> dammBase ?pool p' - dammBase ?pool p" by simp_all }
  { assume "damm_trade ?pool AtoB p paid taken p'"
    note b = damm_sell [OF wf p this]
    from b show "dp_sqrtMinPrice ?pool \<le> p' \<and> p' \<le> p" "dammBase ?pool p - dammBase ?pool p' \<le> of_int paid"
      "of_int taken \<le> dammQuote ?pool p - dammQuote ?pool p'" by simp_all }
qed

section \<open>Quotes of the migrated pool\<close>

lemma damm_fee_numerator_bounds:
  assumes "dammTradeFeeNumerator pool t = Inr n"
  shows "0 \<le> n" "n \<le> 990000000"
proof -
  from assms obtain s b where s: "decodeDammFeeTimeScheduler (dp_baseFeeData pool) = Inr s"
    and b: "dammBaseFee s pool t = Inr b" and n: "n \<le> 990000000 \<and> (n = b \<or> 0 \<le> n)"
    by (auto simp: dammTradeFeeNumerator_def result_simps split: if_splits)
  from s have "0 \<le> ft_cliffFeeNumerator s"
    by (auto simp: decodeDammFeeTimeScheduler_def result_simps readU64_eq_Inr)
  with b have "0 \<le> b"
    by (auto simp: dammBaseFee_def getFeeInPeriod_def Let_def split: if_splits option.splits)
  with n show "0 \<le> n" "n \<le> 990000000" by auto
qed

definition damm_quote_fees :: "damm_swap_quote \<Rightarrow> int" where
  "damm_quote_fees q = dq_claimingFee q + dq_compoundingFee q + dq_protocolFee q + dq_referralFee q"

lemma quoteDammV2ExactIn_trade:
  assumes q: "quoteDammV2ExactIn p = Inr q" and wf: "wf_damm_pool (ds_pool p)" "wf_damm_fees (ds_pool p)"
  defines "out \<equiv> (if dq_feesOnInput q then dq_outputAmount q else dq_outputAmount q + damm_quote_fees q)"
  shows "damm_trade (ds_pool p) (ds_direction p) (dp_sqrtPrice (ds_pool p)) (dq_excludedFeeInputAmount q) out (dq_nextSqrtPrice q)"
    "dq_includedFeeInputAmount q = dq_excludedFeeInputAmount q + (if dq_feesOnInput q then damm_quote_fees q else 0)"
    "0 \<le> damm_quote_fees q" "0 \<le> dq_outputAmount q"
proof -
  let ?pool = "ds_pool p"
  from q obtain fm :: damm_fee_mode and num f0 next' o1 f where
    pos: "0 < ds_amountIn p" and num: "dammTradeFeeNumerator ?pool (ds_currentPoint p) = Inr num"
    and f0: "(if dm_feesOnInput fm then dammFeeOnAmount ?pool (ds_amountIn p) num (ds_hasReferral p)
                else Inr (no_damm_fees (ds_amountIn p))) = Inr f0"
    and st: "dammStep ?pool (ds_direction p) (dfe_amount f0) = Inr (next', o1)"
    and f: "(if \<not> dm_feesOnInput fm then dammFeeOnAmount ?pool o1 num (ds_hasReferral p)
                else Inr (f0\<lparr>dfe_amount := o1\<rparr>)) = Inr f"
    and eq: "dq_includedFeeInputAmount q = ds_amountIn p" "dq_excludedFeeInputAmount q = dfe_amount f0"
       "dq_outputAmount q = dfe_amount f" "dq_nextSqrtPrice q = next'" "dq_feesOnInput q = dm_feesOnInput fm"
       "damm_quote_fees q = damm_fees_total f"
    by (auto simp: quoteDammV2ExactIn_def Let_def result_simps damm_quote_fees_def damm_fees_total_def intro!: that)
  note nb = damm_fee_numerator_bounds [OF num]
  have a0: "0 \<le> dfe_amount f0"
    using f0 pos dammFeeOnAmount_conserves by (auto simp: no_damm_fees_def split: if_splits)
  have tr: "damm_trade ?pool (ds_direction p) (dp_sqrtPrice ?pool) (dfe_amount f0) o1 next'"
    using st a0 by (simp add: damm_trade_def)
  have pr: "dp_sqrtMinPrice ?pool \<le> dp_sqrtPrice ?pool" using wf by (simp add: wf_damm_pool_def)
  have o0: "0 \<le> o1"
    using tr damm_sell(3) [OF wf(1) pr] damm_buy(3) [OF wf(1) pr] by (cases "ds_direction p") auto
  have ok0: "damm_fees_ok f0"
    using f0 pos nb dammFeeOnAmount_parts [OF _ wf(2)] by (auto simp: no_damm_fees_def damm_fees_ok_def split: if_splits)
  have "damm_trade ?pool (ds_direction p) (dp_sqrtPrice ?pool) (dq_excludedFeeInputAmount q) out (dq_nextSqrtPrice q) \<and>
    dq_includedFeeInputAmount q = dq_excludedFeeInputAmount q + (if dq_feesOnInput q then damm_quote_fees q else 0) \<and>
    0 \<le> damm_quote_fees q \<and> 0 \<le> dq_outputAmount q"
  proof (cases "dm_feesOnInput fm")
    case True
    with f0 have "dammFeeOnAmount ?pool (ds_amountIn p) num (ds_hasReferral p) = Inr f0" by simp
    from dammFeeOnAmount_conserves [OF this] True f tr ok0 o0 show ?thesis
      by (auto simp: out_def eq damm_fees_total_def damm_fees_ok_def)
  next
    case False
    with f have f': "dammFeeOnAmount ?pool o1 num (ds_hasReferral p) = Inr f" by simp
    from dammFeeOnAmount_conserves [OF f'] dammFeeOnAmount_parts [OF f' wf(2) nb(1) o0] False f0 tr
    show ?thesis by (auto simp: out_def eq no_damm_fees_def damm_fees_total_def damm_fees_ok_def)
  qed
  then show "damm_trade ?pool (ds_direction p) (dp_sqrtPrice ?pool) (dq_excludedFeeInputAmount q) out (dq_nextSqrtPrice q)"
    "dq_includedFeeInputAmount q = dq_excludedFeeInputAmount q + (if dq_feesOnInput q then damm_quote_fees q else 0)"
    "0 \<le> damm_quote_fees q" "0 \<le> dq_outputAmount q" by simp_all
qed

lemma damm_round_trip:
  assumes buy: "quoteDammV2ExactIn p1 = Inr q1" "ds_direction p1 = BtoA"
    and sell: "quoteDammV2ExactIn p2 = Inr q2" "ds_direction p2 = AtoB"
    and wf: "wf_damm_pool (ds_pool p1)" "wf_damm_fees (ds_pool p1)"
    and same: "ds_pool p2 = (ds_pool p1)\<lparr>dp_sqrtPrice := dq_nextSqrtPrice q1\<rparr>"
    and amount: "ds_amountIn p2 \<le> dq_outputAmount q1"
  shows "dq_outputAmount q2 \<le> dq_includedFeeInputAmount q1"
proof -
  let ?pool = "ds_pool p1"
  obtain x where x: "?pool = range_pool x" using wf range_pool_cases by blast
  have r: "dp_sqrtMinPrice ?pool \<le> dp_sqrtPrice ?pool" "dp_sqrtPrice ?pool \<le> dp_sqrtMaxPrice ?pool"
    using wf by (simp_all add: wf_damm_pool_def)
  note t1 = quoteDammV2ExactIn_trade [OF buy(1) wf, unfolded buy(2)]
  note b = damm_buy [OF wf(1) r(1) t1(1)]
  have wf2: "wf_damm_pool (ds_pool p2)" "wf_damm_fees (ds_pool p2)"
    using wf b(1,2) r by (simp_all add: same wf_damm_pool_def wf_damm_fees_def)
  note t2 = quoteDammV2ExactIn_trade [OF sell(1) wf2, unfolded sell(2)]
  have s: "damm_trade ?pool AtoB (dq_nextSqrtPrice q1) (dq_excludedFeeInputAmount q2)
      (if dq_feesOnInput q2 then dq_outputAmount q2 else dq_outputAmount q2 + damm_quote_fees q2) (dq_nextSqrtPrice q2)"
    using t2(1) by (simp add: same damm_trade_def)
  have "dq_includedFeeInputAmount q2 = ds_amountIn p2"
    using sell(1) by (auto simp: quoteDammV2ExactIn_def Let_def result_simps)
  then have "dq_excludedFeeInputAmount q2 \<le>
      (if dq_feesOnInput q1 then dq_outputAmount q1 else dq_outputAmount q1 + damm_quote_fees q1)"
    using t1(2,3) t2(2,3) amount by (simp split: if_splits)
  from damm_venue.buy_then_sell [of x, folded x, OF r t1(1) s this] t1 t2
  show ?thesis by (simp split: if_splits)
qed

section \<open>Properties\<close>

definition example_damm :: "damm_direction \<Rightarrow> damm_pool \<Rightarrow> int \<Rightarrow> damm_swap_params" where
  "example_damm d pool a =
     \<lparr>ds_pool = pool, ds_direction = d, ds_amountIn = a, ds_currentPoint = 5, ds_hasReferral = False\<rparr>"

definition example_damm_buy_quote :: damm_swap_quote where
  "example_damm_buy_quote = (case quoteDammV2ExactIn (example_damm BtoA example_pool 10000) of Inr q \<Rightarrow> q)"

definition example_damm_sell :: damm_swap_params where
  "example_damm_sell = example_damm AtoB (example_pool\<lparr>dp_sqrtPrice := dq_nextSqrtPrice example_damm_buy_quote\<rparr>) 9000"

definition example_damm_sell_quote :: damm_swap_quote where
  "example_damm_sell_quote = (case quoteDammV2ExactIn example_damm_sell of Inr q \<Rightarrow> q)"

lemma example_damm_returns:
  "quoteDammV2ExactIn (example_damm BtoA example_pool 10000) = Inr example_damm_buy_quote"
  "quoteDammV2ExactIn example_damm_sell = Inr example_damm_sell_quote"
  by code_simp+

lemma wf_example_pool_fees: "wf_damm_fees example_pool"
  by (simp add: wf_damm_fees_def example_pool_def)

text \<open>
  C27: on the migrated DAMM v2 pool too, selling back what a quoted buy returned yields at most what the
  buy cost.
\<close>

theorem damm_round_trip_no_profit:
  assumes "quoteDammV2ExactIn p1 = Inr q1" "ds_direction p1 = BtoA"
    and "quoteDammV2ExactIn p2 = Inr q2" "ds_direction p2 = AtoB"
    and "wf_damm_pool (ds_pool p1)" "wf_damm_fees (ds_pool p1)"
    and "ds_pool p2 = (ds_pool p1)\<lparr>dp_sqrtPrice := dq_nextSqrtPrice q1\<rparr>"
    and "ds_amountIn p2 \<le> dq_outputAmount q1"
  shows "dq_outputAmount q2 \<le> dq_includedFeeInputAmount q1"
  by (rule damm_round_trip [OF assms])

lemma damm_round_trip_no_profit_witness:
  "dq_outputAmount example_damm_sell_quote \<le> dq_includedFeeInputAmount example_damm_buy_quote"
proof -
  have "(9000 :: int) \<le> dq_outputAmount example_damm_buy_quote" by code_simp
  then show ?thesis
    using damm_round_trip_no_profit [OF example_damm_returns(1) _ example_damm_returns(2)]
    by (simp add: example_damm_sell_def example_damm_def wf_example_pool wf_example_pool_fees)
qed

text \<open>
  A DAMM v2 quote is a trade of the pool's range plus fees: the payer's input is the amount that moves
  the price plus the fees charged on the input, the fees are not negative, the price stays inside the
  pool's range and moves in the direction of the trade.
\<close>

theorem damm_quote_is_ranged_trade:
  assumes "quoteDammV2ExactIn p = Inr q" "wf_damm_pool (ds_pool p)" "wf_damm_fees (ds_pool p)"
  shows "dq_includedFeeInputAmount q = dq_excludedFeeInputAmount q + (if dq_feesOnInput q then damm_quote_fees q else 0) \<and>
    0 \<le> damm_quote_fees q \<and> 0 \<le> dq_outputAmount q \<and>
    (case ds_direction p of
       AtoB \<Rightarrow> dp_sqrtMinPrice (ds_pool p) \<le> dq_nextSqrtPrice q \<and> dq_nextSqrtPrice q \<le> dp_sqrtPrice (ds_pool p)
     | BtoA \<Rightarrow> dp_sqrtPrice (ds_pool p) \<le> dq_nextSqrtPrice q \<and> dq_nextSqrtPrice q \<le> dp_sqrtMaxPrice (ds_pool p))"
proof -
  have r: "dp_sqrtMinPrice (ds_pool p) \<le> dp_sqrtPrice (ds_pool p)" "dp_sqrtPrice (ds_pool p) \<le> dp_sqrtMaxPrice (ds_pool p)"
    using assms(2) by (simp_all add: wf_damm_pool_def)
  note t = quoteDammV2ExactIn_trade [OF assms]
  show ?thesis
  proof (cases "ds_direction p")
    case AtoB
    with damm_sell [OF assms(2) r(1) t(1) [unfolded AtoB]] t(2-4) show ?thesis by simp
  next
    case BtoA
    with damm_buy [OF assms(2) r(1) t(1) [unfolded BtoA]] t(2-4) r show ?thesis by simp
  qed
qed

lemma damm_quote_is_ranged_trade_witness:
  "0 \<le> damm_quote_fees example_damm_buy_quote \<and> (2 :: int) ^ 64 \<le> dq_nextSqrtPrice example_damm_buy_quote"
  using damm_quote_is_ranged_trade [OF example_damm_returns(1)]
  by (simp add: example_damm_def wf_example_pool wf_example_pool_fees) (simp add: example_pool_def)

end
