(* ===== verification/ValidateConfig.thy ===== *)
theory ValidateConfig
  imports CurveMath StockfloorAccounts
begin

text \<open>
  \<^verbatim>\<open>packages/sdk/src/dbc/validateConfig.ts\<close>: the port of the checks DBC runs in \<open>create_config\<close> and the
  values it derives, with every check in the code's order and its error code, and the liveness check
  \<open>assertCurveCanComplete\<close>. The lemmas: every rejection is a \<open>DbcConfigValidationError\<close>, an accepted
  curve is well formed (the hypothesis of the trade engine), the derived amounts add up, and the
  liveness check never fails on an accepted config and returns exactly the threshold.
\<close>

section \<open>Parameters\<close>

text \<open>
  A numeric field: \<open>BigV\<close> is a \<open>BN\<close> or a bigint, \<open>NumV\<close> a number, \<open>MissingV\<close> null or undefined.
\<close>

datatype bn_value = BigV int | NumV jsnum | MissingV

record base_fee_params =
  bfp_cliffFeeNumerator :: bn_value
  bfp_firstFactor :: jsnum
  bfp_secondFactor :: bn_value
  bfp_thirdFactor :: bn_value
  bfp_baseFeeMode :: jsnum

record dynamic_fee_params =
  dfp_binStep :: jsnum
  dfp_binStepU128 :: bn_value
  dfp_filterPeriod :: jsnum
  dfp_decayPeriod :: jsnum
  dfp_reductionFactor :: jsnum
  dfp_variableFeeControl :: jsnum
  dfp_maxVolatilityAccumulator :: jsnum

record liquidity_vesting_params =
  lvp_vestingPercentage :: jsnum
  lvp_bpsPerPeriod :: jsnum
  lvp_numberOfPeriods :: jsnum
  lvp_cliffDurationFromMigrationTime :: jsnum
  lvp_frequency :: jsnum

record locked_vesting_params =
  kvp_amountPerPeriod :: bn_value
  kvp_cliffDurationFromMigrationTime :: bn_value
  kvp_frequency :: bn_value
  kvp_numberOfPeriod :: bn_value
  kvp_cliffUnlockAmount :: bn_value

record migrated_pool_fee_params =
  mpf_collectFeeMode :: jsnum
  mpf_dynamicFee :: jsnum
  mpf_poolFeeBps :: jsnum

record market_cap_scheduler =
  mcs_numberOfPeriod :: jsnum
  mcs_sqrtPriceStepBps :: jsnum
  mcs_schedulerExpirationDuration :: jsnum
  mcs_reductionFactor :: bn_value

record token_supply_params =
  tsp_preMigrationTokenSupply :: bn_value
  tsp_postMigrationTokenSupply :: bn_value

record curve_param =
  crv_sqrtPrice :: bn_value
  crv_liquidity :: bn_value

record config_parameters =
  cfg_baseFee :: base_fee_params
  cfg_dynamicFee :: "dynamic_fee_params option"
  cfg_collectFeeMode :: jsnum
  cfg_migrationOption :: jsnum
  cfg_activationType :: jsnum
  cfg_tokenType :: jsnum
  cfg_tokenDecimal :: jsnum
  cfg_partnerLiquidityPercentage :: jsnum
  cfg_partnerPermanentLockedLiquidityPercentage :: jsnum
  cfg_creatorLiquidityPercentage :: jsnum
  cfg_creatorPermanentLockedLiquidityPercentage :: jsnum
  cfg_migrationQuoteThreshold :: bn_value
  cfg_sqrtStartPrice :: bn_value
  cfg_lockedVesting :: locked_vesting_params
  cfg_migrationFeeOption :: jsnum
  cfg_tokenSupply :: "token_supply_params option"
  cfg_creatorTradingFeePercentage :: jsnum
  cfg_tokenUpdateAuthority :: jsnum
  cfg_migrationFeePercentage :: jsnum
  cfg_creatorMigrationFeePercentage :: jsnum
  cfg_migratedPoolFee :: migrated_pool_fee_params
  cfg_poolCreationFee :: bn_value
  cfg_partnerLiquidityVestingInfo :: liquidity_vesting_params
  cfg_creatorLiquidityVestingInfo :: liquidity_vesting_params
  cfg_migratedPoolBaseFeeMode :: jsnum
  cfg_migratedPoolMarketCapFeeSchedulerParams :: market_cap_scheduler
  cfg_enableFirstSwapWithMinFee :: bool
  cfg_compoundingFeeBps :: jsnum
  cfg_curve :: "curve_param list"

record create_config_result =
  cr_migrationSqrtPrice :: int
  cr_swapBaseAmount :: int
  cr_migrationBaseThreshold :: int
  cr_migrationQuoteAmount :: int
  cr_migrationFee :: int
  cr_partnerMigrationFee :: int
  cr_creatorMigrationFee :: int
  cr_initialBaseSupply :: int
  cr_fixedTokenSupply :: bool
  cr_lockedLiquidityBpsAtDay1 :: int

record validate_config_options =
  vo_leftoverReceiver :: "pubkey option"
  vo_isTransferHook :: bool

section \<open>Reading the fields\<close>

definition cfg_fail :: "string \<Rightarrow> 'a result" where
  "cfg_fail code = Inl (DbcConfigValidationError code)"

definition cfg_require :: "bool \<Rightarrow> string \<Rightarrow> unit result" where
  "cfg_require condition code = (if condition then Inr () else cfg_fail code)"

fun bnToBigInt :: "bn_value \<Rightarrow> int result" where
  "bnToBigInt (BigV i) = Inr i"
| "bnToBigInt (NumV n) =
     (case as_integer n of
        None \<Rightarrow> cfg_fail ''TypeCastFailed''
      | Some i \<Rightarrow> if \<bar>i\<bar> \<le> 2 ^ 53 - 1 then Inr i else cfg_fail ''TypeCastFailed'')"
| "bnToBigInt MissingV = cfg_fail ''TypeCastFailed''"

text \<open>\<open>checkUint\<close> on a bigint, and on a number (anything but an integer counts as \<open>-1\<close>).\<close>

definition checkUint :: "int \<Rightarrow> int \<Rightarrow> int result" where
  "checkUint v maxV = (if v < 0 \<or> v > maxV then cfg_fail ''TypeCastFailed'' else Inr v)"

definition checkUintNumber :: "jsnum \<Rightarrow> int \<Rightarrow> int result" where
  "checkUintNumber value maxV = checkUint (case as_integer value of Some i \<Rightarrow> i | None \<Rightarrow> -1) maxV"

definition u8 :: "jsnum \<Rightarrow> int result" where "u8 v = checkUintNumber v U8_MAX"
definition u16 :: "jsnum \<Rightarrow> int result" where "u16 v = checkUintNumber v U16_MAX"
definition u32 :: "jsnum \<Rightarrow> int result" where "u32 v = checkUintNumber v U32_MAX"
definition u64 :: "bn_value \<Rightarrow> int result" where
  "u64 v = bindE (bnToBigInt v) (\<lambda>i. checkUint i U64_MAX)"
definition u128 :: "bn_value \<Rightarrow> int result" where
  "u128 v = bindE (bnToBigInt v) (\<lambda>i. checkUint i U128_MAX)"

definition isZeroVesting :: "liquidity_vesting_params \<Rightarrow> bool" where
  "isZeroVesting info \<longleftrightarrow>
     lvp_vestingPercentage info = Fin 0 \<and> lvp_bpsPerPeriod info = Fin 0 \<and>
     lvp_numberOfPeriods info = Fin 0 \<and> lvp_cliffDurationFromMigrationTime info = Fin 0 \<and>
     lvp_frequency info = Fin 0"

section \<open>The fee checks\<close>

text \<open>The \<open>catch\<close> around \<open>getFeeInPeriod\<close>: a math error keeps its code, anything else is an overflow.\<close>

definition fee_in_period_checked :: "int \<Rightarrow> int \<Rightarrow> int \<Rightarrow> int result" where
  "fee_in_period_checked cliff reductionFactor numberOfPeriod =
     (case getFeeInPeriod cliff reductionFactor (JsInt numberOfPeriod) of
        Inr v \<Rightarrow> Inr v
      | Inl (DbcMathError code) \<Rightarrow> cfg_fail code
      | Inl _ \<Rightarrow> cfg_fail ''MathOverflow'')"

definition validateBaseFee :: "base_fee_params \<Rightarrow> unit result" where
  "validateBaseFee baseFee =
     bindE (u8 (bfp_baseFeeMode baseFee)) (\<lambda>mode.
     bindE (cfg_require (mode \<noteq> RateLimiter) ''DeprecatedBaseFeeMode'') (\<lambda>_.
     bindE (cfg_require (mode = FeeSchedulerLinear \<or> mode = FeeSchedulerExponential)
              ''InvalidBaseFeeMode'') (\<lambda>_.
     bindE (u64 (bfp_cliffFeeNumerator baseFee)) (\<lambda>cliff.
     bindE (u16 (bfp_firstFactor baseFee)) (\<lambda>numberOfPeriod.
     bindE (u64 (bfp_secondFactor baseFee)) (\<lambda>periodFrequency.
     bindE (u64 (bfp_thirdFactor baseFee)) (\<lambda>reductionFactor.
     bindE (if periodFrequency \<noteq> 0 \<or> numberOfPeriod \<noteq> 0 \<or> reductionFactor \<noteq> 0
            then cfg_require (numberOfPeriod \<noteq> 0 \<and> periodFrequency \<noteq> 0 \<and> reductionFactor \<noteq> 0)
                   ''InvalidFeeScheduler''
            else Inr ()) (\<lambda>_.
     bindE (if mode = FeeSchedulerLinear
            then let minFee = cliff - reductionFactor * numberOfPeriod
                 in bindE (cfg_require (minFee \<ge> 0) ''MathOverflow'') (\<lambda>_. Inr minFee)
            else fee_in_period_checked cliff reductionFactor numberOfPeriod) (\<lambda>minFee.
     bindE (cfg_require (minFee < FEE_DENOMINATOR \<and> cliff < FEE_DENOMINATOR) ''InvalidFee'') (\<lambda>_.
     cfg_require (minFee \<ge> MIN_FEE_NUMERATOR \<and> cliff \<le> MAX_FEE_NUMERATOR) ''ExceedMaxFeeBps''))))))))))"

definition validateDynamicFee :: "dynamic_fee_params \<Rightarrow> unit result" where
  "validateDynamicFee dynamicFee =
     bindE (u16 (dfp_binStep dynamicFee)) (\<lambda>binStep.
     bindE (cfg_require (binStep = BIN_STEP_BPS_DEFAULT) ''InvalidInput'') (\<lambda>_.
     bindE (u128 (dfp_binStepU128 dynamicFee)) (\<lambda>binStepU128.
     bindE (cfg_require (binStepU128 = BIN_STEP_BPS_U128_DEFAULT) ''InvalidInput'') (\<lambda>_.
     bindE (u16 (dfp_filterPeriod dynamicFee)) (\<lambda>filterPeriod.
     bindE (u16 (dfp_decayPeriod dynamicFee)) (\<lambda>decayPeriod.
     bindE (cfg_require (filterPeriod < decayPeriod) ''InvalidInput'') (\<lambda>_.
     bindE (u16 (dfp_reductionFactor dynamicFee)) (\<lambda>reductionFactor.
     bindE (cfg_require (reductionFactor \<le> 10000) ''InvalidInput'') (\<lambda>_.
     bindE (u32 (dfp_variableFeeControl dynamicFee)) (\<lambda>variableFeeControl.
     bindE (cfg_require (variableFeeControl \<le> U24_MAX) ''InvalidInput'') (\<lambda>_.
     bindE (u32 (dfp_maxVolatilityAccumulator dynamicFee)) (\<lambda>maxVolatilityAccumulator.
     cfg_require (maxVolatilityAccumulator \<le> U24_MAX) ''InvalidInput''))))))))))))"

text \<open>The conjunction \<open>schedulerIsZero\<close>: a field is read only when the ones before it are zero.\<close>

definition scheduler_is_zero :: "market_cap_scheduler \<Rightarrow> bool result" where
  "scheduler_is_zero scheduler =
     bindE (u16 (mcs_numberOfPeriod scheduler)) (\<lambda>a. if a \<noteq> 0 then Inr False else
     bindE (u16 (mcs_sqrtPriceStepBps scheduler)) (\<lambda>b. if b \<noteq> 0 then Inr False else
     bindE (u32 (mcs_schedulerExpirationDuration scheduler)) (\<lambda>c. if c \<noteq> 0 then Inr False else
     bindE (u64 (mcs_reductionFactor scheduler)) (\<lambda>d. Inr (d = 0)))))"

definition validateMigratedPoolFee :: "config_parameters \<Rightarrow> unit result" where
  "validateMigratedPoolFee params =
     (let fee = cfg_migratedPoolFee params in
      bindE (u8 (mpf_collectFeeMode fee)) (\<lambda>collectFeeMode.
      bindE (u8 (mpf_dynamicFee fee)) (\<lambda>dynamicFee.
      bindE (u16 (mpf_poolFeeBps fee)) (\<lambda>poolFeeBps.
      bindE (u16 (cfg_compoundingFeeBps params)) (\<lambda>compoundingFeeBps.
      bindE (u8 (cfg_migratedPoolBaseFeeMode params)) (\<lambda>baseFeeMode.
      bindE (scheduler_is_zero (cfg_migratedPoolMarketCapFeeSchedulerParams params)) (\<lambda>schedulerIsZero.
      bindE (u8 (cfg_migrationFeeOption params)) (\<lambda>option.
        if option \<noteq> MigrationFeeOption_Customizable
        then cfg_require (collectFeeMode = 0 \<and> dynamicFee = 0 \<and> poolFeeBps = 0 \<and>
               compoundingFeeBps = 0 \<and> baseFeeMode = 0 \<and> schedulerIsZero) ''InvalidMigratedPoolFee''
        else
          bindE (cfg_require (poolFeeBps \<ge> MIN_MIGRATED_POOL_FEE_BPS \<and> poolFeeBps \<le> MAX_MIGRATED_POOL_FEE_BPS)
                   ''InvalidMigratedPoolFee'') (\<lambda>_.
          bindE (cfg_require (collectFeeMode \<le> Migrated_Compounding) ''InvalidCollectFeeMode'') (\<lambda>_.
          bindE (if collectFeeMode = Migrated_Compounding
                 then cfg_require (compoundingFeeBps > 0 \<and> compoundingFeeBps \<le> DAMM_V2_MAX_BASIS_POINT)
                        ''InvalidMigratedPoolFee''
                 else cfg_require (compoundingFeeBps = 0) ''InvalidMigratedPoolFee'') (\<lambda>_.
          bindE (cfg_require (dynamicFee \<le> 1) ''InvalidMigratedPoolFee'') (\<lambda>_.
          bindE (cfg_require (baseFeeMode \<le> Damm_FeeMarketCapSchedulerExponential) ''TypeCastFailed'') (\<lambda>_.
            if baseFeeMode = Damm_FeeTimeSchedulerLinear \<or> baseFeeMode = Damm_FeeTimeSchedulerExponential
            then cfg_require schedulerIsZero ''InvalidMigratedPoolFee''
            else if baseFeeMode = Damm_FeeMarketCapSchedulerLinear \<or>
                    baseFeeMode = Damm_FeeMarketCapSchedulerExponential
            then cfg_fail ''UnsupportedByPort''
            else cfg_fail ''InvalidMigratedPoolFee'')))))))))))))"

section \<open>ConfigParameters::validate\<close>

text \<open>The values of the parameters that the second half of the check needs.\<close>

record checked_config =
  ck_feePercentage :: int
  ck_creatorFeePercentage :: int
  ck_partnerPermanentLocked :: int
  ck_creatorPermanentLocked :: int
  ck_threshold :: int
  ck_totalVestingAmount :: int
  ck_sqrtStartPrice :: int
  ck_curve :: "curve_point list"

text \<open>The locked vesting block: the total of the vesting schedule.\<close>

definition validateLockedVesting :: "locked_vesting_params \<Rightarrow> int result" where
  "validateLockedVesting lv =
     bindE (u64 (kvp_amountPerPeriod lv)) (\<lambda>amountPerPeriod.
     bindE (u64 (kvp_cliffDurationFromMigrationTime lv)) (\<lambda>cliffDuration.
     bindE (u64 (kvp_frequency lv)) (\<lambda>frequency.
     bindE (u64 (kvp_numberOfPeriod lv)) (\<lambda>numberOfPeriod.
     bindE (u64 (kvp_cliffUnlockAmount lv)) (\<lambda>cliffUnlockAmount.
       let hasVesting = amountPerPeriod \<noteq> 0 \<or> cliffDuration \<noteq> 0 \<or> frequency \<noteq> 0 \<or>
             numberOfPeriod \<noteq> 0 \<or> cliffUnlockAmount \<noteq> 0;
           totalVestingAmount = cliffUnlockAmount + amountPerPeriod * numberOfPeriod
       in bindE (cfg_require (totalVestingAmount \<le> U64_MAX) ''MathOverflow'') (\<lambda>_.
          bindE (if hasVesting
                 then cfg_require (frequency \<noteq> 0 \<and> totalVestingAmount \<noteq> 0) ''InvalidVestingParameters''
                 else Inr ()) (\<lambda>_. Inr totalVestingAmount)))))))"

fun readCurve :: "curve_param list \<Rightarrow> curve_point list result" where
  "readCurve [] = Inr []"
| "readCurve (p # ps) =
     bindE (u128 (crv_sqrtPrice p)) (\<lambda>sqrtPrice.
     bindE (u128 (crv_liquidity p)) (\<lambda>liquidity.
     bindE (readCurve ps) (\<lambda>rest. Inr (\<lparr>cp_sqrtPrice = sqrtPrice, cp_liquidity = liquidity\<rparr> # rest))))"

text \<open>The loop over the points after the first, with the price of the point before.\<close>

fun pointsRise :: "int \<Rightarrow> curve_point list \<Rightarrow> unit result" where
  "pointsRise prev [] = Inr ()"
| "pointsRise prev (p # ps) =
     bindE (cfg_require (cp_sqrtPrice p > prev \<and> cp_liquidity p > 0) ''InvalidCurve'')
       (\<lambda>_. pointsRise (cp_sqrtPrice p) ps)"

definition validateCurve :: "int \<Rightarrow> curve_param list \<Rightarrow> curve_point list result" where
  "validateCurve sqrtStartPrice params =
     bindE (cfg_require (length params > 0 \<and> length params \<le> MAX_CURVE_POINT) ''InvalidCurve'') (\<lambda>_.
     bindE (readCurve params) (\<lambda>curve.
     bindE (cfg_require (cp_sqrtPrice (hd curve) > sqrtStartPrice \<and> cp_liquidity (hd curve) > 0 \<and>
              cp_sqrtPrice (hd curve) \<le> MAX_SQRT_PRICE) ''InvalidCurve'') (\<lambda>_.
     bindE (pointsRise (cp_sqrtPrice (hd curve)) (tl curve)) (\<lambda>_.
     bindE (cfg_require (cp_sqrtPrice (last curve) \<le> MAX_SQRT_PRICE) ''InvalidCurve'') (\<lambda>_.
     Inr curve)))))"

text \<open>The liquidity percentages: their sum must be exactly 100.\<close>

definition validateLiquidity :: "config_parameters \<Rightarrow> (int \<times> int) result" where
  "validateLiquidity params =
     bindE (u8 (cfg_partnerPermanentLockedLiquidityPercentage params)) (\<lambda>partnerPermanentLocked.
     bindE (u8 (cfg_creatorPermanentLockedLiquidityPercentage params)) (\<lambda>creatorPermanentLocked.
     bindE (u8 (cfg_partnerLiquidityPercentage params)) (\<lambda>partner.
     bindE (u8 (cfg_creatorLiquidityPercentage params)) (\<lambda>creator.
     bindE (u8 (lvp_vestingPercentage (cfg_partnerLiquidityVestingInfo params))) (\<lambda>partnerVesting.
     bindE (u8 (lvp_vestingPercentage (cfg_creatorLiquidityVestingInfo params))) (\<lambda>creatorVesting.
       let liquiditySum = partner + partnerPermanentLocked + creator + creatorPermanentLocked +
             partnerVesting + creatorVesting
       in bindE (cfg_require (liquiditySum \<le> 255) ''MathOverflow'') (\<lambda>_.
          bindE (cfg_require (liquiditySum = 100) ''InvalidFeePercentage'') (\<lambda>_.
          Inr (partnerPermanentLocked, creatorPermanentLocked)))))))))"

definition validateParameters :: "config_parameters \<Rightarrow> validate_config_options \<Rightarrow> checked_config result" where
  "validateParameters params options =
     bindE (u8 (cfg_activationType params)) (\<lambda>activationType.
     bindE (cfg_require (activationType \<le> 1) ''TypeCastFailed'') (\<lambda>_.
     bindE (validateBaseFee (cfg_baseFee params)) (\<lambda>_.
     bindE (case cfg_dynamicFee params of None \<Rightarrow> Inr () | Some d \<Rightarrow> validateDynamicFee d) (\<lambda>_.
     bindE (u8 (cfg_creatorTradingFeePercentage params)) (\<lambda>creatorTradingFee.
     bindE (cfg_require (creatorTradingFee \<le> 100) ''InvalidCreatorTradingFeePercentage'') (\<lambda>_.
     bindE (u8 (cfg_migrationFeePercentage params)) (\<lambda>feePercentage.
     bindE (u8 (cfg_creatorMigrationFeePercentage params)) (\<lambda>creatorFeePercentage.
     bindE (cfg_require (feePercentage \<le> MAX_MIGRATION_FEE_PERCENTAGE) ''InvalidMigratorFeePercentage'') (\<lambda>_.
     bindE (if feePercentage = 0
            then cfg_require (creatorFeePercentage = 0) ''InvalidMigratorFeePercentage''
            else cfg_require (creatorFeePercentage \<le> 100) ''InvalidMigratorFeePercentage'') (\<lambda>_.
     bindE (u8 (cfg_collectFeeMode params)) (\<lambda>collectFeeMode.
     bindE (cfg_require (collectFeeMode \<le> CollectFeeMode_OutputToken) ''InvalidCollectFeeMode'') (\<lambda>_.
     bindE (u8 (cfg_migrationOption params)) (\<lambda>migrationOption.
     bindE (cfg_require (migrationOption \<le> MigrationOption_DammV2) ''InvalidMigrationOption'') (\<lambda>_.
     bindE (u8 (cfg_migrationFeeOption params)) (\<lambda>migrationFeeOption.
     bindE (cfg_require (migrationFeeOption \<le> MigrationFeeOption_Customizable) ''InvalidMigrationFeeOption'') (\<lambda>_.
     bindE (u8 (cfg_tokenType params)) (\<lambda>tokenType.
     bindE (cfg_require (tokenType \<le> 1) ''InvalidTokenType'') (\<lambda>_.
     bindE (cfg_require (migrationOption \<noteq> MigrationOption_MeteoraDamm) ''DeprecatedMigrationOption'') (\<lambda>_.
     bindE (validateMigratedPoolFee params) (\<lambda>_.
     bindE (cfg_require (isZeroVesting (cfg_partnerLiquidityVestingInfo params) \<and>
              isZeroVesting (cfg_creatorLiquidityVestingInfo params)) ''UnsupportedByPort'') (\<lambda>_.
     bindE (u8 (cfg_tokenUpdateAuthority params)) (\<lambda>tokenAuthority.
     bindE (cfg_require (tokenAuthority \<le> TokenAuthority_PartnerUpdateAndMint) ''InvalidTokenAuthorityOption'') (\<lambda>_.
     bindE (cfg_require (vo_isTransferHook options \<or>
              \<not> (tokenAuthority = TokenAuthority_CreatorUpdateAndMint \<or>
                 tokenAuthority = TokenAuthority_PartnerUpdateAndMint)) ''InvalidTokenAuthorityOption'') (\<lambda>_.
     bindE (u8 (cfg_tokenDecimal params)) (\<lambda>tokenDecimal.
     bindE (cfg_require (tokenDecimal \<ge> 6 \<and> tokenDecimal \<le> 9) ''InvalidTokenDecimals'') (\<lambda>_.
     bindE (validateLiquidity params) (\<lambda>(partnerPermanentLocked, creatorPermanentLocked).
     bindE (u64 (cfg_migrationQuoteThreshold params)) (\<lambda>threshold.
     bindE (cfg_require (threshold > 0) ''InvalidQuoteThreshold'') (\<lambda>_.
     bindE (validateLockedVesting (cfg_lockedVesting params)) (\<lambda>totalVestingAmount.
     bindE (u64 (cfg_poolCreationFee params)) (\<lambda>poolCreationFee.
     bindE (if poolCreationFee > 0
            then cfg_require (poolCreationFee \<ge> MIN_POOL_CREATION_FEE \<and> poolCreationFee \<le> MAX_POOL_CREATION_FEE)
                   ''InvalidPoolCreationFee''
            else Inr ()) (\<lambda>_.
     bindE (u128 (cfg_sqrtStartPrice params)) (\<lambda>sqrtStartPrice.
     bindE (cfg_require (sqrtStartPrice \<ge> MIN_SQRT_PRICE \<and> sqrtStartPrice < MAX_SQRT_PRICE) ''InvalidCurve'') (\<lambda>_.
     bindE (validateCurve sqrtStartPrice (cfg_curve params)) (\<lambda>curve.
     Inr \<lparr>ck_feePercentage = feePercentage, ck_creatorFeePercentage = creatorFeePercentage,
       ck_partnerPermanentLocked = partnerPermanentLocked, ck_creatorPermanentLocked = creatorPermanentLocked,
       ck_threshold = threshold, ck_totalVestingAmount = totalVestingAmount,
       ck_sqrtStartPrice = sqrtStartPrice, ck_curve = curve\<rparr>)))))))))))))))))))))))))))))))))))"

section \<open>process\_create\_config\<close>

text \<open>The block for pools that compound their fees.\<close>

definition checkCompounding :: "int \<Rightarrow> int \<Rightarrow> int \<Rightarrow> unit result" where
  "checkCompounding migrationSqrtPrice migrationBaseThreshold migrationQuoteAmount =
     bindE (mulDiv migrationBaseThreshold PROTOCOL_LIQUIDITY_MIGRATION_FEE_BPS 10000 False) (\<lambda>baseFee.
     bindE (mulDiv migrationQuoteAmount PROTOCOL_LIQUIDITY_MIGRATION_FEE_BPS 10000 False) (\<lambda>quoteFee.
     bindE (calculateCompoundingInitialSqrtPriceAndLiquidity
              (migrationBaseThreshold - baseFee) (migrationQuoteAmount - quoteFee)) (\<lambda>res.
     case res of
       None \<Rightarrow> cfg_fail ''MathOverflow''
     | Some info \<Rightarrow>
         bindE (cfg_require (ci_sqrtPrice info \<ge> MIN_SQRT_PRICE \<and> ci_sqrtPrice info \<le> MAX_SQRT_PRICE)
                  ''InvalidCompoundingParameters'') (\<lambda>_.
         bindE (cfg_require (ci_liquidity info > DAMM_V2_COMPOUNDING_DEAD_LIQUIDITY)
                  ''InsufficientLiquidityForMigration'') (\<lambda>_.
         let diff = (if migrationSqrtPrice > ci_sqrtPrice info
                     then migrationSqrtPrice - ci_sqrtPrice info
                     else ci_sqrtPrice info - migrationSqrtPrice);
             largest = (if migrationSqrtPrice > ci_sqrtPrice info then migrationSqrtPrice else ci_sqrtPrice info)
         in cfg_require (diff * 100 \<le> largest) ''InvalidCurve'')))))"

text \<open>The token supply block: the initial base supply and whether the supply is fixed.\<close>

definition initialSupply ::
  "config_parameters \<Rightarrow> validate_config_options \<Rightarrow> int \<Rightarrow> int \<Rightarrow> int \<Rightarrow> int \<Rightarrow> (int \<times> bool) result" where
  "initialSupply params options swapBaseAmount swapAmountWithBuffer migrationBaseThreshold totalVestingAmount =
     (case cfg_tokenSupply params of
        Some supply \<Rightarrow>
          bindE (u64 (tsp_preMigrationTokenSupply supply)) (\<lambda>pre.
          bindE (u64 (tsp_postMigrationTokenSupply supply)) (\<lambda>post.
            let minWithBuffer = swapAmountWithBuffer + migrationBaseThreshold + totalVestingAmount;
                minWithoutBuffer = swapBaseAmount + migrationBaseThreshold + totalVestingAmount
            in bindE (cfg_require (minWithBuffer \<le> U64_MAX) ''MathOverflow'') (\<lambda>_.
               bindE (cfg_require (vo_leftoverReceiver options \<noteq> None \<and>
                        vo_leftoverReceiver options \<noteq> Some PublicKey_default) ''InvalidLeftoverAddress'') (\<lambda>_.
               bindE (cfg_require (minWithoutBuffer \<le> post \<and> post \<le> pre \<and> minWithBuffer \<le> pre)
                        ''InvalidTokenSupply'') (\<lambda>_. Inr (pre, True))))))
      | None \<Rightarrow>
          let initialBaseSupply = swapAmountWithBuffer + migrationBaseThreshold + totalVestingAmount
          in bindE (cfg_require (initialBaseSupply \<le> U64_MAX) ''MathOverflow'')
               (\<lambda>_. Inr (initialBaseSupply, False)))"

definition processCreateConfig ::
  "config_parameters \<Rightarrow> validate_config_options \<Rightarrow> checked_config \<Rightarrow> create_config_result result" where
  "processCreateConfig params options ck =
     (let curve = ck_curve ck; sqrtStartPrice = ck_sqrtStartPrice ck; threshold = ck_threshold ck;
          compounding = (mpf_collectFeeMode (cfg_migratedPoolFee params) = JsInt Migrated_Compounding) in
      bindE (getMigrationThresholdPrice threshold sqrtStartPrice curve) (\<lambda>migrationSqrtPrice.
      bindE (cfg_require (migrationSqrtPrice < MAX_SQRT_PRICE) ''InvalidCurve'') (\<lambda>_.
      bindE (getBaseTokenForSwap sqrtStartPrice migrationSqrtPrice curve) (\<lambda>swapBaseAmount.
      bindE (cfg_require (swapBaseAmount \<le> U64_MAX) ''TypeCastFailed'') (\<lambda>_.
      bindE (getMigrationQuoteAmount threshold (ck_feePercentage ck)) (\<lambda>q.
      bindE (if compounding
             then getConstantProductBaseFromQuote (mq_quoteAmount q) migrationSqrtPrice
             else getConcentratedMigrationBaseAmount (mq_quoteAmount q) migrationSqrtPrice)
        (\<lambda>migrationBaseThreshold.
      bindE (cfg_require (migrationBaseThreshold > 0 \<and> swapBaseAmount > 0) ''InvalidCurve'') (\<lambda>_.
      bindE (if compounding then checkCompounding migrationSqrtPrice migrationBaseThreshold (mq_quoteAmount q)
             else Inr ()) (\<lambda>_.
      bindE (getSwapAmountWithBuffer swapBaseAmount sqrtStartPrice curve) (\<lambda>swapAmountWithBuffer.
      bindE (initialSupply params options swapBaseAmount swapAmountWithBuffer migrationBaseThreshold
               (ck_totalVestingAmount ck)) (\<lambda>(initialBaseSupply, fixedTokenSupply).
      let lockedLiquidityBpsAtDay1 = ck_partnerPermanentLocked ck * 100 + ck_creatorPermanentLocked ck * 100
      in bindE (cfg_require (lockedLiquidityBpsAtDay1 \<ge> MIN_LOCKED_LIQUIDITY_BPS)
                  ''InvalidMigrationLockedLiquidity'') (\<lambda>_.
         bindE (getMigrationFeeDistribution threshold (ck_feePercentage ck) (ck_creatorFeePercentage ck)) (\<lambda>d.
         Inr \<lparr>cr_migrationSqrtPrice = migrationSqrtPrice, cr_swapBaseAmount = swapBaseAmount,
           cr_migrationBaseThreshold = migrationBaseThreshold, cr_migrationQuoteAmount = mq_quoteAmount q,
           cr_migrationFee = mq_fee q, cr_partnerMigrationFee = mf_partner d,
           cr_creatorMigrationFee = mf_creator d, cr_initialBaseSupply = initialBaseSupply,
           cr_fixedTokenSupply = fixedTokenSupply,
           cr_lockedLiquidityBpsAtDay1 = lockedLiquidityBpsAtDay1\<rparr>)))))))))))))"

text \<open>The \<open>catch\<close> of \<open>validateDbcConfigParams\<close>: a math error becomes a validation error of the same code.\<close>

fun catch_math :: "'a result \<Rightarrow> 'a result" where
  "catch_math (Inl (DbcMathError code)) = Inl (DbcConfigValidationError code)"
| "catch_math m = m"

definition validateDbcConfigParams ::
  "config_parameters \<Rightarrow> validate_config_options \<Rightarrow> create_config_result result" where
  "validateDbcConfigParams params options =
     bindE (validateParameters params options) (\<lambda>ck. catch_math (processCreateConfig params options ck))"

section \<open>The liveness check\<close>

text \<open>The loop of \<open>assertCurveCanComplete\<close>; the \<open>break\<close> is the branch that stops at the migration price.\<close>

fun completeLoop :: "curve_param list \<Rightarrow> int \<Rightarrow> int \<Rightarrow> int \<Rightarrow> int result" where
  "completeLoop [] migrationSqrtPrice current quote = Inr quote"
| "completeLoop (p # ps) migrationSqrtPrice current quote =
     bindE (bnToBigInt (crv_sqrtPrice p)) (\<lambda>upper.
     bindE (bnToBigInt (crv_liquidity p)) (\<lambda>liquidity.
       let target = (if upper < migrationSqrtPrice then upper else migrationSqrtPrice)
       in bindE (if target > current
                 then bindE (getDeltaAmountQuote current target liquidity True)
                        (\<lambda>d. Inr (quote + d, target))
                 else Inr (quote, current)) (\<lambda>(quote', current').
            if current' \<ge> migrationSqrtPrice then Inr quote'
            else completeLoop ps migrationSqrtPrice current' quote')))"

definition assertCurveCanComplete :: "config_parameters \<Rightarrow> int \<Rightarrow> int result" where
  "assertCurveCanComplete params migrationSqrtPrice =
     bindE (bnToBigInt (cfg_migrationQuoteThreshold params)) (\<lambda>threshold.
     bindE (bnToBigInt (cfg_sqrtStartPrice params)) (\<lambda>current.
     bindE (completeLoop (cfg_curve params) migrationSqrtPrice current 0) (\<lambda>quote.
     bindE (cfg_require (quote \<ge> threshold) ''CurveCannotComplete'') (\<lambda>_. Inr quote))))"

section \<open>Reading fields: facts\<close>

lemma cfg_require_simps [simp]:
  "cfg_require c code = Inr u \<longleftrightarrow> c"
  "cfg_require c code = Inl e \<longleftrightarrow> \<not> c \<and> e = DbcConfigValidationError code"
  "cfg_require True code = Inr ()"
  "cfg_fail code \<noteq> (Inr y :: 'a result)"
  by (auto simp: cfg_require_def cfg_fail_def)

lemma checkUint_eq_Inr [simp]: "checkUint v m = Inr w \<longleftrightarrow> w = v \<and> 0 \<le> v \<and> v \<le> m"
  by (auto simp: checkUint_def)

lemma u64_eq_Inr [simp]: "u64 v = Inr i \<longleftrightarrow> bnToBigInt v = Inr i \<and> 0 \<le> i \<and> i \<le> U64_MAX"
  by (auto simp: u64_def result_simps)

lemma u128_eq_Inr [simp]: "u128 v = Inr i \<longleftrightarrow> bnToBigInt v = Inr i \<and> 0 \<le> i \<and> i \<le> U128_MAX"
  by (auto simp: u128_def result_simps)

lemma checkUintNumber_eq_Inr [simp]:
  "0 \<le> m \<Longrightarrow> checkUintNumber n m = Inr i \<longleftrightarrow> n = JsInt i \<and> 0 \<le> i \<and> i \<le> m"
  by (auto simp: checkUintNumber_def split: option.splits)

lemma u8_eq_Inr [simp]: "u8 n = Inr i \<longleftrightarrow> n = JsInt i \<and> 0 \<le> i \<and> i \<le> 255"
  and u16_eq_Inr [simp]: "u16 n = Inr i \<longleftrightarrow> n = JsInt i \<and> 0 \<le> i \<and> i \<le> 65535"
  and u32_eq_Inr [simp]: "u32 n = Inr i \<longleftrightarrow> n = JsInt i \<and> 0 \<le> i \<and> i \<le> 4294967295"
  by (simp_all add: u8_def u16_def u32_def bounds_defs)

section \<open>Which errors a check can raise\<close>

definition errors_in :: "(js_error \<Rightarrow> bool) \<Rightarrow> 'a result \<Rightarrow> bool" where
  "errors_in E m \<longleftrightarrow> (\<forall>e. m = Inl e \<longrightarrow> E e)"

fun config_error :: "js_error \<Rightarrow> bool" where
  "config_error (DbcConfigValidationError code) = True"
| "config_error e = False"

fun coded_error :: "js_error \<Rightarrow> bool" where
  "coded_error (DbcConfigValidationError code) = True"
| "coded_error (DbcMathError code) = True"
| "coded_error e = False"

named_theorems errors_intros \<open>which errors an operation raises\<close>

lemma errors_in_Inr [errors_intros]: "errors_in E (Inr x)"
  by (simp add: errors_in_def)

lemma errors_in_Inl [errors_intros]: "E e \<Longrightarrow> errors_in E (Inl e)"
  by (simp add: errors_in_def)

lemma errors_in_bindE [errors_intros]:
  "errors_in E m \<Longrightarrow> (\<And>x. m = Inr x \<Longrightarrow> errors_in E (f x)) \<Longrightarrow> errors_in E (bindE m f)"
  by (auto simp: errors_in_def result_simps)

lemma errors_in_if [errors_intros]:
  "(c \<Longrightarrow> errors_in E m) \<Longrightarrow> (\<not> c \<Longrightarrow> errors_in E m') \<Longrightarrow> errors_in E (if c then m else m')"
  by simp

lemma errors_in_option [errors_intros]:
  "(x = None \<Longrightarrow> errors_in E m) \<Longrightarrow> (\<And>y. x = Some y \<Longrightarrow> errors_in E (f y)) \<Longrightarrow>
    errors_in E (case x of None \<Rightarrow> m | Some y \<Rightarrow> f y)"
  by (simp split: option.split)

lemma errors_in_prod [errors_intros]:
  "(\<And>a b. p = (a, b) \<Longrightarrow> errors_in E (f a b)) \<Longrightarrow> errors_in E (case p of (a, b) \<Rightarrow> f a b)"
  by (simp split: prod.split)

lemma errors_in_cfg_fail [errors_intros]:
  "errors_in config_error (cfg_fail code)" "errors_in coded_error (cfg_fail code)"
  by (simp_all add: errors_in_def cfg_fail_def)

lemma errors_in_cfg_require [errors_intros]:
  "errors_in config_error (cfg_require c code)" "errors_in coded_error (cfg_require c code)"
  by (simp_all add: errors_in_def)

lemma config_error_coded: "config_error e \<Longrightarrow> coded_error e"
  by (cases e) simp_all

lemma errors_in_coded: "errors_in config_error m \<Longrightarrow> errors_in coded_error m"
  by (auto simp: errors_in_def config_error_coded)

lemma errors_in_checkUint [errors_intros]: "errors_in config_error (checkUint v m)"
  by (simp add: checkUint_def errors_intros)

lemma errors_in_bnToBigInt [errors_intros]: "errors_in config_error (bnToBigInt v)"
  by (cases v) (auto simp: errors_intros split: option.split)

lemma errors_in_reads [errors_intros]:
  "errors_in config_error (u8 n)" "errors_in config_error (u16 n)" "errors_in config_error (u32 n)"
  "errors_in config_error (u64 v)" "errors_in config_error (u128 v)"
  by (simp_all add: u8_def u16_def u32_def u64_def u128_def checkUintNumber_def errors_intros)

lemma errors_in_validateBaseFee [errors_intros]: "errors_in config_error (validateBaseFee b)"
  unfolding validateBaseFee_def Let_def fee_in_period_checked_def
  by (intro errors_intros) (auto simp: errors_in_def cfg_fail_def split: sum.splits js_error.splits)

lemma errors_in_validateDynamicFee [errors_intros]: "errors_in config_error (validateDynamicFee d)"
  unfolding validateDynamicFee_def by (intro errors_intros)

lemma errors_in_validateMigratedPoolFee [errors_intros]:
  "errors_in config_error (validateMigratedPoolFee params)"
  unfolding validateMigratedPoolFee_def scheduler_is_zero_def Let_def by (intro errors_intros)

lemma errors_in_validateLockedVesting [errors_intros]:
  "errors_in config_error (validateLockedVesting lv)"
  unfolding validateLockedVesting_def Let_def by (intro errors_intros)

lemma errors_in_readCurve [errors_intros]: "errors_in config_error (readCurve ps)"
  by (induction ps) (simp, intro errors_intros, simp, intro errors_intros)

lemma errors_in_pointsRise [errors_intros]: "errors_in config_error (pointsRise lo ps)"
  by (induction lo ps rule: pointsRise.induct) (simp_all, (intro errors_intros | simp)+)

lemma errors_in_validateCurve [errors_intros]: "errors_in config_error (validateCurve s ps)"
  unfolding validateCurve_def by (intro errors_intros)

lemma errors_in_validateLiquidity [errors_intros]: "errors_in config_error (validateLiquidity params)"
  unfolding validateLiquidity_def Let_def by (intro errors_intros)

lemma errors_in_validateParameters: "errors_in config_error (validateParameters params options)"
  unfolding validateParameters_def by (intro errors_intros)

text \<open>The curve math raises math errors only, where the square root is not taken of a negative number.\<close>

lemma errors_in_assert64 [errors_intros]: "errors_in coded_error (assertU64 v)"
  by (simp add: assertU64_def errors_intros)

lemma errors_in_mulDiv [errors_intros]: "errors_in coded_error (mulDiv x y d u)"
  unfolding mulDiv_def Let_def by (auto intro!: errors_intros)

lemma errors_in_divCeil [errors_intros]: "errors_in coded_error (divCeil a b)"
  unfolding divCeil_def by (auto intro!: errors_intros)

lemma errors_in_deltaBase [errors_intros]: "errors_in coded_error (getDeltaAmountBase lo hi L u)"
  unfolding getDeltaAmountBase_def Let_def by (auto intro!: errors_intros)

lemma errors_in_deltaQuote [errors_intros]: "errors_in coded_error (getDeltaAmountQuote lo hi L u)"
  unfolding getDeltaAmountQuote_def Let_def by (auto intro!: errors_intros)

lemma errors_in_nextPrice [errors_intros]:
  "errors_in coded_error (getNextSqrtPriceFromQuoteAmountIn s L a)"
  unfolding getNextSqrtPriceFromQuoteAmountIn_def Let_def by (auto intro!: errors_intros)

lemma errors_in_thresholdLoop [errors_intros]: "errors_in coded_error (thresholdLoop ps a s)"
  by (induction ps a s rule: thresholdLoop.induct) (auto intro!: errors_intros)

lemma errors_in_thresholdPrice [errors_intros]:
  "errors_in coded_error (getMigrationThresholdPrice T s ps)"
  unfolding getMigrationThresholdPrice_def by (cases ps) (auto intro!: errors_intros)

lemma errors_in_baseForSwapLoop [errors_intros]: "errors_in coded_error (baseForSwapLoop lo p ps acc)"
  by (induction lo p ps acc rule: baseForSwapLoop.induct) (auto intro!: errors_intros)

lemma errors_in_baseForSwap [errors_intros]: "errors_in coded_error (getBaseTokenForSwap s p ps)"
  unfolding getBaseTokenForSwap_def by (intro errors_intros)

lemma errors_in_migrationAmounts [errors_intros]:
  "errors_in coded_error (getMigrationQuoteAmount T pct)"
  "errors_in coded_error (getMigrationFeeDistribution T pct cpct)"
  "errors_in coded_error (getConcentratedMigrationBaseAmount q p)"
  "errors_in coded_error (getConstantProductBaseFromQuote q p)"
  "errors_in coded_error (getSwapAmountWithBuffer b s ps)"
  unfolding getMigrationQuoteAmount_def getMigrationFeeDistribution_def
    getConcentratedMigrationBaseAmount_def getInitialLiquidityFromDeltaQuote_def
    getConstantProductBaseFromQuote_def getSwapAmountWithBuffer_def Let_def
  by (auto intro!: errors_intros)

lemma errors_in_isqrt: "0 \<le> n \<Longrightarrow> errors_in E (isqrt n)"
  using isqrt_ex [of n] by (auto simp: errors_in_def)

lemma errors_in_compoundingInfo:
  assumes "0 \<le> a" "0 \<le> b"
  shows "errors_in coded_error (calculateCompoundingInitialSqrtPriceAndLiquidity a b)"
proof (cases "a = 0")
  case False
  with assms have "divCeil (b * 2 ^ 128) a = Inr ((b * 2 ^ 128 + a - 1) div a)" by (simp add: divCeil_eq)
  moreover have "0 \<le> (b * 2 ^ 128 + a - 1) div a" "0 \<le> (b * 2 ^ 128) sdiv a"
    using assms False by (simp_all add: pos_imp_zdiv_nonneg_iff)
  ultimately show ?thesis
    unfolding calculateCompoundingInitialSqrtPriceAndLiquidity_def Let_def
    by (auto intro!: errors_intros errors_in_isqrt)
qed (simp add: calculateCompoundingInitialSqrtPriceAndLiquidity_def errors_intros)

lemma errors_in_checkCompounding:
  assumes "0 \<le> base" "0 \<le> quote"
  shows "errors_in coded_error (checkCompounding p base quote)"
proof -
  have fee: "mulDiv x 20 10000 False = Inr f \<Longrightarrow> f \<le> x" if "0 \<le> x" for x f
    using mulDiv.share_le [of x 20 10000 False f] that by simp
  show ?thesis
    unfolding checkCompounding_def Let_def
    by (intro errors_intros errors_in_compoundingInfo) (use fee assms in simp_all)
qed

lemma errors_in_initialSupply [errors_intros]:
  "errors_in coded_error (initialSupply params options b bb mb tv)"
  by (rule errors_in_coded, unfold initialSupply_def Let_def) (intro errors_intros)

lemma migrationQuote_nonneg: "getMigrationQuoteAmount T pct = Inr q \<Longrightarrow> 0 \<le> mq_quoteAmount q"
  by (auto simp: getMigrationQuoteAmount_def result_simps)

lemma errors_in_processCreateConfig: "errors_in coded_error (processCreateConfig params options ck)"
  unfolding processCreateConfig_def Let_def
  by (intro errors_intros errors_in_checkCompounding) (auto dest: migrationQuote_nonneg)

lemma errors_in_catch_math: "errors_in coded_error m \<Longrightarrow> errors_in config_error (catch_math m)"
  unfolding errors_in_def by (cases m rule: catch_math.cases) auto

section \<open>Accepted curves are well formed\<close>

lemma readCurve_length: "readCurve ps = Inr curve \<Longrightarrow> length curve = length ps"
  by (induction ps arbitrary: curve) (auto simp: result_simps)

lemma readCurve_u128:
  "readCurve ps = Inr curve \<Longrightarrow> pt \<in> set curve \<Longrightarrow> 0 \<le> cp_sqrtPrice pt \<and> cp_liquidity pt \<le> U128_MAX"
  by (induction ps arbitrary: curve) (auto simp: result_simps)

lemma pointsRise_wf:
  "pointsRise lo ps = Inr () \<Longrightarrow> lo \<le> MAX_SQRT_PRICE \<Longrightarrow> ps \<noteq> [] \<longrightarrow> cp_sqrtPrice (last ps) \<le> MAX_SQRT_PRICE \<Longrightarrow>
    \<forall>pt \<in> set ps. cp_liquidity pt \<le> U128_MAX \<Longrightarrow> wf_curve lo ps \<and> lo \<le> lastPrice lo ps \<and> lastPrice lo ps \<le> MAX_SQRT_PRICE"
proof (induction lo ps rule: pointsRise.induct)
  case (2 lo p ps)
  then have rise: "lo < cp_sqrtPrice p" "0 < cp_liquidity p" "pointsRise (cp_sqrtPrice p) ps = Inr ()"
    by (auto simp: result_simps)
  show ?case
  proof (cases "ps = []")
    case False
    have le: "pointsRise lo ps = Inr () \<Longrightarrow> ps \<noteq> [] \<Longrightarrow> lo \<le> cp_sqrtPrice (last ps)" for lo ps
      by (induction lo ps rule: pointsRise.induct) (force simp: result_simps)+
    from le [OF rise(3) False] "2.prems" False have "cp_sqrtPrice p \<le> MAX_SQRT_PRICE" by simp
    with "2.IH" rise "2.prems" False show ?thesis by auto
  qed (use rise 2 in auto)
qed simp

lemma validateCurve_accepts:
  assumes "validateCurve s ps = Inr curve"
  shows "readCurve ps = Inr curve" "curve \<noteq> []" "length curve \<le> MAX_CURVE_POINT" "wf_curve s curve"
proof -
  from assms have len: "0 < length ps" "length ps \<le> MAX_CURVE_POINT" and read: "readCurve ps = Inr curve"
    and first: "s < cp_sqrtPrice (hd curve)" "0 < cp_liquidity (hd curve)" "cp_sqrtPrice (hd curve) \<le> MAX_SQRT_PRICE"
    and rise: "pointsRise (cp_sqrtPrice (hd curve)) (tl curve) = Inr ()"
    and final: "cp_sqrtPrice (last curve) \<le> MAX_SQRT_PRICE"
    by (auto simp: validateCurve_def result_simps)
  show "readCurve ps = Inr curve" "curve \<noteq> []" "length curve \<le> MAX_CURVE_POINT"
    using readCurve_length [OF read] len read by auto
  then obtain pt pts where c: "curve = pt # pts" by (cases curve) simp_all
  have "wf_curve (cp_sqrtPrice pt) pts"
    using pointsRise_wf [of "cp_sqrtPrice pt" pts] rise first final readCurve_u128 [OF read]
    by (cases "pts = []") (auto simp: c)
  then show "wf_curve s curve" using first readCurve_u128 [OF read] by (simp add: c)
qed

section \<open>The liveness check\<close>

lemma completeLoop_eq:
  "readCurve ps = Inr curve \<Longrightarrow> wf_curve current curve \<Longrightarrow>
    completeLoop ps p current quote = Inr (quote + curveQuoteTo current curve p)"
proof (induction ps p current quote arbitrary: curve rule: completeLoop.induct)
  case (2 pt ps p current quote)
  then obtain P L rest where read: "bnToBigInt (crv_sqrtPrice pt) = Inr P" "bnToBigInt (crv_liquidity pt) = Inr L"
      "readCurve ps = Inr rest"
    and c: "curve = \<lparr>cp_sqrtPrice = P, cp_liquidity = L\<rparr> # rest"
    by (auto simp: result_simps)
  with 2 have wf: "current < P" "0 \<le> L" "wf_curve P rest" by simp_all
  consider "p \<le> current" | "current < p" "p \<le> P" | "P < p" by linarith
  then show ?case
  proof cases
    case 1 with wf show ?thesis by (simp add: read c Let_def)
  next
    case 2 with wf show ?thesis by (simp add: read c Let_def getDeltaAmountQuote_eq)
  next
    case 3
    with wf have "completeLoop ps p P (quote + quote_up L current P) =
        Inr (quote + quote_up L current P + curveQuoteTo P rest p)"
      using "2.IH" [OF read(1,2) refl, of "(quote + quote_up L current P, P)"
          "quote + quote_up L current P" P rest] read(3)
      by (simp add: getDeltaAmountQuote_eq)
    with 3 wf show ?thesis by (simp add: read c Let_def getDeltaAmountQuote_eq)
  qed
qed simp

section \<open>What an accepted config satisfies\<close>

lemma creatorFee_bound:
  "(if f = 0 then cfg_require (c = 0) e else cfg_require (c \<le> 100) e) = Inr u \<longleftrightarrow>
    (if f = (0::int) then c = 0 else c \<le> (100::int))"
  by simp

lemma validateParameters_accepts:
  assumes "validateParameters params options = Inr ck"
  obtains "bnToBigInt (cfg_migrationQuoteThreshold params) = Inr (ck_threshold ck)"
    "0 < ck_threshold ck" "ck_threshold ck \<le> U64_MAX"
    "bnToBigInt (cfg_sqrtStartPrice params) = Inr (ck_sqrtStartPrice ck)"
    "MIN_SQRT_PRICE \<le> ck_sqrtStartPrice ck" "ck_sqrtStartPrice ck < MAX_SQRT_PRICE"
    "validateCurve (ck_sqrtStartPrice ck) (cfg_curve params) = Inr (ck_curve ck)"
    "cfg_migrationFeePercentage params = JsInt (ck_feePercentage ck)"
    "0 \<le> ck_feePercentage ck" "ck_feePercentage ck \<le> 99"
    "cfg_creatorMigrationFeePercentage params = JsInt (ck_creatorFeePercentage ck)"
    "0 \<le> ck_creatorFeePercentage ck"
    "if ck_feePercentage ck = 0 then ck_creatorFeePercentage ck = 0 else ck_creatorFeePercentage ck \<le> 100"
    "validateLockedVesting (cfg_lockedVesting params) = Inr (ck_totalVestingAmount ck)"
  using assms unfolding validateParameters_def
  by (simp only: bindE_eq_Inr split_paired_Ex prod.case cfg_require_simps(1) sum.inject
      u8_eq_Inr u64_eq_Inr u128_eq_Inr creatorFee_bound)
    (elim exE conjE, hypsubst, rule that,
      simp_all only: checked_config.simps MAX_MIGRATION_FEE_PERCENTAGE_def)

lemma lockedVesting_nonneg: "validateLockedVesting lv = Inr t \<Longrightarrow> 0 \<le> t"
  by (auto simp: validateLockedVesting_def result_simps Let_def)

lemma catch_math_Inr [simp]: "catch_math m = Inr r \<longleftrightarrow> m = Inr r"
  by (cases m rule: catch_math.cases) auto

lemma processCreateConfig_accepts:
  assumes "processCreateConfig params options ck = Inr r"
  obtains q d b where
    "getMigrationThresholdPrice (ck_threshold ck) (ck_sqrtStartPrice ck) (ck_curve ck) = Inr (cr_migrationSqrtPrice r)"
    "cr_migrationSqrtPrice r < MAX_SQRT_PRICE"
    "getBaseTokenForSwap (ck_sqrtStartPrice ck) (cr_migrationSqrtPrice r) (ck_curve ck) = Inr (cr_swapBaseAmount r)"
    "getMigrationQuoteAmount (ck_threshold ck) (ck_feePercentage ck) = Inr q"
    "mq_quoteAmount q = cr_migrationQuoteAmount r" "mq_fee q = cr_migrationFee r"
    "0 < cr_migrationBaseThreshold r" "0 < cr_swapBaseAmount r"
    "getSwapAmountWithBuffer (cr_swapBaseAmount r) (ck_sqrtStartPrice ck) (ck_curve ck) = Inr b"
    "initialSupply params options (cr_swapBaseAmount r) b (cr_migrationBaseThreshold r) (ck_totalVestingAmount ck) =
      Inr (cr_initialBaseSupply r, cr_fixedTokenSupply r)"
    "1000 \<le> cr_lockedLiquidityBpsAtDay1 r"
    "getMigrationFeeDistribution (ck_threshold ck) (ck_feePercentage ck) (ck_creatorFeePercentage ck) = Inr d"
    "mf_partner d = cr_partnerMigrationFee r" "mf_creator d = cr_creatorMigrationFee r"
  using assms unfolding processCreateConfig_def Let_def
  by (simp only: bindE_eq_Inr split_paired_Ex prod.case cfg_require_simps(1) sum.inject)
    (elim exE conjE, hypsubst, rule that,
      simp_all only: create_config_result.simps MIN_LOCKED_LIQUIDITY_BPS_def)

lemma initialSupply_accepts:
  assumes "initialSupply params options b bb mb tv = Inr (s, fixed)"
  shows "s \<le> U64_MAX" "fixed \<longleftrightarrow> cfg_tokenSupply params \<noteq> None" "bb + mb + tv \<le> s"
    "\<not> fixed \<Longrightarrow> s = bb + mb + tv"
  using assms by (auto simp: initialSupply_def result_simps Let_def split: option.splits)

lemma accepted_config:
  assumes "validateDbcConfigParams params options = Inr r"
  obtains ck where "validateParameters params options = Inr ck" "processCreateConfig params options ck = Inr r"
  using assms by (auto simp: validateDbcConfigParams_def result_simps)

lemma accepted_price:
  assumes "validateDbcConfigParams params options = Inr r"
  obtains T s0 curve where
    "bnToBigInt (cfg_migrationQuoteThreshold params) = Inr T" "0 < T" "T \<le> U64_MAX"
    "bnToBigInt (cfg_sqrtStartPrice params) = Inr s0" "MIN_SQRT_PRICE \<le> s0"
    "readCurve (cfg_curve params) = Inr curve" "curve \<noteq> []" "length curve \<le> MAX_CURVE_POINT"
    "wf_curve s0 curve" "curveQuoteTo s0 curve (cr_migrationSqrtPrice r) = T"
    "s0 < cr_migrationSqrtPrice r" "cr_migrationSqrtPrice r \<le> lastPrice s0 curve"
    "cr_migrationSqrtPrice r < MAX_SQRT_PRICE"
proof -
  obtain ck where ck: "validateParameters params options = Inr ck" "processCreateConfig params options ck = Inr r"
    using assms by (rule accepted_config)
  show thesis
  proof (rule validateParameters_accepts [OF ck(1)], rule processCreateConfig_accepts [OF ck(2)])
    fix q d b
    assume T: "bnToBigInt (cfg_migrationQuoteThreshold params) = Inr (ck_threshold ck)"
        "0 < ck_threshold ck" "ck_threshold ck \<le> U64_MAX"
      and s0: "bnToBigInt (cfg_sqrtStartPrice params) = Inr (ck_sqrtStartPrice ck)"
        "MIN_SQRT_PRICE \<le> ck_sqrtStartPrice ck"
      and curve: "validateCurve (ck_sqrtStartPrice ck) (cfg_curve params) = Inr (ck_curve ck)"
      and price: "getMigrationThresholdPrice (ck_threshold ck) (ck_sqrtStartPrice ck) (ck_curve ck) =
        Inr (cr_migrationSqrtPrice r)" "cr_migrationSqrtPrice r < MAX_SQRT_PRICE"
    note c = validateCurve_accepts [OF curve]
    note p = threshold_price_sound [OF c(4) less_imp_le [OF T(2)] price(1)]
    have "cr_migrationSqrtPrice r \<noteq> ck_sqrtStartPrice ck"
      using p(3) T(2) curveQuoteTo_at_start [of "ck_sqrtStartPrice ck" "ck_sqrtStartPrice ck"] by auto
    with p(1) have "ck_sqrtStartPrice ck < cr_migrationSqrtPrice r" by simp
    with T s0 c p price(2) show thesis by (intro that)
  qed
qed

lemma accepted_amounts:
  assumes "validateDbcConfigParams params options = Inr r"
  obtains T pct cpct where
    "bnToBigInt (cfg_migrationQuoteThreshold params) = Inr T" "0 < T" "T \<le> U64_MAX"
    "cfg_migrationFeePercentage params = JsInt pct" "0 \<le> pct" "pct \<le> 99"
    "cfg_creatorMigrationFeePercentage params = JsInt cpct"
    "cr_creatorMigrationFee r = cr_migrationFee r * cpct div 100"
    "cr_partnerMigrationFee r + cr_creatorMigrationFee r = cr_migrationFee r"
    "cr_migrationQuoteAmount r + cr_partnerMigrationFee r + cr_creatorMigrationFee r = T"
    "cr_migrationFee r = T * pct div 100" "0 \<le> cr_partnerMigrationFee r" "0 \<le> cr_creatorMigrationFee r"
    "cr_swapBaseAmount r + cr_migrationBaseThreshold r \<le> cr_initialBaseSupply r"
    "cr_initialBaseSupply r \<le> U64_MAX" "1000 \<le> cr_lockedLiquidityBpsAtDay1 r"
proof -
  obtain ck where ck: "validateParameters params options = Inr ck" "processCreateConfig params options ck = Inr r"
    using assms by (rule accepted_config)
  let ?T = "ck_threshold ck" and ?pct = "ck_feePercentage ck" and ?c = "ck_creatorFeePercentage ck"
  show thesis
  proof (rule validateParameters_accepts [OF ck(1)], rule processCreateConfig_accepts [OF ck(2)])
    fix q d b
    assume T: "bnToBigInt (cfg_migrationQuoteThreshold params) = Inr ?T" "0 < ?T" "?T \<le> U64_MAX"
      and s0: "MIN_SQRT_PRICE \<le> ck_sqrtStartPrice ck"
      and curve: "validateCurve (ck_sqrtStartPrice ck) (cfg_curve params) = Inr (ck_curve ck)"
      and pct: "cfg_migrationFeePercentage params = JsInt ?pct" "0 \<le> ?pct" "?pct \<le> 99" "0 \<le> ?c"
        "cfg_creatorMigrationFeePercentage params = JsInt ?c"
        "if ?pct = 0 then ?c = 0 else ?c \<le> 100"
      and lv: "validateLockedVesting (cfg_lockedVesting params) = Inr (ck_totalVestingAmount ck)"
      and price: "getMigrationThresholdPrice ?T (ck_sqrtStartPrice ck) (ck_curve ck) =
        Inr (cr_migrationSqrtPrice r)" "cr_migrationSqrtPrice r < MAX_SQRT_PRICE"
      and base: "getBaseTokenForSwap (ck_sqrtStartPrice ck) (cr_migrationSqrtPrice r) (ck_curve ck) =
        Inr (cr_swapBaseAmount r)"
      and q: "getMigrationQuoteAmount ?T ?pct = Inr q" "mq_quoteAmount q = cr_migrationQuoteAmount r"
        "mq_fee q = cr_migrationFee r"
      and buf: "getSwapAmountWithBuffer (cr_swapBaseAmount r) (ck_sqrtStartPrice ck) (ck_curve ck) = Inr b"
      and sup: "initialSupply params options (cr_swapBaseAmount r) b (cr_migrationBaseThreshold r)
        (ck_totalVestingAmount ck) = Inr (cr_initialBaseSupply r, cr_fixedTokenSupply r)"
      and lock: "1000 \<le> cr_lockedLiquidityBpsAtDay1 r"
      and d: "getMigrationFeeDistribution ?T ?pct ?c = Inr d"
        "mf_partner d = cr_partnerMigrationFee r" "mf_creator d = cr_creatorMigrationFee r"
    note c = validateCurve_accepts [OF curve]
    have "?c \<le> 100" using pct(6) by (simp split: if_splits)
    then have dist: "mf_partner d + mf_creator d = ?T * ?pct div 100" "0 \<le> mf_partner d" "0 \<le> mf_creator d"
      "mf_creator d = (?T * ?pct div 100) * ?c div 100"
      using migration_fee_distribution_conserves [of ?T ?pct ?c] T pct d(1) by auto
    have quote: "mq_quoteAmount q + mq_fee q = ?T" "mq_fee q = ?T * ?pct div 100"
      using getMigrationQuoteAmount_spec [of ?T ?pct] T pct q(1) by auto
    have "ck_sqrtStartPrice ck \<le> cr_migrationSqrtPrice r"
      by (rule threshold_price_sound [OF c(4) less_imp_le [OF T(2)] price(1)])
    then have "cr_swapBaseAmount r \<le> b"
      using swap_buffer_covers(1) [OF c(4) _ _ _ base buf] s0 price(2) by (simp add: less_le_trans [OF bounds_nonneg(4)])
    with initialSupply_accepts [OF sup] lockedVesting_nonneg [OF lv]
    have "cr_swapBaseAmount r + cr_migrationBaseThreshold r \<le> cr_initialBaseSupply r"
      "cr_initialBaseSupply r \<le> U64_MAX" by linarith+
    with T pct quote dist q d lock show thesis by (intro that [of ?T ?pct ?c]) (assumption | linarith | simp)+
  qed
qed

section \<open>Example\<close>

definition example_vesting :: liquidity_vesting_params where
  "example_vesting = \<lparr>lvp_vestingPercentage = Fin 0, lvp_bpsPerPeriod = Fin 0, lvp_numberOfPeriods = Fin 0,
     lvp_cliffDurationFromMigrationTime = Fin 0, lvp_frequency = Fin 0\<rparr>"

text \<open>A two-point curve with a fee scheduler, 100\% of the liquidity locked and a 60\% migration fee.\<close>

definition example_params :: config_parameters where
  "example_params = \<lparr>
     cfg_baseFee = \<lparr>bfp_cliffFeeNumerator = BigV 2500000, bfp_firstFactor = Fin 0, bfp_secondFactor = BigV 0,
       bfp_thirdFactor = BigV 0, bfp_baseFeeMode = Fin 0\<rparr>,
     cfg_dynamicFee = None, cfg_collectFeeMode = Fin 0, cfg_migrationOption = Fin 1,
     cfg_activationType = Fin 1, cfg_tokenType = Fin 0, cfg_tokenDecimal = Fin 6,
     cfg_partnerLiquidityPercentage = Fin 0, cfg_partnerPermanentLockedLiquidityPercentage = Fin 100,
     cfg_creatorLiquidityPercentage = Fin 0, cfg_creatorPermanentLockedLiquidityPercentage = Fin 0,
     cfg_migrationQuoteThreshold = BigV 3000000000, cfg_sqrtStartPrice = BigV (2 ^ 64),
     cfg_lockedVesting = \<lparr>kvp_amountPerPeriod = BigV 0, kvp_cliffDurationFromMigrationTime = BigV 0,
       kvp_frequency = BigV 0, kvp_numberOfPeriod = BigV 0, kvp_cliffUnlockAmount = BigV 0\<rparr>,
     cfg_migrationFeeOption = Fin 6, cfg_tokenSupply = None, cfg_creatorTradingFeePercentage = Fin 0,
     cfg_tokenUpdateAuthority = Fin 1, cfg_migrationFeePercentage = Fin 60,
     cfg_creatorMigrationFeePercentage = Fin 0,
     cfg_migratedPoolFee = \<lparr>mpf_collectFeeMode = Fin 0, mpf_dynamicFee = Fin 0, mpf_poolFeeBps = Fin 100\<rparr>,
     cfg_poolCreationFee = BigV 0, cfg_partnerLiquidityVestingInfo = example_vesting,
     cfg_creatorLiquidityVestingInfo = example_vesting, cfg_migratedPoolBaseFeeMode = Fin 0,
     cfg_migratedPoolMarketCapFeeSchedulerParams = \<lparr>mcs_numberOfPeriod = Fin 0, mcs_sqrtPriceStepBps = Fin 0,
       mcs_schedulerExpirationDuration = Fin 0, mcs_reductionFactor = BigV 0\<rparr>,
     cfg_enableFirstSwapWithMinFee = False, cfg_compoundingFeeBps = Fin 0,
     cfg_curve = [\<lparr>crv_sqrtPrice = BigV (2 ^ 65), crv_liquidity = BigV (2000000000 * 2 ^ 64)\<rparr>,
       \<lparr>crv_sqrtPrice = BigV (2 ^ 66), crv_liquidity = BigV (4000000000 * 2 ^ 64)\<rparr>]\<rparr>"

definition no_options :: validate_config_options where
  "no_options = \<lparr>vo_leftoverReceiver = None, vo_isTransferHook = False\<rparr>"

definition example_result :: create_config_result where
  "example_result = \<lparr>cr_migrationSqrtPrice = 41505174165846491136, cr_swapBaseAmount = 1222222223,
     cr_migrationBaseThreshold = 237037037, cr_migrationQuoteAmount = 1200000000,
     cr_migrationFee = 1800000000, cr_partnerMigrationFee = 1800000000, cr_creatorMigrationFee = 0,
     cr_initialBaseSupply = 1764814815, cr_fixedTokenSupply = False, cr_lockedLiquidityBpsAtDay1 = 10000\<rparr>"

lemma validate_example: "validateDbcConfigParams example_params no_options = Inr example_result"
  by code_simp

section \<open>Properties\<close>

text \<open>
  C24: The liveness check never rejects a config that \<open>validateDbcConfigParams\<close> accepted: pushing the
  price from the start to the migration price takes exactly the threshold, each segment rounded up as
  a swap rounds it, so the curve always completes.
\<close>

theorem accepted_curve_completes:
  assumes "validateDbcConfigParams params options = Inr r"
  shows "\<exists>T. bnToBigInt (cfg_migrationQuoteThreshold params) = Inr T \<and> 0 < T \<and>
    assertCurveCanComplete params (cr_migrationSqrtPrice r) = Inr T"
  using assms by (rule accepted_price) (auto simp: assertCurveCanComplete_def completeLoop_eq)

lemma accepted_curve_completes_witness:
  "\<exists>T. bnToBigInt (cfg_migrationQuoteThreshold example_params) = Inr T \<and> 0 < T \<and>
    assertCurveCanComplete example_params 41505174165846491136 = Inr T"
  using accepted_curve_completes [OF validate_example] by (simp add: example_result_def)

text \<open>
  The amounts of an accepted config add up: the migrated quote and the two migration fees are the
  threshold, the whole fee is the configured percentage of it rounded down, the base minted at pool
  creation covers the base sold on the curve and the base reserved for the migrated pool, and at least
  10\% of the liquidity stays locked.
\<close>

theorem accepted_amounts_add_up:
  assumes "validateDbcConfigParams params options = Inr r"
  shows "\<exists>T pct. bnToBigInt (cfg_migrationQuoteThreshold params) = Inr T \<and>
    cfg_migrationFeePercentage params = JsInt pct \<and>
    cr_migrationQuoteAmount r + cr_partnerMigrationFee r + cr_creatorMigrationFee r = T \<and>
    cr_migrationFee r = T * pct div 100 \<and>
    0 \<le> cr_partnerMigrationFee r \<and> 0 \<le> cr_creatorMigrationFee r \<and>
    cr_swapBaseAmount r + cr_migrationBaseThreshold r \<le> cr_initialBaseSupply r \<and>
    cr_initialBaseSupply r \<le> U64_MAX \<and> 1000 \<le> cr_lockedLiquidityBpsAtDay1 r"
  using assms by (rule accepted_amounts) blast

lemma accepted_amounts_add_up_witness:
  "\<exists>T pct. bnToBigInt (cfg_migrationQuoteThreshold example_params) = Inr T \<and>
    cfg_migrationFeePercentage example_params = JsInt pct \<and>
    1200000000 + 1800000000 + 0 = T \<and> 1800000000 = T * pct div 100"
  using accepted_amounts_add_up [OF validate_example] unfolding example_result_def
    create_config_result.simps by blast

text \<open>
  C35: Every rejection of \<open>validateDbcConfigParams\<close> is a \<open>DbcConfigValidationError\<close>: the errors of the
  curve math, of its square roots and of the width checks never escape under another class.
\<close>

theorem rejections_are_validation_errors:
  assumes "validateDbcConfigParams params options = Inl e"
  shows "\<exists>code. e = DbcConfigValidationError code"
proof -
  have "errors_in config_error (validateDbcConfigParams params options)"
    unfolding validateDbcConfigParams_def
    by (intro errors_in_bindE errors_in_validateParameters errors_in_catch_math errors_in_processCreateConfig)
  with assms have "config_error e" by (simp add: errors_in_def)
  then show ?thesis by (cases e) auto
qed

lemma rejections_are_validation_errors_witness:
  "validateDbcConfigParams (example_params \<lparr>cfg_migrationQuoteThreshold := BigV 30000000000\<rparr>) no_options =
      Inl (DbcConfigValidationError ''NotEnoughLiquidity'') \<and>
    (\<exists>code. DbcConfigValidationError ''NotEnoughLiquidity'' = DbcConfigValidationError code)"
proof -
  have r: "validateDbcConfigParams (example_params \<lparr>cfg_migrationQuoteThreshold := BigV 30000000000\<rparr>) no_options =
      Inl (DbcConfigValidationError ''NotEnoughLiquidity'')" by code_simp
  with rejections_are_validation_errors [OF r] show ?thesis by blast
qed

end
