(* ===== verification/ValidateLaunch.thy ===== *)
theory ValidateLaunch
  imports ValidateConfig FloorMath
begin

text \<open>
  \<^verbatim>\<open>packages/sdk/src/stockfloor/validateLaunch.ts\<close>: the port of the program's launch config checks, in
  the code's order with its error names, and the vault's part of the migration fee. The lemmas: the
  partner's migration fee here is the one the DBC config derives, the vault receives its share of the
  threshold up to two raw units, and a config that passes fixes every parameter of the launch terms.
\<close>

definition MIN_MIGRATION_FEE_PERCENTAGE :: int where [simp]: "MIN_MIGRATION_FEE_PERCENTAGE = 40"
definition LAUNCH_MAX_MIGRATION_FEE_PERCENTAGE :: int where
  [simp]: "LAUNCH_MAX_MIGRATION_FEE_PERCENTAGE = 70"
definition MAX_CREATOR_TRADING_FEE_PERCENTAGE :: int where [simp]: "MAX_CREATOR_TRADING_FEE_PERCENTAGE = 0"
definition MAX_CURVE_FEE_NUMERATOR :: int where [simp]: "MAX_CURVE_FEE_NUMERATOR = 200000000"
definition REQUIRED_MIGRATED_POOL_FEE_BPS :: int where [simp]: "REQUIRED_MIGRATED_POOL_FEE_BPS = 100"
definition DBC_MIGRATION_FEE_OPTION_CUSTOMIZABLE :: int where
  [simp]: "DBC_MIGRATION_FEE_OPTION_CUSTOMIZABLE = 6"
definition MAX_EXIT_FEE_BPS_ONCHAIN :: int where [simp]: "MAX_EXIT_FEE_BPS_ONCHAIN = 500"

record validate_launch_options =
  lo_claimer :: "pubkey option"
  lo_feeClaimer :: "pubkey option"
  lo_leftoverReceiver :: "pubkey option"
  lo_configQuoteMint :: "pubkey option"
  lo_quoteMint :: "pubkey option"
  lo_exitFeeBps :: "jsnum option"

text \<open>\<open>BigInt(v.toString())\<close>: an integer below \<open>1e21\<close> prints as its digits; other numbers do not parse.\<close>

fun big :: "bn_value \<Rightarrow> int result" where
  "big (BigV i) = Inr i"
| "big (NumV n) = (case as_integer n of
      Some i \<Rightarrow> if \<bar>i\<bar> < 10 ^ 21 then Inr i else Inl (GenericError ''SyntaxError'')
    | None \<Rightarrow> Inl (GenericError ''SyntaxError''))"
| "big MissingV = Inl (GenericError ''TypeError'')"

definition isZero :: "bn_value \<Rightarrow> bool result" where
  "isZero v = bindE (big v) (\<lambda>i. Inr (i = 0))"

text \<open>\<open>values.some((x) => !isZero(x))\<close>, and the same disjunction written out.\<close>

fun some_nonzero :: "bn_value list \<Rightarrow> bool result" where
  "some_nonzero [] = Inr False"
| "some_nonzero (x # xs) = bindE (isZero x) (\<lambda>z. if \<not> z then Inr True else some_nonzero xs)"

text \<open>\<open>BigInt(n)\<close> of a number.\<close>

definition BigInt :: "jsnum \<Rightarrow> int result" where
  "BigInt n = (case as_integer n of Some i \<Rightarrow> Inr i | None \<Rightarrow> Inl (RangeError ''not an integer''))"

text \<open>\<open>100 - n\<close> on numbers; exact where the code needs it, between 40 and 100.\<close>

fun hundred_minus :: "jsnum \<Rightarrow> jsnum" where
  "hundred_minus (Fin q) = Fin (100 - q)"
| "hundred_minus Infinity = NegInfinity"
| "hundred_minus NegInfinity = Infinity"
| "hundred_minus NaN = NaN"

definition partnerMigrationFee :: "int \<Rightarrow> jsnum \<Rightarrow> int result" where
  "partnerMigrationFee thresholdRaw migrationFeePercentage =
     bindE (BigInt (hundred_minus migrationFeePercentage)) (\<lambda>rest.
       Inr (thresholdRaw - (thresholdRaw * rest + 99) sdiv 100))"

definition vaultAtGraduation :: "int \<Rightarrow> jsnum \<Rightarrow> int result" where
  "vaultAtGraduation thresholdRaw migrationFeePercentage =
     bindE (partnerMigrationFee thresholdRaw migrationFeePercentage) (\<lambda>fee.
     bindE (graduationSplit thresholdRaw fee) (\<lambda>s. Inr (fs_vault s)))"

definition js_less :: "jsnum \<Rightarrow> jsnum \<Rightarrow> bool" where
  "js_less a b \<longleftrightarrow> js_ge b a \<and> a \<noteq> b"

definition launch_require :: "bool \<Rightarrow> string \<Rightarrow> unit result" where
  "launch_require ok code = check ok (LaunchConfigError code)"

definition both_differ :: "pubkey option \<Rightarrow> pubkey option \<Rightarrow> bool" where
  "both_differ a b \<longleftrightarrow> a \<noteq> None \<and> b \<noteq> None \<and> a \<noteq> b"

definition lvp_values :: "liquidity_vesting_params \<Rightarrow> bn_value list" where
  "lvp_values v = [NumV (lvp_vestingPercentage v), NumV (lvp_bpsPerPeriod v), NumV (lvp_numberOfPeriods v),
     NumV (lvp_cliffDurationFromMigrationTime v), NumV (lvp_frequency v)]"

definition mcs_values :: "market_cap_scheduler \<Rightarrow> bn_value list" where
  "mcs_values mc = [NumV (mcs_numberOfPeriod mc), NumV (mcs_sqrtPriceStepBps mc),
     NumV (mcs_schedulerExpirationDuration mc), mcs_reductionFactor mc]"

definition validateLaunchConfigParams :: "config_parameters \<Rightarrow> validate_launch_options \<Rightarrow> unit result" where
  "validateLaunchConfigParams params opts =
     bindE (launch_require (case lo_exitFeeBps opts of None \<Rightarrow> True
              | Some b \<Rightarrow> \<not> (js_less b (Fin 0) \<or> js_less (JsInt MAX_EXIT_FEE_BPS_ONCHAIN) b)) ''ExitFeeTooHigh'') (\<lambda>_.
     bindE (launch_require (\<not> both_differ (lo_configQuoteMint opts) (lo_quoteMint opts)) ''QuoteMintMismatch'') (\<lambda>_.
     bindE (launch_require (\<not> both_differ (lo_claimer opts) (lo_feeClaimer opts)) ''FeeClaimerMismatch'') (\<lambda>_.
     bindE (launch_require (\<not> both_differ (lo_claimer opts) (lo_leftoverReceiver opts))
              ''LeftoverReceiverMismatch'') (\<lambda>_.
     let mf = cfg_migrationFeePercentage params in
     bindE (launch_require (cfg_creatorMigrationFeePercentage params = Fin 0) ''CreatorMigrationFeeNotZero'') (\<lambda>_.
     bindE (launch_require (js_ge mf (JsInt MIN_MIGRATION_FEE_PERCENTAGE) \<and>
              js_ge (JsInt LAUNCH_MAX_MIGRATION_FEE_PERCENTAGE) mf) ''MigrationFeePercentageOutOfRange'') (\<lambda>_.
     bindE (big (cfg_migrationQuoteThreshold params)) (\<lambda>threshold.
     bindE (vaultAtGraduation threshold mf) (\<lambda>vault.
     bindE (launch_require (vault \<noteq> 0) ''MigrationQuoteThresholdTooSmall'') (\<lambda>_.
     bindE (launch_require (cfg_partnerPermanentLockedLiquidityPercentage params = Fin 100 \<and>
              cfg_partnerLiquidityPercentage params = Fin 0 \<and>
              cfg_creatorPermanentLockedLiquidityPercentage params = Fin 0 \<and>
              cfg_creatorLiquidityPercentage params = Fin 0) ''LiquidityNotFullyPartnerLocked'') (\<lambda>_.
     bindE (some_nonzero (lvp_values (cfg_partnerLiquidityVestingInfo params))) (\<lambda>nz1.
     bindE (launch_require (\<not> nz1) ''LiquidityVestingNotAllowed'') (\<lambda>_.
     bindE (some_nonzero (lvp_values (cfg_creatorLiquidityVestingInfo params))) (\<lambda>nz2.
     bindE (launch_require (\<not> nz2) ''LiquidityVestingNotAllowed'') (\<lambda>_.
     let lv = cfg_lockedVesting params in
     bindE (some_nonzero [kvp_amountPerPeriod lv, kvp_cliffUnlockAmount lv, kvp_numberOfPeriod lv]) (\<lambda>nz3.
     bindE (launch_require (\<not> nz3) ''LockedVestingNotAllowed'') (\<lambda>_.
     bindE (launch_require (cfg_collectFeeMode params = Fin 0) ''CollectFeeModeNotQuote'') (\<lambda>_.
     bindE (launch_require (cfg_migrationOption params = Fin 1) ''MigrationOptionNotDammV2'') (\<lambda>_.
     bindE (launch_require (cfg_tokenType params = Fin 0) ''BaseTokenTypeNotSplToken'') (\<lambda>_.
     bindE (launch_require (cfg_tokenSupply params = None) ''FixedTokenSupplyNotAllowed'') (\<lambda>_.
     bindE (launch_require (\<not> js_less (JsInt MAX_CREATOR_TRADING_FEE_PERCENTAGE)
              (cfg_creatorTradingFeePercentage params)) ''CreatorTradingFeeTooHigh'') (\<lambda>_.
     let bf = cfg_baseFee params in
     bindE (launch_require (\<not> js_less (Fin 1) (bfp_baseFeeMode bf)) ''CurveFeeTooHigh'') (\<lambda>_.
     bindE (big (bfp_cliffFeeNumerator bf)) (\<lambda>cliff.
     bindE (launch_require (\<not> cliff > MAX_CURVE_FEE_NUMERATOR) ''CurveFeeTooHigh'') (\<lambda>_.
     bindE (launch_require (cfg_dynamicFee params = None) ''DynamicFeeNotAllowed'') (\<lambda>_.
     bindE (launch_require (mpf_collectFeeMode (cfg_migratedPoolFee params) = Fin 0)
              ''MigratedCollectFeeModeNotQuote'') (\<lambda>_.
     bindE (launch_require (cfg_migrationFeeOption params = JsInt DBC_MIGRATION_FEE_OPTION_CUSTOMIZABLE \<and>
              mpf_poolFeeBps (cfg_migratedPoolFee params) = JsInt REQUIRED_MIGRATED_POOL_FEE_BPS \<and>
              cfg_migratedPoolBaseFeeMode params = Fin 0 \<and>
              cfg_compoundingFeeBps params = Fin 0) ''MigratedPoolFeeInvalid'') (\<lambda>_.
     bindE (some_nonzero (mcs_values (cfg_migratedPoolMarketCapFeeSchedulerParams params))) (\<lambda>nz4.
     bindE (launch_require (\<not> nz4) ''MigratedPoolFeeInvalid'') (\<lambda>_.
     bindE (launch_require (mpf_dynamicFee (cfg_migratedPoolFee params) = Fin 0)
              ''MigratedDynamicFeeNotAllowed'') (\<lambda>_.
     bindE (launch_require (\<not> cfg_enableFirstSwapWithMinFee params) ''FirstSwapWithMinFeeNotAllowed'') (\<lambda>_.
     bindE (launch_require (cfg_tokenUpdateAuthority params = Fin 1) ''TokenUpdateAuthorityNotImmutable'') (\<lambda>_.
     bindE (isZero (cfg_poolCreationFee params)) (\<lambda>zero.
     launch_require zero ''PoolCreationFeeNotZero'')))))))))))))))))))))))))))))))))"

section \<open>The migration fee and the vault's part\<close>

lemma fee_floor: "T - (T * (100 - p) + 99) div 100 = T * p div 100" for T p :: int
proof -
  let ?m = "(T * (100 - p) + 99) div 100"
  have m: "T * (100 - p) \<le> ?m * 100" "(?m - 1) * 100 < T * (100 - p)"
    using ceil_div_bounds [of 100 "T * (100 - p)"] by simp_all
  show ?thesis by (rule floor_div_unique [symmetric]) (use m in \<open>simp_all add: algebra_simps\<close>)
qed

lemma partnerMigrationFee_eq:
  assumes "0 \<le> T" "p \<le> 100"
  shows "partnerMigrationFee T (JsInt p) = Inr (T * p div 100)"
proof -
  have "hundred_minus (JsInt p) = JsInt (100 - p)" by simp
  then have "BigInt (hundred_minus (JsInt p)) = Inr (100 - p)" by (simp only: BigInt_def as_integer_JsInt option.case)
  moreover have "(T * (100 - p) + 99) sdiv 100 = (T * (100 - p) + 99) div 100"
    using assms by (intro sdiv_eq_div) simp_all
  ultimately show ?thesis by (simp add: partnerMigrationFee_def fee_floor)
qed

text \<open>With a fee of at least 10\% both cuts are paid in full and the vault gets the rest.\<close>

lemma graduationSplit_of_fee:
  assumes T: "0 \<le> T" "T \<le> U64_MAX" and p: "10 \<le> p" "p \<le> 100"
  defines "F \<equiv> T * p div 100"
  obtains s where "graduationSplit T F = Inr s" "fs_platform s = T div 20" "fs_creator s = T div 20"
    "fs_vault s = F - 2 * (T div 20)" "T * (p - 10) div 100 \<le> fs_vault s"
    "fs_vault s \<le> T * (p - 10) div 100 + 2"
proof -
  define c where "c = T div 20"
  define q where "q = T * (p - 10) div 100"
  have cut: "bpsFloor T 500 = c"
  proof -
    have "T * 500 div 10000 = T div 20" using div_mult_mult2 [of 500 T 20] by simp
    with T show ?thesis by (simp add: bpsFloor_bounds(3) c_def)
  qed
  have c: "20 * c \<le> T" "T < 20 * c + 20" "0 \<le> c"
    using floor_div_bounds [of 20 T] T by (simp_all add: c_def)
  have F: "100 * F \<le> T * p" "T * p < 100 * F + 100"
    using floor_div_bounds [of 100 "T * p"] by (simp_all add: F_def mult.commute)
  have q: "100 * q \<le> T * p - 10 * T" "T * p - 10 * T < 100 * q + 100"
    using floor_div_bounds [of 100 "T * (p - 10)"] by (simp_all add: q_def right_diff_distrib mult.commute)
  have "0 \<le> T * (p - 10)" using T p by simp
  then have q0: "0 \<le> q" by (simp add: q_def pos_imp_zdiv_nonneg_iff)
  from c(1) F(2) q(1) have v1: "q \<le> F - 2 * c" by linarith
  from c(2) F(1) q(2) have v2: "F - 2 * c \<le> q + 2" by linarith
  have "T * p \<le> T * 100" using T p by (simp add: mult_left_mono)
  with F(1) have "F \<le> T" by linarith
  with v1 q0 c have r: "0 \<le> F" "F \<le> U64_MAX" "c \<le> F" "c \<le> F - c" using T by linarith+
  have "U64_MAX_BIG = U64_MAX" by (simp add: U64_MAX_BIG_def U64_MAX_def)
  with T r have "graduationSplit T F = Inr \<lparr>fs_platform = c, fs_creator = c, fs_vault = F - c - c\<rparr>"
    by (simp add: graduationSplit_def assertU64_range_def cut check_def)
  then show thesis by (rule that) (use v1 v2 in \<open>simp_all add: c_def q_def\<close>)
qed

lemma vaultAtGraduation_bounds:
  assumes "0 \<le> T" "T \<le> U64_MAX" "10 \<le> p" "p \<le> 100"
  obtains v where "vaultAtGraduation T (JsInt p) = Inr v" "v = T * p div 100 - 2 * (T div 20)"
    "T * (p - 10) div 100 \<le> v" "v \<le> T * (p - 10) div 100 + 2"
proof -
  obtain s where "graduationSplit T (T * p div 100) = Inr s" "fs_vault s = T * p div 100 - 2 * (T div 20)"
    "T * (p - 10) div 100 \<le> fs_vault s" "fs_vault s \<le> T * (p - 10) div 100 + 2"
    using assms by (rule graduationSplit_of_fee)
  with assms show thesis by (intro that [of "fs_vault s"]) (simp_all add: vaultAtGraduation_def partnerMigrationFee_eq)
qed

section \<open>What a launchable config satisfies\<close>

lemma launch_require_simps [simp]:
  "launch_require c code = Inr u \<longleftrightarrow> c"
  "launch_require True code = Inr ()"
  by (simp_all add: launch_require_def)

lemma js_ge_Fin [simp]: "js_ge n (Fin b) \<longleftrightarrow> n = Infinity \<or> (\<exists>a. n = Fin a \<and> b \<le> a)"
  "js_ge (Fin b) n \<longleftrightarrow> n = NegInfinity \<or> (\<exists>a. n = Fin a \<and> a \<le> b)"
  by (cases n; simp)+

lemma launch_terms:
  assumes "validateLaunchConfigParams params opts = Inr u"
  obtains T v where
    "cfg_creatorMigrationFeePercentage params = Fin 0"
    "js_ge (cfg_migrationFeePercentage params) (Fin 40)" "js_ge (Fin 70) (cfg_migrationFeePercentage params)"
    "big (cfg_migrationQuoteThreshold params) = Inr T"
    "vaultAtGraduation T (cfg_migrationFeePercentage params) = Inr v" "v \<noteq> 0"
    "cfg_collectFeeMode params = Fin 0" "cfg_tokenSupply params = None" "cfg_dynamicFee params = None"
    "cfg_tokenUpdateAuthority params = Fin 1"
    "cfg_partnerPermanentLockedLiquidityPercentage params = Fin 100"
  using assms unfolding validateLaunchConfigParams_def Let_def
  by (simp only: bindE_eq_Inr launch_require_simps(1) MIN_MIGRATION_FEE_PERCENTAGE_def
      LAUNCH_MAX_MIGRATION_FEE_PERCENTAGE_def of_int_numeral)
    (elim exE conjE, rule that, assumption+)

lemma big_of_bnToBigInt: "bnToBigInt v = Inr i \<Longrightarrow> big v = Inr i"
  by (cases v) (auto split: option.splits if_splits)

section \<open>Properties\<close>

definition no_launch_options :: validate_launch_options where
  "no_launch_options = \<lparr>lo_claimer = None, lo_feeClaimer = None, lo_leftoverReceiver = None,
     lo_configQuoteMint = None, lo_quoteMint = None, lo_exitFeeBps = Some (Fin 200)\<rparr>"

text \<open>
  A config accepted both by DBC's validation and by the launch validation splits its whole
  threshold: the migrated quote, the platform's and the creator's 5\% and the vault's part are the
  threshold; nothing goes to the creator's DBC share; the vault is positive and is its share of the
  threshold up to two raw units; and the fee this module computes is the one DBC derives.
\<close>

theorem launch_config_splits_threshold:
  assumes "validateDbcConfigParams params options = Inr r"
    and "validateLaunchConfigParams params opts = Inr u"
  shows "\<exists>T pct s. bnToBigInt (cfg_migrationQuoteThreshold params) = Inr T \<and>
    cfg_migrationFeePercentage params = JsInt pct \<and> 40 \<le> pct \<and> pct \<le> 70 \<and>
    partnerMigrationFee T (JsInt pct) = Inr (cr_partnerMigrationFee r) \<and> cr_creatorMigrationFee r = 0 \<and>
    graduationSplit T (cr_partnerMigrationFee r) = Inr s \<and>
    cr_migrationQuoteAmount r + fs_platform s + fs_creator s + fs_vault s = T \<and>
    fs_platform s = T div 20 \<and> fs_creator s = T div 20 \<and> 0 < fs_vault s \<and>
    T * (pct - 10) div 100 \<le> fs_vault s \<and> fs_vault s \<le> T * (pct - 10) div 100 + 2"
proof -
  obtain T v where terms: "cfg_creatorMigrationFeePercentage params = Fin 0"
      "js_ge (cfg_migrationFeePercentage params) (Fin 40)" "js_ge (Fin 70) (cfg_migrationFeePercentage params)"
      "big (cfg_migrationQuoteThreshold params) = Inr T"
      "vaultAtGraduation T (cfg_migrationFeePercentage params) = Inr v" "v \<noteq> 0"
    using assms(2) by (rule launch_terms) (rule that, assumption+)
  obtain T' pct cpct where am: "bnToBigInt (cfg_migrationQuoteThreshold params) = Inr T'" "0 < T'" "T' \<le> U64_MAX"
      "cfg_migrationFeePercentage params = JsInt pct" "0 \<le> pct"
      "cfg_creatorMigrationFeePercentage params = JsInt cpct"
      "cr_creatorMigrationFee r = cr_migrationFee r * cpct div 100"
      "cr_migrationQuoteAmount r + cr_partnerMigrationFee r + cr_creatorMigrationFee r = T'"
      "cr_migrationFee r = T' * pct div 100"
      "cr_partnerMigrationFee r + cr_creatorMigrationFee r = cr_migrationFee r"
    using assms(1) by (rule accepted_amounts) (rule that, assumption+)
  have T: "T' = T" using terms(4) big_of_bnToBigInt [OF am(1)] by simp
  have pct: "40 \<le> pct" "pct \<le> 70" using terms(2,3) by (simp_all add: am(4))
  have cpct: "cpct = 0" using terms(1) by (simp add: am(6))
  with am have creator: "cr_creatorMigrationFee r = 0" by simp
  with am(9,10) have F: "cr_partnerMigrationFee r = T * pct div 100" by (simp add: T)
  have T0: "0 \<le> T" "T \<le> U64_MAX" "10 \<le> pct" "pct \<le> 100" using am pct by (simp_all add: T)
  obtain s where s: "graduationSplit T (T * pct div 100) = Inr s" "fs_platform s = T div 20" "fs_creator s = T div 20"
      "fs_vault s = T * pct div 100 - 2 * (T div 20)" "T * (pct - 10) div 100 \<le> fs_vault s"
      "fs_vault s \<le> T * (pct - 10) div 100 + 2"
    using T0 by (rule graduationSplit_of_fee)
  have "v = fs_vault s" using terms(5) s(1) T0 by (simp add: am(4) vaultAtGraduation_def partnerMigrationFee_eq)
  moreover have "0 \<le> fs_vault s" using graduation_split.parts [OF s(1)] by simp
  ultimately have "0 < fs_vault s" using terms(6) by simp
  moreover have "cr_migrationQuoteAmount r + fs_platform s + fs_creator s + fs_vault s = T"
    using graduation_split.conserves [OF s(1)] am(8) creator F by (simp add: T)
  ultimately show ?thesis
    using s F creator pct am(1,4) T T0 partnerMigrationFee_eq [of T pct] by auto
qed

lemma launch_config_splits_threshold_witness:
  "\<exists>s. graduationSplit 3000000000 1800000000 = Inr s \<and>
    1200000000 + fs_platform s + fs_creator s + fs_vault s = 3000000000 \<and> 0 < fs_vault s"
proof -
  have v: "validateLaunchConfigParams example_params no_launch_options = Inr ()" by code_simp
  have "bnToBigInt (cfg_migrationQuoteThreshold example_params) = Inr 3000000000" by code_simp
  with launch_config_splits_threshold [OF validate_example v] show ?thesis
    by (auto simp: example_result_def)
qed

end
