(* ===== verification/Allowlist.thy ===== *)
theory Allowlist
  imports FloorMath
begin

text \<open>
  \<^verbatim>\<open>packages/sdk/src/allowlist.ts\<close>: the table of quote assets and the lookups over it. The lemmas: the
  lookup by mint or symbol finds every asset by either name and nothing outside the table.
\<close>

datatype volatility = Calm | Volatile

record quote_asset =
  qa_symbol :: string
  qa_name :: string
  qa_mint :: string
  qa_decimals :: jsnum
  qa_volatility :: volatility
  qa_underlying :: string

definition QUOTE_ALLOWLIST :: "quote_asset list" where
  "QUOTE_ALLOWLIST = [
     \<lparr>qa_symbol = ''SPYx'', qa_name = ''SP500 xStock'', qa_mint = ''XsoCS1TfEyfFhfvj8EtZ528L3CaKBDBRqRapnBbDF2W'',
       qa_decimals = Fin 8, qa_volatility = Calm, qa_underlying = ''S&P 500 index ETF (SPY)''\<rparr>,
     \<lparr>qa_symbol = ''QQQx'', qa_name = ''Nasdaq xStock'', qa_mint = ''Xs8S1uUs1zvS2p7iwtsG3b6fkhpvmwz4GYU3gWAmWHZ'',
       qa_decimals = Fin 8, qa_volatility = Calm, qa_underlying = ''Nasdaq-100 index ETF (QQQ)''\<rparr>,
     \<lparr>qa_symbol = ''GLDx'', qa_name = ''Gold xStock'', qa_mint = ''Xsv9hRk1z5ystj9MhnA7Lq4vjSsLwzL2nxrwmwtD3re'',
       qa_decimals = Fin 8, qa_volatility = Calm, qa_underlying = ''Gold ETF (GLD)''\<rparr>,
     \<lparr>qa_symbol = ''NVDAx'', qa_name = ''NVIDIA xStock'', qa_mint = ''Xsc9qvGR1efVDFGLrVsmkzv3qi45LTBjeUKSPmx9qEh'',
       qa_decimals = Fin 8, qa_volatility = Volatile, qa_underlying = ''NVIDIA Corp. (NVDA)''\<rparr>,
     \<lparr>qa_symbol = ''AAPLx'', qa_name = ''Apple xStock'', qa_mint = ''XsbEhLAtcf6HdfpFZ5xEMdqW8nfAvcsP5bdudRLJzJp'',
       qa_decimals = Fin 8, qa_volatility = Volatile, qa_underlying = ''Apple Inc. (AAPL)''\<rparr>,
     \<lparr>qa_symbol = ''MSFTx'', qa_name = ''Microsoft xStock'', qa_mint = ''XspzcW1PRtgf6Wj92HCiZdjzKCyFekVD8P5Ueh3dRMX'',
       qa_decimals = Fin 8, qa_volatility = Volatile, qa_underlying = ''Microsoft Corp. (MSFT)''\<rparr>,
     \<lparr>qa_symbol = ''GOOGLx'', qa_name = ''Alphabet xStock'', qa_mint = ''XsCPL9dNWBMvFtTmwcCA5v3xWPSMEBCszbQdiLLq6aN'',
       qa_decimals = Fin 8, qa_volatility = Volatile, qa_underlying = ''Alphabet Inc. Class A (GOOGL)''\<rparr>,
     \<lparr>qa_symbol = ''TSLAx'', qa_name = ''Tesla xStock'', qa_mint = ''XsDoVfqeBukxuZHWhdvWHBhgEHjGNst4MLodqsJHzoB'',
       qa_decimals = Fin 8, qa_volatility = Volatile, qa_underlying = ''Tesla Inc. (TSLA)''\<rparr>]"

definition DEFAULT_QUOTE_ASSET :: quote_asset where
  "DEFAULT_QUOTE_ASSET = QUOTE_ALLOWLIST ! 0"

text \<open>\<open>String.prototype.toLowerCase\<close> on the characters below U+0100.\<close>

definition lower_char :: "char \<Rightarrow> char" where
  "lower_char c = (let n = (of_char c :: nat) in
     if (65 \<le> n \<and> n \<le> 90) \<or> (192 \<le> n \<and> n \<le> 222 \<and> n \<noteq> 215) then char_of (n + 32) else c)"

definition toLowerCase :: "string \<Rightarrow> string" where
  "toLowerCase s = map lower_char s"

definition findQuoteAsset :: "string \<Rightarrow> quote_asset option" where
  "findQuoteAsset mintOrSymbol =
     (let key = js_trim mintOrSymbol in
      case List.find (\<lambda>a. qa_mint a = key) QUOTE_ALLOWLIST of
        Some a \<Rightarrow> Some a
      | None \<Rightarrow> List.find (\<lambda>a. toLowerCase (qa_symbol a) = toLowerCase key) QUOTE_ALLOWLIST)"

definition isAllowlistedQuoteMint :: "string \<Rightarrow> bool" where
  "isAllowlistedQuoteMint mint = list_ex (\<lambda>a. qa_mint a = mint) QUOTE_ALLOWLIST"

section \<open>Lookups\<close>

lemma find_Some_iff_mem: "List.find P xs = Some x \<Longrightarrow> x \<in> set xs \<and> P x"
  by (auto simp: find_Some_iff)

lemma allowlist_self_lookup:
  "list_all (\<lambda>a. findQuoteAsset (qa_mint a) = Some a \<and>
     findQuoteAsset (toLowerCase (qa_symbol a)) = Some a \<and> as_integer (qa_decimals a) = Some 8) QUOTE_ALLOWLIST"
  by code_simp

text \<open>
  The quote-asset lookup is exact: each allowlisted asset is found by its mint and by its symbol in
  any case, and whatever the lookup returns is an entry of the allowlist with that mint or symbol, so
  its mint passes the allowlist test. Every entry has 8 decimals.
\<close>

theorem quote_asset_lookup_exact:
  "(a \<in> set QUOTE_ALLOWLIST \<longrightarrow> findQuoteAsset (qa_mint a) = Some a \<and>
      findQuoteAsset (toLowerCase (qa_symbol a)) = Some a \<and> qa_decimals a = JsInt 8) \<and>
   (findQuoteAsset key = Some a \<longrightarrow> a \<in> set QUOTE_ALLOWLIST \<and> isAllowlistedQuoteMint (qa_mint a) \<and>
      (qa_mint a = js_trim key \<or> toLowerCase (qa_symbol a) = toLowerCase (js_trim key)))"
proof (intro conjI impI)
  assume "a \<in> set QUOTE_ALLOWLIST"
  with allowlist_self_lookup show "findQuoteAsset (qa_mint a) = Some a"
    "findQuoteAsset (toLowerCase (qa_symbol a)) = Some a" "qa_decimals a = JsInt 8"
    by (simp_all only: list_all_iff as_integer_eq_Some)
next
  assume "findQuoteAsset key = Some a"
  then have f: "a \<in> set QUOTE_ALLOWLIST \<and> (qa_mint a = js_trim key \<or>
      toLowerCase (qa_symbol a) = toLowerCase (js_trim key))"
    by (auto simp only: findQuoteAsset_def Let_def option.inject dest: find_Some_iff_mem split: option.splits)
  then show "a \<in> set QUOTE_ALLOWLIST"
    "qa_mint a = js_trim key \<or> toLowerCase (qa_symbol a) = toLowerCase (js_trim key)" by blast+
  with f show "isAllowlistedQuoteMint (qa_mint a)"
    by (auto simp only: isAllowlistedQuoteMint_def list_ex_iff)
qed

end
