(* ===== verification/Presets.thy ===== *)
theory Presets
  imports ValidateLaunch Allowlist
begin

text \<open>
  \<^verbatim>\<open>packages/sdk/src/presets.ts\<close>: from the create form's input to DBC \<open>create_config\<close> parameters. The
  first guess of the start price is floating-point arithmetic (\<open>Math.sqrt\<close> of a price); it is the
  parameter \<open>guess\<close> here and every theorem holds for any guess. The previews in USD, which are floating
  point throughout, are not modelled. The lemmas: the one-segment curve absorbs exactly the threshold and
  completes at its last point or one step below it, the amounts of a computed launch split the threshold,
  and both validators accept every computed launch whose supply fits a u64.
\<close>

record curve_preset_info =
  cpi_label :: string
  cpi_description :: string
  cpi_num :: int
  cpi_den :: int

text \<open>A preset is its key; \<open>CURVE_PRESETS\<close> is \<open>None\<close> on keys the record does not own.\<close>

definition CURVE_PRESETS :: "string \<Rightarrow> curve_preset_info option" where
  "CURVE_PRESETS preset = map_of
     [(''gentle'', \<lparr>cpi_label = ''Gentle'',
        cpi_description = ''IPO-style: the price rises 20% from the first buy to graduation.'',
        cpi_num = 6, cpi_den = 5\<rparr>),
      (''flat'', \<lparr>cpi_label = ''Flat'',
        cpi_description = ''Near-fixed price: the price rises 1% from the first buy to graduation.'',
        cpi_num = 101, cpi_den = 100\<rparr>)] preset"

definition BASE_TOKEN_DECIMALS :: int where [simp]: "BASE_TOKEN_DECIMALS = 6"
definition BASE_SUPPLY_TARGET_RAW :: int where
  [simp]: "BASE_SUPPLY_TARGET_RAW = 1000000000 * 10 ^ nat BASE_TOKEN_DECIMALS"
definition VAULT_SHARE_MIN_PCT :: int where [simp]: "VAULT_SHARE_MIN_PCT = 30"
definition VAULT_SHARE_MAX_PCT :: int where [simp]: "VAULT_SHARE_MAX_PCT = 60"
definition GRADUATION_CUTS_PCT :: int where [simp]: "GRADUATION_CUTS_PCT = 10"
definition DEFAULT_THRESHOLD_USD :: num_or_text where
  "DEFAULT_THRESHOLD_USD = JsNumber (Fin 10000) ''10000''"
definition DEFAULT_EXIT_FEE_BPS :: jsnum where "DEFAULT_EXIT_FEE_BPS = Fin 200"
definition MAX_EXIT_FEE_BPS :: int where [simp]: "MAX_EXIT_FEE_BPS = 500"
definition MIN_THRESHOLD_USD :: rat where [simp]: "MIN_THRESHOLD_USD = 1"

definition assertVaultShare :: "jsnum \<Rightarrow> int result" where
  "assertVaultShare vaultSharePct =
     integer_in VAULT_SHARE_MIN_PCT VAULT_SHARE_MAX_PCT vaultSharePct (LaunchInputError ''vaultSharePct'')"

definition migrationFeePctForVaultShare :: "jsnum \<Rightarrow> int result" where
  "migrationFeePctForVaultShare vaultSharePct =
     bindE (assertVaultShare vaultSharePct) (\<lambda>v. Inr (v + GRADUATION_CUTS_PCT))"

definition poolSharePctForVaultShare :: "jsnum \<Rightarrow> int result" where
  "poolSharePctForVaultShare vaultSharePct =
     bindE (assertVaultShare vaultSharePct) (\<lambda>v. Inr (100 - GRADUATION_CUTS_PCT - v))"

definition vaultSharePctFromMigrationFeePct :: "int \<Rightarrow> int \<Rightarrow> int" where
  "vaultSharePctFromMigrationFeePct migrationFeePct launchVersion =
     (if launchVersion \<ge> 3 then migrationFeePct - GRADUATION_CUTS_PCT else migrationFeePct)"

section \<open>Fixed parameters\<close>

definition Default_cliffFeeNumerator :: int where [simp]: "Default_cliffFeeNumerator = 2500000"
definition Default_collectFeeMode :: int where [simp]: "Default_collectFeeMode = CollectFeeMode_QuoteToken"
definition Default_creatorTradingFeePercentage :: int where [simp]: "Default_creatorTradingFeePercentage = 0"
definition Default_creatorMigrationFeePercentage :: int where [simp]: "Default_creatorMigrationFeePercentage = 0"
definition Default_migrationOption :: int where [simp]: "Default_migrationOption = MigrationOption_DammV2"
definition Default_migrationFeeOption :: int where
  [simp]: "Default_migrationFeeOption = MigrationFeeOption_Customizable"
definition Default_migratedPoolFeeBps :: int where [simp]: "Default_migratedPoolFeeBps = 100"
definition Default_migratedCollectFeeMode :: int where [simp]: "Default_migratedCollectFeeMode = Migrated_QuoteToken"
definition Default_migratedPoolBaseFeeMode :: int where
  [simp]: "Default_migratedPoolBaseFeeMode = Damm_FeeTimeSchedulerLinear"
definition Default_partnerPermanentLocked :: int where [simp]: "Default_partnerPermanentLocked = 100"
definition Default_tokenType :: int where [simp]: "Default_tokenType = TokenType_SplToken"
definition Default_tokenDecimal :: int where [simp]: "Default_tokenDecimal = BASE_TOKEN_DECIMALS"
definition Default_tokenUpdateAuthority :: int where
  [simp]: "Default_tokenUpdateAuthority = TokenAuthority_Immutable"
definition Default_activationType :: int where [simp]: "Default_activationType = ActivationType_Timestamp"
definition Default_poolCreationFee :: int where [simp]: "Default_poolCreationFee = 0"

section \<open>Input\<close>

record launch_input =
  li_name :: string
  li_symbol :: string
  li_uri :: string
  li_quote :: "quote_asset option"
  li_quotePriceUsd :: num_or_text
  li_quoteMultiplier :: num_or_text
  li_preset :: string
  li_vaultSharePct :: jsnum
  li_thresholdUsd :: "num_or_text option"
  li_exitFeeBps :: "jsnum option"

record normalized_input =
  ni_quote :: quote_asset
  ni_quotePriceUsd :: num_or_text
  ni_quoteMultiplier :: num_or_text
  ni_preset :: string
  ni_vaultSharePct :: jsnum
  ni_thresholdUsd :: num_or_text
  ni_exitFeeBps :: jsnum

definition input_error :: "string \<Rightarrow> js_error" where
  "input_error message = LaunchInputError message"

text \<open>\<open>Number.isFinite(n) && n > bound\<close> and \<open>>= bound\<close>.\<close>

definition finite_above :: "num_or_text \<Rightarrow> rat \<Rightarrow> bool" where
  "finite_above n bound = (case num_value n of Fin q \<Rightarrow> \<not> q \<le> bound | _ \<Rightarrow> False)"

definition finite_at_least :: "num_or_text \<Rightarrow> rat \<Rightarrow> bool" where
  "finite_at_least n bound = (case num_value n of Fin q \<Rightarrow> \<not> q < bound | _ \<Rightarrow> False)"

definition normalizeInput :: "launch_input \<Rightarrow> normalized_input result" where
  "normalizeInput input =
     (let thresholdUsd = (case li_thresholdUsd input of Some t \<Rightarrow> t | None \<Rightarrow> DEFAULT_THRESHOLD_USD);
          exitFeeBps = (case li_exitFeeBps input of Some b \<Rightarrow> b | None \<Rightarrow> DEFAULT_EXIT_FEE_BPS)
      in case li_quote input of
           None \<Rightarrow> Inl (input_error ''quote.decimals'')
         | Some quote \<Rightarrow>
             bindE (integer_in 0 18 (qa_decimals quote) (input_error ''quote.decimals'')) (\<lambda>_.
             bindE (check (finite_above (li_quotePriceUsd input) 0) (input_error ''quotePriceUsd'')) (\<lambda>_.
             bindE (check (finite_above (li_quoteMultiplier input) 0) (input_error ''quoteMultiplier'')) (\<lambda>_.
             bindE (check (CURVE_PRESETS (li_preset input) \<noteq> None) (input_error ''unknown curve preset'')) (\<lambda>_.
             bindE (assertVaultShare (li_vaultSharePct input)) (\<lambda>_.
             bindE (check (finite_at_least thresholdUsd MIN_THRESHOLD_USD) (input_error ''thresholdUsd'')) (\<lambda>_.
             bindE (integer_in 0 MAX_EXIT_FEE_BPS exitFeeBps (input_error ''exitFeeBps'')) (\<lambda>_.
             Inr \<lparr>ni_quote = quote, ni_quotePriceUsd = li_quotePriceUsd input,
               ni_quoteMultiplier = li_quoteMultiplier input, ni_preset = li_preset input,
               ni_vaultSharePct = li_vaultSharePct input, ni_thresholdUsd = thresholdUsd,
               ni_exitFeeBps = exitFeeBps\<rparr>))))))))"

definition computeThresholdQuoteRaw :: "launch_input \<Rightarrow> int result" where
  "computeThresholdQuoteRaw input =
     bindE (normalizeInput input) (\<lambda>n.
     bindE (usdToQuoteRaw (ni_thresholdUsd n) (ni_quotePriceUsd n) (qa_decimals (ni_quote n))
              (ni_quoteMultiplier n) RoundUp) (\<lambda>raw.
     bindE (check (\<not> (raw \<le> 0 \<or> raw > U64_MAX)) (input_error ''migration threshold out of range''))
       (\<lambda>_. Inr raw)))"

section \<open>The curve of a launch\<close>

record launch_curve_result =
  lc_thresholdQuoteRaw :: int
  lc_sqrtStartPrice :: int
  lc_curve :: "curve_point list"
  lc_migrationSqrtPrice :: int
  lc_swapBaseAmount :: int
  lc_migrationBaseAmount :: int
  lc_migrationQuoteAmount :: int
  lc_migrationFeePct :: int
  lc_partnerMigrationFee :: int
  lc_platformGraduationFee :: int
  lc_creatorGraduationBonus :: int
  lc_vaultAtGraduation :: int
  lc_baseSupplyAtGraduationRaw :: int

definition preset_ratio :: "string \<Rightarrow> (int \<times> int) result" where
  "preset_ratio preset = (case CURVE_PRESETS preset of
      None \<Rightarrow> Inl (GenericError ''TypeError'') | Some p \<Rightarrow> Inr (cpi_num p, cpi_den p))"

definition evaluateCurve :: "int \<Rightarrow> jsnum \<Rightarrow> string \<Rightarrow> int \<Rightarrow> launch_curve_result result" where
  "evaluateCurve threshold vaultSharePct preset sqrtStartPrice =
     bindE (preset_ratio preset) (\<lambda>(num, den).
     bindE (bindE (big_div (sqrtStartPrice * sqrtStartPrice * num) den) isqrt) (\<lambda>sqrtEndPrice.
     bindE (check (\<not> (sqrtStartPrice < MIN_SQRT_PRICE \<or> sqrtEndPrice \<ge> MAX_SQRT_PRICE))
              (input_error ''curve prices are outside the range'')) (\<lambda>_.
     bindE (check (\<not> sqrtEndPrice \<le> sqrtStartPrice) (input_error ''curve prices do not increase'')) (\<lambda>_.
     bindE (divCeil (threshold * 2 ^ 128) (sqrtEndPrice - sqrtStartPrice)) (\<lambda>liquidity.
     bindE (check (\<not> liquidity > U128_MAX) (input_error ''curve liquidity does not fit u128'')) (\<lambda>_.
     let curve = [\<lparr>cp_sqrtPrice = sqrtEndPrice, cp_liquidity = liquidity\<rparr>] in
     bindE (getMigrationThresholdPrice threshold sqrtStartPrice curve) (\<lambda>migrationSqrtPrice.
     bindE (getBaseTokenForSwap sqrtStartPrice migrationSqrtPrice curve) (\<lambda>swapBaseAmount.
     bindE (migrationFeePctForVaultShare vaultSharePct) (\<lambda>migrationFeePct.
     bindE (getMigrationQuoteAmount threshold migrationFeePct) (\<lambda>q.
     bindE (getConcentratedMigrationBaseAmount (mq_quoteAmount q) migrationSqrtPrice) (\<lambda>migrationBaseAmount.
     bindE (getMigrationFeeDistribution threshold migrationFeePct Default_creatorMigrationFeePercentage) (\<lambda>d.
     bindE (graduationSplit threshold (mf_partner d)) (\<lambda>split.
     Inr \<lparr>lc_thresholdQuoteRaw = threshold, lc_sqrtStartPrice = sqrtStartPrice, lc_curve = curve,
       lc_migrationSqrtPrice = migrationSqrtPrice, lc_swapBaseAmount = swapBaseAmount,
       lc_migrationBaseAmount = migrationBaseAmount, lc_migrationQuoteAmount = mq_quoteAmount q,
       lc_migrationFeePct = migrationFeePct, lc_partnerMigrationFee = mf_partner d,
       lc_platformGraduationFee = fs_platform split, lc_creatorGraduationBonus = fs_creator split,
       lc_vaultAtGraduation = fs_vault split,
       lc_baseSupplyAtGraduationRaw = swapBaseAmount + migrationBaseAmount\<rparr>)))))))))))))"

text \<open>The refinement loop: at most \<open>n\<close> more rounds, stopping when the start price repeats.\<close>

fun refineLoop ::
  "nat \<Rightarrow> int \<Rightarrow> jsnum \<Rightarrow> string \<Rightarrow> int \<Rightarrow> launch_curve_result \<Rightarrow> launch_curve_result result" where
  "refineLoop 0 threshold vaultSharePct preset sqrtStartPrice res = Inr res"
| "refineLoop (Suc n) threshold vaultSharePct preset sqrtStartPrice res =
     bindE (bindE (big_div (sqrtStartPrice * sqrtStartPrice * lc_baseSupplyAtGraduationRaw res)
                     BASE_SUPPLY_TARGET_RAW) isqrt) (\<lambda>next.
       if next = sqrtStartPrice then Inr res
       else bindE (evaluateCurve threshold vaultSharePct preset next) (\<lambda>res'.
              refineLoop n threshold vaultSharePct preset next res'))"

type_synonym start_guess = "int \<Rightarrow> string \<Rightarrow> int \<Rightarrow> int"

definition computeLaunchCurve :: "start_guess \<Rightarrow> launch_input \<Rightarrow> launch_curve_result result" where
  "computeLaunchCurve guess input =
     bindE (normalizeInput input) (\<lambda>n.
     bindE (computeThresholdQuoteRaw input) (\<lambda>threshold.
     bindE (preset_ratio (ni_preset n)) (\<lambda>_.
     bindE (poolSharePctForVaultShare (ni_vaultSharePct n)) (\<lambda>poolShare.
     let sqrtStartPrice = guess threshold (ni_preset n) poolShare in
     bindE (evaluateCurve threshold (ni_vaultSharePct n) (ni_preset n) sqrtStartPrice) (\<lambda>res.
     refineLoop 4 threshold (ni_vaultSharePct n) (ni_preset n) sqrtStartPrice res)))))"

section \<open>create\_config parameters\<close>

text \<open>\<open>ConfigParameters\<close> with the accounts of \<open>create_config\<close>.\<close>

record dbc_config_build =
  cb_params :: config_parameters
  cb_feeClaimer :: pubkey
  cb_leftoverReceiver :: pubkey
  cb_quoteMint :: pubkey

definition zeroLiquidityVesting :: liquidity_vesting_params where
  "zeroLiquidityVesting = \<lparr>lvp_vestingPercentage = Fin 0, lvp_bpsPerPeriod = Fin 0,
     lvp_numberOfPeriods = Fin 0, lvp_cliffDurationFromMigrationTime = Fin 0, lvp_frequency = Fin 0\<rparr>"

text \<open>The object literal \<open>params\<close> of \<open>buildDbcConfigParams\<close>.\<close>

definition launchConfigParams :: "launch_curve_result \<Rightarrow> config_parameters" where
  "launchConfigParams c = \<lparr>
     cfg_baseFee = \<lparr>bfp_cliffFeeNumerator = BigV Default_cliffFeeNumerator, bfp_firstFactor = Fin 0,
       bfp_secondFactor = BigV 0, bfp_thirdFactor = BigV 0, bfp_baseFeeMode = JsInt FeeSchedulerLinear\<rparr>,
     cfg_dynamicFee = None,
     cfg_collectFeeMode = JsInt Default_collectFeeMode,
     cfg_migrationOption = JsInt Default_migrationOption,
     cfg_activationType = JsInt Default_activationType,
     cfg_tokenType = JsInt Default_tokenType,
     cfg_tokenDecimal = JsInt Default_tokenDecimal,
     cfg_partnerLiquidityPercentage = Fin 0,
     cfg_partnerPermanentLockedLiquidityPercentage = JsInt Default_partnerPermanentLocked,
     cfg_creatorLiquidityPercentage = Fin 0,
     cfg_creatorPermanentLockedLiquidityPercentage = Fin 0,
     cfg_migrationQuoteThreshold = BigV (lc_thresholdQuoteRaw c),
     cfg_sqrtStartPrice = BigV (lc_sqrtStartPrice c),
     cfg_lockedVesting = \<lparr>kvp_amountPerPeriod = BigV 0, kvp_cliffDurationFromMigrationTime = BigV 0,
       kvp_frequency = BigV 0, kvp_numberOfPeriod = BigV 0, kvp_cliffUnlockAmount = BigV 0\<rparr>,
     cfg_migrationFeeOption = JsInt Default_migrationFeeOption,
     cfg_tokenSupply = None,
     cfg_creatorTradingFeePercentage = JsInt Default_creatorTradingFeePercentage,
     cfg_tokenUpdateAuthority = JsInt Default_tokenUpdateAuthority,
     cfg_migrationFeePercentage = JsInt (lc_migrationFeePct c),
     cfg_creatorMigrationFeePercentage = JsInt Default_creatorMigrationFeePercentage,
     cfg_migratedPoolFee = \<lparr>mpf_collectFeeMode = JsInt Default_migratedCollectFeeMode,
       mpf_dynamicFee = Fin 0, mpf_poolFeeBps = JsInt Default_migratedPoolFeeBps\<rparr>,
     cfg_poolCreationFee = BigV Default_poolCreationFee,
     cfg_partnerLiquidityVestingInfo = zeroLiquidityVesting,
     cfg_creatorLiquidityVestingInfo = zeroLiquidityVesting,
     cfg_migratedPoolBaseFeeMode = JsInt Default_migratedPoolBaseFeeMode,
     cfg_migratedPoolMarketCapFeeSchedulerParams = \<lparr>mcs_numberOfPeriod = Fin 0, mcs_sqrtPriceStepBps = Fin 0,
       mcs_schedulerExpirationDuration = Fin 0, mcs_reductionFactor = BigV 0\<rparr>,
     cfg_enableFirstSwapWithMinFee = False,
     cfg_compoundingFeeBps = Fin 0,
     cfg_curve = map (\<lambda>p. \<lparr>crv_sqrtPrice = BigV (cp_sqrtPrice p), crv_liquidity = BigV (cp_liquidity p)\<rparr>)
       (lc_curve c)\<rparr>"

text \<open>\<open>new PublicKey(text)\<close> of the Solana library throws on malformed text; \<open>parse\<close> is that constructor.\<close>

definition buildDbcConfigParams ::
  "start_guess \<Rightarrow> (string \<Rightarrow> pubkey option) \<Rightarrow> launch_input \<Rightarrow> pubkey \<Rightarrow> pubkey \<Rightarrow> dbc_config_build result" where
  "buildDbcConfigParams guess parse input feeClaimer leftoverReceiver =
     bindE (normalizeInput input) (\<lambda>n.
     bindE (check (feeClaimer \<noteq> PublicKey_default) (input_error ''feeClaimer'')) (\<lambda>_.
     bindE (check (leftoverReceiver \<noteq> PublicKey_default) (input_error ''leftoverReceiver'')) (\<lambda>_.
     case parse (qa_mint (ni_quote n)) of
       None \<Rightarrow> Inl (input_error ''invalid quote mint'')
     | Some quoteMint \<Rightarrow>
         bindE (computeLaunchCurve guess input) (\<lambda>c.
         let params = launchConfigParams c in
         bindE (validateDbcConfigParams params
                  \<lparr>vo_leftoverReceiver = Some leftoverReceiver, vo_isTransferHook = False\<rparr>) (\<lambda>result.
         bindE (assertCurveCanComplete params (cr_migrationSqrtPrice result)) (\<lambda>_.
         bindE (validateLaunchConfigParams params
                  \<lparr>lo_claimer = None, lo_feeClaimer = None, lo_leftoverReceiver = None,
                   lo_configQuoteMint = None, lo_quoteMint = None, lo_exitFeeBps = Some (ni_exitFeeBps n)\<rparr>) (\<lambda>_.
         Inr \<lparr>cb_params = params, cb_feeClaimer = feeClaimer,
           cb_leftoverReceiver = leftoverReceiver, cb_quoteMint = quoteMint\<rparr>)))))))"

section \<open>The one-segment curve\<close>

text \<open>Everything a successful evaluation establishes.\<close>

lemma evaluateCurve_returns:
  assumes "evaluateCurve T share preset s0 = Inr c"
  obtains num den s1 L q d split pct where
    "preset_ratio preset = Inr (num, den)" "bindE (big_div (s0 * s0 * num) den) isqrt = Inr s1"
    "MIN_SQRT_PRICE \<le> s0" "s0 < s1" "s1 < MAX_SQRT_PRICE"
    "divCeil (T * 2 ^ 128) (s1 - s0) = Inr L" "L \<le> U128_MAX"
    "lc_curve c = [\<lparr>cp_sqrtPrice = s1, cp_liquidity = L\<rparr>]"
    "getMigrationThresholdPrice T s0 (lc_curve c) = Inr (lc_migrationSqrtPrice c)"
    "getBaseTokenForSwap s0 (lc_migrationSqrtPrice c) (lc_curve c) = Inr (lc_swapBaseAmount c)"
    "share = JsInt (pct - 10)" "30 \<le> pct - 10" "pct - 10 \<le> 60"
    "getMigrationQuoteAmount T pct = Inr q"
    "getConcentratedMigrationBaseAmount (mq_quoteAmount q) (lc_migrationSqrtPrice c) = Inr (lc_migrationBaseAmount c)"
    "getMigrationFeeDistribution T pct 0 = Inr d" "graduationSplit T (mf_partner d) = Inr split"
    "lc_thresholdQuoteRaw c = T" "lc_sqrtStartPrice c = s0" "lc_migrationFeePct c = pct"
    "lc_migrationQuoteAmount c = mq_quoteAmount q" "lc_partnerMigrationFee c = mf_partner d"
    "lc_platformGraduationFee c = fs_platform split" "lc_creatorGraduationBonus c = fs_creator split"
    "lc_vaultAtGraduation c = fs_vault split"
    "lc_baseSupplyAtGraduationRaw c = lc_swapBaseAmount c + lc_migrationBaseAmount c"
proof -
  from assms obtain num den s1 L p b v q mb d split where facts:
      "preset_ratio preset = Inr (num, den)" "bindE (big_div (s0 * s0 * num) den) isqrt = Inr s1"
      "\<not> (s0 < MIN_SQRT_PRICE \<or> MAX_SQRT_PRICE \<le> s1)" "\<not> s1 \<le> s0"
      "divCeil (T * 2 ^ 128) (s1 - s0) = Inr L" "\<not> U128_MAX < L"
      "getMigrationThresholdPrice T s0 [\<lparr>cp_sqrtPrice = s1, cp_liquidity = L\<rparr>] = Inr p"
      "getBaseTokenForSwap s0 p [\<lparr>cp_sqrtPrice = s1, cp_liquidity = L\<rparr>] = Inr b"
      "share = JsInt v" "30 \<le> v" "v \<le> 60" "getMigrationQuoteAmount T (v + 10) = Inr q"
      "getConcentratedMigrationBaseAmount (mq_quoteAmount q) p = Inr mb"
      "getMigrationFeeDistribution T (v + 10) 0 = Inr d" "graduationSplit T (mf_partner d) = Inr split"
      "c = \<lparr>lc_thresholdQuoteRaw = T, lc_sqrtStartPrice = s0, lc_curve = [\<lparr>cp_sqrtPrice = s1, cp_liquidity = L\<rparr>],
       lc_migrationSqrtPrice = p, lc_swapBaseAmount = b, lc_migrationBaseAmount = mb,
       lc_migrationQuoteAmount = mq_quoteAmount q, lc_migrationFeePct = v + 10,
       lc_partnerMigrationFee = mf_partner d, lc_platformGraduationFee = fs_platform split,
       lc_creatorGraduationBonus = fs_creator split, lc_vaultAtGraduation = fs_vault split,
       lc_baseSupplyAtGraduationRaw = b + mb\<rparr>"
    unfolding evaluateCurve_def Let_def migrationFeePctForVaultShare_def assertVaultShare_def
      VAULT_SHARE_MIN_PCT_def VAULT_SHARE_MAX_PCT_def GRADUATION_CUTS_PCT_def
      Default_creatorMigrationFeePercentage_def
    by (simp only: bindE_eq_Inr split_paired_Ex prod.case check_eq_Inr integer_in_eq_Inr sum.inject) blast
  show thesis
    by (rule that [of num den s1 L "v + 10" q d split]) (use facts in simp_all)
qed

lemma segment_price:
  assumes T: "0 < T" and d: "0 \<le> s0" "s0 < s1" "s1 \<le> MAX_SQRT_PRICE"
    and L: "divCeil (T * 2 ^ 128) (s1 - s0) = Inr L" "L \<le> U128_MAX"
    and price: "getMigrationThresholdPrice T s0 [\<lparr>cp_sqrtPrice = s1, cp_liquidity = L\<rparr>] = Inr p"
  shows "0 < L" "wf_curve s0 [\<lparr>cp_sqrtPrice = s1, cp_liquidity = L\<rparr>]"
    "quote_up L s0 s1 = T \<or> quote_up L s0 s1 = T + 1"
    "curveQuoteTo s0 [\<lparr>cp_sqrtPrice = s1, cp_liquidity = L\<rparr>] p = T" "s0 < p" "p \<le> s1"
    "s1 - s0 \<le> L \<Longrightarrow> s1 - 1 \<le> p"
proof -
  define Q :: int where "Q = 2 ^ 128"
  define d where "d = s1 - s0"
  have d0: "0 < d" using \<open>s0 < s1\<close> by (simp add: d_def)
  have "d \<le> MAX_SQRT_PRICE" using assms(2,4) by (simp add: d_def)
  also have "\<dots> < Q" by (simp add: MAX_SQRT_PRICE_def Q_def)
  finally have dQ: "d < Q" .
  have "0 < Q" by (simp add: Q_def)
  have "L = (T * Q + d - 1) div d" using L(1) T d0 by (simp add: divCeil_eq Q_def d_def)
  then have lo: "T * Q \<le> L * d" and hi: "L * d - d < T * Q"
    using ceil_div_bounds [OF d0, of "T * Q"] by (simp_all add: left_diff_distrib)
  have "0 < T * Q" using T \<open>0 < Q\<close> by simp
  with lo have "0 < L * d" by linarith
  then show L0: "0 < L" using d0 by (simp add: zero_less_mult_iff)
  with L d show wf: "wf_curve s0 [\<lparr>cp_sqrtPrice = s1, cp_liquidity = L\<rparr>]" by simp
  note sound = threshold_price_sound [OF wf less_imp_le [OF T] price]
  show "curveQuoteTo s0 [\<lparr>cp_sqrtPrice = s1, cp_liquidity = L\<rparr>] p = T" "p \<le> s1"
    using sound by simp_all
  show "s0 < p" using sound(1,3) T by (cases "p = s0") auto
  have iff: "quote_up L s0 s1 \<le> n \<longleftrightarrow> L * d \<le> n * Q" for n
    unfolding Q_def d_def by (rule quote_up_le_iff)
  have "quote_up L s0 s1 \<le> T + 1" using hi dQ by (simp add: iff distrib_right)
  moreover have "\<not> quote_up L s0 s1 \<le> T - 1"
    unfolding iff using lo \<open>0 < Q\<close> by (simp add: left_diff_distrib)
  ultimately show total: "quote_up L s0 s1 = T \<or> quote_up L s0 s1 = T + 1" by linarith
  show "s1 - 1 \<le> p" if "s1 - s0 \<le> L"
  proof (cases "quote_up L s0 s1 = T")
    case True
    with price L0 d T show ?thesis
      by (simp add: getMigrationThresholdPrice_def getDeltaAmountQuote_eq)
  next
    case False
    with total have "quote_up L s0 s1 > T" by linarith
    with price L0 d T have "p = s0 + T * Q div L"
      by (simp add: getMigrationThresholdPrice_def getDeltaAmountQuote_eq
          getNextSqrtPriceFromQuoteAmountIn_eq Q_def split: if_splits)
    moreover have "d - 1 \<le> T * Q div L"
    proof -
      have "d \<le> L" using that by (simp add: d_def)
      moreover have "(d - 1) * L = L * d - L" by (simp add: algebra_simps)
      ultimately have "(d - 1) * L \<le> T * Q" using hi by linarith
      with L0 show ?thesis by (simp add: le_floor_div_iff)
    qed
    ultimately show ?thesis by (simp add: d_def)
  qed
qed

section \<open>A computed launch\<close>

lemma refineLoop_evaluates:
  "refineLoop n T share preset s0 res = Inr c \<Longrightarrow> evaluateCurve T share preset s0 = Inr res \<Longrightarrow>
    \<exists>s. evaluateCurve T share preset s = Inr c"
proof (induction n T share preset s0 res rule: refineLoop.induct)
  case (2 n T share preset s0 res)
  then show ?case by (auto simp: result_simps split: if_splits)
qed auto

lemma computed_launch:
  assumes "computeLaunchCurve guess input = Inr c"
  obtains n s where "normalizeInput input = Inr n" "computeThresholdQuoteRaw input = Inr (lc_thresholdQuoteRaw c)"
    "evaluateCurve (lc_thresholdQuoteRaw c) (ni_vaultSharePct n) (ni_preset n) s = Inr c"
    "0 < lc_thresholdQuoteRaw c" "lc_thresholdQuoteRaw c \<le> U64_MAX"
proof -
  from assms obtain n T s res where n: "normalizeInput input = Inr n" and T: "computeThresholdQuoteRaw input = Inr T"
    and ev: "evaluateCurve T (ni_vaultSharePct n) (ni_preset n) s = Inr res"
    and refine: "refineLoop 4 T (ni_vaultSharePct n) (ni_preset n) s res = Inr c"
    unfolding computeLaunchCurve_def Let_def by (auto simp only: bindE_eq_Inr)
  from refineLoop_evaluates [OF refine ev] obtain s' where s': "evaluateCurve T (ni_vaultSharePct n) (ni_preset n) s' = Inr c"
    by blast
  then have "lc_thresholdQuoteRaw c = T" by (rule evaluateCurve_returns)
  moreover have "0 < T" "T \<le> U64_MAX" using T by (auto simp: computeThresholdQuoteRaw_def result_simps)
  ultimately show thesis using n T s' by (intro that) simp_all
qed

text \<open>The facts about a computed launch that the theorems and the validators need, in one place.\<close>

lemma launch_facts:
  assumes "evaluateCurve T share preset s = Inr c" "0 < T" "T \<le> U64_MAX"
  obtains s1 L pct q where
    "lc_thresholdQuoteRaw c = T" "lc_sqrtStartPrice c = s" "MIN_SQRT_PRICE \<le> s" "s < s1" "s1 < MAX_SQRT_PRICE"
    "lc_curve c = [\<lparr>cp_sqrtPrice = s1, cp_liquidity = L\<rparr>]" "0 < L" "L \<le> U128_MAX"
    "wf_curve s (lc_curve c)" "quote_up L s s1 = T \<or> quote_up L s s1 = T + 1"
    "curveQuoteTo s (lc_curve c) (lc_migrationSqrtPrice c) = T"
    "s < lc_migrationSqrtPrice c" "lc_migrationSqrtPrice c \<le> s1"
    "s1 - s \<le> L \<longrightarrow> s1 - 1 \<le> lc_migrationSqrtPrice c"
    "getMigrationThresholdPrice T s (lc_curve c) = Inr (lc_migrationSqrtPrice c)"
    "getBaseTokenForSwap s (lc_migrationSqrtPrice c) (lc_curve c) = Inr (lc_swapBaseAmount c)"
    "lc_migrationFeePct c = pct" "share = JsInt (pct - 10)" "40 \<le> pct" "pct \<le> 70"
    "getMigrationQuoteAmount T pct = Inr q" "mq_quoteAmount q = lc_migrationQuoteAmount c"
    "getConcentratedMigrationBaseAmount (lc_migrationQuoteAmount c) (lc_migrationSqrtPrice c) =
      Inr (lc_migrationBaseAmount c)"
    "getMigrationFeeDistribution T pct 0 = Inr \<lparr>mf_partner = T * pct div 100, mf_creator = 0\<rparr>"
    "lc_migrationQuoteAmount c = T - T * pct div 100"
    "lc_partnerMigrationFee c = T * pct div 100"
    "lc_platformGraduationFee c = T div 20" "lc_creatorGraduationBonus c = T div 20"
    "vaultAtGraduation T (JsInt pct) = Inr (lc_vaultAtGraduation c)"
    "lc_vaultAtGraduation c = T * pct div 100 - 2 * (T div 20)"
    "T * (pct - 10) div 100 \<le> lc_vaultAtGraduation c" "lc_vaultAtGraduation c \<le> T * (pct - 10) div 100 + 2"
proof (rule evaluateCurve_returns [OF assms(1)])
  fix num den s1 L q d split pct
  assume f: "MIN_SQRT_PRICE \<le> s" "s < s1" "s1 < MAX_SQRT_PRICE" "divCeil (T * 2 ^ 128) (s1 - s) = Inr L" "L \<le> U128_MAX"
      "lc_curve c = [\<lparr>cp_sqrtPrice = s1, cp_liquidity = L\<rparr>]"
    and price: "getMigrationThresholdPrice T s (lc_curve c) = Inr (lc_migrationSqrtPrice c)"
    and base: "getBaseTokenForSwap s (lc_migrationSqrtPrice c) (lc_curve c) = Inr (lc_swapBaseAmount c)"
    and pct: "share = JsInt (pct - 10)" "30 \<le> pct - 10" "pct - 10 \<le> 60"
    and q: "getMigrationQuoteAmount T pct = Inr q"
      "getConcentratedMigrationBaseAmount (mq_quoteAmount q) (lc_migrationSqrtPrice c) = Inr (lc_migrationBaseAmount c)"
    and d: "getMigrationFeeDistribution T pct 0 = Inr d" "graduationSplit T (mf_partner d) = Inr split"
    and c: "lc_thresholdQuoteRaw c = T" "lc_sqrtStartPrice c = s" "lc_migrationFeePct c = pct"
      "lc_migrationQuoteAmount c = mq_quoteAmount q" "lc_partnerMigrationFee c = mf_partner d"
      "lc_platformGraduationFee c = fs_platform split" "lc_creatorGraduationBonus c = fs_creator split"
      "lc_vaultAtGraduation c = fs_vault split"
  have s0: "0 \<le> s" using f(1) bounds_nonneg(4) by linarith
  note seg = segment_price [OF assms(2) s0 f(2) less_imp_le [OF f(3)] f(4,5) price [unfolded f(6)], folded f(6)]
  have T0: "0 \<le> T" "10 \<le> pct" "pct \<le> 100" "0 \<le> pct" using assms(2) pct by simp_all
  have quote: "mq_quoteAmount q + mq_fee q = T" "mq_fee q = T * pct div 100"
    using getMigrationQuoteAmount_spec [OF T0(1) assms(3) T0(4,3)] q(1) by auto
  have dist: "d = \<lparr>mf_partner = T * pct div 100, mf_creator = 0\<rparr>"
    using migration_fee_distribution_conserves [OF T0(1) assms(3) T0(4,3), of 0] d(1)
    by (auto intro: migration_fee_distribution.equality)
  obtain sp where sp: "graduationSplit T (T * pct div 100) = Inr sp" "fs_platform sp = T div 20" "fs_creator sp = T div 20"
      "fs_vault sp = T * pct div 100 - 2 * (T div 20)" "T * (pct - 10) div 100 \<le> fs_vault sp"
      "fs_vault sp \<le> T * (pct - 10) div 100 + 2"
    using T0(1) assms(3) T0(2,3) by (rule graduationSplit_of_fee)
  have split: "split = sp" using d(2) sp(1) by (simp add: dist)
  have vault: "vaultAtGraduation T (JsInt pct) = Inr (fs_vault sp)"
    using T0 sp(1) by (simp add: vaultAtGraduation_def partnerMigrationFee_eq)
  have amounts: "mq_quoteAmount q = lc_migrationQuoteAmount c" "lc_migrationQuoteAmount c = T - T * pct div 100"
    "getConcentratedMigrationBaseAmount (lc_migrationQuoteAmount c) (lc_migrationSqrtPrice c) =
      Inr (lc_migrationBaseAmount c)"
    "lc_partnerMigrationFee c = T * pct div 100"
    "getMigrationFeeDistribution T pct 0 = Inr \<lparr>mf_partner = T * pct div 100, mf_creator = 0\<rparr>"
    using quote q(2) d(1) by (simp_all add: c(4,5) dist)
  have parts: "lc_platformGraduationFee c = T div 20" "lc_creatorGraduationBonus c = T div 20"
    "vaultAtGraduation T (JsInt pct) = Inr (lc_vaultAtGraduation c)"
    "lc_vaultAtGraduation c = T * pct div 100 - 2 * (T div 20)"
    "T * (pct - 10) div 100 \<le> lc_vaultAtGraduation c" "lc_vaultAtGraduation c \<le> T * (pct - 10) div 100 + 2"
    using sp vault by (simp_all only: c(6,7,8) split)
  have "40 \<le> pct" "pct \<le> 70" using pct(2,3) by simp_all
  moreover have "s1 - s \<le> L \<longrightarrow> s1 - 1 \<le> lc_migrationSqrtPrice c" using seg(7) by blast
  ultimately show thesis
    using f seg(1-6) price base pct(1) q(1) c(1-3) amounts parts by (intro that [of s1 L pct q])
qed

section \<open>The validators on a computed launch\<close>

lemma u8_in [simp]: "0 \<le> i \<Longrightarrow> i \<le> 255 \<Longrightarrow> u8 (JsInt i) = Inr i"
  by (simp add: u8_def checkUintNumber_def checkUint_def bounds_defs)

lemma u8_consts [simp]: "u8 (Fin 0) = Inr 0" "u8 (Fin 1) = Inr 1" "u8 (Fin 6) = Inr 6" "u8 (Fin 100) = Inr 100"
  "u16 (Fin 0) = Inr 0" "u16 (Fin 100) = Inr 100" "u32 (Fin 0) = Inr 0" "u64 (BigV 0) = Inr 0" "u64 (BigV 2500000) = Inr 2500000"
  by code_simp+

lemma u64_u128_in [simp]:
  "0 \<le> i \<Longrightarrow> i \<le> U64_MAX \<Longrightarrow> u64 (BigV i) = Inr i"
  "0 \<le> i \<Longrightarrow> i \<le> U128_MAX \<Longrightarrow> u128 (BigV i) = Inr i"
  by (simp_all add: u64_def u128_def checkUint_def)

definition checked_launch :: "launch_curve_result \<Rightarrow> checked_config" where
  "checked_launch c = \<lparr>ck_feePercentage = lc_migrationFeePct c, ck_creatorFeePercentage = 0,
     ck_partnerPermanentLocked = 100, ck_creatorPermanentLocked = 0,
     ck_threshold = lc_thresholdQuoteRaw c, ck_totalVestingAmount = 0,
     ck_sqrtStartPrice = lc_sqrtStartPrice c, ck_curve = lc_curve c\<rparr>"

lemma launch_base_fee_ok: "validateBaseFee (cfg_baseFee (launchConfigParams c)) = Inr ()"
  by (simp add: validateBaseFee_def launchConfigParams_def Let_def)

lemma launch_pool_fee_ok: "validateMigratedPoolFee (launchConfigParams c) = Inr ()"
  by (simp add: validateMigratedPoolFee_def scheduler_is_zero_def launchConfigParams_def Let_def)

lemma launch_vesting_ok: "validateLockedVesting (cfg_lockedVesting (launchConfigParams c)) = Inr 0"
  by (simp add: validateLockedVesting_def launchConfigParams_def Let_def)

lemma launch_liquidity_ok: "validateLiquidity (launchConfigParams c) = Inr (100, 0)"
  by (simp add: validateLiquidity_def launchConfigParams_def zeroLiquidityVesting_def Let_def)

lemma launch_zero_vesting: "isZeroVesting zeroLiquidityVesting"
  by (simp add: isZeroVesting_def zeroLiquidityVesting_def)

lemma launch_curve_ok:
  assumes "lc_curve c = [\<lparr>cp_sqrtPrice = s1, cp_liquidity = L\<rparr>]" "0 \<le> s" "s < s1" "s1 < MAX_SQRT_PRICE" "0 < L" "L \<le> U128_MAX"
  shows "validateCurve s (cfg_curve (launchConfigParams c)) = Inr (lc_curve c)"
proof -
  have "s1 \<le> U128_MAX" using assms(4) MAX_SQRT_PRICE_less_U128 by linarith
  with assms show ?thesis by (simp add: validateCurve_def launchConfigParams_def)
qed

lemma launch_params_ok:
  assumes "validateCurve (lc_sqrtStartPrice c) (cfg_curve (launchConfigParams c)) = Inr (lc_curve c)"
    and "MIN_SQRT_PRICE \<le> lc_sqrtStartPrice c" "lc_sqrtStartPrice c < MAX_SQRT_PRICE"
    and "0 < lc_thresholdQuoteRaw c" "lc_thresholdQuoteRaw c \<le> U64_MAX"
    and "40 \<le> lc_migrationFeePct c" "lc_migrationFeePct c \<le> 70"
  shows "validateParameters (launchConfigParams c) options = Inr (checked_launch c)"
proof -
  let ?P = "launchConfigParams c"
  have s: "u128 (cfg_sqrtStartPrice ?P) = Inr (lc_sqrtStartPrice c)"
    using assms(2,3) bounds_nonneg(4) MAX_SQRT_PRICE_less_U128
    unfolding launchConfigParams_def config_parameters.simps by (intro u64_u128_in) linarith+
  have T: "u64 (cfg_migrationQuoteThreshold ?P) = Inr (lc_thresholdQuoteRaw c)"
    using assms(4,5) by (simp add: launchConfigParams_def)
  have fields: "u8 (cfg_activationType ?P) = Inr 1" "cfg_dynamicFee ?P = None"
    "u8 (cfg_creatorTradingFeePercentage ?P) = Inr 0" "u8 (cfg_migrationFeePercentage ?P) = Inr (lc_migrationFeePct c)"
    "u8 (cfg_creatorMigrationFeePercentage ?P) = Inr 0" "u8 (cfg_collectFeeMode ?P) = Inr 0"
    "u8 (cfg_migrationOption ?P) = Inr 1" "u8 (cfg_migrationFeeOption ?P) = Inr 6" "u8 (cfg_tokenType ?P) = Inr 0"
    "isZeroVesting (cfg_partnerLiquidityVestingInfo ?P)" "isZeroVesting (cfg_creatorLiquidityVestingInfo ?P)"
    "u8 (cfg_tokenUpdateAuthority ?P) = Inr 1" "u8 (cfg_tokenDecimal ?P) = Inr 6" "u64 (cfg_poolCreationFee ?P) = Inr 0"
    using assms(6,7) by (simp_all add: launchConfigParams_def launch_zero_vesting)
  show ?thesis
    unfolding validateParameters_def fields s T launch_base_fee_ok launch_pool_fee_ok launch_vesting_ok
      launch_liquidity_ok bindE_simps option.case prod.case
    using assms fields by (simp add: checked_launch_def)
qed

lemma base_up_pos: "0 < L \<Longrightarrow> 0 < lo \<Longrightarrow> lo < hi \<Longrightarrow> 0 < base_up L lo hi"
  using base_up_le_iff [of lo hi L 0] by (simp add: not_le [symmetric] mult_le_0_iff)

lemma concentrated_base_pos:
  assumes "getConcentratedMigrationBaseAmount quote p = Inr b" "0 < quote" "MIN_SQRT_PRICE < p" "p < MAX_SQRT_PRICE"
  shows "0 < b"
proof -
  let ?l = "quote * 2 ^ 128 div (p - MIN_SQRT_PRICE)"
  have "p - MIN_SQRT_PRICE < 2 ^ 128" using assms(4) by (simp add: bounds_defs)
  also have "\<dots> \<le> quote * 2 ^ 128" using assms(2) by simp
  finally have "1 \<le> ?l" using assms(3) by (simp add: le_floor_div_iff)
  moreover have p: "0 < p" using assms(3) bounds_nonneg(4) by linarith
  ultimately show ?thesis
    using assms base_up_pos [of ?l p MAX_SQRT_PRICE]
    by (auto simp: getConcentratedMigrationBaseAmount_def getInitialLiquidityFromDeltaQuote_def
        getDeltaAmountBase_eq Let_def result_simps split: if_splits)
qed

definition launch_result :: "launch_curve_result \<Rightarrow> migration_quote \<Rightarrow> int \<Rightarrow> create_config_result" where
  "launch_result c q b = \<lparr>cr_migrationSqrtPrice = lc_migrationSqrtPrice c, cr_swapBaseAmount = lc_swapBaseAmount c,
     cr_migrationBaseThreshold = lc_migrationBaseAmount c, cr_migrationQuoteAmount = mq_quoteAmount q,
     cr_migrationFee = mq_fee q, cr_partnerMigrationFee = lc_partnerMigrationFee c, cr_creatorMigrationFee = 0,
     cr_initialBaseSupply = b + lc_migrationBaseAmount c, cr_fixedTokenSupply = False,
     cr_lockedLiquidityBpsAtDay1 = 10000\<rparr>"

definition supply_fits :: "launch_curve_result \<Rightarrow> int \<Rightarrow> bool" where
  "supply_fits c b \<longleftrightarrow>
     getSwapAmountWithBuffer (lc_swapBaseAmount c) (lc_sqrtStartPrice c) (lc_curve c) = Inr b \<and>
     b + lc_migrationBaseAmount c \<le> U64_MAX"

lemma launch_process:
  assumes "evaluateCurve T share preset s = Inr c" "0 < T" "T \<le> U64_MAX"
  obtains q where "\<And>r. processCreateConfig (launchConfigParams c) options (checked_launch c) = Inr r \<longleftrightarrow>
    (\<exists>b. supply_fits c b \<and> r = launch_result c q b)"
proof -
  let ?p = "lc_migrationSqrtPrice c" and ?buf = "getSwapAmountWithBuffer (lc_swapBaseAmount c) s (lc_curve c)"
  obtain s1 L pct q where f: "lc_thresholdQuoteRaw c = T" "lc_sqrtStartPrice c = s" "MIN_SQRT_PRICE \<le> s"
      "s < s1" "s1 < MAX_SQRT_PRICE" "lc_curve c = [\<lparr>cp_sqrtPrice = s1, cp_liquidity = L\<rparr>]" "0 < L"
      "wf_curve s (lc_curve c)" "s < ?p" "?p \<le> s1"
      "getMigrationThresholdPrice T s (lc_curve c) = Inr ?p"
      "getBaseTokenForSwap s ?p (lc_curve c) = Inr (lc_swapBaseAmount c)"
      "lc_migrationFeePct c = pct" "40 \<le> pct" "pct \<le> 70"
      "getMigrationQuoteAmount T pct = Inr q" "mq_quoteAmount q = lc_migrationQuoteAmount c"
      "getConcentratedMigrationBaseAmount (lc_migrationQuoteAmount c) ?p = Inr (lc_migrationBaseAmount c)"
      "getMigrationFeeDistribution T pct 0 = Inr \<lparr>mf_partner = T * pct div 100, mf_creator = 0\<rparr>"
      "lc_migrationQuoteAmount c = T - T * pct div 100" "lc_partnerMigrationFee c = T * pct div 100"
    by (rule launch_facts [OF assms]) (rule that, assumption+)
  have s0: "0 < s" using f(3) bounds_nonneg(4) by linarith
  have p: "?p < MAX_SQRT_PRICE" "MIN_SQRT_PRICE < ?p" using f by linarith+
  have "lc_swapBaseAmount c = curveBaseTo s (lc_curve c) ?p"
    using f(12) getBaseTokenForSwap_eq [OF f(8) s0 less_imp_le [OF f(9)]] by simp
  then have swap: "0 < lc_swapBaseAmount c" using f s0 by (simp add: base_up_pos)
  have "T * pct \<le> T * 70" using assms(2) f(15) by simp
  then have "T * pct < T * 100" using assms(2) by linarith
  then have "T * pct div 100 < T" by (simp add: div_less_iff_less_mult)
  then have base: "0 < lc_migrationBaseAmount c" using concentrated_base_pos [OF f(18) _ p(2,1)] f(20) by simp
  have buf: "lc_swapBaseAmount c \<le> b \<and> b \<le> U64_MAX" if "?buf = Inr b" for b
    using swap_buffer_covers(1) [OF f(8) s0 less_imp_le [OF f(9)] less_imp_le [OF p(1)] f(12) that] that
    by (auto simp: getSwapAmountWithBuffer_def result_simps Let_def)
  have flags: "(mpf_collectFeeMode (cfg_migratedPoolFee (launchConfigParams c)) = JsInt Migrated_Compounding) = False"
    "cfg_tokenSupply (launchConfigParams c) = None" by (simp_all add: launchConfigParams_def)
  have "processCreateConfig (launchConfigParams c) options (checked_launch c) = Inr r \<longleftrightarrow>
      lc_swapBaseAmount c \<le> U64_MAX \<and> (\<exists>b. ?buf = Inr b \<and> b + lc_migrationBaseAmount c \<le> U64_MAX \<and>
        r = launch_result c q b)" for r
    unfolding processCreateConfig_def Let_def checked_launch_def checked_config.simps f(1,2,13) f(11,12,16,19)
      flags if_False bindE_simps f(17,18) initialSupply_def option.case add_0_right
      bindE_assoc
    using p swap base by (auto simp: bindE_eq_Inr launch_result_def f(21) f(17))
  moreover have "lc_swapBaseAmount c \<le> U64_MAX" if "?buf = Inr b" for b using buf [OF that] by linarith
  ultimately show thesis by (intro that [of q]) (auto simp: supply_fits_def f(2))
qed

lemma some_nonzero_zeros [simp]: "some_nonzero (BigV 0 # xs) = some_nonzero xs" "some_nonzero (NumV (Fin 0) # xs) = some_nonzero xs"
  by (simp_all add: isZero_def)

lemma launch_validation:
  assumes "vaultAtGraduation (lc_thresholdQuoteRaw c) (JsInt (lc_migrationFeePct c)) = Inr v"
    and pct: "40 \<le> lc_migrationFeePct c" "lc_migrationFeePct c \<le> 70" and fee: "0 \<le> bps" "bps \<le> 500"
  shows "validateLaunchConfigParams (launchConfigParams c)
      \<lparr>lo_claimer = None, lo_feeClaimer = None, lo_leftoverReceiver = None,
       lo_configQuoteMint = None, lo_quoteMint = None, lo_exitFeeBps = Some (JsInt bps)\<rparr> =
    (if v \<noteq> 0 then Inr () else Inl (LaunchConfigError ''MigrationQuoteThresholdTooSmall''))"
proof -
  let ?P = "launchConfigParams c"
  have fields: "cfg_creatorMigrationFeePercentage ?P = Fin 0" "cfg_migrationFeePercentage ?P = JsInt (lc_migrationFeePct c)"
    "big (cfg_migrationQuoteThreshold ?P) = Inr (lc_thresholdQuoteRaw c)"
    "js_ge (JsInt (lc_migrationFeePct c)) (JsInt 40)" "js_ge (JsInt 70) (JsInt (lc_migrationFeePct c))"
    "\<not> js_less (JsInt bps) (Fin 0)" "\<not> js_less (JsInt 500) (JsInt bps)"
    using pct fee by (simp_all add: launchConfigParams_def js_less_def)
  have zeros: "some_nonzero (lvp_values (cfg_partnerLiquidityVestingInfo ?P)) = Inr False"
    "some_nonzero (lvp_values (cfg_creatorLiquidityVestingInfo ?P)) = Inr False"
    "some_nonzero (mcs_values (cfg_migratedPoolMarketCapFeeSchedulerParams ?P)) = Inr False"
    "some_nonzero [kvp_amountPerPeriod (cfg_lockedVesting ?P), kvp_cliffUnlockAmount (cfg_lockedVesting ?P),
       kvp_numberOfPeriod (cfg_lockedVesting ?P)] = Inr False"
    "isZero (cfg_poolCreationFee ?P) = Inr True" "big (bfp_cliffFeeNumerator (cfg_baseFee ?P)) = Inr 2500000"
    by (simp_all add: launchConfigParams_def lvp_values_def mcs_values_def zeroLiquidityVesting_def isZero_def)
  show ?thesis
    unfolding validateLaunchConfigParams_def Let_def fields zeros bindE_simps
    using fields assms(1)
    by (simp add: both_differ_def launch_require_def launchConfigParams_def js_less_def)
qed

lemma normalized_fee:
  assumes "normalizeInput input = Inr n"
  obtains bps where "ni_exitFeeBps n = JsInt bps" "0 \<le> bps" "bps \<le> 500"
  using assms by (auto simp: normalizeInput_def Let_def result_simps split: option.splits)

section \<open>Example\<close>

definition example_input :: launch_input where
  "example_input = \<lparr>li_name = ''Demo'', li_symbol = ''DEMO'', li_uri = ''https://example.com'',
     li_quote = Some (QUOTE_ALLOWLIST ! 0), li_quotePriceUsd = JsNumber (Fin (75702 / 100)) ''757.02'',
     li_quoteMultiplier = JsNumber (Fin 1) ''1'', li_preset = ''gentle'', li_vaultSharePct = Fin 50,
     li_thresholdUsd = None, li_exitFeeBps = None\<rparr>"

text \<open>The start price the floating-point formula gives for this input.\<close>

definition example_guess :: start_guess where
  "example_guess threshold preset poolShare = 23667951027079556"

definition example_launch_curve :: launch_curve_result where
  "example_launch_curve = \<lparr>lc_thresholdQuoteRaw = 1320969063, lc_sqrtStartPrice = 23667951556239930,
     lc_curve = [\<lparr>cp_sqrtPrice = 25926941914584221, cp_liquidity = 198983797220114538724013108578885\<rparr>],
     lc_migrationSqrtPrice = 25926941914584220, lc_swapBaseAmount = 732521076856473,
     lc_migrationBaseAmount = 267478923143527, lc_migrationQuoteAmount = 528387626,
     lc_migrationFeePct = 60, lc_partnerMigrationFee = 792581437, lc_platformGraduationFee = 66048453,
     lc_creatorGraduationBonus = 66048453, lc_vaultAtGraduation = 660484531,
     lc_baseSupplyAtGraduationRaw = 1000000000000000\<rparr>"

lemma example_launch_computes:
  "computeLaunchCurve example_guess example_input = Inr example_launch_curve"
  by code_simp

section \<open>Properties\<close>

text \<open>
  The curve of every computed launch is one well-formed segment that takes the threshold, or one
  raw unit more, to walk; it completes at exactly the threshold, above its start price and not above its
  last point, and within one price step of the last point when the liquidity is at least the price range.
\<close>

theorem launch_curve_absorbs_threshold:
  assumes "computeLaunchCurve guess input = Inr c"
  shows "computeThresholdQuoteRaw input = Inr (lc_thresholdQuoteRaw c) \<and>
    (\<exists>s1 L. lc_curve c = [\<lparr>cp_sqrtPrice = s1, cp_liquidity = L\<rparr>] \<and>
      wf_curve (lc_sqrtStartPrice c) (lc_curve c) \<and>
      quote_up L (lc_sqrtStartPrice c) s1 \<in> {lc_thresholdQuoteRaw c, lc_thresholdQuoteRaw c + 1} \<and>
      curveQuoteTo (lc_sqrtStartPrice c) (lc_curve c) (lc_migrationSqrtPrice c) = lc_thresholdQuoteRaw c \<and>
      lc_sqrtStartPrice c < lc_migrationSqrtPrice c \<and> lc_migrationSqrtPrice c \<le> s1 \<and>
      (s1 - lc_sqrtStartPrice c \<le> L \<longrightarrow> s1 - 1 \<le> lc_migrationSqrtPrice c))"
proof (rule computed_launch [OF assms])
  fix n s
  assume T: "computeThresholdQuoteRaw input = Inr (lc_thresholdQuoteRaw c)"
    "evaluateCurve (lc_thresholdQuoteRaw c) (ni_vaultSharePct n) (ni_preset n) s = Inr c"
    "0 < lc_thresholdQuoteRaw c" "lc_thresholdQuoteRaw c \<le> U64_MAX"
  show ?thesis by (rule launch_facts [OF T(2-4)]) (use T(1) in blast)
qed

lemma launch_curve_absorbs_threshold_witness:
  "curveQuoteTo 23667951556239930 (lc_curve example_launch_curve) 25926941914584220 = 1320969063 \<and>
    25926941914584221 - 1 \<le> lc_migrationSqrtPrice example_launch_curve"
  using launch_curve_absorbs_threshold [OF example_launch_computes] by (simp add: example_launch_curve_def)

text \<open>
  The amounts of every computed launch split its threshold: pool quote, platform cut, creator bonus
  and vault add up to it, the cuts are 5\% each, and the vault gets its share up to two raw units.
\<close>

theorem launch_amounts_split_threshold:
  assumes "computeLaunchCurve guess input = Inr c"
  shows "\<exists>share. li_vaultSharePct input = JsInt share \<and> 30 \<le> share \<and> share \<le> 60 \<and>
    lc_migrationQuoteAmount c + lc_platformGraduationFee c + lc_creatorGraduationBonus c + lc_vaultAtGraduation c =
      lc_thresholdQuoteRaw c \<and>
    lc_platformGraduationFee c = lc_thresholdQuoteRaw c div 20 \<and>
    lc_creatorGraduationBonus c = lc_thresholdQuoteRaw c div 20 \<and>
    lc_thresholdQuoteRaw c * share div 100 \<le> lc_vaultAtGraduation c \<and>
    lc_vaultAtGraduation c \<le> lc_thresholdQuoteRaw c * share div 100 + 2"
proof (rule computed_launch [OF assms])
  fix n s
  assume n: "normalizeInput input = Inr n"
    and T: "evaluateCurve (lc_thresholdQuoteRaw c) (ni_vaultSharePct n) (ni_preset n) s = Inr c"
    "0 < lc_thresholdQuoteRaw c" "lc_thresholdQuoteRaw c \<le> U64_MAX"
  from n have share: "ni_vaultSharePct n = li_vaultSharePct input"
    by (auto simp: normalizeInput_def Let_def result_simps split: option.splits)
  obtain pct where p: "ni_vaultSharePct n = JsInt (pct - 10)" "40 \<le> pct" "pct \<le> 70"
      "lc_migrationQuoteAmount c = lc_thresholdQuoteRaw c - lc_thresholdQuoteRaw c * pct div 100"
      "lc_platformGraduationFee c = lc_thresholdQuoteRaw c div 20"
      "lc_creatorGraduationBonus c = lc_thresholdQuoteRaw c div 20"
      "lc_vaultAtGraduation c = lc_thresholdQuoteRaw c * pct div 100 - 2 * (lc_thresholdQuoteRaw c div 20)"
      "lc_thresholdQuoteRaw c * (pct - 10) div 100 \<le> lc_vaultAtGraduation c"
      "lc_vaultAtGraduation c \<le> lc_thresholdQuoteRaw c * (pct - 10) div 100 + 2"
    by (rule launch_facts [OF T]) (rule that, assumption+)
  have "lc_migrationQuoteAmount c + lc_platformGraduationFee c + lc_creatorGraduationBonus c + lc_vaultAtGraduation c =
      lc_thresholdQuoteRaw c" using p(4-7) by linarith
  with p share show ?thesis by (intro exI [of _ "pct - 10"] conjI) simp_all
qed

lemma launch_amounts_split_threshold_witness:
  "528387626 + 66048453 + 66048453 + 660484531 = (1320969063 :: int) \<and>
    (\<exists>share :: int. 1320969063 * share div 100 \<le> 660484531 \<and> 660484531 \<le> 1320969063 * share div 100 + 2)"
  using launch_amounts_split_threshold [OF example_launch_computes]
  unfolding example_launch_curve_def launch_curve_result.simps by blast

text \<open>
  C6: \<open>buildDbcConfigParams\<close> returns exactly when it has to: with a computed launch curve, neither
  validator and not the liveness check ever rejects the parameters it builds, except for a vault that
  rounds to zero or a supply (with the swap buffer) beyond u64; besides, the two accounts must not be
  the default key and the quote mint must parse.
\<close>

theorem launch_build_returns_iff:
  assumes "computeLaunchCurve guess input = Inr c" "normalizeInput input = Inr n"
  shows "returns (buildDbcConfigParams guess parse input feeClaimer leftover) \<longleftrightarrow>
    feeClaimer \<noteq> PublicKey_default \<and> leftover \<noteq> PublicKey_default \<and>
    parse (qa_mint (ni_quote n)) \<noteq> None \<and> lc_vaultAtGraduation c \<noteq> 0 \<and> (\<exists>b. supply_fits c b)"
proof (rule computed_launch [OF assms(1)])
  let ?P = "launchConfigParams c"
    and ?o = "\<lparr>vo_leftoverReceiver = Some leftover, vo_isTransferHook = False\<rparr>"
  fix n' s
  assume "normalizeInput input = Inr n'" and T: "0 < lc_thresholdQuoteRaw c" "lc_thresholdQuoteRaw c \<le> U64_MAX"
    and ev': "evaluateCurve (lc_thresholdQuoteRaw c) (ni_vaultSharePct n') (ni_preset n') s = Inr c"
  with assms(2) have ev: "evaluateCurve (lc_thresholdQuoteRaw c) (ni_vaultSharePct n) (ni_preset n) s = Inr c" by simp
  obtain s1 L pct where f: "lc_sqrtStartPrice c = s" "MIN_SQRT_PRICE \<le> s" "s < s1" "s1 < MAX_SQRT_PRICE"
      "lc_curve c = [\<lparr>cp_sqrtPrice = s1, cp_liquidity = L\<rparr>]" "0 < L" "L \<le> U128_MAX"
      "lc_migrationFeePct c = pct" "40 \<le> pct" "pct \<le> 70"
      "vaultAtGraduation (lc_thresholdQuoteRaw c) (JsInt pct) = Inr (lc_vaultAtGraduation c)"
    by (rule launch_facts [OF ev T]) (rule that, assumption+)
  have s0: "0 \<le> s" "s < MAX_SQRT_PRICE" using f(2,3,4) bounds_nonneg(4) by linarith+
  have "validateCurve s (cfg_curve ?P) = Inr (lc_curve c)" by (rule launch_curve_ok [OF f(5) s0(1) f(3,4,6,7)])
  then have vp: "validateParameters ?P ?o = Inr (checked_launch c)"
    using f s0 T by (intro launch_params_ok) simp_all
  obtain q where proc: "\<And>r. processCreateConfig ?P ?o (checked_launch c) = Inr r \<longleftrightarrow>
      (\<exists>b. supply_fits c b \<and> r = launch_result c q b)" using launch_process [OF ev T, of ?o] by blast
  have dbc: "validateDbcConfigParams ?P ?o = Inr r \<longleftrightarrow> (\<exists>b. supply_fits c b \<and> r = launch_result c q b)" for r
    by (simp add: validateDbcConfigParams_def vp proc)
  have live: "returns (assertCurveCanComplete ?P (cr_migrationSqrtPrice r))" if "validateDbcConfigParams ?P ?o = Inr r" for r
    by (rule accepted_price [OF that]) (simp add: assertCurveCanComplete_def completeLoop_eq)
  obtain bps where bps: "ni_exitFeeBps n = JsInt bps" "0 \<le> bps" "bps \<le> 500" using assms(2) by (rule normalized_fee)
  have launch: "returns (validateLaunchConfigParams ?P
      \<lparr>lo_claimer = None, lo_feeClaimer = None, lo_leftoverReceiver = None,
       lo_configQuoteMint = None, lo_quoteMint = None, lo_exitFeeBps = Some (ni_exitFeeBps n)\<rparr>) \<longleftrightarrow>
      lc_vaultAtGraduation c \<noteq> 0"
    using f(8-11) bps by (simp add: launch_validation)
  have "returns (buildDbcConfigParams guess parse input feeClaimer leftover) \<longleftrightarrow>
    feeClaimer \<noteq> PublicKey_default \<and> leftover \<noteq> PublicKey_default \<and> parse (qa_mint (ni_quote n)) \<noteq> None \<and>
    (\<exists>r. validateDbcConfigParams ?P ?o = Inr r \<and> returns (assertCurveCanComplete ?P (cr_migrationSqrtPrice r)) \<and>
      returns (validateLaunchConfigParams ?P
        \<lparr>lo_claimer = None, lo_feeClaimer = None, lo_leftoverReceiver = None,
         lo_configQuoteMint = None, lo_quoteMint = None, lo_exitFeeBps = Some (ni_exitFeeBps n)\<rparr>))"
    by (auto simp: buildDbcConfigParams_def assms returns_def bindE_eq_Inr Let_def split: option.splits)
  with launch live dbc show ?thesis by blast
qed

lemma launch_build_returns_iff_witness:
  "returns (buildDbcConfigParams example_guess (\<lambda>text. Some (PublicKey_default [0 := 9])) example_input
     (replicate 32 1) (replicate 32 2))"
proof -
  obtain n where n: "normalizeInput example_input = Inr n" by (rule computed_launch [OF example_launch_computes])
  have b: "getSwapAmountWithBuffer (lc_swapBaseAmount example_launch_curve) (lc_sqrtStartPrice example_launch_curve)
      (lc_curve example_launch_curve) = Inr 732521076856473" by code_simp
  have "supply_fits example_launch_curve 732521076856473"
    by (simp add: supply_fits_def b) (simp add: example_launch_curve_def bounds_defs)
  moreover have "replicate 32 1 \<noteq> PublicKey_default" "replicate 32 2 \<noteq> PublicKey_default" by code_simp+
  moreover have "lc_vaultAtGraduation example_launch_curve \<noteq> 0" by (simp add: example_launch_curve_def)
  ultimately show ?thesis
    using launch_build_returns_iff [OF example_launch_computes n] by blast
qed

end
