(* ===== verification/ReservedNames.thy ===== *)
theory ReservedNames
  imports Prelude
begin

text \<open>
  \<^verbatim>\<open>packages/sdk/src/reservedNames.ts\<close>: the rule that reserves names imitating the platform brand. A
  string is its list of Unicode code points. The lemmas: the confusables table is sorted and disjoint, so
  the binary search over it is the lookup of the one range that holds the code point; skeletons are fixed
  points of the rule; and a reserved text stays reserved whatever is put around it and whatever
  characters without a skeleton are inserted into it.
\<close>

section \<open>The confusables table\<close>

type_synonym confusable = "int \<times> int \<times> char"

text \<open>The generated table, in four parts of 150 lines each at most.\<close>

definition CONFUSABLES_1 :: "confusable list" where
  "CONFUSABLES_1 = [
    (0x00a1, 0x00a1, CHR ''l''), (0x00aa, 0x00aa, CHR ''a''), (0x00b9, 0x00b9, CHR ''l''),
    (0x00ba, 0x00ba, CHR ''o''), (0x00c0, 0x00c5, CHR ''a''), (0x00cc, 0x00cf, CHR ''l''),
    (0x00d1, 0x00d1, CHR ''n''), (0x00d2, 0x00d6, CHR ''o''), (0x00d8, 0x00d8, CHR ''o''),
    (0x00e0, 0x00e5, CHR ''a''), (0x00ec, 0x00ef, CHR ''l''), (0x00f1, 0x00f1, CHR ''n''),
    (0x00f2, 0x00f6, CHR ''o''), (0x00f8, 0x00f8, CHR ''o''), (0x00fe, 0x00fe, CHR ''p''),
    (0x0100, 0x0105, CHR ''a''), (0x0128, 0x0131, CHR ''l''), (0x0139, 0x0142, CHR ''l''),
    (0x0143, 0x0149, CHR ''n''), (0x014b, 0x014b, CHR ''n''), (0x014c, 0x0151, CHR ''o''),
    (0x0162, 0x0167, CHR ''t''), (0x0196, 0x0197, CHR ''l''), (0x019a, 0x019a, CHR ''l''),
    (0x019d, 0x019e, CHR ''n''), (0x019f, 0x01a1, CHR ''o''), (0x01a4, 0x01a5, CHR ''p''),
    (0x01ab, 0x01ae, CHR ''t''), (0x01bf, 0x01bf, CHR ''p''), (0x01c0, 0x01c0, CHR ''l''),
    (0x01c3, 0x01c3, CHR ''l''), (0x01cd, 0x01ce, CHR ''a''), (0x01cf, 0x01d0, CHR ''l''),
    (0x01d1, 0x01d2, CHR ''o''), (0x01de, 0x01e1, CHR ''a''), (0x01ea, 0x01ed, CHR ''o''),
    (0x01f8, 0x01f9, CHR ''n''), (0x01fa, 0x01fb, CHR ''a''), (0x01fe, 0x01ff, CHR ''o''),
    (0x0200, 0x0203, CHR ''a''), (0x0208, 0x020b, CHR ''l''), (0x020c, 0x020f, CHR ''o''),
    (0x021a, 0x021b, CHR ''t''), (0x0226, 0x0227, CHR ''a''), (0x022a, 0x0231, CHR ''o''),
    (0x023e, 0x023e, CHR ''t''), (0x0251, 0x0251, CHR ''a''), (0x0268, 0x026b, CHR ''l''),
    (0x026d, 0x026d, CHR ''l''), (0x0272, 0x0274, CHR ''n''), (0x0275, 0x0275, CHR ''o''),
    (0x029f, 0x029f, CHR ''l''), (0x02e1, 0x02e1, CHR ''l''), (0x0386, 0x0386, CHR ''a''),
    (0x038a, 0x038a, CHR ''l''), (0x038c, 0x038c, CHR ''o''), (0x0390, 0x0390, CHR ''l''),
    (0x0391, 0x0391, CHR ''a''), (0x0398, 0x0398, CHR ''o''), (0x0399, 0x0399, CHR ''l''),
    (0x039a, 0x039a, CHR ''k''), (0x039c, 0x039c, CHR ''m''), (0x039d, 0x039d, CHR ''n''),
    (0x039f, 0x039f, CHR ''o''), (0x03a1, 0x03a1, CHR ''p''), (0x03a4, 0x03a4, CHR ''t''),
    (0x03aa, 0x03aa, CHR ''l''), (0x03ac, 0x03ac, CHR ''a''), (0x03ae, 0x03ae, CHR ''n''),
    (0x03af, 0x03af, CHR ''l''), (0x03b1, 0x03b1, CHR ''a''), (0x03b7, 0x03b7, CHR ''n''),
    (0x03b8, 0x03b8, CHR ''o''), (0x03b9, 0x03b9, CHR ''l''), (0x03ba, 0x03ba, CHR ''k''),
    (0x03bc, 0x03bc, CHR ''u''), (0x03bd, 0x03bd, CHR ''v''), (0x03bf, 0x03bf, CHR ''o''),
    (0x03c1, 0x03c1, CHR ''p''), (0x03c3, 0x03c3, CHR ''o''), (0x03c4, 0x03c4, CHR ''t''),
    (0x03ca, 0x03ca, CHR ''l''), (0x03cc, 0x03cc, CHR ''o''), (0x03d1, 0x03d1, CHR ''o''),
    (0x03ed, 0x03ed, CHR ''o''), (0x03f1, 0x03f1, CHR ''p''), (0x03f4, 0x03f4, CHR ''o''),
    (0x03f8, 0x03f8, CHR ''p''), (0x0406, 0x0407, CHR ''l''), (0x0408, 0x0408, CHR ''j''),
    (0x0410, 0x0410, CHR ''a''), (0x0415, 0x0415, CHR ''e''), (0x041a, 0x041a, CHR ''k''),
    (0x041c, 0x041c, CHR ''m''), (0x041d, 0x041d, CHR ''h''), (0x041e, 0x041e, CHR ''o''),
    (0x041f, 0x041f, CHR ''n''), (0x0420, 0x0420, CHR ''p''), (0x0421, 0x0421, CHR ''c''),
    (0x0422, 0x0422, CHR ''t''), (0x0423, 0x0423, CHR ''y''), (0x0425, 0x0425, CHR ''x''),
    (0x0430, 0x0430, CHR ''a''), (0x0435, 0x0435, CHR ''e''), (0x043a, 0x043a, CHR ''k''),
    (0x043c, 0x043c, CHR ''m''), (0x043d, 0x043d, CHR ''h''), (0x043e, 0x043e, CHR ''o''),
    (0x043f, 0x043f, CHR ''n''), (0x0440, 0x0440, CHR ''p''), (0x0441, 0x0441, CHR ''c''),
    (0x0442, 0x0442, CHR ''t''), (0x0443, 0x0443, CHR ''y''), (0x0445, 0x0445, CHR ''x''),
    (0x0456, 0x0457, CHR ''l''), (0x0458, 0x0458, CHR ''j''), (0x0472, 0x0473, CHR ''o''),
    (0x04ac, 0x04ad, CHR ''t''), (0x04c0, 0x04c0, CHR ''l''), (0x04cf, 0x04cf, CHR ''l''),
    (0x04d0, 0x04d3, CHR ''a''), (0x04e6, 0x04eb, CHR ''o''), (0x0555, 0x0555, CHR ''o''),
    (0x0572, 0x0572, CHR ''n''), (0x0578, 0x0578, CHR ''n''), (0x057c, 0x057c, CHR ''n''),
    (0x0582, 0x0582, CHR ''l''), (0x0585, 0x0585, CHR ''o''), (0x05c0, 0x05c0, CHR ''l''),
    (0x05d5, 0x05d5, CHR ''l''), (0x05df, 0x05df, CHR ''l''), (0x05e1, 0x05e1, CHR ''o''),
    (0x05f1, 0x05f1, CHR ''l''), (0x0622, 0x0623, CHR ''l''), (0x0625, 0x0625, CHR ''l''),
    (0x0627, 0x0627, CHR ''l''), (0x0629, 0x0629, CHR ''o''), (0x0647, 0x0647, CHR ''o''),
    (0x0661, 0x0661, CHR ''l''), (0x0665, 0x0665, CHR ''o''), (0x0673, 0x0673, CHR ''l''),
    (0x06be, 0x06be, CHR ''o''), (0x06c0, 0x06c3, CHR ''o''), (0x06d5, 0x06d5, CHR ''o''),
    (0x06f1, 0x06f1, CHR ''l''), (0x06f5, 0x06f5, CHR ''o''), (0x06ff, 0x06ff, CHR ''o''),
    (0x07c0, 0x07c0, CHR ''o''), (0x07ca, 0x07ca, CHR ''l''), (0x07cb, 0x07cb, CHR ''o'')]"

definition CONFUSABLES_2 :: "confusable list" where
  "CONFUSABLES_2 = [
    (0x07e0, 0x07e0, CHR ''t''), (0x0840, 0x0840, CHR ''o''), (0x0964, 0x0964, CHR ''l''),
    (0x0966, 0x0966, CHR ''o''), (0x09e6, 0x09e6, CHR ''o''), (0x0a66, 0x0a66, CHR ''o''),
    (0x0ae6, 0x0ae6, CHR ''o''), (0x0b20, 0x0b20, CHR ''o''), (0x0b66, 0x0b66, CHR ''o''),
    (0x0be6, 0x0be6, CHR ''o''), (0x0c02, 0x0c02, CHR ''o''), (0x0c66, 0x0c66, CHR ''o''),
    (0x0c82, 0x0c82, CHR ''o''), (0x0ce6, 0x0ce6, CHR ''o''), (0x0d02, 0x0d02, CHR ''o''),
    (0x0d20, 0x0d20, CHR ''o''), (0x0d66, 0x0d66, CHR ''o''), (0x0d82, 0x0d82, CHR ''o''),
    (0x0e50, 0x0e50, CHR ''o''), (0x0ed0, 0x0ed0, CHR ''o''), (0x1010, 0x1010, CHR ''o''),
    (0x101d, 0x101d, CHR ''o''), (0x1040, 0x1040, CHR ''o''), (0x104a, 0x104a, CHR ''l''),
    (0x10d7, 0x10d7, CHR ''o''), (0x10ff, 0x10ff, CHR ''o''), (0x110b, 0x110b, CHR ''o''),
    (0x11bc, 0x11bc, CHR ''o''), (0x12d0, 0x12d0, CHR ''o''), (0x1340, 0x1340, CHR ''o''),
    (0x13a2, 0x13a2, CHR ''t''), (0x13a4, 0x13a4, CHR ''o''), (0x13a5, 0x13a5, CHR ''l''),
    (0x13aa, 0x13aa, CHR ''a''), (0x13be, 0x13be, CHR ''o''), (0x13bf, 0x13bf, CHR ''t''),
    (0x13de, 0x13de, CHR ''l''), (0x13e2, 0x13e2, CHR ''p''), (0x13eb, 0x13eb, CHR ''o''),
    (0x146d, 0x146d, CHR ''p''), (0x1476, 0x1477, CHR ''p''), (0x1486, 0x1486, CHR ''p''),
    (0x14aa, 0x14aa, CHR ''l''), (0x14b6, 0x14b7, CHR ''l''), (0x15c5, 0x15c5, CHR ''a''),
    (0x16c1, 0x16c1, CHR ''l''), (0x16c5, 0x16c5, CHR ''l''), (0x16d0, 0x16d0, CHR ''l''),
    (0x17e0, 0x17e0, CHR ''o''), (0x1a32, 0x1a32, CHR ''o''), (0x1a45, 0x1a45, CHR ''o''),
    (0x1a80, 0x1a80, CHR ''o''), (0x1a90, 0x1a90, CHR ''o''), (0x1bea, 0x1bea, CHR ''o''),
    (0x1c82, 0x1c82, CHR ''o''), (0x1cbf, 0x1cbf, CHR ''o''), (0x1d00, 0x1d00, CHR ''a''),
    (0x1d0f, 0x1d0f, CHR ''o''), (0x1d11, 0x1d11, CHR ''o''), (0x1d18, 0x1d18, CHR ''p''),
    (0x1d1b, 0x1d1b, CHR ''t''), (0x1d29, 0x1d29, CHR ''p''), (0x1d2c, 0x1d2c, CHR ''a''),
    (0x1d35, 0x1d35, CHR ''l''), (0x1d38, 0x1d38, CHR ''l''), (0x1d3a, 0x1d3a, CHR ''n''),
    (0x1d3c, 0x1d3c, CHR ''o''), (0x1d3e, 0x1d3e, CHR ''p''), (0x1d40, 0x1d40, CHR ''t''),
    (0x1d43, 0x1d43, CHR ''a''), (0x1d45, 0x1d45, CHR ''a''), (0x1d51, 0x1d51, CHR ''n''),
    (0x1d52, 0x1d52, CHR ''o''), (0x1d56, 0x1d56, CHR ''p''), (0x1d57, 0x1d57, CHR ''t''),
    (0x1d62, 0x1d62, CHR ''l''), (0x1d68, 0x1d68, CHR ''p''), (0x1d70, 0x1d70, CHR ''n''),
    (0x1d75, 0x1d75, CHR ''t''), (0x1d7b, 0x1d7c, CHR ''l''), (0x1d7d, 0x1d7d, CHR ''p''),
    (0x1da4, 0x1da7, CHR ''l''), (0x1da9, 0x1da9, CHR ''l''), (0x1dab, 0x1dab, CHR ''l''),
    (0x1dae, 0x1db0, CHR ''n''), (0x1db1, 0x1db1, CHR ''o''), (0x1db5, 0x1db5, CHR ''t''),
    (0x1dbf, 0x1dbf, CHR ''o''), (0x1e00, 0x1e01, CHR ''a''), (0x1e2c, 0x1e2f, CHR ''l''),
    (0x1e36, 0x1e3d, CHR ''l''), (0x1e44, 0x1e4b, CHR ''n''), (0x1e4c, 0x1e53, CHR ''o''),
    (0x1e54, 0x1e57, CHR ''p''), (0x1e6a, 0x1e71, CHR ''t''), (0x1e97, 0x1e97, CHR ''t''),
    (0x1e9a, 0x1e9a, CHR ''a''), (0x1ea0, 0x1eb7, CHR ''a''), (0x1ec8, 0x1ecb, CHR ''l''),
    (0x1ecc, 0x1ee3, CHR ''o''), (0x1f00, 0x1f0f, CHR ''a''), (0x1f20, 0x1f27, CHR ''n''),
    (0x1f30, 0x1f3f, CHR ''l''), (0x1f40, 0x1f45, CHR ''o''), (0x1f48, 0x1f4d, CHR ''o''),
    (0x1f70, 0x1f71, CHR ''a''), (0x1f74, 0x1f75, CHR ''n''), (0x1f76, 0x1f77, CHR ''l''),
    (0x1f78, 0x1f79, CHR ''o''), (0x1f80, 0x1f8f, CHR ''a''), (0x1f90, 0x1f97, CHR ''n''),
    (0x1fb0, 0x1fb4, CHR ''a''), (0x1fb6, 0x1fbc, CHR ''a''), (0x1fbe, 0x1fbe, CHR ''l''),
    (0x1fc2, 0x1fc4, CHR ''n''), (0x1fc6, 0x1fc7, CHR ''n''), (0x1fd0, 0x1fd3, CHR ''l''),
    (0x1fd6, 0x1fdb, CHR ''l''), (0x1fe4, 0x1fe5, CHR ''p''), (0x1fec, 0x1fec, CHR ''p''),
    (0x1ff8, 0x1ff9, CHR ''o''), (0x2070, 0x2070, CHR ''o''), (0x2071, 0x2071, CHR ''l''),
    (0x207f, 0x207f, CHR ''n''), (0x2080, 0x2080, CHR ''o''), (0x2081, 0x2081, CHR ''l''),
    (0x2090, 0x2090, CHR ''a''), (0x2092, 0x2092, CHR ''o''), (0x2097, 0x2097, CHR ''l''),
    (0x2099, 0x2099, CHR ''n''), (0x209a, 0x209a, CHR ''p''), (0x209c, 0x209c, CHR ''t''),
    (0x20ae, 0x20ae, CHR ''t''), (0x2110, 0x2113, CHR ''l''), (0x2115, 0x2115, CHR ''n''),
    (0x2119, 0x2119, CHR ''p''), (0x212b, 0x212b, CHR ''a''), (0x2134, 0x2134, CHR ''o''),
    (0x2139, 0x2139, CHR ''l''), (0x2148, 0x2148, CHR ''l''), (0x215f, 0x2160, CHR ''l''),
    (0x216c, 0x216c, CHR ''l''), (0x2170, 0x2170, CHR ''l''), (0x217c, 0x217c, CHR ''l''),
    (0x21bf, 0x21bf, CHR ''l''), (0x2205, 0x2205, CHR ''o''), (0x2223, 0x2224, CHR ''l''),
    (0x2296, 0x2296, CHR ''o''), (0x229d, 0x229d, CHR ''o''), (0x22a4, 0x22a4, CHR ''t'')]"

definition CONFUSABLES_3 :: "confusable list" where
  "CONFUSABLES_3 = [
    (0x2300, 0x2300, CHR ''o''), (0x2361, 0x2361, CHR ''t''), (0x2365, 0x2365, CHR ''o''),
    (0x236c, 0x236c, CHR ''o''), (0x2373, 0x2373, CHR ''l''), (0x2374, 0x2374, CHR ''p''),
    (0x2376, 0x2376, CHR ''a''), (0x2378, 0x2378, CHR ''l''), (0x237a, 0x237a, CHR ''a''),
    (0x23fd, 0x23fd, CHR ''l''), (0x2460, 0x2460, CHR ''l''), (0x2474, 0x2474, CHR ''l''),
    (0x2488, 0x2488, CHR ''l''), (0x24ea, 0x24ea, CHR ''o''), (0x2502, 0x2503, CHR ''l''),
    (0x27d9, 0x27d9, CHR ''t''), (0x296e, 0x296e, CHR ''l''), (0x2c90, 0x2c91, CHR ''o''),
    (0x2c92, 0x2c93, CHR ''l''), (0x2c9a, 0x2c9b, CHR ''n''), (0x2c9e, 0x2c9f, CHR ''o''),
    (0x2ca2, 0x2ca3, CHR ''p''), (0x2ca6, 0x2ca7, CHR ''t''), (0x2cce, 0x2ccf, CHR ''p''),
    (0x2cd0, 0x2cd1, CHR ''l''), (0x2d31, 0x2d31, CHR ''o''), (0x2d41, 0x2d41, CHR ''o''),
    (0x2d4a, 0x2d4a, CHR ''l''), (0x2d4f, 0x2d4f, CHR ''l''), (0x2d51, 0x2d51, CHR ''l''),
    (0x2d54, 0x2d54, CHR ''o''), (0x3007, 0x3007, CHR ''o''), (0x3112, 0x3112, CHR ''t''),
    (0x3147, 0x3147, CHR ''o''), (0x3163, 0x3163, CHR ''l''), (0x3207, 0x3207, CHR ''o''),
    (0x3267, 0x3267, CHR ''o''), (0x4e05, 0x4e05, CHR ''t''), (0xa4d1, 0xa4d1, CHR ''p''),
    (0xa4d4, 0xa4d4, CHR ''t''), (0xa4e0, 0xa4e0, CHR ''n''), (0xa4e1, 0xa4e1, CHR ''l''),
    (0xa4ee, 0xa4ee, CHR ''a''), (0xa4f2, 0xa4f2, CHR ''l''), (0xa4f3, 0xa4f3, CHR ''o''),
    (0xa50b, 0xa50b, CHR ''t''), (0xa56f, 0xa56f, CHR ''l''), (0xa647, 0xa647, CHR ''l''),
    (0xa68c, 0xa68d, CHR ''t''), (0xa6a2, 0xa6a2, CHR ''o''), (0xa74a, 0xa74b, CHR ''o''),
    (0xa781, 0xa781, CHR ''l''), (0xa7ae, 0xa7ae, CHR ''l''), (0xa7fe, 0xa7fe, CHR ''l''),
    (0xa830, 0xa830, CHR ''l''), (0xa8ce, 0xa8ce, CHR ''l''), (0xaa5d, 0xaa5d, CHR ''l''),
    (0xab3d, 0xab3e, CHR ''o''), (0xab5e, 0xab5e, CHR ''l''), (0xab64, 0xab64, CHR ''a''),
    (0xab72, 0xab72, CHR ''t''), (0xab74, 0xab74, CHR ''o''), (0xab75, 0xab75, CHR ''l''),
    (0xab7a, 0xab7a, CHR ''a''), (0xab8e, 0xab8e, CHR ''o''), (0xabae, 0xabae, CHR ''l''),
    (0xabb2, 0xabb2, CHR ''p''), (0xabbb, 0xabbb, CHR ''o''), (0xfb35, 0xfb35, CHR ''l''),
    (0xfb41, 0xfb41, CHR ''o''), (0xfb4b, 0xfb4b, CHR ''l''), (0xfba4, 0xfbad, CHR ''o''),
    (0xfcd9, 0xfcd9, CHR ''o''), (0xfd3c, 0xfd3d, CHR ''l''), (0xfe15, 0xfe15, CHR ''l''),
    (0xfe31, 0xfe31, CHR ''l''), (0xfe57, 0xfe57, CHR ''l''), (0xfe81, 0xfe84, CHR ''l''),
    (0xfe87, 0xfe88, CHR ''l''), (0xfe8d, 0xfe8e, CHR ''l''), (0xfe93, 0xfe94, CHR ''o''),
    (0xfee9, 0xfeec, CHR ''o''), (0xffb7, 0xffb7, CHR ''o''), (0xffe8, 0xffe8, CHR ''l''),
    (0x1018e, 0x1018e, CHR ''n''), (0x1028a, 0x1028a, CHR ''l''), (0x10292, 0x10292, CHR ''o''),
    (0x10295, 0x10295, CHR ''p''), (0x10297, 0x10297, CHR ''t''), (0x102a0, 0x102a0, CHR ''a''),
    (0x102ab, 0x102ab, CHR ''o''), (0x102b1, 0x102b1, CHR ''t''), (0x10309, 0x10309, CHR ''l''),
    (0x1030f, 0x1030f, CHR ''o''), (0x10315, 0x10315, CHR ''t''), (0x10320, 0x10320, CHR ''l''),
    (0x10404, 0x10404, CHR ''o''), (0x1041b, 0x1041b, CHR ''l''), (0x1042c, 0x1042c, CHR ''o''),
    (0x10443, 0x10443, CHR ''l''), (0x104c2, 0x104c2, CHR ''o''), (0x104ea, 0x104ea, CHR ''o''),
    (0x1050e, 0x1050e, CHR ''l''), (0x10513, 0x10513, CHR ''n''), (0x10516, 0x10516, CHR ''o''),
    (0x1051e, 0x1051e, CHR ''o''), (0x10526, 0x10526, CHR ''l''), (0x107a2, 0x107a2, CHR ''o''),
    (0x107b6, 0x107b6, CHR ''l''), (0x10926, 0x10926, CHR ''l''), (0x1092c, 0x1092c, CHR ''o''),
    (0x10c17, 0x10c17, CHR ''o''), (0x10c3e, 0x10c3e, CHR ''l''), (0x10ca5, 0x10ca5, CHR ''l''),
    (0x10cfa, 0x10cfa, CHR ''l''), (0x10d07, 0x10d07, CHR ''o''), (0x11047, 0x11047, CHR ''l''),
    (0x110c0, 0x110c0, CHR ''l''), (0x11116, 0x11116, CHR ''o''), (0x11124, 0x11124, CHR ''o''),
    (0x11141, 0x11141, CHR ''l''), (0x111c5, 0x111c5, CHR ''l''), (0x11302, 0x11302, CHR ''o''),
    (0x113d4, 0x113d4, CHR ''l''), (0x1144b, 0x1144b, CHR ''l''), (0x114d0, 0x114d0, CHR ''o''),
    (0x115c5, 0x115c5, CHR ''l''), (0x11641, 0x11641, CHR ''l''), (0x118a3, 0x118a3, CHR ''l''),
    (0x118b2, 0x118b2, CHR ''l''), (0x118b5, 0x118b5, CHR ''o''), (0x118bc, 0x118bc, CHR ''t''),
    (0x118c3, 0x118c3, CHR ''l''), (0x118c8, 0x118c8, CHR ''o''), (0x118d7, 0x118d7, CHR ''o''),
    (0x118e0, 0x118e0, CHR ''o''), (0x11abe, 0x11abe, CHR ''n''), (0x11c41, 0x11c41, CHR ''l''),
    (0x11dda, 0x11dda, CHR ''l''), (0x11de0, 0x11de0, CHR ''o''), (0x11de1, 0x11de1, CHR ''l''),
    (0x1699b, 0x1699b, CHR ''o''), (0x16ae4, 0x16ae4, CHR ''l''), (0x16ae9, 0x16ae9, CHR ''o''),
    (0x16d63, 0x16d63, CHR ''l''), (0x16e80, 0x16e80, CHR ''o''), (0x16eaa, 0x16eaa, CHR ''l''),
    (0x16f0a, 0x16f0a, CHR ''t''), (0x16f16, 0x16f16, CHR ''l''), (0x16f28, 0x16f28, CHR ''l'')]"

definition CONFUSABLES_4 :: "confusable list" where
  "CONFUSABLES_4 = [
    (0x16f40, 0x16f40, CHR ''a''), (0x1ccd6, 0x1ccd6, CHR ''a''), (0x1ccde, 0x1ccde, CHR ''l''),
    (0x1cce1, 0x1cce1, CHR ''l''), (0x1cce3, 0x1cce3, CHR ''n''), (0x1cce4, 0x1cce4, CHR ''o''),
    (0x1cce5, 0x1cce5, CHR ''p''), (0x1cce9, 0x1cce9, CHR ''t''), (0x1ccf0, 0x1ccf0, CHR ''o''),
    (0x1ccf1, 0x1ccf1, CHR ''l''), (0x1d100, 0x1d100, CHR ''l''), (0x1d21a, 0x1d21a, CHR ''o''),
    (0x1d22a, 0x1d22a, CHR ''l''), (0x1d373, 0x1d373, CHR ''t''), (0x1d377, 0x1d377, CHR ''l''),
    (0x1d6a4, 0x1d6a4, CHR ''l''), (0x1d6a8, 0x1d6a8, CHR ''a''), (0x1d6af, 0x1d6af, CHR ''o''),
    (0x1d6b0, 0x1d6b0, CHR ''l''), (0x1d6b4, 0x1d6b4, CHR ''n''), (0x1d6b6, 0x1d6b6, CHR ''o''),
    (0x1d6b8, 0x1d6b8, CHR ''p''), (0x1d6b9, 0x1d6b9, CHR ''o''), (0x1d6bb, 0x1d6bb, CHR ''t''),
    (0x1d6c2, 0x1d6c2, CHR ''a''), (0x1d6c8, 0x1d6c8, CHR ''n''), (0x1d6c9, 0x1d6c9, CHR ''o''),
    (0x1d6ca, 0x1d6ca, CHR ''l''), (0x1d6d0, 0x1d6d0, CHR ''o''), (0x1d6d2, 0x1d6d2, CHR ''p''),
    (0x1d6d4, 0x1d6d4, CHR ''o''), (0x1d6d5, 0x1d6d5, CHR ''t''), (0x1d6dd, 0x1d6dd, CHR ''o''),
    (0x1d6e0, 0x1d6e0, CHR ''p''), (0x1d6e2, 0x1d6e2, CHR ''a''), (0x1d6e9, 0x1d6e9, CHR ''o''),
    (0x1d6ea, 0x1d6ea, CHR ''l''), (0x1d6ee, 0x1d6ee, CHR ''n''), (0x1d6f0, 0x1d6f0, CHR ''o''),
    (0x1d6f2, 0x1d6f2, CHR ''p''), (0x1d6f3, 0x1d6f3, CHR ''o''), (0x1d6f5, 0x1d6f5, CHR ''t''),
    (0x1d6fc, 0x1d6fc, CHR ''a''), (0x1d702, 0x1d702, CHR ''n''), (0x1d703, 0x1d703, CHR ''o''),
    (0x1d704, 0x1d704, CHR ''l''), (0x1d70a, 0x1d70a, CHR ''o''), (0x1d70c, 0x1d70c, CHR ''p''),
    (0x1d70e, 0x1d70e, CHR ''o''), (0x1d70f, 0x1d70f, CHR ''t''), (0x1d717, 0x1d717, CHR ''o''),
    (0x1d71a, 0x1d71a, CHR ''p''), (0x1d71c, 0x1d71c, CHR ''a''), (0x1d723, 0x1d723, CHR ''o''),
    (0x1d724, 0x1d724, CHR ''l''), (0x1d728, 0x1d728, CHR ''n''), (0x1d72a, 0x1d72a, CHR ''o''),
    (0x1d72c, 0x1d72c, CHR ''p''), (0x1d72d, 0x1d72d, CHR ''o''), (0x1d72f, 0x1d72f, CHR ''t''),
    (0x1d736, 0x1d736, CHR ''a''), (0x1d73c, 0x1d73c, CHR ''n''), (0x1d73d, 0x1d73d, CHR ''o''),
    (0x1d73e, 0x1d73e, CHR ''l''), (0x1d744, 0x1d744, CHR ''o''), (0x1d746, 0x1d746, CHR ''p''),
    (0x1d748, 0x1d748, CHR ''o''), (0x1d749, 0x1d749, CHR ''t''), (0x1d751, 0x1d751, CHR ''o''),
    (0x1d754, 0x1d754, CHR ''p''), (0x1d756, 0x1d756, CHR ''a''), (0x1d75d, 0x1d75d, CHR ''o''),
    (0x1d75e, 0x1d75e, CHR ''l''), (0x1d762, 0x1d762, CHR ''n''), (0x1d764, 0x1d764, CHR ''o''),
    (0x1d766, 0x1d766, CHR ''p''), (0x1d767, 0x1d767, CHR ''o''), (0x1d769, 0x1d769, CHR ''t''),
    (0x1d770, 0x1d770, CHR ''a''), (0x1d776, 0x1d776, CHR ''n''), (0x1d777, 0x1d777, CHR ''o''),
    (0x1d778, 0x1d778, CHR ''l''), (0x1d77e, 0x1d77e, CHR ''o''), (0x1d780, 0x1d780, CHR ''p''),
    (0x1d782, 0x1d782, CHR ''o''), (0x1d783, 0x1d783, CHR ''t''), (0x1d78b, 0x1d78b, CHR ''o''),
    (0x1d78e, 0x1d78e, CHR ''p''), (0x1d790, 0x1d790, CHR ''a''), (0x1d797, 0x1d797, CHR ''o''),
    (0x1d798, 0x1d798, CHR ''l''), (0x1d79c, 0x1d79c, CHR ''n''), (0x1d79e, 0x1d79e, CHR ''o''),
    (0x1d7a0, 0x1d7a0, CHR ''p''), (0x1d7a1, 0x1d7a1, CHR ''o''), (0x1d7a3, 0x1d7a3, CHR ''t''),
    (0x1d7aa, 0x1d7aa, CHR ''a''), (0x1d7b0, 0x1d7b0, CHR ''n''), (0x1d7b1, 0x1d7b1, CHR ''o''),
    (0x1d7b2, 0x1d7b2, CHR ''l''), (0x1d7b8, 0x1d7b8, CHR ''o''), (0x1d7ba, 0x1d7ba, CHR ''p''),
    (0x1d7bc, 0x1d7bc, CHR ''o''), (0x1d7bd, 0x1d7bd, CHR ''t''), (0x1d7c5, 0x1d7c5, CHR ''o''),
    (0x1d7c8, 0x1d7c8, CHR ''p''), (0x1df3c, 0x1df3c, CHR ''o''), (0x1df40, 0x1df41, CHR ''a''),
    (0x1df4d, 0x1df4f, CHR ''n''), (0x1df5a, 0x1df5a, CHR ''a''), (0x1df6a, 0x1df6a, CHR ''a''),
    (0x1df6e, 0x1df6e, CHR ''l''), (0x1e030, 0x1e030, CHR ''a''), (0x1e03c, 0x1e03c, CHR ''o''),
    (0x1e03d, 0x1e03d, CHR ''n''), (0x1e03e, 0x1e03e, CHR ''p''), (0x1e040, 0x1e040, CHR ''t''),
    (0x1e04c, 0x1e04c, CHR ''l''), (0x1e04e, 0x1e04e, CHR ''o''), (0x1e050, 0x1e050, CHR ''l''),
    (0x1e051, 0x1e051, CHR ''a''), (0x1e05c, 0x1e05c, CHR ''o''), (0x1e05d, 0x1e05d, CHR ''n''),
    (0x1e068, 0x1e068, CHR ''l''), (0x1e140, 0x1e140, CHR ''o''), (0x1e141, 0x1e141, CHR ''l''),
    (0x1e2f0, 0x1e2f0, CHR ''o''), (0x1e8c7, 0x1e8c7, CHR ''l''), (0x1ed01, 0x1ed01, CHR ''l''),
    (0x1ee00, 0x1ee00, CHR ''l''), (0x1ee24, 0x1ee24, CHR ''o''), (0x1ee64, 0x1ee64, CHR ''o''),
    (0x1ee80, 0x1ee80, CHR ''l''), (0x1ee84, 0x1ee84, CHR ''o''), (0x1f100, 0x1f101, CHR ''o''),
    (0x1f102, 0x1f102, CHR ''l''), (0x1f110, 0x1f110, CHR ''a''), (0x1f118, 0x1f118, CHR ''l''),
    (0x1f11b, 0x1f11b, CHR ''l''), (0x1f11d, 0x1f11d, CHR ''n''), (0x1f11e, 0x1f11e, CHR ''o''),
    (0x1f11f, 0x1f11f, CHR ''p''), (0x1f123, 0x1f123, CHR ''t''), (0x1f714, 0x1f714, CHR ''o''),
    (0x1f768, 0x1f768, CHR ''t''), (0x1fbf0, 0x1fbf0, CHR ''o''), (0x1fbf1, 0x1fbf1, CHR ''l'')]"

definition CONFUSABLES :: "confusable list" where
  "CONFUSABLES = CONFUSABLES_1 @ CONFUSABLES_2 @ CONFUSABLES_3 @ CONFUSABLES_4"

section \<open>Folding to ASCII\<close>

definition RESERVED_SKELETON :: string where
  "RESERVED_SKELETON = ''pllnt''"

text \<open>The character class of \<open>BIDI_CONTROL\<close>.\<close>

definition BIDI_CONTROL :: "int \<Rightarrow> bool" where
  "BIDI_CONTROL cp \<longleftrightarrow> cp = 0x061C \<or> cp = 0x200E \<or> cp = 0x200F \<or>
     (0x202A \<le> cp \<and> cp \<le> 0x202E) \<or> (0x2066 \<le> cp \<and> cp \<le> 0x2069)"

definition foldByRule :: "int \<Rightarrow> int option" where
  "foldByRule cp =
     (if cp \<ge> 0xff01 \<and> cp \<le> 0xff5e then Some (cp - 0xff01 + 0x21)
      else if cp \<ge> 0x249c \<and> cp \<le> 0x24b5 then Some (0x61 + (cp - 0x249c))
      else if cp \<ge> 0x24b6 \<and> cp \<le> 0x24cf then Some (0x41 + (cp - 0x24b6))
      else if cp \<ge> 0x24d0 \<and> cp \<le> 0x24e9 then Some (0x61 + (cp - 0x24d0))
      else if cp \<ge> 0x1f130 \<and> cp \<le> 0x1f189 \<and> (cp - 0x1f130) mod 32 < 26
           then Some (0x41 + ((cp - 0x1f130) mod 32))
      else if cp \<ge> 0x1d400 \<and> cp \<le> 0x1d6a3
           then (let k = (cp - 0x1d400) mod 52 in Some (if k < 26 then 0x41 + k else 0x61 + (k - 26)))
      else if cp \<ge> 0x1d7ce \<and> cp \<le> 0x1d7ff then Some (0x30 + ((cp - 0x1d7ce) mod 10))
      else None)"

text \<open>The binary search of \<open>foldToAscii\<close> over the table between \<open>lo\<close> and \<open>hi\<close>.\<close>

function searchLoop :: "confusable list \<Rightarrow> int \<Rightarrow> int \<Rightarrow> int \<Rightarrow> int option" where
  "searchLoop table cp lo hi =
     (if lo \<le> hi
      then let mid = (lo + hi) div 2;
               (first, last, ascii) = table ! nat mid
           in if last < cp then searchLoop table cp (mid + 1) hi
              else if first > cp then searchLoop table cp lo (mid - 1)
              else Some (int (of_char ascii))
      else None)"
  by pat_completeness auto
termination
  by (relation "measure (\<lambda>(table, cp, lo, hi). nat (hi - lo + 1))") auto

declare searchLoop.simps [simp del]

definition foldToAscii :: "int \<Rightarrow> int option" where
  "foldToAscii cp =
     (if cp < 0x80 then Some cp
      else case foldByRule cp of
             Some ruled \<Rightarrow> Some ruled
           | None \<Rightarrow> searchLoop CONFUSABLES cp 0 (int (length CONFUSABLES) - 1))"

text \<open>The folded character as a string of length at most one.\<close>

definition asciiSkeletonChar :: "int \<Rightarrow> string" where
  "asciiSkeletonChar c =
     (if c \<ge> 0x41 \<and> c \<le> 0x5a \<or> (c \<ge> 0x61 \<and> c \<le> 0x7a) \<or> (c \<ge> 0x30 \<and> c \<le> 0x39) \<or> c = 0x7c \<or> c = 0x21
      then let ch = (if c \<ge> 0x41 \<and> c \<le> 0x5a then char_of (nat (c + 0x20)) else char_of (nat c))
           in if ch = CHR ''i'' \<or> ch = CHR ''1'' \<or> ch = CHR ''|'' \<or> ch = CHR ''!'' then ''l''
              else if ch = CHR ''0'' then ''o'' else [ch]
      else [])"

definition skeleton_of :: "int \<Rightarrow> string" where
  "skeleton_of cp = (case foldToAscii cp of None \<Rightarrow> [] | Some ascii \<Rightarrow> asciiSkeletonChar ascii)"

fun tokenNameSkeleton :: "int list \<Rightarrow> string" where
  "tokenNameSkeleton [] = []"
| "tokenNameSkeleton (ch # s) = skeleton_of ch @ tokenNameSkeleton s"

text \<open>\<open>text.includes_part(part)\<close>.\<close>

fun includes_part :: "'a list \<Rightarrow> 'a list \<Rightarrow> bool" where
  "includes_part [] part \<longleftrightarrow> part = []"
| "includes_part (x # xs) part \<longleftrightarrow> take (length part) (x # xs) = part \<or> includes_part xs part"

definition isReservedTokenName :: "int list \<Rightarrow> int list \<Rightarrow> bool" where
  "isReservedTokenName name symbol =
     list_ex (\<lambda>s. list_ex BIDI_CONTROL s \<or> includes_part (tokenNameSkeleton s) RESERVED_SKELETON) [name, symbol]"

section \<open>The table is sorted and disjoint\<close>

fun ranges_sorted :: "confusable list \<Rightarrow> bool" where
  "ranges_sorted [] \<longleftrightarrow> True"
| "ranges_sorted [(a, b, c)] \<longleftrightarrow> a \<le> b"
| "ranges_sorted ((a, b, c) # (a', b', c') # rs) \<longleftrightarrow> a \<le> b \<and> b < a' \<and> ranges_sorted ((a', b', c') # rs)"


definition before :: "confusable \<Rightarrow> confusable \<Rightarrow> bool" where
  "before r s \<longleftrightarrow> fst (snd r) < fst s"

definition nonempty_range :: "confusable \<Rightarrow> bool" where
  "nonempty_range r \<longleftrightarrow> fst r \<le> fst (snd r)"

lemma ranges_sorted_iff: "ranges_sorted rs \<longleftrightarrow> list_all nonempty_range rs \<and> sorted_wrt before rs"
proof (induction rs rule: ranges_sorted.induct)
  case (3 a b c a' b' c' rs)
  have "b < a' \<Longrightarrow> a' \<le> b' \<Longrightarrow> sorted_wrt before ((a', b', c') # rs) \<Longrightarrow> x \<in> set rs \<Longrightarrow> before (a, b, c) x" for x
    by (force simp: before_def)
  with 3 show ?case by (auto simp: before_def nonempty_range_def)
qed (auto simp: nonempty_range_def)

lemma ranges_sorted_append:
  assumes "ranges_sorted xs" "ranges_sorted ys" "xs \<noteq> []" "ys \<noteq> []" "before (last xs) (hd ys)"
  shows "ranges_sorted (xs @ ys)"
proof -
  have "before x y" if "x \<in> set xs" "y \<in> set ys" for x y
  proof -
    have "x = last xs \<or> before x (last xs)"
      using assms(1,3) that(1) by (induction xs rule: rev_induct) (auto simp: ranges_sorted_iff sorted_wrt_append)
    moreover have "y = hd ys \<or> before (hd ys) y"
      using assms(2,4) that(2) by (cases ys) (auto simp: ranges_sorted_iff)
    moreover have "nonempty_range (last xs)" "nonempty_range (hd ys)"
      using assms(1-4) by (auto simp: ranges_sorted_iff list_all_iff)
    ultimately show ?thesis using assms(5) by (auto simp: before_def nonempty_range_def)
  qed
  with assms show ?thesis by (simp add: ranges_sorted_iff sorted_wrt_append)
qed

lemma confusables_sorted_1: "ranges_sorted CONFUSABLES_1" and confusables_sorted_2: "ranges_sorted CONFUSABLES_2"
  and confusables_sorted_3: "ranges_sorted CONFUSABLES_3" and confusables_sorted_4: "ranges_sorted CONFUSABLES_4"
  by (simp_all add: CONFUSABLES_1_def CONFUSABLES_2_def CONFUSABLES_3_def CONFUSABLES_4_def)

lemma confusables_sorted: "ranges_sorted CONFUSABLES"
  unfolding CONFUSABLES_def
  by (intro ranges_sorted_append confusables_sorted_1 confusables_sorted_2 confusables_sorted_3 confusables_sorted_4)
    (simp_all add: CONFUSABLES_1_def CONFUSABLES_2_def CONFUSABLES_3_def CONFUSABLES_4_def before_def)

text \<open>The outputs of the table are letters of the skeleton already, and its inputs are not ASCII.\<close>

definition folded_range :: "confusable \<Rightarrow> bool" where
  "folded_range r \<longleftrightarrow> 0x80 \<le> fst r \<and> snd (snd r) \<in> set ''acehjklmnoptuvxy''"

lemma confusables_folded: "list_all folded_range CONFUSABLES"
  unfolding CONFUSABLES_def list_all_append
  by (simp add: CONFUSABLES_1_def CONFUSABLES_2_def CONFUSABLES_3_def CONFUSABLES_4_def folded_range_def)

section \<open>The binary search is the lookup\<close>

definition holds_cp :: "int \<Rightarrow> confusable \<Rightarrow> bool" where
  "holds_cp cp r \<longleftrightarrow> fst r \<le> cp \<and> cp \<le> fst (snd r)"

text \<open>The specification: the entry whose range holds the code point.\<close>

definition lookup_confusable :: "confusable list \<Rightarrow> int \<Rightarrow> int option" where
  "lookup_confusable table cp = map_option (\<lambda>r. int (of_char (snd (snd r)))) (List.find (holds_cp cp) table)"

lemma ranges_nth:
  assumes "ranges_sorted table"
  shows "i < length table \<Longrightarrow> fst (table ! i) \<le> fst (snd (table ! i))"
    and "i < j \<Longrightarrow> j < length table \<Longrightarrow> fst (snd (table ! i)) < fst (table ! j)"
  using assms sorted_wrt_nth_less [of before table i j]
  by (auto simp: ranges_sorted_iff list_all_length nonempty_range_def before_def)

lemma lookup_at:
  assumes "ranges_sorted table" "i < length table" "holds_cp cp (table ! i)"
  shows "lookup_confusable table cp = Some (int (of_char (snd (snd (table ! i)))))"
proof -
  have "\<not> holds_cp cp (table ! j)" if "j < i" for j
    using ranges_nth(2) [OF assms(1) that assms(2)] assms(3) by (auto simp: holds_cp_def)
  with assms(2,3) have "List.find (holds_cp cp) table = Some (table ! i)"
    by (auto simp: find_Some_iff)
  then show ?thesis by (simp add: lookup_confusable_def)
qed

lemma lookup_none: "(\<And>i. i < length table \<Longrightarrow> \<not> holds_cp cp (table ! i)) \<Longrightarrow> lookup_confusable table cp = None"
  by (metis find_None_iff in_set_conv_nth lookup_confusable_def option.simps(8))

lemma searchLoop_spec:
  assumes "ranges_sorted table"
  shows "hi < int (length table) \<Longrightarrow> 0 \<le> lo \<Longrightarrow>
    (\<And>i. i < length table \<Longrightarrow> int i < lo \<or> hi < int i \<Longrightarrow> \<not> holds_cp cp (table ! i)) \<Longrightarrow>
    searchLoop table cp lo hi = lookup_confusable table cp"
  using assms
proof (induction table cp lo hi rule: searchLoop.induct)
  case (1 table cp lo hi)
  show ?case
  proof (cases "lo \<le> hi")
    case False
    with 1 have "\<not> holds_cp cp (table ! i)" if "i < length table" for i
      using that by (metis linorder_not_le order_le_less_trans not_le)
    with False show ?thesis by (subst searchLoop.simps) (simp add: lookup_none)
  next
    case True
    define mid where "mid = (lo + hi) div 2"
    obtain a b c where e: "table ! nat mid = (a, b, c)" by (cases "table ! nat mid") auto
    have mid: "lo \<le> mid" "mid \<le> hi" "0 \<le> mid" "nat mid < length table" using True 1 by (auto simp: mid_def)
    note r = ranges_nth [OF "1.prems"(4)]
    have ab: "a \<le> b" using r(1) [OF mid(4)] e by simp
    have below: "\<not> holds_cp cp (table ! i)" if "b < cp" "i \<le> nat mid" for i
      using that r(2) [of i "nat mid"] mid ab e by (cases "i = nat mid") (auto simp: holds_cp_def)
    have above: "\<not> holds_cp cp (table ! i)" if "cp < a" "nat mid \<le> i" "i < length table" for i
      using that r(2) [of "nat mid" i] mid ab e by (cases "i = nat mid") (auto simp: holds_cp_def)
    consider "b < cp" | "\<not> b < cp" "cp < a" | "holds_cp cp (table ! nat mid)"
      unfolding holds_cp_def e fst_conv snd_conv by linarith
    then show ?thesis
    proof cases
      case 1
      have "searchLoop table cp (mid + 1) hi = lookup_confusable table cp"
        using "1.IH"(1) [OF True mid_def e [symmetric] refl refl 1] "1.prems" mid below [OF 1] by force
      with True 1 show ?thesis by (subst searchLoop.simps) (simp add: mid_def [symmetric] e)
    next
      case 2
      have "searchLoop table cp lo (mid - 1) = lookup_confusable table cp"
        using "1.IH"(2) [OF True mid_def e [symmetric] refl refl 2] "1.prems" mid above [OF 2(2)] by force
      with True 2 show ?thesis by (subst searchLoop.simps) (simp add: mid_def [symmetric] e)
    next
      case 3
      then have "\<not> b < cp" "\<not> cp < a" using e by (auto simp: holds_cp_def)
      with True show ?thesis
        by (subst searchLoop.simps) (simp add: mid_def [symmetric] e lookup_at [OF "1.prems"(4) mid(4) 3])
    qed
  qed
qed

lemma foldToAscii_spec:
  "foldToAscii cp =
     (if cp < 0x80 then Some cp
      else case foldByRule cp of Some r \<Rightarrow> Some r | None \<Rightarrow> lookup_confusable CONFUSABLES cp)"
proof -
  have "searchLoop CONFUSABLES cp 0 (int (length CONFUSABLES) - 1) = lookup_confusable CONFUSABLES cp"
    by (rule searchLoop_spec [OF confusables_sorted]) auto
  then show ?thesis unfolding foldToAscii_def by (rule subst) (rule refl)
qed

section \<open>Skeletons\<close>

text \<open>The characters a skeleton can hold: they fold to themselves.\<close>

definition skeleton_chars :: string where
  "skeleton_chars = ''abcdefghjklmnopqrstuvwxyz23456789''"

definition code_points :: "string \<Rightarrow> int list" where
  "code_points s = map (\<lambda>c. int (of_char c)) s"

lemma skeleton_char_fixed: "list_all (\<lambda>c. skeleton_of (int (of_char c)) = [c]) skeleton_chars"
  by code_simp

lemma asciiSkeletonChar_chars: "c < 0x80 \<Longrightarrow> set (asciiSkeletonChar c) \<subseteq> set skeleton_chars"
proof -
  assume "c < 0x80"
  moreover have "list_all (\<lambda>c. list_all (\<lambda>x. x \<in> set skeleton_chars) (asciiSkeletonChar c)) [0..127]"
    by code_simp
  ultimately show ?thesis
    by (cases "0 \<le> c") (force simp: list_all_iff, simp add: asciiSkeletonChar_def)
qed

lemma foldByRule_ascii: "foldByRule cp = Some c \<Longrightarrow> c < 0x80"
proof -
  have m: "x mod 32 < 32" "x mod 52 < 52" "x mod 10 < 10" for x :: int by simp_all
  assume "foldByRule cp = Some c"
  then show ?thesis
    using m [of "cp - 0x1f130"] m [of "cp - 0x1d400"] m [of "cp - 0x1d7ce"]
    by (auto simp: foldByRule_def Let_def split: if_splits)
qed

lemma lookup_ascii: "lookup_confusable CONFUSABLES cp = Some c \<Longrightarrow> c < 0x80"
proof -
  assume "lookup_confusable CONFUSABLES cp = Some c"
  then obtain r where r: "List.find (holds_cp cp) CONFUSABLES = Some r" "c = int (of_char (snd (snd r)))"
    by (auto simp: lookup_confusable_def)
  then have "folded_range r" using confusables_folded by (auto simp: find_Some_iff list_all_length)
  then show ?thesis using r(2) by (auto simp: folded_range_def)
qed

lemma skeleton_of_chars: "set (skeleton_of cp) \<subseteq> set skeleton_chars"
proof (cases "foldToAscii cp")
  case (Some c)
  then have "c < 0x80"
    using foldByRule_ascii [of cp c] lookup_ascii [of cp c] by (auto simp: foldToAscii_spec split: if_splits option.splits)
  with Some show ?thesis by (simp add: skeleton_of_def asciiSkeletonChar_chars)
qed (simp add: skeleton_of_def)

lemma tokenNameSkeleton_append [simp]:
  "tokenNameSkeleton (s @ t) = tokenNameSkeleton s @ tokenNameSkeleton t"
  by (induction s) simp_all

lemma skeleton_of_skeleton:
  "set s \<subseteq> set skeleton_chars \<Longrightarrow> tokenNameSkeleton (code_points s) = s"
  using skeleton_char_fixed by (induction s) (auto simp: code_points_def list_all_iff)

lemma tokenNameSkeleton_chars: "set (tokenNameSkeleton s) \<subseteq> set skeleton_chars"
  using skeleton_of_chars by (induction s) auto

lemma includes_part_iff: "includes_part s part \<longleftrightarrow> (\<exists>p q. s = p @ part @ q)"
proof (induction s)
  case (Cons x xs)
  have "take (length part) (x # xs) = part \<longleftrightarrow> (\<exists>q. x # xs = part @ q)"
    by (metis append_eq_conv_conj append_take_drop_id)
  with Cons show ?case by (auto simp: Cons_eq_append_conv)
qed simp

section \<open>Properties\<close>

text \<open>
  Folding a code point outside ASCII and the block rules is the lookup of the table: the binary
  search ends and returns the character of the one range that holds the code point, or nothing when no
  range does. It rests on the table being sorted and disjoint.
\<close>

theorem confusable_search_exact:
  "(foldToAscii cp =
     (if cp < 0x80 then Some cp
      else case foldByRule cp of Some r \<Rightarrow> Some r | None \<Rightarrow> lookup_confusable CONFUSABLES cp)) \<and>
   ranges_sorted CONFUSABLES"
  using foldToAscii_spec confusables_sorted by blast

text \<open>
  Skeletons are stable and inserting characters does not hide a reserved word: the skeleton of a
  skeleton is itself, and when the name can be split so that its parts without the inserted pieces \<open>xs\<close>
  form a text whose skeleton contains the reserved one, and the inserted pieces have no skeleton, the
  name is reserved whatever surrounds it and whatever the symbol is.
\<close>

theorem reserved_names_cannot_be_hidden:
  assumes "tokenNameSkeleton xs = []" "includes_part (tokenNameSkeleton (a @ b)) RESERVED_SKELETON"
  shows "isReservedTokenName (p @ a @ xs @ b @ q) symbol \<and> isReservedTokenName name (p @ a @ xs @ b @ q) \<and>
    tokenNameSkeleton (code_points (tokenNameSkeleton a)) = tokenNameSkeleton a"
proof -
  have "includes_part (tokenNameSkeleton (p @ a @ xs @ b @ q)) RESERVED_SKELETON"
    using assms unfolding includes_part_iff by auto (metis append.assoc)
  then show ?thesis
    by (simp add: isReservedTokenName_def skeleton_of_skeleton tokenNameSkeleton_chars)
qed

text \<open>The brand with a Cyrillic letter and a zero-width joiner inside.\<close>

lemma reserved_names_cannot_be_hidden_witness:
  "isReservedTokenName ([0x58] @ [0x0420, 0x4c, 0x49] @ [0x200d] @ [0x4e, 0x54, 0x4f] @ []) (code_points ''ABC'')"
proof -
  have a: "tokenNameSkeleton [0x200d] = []" by code_simp
  have b: "includes_part (tokenNameSkeleton ([0x0420, 0x4c, 0x49] @ [0x4e, 0x54, 0x4f])) RESERVED_SKELETON"
    by code_simp
  show ?thesis using reserved_names_cannot_be_hidden [OF a b] by blast
qed

end
