(* ===== verification/Idl.thy ===== *)
theory Idl
  imports Addresses StockfloorAccounts
begin

text \<open>
  The IDL of the StockFloor program as data: \<^verbatim>\<open>packages/sdk/src/idl/stockfloor-types.ts\<close> (the program's
  \<^verbatim>\<open>stockfloor.json\<close> with names in camelCase) and the lookups of \<^verbatim>\<open>idl/index.ts\<close>. An instruction is its
  discriminator and its accounts in program order, each with its signer and writable flags, its fixed
  address and the seeds of its program address; a struct is its list of fields. Documentation strings
  and error messages are left out. The lemmas compute the Borsh layout of the \<open>launch\<close> struct from the
  field types: the offset table and the size the decoder works with are those of the IDL.
\<close>

section \<open>The shape of an IDL\<close>

datatype idl_seed = ConstSeed bytes | AccountSeed string

datatype idl_type = TPubkey | TBool | TU8 | TU16 | TU64 | TU128 | TI64 | TArray idl_type nat

record idl_account =
  ia_name :: string
  ia_writable :: bool
  ia_signer :: bool
  ia_pda :: "(idl_seed list \<times> bytes option) option"
  ia_address :: "string option"

record idl_instruction =
  ii_name :: string
  ii_discriminator :: bytes
  ii_accounts :: "idl_account list"
  ii_args :: "(string \<times> idl_type) list"

definition idl_acc ::
  "string \<Rightarrow> bool \<Rightarrow> bool \<Rightarrow> (idl_seed list \<times> bytes option) option \<Rightarrow> string option \<Rightarrow> idl_account" where
  "idl_acc name writable signer pda address =
     \<lparr>ia_name = name, ia_writable = writable, ia_signer = signer, ia_pda = pda, ia_address = address\<rparr>"

text \<open>The bytes the IDL gives for the associated token program, the program of its token addresses.\<close>

definition ATA_PROGRAM_BYTES :: bytes where
  "ATA_PROGRAM_BYTES = [140, 151, 37, 143, 78, 36, 137, 241, 187, 61, 16, 41, 20, 142, 13, 131, 11, 90, 19, 153, 218, 255, 16, 132, 4, 142, 123, 216, 219, 233, 248, 89]"

section \<open>Instructions\<close>

definition idl_burnClaimerBase_accounts :: "idl_account list" where
  "idl_burnClaimerBase_accounts =
    [idl_acc ''launch'' True False (Some ([ConstSeed (seed ''launch''), AccountSeed ''launch.config''], None)) None,
     idl_acc ''claimer'' False False (Some ([ConstSeed (seed ''authority''), AccountSeed ''launch.config''], None)) None,
     idl_acc ''claimerBaseAccount'' True False (Some ([AccountSeed ''claimer'', AccountSeed ''tokenProgram'', AccountSeed ''baseMint''], (Some ATA_PROGRAM_BYTES))) None,
     idl_acc ''baseMint'' True False None None,
     idl_acc ''tokenProgram'' False False None (Some ''TokenkegQfeZyiNwAJbNbGKPFXCWuBvf9Ss623VQ5DA'')]"

definition idl_burnClaimerBase :: idl_instruction where
  "idl_burnClaimerBase =
    \<lparr>ii_name = ''burnClaimerBase'', ii_discriminator = [253, 85, 51, 98, 140, 230, 148, 102],
     ii_accounts = idl_burnClaimerBase_accounts,
     ii_args = []\<rparr>"

definition idl_createLaunch_accounts1 :: "idl_account list" where
  "idl_createLaunch_accounts1 =
    [idl_acc ''payer'' True True None None,
     idl_acc ''creator'' False True None None,
     idl_acc ''config'' False True None None,
     idl_acc ''claimer'' False False (Some ([ConstSeed (seed ''authority''), AccountSeed ''config''], None)) None,
     idl_acc ''vaultAuthority'' False False (Some ([ConstSeed (seed ''vault_authority''), AccountSeed ''config''], None)) None,
     idl_acc ''launch'' True False (Some ([ConstSeed (seed ''launch''), AccountSeed ''config''], None)) None,
     idl_acc ''quoteMint'' False False None None,
     idl_acc ''baseMint'' False False None None]"

definition idl_createLaunch_accounts2 :: "idl_account list" where
  "idl_createLaunch_accounts2 =
    [idl_acc ''vault'' True False (Some ([AccountSeed ''vaultAuthority'', AccountSeed ''quoteTokenProgram'', AccountSeed ''quoteMint''], (Some ATA_PROGRAM_BYTES))) None,
     idl_acc ''quoteTokenProgram'' False False None None,
     idl_acc ''associatedTokenProgram'' False False None (Some ''ATokenGPvbdGVxr1b2hvZbsiqW5xWH25efTNsLJA8knL''),
     idl_acc ''systemProgram'' False False None (Some ''11111111111111111111111111111111''),
     idl_acc ''creatorQuoteAccount'' True False (Some ([AccountSeed ''creator'', AccountSeed ''quoteTokenProgram'', AccountSeed ''quoteMint''], (Some ATA_PROGRAM_BYTES))) None,
     idl_acc ''platformTreasury'' False False None (Some ''78tRFS255ADZT2oMSXi5xjHt7Y2SVDLdDEBz759eQsqJ'')]"

definition idl_createLaunch_accounts3 :: "idl_account list" where
  "idl_createLaunch_accounts3 =
    [idl_acc ''platformQuoteAccount'' True False (Some ([AccountSeed ''platformTreasury'', AccountSeed ''quoteTokenProgram'', AccountSeed ''quoteMint''], (Some ATA_PROGRAM_BYTES))) None,
     idl_acc ''claimerQuoteAccount'' True False (Some ([AccountSeed ''claimer'', AccountSeed ''quoteTokenProgram'', AccountSeed ''quoteMint''], (Some ATA_PROGRAM_BYTES))) None]"

definition idl_createLaunch :: idl_instruction where
  "idl_createLaunch =
    \<lparr>ii_name = ''createLaunch'', ii_discriminator = [239, 223, 255, 134, 39, 121, 127, 62],
     ii_accounts = idl_createLaunch_accounts1 @ idl_createLaunch_accounts2 @ idl_createLaunch_accounts3,
     ii_args = [(''exitFeeBps'', TU16)]\<rparr>"

definition idl_floor_accounts :: "idl_account list" where
  "idl_floor_accounts =
    [idl_acc ''launch'' False False (Some ([ConstSeed (seed ''launch''), AccountSeed ''launch.config''], None)) None,
     idl_acc ''vault'' False False None None,
     idl_acc ''baseMint'' False False None None]"

definition idl_floor :: idl_instruction where
  "idl_floor =
    \<lparr>ii_name = ''floor'', ii_discriminator = [18, 151, 114, 3, 139, 54, 134, 97],
     ii_accounts = idl_floor_accounts,
     ii_args = []\<rparr>"

definition idl_harvestCurveFees_accounts1 :: "idl_account list" where
  "idl_harvestCurveFees_accounts1 =
    [idl_acc ''payer'' True True None None,
     idl_acc ''launch'' True False (Some ([ConstSeed (seed ''launch''), AccountSeed ''launch.config''], None)) None,
     idl_acc ''claimer'' False False (Some ([ConstSeed (seed ''authority''), AccountSeed ''launch.config''], None)) None,
     idl_acc ''config'' False False None None,
     idl_acc ''pool'' True False None None,
     idl_acc ''vault'' True False None None,
     idl_acc ''claimerBaseAccount'' True False (Some ([AccountSeed ''claimer'', AccountSeed ''tokenProgram'', AccountSeed ''baseMint''], (Some ATA_PROGRAM_BYTES))) None,
     idl_acc ''dbcBaseVault'' True False None None,
     idl_acc ''dbcQuoteVault'' True False None None,
     idl_acc ''baseMint'' True False None None,
     idl_acc ''quoteMint'' False False None None,
     idl_acc ''tokenProgram'' False False None (Some ''TokenkegQfeZyiNwAJbNbGKPFXCWuBvf9Ss623VQ5DA''),
     idl_acc ''quoteTokenProgram'' False False None None]"

definition idl_harvestCurveFees_accounts2 :: "idl_account list" where
  "idl_harvestCurveFees_accounts2 =
    [idl_acc ''associatedTokenProgram'' False False None (Some ''ATokenGPvbdGVxr1b2hvZbsiqW5xWH25efTNsLJA8knL''),
     idl_acc ''systemProgram'' False False None (Some ''11111111111111111111111111111111''),
     idl_acc ''dbcPoolAuthority'' False False None (Some ''FhVo3mqL8PW5pH5U2CN4XE33DokiyZnUwuGpH2hmHLuM''),
     idl_acc ''dbcEventAuthority'' False False None (Some ''8Ks12pbrD6PXxfty1hVQiE9sc289zgU1zHkvXhrSdriF''),
     idl_acc ''dbcProgram'' False False None (Some ''dbcij3LWUppWqq96dh6gJWwBifmcGfLSB5D4DuSMaqN''),
     idl_acc ''platformQuoteAccount'' True False None None]"

definition idl_harvestCurveFees :: idl_instruction where
  "idl_harvestCurveFees =
    \<lparr>ii_name = ''harvestCurveFees'', ii_discriminator = [118, 229, 208, 190, 86, 99, 210, 89],
     ii_accounts = idl_harvestCurveFees_accounts1 @ idl_harvestCurveFees_accounts2,
     ii_args = []\<rparr>"

definition idl_harvestLpFees_accounts1 :: "idl_account list" where
  "idl_harvestLpFees_accounts1 =
    [idl_acc ''payer'' True True None None,
     idl_acc ''launch'' True False (Some ([ConstSeed (seed ''launch''), AccountSeed ''launch.config''], None)) None,
     idl_acc ''claimer'' False False (Some ([ConstSeed (seed ''authority''), AccountSeed ''launch.config''], None)) None,
     idl_acc ''dammPool'' False False None None,
     idl_acc ''position'' True False None None,
     idl_acc ''positionNftAccount'' False False None None,
     idl_acc ''claimerBaseAccount'' True False (Some ([AccountSeed ''claimer'', AccountSeed ''tokenProgram'', AccountSeed ''baseMint''], (Some ATA_PROGRAM_BYTES))) None,
     idl_acc ''vault'' True False None None,
     idl_acc ''dammTokenAVault'' True False None None,
     idl_acc ''dammTokenBVault'' True False None None,
     idl_acc ''baseMint'' True False None None,
     idl_acc ''quoteMint'' False False None None,
     idl_acc ''tokenProgram'' False False None (Some ''TokenkegQfeZyiNwAJbNbGKPFXCWuBvf9Ss623VQ5DA''),
     idl_acc ''quoteTokenProgram'' False False None None]"

definition idl_harvestLpFees_accounts2 :: "idl_account list" where
  "idl_harvestLpFees_accounts2 =
    [idl_acc ''associatedTokenProgram'' False False None (Some ''ATokenGPvbdGVxr1b2hvZbsiqW5xWH25efTNsLJA8knL''),
     idl_acc ''systemProgram'' False False None (Some ''11111111111111111111111111111111''),
     idl_acc ''dammPoolAuthority'' False False None (Some ''HLnpSz9h2S4hiLQ43rnSD9XkcUThA7B8hQMKmDaiTLcC''),
     idl_acc ''dammEventAuthority'' False False None (Some ''3rmHSu74h1ZcmAisVcWerTCiRDQbUrBKmcwptYGjHfet''),
     idl_acc ''dammProgram'' False False None (Some ''cpamdpZCGKUy5JxQXB4dcpGPiikHawvSWAd6mEn1sGG''),
     idl_acc ''claimerQuoteAccount'' True False None None,
     idl_acc ''creatorQuoteAccount'' True False None None,
     idl_acc ''platformQuoteAccount'' True False None None]"

definition idl_harvestLpFees :: idl_instruction where
  "idl_harvestLpFees =
    \<lparr>ii_name = ''harvestLpFees'', ii_discriminator = [153, 236, 19, 193, 135, 211, 138, 173],
     ii_accounts = idl_harvestLpFees_accounts1 @ idl_harvestLpFees_accounts2,
     ii_args = []\<rparr>"

definition idl_harvestMigrationFee_accounts :: "idl_account list" where
  "idl_harvestMigrationFee_accounts =
    [idl_acc ''launch'' True False (Some ([ConstSeed (seed ''launch''), AccountSeed ''launch.config''], None)) None,
     idl_acc ''claimer'' False False (Some ([ConstSeed (seed ''authority''), AccountSeed ''launch.config''], None)) None,
     idl_acc ''config'' False False None None,
     idl_acc ''pool'' True False None None,
     idl_acc ''vault'' True False None None,
     idl_acc ''dbcQuoteVault'' True False None None,
     idl_acc ''quoteMint'' False False None None,
     idl_acc ''quoteTokenProgram'' False False None None,
     idl_acc ''dbcPoolAuthority'' False False None (Some ''FhVo3mqL8PW5pH5U2CN4XE33DokiyZnUwuGpH2hmHLuM''),
     idl_acc ''dbcEventAuthority'' False False None (Some ''8Ks12pbrD6PXxfty1hVQiE9sc289zgU1zHkvXhrSdriF''),
     idl_acc ''dbcProgram'' False False None (Some ''dbcij3LWUppWqq96dh6gJWwBifmcGfLSB5D4DuSMaqN''),
     idl_acc ''claimerQuoteAccount'' True False None None,
     idl_acc ''creatorQuoteAccount'' True False None None,
     idl_acc ''platformQuoteAccount'' True False None None]"

definition idl_harvestMigrationFee :: idl_instruction where
  "idl_harvestMigrationFee =
    \<lparr>ii_name = ''harvestMigrationFee'', ii_discriminator = [165, 11, 14, 56, 82, 214, 7, 37],
     ii_accounts = idl_harvestMigrationFee_accounts,
     ii_args = []\<rparr>"

definition idl_harvestSurplus_accounts :: "idl_account list" where
  "idl_harvestSurplus_accounts =
    [idl_acc ''launch'' True False (Some ([ConstSeed (seed ''launch''), AccountSeed ''launch.config''], None)) None,
     idl_acc ''claimer'' False False (Some ([ConstSeed (seed ''authority''), AccountSeed ''launch.config''], None)) None,
     idl_acc ''config'' False False None None,
     idl_acc ''pool'' True False None None,
     idl_acc ''vault'' True False None None,
     idl_acc ''dbcQuoteVault'' True False None None,
     idl_acc ''quoteMint'' False False None None,
     idl_acc ''quoteTokenProgram'' False False None None,
     idl_acc ''dbcPoolAuthority'' False False None (Some ''FhVo3mqL8PW5pH5U2CN4XE33DokiyZnUwuGpH2hmHLuM''),
     idl_acc ''dbcEventAuthority'' False False None (Some ''8Ks12pbrD6PXxfty1hVQiE9sc289zgU1zHkvXhrSdriF''),
     idl_acc ''dbcProgram'' False False None (Some ''dbcij3LWUppWqq96dh6gJWwBifmcGfLSB5D4DuSMaqN'')]"

definition idl_harvestSurplus :: idl_instruction where
  "idl_harvestSurplus =
    \<lparr>ii_name = ''harvestSurplus'', ii_discriminator = [236, 96, 88, 108, 204, 8, 146, 7],
     ii_accounts = idl_harvestSurplus_accounts,
     ii_args = []\<rparr>"

definition idl_redeem_accounts :: "idl_account list" where
  "idl_redeem_accounts =
    [idl_acc ''holder'' False True None None,
     idl_acc ''launch'' True False (Some ([ConstSeed (seed ''launch''), AccountSeed ''launch.config''], None)) None,
     idl_acc ''vaultAuthority'' False False (Some ([ConstSeed (seed ''vault_authority''), AccountSeed ''launch.config''], None)) None,
     idl_acc ''pool'' False False None None,
     idl_acc ''baseMint'' True False None None,
     idl_acc ''holderBaseAccount'' True False None None,
     idl_acc ''vault'' True False None None,
     idl_acc ''holderQuoteAccount'' True False None None,
     idl_acc ''quoteMint'' False False None None,
     idl_acc ''tokenProgram'' False False None (Some ''TokenkegQfeZyiNwAJbNbGKPFXCWuBvf9Ss623VQ5DA''),
     idl_acc ''quoteTokenProgram'' False False None None]"

definition idl_redeem :: idl_instruction where
  "idl_redeem =
    \<lparr>ii_name = ''redeem'', ii_discriminator = [184, 12, 86, 149, 70, 196, 97, 225],
     ii_accounts = idl_redeem_accounts,
     ii_args = [(''amount'', TU64)]\<rparr>"

definition idl_registerPool_accounts :: "idl_account list" where
  "idl_registerPool_accounts =
    [idl_acc ''launch'' True False (Some ([ConstSeed (seed ''launch''), AccountSeed ''launch.config''], None)) None,
     idl_acc ''config'' False False None None,
     idl_acc ''pool'' False False None None,
     idl_acc ''baseMint'' False False None None,
     idl_acc ''tokenProgram'' False False None (Some ''TokenkegQfeZyiNwAJbNbGKPFXCWuBvf9Ss623VQ5DA''),
     idl_acc ''baseMintMetadata'' False False None None]"

definition idl_registerPool :: idl_instruction where
  "idl_registerPool =
    \<lparr>ii_name = ''registerPool'', ii_discriminator = [85, 229, 114, 47, 75, 145, 166, 100],
     ii_accounts = idl_registerPool_accounts,
     ii_args = []\<rparr>"

definition idl_syncMigration_accounts :: "idl_account list" where
  "idl_syncMigration_accounts =
    [idl_acc ''launch'' True False (Some ([ConstSeed (seed ''launch''), AccountSeed ''launch.config''], None)) None,
     idl_acc ''pool'' False False None None]"

definition idl_syncMigration :: idl_instruction where
  "idl_syncMigration =
    \<lparr>ii_name = ''syncMigration'', ii_discriminator = [225, 231, 95, 199, 32, 239, 236, 87],
     ii_accounts = idl_syncMigration_accounts,
     ii_args = []\<rparr>"

definition STOCKFLOOR_INSTRUCTIONS :: "idl_instruction list" where
  "STOCKFLOOR_INSTRUCTIONS =
    [idl_burnClaimerBase,
     idl_createLaunch,
     idl_floor,
     idl_harvestCurveFees,
     idl_harvestLpFees,
     idl_harvestMigrationFee,
     idl_harvestSurplus,
     idl_redeem,
     idl_registerPool,
     idl_syncMigration]"

section \<open>Accounts, events, errors and types\<close>

definition STOCKFLOOR_ACCOUNTS :: "(string \<times> bytes) list" where
  "STOCKFLOOR_ACCOUNTS = [(''launch'', [144, 51, 51, 163, 206, 85, 213, 38])]"

definition STOCKFLOOR_EVENTS :: "(string \<times> bytes) list" where
  "STOCKFLOOR_EVENTS =
    [(''claimerBaseBurned'', [226, 23, 1, 39, 166, 204, 14, 19]),
     (''curveFeesHarvested'', [119, 172, 204, 5, 251, 116, 183, 167]),
     (''feesDistributed'', [209, 24, 174, 200, 236, 90, 154, 55]),
     (''floorSnapshot'', [157, 248, 66, 152, 84, 129, 151, 71]),
     (''launchCreated'', [59, 38, 190, 230, 33, 34, 89, 20]),
     (''lpFeesHarvested'', [230, 156, 123, 178, 68, 124, 167, 67]),
     (''migrationFeeHarvested'', [26, 179, 172, 116, 15, 107, 89, 212]),
     (''migrationLatched'', [232, 38, 47, 224, 253, 56, 5, 20]),
     (''poolRegistered'', [77, 114, 165, 230, 33, 230, 135, 215]),
     (''redeemed'', [14, 29, 183, 71, 31, 165, 107, 38]),
     (''surplusHarvested'', [204, 225, 39, 46, 225, 216, 78, 91])]"

definition STOCKFLOOR_ERRORS_1 :: "(int \<times> string) list" where
  "STOCKFLOOR_ERRORS_1 =
    [(6000, ''invalidDbcConfig''),
     (6001, ''feeClaimerMismatch''),
     (6002, ''leftoverReceiverMismatch''),
     (6003, ''creatorMigrationFeeNotZero''),
     (6004, ''migrationFeePercentageOutOfRange''),
     (6005, ''liquidityNotFullyPartnerLocked''),
     (6006, ''liquidityVestingNotAllowed''),
     (6007, ''lockedVestingNotAllowed''),
     (6008, ''collectFeeModeNotQuote''),
     (6009, ''migrationOptionNotDammV2''),
     (6010, ''baseTokenTypeNotSplToken''),
     (6011, ''exitFeeTooHigh''),
     (6012, ''quoteMintMismatch''),
     (6013, ''fixedTokenSupplyNotAllowed''),
     (6014, ''creatorTradingFeeTooHigh''),
     (6015, ''curveFeeTooHigh''),
     (6016, ''dynamicFeeNotAllowed''),
     (6017, ''migratedCollectFeeModeNotQuote''),
     (6018, ''tokenUpdateAuthorityNotImmutable''),
     (6019, ''poolCreationFeeNotZero''),
     (6020, ''invalidBaseMint''),
     (6021, ''invalidDbcPool''),
     (6022, ''poolAlreadyRegistered''),
     (6023, ''poolNotRegistered''),
     (6024, ''poolConfigMismatch''),
     (6025, ''baseMintMismatch''),
     (6026, ''poolTypeNotSplToken''),
     (6027, ''baseMintDecimalsMismatch''),
     (6028, ''baseMintAuthorityNotRevoked'')]"

definition STOCKFLOOR_ERRORS_2 :: "(int \<times> string) list" where
  "STOCKFLOOR_ERRORS_2 =
    [(6029, ''baseMintHasFreezeAuthority''),
     (6030, ''curveNotComplete''),
     (6031, ''migrationFeeAlreadyHarvested''),
     (6032, ''surplusAlreadyHarvested''),
     (6033, ''invalidDammPool''),
     (6034, ''invalidDammPosition''),
     (6035, ''positionPoolMismatch''),
     (6036, ''dammPoolMintMismatch''),
     (6037, ''positionNftNotOwnedByClaimer''),
     (6038, ''vaultDecreased''),
     (6039, ''vaultEncumbered''),
     (6040, ''migrationNotComplete''),
     (6041, ''migrationFeeNotHarvested''),
     (6042, ''zeroAmount''),
     (6043, ''insufficientBaseBalance''),
     (6044, ''zeroSupply''),
     (6045, ''nothingToRedeem''),
     (6046, ''invalidFeeBps''),
     (6047, ''mathOverflow''),
     (6048, ''vaultBalanceMismatch''),
     (6049, ''supplyMismatch''),
     (6050, ''floorDecreased''),
     (6051, ''destinationIsVault''),
     (6052, ''quoteMintPaused''),
     (6053, ''quoteMintTransferHookUnsupported''),
     (6054, ''vaultFrozen''),
     (6055, ''invalidQuoteMintData''),
     (6056, ''invalidTokenAccountData''),
     (6057, ''floorAccountMismatch'')]"

definition STOCKFLOOR_ERRORS_3 :: "(int \<times> string) list" where
  "STOCKFLOOR_ERRORS_3 =
    [(6058, ''migrationQuoteThresholdTooSmall''),
     (6059, ''migratedPoolFeeInvalid''),
     (6060, ''migratedDynamicFeeNotAllowed''),
     (6061, ''firstSwapWithMinFeeNotAllowed''),
     (6062, ''payeeAccountMismatch''),
     (6063, ''platformQuoteAccountUnavailable''),
     (6064, ''claimerQuoteAccountEncumbered''),
     (6065, ''transitNotEmptied''),
     (6066, ''reservedTokenName''),
     (6067, ''invalidTokenMetadata'')]"

definition STOCKFLOOR_ERRORS :: "(int \<times> string) list" where
  "STOCKFLOOR_ERRORS = STOCKFLOOR_ERRORS_1 @ STOCKFLOOR_ERRORS_2 @ STOCKFLOOR_ERRORS_3"

definition fields_claimerBaseBurned :: "(string \<times> idl_type) list" where
  "fields_claimerBaseBurned =
    [(''launch'', TPubkey),
     (''baseMint'', TPubkey),
     (''baseBurned'', TU64)]"

definition fields_curveFeesHarvested :: "(string \<times> idl_type) list" where
  "fields_curveFeesHarvested =
    [(''launch'', TPubkey),
     (''pool'', TPubkey),
     (''quoteAmount'', TU64),
     (''baseBurned'', TU64),
     (''vaultBalance'', TU64)]"

definition fields_feesDistributed :: "(string \<times> idl_type) list" where
  "fields_feesDistributed =
    [(''launch'', TPubkey),
     (''source'', TU8),
     (''received'', TU64),
     (''platformAmount'', TU64),
     (''creatorAmount'', TU64),
     (''vaultAmount'', TU64),
     (''platformFallback'', TBool),
     (''creatorFallback'', TBool)]"

definition fields_floorInfo :: "(string \<times> idl_type) list" where
  "fields_floorInfo =
    [(''vaultRaw'', TU64),
     (''supply'', TU64),
     (''exitFeeBps'', TU16),
     (''floorQ64'', TU128)]"

definition fields_floorSnapshot :: "(string \<times> idl_type) list" where
  "fields_floorSnapshot =
    [(''launch'', TPubkey),
     (''vaultRaw'', TU64),
     (''supply'', TU64),
     (''exitFeeBps'', TU16),
     (''floorQ64'', TU128)]"

definition fields_launch1 :: "(string \<times> idl_type) list" where
  "fields_launch1 =
    [(''version'', TU8),
     (''bump'', TU8),
     (''claimerBump'', TU8),
     (''vaultAuthorityBump'', TU8),
     (''exitFeeBps'', TU16),
     (''migrationFeeHarvested'', TBool),
     (''surplusHarvested'', TBool),
     (''migrated'', TBool),
     (''config'', TPubkey),
     (''creator'', TPubkey),
     (''pool'', TPubkey),
     (''baseMint'', TPubkey),
     (''quoteMint'', TPubkey),
     (''quoteTokenProgram'', TPubkey),
     (''vault'', TPubkey),
     (''createdAt'', TI64),
     (''totalHarvestedQuote'', TU64)]"

definition fields_launch2 :: "(string \<times> idl_type) list" where
  "fields_launch2 =
    [(''totalBurnedBase'', TU64),
     (''totalRedeemedBase'', TU64),
     (''totalRedeemedQuote'', TU64),
     (''totalExitFees'', TU64),
     (''totalPlatformQuote'', TU64),
     (''totalCreatorQuote'', TU64),
     (''reserved'', (TArray TU8 46))]"

definition fields_launch :: "(string \<times> idl_type) list" where
  "fields_launch = fields_launch1 @ fields_launch2"

definition fields_launchCreated :: "(string \<times> idl_type) list" where
  "fields_launchCreated =
    [(''launch'', TPubkey),
     (''config'', TPubkey),
     (''creator'', TPubkey),
     (''claimer'', TPubkey),
     (''vaultAuthority'', TPubkey),
     (''quoteMint'', TPubkey),
     (''baseMint'', TPubkey),
     (''quoteTokenProgram'', TPubkey),
     (''vault'', TPubkey),
     (''exitFeeBps'', TU16),
     (''migrationFeePercentage'', TU8),
     (''migrationQuoteThreshold'', TU64),
     (''createdAt'', TI64)]"

definition fields_lpFeesHarvested :: "(string \<times> idl_type) list" where
  "fields_lpFeesHarvested =
    [(''launch'', TPubkey),
     (''dammPool'', TPubkey),
     (''position'', TPubkey),
     (''quoteAmount'', TU64),
     (''baseBurned'', TU64),
     (''vaultBalance'', TU64)]"

definition fields_migrationFeeHarvested :: "(string \<times> idl_type) list" where
  "fields_migrationFeeHarvested =
    [(''launch'', TPubkey),
     (''pool'', TPubkey),
     (''quoteAmount'', TU64),
     (''vaultBalance'', TU64)]"

definition fields_migrationLatched :: "(string \<times> idl_type) list" where
  "fields_migrationLatched =
    [(''launch'', TPubkey),
     (''pool'', TPubkey)]"

definition fields_poolRegistered :: "(string \<times> idl_type) list" where
  "fields_poolRegistered =
    [(''launch'', TPubkey),
     (''pool'', TPubkey),
     (''baseMint'', TPubkey),
     (''creator'', TPubkey)]"

definition fields_redeemed :: "(string \<times> idl_type) list" where
  "fields_redeemed =
    [(''launch'', TPubkey),
     (''holder'', TPubkey),
     (''baseAmount'', TU64),
     (''gross'', TU64),
     (''fee'', TU64),
     (''net'', TU64),
     (''vaultBefore'', TU64),
     (''supplyBefore'', TU64),
     (''vaultAfter'', TU64),
     (''supplyAfter'', TU64)]"

definition fields_surplusHarvested :: "(string \<times> idl_type) list" where
  "fields_surplusHarvested =
    [(''launch'', TPubkey),
     (''pool'', TPubkey),
     (''quoteAmount'', TU64),
     (''vaultBalance'', TU64)]"

definition STOCKFLOOR_TYPES :: "(string \<times> (string \<times> idl_type) list) list" where
  "STOCKFLOOR_TYPES =
    [(''claimerBaseBurned'', fields_claimerBaseBurned),
     (''curveFeesHarvested'', fields_curveFeesHarvested),
     (''feesDistributed'', fields_feesDistributed),
     (''floorInfo'', fields_floorInfo),
     (''floorSnapshot'', fields_floorSnapshot),
     (''launch'', fields_launch),
     (''launchCreated'', fields_launchCreated),
     (''lpFeesHarvested'', fields_lpFeesHarvested),
     (''migrationFeeHarvested'', fields_migrationFeeHarvested),
     (''migrationLatched'', fields_migrationLatched),
     (''poolRegistered'', fields_poolRegistered),
     (''redeemed'', fields_redeemed),
     (''surplusHarvested'', fields_surplusHarvested)]"

definition IDL_platformTreasury :: string where
  "IDL_platformTreasury = ''78tRFS255ADZT2oMSXi5xjHt7Y2SVDLdDEBz759eQsqJ''"

definition IDL_address :: string where
  "IDL_address = ''98NLryxegA9KLsED1TkSQdF2MDt6X8C7B1PmepJN6HpA''"

section \<open>Lookups\<close>

text \<open>The JSON file spells the names in snake case.\<close>

definition is_upper_char :: "char \<Rightarrow> bool" where
  "is_upper_char c \<longleftrightarrow> (65::nat) \<le> of_char c \<and> (of_char c :: nat) \<le> 90"

definition snake_case :: "string \<Rightarrow> string" where
  "snake_case s = concat (map (\<lambda>c. if is_upper_char c then [CHR ''_'', char_of (of_char c + 32 :: nat)] else [c]) s)"

definition idlInstruction :: "idl_instruction list \<Rightarrow> string \<Rightarrow> idl_instruction result" where
  "idlInstruction idl name =
     (case List.find (\<lambda>i. snake_case (ii_name i) = name) idl of
        None \<Rightarrow> Inl (GenericError ''IDL has no such instruction'')
      | Some i \<Rightarrow> Inr i)"

definition idlErrorNames :: "(int \<times> string) list \<Rightarrow> int \<Rightarrow> string option" where
  "idlErrorNames errors = map_of (rev errors)"

section \<open>Borsh layout of the structs\<close>

fun type_size :: "idl_type \<Rightarrow> int" where
  "type_size TPubkey = 32"
| "type_size TBool = 1"
| "type_size TU8 = 1"
| "type_size TU16 = 2"
| "type_size TU64 = 8"
| "type_size TU128 = 16"
| "type_size TI64 = 8"
| "type_size (TArray t n) = type_size t * int n"

fun field_offsets :: "int \<Rightarrow> (string \<times> idl_type) list \<Rightarrow> (string \<times> int) list" where
  "field_offsets start [] = []"
| "field_offsets start ((n, t) # fs) = (n, start) # field_offsets (start + type_size t) fs"

definition struct_size :: "(string \<times> idl_type) list \<Rightarrow> int" where
  "struct_size fs = sum_list (map (\<lambda>(_, t). type_size t) fs)"

definition launch_field_names :: "(string \<times> launch_field) list" where
  "launch_field_names =
    [(''version'', Off_version), (''bump'', Off_bump), (''claimerBump'', Off_claimerBump),
     (''vaultAuthorityBump'', Off_vaultAuthorityBump), (''exitFeeBps'', Off_exitFeeBps),
     (''migrationFeeHarvested'', Off_migrationFeeHarvested), (''surplusHarvested'', Off_surplusHarvested),
     (''migrated'', Off_migrated), (''config'', Off_config), (''creator'', Off_creator), (''pool'', Off_pool),
     (''baseMint'', Off_baseMint), (''quoteMint'', Off_quoteMint),
     (''quoteTokenProgram'', Off_quoteTokenProgram), (''vault'', Off_vault), (''createdAt'', Off_createdAt),
     (''totalHarvestedQuote'', Off_totalHarvestedQuote), (''totalBurnedBase'', Off_totalBurnedBase),
     (''totalRedeemedBase'', Off_totalRedeemedBase), (''totalRedeemedQuote'', Off_totalRedeemedQuote),
     (''totalExitFees'', Off_totalExitFees), (''totalPlatformQuote'', Off_totalPlatformQuote),
     (''totalCreatorQuote'', Off_totalCreatorQuote), (''reserved'', Off_reserved)]"

lemmas idl_struct_defs = fields_launch_def fields_launch1_def fields_launch2_def fields_floorInfo_def

lemma instruction_names_distinct:
  "distinct (map ii_name STOCKFLOOR_INSTRUCTIONS) \<and> distinct (map ii_discriminator STOCKFLOOR_INSTRUCTIONS)"
  by code_simp

section \<open>Properties\<close>

text \<open>
  The decoder reads the account the IDL describes. Laid out in Borsh order behind the 8-byte
  discriminator, every field of the program's \<open>launch\<close> struct starts at the offset of
  \<open>LAUNCH_OFFSETS\<close>, the struct ends at the account size the decoder and the account filters use, the
  discriminators agree, and the \<open>floor\<close> view's struct has the size the view decoder expects.
\<close>

theorem launch_offsets_are_borsh_layout:
  "field_offsets 8 fields_launch = map (\<lambda>(n, f). (n, LAUNCH_OFFSETS f)) launch_field_names \<and>
   8 + struct_size fields_launch = LAUNCH_ACCOUNT_SIZE \<and>
   map_of STOCKFLOOR_ACCOUNTS ''launch'' = Some LAUNCH_DISCRIMINATOR \<and>
   struct_size fields_floorInfo = FLOOR_INFO_SIZE"
  by (simp add: idl_struct_defs launch_field_names_def struct_size_def STOCKFLOOR_ACCOUNTS_def
      LAUNCH_DISCRIMINATOR_def FLOOR_INFO_SIZE_def)

end
