(* ===== verification/Instructions.thy ===== *)
theory Instructions
  imports Idl
begin

text \<open>
  \<^verbatim>\<open>packages/sdk/src/stockfloor/instructions.ts\<close>: the builders of the StockFloor instructions. An
  instruction is the program id, its account metas in program order and its data, the discriminator of
  the IDL followed by Borsh arguments. The Solana libraries are the parameter \<open>lib\<close> (record
  \<open>solana_lib\<close>). The property: what every builder returns follows the program's IDL, account by account:
  number and order, signer and writable flags, fixed addresses, and for every account with seeds the
  address those seeds derive.
\<close>

section \<open>Account metas and instruction data\<close>

record account_meta =
  mt_pubkey :: pubkey
  mt_isSigner :: bool
  mt_isWritable :: bool

record tx_instruction =
  ix_programId :: pubkey
  ix_keys :: "account_meta list"
  ix_data :: bytes

definition meta_w :: "pubkey \<Rightarrow> bool \<Rightarrow> account_meta" where
  "meta_w pubkey isSigner = \<lparr>mt_pubkey = pubkey, mt_isSigner = isSigner, mt_isWritable = True\<rparr>"

definition meta_r :: "pubkey \<Rightarrow> bool \<Rightarrow> account_meta" where
  "meta_r pubkey isSigner = \<lparr>mt_pubkey = pubkey, mt_isSigner = isSigner, mt_isWritable = False\<rparr>"

text \<open>The common case: the account does not sign.\<close>

abbreviation w0 :: "pubkey \<Rightarrow> account_meta" where "w0 k \<equiv> meta_w k False"
abbreviation r0 :: "pubkey \<Rightarrow> account_meta" where "r0 k \<equiv> meta_r k False"

definition discriminator :: "string \<Rightarrow> bytes result" where
  "discriminator name = bindE (idlInstruction STOCKFLOOR_INSTRUCTIONS name) (\<lambda>i. Inr (ii_discriminator i))"

definition ix_bytes :: "string \<Rightarrow> bytes list \<Rightarrow> bytes result" where
  "ix_bytes name args = bindE (discriminator name) (\<lambda>d. Inr (concat (d # args)))"

definition ix_u16 :: "jsnum \<Rightarrow> bytes result" where
  "ix_u16 v = bindE (integer_in 0 0xffff v (RangeError ''u16 out of range'')) (\<lambda>n.
     Inr [of_int (n mod 256), of_int (n div 2 ^ 8 mod 256)])"

definition ix_u64 :: "int \<Rightarrow> bytes result" where
  "ix_u64 v = bindE (check (\<not> (v < 0 \<or> v > 2 ^ 64 - 1)) (RangeError ''u64 out of range'')) (\<lambda>_. Inr (writeU64 v))"

definition stockfloorIx :: "account_meta list \<Rightarrow> bytes \<Rightarrow> tx_instruction" where
  "stockfloorIx keys bytes = \<lparr>ix_programId = STOCKFLOOR_PROGRAM_ID, ix_keys = keys, ix_data = bytes\<rparr>"

section \<open>The keys of a launch\<close>

record launch_keys =
  lk_config :: pubkey
  lk_pool :: pubkey
  lk_baseMint :: pubkey
  lk_quoteMint :: pubkey
  lk_quoteTokenProgram :: pubkey
  lk_creator :: "pubkey option"

definition launchKeysFromAccount :: "launch_account \<Rightarrow> pubkey option \<Rightarrow> launch_keys result" where
  "launchKeysFromAccount launch pool =
     (case (case pool of Some p \<Rightarrow> Some p
              | None \<Rightarrow> if la_poolRegistered launch then Some (la_pool launch) else None) of
        None \<Rightarrow> Inl (GenericError ''launch has no registered pool; pass the DBC pool explicitly'')
      | Some p \<Rightarrow> Inr \<lparr>lk_config = la_config launch, lk_pool = p, lk_baseMint = la_baseMint launch,
          lk_quoteMint = la_quoteMint launch, lk_quoteTokenProgram = la_quoteTokenProgram launch,
          lk_creator = Some (la_creator launch)\<rparr>)"

definition launchCreator :: "launch_keys \<Rightarrow> pubkey option \<Rightarrow> pubkey result" where
  "launchCreator k creator =
     (case (case creator of Some c \<Rightarrow> Some c | None \<Rightarrow> lk_creator k) of
        None \<Rightarrow> Inl (GenericError ''pass the launch creator'')
      | Some c \<Rightarrow> Inr c)"

definition feeSplitAccounts :: "solana_lib \<Rightarrow> launch_keys \<Rightarrow> pubkey \<Rightarrow> account_meta list" where
  "feeSplitAccounts lib k creator =
     [w0 (claimerQuoteAccount (sol_derive lib) (sol_ata lib) (lk_config k) (lk_quoteMint k) (lk_quoteTokenProgram k)),
      w0 (creatorQuoteAccount lib creator (lk_quoteMint k) (lk_quoteTokenProgram k)),
      w0 (platformQuoteAccount lib (lk_quoteMint k) (lk_quoteTokenProgram k))]"

definition vault_of :: "solana_lib \<Rightarrow> launch_keys \<Rightarrow> pubkey" where
  "vault_of lib k = vaultAddress (sol_derive lib) (sol_ata lib) (lk_config k) (lk_quoteMint k) (lk_quoteTokenProgram k)"

section \<open>The builders\<close>

record create_launch_args =
  cl_payer :: pubkey
  cl_creator :: pubkey
  cl_config :: pubkey
  cl_baseMint :: pubkey
  cl_quoteMint :: pubkey
  cl_quoteTokenProgram :: "pubkey option"
  cl_exitFeeBps :: jsnum

definition createLaunchIx :: "solana_lib \<Rightarrow> create_launch_args \<Rightarrow> tx_instruction result" where
  "createLaunchIx lib a =
     (let derive = sol_derive lib;
          quoteTokenProgram = (case cl_quoteTokenProgram a of Some p \<Rightarrow> p | None \<Rightarrow> TOKEN_2022_PROGRAM_ID lib)
      in bindE (ix_u16 (cl_exitFeeBps a)) (\<lambda>fee.
         bindE (ix_bytes ''create_launch'' [fee]) (\<lambda>bytes.
         Inr (stockfloorIx
           [meta_w (cl_payer a) True,
            meta_r (cl_creator a) True,
            meta_r (cl_config a) True,
            r0 (authorityPda derive (cl_config a)),
            r0 (vaultAuthorityPda derive (cl_config a)),
            w0 (launchPda derive (cl_config a)),
            r0 (cl_quoteMint a),
            r0 (cl_baseMint a),
            w0 (vaultAddress derive (sol_ata lib) (cl_config a) (cl_quoteMint a) quoteTokenProgram),
            r0 quoteTokenProgram,
            r0 (ASSOCIATED_TOKEN_PROGRAM_ID lib),
            r0 (SystemProgram_programId lib),
            w0 (creatorQuoteAccount lib (cl_creator a) (cl_quoteMint a) quoteTokenProgram),
            r0 PLATFORM_TREASURY,
            w0 (platformQuoteAccount lib (cl_quoteMint a) quoteTokenProgram),
            w0 (claimerQuoteAccount derive (sol_ata lib) (cl_config a) (cl_quoteMint a) quoteTokenProgram)]
           bytes))))"

definition registerPoolIx :: "solana_lib \<Rightarrow> pubkey \<Rightarrow> pubkey \<Rightarrow> pubkey \<Rightarrow> tx_instruction result" where
  "registerPoolIx lib config pool baseMint =
     bindE (ix_bytes ''register_pool'' []) (\<lambda>bytes.
     Inr (stockfloorIx
       [w0 (launchPda (sol_derive lib) config), r0 config, r0 pool, r0 baseMint, r0 (TOKEN_PROGRAM_ID lib),
        r0 (metaplexMetadataPda (sol_derive lib) baseMint)] bytes))"

definition harvestCurveFeesIx :: "solana_lib \<Rightarrow> pubkey \<Rightarrow> launch_keys \<Rightarrow> tx_instruction result" where
  "harvestCurveFeesIx lib payer k =
     (let derive = sol_derive lib
      in bindE (ix_bytes ''harvest_curve_fees'' []) (\<lambda>bytes.
         Inr (stockfloorIx
           [meta_w payer True,
            w0 (launchPda derive (lk_config k)),
            r0 (authorityPda derive (lk_config k)),
            r0 (lk_config k),
            w0 (lk_pool k),
            w0 (vault_of lib k),
            w0 (claimerBaseAccount lib (lk_config k) (lk_baseMint k)),
            w0 (dbcTokenVaultPda derive (lk_pool k) (lk_baseMint k)),
            w0 (dbcTokenVaultPda derive (lk_pool k) (lk_quoteMint k)),
            w0 (lk_baseMint k),
            r0 (lk_quoteMint k),
            r0 (TOKEN_PROGRAM_ID lib),
            r0 (lk_quoteTokenProgram k),
            r0 (ASSOCIATED_TOKEN_PROGRAM_ID lib),
            r0 (SystemProgram_programId lib),
            r0 (DBC_POOL_AUTHORITY derive),
            r0 (DBC_EVENT_AUTHORITY derive),
            r0 DBC_PROGRAM_ID,
            w0 (platformQuoteAccount lib (lk_quoteMint k) (lk_quoteTokenProgram k))] bytes)))"

definition harvestDbcQuoteKeys :: "solana_lib \<Rightarrow> launch_keys \<Rightarrow> account_meta list" where
  "harvestDbcQuoteKeys lib k =
     (let derive = sol_derive lib
      in [w0 (launchPda derive (lk_config k)),
          r0 (authorityPda derive (lk_config k)),
          r0 (lk_config k),
          w0 (lk_pool k),
          w0 (vault_of lib k),
          w0 (dbcTokenVaultPda derive (lk_pool k) (lk_quoteMint k)),
          r0 (lk_quoteMint k),
          r0 (lk_quoteTokenProgram k),
          r0 (DBC_POOL_AUTHORITY derive),
          r0 (DBC_EVENT_AUTHORITY derive),
          r0 DBC_PROGRAM_ID])"

definition harvestMigrationFeeIx :: "solana_lib \<Rightarrow> launch_keys \<Rightarrow> pubkey option \<Rightarrow> tx_instruction result" where
  "harvestMigrationFeeIx lib keys creator =
     bindE (launchCreator keys creator) (\<lambda>c.
     bindE (ix_bytes ''harvest_migration_fee'' []) (\<lambda>bytes.
       Inr (stockfloorIx (harvestDbcQuoteKeys lib keys @ feeSplitAccounts lib keys c) bytes)))"

definition harvestSurplusIx :: "solana_lib \<Rightarrow> launch_keys \<Rightarrow> tx_instruction result" where
  "harvestSurplusIx lib keys =
     bindE (ix_bytes ''harvest_surplus'' []) (\<lambda>bytes. Inr (stockfloorIx (harvestDbcQuoteKeys lib keys) bytes))"

definition syncMigrationIx :: "solana_lib \<Rightarrow> pubkey \<Rightarrow> pubkey \<Rightarrow> tx_instruction result" where
  "syncMigrationIx lib config pool =
     bindE (ix_bytes ''sync_migration'' []) (\<lambda>bytes.
       Inr (stockfloorIx [w0 (launchPda (sol_derive lib) config), r0 pool] bytes))"

definition burnClaimerBaseIx :: "solana_lib \<Rightarrow> pubkey \<Rightarrow> pubkey \<Rightarrow> tx_instruction result" where
  "burnClaimerBaseIx lib config baseMint =
     bindE (ix_bytes ''burn_claimer_base'' []) (\<lambda>bytes.
       Inr (stockfloorIx
         [w0 (launchPda (sol_derive lib) config),
          r0 (authorityPda (sol_derive lib) config),
          w0 (claimerBaseAccount lib config baseMint),
          w0 baseMint,
          r0 (TOKEN_PROGRAM_ID lib)] bytes))"

record harvest_lp_fees_args =
  hl_payer :: pubkey
  hl_keys :: launch_keys
  hl_dammPool :: pubkey
  hl_position :: pubkey
  hl_positionNftAccount :: pubkey
  hl_creator :: "pubkey option"

definition harvestLpFeesIx :: "solana_lib \<Rightarrow> harvest_lp_fees_args \<Rightarrow> tx_instruction result" where
  "harvestLpFeesIx lib a =
     (let k = hl_keys a; derive = sol_derive lib
      in bindE (launchCreator k (hl_creator a)) (\<lambda>creator.
         bindE (ix_bytes ''harvest_lp_fees'' []) (\<lambda>bytes.
         Inr (stockfloorIx
           ([meta_w (hl_payer a) True,
             w0 (launchPda derive (lk_config k)),
             r0 (authorityPda derive (lk_config k)),
             r0 (hl_dammPool a),
             w0 (hl_position a),
             r0 (hl_positionNftAccount a),
             w0 (claimerBaseAccount lib (lk_config k) (lk_baseMint k)),
             w0 (vault_of lib k),
             w0 (dammV2TokenVaultPda derive (hl_dammPool a) (lk_baseMint k)),
             w0 (dammV2TokenVaultPda derive (hl_dammPool a) (lk_quoteMint k)),
             w0 (lk_baseMint k),
             r0 (lk_quoteMint k),
             r0 (TOKEN_PROGRAM_ID lib),
             r0 (lk_quoteTokenProgram k),
             r0 (ASSOCIATED_TOKEN_PROGRAM_ID lib),
             r0 (SystemProgram_programId lib),
             r0 (DAMM_V2_POOL_AUTHORITY derive),
             r0 (DAMM_V2_EVENT_AUTHORITY derive),
             r0 DAMM_V2_PROGRAM_ID]
            @ feeSplitAccounts lib k creator) bytes))))"

record redeem_args =
  ra_holder :: pubkey
  ra_keys :: launch_keys
  ra_amount :: int
  ra_holderBaseAccount :: "pubkey option"
  ra_holderQuoteAccount :: "pubkey option"

definition redeemIx :: "solana_lib \<Rightarrow> redeem_args \<Rightarrow> tx_instruction result" where
  "redeemIx lib a =
     (let k = ra_keys a; derive = sol_derive lib
      in bindE (check (\<not> ra_amount a \<le> 0) (RangeError ''redeem amount must be positive'')) (\<lambda>_.
         bindE (ix_u64 (ra_amount a)) (\<lambda>amount.
         bindE (ix_bytes ''redeem'' [amount]) (\<lambda>bytes.
         Inr (stockfloorIx
           [meta_r (ra_holder a) True,
            w0 (launchPda derive (lk_config k)),
            r0 (vaultAuthorityPda derive (lk_config k)),
            r0 (lk_pool k),
            w0 (lk_baseMint k),
            w0 (case ra_holderBaseAccount a of Some x \<Rightarrow> x
                  | None \<Rightarrow> associatedTokenAddress (sol_ata lib) (ra_holder a) (lk_baseMint k) (TOKEN_PROGRAM_ID lib)),
            w0 (vault_of lib k),
            w0 (case ra_holderQuoteAccount a of Some x \<Rightarrow> x
                  | None \<Rightarrow> associatedTokenAddress (sol_ata lib) (ra_holder a) (lk_quoteMint k) (lk_quoteTokenProgram k)),
            r0 (lk_quoteMint k),
            r0 (TOKEN_PROGRAM_ID lib),
            r0 (lk_quoteTokenProgram k)] bytes)))))"

definition floorIx :: "solana_lib \<Rightarrow> pubkey \<Rightarrow> pubkey \<Rightarrow> pubkey \<Rightarrow> pubkey option \<Rightarrow> tx_instruction result" where
  "floorIx lib config quoteMint quoteTokenProgram baseMint =
     bindE (ix_bytes ''floor'' []) (\<lambda>bytes.
     Inr (stockfloorIx
       [r0 (launchPda (sol_derive lib) config),
        r0 (vaultAddress (sol_derive lib) (sol_ata lib) config quoteMint quoteTokenProgram),
        r0 (case baseMint of Some m \<Rightarrow> m | None \<Rightarrow> SystemProgram_programId lib)] bytes))"

section \<open>Following the IDL\<close>

text \<open>
  The documented facts of the Solana libraries the check of fixed addresses rests on: an associated
  token address is the program address of owner, token program and mint under the associated token
  program; the ids of the SPL programs; and the four authority addresses \<^verbatim>\<open>addresses.ts\<close> documents beside
  their seeds.
\<close>

definition solana_documented :: "solana_lib \<Rightarrow> bool" where
  "solana_documented lib \<longleftrightarrow>
     (\<forall>mint owner program. sol_ata lib mint owner program =
        sol_derive lib [owner, program, mint] (ASSOCIATED_TOKEN_PROGRAM_ID lib)) \<and>
     TOKEN_PROGRAM_ID lib = PublicKey ''TokenkegQfeZyiNwAJbNbGKPFXCWuBvf9Ss623VQ5DA'' \<and>
     ASSOCIATED_TOKEN_PROGRAM_ID lib = PublicKey ''ATokenGPvbdGVxr1b2hvZbsiqW5xWH25efTNsLJA8knL'' \<and>
     SystemProgram_programId lib = PublicKey ''11111111111111111111111111111111'' \<and>
     DBC_POOL_AUTHORITY (sol_derive lib) = PublicKey ''FhVo3mqL8PW5pH5U2CN4XE33DokiyZnUwuGpH2hmHLuM'' \<and>
     DBC_EVENT_AUTHORITY (sol_derive lib) = PublicKey ''8Ks12pbrD6PXxfty1hVQiE9sc289zgU1zHkvXhrSdriF'' \<and>
     DAMM_V2_POOL_AUTHORITY (sol_derive lib) = PublicKey ''HLnpSz9h2S4hiLQ43rnSD9XkcUThA7B8hQMKmDaiTLcC'' \<and>
     DAMM_V2_EVENT_AUTHORITY (sol_derive lib) = PublicKey ''3rmHSu74h1ZcmAisVcWerTCiRDQbUrBKmcwptYGjHfet''"

text \<open>
  A seed names an account of the same instruction, or the config of the launch account's data. An
  account meta follows its IDL entry when flags, fixed address and derived address agree.
\<close>

fun seed_value :: "pubkey \<Rightarrow> (string \<times> pubkey) list \<Rightarrow> idl_seed \<Rightarrow> bytes option" where
  "seed_value config accounts (ConstSeed b) = Some b"
| "seed_value config accounts (AccountSeed path) =
     (if path = ''launch.config'' then Some config else map_of accounts path)"

definition follows_account ::
  "solana_lib \<Rightarrow> pubkey \<Rightarrow> (string \<times> pubkey) list \<Rightarrow> idl_account \<Rightarrow> account_meta \<Rightarrow> bool" where
  "follows_account lib config accounts a m \<longleftrightarrow>
     mt_isSigner m = ia_signer a \<and> mt_isWritable m = ia_writable a \<and>
     (case ia_address a of None \<Rightarrow> True | Some t \<Rightarrow> mt_pubkey m = PublicKey t) \<and>
     (case ia_pda a of None \<Rightarrow> True
      | Some (seeds, program) \<Rightarrow>
          (case those (map (seed_value config accounts) seeds) of
             None \<Rightarrow> False
           | Some bs \<Rightarrow> mt_pubkey m = sol_derive lib bs
                           (case program of None \<Rightarrow> PublicKey IDL_address | Some p \<Rightarrow> p)))"

definition follows_idl :: "solana_lib \<Rightarrow> pubkey \<Rightarrow> idl_instruction \<Rightarrow> tx_instruction result \<Rightarrow> bool" where
  "follows_idl lib config d r \<longleftrightarrow>
     (case r of Inl _ \<Rightarrow> False
      | Inr i \<Rightarrow>
          ix_programId i = PublicKey IDL_address \<and>
          take 8 (ix_data i) = ii_discriminator d \<and>
          int (length (ix_data i)) = 8 + struct_size (ii_args d) \<and>
          list_all2 (follows_account lib config
              (zip (map ia_name (ii_accounts d)) (map mt_pubkey (ix_keys i))))
            (ii_accounts d) (ix_keys i))"

lemma ata_program_bytes: "ATA_PROGRAM_BYTES = PublicKey ''ATokenGPvbdGVxr1b2hvZbsiqW5xWH25efTNsLJA8knL''"
  by code_simp

lemma stockfloor_id: "STOCKFLOOR_PROGRAM_ID = PublicKey IDL_address"
  by (simp add: STOCKFLOOR_PROGRAM_ID_def IDL_address_def)

lemma idl_names:
  "ii_name idl_burnClaimerBase = ''burnClaimerBase''"
  "ii_name idl_createLaunch = ''createLaunch''"
  "ii_name idl_floor = ''floor''"
  "ii_name idl_harvestCurveFees = ''harvestCurveFees''"
  "ii_name idl_harvestLpFees = ''harvestLpFees''"
  "ii_name idl_harvestMigrationFee = ''harvestMigrationFee''"
  "ii_name idl_harvestSurplus = ''harvestSurplus''"
  "ii_name idl_redeem = ''redeem''"
  "ii_name idl_registerPool = ''registerPool''"
  "ii_name idl_syncMigration = ''syncMigration''"
  by (simp_all add: idl_burnClaimerBase_def idl_createLaunch_def idl_floor_def idl_harvestCurveFees_def idl_harvestLpFees_def idl_harvestMigrationFee_def idl_harvestSurplus_def idl_redeem_def idl_registerPool_def idl_syncMigration_def)

lemma snake_names:
  "snake_case ''burnClaimerBase'' = ''burn_claimer_base''"
  "snake_case ''createLaunch'' = ''create_launch''"
  "snake_case ''floor'' = ''floor''"
  "snake_case ''harvestCurveFees'' = ''harvest_curve_fees''"
  "snake_case ''harvestLpFees'' = ''harvest_lp_fees''"
  "snake_case ''harvestMigrationFee'' = ''harvest_migration_fee''"
  "snake_case ''harvestSurplus'' = ''harvest_surplus''"
  "snake_case ''redeem'' = ''redeem''"
  "snake_case ''registerPool'' = ''register_pool''"
  "snake_case ''syncMigration'' = ''sync_migration''"
  by code_simp+

lemma ix_bytes_of:
  "ix_bytes ''create_launch'' args = Inr (concat (ii_discriminator idl_createLaunch # args))"
  "ix_bytes ''register_pool'' args = Inr (concat (ii_discriminator idl_registerPool # args))"
  "ix_bytes ''harvest_curve_fees'' args = Inr (concat (ii_discriminator idl_harvestCurveFees # args))"
  "ix_bytes ''harvest_migration_fee'' args = Inr (concat (ii_discriminator idl_harvestMigrationFee # args))"
  "ix_bytes ''harvest_surplus'' args = Inr (concat (ii_discriminator idl_harvestSurplus # args))"
  "ix_bytes ''sync_migration'' args = Inr (concat (ii_discriminator idl_syncMigration # args))"
  "ix_bytes ''burn_claimer_base'' args = Inr (concat (ii_discriminator idl_burnClaimerBase # args))"
  "ix_bytes ''harvest_lp_fees'' args = Inr (concat (ii_discriminator idl_harvestLpFees # args))"
  "ix_bytes ''redeem'' args = Inr (concat (ii_discriminator idl_redeem # args))"
  "ix_bytes ''floor'' args = Inr (concat (ii_discriminator idl_floor # args))"
  by (simp_all add: ix_bytes_def discriminator_def idlInstruction_def STOCKFLOOR_INSTRUCTIONS_def idl_names
      snake_names)

lemmas follow_simps = follows_idl_def follows_account_def stockfloorIx_def stockfloor_id struct_size_def
  idl_acc_def meta_w_def meta_r_def ix_bytes_of ata_program_bytes
  launchPda_def authorityPda_def vaultAuthorityPda_def vaultAddress_def vault_of_def
  associatedTokenAddress_def claimerBaseAccount_def claimerQuoteAccount_def creatorQuoteAccount_def
  platformQuoteAccount_def

lemma register_follows:
  assumes "solana_documented lib"
  shows "follows_idl lib config idl_registerPool (registerPoolIx lib config pool baseMint)"
  using assms
  by (simp add: registerPoolIx_def follow_simps idl_registerPool_def idl_registerPool_accounts_def solana_documented_def)

lemma sync_follows: "follows_idl lib config idl_syncMigration (syncMigrationIx lib config pool)"
  by (simp add: syncMigrationIx_def follow_simps idl_syncMigration_def idl_syncMigration_accounts_def)

lemma burn_follows:
  assumes "solana_documented lib"
  shows "follows_idl lib config idl_burnClaimerBase (burnClaimerBaseIx lib config baseMint)"
  using assms
  by (simp add: burnClaimerBaseIx_def follow_simps idl_burnClaimerBase_def idl_burnClaimerBase_accounts_def
      solana_documented_def)

lemma floor_follows:
  "follows_idl lib config idl_floor (floorIx lib config quoteMint quoteTokenProgram baseMint)"
  by (simp add: floorIx_def follow_simps idl_floor_def idl_floor_accounts_def)

lemma surplus_follows:
  assumes "solana_documented lib"
  shows "follows_idl lib (lk_config k) idl_harvestSurplus (harvestSurplusIx lib k)"
  using assms
  by (simp add: harvestSurplusIx_def harvestDbcQuoteKeys_def follow_simps idl_harvestSurplus_def
      idl_harvestSurplus_accounts_def solana_documented_def Let_def DBC_PROGRAM_ID_def)

lemma migration_fee_follows:
  assumes "solana_documented lib" "launchCreator k c = Inr creator"
  shows "follows_idl lib (lk_config k) idl_harvestMigrationFee (harvestMigrationFeeIx lib k c)"
  using assms
  by (simp add: harvestMigrationFeeIx_def harvestDbcQuoteKeys_def feeSplitAccounts_def follow_simps
      idl_harvestMigrationFee_def idl_harvestMigrationFee_accounts_def solana_documented_def Let_def DBC_PROGRAM_ID_def)

lemma curve_fees_follows:
  assumes "solana_documented lib"
  shows "follows_idl lib (lk_config k) idl_harvestCurveFees (harvestCurveFeesIx lib payer k)"
  using assms
  by (simp add: harvestCurveFeesIx_def follow_simps idl_harvestCurveFees_def idl_harvestCurveFees_accounts1_def
      idl_harvestCurveFees_accounts2_def solana_documented_def Let_def DBC_PROGRAM_ID_def)

lemma lp_fees_follows:
  assumes "solana_documented lib" "launchCreator (hl_keys a) (hl_creator a) = Inr creator"
    "lk_config (hl_keys a) = config"
  shows "follows_idl lib config idl_harvestLpFees (harvestLpFeesIx lib a)"
  using assms
  by (simp add: harvestLpFeesIx_def feeSplitAccounts_def follow_simps idl_harvestLpFees_def
      idl_harvestLpFees_accounts1_def idl_harvestLpFees_accounts2_def solana_documented_def Let_def
      DAMM_V2_PROGRAM_ID_def)

lemma length_writeU64 [simp]: "length (writeU64 v) = 8"
  by (simp add: writeU64_def)

lemma redeem_follows:
  assumes "solana_documented lib" "0 < ra_amount a" "ra_amount a < 2 ^ 64" "lk_config (ra_keys a) = config"
  shows "follows_idl lib config idl_redeem (redeemIx lib a)"
  using assms
  by (simp add: redeemIx_def ix_u64_def follow_simps idl_redeem_def idl_redeem_accounts_def
      solana_documented_def Let_def)

lemma create_follows:
  assumes "solana_documented lib" "cl_exitFeeBps a = JsInt fee" "0 \<le> fee" "fee < 2 ^ 16"
    "cl_config a = config"
  shows "follows_idl lib config idl_createLaunch (createLaunchIx lib a)"
  using assms
  by (simp add: createLaunchIx_def ix_u16_def follow_simps idl_createLaunch_def idl_createLaunch_accounts1_def
      idl_createLaunch_accounts2_def idl_createLaunch_accounts3_def solana_documented_def Let_def
      PLATFORM_TREASURY_def)

section \<open>Properties\<close>

text \<open>
  C26: every StockFloor instruction the SDK builds follows the program's IDL. For the keys of any launch
  account, any payer and any arguments in range, each of the ten builders returns an instruction of the
  program whose data starts with the IDL's discriminator and has the length of its arguments, and whose
  account metas agree with the IDL one by one: signer and writable flags, fixed addresses, and the
  address derived from the seeds the IDL states.
\<close>

theorem builders_follow_idl:
  assumes "solana_documented lib" "launchKeysFromAccount launch pool = Inr k"
    and "0 < amount" "amount < 2 ^ 64" "0 \<le> fee" "fee < 2 ^ 16"
  shows
    "follows_idl lib config idl_createLaunch (createLaunchIx lib
       \<lparr>cl_payer = payer, cl_creator = creator, cl_config = config, cl_baseMint = baseMint,
        cl_quoteMint = quoteMint, cl_quoteTokenProgram = prog, cl_exitFeeBps = JsInt fee\<rparr>) \<and>
     follows_idl lib config idl_registerPool (registerPoolIx lib config poolKey baseMint) \<and>
     follows_idl lib (lk_config k) idl_harvestCurveFees (harvestCurveFeesIx lib payer k) \<and>
     follows_idl lib (lk_config k) idl_harvestMigrationFee (harvestMigrationFeeIx lib k creatorArg) \<and>
     follows_idl lib (lk_config k) idl_harvestSurplus (harvestSurplusIx lib k) \<and>
     follows_idl lib config idl_syncMigration (syncMigrationIx lib config poolKey) \<and>
     follows_idl lib config idl_burnClaimerBase (burnClaimerBaseIx lib config baseMint) \<and>
     follows_idl lib (lk_config k) idl_harvestLpFees (harvestLpFeesIx lib
       \<lparr>hl_payer = payer, hl_keys = k, hl_dammPool = dammPool, hl_position = position,
        hl_positionNftAccount = nft, hl_creator = creatorArg\<rparr>) \<and>
     follows_idl lib (lk_config k) idl_redeem (redeemIx lib
       \<lparr>ra_holder = holder, ra_keys = k, ra_amount = amount, ra_holderBaseAccount = hb,
        ra_holderQuoteAccount = hq\<rparr>) \<and>
     follows_idl lib config idl_floor (floorIx lib config quoteMint quoteTokenProgram floorMint)"
proof -
  from assms(2) obtain c where "launchCreator k creatorArg = Inr c"
    by (cases creatorArg) (auto simp: launchKeysFromAccount_def launchCreator_def split: option.splits if_splits)
  then show ?thesis
    using assms by (intro conjI create_follows register_follows curve_fees_follows migration_fee_follows
        surplus_follows sync_follows burn_follows lp_fees_follows redeem_follows floor_follows) simp_all
qed

text \<open>An instance of the libraries: injective derivations, with the documented authorities.\<close>

definition plain_lib :: solana_lib where
  "plain_lib =
     (let d = (\<lambda>seeds program.
            if seeds = [seed ''pool_authority''] \<and> program = DBC_PROGRAM_ID
            then PublicKey ''FhVo3mqL8PW5pH5U2CN4XE33DokiyZnUwuGpH2hmHLuM''
            else if seeds = [seed ''__event_authority''] \<and> program = DBC_PROGRAM_ID
            then PublicKey ''8Ks12pbrD6PXxfty1hVQiE9sc289zgU1zHkvXhrSdriF''
            else if seeds = [seed ''pool_authority''] \<and> program = DAMM_V2_PROGRAM_ID
            then PublicKey ''HLnpSz9h2S4hiLQ43rnSD9XkcUThA7B8hQMKmDaiTLcC''
            else if seeds = [seed ''__event_authority''] \<and> program = DAMM_V2_PROGRAM_ID
            then PublicKey ''3rmHSu74h1ZcmAisVcWerTCiRDQbUrBKmcwptYGjHfet''
            else plain_derive seeds program);
          ataProgram = PublicKey ''ATokenGPvbdGVxr1b2hvZbsiqW5xWH25efTNsLJA8knL''
      in \<lparr>sol_derive = d, sol_ata = (\<lambda>mint owner program. d [owner, program, mint] ataProgram),
          TOKEN_PROGRAM_ID = PublicKey ''TokenkegQfeZyiNwAJbNbGKPFXCWuBvf9Ss623VQ5DA'',
          TOKEN_2022_PROGRAM_ID = PublicKey ''TokenzQdBNbLqP5VEhdkAS6EPFLC1PHnBqCXEpPxuEb'',
          ASSOCIATED_TOKEN_PROGRAM_ID = ataProgram,
          SystemProgram_programId = PublicKey ''11111111111111111111111111111111''\<rparr>)"

lemma plain_lib_documented: "solana_documented plain_lib"
proof -
  have "DBC_PROGRAM_ID \<noteq> DAMM_V2_PROGRAM_ID" "seed ''pool_authority'' \<noteq> seed ''__event_authority''"
    by code_simp+
  then show ?thesis
    by (simp add: solana_documented_def plain_lib_def Let_def DBC_POOL_AUTHORITY_def DBC_EVENT_AUTHORITY_def
        DAMM_V2_POOL_AUTHORITY_def DAMM_V2_EVENT_AUTHORITY_def)
qed

definition example_keys :: launch_keys where
  "example_keys =
     \<lparr>lk_config = la_config example_launch, lk_pool = LAUNCH_DISCRIMINATOR, lk_baseMint = la_baseMint example_launch,
      lk_quoteMint = la_quoteMint example_launch, lk_quoteTokenProgram = la_quoteTokenProgram example_launch,
      lk_creator = Some (la_creator example_launch)\<rparr>"

lemma example_keys: "launchKeysFromAccount example_launch (Some LAUNCH_DISCRIMINATOR) = Inr example_keys"
  by (simp add: launchKeysFromAccount_def example_keys_def)

lemma builders_follow_idl_witness:
  "follows_idl plain_lib (lk_config example_keys) idl_redeem (redeemIx plain_lib
     \<lparr>ra_holder = PublicKey_default, ra_keys = example_keys, ra_amount = 5, ra_holderBaseAccount = None,
      ra_holderQuoteAccount = None\<rparr>)"
  using builders_follow_idl [OF plain_lib_documented example_keys, where amount = 5 and fee = 1
      and holder = PublicKey_default and hb = None and hq = None]
  by simp

end
