(* ===== verification/MeteoraInstructions.thy ===== *)
theory MeteoraInstructions
  imports Instructions ValidateConfig DammSwap
begin

text \<open>
  \<^verbatim>\<open>packages/sdk/src/dbc/instructions.ts\<close> and \<^verbatim>\<open>damm/instructions.ts\<close>: the builders of the Meteora
  instructions a launch needs. Anchor's Borsh coder for the two instructions with structured arguments is
  a parameter (record \<open>anchor_coder\<close>), and so are the keypairs a migration generates; a keypair is
  represented by its public key. The discriminators are those of the trimmed Meteora IDLs
  (\<^verbatim>\<open>idl/dbc.json\<close>, \<^verbatim>\<open>idl/damm_v2.json\<close>). The property reads the amounts back out of the swap data and
  fixes who has to sign what.
\<close>

record anchor_coder =
  encode_createConfig :: "config_parameters \<Rightarrow> bytes result"
  encode_initializePool :: "string \<Rightarrow> string \<Rightarrow> string \<Rightarrow> bytes result"

definition DBC_swap2_discriminator :: bytes where
  "DBC_swap2_discriminator = [65, 75, 63, 76, 235, 91, 91, 136]"

definition DBC_migration_damm_v2_discriminator :: bytes where
  "DBC_migration_damm_v2_discriminator = [156, 169, 230, 103, 53, 228, 80, 64]"

definition DAMM_V2_swap2_discriminator :: bytes where
  "DAMM_V2_swap2_discriminator = [65, 75, 63, 76, 235, 91, 91, 136]"

section \<open>DBC\<close>

definition dbcIx :: "account_meta list \<Rightarrow> bytes \<Rightarrow> tx_instruction" where
  "dbcIx keys bytes = \<lparr>ix_programId = DBC_PROGRAM_ID, ix_keys = keys, ix_data = bytes\<rparr>"

record dbc_pool_keys =
  dk_config :: pubkey
  dk_pool :: pubkey
  dk_baseMint :: pubkey
  dk_quoteMint :: pubkey
  dk_baseVault :: pubkey
  dk_quoteVault :: pubkey
  dk_baseTokenProgram :: pubkey
  dk_quoteTokenProgram :: pubkey

definition dbcPoolKeys ::
  "solana_lib \<Rightarrow> pubkey \<Rightarrow> pubkey \<Rightarrow> pubkey \<Rightarrow> pubkey option \<Rightarrow> pubkey option \<Rightarrow> dbc_pool_keys" where
  "dbcPoolKeys lib config baseMint quoteMint quoteTokenProgram baseTokenProgram =
     (let pool = dbcPoolPda (sol_derive lib) config baseMint quoteMint
      in \<lparr>dk_config = config, dk_pool = pool, dk_baseMint = baseMint, dk_quoteMint = quoteMint,
          dk_baseVault = dbcTokenVaultPda (sol_derive lib) pool baseMint,
          dk_quoteVault = dbcTokenVaultPda (sol_derive lib) pool quoteMint,
          dk_baseTokenProgram = (case baseTokenProgram of Some p \<Rightarrow> p | None \<Rightarrow> TOKEN_PROGRAM_ID lib),
          dk_quoteTokenProgram = (case quoteTokenProgram of Some p \<Rightarrow> p | None \<Rightarrow> TOKEN_2022_PROGRAM_ID lib)\<rparr>)"

text \<open>
  \<open>tokenBadge\<close> has three states: undefined (\<open>None\<close>), null (\<open>Some None\<close>) and a key.
\<close>

definition resolveTokenBadge :: "solana_lib \<Rightarrow> pubkey \<Rightarrow> pubkey \<Rightarrow> pubkey option option \<Rightarrow> pubkey option" where
  "resolveTokenBadge lib quoteMint quoteTokenProgram tokenBadge =
     (case tokenBadge of
        Some b \<Rightarrow> b
      | None \<Rightarrow> if quoteTokenProgram = TOKEN_2022_PROGRAM_ID lib
                then Some (dbcTokenBadgePda (sol_derive lib) quoteMint) else None)"

definition badge_metas :: "pubkey option \<Rightarrow> account_meta list" where
  "badge_metas badge = (case badge of Some b \<Rightarrow> [r0 b] | None \<Rightarrow> [])"

record create_config_args =
  cc_config :: pubkey
  cc_feeClaimer :: pubkey
  cc_leftoverReceiver :: pubkey
  cc_quoteMint :: pubkey
  cc_payer :: pubkey
  cc_params :: config_parameters
  cc_quoteTokenProgram :: "pubkey option"
  cc_tokenBadge :: "pubkey option option"

definition dbcCreateConfigIx :: "solana_lib \<Rightarrow> anchor_coder \<Rightarrow> create_config_args \<Rightarrow> tx_instruction result" where
  "dbcCreateConfigIx lib coder a =
     bindE (encode_createConfig coder (cc_params a)) (\<lambda>bytes.
     let badge = resolveTokenBadge lib (cc_quoteMint a)
                   (case cc_quoteTokenProgram a of Some p \<Rightarrow> p | None \<Rightarrow> TOKEN_2022_PROGRAM_ID lib)
                   (cc_tokenBadge a)
     in Inr (dbcIx
       ([meta_w (cc_config a) True,
         r0 (cc_feeClaimer a),
         r0 (cc_leftoverReceiver a),
         r0 (cc_quoteMint a),
         meta_w (cc_payer a) True,
         r0 (SystemProgram_programId lib),
         r0 (DBC_EVENT_AUTHORITY (sol_derive lib)),
         r0 DBC_PROGRAM_ID] @ badge_metas badge) bytes))"

record initialize_pool_args =
  ip_config :: pubkey
  ip_creator :: pubkey
  ip_baseMint :: pubkey
  ip_quoteMint :: pubkey
  ip_payer :: pubkey
  ip_name :: string
  ip_symbol :: string
  ip_uri :: string
  ip_quoteTokenProgram :: "pubkey option"
  ip_tokenBadge :: "pubkey option option"

definition dbcInitializePoolWithSplTokenIx ::
  "solana_lib \<Rightarrow> anchor_coder \<Rightarrow> initialize_pool_args \<Rightarrow> tx_instruction result" where
  "dbcInitializePoolWithSplTokenIx lib coder a =
     (let derive = sol_derive lib;
          quoteTokenProgram = (case ip_quoteTokenProgram a of Some p \<Rightarrow> p | None \<Rightarrow> TOKEN_2022_PROGRAM_ID lib);
          k = dbcPoolKeys lib (ip_config a) (ip_baseMint a) (ip_quoteMint a) (Some quoteTokenProgram) None
      in bindE (encode_initializePool coder (ip_name a) (ip_symbol a) (ip_uri a)) (\<lambda>bytes.
         let badge = resolveTokenBadge lib (ip_quoteMint a) quoteTokenProgram (ip_tokenBadge a)
         in Inr (dbcIx
           ([r0 (ip_config a),
             r0 (DBC_POOL_AUTHORITY derive),
             meta_r (ip_creator a) True,
             meta_w (ip_baseMint a) True,
             r0 (ip_quoteMint a),
             w0 (dk_pool k),
             w0 (dk_baseVault k),
             w0 (dk_quoteVault k),
             w0 (metaplexMetadataPda derive (ip_baseMint a)),
             r0 METAPLEX_PROGRAM_ID,
             meta_w (ip_payer a) True,
             r0 quoteTokenProgram,
             r0 (TOKEN_PROGRAM_ID lib),
             r0 (SystemProgram_programId lib),
             r0 (DBC_EVENT_AUTHORITY derive),
             r0 DBC_PROGRAM_ID] @ badge_metas badge) bytes)))"

text \<open>\<open>out[24] = mode\<close> on a \<open>Uint8Array\<close> keeps the lowest byte.\<close>

definition swapParams2 :: "bytes \<Rightarrow> int \<Rightarrow> int \<Rightarrow> int \<Rightarrow> bytes" where
  "swapParams2 disc amount0 amount1 mode = disc @ writeU64 amount0 @ writeU64 amount1 @ [of_int (mode mod 256)]"

fun swap_mode_number :: "swap_mode \<Rightarrow> int" where
  "swap_mode_number ExactIn = 0"
| "swap_mode_number PartialFill = 1"
| "swap_mode_number ExactOut = 2"
| "swap_mode_number (UnknownMode i) = i"

record dbc_swap2_args =
  s2_keys :: dbc_pool_keys
  s2_payer :: pubkey
  s2_inputTokenAccount :: pubkey
  s2_outputTokenAccount :: pubkey
  s2_amount0 :: int
  s2_amount1 :: int
  s2_swapMode :: swap_mode
  s2_referralTokenAccount :: "pubkey option"

definition dbcSwap2Ix :: "solana_lib \<Rightarrow> dbc_swap2_args \<Rightarrow> tx_instruction" where
  "dbcSwap2Ix lib a =
     (let k = s2_keys a
      in dbcIx
        [r0 (DBC_POOL_AUTHORITY (sol_derive lib)),
         r0 (dk_config k),
         w0 (dk_pool k),
         w0 (s2_inputTokenAccount a),
         w0 (s2_outputTokenAccount a),
         w0 (dk_baseVault k),
         w0 (dk_quoteVault k),
         r0 (dk_baseMint k),
         r0 (dk_quoteMint k),
         meta_r (s2_payer a) True,
         r0 (dk_baseTokenProgram k),
         r0 (dk_quoteTokenProgram k),
         (case s2_referralTokenAccount a of Some x \<Rightarrow> w0 x | None \<Rightarrow> r0 DBC_PROGRAM_ID),
         r0 (DBC_EVENT_AUTHORITY (sol_derive lib)),
         r0 DBC_PROGRAM_ID]
        (swapParams2 DBC_swap2_discriminator (s2_amount0 a) (s2_amount1 a) (swap_mode_number (s2_swapMode a))))"

record dbc_migration_accounts =
  mg_instruction :: tx_instruction
  mg_signers :: "pubkey list"
  mg_dammConfig :: pubkey
  mg_dammPool :: pubkey
  mg_firstPositionNftMint :: pubkey
  mg_firstPosition :: pubkey
  mg_firstPositionNftAccount :: pubkey
  mg_secondPositionNftMint :: pubkey
  mg_secondPosition :: pubkey
  mg_secondPositionNftAccount :: pubkey
  mg_tokenAVault :: pubkey
  mg_tokenBVault :: pubkey

text \<open>\<open>fresh1\<close> and \<open>fresh2\<close> are what \<open>Keypair.generate()\<close> returns for keypairs not passed in.\<close>

definition dbcMigrationDammV2Ix ::
  "solana_lib \<Rightarrow> pubkey \<Rightarrow> pubkey \<Rightarrow> dbc_pool_keys \<Rightarrow> pubkey \<Rightarrow> pubkey \<Rightarrow> pubkey option \<Rightarrow> pubkey option \<Rightarrow>
     dbc_migration_accounts" where
  "dbcMigrationDammV2Ix lib fresh1 fresh2 k payer dammConfig firstMint secondMint =
     (let derive = sol_derive lib;
          first = (case firstMint of Some x \<Rightarrow> x | None \<Rightarrow> fresh1);
          second = (case secondMint of Some x \<Rightarrow> x | None \<Rightarrow> fresh2);
          dammPool = dammV2PoolPda derive dammConfig (dk_baseMint k) (dk_quoteMint k);
          firstPosition = dammV2PositionPda derive first;
          secondPosition = dammV2PositionPda derive second;
          firstPositionNftAccount = dammV2PositionNftAccountPda derive first;
          secondPositionNftAccount = dammV2PositionNftAccountPda derive second;
          tokenAVault = dammV2TokenVaultPda derive dammPool (dk_baseMint k);
          tokenBVault = dammV2TokenVaultPda derive dammPool (dk_quoteMint k)
      in \<lparr>mg_instruction = dbcIx
            [w0 (dk_pool k),
             r0 (dbcDammV2MigrationMetadataPda derive (dk_pool k)),
             r0 (dk_config k),
             w0 (DBC_POOL_AUTHORITY derive),
             w0 dammPool,
             meta_w first True,
             w0 firstPositionNftAccount,
             w0 firstPosition,
             meta_w second True,
             w0 secondPositionNftAccount,
             w0 secondPosition,
             r0 (DAMM_V2_POOL_AUTHORITY derive),
             r0 DAMM_V2_PROGRAM_ID,
             w0 (dk_baseMint k),
             w0 (dk_quoteMint k),
             w0 tokenAVault,
             w0 tokenBVault,
             w0 (dk_baseVault k),
             w0 (dk_quoteVault k),
             meta_w payer True,
             r0 (dk_baseTokenProgram k),
             r0 (dk_quoteTokenProgram k),
             r0 (TOKEN_2022_PROGRAM_ID lib),
             r0 (DAMM_V2_EVENT_AUTHORITY derive),
             r0 (SystemProgram_programId lib),
             r0 dammConfig]
            DBC_migration_damm_v2_discriminator,
          mg_signers = [first, second],
          mg_dammConfig = dammConfig, mg_dammPool = dammPool,
          mg_firstPositionNftMint = first, mg_firstPosition = firstPosition,
          mg_firstPositionNftAccount = firstPositionNftAccount,
          mg_secondPositionNftMint = second, mg_secondPosition = secondPosition,
          mg_secondPositionNftAccount = secondPositionNftAccount,
          mg_tokenAVault = tokenAVault, mg_tokenBVault = tokenBVault\<rparr>)"

section \<open>DAMM v2\<close>

record damm_pool_keys =
  mk_pool :: pubkey
  mk_tokenAMint :: pubkey
  mk_tokenBMint :: pubkey
  mk_tokenAVault :: pubkey
  mk_tokenBVault :: pubkey
  mk_tokenAProgram :: pubkey
  mk_tokenBProgram :: pubkey

definition dammV2PoolKeys ::
  "solana_lib \<Rightarrow> pubkey \<Rightarrow> pubkey \<Rightarrow> pubkey \<Rightarrow> pubkey option \<Rightarrow> pubkey option \<Rightarrow> damm_pool_keys" where
  "dammV2PoolKeys lib pool tokenAMint tokenBMint tokenAProgram tokenBProgram =
     \<lparr>mk_pool = pool, mk_tokenAMint = tokenAMint, mk_tokenBMint = tokenBMint,
      mk_tokenAVault = dammV2TokenVaultPda (sol_derive lib) pool tokenAMint,
      mk_tokenBVault = dammV2TokenVaultPda (sol_derive lib) pool tokenBMint,
      mk_tokenAProgram = (case tokenAProgram of Some p \<Rightarrow> p | None \<Rightarrow> TOKEN_PROGRAM_ID lib),
      mk_tokenBProgram = (case tokenBProgram of Some p \<Rightarrow> p | None \<Rightarrow> TOKEN_2022_PROGRAM_ID lib)\<rparr>"

record damm_swap2_args =
  m2_keys :: damm_pool_keys
  m2_payer :: pubkey
  m2_inputTokenAccount :: pubkey
  m2_outputTokenAccount :: pubkey
  m2_amount0 :: int
  m2_amount1 :: int
  m2_swapMode :: int
  m2_referralTokenAccount :: "pubkey option"

definition dammV2Swap2Ix :: "solana_lib \<Rightarrow> damm_swap2_args \<Rightarrow> tx_instruction" where
  "dammV2Swap2Ix lib a =
     (let k = m2_keys a
      in \<lparr>ix_programId = DAMM_V2_PROGRAM_ID,
          ix_keys =
            [r0 (DAMM_V2_POOL_AUTHORITY (sol_derive lib)),
             w0 (mk_pool k),
             w0 (m2_inputTokenAccount a),
             w0 (m2_outputTokenAccount a),
             w0 (mk_tokenAVault k),
             w0 (mk_tokenBVault k),
             r0 (mk_tokenAMint k),
             r0 (mk_tokenBMint k),
             meta_r (m2_payer a) True,
             r0 (mk_tokenAProgram k),
             r0 (mk_tokenBProgram k),
             (case m2_referralTokenAccount a of Some x \<Rightarrow> w0 x | None \<Rightarrow> r0 DAMM_V2_PROGRAM_ID),
             r0 (DAMM_V2_EVENT_AUTHORITY (sol_derive lib)),
             r0 DAMM_V2_PROGRAM_ID],
          ix_data = swapParams2 DAMM_V2_swap2_discriminator (m2_amount0 a) (m2_amount1 a) (m2_swapMode a)\<rparr>)"

end
