(* ===== verification/Transactions.thy ===== *)
theory Transactions
  imports Instructions
begin

text \<open>
  \<^verbatim>\<open>packages/sdk/src/transaction.ts\<close> and the error scan of \<^verbatim>\<open>chain.ts\<close>: compute unit limits, compute budget
  instructions, and the size check of a legacy transaction. Compiling a message and the two compute
  budget instructions are web3.js; they are fields of the parameter \<open>web3_lib\<close>. The properties: the length
  prefix is the number of 7-bit groups, and a transaction passes the check exactly up to the packet size.
\<close>

record web3_lib =
  setComputeUnitLimit :: "jsnum \<Rightarrow> tx_instruction"
  setComputeUnitPrice :: "jsnum \<Rightarrow> tx_instruction"
  compileMessage :: "tx_instruction list \<Rightarrow> pubkey \<Rightarrow> int \<times> int"

text \<open>\<open>compileMessage ixs payer\<close> is the number of required signatures and the length of the serialized message.\<close>

text \<open>
  \<open>createAtaIdempotentIx\<close> of \<^verbatim>\<open>token.ts\<close>; the instruction itself is built by the SPL token library from payer,
  token account, owner, mint, token program and associated token program.
\<close>

type_synonym ata_builder = "pubkey \<Rightarrow> pubkey \<Rightarrow> pubkey \<Rightarrow> pubkey \<Rightarrow> pubkey \<Rightarrow> pubkey \<Rightarrow> tx_instruction"

definition createAtaIdempotentIx ::
  "solana_lib \<Rightarrow> ata_builder \<Rightarrow> pubkey \<Rightarrow> pubkey \<Rightarrow> pubkey \<Rightarrow> pubkey \<Rightarrow> tx_instruction" where
  "createAtaIdempotentIx lib newAta payer owner mint tokenProgram =
     newAta payer (associatedTokenAddress (sol_ata lib) owner mint tokenProgram) owner mint tokenProgram
       (ASSOCIATED_TOKEN_PROGRAM_ID lib)"

definition PACKET_DATA_SIZE :: int where [simp]: "PACKET_DATA_SIZE = 1232"

datatype cu_limit =
    createLaunch | registerPool | harvestCurveFeesCreatesAta | harvestCurveFees | harvestMigrationFee
  | harvestSurplus | syncMigration | burnClaimerBase | harvestLpFees | floorView | redeemTokens | dbcCreateConfig
  | dbcInitializePool | dbcSwap2 | dbcMigrationDammV2 | dammV2Swap2 | createAta

fun CU_LIMITS :: "cu_limit \<Rightarrow> int" where
  "CU_LIMITS createLaunch = 200000"
| "CU_LIMITS registerPool = 20000"
| "CU_LIMITS harvestCurveFeesCreatesAta = 120000"
| "CU_LIMITS harvestCurveFees = 85000"
| "CU_LIMITS harvestMigrationFee = 100000"
| "CU_LIMITS harvestSurplus = 60000"
| "CU_LIMITS syncMigration = 20000"
| "CU_LIMITS burnClaimerBase = 40000"
| "CU_LIMITS harvestLpFees = 120000"
| "CU_LIMITS floorView = 15000"
| "CU_LIMITS redeemTokens = 40000"
| "CU_LIMITS dbcCreateConfig = 50000"
| "CU_LIMITS dbcInitializePool = 150000"
| "CU_LIMITS dbcSwap2 = 60000"
| "CU_LIMITS dbcMigrationDammV2 = 200000"
| "CU_LIMITS dammV2Swap2 = 40000"
| "CU_LIMITS createAta = 35000"

definition MAX_COMPUTE_UNIT_LIMIT :: int where [simp]: "MAX_COMPUTE_UNIT_LIMIT = 1400000"

text \<open>\<open>Math.min(Math.ceil(x), limit)\<close> and \<open>Math.floor(x)\<close>.\<close>

fun ceil_min :: "jsnum \<Rightarrow> int \<Rightarrow> jsnum" where
  "ceil_min NaN limit = NaN"
| "ceil_min Infinity limit = JsInt limit"
| "ceil_min NegInfinity limit = NegInfinity"
| "ceil_min (Fin q) limit = JsInt (min \<lceil>q\<rceil> limit)"

fun js_floor :: "jsnum \<Rightarrow> jsnum" where
  "js_floor (Fin q) = JsInt \<lfloor>q\<rfloor>"
| "js_floor n = n"

fun js_positive :: "jsnum \<Rightarrow> bool" where
  "js_positive (Fin q) \<longleftrightarrow> q > 0"
| "js_positive Infinity \<longleftrightarrow> True"
| "js_positive n \<longleftrightarrow> False"

definition computeBudgetInstructions ::
  "web3_lib \<Rightarrow> jsnum option \<Rightarrow> jsnum option \<Rightarrow> tx_instruction list result" where
  "computeBudgetInstructions web computeUnitLimit price =
     bindE (case computeUnitLimit of
              None \<Rightarrow> Inr []
            | Some l \<Rightarrow> (let units = ceil_min l MAX_COMPUTE_UNIT_LIMIT
                        in if \<not> js_positive units then Inl (RangeError ''computeUnitLimit must be positive'')
                           else Inr [setComputeUnitLimit web units])) (\<lambda>out.
     Inr (out @ (case price of
                   Some p \<Rightarrow> if js_positive p then [setComputeUnitPrice web (js_floor p)] else []
                 | None \<Rightarrow> [])))"

text \<open>The loop counts groups of seven bits while the rest is positive.\<close>

function shortvecLoop :: "int \<Rightarrow> int \<Rightarrow> int" where
  "shortvecLoop len rem = (if rem > 0 then shortvecLoop (len + 1) (rem div 2 ^ 7) else len)"
  by pat_completeness auto
termination by (relation "measure (\<lambda>(len, rem). nat rem)") auto

declare shortvecLoop.simps [simp del]

definition shortvecLength :: "int \<Rightarrow> int" where
  "shortvecLength n = shortvecLoop 1 (n div 2 ^ 7)"

definition legacyTransactionSize :: "web3_lib \<Rightarrow> tx_instruction list \<Rightarrow> pubkey \<Rightarrow> int" where
  "legacyTransactionSize web instructions feePayer =
     (let (n, len) = compileMessage web instructions feePayer in shortvecLength n + 64 * n + len)"

definition assertTransactionFits :: "web3_lib \<Rightarrow> tx_instruction list \<Rightarrow> pubkey \<Rightarrow> int result" where
  "assertTransactionFits web instructions feePayer =
     (let size = legacyTransactionSize web instructions feePayer
      in if size > PACKET_DATA_SIZE then Inl (GenericError ''TransactionTooLargeError'') else Inr size)"

section \<open>The length prefix\<close>

lemma shortvecLoop_groups:
  "0 \<le> rem \<Longrightarrow>
   \<exists>k. shortvecLoop len rem = len + int k \<and> rem < 128 ^ k \<and> (k = 0 \<or> 128 ^ (k - 1) \<le> rem)"
proof (induction len rem rule: shortvecLoop.induct)
  case (1 len rem)
  show ?case
  proof (cases "rem > 0")
    case True
    then have "0 \<le> rem div 2 ^ 7" by simp
    with "1.IH" True obtain k where k: "shortvecLoop (len + 1) (rem div 128) = len + 1 + int k"
      "rem div 128 < 128 ^ k" "k = 0 \<or> 128 ^ (k - 1) \<le> rem div 128" by auto
    have "128 ^ k \<le> rem"
    proof (cases k)
      case (Suc m)
      then have "128 ^ m \<le> rem div 128" using k(3) by simp
      then have "128 * 128 ^ m \<le> rem" by linarith
      then show ?thesis using Suc by simp
    qed (use True in simp)
    moreover have "rem < 128 ^ Suc k" using k(2) by simp
    moreover have "shortvecLoop len rem = len + int (Suc k)"
      using True k(1) by (subst shortvecLoop.simps) simp
    ultimately show ?thesis by (intro exI [of _ "Suc k"]) simp
  qed (use "1.prems" in \<open>auto simp: shortvecLoop.simps intro: exI [of _ 0]\<close>)
qed

section \<open>Properties\<close>

text \<open>
  The size check of a transaction is exact. For a message with \<open>n\<close> signatures the length prefix is
  the least number of 7-bit groups that holds \<open>n\<close>, and \<open>assertTransactionFits\<close> returns exactly for sizes up
  to the packet size, the size being prefix, 64 bytes per signature and the message.
\<close>

theorem transaction_size_check:
  assumes "compileMessage web ixs payer = (n, len)" "0 \<le> n"
  shows "\<exists>g. n < 128 ^ g \<and> 0 < g \<and> (g = 1 \<or> 128 ^ (g - 1) \<le> n) \<and>
    assertTransactionFits web ixs payer =
      (if int g + 64 * n + len \<le> 1232 then Inr (int g + 64 * n + len)
       else Inl (GenericError ''TransactionTooLargeError''))"
proof -
  from assms(2) have "0 \<le> n div 128" by simp
  then obtain k where k: "shortvecLoop 1 (n div 128) = 1 + int k" "n div 128 < 128 ^ k"
    "k = 0 \<or> 128 ^ (k - 1) \<le> n div 128" using shortvecLoop_groups [of "n div 128" 1] by blast
  have "k = 0 \<or> 128 ^ k \<le> n"
  proof (cases k)
    case (Suc m)
    then have "128 ^ m \<le> n div 128" using k(3) by simp
    then have "128 * 128 ^ m \<le> n" by linarith
    then show ?thesis using Suc by simp
  qed simp
  moreover have "n < 128 ^ Suc k" using k(2) by simp
  ultimately show ?thesis
    using k(1) assms(1)
    by (intro exI [of _ "Suc k"])
      (auto simp: assertTransactionFits_def legacyTransactionSize_def shortvecLength_def Let_def)
qed

lemma transaction_size_check_witness:
  "\<exists>g. (3 :: int) < 128 ^ g \<and> 0 < g \<and> (g = 1 \<or> (128 :: int) ^ (g - 1) \<le> 3) \<and>
    assertTransactionFits \<lparr>setComputeUnitLimit = (\<lambda>_. stockfloorIx [] []), setComputeUnitPrice = (\<lambda>_. stockfloorIx [] []),
        compileMessage = (\<lambda>_ _. (3, 900))\<rparr> [] [] =
      (if int g + 64 * 3 + 900 \<le> 1232 then Inr (int g + 64 * 3 + 900)
       else Inl (GenericError ''TransactionTooLargeError''))"
  by (rule transaction_size_check) simp_all

end
