(* ===== verification/ChainReader.thy ===== *)
theory ChainReader
  imports Token MeteoraAccounts "HOL-Library.AList"
begin

text \<open>
  \<^verbatim>\<open>packages/sdk/src/chain.ts\<close> and the readers of \<^verbatim>\<open>token.ts\<close>: what the SDK asks of a Solana RPC node. The
  node is a parameter, a record of functions that answer or fail; one record value is one snapshot of the
  chain. Beside it the error scan of program logs and the helpers for code that catches errors.
\<close>

record accounts_filter =
  fl_dataSize :: "int option"
  fl_memcmp :: "(int \<times> bytes) list"

type_synonym keyed_account = "pubkey \<times> account_data"

record chain_reader =
  getAccountInfo :: "pubkey \<Rightarrow> account_data option result"
  getMultipleAccountsInfo :: "pubkey list \<Rightarrow> account_data option list result"
  getProgramAccounts :: "pubkey \<Rightarrow> accounts_filter \<Rightarrow> keyed_account list result"
  getTokenAccountsByOwner :: "pubkey \<Rightarrow> pubkey \<Rightarrow> keyed_account list result"

text \<open>Anchor's account decoders of the two Meteora programs.\<close>

record account_coders =
  co_poolConfig :: "bytes \<Rightarrow> dbc_pool_config result"
  co_virtualPool :: "bytes \<Rightarrow> dbc_virtual_pool result"
  co_dammPool :: "bytes \<Rightarrow> raw_damm_pool result"
  co_dammPosition :: "bytes \<Rightarrow> raw_damm_position result"

section \<open>Nullable answers\<close>

text \<open>An index read of an array of nullable values: out of range is \<open>undefined\<close>, which the code treats like null.\<close>

definition nth_opt :: "'a option list \<Rightarrow> nat \<Rightarrow> 'a option" where
  "nth_opt xs i = (if i < length xs then xs ! i else None)"

text \<open>\<open>try { return Some(f()) } catch { return null }\<close>\<close>

definition attempt :: "'a result \<Rightarrow> 'a option" where
  "attempt r = (case r of Inl _ \<Rightarrow> None | Inr x \<Rightarrow> Some x)"

lemma attempt_simps [simp]: "attempt (Inl e) = None" "attempt (Inr x) = Some x"
  by (simp_all add: attempt_def)

lemma attempt_eq_Some: "attempt r = Some x \<longleftrightarrow> r = Inr x"
  by (cases r) simp_all

lemma nth_opt_map [simp]: "nth_opt (map f xs) i = (if i < length xs then f (xs ! i) else None)"
  by (simp add: nth_opt_def)

section \<open>Token readers\<close>

definition getTokenBalance :: "chain_reader \<Rightarrow> pubkey \<Rightarrow> int result" where
  "getTokenBalance reader tokenAccount =
     bindE (getAccountInfo reader tokenAccount) (\<lambda>acc.
       case acc of None \<Rightarrow> Inr 0
       | Some a \<Rightarrow> bindE (decodeTokenAccount (ac_data a)) (\<lambda>t. Inr (ta_amount t)))"

definition getAtaBalance :: "chain_reader \<Rightarrow> solana_lib \<Rightarrow> pubkey \<Rightarrow> pubkey \<Rightarrow> pubkey \<Rightarrow> int result" where
  "getAtaBalance reader lib owner mint tokenProgram =
     getTokenBalance reader (associatedTokenAddress (sol_ata lib) owner mint tokenProgram)"

definition getMintInfo :: "chain_reader \<Rightarrow> pubkey \<Rightarrow> (mint_info \<times> pubkey) result" where
  "getMintInfo reader mint =
     bindE (getAccountInfo reader mint) (\<lambda>acc.
       case acc of None \<Rightarrow> Inl (GenericError ''mint does not exist'')
       | Some a \<Rightarrow> bindE (decodeMint (ac_data a)) (\<lambda>m. Inr (m, ac_owner a)))"

definition SYSVAR_CLOCK :: pubkey where
  "SYSVAR_CLOCK = PublicKey ''SysvarC1ock11111111111111111111111111111111''"

definition getClock :: "chain_reader \<Rightarrow> clock result" where
  "getClock reader =
     bindE (getAccountInfo reader SYSVAR_CLOCK) (\<lambda>acc.
       case acc of None \<Rightarrow> Inl (GenericError ''Clock sysvar not available'') | Some a \<Rightarrow> decodeClock (ac_data a))"

definition isToken2022 :: "solana_lib \<Rightarrow> account_data \<Rightarrow> bool" where
  "isToken2022 lib account \<longleftrightarrow> ac_owner account = TOKEN_2022_PROGRAM_ID lib"

end
