(* ===== verification/LaunchState.thy ===== *)
theory LaunchState
  imports ChainReader Instructions ReservedNames FloorMath
begin

text \<open>
  \<^verbatim>\<open>packages/sdk/src/launchState.ts\<close>: reading a launch from the chain. \<open>resolveLaunchByBaseMint\<close> finds
  the launch of a base mint among accounts anyone can create, \<open>fetchLaunchState\<close> collects every account the
  UI and the crank need and derives phase, progress, floor and surplus, \<open>findClaimerPositions\<close> discovers the
  DAMM v2 positions the claimer holds, \<open>previewRedeem\<close> quotes a redemption with the reason it is blocked.
  Parameters: the RPC node (\<open>chain_reader\<close>), the Solana libraries, the Anchor coders and the lossy UTF-8
  decoder. The display metrics in floating point and the simulated \<open>floor\<close> view are not modelled.
\<close>

section \<open>Data\<close>

datatype launch_phase = Presale | Graduating | Graduated | Redeemable

record claimer_position =
  ps_dammPool :: pubkey
  ps_position :: pubkey
  ps_positionNftMint :: pubkey
  ps_positionNftAccount :: pubkey
  ps_state :: damm_position
  ps_pendingA :: int
  ps_pendingB :: int

record curve_progress =
  pg_quoteReserve :: int
  pg_threshold :: int
  pg_fraction :: jsnum

record damm_info =
  di_pool :: pubkey
  di_config :: pubkey
  di_state :: "damm_pool option"

record launch_state =
  ls_address :: pubkey
  ls_launch :: launch_account
  ls_keys :: launch_keys
  ls_claimer :: pubkey
  ls_vaultAuthority :: pubkey
  ls_vault :: pubkey
  ls_claimerBaseAccount :: pubkey
  ls_dbcConfig :: dbc_pool_config
  ls_dbcPool :: "dbc_virtual_pool option"
  ls_baseMint :: "mint_info option"
  ls_quoteMint :: mint_info
  ls_vaultBalance :: int
  ls_claimerBaseBalance :: "int option"
  ls_baseSupply :: int
  ls_clock :: clock
  ls_dbcCurrentPoint :: int
  ls_quoteMultiplier :: jsnum
  ls_curveComplete :: bool
  ls_migrated :: bool
  ls_phase :: launch_phase
  ls_progress :: curve_progress
  ls_damm :: damm_info
  ls_positions :: "claimer_position list"
  ls_reservedName :: bool
  ls_partnerSurplus :: int
  ls_floor :: floor_info
  ls_sqrtPriceX64 :: "int option"

datatype launch_ref = RefLaunch pubkey | RefConfig pubkey | RefBaseMint pubkey

record base_mint_match =
  bm_address :: pubkey
  bm_launch :: launch_account
  bm_canonical :: bool

section \<open>The launch of a base mint\<close>

definition launch_filter :: "pubkey option \<Rightarrow> accounts_filter" where
  "launch_filter baseMint =
     \<lparr>fl_dataSize = Some LAUNCH_ACCOUNT_SIZE,
      fl_memcmp = (0, LAUNCH_DISCRIMINATOR) #
        (case baseMint of Some m \<Rightarrow> [(LAUNCH_OFFSETS Off_baseMint, m)] | None \<Rightarrow> [])\<rparr>"

definition decode_keyed :: "keyed_account \<Rightarrow> (pubkey \<times> launch_account) result" where
  "decode_keyed a = bindE (decodeLaunch (ac_data (snd a))) (\<lambda>l. Inr (fst a, l))"

definition pool_of_candidate :: "solana_lib \<Rightarrow> pubkey \<Rightarrow> pubkey \<times> launch_account \<Rightarrow> pubkey" where
  "pool_of_candidate lib baseMint c =
     dbcPoolPda (sol_derive lib) (la_config (snd c)) baseMint (la_quoteMint (snd c))"

text \<open>The candidate's pool account exists, decodes, and belongs to the candidate's config and the mint.\<close>

definition owns_pool :: "account_coders \<Rightarrow> pubkey \<Rightarrow> pubkey \<times> launch_account \<Rightarrow> account_data option \<Rightarrow> bool" where
  "owns_pool coders baseMint c acc =
     (case acc of None \<Rightarrow> False
      | Some a \<Rightarrow> (case decodeDbcVirtualPool (co_virtualPool coders) a of Inl _ \<Rightarrow> False
          | Inr pool \<Rightarrow> vp_config pool = la_config (snd c) \<and> vp_baseMint pool = baseMint))"

definition registered_candidate :: "solana_lib \<Rightarrow> pubkey \<Rightarrow> pubkey \<times> launch_account \<Rightarrow> bool" where
  "registered_candidate lib baseMint c \<longleftrightarrow>
     la_poolRegistered (snd c) \<and> la_pool (snd c) = pool_of_candidate lib baseMint c"

definition launch_candidates :: "pubkey \<Rightarrow> keyed_account list \<Rightarrow> (pubkey \<times> launch_account) list result" where
  "launch_candidates baseMint found =
     bindE (mapE decode_keyed
              (filter (\<lambda>a. ac_owner (snd a) = STOCKFLOOR_PROGRAM_ID \<and> isLaunchAccountData (ac_data (snd a))) found))
       (\<lambda>cs. Inr (filter (\<lambda>c. la_baseMint (snd c) = baseMint) cs))"

definition canonical_candidates ::
  "chain_reader \<Rightarrow> solana_lib \<Rightarrow> account_coders \<Rightarrow> pubkey \<Rightarrow> (pubkey \<times> launch_account) list \<Rightarrow>
     (pubkey \<times> launch_account) list result" where
  "canonical_candidates reader lib coders baseMint candidates =
     (let registered = filter (registered_candidate lib baseMint) candidates
      in if registered \<noteq> [] then Inr registered
         else bindE (getMultipleAccountsInfo reader (map (pool_of_candidate lib baseMint) candidates)) (\<lambda>accounts.
              Inr (map fst (filter (\<lambda>(c, i). owns_pool coders baseMint c (nth_opt accounts i))
                              (zip candidates [0..<length candidates])))))"

definition resolveLaunchByBaseMint ::
  "chain_reader \<Rightarrow> solana_lib \<Rightarrow> account_coders \<Rightarrow> pubkey \<Rightarrow> base_mint_match option result" where
  "resolveLaunchByBaseMint reader lib coders baseMint =
     bindE (getProgramAccounts reader STOCKFLOOR_PROGRAM_ID (launch_filter (Some baseMint))) (\<lambda>found.
     bindE (launch_candidates baseMint found) (\<lambda>candidates.
     if candidates = [] then Inr None
     else bindE (canonical_candidates reader lib coders baseMint candidates) (\<lambda>canonical.
       if length canonical > 1 then Inl (AmbiguousLaunchError (map fst canonical))
       else if length canonical = 1
       then Inr (Some \<lparr>bm_address = fst (hd canonical), bm_launch = snd (hd canonical), bm_canonical = True\<rparr>)
       else if length candidates > 1 then Inl (AmbiguousLaunchError (map fst candidates))
       else Inr (Some \<lparr>bm_address = fst (hd candidates), bm_launch = snd (hd candidates),
                       bm_canonical = False\<rparr>))))"

definition resolveLaunchAddress ::
  "chain_reader \<Rightarrow> solana_lib \<Rightarrow> account_coders \<Rightarrow> launch_ref \<Rightarrow> pubkey result" where
  "resolveLaunchAddress reader lib coders ref =
     (case ref of
        RefLaunch l \<Rightarrow> Inr l
      | RefConfig c \<Rightarrow> Inr (launchPda (sol_derive lib) c)
      | RefBaseMint m \<Rightarrow>
          bindE (resolveLaunchByBaseMint reader lib coders m) (\<lambda>found.
            case found of None \<Rightarrow> Inl (GenericError ''no StockFloor launch for base mint'')
            | Some x \<Rightarrow> Inr (bm_address x)))"

text \<open>The lookup rethrows an ambiguity and turns every other failure of the resolution into null.\<close>

definition getLaunch ::
  "chain_reader \<Rightarrow> solana_lib \<Rightarrow> account_coders \<Rightarrow> launch_ref \<Rightarrow> (pubkey \<times> launch_account) option result" where
  "getLaunch reader lib coders ref =
     (case resolveLaunchAddress reader lib coders ref of
        Inl (AmbiguousLaunchError ks) \<Rightarrow> Inl (AmbiguousLaunchError ks)
      | Inl _ \<Rightarrow> Inr None
      | Inr address \<Rightarrow>
          bindE (getAccountInfo reader address) (\<lambda>acc.
            case acc of None \<Rightarrow> Inr None
            | Some a \<Rightarrow>
                if ac_owner a \<noteq> STOCKFLOOR_PROGRAM_ID \<or> \<not> isLaunchAccountData (ac_data a) then Inr None
                else bindE (decodeLaunch (ac_data a)) (\<lambda>l. Inr (Some (address, l)))))"

text \<open>JavaScript's sort is stable; the comparator orders by creation time, newest first.\<close>

definition listLaunches :: "chain_reader \<Rightarrow> (pubkey \<times> launch_account) list result" where
  "listLaunches reader =
     bindE (getProgramAccounts reader STOCKFLOOR_PROGRAM_ID (launch_filter None)) (\<lambda>accounts.
     bindE (mapE decode_keyed (filter (\<lambda>a. isLaunchAccountData (ac_data (snd a))) accounts)) (\<lambda>ls.
       Inr (sort_key (\<lambda>x. - la_createdAt (snd x)) ls)))"

section \<open>Phase and progress\<close>

definition derivePhase :: "bool \<Rightarrow> bool \<Rightarrow> bool \<Rightarrow> launch_phase" where
  "derivePhase curveComplete migrated migrationFeeHarvested =
     (if \<not> curveComplete then Presale
      else if \<not> migrated then Graduating
      else if migrationFeeHarvested then Redeemable else Graduated)"

text \<open>The last division is between two integers below a million, exact up to the rounding of a double.\<close>

definition curveProgress :: "int \<Rightarrow> int \<Rightarrow> jsnum" where
  "curveProgress quoteReserve threshold =
     (if threshold \<le> 0 then Fin 0
      else if quoteReserve \<ge> threshold then Fin 1
      else Fin (of_int ((quoteReserve * 1000000) sdiv threshold) / 1000000))"

section \<open>Positions of the claimer\<close>

record nft_holding =
  nh_pubkey :: pubkey
  nh_info :: token_account

text \<open>A JavaScript \<open>Map\<close> is an association list: \<open>set\<close> keeps the place of a known key (\<open>AList.update\<close>).\<close>

definition collect_nft ::
  "solana_lib \<Rightarrow> pubkey \<Rightarrow> keyed_account \<Rightarrow> (pubkey \<times> nft_holding) list \<Rightarrow> (pubkey \<times> nft_holding) list" where
  "collect_nft lib claimer t byMint =
     (case decodeTokenAccount (ac_data (snd t)) of
        Inl _ \<Rightarrow> byMint
      | Inr info \<Rightarrow>
          if ta_amount info \<noteq> 1 \<or> ta_owner info \<noteq> claimer then byMint
          else if map_of byMint (ta_mint info) = None \<or>
                  fst t = dammV2PositionNftAccountPda (sol_derive lib) (ta_mint info)
          then AList.update (ta_mint info) \<lparr>nh_pubkey = fst t, nh_info = info\<rparr> byMint
          else byMint)"

definition claimer_nfts :: "solana_lib \<Rightarrow> pubkey \<Rightarrow> keyed_account list \<Rightarrow> nft_holding list" where
  "claimer_nfts lib claimer tokenAccounts = map snd (fold (collect_nft lib claimer) tokenAccounts [])"

definition decoded_position ::
  "solana_lib \<Rightarrow> account_coders \<Rightarrow> account_data option \<Rightarrow> nft_holding \<Rightarrow> (nft_holding \<times> pubkey \<times> damm_position) option" where
  "decoded_position lib coders acc nft =
     (case acc of None \<Rightarrow> None
      | Some a \<Rightarrow> (case decodeDammV2Position (co_dammPosition coders) a of
            Inl _ \<Rightarrow> None
          | Inr state \<Rightarrow> if po_nftMint state = ta_mint (nh_info nft)
                         then Some (nft, dammV2PositionPda (sol_derive lib) (ta_mint (nh_info nft)), state)
                         else None))"

definition launch_pool :: "account_coders \<Rightarrow> pubkey \<Rightarrow> pubkey \<Rightarrow> account_data option \<Rightarrow> damm_pool option" where
  "launch_pool coders baseMint quoteMint acc =
     (case acc of None \<Rightarrow> None
      | Some a \<Rightarrow> (case decodeDammV2Pool (co_dammPool coders) a of
            Inl _ \<Rightarrow> None
          | Inr p \<Rightarrow> if dp_tokenAMint p = baseMint \<and> dp_tokenBMint p = quoteMint then Some p else None))"

definition position_of ::
  "(pubkey \<Rightarrow> damm_pool option) \<Rightarrow> nft_holding \<times> pubkey \<times> damm_position \<Rightarrow> claimer_position option" where
  "position_of pools d =
     (case d of (nft, position, state) \<Rightarrow>
        (case pools (po_pool state) of None \<Rightarrow> None
         | Some pool \<Rightarrow> (let (a, b) = pendingPositionFees pool state
             in Some \<lparr>ps_dammPool = po_pool state, ps_position = position,
                      ps_positionNftMint = ta_mint (nh_info nft), ps_positionNftAccount = nh_pubkey nft,
                      ps_state = state, ps_pendingA = a, ps_pendingB = b\<rparr>)))"

definition findClaimerPositions ::
  "chain_reader \<Rightarrow> solana_lib \<Rightarrow> account_coders \<Rightarrow> pubkey \<Rightarrow> pubkey \<Rightarrow> pubkey \<Rightarrow> claimer_position list result" where
  "findClaimerPositions reader lib coders claimer baseMint quoteMint =
     bindE (getTokenAccountsByOwner reader claimer (TOKEN_2022_PROGRAM_ID lib)) (\<lambda>tokenAccounts.
     let nfts = claimer_nfts lib claimer tokenAccounts in
     if nfts = [] then Inr []
     else bindE (getMultipleAccountsInfo reader
                   (map (\<lambda>n. dammV2PositionPda (sol_derive lib) (ta_mint (nh_info n))) nfts)) (\<lambda>positionAccs.
       let decoded = List.map_filter (\<lambda>(n, i). decoded_position lib coders (nth_opt positionAccs i) n)
                       (zip nfts [0..<length nfts]);
           poolKeys = map snd (fold (\<lambda>(_, _, s). AList.update (po_pool s) (po_pool s)) decoded [])
       in bindE (getMultipleAccountsInfo reader poolKeys) (\<lambda>poolAccs.
          let pools = fold (\<lambda>(k, i) m. case launch_pool coders baseMint quoteMint (nth_opt poolAccs i) of
                              None \<Rightarrow> m | Some p \<Rightarrow> m(k \<mapsto> p))
                        (zip poolKeys [0..<length poolKeys]) (\<lambda>_. None)
          in Inr (List.map_filter (position_of pools) decoded))))"

section \<open>Reserved metadata\<close>

text \<open>A length-prefixed string field: its bytes and the offset behind it, or null when malformed.\<close>

definition metadata_field :: "bytes \<Rightarrow> int \<Rightarrow> int \<Rightarrow> (bytes \<times> int) option" where
  "metadata_field data start limit =
     (if start + 4 > int (length data) then None
      else case readU32 data start of
        Inl _ \<Rightarrow> None
      | Inr len \<Rightarrow> if len > limit \<or> start + 4 + len > int (length data) then None
                   else Some (subarray data (start + 4) (start + 4 + len), start + 4 + len))"

definition isReservedMetadata :: "(bytes \<Rightarrow> int list) \<Rightarrow> bytes \<Rightarrow> pubkey \<Rightarrow> bool" where
  "isReservedMetadata utf8 data mint =
     (if length data < 65 \<or> data ! 0 \<noteq> 4 \<or> subarray data 33 65 \<noteq> mint then False
      else case metadata_field data 65 32 of
        None \<Rightarrow> False
      | Some (name, behind) \<Rightarrow>
          (case metadata_field data behind 10 of
             None \<Rightarrow> False
           | Some (symbol, _) \<Rightarrow> isReservedTokenName (utf8 name) (utf8 symbol)))"

section \<open>The state of a launch\<close>

text \<open>The accounts read in one request; the metadata account is asked for only before registration.\<close>

definition state_accounts :: "solana_lib \<Rightarrow> launch_account \<Rightarrow> pubkey \<Rightarrow> pubkey list" where
  "state_accounts lib launch pool =
     [la_config launch, pool, la_baseMint launch, la_quoteMint launch, la_vault launch,
      claimerBaseAccount lib (la_config launch) (la_baseMint launch), SYSVAR_CLOCK] @
     (if la_poolRegistered launch then [] else [metaplexMetadataPda (sol_derive lib) (la_baseMint launch)])"

definition optionally :: "('a \<Rightarrow> 'b result) \<Rightarrow> 'a option \<Rightarrow> 'b option result" where
  "optionally f acc = (case acc of None \<Rightarrow> Inr None | Some a \<Rightarrow> bindE (f a) (\<lambda>x. Inr (Some x)))"

record decoded_accounts =
  da_dbcConfig :: dbc_pool_config
  da_dbcPool :: "dbc_virtual_pool option"
  da_baseMint :: "mint_info option"
  da_quoteMint :: mint_info
  da_vaultBalance :: int
  da_claimerBaseBalance :: "int option"
  da_clock :: clock
  da_metadata :: "bytes option"

definition decode_amount :: "account_data \<Rightarrow> int result" where
  "decode_amount a = bindE (decodeTokenAccount (ac_data a)) (\<lambda>t. Inr (ta_amount t))"

definition decode_accounts :: "account_coders \<Rightarrow> account_data option list \<Rightarrow> decoded_accounts result" where
  "decode_accounts coders accs =
     (case (nth_opt accs 0, nth_opt accs 3, nth_opt accs 6) of
        (None, _) \<Rightarrow> Inl (GenericError ''DBC config does not exist'')
      | (_, None, _) \<Rightarrow> Inl (GenericError ''quote mint does not exist'')
      | (_, _, None) \<Rightarrow> Inl (GenericError ''Clock sysvar not available'')
      | (Some configAcc, Some quoteMintAcc, Some clockAcc) \<Rightarrow>
          bindE (decodeDbcPoolConfig (co_poolConfig coders) configAcc) (\<lambda>dbcConfig.
          bindE (optionally (decodeDbcVirtualPool (co_virtualPool coders)) (nth_opt accs 1)) (\<lambda>dbcPool.
          bindE (optionally (\<lambda>a. decodeMint (ac_data a)) (nth_opt accs 2)) (\<lambda>baseMint.
          bindE (decodeMint (ac_data quoteMintAcc)) (\<lambda>quoteMint.
          bindE (optionally decode_amount (nth_opt accs 4)) (\<lambda>vaultBalance.
          bindE (optionally decode_amount (nth_opt accs 5)) (\<lambda>claimerBaseBalance.
          bindE (decodeClock (ac_data clockAcc)) (\<lambda>ck.
            Inr \<lparr>da_dbcConfig = dbcConfig, da_dbcPool = dbcPool, da_baseMint = baseMint, da_quoteMint = quoteMint,
                 da_vaultBalance = (case vaultBalance of Some b \<Rightarrow> b | None \<Rightarrow> 0),
                 da_claimerBaseBalance = claimerBaseBalance, da_clock = ck,
                 da_metadata = map_option ac_data (nth_opt accs 7)\<rparr>))))))))"

definition migrated_state ::
  "chain_reader \<Rightarrow> solana_lib \<Rightarrow> account_coders \<Rightarrow> launch_account \<Rightarrow> pubkey \<Rightarrow> pubkey \<Rightarrow> bool \<Rightarrow>
     (damm_pool option \<times> claimer_position list) result" where
  "migrated_state reader lib coders launch claimer dammPoolAddress includePositions =
     bindE (getAccountInfo reader dammPoolAddress) (\<lambda>dammAcc.
     bindE (optionally (decodeDammV2Pool (co_dammPool coders)) dammAcc) (\<lambda>dammState.
     bindE (if includePositions
            then findClaimerPositions reader lib coders claimer (la_baseMint launch) (la_quoteMint launch)
            else Inr []) (\<lambda>positions. Inr (dammState, positions))))"

definition build_state ::
  "solana_lib \<Rightarrow> (bytes \<Rightarrow> int list) \<Rightarrow> pubkey \<Rightarrow> launch_account \<Rightarrow> pubkey \<Rightarrow> decoded_accounts \<Rightarrow> pubkey \<Rightarrow>
     damm_pool option \<Rightarrow> claimer_position list \<Rightarrow> launch_state" where
  "build_state lib utf8 address launch pool d dammConfig dammState positions =
     (let config = la_config launch;
          threshold = pc_migrationQuoteThreshold (da_dbcConfig d);
          quoteReserve = (case da_dbcPool d of Some p \<Rightarrow> vp_quoteReserve p | None \<Rightarrow> 0);
          curveComplete = (da_dbcPool d \<noteq> None \<and> quoteReserve \<ge> threshold);
          migrated = (la_migrated launch \<or> (case da_dbcPool d of Some p \<Rightarrow> vp_isMigrated p = 1 | None \<Rightarrow> False));
          baseSupply = (case da_baseMint d of Some m \<Rightarrow> mi_supply m | None \<Rightarrow> 0)
      in \<lparr>ls_address = address,
          ls_launch = launch,
          ls_keys = \<lparr>lk_config = config, lk_pool = pool, lk_baseMint = la_baseMint launch,
            lk_quoteMint = la_quoteMint launch, lk_quoteTokenProgram = la_quoteTokenProgram launch,
            lk_creator = Some (la_creator launch)\<rparr>,
          ls_claimer = authorityPda (sol_derive lib) config,
          ls_vaultAuthority = vaultAuthorityPda (sol_derive lib) config,
          ls_vault = la_vault launch,
          ls_claimerBaseAccount = claimerBaseAccount lib config (la_baseMint launch),
          ls_dbcConfig = da_dbcConfig d,
          ls_dbcPool = da_dbcPool d,
          ls_baseMint = da_baseMint d,
          ls_quoteMint = da_quoteMint d,
          ls_vaultBalance = da_vaultBalance d,
          ls_claimerBaseBalance = da_claimerBaseBalance d,
          ls_baseSupply = baseSupply,
          ls_clock = da_clock d,
          ls_dbcCurrentPoint =
            (if pc_activationType (da_dbcConfig d) = 0 then ck_slot (da_clock d) else ck_unixTimestamp (da_clock d)),
          ls_quoteMultiplier = effectiveMintMultiplier (da_quoteMint d) (ck_unixTimestamp (da_clock d)),
          ls_curveComplete = curveComplete,
          ls_migrated = migrated,
          ls_phase = derivePhase curveComplete migrated (la_migrationFeeHarvested launch),
          ls_progress = \<lparr>pg_quoteReserve = quoteReserve, pg_threshold = threshold,
            pg_fraction = curveProgress quoteReserve threshold\<rparr>,
          ls_damm = \<lparr>di_pool = dammV2PoolPda (sol_derive lib) dammConfig (la_baseMint launch) (la_quoteMint launch),
            di_config = dammConfig, di_state = dammState\<rparr>,
          ls_positions = positions,
          ls_reservedName = (\<not> la_poolRegistered launch \<and>
            (case da_metadata d of None \<Rightarrow> False
             | Some m \<Rightarrow> isReservedMetadata utf8 m (la_baseMint launch))),
          ls_partnerSurplus =
            (case da_dbcPool d of
               Some p \<Rightarrow> if la_poolRegistered launch \<and> vp_isPartnerWithdrawSurplus p = 0
                         then dbcPartnerSurplus (da_dbcConfig d) p else 0
             | None \<Rightarrow> 0),
          ls_floor = \<lparr>fi_vaultRaw = da_vaultBalance d,
            fi_supply = (if la_poolRegistered launch then baseSupply else 0),
            fi_exitFeeBps = la_exitFeeBps launch,
            fi_floorQ64 = (if la_poolRegistered launch then floorQ64 (da_vaultBalance d) baseSupply else 0)\<rparr>,
          ls_sqrtPriceX64 =
            (if migrated \<and> dammState \<noteq> None then map_option dp_sqrtPrice dammState
             else map_option vp_sqrtPrice (da_dbcPool d))\<rparr>)"

definition fetchLaunchState ::
  "chain_reader \<Rightarrow> solana_lib \<Rightarrow> account_coders \<Rightarrow> (bytes \<Rightarrow> int list) \<Rightarrow> launch_ref \<Rightarrow> bool \<Rightarrow>
     launch_state option result" where
  "fetchLaunchState reader lib coders utf8 ref includePositions =
     bindE (getLaunch reader lib coders ref) (\<lambda>found.
     case found of None \<Rightarrow> Inr None
     | Some (address, launch) \<Rightarrow>
         (let config = la_config launch;
              pool = (if la_poolRegistered launch then la_pool launch
                      else dbcPoolPda (sol_derive lib) config (la_baseMint launch) (la_quoteMint launch));
              claimer = authorityPda (sol_derive lib) config
          in bindE (getMultipleAccountsInfo reader (state_accounts lib launch pool)) (\<lambda>accs.
             bindE (decode_accounts coders accs) (\<lambda>d.
             case DAMM_V2_MIGRATION_CONFIGS (pc_migrationFeeOption (da_dbcConfig d)) of
               None \<Rightarrow> Inl (GenericError ''unsupported DBC migration fee option'')
             | Some dammConfig \<Rightarrow>
                 (let migrated = (la_migrated launch \<or>
                        (case da_dbcPool d of Some p \<Rightarrow> vp_isMigrated p = 1 | None \<Rightarrow> False))
                  in bindE (if migrated
                            then migrated_state reader lib coders launch claimer
                                   (dammV2PoolPda (sol_derive lib) dammConfig (la_baseMint launch) (la_quoteMint launch))
                                   includePositions
                            else Inr (None, [])) (\<lambda>(dammState, positions).
                     Inr (Some (build_state lib utf8 address launch pool d dammConfig dammState positions))))))))"

section \<open>Redemption preview\<close>

datatype blocked_reason =
    RedeemNotOpen launch_phase | AmountNotPositive | AmountExceedsSupply | QuotePaused | NothingToRedeem

record redeem_preview =
  rp_gross :: int
  rp_fee :: int
  rp_net :: int
  rp_blockedReason :: "blocked_reason option"

definition previewRedeem :: "launch_state \<Rightarrow> int \<Rightarrow> redeem_preview result" where
  "previewRedeem state amount =
     (let b1 = (if ls_phase state \<noteq> Redeemable then Some (RedeemNotOpen (ls_phase state)) else None);
          b2 = (if amount \<le> 0 then Some AmountNotPositive else b1);
          b3 = (if amount > ls_baseSupply state then Some AmountExceedsSupply else b2);
          blocked = (if mi_paused (ls_quoteMint state) then Some QuotePaused else b3)
      in if ls_baseSupply state = 0 \<or> amount \<le> 0 \<or> amount > ls_baseSupply state
         then Inr \<lparr>rp_gross = 0, rp_fee = 0, rp_net = 0, rp_blockedReason = blocked\<rparr>
         else bindE (redeemQuote (ls_vaultBalance state) (ls_baseSupply state) amount
                       (JsInt (la_exitFeeBps (ls_launch state)))) (\<lambda>q.
              Inr \<lparr>rp_gross = rq_gross q, rp_fee = rq_fee q, rp_net = rq_net q,
                   rp_blockedReason = (if blocked = None \<and> rq_net q = 0 then Some NothingToRedeem else blocked)\<rparr>))"

end
