(* ===== verification/LaunchResolution.thy ===== *)
theory LaunchResolution
  imports LaunchState "HOL-Library.Multiset"
begin

text \<open>
  Reading launches from a chain anyone can write to: the resolution of a base mint does not depend on the
  order in which the node returns accounts and cannot be taken over by extra Launch accounts, the list of
  launches is a stable sort of the valid accounts, and every position reported for the claimer is one
  the chain shows to be the claimer's.
\<close>

section \<open>Candidates\<close>

definition keyed_launch :: "keyed_account \<Rightarrow> pubkey \<times> launch_account" where
  "keyed_launch a = projr (decode_keyed a)"

definition launch_account_ok :: "keyed_account \<Rightarrow> bool" where
  "launch_account_ok a \<longleftrightarrow> ac_owner (snd a) = STOCKFLOOR_PROGRAM_ID \<and> isLaunchAccountData (ac_data (snd a))"

definition candidates_in :: "pubkey \<Rightarrow> keyed_account list \<Rightarrow> (pubkey \<times> launch_account) list" where
  "candidates_in m found = filter (\<lambda>c. la_baseMint (snd c) = m) (map keyed_launch (filter launch_account_ok found))"

lemma decode_keyed_ok:
  assumes "isLaunchAccountData (ac_data (snd a))"
  shows "decode_keyed a = Inr (keyed_launch a)"
proof -
  from assms obtain l where "decodeLaunch (ac_data (snd a)) = Inr l"
    by (metis decodeLaunch_returns_iff returns_def)
  then show ?thesis by (simp add: decode_keyed_def keyed_launch_def)
qed

lemma mapE_ok: "(\<And>x. x \<in> set xs \<Longrightarrow> f x = Inr (g x)) \<Longrightarrow> mapE f xs = Inr (map g xs)"
  by (induction xs) auto

lemma launch_candidates_eq: "launch_candidates m found = Inr (candidates_in m found)"
proof -
  have "mapE decode_keyed (filter launch_account_ok found) = Inr (map keyed_launch (filter launch_account_ok found))"
    by (intro mapE_ok decode_keyed_ok) (simp add: launch_account_ok_def)
  then show ?thesis
    by (simp add: launch_candidates_def candidates_in_def launch_account_ok_def cong: filter_cong)
qed

text \<open>What the code reads by index is what it would read by key on a node that answers from one state.\<close>

definition answers_from :: "chain_reader \<Rightarrow> (pubkey \<Rightarrow> account_data option) \<Rightarrow> bool" where
  "answers_from reader acct \<longleftrightarrow> (\<forall>ks. getMultipleAccountsInfo reader ks = Inr (map acct ks))"

lemma filter_indexed:
  "map fst (filter (\<lambda>(c, i). P c (nth_opt (map g cs) i)) (zip cs [0..<length cs])) = filter (\<lambda>c. P c (g c)) cs"
proof -
  have "filter (\<lambda>(c, i). P c (nth_opt (map g cs) i)) (zip cs [0..<length cs]) =
      filter ((\<lambda>c. P c (g c)) \<circ> fst) (zip cs [0..<length cs])"
    by (rule filter_cong [OF refl]) (auto simp: in_set_zip)
  then show ?thesis by (simp flip: filter_map)
qed

definition owners_in ::
  "solana_lib \<Rightarrow> account_coders \<Rightarrow> pubkey \<Rightarrow> (pubkey \<Rightarrow> account_data option) \<Rightarrow>
     (pubkey \<times> launch_account) list \<Rightarrow> (pubkey \<times> launch_account) list" where
  "owners_in lib coders m acct cs =
     (let registered = filter (registered_candidate lib m) cs
      in if registered \<noteq> [] then registered
         else filter (\<lambda>c. owns_pool coders m c (acct (pool_of_candidate lib m c))) cs)"

lemma canonical_candidates_eq:
  assumes "answers_from reader acct"
  shows "canonical_candidates reader lib coders m cs = Inr (owners_in lib coders m acct cs)"
  using assms filter_indexed [of "owns_pool coders m" "\<lambda>c. acct (pool_of_candidate lib m c)" cs]
  by (simp add: canonical_candidates_def owners_in_def answers_from_def Let_def comp_def)

section \<open>Order does not matter\<close>

definition same_outcome :: "'a result \<Rightarrow> 'a result \<Rightarrow> bool" where
  "same_outcome r s \<longleftrightarrow> r = s \<or>
     (\<exists>ks ls. r = Inl (AmbiguousLaunchError ks) \<and> s = Inl (AmbiguousLaunchError ls) \<and> mset ks = mset ls)"

lemma mset_candidates_in: "mset found = mset found' \<Longrightarrow> mset (candidates_in m found) = mset (candidates_in m found')"
  by (simp add: candidates_in_def mset_filter)

lemma filter_empty_mset: "mset xs = mset ys \<Longrightarrow> filter P xs = [] \<longleftrightarrow> filter P ys = []"
  using mset_eq_setD [of xs ys] by (simp add: filter_empty_conv)

lemma mset_owners_in:
  assumes "mset cs = mset cs'"
  shows "mset (owners_in lib coders m acct cs) = mset (owners_in lib coders m acct cs')"
  using assms filter_empty_mset [OF assms, of "registered_candidate lib m"]
  by (simp add: owners_in_def Let_def mset_filter)

lemma mset_singleton_hd:
  assumes "mset xs = mset ys" "length xs = 1"
  shows "hd xs = hd ys"
proof -
  from assms have "length ys = 1" by (metis size_mset)
  with assms show ?thesis by (cases xs; cases ys) auto
qed

text \<open>The resolution once candidates and owners are known.\<close>

definition pick_match ::
  "(pubkey \<times> launch_account) list \<Rightarrow> (pubkey \<times> launch_account) list \<Rightarrow> base_mint_match option result" where
  "pick_match candidates canonical =
     (if candidates = [] then Inr None
      else if length canonical > 1 then Inl (AmbiguousLaunchError (map fst canonical))
      else if length canonical = 1
      then Inr (Some \<lparr>bm_address = fst (hd canonical), bm_launch = snd (hd canonical), bm_canonical = True\<rparr>)
      else if length candidates > 1 then Inl (AmbiguousLaunchError (map fst candidates))
      else Inr (Some \<lparr>bm_address = fst (hd candidates), bm_launch = snd (hd candidates), bm_canonical = False\<rparr>))"

lemma resolve_eq:
  assumes "getProgramAccounts reader STOCKFLOOR_PROGRAM_ID (launch_filter (Some m)) = Inr found"
    and "answers_from reader acct"
  shows "resolveLaunchByBaseMint reader lib coders m =
    pick_match (candidates_in m found) (owners_in lib coders m acct (candidates_in m found))"
  using assms
  by (simp add: resolveLaunchByBaseMint_def launch_candidates_eq canonical_candidates_eq pick_match_def)

lemma pick_match_mset:
  assumes "mset cs = mset cs'" "mset os = mset os'"
  shows "same_outcome (pick_match cs os) (pick_match cs' os')"
proof -
  have len: "length cs = length cs'" "length os = length os'" using assms by (metis size_mset)+
  have "mset (map fst cs) = mset (map fst cs')" "mset (map fst os) = mset (map fst os')" using assms by simp_all
  moreover have "cs = [] \<longleftrightarrow> cs' = []" using len by auto
  moreover have "length os = 1 \<Longrightarrow> hd os = hd os'" using mset_singleton_hd [OF assms(2)] .
  moreover have "length cs = 1 \<Longrightarrow> hd cs = hd cs'" using mset_singleton_hd [OF assms(1)] .
  moreover have "cs \<noteq> [] \<Longrightarrow> \<not> 1 < length cs \<Longrightarrow> length cs = 1" by (cases cs) auto
  ultimately show ?thesis
    by (auto simp: pick_match_def same_outcome_def len)
qed

lemma pick_match_Some:
  assumes "pick_match cs os = Inr (Some b)" "set os \<subseteq> set cs"
  shows "(bm_address b, bm_launch b) \<in> set cs"
    and "os \<noteq> [] \<Longrightarrow> os = [(bm_address b, bm_launch b)] \<and> bm_canonical b"
    and "os = [] \<Longrightarrow> cs = [(bm_address b, bm_launch b)] \<and> \<not> bm_canonical b"
proof -
  show os: "os \<noteq> [] \<Longrightarrow> os = [(bm_address b, bm_launch b)] \<and> bm_canonical b"
    using assms(1) by (cases os; cases "tl os") (auto simp: pick_match_def split: if_splits)
  show cs: "os = [] \<Longrightarrow> cs = [(bm_address b, bm_launch b)] \<and> \<not> bm_canonical b"
    using assms(1) by (cases cs; cases "tl cs") (auto simp: pick_match_def split: if_splits)
  show "(bm_address b, bm_launch b) \<in> set cs"
    using os cs assms(2) by (cases "os = []") auto
qed

lemma owners_in_subset: "set (owners_in lib coders m acct cs) \<subseteq> set cs"
  by (auto simp: owners_in_def Let_def)

lemma owners_in_registered:
  assumes "c \<in> set cs" "registered_candidate lib m c"
  shows "c \<in> set (owners_in lib coders m acct cs)"
  using assms by (auto simp: owners_in_def Let_def filter_empty_conv)

section \<open>Properties\<close>

text \<open>
  C28: anyone may add Launch accounts that commit a mint, and the node returns accounts in any order; the
  resolution of a base mint depends on neither. For two answers of the node with the same accounts in
  different orders it gives the same result (or the same ambiguity), what it returns is a launch account
  of the program that commits the mint, and a launch registered with the mint's canonical pool is never
  replaced by another one.
\<close>

theorem base_mint_resolution_safe:
  assumes "getProgramAccounts R STOCKFLOOR_PROGRAM_ID (launch_filter (Some m)) = Inr found" "answers_from R acct"
    and "getProgramAccounts R' STOCKFLOOR_PROGRAM_ID (launch_filter (Some m)) = Inr found'" "answers_from R' acct"
    and "mset found = mset found'"
  shows "same_outcome (resolveLaunchByBaseMint R lib coders m) (resolveLaunchByBaseMint R' lib coders m) \<and>
    (\<forall>b. resolveLaunchByBaseMint R lib coders m = Inr (Some b) \<longrightarrow>
       (bm_address b, bm_launch b) \<in> set (candidates_in m found) \<and>
       (\<forall>c \<in> set (candidates_in m found).
          registered_candidate lib m c \<longrightarrow> c = (bm_address b, bm_launch b) \<and> bm_canonical b))"
proof (intro conjI allI impI ballI)
  note eq = resolve_eq [OF assms(1,2)] and eq' = resolve_eq [OF assms(3,4)]
  note cs = mset_candidates_in [OF assms(5), of m]
  show "same_outcome (resolveLaunchByBaseMint R lib coders m) (resolveLaunchByBaseMint R' lib coders m)"
    unfolding eq eq' by (intro pick_match_mset mset_owners_in cs)
  fix b assume "resolveLaunchByBaseMint R lib coders m = Inr (Some b)"
  then have b: "pick_match (candidates_in m found) (owners_in lib coders m acct (candidates_in m found)) = Inr (Some b)"
    by (simp add: eq)
  note picked = pick_match_Some [OF b owners_in_subset]
  show "(bm_address b, bm_launch b) \<in> set (candidates_in m found)" by (rule picked(1))
  fix c assume "c \<in> set (candidates_in m found)" "registered_candidate lib m c"
  then have "c \<in> set (owners_in lib coders m acct (candidates_in m found))" by (rule owners_in_registered)
  with picked(2) show "c = (bm_address b, bm_launch b)" "bm_canonical b" by fastforce+
qed

text \<open>Two launches of one mint, one of them registered, and a node that answers from one state.\<close>

definition committed :: "bytes \<Rightarrow> launch_account" where
  "committed pool = example_launch\<lparr>la_pool := pool, la_poolRegistered := (pool \<noteq> PublicKey_default)\<rparr>"

definition keyed_account_of :: "pubkey \<Rightarrow> launch_account \<Rightarrow> keyed_account" where
  "keyed_account_of k l =
     (k, \<lparr>ac_data = borsh_launch l (replicate 46 0), ac_owner = STOCKFLOOR_PROGRAM_ID, ac_lamports = 1,
          ac_executable = False\<rparr>)"

definition state_reader :: "keyed_account list \<Rightarrow> (pubkey \<Rightarrow> account_data option) \<Rightarrow> chain_reader" where
  "state_reader found acct =
     \<lparr>getAccountInfo = (\<lambda>k. Inr (acct k)), getMultipleAccountsInfo = (\<lambda>ks. Inr (map acct ks)),
      getProgramAccounts = (\<lambda>_ _. Inr found), getTokenAccountsByOwner = (\<lambda>_ _. Inr [])\<rparr>"

definition coders_none :: account_coders where
  "coders_none =
     \<lparr>co_poolConfig = (\<lambda>_. Inl (GenericError ''no layout'')), co_virtualPool = (\<lambda>_. Inl (GenericError ''no layout'')),
      co_dammPool = (\<lambda>_. Inl (GenericError ''no layout'')), co_dammPosition = (\<lambda>_. Inl (GenericError ''no layout''))\<rparr>"

definition two_launches :: "keyed_account list" where
  "two_launches =
     [keyed_account_of (replicate 32 7) (committed PublicKey_default),
      keyed_account_of (replicate 32 8) (committed (replicate 32 9))]"

definition one_pool_lib :: solana_lib where
  "one_pool_lib = plain_lib\<lparr>sol_derive := (\<lambda>_ _. replicate 32 9)\<rparr>"

lemma base_mint_resolution_safe_witness:
  "same_outcome (resolveLaunchByBaseMint (state_reader two_launches (map_of two_launches)) one_pool_lib coders_none (replicate 32 4))
     (resolveLaunchByBaseMint (state_reader (rev two_launches) (map_of two_launches)) one_pool_lib coders_none (replicate 32 4))"
  by (rule base_mint_resolution_safe [where found = two_launches and found' = "rev two_launches"
        and acct = "map_of two_launches", THEN conjunct1])
    (simp_all add: state_reader_def answers_from_def)

section \<open>The list of launches\<close>

lemma listLaunches_sorted:
  assumes "getProgramAccounts reader STOCKFLOOR_PROGRAM_ID (launch_filter None) = Inr accounts"
  shows "\<exists>ls. listLaunches reader = Inr ls \<and>
    sorted_wrt (\<lambda>x y. la_createdAt (snd y) \<le> la_createdAt (snd x)) ls \<and>
    mset ls = mset (map keyed_launch (filter (\<lambda>a. isLaunchAccountData (ac_data (snd a))) accounts)) \<and>
    (\<forall>t. filter (\<lambda>x. la_createdAt (snd x) = t) ls =
      filter (\<lambda>x. la_createdAt (snd x) = t)
        (map keyed_launch (filter (\<lambda>a. isLaunchAccountData (ac_data (snd a))) accounts)))"
proof -
  let ?xs = "map keyed_launch (filter (\<lambda>a. isLaunchAccountData (ac_data (snd a))) accounts)"
  let ?key = "\<lambda>x :: pubkey \<times> launch_account. - la_createdAt (snd x)"
  have "mapE decode_keyed (filter (\<lambda>a. isLaunchAccountData (ac_data (snd a))) accounts) = Inr ?xs"
    by (intro mapE_ok decode_keyed_ok) simp
  then have "listLaunches reader = Inr (sort_key ?key ?xs)" using assms by (simp add: listLaunches_def)
  moreover have "sorted_wrt (\<lambda>x y. la_createdAt (snd y) \<le> la_createdAt (snd x)) (sort_key ?key ?xs)"
    using sorted_sort_key [of ?key ?xs] by (simp add: sorted_map)
  moreover have "filter (\<lambda>x. la_createdAt (snd x) = t) (sort_key ?key ?xs) =
      filter (\<lambda>x. la_createdAt (snd x) = t) ?xs" for t
    using sort_key_stable [of ?key "- t" ?xs] by (simp add: filter_sort)
  ultimately show ?thesis by (metis mset_sort)
qed

section \<open>Positions of the claimer\<close>

definition held_nft :: "pubkey \<Rightarrow> keyed_account list \<Rightarrow> pubkey \<times> nft_holding \<Rightarrow> bool" where
  "held_nft claimer ts e \<longleftrightarrow> fst e = ta_mint (nh_info (snd e)) \<and>
     (\<exists>t \<in> set ts. fst t = nh_pubkey (snd e) \<and> decodeTokenAccount (ac_data (snd t)) = Inr (nh_info (snd e))) \<and>
     ta_amount (nh_info (snd e)) = 1 \<and> ta_owner (nh_info (snd e)) = claimer"

lemma set_update_subset: "set (AList.update k v al) \<subseteq> insert (k, v) (set al)"
  by (induction al) auto

lemma collected_nfts:
  "list_all (held_nft claimer ts) (fold (collect_nft lib claimer) ts []) \<and>
   distinct (map fst (fold (collect_nft lib claimer) ts []))"
proof (rule fold_invariant [where Q = "\<lambda>t. t \<in> set ts"])
  fix t al
  assume t: "t \<in> set ts" and al: "list_all (held_nft claimer ts) al \<and> distinct (map fst al)"
  then show "list_all (held_nft claimer ts) (collect_nft lib claimer t al) \<and>
      distinct (map fst (collect_nft lib claimer t al))"
  proof (cases "decodeTokenAccount (ac_data (snd t))")
    case (Inr info)
    let ?e = "(ta_mint info, \<lparr>nh_pubkey = fst t, nh_info = info\<rparr>)"
    have "list_all (held_nft claimer ts) (AList.update (fst ?e) (snd ?e) al)"
      if "ta_amount info = 1" "ta_owner info = claimer"
    proof -
      have "held_nft claimer ts ?e" using that t Inr by (auto simp: held_nft_def)
      then show ?thesis using al set_update_subset [of "fst ?e" "snd ?e" al] by (auto simp: list_all_iff)
    qed
    then show ?thesis using al Inr by (auto simp: collect_nft_def distinct_update)
  qed (simp add: collect_nft_def)
qed simp_all

lemma map_filter_distinct:
  assumes "distinct (map g xs)" "\<And>x y. f x = Some y \<Longrightarrow> h y = g x"
  shows "distinct (map h (List.map_filter f xs))"
  using assms(1)
proof (induction xs)
  case (Cons x xs)
  have "h y \<notin> h ` set (List.map_filter f xs)" if "f x = Some y" for y
    using Cons.prems assms(2) that by (force simp: map_filter_def image_iff)
  with Cons show ?case by (cases "f x") (auto simp: map_filter_simps)
qed (simp add: map_filter_simps)

lemma in_map_filter: "y \<in> set (List.map_filter f xs) \<longleftrightarrow> (\<exists>x \<in> set xs. f x = Some y)"
  by (force simp: map_filter_def)

definition position_shown ::
  "solana_lib \<Rightarrow> account_coders \<Rightarrow> (pubkey \<Rightarrow> account_data option) \<Rightarrow> pubkey \<Rightarrow> pubkey \<Rightarrow> pubkey \<Rightarrow>
     keyed_account list \<Rightarrow> claimer_position \<Rightarrow> bool" where
  "position_shown lib coders acct claimer baseMint quoteMint ts p \<longleftrightarrow>
     (\<exists>t \<in> set ts. \<exists>info. fst t = ps_positionNftAccount p \<and> decodeTokenAccount (ac_data (snd t)) = Inr info \<and>
        ta_amount info = 1 \<and> ta_owner info = claimer \<and> ta_mint info = ps_positionNftMint p) \<and>
     ps_position p = dammV2PositionPda (sol_derive lib) (ps_positionNftMint p) \<and>
     (\<exists>a. acct (ps_position p) = Some a \<and> decodeDammV2Position (co_dammPosition coders) a = Inr (ps_state p)) \<and>
     po_nftMint (ps_state p) = ps_positionNftMint p \<and> ps_dammPool p = po_pool (ps_state p) \<and>
     (\<exists>a pool. acct (ps_dammPool p) = Some a \<and> decodeDammV2Pool (co_dammPool coders) a = Inr pool \<and>
        dp_tokenAMint pool = baseMint \<and> dp_tokenBMint pool = quoteMint \<and>
        (ps_pendingA p, ps_pendingB p) = pendingPositionFees pool (ps_state p))"

lemma decoded_position_Some:
  "decoded_position lib coders acc nft = Some (n, k, s) \<longleftrightarrow>
     n = nft \<and> k = dammV2PositionPda (sol_derive lib) (ta_mint (nh_info nft)) \<and>
     (\<exists>a. acc = Some a \<and> decodeDammV2Position (co_dammPosition coders) a = Inr s \<and>
        po_nftMint s = ta_mint (nh_info nft))"
  by (auto simp: decoded_position_def split: option.splits sum.splits if_splits)

lemma launch_pool_Some:
  "launch_pool coders b q acc = Some p \<longleftrightarrow>
     (\<exists>a. acc = Some a \<and> decodeDammV2Pool (co_dammPool coders) a = Inr p \<and> dp_tokenAMint p = b \<and> dp_tokenBMint p = q)"
  by (auto simp: launch_pool_def split: option.splits sum.splits if_splits)

lemma pools_sound:
  assumes "fold (\<lambda>(k, i) m. case launch_pool coders b q (nth_opt accs i) of None \<Rightarrow> m | Some p \<Rightarrow> m(k \<mapsto> p)) xs m key = Some p"
    and "\<forall>(k, i) \<in> set xs. nth_opt accs i = acct k"
    and "\<forall>k p. m k = Some p \<longrightarrow> launch_pool coders b q (acct k) = Some p"
  shows "launch_pool coders b q (acct key) = Some p"
  using assms
proof (induction xs arbitrary: m)
  case (Cons x xs)
  obtain k i where x: "x = (k, i)" by (cases x)
  show ?case
    by (rule Cons.IH [OF Cons.prems(1) [unfolded fold_Cons comp_apply]])
      (use Cons.prems(2,3) x in \<open>auto split: option.splits if_splits\<close>)
qed simp

lemma position_of_Some:
  "position_of pools (n, k, s) = Some p \<longleftrightarrow>
     (\<exists>pool. pools (po_pool s) = Some pool \<and>
        p = \<lparr>ps_dammPool = po_pool s, ps_position = k, ps_positionNftMint = ta_mint (nh_info n),
             ps_positionNftAccount = nh_pubkey n, ps_state = s,
             ps_pendingA = fst (pendingPositionFees pool s), ps_pendingB = snd (pendingPositionFees pool s)\<rparr>)"
  by (auto simp: position_of_def split: option.splits prod.splits)

text \<open>
  The discovery of the claimer's positions does not trust what the node lists: it never fails on
  accounts that do not decode, and every position it reports is backed by accounts of the node: a token
  account of the claimer holding the position's NFT, the position at the address derived from that NFT and
  naming it, a pool with the two mints of the launch, and the pending fees computed from those two
  accounts; no NFT is reported twice.
\<close>

theorem claimer_positions_shown:
  assumes "getTokenAccountsByOwner reader claimer (TOKEN_2022_PROGRAM_ID lib) = Inr ts" "answers_from reader acct"
  shows "\<exists>ps. findClaimerPositions reader lib coders claimer baseMint quoteMint = Inr ps \<and>
    list_all (position_shown lib coders acct claimer baseMint quoteMint ts) ps \<and>
    distinct (map ps_positionNftMint ps)"
proof (cases "claimer_nfts lib claimer ts = []")
  case True
  then show ?thesis using assms(1) by (simp add: findClaimerPositions_def)
next
  case False
  define nfts where "nfts = claimer_nfts lib claimer ts"
  define key where "key = (\<lambda>n :: nft_holding. dammV2PositionPda (sol_derive lib) (ta_mint (nh_info n)))"
  define decoded where "decoded = List.map_filter (\<lambda>(n, i). decoded_position lib coders
      (nth_opt (map acct (map key nfts)) i) n) (zip nfts [0..<length nfts])"
  define poolKeys where "poolKeys = map snd (fold (\<lambda>(_, _, s). AList.update (po_pool s) (po_pool s)) decoded [])"
  define pools where "pools = fold (\<lambda>(k, i) m. case launch_pool coders baseMint quoteMint
      (nth_opt (map acct poolKeys) i) of None \<Rightarrow> m | Some p \<Rightarrow> m(k \<mapsto> p)) (zip poolKeys [0..<length poolKeys]) (\<lambda>_. None)"
  define ps where "ps = List.map_filter (position_of pools) decoded"
  have find: "findClaimerPositions reader lib coders claimer baseMint quoteMint = Inr ps"
    using assms False
    by (simp add: findClaimerPositions_def answers_from_def Let_def ps_def pools_def poolKeys_def decoded_def
        nfts_def key_def comp_def del: nth_opt_map)
  have nfts_eq: "nfts = map snd (fold (collect_nft lib claimer) ts [])" by (simp add: nfts_def claimer_nfts_def)
  have held: "held_nft claimer ts (ta_mint (nh_info n), n)" if n: "n \<in> set nfts" for n
  proof -
    from n obtain m where "(m, n) \<in> set (fold (collect_nft lib claimer) ts [])" by (auto simp: nfts_eq)
    then have "held_nft claimer ts (m, n)" using collected_nfts by (auto simp: list_all_iff)
    then show ?thesis by (simp add: held_nft_def)
  qed
  have dec: "n \<in> set nfts \<and> k = key n \<and> (\<exists>a. acct (key n) = Some a \<and>
      decodeDammV2Position (co_dammPosition coders) a = Inr s) \<and> po_nftMint s = ta_mint (nh_info n)"
    if "(n, k, s) \<in> set decoded" for n k s
    using that by (auto simp: decoded_def in_map_filter decoded_position_Some in_set_zip key_def)
  have pool: "launch_pool coders baseMint quoteMint (acct k) = Some p" if "pools k = Some p" for k p
    by (rule pools_sound [OF that [unfolded pools_def]]) (auto simp: in_set_zip)
  have shown: "position_shown lib coders acct claimer baseMint quoteMint ts p" if p: "p \<in> set ps" for p
  proof -
    from p obtain n k s where d: "(n, k, s) \<in> set decoded" "position_of pools (n, k, s) = Some p"
      by (auto simp: ps_def in_map_filter)
    then obtain pl where pl: "pools (po_pool s) = Some pl"
      and peq: "p = \<lparr>ps_dammPool = po_pool s, ps_position = k, ps_positionNftMint = ta_mint (nh_info n),
             ps_positionNftAccount = nh_pubkey n, ps_state = s,
             ps_pendingA = fst (pendingPositionFees pl s), ps_pendingB = snd (pendingPositionFees pl s)\<rparr>"
      by (auto simp: position_of_Some)
    from dec [OF d(1)] held [of n] pool [OF pl] show ?thesis
      unfolding position_shown_def peq by (auto simp: held_nft_def launch_pool_Some key_def)
  qed
  have "distinct (map (ta_mint \<circ> nh_info) nfts)"
  proof -
    have "map (ta_mint \<circ> nh_info) nfts = map fst (fold (collect_nft lib claimer) ts [])"
      using collected_nfts [of claimer ts lib]
      by (auto simp: nfts_eq list_all_iff held_nft_def comp_def)
    then show ?thesis using collected_nfts [of claimer ts lib] by simp
  qed
  then have "distinct (map (ta_mint \<circ> nh_info \<circ> fst) (zip nfts [0..<length nfts]))"
    by (simp flip: map_map)
  then have "distinct (map (ta_mint \<circ> nh_info \<circ> fst) decoded)"
    unfolding decoded_def by (rule map_filter_distinct) (auto simp: decoded_position_Some)
  then have "distinct (map ps_positionNftMint ps)"
    unfolding ps_def by (rule map_filter_distinct) (auto simp: position_of_Some)
  with find shown show ?thesis by (auto simp: list_all_iff)
qed

text \<open>A claimer that holds one NFT and a token account that does not decode.\<close>

definition nft_account :: keyed_account where
  "nft_account = (replicate 32 30, \<lparr>ac_data = replicate 32 31 @ replicate 32 32 @ [1] @ replicate 100 0,
     ac_owner = replicate 32 33, ac_lamports = 1, ac_executable = False\<rparr>)"

definition holder_reader :: chain_reader where
  "holder_reader = (state_reader [] (\<lambda>_. None))
     \<lparr>getTokenAccountsByOwner := (\<lambda>_ _. Inr [nft_account, (replicate 32 34, (snd nft_account)\<lparr>ac_data := []\<rparr>)])\<rparr>"

lemma claimer_positions_shown_witness:
  "\<exists>ps. findClaimerPositions holder_reader one_pool_lib coders_none (replicate 32 32) (replicate 32 4) (replicate 32 5) = Inr ps \<and>
     list_all (position_shown one_pool_lib coders_none (\<lambda>_. None) (replicate 32 32) (replicate 32 4) (replicate 32 5)
       [nft_account, (replicate 32 34, (snd nft_account)\<lparr>ac_data := []\<rparr>)]) ps"
  using claimer_positions_shown [of holder_reader "replicate 32 32" one_pool_lib
      "[nft_account, (replicate 32 34, (snd nft_account)\<lparr>ac_data := []\<rparr>)]" "\<lambda>_. None" coders_none
      "replicate 32 4" "replicate 32 5"]
  by (auto simp: holder_reader_def state_reader_def answers_from_def)

section \<open>A failing node and a launch that does not exist\<close>

text \<open>
  \<open>getLaunch\<close> rethrows only an ambiguity: when the node itself fails while a base mint is resolved, the
  caller sees the same null as for a mint without a launch, although the launch may exist. With the
  address of the launch or its config the failure of the node is passed on.
\<close>

lemma node_failure_reads_as_no_launch:
  assumes "getProgramAccounts reader STOCKFLOOR_PROGRAM_ID (launch_filter (Some m)) = Inl e"
    and "\<forall>ks. e \<noteq> AmbiguousLaunchError ks"
  shows "getLaunch reader lib coders (RefBaseMint m) = Inr None \<and>
    fetchLaunchState reader lib coders utf8 (RefBaseMint m) positions = Inr None"
  using assms by (cases e) (simp_all add: getLaunch_def fetchLaunchState_def resolveLaunchAddress_def
      resolveLaunchByBaseMint_def)

lemma node_failure_passed_on_by_address:
  assumes "getAccountInfo reader address = Inl e"
  shows "getLaunch reader lib coders (RefLaunch address) = Inl e"
  using assms by (simp add: getLaunch_def resolveLaunchAddress_def)

end
