(* ===== verification/Trade.thy ===== *)
theory Trade
  imports LaunchState MeteoraInstructions Transactions DbcQuote DammSwap
begin

text \<open>
  \<^verbatim>\<open>packages/sdk/src/trade.ts\<close>: quotes and transactions of a trader on a \<open>LaunchState\<close>. \<open>quoteTrade\<close>
  chooses the venue from the phase (the bonding curve in presale, none while graduating, the DAMM v2 pool
  afterwards) and stops a curve buy at the migration price when it may; \<open>buildTrade\<close> and \<open>buildRedeem\<close>
  add the instructions. The properties bound what the trader pays and receives and tie the bytes that are
  signed to the quote.
\<close>

section \<open>Quotes\<close>

datatype trade_side = Buy | Sell

datatype venue_quote = VenueDbc swap_mode swap_quote | VenueDamm damm_swap_quote

record trade_quote =
  tq_side :: trade_side
  tq_venue :: venue_quote
  tq_amountIn :: int
  tq_amountOut :: int

definition dbc_quote :: "trade_side \<Rightarrow> swap_mode \<Rightarrow> swap_quote \<Rightarrow> trade_quote" where
  "dbc_quote side mode q =
     \<lparr>tq_side = side, tq_venue = VenueDbc mode q, tq_amountIn = sq_includedFeeInputAmount q,
      tq_amountOut = sq_outputAmount q\<rparr>"

definition presale_swap :: "launch_state \<Rightarrow> dbc_virtual_pool \<Rightarrow> trade_side \<Rightarrow> int \<Rightarrow> swap_mode \<Rightarrow> swap_params" where
  "presale_swap state pool side amountIn mode =
     \<lparr>sp_config = ls_dbcConfig state, sp_pool = pool,
      sp_direction = (case side of Buy \<Rightarrow> QuoteToBase | Sell \<Rightarrow> BaseToQuote), sp_mode = mode, sp_amount = amountIn,
      sp_currentPoint = ls_dbcCurrentPoint state, sp_hasReferral = False, sp_eligibleForFirstSwapWithMinFee = False\<rparr>"

definition graduated_swap :: "launch_state \<Rightarrow> damm_pool \<Rightarrow> trade_side \<Rightarrow> int \<Rightarrow> damm_swap_params" where
  "graduated_swap state pool side amountIn =
     \<lparr>ds_pool = pool, ds_direction = (case side of Buy \<Rightarrow> BtoA | Sell \<Rightarrow> AtoB), ds_amountIn = amountIn,
      ds_currentPoint =
        (if dp_activationType pool = 0 then ck_slot (ls_clock state) else ck_unixTimestamp (ls_clock state)),
      ds_hasReferral = False\<rparr>"

definition quoteTrade :: "launch_state \<Rightarrow> trade_side \<Rightarrow> int \<Rightarrow> bool \<Rightarrow> trade_quote result" where
  "quoteTrade state side amountIn allowPartialFill =
     (if amountIn \<le> 0 then Inl (RangeError ''amount must be positive'')
      else if ls_phase state = Presale
      then (case ls_dbcPool state of
              None \<Rightarrow> Inl (TradeUnavailableError ''the DBC pool does not exist yet'')
            | Some pool \<Rightarrow>
                (case quoteDbcSwap (presale_swap state pool side amountIn ExactIn) of
                   Inr q \<Rightarrow> Inr (dbc_quote side ExactIn q)
                 | Inl e \<Rightarrow>
                     if side = Buy \<and> allowPartialFill \<and> e = DbcMathError ''InsufficientLiquidity''
                     then bindE (quoteDbcSwap (presale_swap state pool side amountIn PartialFill)) (\<lambda>q.
                          Inr (dbc_quote side PartialFill q))
                     else Inl e))
      else if ls_phase state = Graduating
      then Inl (TradeUnavailableError ''the curve is complete; trading resumes on DAMM v2 after migration'')
      else (case di_state (ls_damm state) of
              None \<Rightarrow> Inl (TradeUnavailableError ''the migrated DAMM v2 pool was not found'')
            | Some pool \<Rightarrow>
                bindE (quoteDammV2ExactIn (graduated_swap state pool side amountIn)) (\<lambda>q.
                  Inr \<lparr>tq_side = side, tq_venue = VenueDamm q, tq_amountIn = amountIn,
                       tq_amountOut = dq_outputAmount q\<rparr>)))"

section \<open>Transactions\<close>

record built_trade =
  bt_quote :: trade_quote
  bt_minAmountOut :: int
  bt_instructions :: "tx_instruction list"
  bt_computeUnitLimit :: int

record trade_options =
  to_slippageBps :: "jsnum option"
  to_allowPartialFill :: "bool option"
  to_payer :: "pubkey option"

definition default_options :: trade_options where
  "default_options = \<lparr>to_slippageBps = None, to_allowPartialFill = None, to_payer = None\<rparr>"

definition trade_accounts :: "solana_lib \<Rightarrow> launch_keys \<Rightarrow> pubkey \<Rightarrow> trade_side \<Rightarrow> pubkey \<times> pubkey" where
  "trade_accounts lib keys trader side =
     (let baseAta = associatedTokenAddress (sol_ata lib) trader (lk_baseMint keys) (TOKEN_PROGRAM_ID lib);
          quoteAta = associatedTokenAddress (sol_ata lib) trader (lk_quoteMint keys) (lk_quoteTokenProgram keys)
      in case side of Buy \<Rightarrow> (quoteAta, baseAta) | Sell \<Rightarrow> (baseAta, quoteAta))"

definition ensure_output ::
  "solana_lib \<Rightarrow> ata_builder \<Rightarrow> launch_keys \<Rightarrow> pubkey \<Rightarrow> pubkey \<Rightarrow> trade_side \<Rightarrow> tx_instruction" where
  "ensure_output lib newAta keys payer trader side =
     (case side of
        Buy \<Rightarrow> createAtaIdempotentIx lib newAta payer trader (lk_baseMint keys) (TOKEN_PROGRAM_ID lib)
      | Sell \<Rightarrow> createAtaIdempotentIx lib newAta payer trader (lk_quoteMint keys) (lk_quoteTokenProgram keys))"

definition buildTrade ::
  "solana_lib \<Rightarrow> ata_builder \<Rightarrow> launch_state \<Rightarrow> pubkey \<Rightarrow> trade_side \<Rightarrow> int \<Rightarrow> trade_options \<Rightarrow> built_trade result" where
  "buildTrade lib newAta state trader side amountIn opts =
     bindE (quoteTrade state side amountIn (case to_allowPartialFill opts of Some b \<Rightarrow> b | None \<Rightarrow> True)) (\<lambda>quote.
     let slippageBps = (case to_slippageBps opts of Some b \<Rightarrow> b | None \<Rightarrow> JsInt 100);
         payer = (case to_payer opts of Some p \<Rightarrow> p | None \<Rightarrow> trader);
         keys = ls_keys state;
         (input, output) = trade_accounts lib keys trader side;
         ensureOutput = ensure_output lib newAta keys payer trader side
     in case tq_venue quote of
          VenueDbc mode q \<Rightarrow>
            bindE (dbcSwapSlippageLimit q mode slippageBps) (\<lambda>minAmountOut.
              Inr \<lparr>bt_quote = quote, bt_minAmountOut = minAmountOut,
                   bt_instructions =
                     [ensureOutput,
                      dbcSwap2Ix lib
                        \<lparr>s2_keys = dbcPoolKeys lib (lk_config keys) (lk_baseMint keys) (lk_quoteMint keys)
                                     (Some (lk_quoteTokenProgram keys)) None,
                         s2_payer = trader, s2_inputTokenAccount = input, s2_outputTokenAccount = output,
                         s2_amount0 = amountIn, s2_amount1 = minAmountOut, s2_swapMode = mode,
                         s2_referralTokenAccount = None\<rparr>],
                   bt_computeUnitLimit = CU_LIMITS createAta + CU_LIMITS dbcSwap2\<rparr>)
        | VenueDamm q \<Rightarrow>
            bindE (dammMinimumOut q slippageBps) (\<lambda>minAmountOut.
              Inr \<lparr>bt_quote = quote, bt_minAmountOut = minAmountOut,
                   bt_instructions =
                     [ensureOutput,
                      dammV2Swap2Ix lib
                        \<lparr>m2_keys = dammV2PoolKeys lib (di_pool (ls_damm state)) (lk_baseMint keys) (lk_quoteMint keys)
                                     None (Some (lk_quoteTokenProgram keys)),
                         m2_payer = trader, m2_inputTokenAccount = input, m2_outputTokenAccount = output,
                         m2_amount0 = amountIn, m2_amount1 = minAmountOut, m2_swapMode = 0,
                         m2_referralTokenAccount = None\<rparr>],
                   bt_computeUnitLimit = CU_LIMITS createAta + CU_LIMITS dammV2Swap2\<rparr>))"

record built_redeem =
  br_preview :: redeem_preview
  br_instructions :: "tx_instruction list"
  br_computeUnitLimit :: int

text \<open>A redemption is refused with the preview's reason, shortened to a fixed text per reason.\<close>

fun blocked_text :: "blocked_reason \<Rightarrow> string" where
  "blocked_text (RedeemNotOpen phase) = ''redeem opens after migration and the migration-fee harvest''"
| "blocked_text AmountNotPositive = ''amount must be positive''"
| "blocked_text AmountExceedsSupply = ''amount exceeds the base supply''"
| "blocked_text QuotePaused = ''the quote asset is paused by its issuer''"
| "blocked_text NothingToRedeem = ''the redemption would pay nothing (NothingToRedeem)''"

definition buildRedeem ::
  "solana_lib \<Rightarrow> ata_builder \<Rightarrow> launch_state \<Rightarrow> pubkey \<Rightarrow> int \<Rightarrow> pubkey option \<Rightarrow> built_redeem result" where
  "buildRedeem lib newAta state holder amount payer =
     bindE (previewRedeem state amount) (\<lambda>preview.
     case rp_blockedReason preview of
       Some r \<Rightarrow> Inl (TradeUnavailableError (blocked_text r))
     | None \<Rightarrow>
         bindE (launchKeysFromAccount (ls_launch state) None) (\<lambda>keys.
         bindE (redeemIx lib \<lparr>ra_holder = holder, ra_keys = keys, ra_amount = amount,
                  ra_holderBaseAccount = None, ra_holderQuoteAccount = None\<rparr>) (\<lambda>redeem.
           Inr \<lparr>br_preview = preview,
                br_instructions =
                  [createAtaIdempotentIx lib newAta (case payer of Some p \<Rightarrow> p | None \<Rightarrow> holder) holder
                     (lk_quoteMint keys) (lk_quoteTokenProgram keys),
                   redeem],
                br_computeUnitLimit = CU_LIMITS createAta + CU_LIMITS redeemTokens\<rparr>)))"

section \<open>What a quote promises\<close>

definition venues_ok :: "launch_state \<Rightarrow> bool" where
  "venues_ok state \<longleftrightarrow>
     (\<forall>pool. ls_dbcPool state = Some pool \<longrightarrow> pool_ok (ls_dbcConfig state) pool \<and>
        vp_baseReserve pool \<le> U64_MAX \<and> vp_quoteReserve pool \<le> U64_MAX) \<and>
     (\<forall>pool. di_state (ls_damm state) = Some pool \<longrightarrow> wf_damm_pool pool \<and> wf_damm_fees pool)"

lemma presale_swap_simps [simp]:
  "sp_config (presale_swap state pool side a mode) = ls_dbcConfig state"
  "sp_pool (presale_swap state pool side a mode) = pool"
  "sp_mode (presale_swap state pool side a mode) = mode"
  "sp_amount (presale_swap state pool side a mode) = a"
  by (simp_all add: presale_swap_def)

lemma graduated_swap_simps [simp]:
  "ds_pool (graduated_swap state pool side a) = pool"
  "ds_amountIn (graduated_swap state pool side a) = a"
  by (simp_all add: graduated_swap_def)

text \<open>The two ways a quote comes about.\<close>

lemma quoteTrade_cases:
  assumes "quoteTrade state side a partial = Inr t"
  obtains (presale) pool mode q where
      "0 < a" "ls_phase state = Presale" "ls_dbcPool state = Some pool"
      "quoteDbcSwap (presale_swap state pool side a mode) = Inr q" "t = dbc_quote side mode q"
      "mode = ExactIn \<or> mode = PartialFill \<and> side = Buy \<and> partial \<and>
        quoteDbcSwap (presale_swap state pool side a ExactIn) = Inl (DbcMathError ''InsufficientLiquidity'')"
  | (graduated) pool q where
      "0 < a" "ls_phase state = Graduated \<or> ls_phase state = Redeemable" "di_state (ls_damm state) = Some pool"
      "quoteDammV2ExactIn (graduated_swap state pool side a) = Inr q"
      "t = \<lparr>tq_side = side, tq_venue = VenueDamm q, tq_amountIn = a, tq_amountOut = dq_outputAmount q\<rparr>"
  using assms
  by (cases "ls_phase state")
    (auto simp: quoteTrade_def result_simps not_le split: if_splits option.splits sum.splits)

lemma dbc_output_u64:
  assumes q: "quoteDbcSwap p = Inr q" and ok: "pool_ok (sp_config p) (sp_pool p)"
    and r: "vp_baseReserve (sp_pool p) \<le> U64_MAX" "vp_quoteReserve (sp_pool p) \<le> U64_MAX"
  shows "sq_outputAmount q \<le> U64_MAX"
proof -
  from q have "quote_output q \<le> U64_MAX"
    by (rule quoteDbcSwap_InrE) (use r in \<open>auto split: trade_direction.splits\<close>)
  with quote_output_ge [OF quote_is_trade(1) [OF q ok]] show ?thesis by linarith
qed

lemma damm_output_u64:
  assumes q: "quoteDammV2ExactIn p = Inr q" and wf: "wf_damm_pool (ds_pool p)" "wf_damm_fees (ds_pool p)"
  shows "dq_outputAmount q \<le> U64_MAX"
  using quoteDammV2ExactIn_trade(1,3) [OF assms]
  by (cases "ds_direction p") (auto simp: damm_trade_def dammStep_def u64_check_def result_simps split: if_splits)

lemma damm_amount_u64:
  assumes "quoteDammV2ExactIn p = Inr q"
  shows "ds_amountIn p \<le> U64_MAX"
proof -
  from assms obtain u where "u64_check (ds_amountIn p) = Inr u"
    by (simp only: quoteDammV2ExactIn_def Let_def bindE_check_eq_Inr bindE_eq_Inr) (elim exE conjE, rule that)
  then show ?thesis by (simp add: u64_check_def split: if_splits)
qed

lemma quoteTrade_bounds:
  assumes t: "quoteTrade state side a partial = Inr t" and ok: "venues_ok state"
  shows "tq_amountIn t \<le> a" "0 \<le> tq_amountOut t"
    "tq_amountOut t \<le> U64_MAX" "0 < a" "a \<le> U64_MAX"
    "tq_amountIn t = a \<or> (\<exists>q. tq_venue t = VenueDbc PartialFill q)"
proof -
  show "tq_amountIn t \<le> a" using t
  proof (cases rule: quoteTrade_cases)
    case (presale pool mode q)
    with ok quote_within_amount(1) [OF presale(4)] show ?thesis by (auto simp: venues_ok_def dbc_quote_def)
  qed simp
  show "0 \<le> tq_amountOut t" using t
  proof (cases rule: quoteTrade_cases)
    case (presale pool mode q)
    with ok quote_is_trade(3) [OF presale(4)] show ?thesis by (auto simp: venues_ok_def dbc_quote_def)
  next
    case (graduated pool q)
    with ok quoteDammV2ExactIn_trade(4) [OF graduated(4)] show ?thesis by (auto simp: venues_ok_def)
  qed
  show "tq_amountOut t \<le> U64_MAX" using t
  proof (cases rule: quoteTrade_cases)
    case (presale pool mode q)
    with ok dbc_output_u64 [OF presale(4)] show ?thesis by (auto simp: venues_ok_def dbc_quote_def)
  next
    case (graduated pool q)
    with ok damm_output_u64 [OF graduated(4)] show ?thesis by (auto simp: venues_ok_def)
  qed
  show "0 < a" using t by (cases rule: quoteTrade_cases)
  show "a \<le> U64_MAX" using t
  proof (cases rule: quoteTrade_cases)
    case (presale pool mode q)
    from presale(4) have "sp_amount (presale_swap state pool side a mode) \<le> U64_MAX" by (rule quoteDbcSwap_InrE)
    then show ?thesis by simp
  next
    case (graduated pool q)
    with damm_amount_u64 [OF graduated(4)] show ?thesis by simp
  qed
  show "tq_amountIn t = a \<or> (\<exists>q. tq_venue t = VenueDbc PartialFill q)" using t
  proof (cases rule: quoteTrade_cases)
    case (presale pool mode q)
    with ok quote_within_amount(2) [OF presale(4)] show ?thesis by (auto simp: venues_ok_def dbc_quote_def)
  qed simp
qed

section \<open>What is signed\<close>

lemma readU64_after:
  assumes "0 \<le> v" "v < 2 ^ 64"
  shows "readU64 (xs @ writeU64 v @ ys) (int (length xs)) = Inr v"
proof -
  have "subarray (xs @ writeU64 v @ ys) (int (length xs)) (int (length xs) + 8) = writeU64 v"
    by (simp add: subarray_def writeU64_def nat_add_distrib)
  then show ?thesis using assms by (simp add: readU64_eq_Inr writeU64_def le_uint_le_bytes)
qed

lemma swapParams2_reads:
  assumes "length disc = 8" "0 \<le> a" "a < 2 ^ 64" "0 \<le> m" "m < 2 ^ 64"
  shows "readU64 (swapParams2 disc a m mode) 8 = Inr a" "readU64 (swapParams2 disc a m mode) 16 = Inr m"
proof -
  show "readU64 (swapParams2 disc a m mode) 8 = Inr a"
    using readU64_after [of a disc] assms by (simp add: swapParams2_def)
  have "length (disc @ writeU64 a) = 16" using assms by (simp add: writeU64_def)
  then show "readU64 (swapParams2 disc a m mode) 16 = Inr m"
    using readU64_after [of m "disc @ writeU64 a"] assms by (simp add: swapParams2_def)
qed

text \<open>The minimum out of both venues: the quoted output lowered by the tolerance, rounded down.\<close>

definition lowered :: "int \<Rightarrow> int \<Rightarrow> int" where
  "lowered out bps = (out * (10000 - bps)) div 10000"

lemma lowered_bounds:
  assumes "0 \<le> out" "0 \<le> bps" "bps \<le> 10000"
  shows "0 \<le> lowered out bps" "lowered out bps \<le> out"
    "lowered out bps * 10000 \<le> out * (10000 - bps)" "out * (10000 - bps) < (lowered out bps + 1) * 10000"
proof -
  have "0 \<le> out * (10000 - bps)" "out * (10000 - bps) \<le> out * 10000"
    using assms by (simp, intro mult_left_mono) simp_all
  then show "0 \<le> lowered out bps" "lowered out bps \<le> out"
    by (simp_all add: lowered_def pos_imp_zdiv_nonneg_iff)
  show "lowered out bps * 10000 \<le> out * (10000 - bps)" "out * (10000 - bps) < (lowered out bps + 1) * 10000"
    unfolding lowered_def by (rule floor_div_bounds, simp)+
qed

lemma dbc_swap_data:
  assumes "0 \<le> s2_amount0 x" "s2_amount0 x \<le> U64_MAX" "0 \<le> s2_amount1 x" "s2_amount1 x \<le> U64_MAX"
  shows "readU64 (ix_data (dbcSwap2Ix lib x)) 8 = Inr (s2_amount0 x)"
    "readU64 (ix_data (dbcSwap2Ix lib x)) 16 = Inr (s2_amount1 x)"
  using assms swapParams2_reads [of DBC_swap2_discriminator "s2_amount0 x" "s2_amount1 x"]
  by (simp_all add: dbcSwap2Ix_def dbcIx_def Let_def U64_MAX_def DBC_swap2_discriminator_def)

lemma damm_swap_data:
  assumes "0 \<le> m2_amount0 x" "m2_amount0 x \<le> U64_MAX" "0 \<le> m2_amount1 x" "m2_amount1 x \<le> U64_MAX"
  shows "readU64 (ix_data (dammV2Swap2Ix lib x)) 8 = Inr (m2_amount0 x)"
    "readU64 (ix_data (dammV2Swap2Ix lib x)) 16 = Inr (m2_amount1 x)"
  using assms swapParams2_reads [of DAMM_V2_swap2_discriminator "m2_amount0 x" "m2_amount1 x"]
  by (simp_all add: dammV2Swap2Ix_def Let_def U64_MAX_def DAMM_V2_swap2_discriminator_def)

lemma swap_signers:
  "filter mt_isSigner (ix_keys (dbcSwap2Ix lib x)) = [meta_r (s2_payer x) True]"
  "filter mt_isSigner (ix_keys (dammV2Swap2Ix lib y)) = [meta_r (m2_payer y) True]"
  by (simp_all add: dbcSwap2Ix_def dammV2Swap2Ix_def dbcIx_def Let_def meta_r_def meta_w_def split: option.splits)

lemma minimum_out:
  assumes "0 \<le> sq_outputAmount q" "mode = ExactIn \<or> mode = PartialFill"
  shows "dbcSwapSlippageLimit q mode slippage = Inr m \<longleftrightarrow>
    (\<exists>bps. slippage = JsInt bps \<and> 0 \<le> bps \<and> bps \<le> 10000 \<and> m = lowered (sq_outputAmount q) bps)"
  using assms by (auto simp: dbcSwapSlippageLimit_def lowered_def result_simps)

lemma damm_minimum_out:
  assumes "0 \<le> dq_outputAmount q"
  shows "dammMinimumOut q slippage = Inr m \<longleftrightarrow>
    (\<exists>bps. slippage = JsInt bps \<and> 0 \<le> bps \<and> bps \<le> 10000 \<and> m = lowered (dq_outputAmount q) bps)"
  using assms by (auto simp: dammMinimumOut_def lowered_def result_simps)

text \<open>The options with their defaults, and the two forms of a built trade.\<close>

abbreviation slippage_of :: "trade_options \<Rightarrow> jsnum" where
  "slippage_of opts \<equiv> case to_slippageBps opts of Some b \<Rightarrow> b | None \<Rightarrow> JsInt 100"

abbreviation partial_of :: "trade_options \<Rightarrow> bool" where
  "partial_of opts \<equiv> case to_allowPartialFill opts of Some b \<Rightarrow> b | None \<Rightarrow> True"

abbreviation payer_of :: "trade_options \<Rightarrow> pubkey \<Rightarrow> pubkey" where
  "payer_of opts trader \<equiv> case to_payer opts of Some p \<Rightarrow> p | None \<Rightarrow> trader"

lemma buildTrade_cases:
  assumes b: "buildTrade lib newAta state trader side a opts = Inr b"
    and io: "trade_accounts lib (ls_keys state) trader side = (input, output)"
  obtains (dbc) mode q x where
      "quoteTrade state side a (partial_of opts) = Inr (bt_quote b)" "tq_venue (bt_quote b) = VenueDbc mode q"
      "dbcSwapSlippageLimit q mode (slippage_of opts) = Inr (bt_minAmountOut b)"
      "bt_instructions b = [ensure_output lib newAta (ls_keys state) (payer_of opts trader) trader side, dbcSwap2Ix lib x]"
      "s2_payer x = trader" "s2_inputTokenAccount x = input" "s2_outputTokenAccount x = output"
      "s2_amount0 x = a" "s2_amount1 x = bt_minAmountOut b"
  | (damm) q x where
      "quoteTrade state side a (partial_of opts) = Inr (bt_quote b)" "tq_venue (bt_quote b) = VenueDamm q"
      "dammMinimumOut q (slippage_of opts) = Inr (bt_minAmountOut b)"
      "bt_instructions b = [ensure_output lib newAta (ls_keys state) (payer_of opts trader) trader side, dammV2Swap2Ix lib x]"
      "m2_payer x = trader" "m2_inputTokenAccount x = input" "m2_outputTokenAccount x = output"
      "m2_amount0 x = a" "m2_amount1 x = bt_minAmountOut b"
proof -
  from b obtain t where t: "quoteTrade state side a (partial_of opts) = Inr t"
    unfolding buildTrade_def by (rule bindE_InrE)
  show thesis
  proof (cases "tq_venue t")
    case (VenueDbc mode q)
    with b t obtain m where "dbcSwapSlippageLimit q mode (slippage_of opts) = Inr m"
      by (auto simp: buildTrade_def io Let_def elim: bindE_InrE)
    with b t VenueDbc show thesis by (intro dbc) (auto simp: buildTrade_def io Let_def)
  next
    case (VenueDamm q)
    with b t obtain m where "dammMinimumOut q (slippage_of opts) = Inr m"
      by (auto simp: buildTrade_def io Let_def elim: bindE_InrE)
    with b t VenueDamm show thesis by (intro damm) (auto simp: buildTrade_def io Let_def)
  qed
qed

text \<open>The two instructions of a built trade, whatever the venue.\<close>

definition pays_from :: "tx_instruction \<Rightarrow> pubkey \<Rightarrow> pubkey \<Rightarrow> bool" where
  "pays_from ix input output \<longleftrightarrow>
     take 2 (drop (if ix_programId ix = DBC_PROGRAM_ID then 3 else 2) (ix_keys ix)) = [w0 input, w0 output]"

definition signed_as_quoted ::
  "solana_lib \<Rightarrow> ata_builder \<Rightarrow> launch_state \<Rightarrow> pubkey \<Rightarrow> trade_side \<Rightarrow> int \<Rightarrow> trade_options \<Rightarrow> built_trade \<Rightarrow> bool" where
  "signed_as_quoted lib newAta state trader side a opts b \<longleftrightarrow>
     (let (input, output) = trade_accounts lib (ls_keys state) trader side
      in \<exists>swap. bt_instructions b = [ensure_output lib newAta (ls_keys state) (payer_of opts trader) trader side, swap] \<and>
           filter mt_isSigner (ix_keys swap) = [meta_r trader True] \<and> pays_from swap input output \<and>
           readU64 (ix_data swap) 8 = Inr a \<and> readU64 (ix_data swap) 16 = Inr (bt_minAmountOut b))"

lemma programs_differ: "DAMM_V2_PROGRAM_ID \<noteq> DBC_PROGRAM_ID"
  by code_simp

lemma pays_from_swap [simp]:
  "pays_from (dbcSwap2Ix lib x) (s2_inputTokenAccount x) (s2_outputTokenAccount x)"
  "pays_from (dammV2Swap2Ix lib y) (m2_inputTokenAccount y) (m2_outputTokenAccount y)"
  by (simp_all add: pays_from_def dbcSwap2Ix_def dbcIx_def dammV2Swap2Ix_def programs_differ Let_def)

text \<open>The venue of a returned quote fixes the mode and the output.\<close>

lemma quoteTrade_venue:
  assumes "quoteTrade state side a partial = Inr t"
  shows "tq_venue t = VenueDbc mode q \<Longrightarrow> (mode = ExactIn \<or> mode = PartialFill) \<and> tq_amountOut t = sq_outputAmount q"
    "tq_venue t = VenueDamm q' \<Longrightarrow> tq_amountOut t = dq_outputAmount q'"
  using assms by (cases rule: quoteTrade_cases; auto simp: dbc_quote_def)+

lemma built_minimum:
  assumes b: "buildTrade lib newAta state trader side a opts = Inr b" and ok: "venues_ok state"
  shows "\<exists>bps. slippage_of opts = JsInt bps \<and> 0 \<le> bps \<and> bps \<le> 10000 \<and>
    bt_minAmountOut b = lowered (tq_amountOut (bt_quote b)) bps"
proof -
  obtain input "output" where io: "trade_accounts lib (ls_keys state) trader side = (input, output)" by fastforce
  from b io show ?thesis
  proof (cases rule: buildTrade_cases)
    case (dbc mode q x)
    with quoteTrade_venue(1) [OF dbc(1,2)] quoteTrade_bounds(2) [OF dbc(1) ok] show ?thesis
      by (auto simp: minimum_out)
  next
    case (damm q x)
    with quoteTrade_venue(2) [OF damm(1,2)] quoteTrade_bounds(2) [OF damm(1) ok] show ?thesis
      by (auto simp: damm_minimum_out)
  qed
qed

lemma built_quote:
  assumes "buildTrade lib newAta state trader side a opts = Inr b"
  shows "quoteTrade state side a (partial_of opts) = Inr (bt_quote b)"
proof -
  obtain input "output" where "trade_accounts lib (ls_keys state) trader side = (input, output)" by fastforce
  with assms show ?thesis by (cases rule: buildTrade_cases)
qed

lemma built_signed:
  assumes b: "buildTrade lib newAta state trader side a opts = Inr b" and ok: "venues_ok state"
    and m: "0 \<le> bt_minAmountOut b" "bt_minAmountOut b \<le> U64_MAX"
  shows "signed_as_quoted lib newAta state trader side a opts b"
proof -
  obtain input "output" where io: "trade_accounts lib (ls_keys state) trader side = (input, output)" by fastforce
  have a: "0 \<le> a" "a \<le> U64_MAX" using quoteTrade_bounds(4,5) [OF built_quote [OF b] ok] by simp_all
  from b io show ?thesis
  proof (cases rule: buildTrade_cases)
    case (dbc mode q x)
    with a m dbc_swap_data [of x lib] swap_signers(1) [of lib x] pays_from_swap(1) [of lib x] show ?thesis
      by (simp add: signed_as_quoted_def io)
  next
    case (damm q x)
    with a m damm_swap_data [of x lib] swap_signers(2) [of lib x] pays_from_swap(2) [of lib x] show ?thesis
      by (simp add: signed_as_quoted_def io)
  qed
qed

text \<open>
  C11: a trade that is built does what was quoted: the swap is signed by the trader alone, pays from the
  trader's own token account into the trader's own token account (created by the instruction before it),
  its data carries exactly the offered amount and the minimum out; the quote charges at most the offered
  amount, and the minimum out is the quoted output lowered by the slippage, never above the quote.
\<close>

theorem built_trade_matches_quote:
  assumes b: "buildTrade lib newAta state trader side a opts = Inr b" and ok: "venues_ok state"
  shows "quoteTrade state side a (partial_of opts) = Inr (bt_quote b) \<and> 0 < a \<and> tq_amountIn (bt_quote b) \<le> a \<and>
    signed_as_quoted lib newAta state trader side a opts b \<and>
    (\<exists>bps. slippage_of opts = JsInt bps \<and> 0 \<le> bps \<and> bps \<le> 10000 \<and>
       bt_minAmountOut b = lowered (tq_amountOut (bt_quote b)) bps) \<and>
    bt_minAmountOut b \<le> tq_amountOut (bt_quote b)"
proof -
  note t = built_quote [OF b]
  note bounds = quoteTrade_bounds [OF t ok]
  from built_minimum [OF b ok] obtain bps where s: "slippage_of opts = JsInt bps" "0 \<le> bps" "bps \<le> 10000"
    "bt_minAmountOut b = lowered (tq_amountOut (bt_quote b)) bps" by blast
  note l = lowered_bounds(1,2) [OF bounds(2) s(2,3)]
  have "signed_as_quoted lib newAta state trader side a opts b"
    by (rule built_signed [OF b ok]) (use l bounds(3) s(4) in linarith)+
  with t s l bounds show ?thesis by auto
qed

section \<open>Redemptions\<close>

definition redeem_open :: "launch_state \<Rightarrow> int \<Rightarrow> bool" where
  "redeem_open state amount \<longleftrightarrow>
     ls_phase state = Redeemable \<and> \<not> mi_paused (ls_quoteMint state) \<and> 0 < amount \<and> amount \<le> ls_baseSupply state"

definition redeem_net :: "int \<Rightarrow> int \<Rightarrow> int \<Rightarrow> int \<Rightarrow> int" where
  "redeem_net V S a bps = V * a div S - (V * a div S * bps + 9999) div 10000"

lemma previewRedeem_open:
  assumes "0 \<le> ls_vaultBalance state" "0 \<le> la_exitFeeBps (ls_launch state)" "la_exitFeeBps (ls_launch state) \<le> 10000"
  shows "\<exists>p. previewRedeem state amount = Inr p \<and>
    (rp_blockedReason p = None \<longleftrightarrow> redeem_open state amount \<and>
       redeem_net (ls_vaultBalance state) (ls_baseSupply state) amount (la_exitFeeBps (ls_launch state)) \<noteq> 0) \<and>
    (rp_blockedReason p = None \<longrightarrow>
       (\<exists>q. redeemQuote (ls_vaultBalance state) (ls_baseSupply state) amount (JsInt (la_exitFeeBps (ls_launch state))) = Inr q \<and>
          rp_gross p = rq_gross q \<and> rp_fee p = rq_fee q \<and> rp_net p = rq_net q \<and>
          rq_net q = redeem_net (ls_vaultBalance state) (ls_baseSupply state) amount (la_exitFeeBps (ls_launch state))))"
proof (cases "ls_baseSupply state = 0 \<or> amount \<le> 0 \<or> amount > ls_baseSupply state")
  case True
  then show ?thesis by (auto simp: previewRedeem_def Let_def redeem_open_def)
next
  case False
  let ?V = "ls_vaultBalance state" and ?S = "ls_baseSupply state" and ?f = "la_exitFeeBps (ls_launch state)"
  define q where "q = \<lparr>rq_gross = ?V * amount div ?S, rq_fee = (?V * amount div ?S * ?f + 9999) div 10000,
    rq_net = redeem_net ?V ?S amount ?f\<rparr>"
  have r: "redeemQuote ?V ?S amount (JsInt ?f) = Inr q"
    using False assms by (auto simp: redeemQuote_eq_Inr q_def redeem_net_def)
  have n: "rq_net q = redeem_net ?V ?S amount ?f" by (simp add: q_def)
  from False show ?thesis by (simp add: previewRedeem_def Let_def redeem_open_def r n)
qed

lemma redeemIx_built:
  assumes "0 < ra_amount x" "ra_amount x \<le> U64_MAX"
  shows "\<exists>ix. redeemIx lib x = Inr ix \<and> filter mt_isSigner (ix_keys ix) = [meta_r (ra_holder x) True] \<and>
    readU64 (ix_data ix) 8 = Inr (ra_amount x)"
  using assms readU64_after [of "ra_amount x" "ii_discriminator idl_redeem" "[]"]
  by (simp add: redeemIx_def ix_u64_def ix_bytes_of Let_def stockfloorIx_def U64_MAX_def meta_r_def meta_w_def
      idl_redeem_def)

text \<open>
  C12: a redemption is built exactly when it can succeed: the launch is redeemable and registered, the
  quote asset is not paused, the amount is positive and within the supply, and the payout is not zero.
  What is built is signed by the holder alone and redeems the previewed amount, the payout stays within
  the vault, and the floor of the remaining holders does not fall.
\<close>

theorem redemption_built_when_open:
  assumes "0 \<le> ls_vaultBalance state" "0 \<le> la_exitFeeBps (ls_launch state)" "la_exitFeeBps (ls_launch state) \<le> 10000"
    and "ls_baseSupply state \<le> U64_MAX"
  defines "V \<equiv> ls_vaultBalance state" and "S \<equiv> ls_baseSupply state"
  shows "case buildRedeem lib newAta state holder amount payer of
      Inl _ \<Rightarrow> \<not> (redeem_open state amount \<and> la_poolRegistered (ls_launch state) \<and>
                 redeem_net V S amount (la_exitFeeBps (ls_launch state)) \<noteq> 0)
    | Inr b \<Rightarrow> redeem_open state amount \<and> la_poolRegistered (ls_launch state) \<and>
        0 < rp_net (br_preview b) \<and> rp_net (br_preview b) \<le> V \<and>
        rp_net (br_preview b) = redeem_net V S amount (la_exitFeeBps (ls_launch state)) \<and>
        V * (S - amount) \<le> (V - rp_net (br_preview b)) * S \<and>
        (\<exists>ata ix. br_instructions b = [ata, ix] \<and> filter mt_isSigner (ix_keys ix) = [meta_r holder True] \<and>
           readU64 (ix_data ix) 8 = Inr amount)"
proof -
  from previewRedeem_open [OF assms(1-3), of amount, folded V_def S_def] obtain p where p: "previewRedeem state amount = Inr p"
    "rp_blockedReason p = None \<longleftrightarrow> redeem_open state amount \<and> redeem_net V S amount (la_exitFeeBps (ls_launch state)) \<noteq> 0"
    and q: "rp_blockedReason p = None \<longrightarrow> (\<exists>q. redeemQuote V S amount (JsInt (la_exitFeeBps (ls_launch state))) = Inr q \<and>
       rp_gross p = rq_gross q \<and> rp_fee p = rq_fee q \<and> rp_net p = rq_net q \<and>
       rq_net q = redeem_net V S amount (la_exitFeeBps (ls_launch state)))"
    by - (erule exE, (erule conjE)+, rule that)
  show ?thesis
  proof (cases "rp_blockedReason p = None \<and> la_poolRegistered (ls_launch state)")
    case True
    with q obtain q where q: "redeemQuote V S amount (JsInt (la_exitFeeBps (ls_launch state))) = Inr q"
      "rp_net p = rq_net q" "rq_net q = redeem_net V S amount (la_exitFeeBps (ls_launch state))" by auto
    have op: "redeem_open state amount" "rq_net q \<noteq> 0" using True p q by simp_all
    from True obtain k where k: "launchKeysFromAccount (ls_launch state) None = Inr k"
      by (auto simp: launchKeysFromAccount_def)
    obtain ix where ix: "redeemIx lib \<lparr>ra_holder = holder, ra_keys = k, ra_amount = amount,
        ra_holderBaseAccount = None, ra_holderQuoteAccount = None\<rparr> = Inr ix"
      "filter mt_isSigner (ix_keys ix) = [meta_r holder True]" "readU64 (ix_data ix) 8 = Inr amount"
      using redeemIx_built [of "\<lparr>ra_holder = holder, ra_keys = k, ra_amount = amount,
        ra_holderBaseAccount = None, ra_holderQuoteAccount = None\<rparr>" lib] op assms(4) by (auto simp: redeem_open_def)
    have "0 \<le> rq_net q" "rq_net q \<le> V" "V * (S - amount) \<le> (V - rq_net q) * S"
      using redeem.fee_part [OF q(1)] redeem.vault_left(1) [OF q(1)] redeem.floor_step [OF q(1)] by simp_all
    with True p q op k ix show ?thesis by (simp add: buildRedeem_def)
  next
    case False
    then have "\<not> (redeem_open state amount \<and> la_poolRegistered (ls_launch state) \<and>
        redeem_net V S amount (la_exitFeeBps (ls_launch state)) \<noteq> 0)"
      and "\<exists>e. buildRedeem lib newAta state holder amount payer = Inl e"
      using p by (auto simp: buildRedeem_def launchKeysFromAccount_def split: option.splits)
    then show ?thesis by auto
  qed
qed

section \<open>Instances\<close>

definition example_quote_mint :: mint_info where
  "example_quote_mint =
     \<lparr>mi_mintAuthority = None, mi_supply = 1000000, mi_decimals = 8, mi_isInitialized = True,
      mi_freezeAuthority = None, mi_scaledUiAmount = None, mi_paused = False, mi_transferHookProgramId = None\<rparr>"

definition example_state :: "launch_phase \<Rightarrow> launch_state" where
  "example_state phase =
     \<lparr>ls_address = replicate 32 20, ls_launch = example_launch, ls_keys = example_keys,
      ls_claimer = replicate 32 21, ls_vaultAuthority = replicate 32 22, ls_vault = replicate 32 23,
      ls_claimerBaseAccount = replicate 32 24, ls_dbcConfig = example_config,
      ls_dbcPool = Some example_virtual_pool, ls_baseMint = None, ls_quoteMint = example_quote_mint,
      ls_vaultBalance = 1000, ls_claimerBaseBalance = Some 5, ls_baseSupply = 300,
      ls_clock = \<lparr>ck_slot = 5, ck_unixTimestamp = 10\<rparr>, ls_dbcCurrentPoint = 10, ls_quoteMultiplier = JsInt 1,
      ls_curveComplete = (phase \<noteq> Presale), ls_migrated = (phase = Graduated \<or> phase = Redeemable),
      ls_phase = phase, ls_progress = \<lparr>pg_quoteReserve = 0, pg_threshold = 1000000, pg_fraction = Fin 0\<rparr>,
      ls_damm = \<lparr>di_pool = replicate 32 25, di_config = replicate 32 26, di_state = Some example_pool\<rparr>,
      ls_positions = [], ls_reservedName = False, ls_partnerSurplus = 0,
      ls_floor = \<lparr>fi_vaultRaw = 1000, fi_supply = 300, fi_exitFeeBps = 300, fi_floorQ64 = 0\<rparr>,
      ls_sqrtPriceX64 = None\<rparr>"

definition plain_ata :: ata_builder where
  "plain_ata payer account owner mint program ataProgram =
     \<lparr>ix_programId = ataProgram, ix_keys = [meta_w payer True, w0 account, r0 owner, r0 mint, r0 program], ix_data = [1]\<rparr>"

lemma example_state_venues: "venues_ok (example_state phase)"
  using pool_ok_example wf_example_pool wf_example_pool_fees
  by (simp add: venues_ok_def example_state_def example_virtual_pool_def bounds_defs)

lemma example_presale_quote: "quoteTrade (example_state Presale) Buy 10000 True = Inr (dbc_quote Buy ExactIn example_buy_quote)"
proof -
  have "presale_swap (example_state Presale) example_virtual_pool Buy 10000 ExactIn = example_buy"
    by (simp add: presale_swap_def example_state_def example_buy_def example_swap_def)
  then show ?thesis
    using example_buy_returns by (simp add: quoteTrade_def example_state_def)
qed

lemma built_trade_matches_quote_witness:
  "\<exists>b. buildTrade plain_lib plain_ata (example_state Presale) PublicKey_default Buy 10000 default_options = Inr b \<and>
     signed_as_quoted plain_lib plain_ata (example_state Presale) PublicKey_default Buy 10000 default_options b \<and>
     bt_minAmountOut b = 9703"
proof -
  obtain input "output" where io: "trade_accounts plain_lib (ls_keys (example_state Presale)) PublicKey_default Buy = (input, output)"
    by fastforce
  have "sq_outputAmount example_buy_quote = 9802" by code_simp
  then have "dbcSwapSlippageLimit example_buy_quote ExactIn (JsInt 100) = Inr 9703"
    by (simp add: dbcSwapSlippageLimit_def)
  then obtain b where b: "buildTrade plain_lib plain_ata (example_state Presale) PublicKey_default Buy 10000 default_options = Inr b"
    "bt_minAmountOut b = 9703"
    by (auto simp: buildTrade_def default_options_def example_presale_quote io dbc_quote_def Let_def)
  with built_trade_matches_quote [OF b(1) example_state_venues] show ?thesis by blast
qed

lemma redemption_built_when_open_witness:
  "\<exists>b. buildRedeem plain_lib plain_ata (example_state Redeemable) PublicKey_default 100 None = Inr b \<and>
     rp_net (br_preview b) = 323"
proof -
  have "case buildRedeem plain_lib plain_ata (example_state Redeemable) PublicKey_default 100 None of
      Inl _ \<Rightarrow> \<not> (redeem_open (example_state Redeemable) 100 \<and> la_poolRegistered example_launch \<and>
        redeem_net 1000 300 100 300 \<noteq> 0)
    | Inr b \<Rightarrow> rp_net (br_preview b) = redeem_net 1000 300 100 300"
    using redemption_built_when_open [where state = "example_state Redeemable" and lib = plain_lib and newAta = plain_ata
        and holder = PublicKey_default and amount = 100 and payer = None]
    by (auto simp: example_state_def example_launch_def bounds_defs split: sum.splits)
  moreover have "redeem_open (example_state Redeemable) 100" "la_poolRegistered example_launch"
    "redeem_net 1000 300 100 300 = 323"
    by (simp_all add: redeem_open_def example_state_def example_quote_mint_def example_launch_def redeem_net_def)
  ultimately show ?thesis by (auto split: sum.splits)
qed

end
