(* ===== verification/ProgramLogs.thy ===== *)
theory ProgramLogs
  imports FloorMath
begin

text \<open>
  The log scans of \<^verbatim>\<open>packages/sdk/src/chain.ts\<close>: the Anchor error of a failed transaction and the return
  data of a simulation. A regular expression without alternatives is a scan: the unanchored one tries the
  suffixes of the line from the left, and its classes exclude the character that follows them, so the
  greedy match is the only one.
\<close>

definition is_word_char :: "char \<Rightarrow> bool" where
  "is_word_char c \<longleftrightarrow> (let n = (of_char c :: nat) in
     (48 \<le> n \<and> n \<le> 57) \<or> (65 \<le> n \<and> n \<le> 90) \<or> n = 95 \<or> (97 \<le> n \<and> n \<le> 122))"

definition strip_prefix :: "string \<Rightarrow> string \<Rightarrow> string option" where
  "strip_prefix p s = (if take (length p) s = p then Some (drop (length p) s) else None)"

record anchor_error =
  ae_name :: string
  ae_code :: int

definition code_mark :: string where "code_mark = ''Error Code: ''"
definition number_mark :: string where "number_mark = ''. Error Number: ''"

definition anchor_error_here :: "string \<Rightarrow> anchor_error option" where
  "anchor_error_here s =
     (case strip_prefix code_mark s of None \<Rightarrow> None
      | Some r \<Rightarrow> (let name = takeWhile is_word_char r
          in if name = [] then None
             else case strip_prefix number_mark (drop (length name) r) of None \<Rightarrow> None
               | Some d \<Rightarrow> (let digits = takeWhile is_digit d
                   in if digits = [] then None else Some \<lparr>ae_name = name, ae_code = digits_value digits\<rparr>)))"

fun anchor_error_in :: "string \<Rightarrow> anchor_error option" where
  "anchor_error_in [] = anchor_error_here []"
| "anchor_error_in (c # s) = (case anchor_error_here (c # s) of Some e \<Rightarrow> Some e | None \<Rightarrow> anchor_error_in s)"

fun anchorErrorFromLogs :: "string list \<Rightarrow> anchor_error option" where
  "anchorErrorFromLogs [] = None"
| "anchorErrorFromLogs (l # logs) =
     (case anchor_error_in l of Some e \<Rightarrow> Some e | None \<Rightarrow> anchorErrorFromLogs logs)"

definition return_line :: "string \<Rightarrow> (string \<times> string) option" where
  "return_line l =
     (case strip_prefix ''Program return: '' l of None \<Rightarrow> None
      | Some r \<Rightarrow> (let program = takeWhile (\<lambda>c. \<not> is_space c) r
          in if program = [] then None
             else case drop (length program) r of
                 [] \<Rightarrow> None
               | c # data \<Rightarrow> if c = CHR '' '' \<and> list_all (\<lambda>c. \<not> is_space c) data then Some (program, data) else None))"

definition returnDataFromLogs :: "string list \<Rightarrow> (string \<times> string) option" where
  "returnDataFromLogs logs = fold (\<lambda>l found. case return_line l of Some m \<Rightarrow> Some m | None \<Rightarrow> found) logs None"

section \<open>What the scans find\<close>

lemma strip_prefix_eq_Some: "strip_prefix p s = Some r \<longleftrightarrow> s = p @ r"
  by (auto simp: strip_prefix_def) (metis append_take_drop_id)

lemma strip_prefix_append [simp]: "strip_prefix p (p @ r) = Some r"
  by (simp add: strip_prefix_eq_Some)

lemma takeWhile_stop: "list_all P xs \<Longrightarrow> \<not> P y \<Longrightarrow> takeWhile P (xs @ y # ys) = xs"
  by (induction xs) auto

text \<open>The last well-formed return line wins.\<close>

lemma returnDataFromLogs_snoc:
  "returnDataFromLogs (logs @ [l]) = (case return_line l of Some m \<Rightarrow> Some m | None \<Rightarrow> returnDataFromLogs logs)"
  by (cases "return_line l") (simp_all add: returnDataFromLogs_def)

lemma anchor_error_here_line:
  assumes "name \<noteq> []" "list_all is_word_char name" "digits \<noteq> []" "list_all is_digit digits"
    and "rest = [] \<or> \<not> is_digit (hd rest)"
  shows "anchor_error_here (code_mark @ name @ number_mark @ digits @ rest) =
    Some \<lparr>ae_name = name, ae_code = digits_value digits\<rparr>"
proof -
  obtain m where mark: "number_mark = CHR ''.'' # m" by (simp add: number_mark_def)
  have name: "takeWhile is_word_char (name @ number_mark @ digits @ rest) = name"
    using assms(2) takeWhile_stop [of is_word_char name "CHR ''.''" "m @ digits @ rest"]
    by (simp add: is_word_char_def mark)
  have digits: "takeWhile is_digit (digits @ rest) = digits"
    using assms(4,5) by (cases rest) (simp_all add: takeWhile_stop list_all_iff takeWhile_eq_all_conv)
  show ?thesis using assms(1,3) by (simp add: anchor_error_here_def name digits Let_def)
qed

lemma anchor_error_in_found:
  assumes "\<And>k. k < length pre \<Longrightarrow> anchor_error_here (drop k (pre @ s)) = None" "anchor_error_here s = Some e"
  shows "anchor_error_in (pre @ s) = Some e"
  using assms
proof (induction pre)
  case Nil
  then show ?case by (cases s) simp_all
next
  case (Cons c pre)
  have "anchor_error_here (c # pre @ s) = None" using Cons.prems(1) [of 0] by simp
  moreover have "anchor_error_here (drop k (pre @ s)) = None" if "k < length pre" for k
    using Cons.prems(1) [of "Suc k"] that by simp
  ultimately show ?case using Cons.IH Cons.prems(2) by simp
qed

end
