(* ===== verification/Crank.thy ===== *)
theory Crank
  imports LaunchState MeteoraInstructions Transactions ProgramLogs
begin

text \<open>
  \<^verbatim>\<open>packages/sdk/src/crank.ts\<close>: the permissionless maintenance of a launch. \<open>planCrank\<close> orders the actions
  that are due, \<open>buildCrankAction\<close> makes the instructions of one, \<open>runCrank\<close> executes the first due action,
  reads the chain again and plans again, never trying again what failed and is still due, \<open>runCrankAll\<close>
  runs every launch. The chain is a world \<open>'w\<close> that the sender's calls move forward; what others do to the
  chain meanwhile is part of how it moves. The callback \<open>onStep\<close> is a function of the world too.
\<close>

section \<open>Actions\<close>

datatype crank_action =
    RegisterPool pubkey
  | HarvestCurveFees (ca_partnerQuoteFee: int) (ca_partnerBaseFee: int) (ca_createsClaimerBaseAccount: bool)
  | HarvestMigrationFee (ca_expectedQuote: int) (ca_platform: int) (ca_creator: int) (ca_vault: int)
  | HarvestSurplus int
  | Migrate (ca_dammConfig: pubkey) (ca_migrationPool: pubkey)
  | SyncMigration
  | HarvestLpFees (ca_dammPool: pubkey) (ca_position: pubkey) (ca_positionNftAccount: pubkey) (ca_pendingQuote: int)
      (ca_pendingBase: int)
  | BurnClaimerBase int

fun action_kind :: "crank_action \<Rightarrow> string" where
  "action_kind (RegisterPool _) = ''register_pool''"
| "action_kind (HarvestCurveFees _ _ _) = ''harvest_curve_fees''"
| "action_kind (HarvestMigrationFee _ _ _ _) = ''harvest_migration_fee''"
| "action_kind (HarvestSurplus _) = ''harvest_surplus''"
| "action_kind (Migrate _ _) = ''migrate''"
| "action_kind SyncMigration = ''sync_migration''"
| "action_kind (HarvestLpFees _ _ _ _ _) = ''harvest_lp_fees''"
| "action_kind (BurnClaimerBase _) = ''burn_claimer_base''"

record crank_input =
  ci_launch :: launch_account
  ci_keys :: launch_keys
  ci_dbcConfig :: dbc_pool_config
  ci_dbcPool :: "dbc_virtual_pool option"
  ci_curveComplete :: bool
  ci_claimerBaseBalance :: "int option"
  ci_positions :: "claimer_position list"
  ci_damm :: damm_info
  ci_partnerSurplus :: int
  ci_quoteMint :: "mint_info option"
  ci_reservedName :: "bool option"

definition crank_input_of :: "launch_state \<Rightarrow> crank_input" where
  "crank_input_of s =
     \<lparr>ci_launch = ls_launch s, ci_keys = ls_keys s, ci_dbcConfig = ls_dbcConfig s, ci_dbcPool = ls_dbcPool s,
      ci_curveComplete = ls_curveComplete s, ci_claimerBaseBalance = ls_claimerBaseBalance s,
      ci_positions = ls_positions s, ci_damm = ls_damm s, ci_partnerSurplus = ls_partnerSurplus s,
      ci_quoteMint = Some (ls_quoteMint s), ci_reservedName = Some (ls_reservedName s)\<rparr>"

record plan_options =
  op_minCurveFeeQuote :: "int option"
  op_minLpFeeQuote :: "int option"
  op_minLpFeeBase :: "int option"
  op_includeForeignPositions :: "bool option"
  op_maxLpHarvests :: "int option"
  op_minClaimerBaseBurn :: "int option"
  op_skipMigration :: "bool option"

definition default_plan :: plan_options where
  "default_plan =
     \<lparr>op_minCurveFeeQuote = None, op_minLpFeeQuote = None, op_minLpFeeBase = None,
      op_includeForeignPositions = None, op_maxLpHarvests = None, op_minClaimerBaseBurn = None,
      op_skipMigration = None\<rparr>"

definition defaultMinLpFeeQuote :: "int \<Rightarrow> int" where
  "defaultMinLpFeeQuote quoteDecimals = 10 ^ nat (max 0 (quoteDecimals - 5))"

definition defaultMinClaimerBaseBurn :: "int \<Rightarrow> int" where
  "defaultMinClaimerBaseBurn baseDecimals = 10 ^ nat (max 0 baseDecimals)"

definition DEFAULT_QUOTE_DECIMALS :: int where [simp]: "DEFAULT_QUOTE_DECIMALS = 8"
definition DEFAULT_MAX_LP_HARVESTS :: int where [simp]: "DEFAULT_MAX_LP_HARVESTS = 4"

text \<open>The key is a string; \<open>toBase58\<close> of web3.js is a parameter.\<close>

definition crankActionKey :: "(pubkey \<Rightarrow> string) \<Rightarrow> crank_action \<Rightarrow> string" where
  "crankActionKey toBase58 a =
     (case a of HarvestLpFees _ position _ _ _ \<Rightarrow> action_kind a @ '':'' @ toBase58 position | _ \<Rightarrow> action_kind a)"

section \<open>The plan\<close>

definition default_to :: "'a option \<Rightarrow> 'a \<Rightarrow> 'a" where
  "default_to a d = (case a of Some x \<Rightarrow> x | None \<Rightarrow> d)"

definition quote_decimals :: "crank_input \<Rightarrow> int" where
  "quote_decimals s = (case ci_quoteMint s of Some m \<Rightarrow> mi_decimals m | None \<Rightarrow> DEFAULT_QUOTE_DECIMALS)"

definition burn_due :: "crank_input \<Rightarrow> plan_options \<Rightarrow> int option" where
  "burn_due s opts =
     (let minBurn = default_to (op_minClaimerBaseBurn opts) (defaultMinClaimerBaseBurn (pc_tokenDecimal (ci_dbcConfig s)))
      in case ci_claimerBaseBalance s of
           None \<Rightarrow> None
         | Some b \<Rightarrow> if b \<ge> minBurn \<and> b > 0 then Some b else None)"

definition plan_curve_fees :: "crank_input \<Rightarrow> plan_options \<Rightarrow> dbc_virtual_pool \<Rightarrow> crank_action list" where
  "plan_curve_fees s opts pool =
     (let minCurve = default_to (op_minCurveFeeQuote opts) (defaultMinLpFeeQuote (quote_decimals s))
      in if vp_partnerQuoteFee pool \<ge> minCurve \<or> vp_partnerBaseFee pool > 0
         then [HarvestCurveFees (vp_partnerQuoteFee pool) (vp_partnerBaseFee pool) (ci_claimerBaseBalance s = None)]
         else [])"

definition plan_migration_fee :: "crank_input \<Rightarrow> dbc_virtual_pool \<Rightarrow> crank_action list result" where
  "plan_migration_fee s pool =
     (if \<not> la_migrationFeeHarvested (ci_launch s) \<and>
         vp_migrationFeeWithdrawStatus pool AND PARTNER_MIGRATION_FEE_MASK = 0
      then (let c = ci_dbcConfig s;
                t = pc_migrationQuoteThreshold c;
                fee = t - (t * (100 - pc_migrationFeePercentage c) + 99) sdiv 100;
                dbcCreator = (fee * pc_creatorMigrationFeePercentage c) sdiv 100;
                partner = fee - dbcCreator
            in bindE (if la_version (ci_launch s) \<ge> LAUNCH_VERSION_FEE_SPLIT then graduationSplit t partner
                      else Inr \<lparr>fs_platform = 0, fs_creator = 0, fs_vault = partner\<rparr>) (\<lambda>split.
               Inr [HarvestMigrationFee partner (fs_platform split) (fs_creator split) (fs_vault split)]))
      else Inr [])"

definition plan_complete :: "crank_input \<Rightarrow> plan_options \<Rightarrow> dbc_virtual_pool \<Rightarrow> crank_action list result" where
  "plan_complete s opts pool =
     (if ci_curveComplete s
      then bindE (plan_migration_fee s pool) (\<lambda>fee. Inr (fee @
             (if \<not> la_surplusHarvested (ci_launch s) \<and> vp_isPartnerWithdrawSurplus pool = 0
              then [HarvestSurplus (ci_partnerSurplus s)] else []) @
             (if \<not> default_to (op_skipMigration opts) False \<and> vp_isMigrated pool = 0 \<and>
                 vp_migrationProgress pool = LockedVesting
              then [Migrate (di_config (ci_damm s)) (di_pool (ci_damm s))] else [])))
      else Inr [])"

definition plan_sync :: "crank_input \<Rightarrow> dbc_virtual_pool \<Rightarrow> crank_action list" where
  "plan_sync s pool =
     (if vp_isMigrated pool = 1 \<and> \<not> la_migrated (ci_launch s) \<and> la_poolRegistered (ci_launch s)
      then [SyncMigration] else [])"

definition lp_in_scope :: "crank_input \<Rightarrow> plan_options \<Rightarrow> claimer_position \<Rightarrow> bool" where
  "lp_in_scope s opts p \<longleftrightarrow>
     default_to (op_includeForeignPositions opts) False \<or> ps_dammPool p = di_pool (ci_damm s)"

definition lp_worth :: "crank_input \<Rightarrow> plan_options \<Rightarrow> claimer_position \<Rightarrow> bool" where
  "lp_worth s opts p \<longleftrightarrow>
     ps_pendingB p \<ge> default_to (op_minLpFeeQuote opts) (defaultMinLpFeeQuote (quote_decimals s)) \<or>
     (case op_minLpFeeBase opts of Some minBase \<Rightarrow> ps_pendingA p \<ge> minBase \<and> ps_pendingA p > 0 | None \<Rightarrow> False)"

definition lp_action :: "claimer_position \<Rightarrow> crank_action" where
  "lp_action p = HarvestLpFees (ps_dammPool p) (ps_position p) (ps_positionNftAccount p) (ps_pendingB p) (ps_pendingA p)"

text \<open>The sort is stable and descending in the pending quote fee; \<open>slice(0, max(0, n))\<close> keeps the first \<open>n\<close>.\<close>

definition plan_lp :: "crank_input \<Rightarrow> plan_options \<Rightarrow> dbc_virtual_pool \<Rightarrow> crank_action list" where
  "plan_lp s opts pool =
     (if vp_isMigrated pool = 1 \<or> la_migrated (ci_launch s)
      then map lp_action
             (take (nat (max 0 (default_to (op_maxLpHarvests opts) DEFAULT_MAX_LP_HARVESTS)))
               (sort_key (\<lambda>p. - ps_pendingB p)
                 (filter (lp_worth s opts) (filter (lp_in_scope s opts) (ci_positions s)))))
      else [])"

fun harvest_burns :: "crank_action \<Rightarrow> bool" where
  "harvest_burns (HarvestCurveFees _ _ _) = True"
| "harvest_burns (HarvestLpFees _ _ _ _ _) = True"
| "harvest_burns _ = False"

definition burn_actions :: "crank_input \<Rightarrow> plan_options \<Rightarrow> crank_action list" where
  "burn_actions s opts = (case burn_due s opts of Some b \<Rightarrow> [BurnClaimerBase b] | None \<Rightarrow> [])"

definition due_actions ::
  "crank_input \<Rightarrow> plan_options \<Rightarrow> dbc_virtual_pool \<Rightarrow> crank_action list \<Rightarrow> crank_action list" where
  "due_actions s opts pool completed =
     (if \<not> la_poolRegistered (ci_launch s) then [RegisterPool (lk_pool (ci_keys s))] else []) @
     plan_curve_fees s opts pool @ completed @ plan_sync s pool @ plan_lp s opts pool"

definition planCrank :: "crank_input \<Rightarrow> plan_options \<Rightarrow> crank_action list result" where
  "planCrank s opts =
     (case ci_dbcPool s of
        None \<Rightarrow> Inr (burn_actions s opts)
      | Some pool \<Rightarrow>
          if \<not> la_poolRegistered (ci_launch s) \<and> default_to (ci_reservedName s) False
          then Inr (burn_actions s opts)
          else bindE (plan_complete s opts pool) (\<lambda>completed.
               let actions = due_actions s opts pool completed
               in Inr (actions @ (if \<not> list_ex harvest_burns actions then burn_actions s opts else []))))"

section \<open>Instructions of an action\<close>

record built_crank_action =
  ba_instructions :: "tx_instruction list"
  ba_signers :: "pubkey list"
  ba_computeUnitLimit :: int

definition one_instruction :: "tx_instruction result \<Rightarrow> cu_limit \<Rightarrow> built_crank_action result" where
  "one_instruction r limit =
     bindE r (\<lambda>ix. Inr \<lparr>ba_instructions = [ix], ba_signers = [], ba_computeUnitLimit = CU_LIMITS limit\<rparr>)"

text \<open>\<open>fresh1\<close> and \<open>fresh2\<close> are the keypairs generated for the position NFT mints of a migration.\<close>

definition buildCrankAction ::
  "solana_lib \<Rightarrow> ata_builder \<Rightarrow> pubkey \<Rightarrow> pubkey \<Rightarrow> launch_state \<Rightarrow> crank_action \<Rightarrow> pubkey \<Rightarrow> built_crank_action result" where
  "buildCrankAction lib newAta fresh1 fresh2 state action payer =
     (let L = ls_launch state
      in bindE (launchKeysFromAccount L (Some (lk_pool (ls_keys state)))) (\<lambda>keys.
         case action of
           RegisterPool pool \<Rightarrow> one_instruction (registerPoolIx lib (la_config L) pool (la_baseMint L)) registerPool
         | HarvestCurveFees _ _ createsAccount \<Rightarrow>
             bindE (harvestCurveFeesIx lib payer keys) (\<lambda>harvest.
               let harvestCu = CU_LIMITS (if createsAccount then harvestCurveFeesCreatesAta else harvestCurveFees)
               in if la_version L < LAUNCH_VERSION_FEE_SPLIT
                  then Inr \<lparr>ba_instructions = [harvest], ba_signers = [], ba_computeUnitLimit = harvestCu\<rparr>
                  else Inr \<lparr>ba_instructions =
                              [createAtaIdempotentIx lib newAta payer PLATFORM_TREASURY (la_quoteMint L)
                                 (la_quoteTokenProgram L),
                               harvest],
                            ba_signers = [], ba_computeUnitLimit = harvestCu + CU_LIMITS createAta\<rparr>)
         | HarvestMigrationFee _ _ _ _ \<Rightarrow> one_instruction (harvestMigrationFeeIx lib keys None) harvestMigrationFee
         | HarvestSurplus _ \<Rightarrow> one_instruction (harvestSurplusIx lib keys) harvestSurplus
         | SyncMigration \<Rightarrow> one_instruction (syncMigrationIx lib (la_config L) (lk_pool keys)) syncMigration
         | Migrate dammConfig _ \<Rightarrow>
             (let m = dbcMigrationDammV2Ix lib fresh1 fresh2
                        (dbcPoolKeys lib (la_config L) (la_baseMint L) (la_quoteMint L) (Some (la_quoteTokenProgram L)) None)
                        payer dammConfig None None
              in Inr \<lparr>ba_instructions = [mg_instruction m], ba_signers = mg_signers m,
                      ba_computeUnitLimit = CU_LIMITS dbcMigrationDammV2\<rparr>)
         | HarvestLpFees dammPool position nftAccount _ _ \<Rightarrow>
             one_instruction
               (harvestLpFeesIx lib \<lparr>hl_payer = payer, hl_keys = keys, hl_dammPool = dammPool, hl_position = position,
                  hl_positionNftAccount = nftAccount, hl_creator = None\<rparr>) harvestLpFees
         | BurnClaimerBase _ \<Rightarrow> one_instruction (burnClaimerBaseIx lib (la_config L) (la_baseMint L)) burnClaimerBase))"

section \<open>Running the crank\<close>

datatype send_failure =
    TransactionFailed string "string list" "string option"
  | OtherFailure string "string list option"

record send_options =
  so_signers :: "pubkey list"
  so_computeUnitLimit :: int
  so_computeUnitPrice :: "jsnum option"
  so_label :: string

record send_result =
  sr_signature :: string
  sr_unitsConsumed :: "int option"

datatype step_status = Executed | Skipped | Failed

record crank_step =
  cs_action :: crank_action
  cs_status :: step_status
  cs_signature :: "string option"
  cs_unitsConsumed :: "int option"
  cs_reason :: "string option"
  cs_errorName :: "string option"

text \<open>
  The sender and the libraries behind it: \<open>ce_reader w\<close> is the node's view of the world, \<open>ce_send\<close> submits
  a transaction and gives the world the next call sees, \<open>ce_keypairs\<close> are the keys generated next, and
  \<open>ce_onStep\<close> is the caller's callback, told of each step when it is recorded.
\<close>

record 'w crank_env =
  ce_lib :: solana_lib
  ce_newAta :: ata_builder
  ce_coders :: account_coders
  ce_utf8 :: "bytes \<Rightarrow> int list"
  ce_toBase58 :: "pubkey \<Rightarrow> string"
  ce_payer :: pubkey
  ce_reader :: "'w \<Rightarrow> chain_reader"
  ce_keypairs :: "'w \<Rightarrow> pubkey \<times> pubkey"
  ce_send :: "tx_instruction list \<Rightarrow> send_options \<Rightarrow> 'w \<Rightarrow> (send_failure + send_result) \<times> 'w"
  ce_onStep :: "crank_step \<Rightarrow> 'w \<Rightarrow> 'w"

record crank_run_result =
  cr_launch :: pubkey
  cr_steps :: "crank_step list"
  cr_remaining :: "crank_action list"
  cr_finalState :: launch_state

datatype run_error = Thrown js_error | SendThrown send_failure

fun errorInfo :: "send_failure \<Rightarrow> string \<times> string option" where
  "errorInfo (TransactionFailed message logs name) = (message, name)"
| "errorInfo (OtherFailure message logs) =
     (message, case logs of None \<Rightarrow> None | Some l \<Rightarrow> map_option ae_name (anchorErrorFromLogs l))"

definition executed_step :: "crank_action \<Rightarrow> send_result \<Rightarrow> crank_step" where
  "executed_step action res =
     \<lparr>cs_action = action, cs_status = Executed, cs_signature = Some (sr_signature res),
      cs_unitsConsumed = sr_unitsConsumed res, cs_reason = None, cs_errorName = None\<rparr>"

definition failed_step :: "crank_action \<Rightarrow> send_failure \<Rightarrow> crank_step" where
  "failed_step action e =
     \<lparr>cs_action = action, cs_status = Failed, cs_signature = None, cs_unitsConsumed = None,
      cs_reason = Some (fst (errorInfo e)), cs_errorName = snd (errorInfo e)\<rparr>"

definition skipped_step :: "crank_action \<Rightarrow> send_failure \<Rightarrow> crank_step" where
  "skipped_step action e =
     \<lparr>cs_action = action, cs_status = Skipped, cs_signature = None, cs_unitsConsumed = None,
      cs_reason = Some (''no longer due after the failure (done concurrently): '' @
        takeWhile (\<lambda>c. c \<noteq> CHR 0x0A) (fst (errorInfo e))),
      cs_errorName = snd (errorInfo e)\<rparr>"

definition fetch_state :: "'w crank_env \<Rightarrow> launch_ref \<Rightarrow> 'w \<Rightarrow> launch_state option result" where
  "fetch_state env ref w = fetchLaunchState (ce_reader env w) (ce_lib env) (ce_coders env) (ce_utf8 env) ref True"

text \<open>
  One round after a plan: build, send, read again. It gives the new state, the step and the failed key. An
  executed step is recorded before the read, a failed or skipped one after it.
\<close>

definition crankRound ::
  "'w crank_env \<Rightarrow> plan_options \<Rightarrow> jsnum option \<Rightarrow> pubkey \<Rightarrow> launch_state \<Rightarrow> crank_action \<Rightarrow> 'w \<Rightarrow>
     (run_error + launch_state \<times> crank_step \<times> string option) \<times> 'w" where
  "crankRound env opts price launch state action w =
     (case buildCrankAction (ce_lib env) (ce_newAta env) (fst (ce_keypairs env w)) (snd (ce_keypairs env w)) state action
             (ce_payer env) of
        Inl e \<Rightarrow> (Inl (Thrown e), w)
      | Inr built \<Rightarrow>
          (case ce_send env (ba_instructions built)
                  \<lparr>so_signers = ba_signers built, so_computeUnitLimit = ba_computeUnitLimit built,
                   so_computeUnitPrice = price, so_label = action_kind action\<rparr> w of
             (Inr res, w1) \<Rightarrow>
               (let w' = ce_onStep env (executed_step action res) w1
                in case fetch_state env (RefLaunch launch) w' of
                     Inl e \<Rightarrow> (Inl (Thrown e), w')
                   | Inr None \<Rightarrow> (Inl (Thrown (GenericError ''launch disappeared'')), w')
                   | Inr (Some nxt) \<Rightarrow> (Inr (nxt, executed_step action res, None), w'))
           | (Inl failure, w') \<Rightarrow>
               (case fetch_state env (RefLaunch launch) w' of
                  Inl e \<Rightarrow> (Inl (Thrown e), w')
                | Inr None \<Rightarrow> (Inl (SendThrown failure), w')
                | Inr (Some fresh) \<Rightarrow>
                    (case planCrank (crank_input_of fresh) opts of
                       Inl e \<Rightarrow> (Inl (Thrown e), w')
                     | Inr plan \<Rightarrow>
                         (let key = crankActionKey (ce_toBase58 env) action
                          in if list_ex (\<lambda>a. crankActionKey (ce_toBase58 env) a = key) plan
                             then (Inr (fresh, failed_step action failure, Some key),
                                   ce_onStep env (failed_step action failure) w')
                             else (Inr (fresh, skipped_step action failure, None),
                                   ce_onStep env (skipped_step action failure) w'))))))"

text \<open>The loop of \<open>runCrank\<close>; the natural number is \<open>maxActions - i\<close>.\<close>

fun crankLoop ::
  "'w crank_env \<Rightarrow> plan_options \<Rightarrow> jsnum option \<Rightarrow> pubkey \<Rightarrow> nat \<Rightarrow> launch_state \<Rightarrow> string list \<Rightarrow> crank_step list \<Rightarrow> 'w \<Rightarrow>
     (run_error + launch_state \<times> crank_step list) \<times> 'w" where
  "crankLoop env opts price launch 0 state failedKeys steps w = (Inr (state, steps), w)"
| "crankLoop env opts price launch (Suc n) state failedKeys steps w =
     (case planCrank (crank_input_of state) opts of
        Inl e \<Rightarrow> (Inl (Thrown e), w)
      | Inr plan \<Rightarrow>
          (case filter (\<lambda>a. crankActionKey (ce_toBase58 env) a \<notin> set failedKeys) plan of
             [] \<Rightarrow> (Inr (state, steps), w)
           | action # _ \<Rightarrow>
               (case crankRound env opts price launch state action w of
                  (Inl e, w') \<Rightarrow> (Inl e, w')
                | (Inr (state', step, failed), w') \<Rightarrow>
                    crankLoop env opts price launch n state'
                      (case failed of Some k \<Rightarrow> k # failedKeys | None \<Rightarrow> failedKeys) (steps @ [step]) w')))"

definition runCrank ::
  "'w crank_env \<Rightarrow> launch_ref \<Rightarrow> plan_options \<Rightarrow> int option \<Rightarrow> jsnum option \<Rightarrow> 'w \<Rightarrow>
     (run_error + crank_run_result) \<times> 'w" where
  "runCrank env ref opts maxActions price w =
     (case fetch_state env ref w of
        Inl e \<Rightarrow> (Inl (Thrown e), w)
      | Inr None \<Rightarrow> (Inl (Thrown (GenericError ''launch not found'')), w)
      | Inr (Some state) \<Rightarrow>
          (case crankLoop env opts price (ls_address state) (nat (default_to maxActions 16)) state [] [] w of
             (Inl e, w') \<Rightarrow> (Inl e, w')
           | (Inr (final, steps), w') \<Rightarrow>
               (case planCrank (crank_input_of final) opts of
                  Inl e \<Rightarrow> (Inl (Thrown e), w')
                | Inr remaining \<Rightarrow>
                    (Inr \<lparr>cr_launch = ls_address state, cr_steps = steps, cr_remaining = remaining,
                          cr_finalState = final\<rparr>, w'))))"

record crank_all_result =
  al_results :: "crank_run_result list"
  al_errors :: "(pubkey \<times> run_error) list"

fun crankAllLoop ::
  "'w crank_env \<Rightarrow> plan_options \<Rightarrow> int option \<Rightarrow> jsnum option \<Rightarrow> pubkey list \<Rightarrow> crank_all_result \<Rightarrow> 'w \<Rightarrow>
     crank_all_result \<times> 'w" where
  "crankAllLoop env opts maxActions price [] acc w = (acc, w)"
| "crankAllLoop env opts maxActions price (launch # rest) acc w =
     (case runCrank env (RefLaunch launch) opts maxActions price w of
        (Inr r, w') \<Rightarrow> crankAllLoop env opts maxActions price rest (acc\<lparr>al_results := al_results acc @ [r]\<rparr>) w'
      | (Inl e, w') \<Rightarrow> crankAllLoop env opts maxActions price rest (acc\<lparr>al_errors := al_errors acc @ [(launch, e)]\<rparr>) w')"

definition runCrankAll ::
  "'w crank_env \<Rightarrow> plan_options \<Rightarrow> int option \<Rightarrow> jsnum option \<Rightarrow> pubkey list option \<Rightarrow> 'w \<Rightarrow>
     (js_error + crank_all_result) \<times> 'w" where
  "runCrankAll env opts maxActions price launches w =
     (case (case launches of Some ls \<Rightarrow> Inr ls
              | None \<Rightarrow> bindE (listLaunches (ce_reader env w)) (\<lambda>ls. Inr (map fst ls))) of
        Inl e \<Rightarrow> (Inl e, w)
      | Inr ls \<Rightarrow> (let (r, w') = crankAllLoop env opts maxActions price ls \<lparr>al_results = [], al_errors = []\<rparr> w
                   in (Inr r, w')))"

end
