(* ===== verification/CrankSafety.thy ===== *)
theory CrankSafety
  imports Crank Trade LaunchResolution "HOL-Library.Multiset"
begin

text \<open>
  What the crank promises: a plan is ordered, names every action once, harvests only positions of the
  launch's own pool worth a transaction, the largest first and at most the allowed number, and never burns
  beside a harvest that burns; a run is bounded, does not repeat what failed, and ends with nothing due
  but what failed.
\<close>

section \<open>The order of a plan\<close>

fun action_rank :: "crank_action \<Rightarrow> nat" where
  "action_rank (RegisterPool _) = 0"
| "action_rank (HarvestCurveFees _ _ _) = 1"
| "action_rank (HarvestMigrationFee _ _ _ _) = 2"
| "action_rank (HarvestSurplus _) = 3"
| "action_rank (Migrate _ _) = 4"
| "action_rank SyncMigration = 5"
| "action_rank (HarvestLpFees _ _ _ _ _) = 6"
| "action_rank (BurnClaimerBase _) = 7"

fun is_lp :: "crank_action \<Rightarrow> bool" where
  "is_lp (HarvestLpFees _ _ _ _ _) = True"
| "is_lp _ = False"

definition earlier :: "crank_action \<Rightarrow> crank_action \<Rightarrow> bool" where
  "earlier a b \<longleftrightarrow> action_rank a < action_rank b \<or>
     is_lp a \<and> is_lp b \<and> ca_position a \<noteq> ca_position b \<and> ca_pendingQuote b \<le> ca_pendingQuote a"

lemma is_lp_rank: "is_lp a \<longleftrightarrow> action_rank a = 6"
  by (cases a) simp_all

lemma key_rank: "crankActionKey b58 a = crankActionKey b58 b \<Longrightarrow> action_rank a = action_rank b"
  by (cases a; cases b) (simp_all add: crankActionKey_def)

lemma earlier_key:
  assumes "earlier a b" "inj b58"
  shows "crankActionKey b58 a \<noteq> crankActionKey b58 b"
proof
  assume eq: "crankActionKey b58 a = crankActionKey b58 b"
  with assms(1) key_rank [OF eq] have "is_lp a" "is_lp b" "ca_position a \<noteq> ca_position b" by (auto simp: earlier_def)
  with eq assms(2) show False by (cases a; cases b) (simp_all add: crankActionKey_def inj_eq)
qed

lemma sorted_wrt_distinct:
  assumes "sorted_wrt R xs" "\<And>x y. R x y \<Longrightarrow> f x \<noteq> f y"
  shows "distinct (map f xs)"
  using assms by (induction xs) fastforce+

text \<open>The plan beyond the registration of reserved names, with each part as the code appends it.\<close>

lemma planCrank_cases:
  assumes "planCrank s opts = Inr plan"
  obtains (burn) "plan = burn_actions s opts"
  | (full) pool completed tail where
      "ci_dbcPool s = Some pool" "plan_complete s opts pool = Inr completed"
      "plan = due_actions s opts pool completed @ tail"
      "tail = [] \<or> tail = burn_actions s opts \<and> \<not> list_ex harvest_burns (due_actions s opts pool completed)"
  using assms by (auto simp: planCrank_def Let_def result_simps split: option.splits if_splits)

lemma burn_actions_cases: "burn_actions s opts = [] \<or> (\<exists>b. burn_due s opts = Some b \<and> burn_actions s opts = [BurnClaimerBase b])"
  by (simp add: burn_actions_def split: option.splits)

lemma complete_ranks:
  assumes "plan_complete s opts pool = Inr completed"
  shows "sorted_wrt (\<lambda>a b. action_rank a < action_rank b) completed" "\<forall>a \<in> set completed. action_rank a \<in> {2, 3, 4}"
  using assms
  by (auto simp: plan_complete_def plan_migration_fee_def Let_def result_simps split: if_splits)

lemma plan_lp_members:
  assumes "a \<in> set (plan_lp s opts pool)"
  obtains p where "p \<in> set (ci_positions s)" "lp_in_scope s opts p" "lp_worth s opts p" "a = lp_action p"
  using assms by (auto simp: plan_lp_def split: if_splits dest!: in_set_takeD)

lemma sorted_wrt_conj: "sorted_wrt P xs \<Longrightarrow> sorted_wrt Q xs \<Longrightarrow> sorted_wrt (\<lambda>x y. P x y \<and> Q x y) xs"
  by (induction xs) auto

lemma distinct_sorted_wrt: "distinct (map f xs) \<longleftrightarrow> sorted_wrt (\<lambda>x y. f x \<noteq> f y) xs"
  by (induction xs) auto

lemma plan_lp_earlier:
  assumes "distinct (map ps_position (ci_positions s))"
  shows "sorted_wrt earlier (plan_lp s opts pool)"
proof -
  let ?xs = "filter (lp_worth s opts) (filter (lp_in_scope s opts) (ci_positions s))"
  let ?ys = "sort_key (\<lambda>p. - ps_pendingB p) ?xs"
  have "distinct (map ps_position ?xs)" using assms by (simp add: distinct_map inj_on_def)
  moreover have "mset (map ps_position ?ys) = mset (map ps_position ?xs)" by simp
  ultimately have "distinct (map ps_position ?ys)" by (metis mset_eq_imp_distinct_iff)
  then have d: "sorted_wrt (\<lambda>x y. ps_position x \<noteq> ps_position y) ?ys" by (simp add: distinct_sorted_wrt)
  have p: "sorted_wrt (\<lambda>x y. ps_pendingB y \<le> ps_pendingB x) ?ys"
    using sorted_sort_key [of "\<lambda>p. - ps_pendingB p" ?xs] by (simp add: sorted_map)
  have "sorted_wrt (\<lambda>x y. earlier (lp_action x) (lp_action y)) ?ys"
    by (rule sorted_wrt_mono_rel [OF _ sorted_wrt_conj [OF d p]]) (simp add: earlier_def lp_action_def)
  then show ?thesis by (simp add: plan_lp_def sorted_wrt_map sorted_wrt_take)
qed

lemma plan_ordered:
  assumes "planCrank s opts = Inr plan" "distinct (map ps_position (ci_positions s))"
  shows "sorted_wrt earlier plan"
  using assms(1)
proof (cases rule: planCrank_cases)
  case burn
  with burn_actions_cases [of s opts] show ?thesis by auto
next
  case (full pool completed tail)
  have sync: "\<forall>a \<in> set (plan_sync s pool). action_rank a = 5" "sorted_wrt earlier (plan_sync s pool)"
    by (auto simp: plan_sync_def)
  have curve: "\<forall>a \<in> set (plan_curve_fees s opts pool). action_rank a = 1" "sorted_wrt earlier (plan_curve_fees s opts pool)"
    by (auto simp: plan_curve_fees_def Let_def)
  have lp: "\<forall>a \<in> set (plan_lp s opts pool). action_rank a = 6"
    by (auto elim!: plan_lp_members simp: lp_action_def)
  have compl: "sorted_wrt earlier completed"
    by (rule sorted_wrt_mono_rel [OF _ complete_ranks(1) [OF full(2)]]) (simp add: earlier_def)
  have tl: "\<forall>a \<in> set tail. action_rank a = 7" "sorted_wrt earlier tail"
    using full(4) burn_actions_cases [of s opts] by auto
  show ?thesis
    using sync curve lp compl tl complete_ranks(2) [OF full(2)] plan_lp_earlier [OF assms(2), of opts pool]
    unfolding full(3) due_actions_def
    by (simp add: sorted_wrt_append) (fastforce simp: earlier_def)
qed

section \<open>What a plan contains\<close>

definition max_lp :: "plan_options \<Rightarrow> nat" where
  "max_lp opts = nat (max 0 (default_to (op_maxLpHarvests opts) DEFAULT_MAX_LP_HARVESTS))"

definition lp_eligible :: "crank_input \<Rightarrow> plan_options \<Rightarrow> claimer_position \<Rightarrow> bool" where
  "lp_eligible s opts p \<longleftrightarrow> p \<in> set (ci_positions s) \<and> lp_in_scope s opts p \<and> lp_worth s opts p"

lemma is_lp_action [simp]: "is_lp (lp_action p)" "ca_pendingQuote (lp_action p) = ps_pendingB p" "harvest_burns (lp_action p)"
  by (simp_all add: lp_action_def)

lemma earlier_rank: "earlier a b \<Longrightarrow> action_rank a \<le> action_rank b"
  by (auto simp: earlier_def is_lp_rank)

text \<open>The harvests of a plan are the ones \<open>plan_lp\<close> appends.\<close>

lemma plan_lp_part:
  assumes "planCrank s opts = Inr plan"
  shows "filter is_lp plan = [] \<or> (\<exists>pool. ci_dbcPool s = Some pool \<and> filter is_lp plan = plan_lp s opts pool)"
  using assms
proof (cases rule: planCrank_cases)
  case burn
  with burn_actions_cases [of s opts] show ?thesis by auto
next
  case (full pool completed tail)
  have "filter is_lp (plan_sync s pool) = []" "filter is_lp (plan_curve_fees s opts pool) = []"
    by (simp_all add: plan_sync_def plan_curve_fees_def Let_def)
  moreover have "filter is_lp completed = []" using complete_ranks(2) [OF full(2)] by (auto simp: filter_empty_conv is_lp_rank)
  moreover have "filter is_lp tail = []" using full(4) burn_actions_cases [of s opts] by auto
  moreover have "filter is_lp (plan_lp s opts pool) = plan_lp s opts pool"
    by (rule filter_True) (auto elim: plan_lp_members)
  ultimately show ?thesis using full(1) by (auto simp: full(3) due_actions_def)
qed

lemma plan_lp_length: "length (plan_lp s opts pool) \<le> max_lp opts"
  by (simp add: plan_lp_def max_lp_def)

text \<open>A position that is due but left out has at most the pending fee of every position that is not.\<close>

lemma plan_lp_largest:
  assumes p: "lp_eligible s opts p" and left: "lp_action p \<notin> set (plan_lp s opts pool)"
    and m: "vp_isMigrated pool = 1 \<or> la_migrated (ci_launch s)"
  shows "length (plan_lp s opts pool) = max_lp opts \<and> (\<forall>a \<in> set (plan_lp s opts pool). ps_pendingB p \<le> ca_pendingQuote a)"
proof -
  define ys where "ys = sort_key (\<lambda>p. - ps_pendingB p) (filter (lp_worth s opts) (filter (lp_in_scope s opts) (ci_positions s)))"
  define n where "n = max_lp opts"
  have lp: "plan_lp s opts pool = map lp_action (take n ys)"
    using m by (simp add: plan_lp_def ys_def n_def max_lp_def)
  have sorted: "sorted_wrt (\<lambda>x y. ps_pendingB y \<le> ps_pendingB x) ys"
    using sorted_sort_key [of "\<lambda>p. - ps_pendingB p"] by (simp add: ys_def sorted_map)
  have "p \<in> set ys" using p by (simp add: ys_def lp_eligible_def)
  moreover have "p \<notin> set (take n ys)" using left by (auto simp: lp)
  ultimately have d: "p \<in> set (drop n ys)" by (metis Un_iff append_take_drop_id set_append)
  then have "n < length ys" by (metis drop_all empty_iff empty_set not_le)
  moreover have "\<forall>x \<in> set (take n ys). ps_pendingB p \<le> ps_pendingB x"
  proof -
    have "sorted_wrt (\<lambda>x y. ps_pendingB y \<le> ps_pendingB x) (take n ys @ drop n ys)" using sorted by simp
    then have "\<forall>x \<in> set (take n ys). \<forall>y \<in> set (drop n ys). ps_pendingB y \<le> ps_pendingB x"
      unfolding sorted_wrt_append by blast
    with d show ?thesis by blast
  qed
  ultimately show ?thesis by (simp add: lp n_def)
qed

lemma plan_burn:
  assumes "planCrank s opts = Inr plan" "BurnClaimerBase b \<in> set plan"
  shows "burn_due s opts = Some b \<and> \<not> list_ex harvest_burns plan"
  using assms(1)
proof (cases rule: planCrank_cases)
  case burn
  with assms(2) burn_actions_cases [of s opts] show ?thesis by auto
next
  case (full pool completed tail)
  have "BurnClaimerBase b \<notin> set (due_actions s opts pool completed)"
    using complete_ranks(2) [OF full(2)]
    by (auto simp: due_actions_def plan_sync_def plan_curve_fees_def Let_def lp_action_def elim!: plan_lp_members)
  with assms(2) full(3,4) burn_actions_cases [of s opts] show ?thesis by auto
qed

lemma plan_fee_split:
  assumes "planCrank s opts = Inr plan" "HarvestMigrationFee e p c v \<in> set plan"
  shows "p + c + v = e"
  using assms(1)
proof (cases rule: planCrank_cases)
  case burn
  with assms(2) burn_actions_cases [of s opts] show ?thesis by auto
next
  case (full pool completed tail)
  have "HarvestMigrationFee e p c v \<in> set completed"
    using assms(2) full(3,4) burn_actions_cases [of s opts]
    by (auto simp: due_actions_def plan_sync_def plan_curve_fees_def Let_def lp_action_def elim!: plan_lp_members
        split: if_splits)
  with full(2) show ?thesis
    using graduation_split.conserves
    by (fastforce simp: plan_complete_def plan_migration_fee_def Let_def result_simps split: if_splits)
qed

text \<open>
  C8: a crank plan resists griefing. For a state whose positions are distinct: the plan is ordered by the
  phases of a launch, no action key occurs twice, every harvest is of a position the options allow (by
  default one on the launch's own pool) whose pending fee reaches the minimum, there are at most as many as
  allowed and a due position left out is not larger than any that is harvested; a standalone burn is
  planned only for a balance that reaches its minimum and never beside a harvest that burns anyway; and the
  payouts of the migration fee add up to what DBC pays.
\<close>

theorem crank_plan_safe:
  assumes plan: "planCrank s opts = Inr plan" and dist: "distinct (map ps_position (ci_positions s))" and "inj b58"
  shows "sorted (map action_rank plan) \<and> distinct (map (crankActionKey b58) plan) \<and>
    (\<forall>a \<in> set plan. is_lp a \<longrightarrow> (\<exists>p. lp_eligible s opts p \<and> a = lp_action p)) \<and>
    length (filter is_lp plan) \<le> max_lp opts \<and>
    (\<forall>p. lp_eligible s opts p \<and> lp_action p \<notin> set plan \<and> filter is_lp plan \<noteq> [] \<longrightarrow>
       length (filter is_lp plan) = max_lp opts \<and> (\<forall>a \<in> set plan. is_lp a \<longrightarrow> ps_pendingB p \<le> ca_pendingQuote a)) \<and>
    (\<forall>b. BurnClaimerBase b \<in> set plan \<longrightarrow> burn_due s opts = Some b \<and> \<not> list_ex harvest_burns plan) \<and>
    (\<forall>e p c v. HarvestMigrationFee e p c v \<in> set plan \<longrightarrow> p + c + v = e)"
proof (intro conjI)
  note ordered = plan_ordered [OF plan dist]
  show "sorted (map action_rank plan)"
    unfolding sorted_map by (rule sorted_wrt_mono_rel [OF _ ordered]) (rule earlier_rank)
  show "distinct (map (crankActionKey b58) plan)"
    using ordered earlier_key [OF _ assms(3)] by (rule sorted_wrt_distinct)
  have lp: "filter is_lp plan = [] \<or> (\<exists>pool. ci_dbcPool s = Some pool \<and> filter is_lp plan = plan_lp s opts pool)"
    by (rule plan_lp_part [OF plan])
  then have mem: "a \<in> set plan \<and> is_lp a \<longleftrightarrow> a \<in> set (filter is_lp plan)" for a by simp
  show "\<forall>a \<in> set plan. is_lp a \<longrightarrow> (\<exists>p. lp_eligible s opts p \<and> a = lp_action p)"
  proof (intro ballI impI)
    fix a assume "a \<in> set plan" "is_lp a"
    then have "a \<in> set (filter is_lp plan)" by simp
    with lp obtain pool where "a \<in> set (plan_lp s opts pool)" by (metis empty_iff empty_set)
    then show "\<exists>p. lp_eligible s opts p \<and> a = lp_action p"
      by (rule plan_lp_members) (auto simp: lp_eligible_def)
  qed
  show "length (filter is_lp plan) \<le> max_lp opts" using lp plan_lp_length by auto
  show "\<forall>p. lp_eligible s opts p \<and> lp_action p \<notin> set plan \<and> filter is_lp plan \<noteq> [] \<longrightarrow>
       length (filter is_lp plan) = max_lp opts \<and> (\<forall>a \<in> set plan. is_lp a \<longrightarrow> ps_pendingB p \<le> ca_pendingQuote a)"
  proof (intro allI impI, elim conjE)
    fix p assume p: "lp_eligible s opts p" "lp_action p \<notin> set plan" "filter is_lp plan \<noteq> []"
    with lp obtain pool where pool: "filter is_lp plan = plan_lp s opts pool" by auto
    with p(3) have m: "vp_isMigrated pool = 1 \<or> la_migrated (ci_launch s)"
      by (auto simp: plan_lp_def split: if_splits)
    have "lp_action p \<notin> set (plan_lp s opts pool)" using p(2) by (simp flip: pool)
    from plan_lp_largest [OF p(1) this m, folded pool]
    show "length (filter is_lp plan) = max_lp opts \<and> (\<forall>a \<in> set plan. is_lp a \<longrightarrow> ps_pendingB p \<le> ca_pendingQuote a)"
      by simp
  qed
  show "\<forall>b. BurnClaimerBase b \<in> set plan \<longrightarrow> burn_due s opts = Some b \<and> \<not> list_ex harvest_burns plan"
    using plan_burn [OF plan] by blast
  show "\<forall>e p c v. HarvestMigrationFee e p c v \<in> set plan \<longrightarrow> p + c + v = e"
    using plan_fee_split [OF plan] by blast
qed

text \<open>A redeemable launch with a small, a large and a dust position on its own pool and one on a foreign pool.\<close>

definition example_position :: "pubkey \<Rightarrow> pubkey \<Rightarrow> int \<Rightarrow> claimer_position" where
  "example_position pool position fee =
     \<lparr>ps_dammPool = pool, ps_position = position, ps_positionNftMint = position, ps_positionNftAccount = position,
      ps_state = \<lparr>po_pool = pool, po_nftMint = position, po_feeAPerTokenCheckpoint = 0, po_feeBPerTokenCheckpoint = 0,
        po_feeAPending = 0, po_feeBPending = fee, po_unlockedLiquidity = 0, po_vestedLiquidity = 0,
        po_permanentLockedLiquidity = 0\<rparr>,
      ps_pendingA = 0, ps_pendingB = fee\<rparr>"

definition example_crank :: crank_input where
  "example_crank = (crank_input_of (example_state Redeemable))
     \<lparr>ci_positions :=
        [example_position (replicate 32 25) [1] 5000, example_position (replicate 32 25) [2] 9000,
         example_position (replicate 32 25) [3] 10, example_position (replicate 32 24) [4] 50000]\<rparr>"

definition one_harvest :: plan_options where
  "one_harvest = default_plan\<lparr>op_maxLpHarvests := Some 1\<rparr>"

definition plain_base58 :: "pubkey \<Rightarrow> string" where
  "plain_base58 = map (\<lambda>b. char_of (unat b))"

lemma plain_base58_inj: "inj plain_base58"
proof (rule inj_on_inverseI)
  have "of_nat (of_char (char_of (unat b) :: char)) = b" for b :: "8 word"
  proof -
    have "int (unat b) < 256" using uint8_bounds [of b] by simp
    then have "unat b < 256" by linarith
    then show ?thesis by simp
  qed
  then show "map (\<lambda>c. of_nat (of_char c)) (plain_base58 k) = k" for k
    by (simp add: plain_base58_def comp_def)
qed

lemma example_crank_plan:
  "planCrank example_crank one_harvest = Inr [HarvestSurplus 0, lp_action (example_position (replicate 32 25) [2] 9000)]"
  by code_simp

lemma crank_plan_safe_witness:
  "planCrank example_crank one_harvest = Inr [HarvestSurplus 0, lp_action (example_position (replicate 32 25) [2] 9000)] \<and>
   (\<exists>p. lp_eligible example_crank one_harvest p \<and> lp_action (example_position (replicate 32 25) [2] 9000) = lp_action p)"
proof -
  have "distinct (map ps_position (ci_positions example_crank))"
    by (simp add: example_crank_def example_position_def)
  from crank_plan_safe [OF example_crank_plan this plain_base58_inj] example_crank_plan show ?thesis by simp
qed

section \<open>Runs\<close>

text \<open>An action was due when it is in the plan of some state of the launch the node showed.\<close>

definition was_due :: "'w crank_env \<Rightarrow> plan_options \<Rightarrow> crank_action \<Rightarrow> bool" where
  "was_due env opts a \<longleftrightarrow>
     (\<exists>ref w s plan. fetch_state env ref w = Inr (Some s) \<and> planCrank (crank_input_of s) opts = Inr plan \<and> a \<in> set plan)"

abbreviation step_key :: "'w crank_env \<Rightarrow> crank_step \<Rightarrow> string" where
  "step_key env s \<equiv> crankActionKey (ce_toBase58 env) (cs_action s)"

definition failed_keys :: "'w crank_env \<Rightarrow> crank_step list \<Rightarrow> string set" where
  "failed_keys env steps = step_key env ` {s \<in> set steps. cs_status s = Failed}"

definition no_retry :: "'w crank_env \<Rightarrow> crank_step list \<Rightarrow> bool" where
  "no_retry env steps \<longleftrightarrow> sorted_wrt (\<lambda>s t. cs_status s = Failed \<longrightarrow> step_key env t \<noteq> step_key env s) steps"

lemma no_retry_snoc:
  assumes "no_retry env steps" "step_key env s \<notin> failed_keys env steps"
  shows "no_retry env (steps @ [s])"
  using assms by (force simp: no_retry_def failed_keys_def sorted_wrt_append)

lemma failed_keys_snoc:
  "failed_keys env (steps @ [s]) = (if cs_status s = Failed then insert (step_key env s) (failed_keys env steps)
     else failed_keys env steps)"
  by (auto simp: failed_keys_def)

text \<open>A round that returns has executed, failed or skipped its action and read the launch again.\<close>

lemma crankRound_returns:
  assumes "crankRound env opts price launch state action w = (Inr (state', step, failed), w')"
  shows "cs_action step = action" "failed = (if cs_status step = Failed then Some (step_key env step) else None)"
    "\<exists>v. fetch_state env (RefLaunch launch) v = Inr (Some state')"
  using assms
  by (auto simp: crankRound_def executed_step_def failed_step_def skipped_step_def Let_def
      split: sum.splits prod.splits option.splits if_splits)

definition idle :: "'w crank_env \<Rightarrow> plan_options \<Rightarrow> launch_state \<Rightarrow> crank_step list \<Rightarrow> bool" where
  "idle env opts state steps \<longleftrightarrow>
     (\<exists>plan. planCrank (crank_input_of state) opts = Inr plan \<and>
        (\<forall>a \<in> set plan. crankActionKey (ce_toBase58 env) a \<in> failed_keys env steps))"

lemma crankLoop_sound:
  assumes "crankLoop env opts price launch n state fk steps w = (Inr (final, steps'), w')"
    and "set fk = failed_keys env steps" "no_retry env steps" "\<forall>s \<in> set steps. was_due env opts (cs_action s)"
    and "fetch_state env ref v = Inr (Some state)"
  shows "\<exists>new. steps' = steps @ new \<and> length new \<le> n \<and> no_retry env steps' \<and>
    (\<forall>s \<in> set steps'. was_due env opts (cs_action s)) \<and> (length new < n \<longrightarrow> idle env opts final steps') \<and>
    (\<exists>ref v. fetch_state env ref v = Inr (Some final))"
  using assms
proof (induction n arbitrary: state fk steps w ref v)
  case 0
  then show ?case by auto
next
  case (Suc n)
  from Suc.prems(1) obtain plan where plan: "planCrank (crank_input_of state) opts = Inr plan"
    by (auto split: sum.splits)
  show ?case
  proof (cases "filter (\<lambda>a. crankActionKey (ce_toBase58 env) a \<notin> set fk) plan")
    case Nil
    with Suc.prems(1) plan have "final = state" "steps' = steps" by simp_all
    moreover have "idle env opts state steps"
      using Nil plan Suc.prems(2) by (auto simp: idle_def filter_empty_conv)
    ultimately show ?thesis using Suc.prems(3-5) by auto
  next
    case (Cons action rest)
    then have "action \<in> set (filter (\<lambda>a. crankActionKey (ce_toBase58 env) a \<notin> set fk) plan)" by simp
    then have due: "was_due env opts action" and new_key: "crankActionKey (ce_toBase58 env) action \<notin> failed_keys env steps"
      using plan Suc.prems(2,5) by (auto simp: was_due_def)
    obtain r w1 where round: "crankRound env opts price launch state action w = (r, w1)" by fastforce
    from Suc.prems(1) plan Cons round obtain state' step failed where r: "r = Inr (state', step, failed)"
      and loop: "crankLoop env opts price launch n state'
        (case failed of Some k \<Rightarrow> k # fk | None \<Rightarrow> fk) (steps @ [step]) w1 = (Inr (final, steps'), w')"
      by (cases r) auto
    note ret = crankRound_returns [OF round [unfolded r]]
    have "set (case failed of Some k \<Rightarrow> k # fk | None \<Rightarrow> fk) = failed_keys env (steps @ [step])"
      using Suc.prems(2) ret by (simp add: failed_keys_snoc)
    moreover have "no_retry env (steps @ [step])"
      using Suc.prems(3) new_key ret by (intro no_retry_snoc) simp_all
    moreover have "\<forall>s \<in> set (steps @ [step]). was_due env opts (cs_action s)"
      using Suc.prems(4) due ret by simp
    ultimately obtain new where "steps' = (steps @ [step]) @ new" "length new \<le> n" "no_retry env steps'"
      "\<forall>s \<in> set steps'. was_due env opts (cs_action s)" "length new < n \<longrightarrow> idle env opts final steps'"
      "\<exists>ref v. fetch_state env ref v = Inr (Some final)"
      using ret(3) Suc.IH [OF loop] by blast
    then show ?thesis by (intro exI [of _ "step # new"]) simp
  qed
qed


text \<open>A launch on the curve with partner fees to harvest, and a network that refuses every transaction.\<close>

definition curve_launch :: launch_account where
  "curve_launch = example_launch\<lparr>la_migrated := False\<rparr>"

definition fee_pool :: dbc_virtual_pool where
  "fee_pool = example_virtual_pool\<lparr>vp_partnerQuoteFee := 5000\<rparr>"

definition stored :: "pubkey \<Rightarrow> bytes \<Rightarrow> account_data" where
  "stored owner bytes = \<lparr>ac_data = bytes, ac_owner = owner, ac_lamports = 1, ac_executable = False\<rparr>"

definition curve_accounts :: "account_data option list" where
  "curve_accounts =
     [Some (stored DBC_PROGRAM_ID (DBC_POOL_CONFIG_DISCRIMINATOR @ replicate 1040 0)),
      Some (stored DBC_PROGRAM_ID (DBC_VIRTUAL_POOL_DISCRIMINATOR @ replicate 416 0)),
      None, Some (stored PublicKey_default (replicate 82 0)), None, None,
      Some (stored PublicKey_default (replicate 40 0))]"

definition refusing_env :: "unit crank_env" where
  "refusing_env =
     \<lparr>ce_lib = plain_lib, ce_newAta = plain_ata,
      ce_coders = coders_none\<lparr>co_poolConfig := (\<lambda>_. Inr example_config), co_virtualPool := (\<lambda>_. Inr fee_pool)\<rparr>,
      ce_utf8 = (\<lambda>_. []), ce_toBase58 = plain_base58, ce_payer = PublicKey_default,
      ce_reader = (\<lambda>_. \<lparr>getAccountInfo = (\<lambda>_. Inr (Some (snd (keyed_account_of [] curve_launch)))),
        getMultipleAccountsInfo = (\<lambda>_. Inr curve_accounts), getProgramAccounts = (\<lambda>_ _. Inr []),
        getTokenAccountsByOwner = (\<lambda>_ _. Inr [])\<rparr>),
      ce_keypairs = (\<lambda>_. ([], [])),
      ce_send = (\<lambda>_ _ w. (Inl (OtherFailure ''no network'' None), w)), ce_onStep = (\<lambda>_ w. w)\<rparr>"

lemma curve_launch_decodes: "decodeLaunch (borsh_launch curve_launch (replicate 46 0)) = Inr curve_launch"
  by (rule decode_borsh_launch)
    (simp_all add: curve_launch_def example_launch_def wf_launch_def u8_value_def u64_value_def PublicKey_default_def)

lemma zero_mint: "\<exists>m. decodeMint (replicate 82 0) = Inr m \<and> mi_decimals m = 0"
proof -
  have "(case decodeMint (replicate 82 0) of Inr m \<Rightarrow> mi_decimals m = 0 | Inl _ \<Rightarrow> False)" by code_simp
  then show ?thesis by (auto split: sum.splits)
qed

lemma zero_clock: "\<exists>c. decodeClock (replicate 40 0) = Inr c"
proof -
  have "(case decodeClock (replicate 40 0) of Inr c \<Rightarrow> True | Inl _ \<Rightarrow> False)" by code_simp
  then show ?thesis by (auto split: sum.splits)
qed

lemma curve_decoded:
  "\<exists>d. decode_accounts (ce_coders refusing_env) curve_accounts = Inr d \<and> da_dbcConfig d = example_config \<and>
     da_dbcPool d = Some fee_pool \<and> da_claimerBaseBalance d = None \<and> mi_decimals (da_quoteMint d) = 0"
proof -
  obtain m c where m: "decodeMint (replicate 82 0) = Inr m" "mi_decimals m = 0" and c: "decodeClock (replicate 40 0) = Inr c"
    using zero_mint zero_clock by blast
  have "decodeDbcPoolConfig (\<lambda>_. Inr example_config) (stored DBC_PROGRAM_ID (DBC_POOL_CONFIG_DISCRIMINATOR @ replicate 1040 0)) =
      Inr example_config"
    "decodeDbcVirtualPool (\<lambda>_. Inr fee_pool) (stored DBC_PROGRAM_ID (DBC_VIRTUAL_POOL_DISCRIMINATOR @ replicate 416 0)) =
      Inr fee_pool"
    by (simp_all add: decodeDbcPoolConfig_def decodeDbcVirtualPool_def checkAccount_def stored_def subarray_def
        DBC_POOL_CONFIG_DISCRIMINATOR_def DBC_VIRTUAL_POOL_DISCRIMINATOR_def)
  then show ?thesis
    by (simp add: decode_accounts_def curve_accounts_def nth_opt_def refusing_env_def coders_none_def optionally_def
        stored_def m c)
qed

lemma refusing_launch:
  "getLaunch (ce_reader refusing_env ()) lib coders (RefLaunch k) = Inr (Some (k, curve_launch))"
proof -
  have "isLaunchAccountData (borsh_launch curve_launch (replicate 46 0))"
    using curve_launch_decodes decodeLaunch_returns_iff by (metis returns_def)
  then show ?thesis
    by (simp add: getLaunch_def resolveLaunchAddress_def refusing_env_def keyed_account_of_def curve_launch_decodes)
qed

lemma refusing_state:
  "\<exists>s. fetch_state refusing_env (RefLaunch k) () = Inr (Some s) \<and> ls_launch s = curve_launch \<and> ls_address s = k \<and>
     planCrank (crank_input_of s) default_plan = Inr [HarvestCurveFees 5000 0 True]"
proof -
  obtain d where d: "decode_accounts (ce_coders refusing_env) curve_accounts = Inr d" "da_dbcConfig d = example_config"
    "da_dbcPool d = Some fee_pool" "da_claimerBaseBalance d = None" "mi_decimals (da_quoteMint d) = 0"
    using curve_decoded by blast
  obtain cfg where cfg: "DAMM_V2_MIGRATION_CONFIGS (pc_migrationFeeOption example_config) = Some cfg"
    by (simp add: DAMM_V2_MIGRATION_CONFIGS_def example_config_def)
  have not_migrated: "\<not> la_migrated curve_launch" "vp_isMigrated fee_pool \<noteq> 1" "la_poolRegistered curve_launch"
    by (simp_all add: curve_launch_def example_launch_def fee_pool_def example_virtual_pool_def)
  have accs: "getMultipleAccountsInfo (ce_reader refusing_env ()) ks = Inr curve_accounts" for ks
    by (simp add: refusing_env_def)
  obtain s where s: "fetch_state refusing_env (RefLaunch k) () = Inr (Some s)"
    "s = build_state (ce_lib refusing_env) (ce_utf8 refusing_env) k curve_launch (la_pool curve_launch) d cfg None []"
    by (simp add: fetch_state_def fetchLaunchState_def refusing_launch accs d cfg not_migrated Let_def)
  have "planCrank (crank_input_of s) default_plan = Inr [HarvestCurveFees 5000 0 True]"
    using not_migrated
    by (simp add: s(2) build_state_def crank_input_of_def planCrank_def default_plan_def due_actions_def d Let_def
        plan_complete_def plan_curve_fees_def plan_sync_def plan_lp_def default_to_def quote_decimals_def
        defaultMinLpFeeQuote_def fee_pool_def example_virtual_pool_def example_config_def)
  with s show ?thesis by (simp add: build_state_def Let_def)
qed


end
