(* ===== verification/Json.thy ===== *)
theory Json
  imports Prelude
begin

text \<open>
  JSON values as the code reads them, and sizes that let a function recurse into them. An object is the
  list of its own properties in the order \<open>Object.entries\<close> gives them, with each key once.
\<close>

datatype json =
    JNull | JBool bool | JNumber jsnum | JString string | JArray "json list" | JObject "(string \<times> json) list"

fun json_size :: "json \<Rightarrow> nat" where
  "json_size (JArray vs) = Suc (sum_list (map json_size vs))"
| "json_size (JObject es) = Suc (sum_list (map (\<lambda>e. json_size (snd e)) es))"
| "json_size _ = 1"

lemma json_size_element: "v \<in> set vs \<Longrightarrow> json_size v < json_size (JArray vs)"
  using member_le_sum_list [of "json_size v" "map json_size vs"] by simp

lemma json_size_entry: "(k, v) \<in> set es \<Longrightarrow> json_size v < json_size (JObject es)"
  using member_le_sum_list [of "json_size v" "map (\<lambda>e. json_size (snd e)) es"] by force

lemma json_size_property: "map_of es k = Some v \<Longrightarrow> json_size v < json_size (JObject es)"
  by (rule json_size_entry) (rule map_of_SomeD)

lemma json_size_nested:
  "map_of es k = Some (JObject d) \<Longrightarrow> map_of d l = Some v \<Longrightarrow> json_size v < json_size (JObject es)"
  using json_size_property [of d l v] json_size_property [of es k "JObject d"] by simp

end
