(* ===== verification/Guard.thy ===== *)
theory Guard
  imports Json
begin

text \<open>
  \<^verbatim>\<open>packages/sdk/src/guard.ts\<close>: the guard that keeps scripts from sending to mainnet by accident. The URL
  parser and the HTTP client of the platform are parameters. The property reads the rules of the file's
  comment off the composition of \<open>probeCluster\<close> and \<open>evaluateSendGuard\<close>, for any behaviour of the endpoint.
\<close>

definition MAINNET_GENESIS_HASH :: string where
  "MAINNET_GENESIS_HASH = ''5eykt4UsFv8P8NJdTREpY1vzqKqZKvdpKuc147dw2N9d''"

definition LOOPBACK_HOSTS :: "string list" where
  "LOOPBACK_HOSTS = [''127.0.0.1'', ''localhost'', ''::1'', ''[::1]'']"

record cluster_probe =
  pr_genesisHash :: "string option"
  pr_surfnetVersion :: "string option"
  pr_surfnetMethodOk :: bool

record send_guard_input =
  gi_rpcUrl :: string
  gi_probe :: cluster_probe
  gi_allowMainnetFlag :: bool
  gi_allowMainnetEnv :: "string option"

datatype guard_mode = LocalValidator | Surfnet | MainnetOverride

datatype refusal =
    OneSwitchOnly | InvalidUrl | NotLoopback string | NoGenesisHash | MainnetBehindLoopback

datatype send_guard_decision = Allowed guard_mode | Refused refusal

section \<open>The decision\<close>

text \<open>What \<open>new URL(s)\<close> gives; None when it throws.\<close>

record url =
  url_protocol :: string
  url_hostname :: string
  url_username :: string
  url_password :: string

definition isLoopbackRpcUrl :: "(string \<Rightarrow> url option) \<Rightarrow> string \<Rightarrow> bool" where
  "isLoopbackRpcUrl parse rpcUrl =
     (case parse rpcUrl of
        None \<Rightarrow> False
      | Some u \<Rightarrow> (url_protocol u = ''http:'' \<or> url_protocol u = ''https:'') \<and>
                  url_hostname u \<in> set LOOPBACK_HOSTS \<and> url_username u = [] \<and> url_password u = [])"

definition evaluateSendGuard :: "(string \<Rightarrow> url option) \<Rightarrow> send_guard_input \<Rightarrow> send_guard_decision" where
  "evaluateSendGuard parse input =
     (let flag = gi_allowMainnetFlag input;
          env = (gi_allowMainnetEnv input = Some ''1'')
      in if flag \<and> env then Allowed MainnetOverride
         else if flag \<noteq> env then Refused OneSwitchOnly
         else case parse (gi_rpcUrl input) of
             None \<Rightarrow> Refused InvalidUrl
           | Some u \<Rightarrow>
               if \<not> isLoopbackRpcUrl parse (gi_rpcUrl input) then Refused (NotLoopback (url_hostname u))
               else case pr_genesisHash (gi_probe input) of
                   None \<Rightarrow> Refused NoGenesisHash
                 | Some genesisHash \<Rightarrow>
                     if genesisHash \<noteq> MAINNET_GENESIS_HASH then Allowed LocalValidator
                     else (case pr_surfnetVersion (gi_probe input) of
                             Some v \<Rightarrow> if v \<noteq> [] \<and> pr_surfnetMethodOk (gi_probe input) then Allowed Surfnet
                                       else Refused MainnetBehindLoopback
                           | None \<Rightarrow> Refused MainnetBehindLoopback))"

section \<open>The probe\<close>

text \<open>A property read: it throws on null; values that are no objects have none of the names used here.\<close>

fun json_get :: "json \<Rightarrow> string \<Rightarrow> json option result" where
  "json_get JNull name = Inl (GenericError ''TypeError'')"
| "json_get (JObject entries) name = Inr (map_of entries name)"
| "json_get _ name = Inr None"

text \<open>The test \<open>typeof v === "string"\<close>, and the optional chaining \<open>v?.[name]\<close>.\<close>

fun json_string :: "json option \<Rightarrow> string option" where
  "json_string (Some (JString s)) = Some s"
| "json_string _ = None"

fun json_chain :: "json option \<Rightarrow> string \<Rightarrow> json option result" where
  "json_chain None name = Inr None"
| "json_chain (Some JNull) name = Inr None"
| "json_chain (Some v) name = json_get v name"

text \<open>One HTTP call: it may throw, answer with an error status, fail to parse, or give a body.\<close>

datatype fetch_outcome = FetchThrows | NotOk | BodyThrows | Body json

type_synonym fetch_like = "string \<Rightarrow> string \<Rightarrow> json list \<Rightarrow> fetch_outcome"

definition rpc :: "fetch_like \<Rightarrow> string \<Rightarrow> string \<Rightarrow> json list \<Rightarrow> json result" where
  "rpc fetch rpcUrl rpcMethod params =
     (case fetch rpcUrl rpcMethod params of
        FetchThrows \<Rightarrow> Inl (GenericError ''fetch failed'')
      | NotOk \<Rightarrow> Inr (JObject [(''error'', JString ''http'')])
      | BodyThrows \<Rightarrow> Inl (GenericError ''SyntaxError'')
      | Body v \<Rightarrow> Inr v)"

definition rpc_result :: "fetch_like \<Rightarrow> string \<Rightarrow> string \<Rightarrow> json option result" where
  "rpc_result fetch rpcUrl rpcMethod = bindE (rpc fetch rpcUrl rpcMethod []) (\<lambda>g. json_get g ''result'')"

definition probe_genesis :: "fetch_like \<Rightarrow> string \<Rightarrow> string option result" where
  "probe_genesis fetch rpcUrl =
     bindE (rpc_result fetch rpcUrl ''getGenesisHash'') (\<lambda>r. Inr (json_string r))"

definition probe_version :: "fetch_like \<Rightarrow> string \<Rightarrow> string option" where
  "probe_version fetch rpcUrl =
     (case bindE (rpc_result fetch rpcUrl ''getVersion'') (\<lambda>r. json_chain r ''surfnet-version'') of
        Inl _ \<Rightarrow> None
      | Inr sv \<Rightarrow> (case json_string sv of Some s \<Rightarrow> if s \<noteq> [] then Some s else None | None \<Rightarrow> None))"

definition probe_method :: "fetch_like \<Rightarrow> string \<Rightarrow> bool" where
  "probe_method fetch rpcUrl =
     (case bindE (rpc fetch rpcUrl ''surfnet_getLocalSignatures'' [JNumber (JsInt 1)]) (\<lambda>s.
           bindE (json_get s ''error'') (\<lambda>e. bindE (json_get s ''result'') (\<lambda>r. Inr (e = None \<and> r \<noteq> None)))) of
        Inr ok \<Rightarrow> ok | Inl _ \<Rightarrow> False)"

definition probeCluster :: "fetch_like \<Rightarrow> string \<Rightarrow> cluster_probe" where
  "probeCluster fetch rpcUrl =
     (case probe_genesis fetch rpcUrl of
        Inl _ \<Rightarrow> \<lparr>pr_genesisHash = None, pr_surfnetVersion = None, pr_surfnetMethodOk = False\<rparr>
      | Inr genesisHash \<Rightarrow>
          (let version = probe_version fetch rpcUrl
           in \<lparr>pr_genesisHash = genesisHash, pr_surfnetVersion = version,
               pr_surfnetMethodOk = (version \<noteq> None \<and> probe_method fetch rpcUrl)\<rparr>))"

section \<open>The guard as a whole\<close>

text \<open>What an endpoint has answered when its probe says so.\<close>

definition answers_genesis :: "fetch_like \<Rightarrow> string \<Rightarrow> string \<Rightarrow> bool" where
  "answers_genesis fetch rpcUrl h \<longleftrightarrow>
     (\<exists>entries. fetch rpcUrl ''getGenesisHash'' [] = Body (JObject entries) \<and> map_of entries ''result'' = Some (JString h))"

definition answers_surfnet :: "fetch_like \<Rightarrow> string \<Rightarrow> bool" where
  "answers_surfnet fetch rpcUrl \<longleftrightarrow>
     (\<exists>entries version v. fetch rpcUrl ''getVersion'' [] = Body (JObject entries) \<and>
        map_of entries ''result'' = Some (JObject version) \<and> map_of version ''surfnet-version'' = Some (JString v) \<and> v \<noteq> []) \<and>
     (\<exists>entries. fetch rpcUrl ''surfnet_getLocalSignatures'' [JNumber (JsInt 1)] = Body (JObject entries) \<and>
        map_of entries ''error'' = None \<and> map_of entries ''result'' \<noteq> None)"

lemma json_get_Some: "json_get v name = Inr (Some x) \<longleftrightarrow> (\<exists>entries. v = JObject entries \<and> map_of entries name = Some x)"
  by (cases v) auto

lemma rpc_body: "rpc fetch u m ps = Inr v \<longleftrightarrow>
    fetch u m ps = Body v \<or> fetch u m ps = NotOk \<and> v = JObject [(''error'', JString ''http'')]"
  by (auto simp: rpc_def split: fetch_outcome.splits)

lemma rpc_result_Some:
  "rpc_result fetch u m = Inr (Some x) \<longleftrightarrow> (\<exists>entries. fetch u m [] = Body (JObject entries) \<and> map_of entries ''result'' = Some x)"
  by (auto simp: rpc_result_def result_simps json_get_Some rpc_body)

lemma json_string_Some [simp]: "json_string v = Some s \<longleftrightarrow> v = Some (JString s)"
  by (cases v rule: json_string.cases) auto

lemma json_chain_Some [simp]: "json_chain v name = Inr (Some x) \<longleftrightarrow> (\<exists>entries. v = Some (JObject entries) \<and> map_of entries name = Some x)"
  by (cases "(v, name)" rule: json_chain.cases) (auto simp: json_get_Some)

lemma probe_genesis_Some: "probe_genesis fetch u = Inr (Some h) \<longleftrightarrow> answers_genesis fetch u h"
  by (auto simp: probe_genesis_def answers_genesis_def bindE_eq_Inr rpc_result_Some)

lemma probe_version_Some:
  "probe_version fetch u \<noteq> None \<longleftrightarrow> (\<exists>entries version v. fetch u ''getVersion'' [] = Body (JObject entries) \<and>
     map_of entries ''result'' = Some (JObject version) \<and> map_of version ''surfnet-version'' = Some (JString v) \<and> v \<noteq> [])"
proof -
  let ?b = "bindE (rpc_result fetch u ''getVersion'') (\<lambda>r. json_chain r ''surfnet-version'')"
  have "probe_version fetch u \<noteq> None \<longleftrightarrow> (\<exists>v. v \<noteq> [] \<and> ?b = Inr (Some (JString v)))"
    by (cases ?b) (auto simp: probe_version_def split: option.splits)
  also have "\<dots> \<longleftrightarrow> (\<exists>v version. v \<noteq> [] \<and> rpc_result fetch u ''getVersion'' = Inr (Some (JObject version)) \<and>
      map_of version ''surfnet-version'' = Some (JString v))"
    by (auto simp: bindE_eq_Inr)
  also have "\<dots> \<longleftrightarrow> (\<exists>entries version v. fetch u ''getVersion'' [] = Body (JObject entries) \<and>
     map_of entries ''result'' = Some (JObject version) \<and> map_of version ''surfnet-version'' = Some (JString v) \<and> v \<noteq> [])"
    unfolding rpc_result_Some by blast
  finally show ?thesis .
qed

lemma probe_method_True:
  "probe_method fetch u \<longleftrightarrow> (\<exists>entries. fetch u ''surfnet_getLocalSignatures'' [JNumber (JsInt 1)] = Body (JObject entries) \<and>
     map_of entries ''error'' = None \<and> map_of entries ''result'' \<noteq> None)"
proof -
  have "probe_method fetch u \<longleftrightarrow> (\<exists>s. rpc fetch u ''surfnet_getLocalSignatures'' [JNumber (JsInt 1)] = Inr s \<and>
      json_get s ''error'' = Inr None \<and> (\<exists>r. json_get s ''result'' = Inr (Some r)))"
    by (auto simp: probe_method_def result_simps split: sum.splits)
  then show ?thesis by (auto simp: json_get_Some rpc_body)
qed

lemma answers_surfnet_iff: "answers_surfnet fetch u \<longleftrightarrow> probe_version fetch u \<noteq> None \<and> probe_method fetch u"
  unfolding answers_surfnet_def probe_version_Some probe_method_True ..

text \<open>
  C25: with the probe of the endpoint as input the guard allows a send exactly in the two cases its comment
  lists, whatever the endpoint does: both override switches are set, or neither is and the URL is a plain
  http(s) URL of a loopback host whose endpoint reports another genesis hash than mainnet's, or mainnet's
  and answers both Surfpool queries. One switch alone never allows anything, a silent endpoint neither.
\<close>

theorem guard_allows_iff:
  "(\<exists>mode. evaluateSendGuard parse
      \<lparr>gi_rpcUrl = rpcUrl, gi_probe = probeCluster fetch rpcUrl, gi_allowMainnetFlag = flag, gi_allowMainnetEnv = env\<rparr>
      = Allowed mode) \<longleftrightarrow>
    flag \<and> env = Some ''1'' \<or>
    \<not> flag \<and> env \<noteq> Some ''1'' \<and>
    (\<exists>u h. parse rpcUrl = Some u \<and> url_protocol u \<in> {''http:'', ''https:''} \<and> url_hostname u \<in> set LOOPBACK_HOSTS \<and>
       url_username u = [] \<and> url_password u = [] \<and> answers_genesis fetch rpcUrl h \<and>
       (h \<noteq> MAINNET_GENESIS_HASH \<or> answers_surfnet fetch rpcUrl))"
proof -
  have genesis: "pr_genesisHash (probeCluster fetch rpcUrl) = Some h \<longleftrightarrow> answers_genesis fetch rpcUrl h" for h
    by (auto simp: probeCluster_def Let_def simp flip: probe_genesis_Some split: sum.splits)
  have surfnet: "(case pr_surfnetVersion (probeCluster fetch rpcUrl) of Some v \<Rightarrow> v \<noteq> [] | None \<Rightarrow> False) \<and>
      pr_surfnetMethodOk (probeCluster fetch rpcUrl) \<longleftrightarrow> answers_surfnet fetch rpcUrl"
    if "answers_genesis fetch rpcUrl h" for h
  proof -
    have "probe_version fetch rpcUrl = Some v \<Longrightarrow> v \<noteq> []" for v
      by (auto simp: probe_version_def split: sum.splits option.splits if_splits)
    with that show ?thesis
      by (auto simp: probeCluster_def Let_def answers_surfnet_iff simp flip: probe_genesis_Some split: option.splits)
  qed
  show ?thesis
  proof (cases "pr_genesisHash (probeCluster fetch rpcUrl)")
    case None
    then have "\<not> answers_genesis fetch rpcUrl h" for h using genesis [of h] by simp
    with None show ?thesis
      by (auto simp: evaluateSendGuard_def Let_def split: option.splits)
  next
    case (Some h)
    then have h: "answers_genesis fetch rpcUrl h" using genesis [of h] by simp
    have unique: "answers_genesis fetch rpcUrl h' \<longleftrightarrow> h' = h" for h' using genesis [of h'] Some by auto
    show ?thesis
      using Some surfnet [OF h]
      by (auto simp: evaluateSendGuard_def isLoopbackRpcUrl_def Let_def unique split: option.splits if_splits)
  qed
qed

text \<open>A surfnet on the loopback host that reports the genesis hash of mainnet.\<close>

definition local_url :: "string \<Rightarrow> url option" where
  "local_url s = Some \<lparr>url_protocol = ''http:'', url_hostname = ''127.0.0.1'', url_username = [], url_password = []\<rparr>"

definition surfnet :: fetch_like where
  "surfnet u m params = Body (JObject [(''result'',
     if m = ''getGenesisHash'' then JString MAINNET_GENESIS_HASH
     else if m = ''getVersion'' then JObject [(''surfnet-version'', JString ''0.10'')] else JArray [])])"

lemma guard_allows_iff_witness:
  "\<exists>mode. evaluateSendGuard local_url
     \<lparr>gi_rpcUrl = ''http://127.0.0.1:8899'', gi_probe = probeCluster surfnet ''http://127.0.0.1:8899'',
      gi_allowMainnetFlag = False, gi_allowMainnetEnv = None\<rparr> = Allowed mode"
  by (subst guard_allows_iff)
    (simp add: local_url_def surfnet_def answers_genesis_def answers_surfnet_def LOOPBACK_HOSTS_def)

end
