(* ===== verification/IdlTrim.thy ===== *)
theory IdlTrim
  imports Json
begin

text \<open>
  \<^verbatim>\<open>packages/sdk/src/idl/trim.ts\<close>: the cut of an Anchor IDL down to the instructions, accounts and events a
  client uses, with every type they need. The worklist of the code is modelled as it runs, with its own
  termination argument; the specification is reachability over the references of the types.
\<close>

section \<open>References of a JSON value\<close>

text \<open>A JavaScript set of strings keeps the order of insertion.\<close>

definition set_add :: "string \<Rightarrow> string list \<Rightarrow> string list" where
  "set_add x xs = (if x \<in> set xs then xs else xs @ [x])"

lemma set_set_add [simp]: "set (set_add x xs) = insert x (set xs)"
  by (auto simp: set_add_def)

function collectDefined :: "json \<Rightarrow> string list \<Rightarrow> string list" where
  "collectDefined (JArray vs) acc = fold collectDefined vs acc"
| "collectDefined (JObject es) acc =
     fold (\<lambda>(k, v) a. if k \<noteq> ''defined'' then collectDefined v a else a) es
       (case map_of es ''defined'' of
          Some (JString n) \<Rightarrow> set_add n acc
        | Some (JObject d) \<Rightarrow>
            (case map_of d ''name'' of
               Some (JString n) \<Rightarrow>
                 (case map_of d ''generics'' of
                    Some g \<Rightarrow> collectDefined g (set_add n acc)
                  | None \<Rightarrow> set_add n acc)
             | _ \<Rightarrow> acc)
        | _ \<Rightarrow> acc)"
| "collectDefined JNull acc = acc"
| "collectDefined (JBool b) acc = acc"
| "collectDefined (JNumber n) acc = acc"
| "collectDefined (JString s) acc = acc"
  by pat_completeness auto
termination
  by (relation "measure (\<lambda>(v, acc). json_size v)")
    (auto intro: json_size_element json_size_entry json_size_nested simp del: json_size.simps)

text \<open>What the walk is meant to find: the names a value refers to.\<close>

inductive mentions :: "json \<Rightarrow> string \<Rightarrow> bool" where
  element: "v \<in> set vs \<Longrightarrow> mentions v n \<Longrightarrow> mentions (JArray vs) n"
| plain_name: "map_of es ''defined'' = Some (JString n) \<Longrightarrow> mentions (JObject es) n"
| object_name: "map_of es ''defined'' = Some (JObject d) \<Longrightarrow> map_of d ''name'' = Some (JString n) \<Longrightarrow>
    mentions (JObject es) n"
| generic: "map_of es ''defined'' = Some (JObject d) \<Longrightarrow> map_of d ''name'' = Some (JString m) \<Longrightarrow>
    map_of d ''generics'' = Some g \<Longrightarrow> mentions g n \<Longrightarrow> mentions (JObject es) n"
| property: "(k, v) \<in> set es \<Longrightarrow> k \<noteq> ''defined'' \<Longrightarrow> mentions v n \<Longrightarrow> mentions (JObject es) n"

inductive_simps mentions_array: "mentions (JArray vs) n"
inductive_simps mentions_object: "mentions (JObject es) n"
inductive_simps mentions_leaf:
  "mentions JNull n" "mentions (JBool b) n" "mentions (JNumber i) n" "mentions (JString s) n"

lemma set_fold_collect:
  assumes "\<And>x a. x \<in> set xs \<Longrightarrow> set (f x a) = set a \<union> M x"
  shows "set (fold f xs acc) = set acc \<union> (\<Union>x \<in> set xs. M x)"
  using assms by (induction xs arbitrary: acc) auto

lemma set_fold_entries:
  assumes "\<And>k v a. (k, v) \<in> set es \<Longrightarrow> k \<noteq> ''defined'' \<Longrightarrow> set (collectDefined v a) = set a \<union> {n. mentions v n}"
  shows "set (fold (\<lambda>(k, v) a. if k \<noteq> ''defined'' then collectDefined v a else a) es acc) =
    set acc \<union> {n. \<exists>k v. (k, v) \<in> set es \<and> k \<noteq> ''defined'' \<and> mentions v n}"
proof -
  have "set (fold (\<lambda>(k, v) a. if k \<noteq> ''defined'' then collectDefined v a else a) es acc) =
      set acc \<union> (\<Union>e \<in> set es. {n. fst e \<noteq> ''defined'' \<and> mentions (snd e) n})"
    by (rule set_fold_collect) (auto simp: assms split: if_splits)
  then show ?thesis by force
qed

lemma collectDefined_mentions: "set (collectDefined v acc) = set acc \<union> {n. mentions v n}"
proof (induction v acc rule: collectDefined.induct)
  case (1 vs acc)
  then show ?case using set_fold_collect [of vs collectDefined "\<lambda>v. {n. mentions v n}" acc]
    by (auto simp: mentions_array)
next
  case (2 es acc)
  have e: "set (fold (\<lambda>(k, v) a. if k \<noteq> ''defined'' then collectDefined v a else a) es a) =
      set a \<union> {n. \<exists>k v. (k, v) \<in> set es \<and> k \<noteq> ''defined'' \<and> mentions v n}" for a
    by (rule set_fold_entries) (use 2(2) in auto)
  show ?case
    unfolding collectDefined.simps(2) e
    using 2(1) by (auto simp: mentions_object split: option.splits json.splits)
qed (auto simp: mentions_leaf)

declare collectDefined.simps(1,2) [simp del]

section \<open>The parts of an IDL\<close>

text \<open>A named entry with its other properties; the code reads the arguments of an instruction besides.\<close>

record idl_item =
  it_name :: string
  it_rest :: "(string \<times> json) list"

record idl_ix = idl_item +
  ii_args :: "json list"

record idl_like =
  id_address :: string
  id_metadata :: json
  id_instructions :: "idl_ix list"
  id_accounts :: "idl_item list option"
  id_events :: "idl_item list option"
  id_errors :: "json list option"
  id_types :: "idl_item list option"

record trim_spec =
  tr_instructions :: "string list"
  tr_accounts :: "string list option"
  tr_events :: "string list option"
  tr_errors :: "bool option"

fun or_empty :: "'a list option \<Rightarrow> 'a list" where
  "or_empty None = []"
| "or_empty (Some xs) = xs"

definition item_json :: "'a idl_item_scheme \<Rightarrow> json" where
  "item_json t = JObject ((''name'', JString (it_name t)) # it_rest t)"

text \<open>A \<open>Map\<close> built from a list keeps the last entry of a name.\<close>

definition by_name :: "'a idl_item_scheme list \<Rightarrow> string \<rightharpoonup> 'a idl_item_scheme" where
  "by_name items = map_of (rev (map (\<lambda>t. (it_name t, t)) items))"

definition pick :: "'a idl_item_scheme list \<Rightarrow> string list \<Rightarrow> string \<Rightarrow> 'a idl_item_scheme list result" where
  "pick items names what =
     mapE (\<lambda>n. case by_name items n of
                 None \<Rightarrow> Inl (GenericError (''IDL has no '' @ what @ '' named '' @ n))
               | Some item \<Rightarrow> Inr item) names"

definition keepOrder :: "'a idl_item_scheme list \<Rightarrow> string list \<Rightarrow> 'a idl_item_scheme list" where
  "keepOrder items names = filter (\<lambda>x. it_name x \<in> set names) items"

lemma by_name_Some_in: "by_name items n = Some t \<Longrightarrow> t \<in> set items \<and> it_name t = n"
  using map_of_SomeD [of "rev (map (\<lambda>t. (it_name t, t)) items)" n t] by (auto simp: by_name_def)

lemma by_name_eq_None: "by_name items n = None \<longleftrightarrow> n \<notin> it_name ` set items"
  by (force simp: by_name_def map_of_eq_None_iff)

lemma by_name_filter:
  "by_name (filter (\<lambda>t. P (it_name t)) items) n = (if P n then by_name items n else None)"
proof -
  let ?es = "\<lambda>items. rev (map (\<lambda>t. (it_name t, t)) items)"
  have m: "map_of (filter (\<lambda>e. P (fst e)) es) n = (if P n then map_of es n else None)"
    for es :: "(string \<times> 'a idl_item_scheme) list" by (induction es) auto
  have "?es (filter (\<lambda>t. P (it_name t)) items) = filter (\<lambda>e. P (fst e)) (?es items)"
    by (simp add: filter_map o_def flip: rev_filter)
  with m [of "?es items"] show ?thesis by (simp only: by_name_def)
qed

section \<open>The worklist\<close>

text \<open>
  The queue is taken from its end. Each round drops an entry or, at most once for every name that has a
  type, adds a name to those needed.
\<close>

lemma named_type_removed:
  assumes "by_name types n = Some t" "n \<notin> set needed"
  shows "card (it_name ` set types - set (set_add n needed)) < card (it_name ` set types - set needed)"
proof (rule psubset_card_mono)
  show "it_name ` set types - set (set_add n needed) \<subset> it_name ` set types - set needed"
    using by_name_Some_in [OF assms(1)] assms(2) by auto
qed simp

function trimLoop :: "idl_item list \<Rightarrow> string list \<Rightarrow> string list \<Rightarrow> string list result" where
  "trimLoop types queue needed =
     (if queue = [] then Inr needed
      else if last queue \<in> set needed then trimLoop types (butlast queue) needed
      else case by_name types (last queue) of
          None \<Rightarrow> Inl (GenericError (''IDL type '' @ last queue @ '' is referenced but not defined''))
        | Some t \<Rightarrow>
            trimLoop types
              (butlast queue @ filter (\<lambda>r. r \<notin> set (set_add (last queue) needed)) (collectDefined (item_json t) []))
              (set_add (last queue) needed))"
  by pat_completeness auto
termination
  by (relation "measures [\<lambda>(types, queue, needed). card (it_name ` set types - set needed),
                          \<lambda>(types, queue, needed). length queue]")
    (simp_all add: named_type_removed del: set_set_add)

declare trimLoop.simps [simp del]

section \<open>The cut\<close>

definition seed_types :: "'a list \<Rightarrow> ('a \<Rightarrow> json list) \<Rightarrow> string list \<Rightarrow> string list \<Rightarrow> string list" where
  "seed_types instructions ix_args accounts events =
     fold set_add events (fold set_add accounts
       (collectDefined (JArray (map (\<lambda>i. JArray (ix_args i)) instructions)) []))"

definition trimIdl :: "idl_like \<Rightarrow> trim_spec \<Rightarrow> idl_like result" where
  "trimIdl idl spec =
     bindE (pick (id_instructions idl) (tr_instructions spec) ''instruction'') (\<lambda>instructions.
     bindE (pick (or_empty (id_accounts idl)) (or_empty (tr_accounts spec)) ''account'') (\<lambda>accounts.
     bindE (pick (or_empty (id_events idl)) (or_empty (tr_events spec)) ''event'') (\<lambda>events.
     bindE (trimLoop (or_empty (id_types idl))
              (seed_types instructions ii_args (map it_name accounts) (map it_name events)) []) (\<lambda>needed.
     Inr \<lparr>id_address = id_address idl,
          id_metadata = id_metadata idl,
          id_instructions = keepOrder (id_instructions idl) (tr_instructions spec),
          id_accounts = Some (keepOrder (or_empty (id_accounts idl)) (or_empty (tr_accounts spec))),
          id_events = Some (keepOrder (or_empty (id_events idl)) (or_empty (tr_events spec))),
          id_errors = Some (if tr_errors spec = Some False then [] else or_empty (id_errors idl)),
          id_types = Some (keepOrder (or_empty (id_types idl)) needed)\<rparr>))))"

definition DBC_IDL_TRIM :: trim_spec where
  "DBC_IDL_TRIM =
     \<lparr>tr_instructions = [''create_config'', ''initialize_virtual_pool_with_spl_token'', ''swap2'', ''migration_damm_v2''],
      tr_accounts = Some [''PoolConfig'', ''VirtualPool''], tr_events = Some [], tr_errors = None\<rparr>"

definition DAMM_V2_IDL_TRIM :: trim_spec where
  "DAMM_V2_IDL_TRIM =
     \<lparr>tr_instructions = [''swap2''], tr_accounts = Some [''Pool'', ''Position''], tr_events = Some [], tr_errors = None\<rparr>"

section \<open>The types an IDL needs\<close>

text \<open>A type is needed when a root refers to it or another needed type does.\<close>

inductive needed_type :: "idl_item list \<Rightarrow> string set \<Rightarrow> string \<Rightarrow> bool" for types roots where
  root: "n \<in> roots \<Longrightarrow> needed_type types roots n"
| step: "needed_type types roots m \<Longrightarrow> by_name types m = Some t \<Longrightarrow> mentions (item_json t) n \<Longrightarrow>
    needed_type types roots n"

text \<open>
  A set of names is closed under the references of their types, up to a set of names still to be visited.
\<close>

definition closed_upto :: "idl_item list \<Rightarrow> string set \<Rightarrow> string set \<Rightarrow> bool" where
  "closed_upto types todo ns \<longleftrightarrow>
     (\<forall>m \<in> ns. \<exists>t. by_name types m = Some t \<and> {n. mentions (item_json t) n} \<subseteq> ns \<union> todo)"

lemma needed_type_least:
  assumes "closed_upto types {} ns" "roots \<subseteq> ns"
  shows "{n. needed_type types roots n} \<subseteq> ns"
proof
  fix n assume "n \<in> {n. needed_type types roots n}"
  then have "needed_type types roots n" by simp
  then show "n \<in> ns" using assms by (induction) (auto simp: closed_upto_def, fastforce)
qed

lemma closed_upto_visit:
  assumes "closed_upto types (insert n todo) ns" "by_name types n = Some t"
    and "{m. mentions (item_json t) m} \<subseteq> insert n ns \<union> todo'" "todo \<subseteq> todo'"
  shows "closed_upto types todo' (insert n ns)"
  unfolding closed_upto_def
proof
  fix m assume "m \<in> insert n ns"
  then show "\<exists>t. by_name types m = Some t \<and> {k. mentions (item_json t) k} \<subseteq> insert n ns \<union> todo'"
    using assms by (cases "m = n") (fastforce simp: closed_upto_def)+
qed

lemma trimLoop_correct:
  assumes "set queue \<union> set needed \<subseteq> {n. needed_type types roots n}" "closed_upto types (set queue) (set needed)"
  shows "case trimLoop types queue needed of
      Inr ns \<Rightarrow> set queue \<union> set needed \<subseteq> set ns \<and> set ns \<subseteq> {n. needed_type types roots n} \<and> closed_upto types {} (set ns)
    | Inl e \<Rightarrow> \<exists>n. needed_type types roots n \<and> by_name types n = None"
  using assms
proof (induction types queue needed rule: trimLoop.induct)
  case (1 types queue needed)
  consider (emptied) "queue = []"
    | (seen) "queue \<noteq> []" "last queue \<in> set needed"
    | (undefined) "queue \<noteq> []" "last queue \<notin> set needed" "by_name types (last queue) = None"
    | (visit) t where "queue \<noteq> []" "last queue \<notin> set needed" "by_name types (last queue) = Some t"
    by (cases "by_name types (last queue)") auto
  then show ?case
  proof cases
    case emptied
    then show ?thesis using "1.prems" by (simp add: trimLoop.simps [of types "[]"])
  next
    case seen
    have q: "set queue = insert (last queue) (set (butlast queue))"
      using seen(1) by (metis append_butlast_last_id rotate1.simps(2) set_rotate1 list.simps(15))
    have "closed_upto types (set (butlast queue)) (set needed)"
      using "1.prems"(2) seen(2) by (fastforce simp: closed_upto_def q)
    then show ?thesis using "1.IH"(1) [OF seen] "1.prems"(1) seen
      by (simp add: trimLoop.simps [of types queue] q insert_absorb split: sum.splits)
  next
    case undefined
    then have "needed_type types roots (last queue)" using "1.prems"(1) by (auto dest: last_in_set)
    then show ?thesis using undefined by (auto simp: trimLoop.simps [of types queue])
  next
    case visit
    let ?n = "last queue"
    let ?refs = "filter (\<lambda>r. r \<notin> set (set_add ?n needed)) (collectDefined (item_json t) [])"
    have q: "set queue = insert ?n (set (butlast queue))"
      using visit(1) by (metis append_butlast_last_id rotate1.simps(2) set_rotate1 list.simps(15))
    have n: "needed_type types roots ?n" using "1.prems"(1) visit(1) by (auto dest: last_in_set)
    have "set (butlast queue @ ?refs) \<union> set (set_add ?n needed) \<subseteq> {n. needed_type types roots n}"
      using "1.prems"(1) n needed_type.step [OF n visit(3)] by (auto simp: q collectDefined_mentions)
    moreover have "closed_upto types (set (butlast queue @ ?refs)) (set (set_add ?n needed))"
      unfolding set_set_add
      by (rule closed_upto_visit [OF "1.prems"(2) [unfolded q] visit(3)]) (auto simp: collectDefined_mentions)
    ultimately show ?thesis using "1.IH"(2) [OF visit] visit
      by (auto simp: trimLoop.simps [of types queue] q split: sum.splits)
  qed
qed

section \<open>What the cut keeps\<close>

definition spec_found :: "idl_like \<Rightarrow> trim_spec \<Rightarrow> bool" where
  "spec_found idl spec \<longleftrightarrow>
     set (tr_instructions spec) \<subseteq> it_name ` set (id_instructions idl) \<and>
     set (or_empty (tr_accounts spec)) \<subseteq> it_name ` set (or_empty (id_accounts idl)) \<and>
     set (or_empty (tr_events spec)) \<subseteq> it_name ` set (or_empty (id_events idl))"

text \<open>The roots: the arguments of the chosen instructions, and the chosen accounts and events themselves.\<close>

definition trim_roots :: "idl_like \<Rightarrow> trim_spec \<Rightarrow> string set" where
  "trim_roots idl spec =
     {n. \<exists>name \<in> set (tr_instructions spec). \<exists>i. by_name (id_instructions idl) name = Some i \<and>
           mentions (JArray (ii_args i)) n} \<union>
     set (or_empty (tr_accounts spec)) \<union> set (or_empty (tr_events spec))"

abbreviation needed_by :: "idl_like \<Rightarrow> trim_spec \<Rightarrow> string \<Rightarrow> bool" where
  "needed_by idl spec \<equiv> needed_type (or_empty (id_types idl)) (trim_roots idl spec)"

lemma pick_eq_Inr: "pick items names what = Inr xs \<longleftrightarrow> map (by_name items) names = map Some xs"
proof (induction names arbitrary: xs)
  case (Cons n names)
  then show ?case by (cases xs) (auto simp: pick_def result_simps split: option.splits)
qed (auto simp: pick_def)

lemma pick_names: "map (by_name items) names = map Some xs \<Longrightarrow> map it_name xs = names"
proof (induction names arbitrary: xs)
  case (Cons n names)
  then show ?case by (cases xs) (auto dest: by_name_Some_in)
qed simp

lemma pick_returns: "returns (pick items names what) \<longleftrightarrow> set names \<subseteq> it_name ` set items"
  unfolding pick_def
proof (induction names)
  case (Cons n names)
  then show ?case using by_name_eq_None [of items n]
    by (cases "by_name items n") (auto simp: returns_def result_simps)
qed simp

lemma set_fold_set_add [simp]: "set (fold set_add xs acc) = set acc \<union> set xs"
  by (induction xs arbitrary: acc) auto

lemma set_seed_types:
  assumes "map (by_name (id_instructions idl)) (tr_instructions spec) = map Some chosen"
  shows "set (seed_types chosen ii_args (or_empty (tr_accounts spec)) (or_empty (tr_events spec))) = trim_roots idl spec"
proof -
  have "i \<in> set chosen \<longleftrightarrow> (\<exists>name \<in> set (tr_instructions spec). by_name (id_instructions idl) name = Some i)" for i
  proof -
    have "i \<in> set chosen \<longleftrightarrow> Some i \<in> set (map Some chosen)" by (simp add: image_iff)
    also have "\<dots> \<longleftrightarrow> Some i \<in> by_name (id_instructions idl) ` set (tr_instructions spec)"
      by (simp only: assms [symmetric] set_map)
    finally show ?thesis by (auto simp: image_iff) metis
  qed
  then show ?thesis
    by (auto simp: seed_types_def trim_roots_def collectDefined_mentions mentions_array [of "map _ _"]) blast+
qed

lemma trimLoop_from_roots:
  assumes "set queue = roots"
  shows "case trimLoop types queue [] of
      Inr ns \<Rightarrow> set ns = {n. needed_type types roots n} \<and> set ns \<subseteq> it_name ` set types
    | Inl _ \<Rightarrow> \<not> {n. needed_type types roots n} \<subseteq> it_name ` set types"
proof -
  have "set queue \<union> set [] \<subseteq> {n. needed_type types roots n}" by (auto simp: assms intro: needed_type.root)
  moreover have "closed_upto types (set queue) (set [])" by (simp add: closed_upto_def)
  ultimately have c: "case trimLoop types queue [] of
      Inr ns \<Rightarrow> set queue \<union> set [] \<subseteq> set ns \<and> set ns \<subseteq> {n. needed_type types roots n} \<and> closed_upto types {} (set ns)
    | Inl e \<Rightarrow> \<exists>n. needed_type types roots n \<and> by_name types n = None"
    by (rule trimLoop_correct)
  show ?thesis
  proof (cases "trimLoop types queue []")
    case (Inl e)
    then show ?thesis using c by (auto simp: by_name_eq_None)
  next
    case (Inr ns)
    with c have *: "set queue \<subseteq> set ns" "set ns \<subseteq> {n. needed_type types roots n}" "closed_upto types {} (set ns)"
      by simp_all
    have "set ns \<subseteq> it_name ` set types" using *(3) by (fastforce simp: closed_upto_def dest: by_name_Some_in)
    with * needed_type_least [of types "set ns" roots] show ?thesis by (auto simp: Inr assms)
  qed
qed

lemma trimIdl_found:
  assumes "trimIdl idl spec = Inr out"
  shows "spec_found idl spec"
proof -
  from assms have "returns (pick (id_instructions idl) (tr_instructions spec) ''instruction'')"
      "returns (pick (or_empty (id_accounts idl)) (or_empty (tr_accounts spec)) ''account'')"
      "returns (pick (or_empty (id_events idl)) (or_empty (tr_events spec)) ''event'')"
    by (auto simp: trimIdl_def result_simps returns_def)
  then show ?thesis by (simp add: pick_returns spec_found_def)
qed

lemma trimIdl_cases:
  obtains (missing) e where "trimIdl idl spec = Inl e" "\<not> spec_found idl spec"
  | (unresolved) e where "trimIdl idl spec = Inl e" "spec_found idl spec"
      "\<not> {n. needed_by idl spec n} \<subseteq> it_name ` set (or_empty (id_types idl))"
  | (trimmed) ns where "spec_found idl spec" "{n. needed_by idl spec n} \<subseteq> it_name ` set (or_empty (id_types idl))"
      "set ns = {n. needed_by idl spec n}"
      "trimIdl idl spec = Inr \<lparr>id_address = id_address idl, id_metadata = id_metadata idl,
         id_instructions = keepOrder (id_instructions idl) (tr_instructions spec),
         id_accounts = Some (keepOrder (or_empty (id_accounts idl)) (or_empty (tr_accounts spec))),
         id_events = Some (keepOrder (or_empty (id_events idl)) (or_empty (tr_events spec))),
         id_errors = Some (if tr_errors spec = Some False then [] else or_empty (id_errors idl)),
         id_types = Some (keepOrder (or_empty (id_types idl)) ns)\<rparr>"
proof (cases "spec_found idl spec")
  case False
  then have "\<not> returns (trimIdl idl spec)" by (auto simp: returns_def dest: trimIdl_found)
  then obtain e where "trimIdl idl spec = Inl e" by (cases "trimIdl idl spec") (auto simp: returns_def)
  with False show ?thesis by (rule missing [rotated])
next
  case True
  then obtain instructions accounts events where p:
      "pick (id_instructions idl) (tr_instructions spec) ''instruction'' = Inr instructions"
      "pick (or_empty (id_accounts idl)) (or_empty (tr_accounts spec)) ''account'' = Inr accounts"
      "pick (or_empty (id_events idl)) (or_empty (tr_events spec)) ''event'' = Inr events"
    using pick_returns [of "id_instructions idl" "tr_instructions spec" "''instruction''"]
      pick_returns [of "or_empty (id_accounts idl)" "or_empty (tr_accounts spec)" "''account''"]
      pick_returns [of "or_empty (id_events idl)" "or_empty (tr_events spec)" "''event''"]
    by (auto simp: spec_found_def returns_def)
  let ?seed = "seed_types instructions ii_args (or_empty (tr_accounts spec)) (or_empty (tr_events spec))"
  have names: "map it_name accounts = or_empty (tr_accounts spec)" "map it_name events = or_empty (tr_events spec)"
    using p by (simp_all add: pick_eq_Inr pick_names)
  have "set ?seed = trim_roots idl spec" using p(1) by (intro set_seed_types) (simp add: pick_eq_Inr)
  note loop = trimLoop_from_roots [OF this, of "or_empty (id_types idl)"]
  show ?thesis
  proof (cases "trimLoop (or_empty (id_types idl)) ?seed []")
    case (Inl e)
    show ?thesis by (rule unresolved [of e]) (use Inl loop p True names in \<open>simp_all add: trimIdl_def\<close>)
  next
    case (Inr ns)
    show ?thesis by (rule trimmed [of ns]) (use Inr loop p True names in \<open>auto simp: trimIdl_def\<close>)
  qed
qed

text \<open>
  C23: the cut of an IDL is exact. It returns exactly when every requested item exists and every type the
  kept items need, directly or through other types, is defined; the types it keeps are those needed and no
  others, in the order of the IDL, so every reference of the result is defined in it.
\<close>

theorem trim_keeps_needed_types:
  "case trimIdl idl spec of
     Inr out \<Rightarrow> spec_found idl spec \<and> {n. needed_by idl spec n} = it_name ` set (or_empty (id_types out)) \<and>
       or_empty (id_types out) = filter (\<lambda>t. needed_by idl spec (it_name t)) (or_empty (id_types idl)) \<and>
       id_instructions out = filter (\<lambda>i. it_name i \<in> set (tr_instructions spec)) (id_instructions idl)
   | Inl _ \<Rightarrow> \<not> (spec_found idl spec \<and> {n. needed_by idl spec n} \<subseteq> it_name ` set (or_empty (id_types idl)))"
proof (cases rule: trimIdl_cases [of idl spec])
  case (trimmed ns)
  then show ?thesis by (auto simp: keepOrder_def)
qed simp_all

lemma needed_type_filter:
  "needed_type (filter (\<lambda>t. needed_type types roots (it_name t)) types) roots = needed_type types roots"
proof (intro ext iffI)
  fix n assume "needed_type (filter (\<lambda>t. needed_type types roots (it_name t)) types) roots n"
  then show "needed_type types roots n"
    by induction (auto intro: needed_type.intros simp: by_name_filter [of "needed_type types roots"] split: if_splits)
next
  fix n assume "needed_type types roots n"
  then show "needed_type (filter (\<lambda>t. needed_type types roots (it_name t)) types) roots n"
  proof induction
    case (step m t n)
    then show ?case by (intro needed_type.step [of _ _ m t n]) (auto simp: by_name_filter [of "needed_type types roots"])
  qed (rule needed_type.root)
qed

text \<open>
  A trimmed IDL is self-contained: trimming it again with the same request succeeds and changes
  nothing, for any IDL and any request the first cut accepts.
\<close>

theorem trim_is_idempotent:
  assumes "trimIdl idl spec = Inr out"
  shows "trimIdl out spec = Inr out"
proof (cases rule: trimIdl_cases [of idl spec])
  case (trimmed ns)
  have out: "out = \<lparr>id_address = id_address idl, id_metadata = id_metadata idl,
      id_instructions = filter (\<lambda>i. it_name i \<in> set (tr_instructions spec)) (id_instructions idl),
      id_accounts = Some (filter (\<lambda>i. it_name i \<in> set (or_empty (tr_accounts spec))) (or_empty (id_accounts idl))),
      id_events = Some (filter (\<lambda>i. it_name i \<in> set (or_empty (tr_events spec))) (or_empty (id_events idl))),
      id_errors = Some (if tr_errors spec = Some False then [] else or_empty (id_errors idl)),
      id_types = Some (filter (\<lambda>t. needed_by idl spec (it_name t)) (or_empty (id_types idl)))\<rparr>"
    using trimmed(3,4) assms by (simp add: keepOrder_def)
  have roots: "trim_roots out spec = trim_roots idl spec" 
    by (auto simp: trim_roots_def out by_name_filter [of "\<lambda>n. n \<in> set (tr_instructions spec)"])
  have needed: "needed_by out spec = needed_by idl spec"
    unfolding roots by (simp add: out needed_type_filter)
  have found: "spec_found out spec" using trimmed(1) by (auto simp: spec_found_def out)
  have defined: "{n. needed_by out spec n} \<subseteq> it_name ` set (or_empty (id_types out))"
    unfolding needed using trimmed(2) by (auto simp: out)
  show ?thesis
  proof (cases rule: trimIdl_cases [of out spec])
    case (trimmed ms)
    have "keepOrder (or_empty (id_types out)) ms = or_empty (id_types out)"
      unfolding keepOrder_def \<open>set ms = _\<close> needed by (simp add: out)
    with trimmed(4) show ?thesis by (simp add: keepOrder_def out)
  qed (use found defined in simp_all)
qed (use assms in simp_all)

definition type_ref :: "string \<Rightarrow> json" where
  "type_ref n = JObject [(''defined'', JObject [(''name'', JString n)])]"

definition struct_of :: "string \<Rightarrow> json list \<Rightarrow> idl_item" where
  "struct_of n fs = \<lparr>it_name = n, it_rest = [(''type'', JObject [(''kind'', JString ''struct''), (''fields'', JArray fs)])]\<rparr>"

definition example_idl :: idl_like where
  "example_idl =
     \<lparr>id_address = ''dbc'', id_metadata = JNull,
      id_instructions =
        [\<lparr>it_name = ''swap'', it_rest = [], ii_args = [JString ''u64'']\<rparr>,
         \<lparr>it_name = ''swap2'', it_rest = [],
          ii_args = [JObject [(''name'', JString ''params''), (''type'', type_ref ''SwapParameters2'')]]\<rparr>],
      id_accounts = Some [struct_of ''Config'' [], struct_of ''Pool'' []], id_events = None,
      id_errors = Some [JNumber (JsInt 6000)],
      id_types = Some
        [struct_of ''Pool'' [type_ref ''PoolFees''], struct_of ''Unused'' [type_ref ''Pool''],
         struct_of ''PoolFees'' [JObject [(''vec'', type_ref ''PoolFees'')]], struct_of ''SwapParameters2'' [JString ''u64'']]\<rparr>"

definition example_spec :: trim_spec where
  "example_spec = \<lparr>tr_instructions = [''swap2''], tr_accounts = Some [''Pool''], tr_events = None, tr_errors = Some False\<rparr>"

lemma example_trim:
  "map_sum (\<lambda>_. ()) (\<lambda>out. map it_name (or_empty (id_types out))) (trimIdl example_idl example_spec) =
     Inr [''Pool'', ''PoolFees'', ''SwapParameters2'']"
  by code_simp

lemma trim_is_idempotent_witness:
  "\<exists>out. trimIdl example_idl example_spec = Inr out \<and> trimIdl out example_spec = Inr out"
proof -
  obtain out where "trimIdl example_idl example_spec = Inr out"
    using example_trim by (cases "trimIdl example_idl example_spec") auto
  with trim_is_idempotent [OF this] show ?thesis by blast
qed

end
