(* ===== verification/LaunchComposer.thy ===== *)
theory LaunchComposer
  imports Trade Presets ReservedNames
begin

text \<open>
  \<^verbatim>\<open>packages/sdk/src/launch.ts\<close> and \<open>validateTokenMetadata\<close> of \<^verbatim>\<open>presets.ts\<close>: the transactions that create
  a launch, and the config and pool reconstructed from the parameters to quote the creator's first buy.
  Keypairs are represented by their public keys; those generated on the fly, and the clock, are arguments.
  The floating point preview attached to the result is left out. The properties tie the composer to the
  components it calls: the pool of every launch it can build starts in the invariant of the curve quotes,
  and the plan is what the file's comment says.
\<close>

section \<open>Token metadata\<close>

text \<open>\<open>new TextEncoder().encode(s).length\<close> on code points; a lone surrogate becomes U+FFFD, three bytes.\<close>

definition utf8_length :: "int list \<Rightarrow> nat" where
  "utf8_length s =
     sum_list (map (\<lambda>cp. if cp < 0x80 then 1 else if cp < 0x800 then 2 else if cp < 0x10000 then 3 else 4) s)"

text \<open>The characters \<open>trim\<close> removes; a string is blank when nothing is left.\<close>

definition js_whitespace :: "int \<Rightarrow> bool" where
  "js_whitespace cp \<longleftrightarrow>
     (9 \<le> cp \<and> cp \<le> 13) \<or> (0x2000 \<le> cp \<and> cp \<le> 0x200A) \<or>
     cp \<in> {32, 160, 0x1680, 0x2028, 0x2029, 0x202F, 0x205F, 0x3000, 0xFEFF}"

definition blank :: "int list \<Rightarrow> bool" where
  "blank s \<longleftrightarrow> list_all js_whitespace s"

definition RESERVED_NAME_MESSAGE :: string where
  \<open>RESERVED_NAME_MESSAGE = ''Names and tickers that look like "Plinto" are reserved.''\<close>

definition validateTokenMetadata :: "int list \<Rightarrow> int list \<Rightarrow> int list \<Rightarrow> string list" where
  "validateTokenMetadata name symbol uri =
     (if blank name then [''name is required''] else []) @
     (if utf8_length name > 32 then [''name must be at most 32 bytes''] else []) @
     (if blank symbol then [''symbol is required''] else []) @
     (if utf8_length symbol > 10 then [''symbol must be at most 10 bytes''] else []) @
     (if utf8_length uri > 200 then [''uri must be at most 200 bytes''] else []) @
     (if isReservedTokenName name symbol then [RESERVED_NAME_MESSAGE] else [])"

section \<open>The fresh pool\<close>

text \<open>
  A number copied from the parameters; \<open>validateDbcConfigParams\<close> has checked that those are integers.
\<close>

definition copied :: "jsnum \<Rightarrow> int" where
  "copied n = (case as_integer n of Some i \<Rightarrow> i | None \<Rightarrow> 0)"

fun copied_points :: "curve_param list \<Rightarrow> curve_point list result" where
  "copied_points [] = Inr []"
| "copied_points (p # ps) =
     bindE (big (crv_sqrtPrice p)) (\<lambda>sqrtPrice.
     bindE (big (crv_liquidity p)) (\<lambda>liquidity.
     bindE (copied_points ps) (\<lambda>rest. Inr (\<lparr>cp_sqrtPrice = sqrtPrice, cp_liquidity = liquidity\<rparr> # rest))))"

definition padded :: "curve_point list \<Rightarrow> curve_point list" where
  "padded points = points @ replicate (20 - length points) \<lparr>cp_sqrtPrice = 0, cp_liquidity = 0\<rparr>"

definition fresh_base_fee :: "base_fee_params \<Rightarrow> dbc_base_fee result" where
  "fresh_base_fee b =
     bindE (big (bfp_cliffFeeNumerator b)) (\<lambda>cliff.
     bindE (big (bfp_secondFactor b)) (\<lambda>second.
     bindE (big (bfp_thirdFactor b)) (\<lambda>third.
     Inr \<lparr>bf_cliffFeeNumerator = cliff, bf_firstFactor = copied (bfp_firstFactor b), bf_secondFactor = second,
          bf_thirdFactor = third, bf_baseFeeMode = copied (bfp_baseFeeMode b)\<rparr>)))"

definition fresh_config ::
  "dbc_config_build \<Rightarrow> launch_curve_result \<Rightarrow> create_config_result \<Rightarrow> curve_point list \<Rightarrow> dbc_base_fee \<Rightarrow>
     int \<Rightarrow> int \<Rightarrow> dbc_pool_config" where
  "fresh_config build curve v points baseFee creationFee sqrtStart =
     (let params = cb_params build
      in \<lparr>pc_quoteMint = cb_quoteMint build,
          pc_feeClaimer = cb_feeClaimer build,
          pc_leftoverReceiver = cb_leftoverReceiver build,
          pc_baseFee = baseFee,
          pc_dynamicFee =
            \<lparr>df_initialized = (if cfg_dynamicFee params \<noteq> None then 1 else 0), df_maxVolatilityAccumulator = 0,
             df_variableFeeControl = 0, df_binStep = 0, df_filterPeriod = 0, df_decayPeriod = 0,
             df_reductionFactor = 0, df_binStepU128 = 0\<rparr>,
          pc_collectFeeMode = copied (cfg_collectFeeMode params),
          pc_migrationOption = copied (cfg_migrationOption params),
          pc_activationType = copied (cfg_activationType params),
          pc_tokenDecimal = copied (cfg_tokenDecimal params),
          pc_version = 0,
          pc_tokenType = copied (cfg_tokenType params),
          pc_quoteTokenFlag = 1,
          pc_partnerPermanentLockedLiquidityPercentage = copied (cfg_partnerPermanentLockedLiquidityPercentage params),
          pc_partnerLiquidityPercentage = copied (cfg_partnerLiquidityPercentage params),
          pc_creatorPermanentLockedLiquidityPercentage = copied (cfg_creatorPermanentLockedLiquidityPercentage params),
          pc_creatorLiquidityPercentage = copied (cfg_creatorLiquidityPercentage params),
          pc_migrationFeeOption = copied (cfg_migrationFeeOption params),
          pc_fixedTokenSupplyFlag = (if cfg_tokenSupply params \<noteq> None then 1 else 0),
          pc_creatorTradingFeePercentage = copied (cfg_creatorTradingFeePercentage params),
          pc_tokenUpdateAuthority = copied (cfg_tokenUpdateAuthority params),
          pc_migrationFeePercentage = copied (cfg_migrationFeePercentage params),
          pc_creatorMigrationFeePercentage = copied (cfg_creatorMigrationFeePercentage params),
          pc_swapBaseAmount = cr_swapBaseAmount v,
          pc_migrationQuoteThreshold = lc_thresholdQuoteRaw curve,
          pc_migrationBaseThreshold = cr_migrationBaseThreshold v,
          pc_migrationSqrtPrice = cr_migrationSqrtPrice v,
          pc_preMigrationTokenSupply = 0,
          pc_postMigrationTokenSupply = 0,
          pc_migratedCollectFeeMode = copied (mpf_collectFeeMode (cfg_migratedPoolFee params)),
          pc_migratedDynamicFee = copied (mpf_dynamicFee (cfg_migratedPoolFee params)),
          pc_migratedPoolFeeBps = copied (mpf_poolFeeBps (cfg_migratedPoolFee params)),
          pc_enableFirstSwapWithMinFee = (if cfg_enableFirstSwapWithMinFee params then 1 else 0),
          pc_poolCreationFee = creationFee,
          pc_sqrtStartPrice = sqrtStart,
          pc_curve = padded points,
          pc_lockedVestingConfig =
            \<lparr>lv_amountPerPeriod = 0, lv_cliffDurationFromMigrationTime = 0, lv_frequency = 0,
             lv_numberOfPeriod = 0, lv_cliffUnlockAmount = 0\<rparr>\<rparr>)"

definition fresh_pool :: "create_config_result \<Rightarrow> int \<Rightarrow> int \<Rightarrow> dbc_virtual_pool" where
  "fresh_pool v sqrtStart activationPoint =
     \<lparr>vp_volatilityTracker = \<lparr>vt_lastUpdateTimestamp = 0, vt_sqrtPriceReference = 0, vt_volatilityAccumulator = 0,
        vt_volatilityReference = 0\<rparr>,
      vp_config = PublicKey_default, vp_creator = PublicKey_default, vp_baseMint = PublicKey_default,
      vp_baseVault = PublicKey_default, vp_quoteVault = PublicKey_default,
      vp_baseReserve = cr_initialBaseSupply v, vp_quoteReserve = 0,
      vp_protocolBaseFee = 0, vp_protocolQuoteFee = 0, vp_partnerBaseFee = 0, vp_partnerQuoteFee = 0,
      vp_sqrtPrice = sqrtStart, vp_activationPoint = activationPoint, vp_poolType = 0, vp_isMigrated = 0,
      vp_isPartnerWithdrawSurplus = 0, vp_isProtocolWithdrawSurplus = 0, vp_migrationProgress = 0,
      vp_isWithdrawLeftover = 0, vp_isCreatorWithdrawSurplus = 0, vp_migrationFeeWithdrawStatus = 0,
      vp_finishCurveTimestamp = 0, vp_creatorBaseFee = 0, vp_creatorQuoteFee = 0, vp_hasSwap = 0,
      vp_protocolMigrationBaseFeeAmount = 0, vp_protocolMigrationQuoteFeeAmount = 0\<rparr>"

definition freshDbcState ::
  "dbc_config_build \<Rightarrow> launch_curve_result \<Rightarrow> int \<Rightarrow> (dbc_pool_config \<times> dbc_virtual_pool) result" where
  "freshDbcState build curve activationPoint =
     (let params = cb_params build
      in bindE (validateDbcConfigParams params
                  \<lparr>vo_leftoverReceiver = Some (cb_leftoverReceiver build), vo_isTransferHook = False\<rparr>) (\<lambda>v.
         bindE (copied_points (cfg_curve params)) (\<lambda>points.
         bindE (fresh_base_fee (cfg_baseFee params)) (\<lambda>baseFee.
         bindE (big (cfg_poolCreationFee params)) (\<lambda>creationFee.
         bindE (big (cfg_sqrtStartPrice params)) (\<lambda>sqrtStart.
         Inr (fresh_config build curve v points baseFee creationFee sqrtStart,
              fresh_pool v sqrtStart activationPoint)))))))"

section \<open>Planned transactions\<close>

record planned_transaction =
  pt_label :: string
  pt_instructions :: "tx_instruction list"
  pt_signers :: "pubkey list"
  pt_computeUnitLimit :: int
  pt_size :: int

definition plan ::
  "web3_lib \<Rightarrow> pubkey \<Rightarrow> jsnum option \<Rightarrow> string \<Rightarrow> tx_instruction list \<Rightarrow> pubkey list \<Rightarrow> int \<Rightarrow>
     planned_transaction result" where
  "plan web payer price label instructions signers computeUnitLimit =
     bindE (computeBudgetInstructions web (Some (JsInt computeUnitLimit)) price) (\<lambda>budget.
     bindE (assertTransactionFits web (budget @ instructions) payer) (\<lambda>size.
     Inr \<lparr>pt_label = label, pt_instructions = instructions, pt_signers = signers,
          pt_computeUnitLimit = computeUnitLimit, pt_size = size\<rparr>))"

record first_buy =
  fb_quoteAmount :: int
  fb_minBaseOut :: "int option"
  fb_slippageBps :: "jsnum option"

record launch_options =
  bo_payer :: "pubkey option"
  bo_exitFeeBps :: "jsnum option"
  bo_configKeypair :: "pubkey option"
  bo_baseMintKeypair :: "pubkey option"
  bo_quoteTokenProgram :: "pubkey option"
  bo_tokenBadge :: "pubkey option option"
  bo_firstBuy :: "first_buy option"
  bo_computeUnitPriceMicroLamports :: "jsnum option"
  bo_nowUnixSeconds :: "int option"

record launch_addresses =
  ad_config :: pubkey
  ad_launch :: pubkey
  ad_claimer :: pubkey
  ad_vaultAuthority :: pubkey
  ad_vault :: pubkey
  ad_baseMint :: pubkey
  ad_quoteMint :: pubkey
  ad_quoteTokenProgram :: pubkey
  ad_pool :: pubkey
  ad_dbcBaseVault :: pubkey
  ad_dbcQuoteVault :: pubkey
  ad_claimerBaseAccount :: pubkey
  ad_tokenBadge :: "pubkey option"

record built_launch =
  bl_configKeypair :: pubkey
  bl_baseMintKeypair :: pubkey
  bl_addresses :: launch_addresses
  bl_dbcParams :: dbc_config_build
  bl_curve :: launch_curve_result
  bl_exitFeeBps :: jsnum
  bl_firstBuyQuote :: "swap_quote option"
  bl_transactions :: "planned_transaction list"

text \<open>
  The libraries and the outside world of a build: the SPL and web3.js builders, the Anchor coder, the
  base58 parser, the floating point start price, the keypairs \<open>Keypair.generate()\<close> returns, and the clock.
\<close>

record launch_env =
  le_lib :: solana_lib
  le_web :: web3_lib
  le_newAta :: ata_builder
  le_coder :: anchor_coder
  le_guess :: start_guess
  le_parse :: "string \<Rightarrow> pubkey option"
  le_freshConfig :: pubkey
  le_freshBaseMint :: pubkey
  le_now :: int

section \<open>The first buy\<close>

text \<open>The exact-in quote, or the partial fill when the exact-in quote throws.\<close>

definition buy_quote :: "dbc_pool_config \<Rightarrow> dbc_virtual_pool \<Rightarrow> int \<Rightarrow> swap_mode \<Rightarrow> swap_quote result" where
  "buy_quote config pool amount mode =
     quoteDbcSwap \<lparr>sp_config = config, sp_pool = pool, sp_direction = QuoteToBase, sp_mode = mode,
       sp_amount = amount, sp_currentPoint = vp_activationPoint pool, sp_hasReferral = False,
       sp_eligibleForFirstSwapWithMinFee = False\<rparr>"

definition first_buy_quote :: "dbc_pool_config \<Rightarrow> dbc_virtual_pool \<Rightarrow> int \<Rightarrow> (swap_mode \<times> swap_quote) result" where
  "first_buy_quote config pool amount =
     (case buy_quote config pool amount ExactIn of
        Inr q \<Rightarrow> Inr (ExactIn, q)
      | Inl _ \<Rightarrow> bindE (buy_quote config pool amount PartialFill) (\<lambda>q. Inr (PartialFill, q)))"

definition first_buy_ixs ::
  "launch_env \<Rightarrow> dbc_pool_keys \<Rightarrow> pubkey \<Rightarrow> pubkey \<Rightarrow> swap_mode \<Rightarrow> int \<Rightarrow> int \<Rightarrow> tx_instruction list" where
  "first_buy_ixs env keys payer creator mode amount minOut =
     (let lib = le_lib env
      in [createAtaIdempotentIx lib (le_newAta env) payer creator (dk_baseMint keys) (TOKEN_PROGRAM_ID lib),
          dbcSwap2Ix lib
            \<lparr>s2_keys = keys, s2_payer = creator,
             s2_inputTokenAccount =
               associatedTokenAddress (sol_ata lib) creator (dk_quoteMint keys) (dk_quoteTokenProgram keys),
             s2_outputTokenAccount =
               associatedTokenAddress (sol_ata lib) creator (dk_baseMint keys) (TOKEN_PROGRAM_ID lib),
             s2_amount0 = amount, s2_amount1 = minOut, s2_swapMode = mode, s2_referralTokenAccount = None\<rparr>])"

text \<open>The pool transaction and the first buy: one transaction when both fit, otherwise two.\<close>

definition plan_first_buy ::
  "launch_env \<Rightarrow> pubkey \<Rightarrow> jsnum option \<Rightarrow> pubkey \<Rightarrow> tx_instruction list \<Rightarrow> tx_instruction list \<Rightarrow>
     planned_transaction list result" where
  "plan_first_buy env payer price baseMint poolIxs buyIxs =
     (let web = le_web env;
          poolCu = CU_LIMITS dbcInitializePool + CU_LIMITS registerPool;
          buyCu = CU_LIMITS createAta + CU_LIMITS dbcSwap2
      in bindE (computeBudgetInstructions web (Some (JsInt (poolCu + buyCu))) price) (\<lambda>budget.
         if legacyTransactionSize web (budget @ poolIxs @ buyIxs) payer \<le> PACKET_DATA_SIZE
         then bindE (plan web payer price ''create_pool+register_pool+first_buy'' (poolIxs @ buyIxs) [baseMint]
                       (poolCu + buyCu)) (\<lambda>t. Inr [t])
         else bindE (plan web payer price ''create_pool+register_pool'' poolIxs [baseMint] poolCu) (\<lambda>t2.
              bindE (plan web payer price ''first_buy'' buyIxs [] buyCu) (\<lambda>t3. Inr [t2, t3]))))"

definition pool_transactions ::
  "launch_env \<Rightarrow> dbc_config_build \<Rightarrow> launch_curve_result \<Rightarrow> dbc_pool_keys \<Rightarrow> pubkey \<Rightarrow> pubkey \<Rightarrow>
     launch_options \<Rightarrow> tx_instruction list \<Rightarrow> (swap_quote option \<times> planned_transaction list) result" where
  "pool_transactions env dbcParams curve keys payer creator opts poolIxs =
     (let price = bo_computeUnitPriceMicroLamports opts;
          baseMint = dk_baseMint keys;
          withoutBuy = bindE (plan (le_web env) payer price ''create_pool+register_pool'' poolIxs [baseMint]
                                (CU_LIMITS dbcInitializePool + CU_LIMITS registerPool)) (\<lambda>t. Inr (None, [t]))
      in case bo_firstBuy opts of
           None \<Rightarrow> withoutBuy
         | Some buy \<Rightarrow>
             if \<not> fb_quoteAmount buy > 0 then withoutBuy
             else bindE (freshDbcState dbcParams curve
                           (case bo_nowUnixSeconds opts of Some t \<Rightarrow> t | None \<Rightarrow> le_now env)) (\<lambda>(config, pool).
                  bindE (first_buy_quote config pool (fb_quoteAmount buy)) (\<lambda>(mode, quote).
                  bindE (case fb_minBaseOut buy of
                           Some m \<Rightarrow> Inr m
                         | None \<Rightarrow> dbcSwapSlippageLimit quote mode
                                     (case fb_slippageBps buy of Some b \<Rightarrow> b | None \<Rightarrow> JsInt 100)) (\<lambda>minOut.
                  bindE (plan_first_buy env payer price baseMint poolIxs
                           (first_buy_ixs env keys payer creator mode (fb_quoteAmount buy) minOut)) (\<lambda>ts.
                  Inr (Some quote, ts))))))"

section \<open>The composer\<close>

definition or_else :: "'a option \<Rightarrow> 'a \<Rightarrow> 'a" where
  "or_else x d = (case x of Some v \<Rightarrow> v | None \<Rightarrow> d)"

definition join_errors :: "string list \<Rightarrow> string" where
  "join_errors errors = (case errors of [] \<Rightarrow> [] | e # es \<Rightarrow> e @ concat (map (\<lambda>x. ''; '' @ x) es))"

text \<open>The instructions of the first two transactions.\<close>

definition launch_ixs ::
  "launch_env \<Rightarrow> pubkey \<Rightarrow> pubkey \<Rightarrow> jsnum \<Rightarrow> dbc_config_build \<Rightarrow> dbc_pool_keys \<Rightarrow> pubkey option \<Rightarrow>
     tx_instruction list result" where
  "launch_ixs env payer creator exitFeeBps dbcParams keys tokenBadge =
     bindE (dbcCreateConfigIx (le_lib env) (le_coder env)
              \<lparr>cc_config = dk_config keys, cc_feeClaimer = cb_feeClaimer dbcParams,
               cc_leftoverReceiver = cb_leftoverReceiver dbcParams, cc_quoteMint = cb_quoteMint dbcParams,
               cc_payer = payer, cc_params = cb_params dbcParams,
               cc_quoteTokenProgram = Some (dk_quoteTokenProgram keys), cc_tokenBadge = Some tokenBadge\<rparr>) (\<lambda>createConfig.
     bindE (createLaunchIx (le_lib env)
              \<lparr>cl_payer = payer, cl_creator = creator, cl_config = dk_config keys, cl_baseMint = dk_baseMint keys,
               cl_quoteMint = cb_quoteMint dbcParams, cl_quoteTokenProgram = Some (dk_quoteTokenProgram keys),
               cl_exitFeeBps = exitFeeBps\<rparr>) (\<lambda>createLaunch.
     Inr [createConfig, createLaunch]))"

definition pool_ixs ::
  "launch_env \<Rightarrow> pubkey \<Rightarrow> pubkey \<Rightarrow> launch_input \<Rightarrow> dbc_pool_keys \<Rightarrow> pubkey option \<Rightarrow> tx_instruction list result" where
  "pool_ixs env payer creator input keys tokenBadge =
     bindE (dbcInitializePoolWithSplTokenIx (le_lib env) (le_coder env)
              \<lparr>ip_config = dk_config keys, ip_creator = creator, ip_baseMint = dk_baseMint keys,
               ip_quoteMint = dk_quoteMint keys, ip_payer = payer, ip_name = li_name input,
               ip_symbol = li_symbol input, ip_uri = li_uri input,
               ip_quoteTokenProgram = Some (dk_quoteTokenProgram keys), ip_tokenBadge = Some tokenBadge\<rparr>) (\<lambda>initPool.
     bindE (registerPoolIx (le_lib env) (dk_config keys) (dk_pool keys) (dk_baseMint keys)) (\<lambda>registration.
     Inr [initPool, registration]))"

definition launch_addresses_of ::
  "solana_lib \<Rightarrow> pubkey \<Rightarrow> dbc_pool_keys \<Rightarrow> pubkey option \<Rightarrow> launch_addresses" where
  "launch_addresses_of lib claimer keys tokenBadge =
     (let derive = sol_derive lib; config = dk_config keys
      in \<lparr>ad_config = config, ad_launch = launchPda derive config, ad_claimer = claimer,
          ad_vaultAuthority = vaultAuthorityPda derive config,
          ad_vault = vaultAddress derive (sol_ata lib) config (dk_quoteMint keys) (dk_quoteTokenProgram keys),
          ad_baseMint = dk_baseMint keys, ad_quoteMint = dk_quoteMint keys,
          ad_quoteTokenProgram = dk_quoteTokenProgram keys, ad_pool = dk_pool keys,
          ad_dbcBaseVault = dk_baseVault keys, ad_dbcQuoteVault = dk_quoteVault keys,
          ad_claimerBaseAccount = claimerBaseAccount lib config (dk_baseMint keys), ad_tokenBadge = tokenBadge\<rparr>)"

text \<open>Strings of the form are lists of 8-bit characters, read as the code points below 256.\<close>

definition buildLaunchTransactions ::
  "launch_env \<Rightarrow> launch_input \<Rightarrow> pubkey \<Rightarrow> launch_options \<Rightarrow> built_launch result" where
  "buildLaunchTransactions env input creator opts =
     (let metadataErrors = validateTokenMetadata (code_points (li_name input)) (code_points (li_symbol input))
            (code_points (li_uri input))
      in if metadataErrors \<noteq> [] then Inl (LaunchInputError (join_errors metadataErrors))
      else let lib = le_lib env;
          payer = or_else (bo_payer opts) creator;
          config = or_else (bo_configKeypair opts) (le_freshConfig env);
          baseMint = or_else (bo_baseMintKeypair opts) (le_freshBaseMint env);
          quoteTokenProgram = or_else (bo_quoteTokenProgram opts) (TOKEN_2022_PROGRAM_ID lib);
          exitFeeBps = or_else (bo_exitFeeBps opts) (or_else (li_exitFeeBps input) DEFAULT_EXIT_FEE_BPS);
          claimer = authorityPda (sol_derive lib) config;
          priced = input\<lparr>li_exitFeeBps := Some exitFeeBps\<rparr>
      in bindE (buildDbcConfigParams (le_guess env) (le_parse env) priced claimer claimer) (\<lambda>dbcParams.
         bindE (computeLaunchCurve (le_guess env) priced) (\<lambda>curve.
         let quoteMint = cb_quoteMint dbcParams;
             tokenBadge = resolveTokenBadge lib quoteMint quoteTokenProgram (bo_tokenBadge opts);
             keys = dbcPoolKeys lib config baseMint quoteMint (Some quoteTokenProgram) None
         in bindE (launch_ixs env payer creator exitFeeBps dbcParams keys tokenBadge) (\<lambda>ixs1.
            bindE (plan (le_web env) payer (bo_computeUnitPriceMicroLamports opts) ''create_config+create_launch'' ixs1
                     [config] (CU_LIMITS dbcCreateConfig + CU_LIMITS createLaunch)) (\<lambda>tx1.
            bindE (pool_ixs env payer creator input keys tokenBadge) (\<lambda>ixs2.
            bindE (pool_transactions env dbcParams curve keys payer creator opts ixs2) (\<lambda>(firstBuyQuote, txs).
            Inr \<lparr>bl_configKeypair = config, bl_baseMintKeypair = baseMint,
                 bl_addresses = launch_addresses_of lib claimer keys tokenBadge, bl_dbcParams = dbcParams,
                 bl_curve = curve, bl_exitFeeBps = exitFeeBps, bl_firstBuyQuote = firstBuyQuote,
                 bl_transactions = tx1 # txs\<rparr>)))))))"

section \<open>The fresh pool is in the invariant of the quotes\<close>

lemma copied_points_read: "readCurve ps = Inr curve \<Longrightarrow> copied_points ps = Inr curve"
  by (induction ps arbitrary: curve) (auto simp: result_simps big_of_bnToBigInt)

lemma wf_curve_no_zero: "wf_curve lo ps \<Longrightarrow> 0 \<le> lo \<Longrightarrow> list_all (\<lambda>p. \<not> zero_point p) ps"
  by (induction lo ps rule: wf_curve.induct) (auto simp: zero_point_def)

lemma live_points_padded:
  assumes "list_all (\<lambda>p. \<not> zero_point p) ps"
  shows "takeWhile (\<lambda>p. \<not> zero_point p) (padded ps) = ps"
    "dropWhile (\<lambda>p. \<not> zero_point p) (padded ps) = replicate (20 - length ps) \<lparr>cp_sqrtPrice = 0, cp_liquidity = 0\<rparr>"
proof -
  have z0: "zero_point \<lparr>cp_sqrtPrice = 0, cp_liquidity = 0\<rparr>" by (simp add: zero_point_def)
  have z: "takeWhile (\<lambda>p. \<not> zero_point p) (replicate n \<lparr>cp_sqrtPrice = 0, cp_liquidity = 0\<rparr>) = []"
    "dropWhile (\<lambda>p. \<not> zero_point p) (replicate n \<lparr>cp_sqrtPrice = 0, cp_liquidity = 0\<rparr>) =
      replicate n \<lparr>cp_sqrtPrice = 0, cp_liquidity = 0\<rparr>" for n
    by (cases n; simp add: z0)+
  show "takeWhile (\<lambda>p. \<not> zero_point p) (padded ps) = ps"
    "dropWhile (\<lambda>p. \<not> zero_point p) (padded ps) = replicate (20 - length ps) \<lparr>cp_sqrtPrice = 0, cp_liquidity = 0\<rparr>"
    using assms by (simp_all add: padded_def takeWhile_append2 dropWhile_append2 list_all_iff z z0)
qed

lemma validateParameters_base_fee:
  "validateParameters params options = Inr ck \<Longrightarrow> validateBaseFee (cfg_baseFee params) = Inr ()"
  by (auto simp: validateParameters_def result_simps)

lemma validateBaseFee_cliff:
  assumes "validateBaseFee b = Inr ()"
  obtains i where "bnToBigInt (bfp_cliffFeeNumerator b) = Inr i" "0 \<le> i"
  using assms by (auto simp: validateBaseFee_def result_simps Let_def)

lemma freshDbcState_InrE:
  assumes "freshDbcState build curve t = Inr (config, pool)"
  obtains v points baseFee creationFee sqrtStart where
    "validateDbcConfigParams (cb_params build)
       \<lparr>vo_leftoverReceiver = Some (cb_leftoverReceiver build), vo_isTransferHook = False\<rparr> = Inr v"
    "copied_points (cfg_curve (cb_params build)) = Inr points" "fresh_base_fee (cfg_baseFee (cb_params build)) = Inr baseFee"
    "big (cfg_sqrtStartPrice (cb_params build)) = Inr sqrtStart"
    "config = fresh_config build curve v points baseFee creationFee sqrtStart" "pool = fresh_pool v sqrtStart t"
  using assms by (auto simp: freshDbcState_def Let_def result_simps)

text \<open>Any config the port of create_config accepts gives a pool in the invariant of the quotes.\<close>

lemma fresh_pool_ok:
  assumes "freshDbcState build curve t = Inr (config, pool)"
  shows "pool_ok config pool" "cfgQuote config (vp_sqrtPrice pool) \<le> of_int (vp_quoteReserve pool)"
    "\<exists>points. live_points config = points \<and>
       curveQuoteTo (pc_sqrtStartPrice config) points (pc_migrationSqrtPrice config) =
         (case bnToBigInt (cfg_migrationQuoteThreshold (cb_params build)) of Inr T \<Rightarrow> T)"
proof -
  obtain v points baseFee creationFee sqrtStart where f:
    "validateDbcConfigParams (cb_params build)
       \<lparr>vo_leftoverReceiver = Some (cb_leftoverReceiver build), vo_isTransferHook = False\<rparr> = Inr v"
    "copied_points (cfg_curve (cb_params build)) = Inr points" "fresh_base_fee (cfg_baseFee (cb_params build)) = Inr baseFee"
    "big (cfg_sqrtStartPrice (cb_params build)) = Inr sqrtStart"
    "config = fresh_config build curve v points baseFee creationFee sqrtStart" "pool = fresh_pool v sqrtStart t"
    by (rule freshDbcState_InrE [OF assms])
  obtain T s0 cs where p: "bnToBigInt (cfg_migrationQuoteThreshold (cb_params build)) = Inr T"
      "bnToBigInt (cfg_sqrtStartPrice (cb_params build)) = Inr s0" "MIN_SQRT_PRICE \<le> s0"
      "readCurve (cfg_curve (cb_params build)) = Inr cs" "cs \<noteq> []" "wf_curve s0 cs"
      "curveQuoteTo s0 cs (cr_migrationSqrtPrice v) = T" "s0 < cr_migrationSqrtPrice v"
      "cr_migrationSqrtPrice v \<le> lastPrice s0 cs"
    by (rule accepted_price [OF f(1)])
  have points: "points = cs" using copied_points_read [OF p(4)] f(2) by simp
  have start: "sqrtStart = s0" using big_of_bnToBigInt [OF p(2)] f(4) by simp
  have pos: "0 < s0" using p(3) bounds_nonneg(4) by linarith
  have "validateBaseFee (cfg_baseFee (cb_params build)) = Inr ()"
    by (rule accepted_config [OF f(1)]) (rule validateParameters_base_fee)
  then obtain i where "bnToBigInt (bfp_cliffFeeNumerator (cfg_baseFee (cb_params build))) = Inr i" "0 \<le> i"
    by (rule validateBaseFee_cliff)
  then have fee: "0 \<le> bf_cliffFeeNumerator baseFee"
    using f(3) big_of_bnToBigInt by (fastforce simp: fresh_base_fee_def result_simps)
  note live = live_points_padded [OF wf_curve_no_zero [OF p(6) less_imp_le [OF pos]]]
  have c: "pc_sqrtStartPrice config = s0" "pc_curve config = padded cs" "pc_migrationSqrtPrice config = cr_migrationSqrtPrice v"
    "pc_baseFee config = baseFee" "vp_sqrtPrice pool = s0" "vp_quoteReserve pool = 0"
    by (simp_all add: f(5,6) fresh_config_def fresh_pool_def points start Let_def)
  have lp: "live_points config = cs" by (simp add: live_points_def c live)
  have wf: "wf_config config"
    unfolding wf_config_def lp c live using p pos fee by (simp add: list_all_iff zero_point_def)
  show "pool_ok config pool" using wf p(8) by (simp add: pool_ok_def c)
  show "cfgQuote config (vp_sqrtPrice pool) \<le> of_int (vp_quoteReserve pool)"
    using wf by (simp add: wf_config_def c)
  show "\<exists>points. live_points config = points \<and>
       curveQuoteTo (pc_sqrtStartPrice config) points (pc_migrationSqrtPrice config) =
         (case bnToBigInt (cfg_migrationQuoteThreshold (cb_params build)) of Inr T \<Rightarrow> T)"
    using p(1,7) by (simp add: lp c)
qed

lemma one_segment_quote:
  assumes "s0 \<le> p" "p \<le> cp_sqrtPrice pt"
  shows "quotePotential s0 [pt] p = of_int (cp_liquidity pt * (p - s0)) / 2 ^ 128"
  using assms by (simp add: potential_def segment_of_def clamp_def price_at_def quote_fn_def diff_divide_distrib right_diff_distrib)

text \<open>
  On the one-segment curve of a launch a reserve that covers the curve up to the migration price covers
  the threshold: the threshold is the rounded-up value of the curve there, and reserves are integers.
\<close>

lemma one_segment_threshold:
  assumes "quotePotential s0 [pt] p \<le> of_int reserve" "s0 < p" "p \<le> cp_sqrtPrice pt"
  shows "curveQuoteTo s0 [pt] p \<le> reserve"
proof -
  have "of_int (cp_liquidity pt * (p - s0)) \<le> (of_int (reserve * 2 ^ 128) :: rat)"
    using assms one_segment_quote [of s0 p pt] by (simp add: divide_le_eq)
  then have "quote_up (cp_liquidity pt) s0 p \<le> reserve" unfolding quote_up_le_iff by (simp only: of_int_le_iff)
  then show ?thesis using assms by simp
qed

lemma buildDbcConfigParams_InrE:
  assumes "buildDbcConfigParams guess parse input feeClaimer leftover = Inr build" "computeLaunchCurve guess input = Inr curve"
  obtains v where "cb_params build = launchConfigParams curve" "cb_feeClaimer build = feeClaimer"
    "cb_leftoverReceiver build = leftover" "feeClaimer \<noteq> PublicKey_default" "leftover \<noteq> PublicKey_default"
    "validateDbcConfigParams (cb_params build) \<lparr>vo_leftoverReceiver = Some leftover, vo_isTransferHook = False\<rparr> = Inr v"
  using assms by (auto simp: buildDbcConfigParams_def Let_def result_simps split: option.splits)

lemma launch_fresh_state:
  assumes "buildDbcConfigParams guess parse input feeClaimer leftover = Inr build" "computeLaunchCurve guess input = Inr curve"
  obtains config pool pt where "freshDbcState build curve t = Inr (config, pool)" "live_points config = [pt]"
    "pc_migrationQuoteThreshold config = lc_thresholdQuoteRaw curve" "0 < lc_thresholdQuoteRaw curve"
    "curveQuoteTo (pc_sqrtStartPrice config) [pt] (pc_migrationSqrtPrice config) = lc_thresholdQuoteRaw curve"
    "pc_sqrtStartPrice config < pc_migrationSqrtPrice config" "pc_migrationSqrtPrice config \<le> cp_sqrtPrice pt"
    "vp_quoteReserve pool = 0" "vp_sqrtPrice pool = pc_sqrtStartPrice config"
proof (rule buildDbcConfigParams_InrE [OF assms])
  fix v
  assume b: "cb_params build = launchConfigParams curve" "cb_leftoverReceiver build = leftover"
    "validateDbcConfigParams (cb_params build) \<lparr>vo_leftoverReceiver = Some leftover, vo_isTransferHook = False\<rparr> = Inr v"
  obtain T s0 cs where p: "bnToBigInt (cfg_migrationQuoteThreshold (cb_params build)) = Inr T" "0 < T"
      "bnToBigInt (cfg_sqrtStartPrice (cb_params build)) = Inr s0"
      "readCurve (cfg_curve (cb_params build)) = Inr cs" "wf_curve s0 cs" "MIN_SQRT_PRICE \<le> s0"
      "curveQuoteTo s0 cs (cr_migrationSqrtPrice v) = T" "s0 < cr_migrationSqrtPrice v"
      "cr_migrationSqrtPrice v \<le> lastPrice s0 cs"
    by (rule accepted_price [OF b(3)])
  obtain s1 L where one: "lc_curve curve = [\<lparr>cp_sqrtPrice = s1, cp_liquidity = L\<rparr>]"
    by (rule computed_launch [OF assms(2)]) (erule evaluateCurve_returns, rule that)
  have cs: "cs = lc_curve curve" using p(4) by (simp add: b(1) launchConfigParams_def one result_simps) 
  have T: "T = lc_thresholdQuoteRaw curve" using p(1) by (simp add: b(1) launchConfigParams_def)
  let ?base = "fresh_base_fee (cfg_baseFee (cb_params build))" and ?fee = "big (cfg_poolCreationFee (cb_params build))"
  obtain baseFee creationFee where fees: "?base = Inr baseFee" "?fee = Inr creationFee"
    by (simp add: b(1) launchConfigParams_def fresh_base_fee_def)
  let ?config = "fresh_config build curve v cs baseFee creationFee s0" and ?pool = "fresh_pool v s0 t"
  have fresh: "freshDbcState build curve t = Inr (?config, ?pool)"
    using b(2,3) fees copied_points_read [OF p(4)] big_of_bnToBigInt [OF p(3)] by (simp add: freshDbcState_def Let_def)
  have c: "pc_sqrtStartPrice ?config = s0" "pc_curve ?config = padded cs" "pc_migrationSqrtPrice ?config = cr_migrationSqrtPrice v"
    "pc_migrationQuoteThreshold ?config = lc_thresholdQuoteRaw curve" "vp_sqrtPrice ?pool = s0" "vp_quoteReserve ?pool = 0"
    by (simp_all add: fresh_config_def fresh_pool_def Let_def)
  have "0 \<le> s0" using p(6) bounds_nonneg(4) by linarith
  then have lp: "live_points ?config = [\<lparr>cp_sqrtPrice = s1, cp_liquidity = L\<rparr>]"
    unfolding live_points_def c(2) using live_points_padded(1) [OF wf_curve_no_zero [OF p(5)]] by (simp add: cs one)
  show thesis by (rule that [OF fresh lp, unfolded c]) (use p in \<open>simp_all add: T cs one\<close>)
qed

text \<open>
  C14: the pool of every launch the SDK builds starts where the curve quotes need it and collects the
  threshold. For parameters \<open>buildDbcConfigParams\<close> accepts, the reconstructed config and pool exist and
  are well formed, with an empty reserve and an incomplete curve; in every pool reached from there by
  quoted swaps the quote reserve covers the curve up to the price, and once the price is at the migration
  price the curve is complete, that is the reserve holds the whole threshold.
\<close>

theorem launched_pool_collects_threshold:
  assumes "buildDbcConfigParams guess parse input feeClaimer leftover = Inr build"
    and "computeLaunchCurve guess input = Inr curve"
  shows "\<exists>config pool. freshDbcState build curve t = Inr (config, pool) \<and>
    pool_ok config pool \<and> vp_quoteReserve pool = 0 \<and> \<not> isDbcCurveComplete config pool \<and>
    (\<forall>pool'. pool_reaches config pool pool' \<longrightarrow>
       pool_ok config pool' \<and> cfgQuote config (vp_sqrtPrice pool') \<le> of_int (vp_quoteReserve pool') \<and>
       (vp_sqrtPrice pool' = pc_migrationSqrtPrice config \<longrightarrow> isDbcCurveComplete config pool'))"
proof (rule launch_fresh_state [OF assms, of t])
  fix config pool pt
  assume f: "freshDbcState build curve t = Inr (config, pool)" "live_points config = [pt]"
    "pc_migrationQuoteThreshold config = lc_thresholdQuoteRaw curve" "0 < lc_thresholdQuoteRaw curve"
    "curveQuoteTo (pc_sqrtStartPrice config) [pt] (pc_migrationSqrtPrice config) = lc_thresholdQuoteRaw curve"
    "pc_sqrtStartPrice config < pc_migrationSqrtPrice config" "pc_migrationSqrtPrice config \<le> cp_sqrtPrice pt"
    "vp_quoteReserve pool = 0"
  note ok = fresh_pool_ok [OF f(1)]
  have reached: "pool_ok config pool' \<and> cfgQuote config (vp_sqrtPrice pool') \<le> of_int (vp_quoteReserve pool') \<and>
      (vp_sqrtPrice pool' = pc_migrationSqrtPrice config \<longrightarrow> isDbcCurveComplete config pool')"
    if r: "pool_reaches config pool pool'" for pool'
  proof (intro conjI impI)
    show "pool_ok config pool'" by (rule pool_reaches_refines(2) [OF r ok(1)])
    show cover: "cfgQuote config (vp_sqrtPrice pool') \<le> of_int (vp_quoteReserve pool')"
      by (rule pool_reserves_cover(1) [OF r ok(1,2)])
    show "isDbcCurveComplete config pool'" if "vp_sqrtPrice pool' = pc_migrationSqrtPrice config"
      using one_segment_threshold [OF cover [unfolded f(2) that] f(6,7)] f(3,5) by (simp add: isDbcCurveComplete_def)
  qed
  show ?thesis using f ok(1) reached by (intro exI [of _ config] exI [of _ pool]) (simp add: isDbcCurveComplete_def)
qed

section \<open>The plan\<close>

definition ix_signers :: "tx_instruction \<Rightarrow> pubkey set" where
  "ix_signers ix = mt_pubkey ` set (filter mt_isSigner (ix_keys ix))"

text \<open>The size of a planned transaction is that of its instructions behind the compute budget, within a packet.\<close>

definition tx_fits :: "web3_lib \<Rightarrow> pubkey \<Rightarrow> jsnum option \<Rightarrow> planned_transaction \<Rightarrow> bool" where
  "tx_fits web payer price t \<longleftrightarrow>
     (\<exists>budget. computeBudgetInstructions web (Some (JsInt (pt_computeUnitLimit t))) price = Inr budget \<and>
        pt_size t = legacyTransactionSize web (budget @ pt_instructions t) payer) \<and> pt_size t \<le> 1232"

text \<open>Who signs: every listed keypair is needed, and nobody else but the payer and the creator.\<close>

definition tx_signed_by :: "pubkey set \<Rightarrow> planned_transaction \<Rightarrow> bool" where
  "tx_signed_by people t \<longleftrightarrow>
     (\<Union>ix \<in> set (pt_instructions t). ix_signers ix) \<subseteq> people \<union> set (pt_signers t) \<and>
     set (pt_signers t) \<subseteq> (\<Union>ix \<in> set (pt_instructions t). ix_signers ix)"

lemma plan_InrE:
  assumes "plan web payer price label ixs signers cu = Inr t"
  shows "tx_fits web payer price t" "pt_instructions t = ixs" "pt_signers t = signers"
  using assms by (auto simp: plan_def tx_fits_def assertTransactionFits_def Let_def result_simps)

lemma badge_no_signer [simp]: "filter mt_isSigner (badge_metas badge) = []"
  by (simp add: badge_metas_def meta_r_def split: option.split)

lemma meta_signs [simp]:
  "mt_isSigner (meta_w k s) = s" "mt_isSigner (meta_r k s) = s" "mt_pubkey (meta_w k s) = k" "mt_pubkey (meta_r k s) = k"
  by (simp_all add: meta_w_def meta_r_def)

lemma create_config_signers: "dbcCreateConfigIx lib coder a = Inr ix \<Longrightarrow> ix_signers ix = {cc_config a, cc_payer a}"
  by (auto simp: ix_signers_def dbcCreateConfigIx_def dbcIx_def Let_def result_simps simp del: set_filter)

lemma create_launch_signers: "createLaunchIx lib a = Inr ix \<Longrightarrow> ix_signers ix = {cl_payer a, cl_creator a, cl_config a}"
  by (auto simp: ix_signers_def createLaunchIx_def stockfloorIx_def Let_def result_simps simp del: set_filter)

lemma initialize_pool_signers:
  "dbcInitializePoolWithSplTokenIx lib coder a = Inr ix \<Longrightarrow> ix_signers ix = {ip_creator a, ip_baseMint a, ip_payer a}"
  by (auto simp: ix_signers_def dbcInitializePoolWithSplTokenIx_def dbcIx_def Let_def result_simps simp del: set_filter)

lemma register_pool_signers: "registerPoolIx lib config pool baseMint = Inr ix \<Longrightarrow> ix_signers ix = {}"
  by (auto simp: ix_signers_def registerPoolIx_def stockfloorIx_def Let_def result_simps simp del: set_filter)

lemma swap_ix_signers: "ix_signers (dbcSwap2Ix lib s) = {s2_payer s}"
  using swap_signers(1) [of lib s] by (simp add: ix_signers_def)

lemma builder_programs:
  "dbcCreateConfigIx lib coder a = Inr ix \<Longrightarrow> ix_programId ix = DBC_PROGRAM_ID"
  "createLaunchIx lib a' = Inr ix \<Longrightarrow> ix_programId ix = STOCKFLOOR_PROGRAM_ID"
  "dbcInitializePoolWithSplTokenIx lib coder a'' = Inr ix \<Longrightarrow> ix_programId ix = DBC_PROGRAM_ID"
  "registerPoolIx lib config pool baseMint = Inr ix \<Longrightarrow> ix_programId ix = STOCKFLOOR_PROGRAM_ID"
  by (auto simp: dbcCreateConfigIx_def createLaunchIx_def dbcInitializePoolWithSplTokenIx_def registerPoolIx_def
      dbcIx_def stockfloorIx_def Let_def result_simps)

definition all_signers :: "tx_instruction list \<Rightarrow> pubkey set" where
  "all_signers ixs = (\<Union>ix \<in> set ixs. ix_signers ix)"

lemma all_signers_simps [simp]:
  "all_signers [] = {}" "all_signers (ix # ixs) = ix_signers ix \<union> all_signers ixs"
  "all_signers (xs @ ys) = all_signers xs \<union> all_signers ys"
  by (auto simp: all_signers_def)

text \<open>A list of planned transactions for a list of instructions, in order, and the keypairs that sign.\<close>

definition planned ::
  "web3_lib \<Rightarrow> pubkey \<Rightarrow> jsnum option \<Rightarrow> pubkey set \<Rightarrow> tx_instruction list \<Rightarrow> pubkey list \<Rightarrow>
     planned_transaction list \<Rightarrow> bool" where
  "planned web payer price people ixs signers ts \<longleftrightarrow>
     list_all (tx_fits web payer price) ts \<and> list_all (tx_signed_by people) ts \<and>
     concat (map pt_instructions ts) = ixs \<and> concat (map pt_signers ts) = signers"

lemma planned_one:
  assumes "plan web payer price label ixs signers cu = Inr t"
    and "all_signers ixs \<subseteq> people \<union> set signers" "set signers \<subseteq> all_signers ixs"
  shows "planned web payer price people ixs signers [t]"
  using plan_InrE [OF assms(1)] assms(2,3) by (simp add: planned_def tx_signed_by_def all_signers_def)

lemma planned_append:
  "planned web payer price people ixs signers ts \<Longrightarrow> planned web payer price people ixs' signers' ts' \<Longrightarrow>
    planned web payer price people (ixs @ ixs') (signers @ signers') (ts @ ts')"
  by (auto simp: planned_def)

lemma plan_first_buy_planned:
  assumes "plan_first_buy env payer price baseMint poolIxs buyIxs = Inr ts"
    and "all_signers poolIxs \<subseteq> insert baseMint people" "baseMint \<in> all_signers poolIxs" "all_signers buyIxs \<subseteq> people"
  shows "planned (le_web env) payer price people (poolIxs @ buyIxs) [baseMint] ts" "length ts \<le> 2"
proof -
  let ?plan = "plan (le_web env) payer price"
  from assms(1) consider
      (one) t label cu where "ts = [t]" "?plan label (poolIxs @ buyIxs) [baseMint] cu = Inr t"
    | (two) t2 t3 label2 label3 cu2 cu3 where "ts = [t2, t3]" "?plan label2 poolIxs [baseMint] cu2 = Inr t2"
        "?plan label3 buyIxs [] cu3 = Inr t3"
    by (auto simp: plan_first_buy_def Let_def result_simps split: if_splits)
  then have "planned (le_web env) payer price people (poolIxs @ buyIxs) [baseMint] ts \<and> length ts \<le> 2"
  proof cases
    case one
    then show ?thesis using planned_one [OF one(2)] assms(2-4) by auto
  next
    case two
    have "planned (le_web env) payer price people poolIxs [baseMint] [t2]"
      by (rule planned_one [OF two(2)]) (use assms(2,3) in auto)
    moreover have "planned (le_web env) payer price people buyIxs [] [t3]"
      by (rule planned_one [OF two(3)]) (use assms(4) in auto)
    ultimately show ?thesis using planned_append two(1) by fastforce
  qed
  then show "planned (le_web env) payer price people (poolIxs @ buyIxs) [baseMint] ts" "length ts \<le> 2" by simp_all
qed

definition buys :: "launch_options \<Rightarrow> bool" where
  "buys opts \<longleftrightarrow> (case bo_firstBuy opts of Some buy \<Rightarrow> 0 < fb_quoteAmount buy | None \<Rightarrow> False)"

abbreviation slippage_of_buy :: "first_buy \<Rightarrow> jsnum" where
  "slippage_of_buy buy \<equiv> case fb_slippageBps buy of Some b \<Rightarrow> b | None \<Rightarrow> JsInt 100"

lemma pool_transactions_cases:
  assumes "pool_transactions env build curve keys payer creator opts poolIxs = Inr (q, ts)"
  obtains (plain) t where "\<not> buys opts" "q = None" "ts = [t]"
      "plan (le_web env) payer (bo_computeUnitPriceMicroLamports opts) ''create_pool+register_pool'' poolIxs
         [dk_baseMint keys] (CU_LIMITS dbcInitializePool + CU_LIMITS registerPool) = Inr t"
  | (bought) buy config pool mode quote minOut now where "bo_firstBuy opts = Some buy" "0 < fb_quoteAmount buy"
      "q = Some quote" "freshDbcState build curve now = Inr (config, pool)"
      "first_buy_quote config pool (fb_quoteAmount buy) = Inr (mode, quote)"
      "(case fb_minBaseOut buy of Some m \<Rightarrow> Inr m | None \<Rightarrow> dbcSwapSlippageLimit quote mode (slippage_of_buy buy)) = Inr minOut"
      "plan_first_buy env payer (bo_computeUnitPriceMicroLamports opts) (dk_baseMint keys) poolIxs
         (first_buy_ixs env keys payer creator mode (fb_quoteAmount buy) minOut) = Inr ts"
proof (cases "buys opts")
  case False
  with assms obtain t where "q = None" "ts = [t]"
      "plan (le_web env) payer (bo_computeUnitPriceMicroLamports opts) ''create_pool+register_pool'' poolIxs
         [dk_baseMint keys] (CU_LIMITS dbcInitializePool + CU_LIMITS registerPool) = Inr t"
    by (auto simp: pool_transactions_def buys_def Let_def result_simps split: option.splits)
  with False show thesis by (rule plain)
next
  case True
  then obtain buy where buy: "bo_firstBuy opts = Some buy" "0 < fb_quoteAmount buy"
    by (auto simp: buys_def split: option.splits)
  from assms show thesis
    unfolding pool_transactions_def Let_def buy(1) option.case
    using buy by (auto elim!: bindE_InrE bindE_InrE2 intro: bought)
qed

lemma first_buy_quote_InrE:
  assumes "first_buy_quote config pool amount = Inr (mode, quote)"
  shows "buy_quote config pool amount mode = Inr quote" "mode = ExactIn \<or> mode = PartialFill"
  using assms by (auto simp: first_buy_quote_def result_simps split: sum.splits)

text \<open>What the first buy of a plan promises: at most the offered amount, and at least the quote less the tolerance.\<close>

definition first_buy_honest ::
  "launch_env \<Rightarrow> dbc_pool_keys \<Rightarrow> pubkey \<Rightarrow> pubkey \<Rightarrow> first_buy \<Rightarrow> swap_quote \<Rightarrow> tx_instruction list \<Rightarrow> bool" where
  "first_buy_honest env keys payer creator buy quote ixs \<longleftrightarrow>
     (\<exists>mode minOut. ixs = first_buy_ixs env keys payer creator mode (fb_quoteAmount buy) minOut \<and>
        sq_includedFeeInputAmount quote \<le> fb_quoteAmount buy \<and>
        (case fb_minBaseOut buy of
           Some m \<Rightarrow> minOut = m
         | None \<Rightarrow> minOut \<le> sq_outputAmount quote \<and>
             (\<exists>bps. slippage_of_buy buy = JsInt bps \<and> 0 \<le> bps \<and> bps \<le> 10000 \<and>
                minOut = lowered (sq_outputAmount quote) bps)))"

lemma first_buy_is_honest:
  assumes "freshDbcState build curve t = Inr (config, pool)"
    and "first_buy_quote config pool (fb_quoteAmount buy) = Inr (mode, quote)"
    and "(case fb_minBaseOut buy of Some m \<Rightarrow> Inr m
          | None \<Rightarrow> dbcSwapSlippageLimit quote mode (slippage_of_buy buy)) = Inr minOut"
  shows "first_buy_honest env keys payer creator buy quote
     (first_buy_ixs env keys payer creator mode (fb_quoteAmount buy) minOut)"
proof -
  note q = first_buy_quote_InrE [OF assms(2)]
  note ok = fresh_pool_ok(1) [OF assms(1)]
  have out: "0 \<le> sq_outputAmount quote" and within: "sq_includedFeeInputAmount quote \<le> fb_quoteAmount buy"
    using quote_is_trade(3) [OF q(1) [unfolded buy_quote_def]] quote_within_amount(1) [OF q(1) [unfolded buy_quote_def]]
      ok q(2) by simp_all
  have "minOut \<le> sq_outputAmount quote \<and> (\<exists>bps. slippage_of_buy buy = JsInt bps \<and> 0 \<le> bps \<and> bps \<le> 10000 \<and>
      minOut = lowered (sq_outputAmount quote) bps)" if "fb_minBaseOut buy = None"
    using assms(3) that out lowered_bounds(2) [OF out] by (auto simp: minimum_out [OF out q(2)])
  moreover have "minOut = m" if "fb_minBaseOut buy = Some m" for m using assms(3) that by simp
  ultimately show ?thesis using within unfolding first_buy_honest_def
    by (intro exI [of _ mode] exI [of _ minOut]) (simp split: option.split)
qed

lemma buildLaunchTransactions_InrE:
  assumes "buildLaunchTransactions env input creator opts = Inr b"
  obtains keys ixs1 ixs2 tx1 txs where
    "validateTokenMetadata (code_points (li_name input)) (code_points (li_symbol input)) (code_points (li_uri input)) = []"
    "keys = dbcPoolKeys (le_lib env) (bl_configKeypair b) (bl_baseMintKeypair b) (cb_quoteMint (bl_dbcParams b))
       (Some (or_else (bo_quoteTokenProgram opts) (TOKEN_2022_PROGRAM_ID (le_lib env)))) None"
    "ad_pool (bl_addresses b) = dk_pool keys" "cb_feeClaimer (bl_dbcParams b) = ad_claimer (bl_addresses b)"
    "launch_ixs env (or_else (bo_payer opts) creator) creator (bl_exitFeeBps b) (bl_dbcParams b) keys
       (ad_tokenBadge (bl_addresses b)) = Inr ixs1"
    "pool_ixs env (or_else (bo_payer opts) creator) creator input keys (ad_tokenBadge (bl_addresses b)) = Inr ixs2"
    "plan (le_web env) (or_else (bo_payer opts) creator) (bo_computeUnitPriceMicroLamports opts)
       ''create_config+create_launch'' ixs1 [bl_configKeypair b] (CU_LIMITS dbcCreateConfig + CU_LIMITS createLaunch) = Inr tx1"
    "pool_transactions env (bl_dbcParams b) (bl_curve b) keys (or_else (bo_payer opts) creator) creator opts ixs2 =
       Inr (bl_firstBuyQuote b, txs)"
    "bl_transactions b = tx1 # txs"
proof -
  have claimer: "cb_feeClaimer build = c" if "buildDbcConfigParams guess parse i c c = Inr build" for guess parse i c build
    using that by (auto simp: buildDbcConfigParams_def Let_def result_simps split: option.splits)
  from assms show thesis
    unfolding buildLaunchTransactions_def Let_def
    by (auto split: if_splits elim!: bindE_InrE bindE_InrE2 dest: claimer intro!: that
        simp: launch_addresses_of_def dbcPoolKeys_def Let_def)
qed

lemma launch_ixs_parts:
  assumes "launch_ixs env payer creator fee build keys badge = Inr ixs"
  obtains cc cl where "ixs = [cc, cl]" "ix_programId cc = DBC_PROGRAM_ID" "ix_programId cl = STOCKFLOOR_PROGRAM_ID"
    "all_signers ixs = {dk_config keys, payer, creator}"
  using assms by (auto simp: launch_ixs_def result_simps builder_programs create_config_signers create_launch_signers
      intro!: that)

lemma pool_ixs_parts:
  assumes "pool_ixs env payer creator input keys badge = Inr ixs"
  obtains ip rp where "ixs = [ip, rp]" "ix_programId ip = DBC_PROGRAM_ID" "ix_programId rp = STOCKFLOOR_PROGRAM_ID"
    "all_signers ixs = {dk_baseMint keys, payer, creator}"
  using assms by (auto simp: pool_ixs_def result_simps builder_programs initialize_pool_signers register_pool_signers
      intro!: that)

lemma first_buy_signers:
  assumes "\<forall>p account holder mint prog ataProg. ix_signers (le_newAta env p account holder mint prog ataProg) \<subseteq> {p}"
  shows "all_signers (first_buy_ixs env keys payer creator mode amount minOut) \<subseteq> {payer, creator}"
  using assms by (fastforce simp: first_buy_ixs_def Let_def createAtaIdempotentIx_def swap_ix_signers)

section \<open>The plan of a launch\<close>

text \<open>
  C13: the plan of a launch is what the composer's comment says. The transactions carry, in this order and
  each at most once, DBC create_config and create_launch, the pool initialization and register_pool, and
  the first buy exactly when one was asked for; the first transaction is the config's, signed by the config
  keypair, the next is signed by the base mint keypair, and besides those no transaction needs a signature
  other than the payer's and the creator's; each fits a packet with its compute budget. The first buy
  spends at most the offered amount and its minimum out is the caller's, or the quote of the fresh pool
  lowered by the slippage.
\<close>

theorem launch_plan_sound:
  assumes b: "buildLaunchTransactions env input creator opts = Inr b"
    and ata: "\<forall>p account holder mint prog ataProg. ix_signers (le_newAta env p account holder mint prog ataProg) \<subseteq> {p}"
  defines "payer \<equiv> or_else (bo_payer opts) creator"
  shows "\<exists>cc cl ip rp buyIxs tx1 txs.
    bl_transactions b = tx1 # txs \<and> length txs \<in> {1, 2} \<and>
    pt_instructions tx1 = [cc, cl] \<and> pt_signers tx1 = [bl_configKeypair b] \<and>
    planned (le_web env) payer (bo_computeUnitPriceMicroLamports opts) {payer, creator}
      ([cc, cl, ip, rp] @ buyIxs) [bl_configKeypair b, bl_baseMintKeypair b] (bl_transactions b) \<and>
    map ix_programId [cc, cl, ip, rp] = [DBC_PROGRAM_ID, STOCKFLOOR_PROGRAM_ID, DBC_PROGRAM_ID, STOCKFLOOR_PROGRAM_ID] \<and>
    (case bl_firstBuyQuote b of
       None \<Rightarrow> \<not> buys opts \<and> buyIxs = []
     | Some quote \<Rightarrow> \<exists>keys buy. bo_firstBuy opts = Some buy \<and> 0 < fb_quoteAmount buy \<and>
         dk_pool keys = ad_pool (bl_addresses b) \<and> first_buy_honest env keys payer creator buy quote buyIxs)"
proof (rule buildLaunchTransactions_InrE [OF b, folded payer_def])
  fix keys ixs1 ixs2 tx1 txs
  let ?price = "bo_computeUnitPriceMicroLamports opts" and ?P = "planned (le_web env) payer (bo_computeUnitPriceMicroLamports opts) {payer, creator}"
  assume keys: "keys = dbcPoolKeys (le_lib env) (bl_configKeypair b) (bl_baseMintKeypair b) (cb_quoteMint (bl_dbcParams b))
      (Some (or_else (bo_quoteTokenProgram opts) (TOKEN_2022_PROGRAM_ID (le_lib env)))) None"
    and pool: "ad_pool (bl_addresses b) = dk_pool keys"
    and ixs: "launch_ixs env payer creator (bl_exitFeeBps b) (bl_dbcParams b) keys (ad_tokenBadge (bl_addresses b)) = Inr ixs1"
      "pool_ixs env payer creator input keys (ad_tokenBadge (bl_addresses b)) = Inr ixs2"
    and tx1: "plan (le_web env) payer ?price ''create_config+create_launch'' ixs1 [bl_configKeypair b]
      (CU_LIMITS dbcCreateConfig + CU_LIMITS createLaunch) = Inr tx1"
    and txs: "pool_transactions env (bl_dbcParams b) (bl_curve b) keys payer creator opts ixs2 = Inr (bl_firstBuyQuote b, txs)"
    and ts: "bl_transactions b = tx1 # txs"
  have k: "dk_config keys = bl_configKeypair b" "dk_baseMint keys = bl_baseMintKeypair b"
    by (simp_all add: keys dbcPoolKeys_def Let_def)
  obtain cc cl where c: "ixs1 = [cc, cl]" "ix_programId cc = DBC_PROGRAM_ID" "ix_programId cl = STOCKFLOOR_PROGRAM_ID"
    "all_signers ixs1 = {bl_configKeypair b, payer, creator}" using launch_ixs_parts [OF ixs(1)] k by metis
  obtain ip rp where p: "ixs2 = [ip, rp]" "ix_programId ip = DBC_PROGRAM_ID" "ix_programId rp = STOCKFLOOR_PROGRAM_ID"
    "all_signers ixs2 = {bl_baseMintKeypair b, payer, creator}" using pool_ixs_parts [OF ixs(2)] k by metis
  have first: "?P ixs1 [bl_configKeypair b] [tx1]" by (rule planned_one [OF tx1]) (use c(4) in auto)
  have "\<exists>buyIxs. ?P (ixs2 @ buyIxs) [bl_baseMintKeypair b] txs \<and> length txs \<le> 2 \<and>
    (case bl_firstBuyQuote b of
       None \<Rightarrow> \<not> buys opts \<and> buyIxs = []
     | Some quote \<Rightarrow> \<exists>keys buy. bo_firstBuy opts = Some buy \<and> 0 < fb_quoteAmount buy \<and>
         dk_pool keys = ad_pool (bl_addresses b) \<and> first_buy_honest env keys payer creator buy quote buyIxs)"
    using txs
  proof (cases rule: pool_transactions_cases)
    case (plain t)
    have "?P ixs2 [bl_baseMintKeypair b] txs" unfolding plain(3)
      by (rule planned_one [OF plain(4) [unfolded k]]) (use p(4) in auto)
    with plain show ?thesis by (intro exI [of _ "[]"]) simp
  next
    case (bought buy config pool' mode quote minOut now)
    let ?ixs = "first_buy_ixs env keys payer creator mode (fb_quoteAmount buy) minOut"
    have "first_buy_honest env keys payer creator buy quote ?ixs"
      by (rule first_buy_is_honest [OF bought(4,5,6)])
    moreover have "?P (ixs2 @ ?ixs) [bl_baseMintKeypair b] txs" "length txs \<le> 2"
      using plan_first_buy_planned [OF bought(7) [unfolded k], of "{payer, creator}"] p(4) first_buy_signers [OF ata]
      by auto
    ultimately show ?thesis using bought(1-3) pool by (intro exI [of _ ?ixs]) auto
  qed
  then obtain buyIxs where buy: "?P (ixs2 @ buyIxs) [bl_baseMintKeypair b] txs" "length txs \<le> 2"
    "case bl_firstBuyQuote b of
       None \<Rightarrow> \<not> buys opts \<and> buyIxs = []
     | Some quote \<Rightarrow> \<exists>keys buy. bo_firstBuy opts = Some buy \<and> 0 < fb_quoteAmount buy \<and>
         dk_pool keys = ad_pool (bl_addresses b) \<and> first_buy_honest env keys payer creator buy quote buyIxs" by blast
  have "txs \<noteq> []" using buy(1) by (auto simp: planned_def)
  with buy(2) have "length txs \<in> {1, 2}" by (cases txs) (auto simp: le_Suc_eq)
  moreover have "?P ([cc, cl, ip, rp] @ buyIxs) [bl_configKeypair b, bl_baseMintKeypair b] (bl_transactions b)"
    using planned_append [OF first buy(1)] by (simp add: c(1) p(1) ts)
  ultimately show ?thesis using ts c p buy(3) plan_InrE [OF tx1]
    by (intro exI [of _ cc] exI [of _ cl] exI [of _ ip] exI [of _ rp] exI [of _ buyIxs] exI [of _ tx1] exI [of _ txs]) simp
qed

section \<open>A concrete launch\<close>

definition small_web :: web3_lib where
  "small_web =
     \<lparr>setComputeUnitLimit = (\<lambda>n. \<lparr>ix_programId = PublicKey_default, ix_keys = [], ix_data = [2]\<rparr>),
      setComputeUnitPrice = (\<lambda>n. \<lparr>ix_programId = PublicKey_default, ix_keys = [], ix_data = [3]\<rparr>),
      compileMessage = (\<lambda>ixs payer. (3, 900))\<rparr>"

definition one_key_lib :: solana_lib where
  "one_key_lib = plain_lib\<lparr>sol_derive := (\<lambda>_ _. replicate 32 1)\<rparr>"

definition plain_coder :: anchor_coder where
  "plain_coder = \<lparr>encode_createConfig = (\<lambda>params. Inr [1]), encode_initializePool = (\<lambda>name symbol uri. Inr [2])\<rparr>"

definition example_env :: launch_env where
  "example_env =
     \<lparr>le_lib = one_key_lib, le_web = small_web, le_newAta = plain_ata, le_coder = plain_coder, le_guess = example_guess,
      le_parse = (\<lambda>text. Some (PublicKey_default [0 := 9])), le_freshConfig = replicate 32 3,
      le_freshBaseMint = replicate 32 4, le_now = 1700000000\<rparr>"

definition example_options :: launch_options where
  "example_options =
     \<lparr>bo_payer = None, bo_exitFeeBps = None, bo_configKeypair = None, bo_baseMintKeypair = None,
      bo_quoteTokenProgram = None, bo_tokenBadge = None,
      bo_firstBuy = Some \<lparr>fb_quoteAmount = 100000000, fb_minBaseOut = None, fb_slippageBps = None\<rparr>,
      bo_computeUnitPriceMicroLamports = None, bo_nowUnixSeconds = None\<rparr>"

definition priced_input :: launch_input where
  "priced_input = example_input\<lparr>li_exitFeeBps := Some (Fin 200)\<rparr>"

definition example_dbc :: dbc_config_build where
  "example_dbc = \<lparr>cb_params = launchConfigParams example_launch_curve, cb_feeClaimer = replicate 32 1,
     cb_leftoverReceiver = replicate 32 1, cb_quoteMint = PublicKey_default [0 := 9]\<rparr>"

lemma example_metadata:
  "validateTokenMetadata (code_points (li_name example_input)) (code_points (li_symbol example_input))
     (code_points (li_uri example_input)) = []"
  by code_simp

lemma priced_curve: "computeLaunchCurve example_guess priced_input = Inr example_launch_curve"
  by code_simp

lemma priced_build:
  "buildDbcConfigParams example_guess (\<lambda>text. Some (PublicKey_default [0 := 9])) priced_input
     (replicate 32 1) (replicate 32 1) = Inr example_dbc"
  by code_simp

lemma example_first_quote:
  "bindE (freshDbcState example_dbc example_launch_curve 1700000000) (\<lambda>(config, pool).
     bindE (first_buy_quote config pool 100000000) (\<lambda>(mode, q). Inr (mode, sq_outputAmount q))) =
   Inr (ExactIn, 60160596188133)"
  by code_simp

text \<open>The pool of the example launch is one of the pools the theorem speaks of.\<close>

lemma launched_pool_collects_threshold_witness:
  "\<exists>config pool. freshDbcState example_dbc example_launch_curve 1700000000 = Inr (config, pool) \<and>
    pool_ok config pool \<and> \<not> isDbcCurveComplete config pool \<and> pool_reaches config pool pool"
  using launched_pool_collects_threshold [OF priced_build priced_curve, of 1700000000]
  by (blast intro: pool_reaches.start)

lemma example_ixs:
  "\<exists>ixs. launch_ixs example_env payer creator (Fin 200) example_dbc keys badge = Inr ixs"
  "\<exists>ixs. pool_ixs example_env payer creator example_input keys badge = Inr ixs"
  by (simp_all add: launch_ixs_def pool_ixs_def dbcCreateConfigIx_def createLaunchIx_def example_env_def plain_coder_def
      dbcInitializePoolWithSplTokenIx_def registerPoolIx_def ix_bytes_of ix_u16_def Let_def)

lemma small_web_size: "legacyTransactionSize small_web ixs payer = 1093"
  by (simp add: legacyTransactionSize_def small_web_def shortvecLength_def shortvecLoop.simps)

lemma example_plan:
  "0 < cu \<Longrightarrow> \<exists>t. plan small_web payer None label ixs signers cu = Inr t"
  by (simp add: plan_def computeBudgetInstructions_def assertTransactionFits_def small_web_size)

lemma example_buy_plan:
  assumes "le_web env = small_web"
  shows "\<exists>ts. plan_first_buy env payer None mint ixs buyIxs = Inr ts"
proof -
  obtain t where "plan small_web payer None ''create_pool+register_pool+first_buy'' (ixs @ buyIxs) [mint]
      (CU_LIMITS dbcInitializePool + CU_LIMITS registerPool + (CU_LIMITS createAta + CU_LIMITS dbcSwap2)) = Inr t"
    using example_plan by fastforce
  then show ?thesis
    by (simp add: plan_first_buy_def assms Let_def computeBudgetInstructions_def small_web_size)
qed

lemma ex_bindE: "\<exists>x. m = Inr x \<Longrightarrow> (\<And>x. \<exists>b. f x = Inr b \<and> P b) \<Longrightarrow> \<exists>b. bindE m f = Inr b \<and> P b"
  by auto

lemma ex_bindE_some:
  "\<exists>y. m = Inr (Some q, y) \<Longrightarrow> (\<And>y. \<exists>b. f (Some q, y) = Inr b \<and> P b) \<Longrightarrow> \<exists>b. bindE m f = Inr b \<and> P b"
  by auto

lemma example_build:
  "\<exists>b. buildLaunchTransactions example_env example_input (replicate 32 5) example_options = Inr b \<and>
    bl_firstBuyQuote b \<noteq> None"
proof -
  let ?me = "replicate 32 5 :: pubkey"
  have env: "le_guess example_env = example_guess" "le_parse example_env = (\<lambda>text. Some (PublicKey_default [0 := 9]))"
    "authorityPda (sol_derive (le_lib example_env)) config = replicate 32 1"
    "le_web example_env = small_web" "le_now example_env = 1700000000"
    "example_input\<lparr>li_exitFeeBps := Some (Fin 200)\<rparr> = priced_input" for config
    by (simp_all add: example_env_def one_key_lib_def authorityPda_def priced_input_def example_input_def)
  obtain config pool q where fresh: "freshDbcState example_dbc example_launch_curve 1700000000 = Inr (config, pool)"
    and q: "first_buy_quote config pool 100000000 = Inr (ExactIn, q)" "sq_outputAmount q = 60160596188133"
    using example_first_quote by (auto simp: result_simps)
  have lim: "dbcSwapSlippageLimit q ExactIn (Fin 100) = Inr 59558990226251"
    by (simp add: dbcSwapSlippageLimit_def q(2) integer_in_def)
  have pool: "\<exists>ts. pool_transactions example_env example_dbc example_launch_curve keys ?me ?me example_options ixs =
      Inr (Some q, ts)" for keys ixs
  proof -
    obtain ts where "plan_first_buy example_env ?me None (dk_baseMint keys) ixs
        (first_buy_ixs example_env keys ?me ?me ExactIn 100000000 59558990226251) = Inr ts"
      using example_buy_plan [OF env(4)] by blast
    then show ?thesis by (simp add: pool_transactions_def example_options_def env fresh q lim)
  qed
  have opts: "or_else (bo_payer example_options) ?me = ?me" "or_else (bo_exitFeeBps example_options) (Fin 200) = Fin 200"
    "or_else (li_exitFeeBps example_input) DEFAULT_EXIT_FEE_BPS = Fin 200" "cb_quoteMint example_dbc = PublicKey_default [0 := 9]"
    "bo_computeUnitPriceMicroLamports example_options = None"
    by (simp_all add: example_options_def or_else_def example_input_def DEFAULT_EXIT_FEE_BPS_def example_dbc_def)
  show ?thesis
    unfolding buildLaunchTransactions_def Let_def example_metadata opts env priced_build priced_curve bindE_simps
    by (simp, rule ex_bindE, rule example_ixs(1), rule ex_bindE, rule example_plan, simp,
        rule ex_bindE, rule example_ixs(2), rule ex_bindE_some, rule pool, simp)
qed

lemma plain_ata_signers: "ix_signers (plain_ata payer account holder mint prog ataProg) \<subseteq> {payer}"
  by (simp add: ix_signers_def plain_ata_def)

lemma launch_plan_sound_witness:
  "\<exists>b q ixs. buildLaunchTransactions example_env example_input (replicate 32 5) example_options = Inr b \<and>
    bl_firstBuyQuote b = Some q \<and>
    planned small_web (replicate 32 5) None {replicate 32 5} ixs [bl_configKeypair b, bl_baseMintKeypair b]
      (bl_transactions b)"
proof -
  obtain b q where b: "buildLaunchTransactions example_env example_input (replicate 32 5) example_options = Inr b"
    "bl_firstBuyQuote b = Some q" using example_build by auto
  have "\<forall>p account holder mint prog ataProg. ix_signers (le_newAta example_env p account holder mint prog ataProg) \<subseteq> {p}"
    using plain_ata_signers by (simp add: example_env_def)
  from launch_plan_sound [OF b(1) this] b show ?thesis
    by (auto simp: example_env_def example_options_def or_else_def)
qed

end
