(* ===== verification/JsNumber.thy ===== *)
theory JsNumber
  imports ValidateLaunch
begin

text \<open>
  Arithmetic on JavaScript numbers, for the figures the operator scripts compute in doubles. A sum, product
  or quotient of finite numbers is the exact result rounded by \<open>fl\<close>, which may overflow to an infinity; the
  special cases are those of IEEE 754. A zero has no sign here: a quotient by zero is the one by \<open>+0\<close>.
\<close>

type_synonym rounder = "rat \<Rightarrow> jsnum"

definition signed_infinity :: "rat \<Rightarrow> jsnum" where
  "signed_infinity q = (if q > 0 then Infinity else if q < 0 then NegInfinity else NaN)"

fun js_sign :: "jsnum \<Rightarrow> rat" where
  "js_sign NaN = 0"
| "js_sign Infinity = 1"
| "js_sign NegInfinity = -1"
| "js_sign (Fin q) = sgn q"

fun js_mul :: "rounder \<Rightarrow> jsnum \<Rightarrow> jsnum \<Rightarrow> jsnum" where
  "js_mul fl (Fin a) (Fin b) = fl (a * b)"
| "js_mul fl a b = (if a = NaN \<or> b = NaN then NaN else signed_infinity (js_sign a * js_sign b))"

fun js_div :: "rounder \<Rightarrow> jsnum \<Rightarrow> jsnum \<Rightarrow> jsnum" where
  "js_div fl (Fin a) (Fin b) = (if b = 0 then signed_infinity a else fl (a / b))"
| "js_div fl (Fin a) b = (if b = NaN then NaN else Fin 0)"
| "js_div fl a (Fin b) = (if a = NaN then NaN else signed_infinity (js_sign a * (if b < 0 then -1 else 1)))"
| "js_div fl a b = NaN"

fun js_minus :: "rounder \<Rightarrow> jsnum \<Rightarrow> jsnum \<Rightarrow> jsnum" where
  "js_minus fl (Fin a) (Fin b) = fl (a - b)"
| "js_minus fl (Fin a) b = (if b = NaN then NaN else if b = Infinity then NegInfinity else Infinity)"
| "js_minus fl a (Fin b) = a"
| "js_minus fl a b = (if a = NaN \<or> b = NaN \<or> a = b then NaN else a)"

text \<open>\<open>Math.ceil\<close>, \<open>Math.round\<close>, \<open>Math.abs\<close>; \<open>a > b\<close>; \<open>Number\<close> of a bigint.\<close>

fun js_ceil :: "jsnum \<Rightarrow> jsnum" where
  "js_ceil (Fin q) = JsInt \<lceil>q\<rceil>"
| "js_ceil a = a"

fun js_round :: "jsnum \<Rightarrow> jsnum" where
  "js_round (Fin q) = JsInt \<lfloor>q + 1 / 2\<rfloor>"
| "js_round a = a"

fun js_abs :: "jsnum \<Rightarrow> jsnum" where
  "js_abs (Fin q) = Fin \<bar>q\<bar>"
| "js_abs NegInfinity = Infinity"
| "js_abs a = a"

definition js_gt :: "jsnum \<Rightarrow> jsnum \<Rightarrow> bool" where
  "js_gt a b \<longleftrightarrow> js_ge a b \<and> \<not> js_ge b a"

definition Number :: "rounder \<Rightarrow> int \<Rightarrow> jsnum" where
  "Number fl i = fl (of_int i)"

lemma js_gt_Fin [simp]: "js_gt (Fin a) (Fin b) \<longleftrightarrow> b < a"
  by (auto simp: js_gt_def)

lemma js_ge_special [simp]:
  "\<not> js_ge a NaN" "\<not> js_ge NaN a" "js_ge Infinity (Fin q)" "\<not> js_ge (Fin q) Infinity" "\<not> js_ge NegInfinity (Fin q)"
  by (cases a; simp) (cases a; simp_all)+

lemma js_gt_special [simp]:
  "\<not> js_gt NaN a" "\<not> js_gt a NaN" "js_gt Infinity (Fin q)" "\<not> js_gt (Fin q) Infinity" "\<not> js_gt NegInfinity (Fin q)"
  by (simp_all add: js_gt_def)

lemma BigInt_ceil [simp]: "BigInt (js_ceil (Fin q)) = Inr \<lceil>q\<rceil>"
  by (simp add: BigInt_def)

end
