(* ===== verification/Decimal.thy ===== *)
theory Decimal
  imports FloorMath
begin

text \<open>
  The decimal text of an integer (\<open>BigInt.toString\<close>, and a number in a template string), shared by the
  components that print amounts, with its inverse reading.
\<close>

definition digit_char :: "int \<Rightarrow> char" where
  "digit_char d = char_of (nat (48 + d))"

function decimal_digits :: "int \<Rightarrow> string" where
  "decimal_digits n = (if n < 10 then [digit_char n] else decimal_digits (n div 10) @ [digit_char (n mod 10)])"
  by pat_completeness auto
termination by (relation "measure nat") auto

declare decimal_digits.simps [simp del]

definition toString :: "int \<Rightarrow> string" where
  "toString n = (if n < 0 then CHR ''-'' # decimal_digits (- n) else decimal_digits n)"

lemma of_char_digit: "0 \<le> d \<Longrightarrow> d < 10 \<Longrightarrow> (of_char (digit_char d) :: nat) = nat (48 + d)"
  by (simp add: digit_char_def nat_less_iff)

lemma is_digit_digit_char [simp]: "0 \<le> d \<Longrightarrow> d < 10 \<Longrightarrow> is_digit (digit_char d)"
  by (simp add: is_digit_def of_char_digit le_nat_iff nat_le_iff)

lemma digit_char_value: "0 \<le> d \<Longrightarrow> d < 10 \<Longrightarrow> int (of_char (digit_char d)) = 48 + d"
  using of_char_digit [of d] by simp

lemma digits_value_from: 
  "foldl (\<lambda>acc c. acc * 10 + (int (of_char c) - 48)) v ys = v * 10 ^ length ys + digits_value ys"
proof (induction ys arbitrary: v)
  case (Cons c ys)
  define d where "d = int (of_char c) - 48"
  have "digits_value (c # ys) = d * 10 ^ length ys + digits_value ys"
    using Cons [of d] by (simp add: digits_value_def d_def)
  with Cons [of "v * 10 + d"] show ?case by (simp add: d_def algebra_simps)
qed (simp add: digits_value_def)

lemma digits_value_append: "digits_value (xs @ ys) = digits_value xs * 10 ^ length ys + digits_value ys"
  using digits_value_from [of "digits_value xs" ys] by (simp add: digits_value_def)

lemma digits_value_simps [simp]: "digits_value [] = 0" "digits_value [c] = int (of_char c) - 48"
  by (simp_all add: digits_value_def)

lemma decimal_digits_value: "0 \<le> n \<Longrightarrow> digits_value (decimal_digits n) = n"
proof (induction n rule: decimal_digits.induct)
  case (1 n)
  have "n div 10 * 10 + n mod 10 = n" by simp
  with 1 show ?case
    by (subst decimal_digits.simps) (simp add: digit_char_value digits_value_append)
qed

lemma decimal_digits_digits: "0 \<le> n \<Longrightarrow> list_all is_digit (decimal_digits n) \<and> decimal_digits n \<noteq> []"
proof (induction n rule: decimal_digits.induct)
  case (1 n)
  then show ?case by (subst (1 2) decimal_digits.simps) auto
qed

lemma digits_value_zeros [simp]: "digits_value (replicate n (CHR ''0'')) = 0"
  by (induction n) (simp_all add: digits_value_append replicate_append_same [symmetric] del: replicate_append_same)

lemma digits_value_pad [simp]: "digits_value (replicate n (CHR ''0'') @ s) = digits_value s"
  by (simp add: digits_value_append)

lemma digits_value_bounds: "list_all is_digit s \<Longrightarrow> 0 \<le> digits_value s \<and> digits_value s < 10 ^ length s"
proof (induction s rule: rev_induct)
  case (snoc c s)
  then have "0 \<le> int (of_char c) - 48 \<and> int (of_char c) - 48 \<le> 9" by (auto simp: is_digit_def)
  with snoc show ?case by (auto simp: digits_value_append)
qed simp

end
