(* ===== verification/FundPlan.thy ===== *)
theory FundPlan
  imports JsNumber Guard Decimal
begin

text \<open>
  The funding plan of the launch rehearsal, \<^verbatim>\<open>scripts/c2/libfund.ts\<close>: the planned amounts, the send gate on
  top of the SDK guard, the plan with its shortfalls, the checks of a swap quote and of what arrived, the
  end-state verification and the resume rules. Lamports and raw token units are bigints; the USD figures are
  doubles rounded by \<open>fl\<close>. The texts of the reasons are left out: a reason is a constructor with the figures
  it prints, and the printed tables are not modelled.
\<close>

section \<open>Constants\<close>

record planned_wallet =
  pw_role :: string
  pw_pubkey :: string
  pw_keyFile :: string
  pw_lamports :: int
  pw_spyxRaw :: int
  pw_planKey :: "string option"

definition DEPLOYER :: "string \<times> string \<times> string" where
  "DEPLOYER = (''deployer'', ''BBU1tTr4BTrEeVfNG4wWLmrmyhDHdeLZeny5C5FsdstV'', ''keys/deployer.json'')"

definition PLANNED_FUNDING :: "planned_wallet list" where
  "PLANNED_FUNDING =
     [\<lparr>pw_role = ''creator'', pw_pubkey = ''EFSrr7pe6fJqRLXWMBYzNCJj2uVBxtn9fxYM91U2vY5f'',
       pw_keyFile = ''keys/cli-creator.json'', pw_lamports = 60000000, pw_spyxRaw = 740000,
       pw_planKey = Some ''CREATOR_SPYX_RAW''\<rparr>,
      \<lparr>pw_role = ''buyer1'', pw_pubkey = ''ED77vdfSwwJzrvQqUo7RtQRYsMA3bGSP213ZEBoBin99'',
       pw_keyFile = ''keys/cli-buyer1.json'', pw_lamports = 20000000, pw_spyxRaw = 3660000,
       pw_planKey = Some ''BUYER1_SPYX_RAW''\<rparr>,
      \<lparr>pw_role = ''buyer2'', pw_pubkey = ''5WgdkguwV2EcLuPE8sGCjrRqcxXui5kbkaxdHE4viAJJ'',
       pw_keyFile = ''keys/cli-buyer2.json'', pw_lamports = 20000000, pw_spyxRaw = 3660000,
       pw_planKey = Some ''BUYER2_SPYX_RAW''\<rparr>,
      \<lparr>pw_role = ''cranker'', pw_pubkey = ''FhaZVX91912MJTxoPDW3JtmbeDEuZdRjDQ9QfkaWohyC'',
       pw_keyFile = ''keys/cli-cranker.json'', pw_lamports = 40000000, pw_spyxRaw = 0, pw_planKey = None\<rparr>]"

definition MIN_DEPLOYER_LAMPORTS :: int where "MIN_DEPLOYER_LAMPORTS = 5050000000"
definition SPYX_HEADROOM_NUM :: int where [simp]: "SPYX_HEADROOM_NUM = 110"
definition SPYX_HEADROOM_DEN :: int where [simp]: "SPYX_HEADROOM_DEN = 100"
definition DEFAULT_SWAP_MARGIN_BPS :: int where "DEFAULT_SWAP_MARGIN_BPS = 300"
definition DEFAULT_FEE_BUFFER_LAMPORTS :: int where "DEFAULT_FEE_BUFFER_LAMPORTS = 5000000"
definition BPS :: int where [simp]: "BPS = 10000"

definition ceil_div :: "int \<Rightarrow> int \<Rightarrow> int" where
  "ceil_div a b = (a + b - 1) sdiv b"

definition maxBig :: "int \<Rightarrow> int \<Rightarrow> int" where
  "maxBig a b = (if a > b then a else b)"

section \<open>Prices\<close>

definition spyxRawToUsd :: "rounder \<Rightarrow> int \<Rightarrow> nat \<Rightarrow> jsnum \<Rightarrow> jsnum \<Rightarrow> jsnum" where
  "spyxRawToUsd fl raw decimals multiplier usdPrice =
     js_mul fl (js_mul fl (js_div fl (Number fl raw) (Number fl (10 ^ decimals))) multiplier) usdPrice"

definition usdToSpyxRaw :: "rounder \<Rightarrow> jsnum \<Rightarrow> nat \<Rightarrow> jsnum \<Rightarrow> jsnum \<Rightarrow> int result" where
  "usdToSpyxRaw fl usd decimals multiplier usdPrice =
     (if \<not> js_gt usdPrice (Fin 0) \<or> \<not> js_gt multiplier (Fin 0) then Inr 0
      else BigInt (js_ceil (js_div fl (js_mul fl (js_div fl usd usdPrice) (Number fl (10 ^ decimals))) multiplier)))"

definition lamportsToUsd :: "rounder \<Rightarrow> int \<Rightarrow> jsnum \<Rightarrow> jsnum" where
  "lamportsToUsd fl lamports solUsd = js_mul fl (js_div fl (Number fl lamports) (Fin 1000000000)) solUsd"

definition usdToLamports :: "rounder \<Rightarrow> jsnum \<Rightarrow> jsnum \<Rightarrow> int result" where
  "usdToLamports fl usd solUsd =
     (if \<not> js_gt solUsd (Fin 0) then Inr 0
      else BigInt (js_ceil (js_mul fl (js_div fl usd solUsd) (Fin 1000000000))))"

section \<open>The send gate\<close>

datatype cluster_kind = ClusterMainnet | ClusterSurfnet | ClusterLocal | ClusterUnknown
datatype swap_provider = Jupiter | Cheat
datatype fund_mode = FundMainnet | FundFork

datatype fund_refusal =
    SdkRefused refusal
  | OverrideOnLoopback
  | NotMainnet cluster_kind
  | NoSpendingFlag
  | TestProviderOnMainnet
  | JupiterOffMainnet guard_mode

datatype fund_guard_decision = FundAllowed fund_mode | FundRefused fund_refusal

record fund_guard_input =
  fg_sdkDecision :: send_guard_decision
  fg_loopback :: bool
  fg_clusterKind :: cluster_kind
  fg_realMoneyFlag :: bool
  fg_swapProvider :: swap_provider

definition evaluateFundGuard :: "fund_guard_input \<Rightarrow> fund_guard_decision" where
  "evaluateFundGuard input =
     (case fg_sdkDecision input of
        Refused r \<Rightarrow> FundRefused (SdkRefused r)
      | Allowed mode \<Rightarrow>
          if mode = MainnetOverride
          then if fg_loopback input then FundRefused OverrideOnLoopback
               else if fg_clusterKind input \<noteq> ClusterMainnet then FundRefused (NotMainnet (fg_clusterKind input))
               else if \<not> fg_realMoneyFlag input then FundRefused NoSpendingFlag
               else if fg_swapProvider input \<noteq> Jupiter then FundRefused TestProviderOnMainnet
               else FundAllowed FundMainnet
          else if fg_swapProvider input \<noteq> Cheat then FundRefused (JupiterOffMainnet mode)
          else FundAllowed FundFork)"

section \<open>The plan\<close>

record wallet_balances =
  wb_role :: string
  wb_pubkey :: string
  wb_keyFile :: string
  wb_lamports :: int
  wb_spyxRaw :: int
  wb_hasSpyxAta :: bool

record deployer_balances =
  db_pubkey :: string
  db_lamports :: int
  db_spyxRaw :: int
  db_hasSpyxAta :: bool

record fund_plan_input =
  fi_wallets :: "wallet_balances list"
  fi_deployer :: deployer_balances
  fi_livePlan :: "string \<Rightarrow> string option"
  fi_spyxDecimals :: nat
  fi_spyxMultiplier :: jsnum
  fi_spyxUsd :: jsnum
  fi_solUsd :: jsnum
  fi_ataRentLamports :: int
  fi_minDeployerLamports :: "int option"
  fi_feeBufferLamports :: "int option"
  fi_swapMarginBps :: "int option"
  fi_planned :: "planned_wallet list option"

record wallet_plan =
  wp_role :: string
  wp_pubkey :: string
  wp_keyFile :: string
  wp_solTarget :: int
  wp_solBalance :: int
  wp_solToSend :: int
  wp_solDone :: bool
  wp_spyxPlanned :: int
  wp_spyxLive :: int
  wp_spyxLiveWithHeadroom :: int
  wp_spyxTarget :: int
  wp_spyxBalance :: int
  wp_spyxToSend :: int
  wp_spyxDone :: bool
  wp_needsAta :: bool

datatype plan_abort = DeployerBelowMinimum int int int | DeployerCannotPay int int | NoLivePrice

record plan_usd =
  us_sol :: jsnum
  us_spyx :: jsnum
  us_ataRent :: jsnum

record fund_plan =
  fp_wallets :: "wallet_plan list"
  fp_spyxToTransfer :: int
  fp_spyxToBuy :: int
  fp_solToSend :: int
  fp_atasToCreate :: nat
  fp_ataRentLamports :: int
  fp_ataRentTotal :: int
  fp_feeBuffer :: int
  fp_swapLamportsEstimate :: int
  fp_deployerBalance :: int
  fp_deployerSpend :: int
  fp_deployerLeft :: int
  fp_minDeployerLamports :: int
  fp_deployerOk :: bool
  fp_usd :: plan_usd
  fp_abort :: "plan_abort option"
  fp_complete :: bool

definition livePlanRaw :: "(string \<Rightarrow> string option) \<Rightarrow> string option \<Rightarrow> int result" where
  "livePlanRaw livePlan planKey =
     (case planKey of
        None \<Rightarrow> Inr 0
      | Some key \<Rightarrow>
          if key = [] then Inr 0
          else case livePlan key of
            None \<Rightarrow> Inr 0
          | Some v \<Rightarrow>
              (let digits = js_trim v
               in if digits = [] \<or> \<not> list_all is_digit digits
                  then Inl (GenericError (''plan export '' @ key @ '' is not an integer: '' @ v))
                  else Inr (digits_value digits)))"

definition wallet_plan_of :: "fund_plan_input \<Rightarrow> planned_wallet \<Rightarrow> wallet_plan result" where
  "wallet_plan_of input p =
     (case List.find (\<lambda>w. wb_role w = pw_role p) (fi_wallets input) of
        None \<Rightarrow> Inl (GenericError (''no balances for wallet '' @ pw_role p))
      | Some b \<Rightarrow>
          if wb_pubkey b \<noteq> pw_pubkey p
          then Inl (GenericError (pw_keyFile p @ '' derives '' @ wb_pubkey b @ '', but the funding plan names '' @ pw_pubkey p))
          else bindE (livePlanRaw (fi_livePlan input) (pw_planKey p)) (\<lambda>live.
            let liveWithHeadroom = ceil_div (live * SPYX_HEADROOM_NUM) SPYX_HEADROOM_DEN;
                spyxTarget = maxBig (pw_spyxRaw p) liveWithHeadroom;
                solToSend = (if wb_lamports b \<ge> pw_lamports p then 0 else pw_lamports p - wb_lamports b);
                spyxToSend = (if wb_spyxRaw b \<ge> spyxTarget then 0 else spyxTarget - wb_spyxRaw b)
            in Inr \<lparr>wp_role = pw_role p, wp_pubkey = pw_pubkey p, wp_keyFile = pw_keyFile p,
                 wp_solTarget = pw_lamports p, wp_solBalance = wb_lamports b, wp_solToSend = solToSend,
                 wp_solDone = (solToSend = 0), wp_spyxPlanned = pw_spyxRaw p, wp_spyxLive = live,
                 wp_spyxLiveWithHeadroom = liveWithHeadroom, wp_spyxTarget = spyxTarget,
                 wp_spyxBalance = wb_spyxRaw b, wp_spyxToSend = spyxToSend, wp_spyxDone = (spyxToSend = 0),
                 wp_needsAta = (spyxTarget > 0 \<and> \<not> wb_hasSpyxAta b)\<rparr>))"

text \<open>Later reasons replace earlier ones.\<close>

definition plan_abort_of :: "fund_plan_input \<Rightarrow> int \<Rightarrow> int \<Rightarrow> plan_abort option" where
  "plan_abort_of input spend minDeployer =
     (let balance = db_lamports (fi_deployer input); left = balance - spend
      in if \<not> js_gt (fi_spyxUsd input) (Fin 0) \<or> \<not> js_gt (fi_solUsd input) (Fin 0) then Some NoLivePrice
         else if balance < spend then Some (DeployerCannotPay balance spend)
         else if \<not> left \<ge> minDeployer then Some (DeployerBelowMinimum left minDeployer spend)
         else None)"

definition buildFundPlan :: "rounder \<Rightarrow> fund_plan_input \<Rightarrow> fund_plan result" where
  "buildFundPlan fl input =
     (let planned = (case fi_planned input of Some p \<Rightarrow> p | None \<Rightarrow> PLANNED_FUNDING);
          minDeployer = (case fi_minDeployerLamports input of Some m \<Rightarrow> m | None \<Rightarrow> MIN_DEPLOYER_LAMPORTS);
          feeBuffer = (case fi_feeBufferLamports input of Some b \<Rightarrow> b | None \<Rightarrow> DEFAULT_FEE_BUFFER_LAMPORTS);
          marginBps = (case fi_swapMarginBps input of Some m \<Rightarrow> m | None \<Rightarrow> DEFAULT_SWAP_MARGIN_BPS);
          deployer = fi_deployer input
      in bindE (mapE (wallet_plan_of input) planned) (\<lambda>wallets.
         let solToSend = sum_list (map wp_solToSend wallets);
             spyxToTransfer = sum_list (map wp_spyxToSend wallets);
             spyxToBuy = (if spyxToTransfer > db_spyxRaw deployer then spyxToTransfer - db_spyxRaw deployer else 0);
             atasToCreate = length (filter wp_needsAta wallets) + (if db_hasSpyxAta deployer then 0 else 1);
             ataRentTotal = fi_ataRentLamports input * int atasToCreate;
             spyxBuyUsd = spyxRawToUsd fl spyxToBuy (fi_spyxDecimals input) (fi_spyxMultiplier input) (fi_spyxUsd input)
         in bindE (if spyxToBuy = 0 then Inr 0
                   else bindE (usdToLamports fl spyxBuyUsd (fi_solUsd input)) (\<lambda>l. Inr ((l * (BPS + marginBps)) sdiv BPS)))
              (\<lambda>swapLamportsEstimate.
            let deployerSpend = solToSend + ataRentTotal + swapLamportsEstimate + feeBuffer;
                deployerLeft = db_lamports deployer - deployerSpend
            in Inr \<lparr>fp_wallets = wallets, fp_spyxToTransfer = spyxToTransfer, fp_spyxToBuy = spyxToBuy,
                 fp_solToSend = solToSend, fp_atasToCreate = atasToCreate, fp_ataRentLamports = fi_ataRentLamports input,
                 fp_ataRentTotal = ataRentTotal, fp_feeBuffer = feeBuffer, fp_swapLamportsEstimate = swapLamportsEstimate,
                 fp_deployerBalance = db_lamports deployer, fp_deployerSpend = deployerSpend,
                 fp_deployerLeft = deployerLeft, fp_minDeployerLamports = minDeployer,
                 fp_deployerOk = (deployerLeft \<ge> minDeployer),
                 fp_usd = \<lparr>us_sol = lamportsToUsd fl solToSend (fi_solUsd input),
                           us_spyx = lamportsToUsd fl swapLamportsEstimate (fi_solUsd input),
                           us_ataRent = lamportsToUsd fl ataRentTotal (fi_solUsd input)\<rparr>,
                 fp_abort = plan_abort_of input deployerSpend minDeployer,
                 fp_complete = (solToSend = 0 \<and> spyxToTransfer = 0)\<rparr>)))"

section \<open>Checks of a swap\<close>

record swap_quote_input =
  si_inAmount :: int
  si_outAmount :: int
  si_routeMinOut :: int
  si_routeSlippageBps :: "jsnum option"
  si_slippageBps :: jsnum
  si_maxDeviationBps :: jsnum
  si_requiredOut :: int
  si_solUsd :: jsnum
  si_spyxUsd :: jsnum
  si_spyxDecimals :: nat
  si_spyxMultiplier :: jsnum

datatype quote_problem =
    NoOutput
  | NotComparable
  | TooFarFromMid jsnum jsnum jsnum
  | BelowRequired int int
  | RouteSlippageTooLoose jsnum jsnum

record swap_quote_check =
  qc_ok :: bool
  qc_minOut :: int
  qc_impliedUsd :: jsnum
  qc_midUsd :: jsnum
  qc_deviationBps :: jsnum
  qc_reasons :: "quote_problem list"

definition price_deviation :: "rounder \<Rightarrow> jsnum \<Rightarrow> jsnum \<Rightarrow> jsnum" where
  "price_deviation fl impliedUsd midUsd =
     (if js_gt midUsd (Fin 0) \<and> isFinite impliedUsd
      then js_round (js_mul fl (js_div fl (js_minus fl impliedUsd midUsd) midUsd) (Fin 10000))
      else Infinity)"

definition quote_problems :: "swap_quote_input \<Rightarrow> int \<Rightarrow> jsnum \<Rightarrow> jsnum \<Rightarrow> quote_problem list" where
  "quote_problems i minOut impliedUsd deviationBps =
     (if si_outAmount i \<le> 0 then [NoOutput] else []) @
     (if \<not> isFinite deviationBps then [NotComparable]
      else if js_gt (js_abs deviationBps) (si_maxDeviationBps i) then [TooFarFromMid impliedUsd (si_spyxUsd i) deviationBps]
      else []) @
     (if si_requiredOut i > 0 \<and> minOut < si_requiredOut i then [BelowRequired minOut (si_requiredOut i)] else []) @
     (case si_routeSlippageBps i of
        Some s \<Rightarrow> if js_gt s (si_slippageBps i) then [RouteSlippageTooLoose s (si_slippageBps i)] else []
      | None \<Rightarrow> [])"

definition checkSwapQuote :: "rounder \<Rightarrow> swap_quote_input \<Rightarrow> swap_quote_check result" where
  "checkSwapQuote fl i =
     bindE (BigInt (si_slippageBps i)) (\<lambda>slippage.
     let ourMin = (si_outAmount i * (BPS - slippage)) sdiv BPS;
         minOut = maxBig ourMin (si_routeMinOut i);
         inUsd = lamportsToUsd fl (si_inAmount i) (si_solUsd i);
         outUi = js_mul fl (js_div fl (Number fl (si_outAmount i)) (Number fl (10 ^ si_spyxDecimals i))) (si_spyxMultiplier i);
         impliedUsd = (if js_gt outUi (Fin 0) then js_div fl inUsd outUi else Infinity);
         midUsd = si_spyxUsd i;
         deviationBps = price_deviation fl impliedUsd midUsd;
         reasons = quote_problems i minOut impliedUsd deviationBps
     in Inr \<lparr>qc_ok = (reasons = []), qc_minOut = minOut, qc_impliedUsd = impliedUsd, qc_midUsd = midUsd,
             qc_deviationBps = deviationBps, qc_reasons = reasons\<rparr>)"

datatype receipt_problem = ReceivedTooLittle int int | ReceivedTooMuch int int int

record swap_receipt_check =
  rc_ok :: bool
  rc_received :: int
  rc_minOut :: int
  rc_maxOut :: int
  rc_reasons :: "receipt_problem list"

definition checkSwapReceipt :: "int \<Rightarrow> int \<Rightarrow> int \<Rightarrow> int option \<Rightarrow> swap_receipt_check" where
  "checkSwapReceipt received quotedOut minOut upperToleranceBps =
     (let maxOut = (quotedOut * (BPS + (case upperToleranceBps of Some t \<Rightarrow> t | None \<Rightarrow> 100))) sdiv BPS;
          reasons = (if received < minOut then [ReceivedTooLittle received minOut] else []) @
                    (if received > maxOut then [ReceivedTooMuch received quotedOut maxOut] else [])
      in \<lparr>rc_ok = (reasons = []), rc_received = received, rc_minOut = minOut, rc_maxOut = maxOut, rc_reasons = reasons\<rparr>)"

section \<open>The end state\<close>

record end_wallet =
  ew_role :: string
  ew_pubkey :: string
  ew_solTarget :: int
  ew_solBalance :: int
  ew_spyxTarget :: int
  ew_spyxBalance :: int

record end_state_input =
  es_deployerLamports :: int
  es_minDeployerLamports :: int
  es_wallets :: "end_wallet list"

datatype shortfall = ShortOfSol string int int | ShortOfSpyx string int int | DeployerShort int int

definition wallet_shortfalls :: "end_wallet \<Rightarrow> shortfall list" where
  "wallet_shortfalls w =
     (if \<not> ew_solBalance w \<ge> ew_solTarget w then [ShortOfSol (ew_role w) (ew_solBalance w) (ew_solTarget w)] else []) @
     (if \<not> ew_spyxBalance w \<ge> ew_spyxTarget w then [ShortOfSpyx (ew_role w) (ew_spyxBalance w) (ew_spyxTarget w)] else [])"

text \<open>\<open>verifyEndState\<close>: whether it is met, with the shortfalls.\<close>

definition verifyEndState :: "end_state_input \<Rightarrow> bool \<times> shortfall list" where
  "verifyEndState i =
     (let shortfalls = concat (map wallet_shortfalls (es_wallets i)) @
            (if \<not> es_deployerLamports i \<ge> es_minDeployerLamports i
             then [DeployerShort (es_deployerLamports i) (es_minDeployerLamports i)] else [])
      in (shortfalls = [], shortfalls))"

section \<open>Resuming\<close>

datatype stage_status = StagePending | StageDone | StageSkipped | StageFailed

text \<open>Of the open \<open>detail\<close> record the code reads the two figures of a pending swap.\<close>

record stage_record =
  sr_id :: string
  sr_status :: stage_status
  sr_spyxBefore :: "int option"
  sr_minOut :: "int option"

fun stageOf :: "stage_record list \<Rightarrow> string \<Rightarrow> stage_record option" where
  "stageOf stages id' = List.find (\<lambda>s. sr_id s = id') (rev stages)"

datatype pending_outcome = SwapLanded | SwapPartlyLanded | SwapNotLanded

fun outcome_landed :: "pending_outcome \<Rightarrow> bool" where
  "outcome_landed SwapNotLanded = False"
| "outcome_landed _ = True"

definition resolvePendingSwap :: "stage_record option \<Rightarrow> int \<Rightarrow> pending_outcome option" where
  "resolvePendingSwap stage balanceNow =
     (case stage of
        None \<Rightarrow> None
      | Some s \<Rightarrow>
          if sr_status s \<noteq> StagePending then None
          else (let before = (case sr_spyxBefore s of Some b \<Rightarrow> b | None \<Rightarrow> 0);
                    expected = (case sr_minOut s of Some m \<Rightarrow> m | None \<Rightarrow> 0)
                in if balanceNow \<ge> before + expected \<and> expected > 0 then Some SwapLanded
                   else if balanceNow > before then Some SwapPartlyLanded
                   else Some SwapNotLanded))"

section \<open>The plan resumes where a run stopped\<close>

definition planned_of :: "fund_plan_input \<Rightarrow> planned_wallet list" where
  "planned_of input = (case fi_planned input of Some p \<Rightarrow> p | None \<Rightarrow> PLANNED_FUNDING)"

lemma buildFundPlan_InrE:
  assumes "buildFundPlan fl input = Inr plan"
  shows "mapE (wallet_plan_of input) (planned_of input) = Inr (fp_wallets plan)"
    "fp_solToSend plan = sum_list (map wp_solToSend (fp_wallets plan))"
    "fp_spyxToTransfer plan = sum_list (map wp_spyxToSend (fp_wallets plan))"
    "fp_complete plan \<longleftrightarrow> fp_solToSend plan = 0 \<and> fp_spyxToTransfer plan = 0"
    "fp_spyxToBuy plan = max 0 (fp_spyxToTransfer plan - db_spyxRaw (fi_deployer input))"
    "fp_deployerSpend plan = fp_solToSend plan + fp_ataRentTotal plan + fp_swapLamportsEstimate plan + fp_feeBuffer plan"
    "fp_abort plan = plan_abort_of input (fp_deployerSpend plan) (fp_minDeployerLamports plan)"
  using assms by (auto simp: buildFundPlan_def planned_of_def Let_def result_simps)

lemma wallet_plan_of_InrE:
  assumes "wallet_plan_of input p = Inr w"
  obtains b live where "List.find (\<lambda>w. wb_role w = pw_role p) (fi_wallets input) = Some b"
    "wb_pubkey b = pw_pubkey p" "livePlanRaw (fi_livePlan input) (pw_planKey p) = Inr live"
    "wp_role w = pw_role p" "wp_pubkey w = pw_pubkey p" "wp_solTarget w = pw_lamports p"
    "wp_spyxTarget w = maxBig (pw_spyxRaw p) (ceil_div (live * 110) 100)"
    "wp_solBalance w = wb_lamports b" "wp_spyxBalance w = wb_spyxRaw b"
    "wp_solToSend w = max 0 (wp_solTarget w - wp_solBalance w)"
    "wp_spyxToSend w = max 0 (wp_spyxTarget w - wp_spyxBalance w)"
  using assms by (auto simp: wallet_plan_of_def Let_def result_simps split: option.splits if_splits)

lemma wallet_plan_to_send:
  assumes "wallet_plan_of input p = Inr w"
  shows "wp_role w = pw_role p \<and> 0 \<le> wp_solToSend w \<and> 0 \<le> wp_spyxToSend w"
  using assms by (rule wallet_plan_of_InrE) simp

text \<open>What a run has paid so far: \<open>s\<close> lamports and \<open>t\<close> raw units per role.\<close>

definition paid :: "(string \<Rightarrow> int) \<Rightarrow> (string \<Rightarrow> int) \<Rightarrow> wallet_balances \<Rightarrow> wallet_balances" where
  "paid s t b = b\<lparr>wb_lamports := wb_lamports b + s (wb_role b), wb_spyxRaw := wb_spyxRaw b + t (wb_role b)\<rparr>"

lemma paid_same [simp]: "wb_role (paid s t b) = wb_role b" "wb_pubkey (paid s t b) = wb_pubkey b"
  "wb_keyFile (paid s t b) = wb_keyFile b" "wb_hasSpyxAta (paid s t b) = wb_hasSpyxAta b"
  "wb_lamports (paid s t b) = wb_lamports b + s (wb_role b)" "wb_spyxRaw (paid s t b) = wb_spyxRaw b + t (wb_role b)"
  by (simp_all add: paid_def)

definition after_payments ::
  "(string \<Rightarrow> int) \<Rightarrow> (string \<Rightarrow> int) \<Rightarrow> deployer_balances \<Rightarrow> fund_plan_input \<Rightarrow> fund_plan_input" where
  "after_payments s t d input = input\<lparr>fi_wallets := map (paid s t) (fi_wallets input), fi_deployer := d\<rparr>"

lemma find_paid:
  "List.find (\<lambda>w. wb_role w = r) (map (paid s t) bs) = map_option (paid s t) (List.find (\<lambda>w. wb_role w = r) bs)"
  by (induction bs) auto

lemma find_role: "List.find (\<lambda>w. wb_role w = r) bs = Some b \<Longrightarrow> wb_role b = r"
  by (induction bs) (auto split: if_splits)

definition resumes :: "(string \<Rightarrow> int) \<Rightarrow> (string \<Rightarrow> int) \<Rightarrow> wallet_plan \<Rightarrow> wallet_plan \<Rightarrow> bool" where
  "resumes s t w w' \<longleftrightarrow>
     wp_role w' = wp_role w \<and> wp_pubkey w' = wp_pubkey w \<and> wp_solTarget w' = wp_solTarget w \<and>
     wp_spyxTarget w' = wp_spyxTarget w \<and> wp_solToSend w' = wp_solToSend w - s (wp_role w) \<and>
     wp_spyxToSend w' = wp_spyxToSend w - t (wp_role w)"

lemma shortfall_after: "0 \<le> x \<Longrightarrow> x \<le> max 0 (a - b) \<Longrightarrow> max 0 (a - (b + x)) = max 0 (a - b) - x" for a :: int
  by simp

lemma shortfall_covers: "a \<le> b + max 0 (a - b)" for a :: int
  by (simp add: max_def)

lemma wallet_plan_after:
  assumes "wallet_plan_of input p = Inr w" and "0 \<le> s (wp_role w)" "s (wp_role w) \<le> wp_solToSend w"
    and "0 \<le> t (wp_role w)" "t (wp_role w) \<le> wp_spyxToSend w"
  shows "\<exists>w'. wallet_plan_of (after_payments s t d input) p = Inr w' \<and> resumes s t w w'"
  using assms(1)
proof (rule wallet_plan_of_InrE)
  fix b live
  assume b: "List.find (\<lambda>w. wb_role w = pw_role p) (fi_wallets input) = Some b" "wb_pubkey b = pw_pubkey p"
    "livePlanRaw (fi_livePlan input) (pw_planKey p) = Inr live"
    and w: "wp_role w = pw_role p" "wp_pubkey w = pw_pubkey p" "wp_solTarget w = pw_lamports p"
    "wp_spyxTarget w = maxBig (pw_spyxRaw p) (ceil_div (live * 110) 100)" "wp_solBalance w = wb_lamports b"
    "wp_spyxBalance w = wb_spyxRaw b" "wp_solToSend w = max 0 (wp_solTarget w - wp_solBalance w)"
    "wp_spyxToSend w = max 0 (wp_spyxTarget w - wp_spyxBalance w)"
  have role: "wb_role b = pw_role p" using b(1) by (rule find_role)
  have "List.find (\<lambda>w. wb_role w = pw_role p) (fi_wallets (after_payments s t d input)) = Some (paid s t b)"
    using b(1) by (simp add: after_payments_def find_paid)
  moreover have "fi_livePlan (after_payments s t d input) = fi_livePlan input" by (simp add: after_payments_def)
  ultimately obtain w' where w': "wallet_plan_of (after_payments s t d input) p = Inr w'"
    using b(2,3) by (simp add: wallet_plan_of_def Let_def)
  from w' show ?thesis
  proof (rule wallet_plan_of_InrE)
    fix b' live'
    assume b': "List.find (\<lambda>w. wb_role w = pw_role p) (fi_wallets (after_payments s t d input)) = Some b'"
      "livePlanRaw (fi_livePlan (after_payments s t d input)) (pw_planKey p) = Inr live'"
      and f: "wp_role w' = pw_role p" "wp_pubkey w' = pw_pubkey p" "wp_solTarget w' = pw_lamports p"
      "wp_spyxTarget w' = maxBig (pw_spyxRaw p) (ceil_div (live' * 110) 100)" "wp_solBalance w' = wb_lamports b'"
      "wp_spyxBalance w' = wb_spyxRaw b'" "wp_solToSend w' = max 0 (wp_solTarget w' - wp_solBalance w')"
      "wp_spyxToSend w' = max 0 (wp_spyxTarget w' - wp_spyxBalance w')"
    have "b' = paid s t b" "live' = live"
      using b' b(1,3) by (simp_all add: after_payments_def find_paid)
    with f w assms(2-) role have "resumes s t w w'" by (simp add: resumes_def shortfall_after)
    with w' show ?thesis by blast
  qed
qed

lemma wallet_plans_after:
  assumes "mapE (wallet_plan_of input) ps = Inr ws"
    and "\<forall>w \<in> set ws. 0 \<le> s (wp_role w) \<and> s (wp_role w) \<le> wp_solToSend w \<and> 0 \<le> t (wp_role w) \<and> t (wp_role w) \<le> wp_spyxToSend w"
  shows "\<exists>ws'. mapE (wallet_plan_of (after_payments s t d input)) ps = Inr ws' \<and> list_all2 (resumes s t) ws ws'"
  using assms
proof (induction ps arbitrary: ws)
  case (Cons p ps)
  from Cons.prems(1) obtain w ws0 where ws: "ws = w # ws0" "wallet_plan_of input p = Inr w"
    "mapE (wallet_plan_of input) ps = Inr ws0" by (auto simp: result_simps)
  with Cons.prems(2) wallet_plan_after [OF ws(2), of s t d]
  obtain w' where "wallet_plan_of (after_payments s t d input) p = Inr w'" "resumes s t w w'" by auto
  moreover from Cons.IH [OF ws(3)] Cons.prems(2) ws(1)
  obtain ws' where "mapE (wallet_plan_of (after_payments s t d input)) ps = Inr ws'" "list_all2 (resumes s t) ws0 ws'" by auto
  ultimately show ?case using ws(1) by auto
qed simp

lemma sum_resumes:
  "list_all2 (resumes s t) ws ws' \<Longrightarrow>
     sum_list (map wp_solToSend ws') = sum_list (map wp_solToSend ws) - sum_list (map (\<lambda>w. s (wp_role w)) ws) \<and>
     sum_list (map wp_spyxToSend ws') = sum_list (map wp_spyxToSend ws) - sum_list (map (\<lambda>w. t (wp_role w)) ws)"
  by (induction rule: list_all2_induct) (auto simp: resumes_def)

lemma wallet_plans_nonneg:
  "mapE (wallet_plan_of input) ps = Inr ws \<Longrightarrow> \<forall>w \<in> set ws. 0 \<le> wp_solToSend w \<and> 0 \<le> wp_spyxToSend w"
proof (induction ps arbitrary: ws)
  case (Cons p ps)
  then show ?case by (auto simp: result_simps dest: wallet_plan_to_send)
qed simp

text \<open>
  The funding plan is idempotent and resumes: after a run that paid each wallet any part of its shortfall
  and stopped anywhere, whatever became of the deployer's balances, the plan built from the new balances has
  the same targets, asks for exactly what is still missing wallet by wallet, and is complete exactly when
  every wallet got its whole shortfall; so nothing is ever paid twice.
\<close>

theorem fund_plan_resumes:
  assumes "buildFundPlan fl input = Inr plan"
    and "\<forall>w \<in> set (fp_wallets plan). 0 \<le> s (wp_role w) \<and> s (wp_role w) \<le> wp_solToSend w \<and>
      0 \<le> t (wp_role w) \<and> t (wp_role w) \<le> wp_spyxToSend w"
    and "buildFundPlan fl (after_payments s t d input) = Inr plan'"
  shows "list_all2 (resumes s t) (fp_wallets plan) (fp_wallets plan') \<and>
    fp_solToSend plan' = fp_solToSend plan - sum_list (map (\<lambda>w. s (wp_role w)) (fp_wallets plan)) \<and>
    fp_spyxToTransfer plan' = fp_spyxToTransfer plan - sum_list (map (\<lambda>w. t (wp_role w)) (fp_wallets plan)) \<and>
    (fp_complete plan' \<longleftrightarrow> (\<forall>w \<in> set (fp_wallets plan). s (wp_role w) = wp_solToSend w \<and> t (wp_role w) = wp_spyxToSend w))"
proof -
  note p = buildFundPlan_InrE [OF assms(1)] and p' = buildFundPlan_InrE [OF assms(3)]
  have "planned_of (after_payments s t d input) = planned_of input" by (simp add: planned_of_def after_payments_def)
  with wallet_plans_after [OF p(1) assms(2), of d] p'(1)
  have r: "list_all2 (resumes s t) (fp_wallets plan) (fp_wallets plan')" by auto
  have "\<forall>w \<in> set (fp_wallets plan'). 0 \<le> wp_solToSend w \<and> 0 \<le> wp_spyxToSend w" using p'(1) by (rule wallet_plans_nonneg)
  then have "fp_complete plan' \<longleftrightarrow> (\<forall>w \<in> set (fp_wallets plan'). wp_solToSend w = 0 \<and> wp_spyxToSend w = 0)"
    unfolding p'(2-4) by (subst (1 2) sum_list_nonneg_eq_0_iff) auto
  also have "\<dots> \<longleftrightarrow> (\<forall>w \<in> set (fp_wallets plan). s (wp_role w) = wp_solToSend w \<and> t (wp_role w) = wp_spyxToSend w)"
    using r by (induction rule: list_all2_induct) (auto simp: resumes_def)
  finally show ?thesis using r sum_resumes [OF r] p(2,3) p'(2,3) by simp
qed

section \<open>An accepted plan can be paid\<close>

text \<open>The end state of a wallet that was paid its shortfalls.\<close>

definition funded_wallet :: "wallet_plan \<Rightarrow> end_wallet" where
  "funded_wallet w =
     \<lparr>ew_role = wp_role w, ew_pubkey = wp_pubkey w, ew_solTarget = wp_solTarget w,
      ew_solBalance = wp_solBalance w + wp_solToSend w, ew_spyxTarget = wp_spyxTarget w,
      ew_spyxBalance = wp_spyxBalance w + wp_spyxToSend w\<rparr>"

lemma funded_wallets_ok:
  "mapE (wallet_plan_of input) ps = Inr ws \<Longrightarrow> concat (map (wallet_shortfalls \<circ> funded_wallet) ws) = []"
proof (induction ps arbitrary: ws)
  case (Cons p ps)
  then obtain w ws0 where ws: "ws = w # ws0" "wallet_plan_of input p = Inr w" "mapE (wallet_plan_of input) ps = Inr ws0"
    by (auto simp: result_simps)
  from ws(2) have "wallet_shortfalls (funded_wallet w) = []"
    by (rule wallet_plan_of_InrE) (simp add: wallet_shortfalls_def funded_wallet_def shortfall_covers)
  with ws Cons.IH show ?case by simp
qed simp

lemma checked_quote:
  assumes "checkSwapQuote fl q = Inr chk" "qc_ok chk"
  shows "0 < si_outAmount q \<and> si_routeMinOut q \<le> qc_minOut chk \<and>
    (0 < si_requiredOut q \<longrightarrow> si_requiredOut q \<le> qc_minOut chk)"
proof -
  have ok: "quote_problems q (qc_minOut chk) (qc_impliedUsd chk) (qc_deviationBps chk) = []"
    and "si_routeMinOut q \<le> qc_minOut chk"
    using assms by (auto simp: checkSwapQuote_def Let_def result_simps maxBig_def)
  moreover from ok have "0 < si_outAmount q" "\<not> (si_requiredOut q > 0 \<and> qc_minOut chk < si_requiredOut q)"
    unfolding quote_problems_def by (simp_all split: if_splits)
  ultimately show ?thesis by linarith
qed

text \<open>
  A plan without an abort reason can be carried out: when the swap's quote passes its check for the
  amount to buy, at no more than the estimated price, the receipt passes its check and the fees stay within
  the buffer, then the deployer has the tokens for every transfer, every wallet reaches its targets, the
  deployer still holds what the deploy needs, and the end-state verification reports no shortfall.
\<close>

theorem accepted_plan_is_affordable:
  assumes "buildFundPlan fl input = Inr plan" and "fp_abort plan = None"
    and "checkSwapQuote fl q = Inr chk" "qc_ok chk" and "si_requiredOut q = fp_spyxToBuy plan"
    and "rc_ok (checkSwapReceipt received (si_outAmount q) (qc_minOut chk) tolerance)"
    and "si_inAmount q \<le> fp_swapLamportsEstimate plan" and "fees \<le> fp_feeBuffer plan"
  defines "left \<equiv> db_lamports (fi_deployer input) - fp_solToSend plan - fp_ataRentTotal plan - si_inAmount q - fees"
  shows "fp_spyxToTransfer plan \<le> db_spyxRaw (fi_deployer input) + max 0 received \<and>
    fp_minDeployerLamports plan \<le> left \<and>
    verifyEndState \<lparr>es_deployerLamports = left, es_minDeployerLamports = fp_minDeployerLamports plan,
      es_wallets = map funded_wallet (fp_wallets plan)\<rparr> = (True, [])"
proof -
  note p = buildFundPlan_InrE [OF assms(1)]
  have "qc_minOut chk \<le> received"
    using assms(6) by (auto simp: checkSwapReceipt_def Let_def split: if_splits)
  with checked_quote [OF assms(3,4)] assms(5) p(5)
  have tokens: "fp_spyxToTransfer plan \<le> db_spyxRaw (fi_deployer input) + max 0 received" by linarith
  have "fp_minDeployerLamports plan \<le> db_lamports (fi_deployer input) - fp_deployerSpend plan"
    using assms(2) p(7) by (auto simp: plan_abort_of_def Let_def split: if_splits)
  with p(6) assms(7,8) have floor: "fp_minDeployerLamports plan \<le> left" by (simp add: left_def)
  have "concat (map wallet_shortfalls (map funded_wallet (fp_wallets plan))) = []"
    using funded_wallets_ok [OF p(1)] by simp
  with floor have "verifyEndState \<lparr>es_deployerLamports = left, es_minDeployerLamports = fp_minDeployerLamports plan,
      es_wallets = map funded_wallet (fp_wallets plan)\<rparr> = (True, [])"
    by (simp only: verifyEndState_def end_state_input.simps Let_def) simp
  with tokens floor show ?thesis by blast
qed

section \<open>Real money needs every switch\<close>

text \<open>What the SDK guard asks of a fork or a local validator when neither switch is given.\<close>

definition local_endpoint :: "(string \<Rightarrow> url option) \<Rightarrow> string \<Rightarrow> cluster_probe \<Rightarrow> bool" where
  "local_endpoint parse rpcUrl pr \<longleftrightarrow>
     isLoopbackRpcUrl parse rpcUrl \<and>
     (\<exists>h. pr_genesisHash pr = Some h \<and>
        (if h = MAINNET_GENESIS_HASH then (\<exists>v. pr_surfnetVersion pr = Some v \<and> v \<noteq> []) \<and> pr_surfnetMethodOk pr
         else True))"

lemma guard_local:
  "(\<exists>mode. mode \<noteq> MainnetOverride \<and>
      evaluateSendGuard parse \<lparr>gi_rpcUrl = rpcUrl, gi_probe = pr, gi_allowMainnetFlag = flag, gi_allowMainnetEnv = env\<rparr>
        = Allowed mode) \<longleftrightarrow>
   \<not> flag \<and> env \<noteq> Some ''1'' \<and> local_endpoint parse rpcUrl pr"
  by (auto simp: evaluateSendGuard_def local_endpoint_def isLoopbackRpcUrl_def Let_def split: option.splits if_splits)

text \<open>
  The funding gate on top of the SDK guard: a run may spend on mainnet exactly when both override
  switches and the spending flag are given, the endpoint is no loopback address, the probe says it is mainnet
  and the swap goes through Jupiter; it may run against a fork exactly with neither switch, on a loopback
  endpoint that is a fork or a local validator, and with the test provider.
\<close>

theorem fund_guard_needs_every_switch:
  "(evaluateFundGuard
      \<lparr>fg_sdkDecision = evaluateSendGuard parse
         \<lparr>gi_rpcUrl = rpcUrl, gi_probe = pr, gi_allowMainnetFlag = flag, gi_allowMainnetEnv = env\<rparr>,
       fg_loopback = isLoopbackRpcUrl parse rpcUrl, fg_clusterKind = kind, fg_realMoneyFlag = realMoney,
       fg_swapProvider = provider\<rparr> = FundAllowed FundMainnet \<longleftrightarrow>
    flag \<and> env = Some ''1'' \<and> \<not> isLoopbackRpcUrl parse rpcUrl \<and> kind = ClusterMainnet \<and> realMoney \<and> provider = Jupiter) \<and>
   (evaluateFundGuard
      \<lparr>fg_sdkDecision = evaluateSendGuard parse
         \<lparr>gi_rpcUrl = rpcUrl, gi_probe = pr, gi_allowMainnetFlag = flag, gi_allowMainnetEnv = env\<rparr>,
       fg_loopback = isLoopbackRpcUrl parse rpcUrl, fg_clusterKind = kind, fg_realMoneyFlag = realMoney,
       fg_swapProvider = provider\<rparr> = FundAllowed FundFork \<longleftrightarrow>
    \<not> flag \<and> env \<noteq> Some ''1'' \<and> local_endpoint parse rpcUrl pr \<and> provider = Cheat)"
proof -
  let ?i = "\<lparr>gi_rpcUrl = rpcUrl, gi_probe = pr, gi_allowMainnetFlag = flag, gi_allowMainnetEnv = env\<rparr>"
  have override: "evaluateSendGuard parse ?i = Allowed MainnetOverride \<longleftrightarrow> flag \<and> env = Some ''1''"
    by (simp add: evaluateSendGuard_def Let_def split: option.splits)
  note local = guard_local [of parse rpcUrl pr flag env]
  show ?thesis
  proof (cases "evaluateSendGuard parse ?i")
    case (Refused r)
    with override local show ?thesis by (auto simp: evaluateFundGuard_def)
  next
    case (Allowed mode)
    with override local show ?thesis
      by (cases "mode = MainnetOverride"; cases provider) (auto simp: evaluateFundGuard_def)
  qed
qed

text \<open>One wallet to fund with 0.06 SOL and 740,000 raw units, from a deployer with 10 SOL and no token account.\<close>

definition example_funding :: fund_plan_input where
  "example_funding =
     \<lparr>fi_wallets = [\<lparr>wb_role = ''creator'', wb_pubkey = ''EFS'', wb_keyFile = ''k'', wb_lamports = 0, wb_spyxRaw = 0, wb_hasSpyxAta = False\<rparr>],
      fi_deployer = \<lparr>db_pubkey = ''BBU'', db_lamports = 10000000000, db_spyxRaw = 0, db_hasSpyxAta = False\<rparr>,
      fi_livePlan = (\<lambda>_. None), fi_spyxDecimals = 8, fi_spyxMultiplier = Fin 1, fi_spyxUsd = Fin 600, fi_solUsd = Fin 150,
      fi_ataRentLamports = 2039280, fi_minDeployerLamports = None, fi_feeBufferLamports = None, fi_swapMarginBps = None,
      fi_planned = Some [\<lparr>pw_role = ''creator'', pw_pubkey = ''EFS'', pw_keyFile = ''k'', pw_lamports = 60000000,
        pw_spyxRaw = 740000, pw_planKey = None\<rparr>]\<rparr>"

definition example_wallet_plan :: "int \<Rightarrow> wallet_plan" where
  "example_wallet_plan n =
     \<lparr>wp_role = ''creator'', wp_pubkey = ''EFS'', wp_keyFile = ''k'', wp_solTarget = 60000000, wp_solBalance = n,
      wp_solToSend = 60000000 - n, wp_solDone = False, wp_spyxPlanned = 740000, wp_spyxLive = 0, wp_spyxLiveWithHeadroom = 0,
      wp_spyxTarget = 740000, wp_spyxBalance = 0, wp_spyxToSend = 740000, wp_spyxDone = False, wp_needsAta = True\<rparr>"

definition example_deployer :: deployer_balances where
  "example_deployer = \<lparr>db_pubkey = ''BBU'', db_lamports = 9989995000, db_spyxRaw = 0, db_hasSpyxAta = False\<rparr>"

lemma example_wallets:
  "wallet_plan_of example_funding (hd (planned_of example_funding)) = Inr (example_wallet_plan 0)"
  "wallet_plan_of (after_payments (\<lambda>_. 10000000) (\<lambda>_. 0) example_deployer example_funding) (hd (planned_of example_funding)) =
     Inr (example_wallet_plan 10000000)"
  by (simp_all add: wallet_plan_of_def example_funding_def example_wallet_plan_def planned_of_def livePlanRaw_def
      after_payments_def paid_def maxBig_def ceil_div_def sdiv_eq_div)

lemma example_plans:
  "\<exists>plan. buildFundPlan Fin example_funding = Inr plan \<and> fp_wallets plan = [example_wallet_plan 0] \<and>
     fp_solToSend plan = 60000000 \<and> fp_spyxToBuy plan = 740000 \<and> fp_spyxToTransfer plan = 740000 \<and> fp_abort plan = None \<and>
     fp_swapLamportsEstimate plan = 30488000 \<and> fp_feeBuffer plan = 5000000 \<and> fp_ataRentTotal plan = 4078560 \<and>
     fp_minDeployerLamports plan = 5050000000"
  "\<exists>plan. buildFundPlan Fin (after_payments (\<lambda>_. 10000000) (\<lambda>_. 0) example_deployer example_funding) = Inr plan"
proof -
  have usd: "usdToLamports Fin (spyxRawToUsd Fin 740000 8 (Fin 1) (Fin 600)) (Fin 150) = Inr 29600000"
    by (simp add: usdToLamports_def spyxRawToUsd_def Number_def BigInt_def)
  show "\<exists>plan. buildFundPlan Fin example_funding = Inr plan \<and> fp_wallets plan = [example_wallet_plan 0] \<and>
     fp_solToSend plan = 60000000 \<and> fp_spyxToBuy plan = 740000 \<and> fp_spyxToTransfer plan = 740000 \<and> fp_abort plan = None \<and>
     fp_swapLamportsEstimate plan = 30488000 \<and> fp_feeBuffer plan = 5000000 \<and> fp_ataRentTotal plan = 4078560 \<and>
     fp_minDeployerLamports plan = 5050000000"
    using example_wallets(1) usd
    by (simp add: buildFundPlan_def planned_of_def example_funding_def Let_def example_wallet_plan_def sdiv_eq_div
        plan_abort_of_def DEFAULT_SWAP_MARGIN_BPS_def DEFAULT_FEE_BUFFER_LAMPORTS_def MIN_DEPLOYER_LAMPORTS_def)
  show "\<exists>plan. buildFundPlan Fin (after_payments (\<lambda>_. 10000000) (\<lambda>_. 0) example_deployer example_funding) = Inr plan"
    using example_wallets(2) usd
    by (simp add: buildFundPlan_def planned_of_def example_funding_def after_payments_def Let_def example_wallet_plan_def
        example_deployer_def)
qed

theorem fund_plan_resumes_witness:
  "\<exists>plan plan'. buildFundPlan Fin example_funding = Inr plan \<and>
     buildFundPlan Fin (after_payments (\<lambda>_. 10000000) (\<lambda>_. 0) example_deployer example_funding) = Inr plan' \<and>
     fp_solToSend plan' = fp_solToSend plan - 10000000 \<and> \<not> fp_complete plan'"
proof -
  obtain plan where plan: "buildFundPlan Fin example_funding = Inr plan" "fp_wallets plan = [example_wallet_plan 0]"
    using example_plans(1) by blast
  obtain plan' where plan': "buildFundPlan Fin (after_payments (\<lambda>_. 10000000) (\<lambda>_. 0) example_deployer example_funding) = Inr plan'"
    using example_plans(2) by blast
  from fund_plan_resumes [OF plan(1) _ plan'] plan(2) plan(1) plan' show ?thesis
    by (auto simp: example_wallet_plan_def)
qed

theorem accepted_plan_is_affordable_witness:
  "\<exists>plan. buildFundPlan Fin example_funding = Inr plan \<and>
     verifyEndState \<lparr>es_deployerLamports = 9905000000, es_minDeployerLamports = fp_minDeployerLamports plan,
      es_wallets = map funded_wallet (fp_wallets plan)\<rparr> = (True, [])"
proof -
  obtain plan where plan: "buildFundPlan Fin example_funding = Inr plan" "fp_abort plan = None" "fp_spyxToBuy plan = 740000"
    "fp_swapLamportsEstimate plan = 30488000" "fp_feeBuffer plan = 5000000" "fp_solToSend plan = 60000000"
    "fp_ataRentTotal plan = 4078560" using example_plans(1) by blast
  let ?q = "\<lparr>si_inAmount = 30000000, si_outAmount = 745000, si_routeMinOut = 742000, si_routeSlippageBps = None,
     si_slippageBps = Fin 50, si_maxDeviationBps = Fin 200, si_requiredOut = 740000, si_solUsd = Fin 150, si_spyxUsd = Fin 600,
     si_spyxDecimals = 8, si_spyxMultiplier = Fin 1\<rparr>"
  have "BigInt (Fin 50) = Inr 50" by (simp add: BigInt_def)
  then obtain chk where chk: "checkSwapQuote Fin ?q = Inr chk" "qc_ok chk" "qc_minOut chk = 742000"
    by (simp add: checkSwapQuote_def quote_problems_def price_deviation_def lamportsToUsd_def Number_def maxBig_def
        sdiv_eq_div isFinite_def floor_eq_iff)
  have "rc_ok (checkSwapReceipt 744000 (si_outAmount ?q) (qc_minOut chk) None)"
    by (simp add: checkSwapReceipt_def chk(3) sdiv_eq_div)
  moreover have "db_lamports (fi_deployer example_funding) = 10000000000" by (simp add: example_funding_def)
  ultimately show ?thesis
    using accepted_plan_is_affordable [OF plan(1,2) chk(1,2), of 744000 None 921440] plan by simp
qed

end
