(* ===== verification/Base58.thy ===== *)
theory Base58
  imports Addresses
begin

text \<open>
  \<open>base58Encode\<close> of \<^verbatim>\<open>packages/sdk/src/sender.ts\<close>, the text form in which the SDK hands the bytes of a
  \<open>memcmp\<close> filter to an RPC node. The lemmas: its output uses the alphabet only, \<open>new PublicKey\<close> reads a
  32 byte key back from it, and distinct byte strings, of any length and with any number of leading
  zeros, have distinct encodings, so a node compares exactly the bytes that were asked for.
\<close>

text \<open>The three loops of the function: leading zero bytes, the number, its digits in base 58.\<close>

fun zero_prefix :: "bytes \<Rightarrow> nat" where
  "zero_prefix [] = 0"
| "zero_prefix (b # bs) = (if b = 0 then Suc (zero_prefix bs) else 0)"

definition bytes_number :: "bytes \<Rightarrow> int" where
  "bytes_number bs = foldl (\<lambda>n b. or (push_bit 8 n) (uint b)) 0 bs"

function base58_digits :: "int \<Rightarrow> string \<Rightarrow> string" where
  "base58_digits n out = (if n > 0 then base58_digits (n sdiv 58) (base58_alphabet ! nat (n smod 58) # out) else out)"
  by pat_completeness auto
termination by (relation "measure (\<lambda>(n, out). nat n)") auto

declare base58_digits.simps [simp del]

definition base58Encode :: "bytes \<Rightarrow> string" where
  "base58Encode bs = replicate (zero_prefix bs) (CHR ''1'') @ base58_digits (bytes_number bs) []"

section \<open>The number of the bytes\<close>

lemma bytes_number_step: "0 \<le> n \<Longrightarrow> or (push_bit 8 n) (uint b) = n * 256 + uint b" for b :: "8 word"
  using push_bit_or_add [of "uint b" 8 n] by (simp add: or.commute push_bit_eq_mult)

lemma bytes_number_fold:
  "0 \<le> n \<Longrightarrow> foldl (\<lambda>n b. or (push_bit 8 n) (uint b)) n bs = n * 256 ^ length bs + le_uint (rev bs)"
proof (induction bs arbitrary: n)
  case (Cons b bs)
  then show ?case by (simp add: bytes_number_step le_uint_append algebra_simps)
qed simp

lemma bytes_number_eq: "bytes_number bs = le_uint (rev bs)"
  by (simp add: bytes_number_def bytes_number_fold)

text \<open>Equal numbers of byte strings without leading zero come from equal strings.\<close>

lemma le_uint_lower: "bs \<noteq> [] \<Longrightarrow> hd bs \<noteq> 0 \<Longrightarrow> 256 ^ (length bs - 1) \<le> bytes_number bs"
proof (cases bs)
  case (Cons b r)
  assume "hd bs \<noteq> 0"
  with Cons have "uint b \<noteq> 0" by (simp add: unsigned_eq_0_iff)
  then have "1 \<le> uint b" using uint_nonnegative [of b] by linarith
  then have "256 ^ length r * 1 \<le> 256 ^ length r * uint b" by (intro mult_left_mono) simp_all
  then have "256 ^ length r \<le> le_uint (rev r) + 256 ^ length r * uint b"
    using le_uint_nonneg [of "rev r"] by linarith
  then show ?thesis by (simp add: Cons bytes_number_eq le_uint_append)
qed simp

lemma no_leading_zero_length:
  assumes "bs \<noteq> []" "hd bs \<noteq> 0" "bytes_number bs = bytes_number cs"
  shows "length bs \<le> length cs"
proof -
  have "(256 :: int) ^ (length bs - 1) < 256 ^ length cs"
    using le_uint_lower [OF assms(1,2)] assms(3) le_uint_bound [of "rev cs"] unfolding bytes_number_eq length_rev by linarith
  then have "length bs - 1 < length cs" using power_less_imp_less_exp [of "256 :: int"] by simp
  then show ?thesis by simp
qed

lemma bytes_number_inj_length:
  assumes "bytes_number bs = bytes_number cs" "length bs = length cs"
  shows "bs = cs"
proof -
  have "le_bytes (length (rev bs)) (le_uint (rev bs)) = le_bytes (length (rev cs)) (le_uint (rev cs))"
    using assms by (simp add: bytes_number_eq)
  then show ?thesis by (simp only: le_bytes_le_uint rev_rev_ident rev_is_rev_conv)
qed

lemma zero_prefix_split: "bs = replicate (zero_prefix bs) 0 @ drop (zero_prefix bs) bs"
  by (induction bs) simp_all

lemma zero_prefix_stops: "drop (zero_prefix bs) bs = [] \<or> hd (drop (zero_prefix bs) bs) \<noteq> 0"
  by (induction bs) simp_all

lemma bytes_number_zeros: "bytes_number (replicate n 0 @ bs) = bytes_number bs"
  by (induction n) (simp_all add: bytes_number_def)

lemma bytes_number_drop_zeros: "bytes_number (drop (zero_prefix bs) bs) = bytes_number bs"
  using bytes_number_zeros [of "zero_prefix bs" "drop (zero_prefix bs) bs"] zero_prefix_split [of bs] by simp

lemma bytes_number_nonneg [simp]: "0 \<le> bytes_number bs"
  by (simp add: bytes_number_eq)

lemma bytes_number_inj:
  assumes n: "bytes_number bs = bytes_number cs" and z: "zero_prefix bs = zero_prefix cs"
  shows "bs = cs"
proof -
  let ?b = "drop (zero_prefix bs) bs" and ?c = "drop (zero_prefix cs) cs"
  have e: "bytes_number ?b = bytes_number ?c" using n by (simp only: bytes_number_drop_zeros)
  have empty: "x = []" if "x = [] \<or> hd x \<noteq> 0" "bytes_number x = 0" for x
  proof -
    have "(0 :: int) < 256 ^ (length x - 1)" by simp
    then show ?thesis using that le_uint_lower [of x] by linarith
  qed
  have "length ?b = length ?c"
  proof (cases "?b = [] \<or> ?c = []")
    case True
    then have "bytes_number ?b = 0" "bytes_number ?c = 0"
      using e by (auto simp: bytes_number_def)
    then show ?thesis using empty zero_prefix_stops [of bs] zero_prefix_stops [of cs] by metis
  next
    case False
    then show ?thesis
      using no_leading_zero_length [of ?b ?c] no_leading_zero_length [of ?c ?b] e
        zero_prefix_stops [of bs] zero_prefix_stops [of cs] by (simp add: le_antisym)
  qed
  then have "?b = ?c" using e by (rule bytes_number_inj_length [rotated])
  then show ?thesis using zero_prefix_split [of bs] zero_prefix_split [of cs] z by simp
qed

section \<open>The digits\<close>

lemma index_in_nth: "distinct xs \<Longrightarrow> i < length xs \<Longrightarrow> index_in xs (xs ! i) = i"
  by (induction xs arbitrary: i) (auto simp: nth_Cons' less_Suc_eq_0_disj)

lemma alphabet_facts:
  "length base58_alphabet = 58" "distinct base58_alphabet" "base58_alphabet ! 0 = CHR ''1''"
  by (simp_all add: base58_alphabet_def)

lemma alphabet_index: "0 \<le> d \<Longrightarrow> d < 58 \<Longrightarrow> index_in base58_alphabet (base58_alphabet ! nat d) = nat d"
  by (rule index_in_nth) (simp_all add: alphabet_facts nat_less_iff)

text \<open>Reading the digits from the left, as \<open>new PublicKey\<close> does.\<close>

definition digits_number :: "int \<Rightarrow> string \<Rightarrow> int" where
  "digits_number v s = foldl (\<lambda>v c. v * 58 + int (index_in base58_alphabet c)) v s"

lemma digits_number_digits: "0 \<le> n \<Longrightarrow> digits_number 0 (base58_digits n out) = digits_number n out"
proof (induction n out rule: base58_digits.induct)
  case (1 n out)
  show ?case
  proof (cases "n > 0")
    case True
    have "n div 58 * 58 + n mod 58 = n" by simp
    then have "digits_number (n div 58) (base58_alphabet ! nat (n mod 58) # out) = digits_number n out"
      by (simp add: digits_number_def alphabet_index)
    with 1 True show ?thesis by (simp add: base58_digits.simps [of n])
  next
    case False
    with 1 have "n = 0" by simp
    then show ?thesis by (simp add: base58_digits.simps [of 0])
  qed
qed

lemma digits_number_zeros: "digits_number 0 (replicate n (CHR ''1'') @ s) = digits_number 0 s"
proof -
  have "index_in base58_alphabet (CHR ''1'') = 0" by (simp add: base58_alphabet_def)
  then show ?thesis by (induction n) (simp_all add: digits_number_def)
qed

lemma digits_number_encode: "digits_number 0 (base58Encode bs) = bytes_number bs"
  by (simp add: base58Encode_def digits_number_zeros digits_number_digits) (simp add: digits_number_def)

text \<open>The first digit of a number is not the digit of zero, so the leading ones count the zero bytes.\<close>

lemma digit_not_one: "0 < d \<Longrightarrow> d < 58 \<Longrightarrow> base58_alphabet ! nat d \<noteq> CHR ''1''"
  using alphabet_index [of d] alphabet_index [of 0] alphabet_facts(3) by auto

lemma digits_start:
  "0 < n \<Longrightarrow> base58_digits n out \<noteq> [] \<and> hd (base58_digits n out) \<noteq> CHR ''1''"
proof (induction n out rule: base58_digits.induct)
  case (1 n out)
  show ?case
  proof (cases "n < 58")
    case True
    with 1 show ?thesis
      by (simp add: base58_digits.simps [of n] base58_digits.simps [of 0] digit_not_one)
  next
    case False
    then have "0 < n div 58" by (simp add: pos_imp_zdiv_pos_iff)
    with 1 show ?thesis by (simp add: base58_digits.simps [of n])
  qed
qed

fun one_prefix :: "string \<Rightarrow> nat" where
  "one_prefix [] = 0"
| "one_prefix (c # s) = (if c = CHR ''1'' then Suc (one_prefix s) else 0)"

lemma one_prefix_replicate: "s = [] \<or> hd s \<noteq> CHR ''1'' \<Longrightarrow> one_prefix (replicate n (CHR ''1'') @ s) = n"
  by (cases s; induction n) simp_all

lemma one_prefix_encode: "one_prefix (base58Encode bs) = zero_prefix bs"
proof -
  have "base58_digits (bytes_number bs) [] = [] \<or> hd (base58_digits (bytes_number bs) []) \<noteq> CHR ''1''"
  proof (cases "bytes_number bs = 0")
    case False
    then have "0 < bytes_number bs" using bytes_number_nonneg [of bs] by linarith
    then show ?thesis using digits_start by blast
  qed (simp add: base58_digits.simps)
  then show ?thesis by (simp add: base58Encode_def one_prefix_replicate)
qed

lemma base58_injective: "base58Encode bs = base58Encode cs \<longleftrightarrow> bs = cs"
  using bytes_number_inj digits_number_encode one_prefix_encode by metis

lemma base58_in_alphabet: "set (base58_digits n out) \<subseteq> set base58_alphabet \<union> set out"
proof (induction n out rule: base58_digits.induct)
  case (1 n out)
  have "base58_alphabet ! nat (n mod 58) \<in> set base58_alphabet"
    by (rule nth_mem) (simp add: alphabet_facts nat_less_iff)
  with 1 show ?case by (subst base58_digits.simps) auto
qed

text \<open>
  The text form of a public key determines it: what \<open>base58Encode\<close> writes for a 32 byte key consists of
  alphabet characters only, and \<open>new PublicKey\<close> reads the same 32 bytes back from it.
\<close>

theorem base58_reads_back:
  assumes "length k = 32"
  shows "PublicKey (base58Encode k) = k \<and> set (base58Encode k) \<subseteq> set base58_alphabet"
proof
  have "le_bytes (length (rev k)) (le_uint (rev k)) = rev k" by (rule le_bytes_le_uint)
  then have "rev (le_bytes 32 (le_uint (rev k))) = k" using assms by simp
  then show "PublicKey (base58Encode k) = k"
    using digits_number_encode [of k] by (simp add: PublicKey_def digits_number_def bytes_number_eq)
  show "set (base58Encode k) \<subseteq> set base58_alphabet"
    using base58_in_alphabet [of "bytes_number k" "[]"] alphabet_facts nth_mem [of 0 base58_alphabet]
    by (auto simp: base58Encode_def)
qed

theorem base58_reads_back_witness:
  "PublicKey (base58Encode (replicate 31 0 @ [58])) = replicate 31 0 @ [58]
   \<and> base58Encode (replicate 31 0 @ [58]) = replicate 31 (CHR ''1'') @ ''21''"
proof -
  have "PublicKey (base58Encode (replicate 31 0 @ [58])) = replicate 31 0 @ [58]"
    using base58_reads_back [of "replicate 31 0 @ [58]"] by simp
  moreover have "base58Encode (replicate 31 0 @ [58]) = replicate 31 (CHR ''1'') @ ''21''" by code_simp
  ultimately show ?thesis by blast
qed

end
