(* ===== verification/Sender.thy ===== *)
theory Sender
  imports Base58 CrankSafety Decimal
begin

text \<open>
  \<open>ConnectionSender\<close> of \<^verbatim>\<open>packages/sdk/src/sender.ts\<close>: the SDK's reader and sender over a web3.js
  \<open>Connection\<close>. The node, the wallet and the transaction object of web3.js are not code of the
  repository: they are the record \<open>connection\<close>, whose calls take the world and give an answer (or what they
  throw) and the next world. The lemmas: the chunked account read answers as one unchunked read would and
  never asks for more than a hundred accounts, the hook runs before any call to the node, a reported
  success was confirmed without error, and a failure carries the error name the logs give.
\<close>

section \<open>Calls that move the world\<close>

text \<open>
  What a call can throw: an error of the node, web3.js's \<open>SendTransactionError\<close>, an error of the SDK, an
  error of the caller's own functions, or \<open>TransactionFailedError\<close> (message, logs, error name, error code, label).
\<close>

datatype thrown =
    NodeError string
  | SendTransactionError string "string list option"
  | SdkError js_error
  | CallerError string
  | TransactionFailedError string "string list" "string option" "int option" "string option"

type_synonym ('w, 'a) io = "'w \<Rightarrow> (thrown + 'a) \<times> 'w"

definition returnIO :: "'a \<Rightarrow> ('w, 'a) io" where
  "returnIO x w = (Inr x, w)"

definition throwIO :: "thrown \<Rightarrow> ('w, 'a) io" where
  "throwIO e w = (Inl e, w)"

definition bindIO :: "('w, 'a) io \<Rightarrow> ('a \<Rightarrow> ('w, 'b) io) \<Rightarrow> ('w, 'b) io" where
  "bindIO m f w = (case m w of (Inl e, w') \<Rightarrow> (Inl e, w') | (Inr x, w') \<Rightarrow> f x w')"

definition tryIO :: "('w, 'a) io \<Rightarrow> (thrown \<Rightarrow> ('w, 'a) io) \<Rightarrow> ('w, 'a) io" where
  "tryIO m handler w = (case m w of (Inl e, w') \<Rightarrow> handler e w' | (Inr x, w') \<Rightarrow> (Inr x, w'))"

definition liftIO :: "'a result \<Rightarrow> ('w, 'a) io" where
  "liftIO r w = (case r of Inl e \<Rightarrow> (Inl (SdkError e), w) | Inr x \<Rightarrow> (Inr x, w))"

section \<open>The connection\<close>

text \<open>\<open>AccountInfo\<close> of web3.js has one field more than the SDK keeps.\<close>

record account_info =
  in_data :: bytes
  in_owner :: pubkey
  in_lamports :: int
  in_executable :: bool
  in_rentEpoch :: "int option"

datatype rpc_filter = DataSize int | Memcmp int string

record latest_blockhash =
  bh_blockhash :: string
  bh_lastValidBlockHeight :: int

record transaction =
  tx_feePayer :: pubkey
  tx_blockhash :: latest_blockhash
  tx_instructions :: "tx_instruction list"

text \<open>What \<open>simulateTransaction\<close> and \<open>getTransaction\<close> answer; errors are opaque JSON values \<open>'e\<close>.\<close>

record 'e simulated =
  sm_err :: "'e option"
  sm_logs :: "string list option"
  sm_unitsConsumed :: "int option"
  sm_returnData :: "(string \<times> string) option"

record 'e transaction_meta =
  me_err :: "'e option"
  me_logMessages :: "string list option"
  me_computeUnitsConsumed :: "int option"

record ('w, 'e, 'tx) connection =
  cn_getAccountInfo :: "pubkey \<Rightarrow> string \<Rightarrow> ('w, account_info option) io"
  cn_getMultipleAccountsInfo :: "pubkey list \<Rightarrow> string \<Rightarrow> ('w, account_info option list) io"
  cn_getProgramAccounts :: "pubkey \<Rightarrow> string \<Rightarrow> rpc_filter list \<Rightarrow> ('w, (pubkey \<times> account_info) list) io"
  cn_getTokenAccountsByOwner :: "pubkey \<Rightarrow> pubkey \<Rightarrow> string \<Rightarrow> ('w, (pubkey \<times> account_info) list) io"
  cn_getLatestBlockhash :: "string \<Rightarrow> ('w, latest_blockhash) io"
  cn_simulateTransaction :: "pubkey \<Rightarrow> string \<Rightarrow> tx_instruction list \<Rightarrow> string \<Rightarrow> ('w, 'e simulated) io"
  cn_sendRawTransaction :: "bytes \<Rightarrow> bool \<Rightarrow> string \<Rightarrow> ('w, string) io"
  cn_confirmTransaction :: "string \<Rightarrow> latest_blockhash \<Rightarrow> string \<Rightarrow> ('w, 'e option) io"
  cn_getTransaction :: "string \<Rightarrow> string \<Rightarrow> ('w, 'e transaction_meta option option) io"
  cn_getLogs :: "thrown \<Rightarrow> ('w, string list) io"
  cn_sign :: "transaction \<Rightarrow> pubkey list \<Rightarrow> ('w, 'tx) io"
  cn_partialSign :: "'tx \<Rightarrow> pubkey list \<Rightarrow> ('w, 'tx) io"
  cn_serialize :: "'tx \<Rightarrow> ('w, bytes) io"
  cn_stringify :: "'e \<Rightarrow> string"

section \<open>The sender\<close>

text \<open>
  The signer is a key pair or a wallet, which may change the transaction it signs. \<open>beforeSend\<close> gets the
  label and the instructions.
\<close>

datatype ('w, 'tx) sender_signer = SignerKeypair | SignerWallet "transaction \<Rightarrow> ('w, 'tx) io"

record ('w, 'tx) connection_sender =
  cs_payer :: pubkey
  cs_signer :: "('w, 'tx) sender_signer"
  cs_commitment :: "string option"
  cs_priorityFee :: "jsnum option"
  cs_skipPreflight :: "bool option"
  cs_beforeSend :: "(string option \<Rightarrow> tx_instruction list \<Rightarrow> ('w, unit) io) option"

definition commitment_of :: "('w, 'tx) connection_sender \<Rightarrow> string" where
  "commitment_of this = default_to (cs_commitment this) ''confirmed''"

definition toAccountData :: "account_info \<Rightarrow> account_data" where
  "toAccountData a =
     \<lparr>ac_data = in_data a, ac_owner = in_owner a, ac_lamports = in_lamports a, ac_executable = in_executable a\<rparr>"

definition sender_getAccountInfo ::
  "('w, 'e, 'tx) connection \<Rightarrow> ('w, 'tx) connection_sender \<Rightarrow> pubkey \<Rightarrow> ('w, account_data option) io" where
  "sender_getAccountInfo conn this pubkey =
     bindIO (cn_getAccountInfo conn pubkey (commitment_of this)) (\<lambda>acc. returnIO (map_option toAccountData acc))"

text \<open>The loop over chunks of a hundred keys: \<open>keys\<close> are those from index \<open>i\<close> on.\<close>

function chunkLoop ::
  "('w, 'e, 'tx) connection \<Rightarrow> string \<Rightarrow> pubkey list \<Rightarrow> account_data option list \<Rightarrow>
     ('w, account_data option list) io" where
  "chunkLoop conn commitment keys out =
     (if keys = [] then returnIO out
      else bindIO (cn_getMultipleAccountsInfo conn (take 100 keys) commitment) (\<lambda>chunk.
             chunkLoop conn commitment (drop 100 keys) (out @ map (map_option toAccountData) chunk)))"
  by pat_completeness auto
termination by (relation "measure (\<lambda>(conn, c, keys, out). length keys)") auto

declare chunkLoop.simps [simp del]

definition sender_getMultipleAccountsInfo ::
  "('w, 'e, 'tx) connection \<Rightarrow> ('w, 'tx) connection_sender \<Rightarrow> pubkey list \<Rightarrow> ('w, account_data option list) io" where
  "sender_getMultipleAccountsInfo conn this pubkeys = chunkLoop conn (commitment_of this) pubkeys []"

definition rpc_filters :: "accounts_filter \<Rightarrow> rpc_filter list" where
  "rpc_filters f =
     (case fl_dataSize f of Some n \<Rightarrow> [DataSize n] | None \<Rightarrow> []) @
     map (\<lambda>(offset, bs). Memcmp offset (base58Encode bs)) (fl_memcmp f)"

definition keyed :: "pubkey \<times> account_info \<Rightarrow> keyed_account" where
  "keyed r = (fst r, toAccountData (snd r))"

definition sender_getProgramAccounts ::
  "('w, 'e, 'tx) connection \<Rightarrow> ('w, 'tx) connection_sender \<Rightarrow> pubkey \<Rightarrow> accounts_filter \<Rightarrow>
     ('w, keyed_account list) io" where
  "sender_getProgramAccounts conn this programId filter' =
     bindIO (cn_getProgramAccounts conn programId (commitment_of this) (rpc_filters filter')) (\<lambda>res.
     returnIO (map keyed res))"

definition sender_getTokenAccountsByOwner ::
  "('w, 'e, 'tx) connection \<Rightarrow> ('w, 'tx) connection_sender \<Rightarrow> pubkey \<Rightarrow> pubkey \<Rightarrow>
     ('w, keyed_account list) io" where
  "sender_getTokenAccountsByOwner conn this owner tokenProgram =
     bindIO (cn_getTokenAccountsByOwner conn owner tokenProgram (commitment_of this)) (\<lambda>res.
     returnIO (map keyed res))"

text \<open>\<open>decode\<close> is \<open>base64ToBytes\<close>, a decoder of the JavaScript runtime.\<close>

record simulation_result =
  si_ok :: bool
  si_logs :: "string list"
  si_unitsConsumed :: "int option"
  si_returnData :: "(pubkey \<times> bytes) option"
  si_error :: "string option"

definition sender_simulate ::
  "('w, 'e, 'tx) connection \<Rightarrow> (string \<Rightarrow> bytes) \<Rightarrow> ('w, 'tx) connection_sender \<Rightarrow> tx_instruction list \<Rightarrow> pubkey \<Rightarrow>
     ('w, simulation_result) io" where
  "sender_simulate conn decode this instructions feePayer =
     bindIO (cn_getLatestBlockhash conn (commitment_of this)) (\<lambda>latest.
     bindIO (cn_simulateTransaction conn feePayer (bh_blockhash latest) instructions (commitment_of this)) (\<lambda>v.
     returnIO
       \<lparr>si_ok = (sm_err v = None), si_logs = default_to (sm_logs v) [], si_unitsConsumed = sm_unitsConsumed v,
        si_returnData = map_option (\<lambda>(program, data). (PublicKey program, decode data)) (sm_returnData v),
        si_error = map_option (cn_stringify conn) (sm_err v)\<rparr>))"

section \<open>Sending\<close>

record sender_options =
  sd_signers :: "pubkey list option"
  sd_computeUnitLimit :: "jsnum option"
  sd_computeUnitPrice :: "jsnum option"
  sd_label :: "string option"

record sent =
  st_signature :: string
  st_logs :: "string list"
  st_unitsConsumed :: "int option"

definition first_line :: "string \<Rightarrow> string" where
  "first_line = takeWhile (\<lambda>c. c \<noteq> CHR 0x0A)"

definition anchor_text :: "anchor_error \<Rightarrow> string" where
  "anchor_text a = ae_name a @ '' ('' @ toString (ae_code a) @ '')''"

text \<open>The \<open>message\<close> of a thrown error object (of the ones \<open>sendRawTransaction\<close> can throw).\<close>

fun thrown_message :: "thrown \<Rightarrow> string" where
  "thrown_message (NodeError m) = m"
| "thrown_message (SendTransactionError m logs) = m"
| "thrown_message (SdkError e) = (case e of RangeError m \<Rightarrow> m | GenericError m \<Rightarrow> m | _ \<Rightarrow> [])"
| "thrown_message (CallerError m) = m"
| "thrown_message (TransactionFailedError m logs name code label) = m"

definition failed_transaction ::
  "string \<Rightarrow> string \<Rightarrow> string list \<Rightarrow> string option \<Rightarrow> thrown" where
  "failed_transaction subject reason logs label =
     (let anchor = anchorErrorFromLogs logs
      in TransactionFailedError
           (subject @ '' failed: '' @ (case anchor of Some a \<Rightarrow> anchor_text a | None \<Rightarrow> reason))
           logs (map_option ae_name anchor) (map_option ae_code anchor) label)"

text \<open>The logs of a rejected submission: asked from the node, or those the error carries.\<close>

definition rejection_logs :: "('w, 'e, 'tx) connection \<Rightarrow> thrown \<Rightarrow> ('w, string list) io" where
  "rejection_logs conn e =
     (case e of
        SendTransactionError m logs \<Rightarrow>
          bindIO (tryIO (bindIO (cn_getLogs conn e) (\<lambda>l. returnIO (Some l))) (\<lambda>_. returnIO None)) (\<lambda>asked.
          returnIO (case asked of Some l \<Rightarrow> l | None \<Rightarrow> default_to logs []))
      | _ \<Rightarrow> returnIO [])"

definition submit ::
  "('w, 'e, 'tx) connection \<Rightarrow> ('w, 'tx) connection_sender \<Rightarrow> string option \<Rightarrow> 'tx \<Rightarrow> ('w, string) io" where
  "submit conn this label tx =
     tryIO
       (bindIO (cn_serialize conn tx) (\<lambda>raw.
        cn_sendRawTransaction conn raw (default_to (cs_skipPreflight this) False) (commitment_of this)))
       (\<lambda>e. bindIO (rejection_logs conn e) (\<lambda>logs.
            throwIO (failed_transaction (default_to label ''transaction'') (first_line (thrown_message e)) logs label)))"

definition sign_transaction ::
  "('w, 'e, 'tx) connection \<Rightarrow> ('w, 'tx) connection_sender \<Rightarrow> pubkey list \<Rightarrow> transaction \<Rightarrow> ('w, 'tx) io" where
  "sign_transaction conn this extra tx =
     (case cs_signer this of
        SignerKeypair \<Rightarrow> cn_sign conn tx (cs_payer this # extra)
      | SignerWallet signTransaction \<Rightarrow>
          bindIO (signTransaction tx) (\<lambda>signed.
          if extra \<noteq> [] then cn_partialSign conn signed extra else returnIO signed))"

definition confirmed ::
  "('w, 'e, 'tx) connection \<Rightarrow> ('w, 'tx) connection_sender \<Rightarrow> string option \<Rightarrow> latest_blockhash \<Rightarrow> string \<Rightarrow> ('w, sent) io" where
  "confirmed conn this label latest signature =
     bindIO (cn_confirmTransaction conn signature latest (commitment_of this)) (\<lambda>confirmation.
     bindIO (cn_getTransaction conn signature ''confirmed'') (\<lambda>details.
       let meta = (case details of Some (Some m) \<Rightarrow> Some m | _ \<Rightarrow> None);
           logs = (case meta of Some m \<Rightarrow> default_to (me_logMessages m) [] | None \<Rightarrow> []);
           err = (case confirmation of Some e \<Rightarrow> Some e
                  | None \<Rightarrow> (case meta of Some m \<Rightarrow> me_err m | None \<Rightarrow> None))
       in case err of
            Some e \<Rightarrow> throwIO (failed_transaction (default_to label ''transaction'' @ '' '' @ signature)
                                (cn_stringify conn e) logs label)
          | None \<Rightarrow> returnIO \<lparr>st_signature = signature, st_logs = logs,
                              st_unitsConsumed = (case meta of Some m \<Rightarrow> me_computeUnitsConsumed m | None \<Rightarrow> None)\<rparr>))"

definition sender_send ::
  "('w, 'e, 'tx) connection \<Rightarrow> web3_lib \<Rightarrow> ('w, 'tx) connection_sender \<Rightarrow> tx_instruction list \<Rightarrow> sender_options \<Rightarrow>
     ('w, sent) io" where
  "sender_send conn web this instructions opts =
     bindIO (liftIO (computeBudgetInstructions web (sd_computeUnitLimit opts)
              (case sd_computeUnitPrice opts of Some p \<Rightarrow> Some p | None \<Rightarrow> cs_priorityFee this))) (\<lambda>budget.
     let every = budget @ instructions
     in bindIO (case cs_beforeSend this of Some hook \<Rightarrow> hook (sd_label opts) every | None \<Rightarrow> returnIO ()) (\<lambda>_.
        bindIO (cn_getLatestBlockhash conn (commitment_of this)) (\<lambda>latest.
        bindIO (sign_transaction conn this (filter (\<lambda>s. s \<noteq> cs_payer this) (default_to (sd_signers opts) []))
                  \<lparr>tx_feePayer = cs_payer this, tx_blockhash = latest, tx_instructions = every\<rparr>) (\<lambda>tx.
        bindIO (submit conn this (sd_label opts) tx) (\<lambda>signature.
        confirmed conn this (sd_label opts) latest signature)))))"

section \<open>Reading\<close>

named_theorems io_simps \<open>running the calls of a connection\<close>

lemma returnIO_run [io_simps]: "returnIO x w = (Inr x, w)"
  by (simp add: returnIO_def)

lemma throwIO_run [io_simps]: "throwIO e w = (Inl e, w)"
  by (simp add: throwIO_def)

lemma bindIO_run [io_simps]:
  "m w = (Inr x, w') \<Longrightarrow> bindIO m f w = f x w'" "m w = (Inl e, w') \<Longrightarrow> bindIO m f w = (Inl e, w')"
  by (simp_all add: bindIO_def)

lemma tryIO_run [io_simps]:
  "m w = (Inr x, w') \<Longrightarrow> tryIO m h w = (Inr x, w')" "m w = (Inl e, w') \<Longrightarrow> tryIO m h w = h e w'"
  by (simp_all add: tryIO_def)

lemma bindIO_InrE:
  assumes "bindIO m f w = (Inr y, w')"
  obtains x w1 where "m w = (Inr x, w1)" "f x w1 = (Inr y, w')"
  using assms by (auto simp: bindIO_def split: prod.splits sum.splits)

text \<open>
  A node that answers up to a hundred keys at once (the limit of the RPC method), each key on its own and
  without change: then any number of keys is answered, in their order.
\<close>

definition answers_chunks :: "('w, 'e, 'tx) connection \<Rightarrow> string \<Rightarrow> 'w \<Rightarrow> (pubkey \<Rightarrow> account_info option) \<Rightarrow> bool" where
  "answers_chunks conn commitment w accounts \<longleftrightarrow>
     (\<forall>ks. length ks \<le> 100 \<longrightarrow> cn_getMultipleAccountsInfo conn ks commitment w = (Inr (map accounts ks), w))"

lemma chunkLoop_answers:
  assumes "answers_chunks conn c w accounts"
  shows "chunkLoop conn c keys out w = (Inr (out @ map (\<lambda>k. map_option toAccountData (accounts k)) keys), w)"
proof (induction keys arbitrary: out rule: length_induct)
  case (1 keys)
  show ?case
  proof (cases "keys = []")
    case True
    then show ?thesis by (simp add: chunkLoop.simps io_simps)
  next
    case False
    have step: "cn_getMultipleAccountsInfo conn (take 100 keys) c w = (Inr (map accounts (take 100 keys)), w)"
      using assms by (simp add: answers_chunks_def)
    have rest: "chunkLoop conn c (drop 100 keys) out' w =
        (Inr (out' @ map (\<lambda>k. map_option toAccountData (accounts k)) (drop 100 keys)), w)" for out'
      using 1 False by simp
    have "map (map_option toAccountData) (map accounts (take 100 keys)) @
          map (\<lambda>k. map_option toAccountData (accounts k)) (drop 100 keys) =
          map (\<lambda>k. map_option toAccountData (accounts k)) (take 100 keys @ drop 100 keys)"
      by (simp only: map_append map_map o_def)
    with False show ?thesis
      by (subst chunkLoop.simps) (simp add: bindIO_def step rest)
  qed
qed

text \<open>
  Reading many accounts in chunks is reading them one by one: on a node that answers requests of up to a
  hundred keys, and need not answer longer ones, the sender returns the account of every key, in the order
  of the keys, whatever their number, and the same answer as reading that key alone.
\<close>

theorem chunked_read_is_pointwise:
  assumes "answers_chunks conn (commitment_of this) w accounts"
    and "\<And>k. cn_getAccountInfo conn k (commitment_of this) w = (Inr (accounts k), w)"
  shows "sender_getMultipleAccountsInfo conn this keys w =
           (Inr (map (\<lambda>k. case fst (sender_getAccountInfo conn this k w) of Inr a \<Rightarrow> a | Inl _ \<Rightarrow> None) keys), w)"
  by (simp add: sender_getMultipleAccountsInfo_def chunkLoop_answers [OF assms(1)] sender_getAccountInfo_def
      bindIO_def assms(2) returnIO_def)

text \<open>
  A program account query asks for exactly what the caller gave: the filters sent to the node determine
  the data size, the offsets and the bytes, so no two queries of the SDK are confused.
\<close>

theorem rpc_filters_determine_query: "rpc_filters f = rpc_filters g \<longleftrightarrow> f = g"
proof
  assume eq: "rpc_filters f = rpc_filters g"
  have memcmps: "filter (\<lambda>x. case x of Memcmp _ _ \<Rightarrow> True | _ \<Rightarrow> False) (rpc_filters h) =
      map (\<lambda>(offset, bs). Memcmp offset (base58Encode bs)) (fl_memcmp h)" for h
    by (auto simp: rpc_filters_def filter_map o_def split: option.splits prod.splits intro!: filter_True)
  have sizes: "filter (\<lambda>x. case x of DataSize _ \<Rightarrow> True | _ \<Rightarrow> False) (rpc_filters h) =
      (case fl_dataSize h of Some n \<Rightarrow> [DataSize n] | None \<Rightarrow> [])" for h
    by (auto simp: rpc_filters_def split: option.splits prod.splits intro!: filter_False)
  have "inj (\<lambda>(offset, bs). Memcmp offset (base58Encode bs))"
    by (rule injI) (auto simp: base58_injective)
  then have "fl_memcmp f = fl_memcmp g"
    using memcmps [of f] memcmps [of g] eq by (simp add: inj_map_eq_map)
  moreover have "fl_dataSize f = fl_dataSize g"
    using sizes [of f] sizes [of g] eq by (auto split: option.splits)
  ultimately show "f = g" by simp
qed simp

section \<open>Sending at most once\<close>

text \<open>
  \<open>n\<close> counts the submissions in the world. A call keeps the count, or is \<open>sendRawTransaction\<close>, which raises
  it by one, whether the node accepts the transaction or not.
\<close>

definition keeps :: "('w \<Rightarrow> 'n) \<Rightarrow> ('w, 'a) io \<Rightarrow> bool" where
  "keeps n m \<longleftrightarrow> (\<forall>w. n (snd (m w)) = n w)"

definition counts_submissions ::
  "('w \<Rightarrow> nat) \<Rightarrow> ('w, 'e, 'tx) connection \<Rightarrow> ('w, 'tx) connection_sender \<Rightarrow> bool" where
  "counts_submissions n conn this \<longleftrightarrow>
     (\<forall>c. keeps n (cn_getLatestBlockhash conn c)) \<and> (\<forall>tx ks. keeps n (cn_sign conn tx ks)) \<and>
     (\<forall>tx ks. keeps n (cn_partialSign conn tx ks)) \<and> (\<forall>tx. keeps n (cn_serialize conn tx)) \<and>
     (\<forall>e. keeps n (cn_getLogs conn e)) \<and> (\<forall>s l c. keeps n (cn_confirmTransaction conn s l c)) \<and>
     (\<forall>s c. keeps n (cn_getTransaction conn s c)) \<and>
     (\<forall>raw skip c w. n (snd (cn_sendRawTransaction conn raw skip c w)) = Suc (n w)) \<and>
     (case cs_signer this of SignerKeypair \<Rightarrow> True | SignerWallet sign \<Rightarrow> \<forall>tx. keeps n (sign tx)) \<and>
     (case cs_beforeSend this of None \<Rightarrow> True | Some hook \<Rightarrow> \<forall>l ixs. keeps n (hook l ixs))"

lemma keeps_return [intro]: "keeps n (returnIO x)"
  and keeps_throw [intro]: "keeps n (throwIO e)"
  and keeps_lift [intro]: "keeps n (liftIO r)"
  by (simp_all add: keeps_def returnIO_def throwIO_def liftIO_def split: sum.splits)

lemma keeps_bind [intro]: "keeps n m \<Longrightarrow> (\<And>x. keeps n (f x)) \<Longrightarrow> keeps n (bindIO m f)"
  by (simp add: keeps_def bindIO_def split: prod.splits sum.splits) (metis snd_conv)

lemma keeps_try [intro]: "keeps n m \<Longrightarrow> (\<And>e. keeps n (h e)) \<Longrightarrow> keeps n (tryIO m h)"
  by (simp add: keeps_def tryIO_def split: prod.splits sum.splits) (metis snd_conv)

lemma keeps_if [intro]: "keeps n m \<Longrightarrow> keeps n m' \<Longrightarrow> keeps n (if b then m else m')"
  and keeps_option [intro]: "keeps n m \<Longrightarrow> (\<And>x. keeps n (f x)) \<Longrightarrow> keeps n (case q of None \<Rightarrow> m | Some x \<Rightarrow> f x)"
  by (cases b; simp) (cases q; simp)

text \<open>A call that raises the count by one at most, and by one when it returns.\<close>

definition at_most_once :: "('w \<Rightarrow> nat) \<Rightarrow> ('w, 'a) io \<Rightarrow> bool" where
  "at_most_once n m \<longleftrightarrow>
     (\<forall>w. n (snd (m w)) = Suc (n w) \<or> (n (snd (m w)) = n w \<and> (\<exists>e. fst (m w) = Inl e)))"

lemma once_after: "keeps n m \<Longrightarrow> (\<And>x. at_most_once n (f x)) \<Longrightarrow> at_most_once n (bindIO m f)"
  unfolding at_most_once_def
proof
  fix w
  assume k: "keeps n m" and f: "\<And>x. \<forall>w. n (snd (f x w)) = Suc (n w) \<or> n (snd (f x w)) = n w \<and> (\<exists>e. fst (f x w) = Inl e)"
  obtain r w1 where m: "m w = (r, w1)" by fastforce
  from k m have "n w1 = n w" by (auto simp: keeps_def dest: spec [of _ w])
  then show "n (snd (bindIO m f w)) = Suc (n w) \<or> n (snd (bindIO m f w)) = n w \<and> (\<exists>e. fst (bindIO m f w) = Inl e)"
    using m f [THEN spec [of _ w1]] by (cases r) (auto simp: bindIO_def)
qed

lemma once_before: "at_most_once n m \<Longrightarrow> (\<And>x. keeps n (f x)) \<Longrightarrow> at_most_once n (bindIO m f)"
  unfolding at_most_once_def
proof
  fix w
  assume k: "\<And>x. keeps n (f x)" and m: "\<forall>w. n (snd (m w)) = Suc (n w) \<or> n (snd (m w)) = n w \<and> (\<exists>e. fst (m w) = Inl e)"
  obtain r w1 where r: "m w = (r, w1)" by fastforce
  show "n (snd (bindIO m f w)) = Suc (n w) \<or> n (snd (bindIO m f w)) = n w \<and> (\<exists>e. fst (bindIO m f w) = Inl e)"
  proof (cases r)
    case (Inl e)
    with m [rule_format, of w] r show ?thesis by (simp add: bindIO_def)
  next
    case (Inr x)
    with m [rule_format, of w] r have "n w1 = Suc (n w)" by simp
    with k [of x] Inr r show ?thesis by (simp add: bindIO_def keeps_def)
  qed
qed

lemma submit_once: "counts_submissions n conn this \<Longrightarrow> at_most_once n (submit conn this label tx)"
  unfolding at_most_once_def
proof
  fix w
  assume c: "counts_submissions n conn this"
  let ?send = "\<lambda>raw. cn_sendRawTransaction conn raw (default_to (cs_skipPreflight this) False) (commitment_of this)"
  let ?m = "bindIO (cn_serialize conn tx) ?send"
  have logs: "keeps n (rejection_logs conn e)" for e
    using c by (cases e)
      (simp_all add: rejection_logs_def counts_submissions_def keeps_return keeps_bind keeps_try)
  have "at_most_once n (?send raw)" for raw
    using c by (simp add: at_most_once_def counts_submissions_def)
  then have once: "at_most_once n ?m"
    using c by (intro once_after) (simp_all add: counts_submissions_def)
  obtain r w1 where m: "?m w = (r, w1)" by fastforce
  have "n w1 = Suc (n w) \<or> n w1 = n w \<and> (\<exists>e. r = Inl e)"
    using once [unfolded at_most_once_def, rule_format, of w] m by simp
  moreover have "keeps n (bindIO (rejection_logs conn e) (\<lambda>l. throwIO (g l) :: ('a, string) io))" for e g
    by (intro keeps_bind logs keeps_throw)
  then have "n (snd (bindIO (rejection_logs conn e) (\<lambda>l. throwIO (g l) :: ('a, string) io) w1)) = n w1" for e g
    by (simp add: keeps_def)
  moreover have "\<exists>e'. fst (bindIO (rejection_logs conn e) (\<lambda>l. throwIO (g l)) w1) = Inl e'" for e g
    by (simp add: bindIO_def throwIO_def split: prod.split sum.split)
  ultimately show "n (snd (submit conn this label tx w)) = Suc (n w) \<or>
      n (snd (submit conn this label tx w)) = n w \<and> (\<exists>e. fst (submit conn this label tx w) = Inl e)"
    using m by (cases r) (auto simp: submit_def tryIO_def)
qed

lemma confirmed_keeps: "counts_submissions n conn this \<Longrightarrow> keeps n (confirmed conn this label latest signature)"
  unfolding confirmed_def counts_submissions_def Let_def by (intro keeps_bind keeps_option) auto

lemma sign_keeps: "counts_submissions n conn this \<Longrightarrow> keeps n (sign_transaction conn this extra tx)"
  unfolding sign_transaction_def counts_submissions_def
  by (cases "cs_signer this") (auto simp: keeps_return keeps_bind keeps_if)

lemma send_after_hook:
  assumes "counts_submissions n conn this"
  shows "at_most_once n (bindIO (cn_getLatestBlockhash conn c) (\<lambda>latest.
           bindIO (sign_transaction conn this extra (tx latest)) (\<lambda>signed.
           bindIO (submit conn this label signed) (\<lambda>signature. confirmed conn this label latest signature))))"
  using assms
  by (intro once_after once_before submit_once confirmed_keeps sign_keeps) (simp_all add: counts_submissions_def)

lemma hook_keeps:
  "counts_submissions n conn this \<Longrightarrow>
   keeps n (case cs_beforeSend this of Some hook \<Rightarrow> hook label ixs | None \<Rightarrow> returnIO ())"
  by (auto simp: counts_submissions_def split: option.splits)

text \<open>
  C16: One send is at most one submission, and the hook comes first: whatever the node, the wallet and the
  caller's hook do, \<open>send\<close> submits one transaction at most and exactly one when it returns; when the hook (the
  mainnet guard of the command line tools) throws, nothing is submitted and \<open>send\<close> throws.
\<close>

theorem send_submits_at_most_once:
  assumes "counts_submissions n conn this"
    and "sender_send conn web this instructions opts w = (res, w')"
  shows "n w' \<le> Suc (n w) \<and> (\<forall>r. res = Inr r \<longrightarrow> n w' = Suc (n w)) \<and>
         (\<forall>hook e w1. cs_beforeSend this = Some hook \<and> (\<forall>ixs. hook (sd_label opts) ixs w = (Inl e, w1)) \<longrightarrow>
            n w' = n w \<and> (\<exists>e'. res = Inl e'))"
proof -
  let ?budget = "computeBudgetInstructions web (sd_computeUnitLimit opts)
              (case sd_computeUnitPrice opts of Some p \<Rightarrow> Some p | None \<Rightarrow> cs_priorityFee this)"
  have "at_most_once n (sender_send conn web this instructions opts)"
    unfolding sender_send_def Let_def
    by (rule once_after [OF keeps_lift], rule once_after [OF hook_keeps [OF assms(1)]],
        rule send_after_hook [OF assms(1)])
  then have once: "n w' = Suc (n w) \<or> n w' = n w \<and> (\<exists>e. res = Inl e)"
    using assms(2) by (auto simp: at_most_once_def dest: spec [of _ w])
  moreover have "n w' = n w \<and> (\<exists>e'. res = Inl e')"
    if h: "cs_beforeSend this = Some hook" and e: "\<forall>ixs. hook (sd_label opts) ixs w = (Inl e, w1)" for hook e w1
  proof -
    have "n w1 = n w"
      using assms(1) h e by (auto simp: counts_submissions_def keeps_def dest: spec [of _ w]) (metis snd_conv)
    then show ?thesis
      using assms(2) h e by (cases ?budget) (auto simp: sender_send_def bindIO_def liftIO_def Let_def)
  qed
  ultimately show ?thesis by auto
qed

text \<open>A node that knows no account and accepts every transaction; the world counts what it was sent.\<close>

definition quiet_node :: "(nat, string, transaction) connection" where
  "quiet_node =
     \<lparr>cn_getAccountInfo = \<lambda>k c. returnIO None,
      cn_getMultipleAccountsInfo = \<lambda>ks c.
        if length ks \<le> 100 then returnIO (map (\<lambda>_. None) ks) else throwIO (NodeError ''Too many inputs provided''),
      cn_getProgramAccounts = \<lambda>p c fs. returnIO [],
      cn_getTokenAccountsByOwner = \<lambda>o' p c. returnIO [],
      cn_getLatestBlockhash = \<lambda>c. returnIO \<lparr>bh_blockhash = ''hash'', bh_lastValidBlockHeight = 150\<rparr>,
      cn_simulateTransaction = \<lambda>p h ixs c. throwIO (NodeError ''not supported''),
      cn_sendRawTransaction = \<lambda>raw skip c w. (Inr ''signature'', Suc w),
      cn_confirmTransaction = \<lambda>s l c. returnIO None,
      cn_getTransaction = \<lambda>s c. returnIO None,
      cn_getLogs = \<lambda>e. returnIO [],
      cn_sign = \<lambda>tx ks. returnIO tx,
      cn_partialSign = \<lambda>tx ks. returnIO tx,
      cn_serialize = \<lambda>tx. returnIO [],
      cn_stringify = \<lambda>e. e\<rparr>"

definition plain_sender :: "(nat, transaction) connection_sender" where
  "plain_sender =
     \<lparr>cs_payer = replicate 32 1, cs_signer = SignerKeypair, cs_commitment = None, cs_priorityFee = None,
      cs_skipPreflight = None, cs_beforeSend = None\<rparr>"

theorem chunked_read_is_pointwise_witness:
  "sender_getMultipleAccountsInfo quiet_node plain_sender (replicate 150 []) 0 = (Inr (replicate 150 None), 0)"
proof -
  have "sender_getMultipleAccountsInfo quiet_node plain_sender (replicate 150 []) 0 =
      (Inr (map (\<lambda>k. case fst (sender_getAccountInfo quiet_node plain_sender k 0) of Inr a \<Rightarrow> a | Inl _ \<Rightarrow> None)
        (replicate 150 [])), 0)"
    by (rule chunked_read_is_pointwise [where accounts = "\<lambda>k. None"])
      (simp_all add: answers_chunks_def quiet_node_def returnIO_def)
  then show ?thesis
    by (simp add: sender_getAccountInfo_def quiet_node_def bindIO_def returnIO_def map_replicate_const
        del: replicate.simps)
qed

theorem send_submits_at_most_once_witness:
  "\<forall>web. fst (sender_send quiet_node web plain_sender []
       \<lparr>sd_signers = None, sd_computeUnitLimit = None, sd_computeUnitPrice = None, sd_label = None\<rparr> 3) =
       Inr \<lparr>st_signature = ''signature'', st_logs = [], st_unitsConsumed = None\<rparr> \<and>
     snd (sender_send quiet_node web plain_sender []
       \<lparr>sd_signers = None, sd_computeUnitLimit = None, sd_computeUnitPrice = None, sd_label = None\<rparr> 3) = 4"
proof
  fix web
  let ?opts = "\<lparr>sd_signers = None, sd_computeUnitLimit = None, sd_computeUnitPrice = None, sd_label = None\<rparr>"
  let ?r = "sender_send quiet_node web plain_sender [] ?opts 3"
  have count: "counts_submissions id quiet_node plain_sender"
    by (simp add: counts_submissions_def quiet_node_def plain_sender_def keeps_return)
  have res: "fst ?r = Inr \<lparr>st_signature = ''signature'', st_logs = [], st_unitsConsumed = None\<rparr>"
    by (simp add: sender_send_def computeBudgetInstructions_def plain_sender_def quiet_node_def bindIO_def liftIO_def
        returnIO_def sign_transaction_def submit_def tryIO_def confirmed_def Let_def)
  then show "fst ?r = Inr \<lparr>st_signature = ''signature'', st_logs = [], st_unitsConsumed = None\<rparr> \<and> snd ?r = 4"
    using send_submits_at_most_once [OF count prod.collapse [symmetric], of web "[]" ?opts 3] by simp
qed

section \<open>The crank over a connection\<close>

text \<open>The crank reads through the sender; what it sees at a moment is a snapshot of the node.\<close>

fun as_send_failure :: "thrown \<Rightarrow> send_failure" where
  "as_send_failure (TransactionFailedError m logs name code label) = TransactionFailed m logs name"
| "as_send_failure (SendTransactionError m logs) = OtherFailure m logs"
| "as_send_failure e = OtherFailure (thrown_message e) None"

fun as_js_error :: "thrown \<Rightarrow> js_error" where
  "as_js_error (SdkError e) = e"
| "as_js_error e = GenericError (thrown_message e)"

definition answer_at :: "'w \<Rightarrow> ('w, 'a) io \<Rightarrow> 'a result" where
  "answer_at w m = map_sum as_js_error id (fst (m w))"

definition snapshot_reader ::
  "('w, 'e, 'tx) connection \<Rightarrow> ('w, 'tx) connection_sender \<Rightarrow> 'w \<Rightarrow> chain_reader" where
  "snapshot_reader conn this w =
     \<lparr>getAccountInfo = \<lambda>k. answer_at w (sender_getAccountInfo conn this k),
      getMultipleAccountsInfo = \<lambda>ks. answer_at w (sender_getMultipleAccountsInfo conn this ks),
      getProgramAccounts = \<lambda>p f. answer_at w (sender_getProgramAccounts conn this p f),
      getTokenAccountsByOwner = \<lambda>own p. answer_at w (sender_getTokenAccountsByOwner conn this own p)\<rparr>"

definition crank_send ::
  "('w, 'e, 'tx) connection \<Rightarrow> web3_lib \<Rightarrow> ('w, 'tx) connection_sender \<Rightarrow> tx_instruction list \<Rightarrow> send_options \<Rightarrow>
     'w \<Rightarrow> (send_failure + send_result) \<times> 'w" where
  "crank_send conn web this instructions opts w =
     (case sender_send conn web this instructions
             \<lparr>sd_signers = Some (so_signers opts), sd_computeUnitLimit = Some (JsInt (so_computeUnitLimit opts)),
              sd_computeUnitPrice = so_computeUnitPrice opts, sd_label = Some (so_label opts)\<rparr> w of
        (Inl e, w') \<Rightarrow> (Inl (as_send_failure e), w')
      | (Inr r, w') \<Rightarrow> (Inr \<lparr>sr_signature = st_signature r, sr_unitsConsumed = st_unitsConsumed r\<rparr>, w'))"

definition connection_env ::
  "('w, 'e, 'tx) connection \<Rightarrow> web3_lib \<Rightarrow> ('w, 'tx) connection_sender \<Rightarrow> solana_lib \<Rightarrow> ata_builder \<Rightarrow>
     account_coders \<Rightarrow> (bytes \<Rightarrow> int list) \<Rightarrow> ('w \<Rightarrow> pubkey \<times> pubkey) \<Rightarrow> 'w crank_env" where
  "connection_env conn web this lib newAta coders utf8 keypairs =
     \<lparr>ce_lib = lib, ce_newAta = newAta, ce_coders = coders, ce_utf8 = utf8, ce_toBase58 = base58Encode,
      ce_payer = cs_payer this, ce_reader = snapshot_reader conn this, ce_keypairs = keypairs,
      ce_send = crank_send conn web this, ce_onStep = (\<lambda>_ w. w)\<rparr>"

lemma map_step_status: "cs_status (failed_step a e) = Failed" "cs_status (skipped_step a e) = Skipped"
  by (simp_all add: failed_step_def skipped_step_def)

text \<open>An environment whose sender only fails, with a callback that only logs: no round executes an action or moves the world.\<close>

definition send_refused :: "'w crank_env \<Rightarrow> 'w \<Rightarrow> bool" where
  "send_refused env w \<longleftrightarrow>
     (\<forall>ixs opts. \<exists>e. ce_send env ixs opts w = (Inl e, w)) \<and> (\<forall>s. ce_onStep env s w = w)"

lemma refused_round:
  assumes "send_refused env w" "crankRound env opts price launch state action w = (r, w')"
  shows "w' = w \<and> (\<forall>st step k. r = Inr (st, step, k) \<longrightarrow> cs_status step \<noteq> Executed)"
proof (cases "buildCrankAction (ce_lib env) (ce_newAta env) (fst (ce_keypairs env w)) (snd (ce_keypairs env w)) state action (ce_payer env)")
  case (Inl e)
  with assms(2) show ?thesis by (auto simp: crankRound_def)
next
  case (Inr built)
  let ?o = "\<lparr>so_signers = ba_signers built, so_computeUnitLimit = ba_computeUnitLimit built,
                   so_computeUnitPrice = price, so_label = action_kind action\<rparr>"
  obtain e where e: "ce_send env (ba_instructions built) ?o w = (Inl e, w)"
    using assms(1) by (metis send_refused_def)
  have "ce_onStep env s w = w" for s using assms(1) by (simp add: send_refused_def)
  with assms(2) Inr e show ?thesis
    by (auto simp: crankRound_def Let_def map_step_status split: sum.splits option.splits if_splits)
qed

lemma refused_loop:
  assumes "send_refused env w"
  shows "crankLoop env opts price launch n state failed steps w = (r, w') \<Longrightarrow>
    (\<forall>s \<in> set steps. cs_status s \<noteq> Executed) \<Longrightarrow>
    w' = w \<and> (\<forall>st ss. r = Inr (st, ss) \<longrightarrow> (\<forall>s \<in> set ss. cs_status s \<noteq> Executed))"
proof (induction n arbitrary: state failed steps)
  case (Suc n)
  show ?case
  proof (cases "planCrank (crank_input_of state) opts")
    case (Inl e)
    with Suc.prems show ?thesis by auto
  next
    case (Inr plan)
    show ?thesis
    proof (cases "filter (\<lambda>a. crankActionKey (ce_toBase58 env) a \<notin> set failed) plan")
      case Nil
      with Inr Suc.prems show ?thesis by auto
    next
      case (Cons action rest)
      obtain q w1 where q: "crankRound env opts price launch state action w = (q, w1)" by fastforce
      from refused_round [OF assms q] have w1: "w1 = w" and ne: "\<And>st step k. q = Inr (st, step, k) \<Longrightarrow> cs_status step \<noteq> Executed"
        by auto
      show ?thesis
      proof (cases q)
        case (Inl e)
        with Inr Cons q w1 Suc.prems show ?thesis by auto
      next
        case (Inr t)
        obtain st step k where t: "t = (st, step, k)" by (cases t)
        with Inr ne have "cs_status step \<noteq> Executed" by simp
        then show ?thesis
          using Suc.IH [of st "case k of Some x \<Rightarrow> x # failed | None \<Rightarrow> failed" "steps @ [step]"] Suc.prems
            \<open>planCrank (crank_input_of state) opts = Inr plan\<close> Cons q w1 Inr t by auto
      qed
    qed
  qed
qed auto

lemma refused_send: 
  assumes "cs_beforeSend this = Some hook" "\<forall>label ixs. \<exists>e. hook label ixs w = (Inl e, w)"
  shows "send_refused (connection_env conn web this lib newAta coders utf8 keypairs) w"
  unfolding send_refused_def
proof (intro allI conjI)
  fix ixs :: "tx_instruction list" and opts :: send_options
  let ?o = "\<lparr>sd_signers = Some (so_signers opts), sd_computeUnitLimit = Some (JsInt (so_computeUnitLimit opts)),
              sd_computeUnitPrice = so_computeUnitPrice opts, sd_label = Some (so_label opts)\<rparr>"
  have "\<exists>e. sender_send conn web this ixs ?o w = (Inl e, w)"
  proof (cases "computeBudgetInstructions web (sd_computeUnitLimit ?o)
              (case sd_computeUnitPrice ?o of Some p \<Rightarrow> Some p | None \<Rightarrow> cs_priorityFee this)")
    case (Inl e)
    then show ?thesis by (simp add: sender_send_def bindIO_def liftIO_def)
  next
    case (Inr budget)
    obtain e where "hook (sd_label ?o) (budget @ ixs) w = (Inl e, w)" using assms(2) by metis
    with Inr assms(1) show ?thesis by (simp add: sender_send_def bindIO_def liftIO_def Let_def)
  qed
  then show "\<exists>e. ce_send (connection_env conn web this lib newAta coders utf8 keypairs) ixs opts w = (Inl e, w)"
    by (auto simp: connection_env_def crank_send_def)
qed (simp add: connection_env_def)

text \<open>
  C15: A refusing guard stops the crank: when the sender's hook throws, a crank run over the connection leaves
  the world as it was, and no step it reports was executed. (Each send is refused before the node is asked
  for anything, so a guard that finds the cluster changed stops a running crank too.)
\<close>

theorem refused_crank_changes_nothing:
  assumes "cs_beforeSend this = Some hook" "\<forall>label ixs. \<exists>e. hook label ixs w = (Inl e, w)"
    and "runCrank (connection_env conn web this lib newAta coders utf8 keypairs) ref opts maxActions price w = (r, w')"
  shows "w' = w \<and> (\<forall>result. r = Inr result \<longrightarrow> (\<forall>s \<in> set (cr_steps result). cs_status s \<noteq> Executed))"
proof -
  let ?env = "connection_env conn web this lib newAta coders utf8 keypairs"
  note loop = refused_loop [OF refused_send [OF assms(1,2)], of conn web lib newAta coders utf8 keypairs]
  show ?thesis
  proof (cases "fetch_state ?env ref w")
    case (Inl e)
    with assms(3) show ?thesis by (auto simp: runCrank_def)
  next
    case (Inr found)
    show ?thesis
    proof (cases found)
      case None
      with Inr assms(3) show ?thesis by (auto simp: runCrank_def)
    next
      case (Some st)
      obtain q w1 where q: "crankLoop ?env opts price (ls_address st) (nat (default_to maxActions 16)) st [] [] w = (q, w1)"
        by fastforce
      from loop [OF q] have "w1 = w" "\<And>f ss. q = Inr (f, ss) \<Longrightarrow> \<forall>s \<in> set ss. cs_status s \<noteq> Executed"
        by auto
      with q Inr Some assms(3) show ?thesis
        by (auto simp: runCrank_def split: sum.splits prod.splits)
    qed
  qed
qed

text \<open>The accounts of a launch with fees to harvest, behind a connection whose sender is guarded.\<close>

definition info_of :: "account_data \<Rightarrow> account_info" where
  "info_of a = \<lparr>in_data = ac_data a, in_owner = ac_owner a, in_lamports = ac_lamports a,
     in_executable = ac_executable a, in_rentEpoch = None\<rparr>"

definition launch_node :: "(nat, string, transaction) connection" where
  "launch_node = quiet_node
     \<lparr>cn_getAccountInfo := \<lambda>k c. returnIO (Some (info_of (snd (keyed_account_of [] curve_launch)))),
      cn_getMultipleAccountsInfo := \<lambda>ks c. returnIO (map (map_option info_of) curve_accounts)\<rparr>"

definition guarded_sender :: "(nat, transaction) connection_sender" where
  "guarded_sender = plain_sender
     \<lparr>cs_payer := PublicKey_default, cs_beforeSend := Some (\<lambda>label ixs. throwIO (CallerError ''mainnet''))\<rparr>"

definition guarded_env :: "web3_lib \<Rightarrow> nat crank_env" where
  "guarded_env web = connection_env launch_node web guarded_sender plain_lib plain_ata
     (ce_coders refusing_env) (\<lambda>_. []) (\<lambda>_. ([], []))"

lemma toAccountData_info_of [simp]: "toAccountData (info_of a) = a"
  by (simp add: toAccountData_def info_of_def)

lemma guarded_reader:
  "getAccountInfo (ce_reader (guarded_env web) w) k = Inr (Some (snd (keyed_account_of [] curve_launch)))"
  "getMultipleAccountsInfo (ce_reader (guarded_env web) w) (state_accounts lib l pool) = Inr curve_accounts"
proof -
  have l: "state_accounts lib l pool \<noteq> []" "length (state_accounts lib l pool) \<le> 100"
    by (simp_all add: state_accounts_def Let_def)
  then have "chunkLoop launch_node c (state_accounts lib l pool) [] w =
      (Inr (map (map_option toAccountData) (map (map_option info_of) curve_accounts)), w)" for c
    by (subst chunkLoop.simps) (simp add: chunkLoop.simps launch_node_def bindIO_def returnIO_def)
  moreover have "map (map_option toAccountData) (map (map_option info_of) curve_accounts) = curve_accounts"
    by (simp add: o_def option.map_comp option.map_ident)
  ultimately show "getMultipleAccountsInfo (ce_reader (guarded_env web) w) (state_accounts lib l pool) = Inr curve_accounts"
    by (simp add: guarded_env_def connection_env_def snapshot_reader_def answer_at_def sender_getMultipleAccountsInfo_def)
  show "getAccountInfo (ce_reader (guarded_env web) w) k = Inr (Some (snd (keyed_account_of [] curve_launch)))"
    by (simp add: guarded_env_def connection_env_def snapshot_reader_def answer_at_def sender_getAccountInfo_def
        launch_node_def bindIO_def returnIO_def)
qed

lemma guarded_fields:
  "ce_lib (guarded_env web) = ce_lib refusing_env" "ce_coders (guarded_env web) = ce_coders refusing_env"
  "ce_utf8 (guarded_env web) = ce_utf8 refusing_env"
  by (simp_all add: guarded_env_def connection_env_def refusing_env_def)

lemma guarded_state:
  "fetch_state (guarded_env web) (RefLaunch k) w = fetch_state refusing_env (RefLaunch k) ()"
proof -
  have launch: "getLaunch (ce_reader (guarded_env web) w) lib coders (RefLaunch k) = Inr (Some (k, curve_launch))" for lib coders
  proof -
    have "isLaunchAccountData (borsh_launch curve_launch (replicate 46 0))"
      using curve_launch_decodes decodeLaunch_returns_iff by (metis returns_def)
    then show ?thesis
      by (simp add: getLaunch_def resolveLaunchAddress_def guarded_reader keyed_account_of_def curve_launch_decodes)
  qed
  obtain d where d: "decode_accounts (ce_coders refusing_env) curve_accounts = Inr d" "da_dbcConfig d = example_config"
    "da_dbcPool d = Some fee_pool" using curve_decoded by blast
  have "\<not> la_migrated curve_launch" "vp_isMigrated fee_pool \<noteq> 1"
    by (simp_all add: curve_launch_def example_launch_def fee_pool_def example_virtual_pool_def)
  moreover have "getMultipleAccountsInfo (ce_reader refusing_env ()) ks = Inr curve_accounts" for ks
    by (simp add: refusing_env_def)
  ultimately show ?thesis
    by (simp add: fetch_state_def fetchLaunchState_def launch refusing_launch guarded_reader guarded_fields d Let_def
        split: option.split)
qed

theorem refused_crank_changes_nothing_witness:
  "\<forall>web. \<exists>r. runCrank (guarded_env web) (RefLaunch PublicKey_default) default_plan (Some 1) None 7 = (Inr r, 7) \<and>
     map (\<lambda>s. cs_status s \<noteq> Executed) (cr_steps r) = [True] \<and> cr_remaining r = [HarvestCurveFees 5000 0 True]"
proof
  fix web
  let ?env = "guarded_env web" and ?a = "HarvestCurveFees 5000 0 True"
  obtain s where s: "\<And>w. fetch_state ?env (RefLaunch PublicKey_default) w = Inr (Some s)"
    "ls_launch s = curve_launch" "ls_address s = PublicKey_default" "planCrank (crank_input_of s) default_plan = Inr [?a]"
    using refusing_state [of PublicKey_default] guarded_state by metis
  have "\<exists>built. buildCrankAction plain_lib plain_ata [] [] s ?a PublicKey_default = Inr built"
    by (simp add: buildCrankAction_def launchKeysFromAccount_def harvestCurveFeesIx_def ix_bytes_of Let_def)
  then obtain built where built: "buildCrankAction plain_lib plain_ata [] [] s ?a PublicKey_default = Inr built" by blast
  have hook: "cs_beforeSend guarded_sender = Some (\<lambda>label ixs. throwIO (CallerError ''mainnet''))"
    by (simp add: guarded_sender_def)
  have refused: "send_refused ?env w" for w
    unfolding guarded_env_def by (rule refused_send [OF hook]) (simp add: throwIO_def)
  then obtain e where e: "ce_send ?env (ba_instructions built)
      \<lparr>so_signers = ba_signers built, so_computeUnitLimit = ba_computeUnitLimit built, so_computeUnitPrice = None,
       so_label = action_kind ?a\<rparr> 7 = (Inl e, 7)" unfolding send_refused_def by blast
  have env: "ce_newAta ?env = plain_ata" "ce_keypairs ?env w = ([], [])" "ce_payer ?env = PublicKey_default"
    "ce_lib ?env = plain_lib" "ce_onStep ?env x w = w" for w x
    by (simp_all add: guarded_env_def connection_env_def guarded_sender_def)
  have "crankRound ?env default_plan None PublicKey_default s ?a 7 = (Inr (s, failed_step ?a e, Some (action_kind ?a)), 7)"
    using built s(1,4) e by (simp add: crankRound_def env crankActionKey_def)
  then obtain r where r: "runCrank ?env (RefLaunch PublicKey_default) default_plan (Some 1) None 7 = (Inr r, 7)"
    "cr_steps r = [failed_step ?a e]" "cr_remaining r = [?a]"
    using s by (simp add: runCrank_def default_to_def crankActionKey_def)
  have "\<forall>x \<in> set (cr_steps r). cs_status x \<noteq> Executed"
    using refused_crank_changes_nothing [OF hook _ r(1) [unfolded guarded_env_def]] by (simp add: throwIO_def)
  with r show "\<exists>r. runCrank ?env (RefLaunch PublicKey_default) default_plan (Some 1) None 7 = (Inr r, 7) \<and>
     map (\<lambda>s. cs_status s \<noteq> Executed) (cr_steps r) = [True] \<and> cr_remaining r = [?a]" by simp
qed

end
