(* ===== verification/FundRun.thy ===== *)
theory FundRun
  imports FundPlan Sender
begin

text \<open>
  The stages of \<^verbatim>\<open>scripts/c2/fund.ts\<close> that move money: SOL transfers, the deployer's token account, the two
  swaps, token accounts and token transfers, and the final verification. The chain, the sender, the swap
  provider and the operator's answers are the record \<open>fund_env\<close>; the stage records of the state file are
  threaded through, with the fields a later run reads (time, signature and notes are left out).
\<close>

section \<open>The environment\<close>

text \<open>
  Instructions as far as they differ: a SOL transfer, a token account for an owner, a token transfer. Reading
  a token account gives its amount, \<open>None\<close> when there is no such account.
\<close>

datatype fund_ix = TransferSol string int | CreateAta string | TransferSpyx string int

record route =
  rt_lamportsIn :: int
  rt_outAmount :: int
  rt_routeMinOut :: int
  rt_slippageBps :: jsnum

record 'w fund_env =
  en_balance :: "string \<Rightarrow> ('w, int) io"
  en_token :: "string \<Rightarrow> ('w, int option) io"
  en_send :: "string \<Rightarrow> fund_ix \<Rightarrow> ('w, string) io"
  en_sleep :: "('w, unit) io"
  en_quote :: "int \<Rightarrow> ('w, route) io"
  en_execute :: "route \<Rightarrow> ('w, string option) io"
  en_confirm :: "string \<Rightarrow> ('w, bool) io"

type_synonym ('w, 'a) run = "('w \<times> stage_record list, 'a) io"

definition on_chain :: "('w, 'a) io \<Rightarrow> ('w, 'a) run" where
  "on_chain m s = (case m (fst s) of (r, w) \<Rightarrow> (r, w, snd s))"

definition record_stage :: "stage_record \<Rightarrow> ('w, unit) run" where
  "record_stage r s = (Inr (), fst s, snd s @ [r])"

definition stage_known :: "string \<Rightarrow> ('w, stage_record option) run" where
  "stage_known id' s = (Inr (stageOf (snd s) id'), s)"

definition simple_stage :: "string \<Rightarrow> stage_status \<Rightarrow> stage_record" where
  "simple_stage id' st = \<lparr>sr_id = id', sr_status = st, sr_spyxBefore = None, sr_minOut = None\<rparr>"

definition skip_stage :: "string \<Rightarrow> ('w, unit) run" where
  "skip_stage id' =
     bindIO (stage_known id') (\<lambda>known. if known = None then record_stage (simple_stage id' StageSkipped) else returnIO ())"

text \<open>\<open>waitForChain\<close>: read, then at most \<open>tries - 1\<close> times sleep and read again until the value is good.\<close>

fun waitLoop :: "'w fund_env \<Rightarrow> ('w, 'a) io \<Rightarrow> ('a \<Rightarrow> bool) \<Rightarrow> nat \<Rightarrow> 'a \<Rightarrow> ('w, 'a) io" where
  "waitLoop env read ok 0 v = returnIO v"
| "waitLoop env read ok (Suc n) v =
     (if ok v then returnIO v
      else bindIO (en_sleep env) (\<lambda>_. bindIO read (waitLoop env read ok n)))"

definition waitForChain :: "'w fund_env \<Rightarrow> ('w, 'a) io \<Rightarrow> ('a \<Rightarrow> bool) \<Rightarrow> ('w, 'a) io" where
  "waitForChain env read ok = bindIO read (waitLoop env read ok 19)"

definition token_amount :: "'w fund_env \<Rightarrow> string \<Rightarrow> ('w, int) io" where
  "token_amount env owner = bindIO (en_token env owner) (\<lambda>acc. returnIO (case acc of Some a \<Rightarrow> a | None \<Rightarrow> 0))"

section \<open>SOL transfers\<close>

definition sol_stage :: "'w fund_env \<Rightarrow> wallet_plan \<Rightarrow> ('w, unit) run" where
  "sol_stage env w =
     (let id' = ''sol:'' @ wp_role w
      in bindIO (on_chain (en_balance env (wp_pubkey w))) (\<lambda>balance.
         if balance \<ge> wp_solTarget w then skip_stage id'
         else bindIO (on_chain (en_send env id' (TransferSol (wp_pubkey w) (wp_solTarget w - balance)))) (\<lambda>signature.
              bindIO (on_chain (waitForChain env (en_balance env (wp_pubkey w)) (\<lambda>v. v \<ge> wp_solTarget w))) (\<lambda>after.
              if after < wp_solTarget w then throwIO (CallerError (id' @ '': still below the target''))
              else record_stage (simple_stage id' StageDone)))))"

fun each_wallet :: "(wallet_plan \<Rightarrow> ('w, unit) run) \<Rightarrow> wallet_plan list \<Rightarrow> ('w, unit) run" where
  "each_wallet f [] = returnIO ()"
| "each_wallet f (w # ws) = bindIO (f w) (\<lambda>_. each_wallet f ws)"

section \<open>Token accounts and transfers\<close>

definition ata_stage :: "'w fund_env \<Rightarrow> string \<Rightarrow> string \<Rightarrow> int option \<Rightarrow> ('w, unit) run" where
  "ata_stage env role owner acc =
     (if acc \<noteq> None then skip_stage (''ata:'' @ role)
      else bindIO (on_chain (en_send env (''ata:'' @ role) (CreateAta owner))) (\<lambda>signature.
           record_stage (simple_stage (''ata:'' @ role) StageDone)))"

definition deployer_ata_stage :: "'w fund_env \<Rightarrow> string \<Rightarrow> ('w, unit) run" where
  "deployer_ata_stage env deployer =
     bindIO (on_chain (en_token env deployer)) (ata_stage env ''deployer'' deployer)"

definition spyx_stage :: "'w fund_env \<Rightarrow> string \<Rightarrow> wallet_plan \<Rightarrow> ('w, unit) run" where
  "spyx_stage env deployer w =
     (if wp_spyxTarget w = 0 then returnIO ()
      else bindIO (on_chain (en_token env (wp_pubkey w))) (\<lambda>acc.
        let balance = (case acc of Some a \<Rightarrow> a | None \<Rightarrow> 0); id' = ''spyx:'' @ wp_role w
        in bindIO (ata_stage env (wp_role w) (wp_pubkey w) acc) (\<lambda>_.
           if balance \<ge> wp_spyxTarget w then skip_stage id'
           else let amount = wp_spyxTarget w - balance
             in bindIO (on_chain (token_amount env deployer)) (\<lambda>have'.
                if have' < amount then throwIO (CallerError (id' @ '': the deployer is short''))
                else bindIO (on_chain (en_send env id' (TransferSpyx (wp_pubkey w) amount))) (\<lambda>signature.
                     bindIO (on_chain (waitForChain env (token_amount env (wp_pubkey w)) (\<lambda>v. v \<ge> wp_spyxTarget w))) (\<lambda>after.
                     if after < wp_spyxTarget w then throwIO (CallerError (id' @ '': below the target''))
                     else record_stage (simple_stage id' StageDone)))))))"

section \<open>Swaps\<close>

text \<open>What a run of the swaps works with: prices, limits and the deployer.\<close>

record swap_config =
  sc_slippageBps :: jsnum
  sc_maxDeviationBps :: jsnum
  sc_solUsd :: jsnum
  sc_spyxUsd :: jsnum
  sc_decimals :: nat
  sc_multiplier :: jsnum
  sc_minDeployerLamports :: int
  sc_deployer :: string

text \<open>Re-quoting, at most three times, until the output lands in \<open>[required, required + 2%]\<close>.\<close>

fun sizeLoop :: "'w fund_env \<Rightarrow> int \<Rightarrow> nat \<Rightarrow> route \<Rightarrow> ('w, route) io" where
  "sizeLoop env requiredOut 0 q = returnIO q"
| "sizeLoop env requiredOut (Suc n) q =
     (if \<not> requiredOut > 0 then returnIO q
      else if rt_outAmount q \<ge> requiredOut \<and> rt_outAmount q \<le> (requiredOut * 102) sdiv 100 then returnIO q
      else if rt_outAmount q \<le> 0 then returnIO q
      else let scaled = (rt_lamportsIn q * ((requiredOut * 101) sdiv 100)) sdiv rt_outAmount q
           in if scaled = rt_lamportsIn q then returnIO q
              else bindIO (en_quote env scaled) (sizeLoop env requiredOut n))"

definition route_check :: "rounder \<Rightarrow> swap_config \<Rightarrow> int \<Rightarrow> route \<Rightarrow> swap_quote_check result" where
  "route_check fl c requiredOut q =
     checkSwapQuote fl
       \<lparr>si_inAmount = rt_lamportsIn q, si_outAmount = rt_outAmount q, si_routeMinOut = rt_routeMinOut q,
        si_routeSlippageBps = Some (rt_slippageBps q), si_slippageBps = sc_slippageBps c,
        si_maxDeviationBps = sc_maxDeviationBps c, si_requiredOut = requiredOut, si_solUsd = sc_solUsd c,
        si_spyxUsd = sc_spyxUsd c, si_spyxDecimals = sc_decimals c, si_spyxMultiplier = sc_multiplier c\<rparr>"

text \<open>What arrived: at most thirty reads, a second apart, until the balance has grown.\<close>

fun receiveLoop :: "'w fund_env \<Rightarrow> string \<Rightarrow> int \<Rightarrow> nat \<Rightarrow> int \<Rightarrow> ('w, int) io" where
  "receiveLoop env deployer spyxBefore 0 received = returnIO received"
| "receiveLoop env deployer spyxBefore (Suc n) received =
     bindIO (token_amount env deployer) (\<lambda>now.
       if now - spyxBefore > 0 then returnIO (now - spyxBefore)
       else bindIO (en_sleep env) (\<lambda>_. receiveLoop env deployer spyxBefore n (now - spyxBefore)))"

definition execute_swap ::
  "'w fund_env \<Rightarrow> swap_config \<Rightarrow> string \<Rightarrow> int \<Rightarrow> route \<Rightarrow> swap_quote_check \<Rightarrow> ('w, int) run" where
  "execute_swap env c id' spyxBefore q chk =
     bindIO (record_stage \<lparr>sr_id = id', sr_status = StagePending, sr_spyxBefore = Some spyxBefore, sr_minOut = Some (qc_minOut chk)\<rparr>) (\<lambda>_.
     bindIO (on_chain (en_execute env q)) (\<lambda>exec.
     bindIO (on_chain (receiveLoop env (sc_deployer c) spyxBefore 30 0)) (\<lambda>received.
     if \<not> rc_ok (checkSwapReceipt received (rt_outAmount q) (qc_minOut chk) None)
     then bindIO (record_stage (simple_stage id' StageFailed)) (\<lambda>_. throwIO (CallerError (id' @ '' failed'')))
     else bindIO (record_stage (simple_stage id' StageDone)) (\<lambda>_. returnIO received))))"

definition quoted_swap ::
  "rounder \<Rightarrow> 'w fund_env \<Rightarrow> swap_config \<Rightarrow> string \<Rightarrow> int \<Rightarrow> int \<Rightarrow> int \<Rightarrow> ('w, int) run" where
  "quoted_swap fl env c id' lamportsIn requiredOut spyxBefore =
     bindIO (on_chain (en_quote env lamportsIn)) (\<lambda>q0.
     bindIO (on_chain (sizeLoop env requiredOut 3 q0)) (\<lambda>q.
     bindIO (liftIO (route_check fl c requiredOut q)) (\<lambda>chk.
     if \<not> qc_ok chk
     then bindIO (record_stage (simple_stage id' StageFailed)) (\<lambda>_. throwIO (CallerError (id' @ '' refused'')))
     else bindIO (on_chain (en_balance env (sc_deployer c))) (\<lambda>lamportsNow.
          if lamportsNow - rt_lamportsIn q < sc_minDeployerLamports c
          then throwIO (CallerError (id' @ '' refused: below the deploy minimum''))
          else execute_swap env c id' spyxBefore q chk))))"

definition runSwap ::
  "rounder \<Rightarrow> 'w fund_env \<Rightarrow> swap_config \<Rightarrow> string \<Rightarrow> int \<Rightarrow> int \<Rightarrow> ('w, int) run" where
  "runSwap fl env c id' lamportsIn requiredOut =
     bindIO (on_chain (token_amount env (sc_deployer c))) (\<lambda>spyxBefore.
     bindIO (stage_known id') (\<lambda>known.
     case resolvePendingSwap known spyxBefore of
       Some outcome \<Rightarrow>
         if outcome_landed outcome
         then bindIO (record_stage (simple_stage id' StageDone)) (\<lambda>_. returnIO 0)
         else quoted_swap fl env c id' lamportsIn requiredOut spyxBefore
     | None \<Rightarrow> quoted_swap fl env c id' lamportsIn requiredOut spyxBefore))"

text \<open>Stages 3 and 4: the small test swap once, then the rest behind a second confirmation; false when declined.\<close>

definition swap_stages ::
  "rounder \<Rightarrow> 'w fund_env \<Rightarrow> swap_config \<Rightarrow> int \<Rightarrow> jsnum \<Rightarrow> int \<Rightarrow> ('w, bool) run" where
  "swap_stages fl env c needed testSwapUsd swapMarginBps =
     bindIO (on_chain (token_amount env (sc_deployer c))) (\<lambda>held.
     if \<not> needed > held then returnIO True
     else bindIO (liftIO (usdToLamports fl testSwapUsd (sc_solUsd c))) (\<lambda>testLamports.
       bindIO (stage_known ''swap:test'') (\<lambda>known.
       bindIO (if map_option sr_status known \<noteq> Some StageDone then runSwap fl env c ''swap:test'' testLamports 0 else returnIO 0) (\<lambda>_.
       bindIO (on_chain (token_amount env (sc_deployer c))) (\<lambda>have'.
       let remaining = (if needed > have' then needed - have' else 0)
       in if remaining > 0
          then bindIO (on_chain (en_confirm env ''Buy the remaining?'')) (\<lambda>ok.
               if \<not> ok then bindIO (record_stage (simple_stage ''confirm:swap'' StageFailed)) (\<lambda>_. returnIO False)
               else bindIO (record_stage (simple_stage ''confirm:swap'' StageDone)) (\<lambda>_.
                    bindIO (liftIO (usdToLamports fl (spyxRawToUsd fl remaining (sc_decimals c) (sc_multiplier c) (sc_spyxUsd c)) (sc_solUsd c))) (\<lambda>l.
                    bindIO (runSwap fl env c ''swap:main'' ((l * (BPS + swapMarginBps)) sdiv BPS) remaining) (\<lambda>_.
                    returnIO True))))
          else returnIO True)))))"

text \<open>Reading the balances back, wallet by wallet, for the verification.\<close>

definition read_end_wallet :: "'w fund_env \<Rightarrow> wallet_plan \<Rightarrow> ('w, end_wallet) io" where
  "read_end_wallet env w =
     bindIO (en_token env (wp_pubkey w)) (\<lambda>acc.
     bindIO (en_balance env (wp_pubkey w)) (\<lambda>lamports.
       returnIO \<lparr>ew_role = wp_role w, ew_pubkey = wp_pubkey w, ew_solTarget = wp_solTarget w, ew_solBalance = lamports,
                 ew_spyxTarget = wp_spyxTarget w, ew_spyxBalance = (case acc of Some a \<Rightarrow> a | None \<Rightarrow> 0)\<rparr>))"

fun readAll :: "'w fund_env \<Rightarrow> wallet_plan list \<Rightarrow> ('w, end_wallet list) io" where
  "readAll env [] = returnIO []"
| "readAll env (w # ws) = bindIO (read_end_wallet env w) (\<lambda>x. bindIO (readAll env ws) (\<lambda>xs. returnIO (x # xs)))"

text \<open>\<open>Some\<close> of the verification, \<open>None\<close> when the second confirmation was declined.\<close>

definition fund_stages ::
  "rounder \<Rightarrow> 'w fund_env \<Rightarrow> swap_config \<Rightarrow> fund_plan \<Rightarrow> jsnum \<Rightarrow> int \<Rightarrow> ('w, (bool \<times> shortfall list) option) run" where
  "fund_stages fl env c plan testSwapUsd swapMarginBps =
     bindIO (each_wallet (sol_stage env) (fp_wallets plan)) (\<lambda>_.
     bindIO (deployer_ata_stage env (sc_deployer c)) (\<lambda>_.
     bindIO (swap_stages fl env c (fp_spyxToTransfer plan) testSwapUsd swapMarginBps) (\<lambda>go.
     if \<not> go then returnIO None
     else bindIO (each_wallet (spyx_stage env (sc_deployer c)) (fp_wallets plan)) (\<lambda>_.
          bindIO (on_chain (readAll env (fp_wallets plan))) (\<lambda>wallets.
          bindIO (on_chain (en_balance env (sc_deployer c))) (\<lambda>lamports.
          let r = verifyEndState \<lparr>es_deployerLamports = lamports, es_minDeployerLamports = sc_minDeployerLamports c, es_wallets = wallets\<rparr>
          in bindIO (record_stage (simple_stage ''verify'' (if fst r then StageDone else StageFailed))) (\<lambda>_. returnIO (Some r))))))))"

section \<open>What a run can do to the wallets\<close>

text \<open>
  \<open>hold w k\<close> is what the chain shows for the address \<open>k\<close> in the world \<open>w\<close>: lamports and raw tokens. The
  deployer, who pays, is not looked at.
\<close>

definition wallets_view :: "('w \<Rightarrow> string \<Rightarrow> int \<times> int) \<Rightarrow> string \<Rightarrow> 'w \<Rightarrow> string \<Rightarrow> int \<times> int" where
  "wallets_view hold deployer w = (hold w)(deployer := (0, 0))"

text \<open>
  An honest chain: reads are current, a transaction moves what it says to the receiver or fails (with or
  without having landed), and nothing else touches the wallets. Calls may fail at any time.
\<close>

definition honest_chain :: "'w fund_env \<Rightarrow> ('w \<Rightarrow> string \<Rightarrow> int \<times> int) \<Rightarrow> string \<Rightarrow> bool" where
  "honest_chain env hold deployer \<longleftrightarrow>
     (let view = wallets_view hold deployer
      in (\<forall>k. keeps view (en_balance env k)) \<and> (\<forall>k. keeps view (en_token env k)) \<and> keeps view (en_sleep env) \<and>
         (\<forall>n. keeps view (en_quote env n)) \<and> (\<forall>q. keeps view (en_execute env q)) \<and> (\<forall>t. keeps view (en_confirm env t)) \<and>
         (\<forall>l k. keeps view (en_send env l (CreateAta k))) \<and>
         (\<forall>k w x. fst (en_balance env k w) = Inr x \<longrightarrow> x = fst (hold w k)) \<and>
         (\<forall>k w a. fst (en_token env k w) = Inr a \<longrightarrow> (case a of Some n \<Rightarrow> n | None \<Rightarrow> 0) = snd (hold w k)) \<and>
         (\<forall>w k. 0 \<le> snd (hold w k)) \<and>
         (\<forall>l k x w. k \<noteq> deployer \<longrightarrow> 0 \<le> x \<longrightarrow> view (snd (en_send env l (TransferSol k x) w)) = (view w)(k := (fst (view w k) + x, snd (view w k))) \<or>
            view (snd (en_send env l (TransferSol k x) w)) = view w \<and> (\<exists>e. fst (en_send env l (TransferSol k x) w) = Inl e)) \<and>
         (\<forall>l k x w. k \<noteq> deployer \<longrightarrow> 0 \<le> x \<longrightarrow> view (snd (en_send env l (TransferSpyx k x) w)) = (view w)(k := (fst (view w k), snd (view w k) + x)) \<or>
            view (snd (en_send env l (TransferSpyx k x) w)) = view w \<and> (\<exists>e. fst (en_send env l (TransferSpyx k x) w) = Inl e)))"

text \<open>Each balance is untouched, or was below the target of a planned wallet and is now exactly there.\<close>

definition raised :: "int set \<Rightarrow> int \<Rightarrow> int \<Rightarrow> bool" where
  "raised targets a b \<longleftrightarrow> b = a \<or> (a < b \<and> b \<in> targets)"

definition toward :: "wallet_plan list \<Rightarrow> (string \<Rightarrow> int \<times> int) \<Rightarrow> (string \<Rightarrow> int \<times> int) \<Rightarrow> bool" where
  "toward ws v v' \<longleftrightarrow>
     (\<forall>k. raised {wp_solTarget p |p. p \<in> set ws \<and> wp_pubkey p = k} (fst (v k)) (fst (v' k)) \<and>
          raised {wp_spyxTarget p |p. p \<in> set ws \<and> wp_pubkey p = k} (snd (v k)) (snd (v' k)))"

lemma raised_refl [simp]: "raised T a a"
  by (simp add: raised_def)

lemma raised_trans: "raised T a b \<Longrightarrow> raised T b c \<Longrightarrow> raised T a c"
  by (auto simp: raised_def)

lemma raised_mono: "raised T a b \<Longrightarrow> a \<le> b"
  by (auto simp: raised_def)

lemma toward_refl [simp]: "toward ws v v"
  by (simp add: toward_def)

lemma toward_trans: "toward ws v v' \<Longrightarrow> toward ws v' v'' \<Longrightarrow> toward ws v v''"
  unfolding toward_def by (meson raised_trans)

lemma toward_mono: "toward ws v v' \<Longrightarrow> fst (v k) \<le> fst (v' k) \<and> snd (v k) \<le> snd (v' k)"
  unfolding toward_def by (meson raised_mono)

text \<open>
  Triples over the wallets: from balances with \<open>A\<close>, a call only moves balances toward their targets, and
  when it returns the condition \<open>P\<close> holds of its result and the balances.
\<close>

definition triple ::
  "('w \<Rightarrow> string \<Rightarrow> int \<times> int) \<Rightarrow> wallet_plan list \<Rightarrow> ((string \<Rightarrow> int \<times> int) \<Rightarrow> bool) \<Rightarrow> ('w, 'a) run \<Rightarrow>
     ('a \<Rightarrow> (string \<Rightarrow> int \<times> int) \<Rightarrow> bool) \<Rightarrow> bool" where
  "triple view ws A m P \<longleftrightarrow>
     (\<forall>s r s1. m s = (r, s1) \<longrightarrow> A (view (fst s)) \<longrightarrow>
        toward ws (view (fst s)) (view (fst s1)) \<and> (\<forall>x. r = Inr x \<longrightarrow> P x (view (fst s1))))"

lemma tripleI:
  assumes "\<And>s r s1. m s = (r, s1) \<Longrightarrow> A (view (fst s)) \<Longrightarrow>
    toward ws (view (fst s)) (view (fst s1)) \<and> (\<forall>x. r = Inr x \<longrightarrow> P x (view (fst s1)))"
  shows "triple view ws A m P"
  unfolding triple_def using assms by blast

lemma tripleD:
  assumes "triple view ws A m P" "m s = (r, s1)" "A (view (fst s))"
  shows "toward ws (view (fst s)) (view (fst s1)) \<and> (\<forall>x. r = Inr x \<longrightarrow> P x (view (fst s1)))"
  using assms unfolding triple_def by blast

lemma triple_bind:
  assumes "triple view ws A m B" "\<And>x. triple view ws (B x) (f x) C"
  shows "triple view ws A (bindIO m f) C"
proof (rule tripleI)
  fix s r s1
  assume run: "bindIO m f s = (r, s1)" and A: "A (view (fst s))"
  obtain r0 s0 where m: "m s = (r0, s0)" by (cases "m s") blast
  note first = tripleD [OF assms(1) m A]
  show "toward ws (view (fst s)) (view (fst s1)) \<and> (\<forall>x. r = Inr x \<longrightarrow> C x (view (fst s1)))"
  proof (cases r0)
    case (Inl e)
    with run m have "r = Inl e" "s1 = s0" by (simp_all add: bindIO_def)
    with first show ?thesis by simp
  next
    case (Inr x)
    with run m have f: "f x s0 = (r, s1)" by (simp add: bindIO_def)
    from first Inr have B: "B x (view (fst s0))" by blast
    from tripleD [OF assms(2) f B] first show ?thesis using toward_trans by blast
  qed
qed

lemma triple_conseq:
  "triple view ws A m P \<Longrightarrow> (\<And>v. A' v \<Longrightarrow> A v) \<Longrightarrow> (\<And>x v. P x v \<Longrightarrow> P' x v) \<Longrightarrow> triple view ws A' m P'"
  unfolding triple_def by blast

lemma triple_return: "(\<And>v. A v \<Longrightarrow> P x v) \<Longrightarrow> triple view ws A (returnIO x) P"
  by (rule tripleI) (auto simp: returnIO_def)

lemma triple_throw: "triple view ws A (throwIO e) P"
  by (rule tripleI) (auto simp: throwIO_def)

lemma triple_if:
  "(c \<Longrightarrow> triple view ws A m P) \<Longrightarrow> (\<not> c \<Longrightarrow> triple view ws A m' P) \<Longrightarrow> triple view ws A (if c then m else m') P"
  by simp

text \<open>A call that keeps the wallets, with what its result says about them.\<close>

lemma triple_read:
  assumes "keeps (view \<circ> fst) m" "\<And>s x s1. m s = (Inr x, s1) \<Longrightarrow> Q x (view (fst s))"
  shows "triple view ws A m (\<lambda>x v. A v \<and> Q x v)"
proof (rule tripleI)
  fix s r s1
  assume run: "m s = (r, s1)" and A: "A (view (fst s))"
  have "(view \<circ> fst) (snd (m s)) = (view \<circ> fst) s" using assms(1) unfolding keeps_def by blast
  then have "view (fst s1) = view (fst s)" by (simp add: run)
  with A assms(2) run show "toward ws (view (fst s)) (view (fst s1)) \<and> (\<forall>x. r = Inr x \<longrightarrow> A (view (fst s1)) \<and> Q x (view (fst s1)))"
    by simp
qed

lemma triple_keeps: "keeps (view \<circ> fst) m \<Longrightarrow> triple view ws A m (\<lambda>_. A)"
  using triple_read [of view m "\<lambda>_ _. True" ws A] by simp

text \<open>A condition that rising balances keep stays true.\<close>

lemma triple_stable:
  assumes "triple view ws A m P" "\<And>v v'. R v \<Longrightarrow> toward ws v v' \<Longrightarrow> R v'"
  shows "triple view ws (\<lambda>v. A v \<and> R v) m (\<lambda>x v. P x v \<and> R v)"
  using assms unfolding triple_def by blast

lemma triple_each_wallet:
  assumes "\<And>p. p \<in> set ps \<Longrightarrow> triple view ws (\<lambda>_. True) (f p) (\<lambda>_. R p)"
    and "\<And>p v v'. R p v \<Longrightarrow> toward ws v v' \<Longrightarrow> R p v'"
  shows "triple view ws (\<lambda>_. True) (each_wallet f ps) (\<lambda>_ v. \<forall>p \<in> set ps. R p v)"
  using assms(1)
proof (induction ps)
  case Nil
  show ?case by (auto intro: triple_return)
next
  case (Cons p ps)
  have "triple view ws (\<lambda>_. True) (f p) (\<lambda>_. R p)" using Cons.prems by simp
  moreover have "triple view ws (\<lambda>_. True) (each_wallet f ps) (\<lambda>_ v. \<forall>p \<in> set ps. R p v)"
    using Cons.prems by (intro Cons.IH) simp
  then have "triple view ws (R p) (each_wallet f ps) (\<lambda>_ v. \<forall>q \<in> set (p # ps). R q v)"
    by (rule triple_conseq [OF triple_stable [where R = "R p"]]) (use assms(2) in auto)
  ultimately show ?case unfolding each_wallet.simps by (rule triple_bind)
qed

lemma keeps_on_chain [intro]: "keeps view m \<Longrightarrow> keeps (view \<circ> fst) (on_chain m)"
  by (simp add: keeps_def on_chain_def split: prod.splits) (metis snd_conv)

lemma keeps_records [intro]: "keeps (view \<circ> fst) (record_stage r)" "keeps (view \<circ> fst) (stage_known id')"
  by (simp_all add: keeps_def record_stage_def stage_known_def)

lemma keeps_skip [intro]: "keeps (view \<circ> fst) (skip_stage id')"
  unfolding skip_stage_def by (intro keeps_bind keeps_records keeps_if keeps_return)

lemma keeps_waitLoop [intro]:
  "keeps view (en_sleep env) \<Longrightarrow> keeps view m \<Longrightarrow> keeps view (waitLoop env m ok n v)"
  by (induction n arbitrary: v) (auto intro!: keeps_bind keeps_return keeps_if)

lemma keeps_waitForChain [intro]:
  "keeps view (en_sleep env) \<Longrightarrow> keeps view m \<Longrightarrow> keeps view (waitForChain env m ok)"
  unfolding waitForChain_def by (intro keeps_bind keeps_waitLoop)

lemma keeps_token_amount [intro]: "keeps view (en_token env k) \<Longrightarrow> keeps view (token_amount env k)"
  unfolding token_amount_def by (intro keeps_bind keeps_return)

lemma keeps_sizeLoop [intro]: "(\<And>n. keeps view (en_quote env n)) \<Longrightarrow> keeps view (sizeLoop env required n q)"
  by (induction n arbitrary: q) (auto simp: Let_def intro!: keeps_bind keeps_return keeps_if)

lemma keeps_receiveLoop [intro]:
  "keeps view (en_token env d) \<Longrightarrow> keeps view (en_sleep env) \<Longrightarrow> keeps view (receiveLoop env d b n r)"
  by (induction n arbitrary: r) (auto intro!: keeps_bind keeps_return keeps_if)

section \<open>The stages move balances to their targets only\<close>

lemma honest_keeps:
  assumes "honest_chain env hold deployer"
  shows "keeps (wallets_view hold deployer) (en_balance env k)" "keeps (wallets_view hold deployer) (en_token env k)"
    "keeps (wallets_view hold deployer) (en_sleep env)" "keeps (wallets_view hold deployer) (en_quote env n)"
    "keeps (wallets_view hold deployer) (en_execute env q)" "keeps (wallets_view hold deployer) (en_confirm env t)"
    "keeps (wallets_view hold deployer) (en_send env l (CreateAta k))"
  using assms unfolding honest_chain_def Let_def by simp_all

lemma honest_reads:
  assumes "honest_chain env hold deployer" "k \<noteq> deployer"
  shows "on_chain (en_balance env k) (w, st) = (Inr x, s1) \<Longrightarrow> x = fst (wallets_view hold deployer w k)"
    "on_chain (en_token env k) (w, st) = (Inr a, s1) \<Longrightarrow>
      (case a of Some n \<Rightarrow> n | None \<Rightarrow> 0) = snd (wallets_view hold deployer w k)"
    "0 \<le> snd (wallets_view hold deployer w k)"
proof -
  have r: "fst (en_balance env k w) = Inr x \<Longrightarrow> x = fst (hold w k)"
    "fst (en_token env k w) = Inr a \<Longrightarrow> (case a of Some n \<Rightarrow> n | None \<Rightarrow> 0) = snd (hold w k)" "0 \<le> snd (hold w k)"
    for x a using assms(1) unfolding honest_chain_def Let_def by simp_all
  show "on_chain (en_balance env k) (w, st) = (Inr x, s1) \<Longrightarrow> x = fst (wallets_view hold deployer w k)"
    using r(1) assms(2) by (auto simp: on_chain_def wallets_view_def split: prod.splits)
  show "on_chain (en_token env k) (w, st) = (Inr a, s1) \<Longrightarrow>
      (case a of Some n \<Rightarrow> n | None \<Rightarrow> 0) = snd (wallets_view hold deployer w k)"
    using r(2) assms(2) by (auto simp: on_chain_def wallets_view_def split: prod.splits)
  show "0 \<le> snd (wallets_view hold deployer w k)" using r(3) assms(2) by (simp add: wallets_view_def)
qed

lemma read_balance:
  assumes "honest_chain env hold deployer" "k \<noteq> deployer"
  shows "triple (wallets_view hold deployer) ws A (on_chain (en_balance env k)) (\<lambda>x v. A v \<and> x = fst (v k))"
  using honest_reads(1) [OF assms] by (intro triple_read keeps_on_chain honest_keeps [OF assms(1)]) (metis prod.collapse)

lemma read_token:
  assumes "honest_chain env hold deployer" "k \<noteq> deployer"
  shows "triple (wallets_view hold deployer) ws A (on_chain (en_token env k))
    (\<lambda>a v. A v \<and> (case a of Some n \<Rightarrow> n | None \<Rightarrow> 0) = snd (v k))"
  using honest_reads(2) [OF assms] by (intro triple_read keeps_on_chain honest_keeps [OF assms(1)]) (metis prod.collapse)

text \<open>A transfer of the shortfall lifts the receiver's balance to the target or fails.\<close>

lemma send_sol:
  fixes env :: "'w fund_env"
  assumes h: "honest_chain env hold deployer" and p: "p \<in> set ws" "wp_pubkey p \<noteq> deployer" and "x < wp_solTarget p"
  shows "triple (wallets_view hold deployer) ws (\<lambda>v. fst (v (wp_pubkey p)) = x)
    (on_chain (en_send env l (TransferSol (wp_pubkey p) (wp_solTarget p - x)))) (\<lambda>_ v. wp_solTarget p \<le> fst (v (wp_pubkey p)))"
proof (rule tripleI)
  fix s s1 :: "'w \<times> stage_record list" and r
  let ?view = "wallets_view hold deployer" and ?k = "wp_pubkey p"
  let ?m = "en_send env l (TransferSol ?k (wp_solTarget p - x)) (fst s)"
  assume run: "on_chain (en_send env l (TransferSol ?k (wp_solTarget p - x))) s = (r, s1)"
    and x: "fst (?view (fst s) ?k) = x"
  have "r = fst ?m" "fst s1 = snd ?m" using run by (auto simp: on_chain_def split: prod.splits)
  moreover have "?view (snd ?m) = (?view (fst s))(?k := (fst (?view (fst s) ?k) + (wp_solTarget p - x), snd (?view (fst s) ?k)))
      \<or> ?view (snd ?m) = ?view (fst s) \<and> (\<exists>e. fst ?m = Inl e)"
    using h p(2) assms(4) unfolding honest_chain_def Let_def by simp
  ultimately consider (landed) "?view (fst s1) = (?view (fst s))(?k := (wp_solTarget p, snd (?view (fst s) ?k)))"
    | (lost) "?view (fst s1) = ?view (fst s)" "\<exists>e. r = Inl e" using x by auto
  then show "toward ws (?view (fst s)) (?view (fst s1)) \<and> (\<forall>y. r = Inr y \<longrightarrow> wp_solTarget p \<le> fst (?view (fst s1) ?k))"
  proof cases
    case landed
    with p x assms(4) show ?thesis by (auto simp: toward_def raised_def)
  next
    case lost
    then show ?thesis by auto
  qed
qed

lemma send_spyx:
  fixes env :: "'w fund_env"
  assumes h: "honest_chain env hold deployer" and p: "p \<in> set ws" "wp_pubkey p \<noteq> deployer" and "x < wp_spyxTarget p"
  shows "triple (wallets_view hold deployer) ws (\<lambda>v. snd (v (wp_pubkey p)) = x)
    (on_chain (en_send env l (TransferSpyx (wp_pubkey p) (wp_spyxTarget p - x)))) (\<lambda>_ v. wp_spyxTarget p \<le> snd (v (wp_pubkey p)))"
proof (rule tripleI)
  fix s s1 :: "'w \<times> stage_record list" and r
  let ?view = "wallets_view hold deployer" and ?k = "wp_pubkey p"
  let ?m = "en_send env l (TransferSpyx ?k (wp_spyxTarget p - x)) (fst s)"
  assume run: "on_chain (en_send env l (TransferSpyx ?k (wp_spyxTarget p - x))) s = (r, s1)"
    and x: "snd (?view (fst s) ?k) = x"
  have "r = fst ?m" "fst s1 = snd ?m" using run by (auto simp: on_chain_def split: prod.splits)
  moreover have "?view (snd ?m) = (?view (fst s))(?k := (fst (?view (fst s) ?k), snd (?view (fst s) ?k) + (wp_spyxTarget p - x)))
      \<or> ?view (snd ?m) = ?view (fst s) \<and> (\<exists>e. fst ?m = Inl e)"
    using h p(2) assms(4) unfolding honest_chain_def Let_def by simp
  ultimately consider (landed) "?view (fst s1) = (?view (fst s))(?k := (fst (?view (fst s) ?k), wp_spyxTarget p))"
    | (lost) "?view (fst s1) = ?view (fst s)" "\<exists>e. r = Inl e" using x by auto
  then show "toward ws (?view (fst s)) (?view (fst s1)) \<and> (\<forall>y. r = Inr y \<longrightarrow> wp_spyxTarget p \<le> snd (?view (fst s1) ?k))"
  proof cases
    case landed
    with p x assms(4) show ?thesis by (auto simp: toward_def raised_def)
  next
    case lost
    then show ?thesis by auto
  qed
qed

lemma skip_triple: "(\<And>v. A v \<Longrightarrow> P v) \<Longrightarrow> triple view ws A (skip_stage id') (\<lambda>_. P)"
  by (rule triple_conseq [OF triple_keeps [OF keeps_skip]])

lemma then_keeps:
  "triple view ws A m (\<lambda>_. P) \<Longrightarrow> (\<And>x. keeps (view \<circ> fst) (f x)) \<Longrightarrow> triple view ws A (bindIO m f) (\<lambda>_. P)"
  by (rule triple_bind [where B = "\<lambda>_. P"]) (assumption, rule triple_keeps)

lemma sol_stage_triple:
  assumes h: "honest_chain env hold deployer" and p: "p \<in> set ws" "wp_pubkey p \<noteq> deployer"
  shows "triple (wallets_view hold deployer) ws (\<lambda>_. True) (sol_stage env p) (\<lambda>_ v. wp_solTarget p \<le> fst (v (wp_pubkey p)))"
  unfolding sol_stage_def Let_def
proof (rule triple_bind [OF read_balance [OF h p(2)]], rule triple_if)
  fix x
  assume "wp_solTarget p \<le> x"
  then show "triple (wallets_view hold deployer) ws (\<lambda>v. True \<and> x = fst (v (wp_pubkey p))) (skip_stage (''sol:'' @ wp_role p))
      (\<lambda>_ v. wp_solTarget p \<le> fst (v (wp_pubkey p)))"
    by (intro skip_triple) simp
next
  fix x
  assume "\<not> wp_solTarget p \<le> x"
  then have "triple (wallets_view hold deployer) ws (\<lambda>v. True \<and> x = fst (v (wp_pubkey p)))
    (on_chain (en_send env (''sol:'' @ wp_role p) (TransferSol (wp_pubkey p) (wp_solTarget p - x))))
    (\<lambda>_ v. wp_solTarget p \<le> fst (v (wp_pubkey p)))"
    by (intro triple_conseq [OF send_sol [OF h p]]) auto
  then show "triple (wallets_view hold deployer) ws (\<lambda>v. True \<and> x = fst (v (wp_pubkey p)))
    (bindIO (on_chain (en_send env (''sol:'' @ wp_role p) (TransferSol (wp_pubkey p) (wp_solTarget p - x)))) (\<lambda>signature.
      bindIO (on_chain (waitForChain env (en_balance env (wp_pubkey p)) (\<lambda>v. wp_solTarget p \<le> v))) (\<lambda>after.
      if after < wp_solTarget p then throwIO (CallerError ((''sol:'' @ wp_role p) @ '': still below the target''))
      else record_stage (simple_stage (''sol:'' @ wp_role p) StageDone))))
    (\<lambda>_ v. wp_solTarget p \<le> fst (v (wp_pubkey p)))"
    by (rule then_keeps)
      (intro keeps_bind keeps_on_chain keeps_waitForChain keeps_if keeps_throw keeps_records honest_keeps [OF h])
qed

lemma ata_stage_keeps:
  "honest_chain env hold deployer \<Longrightarrow> keeps (wallets_view hold deployer \<circ> fst) (ata_stage env role owner acc)"
  unfolding ata_stage_def by (intro keeps_if keeps_bind keeps_skip keeps_on_chain keeps_records honest_keeps)

lemma spyx_stage_triple:
  assumes h: "honest_chain env hold deployer" and p: "p \<in> set ws" "wp_pubkey p \<noteq> deployer"
  shows "triple (wallets_view hold deployer) ws (\<lambda>_. True) (spyx_stage env deployer p)
    (\<lambda>_ v. wp_spyxTarget p = 0 \<or> wp_spyxTarget p \<le> snd (v (wp_pubkey p)))"
  unfolding spyx_stage_def
proof (rule triple_if)
  let ?P = "\<lambda>_ v. wp_spyxTarget p = 0 \<or> wp_spyxTarget p \<le> snd (v (wp_pubkey p))"
  assume "wp_spyxTarget p = 0"
  then show "triple (wallets_view hold deployer) ws (\<lambda>_. True) (returnIO ()) ?P" by (auto intro: triple_return)
next
  let ?P = "\<lambda>_ v. wp_spyxTarget p = 0 \<or> wp_spyxTarget p \<le> snd (v (wp_pubkey p))" and ?id = "''spyx:'' @ wp_role p"
  show "triple (wallets_view hold deployer) ws (\<lambda>_. True)
    (bindIO (on_chain (en_token env (wp_pubkey p))) (\<lambda>acc.
        let balance = (case acc of Some a \<Rightarrow> a | None \<Rightarrow> 0); id' = ''spyx:'' @ wp_role p
        in bindIO (ata_stage env (wp_role p) (wp_pubkey p) acc) (\<lambda>_.
           if balance \<ge> wp_spyxTarget p then skip_stage id'
           else let amount = wp_spyxTarget p - balance
             in bindIO (on_chain (token_amount env deployer)) (\<lambda>have'.
                if have' < amount then throwIO (CallerError (id' @ '': the deployer is short''))
                else bindIO (on_chain (en_send env id' (TransferSpyx (wp_pubkey p) amount))) (\<lambda>signature.
                     bindIO (on_chain (waitForChain env (token_amount env (wp_pubkey p)) (\<lambda>v. v \<ge> wp_spyxTarget p))) (\<lambda>after.
                     if after < wp_spyxTarget p then throwIO (CallerError (id' @ '': below the target''))
                     else record_stage (simple_stage id' StageDone))))))) ?P"
    unfolding Let_def
  proof (rule triple_bind [OF read_token [OF h p(2)]], rule triple_bind [OF triple_keeps [OF ata_stage_keeps [OF h]]], rule triple_if)
    fix acc :: "int option"
    let ?x = "case acc of Some n \<Rightarrow> n | None \<Rightarrow> 0"
    assume "wp_spyxTarget p \<le> ?x"
    then show "triple (wallets_view hold deployer) ws (\<lambda>v. True \<and> ?x = snd (v (wp_pubkey p))) (skip_stage ?id) ?P"
      by (intro skip_triple) simp
  next
    fix acc :: "int option"
    let ?x = "case acc of Some n \<Rightarrow> n | None \<Rightarrow> 0"
    assume below: "\<not> wp_spyxTarget p \<le> ?x"
    have send: "triple (wallets_view hold deployer) ws (\<lambda>v. True \<and> ?x = snd (v (wp_pubkey p)))
      (on_chain (en_send env ?id (TransferSpyx (wp_pubkey p) (wp_spyxTarget p - ?x)))) ?P"
      using below by (intro triple_conseq [OF send_spyx [OF h p]]) auto
    show "triple (wallets_view hold deployer) ws (\<lambda>v. True \<and> ?x = snd (v (wp_pubkey p)))
      (bindIO (on_chain (token_amount env deployer)) (\<lambda>have'.
        if have' < wp_spyxTarget p - ?x then throwIO (CallerError (?id @ '': the deployer is short''))
        else bindIO (on_chain (en_send env ?id (TransferSpyx (wp_pubkey p) (wp_spyxTarget p - ?x)))) (\<lambda>signature.
             bindIO (on_chain (waitForChain env (token_amount env (wp_pubkey p)) (\<lambda>v. v \<ge> wp_spyxTarget p))) (\<lambda>after.
             if after < wp_spyxTarget p then throwIO (CallerError (?id @ '': below the target''))
             else record_stage (simple_stage ?id StageDone))))) ?P"
      by (rule triple_bind [OF triple_keeps], intro keeps_on_chain keeps_token_amount honest_keeps [OF h],
          rule triple_if, rule triple_throw, rule then_keeps [OF send])
        (intro keeps_bind keeps_on_chain keeps_waitForChain keeps_token_amount keeps_if keeps_throw keeps_records honest_keeps [OF h])
  qed
qed

section \<open>A run, and any number of them\<close>

lemma execute_swap_keeps:
  assumes "honest_chain env hold deployer"
  shows "keeps (wallets_view hold deployer \<circ> fst) (execute_swap env c id' b q chk)"
  unfolding execute_swap_def
  by (intro keeps_bind keeps_if keeps_on_chain keeps_records keeps_return keeps_throw keeps_receiveLoop honest_keeps [OF assms])

lemma quoted_swap_keeps:
  assumes "honest_chain env hold deployer"
  shows "keeps (wallets_view hold deployer \<circ> fst) (quoted_swap fl env c id' lamports required b)"
  unfolding quoted_swap_def
  by (intro keeps_bind keeps_if keeps_on_chain keeps_records keeps_lift keeps_throw keeps_sizeLoop execute_swap_keeps
      honest_keeps [OF assms] assms)

lemma runSwap_keeps:
  assumes "honest_chain env hold deployer"
  shows "keeps (wallets_view hold deployer \<circ> fst) (runSwap fl env c id' lamports required)"
  unfolding runSwap_def
  by (intro keeps_bind keeps_option keeps_if keeps_on_chain keeps_records keeps_return keeps_token_amount
      quoted_swap_keeps honest_keeps [OF assms] assms)

lemma swap_stages_keeps:
  assumes "honest_chain env hold deployer"
  shows "keeps (wallets_view hold deployer \<circ> fst) (swap_stages fl env c needed testUsd margin)"
  unfolding swap_stages_def Let_def
  by (intro keeps_bind keeps_if keeps_on_chain keeps_records keeps_return keeps_lift keeps_token_amount runSwap_keeps
      honest_keeps [OF assms] assms)

lemma deployer_ata_keeps:
  "honest_chain env hold deployer \<Longrightarrow> keeps (wallets_view hold deployer \<circ> fst) (deployer_ata_stage env d)"
  unfolding deployer_ata_stage_def by (intro keeps_bind keeps_on_chain honest_keeps ata_stage_keeps)

text \<open>The verification reads the balances of the wallets as they are.\<close>

definition end_wallet_of :: "(string \<Rightarrow> int \<times> int) \<Rightarrow> wallet_plan \<Rightarrow> end_wallet" where
  "end_wallet_of v p =
     \<lparr>ew_role = wp_role p, ew_pubkey = wp_pubkey p, ew_solTarget = wp_solTarget p, ew_solBalance = fst (v (wp_pubkey p)),
      ew_spyxTarget = wp_spyxTarget p, ew_spyxBalance = snd (v (wp_pubkey p))\<rparr>"

lemma readAll_keeps:
  "honest_chain env hold deployer \<Longrightarrow> keeps (wallets_view hold deployer) (readAll env ps)"
  by (induction ps) (auto simp: read_end_wallet_def intro!: keeps_bind keeps_return honest_keeps)

lemma on_chain_bind: "on_chain (bindIO m f) = bindIO (on_chain m) (\<lambda>x. on_chain (f x))"
  by (rule ext) (simp add: on_chain_def bindIO_def split: prod.splits sum.splits)

lemma bindIO_assoc: "bindIO (bindIO m f) g = bindIO m (\<lambda>x. bindIO (f x) g)"
  by (rule ext) (simp add: bindIO_def split: prod.splits sum.splits)

lemma on_chain_return [simp]: "on_chain (returnIO x) = returnIO x"
  by (rule ext) (simp add: on_chain_def returnIO_def)

lemma readAll_triple:
  fixes env :: "'w fund_env"
  assumes h: "honest_chain env hold deployer" and "\<forall>p \<in> set ps. wp_pubkey p \<noteq> deployer"
  shows "triple (wallets_view hold deployer) ws A (on_chain (readAll env ps)) (\<lambda>xs v. A v \<and> xs = map (end_wallet_of v) ps)"
  using assms(2)
proof (induction ps arbitrary: A)
  case Nil
  show ?case by (auto intro: triple_return)
next
  case (Cons p ps)
  let ?view = "wallets_view hold deployer"
  have k: "wp_pubkey p \<noteq> deployer" using Cons.prems by simp
  let ?sol = "\<lambda>acc lamports. \<lparr>ew_role = wp_role p, ew_pubkey = wp_pubkey p, ew_solTarget = wp_solTarget p, ew_solBalance = lamports,
      ew_spyxTarget = wp_spyxTarget p, ew_spyxBalance = (case acc of Some a \<Rightarrow> a | None \<Rightarrow> 0)\<rparr>"
  have "triple ?view ws (\<lambda>v. (A v \<and> (case acc of Some n \<Rightarrow> n | None \<Rightarrow> 0) = snd (v (wp_pubkey p))) \<and> x = fst (v (wp_pubkey p)))
      (bindIO (returnIO (?sol acc x)) (\<lambda>e. bindIO (on_chain (readAll env ps)) (\<lambda>xs. returnIO (e # xs))))
      (\<lambda>xs v. A v \<and> xs = map (end_wallet_of v) (p # ps))" for acc x
  proof -
    have "bindIO (returnIO (?sol acc x)) (\<lambda>e. bindIO (on_chain (readAll env ps)) (\<lambda>xs. returnIO (e # xs))) =
        bindIO (on_chain (readAll env ps)) (\<lambda>xs. returnIO (?sol acc x # xs))"
      by (rule ext) (simp add: bindIO_def returnIO_def)
    moreover have "triple ?view ws (\<lambda>v. (A v \<and> (case acc of Some n \<Rightarrow> n | None \<Rightarrow> 0) = snd (v (wp_pubkey p))) \<and> x = fst (v (wp_pubkey p)))
        (bindIO (on_chain (readAll env ps)) (\<lambda>xs. returnIO (?sol acc x # xs))) (\<lambda>xs v. A v \<and> xs = map (end_wallet_of v) (p # ps))"
      by (rule triple_bind [OF Cons.IH], use Cons.prems in simp) (rule triple_return, auto simp: end_wallet_of_def)
    ultimately show ?thesis by simp
  qed
  then show ?case
    unfolding readAll.simps read_end_wallet_def on_chain_bind bindIO_assoc on_chain_return
    by (intro triple_bind [OF read_token [OF h k]] triple_bind [OF read_balance [OF h k]])
qed

definition targets_met :: "wallet_plan list \<Rightarrow> (string \<Rightarrow> int \<times> int) \<Rightarrow> bool" where
  "targets_met ws v \<longleftrightarrow>
     (\<forall>p \<in> set ws. wp_solTarget p \<le> fst (v (wp_pubkey p)) \<and> wp_spyxTarget p \<le> snd (v (wp_pubkey p)))"

lemma no_wallet_shortfall:
  assumes "targets_met ws v"
  shows "concat (map wallet_shortfalls (map (end_wallet_of v) ws)) = []"
proof -
  have "\<forall>p \<in> set ws. wallet_shortfalls (end_wallet_of v p) = []"
    using assms by (simp add: targets_met_def wallet_shortfalls_def end_wallet_of_def)
  then show ?thesis by simp
qed

text \<open>The stages one after the other, for a plan whose wallets are not the deployer.\<close>

lemma fund_stages_triple:
  fixes env :: "'w fund_env"
  assumes h: "honest_chain env hold (sc_deployer c)" and d: "\<forall>p \<in> set (fp_wallets plan). wp_pubkey p \<noteq> sc_deployer c"
  shows "triple (wallets_view hold (sc_deployer c)) (fp_wallets plan) (\<lambda>_. True) (fund_stages fl env c plan testUsd margin)
    (\<lambda>r v. \<forall>x. r = Some x \<longrightarrow> (\<forall>p \<in> set (fp_wallets plan). wp_solTarget p \<le> fst (v (wp_pubkey p)) \<and>
        (wp_spyxTarget p = 0 \<or> wp_spyxTarget p \<le> snd (v (wp_pubkey p)))) \<and>
      (targets_met (fp_wallets plan) v \<longrightarrow> set (snd x) \<subseteq> range (\<lambda>l. DeployerShort l (sc_minDeployerLamports c))) \<and> (fst x \<longleftrightarrow> snd x = []))"
proof -
  let ?view = "wallets_view hold (sc_deployer c)" and ?ws = "fp_wallets plan"
  let ?sol = "\<lambda>v. \<forall>p \<in> set ?ws. wp_solTarget p \<le> fst (v (wp_pubkey p))"
  let ?tok = "\<lambda>v. \<forall>p \<in> set ?ws. wp_spyxTarget p = 0 \<or> wp_spyxTarget p \<le> snd (v (wp_pubkey p))"
  let ?R = "\<lambda>r v. \<forall>x. r = Some x \<longrightarrow> (\<forall>p \<in> set ?ws. wp_solTarget p \<le> fst (v (wp_pubkey p)) \<and>
        (wp_spyxTarget p = 0 \<or> wp_spyxTarget p \<le> snd (v (wp_pubkey p)))) \<and>
      (targets_met ?ws v \<longrightarrow> set (snd x) \<subseteq> range (\<lambda>l. DeployerShort l (sc_minDeployerLamports c))) \<and> (fst x \<longleftrightarrow> snd x = [])"
  have sol: "triple ?view ?ws (\<lambda>_. True) (each_wallet (sol_stage env) ?ws) (\<lambda>_. ?sol)"
    by (rule triple_each_wallet) (use sol_stage_triple [OF h] d toward_mono in \<open>blast, meson order_trans\<close>)
  have tok: "triple ?view ?ws (\<lambda>_. True) (each_wallet (spyx_stage env (sc_deployer c)) ?ws) (\<lambda>_. ?tok)"
    by (rule triple_each_wallet) (use spyx_stage_triple [OF h] d toward_mono in \<open>blast, meson order_trans\<close>)
  have tok': "triple ?view ?ws ?sol (each_wallet (spyx_stage env (sc_deployer c)) ?ws) (\<lambda>_ v. ?tok v \<and> ?sol v)"
    by (rule triple_conseq [OF triple_stable [OF tok, where R = ?sol]]) (auto dest: toward_mono intro: order_trans)
  let ?check = "\<lambda>wallets lamports. verifyEndState \<lparr>es_deployerLamports = lamports,
      es_minDeployerLamports = sc_minDeployerLamports c, es_wallets = wallets\<rparr>"
  have verify: "triple ?view ?ws (\<lambda>v. (?tok v \<and> ?sol v) \<and> xs = map (end_wallet_of v) ?ws)
      (bindIO (record_stage (simple_stage ''verify'' (if fst (?check xs l) then StageDone else StageFailed))) (\<lambda>_. returnIO (Some (?check xs l)))) ?R"
    for xs l
    by (rule triple_bind [OF triple_keeps [OF keeps_records(1)]], rule triple_return)
      (auto simp: verifyEndState_def Let_def dest!: no_wallet_shortfall)
  have rest: "triple ?view ?ws ?sol
      (bindIO (each_wallet (spyx_stage env (sc_deployer c)) ?ws) (\<lambda>_.
          bindIO (on_chain (readAll env ?ws)) (\<lambda>wallets.
          bindIO (on_chain (en_balance env (sc_deployer c))) (\<lambda>lamports.
          bindIO (record_stage (simple_stage ''verify'' (if fst (?check wallets lamports) then StageDone else StageFailed)))
            (\<lambda>_. returnIO (Some (?check wallets lamports))))))) ?R"
    by (intro triple_bind [OF tok'] triple_bind [OF readAll_triple [OF h d]]
        triple_bind [OF triple_keeps [OF keeps_on_chain [OF honest_keeps(1) [OF h]]]] verify)
  show ?thesis
    unfolding fund_stages_def Let_def
    by (rule triple_bind [OF sol], rule triple_bind [OF triple_keeps [OF deployer_ata_keeps [OF h]]],
        rule triple_bind [OF triple_keeps [OF swap_stages_keeps [OF h]]], rule triple_if, rule triple_return, simp, rule rest)
qed

text \<open>Runs one after another, each with its own plan, none of which need to have finished.\<close>

fun fund_runs ::
  "rounder \<Rightarrow> 'w fund_env \<Rightarrow> swap_config \<Rightarrow> (fund_plan \<times> jsnum \<times> int) list \<Rightarrow> 'w \<times> stage_record list \<Rightarrow> 'w \<times> stage_record list" where
  "fund_runs fl env c [] s = s"
| "fund_runs fl env c ((plan, testUsd, margin) # runs) s =
     fund_runs fl env c runs (snd (fund_stages fl env c plan testUsd margin s))"

definition plan_aims :: "(string \<Rightarrow> int \<times> int) \<Rightarrow> string \<Rightarrow> fund_plan \<Rightarrow> bool" where
  "plan_aims T deployer plan \<longleftrightarrow>
     (\<forall>p \<in> set (fp_wallets plan). wp_pubkey p \<noteq> deployer \<and> T (wp_pubkey p) = (wp_solTarget p, wp_spyxTarget p))"

definition at_target :: "(string \<Rightarrow> int \<times> int) \<Rightarrow> (string \<Rightarrow> int \<times> int) \<Rightarrow> (string \<Rightarrow> int \<times> int) \<Rightarrow> string \<Rightarrow> bool" where
  "at_target T v v' k \<longleftrightarrow> raised {fst (T k)} (fst (v k)) (fst (v' k)) \<and> raised {snd (T k)} (snd (v k)) (snd (v' k))"

lemma toward_at_target:
  assumes "toward (fp_wallets plan) v v'" "plan_aims T deployer plan"
  shows "at_target T v v' k"
proof -
  have "{wp_solTarget p |p. p \<in> set (fp_wallets plan) \<and> wp_pubkey p = k} \<subseteq> {fst (T k)}"
    "{wp_spyxTarget p |p. p \<in> set (fp_wallets plan) \<and> wp_pubkey p = k} \<subseteq> {snd (T k)}"
    using assms(2) by (auto simp: plan_aims_def)
  with assms(1) show ?thesis unfolding at_target_def toward_def raised_def by blast
qed

lemma at_target_trans: "at_target T v v' k \<Longrightarrow> at_target T v' v'' k \<Longrightarrow> at_target T v v'' k"
  by (auto simp: at_target_def raised_def)

lemma one_run:
  assumes "honest_chain env hold (sc_deployer c)" "plan_aims T (sc_deployer c) plan"
    and "fund_stages fl env c plan testUsd margin s = (r, s')"
  shows "at_target T (wallets_view hold (sc_deployer c) (fst s)) (wallets_view hold (sc_deployer c) (fst s')) k"
proof -
  have d: "\<forall>p \<in> set (fp_wallets plan). wp_pubkey p \<noteq> sc_deployer c" using assms(2) by (simp add: plan_aims_def)
  from tripleD [OF fund_stages_triple [OF assms(1) d] assms(3)] show ?thesis
    using toward_at_target [OF _ assms(2)] by simp
qed

lemma many_runs:
  assumes "honest_chain env hold (sc_deployer c)" "\<forall>x \<in> set runs. plan_aims T (sc_deployer c) (fst x)"
  shows "at_target T (wallets_view hold (sc_deployer c) (fst s)) (wallets_view hold (sc_deployer c) (fst (fund_runs fl env c runs s))) k"
  using assms(2)
proof (induction runs arbitrary: s)
  case Nil
  show ?case by (simp add: at_target_def)
next
  case (Cons x runs)
  obtain plan t m where x: "x = (plan, t, m)" by (cases x)
  obtain r s1 where run: "fund_stages fl env c plan t m s = (r, s1)" by (cases "fund_stages fl env c plan t m s") blast
  have "at_target T (wallets_view hold (sc_deployer c) (fst s)) (wallets_view hold (sc_deployer c) (fst s1)) k"
    using one_run [OF assms(1) _ run] Cons.prems x by simp
  moreover have "at_target T (wallets_view hold (sc_deployer c) (fst s1))
      (wallets_view hold (sc_deployer c) (fst (fund_runs fl env c runs s1))) k" using Cons by simp
  ultimately show ?case using at_target_trans by (auto simp: x run)
qed


text \<open>
  A ledger as the world, where every transaction lands; the answer to the transfer to the role \<open>lost\<close> is lost.
\<close>

definition ledger_env :: "(string \<Rightarrow> int \<times> int) fund_env" where
  "ledger_env =
     \<lparr>en_balance = \<lambda>k w. (Inr (fst (w k)), w), en_token = \<lambda>k w. (Inr (Some (max 0 (snd (w k)))), w),
      en_send = \<lambda>l ix w. (case ix of
          TransferSol k x \<Rightarrow> (if l = ''sol:lost'' then (Inl (NodeError ''timeout''), w(k := (fst (w k) + x, snd (w k))))
                              else (Inr ''sig'', w(k := (fst (w k) + x, snd (w k)))))
        | CreateAta k \<Rightarrow> (Inr ''sig'', w)
        | TransferSpyx k x \<Rightarrow> (Inr ''sig'', w(k := (fst (w k), max 0 (snd (w k)) + x)))),
      en_sleep = (\<lambda>w. (Inr (), w)), en_quote = \<lambda>n w. (Inl (NodeError ''no route''), w),
      en_execute = \<lambda>q w. (Inr None, w), en_confirm = \<lambda>t w. (Inr True, w)\<rparr>"

definition ledger_hold :: "(string \<Rightarrow> int \<times> int) \<Rightarrow> string \<Rightarrow> int \<times> int" where
  "ledger_hold w k = (fst (w k), max 0 (snd (w k)))"

definition example_swap_config :: swap_config where
  "example_swap_config = \<lparr>sc_slippageBps = Fin 50, sc_maxDeviationBps = Fin 200, sc_solUsd = Fin 150, sc_spyxUsd = Fin 600,
     sc_decimals = 8, sc_multiplier = Fin 1, sc_minDeployerLamports = 5050000000, sc_deployer = ''BBU''\<rparr>"

definition example_stage_plan :: "string \<Rightarrow> fund_plan" where
  "example_stage_plan role =
     \<lparr>fp_wallets = [(example_wallet_plan 0)\<lparr>wp_role := role\<rparr>], fp_spyxToTransfer = 740000, fp_spyxToBuy = 0, fp_solToSend = 60000000,
      fp_atasToCreate = 1, fp_ataRentLamports = 2039280, fp_ataRentTotal = 2039280, fp_feeBuffer = 5000000,
      fp_swapLamportsEstimate = 0, fp_deployerBalance = 10000000000, fp_deployerSpend = 67039280, fp_deployerLeft = 9932960720,
      fp_minDeployerLamports = 5050000000, fp_deployerOk = True,
      fp_usd = \<lparr>us_sol = Fin 9, us_spyx = Fin 0, us_ataRent = Fin 0\<rparr>, fp_abort = None, fp_complete = False\<rparr>"

definition example_ledger :: "string \<Rightarrow> int \<times> int" where
  "example_ledger = (\<lambda>_. (0, 0))(''BBU'' := (10000000000, 800000))"

lemma ledger_honest: "honest_chain ledger_env ledger_hold deployer"
  unfolding honest_chain_def Let_def ledger_env_def fund_env.simps
  by (intro conjI allI impI) (auto simp: keeps_def wallets_view_def ledger_hold_def fun_eq_iff split: fund_ix.splits option.splits)


section \<open>Only checked routes are executed\<close>

text \<open>
  The environment with a second lock on the swap: a route is executed only when it passes the quote check for
  the required amount and the balance just read covers it above the deploy minimum.
\<close>

definition route_allowed :: "rounder \<Rightarrow> 'w fund_env \<Rightarrow> swap_config \<Rightarrow> int \<Rightarrow> route \<Rightarrow> 'w \<Rightarrow> bool" where
  "route_allowed fl env c required q w \<longleftrightarrow>
     (\<exists>chk. route_check fl c required q = Inr chk \<and> qc_ok chk) \<and>
     (\<exists>w0 n. en_balance env (sc_deployer c) w0 = (Inr n, w) \<and> sc_minDeployerLamports c \<le> n - rt_lamportsIn q)"

definition locked_env :: "rounder \<Rightarrow> 'w fund_env \<Rightarrow> swap_config \<Rightarrow> int \<Rightarrow> 'w fund_env" where
  "locked_env fl env c required =
     env\<lparr>en_execute := \<lambda>q w. if route_allowed fl env c required q w then en_execute env q w
                              else (Inl (CallerError ''not checked''), w)\<rparr>"

lemma locked_calls [simp]:
  "en_balance (locked_env fl env c required) = en_balance env" "en_token (locked_env fl env c required) = en_token env"
  "en_sleep (locked_env fl env c required) = en_sleep env" "en_quote (locked_env fl env c required) = en_quote env"
  by (simp_all add: locked_env_def)

lemma locked_loops [simp]:
  "token_amount (locked_env fl env c required) k = token_amount env k"
  "sizeLoop (locked_env fl env c required) r n q = sizeLoop env r n q"
  "receiveLoop (locked_env fl env c required) d b n v = receiveLoop env d b n v"
proof -
  show t: "token_amount (locked_env fl env c required) k = token_amount env k" for k by (simp add: token_amount_def)
  have "sizeLoop (locked_env fl env c required) r n = sizeLoop env r n"
    by (induction n) (rule ext, simp add: Let_def)+
  then show "sizeLoop (locked_env fl env c required) r n q = sizeLoop env r n q" by simp
  show "receiveLoop (locked_env fl env c required) d b n v = receiveLoop env d b n v"
    by (induction n arbitrary: v) (simp_all add: t cong: if_cong)
qed

lemma bindIO_same:
  "(\<And>x s'. m s = (Inr x, s') \<Longrightarrow> f x s' = g x s') \<Longrightarrow> bindIO m f s = bindIO m g s"
  by (simp add: bindIO_def split: prod.splits sum.splits)

lemma execute_swap_locked:
  assumes "route_allowed fl env c required q (fst s)"
  shows "execute_swap (locked_env fl env c required) c id' b q chk s = execute_swap env c id' b q chk s"
proof -
  have "on_chain (en_execute (locked_env fl env c required) q) s' = on_chain (en_execute env q) s'" if "fst s' = fst s" for s'
    using that assms by (simp add: on_chain_def locked_env_def)
  then show ?thesis
    unfolding execute_swap_def locked_loops by (intro bindIO_same) (auto simp: record_stage_def bindIO_def)
qed

lemma quoted_swap_locked:
  fixes env :: "'w fund_env"
  shows "quoted_swap fl (locked_env fl env c required) c id' lamports required b = quoted_swap fl env c id' lamports required b"
proof
  fix s
  let ?env = "locked_env fl env c required"
  have balance: "bindIO (on_chain (en_balance env (sc_deployer c))) (\<lambda>n.
        if n - rt_lamportsIn q < sc_minDeployerLamports c then throwIO e else execute_swap ?env c id' b q chk) s2 =
      bindIO (on_chain (en_balance env (sc_deployer c))) (\<lambda>n.
        if n - rt_lamportsIn q < sc_minDeployerLamports c then throwIO e else execute_swap env c id' b q chk) s2"
    if "route_check fl c required q = Inr chk" "qc_ok chk" for q chk e s2
  proof (rule bindIO_same)
    fix n s3
    assume "on_chain (en_balance env (sc_deployer c)) s2 = (Inr n, s3)"
    then have "en_balance env (sc_deployer c) (fst s2) = (Inr n, fst s3)" by (auto simp: on_chain_def split: prod.splits)
    then have "route_allowed fl env c required q (fst s3)" if "\<not> n - rt_lamportsIn q < sc_minDeployerLamports c"
      using that \<open>route_check fl c required q = Inr chk\<close> \<open>qc_ok chk\<close> unfolding route_allowed_def by force
    then show "(if n - rt_lamportsIn q < sc_minDeployerLamports c then throwIO e else execute_swap ?env c id' b q chk) s3 =
        (if n - rt_lamportsIn q < sc_minDeployerLamports c then throwIO e else execute_swap env c id' b q chk) s3"
      by (cases "n - rt_lamportsIn q < sc_minDeployerLamports c") (simp_all add: execute_swap_locked)
  qed
  show "quoted_swap fl ?env c id' lamports required b s = quoted_swap fl env c id' lamports required b s"
    unfolding quoted_swap_def locked_calls locked_loops
  proof (intro bindIO_same)
    fix q0 q chk and s0 s1 s2 :: "'w \<times> stage_record list"
    assume "liftIO (route_check fl c required q) s1 = (Inr chk, s2)"
    then have "route_check fl c required q = Inr chk" by (auto simp: liftIO_def split: sum.splits)
    with balance show "(if \<not> qc_ok chk
         then bindIO (record_stage (simple_stage id' StageFailed)) (\<lambda>_. throwIO (CallerError (id' @ '' refused'')))
         else bindIO (on_chain (en_balance env (sc_deployer c))) (\<lambda>lamportsNow.
              if lamportsNow - rt_lamportsIn q < sc_minDeployerLamports c
              then throwIO (CallerError (id' @ '' refused: below the deploy minimum''))
              else execute_swap ?env c id' b q chk)) s2 =
        (if \<not> qc_ok chk
         then bindIO (record_stage (simple_stage id' StageFailed)) (\<lambda>_. throwIO (CallerError (id' @ '' refused'')))
         else bindIO (on_chain (en_balance env (sc_deployer c))) (\<lambda>lamportsNow.
              if lamportsNow - rt_lamportsIn q < sc_minDeployerLamports c
              then throwIO (CallerError (id' @ '' refused: below the deploy minimum''))
              else execute_swap env c id' b q chk)) s2" by simp
  qed
qed

text \<open>
  A swap executes checked routes only: whatever the provider quotes and the chain answers, a swap stage
  behaves the same with a second lock on the execution that lets a route pass only when the quote check for
  the required amount accepts it and the balance read last, less the input, keeps what the deploy needs.
\<close>

theorem swaps_execute_checked_routes:
  "runSwap fl (locked_env fl env c required) c id' lamports required = runSwap fl env c id' lamports required"
  unfolding runSwap_def locked_loops quoted_swap_locked ..

end
