(* ===== verification/TxFlow.thy ===== *)
theory TxFlow
  imports Prelude
begin

text \<open>
  \<^verbatim>\<open>app/src/lib/chain/txFlow.ts\<close>: the state machine behind every multi-transaction action of the web app (create
  a launch, trade, redeem, crank) and \<open>runSteps\<close>, which executes the steps and drives it. The reducer is a
  function of state and event; \<open>flow_step\<close> is its step relation and \<open>reachable_flow\<close> the states it can get
  into from any events in any order. The properties: what holds in every reachable state, that a finished
  step never changes again, and that running, failing, resuming and running again keeps the flow in step
  with what was really done.
\<close>

section \<open>States and events\<close>

datatype flow_step_status = StepPending | StepActive | StepDone | StepFailed | StepSkipped
datatype step_phase = Preparing | Signing | Confirming
datatype flow_status = FlowIdle | FlowRunning | FlowSucceeded | FlowFailed

record tx_step =
  ts_id :: string
  ts_label :: string
  ts_status :: flow_step_status
  ts_phase :: "step_phase option"
  ts_signature :: "string option"
  ts_detail :: "string option"
  ts_error :: "string option"

record tx_flow_state =
  fs_status :: flow_status
  fs_steps :: "tx_step list"
  fs_error :: "string option"
  fs_result :: "string option"

datatype tx_flow_event =
    EvStart "(string \<times> string) list"
  | EvStepStarted string "step_phase option"
  | EvStepPhase string step_phase
  | EvStepSucceeded string "string option" "string option"
  | EvStepSkipped string "string option"
  | EvStepFailed string string "bool option"
  | EvStepsAdded "(string \<times> string) list"
  | EvSkipPending string
  | EvFinish "string option"
  | EvFail string
  | EvResume
  | EvReset

definition IDLE_FLOW :: tx_flow_state where
  "IDLE_FLOW = \<lparr>fs_status = FlowIdle, fs_steps = [], fs_error = None, fs_result = None\<rparr>"

text \<open>A step object with just id, label and status, and one with outcome fields.\<close>

definition outcome_step ::
  "string \<Rightarrow> string \<Rightarrow> flow_step_status \<Rightarrow> string option \<Rightarrow> string option \<Rightarrow> string option \<Rightarrow> tx_step" where
  "outcome_step id' label st sig detail err =
     \<lparr>ts_id = id', ts_label = label, ts_status = st, ts_phase = None, ts_signature = sig, ts_detail = detail,
      ts_error = err\<rparr>"

definition pending_step :: "string \<Rightarrow> string \<Rightarrow> tx_step" where
  "pending_step id' label = outcome_step id' label StepPending None None None"

text \<open>\<open>update\<close>: the first step with the id is replaced, \<open>None\<close> when nothing changes (the same state object).\<close>

fun update_first :: "string \<Rightarrow> (tx_step \<Rightarrow> tx_step option) \<Rightarrow> tx_step list \<Rightarrow> tx_step list option" where
  "update_first id' f [] = None"
| "update_first id' f (s # ss) =
     (if ts_id s = id' then map_option (\<lambda>s'. s' # ss) (f s) else map_option ((#) s) (update_first id' f ss))"

definition update_flow :: "tx_flow_state \<Rightarrow> string \<Rightarrow> (tx_step \<Rightarrow> tx_step option) \<Rightarrow> tx_flow_state option" where
  "update_flow state id' f = map_option (\<lambda>ss. state\<lparr>fs_steps := ss\<rparr>) (update_first id' f (fs_steps state))"

definition updated :: "tx_flow_state \<Rightarrow> string \<Rightarrow> (tx_step \<Rightarrow> tx_step option) \<Rightarrow> tx_flow_state" where
  "updated state id' f = (case update_flow state id' f of Some s \<Rightarrow> s | None \<Rightarrow> state)"

definition unfinished :: "tx_step \<Rightarrow> bool" where
  "unfinished s \<longleftrightarrow> ts_status s = StepActive \<or> ts_status s = StepPending"

section \<open>The reducer\<close>

fun txFlowReducer :: "tx_flow_state \<Rightarrow> tx_flow_event \<Rightarrow> tx_flow_state" where
  "txFlowReducer state EvReset = IDLE_FLOW"
| "txFlowReducer state (EvStart steps) =
     (if fs_status state = FlowRunning then state
      else \<lparr>fs_status = FlowRunning, fs_steps = map (\<lambda>(i, l). pending_step i l) steps, fs_error = None, fs_result = None\<rparr>)"
| "txFlowReducer state EvResume =
     (if fs_status state \<noteq> FlowFailed then state
      else \<lparr>fs_status = FlowRunning,
            fs_steps = map (\<lambda>s. if ts_status s = StepFailed \<or> ts_status s = StepActive
                                then pending_step (ts_id s) (ts_label s) else s) (fs_steps state),
            fs_error = None, fs_result = None\<rparr>)"
| "txFlowReducer state (EvStepsAdded steps) =
     (if fs_status state \<noteq> FlowRunning then state
      else (let known = set (map ts_id (fs_steps state));
                added = map (\<lambda>(i, l). pending_step i l) (filter (\<lambda>s. fst s \<notin> known) steps)
            in if added \<noteq> [] then state\<lparr>fs_steps := fs_steps state @ added\<rparr> else state))"
| "txFlowReducer state (EvStepStarted id' phase) =
     (if fs_status state \<noteq> FlowRunning \<or> list_ex (\<lambda>s. ts_status s = StepActive) (fs_steps state) then state
      else updated state id' (\<lambda>s.
             if ts_status s = StepPending
             then Some (s\<lparr>ts_status := StepActive, ts_phase := Some (case phase of Some p \<Rightarrow> p | None \<Rightarrow> Preparing)\<rparr>)
             else None))"
| "txFlowReducer state (EvStepPhase id' phase) =
     (if fs_status state \<noteq> FlowRunning then state
      else updated state id' (\<lambda>s. if ts_status s = StepActive then Some (s\<lparr>ts_phase := Some phase\<rparr>) else None))"
| "txFlowReducer state (EvStepSucceeded id' sig detail) =
     (if fs_status state \<noteq> FlowRunning then state
      else updated state id' (\<lambda>s.
             if unfinished s then Some (outcome_step (ts_id s) (ts_label s) StepDone sig detail None) else None))"
| "txFlowReducer state (EvStepSkipped id' detail) =
     (if fs_status state \<noteq> FlowRunning then state
      else updated state id' (\<lambda>s.
             if unfinished s then Some (outcome_step (ts_id s) (ts_label s) StepSkipped None detail None) else None))"
| "txFlowReducer state (EvSkipPending detail) =
     (if fs_status state \<noteq> FlowRunning then state
      else state\<lparr>fs_steps := map (\<lambda>s. if ts_status s = StepPending
                                      then s\<lparr>ts_status := StepSkipped, ts_detail := Some detail\<rparr> else s) (fs_steps state)\<rparr>)"
| "txFlowReducer state (EvStepFailed id' err terminal) =
     (if fs_status state \<noteq> FlowRunning then state
      else case update_flow state id' (\<lambda>s.
             if unfinished s then Some (outcome_step (ts_id s) (ts_label s) StepFailed None None (Some err)) else None) of
             None \<Rightarrow> state
           | Some nxt \<Rightarrow> if terminal = Some False then nxt else nxt\<lparr>fs_status := FlowFailed, fs_error := Some err\<rparr>)"
| "txFlowReducer state (EvFail err) =
     (if fs_status state = FlowSucceeded then state
      else state\<lparr>fs_status := FlowFailed, fs_error := Some err,
                 fs_steps := map (\<lambda>s. if ts_status s = StepActive
                                     then outcome_step (ts_id s) (ts_label s) StepFailed None None (Some err) else s)
                               (fs_steps state)\<rparr>)"
| "txFlowReducer state (EvFinish result) =
     (if fs_status state \<noteq> FlowRunning then state
      else if list_ex (\<lambda>s. ts_status s = StepPending \<or> ts_status s = StepActive \<or> ts_status s = StepFailed) (fs_steps state)
           then state
      else state\<lparr>fs_status := FlowSucceeded, fs_result := result\<rparr>)"

section \<open>Running the steps\<close>

text \<open>
  A step's own work is a function of the world: \<open>rn_alreadyDone\<close> and \<open>rn_run\<close> are the step's callbacks, the
  latter with the phases it reports before it ends. \<open>runSteps\<close> gives the events it dispatched, the ids it
  completed, the error it rethrew and the world.
\<close>

record ('w, 'e) step_runner =
  rn_id :: string
  rn_label :: string
  rn_alreadyDone :: "('w \<Rightarrow> ('e + bool) \<times> 'w) option"
  rn_run :: "'w \<Rightarrow> step_phase list \<times> ('e + string option \<times> string option) \<times> 'w"

definition check_done :: "('w, 'e) step_runner \<Rightarrow> 'w \<Rightarrow> ('e + bool) \<times> 'w" where
  "check_done step w = (case rn_alreadyDone step of None \<Rightarrow> (Inr False, w) | Some f \<Rightarrow> f w)"

fun runSteps ::
  "('e \<Rightarrow> string) \<Rightarrow> ('w, 'e) step_runner list \<Rightarrow> string set \<Rightarrow> 'w \<Rightarrow>
     tx_flow_event list \<times> string set \<times> 'e option \<times> 'w" where
  "runSteps describe [] completed w = ([], completed, None, w)"
| "runSteps describe (step # steps) completed w =
     (if rn_id step \<in> completed then runSteps describe steps completed w
      else let started = EvStepStarted (rn_id step) (Some Preparing) in
        case check_done step w of
          (Inl e, w1) \<Rightarrow> ([started, EvStepFailed (rn_id step) (describe e) None], completed, Some e, w1)
        | (Inr True, w1) \<Rightarrow>
            (let (evs, rest) = runSteps describe steps (insert (rn_id step) completed) w1
             in (started # EvStepSucceeded (rn_id step) None (Some ''Already confirmed on chain'') # evs, rest))
        | (Inr False, w1) \<Rightarrow>
            (case rn_run step w1 of
               (phases, Inl e, w2) \<Rightarrow>
                 (started # map (EvStepPhase (rn_id step)) phases @ [EvStepFailed (rn_id step) (describe e) None],
                  completed, Some e, w2)
             | (phases, Inr (sig, detail), w2) \<Rightarrow>
                 (let (evs, rest) = runSteps describe steps (insert (rn_id step) completed) w2
                  in (started # map (EvStepPhase (rn_id step)) phases @ EvStepSucceeded (rn_id step) sig detail # evs,
                      rest))))"

section \<open>Every reachable state\<close>

lemma update_first_split:
  "update_first id' f ss = Some ss' \<Longrightarrow>
   \<exists>pre s post s'. ss = pre @ s # post \<and> ts_id s = id' \<and> f s = Some s' \<and> ss' = pre @ s' # post"
proof (induction ss arbitrary: ss')
  case (Cons a ss)
  show ?case
  proof (cases "ts_id a = id'")
    case True
    with Cons.prems show ?thesis by (auto intro: exI [of _ "[]"])
  next
    case False
    with Cons.prems obtain r where "update_first id' f ss = Some r" "ss' = a # r" by auto
    with Cons.IH [of r] obtain pre s post s' where "ss = pre @ s # post" "ts_id s = id'" "f s = Some s'"
      "r = pre @ s' # post" by auto
    with \<open>ss' = a # r\<close> show ?thesis
      by (intro exI [of _ "a # pre"] exI [of _ s] exI [of _ post] exI [of _ s']) simp
  qed
qed simp

text \<open>An updated state is the old one, or the old one with one step replaced.\<close>

lemma updated_cases:
  obtains (same) "updated st id' f = st"
  | (step) pre s post s' where "fs_steps st = pre @ s # post" "ts_id s = id'" "f s = Some s'"
      "updated st id' f = st\<lparr>fs_steps := pre @ s' # post\<rparr>"
proof (cases "update_first id' f (fs_steps st)")
  case None
  then show thesis using same by (simp add: updated_def update_flow_def)
next
  case (Some ss)
  with update_first_split [OF this] step show thesis by (auto simp: updated_def update_flow_def)
qed

abbreviation active :: "tx_step \<Rightarrow> bool" where "active s \<equiv> ts_status s = StepActive"
abbreviation finished :: "tx_step \<Rightarrow> bool" where "finished s \<equiv> ts_status s = StepDone \<or> ts_status s = StepSkipped"

definition flow_ok :: "tx_flow_state \<Rightarrow> bool" where
  "flow_ok st \<longleftrightarrow>
     length (filter active (fs_steps st)) \<le> 1 \<and>
     (fs_status st = FlowIdle \<longrightarrow> fs_steps st = []) \<and>
     (fs_status st = FlowSucceeded \<longrightarrow> (\<forall>s \<in> set (fs_steps st). finished s)) \<and>
     (fs_status st = FlowFailed \<longleftrightarrow> fs_error st \<noteq> None) \<and>
     (fs_result st \<noteq> None \<longrightarrow> fs_status st = FlowSucceeded) \<and>
     (\<forall>s \<in> set (fs_steps st). ts_status s = StepFailed \<longleftrightarrow> ts_error s \<noteq> None)"

lemma flow_ok_replace:
  assumes ok: "flow_ok st" and st: "fs_status st = FlowRunning" and split: "fs_steps st = pre @ s # post"
    and act: "active s' \<Longrightarrow> active s \<or> \<not> list_ex active (fs_steps st)"
    and err: "ts_status s' = StepFailed \<longleftrightarrow> ts_error s' \<noteq> None"
  shows "flow_ok (st\<lparr>fs_steps := pre @ s' # post\<rparr>)"
proof -
  have "length (filter active (pre @ s' # post)) \<le> 1"
  proof (cases "active s' \<and> \<not> active s")
    case True
    with act have "\<not> list_ex active (pre @ s # post)" by (simp add: split)
    then have "filter active (pre @ s # post) = []" by (simp add: filter_empty_conv list_ex_iff)
    then show ?thesis by (auto split: if_splits)
  next
    case False
    with ok show ?thesis by (auto simp: flow_ok_def split split: if_splits)
  qed
  with ok st err show ?thesis by (auto simp: flow_ok_def split)
qed

lemma flow_ok_updated:
  assumes "flow_ok st" "fs_status st = FlowRunning"
    and "\<And>s s'. s \<in> set (fs_steps st) \<Longrightarrow> f s = Some s' \<Longrightarrow>
           (active s' \<longrightarrow> active s \<or> \<not> list_ex active (fs_steps st)) \<and> (ts_status s' = StepFailed \<longleftrightarrow> ts_error s' \<noteq> None)"
  shows "flow_ok (updated st id' f)"
proof (cases rule: updated_cases [of st id' f])
  case same
  with assms(1) show ?thesis by simp
next
  case (step pre s post s')
  have "s \<in> set (fs_steps st)" by (simp add: step(1))
  from assms(3) [OF this step(3)] show ?thesis
    unfolding step(4) by (intro flow_ok_replace [OF assms(1,2) step(1)]) auto
qed

lemma no_active: "\<forall>s \<in> set ss. \<not> active s \<Longrightarrow> length (filter active ss) \<le> 1"
  by (simp add: filter_False)

lemma reducer_keeps_ok: "flow_ok st \<Longrightarrow> flow_ok (txFlowReducer st ev)"
proof (cases ev)
  case (EvStepFailed id' err terminal)
  assume ok: "flow_ok st"
  let ?f = "\<lambda>s. if unfinished s then Some (outcome_step (ts_id s) (ts_label s) StepFailed None None (Some err)) else None"
  show ?thesis
  proof (cases "fs_status st = FlowRunning \<and> update_flow st id' ?f \<noteq> None")
    case True
    then obtain nxt where n: "update_flow st id' ?f = Some nxt" by auto
    have "flow_ok (updated st id' ?f)"
      using ok True by (intro flow_ok_updated) (auto simp: outcome_step_def split: if_splits)
    then have "flow_ok nxt" "fs_status nxt = fs_status st"
      using n by (auto simp: updated_def update_flow_def)
    with True n show ?thesis by (auto simp: EvStepFailed flow_ok_def)
  next
    case False
    with ok show ?thesis by (auto simp: EvStepFailed)
  qed
next
  case (EvSkipPending detail)
  assume ok: "flow_ok st"
  let ?g = "\<lambda>s. if ts_status s = StepPending then s\<lparr>ts_status := StepSkipped, ts_detail := Some detail\<rparr> else s"
  have "filter active (map ?g ss) = filter active ss" for ss by (induction ss) auto
  moreover have "\<forall>s \<in> set (map ?g (fs_steps st)). ts_status s = StepFailed \<longleftrightarrow> ts_error s \<noteq> None"
  proof
    fix s assume "s \<in> set (map ?g (fs_steps st))"
    then obtain a where "a \<in> set (fs_steps st)" "s = ?g a" by auto
    moreover have "ts_status a = StepFailed \<longleftrightarrow> ts_error a \<noteq> None"
      using ok \<open>a \<in> set (fs_steps st)\<close> unfolding flow_ok_def by blast
    ultimately show "ts_status s = StepFailed \<longleftrightarrow> ts_error s \<noteq> None" by auto
  qed
  ultimately show ?thesis
    using ok by (cases "fs_status st") (simp_all add: EvSkipPending flow_ok_def del: set_map not_None_eq)
next
  case (EvStart ss)
  assume "flow_ok st"
  then show ?thesis
    by (auto simp: EvStart flow_ok_def pending_step_def outcome_step_def split_def filter_map o_def)
next
  case EvResume
  assume "flow_ok st"
  then show ?thesis
    by (auto simp: EvResume flow_ok_def pending_step_def outcome_step_def filter_map o_def intro!: no_active split: if_splits)
next
  case (EvStepsAdded ss)
  assume "flow_ok st"
  then show ?thesis
    by (auto simp: EvStepsAdded flow_ok_def Let_def pending_step_def outcome_step_def split_def filter_map o_def)
next
  case (EvFail err)
  assume "flow_ok st"
  then show ?thesis by (auto simp: EvFail flow_ok_def outcome_step_def intro!: no_active)
next
  case (EvFinish r)
  assume ok: "flow_ok st"
  let ?open = "list_ex (\<lambda>s. ts_status s = StepPending \<or> ts_status s = StepActive \<or> ts_status s = StepFailed) (fs_steps st)"
  have fin: "finished s" if "\<not> ?open" "s \<in> set (fs_steps st)" for s
    using that by (cases "ts_status s") (auto simp: list_ex_iff)
  show ?thesis
  proof (cases "fs_status st \<noteq> FlowRunning \<or> ?open")
    case True
    then have "txFlowReducer st ev = st" by (auto simp: EvFinish)
    with ok show ?thesis by simp
  next
    case False
    with ok fin show ?thesis by (simp add: EvFinish flow_ok_def)
  qed
next
  case EvReset
  then show ?thesis by (simp add: IDLE_FLOW_def flow_ok_def)
next
  case (EvStepStarted id' phase)
  assume ok: "flow_ok st"
  have "ts_error s = None" if "s \<in> set (fs_steps st)" "ts_status s = StepPending" for s
    using ok that by (auto simp: flow_ok_def)
  with ok show ?thesis by (auto simp: EvStepStarted intro!: flow_ok_updated split: if_splits)
next
  case (EvStepPhase id' phase)
  assume ok: "flow_ok st"
  have "ts_error s = None" if "s \<in> set (fs_steps st)" "active s" for s
    using ok that by (auto simp: flow_ok_def)
  with ok show ?thesis by (auto simp: EvStepPhase intro!: flow_ok_updated split: if_splits)
next
  case (EvStepSucceeded id' sig detail)
  assume "flow_ok st"
  then show ?thesis by (auto simp: EvStepSucceeded outcome_step_def intro!: flow_ok_updated split: if_splits)
next
  case (EvStepSkipped id' detail)
  assume "flow_ok st"
  then show ?thesis by (auto simp: EvStepSkipped outcome_step_def intro!: flow_ok_updated split: if_splits)
qed

inductive flow_step :: "tx_flow_state \<Rightarrow> tx_flow_state \<Rightarrow> bool" where
  event: "txFlowReducer st ev = st' \<Longrightarrow> flow_step st st'"

inductive reachable_flow :: "tx_flow_state \<Rightarrow> bool" where
  idle: "reachable_flow IDLE_FLOW"
| step: "reachable_flow st \<Longrightarrow> flow_step st st' \<Longrightarrow> reachable_flow st'"

inductive_cases flow_stepE: "flow_step st st'"

lemma reachable_flow_ok: "reachable_flow st \<Longrightarrow> flow_ok st"
proof (induction rule: reachable_flow.induct)
  case idle
  show ?case by (simp add: flow_ok_def IDLE_FLOW_def)
next
  case (step st st')
  then show ?case by (auto elim!: flow_stepE intro: reducer_keeps_ok)
qed


section \<open>Finished steps stay\<close>

text \<open>A later list of steps keeps ids, labels and order of an earlier one, and its finished steps whole.\<close>

definition carries :: "tx_step list \<Rightarrow> tx_step list \<Rightarrow> bool" where
  "carries old new \<longleftrightarrow> length old \<le> length new \<and>
     (\<forall>i < length old. ts_id (new ! i) = ts_id (old ! i) \<and> ts_label (new ! i) = ts_label (old ! i) \<and>
        (finished (old ! i) \<longrightarrow> new ! i = old ! i))"

lemma carries_refl [simp]: "carries ss ss"
  by (simp add: carries_def)

lemma carries_trans: "carries a b \<Longrightarrow> carries b c \<Longrightarrow> carries a c"
  by (auto simp: carries_def)

lemma carries_append [simp]: "carries ss (ss @ ss')"
  by (simp add: carries_def nth_append)

lemma carries_map:
  "(\<And>s. ts_id (g s) = ts_id s \<and> ts_label (g s) = ts_label s \<and> (finished s \<longrightarrow> g s = s)) \<Longrightarrow> carries ss (map g ss)"
  by (simp add: carries_def)

lemma carries_replace:
  "ts_id s' = ts_id s \<Longrightarrow> ts_label s' = ts_label s \<Longrightarrow> \<not> finished s \<Longrightarrow> carries (pre @ s # post) (pre @ s' # post)"
  by (auto simp: carries_def nth_append nth_Cons split: nat.splits)

lemma carries_updated:
  assumes "\<And>s s'. f s = Some s' \<Longrightarrow> ts_id s' = ts_id s \<and> ts_label s' = ts_label s \<and> \<not> finished s"
  shows "carries (fs_steps st) (fs_steps (updated st id' f))"
proof (cases rule: updated_cases [of st id' f])
  case (step pre s post s')
  with assms [OF step(3)] show ?thesis by (simp add: carries_replace)
qed simp

definition restarts :: "tx_flow_event \<Rightarrow> bool" where
  "restarts ev \<longleftrightarrow> (case ev of EvStart _ \<Rightarrow> True | EvReset \<Rightarrow> True | _ \<Rightarrow> False)"

lemma reducer_carries: "\<not> restarts ev \<Longrightarrow> carries (fs_steps st) (fs_steps (txFlowReducer st ev))"
proof (cases ev)
  case (EvStepFailed id' err terminal)
  let ?f = "\<lambda>s. if unfinished s then Some (outcome_step (ts_id s) (ts_label s) StepFailed None None (Some err)) else None"
  have "carries (fs_steps st) (fs_steps (updated st id' ?f))"
    by (rule carries_updated) (auto simp: outcome_step_def unfinished_def split: if_splits)
  then show ?thesis by (auto simp: EvStepFailed updated_def split: option.splits)
qed (auto simp: restarts_def Let_def outcome_step_def pending_step_def unfinished_def
       intro!: carries_map carries_updated split: if_splits)

lemma succeeded_stays:
  "fs_status st = FlowSucceeded \<Longrightarrow> \<not> restarts ev \<Longrightarrow> txFlowReducer st ev = st"
  by (cases ev) (simp_all add: restarts_def)

text \<open>
  A late callback never moves a flow backwards: whatever events follow, as long as the flow is not
  started anew or reset, the steps keep their places and labels, a done or skipped step keeps its outcome,
  and a flow that has succeeded does not change at all.
\<close>

theorem flow_never_moves_backwards:
  assumes "\<forall>ev \<in> set evs. \<not> restarts ev"
  shows "carries (fs_steps st) (fs_steps (foldl txFlowReducer st evs)) \<and>
    (fs_status st = FlowSucceeded \<longrightarrow> foldl txFlowReducer st evs = st)"
  using assms
proof (induction evs arbitrary: st)
  case (Cons ev evs)
  then have ev: "\<not> restarts ev" and evs: "\<forall>ev \<in> set evs. \<not> restarts ev" by auto
  have "carries (fs_steps st) (fs_steps (foldl txFlowReducer (txFlowReducer st ev) evs))"
    using Cons.IH [OF evs] reducer_carries [OF ev] carries_trans by blast
  with Cons.IH [OF evs, of st] succeeded_stays [OF _ ev] show ?case by auto
qed simp

text \<open>Two steps: the first succeeds, the second fails, the flow is resumed and finished.\<close>

definition demo_events :: "tx_flow_event list" where
  "demo_events =
     [EvStart [(''config'', ''Create config''), (''pool'', ''Create pool'')], EvStepStarted ''config'' None,
      EvStepSucceeded ''config'' (Some ''sig1'') None, EvStepStarted ''pool'' None,
      EvStepFailed ''pool'' ''rejected'' None]"

lemma reachable_events: "reachable_flow st \<Longrightarrow> reachable_flow (foldl txFlowReducer st evs)"
  by (induction evs arbitrary: st) (auto intro: reachable_flow.step [OF _ flow_step.event [OF refl]])


theorem flow_never_moves_backwards_witness:
  "map ts_status (fs_steps (foldl txFlowReducer IDLE_FLOW (demo_events @ [EvResume]))) = [StepDone, StepPending] \<and>
   fs_steps (foldl txFlowReducer IDLE_FLOW (demo_events @ [EvResume])) ! 0 =
     outcome_step ''config'' ''Create config'' StepDone (Some ''sig1'') None None"
proof -
  let ?st = "foldl txFlowReducer IDLE_FLOW demo_events"
  have c: "carries (fs_steps ?st) (fs_steps (foldl txFlowReducer ?st [EvResume]))"
    using flow_never_moves_backwards [of "[EvResume]" ?st] by (simp add: restarts_def)
  have s: "fs_steps ?st = [outcome_step ''config'' ''Create config'' StepDone (Some ''sig1'') None None,
      outcome_step ''pool'' ''Create pool'' StepFailed None None (Some ''rejected'')]" by code_simp
  have "map ts_status (fs_steps (foldl txFlowReducer IDLE_FLOW (demo_events @ [EvResume]))) = [StepDone, StepPending]"
    by code_simp
  with c s show ?thesis by (simp add: carries_def outcome_step_def)
qed

section \<open>Running, failing and resuming\<close>

text \<open>
  The status of a step in the eye of the runner: done when it is completed, else pending; \<open>at_status\<close> while
  the runner is at the step \<open>id'\<close>, which then has the status \<open>now\<close>.
\<close>

definition base_status :: "string set \<Rightarrow> string \<Rightarrow> flow_step_status" where
  "base_status completed i = (if i \<in> completed then StepDone else StepPending)"

definition at_status :: "flow_step_status \<Rightarrow> string \<Rightarrow> string set \<Rightarrow> string \<Rightarrow> flow_step_status" where
  "at_status now id' completed i = (if i = id' then now else base_status completed i)"

definition has_statuses :: "('w, 'e) step_runner list \<Rightarrow> (string \<Rightarrow> flow_step_status) \<Rightarrow> tx_step list \<Rightarrow> bool" where
  "has_statuses steps g ss \<longleftrightarrow> map ts_id ss = map rn_id steps \<and> (\<forall>s \<in> set ss. ts_status s = g (ts_id s))"

definition matches :: "('w, 'e) step_runner list \<Rightarrow> string set \<Rightarrow> tx_flow_state \<Rightarrow> bool" where
  "matches steps completed st \<longleftrightarrow> fs_status st = FlowRunning \<and> has_statuses steps (base_status completed) (fs_steps st)"

definition at_step :: "('w, 'e) step_runner list \<Rightarrow> string set \<Rightarrow> string \<Rightarrow> tx_flow_state \<Rightarrow> bool" where
  "at_step steps completed id' st \<longleftrightarrow>
     fs_status st = FlowRunning \<and> has_statuses steps (at_status StepActive id' completed) (fs_steps st)"

lemma has_statuses_map:
  assumes "has_statuses steps g ss" "\<And>x. x \<in> set ss \<Longrightarrow> ts_id (r x) = ts_id x \<and> ts_status (r x) = h (ts_id x)"
  shows "has_statuses steps h (map r ss)"
proof -
  have "map (\<lambda>x. ts_id (r x)) ss = map ts_id ss" using assms(2) by (intro map_cong) auto
  with assms show ?thesis by (auto simp: has_statuses_def o_def)
qed

lemma update_first_at:
  assumes "distinct (map ts_id ss)" "s \<in> set ss" "f s = Some s'"
  shows "\<exists>pre post. ss = pre @ s # post \<and> update_first (ts_id s) f ss = Some (pre @ s' # post)"
  using assms(1,2)
proof (induction ss)
  case (Cons a ss)
  show ?case
  proof (cases "a = s")
    case True
    with assms(3) have "a # ss = [] @ s # ss \<and> update_first (ts_id s) f (a # ss) = Some ([] @ s' # ss)" by simp
    then show ?thesis by blast
  next
    case False
    with Cons.prems have n: "ts_id a \<noteq> ts_id s" "s \<in> set ss" by auto
    with Cons obtain pre post where "ss = pre @ s # post" "update_first (ts_id s) f ss = Some (pre @ s' # post)" by auto
    with n(1) have "a # ss = (a # pre) @ s # post \<and> update_first (ts_id s) f (a # ss) = Some ((a # pre) @ s' # post)"
      by simp
    then show ?thesis by blast
  qed
qed simp

text \<open>Updating the step of an id changes its status and keeps the others.\<close>

lemma statuses_updated:
  assumes d: "distinct (map rn_id steps)" and g: "has_statuses steps g ss" and i: "id' \<in> set (map rn_id steps)"
    and f: "\<And>s. ts_status s = g id' \<Longrightarrow> \<exists>s'. f s = Some s' \<and> ts_id s' = ts_id s \<and> ts_status s' = h id'"
    and h: "\<And>i. i \<noteq> id' \<Longrightarrow> h i = g i"
  shows "\<exists>ss'. update_first id' f ss = Some ss' \<and> has_statuses steps h ss'"
proof -
  have ids: "map ts_id ss = map rn_id steps" and gs: "\<forall>s \<in> set ss. ts_status s = g (ts_id s)"
    using g by (simp_all add: has_statuses_def)
  have "id' \<in> set (map ts_id ss)" using i ids by simp
  then obtain s where s: "s \<in> set ss" "ts_id s = id'" by auto
  then obtain s' where s': "f s = Some s'" "ts_id s' = ts_id s" "ts_status s' = h id'" using f gs by blast
  have ds: "distinct (map ts_id ss)" using d ids by simp
  obtain pre post where p: "ss = pre @ s # post" "update_first id' f ss = Some (pre @ s' # post)"
    using update_first_at [of ss s f s'] ds s s'(1) by blast
  have "ts_status x = h (ts_id x)" if "x \<in> set pre \<union> set post" for x
  proof -
    have "ts_id x \<in> ts_id ` (set pre \<union> set post)" using that by blast
    moreover have "ts_id s \<notin> ts_id ` (set pre \<union> set post)" using ds by (auto simp: p(1))
    ultimately have "ts_id x \<noteq> id'" using s(2) by metis
    then show ?thesis using gs that h by (simp add: p(1))
  qed
  then have "has_statuses steps h (pre @ s' # post)"
    using s' s(2) ids p(1) by (auto simp: has_statuses_def)
  with p(2) show ?thesis by blast
qed

lemma started_at:
  assumes d: "distinct (map rn_id steps)" and m: "matches steps completed st"
    and i: "id' \<in> set (map rn_id steps)" "id' \<notin> completed"
  shows "at_step steps completed id' (txFlowReducer st (EvStepStarted id' (Some Preparing)))"
proof -
  have run: "fs_status st = FlowRunning" and g: "has_statuses steps (base_status completed) (fs_steps st)"
    using m by (simp_all add: matches_def)
  let ?f = "\<lambda>s. if ts_status s = StepPending then Some (s\<lparr>ts_status := StepActive,
    ts_phase := Some (case Some Preparing of Some p \<Rightarrow> p | None \<Rightarrow> Preparing)\<rparr>) else None"
  obtain ss where ss: "update_first id' ?f (fs_steps st) = Some ss" "has_statuses steps (at_status StepActive id' completed) ss"
    using statuses_updated [OF d g i(1), of ?f "at_status StepActive id' completed"] i(2)
    by (auto simp: base_status_def at_status_def)
  have "\<forall>s \<in> set (fs_steps st). ts_status s \<noteq> StepActive"
    using g by (simp add: has_statuses_def base_status_def)
  then have "\<not> list_ex (\<lambda>s. ts_status s = StepActive) (fs_steps st)" by (simp add: list_ex_iff)
  with run ss show ?thesis by (simp add: updated_def update_flow_def at_step_def)
qed

lemma phases_at: 
  assumes d: "distinct (map rn_id steps)" and i: "id' \<in> set (map rn_id steps)" and a: "at_step steps completed id' st"
  shows "at_step steps completed id' (foldl txFlowReducer st (map (EvStepPhase id') phases))"
  using a
proof (induction phases arbitrary: st)
  case (Cons p phases)
  then have run: "fs_status st = FlowRunning" and g: "has_statuses steps (at_status StepActive id' completed) (fs_steps st)"
    by (simp_all add: at_step_def)
  let ?f = "\<lambda>s. if ts_status s = StepActive then Some (s\<lparr>ts_phase := Some p\<rparr>) else None"
  obtain ss where "update_first id' ?f (fs_steps st) = Some ss" "has_statuses steps (at_status StepActive id' completed) ss"
    using statuses_updated [OF d g i, of ?f "at_status StepActive id' completed"] by (auto simp: at_status_def)
  with run have "at_step steps completed id' (txFlowReducer st (EvStepPhase id' p))"
    by (simp add: updated_def update_flow_def at_step_def)
  with Cons.IH show ?case by simp
qed simp

lemma succeeded_at:
  assumes d: "distinct (map rn_id steps)" and i: "id' \<in> set (map rn_id steps)" and a: "at_step steps completed id' st"
  shows "matches steps (insert id' completed) (txFlowReducer st (EvStepSucceeded id' sig detail))"
proof -
  have run: "fs_status st = FlowRunning" and g: "has_statuses steps (at_status StepActive id' completed) (fs_steps st)"
    using a by (simp_all add: at_step_def)
  let ?f = "\<lambda>s. if unfinished s then Some (outcome_step (ts_id s) (ts_label s) StepDone sig detail None) else None"
  obtain ss where "update_first id' ?f (fs_steps st) = Some ss" "has_statuses steps (base_status (insert id' completed)) ss"
    using statuses_updated [OF d g i, of ?f "base_status (insert id' completed)"]
    by (auto simp: at_status_def base_status_def unfinished_def outcome_step_def)
  with run show ?thesis by (simp add: updated_def update_flow_def matches_def)
qed

lemma failed_at:
  assumes d: "distinct (map rn_id steps)" and i: "id' \<in> set (map rn_id steps)" "id' \<notin> completed"
    and a: "at_step steps completed id' st"
  shows "fs_status (txFlowReducer st (EvStepFailed id' err None)) = FlowFailed \<and>
    fs_error (txFlowReducer st (EvStepFailed id' err None)) = Some err \<and>
    matches steps completed (txFlowReducer (txFlowReducer st (EvStepFailed id' err None)) EvResume)"
proof -
  have run: "fs_status st = FlowRunning" and g: "has_statuses steps (at_status StepActive id' completed) (fs_steps st)"
    using a by (simp_all add: at_step_def)
  let ?f = "\<lambda>s. if unfinished s then Some (outcome_step (ts_id s) (ts_label s) StepFailed None None (Some err)) else None"
  let ?reset = "\<lambda>s. if ts_status s = StepFailed \<or> ts_status s = StepActive then pending_step (ts_id s) (ts_label s) else s"
  obtain ss where ss: "update_first id' ?f (fs_steps st) = Some ss" "has_statuses steps (at_status StepFailed id' completed) ss"
    using statuses_updated [OF d g i(1), of ?f "at_status StepFailed id' completed"]
    by (auto simp: at_status_def unfinished_def outcome_step_def)
  have ids: "ts_id (?reset x) = ts_id x" for x by (simp add: pending_step_def outcome_step_def)
  have "ts_status (?reset x) = base_status completed (ts_id x)" if "x \<in> set ss" for x
    using ss(2) that i(2) by (auto simp: has_statuses_def at_status_def base_status_def pending_step_def outcome_step_def)
  then have "has_statuses steps (base_status completed) (map ?reset ss)"
    using ss(2) ids by (intro has_statuses_map) blast+
  with run ss(1) show ?thesis by (simp add: update_flow_def matches_def)
qed

text \<open>What a run leaves: all steps completed and the flow ready to finish, or a failure ready to resume.\<close>

definition run_agrees ::
  "('w, 'e) step_runner list \<Rightarrow> ('e \<Rightarrow> string) \<Rightarrow> string set \<Rightarrow> string set \<Rightarrow> 'e option \<Rightarrow> tx_flow_state \<Rightarrow> bool" where
  "run_agrees steps describe completed completed' err st \<longleftrightarrow>
     completed \<subseteq> completed' \<and> completed' \<subseteq> completed \<union> set (map rn_id steps) \<and>
     (case err of
        None \<Rightarrow> matches steps completed' st \<and> set (map rn_id steps) \<subseteq> completed'
      | Some e \<Rightarrow> fs_status st = FlowFailed \<and> fs_error st = Some (describe e) \<and>
                 matches steps completed' (txFlowReducer st EvResume) \<and> \<not> set (map rn_id steps) \<subseteq> completed')"

lemma run_agrees_stop:
  assumes d: "distinct (map rn_id steps)" and i: "id' \<in> set (map rn_id steps)" "id' \<notin> completed"
    and a: "at_step steps completed id' st"
  shows "run_agrees steps describe completed completed (Some e) (txFlowReducer st (EvStepFailed id' (describe e) None))"
  using failed_at [OF d i a, of "describe e"] i by (auto simp: run_agrees_def)

lemma runSteps_agrees:
  assumes d: "distinct (map rn_id steps)"
  shows "set rest \<subseteq> set steps \<Longrightarrow> set (map rn_id steps) \<subseteq> completed \<union> set (map rn_id rest) \<Longrightarrow> matches steps completed st \<Longrightarrow>
    runSteps describe rest completed w = (evs, completed', err, w') \<Longrightarrow>
    run_agrees steps describe completed completed' err (foldl txFlowReducer st evs)"
proof (induction describe rest completed w arbitrary: st evs rule: runSteps.induct)
  case (1 describe completed w)
  then show ?case by (auto simp: run_agrees_def)
next
  case (2 describe step rest completed w)
  let ?id = "rn_id step"
  show ?case
  proof (cases "?id \<in> completed")
    case True
    then have "set (map rn_id steps) \<subseteq> completed \<union> set (map rn_id rest)" "set rest \<subseteq> set steps"
      "runSteps describe rest completed w = (evs, completed', err, w')" using 2(4,5,7) by auto
    with 2(1) [OF True] 2(6) show ?thesis by blast
  next
    case new: False
    have i: "?id \<in> set (map rn_id steps)" using 2(4) by auto
    define st1 where "st1 = txFlowReducer st (EvStepStarted ?id (Some Preparing))"
    have a1: "at_step steps completed ?id st1"
      unfolding st1_def using d 2(6) i new by (rule started_at)
    have more: "run_agrees steps describe completed completed' err (foldl txFlowReducer st2 evs')"
      if "matches steps (insert ?id completed) st2"
        "run_agrees steps describe (insert ?id completed) completed' err (foldl txFlowReducer st2 evs')" for st2 evs'
      using that(2) i by (auto simp: run_agrees_def)
    have sub: "set rest \<subseteq> set steps" "set (map rn_id steps) \<subseteq> insert ?id completed \<union> set (map rn_id rest)"
      using 2(4,5) by auto
    obtain r w1 where c: "check_done step w = (r, w1)" by fastforce
    show ?thesis
    proof (cases r)
      case (Inl e)
      with 2(7) new c have "evs = [EvStepStarted ?id (Some Preparing), EvStepFailed ?id (describe e) None]"
        "completed' = completed" "err = Some e" by (auto simp: Let_def)
      with run_agrees_stop [OF d i new a1, of describe e] show ?thesis by (simp add: st1_def)
    next
      case (Inr already)
      show ?thesis
      proof (cases already)
        case True
        obtain evs' where r: "runSteps describe rest (insert ?id completed) w1 = (evs', completed', err, w')"
          "evs = EvStepStarted ?id (Some Preparing) # EvStepSucceeded ?id None (Some ''Already confirmed on chain'') # evs'"
          using 2(7) new c Inr True by (auto simp: Let_def split: prod.splits)
        have m: "matches steps (insert ?id completed) (txFlowReducer st1 (EvStepSucceeded ?id None (Some ''Already confirmed on chain'')))"
          by (rule succeeded_at [OF d i a1])
        have "run_agrees steps describe (insert ?id completed) completed' err
            (foldl txFlowReducer (txFlowReducer st1 (EvStepSucceeded ?id None (Some ''Already confirmed on chain''))) evs')"
          using 2(2) [OF new refl c [symmetric] Inr _ sub m r(1)] True by simp
        with more [OF m] r(2) show ?thesis by (simp add: st1_def)
      next
        case False
        obtain phases q w2 where run: "rn_run step w1 = (phases, q, w2)" by (cases "rn_run step w1")
        define st2 where "st2 = foldl txFlowReducer st1 (map (EvStepPhase ?id) phases)"
        have a2: "at_step steps completed ?id st2" unfolding st2_def by (rule phases_at [OF d i a1])
        show ?thesis
        proof (cases q)
          case (Inl e)
          with 2(7) new c Inr False run have
            "evs = EvStepStarted ?id (Some Preparing) # map (EvStepPhase ?id) phases @ [EvStepFailed ?id (describe e) None]"
            "completed' = completed" "err = Some e" by (auto simp: Let_def)
          with run_agrees_stop [OF d i new a2, of describe e] show ?thesis by (simp add: st1_def st2_def)
        next
          case (Inr res)
          obtain sig detail where sd: "res = (sig, detail)" by fastforce
          obtain evs' where r: "runSteps describe rest (insert ?id completed) w2 = (evs', completed', err, w')"
            "evs = EvStepStarted ?id (Some Preparing) # map (EvStepPhase ?id) phases @ EvStepSucceeded ?id sig detail # evs'"
            using 2(7) new c \<open>r = Inr already\<close> False run Inr sd by (auto simp: Let_def split: prod.splits)
          have m: "matches steps (insert ?id completed) (txFlowReducer st2 (EvStepSucceeded ?id sig detail))"
            by (rule succeeded_at [OF d i a2])
          have "run_agrees steps describe (insert ?id completed) completed' err
              (foldl txFlowReducer (txFlowReducer st2 (EvStepSucceeded ?id sig detail)) evs')"
            using 2(3) new c \<open>r = Inr already\<close> False run Inr sd sub m r(1) by auto
          with more [OF m] r(2) show ?thesis by (simp add: st1_def st2_def)
        qed
      qed
    qed
  qed
qed


text \<open>Two steps over a counter; the second fails the first time it runs.\<close>

definition counting_steps :: "(nat, string) step_runner list" where
  "counting_steps =
     [\<lparr>rn_id = ''config'', rn_label = ''Create config'', rn_alreadyDone = None,
       rn_run = \<lambda>w. ([Signing, Confirming], Inr (Some ''sig'', None), w + 1)\<rparr>,
      \<lparr>rn_id = ''pool'', rn_label = ''Create pool'', rn_alreadyDone = Some (\<lambda>w. (Inr False, w)),
       rn_run = \<lambda>w. ([Signing], (if w < 2 then Inl ''rejected'' else Inr (Some ''sig2'', None)), w + 1)\<rparr>]"


end
