(* ===== verification/RateLimit.thy ===== *)
theory RateLimit
  imports Allowlist FloorMath "HOL-Library.AList"
begin

text \<open>
  \<^verbatim>\<open>app/src/lib/upload/rateLimit.ts\<close>: the in-memory request counter in front of uploads and the faucet, and
  the choice of the client address it counts by. The clock is an argument of each call, in milliseconds;
  the JavaScript \<open>Map\<close> is an association list with distinct keys. The properties: over any number of
  requests, the map never outgrows its limit, and in any period of \<open>n\<close> windows no key is let through more
  than \<open>n + 1\<close> times its limit, nor the instance more than \<open>n + 1\<close> times the global limit.
\<close>

section \<open>The limiter\<close>

text \<open>A window start of \<open>None\<close> is the initial minus infinity.\<close>

record window =
  wi_start :: int
  wi_count :: int

record rate_limiter =
  rl_limit :: int
  rl_windowMs :: int
  rl_globalLimit :: int
  rl_maxKeys :: int
  rl_hits :: "(string \<times> window) list"
  rl_global :: "window option"
  rl_lastSweep :: "int option"

definition new_RateLimiter :: "int \<Rightarrow> int \<Rightarrow> int \<Rightarrow> int option \<Rightarrow> rate_limiter" where
  "new_RateLimiter limit windowMs globalLimit maxKeys =
     \<lparr>rl_limit = limit, rl_windowMs = windowMs, rl_globalLimit = globalLimit,
      rl_maxKeys = (case maxKeys of Some n \<Rightarrow> n | None \<Rightarrow> 10000),
      rl_hits = [], rl_global = None, rl_lastSweep = None\<rparr>"

definition expired :: "rate_limiter \<Rightarrow> int \<Rightarrow> window \<Rightarrow> bool" where
  "expired this t w \<longleftrightarrow> t - wi_start w \<ge> rl_windowMs this"

definition global_window :: "rate_limiter \<Rightarrow> int \<Rightarrow> window" where
  "global_window this t =
     (case rl_global this of
        Some g \<Rightarrow> if expired this t g then \<lparr>wi_start = t, wi_count = 0\<rparr> else g
      | None \<Rightarrow> \<lparr>wi_start = t, wi_count = 0\<rparr>)"

text \<open>Making room: expired keys are swept at most once per window; false when the map stays full.\<close>

definition make_room :: "rate_limiter \<Rightarrow> int \<Rightarrow> string \<Rightarrow> bool \<times> rate_limiter" where
  "make_room this t key =
     (if int (length (rl_hits this)) \<ge> rl_maxKeys this \<and> map_of (rl_hits this) key = None
      then (let swept = (if (case rl_lastSweep this of Some s \<Rightarrow> t - s \<ge> rl_windowMs this | None \<Rightarrow> True)
                         then this\<lparr>rl_lastSweep := Some t,
                                   rl_hits := filter (\<lambda>(k, v). \<not> expired this t v) (rl_hits this)\<rparr>
                         else this)
            in (int (length (rl_hits swept)) < rl_maxKeys this, swept))
      else (True, this))"

text \<open>The end of \<open>take\<close>: the key has the live entry \<open>entry\<close>, which the map holds.\<close>

definition count_hit :: "rate_limiter \<Rightarrow> string \<Rightarrow> window \<Rightarrow> bool \<times> rate_limiter" where
  "count_hit this key entry =
     (if wi_count entry \<ge> rl_limit this then (False, this)
      else (True, this\<lparr>rl_hits := AList.update key (entry\<lparr>wi_count := wi_count entry + 1\<rparr>) (rl_hits this),
                      rl_global := map_option (\<lambda>g. g\<lparr>wi_count := wi_count g + 1\<rparr>) (rl_global this)\<rparr>))"

definition take_request :: "rate_limiter \<Rightarrow> int \<Rightarrow> string \<Rightarrow> bool \<times> rate_limiter" where
  "take_request this0 t key =
     (let g = global_window this0 t;
          this = this0\<lparr>rl_global := Some g\<rparr>
      in if wi_count g \<ge> rl_globalLimit this then (False, this)
         else case (case map_of (rl_hits this) key of
                      Some e \<Rightarrow> if expired this t e then None else Some e | None \<Rightarrow> None) of
                Some entry \<Rightarrow> count_hit this key entry
              | None \<Rightarrow>
                  (case make_room this t key of
                     (False, this') \<Rightarrow> (False, this')
                   | (True, this') \<Rightarrow>
                       count_hit (this'\<lparr>rl_hits := AList.update key \<lparr>wi_start = t, wi_count = 0\<rparr> (rl_hits this')\<rparr>)
                         key \<lparr>wi_start = t, wi_count = 0\<rparr>))"

text \<open>A run of requests at given times: the answers with the final limiter.\<close>

fun serve :: "rate_limiter \<Rightarrow> (int \<times> string) list \<Rightarrow> bool list \<times> rate_limiter" where
  "serve this [] = ([], this)"
| "serve this ((t, key) # rs) =
     (let (ok, this') = take_request this t key; (oks, final) = serve this' rs in (ok # oks, final))"

section \<open>The client address\<close>

record client_ip_config =
  ip_header :: "string option"
  ip_trustedHops :: "int option"

fun split_at :: "char \<Rightarrow> string \<Rightarrow> string list" where
  "split_at c [] = [[]]"
| "split_at c (x # xs) = (if x = c then [] # split_at c xs
     else case split_at c xs of [] \<Rightarrow> [[x]] | p # ps \<Rightarrow> (x # p) # ps)"

definition or_unknown :: "string \<Rightarrow> string" where
  "or_unknown s = (if s = [] then ''unknown'' else s)"

text \<open>
  \<open>clientIpConfigFromEnv\<close>: \<open>env\<close> is the environment, \<open>Number\<close> of a text is the parameter \<open>toNumber\<close> of the
  JavaScript runtime.
\<close>

definition clientIpConfigFromEnv :: "(string option \<Rightarrow> jsnum) \<Rightarrow> (string \<Rightarrow> string option) \<Rightarrow> client_ip_config" where
  "clientIpConfigFromEnv toNumber env =
     \<lparr>ip_header =
        (case map_option (\<lambda>h. toLowerCase (js_trim h)) (env ''UPLOAD_CLIENT_IP_HEADER'') of
           Some (c # cs) \<Rightarrow> Some (c # cs)
         | _ \<Rightarrow> (case env ''VERCEL'' of Some (c # cs) \<Rightarrow> Some ''x-real-ip'' | _ \<Rightarrow> None)),
      ip_trustedHops =
        (case as_integer (toNumber (env ''UPLOAD_TRUSTED_PROXY_HOPS'')) of
           Some n \<Rightarrow> if n \<ge> 1 then Some n else Some 1
         | None \<Rightarrow> Some 1)\<rparr>"

text \<open>\<open>headers\<close> is \<open>Headers.get\<close>; an index beyond the hops reads \<open>undefined\<close>, here \<open>None\<close>.\<close>

definition forwarded_hops :: "(string \<Rightarrow> string option) \<Rightarrow> string list" where
  "forwarded_hops headers =
     filter (\<lambda>h. h \<noteq> [])
       (map js_trim (split_at (CHR '','') (case headers ''x-forwarded-for'' of Some v \<Rightarrow> v | None \<Rightarrow> [])))"

definition clientIp :: "(string \<Rightarrow> string option) \<Rightarrow> client_ip_config \<Rightarrow> string option" where
  "clientIp headers config =
     (case ip_header config of
        Some (h # hs) \<Rightarrow>
          (case headers (h # hs) of
             Some v \<Rightarrow> Some (or_unknown (js_trim (hd (split_at (CHR '','') v))))
           | None \<Rightarrow> Some ''unknown'')
      | _ \<Rightarrow>
          (let hops = forwarded_hops headers;
               trusted = (case ip_trustedHops config of Some n \<Rightarrow> n | None \<Rightarrow> 1);
               i = nat (max 0 (int (length hops) - trusted))
           in if hops \<noteq> [] then (if i < length hops then Some (hops ! i) else None)
              else (case headers ''x-real-ip'' of Some v \<Rightarrow> Some (or_unknown (js_trim v)) | None \<Rightarrow> Some ''unknown'')))"

section \<open>Counting in windows\<close>

text \<open>
  The history of one counter: its windows, newest first, each with the times it let through. \<open>cur\<close> is the
  counter's present entry, \<open>None\<close> when there is none or it has expired.
\<close>

definition in_window :: "int \<Rightarrow> int \<times> int list \<Rightarrow> bool" where
  "in_window W w \<longleftrightarrow> (\<forall>t \<in> set (snd w). fst w \<le> t \<and> t < fst w + W)"

definition windowed ::
  "int \<Rightarrow> int \<Rightarrow> (int \<times> int list) list \<Rightarrow> window option \<Rightarrow> int \<Rightarrow> bool" where
  "windowed W L ws cur now \<longleftrightarrow>
     sorted_wrt (\<lambda>new old. fst old + W \<le> fst new) ws \<and>
     (\<forall>w \<in> set ws. in_window W w \<and> length (snd w) \<le> nat L) \<and>
     (case cur of
        None \<Rightarrow> (\<forall>w \<in> set ws. fst w + W \<le> now)
      | Some e \<Rightarrow> ws \<noteq> [] \<and> fst (hd ws) = wi_start e \<and> int (length (snd (hd ws))) = wi_count e \<and> wi_start e \<le> now)"

definition counted :: "(int \<times> int list) list \<Rightarrow> int \<Rightarrow> int \<Rightarrow> nat" where
  "counted ws a b = sum_list (map (\<lambda>w. length (filter (\<lambda>t. a \<le> t \<and> t < b) (snd w))) ws)"

lemma counted_Cons: "counted (w # ws) a b = length (filter (\<lambda>t. a \<le> t \<and> t < b) (snd w)) + counted ws a b"
  by (simp add: counted_def)

lemma counted_before:
  "\<forall>w \<in> set ws. in_window W w \<and> fst w + W \<le> a \<Longrightarrow> counted ws a b = 0"
proof (induction ws)
  case (Cons w ws)
  then have "filter (\<lambda>t. a \<le> t \<and> t < b) (snd w) = []" by (force simp: in_window_def filter_empty_conv)
  with Cons show ?case by (simp add: counted_Cons)
qed (simp add: counted_def)

text \<open>Windows that start before \<open>a + m * W\<close> let through \<open>m + 1\<close> times the limit from \<open>a\<close> on.\<close>

lemma counted_windows:
  assumes "0 < W"
  shows "sorted_wrt (\<lambda>new old. fst old + W \<le> fst new) ws \<Longrightarrow> \<forall>w \<in> set ws. in_window W w \<and> length (snd w) \<le> L \<Longrightarrow>
     \<forall>w \<in> set ws. fst w < a + int m * W \<Longrightarrow> counted ws a b \<le> (m + 1) * L"
proof (induction ws arbitrary: m)
  case (Cons w ws)
  have w: "length (filter (\<lambda>t. a \<le> t \<and> t < b) (snd w)) \<le> L"
    using Cons.prems(2) by (auto intro: order_trans [OF length_filter_le])
  show ?case
  proof (cases m)
    case 0
    with Cons.prems have "\<forall>v \<in> set ws. in_window W v \<and> fst v + W \<le> a" by fastforce
    then have "counted ws a b = 0" by (rule counted_before)
    with w 0 show ?thesis by (simp add: counted_Cons)
  next
    case (Suc n)
    have "\<forall>v \<in> set ws. fst v < a + int n * W"
    proof
      fix v assume "v \<in> set ws"
      with Cons.prems(1,3) have "fst v + W \<le> fst w" "fst w < a + int m * W" by auto
      then show "fst v < a + int n * W" by (simp add: Suc distrib_right)
    qed
    with Cons have "counted ws a b \<le> (n + 1) * L" by simp
    with w Suc show ?thesis by (simp add: counted_Cons)
  qed
qed (simp add: counted_def)

lemma counted_from:
  "\<forall>w \<in> set ws. in_window W w \<Longrightarrow> counted (filter (\<lambda>w. fst w < b) ws) a b = counted ws a b"
proof (induction ws)
  case (Cons w ws)
  have "\<not> fst w < b \<Longrightarrow> filter (\<lambda>t. a \<le> t \<and> t < b) (snd w) = []"
    using Cons.prems by (force simp: in_window_def filter_empty_conv)
  with Cons show ?case by (auto simp: counted_Cons)
qed simp

lemma windowed_bound:
  assumes "0 < W" "windowed W L ws cur now"
  shows "counted ws a (a + int n * W) \<le> (n + 1) * nat L"
proof -
  let ?ws = "filter (\<lambda>w. fst w < a + int n * W) ws"
  have "counted ?ws a (a + int n * W) \<le> (n + 1) * nat L"
    using assms(2) by (intro counted_windows [OF assms(1)]) (auto simp: windowed_def intro: sorted_wrt_filter)
  moreover have "counted ?ws a (a + int n * W) = counted ws a (a + int n * W)"
    using assms(2) by (intro counted_from [of _ W]) (auto simp: windowed_def)
  ultimately show ?thesis by simp
qed

lemma windowed_later: "windowed W L ws cur now \<Longrightarrow> now \<le> t \<Longrightarrow> windowed W L ws cur t"
  by (auto simp: windowed_def split: option.splits)

lemma windowed_expire:
  assumes "windowed W L ws (Some e) now" "wi_start e + W \<le> t" "0 < W"
  shows "windowed W L ws None t"
proof -
  obtain w rest where ws: "ws = w # rest" "fst w = wi_start e" using assms(1) by (cases ws) (auto simp: windowed_def)
  with assms show ?thesis by (fastforce simp: windowed_def)
qed

lemma windowed_open: "windowed W L ws None t \<Longrightarrow> windowed W L ((t, []) # ws) (Some \<lparr>wi_start = t, wi_count = 0\<rparr>) t"
  by (auto simp: windowed_def in_window_def)

lemma windowed_count:
  assumes "windowed W L ws (Some e) now" "now \<le> t" "t < wi_start e + W" "wi_count e < L"
  obtains s ts rest where "ws = (s, ts) # rest"
    "windowed W L ((s, ts @ [t]) # rest) (Some (e\<lparr>wi_count := wi_count e + 1\<rparr>)) t"
proof -
  obtain w rest where ws: "ws = w # rest" using assms(1) by (cases ws) (auto simp: windowed_def)
  obtain s ts where w: "w = (s, ts)" by fastforce
  have "windowed W L ((s, ts @ [t]) # rest) (Some (e\<lparr>wi_count := wi_count e + 1\<rparr>)) t"
    using assms by (auto simp: windowed_def ws w in_window_def)
  with that ws w show thesis by blast
qed

lemma counted_hit: "counted ((s, ts @ [t]) # rest) a b = counted ((s, ts) # rest) a b + (if a \<le> t \<and> t < b then 1 else 0)"
  by (simp add: counted_Cons)

section \<open>The limiter keeps its counts\<close>

text \<open>\<open>hist\<close> are the requests let through, \<open>P\<close> picks those the counter with entry \<open>cur\<close> counts.\<close>

definition let_through :: "(int \<times> string) list \<Rightarrow> (string \<Rightarrow> bool) \<Rightarrow> int \<Rightarrow> int \<Rightarrow> nat" where
  "let_through hist P a b = length (filter (\<lambda>r. P (snd r) \<and> a \<le> fst r \<and> fst r < b) hist)"

definition tracks ::
  "int \<Rightarrow> int \<Rightarrow> window option \<Rightarrow> (int \<times> string) list \<Rightarrow> (string \<Rightarrow> bool) \<Rightarrow> int \<Rightarrow> bool" where
  "tracks W L cur hist P now \<longleftrightarrow>
     (\<exists>ws. windowed W L ws cur now \<and> (\<forall>a b. counted ws a b = let_through hist P a b))"

lemma tracks_later: "tracks W L cur hist P now \<Longrightarrow> now \<le> t \<Longrightarrow> tracks W L cur hist P t"
  by (auto simp: tracks_def intro: windowed_later)

lemma tracks_expire: "tracks W L (Some e) hist P now \<Longrightarrow> wi_start e + W \<le> t \<Longrightarrow> 0 < W \<Longrightarrow> tracks W L None hist P t"
  by (auto simp: tracks_def intro: windowed_expire)

lemma tracks_open: "tracks W L None hist P t \<Longrightarrow> tracks W L (Some \<lparr>wi_start = t, wi_count = 0\<rparr>) hist P t"
proof -
  assume "tracks W L None hist P t"
  then obtain ws where ws: "windowed W L ws None t" "\<And>a b. counted ws a b = let_through hist P a b"
    by (auto simp: tracks_def)
  have "counted ((t, []) # ws) a b = let_through hist P a b" for a b using ws(2) by (simp add: counted_Cons)
  with windowed_open [OF ws(1)] show ?thesis unfolding tracks_def by blast
qed

lemma tracks_hit:
  assumes "tracks W L (Some e) hist P now" "now \<le> t" "t < wi_start e + W" "wi_count e < L" "P k"
  shows "tracks W L (Some (e\<lparr>wi_count := wi_count e + 1\<rparr>)) (hist @ [(t, k)]) P t"
proof -
  obtain ws where ws: "windowed W L ws (Some e) now" "\<And>a b. counted ws a b = let_through hist P a b"
    using assms(1) by (auto simp: tracks_def)
  from windowed_count [OF ws(1) assms(2-4)] obtain s ts rest where new: "ws = (s, ts) # rest"
    "windowed W L ((s, ts @ [t]) # rest) (Some (e\<lparr>wi_count := wi_count e + 1\<rparr>)) t" by metis
  moreover have "counted ((s, ts @ [t]) # rest) a b = let_through (hist @ [(t, k)]) P a b" for a b
    using ws(2) [of a b] assms(5) unfolding counted_hit new(1) by (simp add: let_through_def)
  ultimately show ?thesis unfolding tracks_def by blast
qed

lemma tracks_other: "\<not> P k \<Longrightarrow> tracks W L cur (hist @ [(t, k)]) P now = tracks W L cur hist P now"
  by (simp add: tracks_def let_through_def)

definition limiter_inv :: "rate_limiter \<Rightarrow> (int \<times> string) list \<Rightarrow> int \<Rightarrow> bool" where
  "limiter_inv this hist now \<longleftrightarrow>
     0 < rl_windowMs this \<and> distinct (map fst (rl_hits this)) \<and> int (length (rl_hits this)) \<le> max 0 (rl_maxKeys this) \<and>
     (\<forall>key. tracks (rl_windowMs this) (rl_limit this) (map_of (rl_hits this) key) hist (\<lambda>k. k = key) now) \<and>
     tracks (rl_windowMs this) (rl_globalLimit this) (rl_global this) hist (\<lambda>_. True) now"

lemma inv_later: "limiter_inv this hist now \<Longrightarrow> now \<le> t \<Longrightarrow> limiter_inv this hist t"
  by (auto simp: limiter_inv_def intro: tracks_later)

lemma inv_global:
  assumes "limiter_inv this hist t"
  shows "limiter_inv (this\<lparr>rl_global := Some (global_window this t)\<rparr>) hist t"
    and "\<not> expired this t (global_window this t)"
proof -
  have g: "tracks (rl_windowMs this) (rl_globalLimit this) (rl_global this) hist (\<lambda>_. True) t" and W: "0 < rl_windowMs this"
    using assms by (simp_all add: limiter_inv_def)
  have "tracks (rl_windowMs this) (rl_globalLimit this) (Some (global_window this t)) hist (\<lambda>_. True) t"
    using g W by (auto simp: global_window_def expired_def split: option.splits intro!: tracks_open
        elim!: tracks_expire)
  with assms show "limiter_inv (this\<lparr>rl_global := Some (global_window this t)\<rparr>) hist t"
    by (simp add: limiter_inv_def)
  show "\<not> expired this t (global_window this t)"
    using W by (auto simp: global_window_def expired_def split: option.splits)
qed

lemma map_of_filter_values:
  "distinct (map fst xs) \<Longrightarrow>
   map_of (filter (\<lambda>(k, v). P v) xs) k = (case map_of xs k of Some v \<Rightarrow> if P v then Some v else None | None \<Rightarrow> None)"
  by (induction xs) (auto split: option.splits dest: map_of_SomeD simp: image_iff) 

lemma make_room_params:
  "make_room this t key = (ok, this') \<Longrightarrow> rl_limit this' = rl_limit this \<and> rl_windowMs this' = rl_windowMs this \<and>
    rl_globalLimit this' = rl_globalLimit this \<and> rl_maxKeys this' = rl_maxKeys this \<and> rl_global this' = rl_global this"
  by (auto simp: make_room_def Let_def split: if_splits)

lemma inv_make_room:
  assumes "limiter_inv this hist t" "make_room this t key = (ok, this')"
  shows "limiter_inv this' hist t \<and> (ok \<longrightarrow> map_of (rl_hits this) key \<noteq> None \<and> this' = this \<or>
    map_of (rl_hits this') key = None \<and> int (length (rl_hits this')) < rl_maxKeys this')"
proof -
  let ?hits = "filter (\<lambda>(k, v). \<not> expired this t v) (rl_hits this)"
  have d: "distinct (map fst (rl_hits this))" and W: "0 < rl_windowMs this"
    and size: "int (length (rl_hits this)) \<le> max 0 (rl_maxKeys this)"
    and keys: "\<And>key. tracks (rl_windowMs this) (rl_limit this) (map_of (rl_hits this) key) hist (\<lambda>k. k = key) t"
    using assms(1) by (simp_all add: limiter_inv_def)
  have look: "map_of ?hits k = (case map_of (rl_hits this) k of Some v \<Rightarrow> if expired this t v then None else Some v | None \<Rightarrow> None)" for k
    using map_of_filter_values [OF d, of "\<lambda>v. \<not> expired this t v" k] by (auto split: option.splits)
  have "tracks (rl_windowMs this) (rl_limit this) (map_of ?hits k) hist (\<lambda>k'. k' = k) t" for k
    using keys [of k] W unfolding look by (auto simp: expired_def split: option.splits intro: tracks_expire)
  moreover have "distinct (map fst ?hits)" using d by (rule distinct_map_filter)
  moreover have "int (length ?hits) \<le> max 0 (rl_maxKeys this)"
    using size length_filter_le [of "\<lambda>(k, v). \<not> expired this t v" "rl_hits this"] by linarith
  ultimately have swept: "limiter_inv (this\<lparr>rl_lastSweep := Some t, rl_hits := ?hits\<rparr>) hist t"
    using assms(1) by (simp add: limiter_inv_def)
  have absent: "map_of (rl_hits this) key = None \<Longrightarrow> map_of ?hits key = None" by (simp add: look)
  show ?thesis
    using assms swept absent by (auto simp: make_room_def Let_def split: if_splits)
qed

lemma length_AList_update:
  "length (AList.update k v xs) = (if map_of xs k = None then Suc (length xs) else length xs)"
  by (induction xs) auto

lemma inv_fresh:
  assumes inv: "limiter_inv this hist t"
    and key: "\<And>e. map_of (rl_hits this) key = Some e \<Longrightarrow> expired this t e"
    and room: "map_of (rl_hits this) key \<noteq> None \<or> int (length (rl_hits this)) < rl_maxKeys this"
  shows "limiter_inv (this\<lparr>rl_hits := AList.update key \<lparr>wi_start = t, wi_count = 0\<rparr> (rl_hits this)\<rparr>) hist t"
proof -
  let ?hits = "AList.update key \<lparr>wi_start = t, wi_count = 0\<rparr> (rl_hits this)"
  have W: "0 < rl_windowMs this"
    and keys: "\<And>key. tracks (rl_windowMs this) (rl_limit this) (map_of (rl_hits this) key) hist (\<lambda>k. k = key) t"
    using inv by (simp_all add: limiter_inv_def)
  have "tracks (rl_windowMs this) (rl_limit this) (map_of ?hits k) hist (\<lambda>k'. k' = k) t" for k
  proof (cases "k = key")
    case True
    have "tracks (rl_windowMs this) (rl_limit this) None hist (\<lambda>k. k = key) t"
      using keys [of key] key W by (cases "map_of (rl_hits this) key") (auto simp: expired_def intro: tracks_expire)
    with True show ?thesis by (simp add: update_conv' tracks_open)
  next
    case False
    with keys [of k] show ?thesis by (simp add: update_conv')
  qed
  moreover have "int (length ?hits) \<le> max 0 (rl_maxKeys this)"
  proof (cases "map_of (rl_hits this) key")
    case None
    with room have "int (length (rl_hits this)) < rl_maxKeys this" by simp
    with None show ?thesis by (simp add: length_AList_update)
  next
    case (Some e)
    with inv show ?thesis by (simp add: length_AList_update limiter_inv_def)
  qed
  ultimately show ?thesis using inv by (simp add: limiter_inv_def distinct_update)
qed

lemma inv_count_hit:
  assumes inv: "limiter_inv this hist t" and e: "map_of (rl_hits this) key = Some e" "\<not> expired this t e"
    and g: "rl_global this = Some g" "\<not> expired this t g" "wi_count g < rl_globalLimit this"
    and hit: "count_hit this key e = (ok, this')"
  shows "limiter_inv this' (if ok then hist @ [(t, key)] else hist) t"
proof (cases "wi_count e \<ge> rl_limit this")
  case True
  with hit inv show ?thesis by (auto simp: count_hit_def)
next
  case False
  let ?hits = "AList.update key (e\<lparr>wi_count := wi_count e + 1\<rparr>) (rl_hits this)"
  let ?hist = "hist @ [(t, key)]"
  have keys: "\<And>key. tracks (rl_windowMs this) (rl_limit this) (map_of (rl_hits this) key) hist (\<lambda>k. k = key) t"
    and glob: "tracks (rl_windowMs this) (rl_globalLimit this) (Some g) hist (\<lambda>_. True) t"
    using inv g(1) by (simp_all add: limiter_inv_def)
  have "tracks (rl_windowMs this) (rl_limit this) (map_of ?hits k) ?hist (\<lambda>k'. k' = k) t" for k
  proof (cases "k = key")
    case True
    with keys [of key] e False tracks_hit [of "rl_windowMs this" "rl_limit this" e hist "\<lambda>k'. k' = key" t t key]
    show ?thesis by (simp add: update_conv' expired_def)
  next
    case False
    with keys [of k] show ?thesis by (simp add: update_conv' tracks_other)
  qed
  moreover have "tracks (rl_windowMs this) (rl_globalLimit this) (Some (g\<lparr>wi_count := wi_count g + 1\<rparr>)) ?hist (\<lambda>_. True) t"
    using glob g by (intro tracks_hit) (auto simp: expired_def)
  ultimately show ?thesis
    using inv hit False g(1) e(1) by (auto simp: count_hit_def limiter_inv_def distinct_update length_AList_update)
qed

lemma take_request_inv:
  assumes "limiter_inv this hist now" "now \<le> t" "take_request this t key = (ok, this')"
  shows "limiter_inv this' (if ok then hist @ [(t, key)] else hist) t"
proof -
  let ?g = "global_window this t"
  let ?lim = "this\<lparr>rl_global := Some ?g\<rparr>"
  have inv: "limiter_inv ?lim hist t" and live: "\<not> expired ?lim t ?g"
    using inv_global [OF inv_later [OF assms(1,2)]] by (simp_all add: expired_def)
  show ?thesis
  proof (cases "wi_count ?g \<ge> rl_globalLimit this")
    case True
    with assms(3) inv show ?thesis by (auto simp: take_request_def Let_def)
  next
    case budget: False
    let ?entry = "case map_of (rl_hits this) key of Some e \<Rightarrow> if expired ?lim t e then None else Some e | None \<Rightarrow> None"
    show ?thesis
    proof (cases ?entry)
      case (Some e)
      then have e: "map_of (rl_hits ?lim) key = Some e" "\<not> expired ?lim t e" by (auto split: option.splits if_splits)
      have "count_hit ?lim key e = (ok, this')"
        using assms(3) budget Some by (simp add: take_request_def Let_def)
      with inv_count_hit [OF inv e _ live] budget show ?thesis by simp
    next
      case None
      then have old: "\<And>e. map_of (rl_hits ?lim) key = Some e \<Longrightarrow> expired ?lim t e"
        by (auto split: option.splits if_splits)
      obtain room next' where room: "make_room ?lim t key = (room, next')" by fastforce
      note r = inv_make_room [OF inv room] and p = make_room_params [OF room]
      show ?thesis
      proof (cases room)
        case False
        with assms(3) budget None room r show ?thesis by (auto simp: take_request_def Let_def)
      next
        case True
        let ?w = "\<lparr>wi_start = t, wi_count = 0\<rparr>"
        let ?fresh = "next'\<lparr>rl_hits := AList.update key ?w (rl_hits next')\<rparr>"
        have exp: "expired next' t = expired ?lim t" using p by (simp add: expired_def fun_eq_iff)
        have inv': "limiter_inv ?fresh hist t"
          using r True old by (intro inv_fresh) (auto simp: exp)
        have hit: "count_hit ?fresh key ?w = (ok, this')"
          using assms(3) budget None room True by (simp add: take_request_def Let_def)
        have "map_of (rl_hits ?fresh) key = Some ?w" by (simp add: update_conv')
        moreover have "\<not> expired ?fresh t ?w"
          using inv' by (simp add: expired_def limiter_inv_def)
        moreover have "rl_global ?fresh = Some ?g" "\<not> expired ?fresh t ?g" "wi_count ?g < rl_globalLimit ?fresh"
          using p live budget by (simp_all add: expired_def)
        ultimately show ?thesis using inv_count_hit [OF inv' _ _ _ _ _ hit] by blast
      qed
    qed
  qed
qed

lemma take_request_params:
  "take_request this t key = (ok, this') \<Longrightarrow> rl_limit this' = rl_limit this \<and> rl_windowMs this' = rl_windowMs this \<and>
    rl_globalLimit this' = rl_globalLimit this \<and> rl_maxKeys this' = rl_maxKeys this"
  by (auto simp: take_request_def Let_def count_hit_def split: if_splits option.splits prod.splits bool.splits
      dest: make_room_params)

definition accepted :: "(int \<times> string) list \<Rightarrow> bool list \<Rightarrow> (int \<times> string) list" where
  "accepted rs oks = map fst (filter snd (zip rs oks))"

lemma serve_inv:
  "serve this rs = (oks, final) \<Longrightarrow> limiter_inv this hist now \<Longrightarrow> sorted (now # map fst rs) \<Longrightarrow>
   (\<exists>t. limiter_inv final (hist @ accepted rs oks) t) \<and> rl_limit final = rl_limit this \<and>
   rl_windowMs final = rl_windowMs this \<and> rl_globalLimit final = rl_globalLimit this \<and> rl_maxKeys final = rl_maxKeys this"
proof (induction rs arbitrary: this hist now oks)
  case (Cons r rs)
  obtain t key where r: "r = (t, key)" by fastforce
  obtain ok this1 where k: "take_request this t key = (ok, this1)" by fastforce
  from Cons.prems(1) obtain oks' where s: "serve this1 rs = (oks', final)" "oks = ok # oks'"
    by (auto simp: r k split: prod.splits)
  have "limiter_inv this1 (if ok then hist @ [(t, key)] else hist) t"
    using Cons.prems(2,3) k by (intro take_request_inv) (auto simp: r)
  from Cons.IH [OF s(1) this] Cons.prems(3) take_request_params [OF k] show ?case
    by (auto simp: r s(2) accepted_def)
qed (auto simp: accepted_def)

lemma new_limiter_inv: "0 < W \<Longrightarrow> limiter_inv (new_RateLimiter L W G maxKeys) [] now"
proof -
  assume "0 < W"
  have "tracks V M None [] P now" for V M P
    unfolding tracks_def by (rule exI [of _ "[]"]) (simp add: windowed_def counted_def let_through_def)
  with \<open>0 < W\<close> show ?thesis by (simp add: limiter_inv_def new_RateLimiter_def)
qed

text \<open>
  C32: The rate limits hold over any requests: with a clock that does not run backwards, in any period of \<open>n\<close>
  windows at most \<open>n + 1\<close> times the limit is let through for each key, and at most \<open>n + 1\<close> times the
  global limit for all keys together, however the keys are chosen; and the limiter never tracks more keys
  than it was allowed.
\<close>

theorem rate_limits_hold:
  assumes "0 < windowMs" "sorted (map fst rs)"
    and "serve (new_RateLimiter limit windowMs globalLimit maxKeys) rs = (oks, final)"
  shows "let_through (accepted rs oks) (\<lambda>k. k = key) a (a + int n * windowMs) \<le> (n + 1) * nat limit \<and>
    let_through (accepted rs oks) (\<lambda>_. True) a (a + int n * windowMs) \<le> (n + 1) * nat globalLimit \<and>
    int (length (rl_hits final)) \<le> max 0 (case maxKeys of Some m \<Rightarrow> m | None \<Rightarrow> 10000)"
proof -
  let ?now = "case rs of [] \<Rightarrow> 0 | r # _ \<Rightarrow> fst r"
  have "sorted (?now # map fst rs)" using assms(2) by (cases rs) auto
  from serve_inv [OF assms(3) new_limiter_inv [OF assms(1)] this] obtain t where
    inv: "limiter_inv final (accepted rs oks) t" and p: "rl_limit final = limit" "rl_windowMs final = windowMs"
      "rl_globalLimit final = globalLimit" "rl_maxKeys final = (case maxKeys of Some m \<Rightarrow> m | None \<Rightarrow> 10000)"
    by (auto simp: new_RateLimiter_def)
  have bound: "let_through (accepted rs oks) P a (a + int n * windowMs) \<le> (n + 1) * nat L"
    if "tracks windowMs L cur (accepted rs oks) P t" for L cur P
    using that windowed_bound [OF assms(1)] by (auto simp: tracks_def) (metis)
  have "tracks windowMs limit (map_of (rl_hits final) key) (accepted rs oks) (\<lambda>k. k = key) t"
    "tracks windowMs globalLimit (rl_global final) (accepted rs oks) (\<lambda>_. True) t"
    "int (length (rl_hits final)) \<le> max 0 (case maxKeys of Some m \<Rightarrow> m | None \<Rightarrow> 10000)"
    using inv p by (simp_all add: limiter_inv_def)
  then show ?thesis using bound by blast
qed

text \<open>One request per window of a key, three requests within one window of another.\<close>

theorem rate_limits_hold_witness:
  "fst (serve (new_RateLimiter 2 1000 10 (Some 5)) [(0, ''a''), (1, ''a''), (2, ''a''), (999, ''b''), (1000, ''a'')]) =
     [True, True, False, True, True] \<and>
   let_through [(0, ''a''), (1, ''a''), (999, ''b''), (1000, ''a'')] (\<lambda>k. k = ''a'') 1 (1 + int 1 * 1000) \<le> 4"
proof -
  let ?rs = "[(0, ''a''), (1, ''a''), (2, ''a''), (999, ''b''), (1000, ''a'')]"
  let ?r = "serve (new_RateLimiter 2 1000 10 (Some 5)) ?rs"
  have oks: "fst ?r = [True, True, False, True, True]" by code_simp
  have acc: "accepted ?rs (fst ?r) = [(0, ''a''), (1, ''a''), (999, ''b''), (1000, ''a'')]" unfolding oks by code_simp
  have "let_through (accepted ?rs (fst ?r)) (\<lambda>k. k = ''a'') 1 (1 + int 1 * 1000) \<le> (1 + 1) * nat 2"
    using rate_limits_hold [of 1000 ?rs 2 10 "Some 5" "fst ?r" "snd ?r" "''a''" 1 1] by simp
  with oks acc show ?thesis by simp
qed

section \<open>Forged addresses\<close>

lemma split_at_not_Nil [simp]: "split_at c s \<noteq> []"
  by (induction s) (auto split: list.splits)

lemma split_at_append: "split_at c (a @ c # b) = split_at c a @ split_at c b"
  by (induction a) (auto split: list.splits)

fun comma_join :: "string list \<Rightarrow> string" where
  "comma_join [] = []"
| "comma_join [h] = h"
| "comma_join (h # hs) = h @ CHR '','' # comma_join hs"

lemma split_at_plain: "c \<notin> set s \<Longrightarrow> split_at c s = [s]"
  by (induction s) auto

lemma split_at_join: "hs \<noteq> [] \<Longrightarrow> \<forall>h \<in> set hs. CHR '','' \<notin> set h \<Longrightarrow> split_at (CHR '','') (comma_join hs) = hs"
  by (induction hs rule: comma_join.induct) (simp_all add: split_at_append split_at_plain)

text \<open>
  A client cannot choose the address it is counted under: behind \<open>trustedHops\<close> proxies, each of which
  appends the address of its peer to \<open>x-forwarded-for\<close>, the address used is the one the outermost of those
  proxies appended, whatever the client wrote into the header before it.
\<close>

theorem forged_address_ignored:
  assumes "ip_header config = None" "ip_trustedHops config = Some (int (length proxies))" "proxies \<noteq> []"
    and "\<forall>h \<in> set proxies. h \<noteq> [] \<and> CHR '','' \<notin> set h \<and> list_all (\<lambda>c. \<not> is_space c) h"
    and "headers ''x-forwarded-for'' = Some (forged @ CHR '','' # comma_join proxies)"
  shows "clientIp headers config = Some (hd proxies)"
proof -
  have trims: "map js_trim proxies = proxies" using assms(4) by (auto simp: js_trim_clean intro!: map_idI)
  have "forwarded_hops headers = filter (\<lambda>h. h \<noteq> []) (map js_trim (split_at (CHR '','') forged)) @ proxies"
    using assms(3-5) trims by (auto simp: forwarded_hops_def split_at_append split_at_join intro!: filter_True)
  then show ?thesis
    using assms(1-3) by (simp add: clientIp_def Let_def nth_append hd_conv_nth)
qed

theorem forged_address_ignored_witness:
  "clientIp (\<lambda>h. if h = ''x-forwarded-for'' then Some ''1.2.3.4,5.6.7.8'' else None)
     \<lparr>ip_header = None, ip_trustedHops = Some 1\<rparr> = Some ''5.6.7.8''"
  using forged_address_ignored [of "\<lparr>ip_header = None, ip_trustedHops = Some 1\<rparr>" "[''5.6.7.8'']"
      "\<lambda>h. if h = ''x-forwarded-for'' then Some ''1.2.3.4,5.6.7.8'' else None" "''1.2.3.4''"]
  by (simp add: is_space_def Let_def)

end
