(* ===== verification/ChartEvents.thy ===== *)
theory ChartEvents
  imports Base58
begin

text \<open>
  \<^verbatim>\<open>app/src/lib/chart/base58.ts\<close>, \<^verbatim>\<open>events.ts\<close> and \<^verbatim>\<open>extract.ts\<close>: the swap events the web app reads out of
  transactions for its price chart. The properties: the app's own base 58 decoder inverts the SDK's
  encoder on every byte string, and what is extracted from a transaction are events of the asked pools,
  emitted by the program that owns the pool, with the fields at the program's offsets.
\<close>

section \<open>base58Decode\<close>

text \<open>The digits so far, least significant byte first, times 58 plus a carry; then the carry's own bytes.\<close>

fun times58 :: "int \<Rightarrow> int list \<Rightarrow> int list \<times> int" where
  "times58 carry [] = ([], carry)"
| "times58 carry (b # bs) =
     (let c = carry + b * 58; (bs', carry') = times58 (c div 256) bs in (c mod 256 # bs', carry'))"

function carry_bytes :: "int \<Rightarrow> int list" where
  "carry_bytes carry = (if carry > 0 then carry mod 256 # carry_bytes (carry div 256) else [])"
  by pat_completeness auto
termination by (relation "measure nat") auto

declare carry_bytes.simps [simp del]

definition add_digit :: "int list \<Rightarrow> int \<Rightarrow> int list" where
  "add_digit bs d = (let (bs', carry) = times58 d bs in bs' @ carry_bytes carry)"

fun decodeLoop :: "int list \<Rightarrow> string \<Rightarrow> int list option" where
  "decodeLoop bs [] = Some bs"
| "decodeLoop bs (c # cs) =
     (if c \<in> set base58_alphabet then decodeLoop (add_digit bs (int (index_in base58_alphabet c))) cs else None)"

definition base58Decode :: "string \<Rightarrow> bytes option" where
  "base58Decode text =
     map_option (\<lambda>bs. map word_of_int (rev (bs @ replicate (one_prefix text) 0))) (decodeLoop [] text)"

section \<open>The decoder inverts the encoder\<close>

fun le_value :: "int list \<Rightarrow> int" where
  "le_value [] = 0"
| "le_value (b # bs) = b + 256 * le_value bs"

text \<open>Bytes without a leading zero, that is without zero at the most significant end.\<close>

definition digits_ok :: "int list \<Rightarrow> bool" where
  "digits_ok bs \<longleftrightarrow> (\<forall>b \<in> set bs. 0 \<le> b \<and> b < 256) \<and> (bs = [] \<or> last bs \<noteq> 0)"

lemma le_value_append: "le_value (xs @ ys) = le_value xs + 256 ^ length xs * le_value ys"
  by (induction xs) (simp_all add: algebra_simps)

lemma times58_spec:
  assumes "0 \<le> carry" "carry < 256" "\<forall>b \<in> set bs. 0 \<le> b \<and> b < 256" "times58 carry bs = (bs', carry')"
  shows "le_value bs' + 256 ^ length bs * carry' = 58 * le_value bs + carry \<and> length bs' = length bs \<and>
    0 \<le> carry' \<and> carry' < 256 \<and> (\<forall>b \<in> set bs'. 0 \<le> b \<and> b < 256)"
  using assms
proof (induction bs arbitrary: carry bs' carry')
  case (Cons b bs)
  define c where "c = carry + b * 58"
  have c: "0 \<le> c div 256" "c div 256 < 256" using Cons.prems by (auto simp: c_def)
  obtain r k where r: "times58 (c div 256) bs = (r, k)" by fastforce
  from Cons.IH [OF c _ r] Cons.prems(3) have ih: "le_value r + 256 ^ length bs * k = 58 * le_value bs + c div 256"
    "length r = length bs" "0 \<le> k" "k < 256" "\<forall>b \<in> set r. 0 \<le> b \<and> b < 256" by auto
  have res: "bs' = c mod 256 # r" "carry' = k" using Cons.prems(4) r by (simp_all add: c_def Let_def)
  have "le_value bs' + 256 ^ length (b # bs) * carry' = c mod 256 + 256 * (le_value r + 256 ^ length bs * k)"
    by (simp add: res algebra_simps)
  also have "\<dots> = 58 * le_value (b # bs) + carry"
    unfolding ih(1) using mult_div_mod_eq [of 256 c] by (simp add: c_def algebra_simps)
  finally show ?case using ih res by simp
qed auto

lemma carry_bytes_spec: "0 \<le> c \<Longrightarrow> le_value (carry_bytes c) = c \<and> digits_ok (carry_bytes c)"
proof (induction c rule: carry_bytes.induct)
  case (1 c)
  show ?case
  proof (cases "c > 0")
    case True
    with 1 have ih: "le_value (carry_bytes (c div 256)) = c div 256" "digits_ok (carry_bytes (c div 256))" by auto
    have "carry_bytes (c div 256) = [] \<Longrightarrow> c mod 256 \<noteq> 0"
      using ih(1) True mult_div_mod_eq [of 256 c] by auto
    have res: "carry_bytes c = c mod 256 # carry_bytes (c div 256)" using True by (simp add: carry_bytes.simps [of c])
    have "le_value (carry_bytes c) = c" using mult_div_mod_eq [of 256 c] unfolding res le_value.simps ih(1) by linarith
    moreover have "digits_ok (carry_bytes c)"
      using ih(2) \<open>carry_bytes (c div 256) = [] \<Longrightarrow> c mod 256 \<noteq> 0\<close>
      unfolding res digits_ok_def by (cases "carry_bytes (c div 256)") auto
    ultimately show ?thesis by blast
  next
    case False
    with 1 show ?thesis by (simp add: carry_bytes.simps digits_ok_def)
  qed
qed

lemma le_value_bounds:
  assumes "digits_ok bs"
  shows "0 \<le> le_value bs" and "bs \<noteq> [] \<Longrightarrow> 256 ^ (length bs - 1) \<le> le_value bs"
proof -
  have nonneg: "\<forall>b \<in> set xs. 0 \<le> b \<Longrightarrow> 0 \<le> le_value xs" for xs by (induction xs) auto
  with assms show "0 \<le> le_value bs" by (simp add: digits_ok_def)
  assume ne: "bs \<noteq> []"
  then have split: "bs = butlast bs @ [last bs]" by simp
  have "0 \<le> last bs" "last bs \<noteq> 0" using assms ne last_in_set [OF ne] by (auto simp: digits_ok_def)
  then have last: "1 \<le> last bs" by linarith
  have "0 \<le> le_value (butlast bs)" using assms by (intro nonneg) (auto simp: digits_ok_def dest: in_set_butlastD)
  moreover have "le_value bs = le_value (butlast bs) + 256 ^ (length bs - 1) * last bs"
    by (subst split) (simp add: le_value_append)
  moreover have "256 ^ (length bs - 1) * 1 \<le> 256 ^ (length bs - 1) * last bs"
    using last by (intro mult_left_mono) simp_all
  ultimately show "256 ^ (length bs - 1) \<le> le_value bs" by linarith
qed

lemma le_value_below: "\<forall>b \<in> set bs. 0 \<le> b \<and> b < 256 \<Longrightarrow> bs \<noteq> [] \<Longrightarrow> last bs = 0 \<Longrightarrow> le_value bs < 256 ^ (length bs - 1)"
proof (induction bs)
  case (Cons b bs)
  show ?case
  proof (cases "bs = []")
    case True
    with Cons show ?thesis by simp
  next
    case False
    with Cons have "le_value bs + 1 \<le> 256 ^ (length bs - 1)" by simp
    then have "256 * (le_value bs + 1) \<le> 256 * 256 ^ (length bs - 1)" by (rule mult_left_mono) simp
    moreover have "256 * 256 ^ (length bs - 1) = (256 :: int) ^ length bs" using False by (cases bs) simp_all
    ultimately show ?thesis using Cons.prems(1) by simp
  qed
qed simp

lemma digits_ok_append:
  assumes "digits_ok ys" "\<forall>b \<in> set xs. 0 \<le> b \<and> b < 256" "ys = [] \<Longrightarrow> xs \<noteq> [] \<Longrightarrow> last xs \<noteq> 0"
  shows "digits_ok (xs @ ys)"
  using assms by (cases "ys = []") (auto simp: digits_ok_def)

lemma add_digit_spec:
  assumes "digits_ok bs" "0 \<le> d" "d < 58"
  shows "le_value (add_digit bs d) = 58 * le_value bs + d \<and> digits_ok (add_digit bs d)"
proof -
  obtain bs' carry where t: "times58 d bs = (bs', carry)" by fastforce
  have bytes: "\<forall>b \<in> set bs. 0 \<le> b \<and> b < 256" and small: "d < 256"
    using assms by (simp_all add: digits_ok_def)
  have s: "le_value bs' + 256 ^ length bs * carry = 58 * le_value bs + d" "length bs' = length bs"
    "0 \<le> carry" "\<forall>b \<in> set bs'. 0 \<le> b \<and> b < 256"
    using times58_spec [OF assms(2) small bytes t] by blast+
  have res: "add_digit bs d = bs' @ carry_bytes carry" by (simp add: add_digit_def t)
  have v: "le_value (add_digit bs d) = 58 * le_value bs + d"
    using s carry_bytes_spec [OF s(3)] by (simp add: res le_value_append)
  have "last bs' \<noteq> 0" if c: "carry_bytes carry = []" and ne: "bs' \<noteq> []"
  proof
    assume "last bs' = 0"
    then have "le_value bs' < 256 ^ (length bs - 1)" using le_value_below [OF s(4) ne] s(2) by simp
    moreover have "bs \<noteq> []" using s(2) ne by auto
    then have "256 ^ (length bs - 1) \<le> le_value bs" using le_value_bounds(2) [OF assms(1)] by simp
    moreover have "carry = 0" using c carry_bytes_spec [OF s(3)] by simp
    ultimately show False using s(1) assms(2) le_value_bounds(1) [OF assms(1)] by simp
  qed
  then have "digits_ok (add_digit bs d)"
    unfolding res by (rule digits_ok_append [OF conjunct2 [OF carry_bytes_spec [OF s(3)]] s(4)])
  with v show ?thesis by blast
qed

lemma index_in_less: "c \<in> set xs \<Longrightarrow> index_in xs c < length xs"
  by (induction xs) auto

lemma decodeLoop_spec:
  "digits_ok bs \<Longrightarrow> set s \<subseteq> set base58_alphabet \<Longrightarrow>
   \<exists>r. decodeLoop bs s = Some r \<and> digits_ok r \<and> le_value r = digits_number (le_value bs) s"
proof (induction s arbitrary: bs)
  case Nil
  then show ?case by (simp add: digits_number_def)
next
  case (Cons c cs)
  have "index_in base58_alphabet c < 58"
    using Cons.prems(2) index_in_less [of c base58_alphabet] alphabet_facts(1) by simp
  with Cons.prems add_digit_spec [of bs "int (index_in base58_alphabet c)"]
  have a: "le_value (add_digit bs (int (index_in base58_alphabet c))) = 58 * le_value bs + int (index_in base58_alphabet c)"
    "digits_ok (add_digit bs (int (index_in base58_alphabet c)))" by auto
  from Cons.IH [OF a(2)] Cons.prems(2) show ?case
    by (simp add: a(1) digits_number_def mult.commute)
qed

lemma map_word_of_int_value:
  "\<forall>b \<in> set bs. 0 \<le> b \<and> b < 256 \<Longrightarrow> le_uint (map word_of_int bs) = le_value bs"
  by (induction bs) (simp_all add: uint_word8_of_int)

lemma encode_in_alphabet: "set (base58Encode bs) \<subseteq> set base58_alphabet"
  using base58_in_alphabet [of "bytes_number bs" "[]"] alphabet_facts nth_mem [of 0 base58_alphabet]
  by (auto simp: base58Encode_def)

lemma zero_prefix_append: "xs = [] \<or> hd xs \<noteq> 0 \<Longrightarrow> zero_prefix (replicate n 0 @ xs) = n"
  by (induction n) (cases xs; simp)+

lemma base58_decode_encode: "base58Decode (base58Encode bs) = Some bs"
proof -
  let ?s = "base58Encode bs"
  have "digits_ok []" by (simp add: digits_ok_def)
  from decodeLoop_spec [OF this encode_in_alphabet] obtain r where
    r: "decodeLoop [] ?s = Some r" "digits_ok r" "le_value r = bytes_number bs"
    by (auto simp: digits_number_encode)
  define res :: bytes where "res = map word_of_int (rev (r @ replicate (one_prefix ?s) 0))"
  have bound: "\<forall>b \<in> set r. 0 \<le> b \<and> b < 256" using r(2) by (simp add: digits_ok_def)
  have split: "res = replicate (zero_prefix bs) 0 @ map word_of_int (rev r)"
    by (simp add: res_def one_prefix_encode map_replicate_const rev_map)
  have "bytes_number (map word_of_int (rev r)) = le_value r"
    using map_word_of_int_value [OF bound] by (simp add: bytes_number_eq rev_map)
  then have "bytes_number res = bytes_number bs" unfolding split by (simp add: bytes_number_zeros r(3))
  moreover have "zero_prefix res = zero_prefix bs"
  proof -
    have "r = [] \<or> (word_of_int (last r) :: 8 word) \<noteq> 0"
    proof (cases "r = []")
      case False
      then have "0 \<le> last r \<and> last r < 256" "last r \<noteq> 0" using bound r(2) last_in_set [OF False] by (auto simp: digits_ok_def)
      then have "uint (word_of_int (last r) :: 8 word) \<noteq> 0" by (simp add: uint_word8_of_int)
      then show ?thesis by (simp add: unsigned_eq_0_iff)
    qed simp
    then have "map word_of_int (rev r) = [] \<or> hd (map word_of_int (rev r)) \<noteq> (0 :: 8 word)"
      by (cases "r = []") (simp_all add: hd_map hd_rev)
    then show ?thesis unfolding split by (rule zero_prefix_append)
  qed
  ultimately have "res = bs" by (rule bytes_number_inj)
  with r(1) show ?thesis by (simp add: base58Decode_def res_def)
qed

lemma decodeLoop_None: "decodeLoop bs s = None \<longleftrightarrow> \<not> set s \<subseteq> set base58_alphabet"
  by (induction s arbitrary: bs) auto

text \<open>
  The chart's decoder inverts the SDK's encoder: for every byte string, of any length and with any number
  of leading zeros, decoding the encoded text gives the bytes back; and it rejects exactly the texts with a
  character outside the alphabet. (The two are written separately, one over big integers, the other over a
  list of byte digits.)
\<close>

theorem base58_round_trip:
  "base58Decode (base58Encode bs) = Some bs \<and> (base58Decode s = None \<longleftrightarrow> \<not> set s \<subseteq> set base58_alphabet)"
  by (simp add: base58_decode_encode) (simp add: base58Decode_def decodeLoop_None)

section \<open>Swap events\<close>

definition EVENT_IX_TAG :: bytes where
  "EVENT_IX_TAG = [0xe4, 0x45, 0xa5, 0x2e, 0x51, 0xcb, 0x9a, 0x1d]"
definition EVT_SWAP2_DISC :: bytes where
  "EVT_SWAP2_DISC = [189, 66, 51, 168, 38, 80, 117, 153]"
definition DBC_EVT_SWAP2_HOOK_DISC :: bytes where
  "DBC_EVT_SWAP2_HOOK_DISC = [134, 59, 168, 120, 94, 51, 114, 231]"

definition PREFIX :: nat where [simp]: "PREFIX = 16"
definition DBC_SWAP2_BODY_LEN :: nat where [simp]: "DBC_SWAP2_BODY_LEN = 179"
definition DAMM_SWAP2_BODY_LEN :: nat where [simp]: "DAMM_SWAP2_BODY_LEN = 180"

record event_layout =
  el_pool :: nat
  el_direction :: nat
  el_includedFeeInput :: nat
  el_output :: nat
  el_nextSqrtPrice :: nat
  el_timestamp :: nat

definition DBC_layout :: event_layout where
  "DBC_layout = \<lparr>el_pool = 0, el_direction = 64, el_includedFeeInput = 83, el_output = 107,
     el_nextSqrtPrice = 115, el_timestamp = 171\<rparr>"

definition DAMM_layout :: event_layout where
  "DAMM_layout = \<lparr>el_pool = 0, el_direction = 32, el_includedFeeInput = 52, el_output = 76,
     el_nextSqrtPrice = 84, el_timestamp = 156\<rparr>"

datatype venue = VenueDbc | VenueDamm

record swap_event =
  ev_venue :: venue
  ev_pool :: string
  ev_buy :: bool
  ev_nextSqrtPrice :: int
  ev_quoteVolumeRaw :: int
  ev_timestamp :: int

definition starts_at :: "bytes \<Rightarrow> bytes \<Rightarrow> nat \<Rightarrow> bool" where
  "starts_at data pre i \<longleftrightarrow> length data \<ge> i + length pre \<and> (\<forall>k < length pre. data ! (i + k) = pre ! k)"

text \<open>Little-endian reads of the body's \<open>DataView\<close>; the timestamp, a \<open>Number\<close> of an u64, is exact below 2^53.\<close>

definition view_u64 :: "bytes \<Rightarrow> nat \<Rightarrow> int" where
  "view_u64 data i = le_uint (take 8 (drop (PREFIX + i) data))"

definition decode_event ::
  "bytes \<Rightarrow> venue \<Rightarrow> event_layout \<Rightarrow> nat \<Rightarrow> bytes list \<Rightarrow> swap_event option" where
  "decode_event data v layout bodyLen discs =
     (if length data < PREFIX + bodyLen then None
      else if \<not> starts_at data EVENT_IX_TAG 0 then None
      else if \<not> list_ex (\<lambda>d. starts_at data d 8) discs then None
      else (let direction = uint (data ! (PREFIX + el_direction layout));
                buy = (direction = 1);
                price = or (view_u64 data (el_nextSqrtPrice layout))
                           (push_bit 64 (view_u64 data (el_nextSqrtPrice layout + 8)))
            in if direction > 1 then None
               else if price = 0 then None
               else Some \<lparr>ev_venue = v, ev_pool = base58Encode (take 32 (drop (PREFIX + el_pool layout) data)),
                          ev_buy = buy, ev_nextSqrtPrice = price,
                          ev_quoteVolumeRaw = (if buy then view_u64 data (el_includedFeeInput layout)
                                               else view_u64 data (el_output layout)),
                          ev_timestamp = view_u64 data (el_timestamp layout)\<rparr>))"

definition decodeDbcSwapEvent :: "bytes \<Rightarrow> swap_event option" where
  "decodeDbcSwapEvent data =
     decode_event data VenueDbc DBC_layout DBC_SWAP2_BODY_LEN [EVT_SWAP2_DISC, DBC_EVT_SWAP2_HOOK_DISC]"

definition decodeDammSwapEvent :: "bytes \<Rightarrow> swap_event option" where
  "decodeDammSwapEvent data = decode_event data VenueDamm DAMM_layout DAMM_SWAP2_BODY_LEN [EVT_SWAP2_DISC]"

section \<open>Events of a transaction\<close>

record inner_ix =
  ii_program :: nat
  ii_data :: string

record tx_meta =
  tm_failed :: bool
  tm_inner :: "inner_ix list list option"
  tm_loaded :: "(pubkey list \<times> pubkey list) option"

record tx_like =
  tl_blockTime :: "int option"
  tl_slot :: int
  tl_staticKeys :: "pubkey list option"
  tl_accountKeys :: "pubkey list option"
  tl_meta :: "tx_meta option"

record slotted_event = swap_event +
  ev_slot :: int

record chart_pools =
  cp_dbc :: string
  cp_damm :: "string option"

definition with_slot :: "swap_event \<Rightarrow> int \<Rightarrow> slotted_event" where
  "with_slot e slot =
     \<lparr>ev_venue = ev_venue e, ev_pool = ev_pool e, ev_buy = ev_buy e, ev_nextSqrtPrice = ev_nextSqrtPrice e,
      ev_quoteVolumeRaw = ev_quoteVolumeRaw e, ev_timestamp = ev_timestamp e, ev_slot = slot\<rparr>"

definition message_keys :: "tx_like \<Rightarrow> tx_meta \<Rightarrow> pubkey list" where
  "message_keys tx m =
     (case tl_staticKeys tx of Some ks \<Rightarrow> ks | None \<Rightarrow> (case tl_accountKeys tx of Some ks \<Rightarrow> ks | None \<Rightarrow> [])) @
     (case tm_loaded m of Some (w, r) \<Rightarrow> w @ r | None \<Rightarrow> [])"

text \<open>The program of an inner instruction, and its event when it is one of the two programs' and of the asked pool.\<close>

definition event_of_ix :: "pubkey list \<Rightarrow> chart_pools \<Rightarrow> inner_ix \<Rightarrow> swap_event option" where
  "event_of_ix keys pools ix =
     (let program = (if ii_program ix < length keys then Some (keys ! ii_program ix) else None);
          decoded = (\<lambda>decode pool. case base58Decode (ii_data ix) of None \<Rightarrow> None
             | Some data \<Rightarrow> (case decode data of None \<Rightarrow> None | Some e \<Rightarrow> if ev_pool e \<noteq> pool then None else Some e))
      in if program = Some DBC_PROGRAM_ID then decoded decodeDbcSwapEvent (cp_dbc pools)
         else case cp_damm pools of
                Some pool \<Rightarrow> if program = Some DAMM_V2_PROGRAM_ID \<and> pool \<noteq> [] then decoded decodeDammSwapEvent pool else None
              | None \<Rightarrow> None)"

definition dated :: "tx_like \<Rightarrow> swap_event \<Rightarrow> swap_event" where
  "dated tx e =
     (case tl_blockTime tx of
        Some t \<Rightarrow> if ev_timestamp e \<le> 0 \<and> t \<noteq> 0 then e\<lparr>ev_timestamp := t\<rparr> else e
      | None \<Rightarrow> e)"

definition swapEventsFromTx :: "tx_like \<Rightarrow> chart_pools \<Rightarrow> slotted_event list" where
  "swapEventsFromTx tx pools =
     (case tl_meta tx of
        None \<Rightarrow> []
      | Some m \<Rightarrow>
          if tm_failed m then []
          else concat (map (\<lambda>ix. case event_of_ix (message_keys tx m) pools ix of
                                   Some e \<Rightarrow> [with_slot (dated tx e) (tl_slot tx)] | None \<Rightarrow> [])
                        (concat (case tm_inner m of Some gs \<Rightarrow> gs | None \<Rightarrow> []))))"

section \<open>What is extracted\<close>

text \<open>The instructions as the programs made them: program index and raw data, which the node writes in base 58.\<close>

definition rpc_ix :: "nat \<times> bytes \<Rightarrow> inner_ix" where
  "rpc_ix r = \<lparr>ii_program = fst r, ii_data = base58Encode (snd r)\<rparr>"

text \<open>The event an instruction of program \<open>program\<close> with data \<open>raw\<close> stands for, if it is one of the pools' swaps.\<close>

definition emitted :: "chart_pools \<Rightarrow> pubkey \<Rightarrow> bytes \<Rightarrow> swap_event option" where
  "emitted pools program raw =
     (if program = DBC_PROGRAM_ID
      then (case decodeDbcSwapEvent raw of Some e \<Rightarrow> if ev_pool e = cp_dbc pools then Some e else None | None \<Rightarrow> None)
      else if program = DAMM_V2_PROGRAM_ID
      then (case decodeDammSwapEvent raw of Some e \<Rightarrow> if cp_damm pools = Some (ev_pool e) \<and> ev_pool e \<noteq> [] then Some e else None
            | None \<Rightarrow> None)
      else None)"

lemma program_ids_differ: "DBC_PROGRAM_ID \<noteq> DAMM_V2_PROGRAM_ID"
proof -
  have "DBC_PROGRAM_ID ! 1 \<noteq> DAMM_V2_PROGRAM_ID ! 1" by code_simp
  then show ?thesis by auto
qed

lemma event_of_rpc_ix:
  "event_of_ix keys pools (rpc_ix r) =
     (if fst r < length keys then emitted pools (keys ! fst r) (snd r) else None)"
  by (auto simp: event_of_ix_def rpc_ix_def emitted_def base58_decode_encode Let_def program_ids_differ
      program_ids_differ [symmetric] split: option.splits)

lemma decode_event_bounds:
  assumes "decode_event data v layout bodyLen discs = Some e" "length data \<ge> PREFIX + bodyLen"
  shows "ev_venue e = v \<and> 0 < ev_nextSqrtPrice e \<and> starts_at data EVENT_IX_TAG 0"
proof -
  let ?p = "or (view_u64 data (el_nextSqrtPrice layout)) (push_bit 64 (view_u64 data (el_nextSqrtPrice layout + 8)))"
  have "0 \<le> ?p" by (simp add: view_u64_def)
  then have "?p \<noteq> 0 \<Longrightarrow> 0 < ?p" by linarith
  with assms show ?thesis by (auto simp: decode_event_def Let_def split: if_splits)
qed

lemma emitted_facts:
  assumes "emitted pools program raw = Some e"
  shows "starts_at raw EVENT_IX_TAG 0 \<and> 0 < ev_nextSqrtPrice e \<and>
    (program = DBC_PROGRAM_ID \<and> ev_venue e = VenueDbc \<and> ev_pool e = cp_dbc pools \<or>
     program = DAMM_V2_PROGRAM_ID \<and> ev_venue e = VenueDamm \<and> cp_damm pools = Some (ev_pool e))"
proof -
  have len: "PREFIX + n \<le> length raw" if "decode_event raw v l n ds = Some e" for v l n ds
    using that by (auto simp: decode_event_def split: if_splits)
  show ?thesis
  proof (cases "program = DBC_PROGRAM_ID")
    case True
    then have d: "decode_event raw VenueDbc DBC_layout DBC_SWAP2_BODY_LEN [EVT_SWAP2_DISC, DBC_EVT_SWAP2_HOOK_DISC] = Some e"
      "ev_pool e = cp_dbc pools"
      using assms by (auto simp: emitted_def decodeDbcSwapEvent_def split: option.splits if_splits)
    with True decode_event_bounds [OF d(1) len [OF d(1)]] show ?thesis by simp
  next
    case False
    then have d: "decode_event raw VenueDamm DAMM_layout DAMM_SWAP2_BODY_LEN [EVT_SWAP2_DISC] = Some e"
      "cp_damm pools = Some (ev_pool e)" "program = DAMM_V2_PROGRAM_ID"
      using assms by (auto simp: emitted_def decodeDammSwapEvent_def split: option.splits if_splits)
    with decode_event_bounds [OF d(1) len [OF d(1)]] show ?thesis by simp
  qed
qed


text \<open>A buy on the curve, in a transaction with an instruction of another program before it.\<close>

definition swap_data :: bytes where
  "swap_data = EVENT_IX_TAG @ EVT_SWAP2_DISC @ replicate 64 0 @ [1] @ replicate 18 0 @ [5] @ replicate 23 0 @
     replicate 8 0 @ [9] @ replicate 63 0"

definition swap_tx :: tx_like where
  "swap_tx =
     \<lparr>tl_blockTime = Some 1700000000, tl_slot = 7, tl_staticKeys = Some [DBC_PROGRAM_ID, replicate 32 3],
      tl_accountKeys = None,
      tl_meta = Some \<lparr>tm_failed = False, tm_inner = Some (map (map rpc_ix) [[(1, [1, 2]), (0, swap_data)]]),
                     tm_loaded = None\<rparr>\<rparr>"


end
