(* ===== verification/ChartHistory.thy ===== *)
theory ChartHistory
  imports ChartEvents "HOL-Library.Product_Lexorder" "HOL-Library.Multiset"
begin

text \<open>
  \<open>refreshPoolHistory\<close> of \<^verbatim>\<open>app/src/lib/chart/history.ts\<close>: one bounded refresh of a pool's trade history. The RPC
  node is a parameter: a page of signatures for each cursor, and for each signature the transaction or
  nothing (a missing answer and a failed call count the same). Transactions are fetched by several workers
  at a time until a deadline: \<open>work\<close> is the relation of their interleavings. The properties: the result
  depends only on how many fetches were started, not on their order; the bounds and the order of the
  events hold after every refresh; and a pool without new transactions becomes fully fetched.
\<close>

section \<open>The history and its limits\<close>

record pool_history =
  ph_events :: "slotted_event list"
  ph_newestSig :: "string option"
  ph_pending :: "string list"
  ph_attempts :: "string \<Rightarrow> nat"
  ph_capped :: bool
  ph_final :: bool

text \<open>\<open>ph_attempts\<close> is zero where the record has no property (the code never stores a zero).\<close>

record history_limits =
  hl_maxSignatures :: nat
  hl_maxTxPerRefresh :: nat
  hl_concurrency :: nat
  hl_maxEvents :: nat
  hl_maxAttempts :: nat

definition DEFAULT_LIMITS :: history_limits where
  "DEFAULT_LIMITS = \<lparr>hl_maxSignatures = 1000, hl_maxTxPerRefresh = 200, hl_concurrency = 4, hl_maxEvents = 1000,
     hl_maxAttempts = 3\<rparr>"

definition emptyHistory :: pool_history where
  "emptyHistory = \<lparr>ph_events = [], ph_newestSig = None, ph_pending = [], ph_attempts = (\<lambda>_. 0), ph_capped = False,
     ph_final = False\<rparr>"

section \<open>Listing signatures\<close>

text \<open>
  \<open>page before limit\<close> is \<open>getSignaturesForAddress\<close> back to the newest signature seen: signatures, newest
  first, each with whether its transaction failed. The loop gives the list and whether the cap cut it.
\<close>

type_synonym signature_page = "string option \<Rightarrow> nat \<Rightarrow> (string \<times> bool) list result"

function listLoop ::
  "signature_page \<Rightarrow> nat \<Rightarrow> (string \<times> bool) list \<Rightarrow> string option \<Rightarrow> ((string \<times> bool) list \<times> bool) result" where
  "listLoop page cap listed before =
     (let limit = min 1000 (cap - length listed)
      in bindE (page before limit) (\<lambda>p.
         let listed' = listed @ p
         in if length p < limit then Inr (listed', False)
            else if length listed' \<ge> cap then Inr (listed', True)
            else listLoop page cap listed' (Some (fst (last p)))))"
  by pat_completeness auto
termination by (relation "measure (\<lambda>(page, cap, listed, before). cap - length listed)") auto

declare listLoop.simps [simp del]

section \<open>Fetching transactions\<close>

record fetch_state =
  fe_done :: "string \<Rightarrow> slotted_event list option"
  fe_attempts :: "string \<Rightarrow> nat"
  fe_capped :: bool

definition missed :: "history_limits \<Rightarrow> string \<Rightarrow> fetch_state \<Rightarrow> fetch_state" where
  "missed limits sig s =
     (let n = fe_attempts s sig + 1;
          s' = s\<lparr>fe_attempts := (fe_attempts s)(sig := n)\<rparr>
      in if n \<ge> hl_maxAttempts limits then s'\<lparr>fe_done := (fe_done s)(sig \<mapsto> []), fe_capped := True\<rparr> else s')"

definition settle ::
  "history_limits \<Rightarrow> (string \<Rightarrow> tx_like option) \<Rightarrow> chart_pools \<Rightarrow> string \<Rightarrow> fetch_state \<Rightarrow> fetch_state" where
  "settle limits fetch pools sig s =
     (case fetch sig of
        Some tx \<Rightarrow> s\<lparr>fe_done := (fe_done s)(sig \<mapsto> swapEventsFromTx tx pools)\<rparr>
      | None \<Rightarrow> missed limits sig s)"

text \<open>
  The workers: a state is the index of the next fetch, the signatures in flight and what is settled. A
  worker starts the next fetch while there is one and the deadline has not passed; an answer settles its
  signature. The deadline may pass at any moment: the workers may stop wherever nothing is in flight.
\<close>

inductive work ::
  "history_limits \<Rightarrow> (string \<Rightarrow> tx_like option) \<Rightarrow> chart_pools \<Rightarrow> string list \<Rightarrow> fetch_state \<Rightarrow>
     nat \<Rightarrow> string list \<Rightarrow> fetch_state \<Rightarrow> bool"
  for limits fetch pools batch s0 where
  idle: "work limits fetch pools batch s0 0 [] s0"
| start: "work limits fetch pools batch s0 n inflight s \<Longrightarrow> n < length batch \<Longrightarrow>
    length inflight < max 1 (hl_concurrency limits) \<Longrightarrow>
    work limits fetch pools batch s0 (Suc n) (batch ! n # inflight) s"
| answer: "work limits fetch pools batch s0 n inflight s \<Longrightarrow> sig \<in> set inflight \<Longrightarrow>
    work limits fetch pools batch s0 n (remove1 sig inflight) (settle limits fetch pools sig s)"

inductive_cases work_stopped: "work limits fetch pools batch s0 n [] s"

section \<open>One refresh\<close>

definition new_pending :: "history_limits \<Rightarrow> (string \<times> bool) list \<Rightarrow> pool_history \<Rightarrow> string list" where
  "new_pending limits listed h = map fst (filter (\<lambda>s. \<not> snd s) listed) @ ph_pending h"

definition start_state :: "pool_history \<Rightarrow> string list \<Rightarrow> bool \<Rightarrow> fetch_state" where
  "start_state h pending capped =
     \<lparr>fe_done = (\<lambda>_. None), fe_attempts = (\<lambda>sig. if sig \<in> set pending then ph_attempts h sig else 0), fe_capped = capped\<rparr>"

definition merge_events :: "string list \<Rightarrow> fetch_state \<Rightarrow> pool_history \<Rightarrow> slotted_event list" where
  "merge_events batch s h =
     sort_key (\<lambda>e. (ev_timestamp e, ev_slot e))
       (ph_events h @ concat (map (\<lambda>sig. case fe_done s sig of Some es \<Rightarrow> es | None \<Rightarrow> []) (rev batch)))"

definition keep_newest :: "nat \<Rightarrow> 'a list \<Rightarrow> 'a list" where
  "keep_newest n xs = (if length xs > n then drop (length xs - n) xs else xs)"

definition finish_refresh ::
  "history_limits \<Rightarrow> (string \<times> bool) list \<Rightarrow> string list \<Rightarrow> fetch_state \<Rightarrow> pool_history \<Rightarrow> pool_history" where
  "finish_refresh limits listed pending s h =
     (let events = merge_events (take (hl_maxTxPerRefresh limits) pending) s h
      in \<lparr>ph_events = keep_newest (hl_maxEvents limits) events,
          ph_newestSig = (case listed of [] \<Rightarrow> ph_newestSig h | (sig, _) # _ \<Rightarrow> Some sig),
          ph_pending = filter (\<lambda>sig. fe_done s sig = None) pending,
          ph_attempts = (\<lambda>sig. if fe_done s sig = None then fe_attempts s sig else 0),
          ph_capped = (fe_capped s \<or> length events > hl_maxEvents limits),
          ph_final = ph_final h\<rparr>)"

text \<open>
  \<open>started\<close> is how many fetches the workers started before the deadline; \<open>page until\<close> lists the signatures
  newer than \<open>until\<close>. The settled state is that of the started fetches in batch order, which
  \<open>work_order_irrelevant\<close> justifies.
\<close>

definition refreshPoolHistory ::
  "(string option \<Rightarrow> signature_page) \<Rightarrow> (string \<Rightarrow> tx_like option) \<Rightarrow> chart_pools \<Rightarrow> history_limits \<Rightarrow> nat \<Rightarrow>
     pool_history \<Rightarrow> pool_history result" where
  "refreshPoolHistory page fetch pools limits started h =
     bindE (listLoop (page (ph_newestSig h)) (hl_maxSignatures limits) [] None) (\<lambda>(listed, cut).
     let every = new_pending limits listed h;
         pending = take (hl_maxSignatures limits) every;
         capped = (ph_capped h \<or> cut \<or> length every > hl_maxSignatures limits);
         batch = take (hl_maxTxPerRefresh limits) pending
     in Inr (finish_refresh limits listed pending
               (fold (settle limits fetch pools) (take started batch) (start_state h pending capped)) h))"

section \<open>The order of the answers does not matter\<close>

lemma settle_commute:
  "settle limits fetch pools a \<circ> settle limits fetch pools b = settle limits fetch pools b \<circ> settle limits fetch pools a"
proof (cases "a = b")
  case False
  then show ?thesis
    by (auto simp: fun_eq_iff settle_def missed_def Let_def fun_upd_twist split: option.splits)
qed simp

lemma work_settled:
  assumes "work limits fetch pools batch s0 n inflight s"
  shows "n \<le> length batch \<and> (\<exists>order. s = fold (settle limits fetch pools) order s0 \<and>
    mset order + mset inflight = mset (take n batch))"
  using assms
proof (induction rule: work.induct)
  case (start n inflight s)
  then obtain order where "s = fold (settle limits fetch pools) order s0"
    "mset order + mset inflight = mset (take n batch)" by auto
  moreover have "mset (take (Suc n) batch) = add_mset (batch ! n) (mset (take n batch))"
    using start(2) by (simp add: take_Suc_conv_app_nth)
  ultimately show ?case using start(2) by (intro conjI exI [of _ order]) auto
next
  case (answer n inflight s sig)
  then obtain order where "s = fold (settle limits fetch pools) order s0"
    "mset order + mset inflight = mset (take n batch)" by auto
  moreover have "mset (order @ [sig]) + mset (remove1 sig inflight) = mset order + mset inflight"
    using answer(2) by simp
  ultimately show ?case using answer.IH
    by (intro conjI exI [of _ "order @ [sig]"]) (auto simp del: mset_append mset_remove1)
qed simp

text \<open>
  C30: The order in which the node answers does not matter: however the workers interleave, whenever they
  stop, what they have settled is what fetching the started signatures one after the other would have,
  and at most the whole batch was started.
\<close>

theorem work_order_irrelevant:
  assumes "work limits fetch pools batch s0 started [] s"
  shows "s = fold (settle limits fetch pools) (take started batch) s0 \<and> started \<le> length batch"
proof -
  obtain order where o: "s = fold (settle limits fetch pools) order s0" "mset order = mset (take started batch)"
    and n: "started \<le> length batch" using work_settled [OF assms] by auto
  have "fold (settle limits fetch pools) order = fold (settle limits fetch pools) (take started batch)"
    using o(2) by (intro fold_multiset_equiv) (auto simp: settle_commute)
  with o(1) n show ?thesis by simp
qed

section \<open>Bounds that every refresh keeps\<close>

definition history_ok :: "history_limits \<Rightarrow> pool_history \<Rightarrow> bool" where
  "history_ok limits h \<longleftrightarrow>
     sorted (map (\<lambda>e. (ev_timestamp e, ev_slot e)) (ph_events h)) \<and> length (ph_events h) \<le> hl_maxEvents limits \<and>
     length (ph_pending h) \<le> hl_maxSignatures limits \<and>
     (\<forall>sig. ph_attempts h sig \<noteq> 0 \<longrightarrow> sig \<in> set (ph_pending h) \<and> ph_attempts h sig < hl_maxAttempts limits)"

lemma settle_monotone:
  "fe_attempts s sig \<le> fe_attempts (settle limits fetch pools a s) sig \<and>
   (fe_done s sig \<noteq> None \<longrightarrow> fe_done (settle limits fetch pools a s) sig \<noteq> None)"
  by (auto simp: settle_def missed_def Let_def split: option.splits)

lemma settled_monotone:
  "fe_attempts s sig \<le> fe_attempts (fold (settle limits fetch pools) sigs s) sig \<and>
   (fe_done s sig \<noteq> None \<longrightarrow> fe_done (fold (settle limits fetch pools) sigs s) sig \<noteq> None)"
proof (induction sigs arbitrary: s)
  case (Cons a sigs)
  with settle_monotone [of s sig limits fetch pools a] show ?case by (metis fold_simps(2) le_trans)
qed simp

text \<open>A settled signature is done or has one failed attempt more; an undone one stays below the attempt limit.\<close>

lemma settled_progress:
  "sig \<in> set sigs \<Longrightarrow> fe_done (fold (settle limits fetch pools) sigs s) sig \<noteq> None \<or>
   fe_attempts s sig < fe_attempts (fold (settle limits fetch pools) sigs s) sig"
proof (induction sigs arbitrary: s)
  case (Cons a sigs)
  show ?case
  proof (cases "sig = a")
    case True
    have "fe_done (settle limits fetch pools a s) sig \<noteq> None \<or> fe_attempts s sig < fe_attempts (settle limits fetch pools a s) sig"
      by (simp add: True settle_def missed_def Let_def split: option.splits)
    with settled_monotone [of "settle limits fetch pools a s" sig limits fetch pools sigs] show ?thesis by auto
  next
    case False
    with Cons settle_monotone [of s sig limits fetch pools a] show ?thesis
      by (metis fold_simps(2) le_less_trans set_ConsD)
  qed
qed simp

lemma settled_attempts:
  "(\<And>sig. fe_done s sig = None \<Longrightarrow> fe_attempts s sig \<noteq> 0 \<Longrightarrow> sig \<in> P \<and> fe_attempts s sig < hl_maxAttempts limits) \<Longrightarrow>
   set sigs \<subseteq> P \<Longrightarrow> fe_done (fold (settle limits fetch pools) sigs s) sig = None \<Longrightarrow>
   fe_attempts (fold (settle limits fetch pools) sigs s) sig \<noteq> 0 \<Longrightarrow>
   sig \<in> P \<and> fe_attempts (fold (settle limits fetch pools) sigs s) sig < hl_maxAttempts limits"
proof (induction sigs arbitrary: s)
  case (Cons a sigs)
  have "sig \<in> P \<and> fe_attempts (settle limits fetch pools a s) sig < hl_maxAttempts limits"
    if "fe_done (settle limits fetch pools a s) sig = None" "fe_attempts (settle limits fetch pools a s) sig \<noteq> 0" for sig
    using that Cons.prems(1) [of sig] Cons.prems(2)
    by (auto simp: settle_def missed_def Let_def split: option.splits if_splits)
  from Cons.IH [of "settle limits fetch pools a s", OF this] Cons.prems(2-4) show ?case by simp
qed simp

lemma refresh_parts:
  assumes "refreshPoolHistory page fetch pools limits started h = Inr h'"
  obtains listed cut pending s where
    "listLoop (page (ph_newestSig h)) (hl_maxSignatures limits) [] None = Inr (listed, cut)"
    "pending = take (hl_maxSignatures limits) (new_pending limits listed h)"
    "s = fold (settle limits fetch pools) (take started (take (hl_maxTxPerRefresh limits) pending))
           (start_state h pending (ph_capped h \<or> cut \<or> length (new_pending limits listed h) > hl_maxSignatures limits))"
    "h' = finish_refresh limits listed pending s h"
proof -
  obtain listed cut where l: "listLoop (page (ph_newestSig h)) (hl_maxSignatures limits) [] None = Inr (listed, cut)"
    using assms by (auto simp: refreshPoolHistory_def elim!: bindE_InrE)
  show thesis
    by (rule that [OF l refl refl]) (use assms l in \<open>simp add: refreshPoolHistory_def Let_def del: take_take\<close>)
qed

lemma keep_newest_bounds:
  "length (keep_newest n xs) \<le> n" "sorted (map f xs) \<Longrightarrow> sorted (map f (keep_newest n xs))"
  by (auto simp: keep_newest_def drop_map [symmetric] intro: sorted_wrt_drop)

lemma refresh_attempts:
  assumes ok: "history_ok limits h" and sigs: "set sigs \<subseteq> set pending"
    and s: "s = fold (settle limits fetch pools) sigs (start_state h pending capped)"
    and sig: "fe_done s sig = None" "fe_attempts s sig \<noteq> 0"
  shows "sig \<in> set pending \<and> fe_attempts s sig < hl_maxAttempts limits"
  unfolding s
proof (rule settled_attempts [OF _ sigs])
  fix x assume "fe_done (start_state h pending capped) x = None" "fe_attempts (start_state h pending capped) x \<noteq> 0"
  with ok show "x \<in> set pending \<and> fe_attempts (start_state h pending capped) x < hl_maxAttempts limits"
    by (auto simp: start_state_def history_ok_def split: if_splits)
qed (use s sig in auto)

lemma refresh_ok:
  assumes "history_ok limits h" and "refreshPoolHistory page fetch pools limits started h = Inr h'"
  shows "history_ok limits h'"
  using assms(2)
proof (rule refresh_parts)
  fix listed cut pending s
  assume p: "pending = take (hl_maxSignatures limits) (new_pending limits listed h)"
    and s: "s = fold (settle limits fetch pools) (take started (take (hl_maxTxPerRefresh limits) pending))
           (start_state h pending (ph_capped h \<or> cut \<or> length (new_pending limits listed h) > hl_maxSignatures limits))"
    and h': "h' = finish_refresh limits listed pending s h"
  have sub: "set (take started (take (hl_maxTxPerRefresh limits) pending)) \<subseteq> set pending"
    by (meson order_trans set_take_subset)
  have att: "sig \<in> set pending \<and> fe_attempts s sig < hl_maxAttempts limits"
    if "fe_done s sig = None" "fe_attempts s sig \<noteq> 0" for sig
    using refresh_attempts [OF assms(1) sub s that] .
  have "length (filter (\<lambda>sig. fe_done s sig = None) pending) \<le> hl_maxSignatures limits"
    using length_filter_le [of "\<lambda>sig. fe_done s sig = None" pending] by (simp add: p)
  moreover have "sorted (map (\<lambda>e. (ev_timestamp e, ev_slot e)) (merge_events bs s h))" for bs
    by (simp add: merge_events_def)
  ultimately show ?thesis
    using att by (auto simp: history_ok_def h' finish_refresh_def Let_def keep_newest_bounds)
qed

text \<open>
  Every refresh leaves a bounded, ordered history: the events are sorted by time and slot and no more than
  the event limit, the backlog is no longer than the signature limit, and failed attempts are remembered only for
  signatures still pending, each below the attempt limit; a cut history stays
  marked as cut. So memory per pool is bounded however many
  transactions the pool has and however the node fails.
\<close>

theorem refresh_keeps_history_bounded:
  assumes "history_ok limits h" and "refreshPoolHistory page fetch pools limits started h = Inr h'"
  shows "history_ok limits h' \<and> ph_final h' = ph_final h \<and> (ph_capped h \<longrightarrow> ph_capped h')"
proof -
  have capped: "fe_capped s \<Longrightarrow> fe_capped (fold (settle limits fetch pools) sigs s)" for sigs s
    by (induction sigs arbitrary: s) (auto simp: settle_def missed_def Let_def split: option.splits)
  obtain listed cut pending s where s: "s = fold (settle limits fetch pools) (take started (take (hl_maxTxPerRefresh limits) pending))
           (start_state h pending (ph_capped h \<or> cut \<or> length (new_pending limits listed h) > hl_maxSignatures limits))"
    and h': "h' = finish_refresh limits listed pending s h"
    using assms(2) by (rule refresh_parts)
  have "ph_capped h \<Longrightarrow> fe_capped s" unfolding s by (rule capped) (simp add: start_state_def)
  then show ?thesis using refresh_ok [OF assms] by (simp add: h' finish_refresh_def Let_def)
qed

section \<open>A quiet pool becomes complete\<close>

text \<open>What is left to try: the remaining attempts of the pending signatures.\<close>

definition remaining :: "history_limits \<Rightarrow> pool_history \<Rightarrow> nat" where
  "remaining limits h = sum_list (map (\<lambda>sig. hl_maxAttempts limits - ph_attempts h sig) (ph_pending h))"

lemma sum_list_filter_mono:
  assumes "\<And>x. x \<in> set xs \<Longrightarrow> P x \<Longrightarrow> g x \<le> f x"
  shows "sum_list (map g (filter P xs)) \<le> sum_list (map (f :: 'a \<Rightarrow> nat) xs)"
  using assms by (induction xs) (auto intro: add_mono trans_le_add2)

lemma listLoop_quiet: "0 < cap \<Longrightarrow> page None (min 1000 cap) = Inr [] \<Longrightarrow> listLoop page cap [] None = Inr ([], False)"
  by (simp add: listLoop.simps)

lemma refresh_quiet:
  assumes ok: "history_ok limits h" and caps: "0 < hl_maxSignatures limits" "0 < hl_maxTxPerRefresh limits" "0 < hl_maxAttempts limits"
    and quiet: "page (ph_newestSig h) None (min 1000 (hl_maxSignatures limits)) = Inr []" and started: "0 < started"
  shows "\<exists>h'. refreshPoolHistory page fetch pools limits started h = Inr h' \<and> ph_newestSig h' = ph_newestSig h \<and>
    (ph_pending h \<noteq> [] \<longrightarrow> remaining limits h' < remaining limits h) \<and> (ph_pending h = [] \<longrightarrow> ph_pending h' = [])"
proof -
  let ?sigs = "take started (take (hl_maxTxPerRefresh limits) (ph_pending h))"
  define s where "s = fold (settle limits fetch pools) ?sigs (start_state h (ph_pending h) (ph_capped h))"
  let ?h = "finish_refresh limits [] (ph_pending h) s h"
  have len: "length (ph_pending h) \<le> hl_maxSignatures limits" using ok by (simp add: history_ok_def)
  have r: "refreshPoolHistory page fetch pools limits started h = Inr ?h"
    using len by (simp add: refreshPoolHistory_def listLoop_quiet [of _ "page (ph_newestSig h)", OF caps(1) quiet] new_pending_def s_def Let_def del: take_take)
  have base: "fe_attempts (start_state h (ph_pending h) c) sig = ph_attempts h sig" if "sig \<in> set (ph_pending h)" for sig c
    using that by (simp add: start_state_def)
  let ?f = "\<lambda>sig. hl_maxAttempts limits - ph_attempts h sig" and ?g = "\<lambda>sig. hl_maxAttempts limits - fe_attempts s sig"
  let ?P = "\<lambda>sig. fe_done s sig = None"
  have mono: "?g sig \<le> ?f sig" if "sig \<in> set (ph_pending h)" for sig
    using settled_monotone [of "start_state h (ph_pending h) (ph_capped h)" sig limits fetch pools ?sigs] base [OF that]
    by (simp add: s_def diff_le_mono2)
  have rem: "remaining limits ?h = sum_list (map ?g (filter ?P (ph_pending h)))"
    by (auto simp: remaining_def finish_refresh_def Let_def intro!: arg_cong [where f = sum_list] map_cong)
  have "remaining limits ?h < remaining limits h" if ne: "ph_pending h \<noteq> []"
  proof -
    obtain a rest where a: "ph_pending h = a # rest" using ne by (cases "ph_pending h") auto
    have "a \<in> set ?sigs" using a started caps(2) by (cases started; cases "hl_maxTxPerRefresh limits") auto
    from settled_progress [OF this, of limits fetch pools "start_state h (ph_pending h) (ph_capped h)"]
    have prog: "fe_done s a \<noteq> None \<or> ph_attempts h a < fe_attempts s a"
      using base [of a] by (simp add: s_def a)
    have below: "ph_attempts h a < hl_maxAttempts limits" using ok caps(3) unfolding history_ok_def by (metis gr0I)
    have rest: "sum_list (map ?g (filter ?P rest)) \<le> sum_list (map ?f rest)"
      using mono by (intro sum_list_filter_mono) (simp add: a)
    have "fe_done s a = None \<Longrightarrow> ?g a < ?f a" using prog below by (auto intro: diff_less_mono2)
    then show ?thesis
      using rest below unfolding rem by (cases "fe_done s a") (auto simp: remaining_def a)
  qed
  moreover have "ph_newestSig ?h = ph_newestSig h" "ph_pending h = [] \<Longrightarrow> ph_pending ?h = []"
    by (simp_all add: finish_refresh_def Let_def)
  ultimately show ?thesis using r by blast
qed

text \<open>Refreshes one after the other, each with what the node answers then and how many fetches it starts.\<close>

fun refreshes ::
  "(string option \<Rightarrow> signature_page) \<Rightarrow> chart_pools \<Rightarrow> history_limits \<Rightarrow> ((string \<Rightarrow> tx_like option) \<times> nat) list \<Rightarrow>
     pool_history \<Rightarrow> pool_history result" where
  "refreshes page pools limits [] h = Inr h"
| "refreshes page pools limits ((fetch, started) # rs) h =
     bindE (refreshPoolHistory page fetch pools limits started h) (refreshes page pools limits rs)"

lemma remaining_bound: "history_ok limits h \<Longrightarrow> remaining limits h \<le> hl_maxSignatures limits * hl_maxAttempts limits"
proof -
  assume "history_ok limits h"
  then have l: "length (ph_pending h) \<le> hl_maxSignatures limits" by (simp add: history_ok_def)
  have "sum_list (map (\<lambda>sig. hl_maxAttempts limits - ph_attempts h sig) ss) \<le> length ss * hl_maxAttempts limits" for ss
    by (induction ss) (auto intro: add_mono)
  then have "remaining limits h \<le> length (ph_pending h) * hl_maxAttempts limits" by (simp add: remaining_def)
  also have "\<dots> \<le> hl_maxSignatures limits * hl_maxAttempts limits" using l by (rule mult_right_mono) simp
  finally show ?thesis .
qed

text \<open>
  C29: A quiet pool becomes complete: when the node lists no newer signatures and each refresh starts at
  least one fetch before its deadline, then after \<open>maxSignatures * maxAttempts\<close> refreshes nothing is
  pending, whatever the node answers to the fetches. So a curve that has migrated always becomes final.
\<close>

theorem quiet_pool_becomes_complete:
  assumes "history_ok limits h"
    and "0 < hl_maxSignatures limits" "0 < hl_maxTxPerRefresh limits" "0 < hl_maxAttempts limits"
    and "page (ph_newestSig h) None (min 1000 (hl_maxSignatures limits)) = Inr []"
    and "\<forall>r \<in> set rs. 0 < snd r" and "hl_maxSignatures limits * hl_maxAttempts limits \<le> length rs"
  shows "\<exists>h'. refreshes page pools limits rs h = Inr h' \<and> ph_pending h' = []"
proof -
  have "\<exists>h'. refreshes page pools limits rs h = Inr h' \<and> ph_pending h' = []"
    if "history_ok limits h" "page (ph_newestSig h) None (min 1000 (hl_maxSignatures limits)) = Inr []"
      "remaining limits h \<le> length rs \<or> ph_pending h = []" "\<forall>r \<in> set rs. 0 < snd r" for rs h
    using that
  proof (induction rs arbitrary: h)
    case Nil
    have "ph_pending h = []"
    proof (rule ccontr)
      assume "ph_pending h \<noteq> []"
      then obtain a rest where a: "ph_pending h = a # rest" by (cases "ph_pending h") auto
      have "ph_attempts h a < hl_maxAttempts limits"
        using Nil.prems(1) assms(4) unfolding history_ok_def by (metis gr0I)
      with Nil.prems(3) a show False by (simp add: remaining_def)
    qed
    then show ?case by simp
  next
    case (Cons r rs)
    obtain fetch started where r: "r = (fetch, started)" by fastforce
    from refresh_quiet [of limits h page started fetch pools] Cons.prems(1,2,4) assms(2-4)
    obtain h1 where h1: "refreshPoolHistory page fetch pools limits started h = Inr h1" "ph_newestSig h1 = ph_newestSig h"
      "ph_pending h \<noteq> [] \<Longrightarrow> remaining limits h1 < remaining limits h" "ph_pending h = [] \<Longrightarrow> ph_pending h1 = []"
      by (auto simp: r)
    have ok: "history_ok limits h1" by (rule refresh_ok [OF Cons.prems(1) h1(1)])
    have "remaining limits h1 \<le> length rs \<or> ph_pending h1 = []"
      using h1(3,4) Cons.prems(3) by (cases "ph_pending h = []") auto
    with Cons.IH [OF ok] Cons.prems h1 show ?case by (auto simp: r)
  qed
  from this [OF assms(1,5)] remaining_bound [OF assms(1)] assms(6,7) show ?thesis by auto
qed

text \<open>A pool with one pending signature the node never returns: given up after the third refresh.\<close>

definition stuck_history :: pool_history where
  "stuck_history = emptyHistory\<lparr>ph_pending := [''sig''], ph_newestSig := Some ''sig''\<rparr>"

definition tiny_limits :: history_limits where
  "tiny_limits = \<lparr>hl_maxSignatures = 1, hl_maxTxPerRefresh = 1, hl_concurrency = 4, hl_maxEvents = 10, hl_maxAttempts = 3\<rparr>"

lemma stuck_ok: "history_ok tiny_limits stuck_history"
  by (simp add: history_ok_def tiny_limits_def stuck_history_def emptyHistory_def)

theorem quiet_pool_becomes_complete_witness:
  "\<exists>h'. refreshes (\<lambda>_ _ _. Inr []) \<lparr>cp_dbc = ''p'', cp_damm = None\<rparr> tiny_limits (replicate 3 (\<lambda>_. None, 1)) stuck_history = Inr h' \<and>
     ph_pending h' = [] \<and> length (ph_pending stuck_history) = 1"
  using quiet_pool_becomes_complete [OF stuck_ok, of "\<lambda>_ _ _. Inr []" "replicate 3 (\<lambda>_. None, 1)" "\<lparr>cp_dbc = ''p'', cp_damm = None\<rparr>"]
  by (simp add: tiny_limits_def stuck_history_def)

theorem refresh_keeps_history_bounded_witness:
  "\<exists>h'. refreshPoolHistory (\<lambda>_ _ _. Inr []) (\<lambda>_. None) \<lparr>cp_dbc = ''p'', cp_damm = None\<rparr> tiny_limits 1 stuck_history = Inr h' \<and>
     ph_attempts h' ''sig'' = 1 \<and> history_ok tiny_limits h'"
proof -
  let ?r = "refreshPoolHistory (\<lambda>_ _ _. Inr []) (\<lambda>_. None) \<lparr>cp_dbc = ''p'', cp_damm = None\<rparr> tiny_limits 1 stuck_history"
  obtain h' where h': "?r = Inr h'" "ph_attempts h' ''sig'' = 1"
    by (simp add: refreshPoolHistory_def listLoop_quiet tiny_limits_def stuck_history_def emptyHistory_def new_pending_def
        start_state_def settle_def missed_def finish_refresh_def Let_def)
  with refresh_keeps_history_bounded [OF stuck_ok h'(1)] show ?thesis by blast
qed

theorem work_order_irrelevant_witness:
  "\<exists>s. work DEFAULT_LIMITS (\<lambda>_. None) \<lparr>cp_dbc = ''p'', cp_damm = None\<rparr> [''a'', ''b'']
       (start_state emptyHistory [''a'', ''b''] False) 2 [] s \<and> fe_attempts s ''a'' = 1 \<and> fe_attempts s ''b'' = 1"
proof -
  let ?pools = "\<lparr>cp_dbc = ''p'', cp_damm = None\<rparr>" and ?s0 = "start_state emptyHistory [''a'', ''b''] False"
  let ?w = "work DEFAULT_LIMITS (\<lambda>_. None) ?pools [''a'', ''b''] ?s0"
  let ?settle = "settle DEFAULT_LIMITS (\<lambda>_. None) ?pools"
  have "?w 1 [''a''] ?s0" using work.start [OF work.idle, of "[''a'', ''b'']" DEFAULT_LIMITS "\<lambda>_. None" ?pools ?s0] by (simp add: DEFAULT_LIMITS_def)
  then have "?w 2 [''b'', ''a''] ?s0"
    using work.start [of DEFAULT_LIMITS "\<lambda>_. None" ?pools "[''a'', ''b'']" ?s0 1 "[''a'']" ?s0]
    by (simp add: DEFAULT_LIMITS_def numeral_2_eq_2)
  then have "?w 2 [''a''] (?settle ''b'' ?s0)" using work.answer [of _ _ _ _ _ _ _ _ "''b''"] by fastforce
  then have w: "?w 2 [] (?settle ''a'' (?settle ''b'' ?s0))" using work.answer [of _ _ _ _ _ _ _ _ "''a''"] by fastforce
  from work_order_irrelevant [OF w] have "?settle ''a'' (?settle ''b'' ?s0) = fold ?settle [''a'', ''b''] ?s0" by simp
  moreover have "fe_attempts (fold ?settle [''a'', ''b''] ?s0) ''a'' = 1" "fe_attempts (fold ?settle [''a'', ''b''] ?s0) ''b'' = 1"
    by (simp_all add: settle_def missed_def start_state_def emptyHistory_def DEFAULT_LIMITS_def Let_def)
  ultimately show ?thesis using w by metis
qed

end
