(* ===== verification/ChartSeries.thy ===== *)
theory ChartSeries
  imports ChartEvents
begin

text \<open>
  \<^verbatim>\<open>app/src/lib/chart/series.ts\<close>: from swap events to the drawn series. A JavaScript number of the series is the
  rational it stands for; \<open>fl\<close> is the rounding of an arithmetic result to a double, a parameter, so that
  no statement depends on exact floating-point arithmetic. The properties: one point per second in strictly
  increasing time, and candles that are consecutive, chained, at most five hundred, and contain every
  trade of their bucket. The demo series and the colour helper are left out.
\<close>

record chart_point =
  cpt_t :: rat
  cpt_price :: rat
  cpt_volumeQuote :: rat
  cpt_venue :: venue
  cpt_anchor :: bool

record candle =
  ca_time :: int
  ca_open :: rat
  ca_high :: rat
  ca_low :: rat
  ca_close :: rat
  ca_volumeQuote :: rat

type_synonym rounding = "rat \<Rightarrow> rat"

definition power10 :: "int \<Rightarrow> rat" where
  "power10 n = (if n \<ge> 0 then 10 ^ nat n else 1 / 10 ^ nat (- n))"

definition sqrtPriceToPrice :: "rounding \<Rightarrow> int \<Rightarrow> int \<Rightarrow> int \<Rightarrow> rat" where
  "sqrtPriceToPrice fl sqrtX64 baseDecimals quoteDecimals =
     (let s = fl (fl (of_int sqrtX64) / 2 ^ 64) in fl (fl (s * s) * fl (power10 (baseDecimals - quoteDecimals))))"

definition toPoints :: "rounding \<Rightarrow> slotted_event list \<Rightarrow> int \<Rightarrow> int \<Rightarrow> chart_point list" where
  "toPoints fl events baseDecimals quoteDecimals =
     sort_key cpt_t (filter (\<lambda>p. cpt_price p > 0)
       (map (\<lambda>e. \<lparr>cpt_t = of_int (ev_timestamp e),
                    cpt_price = sqrtPriceToPrice fl (ev_nextSqrtPrice e) baseDecimals quoteDecimals,
                    cpt_volumeQuote = fl (fl (of_int (ev_quoteVolumeRaw e)) / fl (power10 quoteDecimals)),
                    cpt_venue = ev_venue e, cpt_anchor = False\<rparr>) events))"

definition anchor_point :: "rat \<Rightarrow> rat \<Rightarrow> venue \<Rightarrow> chart_point" where
  "anchor_point t price v = \<lparr>cpt_t = t, cpt_price = price, cpt_volumeQuote = 0, cpt_venue = v, cpt_anchor = True\<rparr>"

definition withAnchors :: "chart_point list \<Rightarrow> (rat \<times> rat) option \<Rightarrow> rat \<times> rat \<Rightarrow> chart_point list" where
  "withAnchors points start now =
     (let out = (case start of
                   Some (t, price) \<Rightarrow>
                     if price > 0 \<and> (points = [] \<or> t < cpt_t (hd points)) then anchor_point t price VenueDbc # points
                     else points
                 | None \<Rightarrow> points)
      in if snd now > 0 \<and> (out = [] \<or> fst now > cpt_t (last out))
         then out @ [anchor_point (fst now) (snd now) (if out = [] then VenueDbc else cpt_venue (last out))]
         else out)"

text \<open>The body of the loop of \<open>dedupePerSecond\<close>; \<open>out\<close> is the output so far, its last point first.\<close>

definition dedupe_step :: "rounding \<Rightarrow> chart_point list \<Rightarrow> chart_point \<Rightarrow> chart_point list" where
  "dedupe_step fl out p =
     (let t = of_int \<lfloor>cpt_t p\<rfloor> in
      case out of
        [] \<Rightarrow> [p\<lparr>cpt_t := t\<rparr>]
      | prev # before \<Rightarrow>
          if cpt_t prev = t
          then \<lparr>cpt_t = t, cpt_price = cpt_price p, cpt_volumeQuote = fl (cpt_volumeQuote prev + cpt_volumeQuote p),
                cpt_venue = cpt_venue p, cpt_anchor = (cpt_anchor prev \<and> cpt_anchor p)\<rparr> # before
          else if t > cpt_t prev then p\<lparr>cpt_t := t\<rparr> # out
          else out)"

definition dedupePerSecond :: "rounding \<Rightarrow> chart_point list \<Rightarrow> chart_point list" where
  "dedupePerSecond fl points = rev (foldl (dedupe_step fl) [] points)"

datatype interval_key = Min15 | Hour1 | Day1

fun INTERVALS :: "interval_key \<Rightarrow> int" where
  "INTERVALS Min15 = 900" | "INTERVALS Hour1 = 3600" | "INTERVALS Day1 = 86400"

definition pickInterval :: "rat \<Rightarrow> interval_key" where
  "pickInterval spanSec =
     (if spanSec / of_int (INTERVALS Min15) \<le> 300 then Min15
      else if spanSec / of_int (INTERVALS Hour1) \<le> 300 then Hour1
      else Day1)"

section \<open>Candles\<close>

definition MAX_CANDLES :: int where [simp]: "MAX_CANDLES = 500"

definition bucketOf :: "int \<Rightarrow> rat \<Rightarrow> int" where
  "bucketOf intervalSec t = \<lfloor>t / of_int intervalSec\<rfloor> * intervalSec"

definition candle_of :: "rounding \<Rightarrow> int \<Rightarrow> rat \<Rightarrow> chart_point list \<Rightarrow> candle" where
  "candle_of fl time open' inside =
     \<lparr>ca_time = time, ca_open = open', ca_high = foldl (\<lambda>h p. max h (cpt_price p)) open' inside,
      ca_low = foldl (\<lambda>l p. min l (cpt_price p)) open' inside,
      ca_close = (if inside = [] then open' else cpt_price (last inside)),
      ca_volumeQuote = foldl (\<lambda>v p. fl (v + cpt_volumeQuote p)) 0 inside\<rparr>"

text \<open>
  The outer loop, with the points not consumed yet. It need not end for an interval that is not positive,
  so it is a partial function: \<open>None\<close> is not returning.
\<close>

partial_function (option) candleLoop ::
  "rounding \<Rightarrow> int \<Rightarrow> int \<Rightarrow> int \<Rightarrow> rat \<Rightarrow> chart_point list \<Rightarrow> candle list option" where
  "candleLoop fl intervalSec lastTime time close points =
     (if time \<le> lastTime
      then (let inside = takeWhile (\<lambda>p. cpt_t p < of_int (time + intervalSec)) points;
                c = candle_of fl time close inside
            in Option.bind (candleLoop fl intervalSec lastTime (time + intervalSec) (ca_close c)
                              (drop (length inside) points)) (\<lambda>cs. Some (c # cs)))
      else Some [])"

definition bucketCandles :: "rounding \<Rightarrow> chart_point list \<Rightarrow> int \<Rightarrow> rat \<Rightarrow> candle list option" where
  "bucketCandles fl points intervalSec nowSec =
     (case points of
        [] \<Rightarrow> Some []
      | first # _ \<Rightarrow>
          (let lastTime = max (bucketOf intervalSec nowSec) (bucketOf intervalSec (cpt_t (last points)));
               start = bucketOf intervalSec (cpt_t first);
               minStart = lastTime - (MAX_CANDLES - 1) * intervalSec;
               skipped = (if start < minStart then takeWhile (\<lambda>p. cpt_t p < of_int minStart) points else []);
               close = (if skipped = [] then cpt_price first else cpt_price (last skipped))
           in candleLoop fl intervalSec lastTime (if start < minStart then minStart else start) close
                (drop (length skipped) points)))"

definition CANDLE_MIN_TRADES :: nat where [simp]: "CANDLE_MIN_TRADES = 30"

definition tradeCount :: "chart_point list \<Rightarrow> nat" where
  "tradeCount points = foldl (\<lambda>n p. n + (if cpt_anchor p then 0 else 1)) 0 points"

datatype chart_mode = Line | Candles

definition chartMode :: "chart_point list \<Rightarrow> chart_mode" where
  "chartMode points = (if tradeCount points \<ge> CANDLE_MIN_TRADES then Candles else Line)"

section \<open>One point per second\<close>

definition per_second :: "chart_point list \<Rightarrow> bool" where
  "per_second out \<longleftrightarrow> sorted_wrt (\<lambda>a b. cpt_t b < cpt_t a) out \<and> (\<forall>p \<in> set out. cpt_t p = of_int \<lfloor>cpt_t p\<rfloor>)"

lemma per_second_step: "per_second out \<Longrightarrow> per_second (dedupe_step fl out p)"
proof (cases out)
  case (Cons prev before)
  assume ok: "per_second out"
  consider "cpt_t prev = of_int \<lfloor>cpt_t p\<rfloor>" | "cpt_t prev \<noteq> of_int \<lfloor>cpt_t p\<rfloor>" "of_int \<lfloor>cpt_t p\<rfloor> > cpt_t prev"
    | "cpt_t prev \<noteq> of_int \<lfloor>cpt_t p\<rfloor>" "\<not> of_int \<lfloor>cpt_t p\<rfloor> > cpt_t prev" by blast
  then show ?thesis
  proof cases
    case 1
    with ok show ?thesis by (simp add: dedupe_step_def Cons per_second_def)
  next
    case 2
    with ok show ?thesis by (auto simp: dedupe_step_def Cons per_second_def)
  next
    case 3
    with ok show ?thesis by (simp add: dedupe_step_def Cons)
  qed
qed (simp add: dedupe_step_def per_second_def Let_def)

lemma per_second_steps: "per_second out \<Longrightarrow> per_second (foldl (dedupe_step fl) out ps)"
  by (induction ps arbitrary: out) (simp_all add: per_second_step)

text \<open>
  The drawn line is well formed: whatever the points, the series given to the chart has strictly
  increasing times, all of whole seconds, so no two points fall on the same second.
\<close>

theorem dedupe_strictly_increasing:
  "sorted_wrt (\<lambda>a b. cpt_t a < cpt_t b) (dedupePerSecond fl points) \<and>
   (\<forall>p \<in> set (dedupePerSecond fl points). cpt_t p = of_int \<lfloor>cpt_t p\<rfloor>)"
  using per_second_steps [of "[]" fl points] by (simp add: per_second_def dedupePerSecond_def sorted_wrt_rev)

section \<open>Candles are consecutive\<close>

text \<open>Candles from \<open>time\<close> on: one per interval, chained by close and open, bounded by low and high.\<close>

fun chained :: "int \<Rightarrow> int \<Rightarrow> rat \<Rightarrow> candle list \<Rightarrow> bool" where
  "chained intervalSec time close [] \<longleftrightarrow> True"
| "chained intervalSec time close (c # cs) \<longleftrightarrow>
     ca_time c = time \<and> ca_open c = close \<and> ca_low c \<le> ca_open c \<and> ca_open c \<le> ca_high c \<and>
     ca_low c \<le> ca_close c \<and> ca_close c \<le> ca_high c \<and> chained intervalSec (time + intervalSec) (ca_close c) cs"

lemma high_bounds: "h \<le> foldl (\<lambda>h p. max h (cpt_price p)) h ps \<and> (\<forall>p \<in> set ps. cpt_price p \<le> foldl (\<lambda>h p. max h (cpt_price p)) h ps)"
proof (induction ps arbitrary: h)
  case (Cons p ps)
  from Cons [of "max h (cpt_price p)"] show ?case by auto
qed simp

lemma low_bounds: "foldl (\<lambda>l p. min l (cpt_price p)) l ps \<le> l \<and> (\<forall>p \<in> set ps. foldl (\<lambda>l p. min l (cpt_price p)) l ps \<le> cpt_price p)"
proof (induction ps arbitrary: l)
  case (Cons p ps)
  from Cons [of "min l (cpt_price p)"] show ?case by auto
qed simp

lemma candle_of_bounds:
  "ca_time (candle_of fl time o' ps) = time \<and> ca_open (candle_of fl time o' ps) = o' \<and>
   ca_low (candle_of fl time o' ps) \<le> o' \<and> o' \<le> ca_high (candle_of fl time o' ps) \<and>
   ca_low (candle_of fl time o' ps) \<le> ca_close (candle_of fl time o' ps) \<and>
   ca_close (candle_of fl time o' ps) \<le> ca_high (candle_of fl time o' ps) \<and>
   (\<forall>p \<in> set ps. ca_low (candle_of fl time o' ps) \<le> cpt_price p \<and> cpt_price p \<le> ca_high (candle_of fl time o' ps))"
  using high_bounds [of o' ps] low_bounds [where l = o' and ps = ps] by (simp add: candle_of_def)

text \<open>Each point lies in the candle of its bucket.\<close>

definition covers :: "int \<Rightarrow> candle list \<Rightarrow> chart_point \<Rightarrow> bool" where
  "covers intervalSec cs p \<longleftrightarrow>
     (\<exists>c \<in> set cs. of_int (ca_time c) \<le> cpt_t p \<and> cpt_t p < of_int (ca_time c + intervalSec) \<and>
        ca_low c \<le> cpt_price p \<and> cpt_price p \<le> ca_high c)"

lemma takeWhile_below:
  "sorted (map cpt_t ps) \<Longrightarrow> p \<in> set (drop (length (takeWhile (\<lambda>p. cpt_t p < b) ps)) ps) \<Longrightarrow> b \<le> cpt_t p"
proof (induction ps)
  case (Cons q ps)
  then show ?case by (cases "cpt_t q < b") auto
qed simp

lemma sorted_last: "sorted (map f ps) \<Longrightarrow> p \<in> set ps \<Longrightarrow> f p \<le> f (last ps)"
  by (induction ps) auto

lemma candleLoop_steps:
  "time \<le> lastTime \<Longrightarrow> candleLoop fl intervalSec lastTime time close points =
     (let inside = takeWhile (\<lambda>p. cpt_t p < of_int (time + intervalSec)) points;
          c = candle_of fl time close inside
      in Option.bind (candleLoop fl intervalSec lastTime (time + intervalSec) (ca_close c) (drop (length inside) points))
           (\<lambda>cs. Some (c # cs)))"
  "lastTime < time \<Longrightarrow> candleLoop fl intervalSec lastTime time close points = Some []"
  by (subst candleLoop.simps, simp)+

lemma candleLoop_spec:
  assumes "0 < intervalSec"
  shows "sorted (map cpt_t points) \<Longrightarrow> \<forall>p \<in> set points. of_int time \<le> cpt_t p \<and> cpt_t p < of_int (lastTime + intervalSec) \<Longrightarrow>
    time \<le> lastTime + intervalSec \<Longrightarrow> intervalSec dvd lastTime - time \<Longrightarrow>
    \<exists>cs. candleLoop fl intervalSec lastTime time close points = Some cs \<and> chained intervalSec time close cs \<and>
      int (length cs) * intervalSec = lastTime + intervalSec - time \<and> (\<forall>p \<in> set points. covers intervalSec cs p)"
proof (induction "nat (lastTime + intervalSec - time)" arbitrary: time close points rule: less_induct)
  case less
  show ?case
  proof (cases "time \<le> lastTime")
    case False
    from less(5) obtain k where "lastTime - time = intervalSec * k" by (auto simp: dvd_def)
    moreover from this False have "intervalSec * k < intervalSec * 0" by simp
    then have "k < 0" using assms by (simp only: mult_less_cancel_left_pos)
    moreover have "intervalSec * (- 1) \<le> intervalSec * k" using less(4) calculation(1) by simp
    then have "- 1 \<le> k" using assms by (simp only: mult_le_cancel_left_pos)
    ultimately have "k = - 1" "lastTime - time = intervalSec * k" by linarith+
    then have t: "time = lastTime + intervalSec" by simp
    with less(3) have "points = []" by (cases points) auto
    with False t show ?thesis by (simp add: candleLoop.simps)
  next
    case True
    let ?inside = "takeWhile (\<lambda>p. cpt_t p < of_int (time + intervalSec)) points"
    let ?c = "candle_of fl time close ?inside" and ?rest = "drop (length ?inside) points"
    have split: "points = ?inside @ ?rest" by (metis takeWhile_eq_take append_take_drop_id)
    have rest: "of_int (time + intervalSec) \<le> cpt_t p" if "p \<in> set ?rest" for p
      using takeWhile_below [OF less(2) that] .
    have "\<exists>k. lastTime - time = intervalSec * k" using less(5) by (auto simp: dvd_def)
    then obtain k where k: "lastTime - time = intervalSec * k" by blast
    then have "lastTime - (time + intervalSec) = intervalSec * (k - 1)" by (simp add: algebra_simps)
    then have d: "intervalSec dvd lastTime - (time + intervalSec)" by simp
    have s: "sorted (map cpt_t ?rest)" using less(2) by (simp add: drop_map [symmetric] sorted_wrt_drop)
    have b: "\<forall>p \<in> set ?rest. of_int (time + intervalSec) \<le> cpt_t p \<and> cpt_t p < of_int (lastTime + intervalSec)"
      using rest less(3) by (meson in_set_dropD)
    have "nat (lastTime + intervalSec - (time + intervalSec)) < nat (lastTime + intervalSec - time)"
      using assms True by simp
    from less(1) [OF this s b _ d, of "ca_close ?c"] True obtain cs where
      cs: "candleLoop fl intervalSec lastTime (time + intervalSec) (ca_close ?c) ?rest = Some cs"
      "chained intervalSec (time + intervalSec) (ca_close ?c) cs"
      "int (length cs) * intervalSec = lastTime + intervalSec - (time + intervalSec)"
      "\<forall>p \<in> set ?rest. covers intervalSec cs p" by auto
    have "candleLoop fl intervalSec lastTime time close points = Some (?c # cs)"
      using True cs(1) by (subst candleLoop.simps) (simp add: Let_def)
    moreover have "chained intervalSec time close (?c # cs)" using candle_of_bounds [of fl time close ?inside] cs(2) by simp
    moreover have "int (length (?c # cs)) * intervalSec = lastTime + intervalSec - time" using cs(3) by (simp add: algebra_simps)
    moreover have "covers intervalSec (?c # cs) p" if p: "p \<in> set points" for p
    proof (cases "p \<in> set ?inside")
      case True
      then have "cpt_t p < of_int (time + intervalSec)" by (rule set_takeWhileD [THEN conjunct2])
      with True p less(3) candle_of_bounds [of fl time close ?inside] show ?thesis
        by (auto simp: covers_def)
    next
      case False
      with p split have "p \<in> set ?rest" by (metis Un_iff set_append)
      with cs(4) show ?thesis by (auto simp: covers_def)
    qed
    ultimately show ?thesis by blast
  qed
qed

lemma bucketOf_bounds:
  assumes "0 < intervalSec"
  shows "of_int (bucketOf intervalSec t) \<le> t \<and> t < of_int (bucketOf intervalSec t + intervalSec)"
proof -
  let ?q = "t / of_int intervalSec"
  have pos: "(0 :: rat) < of_int intervalSec" using assms by simp
  have "of_int \<lfloor>?q\<rfloor> \<le> ?q" "?q < of_int \<lfloor>?q\<rfloor> + 1" by linarith+
  then have "of_int \<lfloor>?q\<rfloor> * of_int intervalSec \<le> ?q * of_int intervalSec"
    "?q * of_int intervalSec < (of_int \<lfloor>?q\<rfloor> + 1) * of_int intervalSec"
    using pos by (simp_all only: mult_right_mono less_imp_le mult_strict_right_mono)
  moreover have "?q * of_int intervalSec = t" using pos by simp
  ultimately show ?thesis unfolding bucketOf_def of_int_add of_int_mult by (simp only: distrib_right mult_1)
qed

lemma bucketOf_mono: "0 < intervalSec \<Longrightarrow> t \<le> t' \<Longrightarrow> bucketOf intervalSec t \<le> bucketOf intervalSec t'"
  by (simp add: bucketOf_def floor_mono divide_right_mono mult_right_mono)

lemma candles_from:
  assumes iv: "0 < intervalSec" and s: "sorted (map cpt_t points)" and d: "intervalSec dvd lastTime - start"
    and le: "start \<le> lastTime" "lastTime - 499 * intervalSec \<le> start"
    and b: "\<forall>p \<in> set points. cpt_t p < of_int (lastTime + intervalSec)"
    and rest: "rest = drop (length (takeWhile (\<lambda>p. cpt_t p < of_int start) points)) points"
  shows "\<exists>cs. candleLoop fl intervalSec lastTime start close rest = Some cs \<and> chained intervalSec start close cs \<and>
    0 < length cs \<and> int (length cs) \<le> 500 \<and> start + (int (length cs) - 1) * intervalSec = lastTime \<and>
    (\<forall>p \<in> set points. of_int start \<le> cpt_t p \<longrightarrow> covers intervalSec cs p)"
proof -
  let ?skipped = "takeWhile (\<lambda>p. cpt_t p < of_int start) points"
  have split: "?skipped @ rest = points" unfolding rest by (metis takeWhile_eq_take append_take_drop_id)
  have sets: "set ?skipped \<union> set rest = set points" using arg_cong [OF split, of set] unfolding set_append .
  have "of_int start \<le> cpt_t p" if "p \<in> set rest" for p
    using takeWhile_below [OF s that [unfolded rest]] .
  with b sets have r: "\<forall>p \<in> set rest. of_int start \<le> cpt_t p \<and> cpt_t p < of_int (lastTime + intervalSec)" by blast
  have "sorted (map cpt_t rest)" using s by (simp add: rest drop_map [symmetric] sorted_wrt_drop)
  from candleLoop_spec [OF iv this r _ d, of fl close] le(1) iv obtain cs where
    cs: "candleLoop fl intervalSec lastTime start close rest = Some cs" "chained intervalSec start close cs"
      "int (length cs) * intervalSec = lastTime + intervalSec - start" "\<forall>p \<in> set rest. covers intervalSec cs p" by auto
  have "int (length cs) * intervalSec \<le> 500 * intervalSec" using cs(3) le(2) by linarith
  then have few: "int (length cs) \<le> 500" using iv by simp
  have "0 < int (length cs) * intervalSec" using cs(3) le(1) iv by linarith
  then have some: "0 < length cs" using iv by (simp add: zero_less_mult_iff)
  have end_time: "start + (int (length cs) - 1) * intervalSec = lastTime" using cs(3) by (simp add: left_diff_distrib)
  have "covers intervalSec cs p" if "p \<in> set points" "of_int start \<le> cpt_t p" for p
  proof -
    have "p \<notin> set ?skipped"
    proof
      assume "p \<in> set ?skipped"
      then have "cpt_t p < of_int start" by (rule set_takeWhileD [THEN conjunct2])
      with that(2) show False by simp
    qed
    with sets that(1) have "p \<in> set rest" by blast
    with cs(4) show ?thesis by blast
  qed
  with cs(1,2) few some end_time show ?thesis by blast
qed

lemma bucketCandles_hd:
  "points \<noteq> [] \<Longrightarrow> bucketCandles fl points intervalSec nowSec =
     candleLoop fl intervalSec (max (bucketOf intervalSec nowSec) (bucketOf intervalSec (cpt_t (last points))))
       (if bucketOf intervalSec (cpt_t (hd points))
             < max (bucketOf intervalSec nowSec) (bucketOf intervalSec (cpt_t (last points))) - 499 * intervalSec
        then max (bucketOf intervalSec nowSec) (bucketOf intervalSec (cpt_t (last points))) - 499 * intervalSec
        else bucketOf intervalSec (cpt_t (hd points)))
       (if (if bucketOf intervalSec (cpt_t (hd points))
             < max (bucketOf intervalSec nowSec) (bucketOf intervalSec (cpt_t (last points))) - 499 * intervalSec
            then takeWhile (\<lambda>p. cpt_t p < of_int (max (bucketOf intervalSec nowSec) (bucketOf intervalSec (cpt_t (last points))) - 499 * intervalSec)) points
            else []) = [] then cpt_price (hd points) else cpt_price (last
           (if bucketOf intervalSec (cpt_t (hd points))
             < max (bucketOf intervalSec nowSec) (bucketOf intervalSec (cpt_t (last points))) - 499 * intervalSec
            then takeWhile (\<lambda>p. cpt_t p < of_int (max (bucketOf intervalSec nowSec) (bucketOf intervalSec (cpt_t (last points))) - 499 * intervalSec)) points
            else [])))
       (drop (length (if bucketOf intervalSec (cpt_t (hd points))
             < max (bucketOf intervalSec nowSec) (bucketOf intervalSec (cpt_t (last points))) - 499 * intervalSec
            then takeWhile (\<lambda>p. cpt_t p < of_int (max (bucketOf intervalSec nowSec) (bucketOf intervalSec (cpt_t (last points))) - 499 * intervalSec)) points
            else [])) points)"
  by (cases points) (simp only: bucketCandles_def list.case Let_def MAX_CANDLES_def list.sel, simp)+

text \<open>
  C33: The candles are sound: for points in time order and a positive interval \<open>bucketCandles\<close> returns, its
  candles follow one another without gap, each opens where the last closed and lies between its low and
  high, the last one is the bucket of now or of the last trade, there are at most five hundred, and every
  point not before the first candle is contained, in time and price, in its candle.
\<close>

theorem candles_sound:
  assumes "points \<noteq> []" and "sorted (map cpt_t points)" and "0 < intervalSec"
  shows "\<exists>cs start close. bucketCandles fl points intervalSec nowSec = Some cs \<and> chained intervalSec start close cs \<and>
    0 < length cs \<and> int (length cs) \<le> 500 \<and>
    start + (int (length cs) - 1) * intervalSec = max (bucketOf intervalSec nowSec) (bucketOf intervalSec (cpt_t (last points))) \<and>
    (\<forall>p \<in> set points. of_int start \<le> cpt_t p \<longrightarrow> covers intervalSec cs p)"
proof -
  define lastTime where "lastTime = max (bucketOf intervalSec nowSec) (bucketOf intervalSec (cpt_t (last points)))"
  define first where "first = bucketOf intervalSec (cpt_t (hd points))"
  define start where "start = (if first < lastTime - 499 * intervalSec then lastTime - 499 * intervalSec else first)"
  obtain p0 ps where points: "points = p0 # ps" using assms(1) by (cases points) auto
  have below: "cpt_t p \<le> cpt_t (last points)" "cpt_t (hd points) \<le> cpt_t p" if "p \<in> set points" for p
    using sorted_last [OF assms(2) that] assms(2) that by (auto simp: points)
  have early: "of_int first \<le> cpt_t p0" using bucketOf_bounds [OF assms(3), of "cpt_t p0"] by (simp add: first_def points)
  let ?rest = "drop (length (takeWhile (\<lambda>p. cpt_t p < of_int start) points)) points"
  define skipped where "skipped = (if first < lastTime - 499 * intervalSec
    then takeWhile (\<lambda>p. cpt_t p < of_int (lastTime - 499 * intervalSec)) points else [])"
  have "takeWhile (\<lambda>p. cpt_t p < of_int first) points = []" using early by (simp add: points)
  then have skipped: "skipped = takeWhile (\<lambda>p. cpt_t p < of_int start) points"
    unfolding skipped_def start_def by (cases "first < lastTime - 499 * intervalSec") simp_all
  define close where "close = (if skipped = [] then cpt_price (hd points) else cpt_price (last skipped))"
  have run: "bucketCandles fl points intervalSec nowSec =
      candleLoop fl intervalSec lastTime start close (drop (length skipped) points)"
    unfolding bucketCandles_hd [OF assms(1)] close_def skipped_def start_def first_def lastTime_def ..
  have "first \<le> bucketOf intervalSec (cpt_t (last points))"
    unfolding first_def using assms(3) below(1) by (rule bucketOf_mono) (simp add: points)
  then have first: "first \<le> lastTime" by (simp add: lastTime_def)
  have "intervalSec dvd lastTime" "intervalSec dvd first" by (simp_all add: lastTime_def first_def bucketOf_def max_def)
  then have dvd: "intervalSec dvd lastTime - start" by (simp add: start_def)
  have "cpt_t p < of_int (lastTime + intervalSec)" if "p \<in> set points" for p
  proof -
    have "bucketOf intervalSec (cpt_t p) \<le> lastTime"
      using bucketOf_mono [OF assms(3) below(1) [OF that]] by (simp add: lastTime_def)
    then have "(of_int (bucketOf intervalSec (cpt_t p) + intervalSec) :: rat) \<le> of_int (lastTime + intervalSec)"
      by (intro of_int_le_iff [THEN iffD2] add_right_mono)
    with bucketOf_bounds [OF assms(3), of "cpt_t p"] show ?thesis by linarith
  qed
  then have b: "\<forall>p \<in> set points. cpt_t p < of_int (lastTime + intervalSec)" by blast
  have le: "start \<le> lastTime" "lastTime - 499 * intervalSec \<le> start" using first assms(3) by (simp_all add: start_def)
  from candles_from [OF assms(3,2) dvd le b refl, of fl close]
  show ?thesis unfolding run skipped lastTime_def [symmetric] by (elim exE) (intro exI)
qed

text \<open>Two trades in the first bucket, one two buckets later.\<close>

theorem candles_sound_witness:
  "\<exists>cs. bucketCandles id [\<lparr>cpt_t = 10, cpt_price = 2, cpt_volumeQuote = 1, cpt_venue = VenueDbc, cpt_anchor = False\<rparr>,
        \<lparr>cpt_t = 20, cpt_price = 4, cpt_volumeQuote = 1, cpt_venue = VenueDbc, cpt_anchor = False\<rparr>,
        \<lparr>cpt_t = 1900, cpt_price = 3, cpt_volumeQuote = 1, cpt_venue = VenueDbc, cpt_anchor = False\<rparr>] 900 1950 = Some cs \<and>
     map ca_close cs = [4, 4, 3] \<and> map ca_time cs = [0, 900, 1800] \<and> int (length cs) \<le> 500"
proof -
  let ?ps = "[\<lparr>cpt_t = 10, cpt_price = 2, cpt_volumeQuote = 1, cpt_venue = VenueDbc, cpt_anchor = False\<rparr>,
        \<lparr>cpt_t = 20, cpt_price = 4, cpt_volumeQuote = 1, cpt_venue = VenueDbc, cpt_anchor = False\<rparr>,
        \<lparr>cpt_t = 1900, cpt_price = 3, cpt_volumeQuote = 1, cpt_venue = VenueDbc, cpt_anchor = False\<rparr>]"
  have "bucketOf 900 1950 = 1800" "bucketOf 900 1900 = 1800" "bucketOf 900 10 = 0" by (simp_all add: bucketOf_def floor_eq_iff)
  then have "bucketCandles id ?ps 900 1950 = candleLoop id 900 1800 0 2 ?ps" by (simp add: bucketCandles_def)
  also have "\<dots> = Some
      [\<lparr>ca_time = 0, ca_open = 2, ca_high = 4, ca_low = 2, ca_close = 4, ca_volumeQuote = 2\<rparr>,
       \<lparr>ca_time = 900, ca_open = 4, ca_high = 4, ca_low = 4, ca_close = 4, ca_volumeQuote = 0\<rparr>,
       \<lparr>ca_time = 1800, ca_open = 4, ca_high = 4, ca_low = 3, ca_close = 3, ca_volumeQuote = 1\<rparr>]"
    by (simp add: candleLoop_steps candle_of_def)
  finally have "bucketCandles id ?ps 900 1950 \<noteq> None \<and> map ca_close (the (bucketCandles id ?ps 900 1950)) = [4, 4, 3] \<and>
    map ca_time (the (bucketCandles id ?ps 900 1950)) = [0, 900, 1800]" by simp
  moreover obtain cs where "bucketCandles id ?ps 900 1950 = Some cs" "int (length cs) \<le> 500"
    using candles_sound [of ?ps 900 id 1950] by auto
  ultimately show ?thesis by auto
qed

end
