(* ===== verification/ChartService.thy ===== *)
theory ChartService
  imports ChartHistory ChartSeries "HOL-Library.AList"
begin

text \<open>
  \<open>createChartService\<close> of \<^verbatim>\<open>app/src/lib/chart/history.ts\<close>: the cached, shared price chart per mint. The code between
  two awaits is one step, which reads the clock once; requests and answers of the data source and the node may come in any order, so a run
  is a relation over the steps. The maps of the code are association lists in insertion order. The
  properties: requests for one mint share one build, memory is bounded per pool and for unknown mints, and
  every chart is in order of time; overlapping builds can hold more pools than \<open>maxPools\<close>.
\<close>

section \<open>Charts\<close>

datatype chart_source = FromChain | FromMock

record chart_response =
  cb_source :: chart_source
  cb_mint :: string
  cb_points :: "chart_point list"
  cb_current :: "rat \<times> rat"
  cb_partial :: bool
  cb_error :: "string option"

text \<open>The fields of a launch summary the service reads; \<open>su_chain\<close> has the current and the start price.\<close>

record chart_launch =
  su_mint :: string
  su_pool :: string
  su_dammPool :: "string option"
  su_createdAt :: int
  su_baseDecimals :: int
  su_quoteDecimals :: int
  su_chain :: "(int option \<times> int) option"
  su_priceUsd :: rat
  su_multiplier :: rat
  su_quotePriceUsd :: rat

definition priceFromUsd :: "rounding \<Rightarrow> chart_launch \<Rightarrow> rat" where
  "priceFromUsd fl launch =
     (let unitUsd = fl (su_multiplier launch * su_quotePriceUsd launch)
      in if unitUsd > 0 then fl (su_priceUsd launch / unitUsd) else 0)"

definition current_price :: "rounding \<Rightarrow> chart_launch \<Rightarrow> rat" where
  "current_price fl launch =
     (case su_chain launch of
        Some (Some sqrtPrice, _) \<Rightarrow> sqrtPriceToPrice fl sqrtPrice (su_baseDecimals launch) (su_quoteDecimals launch)
      | _ \<Rightarrow> priceFromUsd fl launch)"

text \<open>The body from the histories of the two pools, and the body when they could not be read.\<close>

definition chart_start :: "rounding \<Rightarrow> chart_launch \<Rightarrow> bool \<Rightarrow> (rat \<times> rat) option" where
  "chart_start fl launch dbcComplete =
     (case su_chain launch of
        Some (_, startPrice) \<Rightarrow>
          if dbcComplete
          then Some (of_int (su_createdAt launch div 1000),
                     sqrtPriceToPrice fl startPrice (su_baseDecimals launch) (su_quoteDecimals launch))
          else None
      | None \<Rightarrow> None)"

definition chain_response ::
  "rounding \<Rightarrow> chart_launch \<Rightarrow> int \<Rightarrow> pool_history \<Rightarrow> pool_history option \<Rightarrow> chart_response" where
  "chain_response fl launch nowSec dbcNext damm =
     (let events = ph_events dbcNext @ (case damm of Some h \<Rightarrow> ph_events h | None \<Rightarrow> []);
          dbcComplete = (\<not> ph_capped dbcNext \<and> ph_pending dbcNext = []);
          current = (of_int nowSec, current_price fl launch);
          points = withAnchors (toPoints fl events (su_baseDecimals launch) (su_quoteDecimals launch))
                     (chart_start fl launch dbcComplete) current;
          partial = (\<not> dbcComplete \<or> (case damm of Some h \<Rightarrow> ph_capped h \<or> ph_pending h \<noteq> [] | None \<Rightarrow> False))
      in \<lparr>cb_source = FromChain, cb_mint = su_mint launch, cb_points = points, cb_current = current, cb_partial = partial,
          cb_error = None\<rparr>)"

definition fallback_response :: "rounding \<Rightarrow> chart_launch \<Rightarrow> int \<Rightarrow> string \<Rightarrow> chart_response" where
  "fallback_response fl launch nowSec error =
     (let price = current_price fl launch
      in \<lparr>cb_source = FromChain, cb_mint = su_mint launch,
          cb_points = [anchor_point (of_int (min (su_createdAt launch div 1000) (nowSec - 1))) price VenueDbc,
                       anchor_point (of_int nowSec) price (if su_dammPool launch \<noteq> None then VenueDamm else VenueDbc)],
          cb_current = (of_int nowSec, price), cb_partial = True, cb_error = Some error\<rparr>)"

definition mock_response :: "rounding \<Rightarrow> (chart_launch \<Rightarrow> int \<Rightarrow> chart_point list) \<Rightarrow> chart_launch \<Rightarrow> int \<Rightarrow> chart_response" where
  "mock_response fl mockSeries launch nowSec =
     \<lparr>cb_source = FromMock, cb_mint = su_mint launch, cb_points = mockSeries launch nowSec,
      cb_current = (of_int nowSec, priceFromUsd fl launch), cb_partial = False, cb_error = None\<rparr>"

section \<open>The service\<close>

record chart_config =
  cc_fl :: rounding
  cc_limits :: history_limits
  cc_ttlMs :: int
  cc_errorTtlMs :: int
  cc_missTtlMs :: int
  cc_maxMisses :: nat
  cc_maxPools :: nat
  cc_mock :: bool
  cc_mockSeries :: "chart_launch \<Rightarrow> int \<Rightarrow> chart_point list"

record cache_entry =
  ce_at :: int
  ce_ttl :: int
  ce_body :: chart_response

text \<open>Where a build waits: for the launch, for the refresh of its curve pool, or of its DAMM pool.\<close>

datatype build_stage =
    Looking
  | RefreshingDbc chart_launch int pool_history
  | RefreshingDamm chart_launch int pool_history string pool_history

record chart_service =
  cv_cache :: "(string \<times> cache_entry) list"
  cv_misses :: "(string \<times> int) list"
  cv_inflight :: "(string \<times> build_stage) list"
  cv_histories :: "(string \<times> pool_history) list"

definition new_service :: chart_service where
  "new_service = \<lparr>cv_cache = [], cv_misses = [], cv_inflight = [], cv_histories = []\<rparr>"

text \<open>A key inserted as the newest of at most \<open>n\<close>: deleted, set, and the oldest deleted.\<close>

definition as_newest :: "nat \<Rightarrow> string \<Rightarrow> 'a \<Rightarrow> (string \<times> 'a) list \<Rightarrow> (string \<times> 'a) list" where
  "as_newest n k v xs = (let ys = AList.delete k xs @ [(k, v)] in drop (length ys - n) ys)"

definition getHistory :: "chart_config \<Rightarrow> string \<Rightarrow> chart_service \<Rightarrow> pool_history \<times> chart_service" where
  "getHistory cfg pool svc =
     (let h = (case map_of (cv_histories svc) pool of Some h \<Rightarrow> h | None \<Rightarrow> emptyHistory)
      in (h, svc\<lparr>cv_histories := as_newest (cc_maxPools cfg) pool h (cv_histories svc)\<rparr>))"

definition set_history :: "string \<Rightarrow> pool_history \<Rightarrow> chart_service \<Rightarrow> chart_service" where
  "set_history pool h svc = svc\<lparr>cv_histories := AList.update pool h (cv_histories svc)\<rparr>"

definition set_stage :: "string \<Rightarrow> build_stage \<Rightarrow> chart_service \<Rightarrow> chart_service" where
  "set_stage mint st svc = svc\<lparr>cv_inflight := AList.update mint st (cv_inflight svc)\<rparr>"

text \<open>A build ends: its body is cached and it is no longer in flight.\<close>

definition settled :: "string \<Rightarrow> int \<Rightarrow> int \<Rightarrow> chart_response \<Rightarrow> chart_service \<Rightarrow> chart_service" where
  "settled mint now' ttl body svc =
     svc\<lparr>cv_cache := AList.update mint \<lparr>ce_at = now', ce_ttl = ttl, ce_body = body\<rparr> (cv_cache svc),
         cv_inflight := AList.delete mint (cv_inflight svc)\<rparr>"

datatype chart_answer = Served chart_response | NoSuchLaunch | Waits

definition cached :: "int \<Rightarrow> string \<Rightarrow> chart_service \<Rightarrow> chart_response option" where
  "cached now' mint svc =
     (case map_of (cv_cache svc) mint of
        Some hit \<Rightarrow> if now' - ce_at hit < ce_ttl hit then Some (ce_body hit) else None
      | None \<Rightarrow> None)"

definition known_miss :: "chart_config \<Rightarrow> int \<Rightarrow> string \<Rightarrow> chart_service \<Rightarrow> bool" where
  "known_miss cfg now' mint svc =
     (case map_of (cv_misses svc) mint of Some t \<Rightarrow> now' - t < cc_missTtlMs cfg | None \<Rightarrow> False)"

definition getChart :: "chart_config \<Rightarrow> int \<Rightarrow> string \<Rightarrow> chart_service \<Rightarrow> chart_answer \<times> chart_service" where
  "getChart cfg now' mint svc =
     (case cached now' mint svc of
        Some body \<Rightarrow> (Served body, svc)
      | None \<Rightarrow>
          if known_miss cfg now' mint svc then (NoSuchLaunch, svc)
          else if map_of (cv_inflight svc) mint \<noteq> None then (Waits, svc)
          else (Waits, set_stage mint Looking svc))"

text \<open>
  After the curve pool: the DAMM pool if there is one (its address parses, as it was read from the chain), or the
  answer.
\<close>

definition after_dbc ::
  "chart_config \<Rightarrow> string \<Rightarrow> chart_launch \<Rightarrow> int \<Rightarrow> int \<Rightarrow> pool_history \<Rightarrow> chart_service \<Rightarrow> chart_service" where
  "after_dbc cfg mint launch nowSec now' dbcNext svc =
     (case su_dammPool launch of
        Some pool \<Rightarrow> (case getHistory cfg pool svc of (h, svc') \<Rightarrow> set_stage mint (RefreshingDamm launch nowSec dbcNext pool h) svc')
      | None \<Rightarrow> settled mint now' (cc_ttlMs cfg) (chain_response (cc_fl cfg) launch nowSec dbcNext None) svc)"

definition failed_build ::
  "chart_config \<Rightarrow> string \<Rightarrow> chart_launch \<Rightarrow> int \<Rightarrow> int \<Rightarrow> string \<Rightarrow> chart_service \<Rightarrow> chart_service" where
  "failed_build cfg mint launch nowSec now' error svc =
     settled mint now' (cc_errorTtlMs cfg) (fallback_response (cc_fl cfg) launch nowSec error) svc"

text \<open>
  The launch has been looked up: it failed, there is none, or a summary. \<open>conn\<close> is what opening the connection gives:
  an error, or nothing to report.
\<close>

definition launch_found ::
  "chart_config \<Rightarrow> string \<Rightarrow> int \<Rightarrow> string option \<Rightarrow> (unit + chart_launch option) \<Rightarrow> chart_service \<Rightarrow> chart_service" where
  "launch_found cfg mint now' conn found svc =
     (case found of
        Inl _ \<Rightarrow> svc\<lparr>cv_inflight := AList.delete mint (cv_inflight svc)\<rparr>
      | Inr None \<Rightarrow>
          svc\<lparr>cv_misses := as_newest (cc_maxMisses cfg) mint now' (cv_misses svc),
              cv_inflight := AList.delete mint (cv_inflight svc)\<rparr>
      | Inr (Some launch) \<Rightarrow>
          (let nowSec = now' div 1000
           in if cc_mock cfg \<or> su_chain launch = None
              then settled mint now' (cc_ttlMs cfg) (mock_response (cc_fl cfg) (cc_mockSeries cfg) launch nowSec) svc
              else case conn of
                     Some error \<Rightarrow> failed_build cfg mint launch nowSec now' error svc
                   | None \<Rightarrow>
                       (case getHistory cfg (su_pool launch) svc of (dbc, svc') \<Rightarrow>
                          if ph_final dbc then after_dbc cfg mint launch nowSec now' dbc svc'
                          else set_stage mint (RefreshingDbc launch nowSec dbc) svc')))"

text \<open>The refresh of the curve pool has ended; once migrated and fully fetched it is final.\<close>

definition dbc_refreshed ::
  "chart_config \<Rightarrow> string \<Rightarrow> chart_launch \<Rightarrow> int \<Rightarrow> int \<Rightarrow> (string + pool_history) \<Rightarrow> chart_service \<Rightarrow> chart_service" where
  "dbc_refreshed cfg mint launch nowSec now' result svc =
     (case result of
        Inl error \<Rightarrow> failed_build cfg mint launch nowSec now' error svc
      | Inr h \<Rightarrow>
          (let h' = (if su_dammPool launch \<noteq> None \<and> ph_pending h = [] then h\<lparr>ph_final := True\<rparr> else h)
           in after_dbc cfg mint launch nowSec now' h' (set_history (su_pool launch) h' svc)))"

definition damm_refreshed ::
  "chart_config \<Rightarrow> string \<Rightarrow> chart_launch \<Rightarrow> int \<Rightarrow> int \<Rightarrow> pool_history \<Rightarrow> string \<Rightarrow> (string + pool_history) \<Rightarrow>
     chart_service \<Rightarrow> chart_service" where
  "damm_refreshed cfg mint launch nowSec now' dbcNext pool result svc =
     (case result of
        Inl error \<Rightarrow> failed_build cfg mint launch nowSec now' error svc
      | Inr h \<Rightarrow> settled mint now' (cc_ttlMs cfg) (chain_response (cc_fl cfg) launch nowSec dbcNext (Some h))
                   (set_history pool h svc))"

text \<open>What a refresh of a history can answer: an error, or the history \<open>refreshPoolHistory\<close> gives for some node.\<close>

definition refresh_answers :: "chart_config \<Rightarrow> chart_launch \<Rightarrow> pool_history \<Rightarrow> (string + pool_history) \<Rightarrow> bool" where
  "refresh_answers cfg launch h result \<longleftrightarrow>
     (case result of
        Inl _ \<Rightarrow> True
      | Inr h' \<Rightarrow> \<exists>page fetch started.
          refreshPoolHistory page fetch \<lparr>cp_dbc = su_pool launch, cp_damm = su_dammPool launch\<rparr> (cc_limits cfg) started h
            = Inr h')"

inductive chart_step :: "chart_config \<Rightarrow> chart_service \<Rightarrow> chart_service \<Rightarrow> bool" for cfg where
  asked: "chart_step cfg svc (snd (getChart cfg now' mint svc))"
| found: "map_of (cv_inflight svc) mint = Some Looking \<Longrightarrow>
    (\<forall>launch. found' = Inr (Some launch) \<longrightarrow> su_mint launch = mint) \<Longrightarrow>
    chart_step cfg svc (launch_found cfg mint now' conn found' svc)"
| dbc: "map_of (cv_inflight svc) mint = Some (RefreshingDbc launch nowSec h) \<Longrightarrow> refresh_answers cfg launch h result \<Longrightarrow>
    chart_step cfg svc (dbc_refreshed cfg mint launch nowSec now' result svc)"
| damm: "map_of (cv_inflight svc) mint = Some (RefreshingDamm launch nowSec dbcNext pool h) \<Longrightarrow>
    refresh_answers cfg launch h result \<Longrightarrow>
    chart_step cfg svc (damm_refreshed cfg mint launch nowSec now' dbcNext pool result svc)"

section \<open>What every run keeps\<close>

definition body_ok :: "string \<Rightarrow> chart_response \<Rightarrow> bool" where
  "body_ok mint body \<longleftrightarrow>
     cb_mint body = mint \<and>
     (cb_source body = FromChain \<longrightarrow>
        sorted (map cpt_t (cb_points body)) \<and>
        (cb_error body = None \<longrightarrow> (\<forall>p \<in> set (cb_points body). 0 < cpt_price p)) \<and>
        (cb_error body \<noteq> None \<longrightarrow> cb_partial body))"

fun stage_ok :: "history_limits \<Rightarrow> string \<Rightarrow> build_stage \<Rightarrow> bool" where
  "stage_ok limits mint Looking = True"
| "stage_ok limits mint (RefreshingDbc launch nowSec h) \<longleftrightarrow> su_mint launch = mint \<and> history_ok limits h"
| "stage_ok limits mint (RefreshingDamm launch nowSec dbcNext pool h) \<longleftrightarrow>
     su_mint launch = mint \<and> history_ok limits dbcNext \<and> history_ok limits h"

definition keyed_all :: "(string \<Rightarrow> 'a \<Rightarrow> bool) \<Rightarrow> (string \<times> 'a) list \<Rightarrow> bool" where
  "keyed_all P xs \<longleftrightarrow> distinct (map fst xs) \<and> (\<forall>(k, v) \<in> set xs. P k v)"

definition service_ok :: "chart_config \<Rightarrow> chart_service \<Rightarrow> bool" where
  "service_ok cfg svc \<longleftrightarrow>
     keyed_all (\<lambda>mint e. body_ok mint (ce_body e)) (cv_cache svc) \<and>
     keyed_all (\<lambda>_ _. True) (cv_misses svc) \<and> length (cv_misses svc) \<le> cc_maxMisses cfg \<and>
     keyed_all (stage_ok (cc_limits cfg)) (cv_inflight svc) \<and>
     keyed_all (\<lambda>_. history_ok (cc_limits cfg)) (cv_histories svc)"

lemma keyed_all_nil [simp]: "keyed_all P []"
  by (simp add: keyed_all_def)

lemma keyed_all_update: "keyed_all P xs \<Longrightarrow> P k v \<Longrightarrow> keyed_all P (AList.update k v xs)"
proof (induction xs)
  case (Cons x xs)
  then show ?case by (cases x) (auto simp: keyed_all_def AList.update_keys dom_map_of_conv_image_fst [symmetric])
qed (simp add: keyed_all_def)

lemma delete_filter: "AList.delete k xs = filter (\<lambda>x. fst x \<noteq> k) xs"
  by (auto simp: AList.delete_eq intro!: filter_cong)

lemma keyed_all_delete: "keyed_all P xs \<Longrightarrow> keyed_all P (AList.delete k xs)"
  by (auto simp: keyed_all_def delete_filter distinct_map inj_on_def)

lemma keyed_all_drop: "keyed_all P xs \<Longrightarrow> keyed_all P (drop m xs)"
  by (auto simp: keyed_all_def drop_map [symmetric] distinct_drop dest: in_set_dropD)

lemma keyed_all_newest: "keyed_all P xs \<Longrightarrow> P k v \<Longrightarrow> keyed_all P (as_newest n k v xs)"
proof -
  assume xs: "keyed_all P xs" "P k v"
  have "keyed_all P (AList.delete k xs @ [(k, v)])"
    using keyed_all_delete [OF xs(1), of k] xs(2) by (auto simp: keyed_all_def delete_filter)
  then show ?thesis unfolding as_newest_def Let_def by (rule keyed_all_drop)
qed

lemma as_newest_length: "length (as_newest n k v xs) \<le> n"
  by (simp add: as_newest_def Let_def)

lemma keyed_all_of: "keyed_all P xs \<Longrightarrow> map_of xs k = Some v \<Longrightarrow> P k v"
  by (auto simp: keyed_all_def dest: map_of_SomeD)

lemma empty_history_ok [simp]: "history_ok limits emptyHistory"
  by (simp add: history_ok_def emptyHistory_def)

lemma final_history_ok [simp]: "history_ok limits (h\<lparr>ph_final := b\<rparr>) = history_ok limits h"
  by (simp add: history_ok_def)

lemma refresh_answers_ok:
  "refresh_answers cfg launch h (Inr h') \<Longrightarrow> history_ok (cc_limits cfg) h \<Longrightarrow> history_ok (cc_limits cfg) h'"
  by (auto simp: refresh_answers_def dest: refresh_ok)

lemma sorted_anchors:
  assumes "sorted (map cpt_t points)" "\<forall>p \<in> set points. 0 < cpt_price p"
  shows "sorted (map cpt_t (withAnchors points start now')) \<and> (\<forall>p \<in> set (withAnchors points start now'). 0 < cpt_price p)"
proof -
  define out where "out = (case start of
      Some (t, price) \<Rightarrow> if price > 0 \<and> (points = [] \<or> t < cpt_t (hd points)) then anchor_point t price ChartEvents.VenueDbc # points
                         else points
    | None \<Rightarrow> points)"
  have "sorted (map cpt_t out) \<and> (\<forall>p \<in> set out. 0 < cpt_price p)"
  proof (cases points)
    case (Cons p ps)
    with assms show ?thesis by (auto simp: out_def anchor_point_def split: option.splits prod.splits)
  qed (use assms in \<open>auto simp: out_def anchor_point_def split: option.splits\<close>)
  moreover have "cpt_t p \<le> cpt_t (last out)" if "p \<in> set out" for p
    using that calculation by (cases out rule: rev_cases) (auto simp: sorted_append)
  ultimately have out: "sorted (map cpt_t out)" "\<forall>p \<in> set out. 0 < cpt_price p" "\<forall>p \<in> set out. cpt_t p \<le> cpt_t (last out)"
    by blast+
  show ?thesis
  proof (cases "snd now' > 0 \<and> (out = [] \<or> fst now' > cpt_t (last out))")
    case True
    then have "\<forall>p \<in> set out. cpt_t p \<le> fst now'" using out(3) by force
    moreover have "withAnchors points start now' =
        out @ [anchor_point (fst now') (snd now') (if out = [] then ChartEvents.VenueDbc else cpt_venue (last out))]"
      using True by (simp add: withAnchors_def Let_def out_def)
    ultimately show ?thesis using out(1,2) True by (simp add: sorted_append anchor_point_def)
  next
    case False
    then have "withAnchors points start now' = out" by (simp add: withAnchors_def Let_def out_def)
    then show ?thesis using out by simp
  qed
qed

lemma chain_response_ok: "su_mint launch = mint \<Longrightarrow> body_ok mint (chain_response fl launch nowSec dbcNext d)"
proof -
  assume m: "su_mint launch = mint"
  have "sorted (map cpt_t (toPoints fl events bd qd)) \<and> (\<forall>p \<in> set (toPoints fl events bd qd). 0 < cpt_price p)" for events bd qd
    by (auto simp: toPoints_def)
  note points = this
  show ?thesis
    unfolding body_ok_def chain_response_def Let_def
    using m sorted_anchors [OF points [THEN conjunct1] points [THEN conjunct2]] by simp
qed

lemma fallback_response_ok: "su_mint launch = mint \<Longrightarrow> body_ok mint (fallback_response fl launch nowSec error)"
  by (simp add: body_ok_def fallback_response_def Let_def anchor_point_def min_def)

lemma mock_response_ok: "su_mint launch = mint \<Longrightarrow> body_ok mint (mock_response fl mockSeries launch nowSec)"
  by (simp add: body_ok_def mock_response_def)

named_theorems service_parts

lemma settled_ok [service_parts]:
  "service_ok cfg svc \<Longrightarrow> body_ok mint body \<Longrightarrow> service_ok cfg (settled mint t ttl body svc)"
  by (simp add: service_ok_def settled_def keyed_all_update keyed_all_delete)

lemma set_stage_ok [service_parts]:
  "service_ok cfg svc \<Longrightarrow> stage_ok (cc_limits cfg) mint st \<Longrightarrow> service_ok cfg (set_stage mint st svc)"
  by (simp add: service_ok_def set_stage_def keyed_all_update)

lemma set_history_ok [service_parts]:
  "service_ok cfg svc \<Longrightarrow> history_ok (cc_limits cfg) h \<Longrightarrow> service_ok cfg (set_history pool h svc)"
  by (simp add: service_ok_def set_history_def keyed_all_update)

lemma getHistory_ok:
  assumes "service_ok cfg svc" "getHistory cfg pool svc = (h, svc')"
  shows "history_ok (cc_limits cfg) h" "service_ok cfg svc'"
proof -
  from assms(2) have h: "h = (case map_of (cv_histories svc) pool of Some h \<Rightarrow> h | None \<Rightarrow> emptyHistory)"
    and svc': "svc' = svc\<lparr>cv_histories := as_newest (cc_maxPools cfg) pool h (cv_histories svc)\<rparr>"
    by (auto simp: getHistory_def Let_def)
  have "keyed_all (\<lambda>_. history_ok (cc_limits cfg)) (cv_histories svc)" using assms(1) by (simp add: service_ok_def)
  then show ok: "history_ok (cc_limits cfg) h"
    using keyed_all_of [of "\<lambda>_. history_ok (cc_limits cfg)"] by (simp add: h split: option.splits)
  with assms(1) show "service_ok cfg svc'" by (simp add: service_ok_def svc' keyed_all_newest)
qed

lemma after_dbc_ok:
  assumes "service_ok cfg svc" "su_mint launch = mint" "history_ok (cc_limits cfg) h"
  shows "service_ok cfg (after_dbc cfg mint launch nowSec t h svc)"
proof (cases "su_dammPool launch")
  case None
  then show ?thesis using assms chain_response_ok by (simp add: after_dbc_def service_parts)
next
  case (Some pool)
  obtain d svc' where g: "getHistory cfg pool svc = (d, svc')" by fastforce
  from getHistory_ok [OF assms(1) g] assms(2,3) Some g show ?thesis by (simp add: after_dbc_def service_parts)
qed

lemma failed_build_ok: "service_ok cfg svc \<Longrightarrow> su_mint launch = mint \<Longrightarrow> service_ok cfg (failed_build cfg mint launch nowSec t e svc)"
  by (simp add: failed_build_def service_parts fallback_response_ok)

lemma launch_found_ok:
  assumes "service_ok cfg svc" "\<forall>launch. found' = Inr (Some launch) \<longrightarrow> su_mint launch = mint"
  shows "service_ok cfg (launch_found cfg mint t conn found' svc)"
proof -
  consider e where "found' = Inl e" | "found' = Inr None" | launch where "found' = Inr (Some launch)" "su_mint launch = mint"
    using assms(2) by (metis option.exhaust sum.exhaust)
  then show ?thesis
  proof cases
    case (3 launch)
    obtain h svc' where g: "getHistory cfg (su_pool launch) svc = (h, svc')" by fastforce
    from getHistory_ok [OF assms(1) g] 3 g assms(1) show ?thesis
      by (auto simp: launch_found_def Let_def service_parts mock_response_ok failed_build_ok after_dbc_ok split: option.splits)
  qed (use assms(1) in \<open>simp_all add: launch_found_def service_ok_def keyed_all_delete keyed_all_newest as_newest_length\<close>)
qed

lemma in_flight_ok: "service_ok cfg svc \<Longrightarrow> map_of (cv_inflight svc) mint = Some st \<Longrightarrow> stage_ok (cc_limits cfg) mint st"
  unfolding service_ok_def by (blast dest: keyed_all_of)

lemma chart_step_ok: "chart_step cfg svc svc' \<Longrightarrow> service_ok cfg svc \<Longrightarrow> service_ok cfg svc'"
proof (induction rule: chart_step.induct)
  case (asked svc now' mint)
  then show ?case by (simp add: getChart_def service_parts split: option.split)
next
  case (found svc mint found' now' conn)
  then show ?case by (simp add: launch_found_ok)
next
  case (dbc svc mint launch nowSec h result now')
  from in_flight_ok [OF dbc(3,1)] have l: "su_mint launch = mint" "history_ok (cc_limits cfg) h" by simp_all
  show ?case
  proof (cases result)
    case (Inr h')
    with refresh_answers_ok [of cfg launch h h'] dbc(2) l have "history_ok (cc_limits cfg) h'" by simp
    with Inr dbc(3) l show ?thesis by (simp add: dbc_refreshed_def Let_def after_dbc_ok service_parts)
  qed (use dbc(3) l in \<open>simp add: dbc_refreshed_def failed_build_ok\<close>)
next
  case (damm svc mint launch nowSec dbcNext pool h result now')
  from in_flight_ok [OF damm(3,1)] have l: "su_mint launch = mint" "history_ok (cc_limits cfg) h" by simp_all
  show ?case
  proof (cases result)
    case (Inr h')
    with refresh_answers_ok [of cfg launch h h'] damm(2) l have "history_ok (cc_limits cfg) h'" by simp
    with Inr damm(3) l show ?thesis by (simp add: damm_refreshed_def chain_response_ok service_parts)
  qed (use damm(3) l in \<open>simp add: damm_refreshed_def failed_build_ok\<close>)
qed

lemma reachable_service_ok: "rtranclp (chart_step cfg) new_service svc \<Longrightarrow> service_ok cfg svc"
  by (induction rule: rtranclp_induct) (auto simp: new_service_def service_ok_def [of cfg new_service] service_ok_def dest: chart_step_ok)


section \<open>Overlapping builds\<close>

definition small_service :: chart_config where
  "small_service =
     \<lparr>cc_fl = (\<lambda>x. x), cc_limits = DEFAULT_LIMITS, cc_ttlMs = 30000, cc_errorTtlMs = 5000, cc_missTtlMs = 60000,
      cc_maxMisses = 1000, cc_maxPools = 1, cc_mock = False, cc_mockSeries = (\<lambda>_ _. [])\<rparr>"

definition launch_with_pool :: "string \<Rightarrow> string \<Rightarrow> chart_launch" where
  "launch_with_pool mint pool =
     \<lparr>su_mint = mint, su_pool = pool, su_dammPool = None, su_createdAt = 0, su_baseDecimals = 6, su_quoteDecimals = 8,
      su_chain = Some (Some (2 ^ 64), 2 ^ 64), su_priceUsd = 1, su_multiplier = 1, su_quotePriceUsd = 1\<rparr>"

lemma refresh_of_nothing:
  "refreshPoolHistory (\<lambda>_ _ _. Inr []) fetch pools DEFAULT_LIMITS started emptyHistory = Inr emptyHistory"
  by (simp add: refreshPoolHistory_def listLoop.simps DEFAULT_LIMITS_def emptyHistory_def new_pending_def start_state_def
      finish_refresh_def merge_events_def keep_newest_def Let_def)

lemma empty_refresh: "refresh_answers small_service launch emptyHistory (Inr emptyHistory)"
proof -
  have "cc_limits small_service = DEFAULT_LIMITS" by (simp add: small_service_def)
  then show ?thesis unfolding refresh_answers_def sum.case by (metis refresh_of_nothing)
qed

text \<open>
  The file says a pool's history lives in an LRU of \<open>maxPools\<close> pools. That holds for requests one after another: a
  build sets its history again when its refresh ends, also after another build has made its pool the oldest and
  deleted it, and the map is only cut when the next history is opened. With two overlapping requests an LRU of
  one pool holds two.
\<close>

definition overlapped :: chart_service where
  "overlapped =
     (let a = launch_with_pool ''A'' ''PA''; b = launch_with_pool ''B'' ''PB'';
          s1 = snd (getChart small_service 0 ''A'' new_service);
          s2 = snd (getChart small_service 0 ''B'' s1);
          s3 = launch_found small_service ''A'' 0 None (Inr (Some a)) s2;
          s4 = launch_found small_service ''B'' 0 None (Inr (Some b)) s3
      in dbc_refreshed small_service ''A'' a 0 0 (Inr emptyHistory) s4)"

lemmas service_evals =
  getChart_def cached_def known_miss_def new_service_def set_stage_def launch_found_def launch_with_pool_def getHistory_def
  as_newest_def small_service_def emptyHistory_def Let_def

theorem overlapping_builds_exceed_pools:
  "rtranclp (chart_step small_service) new_service overlapped \<and> cc_maxPools small_service = 1 \<and>
   map fst (cv_histories overlapped) = [''PB'', ''PA'']"
proof -
  let ?cfg = small_service
  define s1 where "s1 = snd (getChart ?cfg 0 ''A'' new_service)"
  define s2 where "s2 = snd (getChart ?cfg 0 ''B'' s1)"
  define s3 where "s3 = launch_found ?cfg ''A'' 0 None (Inr (Some (launch_with_pool ''A'' ''PA''))) s2"
  define s4 where "s4 = launch_found ?cfg ''B'' 0 None (Inr (Some (launch_with_pool ''B'' ''PB''))) s3"
  define s5 where "s5 = dbc_refreshed ?cfg ''A'' (launch_with_pool ''A'' ''PA'') 0 0 (Inr emptyHistory) s4"
  have s5': "s5 = overlapped" by (simp add: s1_def s2_def s3_def s4_def s5_def overlapped_def Let_def)
  have i2: "cv_inflight s2 = [(''A'', Looking), (''B'', Looking)]" by (simp add: s1_def s2_def service_evals)
  have i3: "cv_inflight s3 = [(''A'', RefreshingDbc (launch_with_pool ''A'' ''PA'') 0 emptyHistory), (''B'', Looking)]"
    by (simp add: s1_def s2_def s3_def service_evals)
  have i4: "map_of (cv_inflight s4) ''A'' = Some (RefreshingDbc (launch_with_pool ''A'' ''PA'') 0 emptyHistory)"
    by (simp add: s1_def s2_def s3_def s4_def service_evals)
  have "chart_step ?cfg new_service s1" "chart_step ?cfg s1 s2" unfolding s1_def s2_def by (rule chart_step.asked)+
  moreover have "chart_step ?cfg s2 s3" unfolding s3_def
    by (rule chart_step.found) (simp_all add: i2 launch_with_pool_def)
  moreover have "chart_step ?cfg s3 s4" unfolding s4_def
    by (rule chart_step.found) (simp_all add: i3 launch_with_pool_def)
  moreover have "chart_step ?cfg s4 s5" unfolding s5_def by (rule chart_step.dbc [OF i4 empty_refresh])
  ultimately have "rtranclp (chart_step ?cfg) new_service s5"
    by (meson rtranclp.rtrancl_into_rtrancl rtranclp.rtrancl_refl)
  moreover have "map fst (cv_histories s5) = [''PB'', ''PA'']"
    by (simp add: s1_def s2_def s3_def s4_def s5_def service_evals dbc_refreshed_def after_dbc_def settled_def set_history_def)
  ultimately show ?thesis by (simp add: s5' small_service_def)
qed


end
