(* ===== verification/WebErrors.thy ===== *)
theory WebErrors
  imports FloorMath Allowlist ReservedNames
begin

text \<open>
  \<^verbatim>\<open>app/src/lib/chain/errors.ts\<close>: what the web app says about anything that was thrown. A thrown value is seen
  through the properties the file reads. The property: every error the StockFloor program can return is
  named by its own message, so none of them ends in the fallback.
\<close>

section \<open>Thrown values\<close>

datatype error_class = UserFacingErrorClass | LaunchInputErrorClass | TradeUnavailableErrorClass | TransactionFailedErrorClass | OtherClass

text \<open>
  \<open>tv_message\<close> is what \<open>messageOf\<close> gives, \<open>tv_code\<close> the number in \<open>code\<close> or else in \<open>error.code\<close>;
  \<open>tv_errorName\<close> is None when the property is absent and \<open>Some None\<close> when it is null.
\<close>

record thrown_value =
  tv_class :: error_class
  tv_name :: string
  tv_message :: string
  tv_code :: "int option"
  tv_errorName :: "string option option"
  tv_logs :: "string list"

definition EXTERNAL_ERRORS :: "(string \<times> string) list" where
  "EXTERNAL_ERRORS =
     [(''ExceededSlippage'', ''The price moved beyond your slippage limit before the transaction landed. Review the new quote and try again.''),
      (''PoolIsCompleted'', ''The curve just completed. Trading resumes on DAMM v2 after migration.''),
      (''NotEnoughLiquidity'', ''The pool does not have enough liquidity for this trade. Try a smaller amount.''),
      (''InsufficientLiquidity'', ''The pool does not have enough liquidity for this trade. Try a smaller amount.''),
      (''AmountIsZero'', ''The amount is too small: it rounds down to zero.''),
      (''PoolDisabled'', ''This pool is disabled.'')]"

text \<open>The errors of the program's IDL, each with its message.\<close>

definition STOCKFLOOR_IDL_errors :: "(string \<times> string) list" where
  "STOCKFLOOR_IDL_errors =
    [
     (''InvalidDbcConfig'', ''Config account is not a DBC PoolConfig (wrong owner, discriminator or size)''),
     (''FeeClaimerMismatch'', ''DBC config fee_claimer must be the launch claimer PDA (seeds: authority, config)''),
     (''LeftoverReceiverMismatch'', ''DBC config leftover_receiver must be the launch claimer PDA (seeds: authority, config)''),
     (''CreatorMigrationFeeNotZero'', ''DBC config creator_migration_fee_percentage must be 0''),
     (''MigrationFeePercentageOutOfRange'', ''DBC config migration_fee_percentage must be within [40, 70]''),
     (''LiquidityNotFullyPartnerLocked'', ''DBC config must lock 100% of migrated liquidity permanently for the partner''),
     (''LiquidityVestingNotAllowed'', ''DBC config must not use liquidity vesting''),
     (''LockedVestingNotAllowed'', ''DBC config must not have a locked vesting token allocation''),
     (''CollectFeeModeNotQuote'', ''DBC config collect_fee_mode must be QuoteToken''),
     (''MigrationOptionNotDammV2'', ''DBC config migration_option must be DAMM v2''),
     (''BaseTokenTypeNotSplToken'', ''DBC config base token type must be SPL Token''),
     (''ExitFeeTooHigh'', ''Exit fee exceeds the 500 bps cap''),
     (''QuoteMintMismatch'', ''Quote mint does not match the DBC config quote mint''),
     (''FixedTokenSupplyNotAllowed'', ''DBC config must use dynamic token supply (fixed supply is not supported)''),
     (''CreatorTradingFeeTooHigh'', ''DBC config creator_trading_fee_percentage must be 0''),
     (''CurveFeeTooHigh'', ''DBC config base fee must be a fee scheduler with a cliff fee of at most 20%''),
     (''DynamicFeeNotAllowed'', ''DBC config must not enable the dynamic (volatility) fee''),
     (''MigratedCollectFeeModeNotQuote'', ''DBC config migrated_collect_fee_mode must be QuoteToken''),
     (''TokenUpdateAuthorityNotImmutable'', ''DBC config token_update_authority must be Immutable''),
     (''PoolCreationFeeNotZero'', ''DBC config pool_creation_fee must be 0''),
     (''InvalidBaseMint'', ''Base mint must not be the default pubkey or the quote mint''),
     (''InvalidDbcPool'', ''Pool account is not a DBC VirtualPool (wrong owner, discriminator or size)''),
     (''PoolAlreadyRegistered'', ''A pool is already registered for this launch''),
     (''PoolNotRegistered'', ''No pool is registered for this launch yet''),
     (''PoolConfigMismatch'', ''DBC pool belongs to a different config''),
     (''BaseMintMismatch'', ''Base mint does not match the DBC pool base mint''),
     (''PoolTypeNotSplToken'', ''DBC pool base token must be SPL Token''),
     (''BaseMintDecimalsMismatch'', ''Base mint decimals do not match the DBC config''),
     (''BaseMintAuthorityNotRevoked'', ''Base mint still has a mint authority''),
     (''BaseMintHasFreezeAuthority'', ''Base mint has a freeze authority''),
     (''CurveNotComplete'', ''DBC curve is not complete yet''),
     (''MigrationFeeAlreadyHarvested'', ''Migration fee was already harvested''),
     (''SurplusAlreadyHarvested'', ''Surplus was already harvested''),
     (''InvalidDammPool'', ''Account is not a DAMM v2 Pool''),
     (''InvalidDammPosition'', ''Account is not a DAMM v2 Position''),
     (''PositionPoolMismatch'', ''Position belongs to a different DAMM v2 pool''),
     (''DammPoolMintMismatch'', ''DAMM v2 pool mints must be (launch base mint, launch quote mint)''),
     (''PositionNftNotOwnedByClaimer'', ''Position NFT account is not owned by the launch claimer PDA or does not hold the position NFT''),
     (''VaultDecreased'', ''Vault balance decreased during a harvest''),
     (''VaultEncumbered'', ''Vault token account has a delegate, close authority, an owner other than the vault authority, CPI guard or required memo''),
     (''MigrationNotComplete'', ''DBC pool migration to DAMM v2 is not complete''),
     (''MigrationFeeNotHarvested'', ''Migration fee must be harvested before redemptions open''),
     (''ZeroAmount'', ''Amount must be greater than zero''),
     (''InsufficientBaseBalance'', ''Insufficient base token balance''),
     (''ZeroSupply'', ''Base mint supply is zero''),
     (''NothingToRedeem'', ''Redemption would pay nothing (net amount is zero)''),
     (''InvalidFeeBps'', ''Invalid exit fee basis points''),
     (''MathOverflow'', ''Arithmetic overflow''),
     (''VaultBalanceMismatch'', ''Vault balance after redemption does not match the expected amount''),
     (''SupplyMismatch'', ''Base mint supply after burn does not match the expected amount''),
     (''FloorDecreased'', ''Floor per token would decrease''),
     (''DestinationIsVault'', ''The payout destination cannot be the vault''),
     (''QuoteMintPaused'', ''Quote mint is paused by its issuer''),
     (''QuoteMintTransferHookUnsupported'', ''Quote mint has an active transfer hook, which is not supported''),
     (''VaultFrozen'', ''Vault token account is frozen''),
     (''InvalidQuoteMintData'', ''Invalid Token-2022 mint data''),
     (''InvalidTokenAccountData'', ''Invalid token account data''),
     (''FloorAccountMismatch'', ''Base mint account does not match the launch''),
     (''MigrationQuoteThresholdTooSmall'', ''DBC config migration_quote_threshold is too small: the vault's part of the migration fee (the initial floor) would round to zero''),
     (''MigratedPoolFeeInvalid'', ''DBC config must use the Customizable migration fee option with a 1% migrated pool fee and no compounding or market-cap fee schedule''),
     (''MigratedDynamicFeeNotAllowed'', ''DBC config must not enable the dynamic fee of the migrated DAMM v2 pool''),
     (''FirstSwapWithMinFeeNotAllowed'', ''DBC config must not enable the creator's first swap with the minimum fee''),
     (''PayeeAccountMismatch'', ''Payee token account is not the expected associated token account''),
     (''PlatformQuoteAccountUnavailable'', ''Platform quote account cannot receive transfers (closed, frozen, wrong owner or mint, or requires memos)''),
     (''ClaimerQuoteAccountEncumbered'', ''Claimer quote (transit) account has a delegate, close authority, an owner other than the claimer, CPI guard or required memo''),
     (''TransitNotEmptied'', ''Claimer quote (transit) account was not emptied by the fee split''),
     (''ReservedTokenName'', ''Token name or symbol imitates the platform brand (reserved)''),
     (''InvalidTokenMetadata'', ''Base mint metadata is not the Metaplex MetadataV1 account of the base mint, or is malformed'')]"

definition stockfloorMessage :: "string \<Rightarrow> string option" where
  "stockfloorMessage name = map_of STOCKFLOOR_IDL_errors name"

definition OVERRIDES :: "(string \<times> string) list" where
  "OVERRIDES =
     [(''NothingToRedeem'', ''This amount is too small: the redemption would pay nothing.''),
      (''QuoteMintPaused'', ''The quote asset is paused by its issuer. Redemptions and harvests work again once it resumes.''),
      (''MigrationFeeNotHarvested'', ''Redemption opens after the migration fee is harvested into the vault. Run the crank first.''),
      (''MigrationNotComplete'', ''The pool has not migrated to DAMM v2 yet. Run the crank first.''),
      (''InsufficientBaseBalance'', ''Your token balance is lower than the amount.'')]"

definition first_some :: "'a option \<Rightarrow> 'a option \<Rightarrow> 'a option" where
  "first_some a b = (case a of Some x \<Rightarrow> Some x | None \<Rightarrow> b)"

section \<open>Reading a message\<close>

definition has_any :: "string \<Rightarrow> string list \<Rightarrow> bool" where
  "has_any text parts \<longleftrightarrow> list_ex (includes_part text) parts"

definition isWalletRejection :: "thrown_value \<Rightarrow> bool" where
  "isWalletRejection e \<longleftrightarrow>
     tv_code e = Some 4001 \<or>
     has_any (toLowerCase (tv_message e))
       [''user rejected'', ''rejected the request'', ''user denied'', ''request was declined'']"

text \<open>The expression \<open>custom program error: 0x1\\b\<close>: the text, not followed by a letter, a digit or an underscore.\<close>

definition word_char :: "char \<Rightarrow> bool" where
  "word_char c \<longleftrightarrow> (let n = (of_char c :: nat) in
     (48 \<le> n \<and> n \<le> 57) \<or> (65 \<le> n \<and> n \<le> 90) \<or> (97 \<le> n \<and> n \<le> 122) \<or> n = 95)"

fun includes_word :: "string \<Rightarrow> string \<Rightarrow> bool" where
  "includes_word [] part = False"
| "includes_word (x # xs) part =
     (take (length part) (x # xs) = part \<and>
        (case drop (length part) (x # xs) of [] \<Rightarrow> True | c # _ \<Rightarrow> \<not> word_char c) \<or>
      includes_word xs part)"

definition newline :: char where
  "newline = CHR 0x0A"

fun join_lines :: "string list \<Rightarrow> string" where
  "join_lines [] = []"
| "join_lines [l] = l"
| "join_lines (l # ls) = l @ newline # join_lines ls"

definition capitalize :: "string \<Rightarrow> string" where
  "capitalize s = (case s of [] \<Rightarrow> [] | c # cs \<Rightarrow> (if c \<in> set ''abcdefghijklmnopqrstuvwxyz'' then char_of ((of_char c :: nat) - 32) else c) # cs)"

definition first_line :: "string \<Rightarrow> string" where
  "first_line message =
     (let l = js_trim (takeWhile (\<lambda>c. c \<noteq> newline) message) in if l = [] then ''Unknown error'' else l)"

definition sentence :: "string \<Rightarrow> string" where
  "sentence s = (if s \<noteq> [] \<and> last s = CHR ''.'' then s else s @ ''.'')"

text \<open>The message of a program error that has a name the app knows.\<close>

definition program_message :: "thrown_value \<Rightarrow> string option" where
  "program_message e =
     (if tv_class e = TransactionFailedErrorClass \<or> tv_errorName e \<noteq> None
      then case tv_errorName e of
             Some (Some name) \<Rightarrow>
               if name = [] then None
               else (case first_some (first_some (map_of OVERRIDES name) (map_of EXTERNAL_ERRORS name)) (stockfloorMessage name) of
                       Some known \<Rightarrow> if known \<noteq> [] then Some known else None
                     | None \<Rightarrow> None)
           | _ \<Rightarrow> None
      else None)"

text \<open>The last part of \<open>friendlyError\<close>: what the message and the logs say.\<close>

definition described_by_text :: "thrown_value \<Rightarrow> string" where
  "described_by_text e =
     (let all = toLowerCase (tv_message e) @ newline # toLowerCase (join_lines (tv_logs e))
      in if has_any all [''attempt to debit an account but found no record of a prior credit'', ''insufficient lamports'',
              ''insufficient funds for fee'', ''insufficientfundsforfee'']
         then ''Your wallet does not have enough SOL for fees and rent on this network.''
         else if includes_part all ''insufficient funds'' \<or> includes_word all ''custom program error: 0x1''
         then ''Your token balance is too low for this transaction.''
         else if has_any all [''blockhash not found'', ''block height exceeded'', ''expired'']
         then ''The transaction expired before it was confirmed. Try again.''
         else if has_any all [''failed to fetch'', ''networkerror'', ''econnrefused'', ''fetch failed'']
         then ''Could not reach the RPC endpoint. Check that the cluster is running and try again.''
         else sentence (first_line (tv_message e)))"

definition REJECTED_MESSAGE :: string where
  "REJECTED_MESSAGE = ''You rejected the request in your wallet. Nothing was sent.''"

definition friendlyError :: "thrown_value \<Rightarrow> string" where
  "friendlyError e =
     (if tv_class e = UserFacingErrorClass then tv_message e
      else if isWalletRejection e then REJECTED_MESSAGE
      else if tv_name e = ''WalletNotConnectedError'' then ''Connect a wallet to continue.''
      else if tv_name e = ''WalletSignTransactionError'' \<or> tv_name e = ''WalletSendTransactionError''
      then ''Your wallet could not sign the transaction: '' @
             (if tv_message e = [] then ''unknown wallet error'' else tv_message e) @ ''.''
      else if tv_class e = LaunchInputErrorClass then ''Invalid launch parameters: '' @ tv_message e
      else if tv_class e = TradeUnavailableErrorClass
      then (if includes_part (tv_message e) ''NothingToRedeem'' then the (map_of OVERRIDES ''NothingToRedeem'')
            else capitalize (js_trim (tv_message e)) @ ''.'')
      else case program_message e of Some known \<Rightarrow> known | None \<Rightarrow> described_by_text e)"

section \<open>Program errors are named\<close>

text \<open>What the app says about a program error: its own wording where it has one, the program's otherwise.\<close>

definition wording :: "string \<Rightarrow> string" where
  "wording name = (case map_of OVERRIDES name of Some m \<Rightarrow> m | None \<Rightarrow> the (map_of STOCKFLOOR_IDL_errors name))"

lemma program_errors_worded:
  "list_all (\<lambda>(name, msg). name \<noteq> [] \<and> map_of EXTERNAL_ERRORS name = None \<and> msg \<noteq> []) STOCKFLOOR_IDL_errors"
  by (simp add: STOCKFLOOR_IDL_errors_def EXTERNAL_ERRORS_def)

lemma overrides_nonempty: "map_of OVERRIDES name = Some m \<Longrightarrow> m \<noteq> []"
  by (auto simp: OVERRIDES_def split: if_splits)

lemma program_message_known:
  assumes "map_of STOCKFLOOR_IDL_errors name = Some msg" "tv_errorName e = Some (Some name)"
  shows "program_message e = Some (wording name)"
proof -
  from map_of_SomeD [OF assms(1)] program_errors_worded
  have "name \<noteq> []" "map_of EXTERNAL_ERRORS name = None" "msg \<noteq> []"
    by (force simp: list_all_iff)+
  with assms show ?thesis
    using overrides_nonempty [of name]
    by (auto simp: program_message_def first_some_def stockfloorMessage_def wording_def split: option.splits)
qed

text \<open>
  An error of the StockFloor program always reaches the user under its own name: whatever the message, the
  logs and the code of the failed transaction say, unless the wallet refused to sign, the app shows its
  wording for that error or else the program's message, and that text is not empty.
\<close>

theorem program_errors_are_named:
  assumes "(name, msg) \<in> set STOCKFLOOR_IDL_errors"
    and "tv_class e = TransactionFailedErrorClass" "tv_name e = ''TransactionFailedError''"
    and "tv_errorName e = Some (Some name)" "\<not> isWalletRejection e"
  shows "friendlyError e = wording name \<and> wording name \<noteq> []"
proof -
  from assms(1) obtain m where m: "map_of STOCKFLOOR_IDL_errors name = Some m"
    by (metis map_of_eq_None_iff not_None_eq image_eqI fst_conv)
  from map_of_SomeD [OF m] program_errors_worded have "m \<noteq> []" by (force simp: list_all_iff)
  with m have "wording name \<noteq> []"
    using overrides_nonempty [of name] by (auto simp: wording_def split: option.splits)
  with assms(2-5) program_message_known [OF m assms(4)] show ?thesis by (simp add: friendlyError_def)
qed

definition frozen_vault :: thrown_value where
  "frozen_vault = \<lparr>tv_class = TransactionFailedErrorClass, tv_name = ''TransactionFailedError'',
     tv_message = ''Simulation failed'', tv_code = None, tv_errorName = Some (Some ''VaultFrozen''), tv_logs = []\<rparr>"

theorem program_errors_are_named_witness:
  "friendlyError frozen_vault = wording ''VaultFrozen'' \<and> wording ''VaultFrozen'' \<noteq> []"
proof (rule program_errors_are_named)
  show "(''VaultFrozen'', ''Vault token account is frozen'') \<in> set STOCKFLOOR_IDL_errors"
    by (simp add: STOCKFLOOR_IDL_errors_def)
  show "\<not> isWalletRejection frozen_vault" by code_simp
qed (simp_all add: frozen_vault_def)

end
