(* ===== verification/WebCluster.thy ===== *)
theory WebCluster
  imports Guard
begin

text \<open>
  \<^verbatim>\<open>app/src/lib/chain/cluster.ts\<close>: what the web app may do on the configured cluster. A probe of the endpoint
  is classified once; the actions of the app read the classification. The cache of probes is left out. The
  property: the app sends exactly where the SDK's guard allows it, routes through Jupiter only on mainnet, and
  offers the faucet only on a local fork.
\<close>

datatype app_cluster_kind = LocalForkCluster | LocalValidatorCluster | MainnetCluster | OtherCluster

record cluster_settings =
  st_allowMainnetFlag :: bool
  st_allowMainnetEnv :: "string option"
  st_priorityFeeMicroLamports :: "int option"

definition LOCKED_CLUSTER_SETTINGS :: cluster_settings where
  "LOCKED_CLUSTER_SETTINGS =
     \<lparr>st_allowMainnetFlag = False, st_allowMainnetEnv = None, st_priorityFeeMicroLamports = None\<rparr>"

record cluster_info =
  cl_rpcUrl :: string
  cl_kind :: app_cluster_kind
  cl_probe :: cluster_probe
  cl_sendGuard :: send_guard_decision
  cl_jupiterRouting :: bool
  cl_faucet :: bool
  cl_priorityFeeMicroLamports :: int

definition MAINNET_PRIORITY_FEE_MICROLAMPORTS :: int where
  [simp]: "MAINNET_PRIORITY_FEE_MICROLAMPORTS = 100000"

text \<open>The decision of the SDK's guard; only the wording of a reason changes.\<close>

definition appSendGuard :: "(string \<Rightarrow> url option) \<Rightarrow> string \<Rightarrow> cluster_probe \<Rightarrow> cluster_settings \<Rightarrow> send_guard_decision" where
  "appSendGuard parse rpcUrl probe settings =
     (let decision = evaluateSendGuard parse
            \<lparr>gi_rpcUrl = rpcUrl, gi_probe = probe, gi_allowMainnetFlag = st_allowMainnetFlag settings,
             gi_allowMainnetEnv = st_allowMainnetEnv settings\<rparr>;
          flag = st_allowMainnetFlag settings;
          env = (st_allowMainnetEnv settings = Some ''1'')
      in case decision of
           Allowed MainnetOverride \<Rightarrow> Allowed MainnetOverride
         | Allowed mode \<Rightarrow> Allowed mode
         | Refused reason \<Rightarrow> if flag \<noteq> env then Refused OneSwitchOnly else Refused reason)"

definition cluster_kind_of :: "(string \<Rightarrow> url option) \<Rightarrow> string \<Rightarrow> cluster_probe \<Rightarrow> app_cluster_kind" where
  "cluster_kind_of parse rpcUrl probe =
     (let loopback = isLoopbackRpcUrl parse rpcUrl
      in if loopback \<and> pr_genesisHash probe \<noteq> None
         then (if pr_genesisHash probe \<noteq> Some MAINNET_GENESIS_HASH then LocalValidatorCluster
               else if (case pr_surfnetVersion probe of None \<Rightarrow> False | Some v \<Rightarrow> v \<noteq> []) \<and> pr_surfnetMethodOk probe
               then LocalForkCluster else OtherCluster)
         else if \<not> loopback \<and> pr_genesisHash probe = Some MAINNET_GENESIS_HASH then MainnetCluster
         else OtherCluster)"

definition classifyCluster :: "(string \<Rightarrow> url option) \<Rightarrow> string \<Rightarrow> cluster_probe \<Rightarrow> cluster_settings \<Rightarrow> cluster_info" where
  "classifyCluster parse rpcUrl probe settings =
     (let kind = cluster_kind_of parse rpcUrl probe
      in \<lparr>cl_rpcUrl = rpcUrl, cl_kind = kind, cl_probe = probe,
          cl_sendGuard = appSendGuard parse rpcUrl probe settings, cl_jupiterRouting = (kind = MainnetCluster),
          cl_faucet = (kind = LocalForkCluster),
          cl_priorityFeeMicroLamports =
            (case st_priorityFeeMicroLamports settings of
               Some fee \<Rightarrow> fee
             | None \<Rightarrow> if kind = MainnetCluster then MAINNET_PRIORITY_FEE_MICROLAMPORTS else 0)\<rparr>)"

definition may_send :: "cluster_info \<Rightarrow> bool" where
  "may_send info \<longleftrightarrow> (case cl_sendGuard info of Allowed _ \<Rightarrow> True | Refused _ \<Rightarrow> False)"

section \<open>Where the app sends\<close>

text \<open>The two mainnet switches of the build.\<close>

abbreviation both_switches :: "cluster_settings \<Rightarrow> bool" where
  "both_switches s \<equiv> st_allowMainnetFlag s \<and> st_allowMainnetEnv s = Some ''1''"

abbreviation no_switch :: "cluster_settings \<Rightarrow> bool" where
  "no_switch s \<equiv> \<not> st_allowMainnetFlag s \<and> st_allowMainnetEnv s \<noteq> Some ''1''"

lemma loopback_parses: "isLoopbackRpcUrl parse rpcUrl \<Longrightarrow> \<exists>u. parse rpcUrl = Some u"
  by (auto simp: isLoopbackRpcUrl_def split: option.splits)

lemma may_send_iff:
  "may_send (classifyCluster parse rpcUrl probe settings) \<longleftrightarrow>
     both_switches settings \<or>
     no_switch settings \<and> cluster_kind_of parse rpcUrl probe \<in> {LocalForkCluster, LocalValidatorCluster}"
  using loopback_parses [of parse rpcUrl]
  by (auto simp: may_send_def classifyCluster_def appSendGuard_def evaluateSendGuard_def cluster_kind_of_def Let_def
      split: option.splits guard_mode.splits)

lemma local_kind_iff:
  "cluster_kind_of parse rpcUrl probe \<in> {LocalForkCluster, LocalValidatorCluster} \<longleftrightarrow>
     isLoopbackRpcUrl parse rpcUrl \<and>
     (\<exists>h. pr_genesisHash probe = Some h \<and>
        (if h = MAINNET_GENESIS_HASH then (\<exists>v. pr_surfnetVersion probe = Some v \<and> v \<noteq> []) \<and> pr_surfnetMethodOk probe
         else True))"
  by (cases "isLoopbackRpcUrl parse rpcUrl"; cases "pr_genesisHash probe"; cases "pr_surfnetVersion probe")
    (simp_all add: cluster_kind_of_def)

lemma mainnet_kind_iff:
  "cluster_kind_of parse rpcUrl probe = MainnetCluster \<longleftrightarrow>
     \<not> isLoopbackRpcUrl parse rpcUrl \<and> pr_genesisHash probe = Some MAINNET_GENESIS_HASH"
  by (simp add: cluster_kind_of_def Let_def)

lemma classified [simp]:
  "cl_kind (classifyCluster parse rpcUrl probe settings) = cluster_kind_of parse rpcUrl probe"
  "cl_jupiterRouting (classifyCluster parse rpcUrl probe settings) \<longleftrightarrow> cluster_kind_of parse rpcUrl probe = MainnetCluster"
  "cl_faucet (classifyCluster parse rpcUrl probe settings) \<longleftrightarrow> cluster_kind_of parse rpcUrl probe = LocalForkCluster"
  by (simp_all add: classifyCluster_def Let_def)

text \<open>
  The classification agrees with the send guard: the app may send exactly with both mainnet switches, or
  with neither on an endpoint it calls a local fork or a local validator, which is a loopback one; without the
  switches it never sends where it routes through Jupiter, and where it offers the faucet it is not routing.
\<close>

theorem app_sends_where_guard_allows:
  "let info = classifyCluster parse rpcUrl probe settings
   in (may_send info \<longleftrightarrow>
         both_switches settings \<or> no_switch settings \<and> cl_kind info \<in> {LocalForkCluster, LocalValidatorCluster}) \<and>
      (cl_kind info \<in> {LocalForkCluster, LocalValidatorCluster} \<longleftrightarrow>
         isLoopbackRpcUrl parse rpcUrl \<and>
         (\<exists>h. pr_genesisHash probe = Some h \<and>
            (if h = MAINNET_GENESIS_HASH then (\<exists>v. pr_surfnetVersion probe = Some v \<and> v \<noteq> []) \<and> pr_surfnetMethodOk probe
             else True))) \<and>
      (cl_jupiterRouting info \<longleftrightarrow> \<not> isLoopbackRpcUrl parse rpcUrl \<and> pr_genesisHash probe = Some MAINNET_GENESIS_HASH) \<and>
      \<not> (cl_jupiterRouting info \<and> may_send info \<and> \<not> both_switches settings) \<and> \<not> (cl_jupiterRouting info \<and> cl_faucet info)"
  using mainnet_kind_iff [of parse rpcUrl probe]
  unfolding Let_def classified may_send_iff local_kind_iff by auto

end
