(* ===== verification/WebActions.thy ===== *)
theory WebActions
  imports WebErrors WebCluster Trade Crank LaunchComposer TxFlow Decimal
begin

text \<open>
  \<^verbatim>\<open>app/src/lib/data/chainActions.ts\<close>: the write actions of the web app. Each action checks the cluster, reads the
  chain, checks balances, builds transactions with the SDK and hands them to the wallet through the transaction
  flow. An action is a function of a run: the world, the events dispatched so far, the signatures collected, and a
  record of what was handed to the wallet and to Jupiter, which only the properties read. The node, the wallet and Jupiter
  are the record \<open>web_env\<close>. Texts for the user are values of \<open>ui_text\<close> with the figures they print.
\<close>

section \<open>What the actions throw and say\<close>

datatype pool_venue = OnDbc | OnDamm
datatype pay_token = PayUSDC | PaySOL | PayQuote

datatype ui_text =
    SendingDisabled
  | NeedsLamports string int int bool
  | LaunchNotFound
  | RetryGone
  | InvalidRetryHandle
  | ConnectWallet
  | WalletCannotSign
  | LaunchQuotePaused string
  | FirstBuyNeeds int int bool
  | EnterAmount
  | RoutingOnMainnetOnly pay_token bool trade_side string
  | TradingPaused string
  | CurveCompleted
  | VenueChanged pool_venue
  | BalanceTooLow trade_side int int
  | PriceMoved trade_side int int
  | RedeemTooMuch int int
  | LaunchCreated string
  | Traded trade_side int int bool
  | SwapConfirmed
  | SoldAndSwapped int int pay_token
  | RedeemLabel int int
  | Redeemed int int
  | CrankNothingDue
  | CrankFinished nat nat nat
  | CrankStepsFailed nat

datatype web_thrown = UserFacing ui_text | SdkThrown js_error | Foreign thrown_value

record ultra_params =
  up_inputMint :: string
  up_outputMint :: string
  up_amount :: int
  up_slippageBps :: jsnum

record ultra_swap_result =
  us_signature :: string
  us_inAmount :: int
  us_outAmount :: int

text \<open>
  \<open>we_snapshot\<close> is what the node shows at a read, and the world after it; \<open>we_send\<close> and \<open>we_swap\<close> are the wallet's
  sender and the Jupiter swap, with the phases they report; \<open>we_text\<close> and \<open>we_sdkValue\<close> are the texts the model
  leaves out, and \<open>we_numberText\<close> is the decimal text of a number.
\<close>

record 'w web_env =
  we_composer :: "'w \<Rightarrow> launch_env"
  we_lib :: solana_lib
  we_newAta :: ata_builder
  we_coders :: account_coders
  we_utf8 :: "bytes \<Rightarrow> int list"
  we_toBase58 :: "pubkey \<Rightarrow> string"
  we_parse :: "string \<Rightarrow> pubkey option"
  we_keypairs :: "'w \<Rightarrow> pubkey \<times> pubkey"
  we_cluster :: "'w \<Rightarrow> (web_thrown + cluster_info) \<times> 'w"
  we_snapshot :: "'w \<Rightarrow> chain_reader \<times> 'w"
  we_send :: "pubkey \<Rightarrow> tx_instruction list \<Rightarrow> send_options \<Rightarrow> 'w \<Rightarrow> step_phase list \<times> (web_thrown + send_result) \<times> 'w"
  we_swap :: "pubkey \<Rightarrow> ultra_params \<Rightarrow> 'w \<Rightarrow> step_phase list \<times> (web_thrown + ultra_swap_result) \<times> 'w"
  we_text :: "ui_text \<Rightarrow> string"
  we_sdkValue :: "js_error \<Rightarrow> thrown_value"
  we_numberText :: "jsnum \<Rightarrow> string"

fun value_of :: "'w web_env \<Rightarrow> web_thrown \<Rightarrow> thrown_value" where
  "value_of env (UserFacing t) =
     \<lparr>tv_class = UserFacingErrorClass, tv_name = ''UserFacingError'', tv_message = we_text env t, tv_code = None,
      tv_errorName = None, tv_logs = []\<rparr>"
| "value_of env (SdkThrown e) = we_sdkValue env e"
| "value_of env (Foreign v) = v"

definition describe :: "'w web_env \<Rightarrow> web_thrown \<Rightarrow> string" where
  "describe env e = friendlyError (value_of env e)"

section \<open>Runs\<close>

record handed =
  hd_instructions :: "tx_instruction list"
  hd_options :: send_options
  hd_outcome :: "web_thrown + send_result"

record 'w web_run =
  wr_world :: 'w
  wr_events :: "tx_flow_event list"
  wr_signatures :: "string list"
  wr_sent :: "handed list"
  wr_swaps :: "ultra_params list"
  wr_routed :: ultra_swap_result

type_synonym ('w, 'a) action = "'w web_run \<Rightarrow> (web_thrown + 'a) \<times> 'w web_run"

definition retW :: "'a \<Rightarrow> ('w, 'a) action" where
  "retW x r = (Inr x, r)"

definition throwW :: "web_thrown \<Rightarrow> ('w, 'a) action" where
  "throwW e r = (Inl e, r)"

definition bindW :: "('w, 'a) action \<Rightarrow> ('a \<Rightarrow> ('w, 'b) action) \<Rightarrow> ('w, 'b) action" where
  "bindW m f r = (case m r of (Inl e, r') \<Rightarrow> (Inl e, r') | (Inr x, r') \<Rightarrow> f x r')"

definition sdkW :: "'a result \<Rightarrow> ('w, 'a) action" where
  "sdkW m r = (case m of Inl e \<Rightarrow> (Inl (SdkThrown e), r) | Inr x \<Rightarrow> (Inr x, r))"

definition checkW :: "bool \<Rightarrow> ui_text \<Rightarrow> ('w, unit) action" where
  "checkW c t = (if c then retW () else throwW (UserFacing t))"

text \<open>A read of the chain, through one snapshot of the node.\<close>

definition readW :: "'w web_env \<Rightarrow> (chain_reader \<Rightarrow> 'a result) \<Rightarrow> ('w, 'a) action" where
  "readW env f r = (case we_snapshot env (wr_world r) of (reader, w') \<Rightarrow> sdkW (f reader) (r\<lparr>wr_world := w'\<rparr>))"

definition dispatch :: "tx_flow_event list \<Rightarrow> 'w web_run \<Rightarrow> 'w web_run" where
  "dispatch evs r = r\<lparr>wr_events := wr_events r @ evs\<rparr>"

definition dispatchW :: "tx_flow_event list \<Rightarrow> ('w, unit) action" where
  "dispatchW evs r = (Inr (), dispatch evs r)"

text \<open>Handing a transaction to the wallet.\<close>

definition hand_over ::
  "'w web_env \<Rightarrow> pubkey \<Rightarrow> tx_instruction list \<Rightarrow> send_options \<Rightarrow> 'w web_run \<Rightarrow>
     step_phase list \<times> (web_thrown + send_result) \<times> 'w web_run" where
  "hand_over env wallet ixs opts r =
     (case we_send env wallet ixs opts (wr_world r) of (phases, outcome, w') \<Rightarrow>
        (phases, outcome,
         r\<lparr>wr_world := w',
           wr_sent := wr_sent r @ [\<lparr>hd_instructions = ixs, hd_options = opts, hd_outcome = outcome\<rparr>]\<rparr>))"

definition send_step ::
  "'w web_env \<Rightarrow> pubkey \<Rightarrow> string \<Rightarrow> string \<Rightarrow> ('w web_run \<Rightarrow> (web_thrown + bool) \<times> 'w web_run) option \<Rightarrow>
     tx_instruction list \<Rightarrow> send_options \<Rightarrow> ('w web_run, web_thrown) step_runner" where
  "send_step env wallet id' label alreadyDone ixs opts =
     \<lparr>rn_id = id', rn_label = label, rn_alreadyDone = alreadyDone,
      rn_run = (\<lambda>r. case hand_over env wallet ixs opts r of
         (phases, Inl e, r') \<Rightarrow> (phases, Inl e, r')
       | (phases, Inr s, r') \<Rightarrow>
           (phases, Inr (Some (sr_signature s), None), r'\<lparr>wr_signatures := wr_signatures r' @ [sr_signature s]\<rparr>))\<rparr>"

text \<open>The swap of a routed trade; its amounts are the local variables \<open>swapped\<close> and \<open>routed\<close> of the code.\<close>

definition swap_step ::
  "'w web_env \<Rightarrow> pubkey \<Rightarrow> string \<Rightarrow> ultra_params \<Rightarrow> ('w web_run, web_thrown) step_runner" where
  "swap_step env wallet label params =
     \<lparr>rn_id = ''jupiter'', rn_label = label, rn_alreadyDone = None,
      rn_run = (\<lambda>r. case we_swap env wallet params (wr_world r) of (phases, outcome, w') \<Rightarrow>
         (let r' = r\<lparr>wr_world := w', wr_swaps := wr_swaps r @ [params]\<rparr>
          in case outcome of
               Inl e \<Rightarrow> (phases, Inl e, r')
             | Inr s \<Rightarrow> (phases, Inr (Some (us_signature s), None),
                         r'\<lparr>wr_routed := s, wr_signatures := wr_signatures r @ [us_signature s]\<rparr>)))\<rparr>"

text \<open>\<open>runSteps\<close> over a run: its events join those dispatched before.\<close>

definition steps_of ::
  "'w web_env \<Rightarrow> ('w web_run, web_thrown) step_runner list \<Rightarrow> string set \<Rightarrow> 'w web_run \<Rightarrow>
     web_thrown option \<times> string set \<times> 'w web_run" where
  "steps_of env runners completed r =
     (case runSteps (describe env) runners completed r of
        (evs, completed', err, r') \<Rightarrow> (err, completed', dispatch evs r'))"

definition runW :: "'w web_env \<Rightarrow> ('w web_run, web_thrown) step_runner list \<Rightarrow> ('w, unit) action" where
  "runW env runners r =
     (case steps_of env runners {} r of (Some e, _, r') \<Rightarrow> (Inl e, r') | (None, _, r') \<Rightarrow> (Inr (), r'))"

section \<open>Checks the actions share\<close>

definition MIN_LAUNCH_LAMPORTS :: int where [simp]: "MIN_LAUNCH_LAMPORTS = 50000000"
definition MIN_TRADE_LAMPORTS :: int where [simp]: "MIN_TRADE_LAMPORTS = 5000000"
definition MIN_CRANK_LAMPORTS :: int where [simp]: "MIN_CRANK_LAMPORTS = 20000000"

record wallet_signer =
  wa_publicKey :: "pubkey option"
  wa_canSign :: bool

definition requireSigningWallet :: "wallet_signer \<Rightarrow> ('w, pubkey) action" where
  "requireSigningWallet wallet =
     (case wa_publicKey wallet of
        None \<Rightarrow> throwW (UserFacing ConnectWallet)
      | Some key \<Rightarrow> if wa_canSign wallet then retW key else throwW (UserFacing WalletCannotSign))"

definition sendableCluster :: "'w web_env \<Rightarrow> ('w, cluster_info) action" where
  "sendableCluster env r =
     (case we_cluster env (wr_world r) of
        (Inl e, w') \<Rightarrow> (Inl e, r\<lparr>wr_world := w'\<rparr>)
      | (Inr info, w') \<Rightarrow>
          (if may_send info then Inr info else Inl (UserFacing SendingDisabled), r\<lparr>wr_world := w'\<rparr>))"

definition requireLamports :: "'w web_env \<Rightarrow> pubkey \<Rightarrow> int \<Rightarrow> cluster_info \<Rightarrow> string \<Rightarrow> ('w, unit) action" where
  "requireLamports env wallet minimum cluster what =
     bindW (readW env (\<lambda>reader. getAccountInfo reader wallet)) (\<lambda>acc.
     let lamports = (case acc of Some a \<Rightarrow> ac_lamports a | None \<Rightarrow> 0)
     in checkW (minimum \<le> lamports) (NeedsLamports what minimum lamports (cl_faucet cluster)))"

record web_launch =
  wl_launchAddress :: string
  wl_symbol :: string
  wl_quoteSymbol :: string

definition parse_key :: "'w web_env \<Rightarrow> string \<Rightarrow> ('w, pubkey) action" where
  "parse_key env text = sdkW (case we_parse env text of Some k \<Rightarrow> Inr k | None \<Rightarrow> Inl (GenericError ''Invalid public key input''))"

definition freshState :: "'w web_env \<Rightarrow> web_launch \<Rightarrow> ('w, launch_state) action" where
  "freshState env launch =
     bindW (parse_key env (wl_launchAddress launch)) (\<lambda>key.
     bindW (readW env (\<lambda>reader. fetchLaunchState reader (we_lib env) (we_coders env) (we_utf8 env) (RefLaunch key) True))
       (\<lambda>state. case state of Some s \<Rightarrow> retW s | None \<Rightarrow> throwW (UserFacing LaunchNotFound)))"

definition balances ::
  "'w web_env \<Rightarrow> pubkey \<Rightarrow> launch_keys \<Rightarrow> ('w, int \<times> int) action" where
  "balances env wallet keys =
     bindW (readW env (\<lambda>reader. getAtaBalance reader (we_lib env) wallet (lk_baseMint keys) (TOKEN_PROGRAM_ID (we_lib env)))) (\<lambda>base.
     bindW (readW env (\<lambda>reader. getAtaBalance reader (we_lib env) wallet (lk_quoteMint keys) (lk_quoteTokenProgram keys))) (\<lambda>quote.
     retW (base, quote)))"

definition fee_options :: "cluster_info \<Rightarrow> pubkey list \<Rightarrow> int \<Rightarrow> string \<Rightarrow> send_options" where
  "fee_options cluster signers limit label =
     \<lparr>so_signers = signers, so_computeUnitLimit = limit,
      so_computeUnitPrice = Some (JsInt (cl_priorityFeeMicroLamports cluster)), so_label = label\<rparr>"

text \<open>The answer of an action. \<open>finishW\<close> is the end of its \<open>try\<close> block and its \<open>catch\<close>.\<close>

datatype ('a, 'r) action_result = ActionOk 'a "string list" | ActionFailed string "string list option" "'r option"

definition failed_run :: "'w web_env \<Rightarrow> web_thrown \<Rightarrow> 'w web_run \<Rightarrow> 'w web_run" where
  "failed_run env e r = dispatch [EvFail (describe env e)] r"

definition finishW :: "'w web_env \<Rightarrow> ('w, 'a) action \<Rightarrow> 'w web_run \<Rightarrow> ('a, 'r) action_result \<times> 'w web_run" where
  "finishW env m r =
     (case m (r\<lparr>wr_signatures := []\<rparr>) of
        (Inr v, r') \<Rightarrow> (ActionOk v (wr_signatures r'), r')
      | (Inl e, r') \<Rightarrow> (ActionFailed (describe env e) (Some (wr_signatures r')) None, failed_run env e r'))"

section \<open>Trades\<close>

record trade_request =
  rq_side :: trade_side
  rq_payToken :: pay_token
  rq_amountRaw :: int
  rq_slippageBps :: jsnum
  rq_expected :: "(pool_venue \<times> int) option"

datatype outcome_venue = TradedOnDbc | TradedOnDamm | TradedViaJupiter

record trade_outcome =
  oc_venue :: outcome_venue
  oc_amountIn :: int
  oc_amountOut :: int
  oc_partialFill :: bool

text \<open>The index of the swap among the instructions of a trade, and the trade with a higher minimum out.\<close>

definition is_swap_program :: "tx_instruction \<Rightarrow> bool" where
  "is_swap_program i \<longleftrightarrow> ix_programId i = DBC_PROGRAM_ID \<or> ix_programId i = DAMM_V2_PROGRAM_ID"

fun find_index :: "('a \<Rightarrow> bool) \<Rightarrow> 'a list \<Rightarrow> nat option" where
  "find_index P [] = None"
| "find_index P (x # xs) = (if P x then Some 0 else map_option Suc (find_index P xs))"

definition withMinimumOut :: "built_trade \<Rightarrow> int \<Rightarrow> built_trade result" where
  "withMinimumOut trade minAmountOut =
     (case find_index is_swap_program (bt_instructions trade) of
        None \<Rightarrow> Inl (GenericError ''unexpected trade instructions: no swap2'')
      | Some i \<Rightarrow>
          (let swap = bt_instructions trade ! i
           in if length (ix_data swap) \<noteq> 25 then Inl (GenericError ''unexpected trade instructions: no swap2'')
              else bindE (readU64 (ix_data swap) 8) (\<lambda>amount0.
                   Inr (trade\<lparr>bt_minAmountOut := minAmountOut,
                              bt_instructions := (bt_instructions trade)[i := swap\<lparr>ix_data :=
                                swapParams2 (take 8 (ix_data swap)) amount0 minAmountOut (uint (ix_data swap ! 24))\<rparr>]\<rparr>))))"

definition venue_of_phase :: "launch_state \<Rightarrow> pool_venue" where
  "venue_of_phase state = (if ls_phase state = Presale then OnDbc else OnDamm)"

definition venue_label :: "pool_venue \<Rightarrow> string" where
  "venue_label v = (case v of OnDbc \<Rightarrow> ''on the bonding curve'' | OnDamm \<Rightarrow> ''on the Meteora DAMM v2 pool'')"

definition trade_label :: "trade_side \<Rightarrow> web_launch \<Rightarrow> pool_venue \<Rightarrow> string" where
  "trade_label side launch v =
     (case side of
        Buy \<Rightarrow> ''Buy $'' @ wl_symbol launch @ '' with '' @ wl_quoteSymbol launch @ '' '' @ venue_label v
      | Sell \<Rightarrow> ''Sell $'' @ wl_symbol launch @ '' for '' @ wl_quoteSymbol launch @ '' '' @ venue_label v)"

text \<open>The re-quote at fresh state against what the user was shown.\<close>

definition held_to_expected :: "trade_side \<Rightarrow> (pool_venue \<times> int) option \<Rightarrow> built_trade \<Rightarrow> ('w, built_trade) action" where
  "held_to_expected side expected trade =
     (case expected of
        None \<Rightarrow> retW trade
      | Some (_, minOut) \<Rightarrow>
          if tq_amountOut (bt_quote trade) < minOut
          then throwW (UserFacing (PriceMoved side (tq_amountOut (bt_quote trade)) minOut))
          else if bt_minAmountOut trade < minOut then sdkW (withMinimumOut trade minOut)
          else retW trade)"

definition quote_venue :: "trade_quote \<Rightarrow> outcome_venue" where
  "quote_venue q = (case tq_venue q of VenueDbc _ _ \<Rightarrow> TradedOnDbc | VenueDamm _ \<Rightarrow> TradedOnDamm)"

definition filled_in_part :: "trade_quote \<Rightarrow> bool" where
  "filled_in_part q \<longleftrightarrow> (case tq_venue q of VenueDbc mode _ \<Rightarrow> mode = PartialFill | VenueDamm _ \<Rightarrow> False)"

definition side_text :: "trade_side \<Rightarrow> string" where
  "side_text side = (case side of Buy \<Rightarrow> ''buy'' | Sell \<Rightarrow> ''sell'')"

definition venue_text :: "trade_quote \<Rightarrow> string" where
  "venue_text q = (case tq_venue q of VenueDbc _ _ \<Rightarrow> ''dbc'' | VenueDamm _ \<Rightarrow> ''damm'')"

definition plain_options :: "jsnum \<Rightarrow> trade_options" where
  "plain_options slippageBps = \<lparr>to_slippageBps = Some slippageBps, to_allowPartialFill = None, to_payer = None\<rparr>"

definition directTrade ::
  "'w web_env \<Rightarrow> launch_state \<Rightarrow> web_launch \<Rightarrow> pubkey \<Rightarrow> trade_side \<Rightarrow> int \<Rightarrow> jsnum \<Rightarrow> bool \<Rightarrow> cluster_info \<Rightarrow>
     (pool_venue \<times> int) option \<Rightarrow> ('w, trade_outcome) action" where
  "directTrade env state launch wallet side amountRaw slippageBps startFlow cluster expected =
     (let keys = ls_keys state; v = venue_of_phase state; label = trade_label side launch v
      in bindW (case expected of Some (shown, _) \<Rightarrow> checkW (shown = v) (VenueChanged v) | None \<Rightarrow> retW ()) (\<lambda>_.
         bindW (if startFlow then dispatchW [EvStart [(''swap'', label)]] else retW ()) (\<lambda>_.
         bindW (balances env wallet keys) (\<lambda>(base0, quote0).
         let have' = (case side of Buy \<Rightarrow> quote0 | Sell \<Rightarrow> base0)
         in bindW (checkW (amountRaw \<le> have') (BalanceTooLow side amountRaw have')) (\<lambda>_.
         bindW (sdkW (buildTrade (we_lib env) (we_newAta env) state wallet side amountRaw (plain_options slippageBps))) (\<lambda>built.
         bindW (held_to_expected side expected built) (\<lambda>trade.
         bindW (runW env [send_step env wallet ''swap'' label None (bt_instructions trade)
                  (fee_options cluster [] (bt_computeUnitLimit trade)
                     (side_text side @ '' '' @ venue_text (bt_quote trade)))]) (\<lambda>_.
         bindW (balances env wallet keys) (\<lambda>(base1, quote1).
         retW \<lparr>oc_venue = quote_venue (bt_quote trade),
               oc_amountIn = (case side of Buy \<Rightarrow> quote0 - quote1 | Sell \<Rightarrow> base0 - base1),
               oc_amountOut = (case side of Buy \<Rightarrow> base1 - base0 | Sell \<Rightarrow> quote1 - quote0),
               oc_partialFill = filled_in_part (bt_quote trade)\<rparr>)))))))))"

definition summary :: "trade_side \<Rightarrow> trade_outcome \<Rightarrow> ui_text" where
  "summary side o' = Traded side (oc_amountIn o') (oc_amountOut o') (oc_partialFill o')"

definition finish_with :: "'w web_env \<Rightarrow> ui_text \<Rightarrow> ('w, unit) action" where
  "finish_with env t = dispatchW [EvFinish (Some (we_text env t))]"

text \<open>Jupiter's routes in and out of the quote asset.\<close>

definition USDC_MINT :: string where
  "USDC_MINT = ''EPjFWdd5AufqSSqeM2qN1xzybapC8G4wEGGkZwyTDt1v''"

definition WSOL_MINT :: string where
  "WSOL_MINT = ''So11111111111111111111111111111111111111112''"

definition pay_mint :: "pay_token \<Rightarrow> string" where
  "pay_mint t = (if t = PayUSDC then USDC_MINT else WSOL_MINT)"

definition pay_text :: "pay_token \<Rightarrow> string" where
  "pay_text t = (case t of PayUSDC \<Rightarrow> ''USDC'' | PaySOL \<Rightarrow> ''SOL'' | PayQuote \<Rightarrow> ''QUOTE'')"

definition route_label :: "trade_side \<Rightarrow> web_launch \<Rightarrow> pay_token \<Rightarrow> string" where
  "route_label side launch t =
     (case side of
        Buy \<Rightarrow> ''Buy $'' @ wl_symbol launch @ '' with '' @ pay_text t @ '' via Jupiter''
      | Sell \<Rightarrow> ''Sell $'' @ wl_symbol launch @ '' for '' @ pay_text t @ '' via Jupiter'')"

definition swap_label :: "string \<Rightarrow> string \<Rightarrow> string" where
  "swap_label from to = ''Swap '' @ from @ '' to '' @ to @ '' via Jupiter''"

definition routedW :: "('w, ultra_swap_result) action" where
  "routedW r = (Inr (wr_routed r), r)"

definition routedTrade ::
  "'w web_env \<Rightarrow> launch_state \<Rightarrow> web_launch \<Rightarrow> pubkey \<Rightarrow> trade_request \<Rightarrow> cluster_info \<Rightarrow> ('w, trade_outcome) action" where
  "routedTrade env state launch wallet request cluster =
     (let pay = rq_payToken request; side = rq_side request; symbol = wl_quoteSymbol launch;
          payMint = pay_mint pay;
          quoteMint = we_toBase58 env (lk_quoteMint (ls_keys state));
          baseMint = we_toBase58 env (lk_baseMint (ls_keys state));
          order = (\<lambda>from to amount. \<lparr>up_inputMint = from, up_outputMint = to, up_amount = amount,
                     up_slippageBps = rq_slippageBps request\<rparr>)
      in if ls_phase state \<noteq> Presale
         then (let label = route_label side launch pay;
                   params = (case side of Buy \<Rightarrow> order payMint baseMint (rq_amountRaw request)
                                        | Sell \<Rightarrow> order baseMint payMint (rq_amountRaw request))
               in bindW (dispatchW [EvStart [(''jupiter'', label)]]) (\<lambda>_.
                  bindW (runW env [swap_step env wallet label params]) (\<lambda>_.
                  bindW routedW (\<lambda>swapped.
                  bindW (finish_with env SwapConfirmed) (\<lambda>_.
                  retW \<lparr>oc_venue = TradedViaJupiter, oc_amountIn = us_inAmount swapped,
                        oc_amountOut = us_outAmount swapped, oc_partialFill = False\<rparr>)))))
         else case side of
           Buy \<Rightarrow>
             bindW (dispatchW [EvStart [(''jupiter'', swap_label (pay_text pay) symbol), (''swap'', trade_label Buy launch OnDbc)]]) (\<lambda>_.
             bindW (runW env [swap_step env wallet ''jupiter'' (order payMint quoteMint (rq_amountRaw request))]) (\<lambda>_.
             bindW routedW (\<lambda>routed.
             bindW (freshState env launch) (\<lambda>fresh.
             bindW (directTrade env fresh launch wallet Buy (us_outAmount routed) (rq_slippageBps request) False cluster None) (\<lambda>outcome.
             bindW (finish_with env (summary Buy outcome)) (\<lambda>_.
             retW outcome))))))
         | Sell \<Rightarrow>
             bindW (dispatchW [EvStart [(''swap'', trade_label Sell launch OnDbc), (''jupiter'', swap_label symbol (pay_text pay))]]) (\<lambda>_.
             bindW (directTrade env state launch wallet Sell (rq_amountRaw request) (rq_slippageBps request) False cluster
                      (rq_expected request)) (\<lambda>sold.
             bindW (runW env [swap_step env wallet ''jupiter'' (order quoteMint payMint (oc_amountOut sold))]) (\<lambda>_.
             bindW (finish_with env (SoldAndSwapped (oc_amountIn sold) (oc_amountOut sold) pay)) (\<lambda>_.
             retW (sold\<lparr>oc_venue := TradedViaJupiter\<rparr>))))))"

definition trade_body :: "'w web_env \<Rightarrow> web_launch \<Rightarrow> trade_request \<Rightarrow> wallet_signer \<Rightarrow> ('w, trade_outcome) action" where
  "trade_body env launch request wallet =
     bindW (requireSigningWallet wallet) (\<lambda>key.
     bindW (checkW (0 < rq_amountRaw request) EnterAmount) (\<lambda>_.
     bindW (sendableCluster env) (\<lambda>cluster.
     bindW (checkW (rq_payToken request = PayQuote \<or> cl_jupiterRouting cluster)
              (RoutingOnMainnetOnly (rq_payToken request) (cl_kind cluster = LocalForkCluster) (rq_side request)
                 (wl_quoteSymbol launch))) (\<lambda>_.
     bindW (freshState env launch) (\<lambda>state.
     bindW (checkW (\<not> mi_paused (ls_quoteMint state)) (TradingPaused (wl_quoteSymbol launch))) (\<lambda>_.
     bindW (checkW (ls_phase state \<noteq> Graduating) CurveCompleted) (\<lambda>_.
     bindW (requireLamports env key MIN_TRADE_LAMPORTS cluster ''Trading'') (\<lambda>_.
     if rq_payToken request = PayQuote
     then bindW (directTrade env state launch key (rq_side request) (rq_amountRaw request) (rq_slippageBps request)
                   True cluster (rq_expected request)) (\<lambda>outcome.
          bindW (finish_with env (summary (rq_side request) outcome)) (\<lambda>_.
          retW outcome))
     else routedTrade env state launch key request cluster))))))))"

definition trade ::
  "'w web_env \<Rightarrow> web_launch \<Rightarrow> trade_request \<Rightarrow> wallet_signer \<Rightarrow> 'w web_run \<Rightarrow>
     (trade_outcome, unit) action_result \<times> 'w web_run" where
  "trade env launch request wallet = finishW env (trade_body env launch request wallet)"

section \<open>Redemptions\<close>

record redeem_outcome =
  re_net :: int
  re_fee :: int

definition redeem_body :: "'w web_env \<Rightarrow> web_launch \<Rightarrow> int \<Rightarrow> wallet_signer \<Rightarrow> ('w, redeem_outcome) action" where
  "redeem_body env launch amountRaw wallet =
     bindW (requireSigningWallet wallet) (\<lambda>key.
     bindW (checkW (0 < amountRaw) EnterAmount) (\<lambda>_.
     bindW (sendableCluster env) (\<lambda>cluster.
     bindW (freshState env launch) (\<lambda>state.
     let keys = ls_keys state; lib = we_lib env
     in bindW (readW env (\<lambda>reader. getAtaBalance reader lib key (lk_baseMint keys) (TOKEN_PROGRAM_ID lib))) (\<lambda>balance.
        bindW (checkW (amountRaw \<le> balance) (RedeemTooMuch amountRaw balance)) (\<lambda>_.
        bindW (sdkW (buildRedeem lib (we_newAta env) state key amountRaw None)) (\<lambda>built.
        bindW (requireLamports env key MIN_TRADE_LAMPORTS cluster ''Redeeming'') (\<lambda>_.
        let label = we_text env (RedeemLabel amountRaw (rp_net (br_preview built)))
        in bindW (dispatchW [EvStart [(''redeem'', label)]]) (\<lambda>_.
           bindW (readW env (\<lambda>reader. getAtaBalance reader lib key (lk_quoteMint keys) (lk_quoteTokenProgram keys))) (\<lambda>quote0.
           bindW (runW env [send_step env key ''redeem'' label None (br_instructions built)
                    (fee_options cluster [] (br_computeUnitLimit built) ''redeem'')]) (\<lambda>_.
           bindW (readW env (\<lambda>reader. getAtaBalance reader lib key (lk_quoteMint keys) (lk_quoteTokenProgram keys))) (\<lambda>quote1.
           bindW (finish_with env (Redeemed (quote1 - quote0) (rp_fee (br_preview built)))) (\<lambda>_.
           retW \<lparr>re_net = quote1 - quote0, re_fee = rp_fee (br_preview built)\<rparr>)))))))))))))"

definition redeem ::
  "'w web_env \<Rightarrow> web_launch \<Rightarrow> int \<Rightarrow> wallet_signer \<Rightarrow> 'w web_run \<Rightarrow>
     (redeem_outcome, unit) action_result \<times> 'w web_run" where
  "redeem env launch amountRaw wallet = finishW env (redeem_body env launch amountRaw wallet)"

section \<open>Creating a launch\<close>

definition LAUNCH_STEP_LABELS :: "(string \<times> string) list" where
  "LAUNCH_STEP_LABELS =
     [(''create_config+create_launch'', ''Create the DBC config and the launch vault''),
      (''create_pool+register_pool+first_buy'', ''Create the token and its pool, register it, first buy''),
      (''create_pool+register_pool'', ''Create the token and its pool, register it''),
      (''first_buy'', ''First buy on the bonding curve'')]"

record launch_resume =
  lr_mint :: string
  lr_config :: string

text \<open>
  A session keeps a launch that has not landed completely. Its \<open>completed\<close> set only grows in the order of
  the transactions, which is the order it is listed in.
\<close>

record launch_session =
  se_handle :: launch_resume
  se_built :: built_launch
  se_completed :: "string list"
  se_signatures :: "string list"
  se_priorityFee :: int

type_synonym sessions = "string \<Rightarrow> launch_session option"

record create_options =
  co_firstBuyQuoteRaw :: "int option"
  co_resume :: "launch_resume option"

record created_launch =
  cr_mint :: string
  cr_config :: string
  cr_launchAddress :: string

definition first_buy_of :: "int option \<Rightarrow> first_buy option" where
  "first_buy_of raw =
     (case raw of
        Some amount \<Rightarrow> if amount > 0 then Some \<lparr>fb_quoteAmount = amount, fb_minBaseOut = None, fb_slippageBps = Some (JsInt 100)\<rparr>
                       else None
      | None \<Rightarrow> None)"

definition composerW :: "'w web_env \<Rightarrow> launch_input \<Rightarrow> pubkey \<Rightarrow> launch_options \<Rightarrow> ('w, built_launch) action" where
  "composerW env input creator opts r = sdkW (buildLaunchTransactions (we_composer env (wr_world r)) input creator opts) r"

definition prepareLaunch ::
  "'w web_env \<Rightarrow> launch_input \<Rightarrow> pubkey \<Rightarrow> cluster_info \<Rightarrow> int option \<Rightarrow> ('w, launch_session) action" where
  "prepareLaunch env input wallet cluster firstBuyQuoteRaw =
     (case li_quote input of
        None \<Rightarrow> throwW (SdkThrown (GenericError ''TypeError''))
      | Some quote \<Rightarrow>
          bindW (parse_key env (qa_mint quote)) (\<lambda>quoteMint.
          bindW (readW env (\<lambda>reader. getMintInfo reader quoteMint)) (\<lambda>(mint, tokenProgram).
          bindW (readW env getClock) (\<lambda>clock'.
          bindW (checkW (\<not> mi_paused mint) (LaunchQuotePaused (qa_symbol quote))) (\<lambda>_.
          let firstBuy = first_buy_of firstBuyQuoteRaw; fee = cl_priorityFeeMicroLamports cluster;
              number = (\<lambda>n. JsNumber n (we_numberText env n))
          in bindW (composerW env
                      (input\<lparr>li_quoteMultiplier := number (effectiveMintMultiplier mint (ck_unixTimestamp clock'))\<rparr>) wallet
                      \<lparr>bo_payer = None, bo_exitFeeBps = None, bo_configKeypair = None, bo_baseMintKeypair = None,
                       bo_quoteTokenProgram = Some tokenProgram, bo_tokenBadge = None, bo_firstBuy = firstBuy,
                       bo_computeUnitPriceMicroLamports = Some (JsInt fee),
                       bo_nowUnixSeconds = Some (ck_unixTimestamp clock')\<rparr>) (\<lambda>built.
             bindW (requireLamports env wallet MIN_LAUNCH_LAMPORTS cluster ''Launching'') (\<lambda>_.
             bindW (case firstBuy of
                      None \<Rightarrow> retW ()
                    | Some buy \<Rightarrow>
                        bindW (readW env (\<lambda>reader. getAtaBalance reader (we_lib env) wallet quoteMint tokenProgram)) (\<lambda>balance.
                        checkW (fb_quoteAmount buy \<le> balance)
                          (FirstBuyNeeds (fb_quoteAmount buy) balance (cl_faucet cluster)))) (\<lambda>_.
             retW \<lparr>se_handle = \<lparr>lr_mint = we_toBase58 env (ad_baseMint (bl_addresses built)),
                                 lr_config = we_toBase58 env (ad_config (bl_addresses built))\<rparr>,
                   se_built = built, se_completed = [], se_signatures = [], se_priorityFee = fee\<rparr>)))))))) "

definition open_session ::
  "'w web_env \<Rightarrow> launch_input \<Rightarrow> pubkey \<Rightarrow> cluster_info \<Rightarrow> create_options \<Rightarrow> sessions \<Rightarrow> ('w, launch_session) action" where
  "open_session env input wallet cluster opts sessions =
     (case co_resume opts of
        Some handle \<Rightarrow>
          (case sessions (lr_config handle) of Some s \<Rightarrow> retW s | None \<Rightarrow> throwW (UserFacing RetryGone))
      | None \<Rightarrow> prepareLaunch env input wallet cluster (co_firstBuyQuoteRaw opts))"

text \<open>\<open>alreadyDone\<close> of a step: the launch exists, the pool is registered, or unknown.\<close>

definition starts_with :: "string \<Rightarrow> string \<Rightarrow> bool" where
  "starts_with text part \<longleftrightarrow> take (length part) text = part"

definition already_on_chain ::
  "'w web_env \<Rightarrow> launch_addresses \<Rightarrow> string \<Rightarrow> ('w, bool) action" where
  "already_on_chain env addresses label =
     (if label = ''create_config+create_launch''
      then bindW (readW env (\<lambda>reader. getAccountInfo reader (ad_launch addresses))) (\<lambda>acc. retW (acc \<noteq> None))
      else if starts_with label ''create_pool''
      then bindW (readW env (\<lambda>reader. getLaunch reader (we_lib env) (we_coders env) (RefLaunch (ad_launch addresses)))) (\<lambda>found.
           retW (case found of Some (_, launch) \<Rightarrow> la_poolRegistered launch | None \<Rightarrow> False))
      else retW False)"

definition launch_step ::
  "'w web_env \<Rightarrow> pubkey \<Rightarrow> launch_session \<Rightarrow> planned_transaction \<Rightarrow> ('w web_run, web_thrown) step_runner" where
  "launch_step env wallet s t =
     send_step env wallet (pt_label t) (pt_label t)
       (Some (already_on_chain env (bl_addresses (se_built s)) (pt_label t))) (pt_instructions t)
       \<lparr>so_signers = pt_signers t, so_computeUnitLimit = pt_computeUnitLimit t,
        so_computeUnitPrice = Some (JsInt (se_priorityFee s)), so_label = pt_label t\<rparr>"

definition launch_events :: "launch_session \<Rightarrow> tx_flow_event list" where
  "launch_events s =
     EvStart (map (\<lambda>t. (pt_label t, case map_of LAUNCH_STEP_LABELS (pt_label t) of Some l \<Rightarrow> l | None \<Rightarrow> pt_label t))
       (bl_transactions (se_built s))) #
     map (\<lambda>i. EvStepSucceeded i None (Some ''Confirmed in an earlier attempt'')) (se_completed s)"

text \<open>Running the transactions of a session and keeping what completed.\<close>

definition advance_session ::
  "'w web_env \<Rightarrow> pubkey \<Rightarrow> launch_session \<Rightarrow> 'w web_run \<Rightarrow> web_thrown option \<times> launch_session \<times> 'w web_run" where
  "advance_session env wallet s r =
     (let txs = bl_transactions (se_built s)
      in case steps_of env (map (launch_step env wallet s) txs) (set (se_completed s))
                (dispatch (launch_events s) (r\<lparr>wr_signatures := se_signatures s\<rparr>)) of
           (err, completed, r') \<Rightarrow>
             (err, s\<lparr>se_completed := filter (\<lambda>i. i \<in> completed) (remdups (map pt_label txs)),
                     se_signatures := wr_signatures r'\<rparr>, r'))"

definition created :: "'w web_env \<Rightarrow> launch_addresses \<Rightarrow> created_launch" where
  "created env a =
     \<lparr>cr_mint = we_toBase58 env (ad_baseMint a), cr_config = we_toBase58 env (ad_config a),
      cr_launchAddress = we_toBase58 env (ad_launch a)\<rparr>"

text \<open>What follows once the session is open.\<close>

definition run_session ::
  "'w web_env \<Rightarrow> pubkey \<Rightarrow> launch_session \<Rightarrow> bool \<Rightarrow> sessions \<Rightarrow> 'w web_run \<Rightarrow>
     (created_launch, launch_resume) action_result \<times> sessions \<times> 'w web_run" where
  "run_session env key s resumed sessions r =
     (if resumed \<and> (bl_transactions (se_built s) = [] \<or> lr_mint (se_handle s) = [])
      then (ActionFailed (describe env (UserFacing InvalidRetryHandle)) (Some (se_signatures s)) (Some (se_handle s)),
            sessions, failed_run env (UserFacing InvalidRetryHandle) r)
      else (case advance_session env key s r of
              (Some e, s', r') \<Rightarrow>
                (ActionFailed (describe env e) (Some (se_signatures s')) (Some (se_handle s)),
                 sessions(lr_config (se_handle s) \<mapsto> s'), failed_run env e r')
            | (None, s', r') \<Rightarrow>
                (let c = created env (bl_addresses (se_built s))
                 in (ActionOk c (se_signatures s'), sessions(lr_config (se_handle s) := None),
                     dispatch [EvFinish (Some (we_text env (LaunchCreated (cr_mint c))))] r'))))"

definition createLaunch ::
  "'w web_env \<Rightarrow> launch_input \<Rightarrow> wallet_signer \<Rightarrow> create_options \<Rightarrow> sessions \<Rightarrow> 'w web_run \<Rightarrow>
     (created_launch, launch_resume) action_result \<times> sessions \<times> 'w web_run" where
  "createLaunch env input wallet opts sessions r =
     (case bindW (requireSigningWallet wallet) (\<lambda>key.
           bindW (sendableCluster env) (\<lambda>cluster.
           bindW (open_session env input key cluster opts sessions) (\<lambda>s. retW (key, s)))) r of
        (Inl e, r') \<Rightarrow> (ActionFailed (describe env e) None None, sessions, failed_run env e r')
      | (Inr (key, s), r') \<Rightarrow> run_session env key s (co_resume opts \<noteq> None) sessions r')"

section \<open>The crank\<close>

text \<open>The labels per action kind, with a readable fallback.\<close>

definition CRANK_ACTION_LABELS :: "(string \<times> string) list" where
  "CRANK_ACTION_LABELS =
     [(''register_pool'', ''Register the DBC pool''),
      (''harvest_curve_fees'', ''Harvest the curve trading fees''),
      (''harvest_migration_fee'', ''Harvest the migration fee''),
      (''harvest_surplus'', ''Harvest the curve surplus into the vault''),
      (''migrate'', ''Migrate the pool to Meteora DAMM v2''),
      (''sync_migration'', ''Record the migration on the launch''),
      (''harvest_lp_fees'', ''Harvest the DAMM v2 LP fees''),
      (''burn_claimer_base'', ''Burn base tokens held by the claimer'')]"

definition crankActionLabel :: "string \<Rightarrow> string" where
  "crankActionLabel kind =
     (case map_of CRANK_ACTION_LABELS kind of
        Some l \<Rightarrow> l | None \<Rightarrow> ''Crank step: '' @ map (\<lambda>c. if c = CHR ''_'' then CHR '' '' else c) kind)"

text \<open>
  What the sender proxy and the callbacks of a crank share: the run, the step being sent, the steps of the
  flow in order (with whether they are finished), the wallet's rejection, and the counters.
\<close>

record 'w crank_world =
  kw_run :: "'w web_run"
  kw_active :: "string option"
  kw_steps :: "(string \<times> bool) list"
  kw_cancelled :: "web_thrown option"
  kw_executed :: nat
  kw_skipped :: nat
  kw_failed :: nat

definition kw_dispatch :: "tx_flow_event list \<Rightarrow> 'w crank_world \<Rightarrow> 'w crank_world" where
  "kw_dispatch evs k = k\<lparr>kw_run := dispatch evs (kw_run k)\<rparr>"

definition step_for_kind :: "string \<Rightarrow> string \<times> bool \<Rightarrow> bool" where
  "step_for_kind kind s \<longleftrightarrow> \<not> snd s \<and> (fst s = kind \<or> starts_with (fst s) (kind @ '':''))"

definition nextCrankStepId :: "string \<Rightarrow> 'w crank_world \<Rightarrow> string \<times> 'w crank_world" where
  "nextCrankStepId kind k =
     (case List.find (step_for_kind kind) (kw_steps k) of
        Some s \<Rightarrow> (fst s, k)
      | None \<Rightarrow>
          (let i = kind @ ''#'' @ toString (int (length (kw_steps k)))
           in (i, kw_dispatch [EvStepsAdded [(i, crankActionLabel kind)]]
                    (k\<lparr>kw_steps := AList.update i False (kw_steps k)\<rparr>))))"

text \<open>What \<open>errorInfo\<close> of the crank sees of an error of the wallet's sender.\<close>

definition as_send_failure :: "'w web_env \<Rightarrow> web_thrown \<Rightarrow> send_failure" where
  "as_send_failure env e =
     (let v = value_of env e
      in if tv_class v = TransactionFailedErrorClass
         then TransactionFailed (tv_message v) (tv_logs v) (case tv_errorName v of Some n \<Rightarrow> n | None \<Rightarrow> None)
         else OtherFailure (tv_message v) (Some (tv_logs v)))"

definition CRANK_CANCELLED :: string where
  "CRANK_CANCELLED = ''The crank was cancelled in the wallet.''"

definition cancelled_reader :: chain_reader where
  "cancelled_reader =
     \<lparr>getAccountInfo = (\<lambda>_. Inl (GenericError CRANK_CANCELLED)),
      getMultipleAccountsInfo = (\<lambda>_. Inl (GenericError CRANK_CANCELLED)),
      getProgramAccounts = (\<lambda>_ _. Inl (GenericError CRANK_CANCELLED)),
      getTokenAccountsByOwner = (\<lambda>_ _. Inl (GenericError CRANK_CANCELLED))\<rparr>"

text \<open>The proxy's \<open>send\<close>, and the callback \<open>onStep\<close>.\<close>

definition proxy_send ::
  "'w web_env \<Rightarrow> pubkey \<Rightarrow> tx_instruction list \<Rightarrow> send_options \<Rightarrow> 'w crank_world \<Rightarrow>
     (send_failure + send_result) \<times> 'w crank_world" where
  "proxy_send env wallet ixs opts k =
     (if kw_cancelled k \<noteq> None then (Inl (OtherFailure CRANK_CANCELLED None), k)
      else case nextCrankStepId (so_label opts) k of (i, k1) \<Rightarrow>
        (let k2 = kw_dispatch [EvStepStarted i (Some Preparing)] (k1\<lparr>kw_active := Some i\<rparr>)
         in case hand_over env wallet ixs opts (kw_run k2) of (phases, outcome, r') \<Rightarrow>
              (let k3 = k2\<lparr>kw_run := dispatch (map (EvStepPhase i) phases) r'\<rparr>
               in case outcome of
                    Inr res \<Rightarrow> (Inr res, k3)
                  | Inl e \<Rightarrow>
                      (Inl (as_send_failure env e),
                       if isWalletRejection (value_of env e) then k3\<lparr>kw_cancelled := Some e\<rparr> else k3))))"

definition step_error :: "'w web_env \<Rightarrow> 'w crank_world \<Rightarrow> crank_step \<Rightarrow> string" where
  "step_error env k step =
     (case kw_cancelled k of
        Some e \<Rightarrow> describe env e
      | None \<Rightarrow> friendlyError
          \<lparr>tv_class = OtherClass, tv_name = ''TransactionFailedError'',
           tv_message = (case cs_reason step of Some m \<Rightarrow> m | None \<Rightarrow> ''failed''), tv_code = None,
           tv_errorName = Some (cs_errorName step), tv_logs = []\<rparr>)"

definition count_step ::
  "'w web_env \<Rightarrow> string \<Rightarrow> crank_step \<Rightarrow> 'w crank_world \<Rightarrow> 'w crank_world" where
  "count_step env i step k =
     (case cs_status step of
        Executed \<Rightarrow>
          kw_dispatch [EvStepSucceeded i (cs_signature step) None]
            (k\<lparr>kw_executed := kw_executed k + 1,
               kw_run := (kw_run k)\<lparr>wr_signatures := wr_signatures (kw_run k) @
                 (case cs_signature step of Some s \<Rightarrow> if s = [] then [] else [s] | None \<Rightarrow> [])\<rparr>\<rparr>)
      | Skipped \<Rightarrow>
          kw_dispatch [EvStepSkipped i (Some ''Already done by someone else'')] (k\<lparr>kw_skipped := kw_skipped k + 1\<rparr>)
      | Failed \<Rightarrow>
          kw_dispatch [EvStepFailed i (step_error env k step) (Some False)] (k\<lparr>kw_failed := kw_failed k + 1\<rparr>))"

definition proxy_onStep :: "'w web_env \<Rightarrow> crank_step \<Rightarrow> 'w crank_world \<Rightarrow> 'w crank_world" where
  "proxy_onStep env step k =
     (let i = (case kw_active k of Some i \<Rightarrow> i | None \<Rightarrow> crankActionKey (we_toBase58 env) (cs_action step))
      in (count_step env i step (k\<lparr>kw_steps := AList.update i True (kw_steps k)\<rparr>))\<lparr>kw_active := None\<rparr>)"

definition proxy_env :: "'w web_env \<Rightarrow> pubkey \<Rightarrow> 'w crank_world crank_env" where
  "proxy_env env wallet =
     \<lparr>ce_lib = we_lib env, ce_newAta = we_newAta env, ce_coders = we_coders env, ce_utf8 = we_utf8 env,
      ce_toBase58 = we_toBase58 env, ce_payer = wallet,
      ce_reader = (\<lambda>k. if kw_cancelled k \<noteq> None then cancelled_reader
                       else fst (we_snapshot env (wr_world (kw_run k)))),
      ce_keypairs = (\<lambda>k. we_keypairs env (wr_world (kw_run k))),
      ce_send = proxy_send env wallet, ce_onStep = proxy_onStep env\<rparr>"

record crank_outcome =
  ko_executed :: nat
  ko_skipped :: nat
  ko_failed :: nat

definition planW :: "'w web_env \<Rightarrow> launch_state \<Rightarrow> ('w, crank_action list) action" where
  "planW env state = sdkW (planCrank (crank_input_of state) default_plan)"

definition run_thrown :: "run_error \<Rightarrow> web_thrown" where
  "run_thrown e =
     (case e of
        Thrown x \<Rightarrow> SdkThrown x
      | SendThrown (TransactionFailed message logs name) \<Rightarrow>
          Foreign \<lparr>tv_class = TransactionFailedErrorClass, tv_name = ''TransactionFailedError'', tv_message = message,
                   tv_code = None, tv_errorName = Some name, tv_logs = logs\<rparr>
      | SendThrown (OtherFailure message logs) \<Rightarrow>
          Foreign \<lparr>tv_class = OtherClass, tv_name = [], tv_message = message, tv_code = None, tv_errorName = None,
                   tv_logs = (case logs of Some l \<Rightarrow> l | None \<Rightarrow> [])\<rparr>)"

text \<open>After the run: cancelled, failed steps, or finished.\<close>

definition crank_done ::
  "'w web_env \<Rightarrow> (run_error + crank_run_result) \<Rightarrow> 'w crank_world \<Rightarrow>
     (crank_outcome, unit) action_result \<times> 'w web_run" where
  "crank_done env result k =
     (let r = kw_run k
      in case kw_cancelled k of
           Some e \<Rightarrow>
             (ActionFailed (describe env e) (Some (wr_signatures r)) None,
              dispatch [EvSkipPending ''Not run: cancelled in your wallet'', EvFail (describe env e)] r)
         | None \<Rightarrow>
             (case result of
                Inl e \<Rightarrow> (ActionFailed (describe env (run_thrown e)) (Some (wr_signatures r)) None,
                          failed_run env (run_thrown e) r)
              | Inr res \<Rightarrow>
                  if kw_failed k > 0
                  then (let text = we_text env (CrankStepsFailed (kw_failed k))
                        in (ActionFailed text (Some (wr_signatures r)) None,
                            dispatch [EvSkipPending ''Not run'', EvFail text] r))
                  else (ActionOk \<lparr>ko_executed = kw_executed k, ko_skipped = kw_skipped k, ko_failed = kw_failed k\<rparr>
                          (wr_signatures r),
                        dispatch [EvSkipPending ''No longer due'',
                          EvFinish (Some (we_text env (CrankFinished (kw_executed k) (kw_skipped k)
                            (length (cr_remaining res)))))] r)))"

definition crank_world_of :: "'w web_env \<Rightarrow> crank_action list \<Rightarrow> 'w web_run \<Rightarrow> 'w crank_world" where
  "crank_world_of env due r =
     \<lparr>kw_run = r, kw_active = None,
      kw_steps = fold (\<lambda>a. AList.update (crankActionKey (we_toBase58 env) a) False) due [], kw_cancelled = None,
      kw_executed = 0, kw_skipped = 0, kw_failed = 0\<rparr>"

text \<open>Up to the run: the state, the plan and the fee check; an empty plan ends the action.\<close>

definition crank_start ::
  "'w web_env \<Rightarrow> web_launch \<Rightarrow> wallet_signer \<Rightarrow> ('w, pubkey \<times> cluster_info \<times> launch_state \<times> crank_action list) action" where
  "crank_start env launch wallet =
     bindW (requireSigningWallet wallet) (\<lambda>key.
     bindW (sendableCluster env) (\<lambda>cluster.
     bindW (freshState env launch) (\<lambda>state.
     bindW (planW env state) (\<lambda>due.
     bindW (dispatchW [EvStart (map (\<lambda>a. (crankActionKey (we_toBase58 env) a, crankActionLabel (action_kind a))) due)]) (\<lambda>_.
     if due = [] then bindW (finish_with env CrankNothingDue) (\<lambda>_. retW (key, cluster, state, due))
     else bindW (requireLamports env key MIN_CRANK_LAMPORTS cluster ''The crank'') (\<lambda>_. retW (key, cluster, state, due)))))))"

definition crank ::
  "'w web_env \<Rightarrow> web_launch \<Rightarrow> wallet_signer \<Rightarrow> 'w web_run \<Rightarrow> (crank_outcome, unit) action_result \<times> 'w web_run" where
  "crank env launch wallet r =
     (case crank_start env launch wallet (r\<lparr>wr_signatures := []\<rparr>) of
        (Inl e, r') \<Rightarrow> (ActionFailed (describe env e) (Some (wr_signatures r')) None, failed_run env e r')
      | (Inr (key, cluster, state, due), r') \<Rightarrow>
          if due = [] then (ActionOk \<lparr>ko_executed = 0, ko_skipped = 0, ko_failed = 0\<rparr> [], r')
          else (case runCrank (proxy_env env key) (RefLaunch (ls_address state)) default_plan None
                       (Some (JsInt (cl_priorityFeeMicroLamports cluster))) (crank_world_of env due r') of
                  (result, k) \<Rightarrow> crank_done env result k))"

end
