(* ===== verification/WebSafety.thy ===== *)
theory WebSafety
  imports WebActions CrankSafety
begin

text \<open>
  What the web app's actions promise: nothing is handed to the wallet unless the cluster may be sent to; a trade
  never signs a lower minimum than the one shown; retries of a launch send no transaction twice that was
  confirmed; and after a rejected prompt a crank asks for nothing more. The rules of the first section say what
  an action may hand over, and compose along \<open>bindW\<close>.
\<close>

section \<open>What an action hands over\<close>

definition quiet :: "('w, 'a) action \<Rightarrow> bool" where
  "quiet m \<longleftrightarrow> (\<forall>r. wr_sent (snd (m r)) = wr_sent r)"

definition emits :: "(handed \<Rightarrow> bool) \<Rightarrow> ('w, 'a) action \<Rightarrow> bool" where
  "emits Q m \<longleftrightarrow>
     (\<forall>r. wr_sent (snd (m r)) = wr_sent r \<or> (\<exists>h. wr_sent (snd (m r)) = wr_sent r @ [h] \<and> Q h))"

definition yields :: "('w, 'a) action \<Rightarrow> 'a \<Rightarrow> bool" where
  "yields m x \<longleftrightarrow> (\<exists>r. fst (m r) = Inr x)"

lemma quietD: "quiet m \<Longrightarrow> m r = (o', r') \<Longrightarrow> wr_sent r' = wr_sent r"
  by (metis quiet_def snd_conv)

lemma yieldsI: "m r = (Inr x, r') \<Longrightarrow> yields m x"
  by (metis yields_def fst_conv)

named_theorems quiet_rules

lemma quiet_basic [quiet_rules]:
  "quiet (retW x)" "quiet (throwW e)" "quiet (sdkW s)" "quiet (checkW c t)" "quiet (dispatchW evs)" "quiet routedW"
  by (simp_all add: quiet_def retW_def throwW_def sdkW_def checkW_def dispatchW_def dispatch_def routedW_def split: sum.splits)

lemma quiet_readW [quiet_rules]: "quiet (readW env f)"
  by (auto simp: quiet_def readW_def sdkW_def split: prod.splits sum.splits)

lemma quiet_bind [quiet_rules]: "quiet m \<Longrightarrow> (\<And>x. quiet (f x)) \<Longrightarrow> quiet (bindW m f)"
  by (auto simp: quiet_def bindW_def split: prod.splits sum.splits) (metis snd_conv)+

lemma quiet_split [quiet_rules]:
  "(c \<Longrightarrow> quiet m) \<Longrightarrow> (\<not> c \<Longrightarrow> quiet m') \<Longrightarrow> quiet (if c then m else m')"
  "(o' = None \<Longrightarrow> quiet m) \<Longrightarrow> (\<And>x. o' = Some x \<Longrightarrow> quiet (g x)) \<Longrightarrow> quiet (case o' of None \<Rightarrow> m | Some x \<Rightarrow> g x)"
  "(\<And>x y. p = (x, y) \<Longrightarrow> quiet (k x y)) \<Longrightarrow> quiet (case p of (x, y) \<Rightarrow> k x y)"
  by (simp_all split: option.splits prod.splits)

lemma yields_basic [simp]:
  "yields (retW x) y \<longleftrightarrow> y = x" "\<not> yields (throwW e) y" "yields (checkW c t) u \<longleftrightarrow> c"
  by (auto simp: yields_def retW_def throwW_def checkW_def)

lemma yields_sdkW [simp]: "yields (sdkW s) y \<longleftrightarrow> s = Inr y"
  by (cases s) (auto simp: yields_def sdkW_def)

lemma yields_bind:
  assumes "yields (bindW m f) y"
  shows "\<exists>x. yields m x \<and> yields (f x) y"
proof -
  from assms obtain r where r: "fst (bindW m f r) = Inr y" by (auto simp: yields_def)
  obtain o' r' where m: "m r = (o', r')" by fastforce
  with r obtain x where x: "o' = Inr x" by (cases o') (auto simp: bindW_def)
  with m r have "fst (m r) = Inr x" "fst (f x r') = Inr y" by (simp_all add: bindW_def)
  then show ?thesis unfolding yields_def by blast
qed

lemma emits_quiet: "quiet m \<Longrightarrow> emits Q m"
  by (simp add: emits_def quiet_def)

lemma emits_after: "quiet m \<Longrightarrow> (\<And>x. yields m x \<Longrightarrow> emits Q (f x)) \<Longrightarrow> emits Q (bindW m f)"
  unfolding emits_def
proof (intro allI)
  fix r assume q: "quiet m" and f: "\<And>x. yields m x \<Longrightarrow> \<forall>r. wr_sent (snd (f x r)) = wr_sent r \<or>
    (\<exists>h. wr_sent (snd (f x r)) = wr_sent r @ [h] \<and> Q h)"
  obtain o' r' where m: "m r = (o', r')" by fastforce
  then have s: "wr_sent r' = wr_sent r" using q by (metis quiet_def snd_conv)
  show "wr_sent (snd (bindW m f r)) = wr_sent r \<or> (\<exists>h. wr_sent (snd (bindW m f r)) = wr_sent r @ [h] \<and> Q h)"
  proof (cases o')
    case (Inl e)
    with m s show ?thesis by (simp add: bindW_def)
  next
    case (Inr x)
    then have "yields m x" using m by (metis yields_def fst_conv)
    from f [OF this, rule_format, of r'] m s Inr show ?thesis by (simp add: bindW_def)
  qed
qed

lemma emits_then: "emits Q m \<Longrightarrow> (\<And>x. quiet (f x)) \<Longrightarrow> emits Q (bindW m f)"
  unfolding emits_def
proof (intro allI)
  fix r assume m: "\<forall>r. wr_sent (snd (m r)) = wr_sent r \<or> (\<exists>h. wr_sent (snd (m r)) = wr_sent r @ [h] \<and> Q h)"
    and q: "\<And>x. quiet (f x)"
  obtain o' r' where r': "m r = (o', r')" by fastforce
  then have "wr_sent (snd (bindW m f r)) = wr_sent r'"
    using q by (auto simp: bindW_def quiet_def split: sum.splits)
  with m r' show "wr_sent (snd (bindW m f r)) = wr_sent r \<or> (\<exists>h. wr_sent (snd (bindW m f r)) = wr_sent r @ [h] \<and> Q h)"
    by (metis snd_conv)
qed

lemma emits_if: "(c \<Longrightarrow> emits Q m) \<Longrightarrow> (\<not> c \<Longrightarrow> emits Q m') \<Longrightarrow> emits Q (if c then m else m')"
  by simp

lemma emits_pair: "(\<And>x y. p = (x, y) \<Longrightarrow> emits Q (k x y)) \<Longrightarrow> emits Q (case p of (x, y) \<Rightarrow> k x y)"
  by (simp split: prod.splits)

section \<open>The shared parts\<close>

lemma quiet_parts [quiet_rules]:
  "quiet (requireSigningWallet wallet)" "quiet (sendableCluster env)" "quiet (parse_key env t)" "quiet (finish_with env txt)"
  by (auto simp: quiet_def requireSigningWallet_def retW_def throwW_def sendableCluster_def parse_key_def sdkW_def
      finish_with_def dispatchW_def dispatch_def split: option.splits prod.splits sum.splits)

lemma quiet_checks [quiet_rules]:
  "quiet (requireLamports env key minimum cluster what)" "quiet (freshState env launch)" "quiet (balances env key keys)"
  unfolding requireLamports_def freshState_def balances_def Let_def by (intro quiet_rules)+

lemma quiet_held [quiet_rules]: "quiet (held_to_expected side expected b)"
  unfolding held_to_expected_def by (intro quiet_rules)

lemma runW_one:
  assumes "rn_alreadyDone step = None"
  shows "runW env [step] r =
    (case rn_run step r of
       (phases, Inl e, r') \<Rightarrow>
         (Inl e, dispatch (EvStepStarted (rn_id step) (Some Preparing) # map (EvStepPhase (rn_id step)) phases @
            [EvStepFailed (rn_id step) (describe env e) None]) r')
     | (phases, Inr (sig, detail), r') \<Rightarrow>
         (Inr (), dispatch (EvStepStarted (rn_id step) (Some Preparing) # map (EvStepPhase (rn_id step)) phases @
            [EvStepSucceeded (rn_id step) sig detail]) r'))"
  using assms by (auto simp: runW_def steps_of_def check_done_def split: prod.splits sum.splits)

lemma quiet_swap [quiet_rules]: "quiet (runW env [swap_step env wallet label params])"
  by (auto simp: quiet_def runW_one swap_step_def dispatch_def Let_def split: prod.splits sum.splits)

lemma emits_send:
  assumes "\<And>res. Q \<lparr>hd_instructions = ixs, hd_options = opts, hd_outcome = res\<rparr>"
  shows "emits Q (runW env [send_step env wallet i label None ixs opts])"
  using assms by (auto simp: emits_def runW_one send_step_def hand_over_def dispatch_def split: prod.splits sum.splits)


section \<open>A trade keeps to what was shown\<close>

definition venue_program :: "pool_venue \<Rightarrow> pubkey" where
  "venue_program v = (case v of OnDbc \<Rightarrow> DBC_PROGRAM_ID | OnDamm \<Rightarrow> DAMM_V2_PROGRAM_ID)"

text \<open>
  The two instructions of a swap on the venue: signed by the trader alone, paying from and into the trader's own
  accounts, with the given amount and at least the given minimum out in its data.
\<close>

definition swaps_at_least ::
  "solana_lib \<Rightarrow> pubkey \<Rightarrow> trade_side \<Rightarrow> int \<Rightarrow> pool_venue \<Rightarrow> int \<Rightarrow> tx_instruction list \<Rightarrow> bool" where
  "swaps_at_least lib key side amount v minOut ixs \<longleftrightarrow>
     (\<exists>ata swap keys m. ixs = [ata, swap] \<and> ix_programId swap = venue_program v \<and>
        filter mt_isSigner (ix_keys swap) = [meta_r key True] \<and>
        pays_from swap (fst (trade_accounts lib keys key side)) (snd (trade_accounts lib keys key side)) \<and>
        readU64 (ix_data swap) 8 = Inr amount \<and> readU64 (ix_data swap) 16 = Inr m \<and> minOut \<le> m)"

text \<open>The instruction that creates a token account is the associated token program's, not a swap.\<close>

definition honest_ata :: "'w web_env \<Rightarrow> bool" where
  "honest_ata env \<longleftrightarrow>
     (\<forall>payer owner mint prog. \<not> is_swap_program (createAtaIdempotentIx (we_lib env) (we_newAta env) payer owner mint prog))"

lemma swap_ix_programs [simp]:
  "ix_programId (dbcSwap2Ix lib x) = DBC_PROGRAM_ID" "ix_programId (dammV2Swap2Ix lib y) = DAMM_V2_PROGRAM_ID"
  by (simp_all add: dbcSwap2Ix_def dbcIx_def dammV2Swap2Ix_def Let_def)

lemma swap_ix_length [simp]:
  "length (ix_data (dbcSwap2Ix lib x)) = 25" "length (ix_data (dammV2Swap2Ix lib y)) = 25"
  by (simp_all add: dbcSwap2Ix_def dbcIx_def dammV2Swap2Ix_def Let_def swapParams2_def writeU64_def
      DBC_swap2_discriminator_def DAMM_V2_swap2_discriminator_def)

lemma built_swap:
  assumes b: "buildTrade lib newAta state key side a (plain_options s) = Inr b" and ok: "venues_ok state"
  shows "\<exists>swap. bt_instructions b = [ensure_output lib newAta (ls_keys state) key key side, swap] \<and>
    ix_programId swap = venue_program (venue_of_phase state) \<and> length (ix_data swap) = 25 \<and>
    filter mt_isSigner (ix_keys swap) = [meta_r key True] \<and>
    pays_from swap (fst (trade_accounts lib (ls_keys state) key side)) (snd (trade_accounts lib (ls_keys state) key side)) \<and>
    readU64 (ix_data swap) 8 = Inr a \<and> readU64 (ix_data swap) 16 = Inr (bt_minAmountOut b)"
proof -
  obtain input "output" where io: "trade_accounts lib (ls_keys state) key side = (input, output)" by fastforce
  note t = built_quote [OF b]
  note bounds = quoteTrade_bounds [OF t ok]
  from built_minimum [OF b ok] obtain bps where l: "0 \<le> bps" "bps \<le> 10000"
    "bt_minAmountOut b = lowered (tq_amountOut (bt_quote b)) bps" by blast
  from lowered_bounds(1,2) [OF bounds(2) l(1,2)] bounds(3) l(3)
  have m: "0 \<le> bt_minAmountOut b" "bt_minAmountOut b \<le> U64_MAX" by linarith+
  have a: "0 \<le> a" "a \<le> U64_MAX" using bounds(4,5) by simp_all
  from b io show ?thesis
  proof (cases rule: buildTrade_cases)
    case (dbc mode q x)
    then have "venue_of_phase state = OnDbc"
      by (cases rule: quoteTrade_cases [OF t]) (auto simp: venue_of_phase_def)
    with dbc a m dbc_swap_data [of x lib] swap_signers(1) [of lib x] pays_from_swap(1) [of lib x] show ?thesis
      by (simp add: io venue_program_def plain_options_def)
  next
    case (damm q x)
    then have "venue_of_phase state = OnDamm"
      by (cases rule: quoteTrade_cases [OF t]) (auto simp: venue_of_phase_def dbc_quote_def)
    with damm a m damm_swap_data [of x lib] swap_signers(2) [of lib x] pays_from_swap(2) [of lib x] show ?thesis
      by (simp add: io venue_program_def plain_options_def)
  qed
qed

lemma ensure_output_no_swap: "honest_ata env \<Longrightarrow> \<not> is_swap_program (ensure_output (we_lib env) (we_newAta env) keys payer key side)"
  by (cases side) (simp_all add: ensure_output_def honest_ata_def)

lemma raised_minimum:
  assumes r: "withMinimumOut b minOut = Inr t"
    and b: "bt_instructions b = [ata, swap]" "\<not> is_swap_program ata" "is_swap_program swap"
    and d: "readU64 (ix_data swap) 8 = Inr a" and m: "0 \<le> minOut" "minOut < 2 ^ 64"
  shows "\<exists>data. bt_instructions t = [ata, swap\<lparr>ix_data := data\<rparr>] \<and> readU64 data 8 = Inr a \<and> readU64 data 16 = Inr minOut"
proof -
  let ?d = "swapParams2 (take 8 (ix_data swap)) a minOut (uint (ix_data swap ! 24))"
  from r b d have l: "length (ix_data swap) = 25" and t: "bt_instructions t = [ata, swap\<lparr>ix_data := ?d\<rparr>]"
    by (auto simp: withMinimumOut_def Let_def split: if_splits)
  from swapParams2_reads [of "take 8 (ix_data swap)" a minOut] l readU64_bounds [OF d] m
  have "readU64 ?d 8 = Inr a" "readU64 ?d 16 = Inr minOut" by simp_all
  with t show ?thesis by blast
qed

lemma held_trade:
  assumes b: "buildTrade (we_lib env) (we_newAta env) state key side a (plain_options s) = Inr b" and ok: "venues_ok state"
    and ata: "honest_ata env" and m: "0 \<le> minOut"
    and h: "yields (held_to_expected side (Some (v, minOut)) b :: ('w, built_trade) action) t"
  shows "swaps_at_least (we_lib env) key side a (venue_of_phase state) minOut (bt_instructions t)"
proof -
  let ?ata = "ensure_output (we_lib env) (we_newAta env) (ls_keys state) key key side"
  from built_swap [OF b ok] obtain swap where swap: "bt_instructions b = [?ata, swap]"
    "ix_programId swap = venue_program (venue_of_phase state)" "length (ix_data swap) = 25"
    "filter mt_isSigner (ix_keys swap) = [meta_r key True]"
    "pays_from swap (fst (trade_accounts (we_lib env) (ls_keys state) key side))
       (snd (trade_accounts (we_lib env) (ls_keys state) key side))"
    "readU64 (ix_data swap) 8 = Inr a" "readU64 (ix_data swap) 16 = Inr (bt_minAmountOut b)" by blast
  show ?thesis
  proof (cases "bt_minAmountOut b < minOut")
    case True
    with h have out: "minOut \<le> tq_amountOut (bt_quote b)" and r: "withMinimumOut b minOut = Inr t"
      by (auto simp: held_to_expected_def split: if_splits)
    have "is_swap_program swap"
      using swap(2) by (cases "venue_of_phase state") (simp_all add: is_swap_program_def venue_program_def)
    moreover have "minOut < 2 ^ 64"
      using out quoteTrade_bounds(3) [OF built_quote [OF b] ok] by (simp add: U64_MAX_def)
    ultimately obtain data where "bt_instructions t = [?ata, swap\<lparr>ix_data := data\<rparr>]" "readU64 data 8 = Inr a"
      "readU64 data 16 = Inr minOut"
      using raised_minimum [OF r swap(1) ensure_output_no_swap [OF ata] _ swap(6) m] by blast
    with swap(2,4,5) show ?thesis
      by (auto simp: swaps_at_least_def pays_from_def)
  next
    case False
    with h have "t = b" by (auto simp: held_to_expected_def split: if_splits)
    with False swap show ?thesis by (auto simp: swaps_at_least_def)
  qed
qed


text \<open>Every state the node shows is one whose pools are in the invariant of the quotes.\<close>

definition shows_sound_pools :: "'w web_env \<Rightarrow> bool" where
  "shows_sound_pools env \<longleftrightarrow>
     (\<forall>w key state. fetchLaunchState (fst (we_snapshot env w)) (we_lib env) (we_coders env) (we_utf8 env) (RefLaunch key) True
        = Inr (Some state) \<longrightarrow> venues_ok state)"

lemma yields_readW: "yields (readW env f) x \<Longrightarrow> \<exists>w. f (fst (we_snapshot env w)) = Inr x"
  unfolding yields_def
proof (elim exE)
  fix r assume "fst (readW env f r) = Inr x"
  then have "f (fst (we_snapshot env (wr_world r))) = Inr x"
    by (cases "we_snapshot env (wr_world r)") (auto simp: readW_def sdkW_def split: sum.splits)
  then show ?thesis by blast
qed

lemma fresh_state_sound:
  assumes "shows_sound_pools env" "yields (freshState env launch) state"
  shows "venues_ok state"
proof -
  from assms(2) obtain key found where
    "yields (readW env (\<lambda>reader. fetchLaunchState reader (we_lib env) (we_coders env) (we_utf8 env) (RefLaunch key) True)) found"
    "yields ((case found of Some s \<Rightarrow> retW s | None \<Rightarrow> throwW (UserFacing LaunchNotFound)) :: ('a, launch_state) action) state"
    unfolding freshState_def by (blast dest: yields_bind)
  with yields_readW [OF this(1)] assms(1) show ?thesis
    by (auto simp: shows_sound_pools_def split: option.splits)
qed

lemma direct_emits:
  fixes env :: "'w web_env"
  assumes ata: "honest_ata env" and ok: "venues_ok state" and m: "0 \<le> minOut"
  shows "emits (\<lambda>h. swaps_at_least (we_lib env) key side amount v minOut (hd_instructions h))
    (directTrade env state launch key side amount slippage start cluster (Some (v, minOut)))"
    (is "emits ?Q _")
proof -
  have tail: "emits ?Q (bindW (runW env [send_step env key i label None (bt_instructions t) opts]) (\<lambda>_. bindW (balances env key keys) f))"
    if "swaps_at_least (we_lib env) key side amount v minOut (bt_instructions t)" and "\<And>b. quiet (f b)"
    for t :: built_trade and i label opts keys and f :: "int \<times> int \<Rightarrow> ('w, trade_outcome) action"
    using that by (intro emits_then emits_send) (simp_all add: quiet_rules)
  have mid: "emits ?Q (bindW (sdkW (buildTrade (we_lib env) (we_newAta env) state key side amount (plain_options slippage)))
      (\<lambda>built. bindW (held_to_expected side (Some (v, minOut)) built) (\<lambda>t. F t)))"
    if v: "v = venue_of_phase state"
      and F: "\<And>t. swaps_at_least (we_lib env) key side amount v minOut (bt_instructions t) \<Longrightarrow> emits ?Q (F t)"
    for F :: "built_trade \<Rightarrow> ('w, trade_outcome) action"
  proof (rule emits_after [OF quiet_basic(3)], rule emits_after [OF quiet_held], rule F)
    fix b t assume "yields (sdkW (buildTrade (we_lib env) (we_newAta env) state key side amount (plain_options slippage)) :: ('w, built_trade) action) b"
      "yields (held_to_expected side (Some (v, minOut)) b :: ('w, built_trade) action) t"
    with held_trade [OF _ ok ata m] show "swaps_at_least (we_lib env) key side amount v minOut (bt_instructions t)"
      by (simp add: v)
  qed
  show ?thesis
    unfolding directTrade_def Let_def option.case prod.case
    apply (rule emits_after, (intro quiet_rules)[1])
    apply (rule emits_after, (intro quiet_rules)[1])
    apply (rule emits_after, (intro quiet_rules)[1])
    apply (rule emits_pair)
    apply (rule emits_after, (intro quiet_rules)[1])
    apply (rule mid)
     apply simp
    apply (rule tail)
     apply assumption
    apply (intro quiet_rules)
    done
qed

lemma routed_sell_emits:
  assumes "honest_ata env" "venues_ok state" "0 \<le> minOut" "rq_side request = Sell" "rq_expected request = Some (v, minOut)"
  shows "emits (\<lambda>h. swaps_at_least (we_lib env) key Sell (rq_amountRaw request) v minOut (hd_instructions h))
    (routedTrade env state launch key request cluster)"
proof (cases "ls_phase state = Presale")
  case True
  have "emits (\<lambda>h. swaps_at_least (we_lib env) key Sell (rq_amountRaw request) v minOut (hd_instructions h))
    (bindW (dispatchW evs) (\<lambda>_. bindW (directTrade env state launch key Sell (rq_amountRaw request) (rq_slippageBps request)
       False cluster (Some (v, minOut))) f))" if "\<And>x. quiet (f x)" for f :: "trade_outcome \<Rightarrow> ('a, trade_outcome) action" and evs
    using that assms(1-3) by (intro emits_after emits_then direct_emits) (simp_all add: quiet_rules)
  with True assms(4,5) show ?thesis by (simp add: routedTrade_def Let_def quiet_rules)
next
  case False
  then show ?thesis unfolding routedTrade_def Let_def using assms(4)
    by (simp add: emits_quiet quiet_rules)
qed

lemma trade_emits:
  fixes env :: "'w web_env"
  assumes "honest_ata env" "shows_sound_pools env" "0 \<le> minOut" "rq_expected request = Some (v, minOut)"
    and "rq_payToken request = PayQuote \<or> rq_side request = Sell"
  shows "emits (\<lambda>h. \<exists>key. wa_publicKey wallet = Some key \<and>
      swaps_at_least (we_lib env) key (rq_side request) (rq_amountRaw request) v minOut (hd_instructions h))
    (trade_body env launch request wallet)"
    (is "emits ?Q _")
proof -
  have key: "wa_publicKey wallet = Some k" if "yields (requireSigningWallet wallet :: ('w, pubkey) action) k" for k
    using that by (auto simp: requireSigningWallet_def split: option.splits if_splits)
  have weaker: "emits ?Q m" if "wa_publicKey wallet = Some k"
    "emits (\<lambda>h. swaps_at_least (we_lib env) k (rq_side request) (rq_amountRaw request) v minOut (hd_instructions h)) m"
    for k and m :: "('w, trade_outcome) action"
    using that unfolding emits_def by blast
  have body: "emits ?Q (if rq_payToken request = PayQuote
      then bindW (directTrade env state launch k (rq_side request) (rq_amountRaw request) (rq_slippageBps request)
             True cluster (rq_expected request)) (\<lambda>outcome.
           bindW (finish_with env (summary (rq_side request) outcome)) (\<lambda>_. retW outcome))
      else routedTrade env state launch k request cluster)"
    if "wa_publicKey wallet = Some k" "venues_ok state" for k state cluster
  proof (cases "rq_payToken request = PayQuote")
    case True
    with that assms(1,3,4) show ?thesis
      by (simp, intro weaker emits_then direct_emits) (simp_all add: quiet_rules)
  next
    case False
    with assms(5) that routed_sell_emits [OF assms(1) that(2) assms(3) _ assms(4)] show ?thesis
      by (intro weaker) simp_all
  qed
  show ?thesis
    unfolding trade_body_def
    apply (rule emits_after [OF quiet_parts(1)], drule key)
    apply (rule emits_after, (intro quiet_rules)[1])
    apply (rule emits_after, (intro quiet_rules)[1])
    apply (rule emits_after, (intro quiet_rules)[1])
    apply (rule emits_after [OF quiet_checks(2)], drule fresh_state_sound [OF assms(2)])
    apply (rule emits_after, (intro quiet_rules)[1])
    apply (rule emits_after, (intro quiet_rules)[1])
    apply (rule emits_after, (intro quiet_rules)[1])
    apply (rule body)
     apply assumption+
    done
qed

lemma finishW_sent: "wr_sent (snd (finishW env m r)) = wr_sent (snd (m (r\<lparr>wr_signatures := []\<rparr>)))"
  by (auto simp: finishW_def failed_run_def dispatch_def split: prod.splits sum.splits)

text \<open>
  C10: a trade never signs less than the user was shown. When a trade carries the quote the user saw (the venue
  and the minimum out), paid in the quote asset or selling, then over the whole action at most one transaction
  is handed to the wallet; it swaps on that venue, offers exactly the requested amount, pays from and into the
  trader's own accounts, is signed by the trader alone, and its minimum out is at least the one shown,
  however the price moved before the action read the chain again.
\<close>

theorem trade_keeps_to_shown_quote:
  assumes "honest_ata env" "shows_sound_pools env"
    and "rq_expected request = Some (v, minOut)" "0 \<le> minOut" "rq_payToken request = PayQuote \<or> rq_side request = Sell"
    and "trade env launch request wallet r = (result, r')"
  shows "wr_sent r' = wr_sent r \<or>
    (\<exists>h key. wr_sent r' = wr_sent r @ [h] \<and> wa_publicKey wallet = Some key \<and>
       swaps_at_least (we_lib env) key (rq_side request) (rq_amountRaw request) v minOut (hd_instructions h))"
proof -
  have "wr_sent r' = wr_sent (snd (trade_body env launch request wallet (r\<lparr>wr_signatures := []\<rparr>)))"
    using assms(6) finishW_sent [where m = "trade_body env launch request wallet"] by (metis snd_conv trade_def)
  with trade_emits [OF assms(1,2,4,3,5), of wallet launch, unfolded emits_def, rule_format, of "r\<lparr>wr_signatures := []\<rparr>"]
  show ?thesis by auto
qed

section \<open>The cluster guard\<close>

definition never_sends :: "'w web_env \<Rightarrow> bool" where
  "never_sends env \<longleftrightarrow> (\<forall>w info w'. we_cluster env w = (Inr info, w') \<longrightarrow> \<not> may_send info)"

text \<open>Nothing was handed over between two runs.\<close>

definition nothing_handed :: "'w web_run \<Rightarrow> 'w web_run \<Rightarrow> bool" where
  "nothing_handed r r' \<longleftrightarrow> wr_sent r' = wr_sent r \<and> wr_swaps r' = wr_swaps r"

lemma blocked_cluster:
  assumes "never_sends env"
  shows "\<exists>e r'. bindW (sendableCluster env) f r = (Inl e, r') \<and> nothing_handed r r'"
proof (cases "we_cluster env (wr_world r)")
  case (Pair c w')
  show ?thesis
  proof (cases c)
    case (Inr info)
    with Pair assms have "\<not> may_send info" unfolding never_sends_def by blast
    with Pair Inr show ?thesis by (simp add: bindW_def sendableCluster_def nothing_handed_def)
  qed (use Pair in \<open>simp add: bindW_def sendableCluster_def nothing_handed_def\<close>)
qed

lemma bindW_retW [simp]: "bindW (retW x) f = f x"
  by (rule ext) (simp add: bindW_def retW_def)

lemma blocked_wallet:
  assumes "never_sends env"
  shows "\<exists>e r'. bindW (requireSigningWallet wallet) (\<lambda>k. bindW (sendableCluster env) (f k)) r = (Inl e, r') \<and>
    nothing_handed r r'"
proof (cases "fst (requireSigningWallet wallet r)")
  case (Inl e)
  then show ?thesis
    by (auto simp: bindW_def requireSigningWallet_def retW_def throwW_def nothing_handed_def split: option.splits if_splits)
next
  case (Inr k)
  then have "requireSigningWallet wallet r = (Inr k, r)"
    by (auto simp: requireSigningWallet_def retW_def throwW_def split: option.splits if_splits)
  then show ?thesis using blocked_cluster [OF assms] by (simp add: bindW_def)
qed

lemma blocked_amount:
  assumes "never_sends env"
  shows "\<exists>e r'. bindW (requireSigningWallet wallet) (\<lambda>k. bindW (checkW c t) (\<lambda>_. bindW (sendableCluster env) (f k))) r
      = (Inl e, r') \<and> nothing_handed r r'"
proof (cases c)
  case True
  then show ?thesis using blocked_wallet [OF assms, of wallet f r] by (simp add: checkW_def)
next
  case False
  then show ?thesis
    by (auto simp: bindW_def requireSigningWallet_def checkW_def retW_def throwW_def nothing_handed_def
        split: option.splits if_splits)
qed

lemma nothing_handed_simps [simp]:
  "nothing_handed (r\<lparr>wr_signatures := s\<rparr>) r' \<longleftrightarrow> nothing_handed r r'"
  "nothing_handed r (failed_run env e r') \<longleftrightarrow> nothing_handed r r'"
  by (simp_all add: nothing_handed_def failed_run_def dispatch_def)

text \<open>
  C18: where the cluster may not be sent to, no action of the app hands anything to the wallet or to Jupiter:
  a trade, a redemption, the creation of a launch (or its retry) and a crank all fail first, whatever the wallet,
  the node and the arguments are.
\<close>

theorem guarded_actions_send_nothing:
  assumes "never_sends env"
  shows "nothing_handed r (snd (trade env launch request wallet r)) \<and>
    nothing_handed r (snd (redeem env launch amount wallet r)) \<and>
    nothing_handed r (snd (snd (createLaunch env input wallet opts sessions r))) \<and>
    nothing_handed r (snd (crank env launch wallet r))"
proof (intro conjI)
  let ?r = "r\<lparr>wr_signatures := []\<rparr>"
  have "\<exists>e r'. trade_body env launch request wallet ?r = (Inl e, r') \<and> nothing_handed ?r r'"
    unfolding trade_body_def by (rule blocked_amount [OF assms])
  then show "nothing_handed r (snd (trade env launch request wallet r))" by (auto simp: trade_def finishW_def)
  have "\<exists>e r'. redeem_body env launch amount wallet ?r = (Inl e, r') \<and> nothing_handed ?r r'"
    unfolding redeem_body_def by (rule blocked_amount [OF assms])
  then show "nothing_handed r (snd (redeem env launch amount wallet r))" by (auto simp: redeem_def finishW_def)
  have "\<exists>e r'. bindW (requireSigningWallet wallet) (\<lambda>key. bindW (sendableCluster env) (\<lambda>cluster.
      bindW (open_session env input key cluster opts sessions) (\<lambda>s. retW (key, s)))) r = (Inl e, r') \<and> nothing_handed r r'"
    by (rule blocked_wallet [OF assms])
  then show "nothing_handed r (snd (snd (createLaunch env input wallet opts sessions r)))" by (auto simp: createLaunch_def)
  have "\<exists>e r'. crank_start env launch wallet ?r = (Inl e, r') \<and> nothing_handed ?r r'"
    unfolding crank_start_def by (rule blocked_wallet [OF assms])
  then show "nothing_handed r (snd (crank env launch wallet r))" by (auto simp: crank_def)
qed

section \<open>Retries of a launch\<close>

abbreviation isr :: "'a + 'b \<Rightarrow> bool" where "isr x \<equiv> \<not> isl x"

text \<open>The labels of the transactions that were confirmed, in order.\<close>

definition confirmed :: "handed list \<Rightarrow> string list" where
  "confirmed hs = map (\<lambda>h. so_label (hd_options h)) (filter (\<lambda>h. isr (hd_outcome h)) hs)"

definition hands_own :: "('w web_run, 'e) step_runner \<Rightarrow> bool" where
  "hands_own step \<longleftrightarrow>
     (\<forall>r. wr_sent (snd (check_done step r)) = wr_sent r) \<and>
     (\<forall>r. \<exists>h. wr_sent (snd (snd (rn_run step r))) = wr_sent r @ [h] \<and> so_label (hd_options h) = rn_id step \<and>
        isr (hd_outcome h) = isr (fst (snd (rn_run step r))))"

text \<open>A run of the steps confirms each step once, and none that was completed before.\<close>

definition confirms :: "string set \<Rightarrow> string set \<Rightarrow> handed list \<Rightarrow> handed list \<Rightarrow> bool" where
  "confirms C D sent sent' \<longleftrightarrow>
     C \<subseteq> D \<and>
     (\<exists>new. sent' = sent @ new \<and> distinct (confirmed new) \<and> set (confirmed new) \<inter> C = {} \<and>
        set (confirmed new) \<subseteq> D)"

lemma confirms_refl [simp]: "confirms C C x x"
  by (simp add: confirms_def confirmed_def)

lemma confirmed_simps [simp]:
  "confirmed [] = []" "confirmed (a @ b) = confirmed a @ confirmed b"
  "confirmed [h] = (if isr (hd_outcome h) then [so_label (hd_options h)] else [])"
  by (simp_all add: confirmed_def)

lemma confirms_trans:
  assumes "confirms A B x y" "confirms B C y z"
  shows "confirms A C x z"
proof -
  from assms obtain u v where "A \<subseteq> B" "B \<subseteq> C" "y = x @ u" "z = y @ v" "distinct (confirmed u)" "distinct (confirmed v)"
    "set (confirmed u) \<inter> A = {}" "set (confirmed v) \<inter> B = {}" "set (confirmed u) \<subseteq> B" "set (confirmed v) \<subseteq> C"
    by (auto simp: confirms_def)
  then show ?thesis
    unfolding confirms_def by (intro conjI exI [of _ "u @ v"]) auto
qed

lemma confirms_step:
  assumes "so_label (hd_options h) = i" "i \<notin> C" "isr (hd_outcome h)"
  shows "confirms C (insert i C) x (x @ [h])"
  unfolding confirms_def using assms by (intro conjI exI [of _ "[h]"]) auto

lemma confirms_failure:
  assumes "\<not> isr (hd_outcome h)"
  shows "confirms C C x (x @ [h])"
  unfolding confirms_def using assms by (intro conjI exI [of _ "[h]"]) auto

lemma runSteps_confirms:
  assumes "\<forall>step \<in> set runners. hands_own step" "runSteps d runners C r = (evs, C', err, r')"
  shows "confirms C C' (wr_sent r) (wr_sent r') \<and> C' \<subseteq> C \<union> rn_id ` set runners"
  using assms
proof (induction runners arbitrary: C r evs C' err r')
  case (Cons step steps)
  show ?case
  proof (cases "rn_id step \<in> C")
    case True
    with Cons.prems Cons.IH [of C r evs C' err r'] show ?thesis by auto
  next
    case False
    from Cons.prems(1) have own: "hands_own step" and rest: "\<forall>step \<in> set steps. hands_own step" by auto
    obtain c r1 where c: "check_done step r = (c, r1)" by fastforce
    then have s1: "wr_sent r1 = wr_sent r" using own by (metis hands_own_def snd_conv)
    show ?thesis
    proof (cases c)
      case (Inl e)
      with Cons.prems(2) False c s1 show ?thesis by auto
    next
      case (Inr found)
      show ?thesis
      proof (cases found)
        case True
        obtain evs2 C2 err2 r2 where t: "runSteps d steps (insert (rn_id step) C) r1 = (evs2, C2, err2, r2)"
          by (metis prod_cases4)
        with Cons.prems(2) False c Inr True have "C' = C2" "r' = r2" by auto
        moreover from Cons.IH [OF rest t] have "confirms (insert (rn_id step) C) C2 (wr_sent r1) (wr_sent r2)"
          "C2 \<subseteq> insert (rn_id step) C \<union> rn_id ` set steps" by auto
        ultimately show ?thesis using s1 by (auto simp: confirms_def)
      next
        case no: False
        obtain phases q r2 where q: "rn_run step r1 = (phases, q, r2)" by (metis prod_cases3)
        from own obtain h where h: "wr_sent r2 = wr_sent r1 @ [h]" "so_label (hd_options h) = rn_id step"
          "isr (hd_outcome h) = isr q" using q by (metis hands_own_def fst_conv snd_conv)
        show ?thesis
        proof (cases q)
          case (Inl e)
          with Cons.prems(2) False c Inr no q have "C' = C" "r' = r2" by auto
          with h s1 Inl show ?thesis by (auto simp: confirms_failure)
        next
          case sent: (Inr x)
          obtain sig detail where x: "x = (sig, detail)" by (cases x)
          obtain evs2 C2 err2 r3 where t: "runSteps d steps (insert (rn_id step) C) r2 = (evs2, C2, err2, r3)"
            by (metis prod_cases4)
          with Cons.prems(2) False c Inr no q sent x have "C' = C2" "r' = r3" by auto
          moreover from Cons.IH [OF rest t] have i: "confirms (insert (rn_id step) C) C2 (wr_sent r2) (wr_sent r3)"
            "C2 \<subseteq> insert (rn_id step) C \<union> rn_id ` set steps" by auto
          moreover have "confirms C (insert (rn_id step) C) (wr_sent r) (wr_sent r2)"
            unfolding h(1) s1 by (rule confirms_step) (use h sent False in simp_all)
          ultimately show ?thesis using confirms_trans by auto
        qed
      qed
    qed
  qed
qed auto

lemma launch_step_own: "hands_own (launch_step env wallet s t)"
proof -
  have "quiet (already_on_chain env a l)" for a l
    unfolding already_on_chain_def by (intro quiet_rules)
  then have "wr_sent (snd (already_on_chain env a l r)) = wr_sent r" for a l r by (simp add: quiet_def)
  then show ?thesis
    by (auto simp: hands_own_def launch_step_def send_step_def check_done_def hand_over_def
        split: prod.splits sum.splits)
qed

definition session_ok :: "launch_session \<Rightarrow> bool" where
  "session_ok s \<longleftrightarrow> set (se_completed s) \<subseteq> pt_label ` set (bl_transactions (se_built s))"

lemma advance_confirms:
  assumes "advance_session env wallet s r = (err, s', r')" "session_ok s"
  shows "confirms (set (se_completed s)) (set (se_completed s')) (wr_sent r) (wr_sent r')" "session_ok s'"
    "se_handle s' = se_handle s"
proof -
  let ?runners = "map (launch_step env wallet s) (bl_transactions (se_built s))"
  let ?r = "dispatch (launch_events s) (r\<lparr>wr_signatures := se_signatures s\<rparr>)"
  obtain evs C' err' r1 where run: "runSteps (describe env) ?runners (set (se_completed s)) ?r = (evs, C', err', r1)"
    by (metis prod_cases4)
  have ids: "rn_id ` set ?runners = pt_label ` set (bl_transactions (se_built s))"
    by (auto simp: launch_step_def send_step_def image_image)
  from runSteps_confirms [OF _ run] launch_step_own
  have c: "confirms (set (se_completed s)) C' (wr_sent ?r) (wr_sent r1)" "C' \<subseteq> set (se_completed s) \<union> rn_id ` set ?runners"
    by auto
  from assms(1) run have s': "s' = s\<lparr>se_completed := filter (\<lambda>i. i \<in> C') (remdups (map pt_label (bl_transactions (se_built s)))),
      se_signatures := wr_signatures (dispatch evs r1)\<rparr>" "r' = dispatch evs r1"
    by (auto simp: advance_session_def steps_of_def Let_def)
  have "set (se_completed s') = C'"
    using c(2) [unfolded ids] assms(2) by (auto simp: s' session_ok_def)
  with c(1) show "confirms (set (se_completed s)) (set (se_completed s')) (wr_sent r) (wr_sent r')"
    by (simp add: s' dispatch_def)
  show "session_ok s'" "se_handle s' = se_handle s" by (auto simp: s' session_ok_def)
qed

text \<open>
  Attempts to create one launch: the first call without a handle, then again with the handle of the last failed
  call as long as the calls fail.
\<close>

fun launch_attempts ::
  "'w web_env \<Rightarrow> launch_input \<Rightarrow> wallet_signer \<Rightarrow> int option \<Rightarrow> nat \<Rightarrow> launch_resume option \<Rightarrow> sessions \<Rightarrow> 'w web_run \<Rightarrow>
     sessions \<times> 'w web_run" where
  "launch_attempts env input wallet firstBuy 0 handle sessions r = (sessions, r)"
| "launch_attempts env input wallet firstBuy (Suc n) handle sessions r =
     (case createLaunch env input wallet \<lparr>co_firstBuyQuoteRaw = firstBuy, co_resume = handle\<rparr> sessions r of
        (ActionOk v sigs, sessions', r') \<Rightarrow> (sessions', r')
      | (ActionFailed text sigs h, sessions', r') \<Rightarrow>
          launch_attempts env input wallet firstBuy n (case h of Some x \<Rightarrow> Some x | None \<Rightarrow> handle) sessions' r')"

text \<open>What holds between attempts: the session of the handle knows what has been confirmed since the start.\<close>

definition attempts_ok :: "handed list \<Rightarrow> launch_resume option \<Rightarrow> sessions \<Rightarrow> handed list \<Rightarrow> bool" where
  "attempts_ok start handle sessions sent \<longleftrightarrow>
     (\<exists>C. confirms {} C start sent \<and>
        (case handle of
           None \<Rightarrow> sent = start
         | Some h \<Rightarrow> (case sessions (lr_config h) of
                        Some s \<Rightarrow> se_handle s = h \<and> session_ok s \<and> C = set (se_completed s)
                      | None \<Rightarrow> True)))"

lemma prepared_session: "yields (prepareLaunch env input key cluster firstBuy) s \<Longrightarrow> se_completed s = []"
  unfolding prepareLaunch_def Let_def
  by (auto split: option.splits dest!: yields_bind)

lemma quiet_composer [quiet_rules]: "quiet (composerW env input key opts)"
  by (auto simp: quiet_def composerW_def sdkW_def split: sum.splits)

lemma quiet_open [quiet_rules]: "quiet (open_session env input key cluster opts sessions)"
  unfolding open_session_def prepareLaunch_def Let_def by (intro quiet_rules)+

lemma opened_session:
  assumes "yields (bindW (requireSigningWallet wallet) (\<lambda>key. bindW (sendableCluster env) (\<lambda>cluster.
      bindW (open_session env input key cluster opts sessions) (\<lambda>s. retW (key, s))))) (key, s)"
  shows "\<exists>cluster. yields (open_session env input key cluster opts sessions) s"
proof -
  from assms obtain k c where "yields (bindW (open_session env input k c opts sessions) (\<lambda>s. retW (k, s))) (key, s)"
    by (blast dest: yields_bind)
  then obtain x where "yields (open_session env input k c opts sessions) x" "(key, s) = (k, x)"
    by (auto dest: yields_bind)
  then show ?thesis by blast
qed

lemma attempt_keeps:
  assumes ok: "attempts_ok start handle sessions (wr_sent r)"
    and c: "createLaunch env input wallet \<lparr>co_firstBuyQuoteRaw = firstBuy, co_resume = handle\<rparr> sessions r = (res, sessions', r')"
  shows "(\<exists>C. confirms {} C start (wr_sent r')) \<and>
    (\<forall>text sigs h. res = ActionFailed text sigs h \<longrightarrow>
       attempts_ok start (case h of Some x \<Rightarrow> Some x | None \<Rightarrow> handle) sessions' (wr_sent r'))"
proof -
  let ?opts = "\<lparr>co_firstBuyQuoteRaw = firstBuy, co_resume = handle\<rparr>"
  let ?m = "bindW (requireSigningWallet wallet) (\<lambda>key. bindW (sendableCluster env) (\<lambda>cluster.
      bindW (open_session env input key cluster ?opts sessions) (\<lambda>s. retW (key, s))))"
  obtain o' r1 where m: "?m r = (o', r1)" by fastforce
  have "quiet ?m"
    by (rule quiet_bind [OF quiet_parts(1)], rule quiet_bind [OF quiet_parts(2)], rule quiet_bind [OF quiet_open])
      (rule quiet_basic)
  from quietD [OF this m] have s1: "wr_sent r1 = wr_sent r" .
  show ?thesis
  proof (cases o')
    case (Inl e)
    with c m have "res = ActionFailed (describe env e) None None \<and> sessions' = sessions \<and> r' = failed_run env e r1"
      by (simp add: createLaunch_def)
    then have "res = ActionFailed (describe env e) None None" "sessions' = sessions" "wr_sent r' = wr_sent r"
      by (simp_all add: failed_run_def dispatch_def s1)
    with ok show ?thesis by (auto simp: attempts_ok_def)
  next
    case (Inr ks)
    obtain key s where ks: "ks = (key, s)" by (cases ks)
    from m Inr ks have "yields ?m (key, s)" by (intro yieldsI [of ?m r]) simp
    from opened_session [OF this] obtain cluster where y: "yields (open_session env input key cluster ?opts sessions) s"
      by blast
    have opened: "session_ok s \<and> (\<forall>h. handle = Some h \<longrightarrow> se_handle s = h) \<and> confirms {} (set (se_completed s)) start (wr_sent r)"
    proof (cases handle)
      case None
      with y have "se_completed s = []" by (simp add: open_session_def prepared_session)
      with ok None show ?thesis by (auto simp: attempts_ok_def session_ok_def)
    next
      case (Some h)
      with y have "sessions (lr_config h) = Some s" by (auto simp: open_session_def split: option.splits)
      with ok Some show ?thesis by (auto simp: attempts_ok_def)
    qed
    from c m Inr ks have run: "run_session env key s (handle \<noteq> None) sessions r1 = (res, sessions', r')"
      by (simp add: createLaunch_def)
    show ?thesis
    proof (cases "handle \<noteq> None \<and> (bl_transactions (se_built s) = [] \<or> lr_mint (se_handle s) = [])")
      case True
      with run have r: "\<exists>msg sigs. res = ActionFailed msg sigs (Some (se_handle s))" "sessions' = sessions"
        "wr_sent r' = wr_sent r"
        by (auto simp: run_session_def failed_run_def dispatch_def s1)
      obtain h where "handle = Some h" using True by auto
      with ok opened r show ?thesis by (auto simp: attempts_ok_def)
    next
      case False
      obtain err s' r2 where a: "advance_session env key s r1 = (err, s', r2)" by (metis prod_cases3)
      note adv = advance_confirms [OF a]
      have conf: "confirms {} (set (se_completed s')) start (wr_sent r2)"
        using opened adv(1) s1 by (auto intro: confirms_trans)
      show ?thesis
      proof (cases err)
        case None
        with False run a have "wr_sent r' = wr_sent r2" "\<exists>v sigs. res = ActionOk v sigs"
          by (auto simp: run_session_def dispatch_def Let_def)
        with conf show ?thesis by auto
      next
        case (Some e)
        with False run a have r: "wr_sent r' = wr_sent r2"
          "res = ActionFailed (describe env e) (Some (se_signatures s')) (Some (se_handle s))"
          "sessions' = sessions(lr_config (se_handle s) \<mapsto> s')"
          by (auto simp: run_session_def dispatch_def failed_run_def)
        from conf opened adv(2,3) show ?thesis by (auto simp: r attempts_ok_def)
      qed
    qed
  qed
qed

lemma attempts_confirm:
  "attempts_ok start handle sessions (wr_sent r) \<Longrightarrow>
   \<exists>C. confirms {} C start (wr_sent (snd (launch_attempts env input wallet firstBuy n handle sessions r)))"
proof (induction n arbitrary: handle sessions r)
  case 0
  then show ?case by (auto simp: attempts_ok_def)
next
  case (Suc n)
  obtain res sessions' r' where c: "createLaunch env input wallet \<lparr>co_firstBuyQuoteRaw = firstBuy, co_resume = handle\<rparr> sessions r
      = (res, sessions', r')" by (metis prod_cases3)
  note k = attempt_keeps [OF Suc.prems c]
  show ?case
  proof (cases res)
    case (ActionOk v sigs)
    with c k show ?thesis by simp
  next
    case (ActionFailed msg sigs h)
    with k Suc.IH have "\<exists>C. confirms {} C start (wr_sent (snd (launch_attempts env input wallet firstBuy n
        (case h of Some x \<Rightarrow> Some x | None \<Rightarrow> handle) sessions' r')))" by blast
    with c ActionFailed show ?thesis by simp
  qed
qed


text \<open>
  It does not hold for a first buy whose transaction landed but was not confirmed in time: for that step the
  chain is not asked, and a retry hands the same swap over again, whatever the chain shows.
\<close>

lemma unconfirmed_first_buy_is_sent_again:
  assumes "bl_transactions (se_built s) = ts @ [t]" "pt_label t = ''first_buy''"
    and "set (se_completed s) = pt_label ` set ts" "''first_buy'' \<notin> pt_label ` set ts"
  shows "\<exists>err s' r' h. advance_session env key s r = (err, s', r') \<and> wr_sent r' = wr_sent r @ [h] \<and>
    hd_instructions h = pt_instructions t"
proof -
  have skip: "runSteps d (map (launch_step env key s) us) C q = ([], C, None, q)" if "pt_label ` set us \<subseteq> C"
    for us C q and d :: "web_thrown \<Rightarrow> string"
    using that by (induction us) (auto simp: launch_step_def send_step_def)
  have skip2: "runSteps d (map (launch_step env key s) us @ rest) C q = runSteps d rest C q" if "pt_label ` set us \<subseteq> C"
    for us C q rest and d :: "web_thrown \<Rightarrow> string"
    using that by (induction us) (auto simp: launch_step_def send_step_def)
  have "pt_label ` set ts \<subseteq> set (se_completed s)" "pt_label t \<notin> set (se_completed s)" using assms by auto
  then show ?thesis
    by (auto simp: advance_session_def steps_of_def assms(1,2) skip2 launch_step_def send_step_def check_done_def
        already_on_chain_def starts_with_def retW_def hand_over_def dispatch_def Let_def split: prod.splits sum.splits)
qed

section \<open>A rejected prompt stops the crank\<close>

text \<open>What every send and every callback keep, a run of the crank keeps.\<close>

lemma crankRound_keeps:
  assumes "\<And>ixs o' w. I w \<Longrightarrow> I (snd (ce_send env ixs o' w))" "\<And>s w. I w \<Longrightarrow> I (ce_onStep env s w)" "I w"
  shows "I (snd (crankRound env opts price launch state action w))"
proof (cases "buildCrankAction (ce_lib env) (ce_newAta env) (fst (ce_keypairs env w)) (snd (ce_keypairs env w)) state action (ce_payer env)")
  case (Inl e)
  with assms(3) show ?thesis by (simp add: crankRound_def)
next
  case (Inr built)
  obtain q w1 where q: "ce_send env (ba_instructions built)
      \<lparr>so_signers = ba_signers built, so_computeUnitLimit = ba_computeUnitLimit built, so_computeUnitPrice = price,
       so_label = action_kind action\<rparr> w = (q, w1)" by fastforce
  with assms(1) [OF assms(3)] have "I w1" by (metis snd_conv)
  with assms(2) Inr q show ?thesis
    by (auto simp: crankRound_def Let_def split: sum.splits option.splits)
qed

lemma crankLoop_keeps:
  assumes "\<And>ixs o' w. I w \<Longrightarrow> I (snd (ce_send env ixs o' w))" "\<And>s w. I w \<Longrightarrow> I (ce_onStep env s w)"
  shows "I w \<Longrightarrow> I (snd (crankLoop env opts price launch n state failed steps w))"
proof (induction n arbitrary: state failed steps w)
  case (Suc n)
  have round: "I (snd (crankRound env opts price launch state action w))" for action
    using assms Suc.prems by (rule crankRound_keeps)
  have round': "crankRound env opts price launch state action w = (q, w1) \<Longrightarrow> I w1" for action q w1
    using round [of action] by simp
  show ?case
    using Suc.prems by (auto split: sum.splits list.splits prod.splits intro: Suc.IH dest: round')
qed simp

lemma runCrank_keeps:
  assumes "\<And>ixs o' w. I w \<Longrightarrow> I (snd (ce_send env ixs o' w))" "\<And>s w. I w \<Longrightarrow> I (ce_onStep env s w)" "I w"
  shows "I (snd (runCrank env ref opts maxActions price w))"
proof -
  have "I (snd (crankLoop env opts price launch n state failed steps w))" for launch n state failed steps
    using assms by (rule crankLoop_keeps)
  then show ?thesis using assms(3)
    by (auto simp: runCrank_def split: sum.splits option.splits prod.splits) (metis snd_conv)+
qed

definition rejected :: "'w web_env \<Rightarrow> handed \<Rightarrow> bool" where
  "rejected env h \<longleftrightarrow> (\<exists>e. hd_outcome h = Inl e \<and> isWalletRejection (value_of env e))"

definition stops_at_rejection :: "'w web_env \<Rightarrow> handed list \<Rightarrow> bool" where
  "stops_at_rejection env hs \<longleftrightarrow> (\<forall>h \<in> set (butlast hs). \<not> rejected env h)"

definition crank_ok :: "'w web_env \<Rightarrow> handed list \<Rightarrow> 'w crank_world \<Rightarrow> bool" where
  "crank_ok env start k \<longleftrightarrow>
     (\<exists>new. wr_sent (kw_run k) = start @ new \<and> stops_at_rejection env new \<and>
        ((\<exists>h \<in> set new. rejected env h) \<longrightarrow> kw_cancelled k \<noteq> None))"

lemma crank_ok_cong:
  "wr_sent (kw_run k') = wr_sent (kw_run k) \<Longrightarrow> kw_cancelled k' = kw_cancelled k \<Longrightarrow> crank_ok env start k' = crank_ok env start k"
  by (simp add: crank_ok_def)

lemma kw_dispatch_simps [simp]:
  "wr_sent (kw_run (kw_dispatch evs k)) = wr_sent (kw_run k)" "kw_cancelled (kw_dispatch evs k) = kw_cancelled k"
  by (simp_all add: kw_dispatch_def dispatch_def)

lemma next_step_simps:
  "nextCrankStepId kind k = (i, k') \<Longrightarrow> wr_sent (kw_run k') = wr_sent (kw_run k) \<and> kw_cancelled k' = kw_cancelled k"
  by (auto simp: nextCrankStepId_def Let_def split: option.splits)

lemma proxy_onStep_keeps: "crank_ok env start k \<Longrightarrow> crank_ok env start (proxy_onStep env step k)"
  by (subst crank_ok_cong [of _ k]) (auto simp: proxy_onStep_def count_step_def Let_def split: step_status.splits)

lemma proxy_send_keeps:
  assumes "crank_ok env start k"
  shows "crank_ok env start (snd (proxy_send env wallet ixs opts k))"
proof (cases "kw_cancelled k")
  case (Some e)
  with assms show ?thesis by (simp add: proxy_send_def)
next
  case None
  from assms None obtain new where new: "wr_sent (kw_run k) = start @ new" "\<forall>h \<in> set new. \<not> rejected env h"
    by (auto simp: crank_ok_def)
  obtain i k1 where k1: "nextCrankStepId (so_label opts) k = (i, k1)" by fastforce
  from next_step_simps [OF k1] new(1) None have s1: "wr_sent (kw_run k1) = start @ new" "kw_cancelled k1 = None" by simp_all
  let ?k2 = "kw_dispatch [EvStepStarted i (Some Preparing)] (k1\<lparr>kw_active := Some i\<rparr>)"
  obtain phases res w' where send: "we_send env wallet ixs opts (wr_world (kw_run ?k2)) = (phases, res, w')"
    by (metis prod_cases3)
  let ?h = "\<lparr>hd_instructions = ixs, hd_options = opts, hd_outcome = res\<rparr>"
  let ?k = "snd (proxy_send env wallet ixs opts k)"
  have s2: "wr_sent (kw_run ?k) = start @ new @ [?h]"
    using k1 send s1 None by (auto simp: proxy_send_def Let_def hand_over_def dispatch_def split: sum.splits)
  moreover have "rejected env ?h \<Longrightarrow> kw_cancelled ?k \<noteq> None"
    using k1 send None by (auto simp: proxy_send_def Let_def hand_over_def rejected_def)
  ultimately show ?thesis
    using new(2) unfolding crank_ok_def
    by (intro exI [of _ "new @ [?h]"]) (auto simp: stops_at_rejection_def butlast_append)
qed

lemma proxied:
  "crank_ok env start k \<Longrightarrow> crank_ok env start (snd (ce_send (proxy_env env wallet) ixs opts k))"
  "crank_ok env start k \<Longrightarrow> crank_ok env start (ce_onStep (proxy_env env wallet) step k)"
  by (simp_all add: proxy_env_def proxy_send_keeps proxy_onStep_keeps)

lemma quiet_crank_start: "quiet (crank_start env launch wallet)"
  unfolding crank_start_def
  by (rule quiet_bind [OF quiet_parts(1)], rule quiet_bind [OF quiet_parts(2)], rule quiet_bind [OF quiet_checks(2)],
      rule quiet_bind, simp add: planW_def quiet_basic, rule quiet_bind [OF quiet_basic(5)])
    (auto intro: quiet_rules)

text \<open>
  C19: when the user rejects a prompt of the wallet, the crank stops: nothing more is handed to the wallet, however
  many actions are still due and whatever the node answers, and the action reports a failure.
\<close>

theorem rejected_prompt_stops_crank:
  "\<exists>new. wr_sent (snd (crank env launch wallet r)) = wr_sent r @ new \<and> stops_at_rejection env new \<and>
     (if list_ex (rejected env) new then \<exists>msg sigs. fst (crank env launch wallet r) = ActionFailed msg sigs None else True)"
proof -
  let ?r = "r\<lparr>wr_signatures := []\<rparr>"
  obtain o' r1 where s: "crank_start env launch wallet ?r = (o', r1)" by fastforce
  from quietD [OF quiet_crank_start s] have s1: "wr_sent r1 = wr_sent r" by simp
  show ?thesis
  proof (cases o')
    case (Inl e)
    with s s1 show ?thesis
      by (intro exI [of _ "[]"]) (simp add: crank_def failed_run_def dispatch_def stops_at_rejection_def)
  next
    case (Inr t)
    obtain key cluster state due where t: "t = (key, cluster, state, due)" by (metis prod_cases4)
    show ?thesis
    proof (cases "due = []")
      case True
      with s s1 Inr t show ?thesis by (intro exI [of _ "[]"]) (simp add: crank_def stops_at_rejection_def)
    next
      case False
      let ?run = "runCrank (proxy_env env key) (RefLaunch (ls_address state)) default_plan None
        (Some (JsInt (cl_priorityFeeMicroLamports cluster))) (crank_world_of env due r1)"
      have "crank_ok env (wr_sent r) (crank_world_of env due r1)"
        by (auto simp: crank_ok_def crank_world_of_def s1 stops_at_rejection_def)
      then have k: "crank_ok env (wr_sent r) (snd ?run)"
        by (intro runCrank_keeps [where I = "crank_ok env (wr_sent r)"] proxied)
      have c: "crank env launch wallet r = crank_done env (fst ?run) (snd ?run)"
        using s Inr t False by (simp add: crank_def split: prod.splits)
      have sent: "wr_sent (snd (crank_done env q w)) = wr_sent (kw_run w)" for q w
        by (auto simp: crank_done_def Let_def failed_run_def dispatch_def split: option.splits sum.splits)
      have failed: "kw_cancelled w \<noteq> None \<Longrightarrow> \<exists>msg sigs. fst (crank_done env q w) = ActionFailed msg sigs None" for q w
        by (auto simp: crank_done_def Let_def)
      from k obtain new where new: "wr_sent (kw_run (snd ?run)) = wr_sent r @ new" "stops_at_rejection env new"
        "(\<exists>h \<in> set new. rejected env h) \<longrightarrow> kw_cancelled (snd ?run) \<noteq> None"
        unfolding crank_ok_def by blast
      then have "if list_ex (rejected env) new then \<exists>msg sigs. fst (crank env launch wallet r) = ActionFailed msg sigs None else True"
        unfolding c using failed by (simp add: list_ex_iff)
      with new(1,2) sent show ?thesis unfolding c by metis
    qed
  qed
qed

section \<open>An example\<close>

text \<open>A wallet on a local validator whose node shows a launch on the curve; the user was shown 5 raw units.\<close>

definition local_cluster :: cluster_info where
  "local_cluster =
     \<lparr>cl_rpcUrl = ''http://127.0.0.1:8899'', cl_kind = LocalValidatorCluster,
      cl_probe = \<lparr>pr_genesisHash = Some ''local'', pr_surfnetVersion = None, pr_surfnetMethodOk = False\<rparr>,
      cl_sendGuard = Allowed LocalValidator, cl_jupiterRouting = False, cl_faucet = False,
      cl_priorityFeeMicroLamports = 0\<rparr>"

definition no_text :: "js_error \<Rightarrow> thrown_value" where
  "no_text e = \<lparr>tv_class = OtherClass, tv_name = [], tv_message = [], tv_code = None, tv_errorName = None, tv_logs = []\<rparr>"

definition web_example :: "cluster_info \<Rightarrow> unit web_env" where
  "web_example cluster =
     \<lparr>we_composer = (\<lambda>_. example_env), we_lib = plain_lib, we_newAta = plain_ata, we_coders = ce_coders refusing_env,
      we_utf8 = (\<lambda>_. []), we_toBase58 = plain_base58, we_parse = (\<lambda>_. Some PublicKey_default),
      we_keypairs = (\<lambda>_. ([], [])), we_cluster = (\<lambda>w. (Inr cluster, w)),
      we_snapshot = (\<lambda>w. (ce_reader refusing_env (), w)),
      we_send = (\<lambda>_ _ _ w. ([Signing], Inr \<lparr>sr_signature = ''sig'', sr_unitsConsumed = None\<rparr>, w)),
      we_swap = (\<lambda>_ _ w. ([], Inl (UserFacing SendingDisabled), w)), we_text = (\<lambda>_. ''text''), we_sdkValue = no_text,
      we_numberText = (\<lambda>_. ''1'')\<rparr>"

definition fresh_run :: "unit web_run" where
  "fresh_run = \<lparr>wr_world = (), wr_events = [], wr_signatures = [], wr_sent = [], wr_swaps = [],
     wr_routed = \<lparr>us_signature = [], us_inAmount = 0, us_outAmount = 0\<rparr>\<rparr>"

definition shown_request :: trade_request where
  "shown_request = \<lparr>rq_side = Buy, rq_payToken = PayQuote, rq_amountRaw = 1000, rq_slippageBps = JsInt 100,
     rq_expected = Some (OnDbc, 5)\<rparr>"

lemma example_ata: "honest_ata (web_example cluster)"
proof -
  have "ASSOCIATED_TOKEN_PROGRAM_ID plain_lib \<noteq> DBC_PROGRAM_ID \<and> ASSOCIATED_TOKEN_PROGRAM_ID plain_lib \<noteq> DAMM_V2_PROGRAM_ID"
    by code_simp
  then show ?thesis
    by (simp add: honest_ata_def web_example_def createAtaIdempotentIx_def plain_ata_def is_swap_program_def)
qed

lemma example_fetch:
  "\<exists>s. fetchLaunchState (fst (we_snapshot (web_example cluster) w)) plain_lib (ce_coders refusing_env) (\<lambda>_. []) (RefLaunch k) True
     = Inr (Some s) \<and> venues_ok s"
proof -
  obtain d where d: "decode_accounts (ce_coders refusing_env) curve_accounts = Inr d" "da_dbcConfig d = example_config"
    "da_dbcPool d = Some fee_pool" using curve_decoded by blast
  obtain cfg where cfg: "DAMM_V2_MIGRATION_CONFIGS (pc_migrationFeeOption example_config) = Some cfg"
    by (simp add: DAMM_V2_MIGRATION_CONFIGS_def example_config_def)
  have not_migrated: "\<not> la_migrated curve_launch" "vp_isMigrated fee_pool \<noteq> 1" "la_poolRegistered curve_launch"
    by (simp_all add: curve_launch_def example_launch_def fee_pool_def example_virtual_pool_def)
  have accs: "getMultipleAccountsInfo (ce_reader refusing_env ()) ks = Inr curve_accounts" for ks
    by (simp add: refusing_env_def)
  obtain s where s: "fetchLaunchState (ce_reader refusing_env ()) plain_lib (ce_coders refusing_env) (\<lambda>_. []) (RefLaunch k) True = Inr (Some s)"
    "s = build_state plain_lib (\<lambda>_. []) k curve_launch (la_pool curve_launch) d cfg None []"
    by (simp add: fetchLaunchState_def refusing_launch accs d cfg not_migrated Let_def)
  have "venues_ok s"
    using pool_ok_example
    by (simp add: s(2) venues_ok_def build_state_def Let_def d pool_ok_def fee_pool_def example_virtual_pool_def U64_MAX_def)
  with s(1) show ?thesis by (simp add: web_example_def)
qed

lemma example_sound: "shows_sound_pools (web_example cluster)"
  unfolding shows_sound_pools_def
proof (intro allI impI)
  fix w key state assume "fetchLaunchState (fst (we_snapshot (web_example cluster) w)) (we_lib (web_example cluster))
    (we_coders (web_example cluster)) (we_utf8 (web_example cluster)) (RefLaunch key) True = Inr (Some state)"
  with example_fetch [of cluster w key] show "venues_ok state" by (auto simp: web_example_def)
qed

theorem trade_keeps_to_shown_quote_witness:
  "\<exists>result r'. trade (web_example local_cluster) \<lparr>wl_launchAddress = ''L'', wl_symbol = ''X'', wl_quoteSymbol = ''SPYx''\<rparr> shown_request
       \<lparr>wa_publicKey = Some PublicKey_default, wa_canSign = True\<rparr> fresh_run = (result, r') \<and>
     (wr_sent r' = wr_sent fresh_run \<or>
      (\<exists>h key. wr_sent r' = wr_sent fresh_run @ [h] \<and> Some PublicKey_default = Some key \<and>
         swaps_at_least plain_lib key Buy 1000 OnDbc 5 (hd_instructions h)))"
proof -
  let ?launch = "\<lparr>wl_launchAddress = ''L'', wl_symbol = ''X'', wl_quoteSymbol = ''SPYx''\<rparr>"
  let ?wallet = "\<lparr>wa_publicKey = Some PublicKey_default, wa_canSign = True\<rparr>"
  obtain result r' where t: "trade (web_example local_cluster) ?launch shown_request ?wallet fresh_run = (result, r')" by fastforce
  have "rq_expected shown_request = Some (OnDbc, 5)" "(0::int) \<le> 5" "rq_payToken shown_request = PayQuote \<or> rq_side shown_request = Sell"
    by (simp_all add: shown_request_def)
  from trade_keeps_to_shown_quote [OF example_ata example_sound this t] t show ?thesis
    by (intro exI [of _ result] exI [of _ r']) (simp add: shown_request_def web_example_def)
qed

definition locked_cluster :: cluster_info where
  "locked_cluster = local_cluster\<lparr>cl_sendGuard := Refused OneSwitchOnly\<rparr>"

theorem guarded_actions_send_nothing_witness:
  "nothing_handed fresh_run (snd (crank (web_example locked_cluster)
     \<lparr>wl_launchAddress = ''L'', wl_symbol = ''X'', wl_quoteSymbol = ''SPYx''\<rparr>
     \<lparr>wa_publicKey = Some PublicKey_default, wa_canSign = True\<rparr> fresh_run))"
proof -
  have "never_sends (web_example locked_cluster)"
    by (auto simp: never_sends_def web_example_def locked_cluster_def local_cluster_def may_send_def)
  from guarded_actions_send_nothing [OF this] show ?thesis by blast
qed

end
