(* ===== verification/Base64.thy ===== *)
theory Base64
  imports Bytes
begin

text \<open>
  The base64 helpers of \<^verbatim>\<open>packages/sdk/src/bytes.ts\<close>, with the runtime's \<open>btoa\<close> and \<open>atob\<close> (forgiving decode of
  the HTML standard). The property: decoding what was encoded gives the bytes back, and nothing but base64 is
  decoded.
\<close>

definition base64_alphabet :: string where
  "base64_alphabet = ''ABCDEFGHIJKLMNOPQRSTUVWXYZabcdefghijklmnopqrstuvwxyz0123456789+/''"

definition sextet_char :: "nat \<Rightarrow> char" where
  "sextet_char n = base64_alphabet ! n"

fun position_of :: "char \<Rightarrow> string \<Rightarrow> nat" where
  "position_of c [] = 0"
| "position_of c (x # xs) = (if c = x then 0 else Suc (position_of c xs))"

definition char_sextet :: "char \<Rightarrow> nat" where
  "char_sextet c = position_of c base64_alphabet"

fun sextets :: "nat list \<Rightarrow> nat list" where
  "sextets (a # b # c # rest) =
     a div 4 # ((a mod 4) * 16 + b div 16) # ((b mod 16) * 4 + c div 64) # c mod 64 # sextets rest"
| "sextets [a, b] = [a div 4, (a mod 4) * 16 + b div 16, (b mod 16) * 4]"
| "sextets [a] = [a div 4, (a mod 4) * 16]"
| "sextets [] = []"

fun octets :: "nat list \<Rightarrow> nat list" where
  "octets (w # x # y # z # rest) = (w * 4 + x div 16) # ((x mod 16) * 16 + y div 4) # ((y mod 4) * 64 + z) # octets rest"
| "octets [w, x, y] = [w * 4 + x div 16, (x mod 16) * 16 + y div 4]"
| "octets [w, x] = [w * 4 + x div 16]"
| "octets [w] = []"
| "octets [] = []"

definition btoa :: "string \<Rightarrow> string" where
  "btoa bin = map sextet_char (sextets (map of_char bin)) @ replicate ((3 - length bin mod 3) mod 3) CHR ''=''"

text \<open>White space is ignored, and one or two equals signs at the end of a text of whole groups.\<close>

definition ascii_space :: "char \<Rightarrow> bool" where
  "ascii_space c \<longleftrightarrow> (of_char c :: nat) \<in> {9, 10, 12, 13, 32}"

definition drop_equals :: "string \<Rightarrow> string" where
  "drop_equals s = (if s \<noteq> [] \<and> last s = CHR ''='' then butlast s else s)"

definition atob :: "string \<Rightarrow> string result" where
  "atob b64 =
     (let t = filter (\<lambda>c. \<not> ascii_space c) b64;
          u = (if length t mod 4 = 0 then drop_equals (drop_equals t) else t)
      in if length u mod 4 = 1 \<or> \<not> list_all (\<lambda>c. c \<in> set base64_alphabet) u
         then Inl (GenericError ''InvalidCharacterError'')
         else Inr (map char_of (octets (map char_sextet u))))"

definition base64ToBytes :: "string \<Rightarrow> bytes result" where
  "base64ToBytes b64 = bindE (atob b64) (\<lambda>bin. Inr (map (\<lambda>c. word_of_nat (of_char c)) bin))"

definition bytesToBase64 :: "bytes \<Rightarrow> string" where
  "bytesToBase64 data = btoa (map (\<lambda>b. char_of (unat b)) data)"

section \<open>Round trip\<close>

lemma alphabet_positions:
  "list_all (\<lambda>n. char_sextet (sextet_char n) = n \<and> sextet_char n \<in> set base64_alphabet \<and>
     sextet_char n \<noteq> CHR ''='' \<and> \<not> ascii_space (sextet_char n)) [0..<64]"
  by code_simp

lemma sextet_facts:
  assumes "n < 64"
  shows "char_sextet (sextet_char n) = n" "sextet_char n \<in> set base64_alphabet" "sextet_char n \<noteq> CHR ''=''"
    "\<not> ascii_space (sextet_char n)"
  using alphabet_positions assms by (simp_all add: list_all_iff)

lemma sextets_below: "list_all (\<lambda>b. b < 256) bs \<Longrightarrow> list_all (\<lambda>n. n < 64) (sextets bs)"
proof (induction bs rule: sextets.induct)
  case (1 a b c rest)
  then show ?case by (auto simp: less_mult_imp_div_less)
qed (auto simp: less_mult_imp_div_less)

lemma octets_sextets: "list_all (\<lambda>b. b < 256) bs \<Longrightarrow> octets (sextets bs) = bs"
proof (induction bs rule: sextets.induct)
  case (1 a b c rest)
  then have "b div 16 < 16" "c div 64 < 4" by (simp_all add: less_mult_imp_div_less)
  with 1 show ?case by simp
next
  case (2 a b)
  then have "b div 16 < 16" by (simp add: less_mult_imp_div_less)
  then show ?case by simp
qed auto

lemma sextets_length:
  "(length (sextets bs) + (3 - length bs mod 3) mod 3) mod 4 = 0 \<and> length (sextets bs) mod 4 \<noteq> 1"
proof (induction bs rule: sextets.induct)
  case (1 a b c rest)
  let ?k = "length (sextets rest)" and ?m = "(3 - length rest mod 3) mod 3"
  have "length (a # b # c # rest) mod 3 = length rest mod 3" by simp
  moreover have "(4 + ?k + ?m) mod 4 = (?k + ?m) mod 4" "(4 + ?k) mod 4 = ?k mod 4"
    by (metis add.assoc mod_add_self1)+
  ultimately show ?case using 1 by simp
qed auto

lemma drop_equals_padding:
  assumes "s = [] \<or> last s \<noteq> CHR ''=''" "n \<le> 2"
  shows "drop_equals (drop_equals (s @ replicate n CHR ''='')) = s"
proof -
  consider "n = 0" | "n = 1" | "n = 2" using assms(2) by linarith
  then show ?thesis
    by cases (use assms(1) in \<open>auto simp: drop_equals_def numeral_2_eq_2 butlast_append\<close>)
qed

lemma atob_btoa: "atob (btoa bin) = Inr bin"
proof -
  let ?bs = "map of_char bin :: nat list"
  let ?s = "map sextet_char (sextets ?bs)"
  let ?n = "(3 - length bin mod 3) mod 3"
  have bs: "list_all (\<lambda>b. b < 256) ?bs" by (simp add: list_all_iff)
  then have six: "list_all (\<lambda>n. n < 64) (sextets ?bs)" by (rule sextets_below)
  have plain: "\<And>c. c \<in> set ?s \<Longrightarrow> c \<in> set base64_alphabet \<and> c \<noteq> CHR ''='' \<and> \<not> ascii_space c"
    using six sextet_facts by (auto simp: list_all_iff)
  have "filter (\<lambda>c. \<not> ascii_space c) (btoa bin) = ?s @ replicate ?n CHR ''=''"
    using plain by (simp add: btoa_def filter_id_conv ascii_space_def)
  moreover have "length (?s @ replicate ?n CHR ''='') mod 4 = 0"
    using sextets_length [of ?bs] by simp
  moreover have "drop_equals (drop_equals (?s @ replicate ?n CHR ''='')) = ?s"
    using plain by (intro drop_equals_padding) (metis last_in_set, simp)
  moreover have "length ?s mod 4 \<noteq> 1"
    using sextets_length [of ?bs] by simp
  moreover have "list_all (\<lambda>c. c \<in> set base64_alphabet) ?s" using plain by (simp add: list_all_iff)
  moreover have "map char_sextet ?s = sextets ?bs"
    using six sextet_facts(1) by (simp add: list_all_iff map_idI)
  ultimately show ?thesis
    using octets_sextets [OF bs] by (simp add: atob_def Let_def map_idI)
qed

text \<open>
  Base64 is lossless: decoding the base64 text of any bytes gives exactly those bytes, so a transaction keeps
  every byte on its way from the wallet to Jupiter and back.
\<close>

theorem base64_round_trip_bytes: "base64ToBytes (bytesToBase64 data) = Inr data"
proof -
  have "unat b mod 256 = unat b" for b :: "8 word"
  proof -
    have "int (unat b) < 256" using uint8_bounds [of b] by simp
    then have "unat b < 256" by linarith
    then show ?thesis by (rule mod_less)
  qed
  then show ?thesis
    by (simp add: base64ToBytes_def bytesToBase64_def atob_btoa map_idI of_char_of)
qed

end
