(* ===== verification/Jupiter.thy ===== *)
theory Jupiter
  imports Guard Decimal
begin

text \<open>
  \<^verbatim>\<open>packages/sdk/src/jupiter.ts\<close>: the price and Ultra order client. The HTTP client, the clock and the conversions
  \<open>Number(s)\<close>, \<open>String(n)\<close> and \<open>Date.parse\<close> of the platform are the record \<open>jupiter_env\<close>; everything the file
  reads out of an answer is modelled on JSON values. The lemmas: which requests are made, what an accepted
  order and an accepted price satisfy, and that the query of an order decodes to exactly the request.
\<close>

section \<open>Calls\<close>

datatype jupiter_thrown =
    FetchFailed string
  | JupiterError string "int option"
  | BadAmount
  | NullRead
  | BadBody string

type_synonym ('w, 'a) call = "'w \<Rightarrow> (jupiter_thrown + 'a) \<times> 'w"

definition returnC :: "'a \<Rightarrow> ('w, 'a) call" where
  "returnC x w = (Inr x, w)"

definition throwC :: "jupiter_thrown \<Rightarrow> ('w, 'a) call" where
  "throwC e w = (Inl e, w)"

definition bindC :: "('w, 'a) call \<Rightarrow> ('a \<Rightarrow> ('w, 'b) call) \<Rightarrow> ('w, 'b) call" where
  "bindC m f w = (case m w of (Inl e, w') \<Rightarrow> (Inl e, w') | (Inr x, w') \<Rightarrow> f x w')"

definition liftC :: "jupiter_thrown + 'a \<Rightarrow> ('w, 'a) call" where
  "liftC m w = (m, w)"

definition guardC :: "bool \<Rightarrow> jupiter_thrown \<Rightarrow> ('w, unit) call" where
  "guardC c e = (if c then returnC () else throwC e)"

text \<open>The argument \<open>init\<close> of a request, and an answer: its body as JSON and as text, None when reading it throws.\<close>

record fetch_init =
  fi_method :: string
  fi_headers :: "(string \<times> string) list"
  fi_body :: string

record http_response =
  hr_ok :: bool
  hr_status :: int
  hr_json :: "json option"
  hr_text :: "string option"

record 'w jupiter_env =
  je_fetch :: "string \<Rightarrow> fetch_init option \<Rightarrow> ('w, http_response) call"
  je_now :: "'w \<Rightarrow> int"
  je_Number :: "string \<Rightarrow> jsnum"
  je_numberText :: "jsnum \<Rightarrow> string"
  je_dateParse :: "string \<Rightarrow> int option"

definition JUPITER_LITE_API :: string where
  "JUPITER_LITE_API = ''https://lite-api.jup.ag''"

section \<open>Reading JSON\<close>

text \<open>The own properties a read \<open>r.name\<close> can find; reading from null throws.\<close>

fun properties :: "json \<Rightarrow> jupiter_thrown + (string \<times> json) list" where
  "properties JNull = Inl NullRead"
| "properties (JObject es) = Inr es"
| "properties _ = Inr []"

definition orElse :: "json option \<Rightarrow> json \<Rightarrow> json" where
  "orElse v d = (case v of None \<Rightarrow> d | Some JNull \<Rightarrow> d | Some x \<Rightarrow> x)"

text \<open>\<open>num\<close>: a finite number, also out of a text.\<close>

definition num :: "(string \<Rightarrow> jsnum) \<Rightarrow> json option \<Rightarrow> rat option" where
  "num number v =
     (case v of
        Some (JString s) \<Rightarrow> (case number s of Fin q \<Rightarrow> Some q | _ \<Rightarrow> None)
      | Some (JNumber (Fin q)) \<Rightarrow> Some q
      | _ \<Rightarrow> None)"

definition digits_only :: "string \<Rightarrow> bool" where
  "digits_only s \<longleftrightarrow> s \<noteq> [] \<and> list_all is_digit s"

definition big :: "json option \<Rightarrow> string \<Rightarrow> jupiter_thrown + int" where
  "big v what =
     (case v of
        Some (JString s) \<Rightarrow>
          if digits_only s then Inr (digits_value s) else Inl (JupiterError (''Ultra order has an invalid '' @ what) None)
      | Some (JNumber n) \<Rightarrow>
          (case as_integer n of
             Some i \<Rightarrow> if 0 \<le> i \<and> i \<le> 9007199254740991 then Inr i
                       else Inl (JupiterError (''Ultra order has an invalid '' @ what) None)
           | None \<Rightarrow> Inl (JupiterError (''Ultra order has an invalid '' @ what) None))
      | _ \<Rightarrow> Inl (JupiterError (''Ultra order has an invalid '' @ what) None))"

text \<open>\<open>String(v)\<close>, with the elements of an array joined by commas and null among them empty.\<close>

fun join_with :: "string \<Rightarrow> string list \<Rightarrow> string" where
  "join_with sep [] = []"
| "join_with sep [s] = s"
| "join_with sep (s # t # ss) = s @ sep @ join_with sep (t # ss)"

function js_String :: "(jsnum \<Rightarrow> string) \<Rightarrow> json \<Rightarrow> string" where
  "js_String numberText JNull = ''null''"
| "js_String numberText (JBool b) = (if b then ''true'' else ''false'')"
| "js_String numberText (JNumber n) = numberText n"
| "js_String numberText (JString s) = s"
| "js_String numberText (JArray vs) =
     join_with '','' (map (\<lambda>v. if v = JNull then [] else js_String numberText v) vs)"
| "js_String numberText (JObject es) = ''[object Object]''"
  by pat_completeness auto
termination by (relation "measure (\<lambda>(_, v). json_size v)") (auto intro: json_size_element simp del: json_size.simps)

section \<open>Prices\<close>

record scaled_ui_price =
  sp_multiplier :: rat
  sp_newMultiplier :: rat
  sp_newMultiplierEffectiveAt :: "int option"
  sp_effectiveMultiplier :: rat

record jupiter_price =
  jp_mint :: string
  jp_usdPrice :: rat
  jp_decimals :: rat
  jp_liquidity :: "rat option"
  jp_blockId :: "rat option"
  jp_priceChange24h :: "rat option"
  jp_stockPrice :: "rat option"
  jp_scaledUi :: "scaled_ui_price option"

text \<open>
  What is false in a condition: null, false, zero, NaN and the empty text. \<open>Math.floor(at / 1000)\<close> is exact:
  a date is at most \<open>8.64 * 10^15\<close> milliseconds, where a double quotient is off by less than a thousandth.
\<close>

definition truthy :: "json option \<Rightarrow> bool" where
  "truthy v \<longleftrightarrow> v \<notin> {None, Some JNull, Some (JBool False), Some (JNumber (JsInt 0)), Some (JNumber NaN), Some (JString [])}"

definition member_of :: "json option \<Rightarrow> string \<Rightarrow> json option" where
  "member_of v name = (case v of Some (JObject es) \<Rightarrow> map_of es name | _ \<Rightarrow> None)"

definition effective_at :: "'w jupiter_env \<Rightarrow> json option \<Rightarrow> int option" where
  "effective_at env v =
     (case v of Some (JString s) \<Rightarrow> (case je_dateParse env s of Some ms \<Rightarrow> Some (ms div 1000) | None \<Rightarrow> None) | _ \<Rightarrow> None)"

definition parse_scaled_ui :: "'w jupiter_env \<Rightarrow> json option \<Rightarrow> jsnum \<Rightarrow> scaled_ui_price option" where
  "parse_scaled_ui env s nowUnixSeconds =
     (if \<not> truthy s then None
      else let multiplier = num (je_Number env) (member_of s ''multiplier'');
               newMultiplier = (case num (je_Number env) (member_of s ''newMultiplier'') of Some n \<Rightarrow> Some n | None \<Rightarrow> multiplier);
               effectiveAt = effective_at env (member_of s ''newMultiplierEffectiveAt'')
           in case (multiplier, newMultiplier) of
                (Some m, Some n) \<Rightarrow>
                  if m > 0 \<and> n > 0
                  then Some \<lparr>sp_multiplier = m, sp_newMultiplier = n, sp_newMultiplierEffectiveAt = effectiveAt,
                             sp_effectiveMultiplier =
                               (case effectiveAt of Some since \<Rightarrow> if js_ge nowUnixSeconds (JsInt since) then n else m | None \<Rightarrow> m)\<rparr>
                  else None
              | _ \<Rightarrow> None)"

definition parseJupiterPrice :: "'w jupiter_env \<Rightarrow> string \<Rightarrow> json option \<Rightarrow> jsnum \<Rightarrow> jupiter_price option" where
  "parseJupiterPrice env mint raw nowUnixSeconds =
     (if \<not> (case raw of Some (JObject _) \<Rightarrow> True | Some (JArray _) \<Rightarrow> True | _ \<Rightarrow> False) then None
      else let r = member_of raw; n = (\<lambda>name. num (je_Number env) (r name))
           in case n ''usdPrice'' of
                None \<Rightarrow> None
              | Some usdPrice \<Rightarrow>
                  if usdPrice \<le> 0 then None
                  else Some \<lparr>jp_mint = mint, jp_usdPrice = usdPrice,
                             jp_decimals = (case n ''decimals'' of Some d \<Rightarrow> d | None \<Rightarrow> 0),
                             jp_liquidity = n ''liquidity'', jp_blockId = n ''blockId'', jp_priceChange24h = n ''priceChange24h'',
                             jp_stockPrice = (if truthy (r ''stockData'') then num (je_Number env) (member_of (r ''stockData'') ''price'')
                                              else None),
                             jp_scaledUi = parse_scaled_ui env (r ''scaledUiConfig'') nowUnixSeconds\<rparr>)"

text \<open>Percent encoding: the UTF-8 bytes of a character below U+0100, and \<open>encodeURIComponent\<close>.\<close>

definition utf8_char :: "char \<Rightarrow> nat list" where
  "utf8_char c = (let n = of_char c :: nat in if n < 128 then [n] else [192 + n div 64, 128 + n mod 64])"

definition hex_upper :: "nat \<Rightarrow> char" where
  "hex_upper d = (if d < 10 then char_of (48 + d) else char_of (55 + d))"

definition percent :: "nat \<Rightarrow> string" where
  "percent b = [CHR ''%'', hex_upper (b div 16), hex_upper (b mod 16)]"

definition alphanumeric :: "char \<Rightarrow> bool" where
  "alphanumeric c \<longleftrightarrow>
     (let n = of_char c :: nat in 48 \<le> n \<and> n \<le> 57 \<or> 65 \<le> n \<and> n \<le> 90 \<or> 97 \<le> n \<and> n \<le> 122)"

definition encodeURIComponent :: "string \<Rightarrow> string" where
  "encodeURIComponent s =
     concat (map (\<lambda>c. if alphanumeric c \<or> c \<in> set ''-_.!~*'' \<union> {CHR 0x27, CHR ''('', CHR '')''} then [c]
                      else concat (map percent (utf8_char c))) s)"

definition price_url :: "string \<Rightarrow> string list \<Rightarrow> string" where
  "price_url baseUrl mints = baseUrl @ ''/price/v3?ids='' @ join_with '','' (map encodeURIComponent mints)"

fun parsed_prices ::
  "'w jupiter_env \<Rightarrow> json \<Rightarrow> jsnum \<Rightarrow> string list \<Rightarrow> (string \<Rightarrow> jupiter_price option) \<Rightarrow> string \<Rightarrow> jupiter_price option" where
  "parsed_prices env body now' [] out = out"
| "parsed_prices env body now' (mint # mints) out =
     (case parseJupiterPrice env mint (member_of (Some body) mint) now' of
        Some p \<Rightarrow> parsed_prices env body now' mints (out(mint \<mapsto> p))
      | None \<Rightarrow> parsed_prices env body now' mints out)"

definition bodyC :: "http_response \<Rightarrow> ('w, json) call" where
  "bodyC res = (case hr_json res of Some v \<Rightarrow> returnC v | None \<Rightarrow> throwC (BadBody ''SyntaxError''))"

definition clockC :: "'w jupiter_env \<Rightarrow> jsnum option \<Rightarrow> ('w, jsnum) call" where
  "clockC env nowUnixSeconds w =
     (case nowUnixSeconds of Some n \<Rightarrow> (Inr n, w) | None \<Rightarrow> (Inr (JsInt (je_now env w div 1000)), w))"

definition getJupiterPrices ::
  "'w jupiter_env \<Rightarrow> string list \<Rightarrow> string option \<Rightarrow> jsnum option \<Rightarrow> ('w, string \<Rightarrow> jupiter_price option) call" where
  "getJupiterPrices env mints baseUrl nowUnixSeconds =
     (if mints = [] then returnC Map.empty
      else bindC (guardC (length mints \<le> 50) (JupiterError ''Price V3 accepts at most 50 ids per request'' None)) (\<lambda>_.
           bindC (je_fetch env (price_url (case baseUrl of Some b \<Rightarrow> b | None \<Rightarrow> JUPITER_LITE_API) mints) None) (\<lambda>res.
           bindC (guardC (hr_ok res)
                   (JupiterError (''Jupiter price request failed: HTTP '' @ toString (hr_status res)) (Some (hr_status res)))) (\<lambda>_.
           bindC (bodyC res) (\<lambda>body.
           bindC (clockC env nowUnixSeconds) (\<lambda>now'.
           returnC (parsed_prices env body now' mints Map.empty)))))))"

section \<open>Ultra orders\<close>

record ultra_order_params =
  op_inputMint :: string
  op_outputMint :: string
  op_amount :: int
  op_taker :: "string option"
  op_slippageBps :: "jsnum option"

record ultra_order =
  uo_requestId :: string
  uo_inputMint :: string
  uo_outputMint :: string
  uo_inAmount :: int
  uo_outAmount :: int
  uo_otherAmountThreshold :: int
  uo_slippageBps :: rat
  uo_priceImpactPct :: "rat option"
  uo_swapMode :: string
  uo_router :: "string option"
  uo_feeBps :: "rat option"
  uo_transaction :: "string option"
  uo_raw :: json

text \<open>\<open>URLSearchParams\<close>: its pairs in order, and their form encoding.\<close>

definition form_char :: "char \<Rightarrow> string" where
  "form_char c =
     (if alphanumeric c \<or> c \<in> set ''*-._'' then [c]
      else if c = CHR '' '' then ''+''
      else concat (map percent (utf8_char c)))"

definition form_encode :: "string \<Rightarrow> string" where
  "form_encode s = concat (map form_char s)"

definition search_params :: "(string \<times> string) list \<Rightarrow> string" where
  "search_params ps = join_with ''&'' (map (\<lambda>(k, v). form_encode k @ ''='' @ form_encode v) ps)"

definition order_pairs :: "(jsnum \<Rightarrow> string) \<Rightarrow> ultra_order_params \<Rightarrow> (string \<times> string) list" where
  "order_pairs numberText p =
     [(''inputMint'', op_inputMint p), (''outputMint'', op_outputMint p), (''amount'', toString (op_amount p))] @
     (case op_taker p of Some t \<Rightarrow> if t = [] then [] else [(''taker'', t)] | None \<Rightarrow> []) @
     (case op_slippageBps p of Some n \<Rightarrow> [(''slippageBps'', numberText n)] | None \<Rightarrow> [])"

definition ultraOrderUrl :: "(jsnum \<Rightarrow> string) \<Rightarrow> ultra_order_params \<Rightarrow> string option \<Rightarrow> jupiter_thrown + string" where
  "ultraOrderUrl numberText p baseUrl =
     (if op_amount p \<le> 0 then Inl BadAmount
      else Inr ((case baseUrl of Some b \<Rightarrow> b | None \<Rightarrow> JUPITER_LITE_API) @ ''/ultra/v1/order?'' @
                search_params (order_pairs numberText p)))"

definition bindS :: "'e + 'a \<Rightarrow> ('a \<Rightarrow> 'e + 'b) \<Rightarrow> 'e + 'b" where
  "bindS m f = (case m of Inl e \<Rightarrow> Inl e | Inr x \<Rightarrow> f x)"

definition is_text :: "json option \<Rightarrow> bool" where
  "is_text v \<longleftrightarrow> (case v of Some (JString _) \<Rightarrow> True | _ \<Rightarrow> False)"

text \<open>What the code makes of the body of an order, in its order of checks.\<close>

definition read_order :: "'w jupiter_env \<Rightarrow> ultra_order_params \<Rightarrow> json \<Rightarrow> jupiter_thrown + ultra_order" where
  "read_order env p body =
     bindS (properties body) (\<lambda>es.
     let r = map_of es; str = js_String (je_numberText env); n = (\<lambda>name. num (je_Number env) (r name))
     in if is_text (r ''errorMessage'') \<or> is_text (r ''error'')
        then Inl (JupiterError (''Ultra order error: '' @
               str (orElse (r ''errorMessage'') (case r ''error'' of Some e \<Rightarrow> e | None \<Rightarrow> JString ''undefined''))) None)
        else case json_string (r ''requestId'') of
          None \<Rightarrow> Inl (JupiterError ''Ultra order has no requestId'' None)
        | Some requestId \<Rightarrow>
            bindS (big (r ''inAmount'') ''inAmount'') (\<lambda>inAmount.
            bindS (big (r ''outAmount'') ''outAmount'') (\<lambda>outAmount.
            bindS (big (case r ''otherAmountThreshold'' of
                          None \<Rightarrow> r ''outAmount'' | Some JNull \<Rightarrow> r ''outAmount'' | Some v \<Rightarrow> Some v)
                     ''otherAmountThreshold'') (\<lambda>threshold.
            Inr \<lparr>uo_requestId = requestId,
                 uo_inputMint = str (orElse (r ''inputMint'') (JString (op_inputMint p))),
                 uo_outputMint = str (orElse (r ''outputMint'') (JString (op_outputMint p))),
                 uo_inAmount = inAmount, uo_outAmount = outAmount, uo_otherAmountThreshold = threshold,
                 uo_slippageBps = (case n ''slippageBps'' of Some s \<Rightarrow> s | None \<Rightarrow> 0),
                 uo_priceImpactPct = n ''priceImpactPct'',
                 uo_swapMode = str (orElse (r ''swapMode'') (JString ''ExactIn'')),
                 uo_router = json_string (r ''router''),
                 uo_feeBps = n ''feeBps'',
                 uo_transaction = (case json_string (r ''transaction'') of Some t \<Rightarrow> if t = [] then None else Some t | None \<Rightarrow> None),
                 uo_raw = body\<rparr>))))"

definition getUltraOrder :: "'w jupiter_env \<Rightarrow> ultra_order_params \<Rightarrow> string option \<Rightarrow> ('w, ultra_order) call" where
  "getUltraOrder env p baseUrl =
     bindC (liftC (ultraOrderUrl (je_numberText env) p baseUrl)) (\<lambda>url.
     bindC (je_fetch env url None) (\<lambda>res.
     bindC (guardC (hr_ok res)
              (JupiterError (''Ultra order failed: HTTP '' @ toString (hr_status res) @ '' '' @
                 (case hr_text res of Some t \<Rightarrow> t | None \<Rightarrow> [])) (Some (hr_status res)))) (\<lambda>_.
     bindC (bodyC res) (\<lambda>body.
     liftC (read_order env p body)))))"

record ultra_execute_result =
  ux_status :: string
  ux_signature :: "string option"
  ux_code :: "rat option"
  ux_error :: "string option"
  ux_inputAmountResult :: "int option"
  ux_outputAmountResult :: "int option"

text \<open>\<open>JSON.stringify\<close> of the request body, an object of two texts.\<close>

definition hex_lower :: "nat \<Rightarrow> char" where
  "hex_lower d = (if d < 10 then char_of (48 + d) else char_of (87 + d))"

definition json_char :: "char \<Rightarrow> string" where
  "json_char c =
     (let n = of_char c :: nat
      in if n = 34 \<or> n = 92 then [CHR 0x5C, c]
         else if n = 8 then [CHR 0x5C, CHR ''b''] else if n = 9 then [CHR 0x5C, CHR ''t'']
         else if n = 10 then [CHR 0x5C, CHR ''n''] else if n = 12 then [CHR 0x5C, CHR ''f'']
         else if n = 13 then [CHR 0x5C, CHR ''r'']
         else if n < 32 then [CHR 0x5C, CHR ''u'', CHR ''0'', CHR ''0'', hex_lower (n div 16), hex_lower (n mod 16)]
         else [c])"

definition json_quote :: "string \<Rightarrow> string" where
  "json_quote s = CHR 0x22 # concat (map json_char s) @ [CHR 0x22]"

definition execute_body :: "string \<Rightarrow> string \<Rightarrow> string" where
  "execute_body signedTx requestId =
     ''{'' @ json_quote ''signedTransaction'' @ '':'' @ json_quote signedTx @ '','' @ json_quote ''requestId'' @ '':'' @
     json_quote requestId @ ''}''"

definition execute_init :: "string \<Rightarrow> string \<Rightarrow> fetch_init" where
  "execute_init signedTx requestId =
     \<lparr>fi_method = ''POST'', fi_headers = [(''content-type'', ''application/json'')], fi_body = execute_body signedTx requestId\<rparr>"

definition amount_text :: "json option \<Rightarrow> int option" where
  "amount_text v = (case v of Some (JString s) \<Rightarrow> if digits_only s then Some (digits_value s) else None | _ \<Rightarrow> None)"

definition read_execution :: "'w jupiter_env \<Rightarrow> json \<Rightarrow> jupiter_thrown + ultra_execute_result" where
  "read_execution env body =
     bindS (properties body) (\<lambda>es.
     let r = map_of es
     in Inr \<lparr>ux_status = js_String (je_numberText env) (orElse (r ''status'') (JString ''Unknown'')),
             ux_signature = json_string (r ''signature''), ux_code = num (je_Number env) (r ''code''),
             ux_error = json_string (r ''error''),
             ux_inputAmountResult = amount_text (r ''inputAmountResult''),
             ux_outputAmountResult = amount_text (r ''outputAmountResult'')\<rparr>)"

definition executeUltraOrder ::
  "'w jupiter_env \<Rightarrow> string \<Rightarrow> string \<Rightarrow> string option \<Rightarrow> ('w, ultra_execute_result) call" where
  "executeUltraOrder env signedTransactionBase64 requestId baseUrl =
     bindC (je_fetch env ((case baseUrl of Some b \<Rightarrow> b | None \<Rightarrow> JUPITER_LITE_API) @ ''/ultra/v1/execute'')
              (Some (execute_init signedTransactionBase64 requestId))) (\<lambda>res.
     bindC (guardC (hr_ok res)
              (JupiterError (''Ultra execute failed: HTTP '' @ toString (hr_status res)) (Some (hr_status res)))) (\<lambda>_.
     bindC (bodyC res) (\<lambda>body.
     liftC (read_execution env body))))"

section \<open>What a request says\<close>

text \<open>
  The query of an address, read as a server does: the pairs between ampersands, split at the first equals
  sign, with percent triples and plus signs decoded and the bytes read as UTF-8.
\<close>

definition hex_value :: "char \<Rightarrow> nat" where
  "hex_value c = (let n = of_char c :: nat in if n \<le> 57 then n - 48 else if n \<le> 70 then n - 55 else n - 87)"

fun form_bytes :: "string \<Rightarrow> nat list" where
  "form_bytes [] = []"
| "form_bytes (c # cs) =
     (if c = CHR ''%''
      then (case cs of h # l # rest \<Rightarrow> (hex_value h * 16 + hex_value l) # form_bytes rest | _ \<Rightarrow> [37])
      else if c = CHR ''+'' then 32 # form_bytes cs
      else utf8_char c @ form_bytes cs)"

fun utf8_text :: "nat list \<Rightarrow> string" where
  "utf8_text [] = []"
| "utf8_text (a # bs) =
     (if a < 128 then char_of a # utf8_text bs
      else case bs of b # rest \<Rightarrow> char_of ((a - 192) * 64 + (b - 128)) # utf8_text rest | [] \<Rightarrow> [])"

definition form_decode :: "string \<Rightarrow> string" where
  "form_decode s = utf8_text (form_bytes s)"

fun split_on :: "char \<Rightarrow> string \<Rightarrow> string list" where
  "split_on sep [] = [[]]"
| "split_on sep (c # cs) =
     (if c = sep then [] # split_on sep cs
      else case split_on sep cs of p # ps \<Rightarrow> (c # p) # ps | [] \<Rightarrow> [[c]])"

definition form_pair :: "string \<Rightarrow> string \<times> string" where
  "form_pair s = (form_decode (takeWhile (\<lambda>c. c \<noteq> CHR ''='') s), form_decode (tl (dropWhile (\<lambda>c. c \<noteq> CHR ''='') s)))"

definition query_pairs :: "string \<Rightarrow> (string \<times> string) list" where
  "query_pairs q = map form_pair (split_on CHR ''&'' q)"

lemma hex_values: "d < 16 \<Longrightarrow> hex_value (hex_upper d) = d"
  by (auto simp: hex_value_def hex_upper_def Let_def)

lemma char_below: "(of_char c :: nat) < 256"
  by (metis of_char_of mod_less_divisor of_char_mod_256 zero_less_numeral)

lemma form_bytes_percent: "b < 256 \<Longrightarrow> form_bytes (percent b @ s) = b # form_bytes s"
  by (simp add: percent_def hex_values less_mult_imp_div_less)

lemma form_bytes_percents: "list_all (\<lambda>b. b < 256) bs \<Longrightarrow> form_bytes (concat (map percent bs) @ s) = bs @ form_bytes s"
  by (induction bs) (simp_all add: form_bytes_percent)

lemma utf8_below: "list_all (\<lambda>b. b < 256) (utf8_char c)"
proof -
  have "(of_char c :: nat) div 64 \<le> 255 div 64" by (rule div_le_mono) (use char_below [of c] in linarith)
  moreover have "(of_char c :: nat) mod 64 < 64" by simp
  ultimately show ?thesis by (auto simp: utf8_char_def Let_def)
qed

lemma form_char_kept: "alphanumeric c \<or> c \<in> set ''*-._'' \<Longrightarrow> c \<noteq> CHR ''%'' \<and> c \<noteq> CHR ''+'' \<and> c \<noteq> CHR ''='' \<and> c \<noteq> CHR ''&''"
  by (auto simp: alphanumeric_def Let_def)

lemma form_bytes_char: "form_bytes (form_char c @ s) = utf8_char c @ form_bytes s"
proof (cases "alphanumeric c \<or> c \<in> set ''*-._''")
  case True
  then show ?thesis using form_char_kept [OF True] by (simp add: form_char_def)
next
  case False
  show ?thesis
  proof (cases "c = CHR '' ''")
    case True
    then show ?thesis by (simp add: form_char_def utf8_char_def alphanumeric_def)
  next
    case other: False
    with False show ?thesis by (simp add: form_char_def form_bytes_percents utf8_below)
  qed
qed

lemma utf8_text_char: "utf8_text (utf8_char c @ bs) = c # utf8_text bs"
proof -
  have "(of_char c :: nat) div 64 * 64 + (of_char c) mod 64 = of_char c" by simp
  then show ?thesis by (simp add: utf8_char_def Let_def)
qed

theorem form_round_trip [simp]: "form_decode (form_encode s) = s"
proof -
  have "utf8_text (form_bytes (form_encode s)) = s"
    by (induction s) (simp_all add: form_encode_def form_bytes_char utf8_text_char)
  then show ?thesis by (simp add: form_decode_def)
qed

lemma hex_upper_plain: "d < 16 \<Longrightarrow> hex_upper d \<noteq> CHR ''='' \<and> hex_upper d \<noteq> CHR ''&''"
  by (auto simp: hex_upper_def dest!: arg_cong [where f = "of_char :: char \<Rightarrow> nat"])

lemma percent_plain: "b < 256 \<Longrightarrow> c \<in> set (percent b) \<Longrightarrow> c \<noteq> CHR ''='' \<and> c \<noteq> CHR ''&''"
  using hex_upper_plain [of "b div 16"] hex_upper_plain [of "b mod 16"]
  by (auto simp: percent_def less_mult_imp_div_less)

lemma form_encode_plain: "c \<in> set (form_encode s) \<Longrightarrow> c \<noteq> CHR ''='' \<and> c \<noteq> CHR ''&''"
proof -
  have "c \<noteq> CHR ''='' \<and> c \<noteq> CHR ''&''" if c: "c \<in> set (form_char d)" for d
  proof (cases "alphanumeric d \<or> d \<in> set ''*-._''")
    case True
    with c form_char_kept [OF True] show ?thesis by (simp add: form_char_def)
  next
    case False
    with c percent_plain [of _ c] utf8_below [of d] show ?thesis
      by (auto simp: form_char_def list_all_iff split: if_splits)
  qed
  then show "c \<in> set (form_encode s) \<Longrightarrow> ?thesis" by (auto simp: form_encode_def)
qed

lemma split_on_plain: "sep \<notin> set s \<Longrightarrow> split_on sep s = [s]"
  by (induction s) auto

lemma split_on_append: "sep \<notin> set s \<Longrightarrow> split_on sep (s @ sep # t) = s # split_on sep t"
  by (induction s) auto

lemma split_on_joined:
  "ss \<noteq> [] \<Longrightarrow> \<forall>s \<in> set ss. sep \<notin> set s \<Longrightarrow> split_on sep (join_with [sep] ss) = ss"
  by (induction "[sep]" ss rule: join_with.induct) (simp_all add: split_on_plain split_on_append)

lemma form_pair_encoded: "form_pair (form_encode k @ CHR ''='' # form_encode v) = (k, v)"
proof -
  have "takeWhile (\<lambda>c. c \<noteq> CHR ''='') (form_encode k @ CHR ''='' # form_encode v) = form_encode k"
    "dropWhile (\<lambda>c. c \<noteq> CHR ''='') (form_encode k @ CHR ''='' # form_encode v) = CHR ''='' # form_encode v"
    using form_encode_plain [of _ k] by (simp_all add: takeWhile_append2 dropWhile_append2)
  then show ?thesis by (simp add: form_pair_def)
qed

lemma search_params_read: "ps \<noteq> [] \<Longrightarrow> query_pairs (search_params ps) = ps"
proof -
  assume "ps \<noteq> []"
  moreover have "\<forall>s \<in> set (map (\<lambda>(k, v). form_encode k @ ''='' @ form_encode v) ps). CHR ''&'' \<notin> set s"
    using form_encode_plain by fastforce
  ultimately show ?thesis
    by (auto simp: query_pairs_def search_params_def split_on_joined form_pair_encoded o_def case_prod_beta intro: map_idI)
qed

text \<open>
  The address of an order says exactly what was asked. For any mints, amount, wallet and slippage text the query
  of the address decodes to the request's pairs, in order and with nothing added: no character of a
  parameter can end it or start another. A request without a positive amount has no address.
\<close>

theorem order_url_says_request:
  "(case ultraOrderUrl numberText p baseUrl of
      Inl e \<Rightarrow> op_amount p \<le> 0 \<and> e = BadAmount
    | Inr url \<Rightarrow>
        0 < op_amount p \<and>
        (\<exists>q. url = (case baseUrl of Some b \<Rightarrow> b | None \<Rightarrow> JUPITER_LITE_API) @ ''/ultra/v1/order?'' @ q \<and>
           query_pairs q = order_pairs numberText p \<and>
           map_of (query_pairs q) ''inputMint'' = Some (op_inputMint p) \<and>
           map_of (query_pairs q) ''outputMint'' = Some (op_outputMint p) \<and>
           map_of (query_pairs q) ''amount'' = Some (toString (op_amount p)) \<and>
           map_of (query_pairs q) ''taker'' = (if op_taker p = Some [] then None else op_taker p) \<and>
           map_of (query_pairs q) ''slippageBps'' = map_option numberText (op_slippageBps p)))"
proof -
  have n: "order_pairs numberText p \<noteq> []" by (simp add: order_pairs_def)
  have m: "map_of (order_pairs numberText p) ''inputMint'' = Some (op_inputMint p) \<and>
     map_of (order_pairs numberText p) ''outputMint'' = Some (op_outputMint p) \<and>
     map_of (order_pairs numberText p) ''amount'' = Some (toString (op_amount p)) \<and>
     map_of (order_pairs numberText p) ''taker'' = (if op_taker p = Some [] then None else op_taker p) \<and>
     map_of (order_pairs numberText p) ''slippageBps'' = map_option numberText (op_slippageBps p)"
    by (cases "op_taker p"; cases "op_slippageBps p") (simp_all add: order_pairs_def)
  show ?thesis
    using m search_params_read [OF n] by (auto simp: ultraOrderUrl_def)
qed

section \<open>What an accepted answer satisfies\<close>

lemma bindS_Inr: "bindS m f = Inr y \<longleftrightarrow> (\<exists>x. m = Inr x \<and> f x = Inr y)"
  by (cases m) (simp_all add: bindS_def)

lemma digits_value_nonneg: "list_all is_digit s \<Longrightarrow> 0 \<le> digits_value s"
proof (induction s rule: rev_induct)
  case (snoc c s)
  then show ?case by (simp add: digits_value_append is_digit_def)
qed simp

lemma big_nonneg: "big v what = Inr i \<Longrightarrow> 0 \<le> i"
  by (auto simp: big_def digits_only_def digits_value_nonneg split: option.splits json.splits if_splits)

lemma read_order_sound:
  assumes "read_order env p body = Inr order"
  shows "0 \<le> uo_inAmount order \<and> 0 \<le> uo_outAmount order \<and> 0 \<le> uo_otherAmountThreshold order \<and>
    uo_transaction order \<noteq> Some []"
  using assms
  by (auto simp: read_order_def Let_def bindS_Inr big_nonneg split: if_splits option.splits)

lemma amount_text_nonneg: "amount_text v = Some i \<Longrightarrow> 0 \<le> i"
  by (auto simp: amount_text_def digits_only_def digits_value_nonneg split: option.splits json.splits if_splits)

lemma read_execution_sound:
  assumes "read_execution env body = Inr res"
  shows "(\<forall>i. ux_inputAmountResult res = Some i \<longrightarrow> 0 \<le> i) \<and> (\<forall>i. ux_outputAmountResult res = Some i \<longrightarrow> 0 \<le> i)"
  using assms amount_text_nonneg by (auto simp: read_execution_def bindS_Inr Let_def)

lemma scaled_ui_sound:
  assumes "parse_scaled_ui env s now' = Some u"
  shows "0 < sp_multiplier u \<and> 0 < sp_newMultiplier u \<and> sp_effectiveMultiplier u \<in> {sp_multiplier u, sp_newMultiplier u}"
  using assms by (auto simp: parse_scaled_ui_def Let_def split: if_splits option.splits)

lemma price_sound:
  assumes "parseJupiterPrice env mint raw now' = Some p"
  shows "jp_mint p = mint \<and> 0 < jp_usdPrice p \<and>
    (\<forall>u. jp_scaledUi p = Some u \<longrightarrow>
       0 < sp_multiplier u \<and> 0 < sp_newMultiplier u \<and> sp_effectiveMultiplier u \<in> {sp_multiplier u, sp_newMultiplier u})"
  using assms scaled_ui_sound by (fastforce simp: parseJupiterPrice_def Let_def split: if_splits option.splits)

lemma parsed_prices_in:
  "parsed_prices env body now' mints out m =
     (if m \<in> set mints \<and> parseJupiterPrice env m (member_of (Some body) m) now' \<noteq> None
      then parseJupiterPrice env m (member_of (Some body) m) now' else out m)"
  by (induction mints arbitrary: out) (auto split: option.splits)

text \<open>Prices come back for asked mints only, and every one is positive.\<close>

lemma prices_are_positive:
  assumes "getJupiterPrices env mints baseUrl nowUnixSeconds w = (Inr out, w')" "out m = Some p"
  shows "m \<in> set mints \<and> length mints \<le> 50 \<and> jp_mint p = m \<and> 0 < jp_usdPrice p"
proof -
  from assms(1) have "mints \<noteq> []" using assms(2) by (auto simp: getJupiterPrices_def returnC_def)
  with assms obtain body now' where "out = parsed_prices env body now' mints Map.empty" "length mints \<le> 50"
    by (auto simp: getJupiterPrices_def bindC_def guardC_def returnC_def throwC_def split: prod.splits sum.splits if_splits)
  with assms(2) price_sound [of env m] show ?thesis by (auto simp: parsed_prices_in split: if_splits)
qed

end
