(* ===== verification/WebSwap.thy ===== *)
theory WebSwap
  imports Jupiter Base64 WebActions
begin

text \<open>
  \<^verbatim>\<open>app/src/lib/chain/jupiterRoute.ts\<close>: one Jupiter Ultra swap signed by the connected wallet. The transaction type
  of web3.js and the wallet's signature are in the record \<open>swap_env\<close>. The property follows a swap through a
  recording of everything it asks: it signs at most once, and only what the order gave it.
\<close>

section \<open>The swap\<close>

record ('w, 'tx) swap_env =
  xe_jupiter :: "'w jupiter_env"
  xe_toBase58 :: "pubkey \<Rightarrow> string"
  xe_deserialize :: "bytes \<Rightarrow> web_thrown + 'tx"
  xe_serialize :: "'tx \<Rightarrow> web_thrown + bytes"
  xe_sign :: "pubkey \<Rightarrow> 'tx \<Rightarrow> 'w \<Rightarrow> (web_thrown + 'tx) \<times> 'w"

definition plain_error :: "string \<Rightarrow> string \<Rightarrow> web_thrown" where
  "plain_error name message =
     Foreign \<lparr>tv_class = OtherClass, tv_name = name, tv_message = message, tv_code = None, tv_errorName = None, tv_logs = []\<rparr>"

definition told_user :: "string \<Rightarrow> web_thrown" where
  "told_user message =
     Foreign \<lparr>tv_class = UserFacingErrorClass, tv_name = ''UserFacingError'', tv_message = message, tv_code = None,
              tv_errorName = None, tv_logs = []\<rparr>"

fun call_thrown :: "jupiter_thrown \<Rightarrow> web_thrown" where
  "call_thrown (FetchFailed m) = plain_error ''TypeError'' m"
| "call_thrown (JupiterError m status) = plain_error ''JupiterError'' m"
| "call_thrown BadAmount = plain_error ''RangeError'' ''amount must be positive''"
| "call_thrown NullRead = plain_error ''TypeError'' ''Cannot read properties of null''"
| "call_thrown (BadBody m) = plain_error ''SyntaxError'' m"

definition order_params :: "('w, 'tx) swap_env \<Rightarrow> pubkey \<Rightarrow> ultra_params \<Rightarrow> ultra_order_params" where
  "order_params env wallet params =
     \<lparr>op_inputMint = up_inputMint params, op_outputMint = up_outputMint params, op_amount = up_amount params,
      op_taker = Some (xe_toBase58 env wallet), op_slippageBps = Some (up_slippageBps params)\<rparr>"

text \<open>The transaction of an order.\<close>

definition order_transaction :: "('w, 'tx) swap_env \<Rightarrow> ultra_order \<Rightarrow> web_thrown + 'tx" where
  "order_transaction env order =
     (case uo_transaction order of
        None \<Rightarrow> Inl (told_user ''Jupiter returned no transaction for this route. Try a different amount.'')
      | Some t \<Rightarrow> (case base64ToBytes t of Inl e \<Rightarrow> Inl (SdkThrown e) | Inr data \<Rightarrow> xe_deserialize env data))"

text \<open>What the swap answers, from the execution and the order.\<close>

definition swap_result :: "ultra_order \<Rightarrow> ultra_execute_result \<Rightarrow> web_thrown + ultra_swap_result" where
  "swap_result order res =
     (case ux_signature res of
        Some signature \<Rightarrow>
          if ux_status res \<noteq> ''Success'' \<or> signature = []
          then Inl (told_user (''Jupiter could not execute the swap'' @
                 (case ux_error res of Some e \<Rightarrow> if e = [] then [] else '': '' @ e | None \<Rightarrow> []) @ ''.''))
          else Inr \<lparr>us_signature = signature,
                    us_inAmount = (case ux_inputAmountResult res of Some a \<Rightarrow> a | None \<Rightarrow> uo_inAmount order),
                    us_outAmount = (case ux_outputAmountResult res of Some a \<Rightarrow> a | None \<Rightarrow> uo_otherAmountThreshold order)\<rparr>
      | None \<Rightarrow>
          Inl (told_user (''Jupiter could not execute the swap'' @
            (case ux_error res of Some e \<Rightarrow> if e = [] then [] else '': '' @ e | None \<Rightarrow> []) @ ''.'')))"

definition execute_signed ::
  "('w, 'tx) swap_env \<Rightarrow> ultra_order \<Rightarrow> 'tx \<Rightarrow> 'w \<Rightarrow> (web_thrown + ultra_swap_result) \<times> 'w" where
  "execute_signed env order signedTx w =
     (case xe_serialize env signedTx of
        Inl e \<Rightarrow> (Inl e, w)
      | Inr raw \<Rightarrow>
          (case executeUltraOrder (xe_jupiter env) (bytesToBase64 raw) (uo_requestId order) None w of
             (Inl e, w') \<Rightarrow> (Inl (call_thrown e), w')
           | (Inr res, w') \<Rightarrow> (swap_result order res, w')))"

definition ultraSwap ::
  "('w, 'tx) swap_env \<Rightarrow> pubkey \<Rightarrow> ultra_params \<Rightarrow> 'w \<Rightarrow> step_phase list \<times> (web_thrown + ultra_swap_result) \<times> 'w" where
  "ultraSwap env wallet params w =
     (case getUltraOrder (xe_jupiter env) (order_params env wallet params) None w of
        (Inl e, w1) \<Rightarrow> ([], Inl (call_thrown e), w1)
      | (Inr order, w1) \<Rightarrow>
          (case order_transaction env order of
             Inl e \<Rightarrow> ([], Inl e, w1)
           | Inr tx \<Rightarrow>
               (case xe_sign env wallet tx w1 of
                  (Inl e, w2) \<Rightarrow> ([Signing], Inl e, w2)
                | (Inr signedTx, w2) \<Rightarrow> ([Signing, Confirming], execute_signed env order signedTx w2))))"

text \<open>The actions with this swap, which is what they use unless a test passes another one.\<close>

definition with_ultra_swap :: "'w web_env \<Rightarrow> ('w, 'tx) swap_env \<Rightarrow> 'w web_env" where
  "with_ultra_swap env senv = env\<lparr>we_swap := ultraSwap senv\<rparr>"

text \<open>The two order shorthands of the client, in USDC and in SOL.\<close>

definition getUsdcToQuoteOrder ::
  "'w jupiter_env \<Rightarrow> string \<Rightarrow> int \<Rightarrow> string option \<Rightarrow> string option \<Rightarrow> ('w, ultra_order) call" where
  "getUsdcToQuoteOrder env quoteMint usdcRaw taker baseUrl =
     getUltraOrder env
       \<lparr>op_inputMint = USDC_MINT, op_outputMint = quoteMint, op_amount = usdcRaw, op_taker = taker, op_slippageBps = None\<rparr> baseUrl"

definition getSolToQuoteOrder ::
  "'w jupiter_env \<Rightarrow> string \<Rightarrow> int \<Rightarrow> string option \<Rightarrow> string option \<Rightarrow> ('w, ultra_order) call" where
  "getSolToQuoteOrder env quoteMint lamports taker baseUrl =
     getUltraOrder env
       \<lparr>op_inputMint = WSOL_MINT, op_outputMint = quoteMint, op_amount = lamports, op_taker = taker, op_slippageBps = None\<rparr> baseUrl"

section \<open>What a swap asks for\<close>

datatype 'tx swap_event =
    Asked string "jupiter_thrown + http_response"
  | Signed pubkey 'tx "web_thrown + 'tx"
  | Posted string fetch_init "jupiter_thrown + http_response"

definition recorded_fetch ::
  "'w jupiter_env \<Rightarrow> string \<Rightarrow> fetch_init option \<Rightarrow> ('w \<times> 'tx swap_event list, http_response) call" where
  "recorded_fetch env url args w =
     (case je_fetch env url args (fst w) of (res, w') \<Rightarrow>
        (res, w', snd w @ [case args of None \<Rightarrow> Asked url res | Some i \<Rightarrow> Posted url i res]))"

definition recorded :: "('w, 'tx) swap_env \<Rightarrow> ('w \<times> 'tx swap_event list, 'tx) swap_env" where
  "recorded env =
     \<lparr>xe_jupiter =
        \<lparr>je_fetch = recorded_fetch (xe_jupiter env), je_now = (\<lambda>w. je_now (xe_jupiter env) (fst w)),
         je_Number = je_Number (xe_jupiter env), je_numberText = je_numberText (xe_jupiter env),
         je_dateParse = je_dateParse (xe_jupiter env)\<rparr>,
      xe_toBase58 = xe_toBase58 env, xe_deserialize = xe_deserialize env, xe_serialize = xe_serialize env,
      xe_sign = (\<lambda>key tx w. case xe_sign env key tx (fst w) of (res, w') \<Rightarrow> (res, w', snd w @ [Signed key tx res]))\<rparr>"

text \<open>An order the recording shows: the request, what was answered, and the order read out of it.\<close>

definition order_asked ::
  "('w, 'tx) swap_env \<Rightarrow> pubkey \<Rightarrow> ultra_params \<Rightarrow> 'tx swap_event \<Rightarrow> ultra_order \<Rightarrow> bool" where
  "order_asked env wallet params ev order \<longleftrightarrow>
     (\<exists>url res body. ev = Asked url (Inr res) \<and>
        ultraOrderUrl (je_numberText (xe_jupiter env)) (order_params env wallet params) None = Inr url \<and>
        hr_ok res \<and> hr_json res = Some body \<and>
        read_order (xe_jupiter env) (order_params env wallet params) body = Inr order)"

definition order_carries :: "('w, 'tx) swap_env \<Rightarrow> ultra_order \<Rightarrow> 'tx \<Rightarrow> bool" where
  "order_carries env order tx \<longleftrightarrow>
     (\<exists>t data. uo_transaction order = Some t \<and> base64ToBytes t = Inr data \<and> xe_deserialize env data = Inr tx)"

text \<open>The submission of a signed transaction under the order's id.\<close>

definition submits ::
  "('w, 'tx) swap_env \<Rightarrow> ultra_order \<Rightarrow> 'tx \<Rightarrow> 'tx swap_event \<Rightarrow> (jupiter_thrown + http_response) \<Rightarrow> bool" where
  "submits env order signedTx ev res \<longleftrightarrow>
     (\<exists>raw. xe_serialize env signedTx = Inr raw \<and>
        ev = Posted (JUPITER_LITE_API @ ''/ultra/v1/execute'') (execute_init (bytesToBase64 raw) (uo_requestId order)) res)"

lemma recorded_simps [simp]:
  "je_numberText (xe_jupiter (recorded env)) = je_numberText (xe_jupiter env)"
  "je_fetch (xe_jupiter (recorded env)) = recorded_fetch (xe_jupiter env)"
  "order_params (recorded env) = order_params env" "order_transaction (recorded env) = order_transaction env"
  "xe_serialize (recorded env) = xe_serialize env" "je_Number (xe_jupiter (recorded env)) = je_Number (xe_jupiter env)"
  by (simp_all add: recorded_def order_params_def order_transaction_def fun_eq_iff split: option.split sum.split)

lemma recorded_reads [simp]:
  "read_order (xe_jupiter (recorded env)) = read_order (xe_jupiter env)"
  "read_execution (xe_jupiter (recorded env)) = read_execution (xe_jupiter env)"
  by (simp_all add: fun_eq_iff read_order_def read_execution_def)

lemma recorded_sign:
  "xe_sign (recorded env) key tx w = (case xe_sign env key tx (fst w) of (res, w') \<Rightarrow> (res, w', snd w @ [Signed key tx res]))"
  by (simp add: recorded_def)

lemma asks_order:
  "(case getUltraOrder (xe_jupiter (recorded env)) (order_params env wallet params) None (w, seen) of
      (Inr order, _, seen') \<Rightarrow> \<exists>ev. seen' = seen @ [ev] \<and> order_asked env wallet params ev order
    | (Inl _, _, seen') \<Rightarrow> seen' = seen \<or> (\<exists>url res. seen' = seen @ [Asked url res]))"
  by (auto simp: getUltraOrder_def bindC_def liftC_def guardC_def returnC_def throwC_def bodyC_def recorded_fetch_def
      order_asked_def split: sum.splits prod.splits option.splits if_splits)

definition reported ::
  "('w, 'tx) swap_env \<Rightarrow> ultra_order \<Rightarrow> (jupiter_thrown + http_response) \<Rightarrow> (web_thrown + ultra_swap_result) \<Rightarrow> bool" where
  "reported env order http res \<longleftrightarrow>
     (case res of
        Inl _ \<Rightarrow> True
      | Inr s \<Rightarrow> \<exists>r body x. http = Inr r \<and> hr_ok r \<and> hr_json r = Some body \<and>
          read_execution (xe_jupiter env) body = Inr x \<and> swap_result order x = Inr s)"

lemma posts_once:
  "case executeUltraOrder (xe_jupiter (recorded env)) payload rid None (w, seen) of (out, _, seen') \<Rightarrow>
     \<exists>http. seen' = seen @ [Posted (JUPITER_LITE_API @ ''/ultra/v1/execute'') (execute_init payload rid) http] \<and>
       (case out of
          Inl _ \<Rightarrow> True
        | Inr x \<Rightarrow> \<exists>r body. http = Inr r \<and> hr_ok r \<and> hr_json r = Some body \<and> read_execution (xe_jupiter env) body = Inr x)"
  by (auto simp: executeUltraOrder_def bindC_def liftC_def guardC_def returnC_def throwC_def bodyC_def recorded_fetch_def
      split: sum.splits prod.splits option.splits if_splits)

lemma submits_once:
  "case execute_signed (recorded env) order signedTx (w, seen) of (res, _, seen') \<Rightarrow>
     (seen' = seen \<and> isl res) \<or>
     (\<exists>ev http. seen' = seen @ [ev] \<and> submits env order signedTx ev http \<and> reported env order http res)"
proof (cases "xe_serialize env signedTx")
  case (Inl e)
  then show ?thesis by (simp add: execute_signed_def)
next
  case (Inr raw)
  obtain out w' seen' where o: "executeUltraOrder (xe_jupiter (recorded env)) (bytesToBase64 raw) (uo_requestId order) None (w, seen)
      = (out, w', seen')" by (metis prod_cases3)
  from posts_once [where env = env and payload = "bytesToBase64 raw" and rid = "uo_requestId order" and w = w and seen = seen, unfolded o]
  obtain http where h: "seen' = seen @ [Posted (JUPITER_LITE_API @ ''/ultra/v1/execute'')
      (execute_init (bytesToBase64 raw) (uo_requestId order)) http]"
    "case out of Inl _ \<Rightarrow> True
     | Inr x \<Rightarrow> \<exists>r body. http = Inr r \<and> hr_ok r \<and> hr_json r = Some body \<and> read_execution (xe_jupiter env) body = Inr x"
    by auto
  have "submits env order signedTx (Posted (JUPITER_LITE_API @ ''/ultra/v1/execute'')
      (execute_init (bytesToBase64 raw) (uo_requestId order)) http) http"
    using Inr by (simp add: submits_def)
  moreover have "reported env order http (case out of Inl e \<Rightarrow> Inl (call_thrown e) | Inr x \<Rightarrow> swap_result order x)"
    using h(2) by (auto simp: reported_def split: sum.splits)
  ultimately show ?thesis
    using Inr o h(1) by (cases out) (auto simp: execute_signed_def)
qed

lemma swap_result_sound:
  assumes "swap_result order x = Inr s" "read_order j p body = Inr order" "read_execution j body' = Inr x"
  shows "ux_status x = ''Success'' \<and> ux_signature x = Some (us_signature s) \<and> us_signature s \<noteq> [] \<and>
    0 \<le> us_inAmount s \<and> 0 \<le> us_outAmount s \<and>
    us_outAmount s = (case ux_outputAmountResult x of Some a \<Rightarrow> a | None \<Rightarrow> uo_otherAmountThreshold order)"
  using assms read_order_sound [OF assms(2)] read_execution_sound [OF assms(3)]
  by (auto simp: swap_result_def split: option.splits if_splits)

text \<open>The result a submission may be reported with.\<close>

definition earned ::
  "('w, 'tx) swap_env \<Rightarrow> ultra_order \<Rightarrow> (jupiter_thrown + http_response) \<Rightarrow> (web_thrown + ultra_swap_result) \<Rightarrow> bool" where
  "earned env order http res \<longleftrightarrow>
     (case res of
        Inl _ \<Rightarrow> True
      | Inr s \<Rightarrow> us_signature s \<noteq> [] \<and> 0 \<le> us_inAmount s \<and> 0 \<le> us_outAmount s \<and>
          (\<exists>r body x. http = Inr r \<and> hr_ok r \<and> hr_json r = Some body \<and>
             read_execution (xe_jupiter env) body = Inr x \<and> ux_status x = ''Success'' \<and>
             ux_signature x = Some (us_signature s) \<and>
             us_outAmount s = (case ux_outputAmountResult x of Some a \<Rightarrow> a | None \<Rightarrow> uo_otherAmountThreshold order)))"

lemma reported_sound:
  assumes "reported env order http res" "read_order (xe_jupiter env) p body = Inr order"
  shows "earned env order http res"
proof (cases res)
  case (Inr s)
  with assms(1) obtain r b x where h: "http = Inr r" "hr_ok r" "hr_json r = Some b" "read_execution (xe_jupiter env) b = Inr x"
    "swap_result order x = Inr s" by (auto simp: reported_def)
  show ?thesis
    unfolding earned_def Inr sum.case using h swap_result_sound [OF h(5) assms(2) h(4)] by blast
qed (simp add: earned_def)

text \<open>
  C20: a swap through Jupiter signs one order. Whatever the client, Jupiter and the wallet answer, a swap asks for at
  most one order, signs at most once, and submits at most once, in that order. What it signs is the
  transaction of the order it asked for (with the user's mints, amount, slippage and wallet), and what it submits is that
  signature under the id of that order. It reports a result only when the submission was answered with
  Success and a signature; the output it reports is the executed one or else the least the order guarantees.
\<close>

theorem swap_signs_one_order:
  "case ultraSwap (recorded env) wallet params (w, []) of (phases, res, _, seen) \<Rightarrow>
     (seen = [] \<and> isl res) \<or> (\<exists>url http. seen = [Asked url http] \<and> isl res) \<or>
     (\<exists>order asked tx. order_asked env wallet params asked order \<and> order_carries env order tx \<and>
        ((\<exists>answer. seen = [asked, Signed wallet tx answer] \<and> isl res) \<or>
         (\<exists>signedTx posted http.
           seen = [asked, Signed wallet tx (Inr signedTx), posted] \<and> submits env order signedTx posted http \<and>
           earned env order http res)))"
proof -
  let ?env = "recorded env"
  obtain o' w1 seen1 where o: "getUltraOrder (xe_jupiter ?env) (order_params env wallet params) None (w, []) = (o', w1, seen1)"
    by (metis prod_cases3)
  note asked = asks_order [where env = env and wallet = wallet and params = params and w = w and seen = "[]", unfolded o, simplified]
  show ?thesis
  proof (cases o')
    case (Inl e)
    with o asked show ?thesis by (auto simp: ultraSwap_def)
  next
    case (Inr order)
    with asked obtain ev where ev: "seen1 = [ev]" "order_asked env wallet params ev order" by auto
    then obtain url http where url: "ev = Asked url http" by (auto simp: order_asked_def)
    show ?thesis
    proof (cases "order_transaction env order")
      case (Inl e)
      with o Inr ev url show ?thesis by (simp add: ultraSwap_def)
    next
      case tx: (Inr tx)
      then have carries: "order_carries env order tx"
        by (auto simp: order_transaction_def order_carries_def split: option.splits sum.splits)
      obtain answer w2 where s: "xe_sign env wallet tx w1 = (answer, w2)" by fastforce
      show ?thesis
      proof (cases answer)
        case (Inl e)
        with o Inr ev tx s carries show ?thesis by (auto simp: ultraSwap_def recorded_sign)
      next
        case signedTx: (Inr signedTx)
        obtain res w3 seen3 where e: "execute_signed ?env order signedTx (w2, [ev, Signed wallet tx answer]) = (res, w3, seen3)"
          by (metis prod_cases3)
        with o Inr ev tx s signedTx have u: "ultraSwap ?env wallet params (w, []) = ([Signing, Confirming], res, w3, seen3)"
          by (simp add: ultraSwap_def recorded_sign)
        let ?seen = "[ev, Signed wallet tx answer]"
        from ev(2) obtain p body where r: "read_order (xe_jupiter env) p body = Inr order" by (auto simp: order_asked_def)
        from submits_once [where env = env and order = order and signedTx = signedTx and w = w2 and seen = ?seen, unfolded e]
        consider "seen3 = ?seen" "isl res"
          | posted http where "seen3 = ?seen @ [posted]" "submits env order signedTx posted http" "reported env order http res"
          by (auto simp: reported_def)
        then show ?thesis
        proof cases
          case 1
          then show ?thesis unfolding u using ev(2) carries by auto
        next
          case (2 posted http)
          then have "seen3 = [ev, Signed wallet tx (Inr signedTx), posted]" using signedTx by simp
          with 2 ev(2) carries reported_sound [OF 2(3) r] show ?thesis unfolding u by auto
        qed
      qed
    qed
  qed
qed


end
