(* ===== verification/Format.thy ===== *)
theory Format
  imports Decimal
begin

text \<open>
  \<^verbatim>\<open>app/src/lib/format.ts\<close>: token amounts as the web app shows and reads them. The \<open>decimal.js\<close> package is a
  parameter where it rounds (\<open>precise\<close>, a result cut to its significant digits); compact notation is the
  platform's formatter. A number with an \<open>Intl\<close> style only is not modelled. The property: what is shown of a
  balance, typed back, is never more than the balance.
\<close>

section \<open>Showing an amount\<close>

text \<open>A shown amount: whether it starts with the minus sign (U+2212) and with the sign for below, and the digits.\<close>

record shown =
  sh_minus :: bool
  sh_below :: bool
  sh_text :: string

record format_options =
  fo_multiplier :: "rat option"
  fo_maxFractionDigits :: "nat option"
  fo_compact :: bool
  fo_roundNearest :: bool

definition rawToDecimal :: "(rat \<Rightarrow> rat) \<Rightarrow> int \<Rightarrow> nat \<Rightarrow> rat \<Rightarrow> rat" where
  "rawToDecimal precise raw decimals multiplier = precise (precise (of_int raw / 10 ^ decimals) * multiplier)"

text \<open>\<open>toDecimalPlaces\<close> of a number that is not negative, as a count of units of the last place.\<close>

definition units_at :: "bool \<Rightarrow> rat \<Rightarrow> nat \<Rightarrow> int" where
  "units_at roundNearest ui digits = (if roundNearest then \<lfloor>ui * 10 ^ digits + 1 / 2\<rfloor> else \<lfloor>ui * 10 ^ digits\<rfloor>)"

text \<open>Digits with leading zeros, the text of \<open>toFixed\<close> in two parts, and grouping by thousands.\<close>

definition padded :: "nat \<Rightarrow> int \<Rightarrow> string" where
  "padded width n = (if width = 0 then [] else (let s = decimal_digits n in replicate (width - length s) CHR ''0'' @ s))"

function grouped :: "string \<Rightarrow> string" where
  "grouped s = (if length s \<le> 3 then s
                else grouped (take (length s - 3) s) @ CHR '','' # drop (length s - 3) s)"
  by pat_completeness auto
termination by (relation "measure length") auto

declare grouped.simps [simp del]

definition trim_zeros :: "string \<Rightarrow> string" where
  "trim_zeros s = rev (dropWhile (\<lambda>c. c = CHR ''0'') (rev s))"

definition fixed_text :: "int \<Rightarrow> nat \<Rightarrow> string" where
  "fixed_text units digits =
     toString (units div 10 ^ digits) @ (if digits = 0 then [] else CHR ''.'' # padded digits (units mod 10 ^ digits))"

definition max_digits :: "format_options \<Rightarrow> nat \<Rightarrow> rat \<Rightarrow> nat" where
  "max_digits options decimals ui =
     (case fo_maxFractionDigits options of
        Some d \<Rightarrow> d
      | None \<Rightarrow> if ui \<ge> 1000 then 2 else if ui \<ge> 1 then 4 else min 6 decimals)"

definition formatTokenAmount ::
  "(rat \<Rightarrow> rat) \<Rightarrow> (rat \<Rightarrow> string) \<Rightarrow> int \<Rightarrow> nat \<Rightarrow> format_options \<Rightarrow> shown" where
  "formatTokenAmount precise compactNumber raw decimals options =
     (let negative = raw < 0;
          ui = rawToDecimal precise (if negative then - raw else raw) decimals
                 (case fo_multiplier options of Some m \<Rightarrow> m | None \<Rightarrow> 1)
      in if ui = 0 then \<lparr>sh_minus = False, sh_below = False, sh_text = ''0''\<rparr>
         else if fo_compact options \<and> ui \<ge> 1000000
         then \<lparr>sh_minus = negative, sh_below = False, sh_text = compactNumber ui\<rparr>
         else let maxDigits = max_digits options decimals ui;
                  units = units_at (fo_roundNearest options) ui maxDigits
              in if units = 0 then \<lparr>sh_minus = negative, sh_below = True, sh_text = fixed_text 1 maxDigits\<rparr>
                 else let fracPart = trim_zeros (padded maxDigits (units mod 10 ^ maxDigits))
                      in \<lparr>sh_minus = negative, sh_below = False,
                          sh_text = grouped (toString (units div 10 ^ maxDigits)) @
                                    (if fracPart = [] then [] else CHR ''.'' # fracPart)\<rparr>)"

section \<open>Reading an amount\<close>

text \<open>The match of \<open>^(\d+\.?\d*|\.\d+)$\<close>: digits with at most one point, and a digit at one side.\<close>

definition amount_shape :: "string \<Rightarrow> bool" where
  "amount_shape s \<longleftrightarrow>
     (let whole = takeWhile is_digit s; rest = dropWhile is_digit s
      in case rest of
           [] \<Rightarrow> whole \<noteq> []
         | c # cs \<Rightarrow> c = CHR ''.'' \<and> list_all is_digit cs \<and> (whole \<noteq> [] \<or> cs \<noteq> []))"

definition parseTokenInput :: "string \<Rightarrow> nat \<Rightarrow> int option" where
  "parseTokenInput input decimals =
     (let cleaned = filter (\<lambda>c. c \<noteq> CHR '','') (js_trim input)
      in if \<not> amount_shape cleaned then None
         else let intPart = takeWhile (\<lambda>c. c \<noteq> CHR ''.'') cleaned;
                  fracPart = tl (dropWhile (\<lambda>c. c \<noteq> CHR ''.'') cleaned)
              in if length fracPart > decimals then None
                 else Some (digits_value intPart * 10 ^ decimals +
                            digits_value (take decimals (fracPart @ replicate decimals CHR ''0''))))"

text \<open>An address as it is, or its two ends around an ellipsis (\<open>slice(-0)\<close> is the whole text).\<close>

definition truncateAddress :: "string \<Rightarrow> nat \<Rightarrow> (string \<times> string) + string" where
  "truncateAddress address chars =
     (if length address \<le> chars * 2 + 1 then Inr address
      else Inl (take chars address, drop (if chars = 0 then 0 else length address - chars) address))"

section \<open>What is shown can be typed back\<close>

definition no_comma :: "string \<Rightarrow> string" where
  "no_comma s = filter (\<lambda>c. c \<noteq> CHR '','') s"

lemma digit_not_mark: "is_digit c \<Longrightarrow> c \<noteq> CHR '','' \<and> c \<noteq> CHR ''.'' \<and> \<not> is_space c"
  by (auto simp: is_digit_def is_space_def Let_def)

lemma no_comma_digits: "list_all is_digit s \<Longrightarrow> no_comma s = s"
  using digit_not_mark by (induction s) (auto simp: no_comma_def)

lemma no_comma_grouped: "no_comma (grouped s) = no_comma s"
proof (induction s rule: grouped.induct)
  case (1 s)
  show ?case
  proof (cases "length s \<le> 3")
    case False
    have "no_comma (grouped s) = no_comma (grouped (take (length s - 3) s)) @ no_comma (drop (length s - 3) s)"
      using False by (subst grouped.simps) (simp add: no_comma_def)
    also have "\<dots> = no_comma (take (length s - 3) s) @ no_comma (drop (length s - 3) s)"
      using 1 False by simp
    also have "\<dots> = no_comma s" by (simp add: no_comma_def filter_append [symmetric] del: filter_append)
    finally show ?thesis .
  qed (simp add: grouped.simps)
qed

lemma grouped_set: "set (grouped s) \<subseteq> insert CHR '','' (set s)"
proof (induction s rule: grouped.induct)
  case (1 s)
  show ?case
  proof (cases "length s \<le> 3")
    case False
    then show ?thesis using 1 by (subst grouped.simps) (auto dest: in_set_takeD in_set_dropD)
  qed (auto simp: grouped.simps)
qed

lemma padded_digits: "0 \<le> n \<Longrightarrow> list_all is_digit (padded w n)"
  using decimal_digits_digits [of n] by (auto simp: padded_def Let_def list_all_iff is_digit_def)

lemma digit_sum_below: "0 \<le> n \<Longrightarrow> n < 10 ^ w \<Longrightarrow> 0 < w \<Longrightarrow> length (decimal_digits n) \<le> w"
proof (induction n arbitrary: w rule: decimal_digits.induct)
  case (1 n)
  show ?case
  proof (cases "n < 10")
    case True
    then show ?thesis using 1 by (subst decimal_digits.simps) simp
  next
    case False
    then obtain v where w: "w = Suc v" "0 < v"
      using 1(3,4) by (cases w; cases "w - 1") auto
    with 1(3) have "n div 10 < 10 ^ v" 
    proof -
      have "n = 10 * (n div 10) + n mod 10" "0 \<le> n mod 10" by simp_all
      with 1(3) w show ?thesis by simp
    qed
    with 1(1) [OF False, of v] 1(2) w show ?thesis using False by (subst decimal_digits.simps) simp
  qed
qed

lemma padded_value: "0 \<le> n \<Longrightarrow> n < 10 ^ w \<Longrightarrow> digits_value (padded w n) = n \<and> length (padded w n) = w"
  using digit_sum_below [of n w] decimal_digits_value [of n] by (auto simp: padded_def Let_def)

text \<open>Dropping trailing zeros.\<close>

lemma trim_zeros_split: "\<exists>k. s = trim_zeros s @ replicate k CHR ''0''"
proof -
  have "rev s = takeWhile (\<lambda>c. c = CHR ''0'') (rev s) @ dropWhile (\<lambda>c. c = CHR ''0'') (rev s)" by simp
  moreover have "takeWhile (\<lambda>c. c = CHR ''0'') (rev s) = replicate (length (takeWhile (\<lambda>c. c = CHR ''0'') (rev s))) CHR ''0''"
    by (metis (full_types) replicate_length_same set_takeWhileD)
  ultimately have "s = trim_zeros s @ rev (replicate (length (takeWhile (\<lambda>c. c = CHR ''0'') (rev s))) CHR ''0'')"
    unfolding trim_zeros_def by (metis rev_append rev_rev_ident)
  then show ?thesis by (metis rev_replicate)
qed

lemma trim_zeros_last: "trim_zeros s \<noteq> [] \<Longrightarrow> last (trim_zeros s) \<noteq> CHR ''0''"
  unfolding trim_zeros_def by (metis (mono_tags, lifting) hd_dropWhile last_rev rev_is_Nil_conv)

lemma trim_zeros_value:
  assumes "length s = w"
  shows "digits_value s = digits_value (trim_zeros s) * 10 ^ (w - length (trim_zeros s)) \<and> length (trim_zeros s) \<le> w"
proof -
  from trim_zeros_split [of s] obtain k where k: "s = trim_zeros s @ replicate k CHR ''0''" by blast
  then have "w = length (trim_zeros s) + k" using assms by (metis length_append length_replicate)
  moreover have "digits_value s = digits_value (trim_zeros s) * 10 ^ k"
    by (subst k) (simp add: digits_value_append)
  ultimately show ?thesis by simp
qed

lemma trim_zeros_shorter:
  assumes "length s = w" "list_all is_digit s" "10 ^ k dvd digits_value s" "k \<le> w"
  shows "length (trim_zeros s) \<le> w - k"
proof (cases "trim_zeros s = []")
  case False
  then obtain t c where t: "trim_zeros s = t @ [c]" by (metis append_butlast_last_id)
  have "c \<noteq> CHR ''0''" using trim_zeros_last [OF False] t by simp
  moreover have "is_digit c" using assms(2) trim_zeros_split [of s] t 
  proof -
    from trim_zeros_split [of s] obtain k where "s = trim_zeros s @ replicate k CHR ''0''" by blast
    with assms(2) t show ?thesis by (metis (no_types, lifting) list_all_append list.pred_inject(2))
  qed
  moreover have "(of_char c :: nat) = 48 \<longleftrightarrow> c = CHR ''0''"
    using of_char_eq_iff [of c "CHR ''0''", where 'a = nat] by simp
  ultimately have c: "0 < int (of_char c) - 48" "int (of_char c) - 48 \<le> 9"
    by (auto simp: is_digit_def)
  let ?j = "w - length (trim_zeros s)"
  have v: "digits_value s = digits_value (trim_zeros s) * 10 ^ ?j" using trim_zeros_value [OF assms(1)] by blast
  show ?thesis
  proof (rule ccontr)
    assume "\<not> ?thesis"
    then have "k = Suc (k - ?j - 1) + ?j" using trim_zeros_value [OF assms(1)] assms(4) by arith
    then have "10 * 10 ^ (k - ?j - 1) * 10 ^ ?j dvd digits_value (trim_zeros s) * 10 ^ ?j"
      using assms(3) v by (metis power_Suc power_add)
    then have "10 * 10 ^ (k - ?j - 1) dvd digits_value (trim_zeros s)" by simp
    then have "10 dvd digits_value (trim_zeros s)" by (rule dvd_mult_left)
    then have "10 dvd int (of_char c) - 48" by (simp add: t digits_value_append)
    with c show False by presburger
  qed
qed simp


lemma amount_reads:
  assumes "list_all is_digit a" "a \<noteq> []" "list_all is_digit b" "length b \<le> decimals"
    and "no_comma t = a @ (if b = [] then [] else CHR ''.'' # b)" "js_trim t = t"
  shows "parseTokenInput t decimals = Some (digits_value a * 10 ^ decimals + digits_value b * 10 ^ (decimals - length b))"
proof -
  have t: "filter (\<lambda>c. c \<noteq> CHR '','') (js_trim t) = a @ (if b = [] then [] else CHR ''.'' # b)"
    using assms(5,6) by (simp add: no_comma_def)
  have dot: "\<not> is_digit CHR ''.''" by (simp add: is_digit_def)
  have plain: "c \<noteq> CHR ''.''" if "c \<in> set a" for c using that assms(1) digit_not_mark by (auto simp: list_all_iff)
  have "amount_shape (a @ (if b = [] then [] else CHR ''.'' # b))"
    using assms(1-3) dot by (auto simp: amount_shape_def Let_def list_all_iff takeWhile_append dropWhile_append)
  moreover have "takeWhile (\<lambda>c. c \<noteq> CHR ''.'') (a @ (if b = [] then [] else CHR ''.'' # b)) = a"
    "tl (dropWhile (\<lambda>c. c \<noteq> CHR ''.'') (a @ (if b = [] then [] else CHR ''.'' # b))) = b"
    using plain by (auto simp: takeWhile_append dropWhile_append)
  moreover have "take decimals (b @ replicate decimals CHR ''0'') = b @ replicate (decimals - length b) CHR ''0''"
    using assms(4) by simp
  ultimately show ?thesis
    using assms(4) t by (simp add: parseTokenInput_def Let_def digits_value_append)
qed

lemma dropWhile_head: "s \<noteq> [] \<Longrightarrow> \<not> P (hd s) \<Longrightarrow> dropWhile P s = s"
  by (cases s) auto

lemma js_trim_plain: "s \<noteq> [] \<Longrightarrow> \<not> is_space (hd s) \<Longrightarrow> \<not> is_space (last s) \<Longrightarrow> js_trim s = s"
  by (simp add: js_trim_def dropWhile_head hd_rev)

lemma grouped_nonempty: "s \<noteq> [] \<Longrightarrow> grouped s \<noteq> []"
  by (subst grouped.simps) auto

lemma shown_trimmed:
  assumes "list_all is_digit a" "a \<noteq> []" "list_all is_digit b"
  shows "js_trim (grouped a @ (if b = [] then [] else CHR ''.'' # b)) = grouped a @ (if b = [] then [] else CHR ''.'' # b)"
proof (rule js_trim_plain)
  have plain: "\<not> is_space c" if "c \<in> set (grouped a @ (if b = [] then [] else CHR ''.'' # b))" for c
    using that grouped_set [of a] assms(1,3) digit_not_mark [of c]
    by (auto simp: list_all_iff is_space_def Let_def split: if_splits)
  show "grouped a @ (if b = [] then [] else CHR ''.'' # b) \<noteq> []" using grouped_nonempty [OF assms(2)] by simp
  then show "\<not> is_space (hd (grouped a @ (if b = [] then [] else CHR ''.'' # b)))"
    "\<not> is_space (last (grouped a @ (if b = [] then [] else CHR ''.'' # b)))"
    using plain hd_in_set last_in_set by blast+
qed

lemma toString_digits: "0 \<le> n \<Longrightarrow> list_all is_digit (toString n) \<and> toString n \<noteq> [] \<and> digits_value (toString n) = n"
  using decimal_digits_digits [of n] decimal_digits_value [of n] by (simp add: toString_def)

text \<open>The digits of \<open>units\<close> at \<open>d\<close> places, read back at \<open>decimals\<close> places.\<close>

lemma units_read_back:
  fixes raw :: int
  assumes "0 \<le> raw" "units = raw * 10 ^ d div 10 ^ decimals"
  shows "\<exists>v. parseTokenInput (grouped (toString (units div 10 ^ d)) @
      (if trim_zeros (padded d (units mod 10 ^ d)) = [] then [] else CHR ''.'' # trim_zeros (padded d (units mod 10 ^ d)))) decimals
      = Some v \<and> v * 10 ^ d = units * 10 ^ decimals"
proof -
  define a where "a = toString (units div 10 ^ d)"
  define s where "s = padded d (units mod 10 ^ d)"
  define b where "b = trim_zeros s"
  have units: "0 \<le> units" using assms by (simp add: pos_imp_zdiv_nonneg_iff)
  then have a: "list_all is_digit a" "a \<noteq> []" "digits_value a = units div 10 ^ d"
    using toString_digits [of "units div 10 ^ d"] by (simp_all add: a_def pos_imp_zdiv_nonneg_iff)
  have s: "digits_value s = units mod 10 ^ d" "length s = d" "list_all is_digit s"
    using padded_value [of "units mod 10 ^ d" d] padded_digits [of "units mod 10 ^ d" d] by (simp_all add: s_def)
  have b: "digits_value s = digits_value b * 10 ^ (d - length b)" "length b \<le> d"
    using trim_zeros_value [OF s(2)] by (simp_all add: b_def)
  have bd: "list_all is_digit b" using trim_zeros_split [of s] s(3) unfolding b_def by (metis list_all_append)
  have short: "length b \<le> decimals"
  proof (cases "d \<le> decimals")
    case False
    then obtain k where k: "d = decimals + k" using nat_le_iff_add by (metis linorder_linear)
    with assms(2) have "units = raw * 10 ^ k" by (simp add: power_add)
    then have "10 ^ k dvd units" by simp
    moreover have "10 ^ k dvd (10 :: int) ^ d" by (simp add: k power_add)
    ultimately have "10 ^ k dvd digits_value s" using s(1) by (simp add: dvd_mod)
    from trim_zeros_shorter [OF s(2,3) this] k show ?thesis by (simp add: b_def)
  qed (use b(2) in simp)
  have "no_comma (grouped a @ (if b = [] then [] else CHR ''.'' # b)) = a @ (if b = [] then [] else CHR ''.'' # b)"
    using no_comma_digits [OF a(1)] no_comma_digits [OF bd] no_comma_grouped [of a] by (simp add: no_comma_def)
  from amount_reads [OF a(1,2) bd short this shown_trimmed [OF a(1,2) bd]]
  have "parseTokenInput (grouped a @ (if b = [] then [] else CHR ''.'' # b)) decimals
      = Some (digits_value a * 10 ^ decimals + digits_value b * 10 ^ (decimals - length b))" .
  moreover have "(digits_value a * 10 ^ decimals + digits_value b * 10 ^ (decimals - length b)) * 10 ^ d = units * 10 ^ decimals"
  proof -
    have "(10 :: int) ^ (decimals - length b) * 10 ^ d = 10 ^ (d - length b) * 10 ^ decimals"
      using short b(2) by (simp add: power_add [symmetric])
    then have "digits_value b * 10 ^ (decimals - length b) * 10 ^ d = digits_value s * 10 ^ decimals"
      using b(1) by (simp add: algebra_simps)
    moreover have "units div 10 ^ d * 10 ^ d + units mod 10 ^ d = units" by (rule div_mult_mod_eq)
    then have "units * 10 ^ decimals = (units div 10 ^ d * 10 ^ d + digits_value s) * 10 ^ decimals" using s(1) by simp
    ultimately show ?thesis using a(3) by (simp add: algebra_simps)
  qed
  ultimately show ?thesis unfolding a_def b_def s_def by blast
qed

lemma units_down: "units_at False (of_int raw / 10 ^ decimals) d = raw * 10 ^ d div 10 ^ decimals"
proof -
  have "of_int raw / 10 ^ decimals * 10 ^ d = (of_int (raw * 10 ^ d) / of_int (10 ^ decimals) :: rat)" by simp
  then show ?thesis by (simp only: units_at_def floor_divide_of_int_eq if_False)
qed

lemma below_one_unit:
  fixes raw :: int
  assumes "0 \<le> raw" "raw * 10 ^ d div 10 ^ decimals = 0"
  shows "raw * 10 ^ d < 10 ^ decimals"
  using assms by (metis mult_nonneg_nonneg not_le pos_imp_zdiv_pos_iff order_less_irrefl zero_le_power zero_less_numeral
      zero_less_power zero_le_numeral)

text \<open>
  C39: what the app shows of a balance can be typed back. For every u64 amount (shown in its own units, rounded down) the
  digits shown, read by the app's input field, are an amount of at most the balance, less than one unit of the
  last shown place under it; an amount shown as below a limit is positive and below that limit. So a user who
  types the balance they see never asks for more than they have.
\<close>

theorem shown_balance_can_be_typed:
  assumes "0 \<le> raw" "raw < 2 ^ 64"
    and "\<forall>n k. \<bar>n\<bar> < 10 ^ 20 \<longrightarrow> precise (of_int n / 10 ^ k) = of_int n / 10 ^ k"
    and "fo_multiplier options \<in> {None, Some 1}" "\<not> fo_compact options" "\<not> fo_roundNearest options"
  shows "let out = formatTokenAmount precise compactNumber raw decimals options;
             d = max_digits options decimals (of_int raw / 10 ^ decimals)
         in \<not> sh_minus out \<and>
            (if sh_below out then 0 < raw \<and> raw * 10 ^ d < 10 ^ decimals
             else \<exists>v. parseTokenInput (sh_text out) decimals = Some v \<and> v \<le> raw \<and> (raw - v) * 10 ^ d < 10 ^ decimals)"
proof -
  let ?ui = "of_int raw / 10 ^ decimals :: rat"
  let ?d = "max_digits options decimals ?ui"
  let ?u = "raw * 10 ^ ?d div 10 ^ decimals"
  have "precise ?ui = ?ui" using assms(1-3) by simp
  then have ui: "rawToDecimal precise raw decimals (case fo_multiplier options of Some m \<Rightarrow> m | None \<Rightarrow> 1) = ?ui"
    using assms(4) by (auto simp: rawToDecimal_def)
  consider "raw = 0" | "0 < raw" "?u = 0" | "0 < raw" "?u \<noteq> 0" using assms(1) by linarith
  then show ?thesis
  proof cases
    case 1
    have "parseTokenInput ''0'' decimals = Some 0"
      using amount_reads [of "''0''" "[]" decimals "''0''"] by (simp add: is_digit_def no_comma_def js_trim_def is_space_def)
    with 1 ui show ?thesis by (simp add: formatTokenAmount_def Let_def)
  next
    case 2
    with ui assms(5,6) below_one_unit [OF assms(1) 2(2)] show ?thesis
      by (simp add: formatTokenAmount_def Let_def units_down)
  next
    case 3
    from units_read_back [OF assms(1) refl, of ?d decimals] obtain v where v:
      "parseTokenInput (grouped (toString (?u div 10 ^ ?d)) @
         (if trim_zeros (padded ?d (?u mod 10 ^ ?d)) = [] then [] else CHR ''.'' # trim_zeros (padded ?d (?u mod 10 ^ ?d)))) decimals
       = Some v" "v * 10 ^ ?d = ?u * 10 ^ decimals" by blast
    have m: "?u * 10 ^ decimals + raw * 10 ^ ?d mod 10 ^ decimals = raw * 10 ^ ?d" by (rule div_mult_mod_eq)
    have r: "0 \<le> raw * 10 ^ ?d mod 10 ^ decimals" "raw * 10 ^ ?d mod 10 ^ decimals < 10 ^ decimals" by simp_all
    from m r(1) v(2) have "v * 10 ^ ?d \<le> raw * 10 ^ ?d" by linarith
    then have "v \<le> raw" by simp
    moreover from m r(2) v(2) have "raw * 10 ^ ?d - v * 10 ^ ?d < 10 ^ decimals" by linarith
    then have "(raw - v) * 10 ^ ?d < 10 ^ decimals" by (simp only: left_diff_distrib)
    moreover have "sh_text (formatTokenAmount precise compactNumber raw decimals options) =
        grouped (toString (?u div 10 ^ ?d)) @
         (if trim_zeros (padded ?d (?u mod 10 ^ ?d)) = [] then [] else CHR ''.'' # trim_zeros (padded ?d (?u mod 10 ^ ?d)))"
      "\<not> sh_below (formatTokenAmount precise compactNumber raw decimals options)"
      "\<not> sh_minus (formatTokenAmount precise compactNumber raw decimals options)"
      using 3 ui assms(5,6) by (simp_all add: formatTokenAmount_def Let_def units_down)
    ultimately show ?thesis using v(1) by (simp add: Let_def)
  qed
qed

definition plain_format :: format_options where
  "plain_format = \<lparr>fo_multiplier = None, fo_maxFractionDigits = None, fo_compact = False, fo_roundNearest = False\<rparr>"

theorem shown_balance_can_be_typed_witness:
  "let out = formatTokenAmount (\<lambda>x. x) (\<lambda>_. []) 1234567891 6 plain_format;
       d = max_digits plain_format 6 (of_int 1234567891 / 10 ^ 6)
   in \<not> sh_minus out \<and>
      (if sh_below out then 0 < (1234567891 :: int) \<and> 1234567891 * 10 ^ d < (10 :: int) ^ 6
       else \<exists>v. parseTokenInput (sh_text out) 6 = Some v \<and> v \<le> 1234567891 \<and> (1234567891 - v) * 10 ^ d < 10 ^ 6)"
  using shown_balance_can_be_typed [of 1234567891 "\<lambda>x. x" plain_format "\<lambda>_. []" 6]
  by (simp add: plain_format_def)

end
