(* ===== verification/LaunchForm.thy ===== *)
theory LaunchForm
  imports LaunchComposer Guard
begin

text \<open>
  The checks of the create form: \<^verbatim>\<open>app/src/lib/launchForm.ts\<close>, the field checks of \<^verbatim>\<open>app/src/lib/upload/metadata.ts\<close>
  and the threshold policy of \<^verbatim>\<open>app/src/lib/config.ts\<close>. A text is the list of its code points. The URL parser, the
  Unicode upper case and the conversion \<open>Number\<close> of a decimal text (the nearest double) are parameters. The
  property: a form without errors passes every check the composer makes of the same values.
\<close>

type_synonym form_text = "int list"

text \<open>What a field says; messages are constructors with the figures they print.\<close>

datatype field_error =
    EnterName | NameTooLong | ReservedName
  | EnterSymbol | SymbolShape
  | DescriptionTooLong
  | LinkNotUrl | LinkNotHttps | LinkHost | LinkTooLong
  | UriNotHttps | UriInvalid | UriTooLong
  | VaultShareRange
  | EnterThreshold | ThresholdShape | ThresholdTooLow rat bool | ThresholdTooHigh rat

section \<open>Token metadata fields\<close>

definition MAX_DESCRIPTION_CHARS :: nat where [simp]: "MAX_DESCRIPTION_CHARS = 500"
definition MAX_LINK_BYTES :: nat where [simp]: "MAX_LINK_BYTES = 200"
definition MAX_URI_BYTES :: nat where [simp]: "MAX_URI_BYTES = 200"

datatype link_kind = Website | Twitter | Telegram

definition trim_text :: "form_text \<Rightarrow> form_text" where
  "trim_text s = rev (dropWhile js_whitespace (rev (dropWhile js_whitespace s)))"

text \<open>\<open>length\<close> of a text: its UTF-16 units.\<close>

definition utf16_length :: "form_text \<Rightarrow> nat" where
  "utf16_length s = sum_list (map (\<lambda>cp. if cp < 0x10000 then 1 else 2) s)"

definition tokenNameError :: "form_text \<Rightarrow> field_error option" where
  "tokenNameError name =
     (if name = [] then Some EnterName
      else if utf8_length name > 32 then Some NameTooLong
      else if isReservedTokenName name [] then Some ReservedName
      else None)"

text \<open>The match of \<open>^[A-Z0-9]{2,10}$\<close>.\<close>

definition ticker_shape :: "form_text \<Rightarrow> bool" where
  "ticker_shape s \<longleftrightarrow> 2 \<le> length s \<and> length s \<le> 10 \<and> list_all (\<lambda>c. 65 \<le> c \<and> c \<le> 90 \<or> 48 \<le> c \<and> c \<le> 57) s"

definition tokenSymbolError :: "(form_text \<Rightarrow> form_text) \<Rightarrow> form_text \<Rightarrow> field_error option" where
  "tokenSymbolError upper symbol =
     (if symbol = [] then Some EnterSymbol
      else if \<not> ticker_shape (upper symbol) then Some SymbolShape
      else if isReservedTokenName [] symbol then Some ReservedName
      else None)"

definition descriptionError :: "form_text \<Rightarrow> field_error option" where
  "descriptionError description = (if utf16_length description > MAX_DESCRIPTION_CHARS then Some DescriptionTooLong else None)"

fun LINK_HOSTS :: "link_kind \<Rightarrow> string list option" where
  "LINK_HOSTS Website = None"
| "LINK_HOSTS Twitter = Some [''x.com'', ''www.x.com'', ''twitter.com'', ''www.twitter.com'']"
| "LINK_HOSTS Telegram = Some [''t.me'', ''telegram.me'', ''www.telegram.me'']"

definition tokenLinkError :: "(form_text \<Rightarrow> url option) \<Rightarrow> link_kind \<Rightarrow> form_text \<Rightarrow> field_error option" where
  "tokenLinkError parse kind value =
     (if value = [] then None
      else case parse value of
        None \<Rightarrow> Some LinkNotUrl
      | Some url \<Rightarrow>
          if url_protocol url \<noteq> ''https:'' then Some LinkNotHttps
          else if (case LINK_HOSTS kind of Some hosts \<Rightarrow> toLowerCase (url_hostname url) \<notin> set hosts | None \<Rightarrow> False)
          then Some LinkHost
          else if utf8_length value > MAX_LINK_BYTES then Some LinkTooLong
          else None)"

section \<open>The threshold\<close>

definition THRESHOLD_MAX_USD :: rat where [simp]: "THRESHOLD_MAX_USD = 100000"

record ThresholdPolicy =
  tp_demo :: bool
  tp_minUsd :: rat
  tp_maxUsd :: rat
  tp_defaultUsd :: rat
  tp_presetsUsd :: "rat list"

definition thresholdPolicy :: "bool \<Rightarrow> ThresholdPolicy" where
  "thresholdPolicy demo =
     (if demo
      then \<lparr>tp_demo = True, tp_minUsd = MIN_THRESHOLD_USD, tp_maxUsd = THRESHOLD_MAX_USD, tp_defaultUsd = 1000,
            tp_presetsUsd = [50, 100, 1000]\<rparr>
      else \<lparr>tp_demo = False, tp_minUsd = 10000, tp_maxUsd = THRESHOLD_MAX_USD, tp_defaultUsd = 10000,
            tp_presetsUsd = [10000, 25000, 50000]\<rparr>)"

definition ascii_digit :: "int \<Rightarrow> bool" where
  "ascii_digit c \<longleftrightarrow> 48 \<le> c \<and> c \<le> 57"

definition digits_number :: "form_text \<Rightarrow> int" where
  "digits_number s = foldl (\<lambda>acc c. acc * 10 + (c - 48)) 0 s"

text \<open>The match of \<open>^\d+(\.\d{1,2})?$\<close> on the cleaned text, with the decimal it writes.\<close>

definition dollar_amount :: "form_text \<Rightarrow> rat option" where
  "dollar_amount s =
     (let whole = takeWhile ascii_digit s; rest = dropWhile ascii_digit s
      in if whole = [] then None
         else case rest of
           [] \<Rightarrow> Some (of_int (digits_number whole))
         | c # cents \<Rightarrow>
             if c = 46 \<and> cents \<noteq> [] \<and> length cents \<le> 2 \<and> list_all ascii_digit cents
             then Some (of_int (digits_number whole) + of_int (digits_number cents) / 10 ^ length cents)
             else None)"

definition parseThresholdUsd :: "(rat \<Rightarrow> jsnum) \<Rightarrow> form_text \<Rightarrow> rat option" where
  "parseThresholdUsd number input =
     (let grouped = filter (\<lambda>c. c \<noteq> 44) (trim_text input);
          cleaned = (case grouped of c # cs \<Rightarrow> if c = 36 then cs else grouped | [] \<Rightarrow> [])
      in case dollar_amount cleaned of
           None \<Rightarrow> None
         | Some q \<Rightarrow> (case number q of Fin n \<Rightarrow> Some n | _ \<Rightarrow> None))"

definition validateThresholdUsd :: "(rat \<Rightarrow> jsnum) \<Rightarrow> form_text \<Rightarrow> ThresholdPolicy \<Rightarrow> field_error option" where
  "validateThresholdUsd number input policy =
     (if trim_text input = [] then Some EnterThreshold
      else case parseThresholdUsd number input of
        None \<Rightarrow> Some ThresholdShape
      | Some value \<Rightarrow>
          (let least = max (tp_minUsd policy) MIN_THRESHOLD_USD
           in if value < least then Some (ThresholdTooLow least (least \<le> MIN_THRESHOLD_USD))
              else if value > tp_maxUsd policy then Some (ThresholdTooHigh (tp_maxUsd policy))
              else None))"

section \<open>The form\<close>

record launch_form =
  lf_name :: form_text
  lf_symbol :: form_text
  lf_description :: form_text
  lf_link :: "link_kind \<Rightarrow> form_text"
  lf_metadataUri :: form_text
  lf_vaultSharePct :: jsnum
  lf_thresholdUsd :: form_text

record form_errors =
  fe_name :: "field_error option"
  fe_symbol :: "field_error option"
  fe_description :: "field_error option"
  fe_links :: "link_kind \<Rightarrow> field_error option"
  fe_metadataUri :: "field_error option"
  fe_vaultSharePct :: "field_error option"
  fe_thresholdUsd :: "field_error option"

definition uri_error :: "(form_text \<Rightarrow> url option) \<Rightarrow> form_text \<Rightarrow> field_error option" where
  "uri_error parse uri =
     (if uri = [] then None
      else case parse uri of
        None \<Rightarrow> Some UriInvalid
      | Some url \<Rightarrow>
          if url_protocol url \<noteq> ''https:'' then Some UriNotHttps
          else if utf8_length uri > MAX_URI_BYTES then Some UriTooLong
          else None)"

definition vault_share_error :: "jsnum \<Rightarrow> field_error option" where
  "vault_share_error pct =
     (case as_integer pct of
        Some i \<Rightarrow> if i < VAULT_SHARE_MIN_PCT \<or> i > VAULT_SHARE_MAX_PCT then Some VaultShareRange else None
      | None \<Rightarrow> Some VaultShareRange)"

definition validateLaunchForm ::
  "(form_text \<Rightarrow> url option) \<Rightarrow> (form_text \<Rightarrow> form_text) \<Rightarrow> (rat \<Rightarrow> jsnum) \<Rightarrow> launch_form \<Rightarrow> ThresholdPolicy \<Rightarrow> form_errors" where
  "validateLaunchForm parse upper number values policy =
     \<lparr>fe_name = tokenNameError (trim_text (lf_name values)),
      fe_symbol = tokenSymbolError upper (trim_text (lf_symbol values)),
      fe_description = descriptionError (trim_text (lf_description values)),
      fe_links = (\<lambda>kind. tokenLinkError parse kind (trim_text (lf_link values kind))),
      fe_metadataUri = uri_error parse (trim_text (lf_metadataUri values)),
      fe_vaultSharePct = vault_share_error (lf_vaultSharePct values),
      fe_thresholdUsd = validateThresholdUsd number (lf_thresholdUsd values) policy\<rparr>"

definition no_errors :: form_errors where
  "no_errors = \<lparr>fe_name = None, fe_symbol = None, fe_description = None, fe_links = (\<lambda>_. None), fe_metadataUri = None,
                fe_vaultSharePct = None, fe_thresholdUsd = None\<rparr>"

text \<open>Outside a local cluster a launch on the chain needs a live price.\<close>

datatype price_source = LiveJupiter | StaleJupiter | ReferencePrice | MockPrice
datatype price_problem = PriceStale | PriceUnavailable

definition launchPriceError :: "bool \<Rightarrow> price_source \<Rightarrow> bool \<Rightarrow> price_problem option" where
  "launchPriceError onChain priceSource localRpc =
     (if \<not> onChain \<or> localRpc \<or> priceSource = LiveJupiter then None
      else if priceSource = StaleJupiter then Some PriceStale else Some PriceUnavailable)"

section \<open>A form without errors composes\<close>

lemma trim_text_not_blank: "trim_text s \<noteq> [] \<Longrightarrow> \<not> blank (trim_text s)"
proof -
  assume t: "trim_text s \<noteq> []"
  then have "\<not> js_whitespace (last (trim_text s))"
    unfolding trim_text_def by (metis (mono_tags, lifting) hd_dropWhile last_rev rev_is_Nil_conv)
  with t show ?thesis by (auto simp: blank_def list_all_iff)
qed

lemma ticker_plain:
  assumes "ticker_shape s"
  shows "\<not> blank s" "utf8_length s \<le> 10"
proof -
  from assms obtain c cs where c: "s = c # cs" by (cases s) (auto simp: ticker_shape_def)
  with assms show "\<not> blank s" by (auto simp: ticker_shape_def blank_def js_whitespace_def)
  from assms have "map (\<lambda>cp. if cp < 0x80 then 1 else if cp < 0x800 then 2 else if cp < 0x10000 then 3 else 4) s
      = map (\<lambda>_. 1 :: nat) s"
    by (intro map_cong) (auto simp: ticker_shape_def list_all_iff)
  then have "utf8_length s = sum_list (map (\<lambda>_. 1) s)" unfolding utf8_length_def by (simp only:)
  with assms show "utf8_length s \<le> 10" by (simp add: ticker_shape_def sum_list_triv)
qed

lemma reserved_parts: "isReservedTokenName name symbol \<longleftrightarrow> isReservedTokenName name [] \<or> isReservedTokenName [] symbol"
  by (auto simp: isReservedTokenName_def RESERVED_SKELETON_def)

lemma threshold_accepted:
  assumes "validateThresholdUsd number input policy = None"
  shows "\<exists>v. parseThresholdUsd number input = Some v \<and> tp_minUsd policy \<le> v \<and> MIN_THRESHOLD_USD \<le> v \<and> v \<le> tp_maxUsd policy"
  using assms by (auto simp: validateThresholdUsd_def Let_def max_def split: if_splits option.splits)

text \<open>
  C38: a form the app accepts is not refused by the SDK. When the create form reports no error (its ticker is kept in
  upper case), the composer's metadata check passes on the trimmed name and ticker with the form's own URI or none,
  the vault share is an integer the presets accept, and the threshold parses to a number within both
  the policy and the SDK's minimum. So every name, ticker or URI that the SDK would refuse shows an error in the form.
\<close>

theorem accepted_form_composes:
  assumes "validateLaunchForm parse upper number values policy = no_errors"
    and "upper (trim_text (lf_symbol values)) = trim_text (lf_symbol values)"
  shows "validateTokenMetadata (trim_text (lf_name values)) (trim_text (lf_symbol values)) (trim_text (lf_metadataUri values)) = [] \<and>
    (\<exists>i. as_integer (lf_vaultSharePct values) = Some i \<and> VAULT_SHARE_MIN_PCT \<le> i \<and> i \<le> VAULT_SHARE_MAX_PCT) \<and>
    (\<exists>v. parseThresholdUsd number (lf_thresholdUsd values) = Some v \<and> tp_minUsd policy \<le> v \<and> MIN_THRESHOLD_USD \<le> v \<and>
       v \<le> tp_maxUsd policy)"
proof -
  let ?name = "trim_text (lf_name values)" and ?symbol = "trim_text (lf_symbol values)" and ?uri = "trim_text (lf_metadataUri values)"
  from assms(1) have e: "tokenNameError ?name = None" "tokenSymbolError upper ?symbol = None" "uri_error parse ?uri = None"
    "vault_share_error (lf_vaultSharePct values) = None" "validateThresholdUsd number (lf_thresholdUsd values) policy = None"
    by (simp_all add: validateLaunchForm_def no_errors_def)
  from e(1) have name: "?name \<noteq> []" "utf8_length ?name \<le> 32" "\<not> isReservedTokenName ?name []"
    by (auto simp: tokenNameError_def split: if_splits)
  from e(2) assms(2) have symbol: "ticker_shape ?symbol" "\<not> isReservedTokenName [] ?symbol"
    by (auto simp: tokenSymbolError_def split: if_splits)
  from e(3) have uri: "utf8_length ?uri \<le> 200"
    by (auto simp: uri_error_def utf8_length_def split: if_splits option.splits)
  have "validateTokenMetadata ?name ?symbol ?uri = []"
    unfolding validateTokenMetadata_def
    using name symbol uri trim_text_not_blank [OF name(1)] ticker_plain [OF symbol(1)] reserved_parts [of ?name ?symbol] by simp
  moreover from e(4) have "\<exists>i. as_integer (lf_vaultSharePct values) = Some i \<and> VAULT_SHARE_MIN_PCT \<le> i \<and> i \<le> VAULT_SHARE_MAX_PCT"
    by (auto simp: vault_share_error_def split: option.splits if_splits)
  ultimately show ?thesis using threshold_accepted [OF e(5)] by blast
qed

definition gold_form :: launch_form where
  "gold_form =
     \<lparr>lf_name = code_points ''Gold Rush'', lf_symbol = code_points ''GLD2'', lf_description = [], lf_link = (\<lambda>_. []),
      lf_metadataUri = [], lf_vaultSharePct = JsInt 45, lf_thresholdUsd = code_points ''$12,500.50''\<rparr>"

lemma gold_form_accepted: "validateLaunchForm (\<lambda>_. None) (\<lambda>s. s) Fin gold_form (thresholdPolicy False) = no_errors"
proof -
  have "tokenNameError (trim_text (lf_name gold_form)) = None" by code_simp
  moreover have "tokenSymbolError (\<lambda>s. s) (trim_text (lf_symbol gold_form)) = None" by code_simp
  moreover have "validateThresholdUsd Fin (lf_thresholdUsd gold_form) (thresholdPolicy False) = None" by code_simp
  moreover have "trim_text [] = []" by (simp add: trim_text_def)
  ultimately show ?thesis
    by (simp add: validateLaunchForm_def no_errors_def gold_form_def descriptionError_def utf16_length_def tokenLinkError_def
        uri_error_def vault_share_error_def as_integer_def)
qed

theorem accepted_form_composes_witness:
  "validateTokenMetadata (trim_text (lf_name gold_form)) (trim_text (lf_symbol gold_form)) [] = [] \<and>
   (\<exists>v. parseThresholdUsd Fin (lf_thresholdUsd gold_form) = Some v \<and> 10000 \<le> v \<and> v \<le> 100000)"
proof -
  have "(\<lambda>s. s) (trim_text (lf_symbol gold_form)) = trim_text (lf_symbol gold_form)" by simp
  from accepted_form_composes [OF gold_form_accepted this] show ?thesis
    by (auto simp: thresholdPolicy_def gold_form_def trim_text_def)
qed

end
