(* ===== verification/Spec2Isabelle.thy ===== *)
theory Spec2Isabelle
  imports Prelude Constants CurveMath FloorMath Bytes StockfloorAccounts Token Addresses MeteoraAccounts
    DbcSwap SwapVenue CurvePotential DbcSafety DbcTrades DbcQuote DammSwap
    ValidateConfig ValidateLaunch Allowlist Presets ReservedNames
    Idl Instructions MeteoraInstructions Transactions ChainReader LaunchState LaunchResolution Trade
    ProgramLogs Crank CrankSafety Guard IdlTrim LaunchComposer
    JsNumber FundPlan FundRun Base58 Decimal Sender TxFlow RateLimit ChartEvents ChartHistory ChartSeries
    ChartService WebErrors WebCluster WebActions WebSafety Base64 Jupiter WebSwap Format LaunchForm
begin

text \<open>
  Verification library of Plinto (StockFloor): the TypeScript SDK that launches tokens with a redemption floor
  on Solana, the web application's own logic and the operator scripts that fund a rehearsal. The code is read
  at \<^verbatim>\<open>packages/sdk/src\<close> (paths without a prefix below are relative to it), \<^verbatim>\<open>app/src/lib\<close> and
  \<^verbatim>\<open>scripts/c2\<close>.

  \<^bold>\<open>The program.\<close> A launch is created by a bundle of transactions (\<^verbatim>\<open>launch.ts\<close>): a config and a pool of the
  Meteora DBC program (a bonding curve), the StockFloor \<open>Launch\<close> account with its vault, and the creator's first
  buy. The form's input becomes curve parameters in \<^verbatim>\<open>presets.ts\<close>, which two ports of on-chain validation accept or
  refuse (\<^verbatim>\<open>dbc/validateConfig.ts\<close>, \<^verbatim>\<open>stockfloor/validateLaunch.ts\<close>). Until the migration threshold is reached
  trades are quoted on the curve (\<^verbatim>\<open>dbc/swapQuote.ts\<close> over \<^verbatim>\<open>dbc/curveMath.ts\<close>), afterwards on a DAMM v2 pool
  (\<^verbatim>\<open>damm/swapQuote.ts\<close>), and a holder may redeem tokens against the vault (\<^verbatim>\<open>math.ts\<close>). \<^verbatim>\<open>launchState.ts\<close> reads
  all of it from an RPC node; \<^verbatim>\<open>trade.ts\<close> turns a quote into a transaction; \<^verbatim>\<open>crank.ts\<close> performs the permissionless
  maintenance (migrate, harvest, burn). \<^verbatim>\<open>sender.ts\<close> talks to the node, \<^verbatim>\<open>guard.ts\<close> and \<^verbatim>\<open>scripts/c2\<close> decide whether
  sending is allowed at all, and the web application drives the same builders through \<^verbatim>\<open>chain/txFlow.ts\<close> and draws a
  price chart from swap events (\<^verbatim>\<open>chart/\<close>).

  \<^bold>\<open>Theories and code.\<close> A theory holds the definitions of its files in the order of the code, and the lemmas
  about them; definitions keep the names of the source.

  \<^item> Ground: \<^verbatim>\<open>Prelude\<close> (errors as a sum type, bigints, JavaScript numbers), \<^verbatim>\<open>JsNumber\<close> (arithmetic on doubles
    with a rounding parameter), \<^verbatim>\<open>Decimal\<close> (decimal text), \<^verbatim>\<open>Json\<close> (JSON values), \<^verbatim>\<open>Bytes\<close> and \<^verbatim>\<open>Base64\<close> (\<^verbatim>\<open>bytes.ts\<close>),
    \<^verbatim>\<open>Constants\<close> (\<^verbatim>\<open>dbc/constants.ts\<close>).
  \<^item> Curve: \<^verbatim>\<open>CurveMath\<close> (\<^verbatim>\<open>dbc/curveMath.ts\<close>), \<^verbatim>\<open>DbcSwap\<close> (\<^verbatim>\<open>dbc/swapQuote.ts\<close>), \<^verbatim>\<open>DammSwap\<close>
    (\<^verbatim>\<open>damm/swapQuote.ts\<close>). The abstract side is \<^verbatim>\<open>SwapVenue\<close>, the interface of a venue with two potentials of the
    price; \<^verbatim>\<open>CurvePotential\<close> has the exact potentials, \<^verbatim>\<open>DbcSafety\<close>, \<^verbatim>\<open>DbcTrades\<close> and \<^verbatim>\<open>DbcQuote\<close> prove that the
    code's walks and quotes implement it.
  \<^item> Launch parameters: \<^verbatim>\<open>FloorMath\<close> (\<^verbatim>\<open>math.ts\<close>), \<^verbatim>\<open>ValidateConfig\<close>, \<^verbatim>\<open>ValidateLaunch\<close>, \<^verbatim>\<open>Presets\<close>, \<^verbatim>\<open>Allowlist\<close>,
    \<^verbatim>\<open>ReservedNames\<close>.
  \<^item> Chain data: \<^verbatim>\<open>StockfloorAccounts\<close>, \<^verbatim>\<open>Token\<close>, \<^verbatim>\<open>MeteoraAccounts\<close>, \<^verbatim>\<open>Addresses\<close> (\<^verbatim>\<open>pda.ts\<close>, \<^verbatim>\<open>addresses.ts\<close>),
    \<^verbatim>\<open>ChainReader\<close> (\<^verbatim>\<open>chain.ts\<close> and the readers of \<^verbatim>\<open>token.ts\<close>), \<^verbatim>\<open>ProgramLogs\<close>, \<^verbatim>\<open>LaunchState\<close> with
    \<^verbatim>\<open>LaunchResolution\<close>.
  \<^item> Instructions and transactions: \<^verbatim>\<open>Idl\<close>, \<^verbatim>\<open>IdlTrim\<close>, \<^verbatim>\<open>Instructions\<close>, \<^verbatim>\<open>MeteoraInstructions\<close>, \<^verbatim>\<open>Transactions\<close>,
    \<^verbatim>\<open>LaunchComposer\<close> (\<^verbatim>\<open>launch.ts\<close>), \<^verbatim>\<open>Trade\<close>, \<^verbatim>\<open>Crank\<close> with \<^verbatim>\<open>CrankSafety\<close>.
  \<^item> Sending: \<^verbatim>\<open>Guard\<close>, \<^verbatim>\<open>Base58\<close> and \<^verbatim>\<open>Sender\<close> (\<^verbatim>\<open>sender.ts\<close>), \<^verbatim>\<open>TxFlow\<close> (\<^verbatim>\<open>chain/txFlow.ts\<close>), \<^verbatim>\<open>FundPlan\<close>
    (\<^verbatim>\<open>scripts/c2/libfund.ts\<close>), \<^verbatim>\<open>FundRun\<close> (\<^verbatim>\<open>scripts/c2/fund.ts\<close>).
  \<^item> Web application: \<^verbatim>\<open>ChartEvents\<close>, \<^verbatim>\<open>ChartHistory\<close>, \<^verbatim>\<open>ChartSeries\<close>, \<^verbatim>\<open>ChartService\<close> (\<^verbatim>\<open>chart/\<close>), \<^verbatim>\<open>RateLimit\<close>
    (\<^verbatim>\<open>upload/rateLimit.ts\<close>); \<^verbatim>\<open>WebErrors\<close> (\<^verbatim>\<open>chain/errors.ts\<close>), \<^verbatim>\<open>WebCluster\<close> (\<^verbatim>\<open>chain/cluster.ts\<close>) and
    \<^verbatim>\<open>WebActions\<close> (\<^verbatim>\<open>data/chainActions.ts\<close>: create, trade, redeem and crank, over the composer, the trade builder
    and the crank of the SDK), with \<^verbatim>\<open>WebSafety\<close>, which says what an action may hand to the wallet;
    \<^verbatim>\<open>Jupiter\<close> (\<^verbatim>\<open>jupiter.ts\<close>) and \<^verbatim>\<open>WebSwap\<close> (\<^verbatim>\<open>chain/jupiterRoute.ts\<close>), the swap these actions use; \<^verbatim>\<open>Format\<close> (\<^verbatim>\<open>format.ts\<close>)
    and \<^verbatim>\<open>LaunchForm\<close> (\<^verbatim>\<open>launchForm.ts\<close>, \<^verbatim>\<open>upload/metadata.ts\<close>, thresholds of \<^verbatim>\<open>config.ts\<close>).

  \<^bold>\<open>Modelling conventions.\<close> A function that throws returns \<^theory_text>\<open>'a result\<close>; every throw of the source is an \<open>Inl\<close>
  branch, in the code's order. Bigints are \<^typ>\<open>int\<close>, with truncating division and the RangeError on a zero
  divisor; where the code checks a width, the check is in the definition. A \<open>number\<close> is NaN, an infinity or a
  rational. Bytes are \<^typ>\<open>8 word\<close> lists. Interfaces are records of fields, an account that may be absent is an
  option. Asynchronous code that reads once is a function of a snapshot of the node; where it acts and reads
  again (\<^verbatim>\<open>Crank\<close>, \<^verbatim>\<open>Sender\<close>, \<^verbatim>\<open>FundRun\<close>, \<^verbatim>\<open>ChartHistory\<close>), a world is threaded through, and concurrent
  workers are an inductive relation of their interleavings.

  \<^bold>\<open>What the lemmas show.\<close>

  \<^item> Trades: a quoted trade conserves both tokens with its fees; every rounding is against the trader, so no round
    trip makes a profit and the reserves cover the exact value of the curve after any sequence of quoted swaps, on
    both venues; slippage limits are exact. An accepted config can be completed, at a price where exactly the
    threshold has been paid.
  \<^item> Floor: over any sequence of redemptions the floor per token never falls and nobody receives more than the share.
  \<^item> Launches: which inputs build, that what builds passes both validators, and that the pool of a composed launch
    starts in the invariant of the trade engine. Rejections are validation errors, never crashes.
  \<^item> Chain data: decoders invert the layout of the program's structs; the launch of a base mint cannot be taken over by
    accounts that others create; builders follow the IDL account by account; a trimmed IDL keeps what is reachable.
  \<^item> Running: a crank run is bounded and safe; a send submits at most once; a flow's state agrees with what was run;
    the send guards open on exactly the documented switches; repeated funding runs pay exactly the targets.
  \<^item> Web actions: nothing is handed to the wallet or to Jupiter where the cluster guard refuses; a trade keeps to the
    quote it showed; retries of a launch confirm no transaction twice; a rejected prompt stops a crank. A first buy
    whose confirmation was lost is sent again (\<open>unconfirmed_first_buy_is_sent_again\<close>). A Jupiter swap signs and submits
    one order; a shown balance can be typed back; a form without errors passes the composer's checks.
  \<^item> Web: events are those the asked pools emitted; the refreshed history does not depend on the order of the
    fetches; candles are chained and complete; request limits hold over any period; the chart service is sound over
    interleaved requests, though overlapping ones hold more than \<open>maxPools\<close> (\<open>overlapping_builds_exceed_pools\<close>).

  \<^bold>\<open>Bounds and fuel.\<close> Loops of the code that terminate are recursions with a measure or over the list they
  consume: the Newton iteration of \<open>isqrt\<close>, the walks along a curve (at most the length of the curve), the extension walk of a
  mint, the worklist of \<open>trimIdl\<close>. The maintenance loop of \<open>runCrank\<close> counts down the code's own
  \<open>maxActions\<close>, and the polling loops of \<open>fund.ts\<close> their own number of tries. No fuel is added that the code does
  not have.

  \<^bold>\<open>Parameters.\<close> Code outside the repository is an argument: the RPC node and web3.js (\<open>chain_reader\<close>,
  \<open>connection\<close>, \<open>web3_lib\<close>), the Solana libraries (\<open>solana_lib\<close>, which derive addresses), Anchor's coders,
  the URL parser and HTTP client of the guard, the swap providers and the operator's answers in \<open>fund_env\<close>, the
  wallet, the probe of the cluster and Jupiter's swap in \<open>web_env\<close>, Jupiter's server in \<open>jupiter_env\<close>, the rounding of
  \<open>decimal.js\<close>, the clock, and the rounding \<open>fl\<close> of a double. The first guess of the start price, which \<^verbatim>\<open>presets.ts\<close> computes in
  floating point, is the argument \<open>guess\<close>.

  \<^bold>\<open>Not modelled.\<close> Figures that are floating point for display only (previews in USD, percentages, the simulated
  floor view); the texts of messages where no code reads them; the cache of cluster probes, file and environment
  access (\<^verbatim>\<open>node/index.ts\<close>), React components, API routes and styling, wallet glue, the demo data of the chart; of the operator scripts
  the command line, printing, reports and the providers they talk to. These parts format, fetch or display what the
  modelled parts compute; their behaviour is that of a browser, a file system or a remote service.
\<close>

end
